(* ===== verification/Prelude.thy ===== *)
theory Prelude
  imports Complex_Main "HOL-Library.Code_Target_Numeral" "HOL-Library.List_Lexorder" "HOL-Library.Product_Lexorder"
begin

text \<open>
  The shared base of the development: Python strings as lists of code points, with the
  string methods the program uses; truthiness of optional values; and tables, the lists of
  records that stand for the rows of one SQL table.

  A Python \<^verbatim>\<open>str\<close> is a sequence of Unicode code points, so \<open>pystr\<close> is a list of natural
  numbers: \<open>length\<close> counts what Python's \<^verbatim>\<open>len\<close> counts; \<open>bytes\<close> is a list of numbers below 256. ASCII literals of the source are
  written \<open>u ''...''\<close>.
\<close>

section \<open>Python strings\<close>

type_synonym pystr = "nat list"
type_synonym bytes = "nat list"
type_synonym uuid = nat
type_synonym time = int

definition u :: "string \<Rightarrow> pystr" where
  "u s = map of_char s"

lemma u_eq_iff [simp]: "u a = u b \<longleftrightarrow> a = b"
  unfolding u_def by (rule inj_map_eq_map) (simp add: inj_on_def)

lemma u_eq_Nil_iff [simp]: "u a = [] \<longleftrightarrow> a = []" "[] = u a \<longleftrightarrow> a = []"
  by (auto simp: u_def)

lemma length_u [simp]: "length (u a) = length a"
  by (simp add: u_def)

text \<open>\<^verbatim>\<open>str.isspace\<close> on one code point: the white space that \<^verbatim>\<open>str.strip()\<close> removes.\<close>

definition is_space :: "nat \<Rightarrow> bool" where
  "is_space c \<longleftrightarrow> 9 \<le> c \<and> c \<le> 13 \<or> 28 \<le> c \<and> c \<le> 32 \<or> c = 133 \<or> c = 160 \<or> c = 5760
     \<or> 8192 \<le> c \<and> c \<le> 8202 \<or> c = 8232 \<or> c = 8233 \<or> c = 8239 \<or> c = 8287 \<or> c = 12288"

definition lstrip :: "pystr \<Rightarrow> pystr" where
  "lstrip s = dropWhile is_space s"

definition rstrip :: "pystr \<Rightarrow> pystr" where
  "rstrip s = rev (dropWhile is_space (rev s))"

definition strip :: "pystr \<Rightarrow> pystr" where
  "strip s = rstrip (lstrip s)"

text \<open>\<^verbatim>\<open>s[a:b]\<close> for non-negative bounds.\<close>

definition slice :: "'a list \<Rightarrow> nat \<Rightarrow> nat \<Rightarrow> 'a list" where
  "slice s a b = take (b - a) (drop a s)"

text \<open>\<^verbatim>\<open>s.rfind(c)\<close> of a single character: its last index, or -1.\<close>

definition rfind :: "nat \<Rightarrow> pystr \<Rightarrow> int" where
  "rfind c s = (let js = filter (\<lambda>j. s ! j = c) [0..<length s]
     in if js = [] then -1 else int (last js))"

text \<open>
  \<^verbatim>\<open>str.lower()\<close> as far as a comparison with an ASCII literal can see it: the capital letters
  and the Kelvin sign, the only code points whose lower case is one ASCII letter.
\<close>

definition lower_char :: "nat \<Rightarrow> nat" where
  "lower_char c = (if 65 \<le> c \<and> c \<le> 90 then c + 32 else if c = 8490 then 107 else c)"

definition ascii_lower :: "pystr \<Rightarrow> pystr" where
  "ascii_lower s = map lower_char s"

text \<open>\<^verbatim>\<open>x or y\<close> on an optional string: the empty string and \<^verbatim>\<open>None\<close> are both false.\<close>

definition str_or :: "pystr option \<Rightarrow> pystr \<Rightarrow> pystr" where
  "str_or x y = (case x of None \<Rightarrow> y | Some s \<Rightarrow> if s = [] then y else s)"

abbreviation text_of :: "pystr option \<Rightarrow> pystr" where
  "text_of x \<equiv> str_or x []"

text \<open>\<^verbatim>\<open>" ".join(...)\<close>.\<close>

fun join :: "pystr \<Rightarrow> pystr list \<Rightarrow> pystr" where
  "join sep [] = []"
| "join sep [x] = x"
| "join sep (x # xs) = x @ sep @ join sep xs"

subsection \<open>Facts about strings\<close>

named_theorems str_simps \<open>evaluation of the string methods\<close>

lemma str_or_simps [simp]:
  "str_or None y = y"
  "str_or (Some []) y = y"
  "s \<noteq> [] \<Longrightarrow> str_or (Some s) y = s"
  by (simp_all add: str_or_def)

lemma str_or_Nil [simp]: "str_or x [] = (case x of None \<Rightarrow> [] | Some s \<Rightarrow> s)"
  by (auto simp: str_or_def split: option.splits)

lemma length_slice [simp]: "length (slice s a b) = min (b - a) (length s - a)"
  by (simp add: slice_def)

lemma slice_nth [simp]: "i < b - a \<Longrightarrow> a + i < length s \<Longrightarrow> slice s a b ! i = s ! (a + i)"
  by (simp add: slice_def)

lemma slice_take: "slice s 0 b = take b s"
  by (simp add: slice_def)

lemma slice_slice: "b + d \<le> c \<Longrightarrow> slice (slice s a (a + c)) b (b + d) = slice s (a + b) (a + b + d)"
  by (simp add: slice_def drop_take add.commute)

text \<open>
  \<open>strip\<close> cuts a run of white space from either end: it is a slice of its argument, it keeps
  every character that is not white space, and its result starts and ends with none.
\<close>

lemma dropWhile_slice: "dropWhile P s = drop (length (takeWhile P s)) s"
  by (rule dropWhile_eq_drop)

lemma takeWhile_len_nth: "i < length s \<Longrightarrow> \<not> P (s ! i) \<Longrightarrow> length (takeWhile P s) \<le> i"
  by (metis linorder_not_less nth_mem set_takeWhileD takeWhile_nth)

lemma rstrip_take: "\<exists>k \<le> length s. rstrip s = take k s \<and> (\<forall>i < length s. \<not> is_space (s ! i) \<longrightarrow> i < k)"
proof -
  let ?t = "length (takeWhile is_space (rev s))"
  have le: "?t \<le> length s" using length_takeWhile_le [of is_space "rev s"] by simp
  have eq: "rstrip s = take (length s - ?t) s"
    by (simp add: rstrip_def dropWhile_slice rev_drop)
  have "i < length s - ?t" if i: "i < length s" "\<not> is_space (s ! i)" for i
  proof -
    have "rev s ! (length s - 1 - i) = s ! i" using i by (simp add: rev_nth)
    then have "?t \<le> length s - 1 - i"
      using i takeWhile_len_nth [of "length s - 1 - i" "rev s" is_space] by simp
    then show ?thesis using i by simp
  qed
  then show ?thesis using eq le by (intro exI [of _ "length s - ?t"]) auto
qed

lemma strip_span:
  "\<exists>a k. a + k \<le> length s \<and> strip s = slice s a (a + k)
     \<and> (\<forall>i < length s. \<not> is_space (s ! i) \<longrightarrow> a \<le> i \<and> i < a + k)"
proof -
  define a where "a = length (takeWhile is_space s)"
  have l: "lstrip s = drop a s" by (simp add: lstrip_def dropWhile_slice a_def)
  have a: "a \<le> length s" by (simp add: a_def length_takeWhile_le)
  obtain k where k: "k \<le> length (drop a s)" "rstrip (drop a s) = take k (drop a s)"
    "\<forall>i < length (drop a s). \<not> is_space (drop a s ! i) \<longrightarrow> i < k"
    using rstrip_take [of "drop a s"] by blast
  have "a \<le> i \<and> i < a + k" if i: "i < length s" "\<not> is_space (s ! i)" for i
  proof -
    have "a \<le> i" using takeWhile_len_nth [of i s is_space] i by (simp add: a_def)
    moreover then have "i - a < k" using k(3) [rule_format, of "i - a"] i a by simp
    ultimately show ?thesis by simp
  qed
  moreover have "strip s = slice s a (a + k)" by (simp add: strip_def l k(2) slice_def)
  ultimately show ?thesis using k(1) a by (intro exI [of _ a] exI [of _ k]) auto
qed

lemma strip_Nil [simp]: "strip [] = []"
  by (simp add: strip_def lstrip_def rstrip_def)

lemma length_strip: "length (strip s) \<le> length s"
proof -
  obtain a k where "a + k \<le> length s" "strip s = slice s a (a + k)" using strip_span by blast
  then show ?thesis by simp
qed

lemma strip_eq_Nil_iff: "strip s = [] \<longleftrightarrow> (\<forall>c \<in> set s. is_space c)"
  by (auto simp: strip_def lstrip_def rstrip_def dropWhile_eq_Nil_conv dest: set_dropWhileD)
     (metis dropWhile_eq_Nil_conv hd_dropWhile list.set_sel(1))+

lemma set_strip: "set (strip s) \<subseteq> set s"
  by (auto simp: strip_def lstrip_def rstrip_def dest!: set_dropWhileD)

lemma lstrip_hd: "lstrip s \<noteq> [] \<Longrightarrow> \<not> is_space (hd (lstrip s))"
  by (simp add: lstrip_def hd_dropWhile)

lemma rstrip_last: "rstrip s \<noteq> [] \<Longrightarrow> \<not> is_space (last (rstrip s))"
  by (simp add: rstrip_def last_rev hd_dropWhile)

lemma rstrip_hd: "rstrip s \<noteq> [] \<Longrightarrow> hd (rstrip s) = hd s"
  using rstrip_take [of s] by (metis hd_take take_eq_Nil zero_less_iff_neq_zero)

lemma strip_hd: "strip s \<noteq> [] \<Longrightarrow> \<not> is_space (hd (strip s))"
  by (metis lstrip_hd rstrip_hd rstrip_def strip_def dropWhile.simps(1) rev.simps(1))

lemma strip_last: "strip s \<noteq> [] \<Longrightarrow> \<not> is_space (last (strip s))"
  by (simp add: strip_def rstrip_last)

lemma dropWhile_fixed: "xs = [] \<or> \<not> P (hd xs) \<Longrightarrow> dropWhile P xs = xs"
  by (cases xs) auto

lemma strip_fixed: "s = [] \<or> \<not> is_space (hd s) \<and> \<not> is_space (last s) \<Longrightarrow> strip s = s"
  by (auto simp: strip_def lstrip_def rstrip_def hd_rev dropWhile_fixed)

lemma strip_strip [simp]: "strip (strip s) = strip s"
  using strip_fixed strip_hd strip_last by blast

lemma lower_strip: "ascii_lower (strip s) = strip (ascii_lower s)"
proof -
  have "is_space \<circ> lower_char = is_space" by (auto simp: fun_eq_iff is_space_def lower_char_def)
  then have "dropWhile is_space (map lower_char t) = map lower_char (dropWhile is_space t)" for t by (simp add: dropWhile_map)
  then show ?thesis by (simp add: ascii_lower_def strip_def lstrip_def rstrip_def rev_map)
qed

lemma rfind_less: "rfind c s < int (length s) \<or> s = []"
proof -
  have "last js < length s" if "js = filter (\<lambda>j. s ! j = c) [0..<length s]" "js \<noteq> []" for js
    using last_in_set [OF that(2)] that(1) by auto
  then show ?thesis by (auto simp: rfind_def Let_def)
qed

section \<open>Tables\<close>

text \<open>
  A table is the list of its rows in insertion order. \<open>get_row\<close> is \<^verbatim>\<open>session.get\<close>, the lookup by
  primary key; \<open>upd_row\<close> writes attributes of the row with a given key, as assigning to a
  loaded object and flushing does; \<open>where\<close> queries are \<open>filter\<close>s. A query with
  \<^verbatim>\<open>ORDER BY\<close> is \<open>sort_key\<close>, which is stable: rows the source leaves unordered come in
  insertion order.
\<close>

definition get_row :: "('r \<Rightarrow> uuid) \<Rightarrow> uuid \<Rightarrow> 'r list \<Rightarrow> 'r option" where
  "get_row key i rows = find (\<lambda>r. key r = i) rows"

definition upd_row :: "('r \<Rightarrow> uuid) \<Rightarrow> uuid \<Rightarrow> ('r \<Rightarrow> 'r) \<Rightarrow> 'r list \<Rightarrow> 'r list" where
  "upd_row key i f rows = map (\<lambda>r. if key r = i then f r else r) rows"

lemma insort_key_map: "insort_key k (f x) (map f xs) = map f (insort_key (k \<circ> f) x xs)"
  by (induction xs) auto

lemma sort_key_map: "sort_key k (map f xs) = map f (sort_key (k \<circ> f) xs)"
  by (induction xs) (simp_all add: insort_key_map o_def)

lemma sum_pred_list: "\<forall>k \<in> set ks. 0 < n k \<Longrightarrow> (\<Sum>k\<leftarrow>ks. n k - (1::nat)) + length ks = (\<Sum>k\<leftarrow>ks. n k)"
  by (induction ks) auto

lemma in_tlD: "d \<in> set (tl xs) \<Longrightarrow> d \<in> set xs \<and> 1 < length xs"
  by (cases xs) (auto dest: length_pos_if_in_set)

lemma map_of_functional:
  "(\<And>r r'. (i, r) \<in> set l \<Longrightarrow> (i, r') \<in> set l \<Longrightarrow> r = r') \<Longrightarrow> (i, r) \<in> set l \<Longrightarrow> map_of l i = Some r"
  by (metis map_of_SomeD weak_map_of_SomeI)

lemma get_row_SomeD: "get_row key i rows = Some r \<Longrightarrow> r \<in> set rows \<and> key r = i"
  unfolding get_row_def by (auto simp: find_Some_iff)

lemma get_row_None_iff: "get_row key i rows = None \<longleftrightarrow> i \<notin> key ` set rows"
  unfolding get_row_def by (auto simp: find_None_iff)

lemma get_row_distinct:
  "distinct (map key rows) \<Longrightarrow> r \<in> set rows \<Longrightarrow> get_row key (key r) rows = Some r"
  by (induction rows) (auto simp: get_row_def)

lemma get_row_append:
  "get_row key i (xs @ ys) = (case get_row key i xs of None \<Rightarrow> get_row key i ys | Some r \<Rightarrow> Some r)"
  by (induction xs) (simp_all add: get_row_def)

lemma get_upd_row:
  assumes "\<And>r. key (f r) = key r"
  shows "get_row key j (upd_row key i f rows)
       = (if i = j then map_option f (get_row key j rows) else get_row key j rows)"
  by (induction rows) (auto simp: get_row_def upd_row_def assms)

lemma length_upd_row [simp]: "length (upd_row key i f rows) = length rows"
  by (simp add: upd_row_def)

lemma keys_upd_row: "(\<And>r. key (f r) = key r) \<Longrightarrow> map key (upd_row key i f rows) = map key rows"
  by (simp add: upd_row_def)

lemma map_upd_row_cong: "(\<And>r. g (f r) = g r) \<Longrightarrow> map g (upd_row key i f rows) = map g rows"
  by (simp add: upd_row_def)

lemma upd_row_absent: "i \<notin> key ` set rows \<Longrightarrow> upd_row key i f rows = rows"
  unfolding upd_row_def by (rule map_idI) auto

lemma set_upd_row: "r \<in> set (upd_row key i f rows) \<Longrightarrow>
    r \<in> set rows \<and> key r \<noteq> i \<or> (\<exists>r0 \<in> set rows. key r0 = i \<and> r = f r0)"
  by (auto simp: upd_row_def split: if_splits)

lemma upd_row_other: "r \<in> set rows \<Longrightarrow> key r \<noteq> i \<Longrightarrow> r \<in> set (upd_row key i f rows)"
  unfolding upd_row_def by force

section \<open>The first element of every key\<close>

text \<open>The loops that skip an element whose key they have seen; \<open>seen\<close> is the set they start with.\<close>

fun keep_first :: "('a \<Rightarrow> 'k) \<Rightarrow> 'k list \<Rightarrow> 'a list \<Rightarrow> 'a list" where
  "keep_first k seen [] = []"
| "keep_first k seen (x # xs) =
     (if k x \<in> set seen then keep_first k seen xs else x # keep_first k (k x # seen) xs)"

lemma keep_first_set: "x \<in> set (keep_first k seen xs) \<Longrightarrow> x \<in> set xs \<and> k x \<notin> set seen"
  by (induction k seen xs rule: keep_first.induct) (auto split: if_splits)

lemma keep_first_distinct: "distinct (map k (keep_first k seen xs))"
proof (induction k seen xs rule: keep_first.induct)
  case (2 k seen x xs)
  have "k x \<notin> k ` set (keep_first k (k x # seen) xs)"
    using keep_first_set [of _ k "k x # seen" xs] by fastforce
  then show ?case using 2 by simp
qed simp

lemma keep_first_covers: "x \<in> set xs \<Longrightarrow> k x \<notin> set seen \<Longrightarrow> k x \<in> k ` set (keep_first k seen xs)"
  by (induction k seen xs rule: keep_first.induct) auto

lemma keep_first_keys: "k ` set (keep_first k [] xs) = k ` set xs"
  using keep_first_covers [of _ xs k "[]"] keep_first_set by fastforce

lemma length_keep_first: "length (keep_first k [] xs) = card (k ` set xs)"
  using distinct_card [OF keep_first_distinct, of k "[]" xs] by (simp add: keep_first_keys)

text \<open>In a sorted list the element kept for a key is a smallest one.\<close>

lemma sorted_keep_first: "sorted (map f xs) \<Longrightarrow> sorted (map f (keep_first k seen xs))"
  by (induction k seen xs rule: keep_first.induct) (auto dest!: keep_first_set)

lemma keep_first_least:
  assumes "sorted (map f xs)" "x \<in> set xs" "k x \<notin> set seen"
  shows "\<exists>y \<in> set (keep_first k seen xs). k y = k x \<and> f y \<le> f x"
  using assms
proof (induction k seen xs rule: keep_first.induct)
  case (2 k seen z xs)
  show ?case
  proof (cases "k z = k x")
    case True
    then show ?thesis using 2 by auto
  next
    case False
    then show ?thesis using 2 by auto
  qed
qed simp

end
