(* ===== verification/Domain.thy ===== *)
theory Domain
  imports Prelude
begin

text \<open>
  The closed vocabularies of the program (\<^verbatim>\<open>app/domain/enums.py\<close>, \<^verbatim>\<open>pr_signals.py\<close>,
  \<^verbatim>\<open>pr_workspace.py\<close>, \<^verbatim>\<open>research_units.py\<close>): one datatype per \<^verbatim>\<open>StrEnum\<close>, its string values,
  and the total functions the program builds over them: parsing of a raw PR label, the entity
  type a PR label is stored under, and the label shown for a stored entity.
\<close>

section \<open>Enumerations\<close>

datatype source_status = SP_IDLE | SP_PENDING | SP_PROCESSING | SP_COMPLETED | SP_FAILED

fun source_status_value :: "source_status \<Rightarrow> pystr" where
  "source_status_value SP_IDLE = u ''idle''"
| "source_status_value SP_PENDING = u ''pending''"
| "source_status_value SP_PROCESSING = u ''processing''"
| "source_status_value SP_COMPLETED = u ''completed''"
| "source_status_value SP_FAILED = u ''failed''"

datatype source_type = ST_UPLOAD | ST_URL | ST_API | ST_MANUAL | ST_IMPORT | ST_OTHER

fun source_type_value :: "source_type \<Rightarrow> pystr" where
  "source_type_value ST_UPLOAD = u ''upload''"
| "source_type_value ST_URL = u ''url''"
| "source_type_value ST_API = u ''api''"
| "source_type_value ST_MANUAL = u ''manual''"
| "source_type_value ST_IMPORT = u ''import''"
| "source_type_value ST_OTHER = u ''other''"

datatype job_status = JS_PENDING | JS_QUEUED | JS_RUNNING | JS_COMPLETED | JS_FAILED | JS_CANCELLED

datatype audio_status =
    AP_UPLOADED | AP_SPLITTING | AP_TRANSCRIBING | AP_MERGING | AP_READY | AP_FAILED

fun audio_status_value :: "audio_status \<Rightarrow> pystr" where
  "audio_status_value AP_UPLOADED = u ''uploaded''"
| "audio_status_value AP_SPLITTING = u ''splitting''"
| "audio_status_value AP_TRANSCRIBING = u ''transcribing''"
| "audio_status_value AP_MERGING = u ''merging''"
| "audio_status_value AP_READY = u ''ready''"
| "audio_status_value AP_FAILED = u ''failed''"

datatype segment_status = AS_PENDING | AS_PROCESSING | AS_DONE | AS_FAILED

datatype entity_type =
    PROBLEM | PAIN_POINT | USER_NEED | BEHAVIOR_PATTERN | TRUST_ISSUE | ADOPTION_BARRIER | RISK
  | HYPOTHESIS | RECOMMENDATION | OPPORTUNITY | OPEN_QUESTION | SUPPORTING_FACT | SENTIMENT_SIGNAL
  | PERSON | ORGANIZATION | LOCATION | DATE | TOPIC | CLAIM | METRIC | REFERENCE | CUSTOM

fun entity_type_value :: "entity_type \<Rightarrow> pystr" where
  "entity_type_value PROBLEM = u ''problem''"
| "entity_type_value PAIN_POINT = u ''pain_point''"
| "entity_type_value USER_NEED = u ''user_need''"
| "entity_type_value BEHAVIOR_PATTERN = u ''behavior_pattern''"
| "entity_type_value TRUST_ISSUE = u ''trust_issue''"
| "entity_type_value ADOPTION_BARRIER = u ''adoption_barrier''"
| "entity_type_value RISK = u ''risk''"
| "entity_type_value HYPOTHESIS = u ''hypothesis''"
| "entity_type_value RECOMMENDATION = u ''recommendation''"
| "entity_type_value OPPORTUNITY = u ''opportunity''"
| "entity_type_value OPEN_QUESTION = u ''open_question''"
| "entity_type_value SUPPORTING_FACT = u ''supporting_fact''"
| "entity_type_value SENTIMENT_SIGNAL = u ''sentiment_signal''"
| "entity_type_value PERSON = u ''person''"
| "entity_type_value ORGANIZATION = u ''organization''"
| "entity_type_value LOCATION = u ''location''"
| "entity_type_value DATE = u ''date''"
| "entity_type_value TOPIC = u ''topic''"
| "entity_type_value CLAIM = u ''claim''"
| "entity_type_value METRIC = u ''metric''"
| "entity_type_value REFERENCE = u ''reference''"
| "entity_type_value CUSTOM = u ''custom''"

text \<open>
  The string value identifies the member, so ordering by \<^verbatim>\<open>entity_type.value\<close> is a linear order
  on the enumeration: the order the program's sort keys use.
\<close>

lemma entity_type_value_inj: "entity_type_value a = entity_type_value b \<Longrightarrow> a = b"
  by (cases a; cases b; simp)

lemma entity_type_value_eq_iff [simp]: "entity_type_value a = entity_type_value b \<longleftrightarrow> a = b"
  using entity_type_value_inj by blast

instantiation entity_type :: linorder
begin

definition less_eq_entity_type :: "entity_type \<Rightarrow> entity_type \<Rightarrow> bool" where
  "less_eq_entity_type a b \<longleftrightarrow> entity_type_value a \<le> entity_type_value b"

definition less_entity_type :: "entity_type \<Rightarrow> entity_type \<Rightarrow> bool" where
  "less_entity_type a b \<longleftrightarrow> entity_type_value a < entity_type_value b"

instance
  by intro_classes (auto simp: less_eq_entity_type_def less_entity_type_def less_le)

end

definition PR_SYNTHESIS_ENTITY_TYPES :: "entity_type list" where
  "PR_SYNTHESIS_ENTITY_TYPES = [PROBLEM, PAIN_POINT, USER_NEED, BEHAVIOR_PATTERN, TRUST_ISSUE,
     ADOPTION_BARRIER, RISK, HYPOTHESIS, OPEN_QUESTION, SENTIMENT_SIGNAL]"

definition DEFAULT_LIST_EXCLUDED_ENTITY_TYPES :: "entity_type list" where
  "DEFAULT_LIST_EXCLUDED_ENTITY_TYPES = [SUPPORTING_FACT]"

definition PRIMARY_RESEARCH_ENTITY_TYPES :: "entity_type list" where
  "PRIMARY_RESEARCH_ENTITY_TYPES = [PROBLEM, PAIN_POINT, USER_NEED, BEHAVIOR_PATTERN, TRUST_ISSUE,
     ADOPTION_BARRIER, RISK, HYPOTHESIS, RECOMMENDATION, OPPORTUNITY, OPEN_QUESTION,
     SUPPORTING_FACT, SENTIMENT_SIGNAL]"

definition LEGACY_ENTITY_TYPES :: "entity_type list" where
  "LEGACY_ENTITY_TYPES = [PERSON, ORGANIZATION, LOCATION, DATE, TOPIC, CLAIM, METRIC, REFERENCE,
     CUSTOM]"

section \<open>PR signals\<close>

datatype pr_signal = RISK_SIGNAL | TRUST_DRIVER | OBJECTION | REPUTATION_THREAT
  | MESSAGE_RESONANCE | PROOF_POINT | CHANNEL_PREFERENCE

fun pr_signal_value :: "pr_signal \<Rightarrow> pystr" where
  "pr_signal_value RISK_SIGNAL = u ''risk_signal''"
| "pr_signal_value TRUST_DRIVER = u ''trust_driver''"
| "pr_signal_value OBJECTION = u ''objection''"
| "pr_signal_value REPUTATION_THREAT = u ''reputation_threat''"
| "pr_signal_value MESSAGE_RESONANCE = u ''message_resonance''"
| "pr_signal_value PROOF_POINT = u ''proof_point''"
| "pr_signal_value CHANNEL_PREFERENCE = u ''channel_preference''"

text \<open>The members in declaration order, as iterating the class gives them.\<close>

definition PRSignalTaxonomy :: "pr_signal list" where
  "PRSignalTaxonomy = [RISK_SIGNAL, TRUST_DRIVER, OBJECTION, REPUTATION_THREAT,
     MESSAGE_RESONANCE, PROOF_POINT, CHANNEL_PREFERENCE]"

definition PR_SIGNAL_VALUES :: "pystr list" where
  "PR_SIGNAL_VALUES = sort (map pr_signal_value PRSignalTaxonomy)"

fun PR_SIGNAL_TO_ENTITY_TYPE :: "pr_signal \<Rightarrow> entity_type" where
  "PR_SIGNAL_TO_ENTITY_TYPE RISK_SIGNAL = RISK"
| "PR_SIGNAL_TO_ENTITY_TYPE TRUST_DRIVER = TRUST_ISSUE"
| "PR_SIGNAL_TO_ENTITY_TYPE OBJECTION = ADOPTION_BARRIER"
| "PR_SIGNAL_TO_ENTITY_TYPE REPUTATION_THREAT = RISK"
| "PR_SIGNAL_TO_ENTITY_TYPE MESSAGE_RESONANCE = BEHAVIOR_PATTERN"
| "PR_SIGNAL_TO_ENTITY_TYPE PROOF_POINT = SUPPORTING_FACT"
| "PR_SIGNAL_TO_ENTITY_TYPE CHANNEL_PREFERENCE = USER_NEED"

definition replace_char :: "nat \<Rightarrow> nat \<Rightarrow> pystr \<Rightarrow> pystr" where
  "replace_char a b s = map (\<lambda>c. if c = a then b else c) s"

text \<open>
  \<^verbatim>\<open>PRSignalTaxonomy(s)\<close> looks the value up and raises \<^verbatim>\<open>ValueError\<close> when there is none;
  \<open>coerce_pr_signal\<close> turns that into \<open>None\<close>.
\<close>

definition coerce_pr_signal :: "pystr \<Rightarrow> pr_signal option" where
  "coerce_pr_signal raw =
     (let s = replace_char 45 95 (replace_char 32 95 (ascii_lower (strip raw)))
      in find (\<lambda>p. pr_signal_value p = s) PRSignalTaxonomy)"

fun ENTITY_TYPE_FALLBACK_PR :: "entity_type \<Rightarrow> pr_signal option" where
  "ENTITY_TYPE_FALLBACK_PR PROBLEM = Some RISK_SIGNAL"
| "ENTITY_TYPE_FALLBACK_PR PAIN_POINT = Some RISK_SIGNAL"
| "ENTITY_TYPE_FALLBACK_PR RISK = Some RISK_SIGNAL"
| "ENTITY_TYPE_FALLBACK_PR TRUST_ISSUE = Some TRUST_DRIVER"
| "ENTITY_TYPE_FALLBACK_PR ADOPTION_BARRIER = Some OBJECTION"
| "ENTITY_TYPE_FALLBACK_PR USER_NEED = Some CHANNEL_PREFERENCE"
| "ENTITY_TYPE_FALLBACK_PR BEHAVIOR_PATTERN = Some MESSAGE_RESONANCE"
| "ENTITY_TYPE_FALLBACK_PR SUPPORTING_FACT = Some PROOF_POINT"
| "ENTITY_TYPE_FALLBACK_PR SENTIMENT_SIGNAL = Some RISK_SIGNAL"
| "ENTITY_TYPE_FALLBACK_PR HYPOTHESIS = Some MESSAGE_RESONANCE"
| "ENTITY_TYPE_FALLBACK_PR RECOMMENDATION = Some MESSAGE_RESONANCE"
| "ENTITY_TYPE_FALLBACK_PR OPPORTUNITY = Some MESSAGE_RESONANCE"
| "ENTITY_TYPE_FALLBACK_PR OPEN_QUESTION = Some OBJECTION"
| "ENTITY_TYPE_FALLBACK_PR _ = None"

text \<open>
  \<open>tags_json\<close> is read at one key only: \<open>pr_signal\<close> is its value there as a string, if the
  key is present and its value is true in Python's sense.
\<close>

definition taxonomy_label_for_entity :: "entity_type \<Rightarrow> pystr option \<Rightarrow> pystr" where
  "taxonomy_label_for_entity et tag =
     (let raw = strip (text_of tag) in
      case coerce_pr_signal raw of
        Some pr \<Rightarrow> pr_signal_value pr
      | None \<Rightarrow> (case ENTITY_TYPE_FALLBACK_PR et of
            Some fb \<Rightarrow> pr_signal_value fb
          | None \<Rightarrow> pr_signal_value PROOF_POINT))"

subsection \<open>Facts\<close>

lemma pr_signal_value_eq_iff [simp]: "pr_signal_value a = pr_signal_value b \<longleftrightarrow> a = b"
  by (cases a; cases b; simp)

lemma find_eq_self [simp]: "find (\<lambda>p. p = q) xs = (if q \<in> set xs then Some q else None)"
  by (induction xs) auto

lemma in_PRSignalTaxonomy [simp]: "p \<in> set PRSignalTaxonomy"
  by (cases p) (simp_all add: PRSignalTaxonomy_def)

lemma lower_char_facts:
  "is_space c \<Longrightarrow> lower_char c = c"
  by (auto simp: is_space_def lower_char_def)

lemma find_pr_signal: "find (\<lambda>p. pr_signal_value p = pr_signal_value q) PRSignalTaxonomy = Some q"
  by (simp add: find_eq_self)

text \<open>The printed value parses back, also in capitals, with blanks or dashes and padded.\<close>

definition pr_plain :: "nat \<Rightarrow> bool" where
  "pr_plain c \<longleftrightarrow> 97 \<le> c \<and> c \<le> 122 \<or> c = 95"

lemma pr_plain_not_space: "pr_plain c \<Longrightarrow> is_space c \<Longrightarrow> False"
  by (auto simp: pr_plain_def is_space_def)

lemma pr_plain_values: "c \<in> set (pr_signal_value p) \<Longrightarrow> pr_plain c"
  by (cases p) (auto simp: pr_plain_def u_def)

lemma pr_signal_value_nonempty [simp]: "pr_signal_value p \<noteq> []"
  by (cases p) simp_all

lemma plain_str_fixed:
  assumes "\<forall>c \<in> set s. pr_plain c"
  shows "replace_char 45 95 (replace_char 32 95 (ascii_lower (strip s))) = s"
proof -
  have "strip s = s"
    using assms by (intro strip_fixed) (auto intro: pr_plain_not_space)
  then show ?thesis
    using assms by (auto simp: replace_char_def ascii_lower_def lower_char_def pr_plain_def intro!: map_idI)
qed

lemma coerce_pr_signal_value [simp]: "coerce_pr_signal (pr_signal_value p) = Some p"
  unfolding coerce_pr_signal_def Let_def
  by (subst plain_str_fixed) (auto dest: pr_plain_values)

lemma coerce_pr_signal_SomeD:
  "coerce_pr_signal raw = Some p \<Longrightarrow>
     pr_signal_value p = replace_char 45 95 (replace_char 32 95 (ascii_lower (strip raw)))"
  by (auto simp: coerce_pr_signal_def Let_def find_Some_iff)

lemma coerce_pr_signal_strip [simp]: "coerce_pr_signal (strip raw) = coerce_pr_signal raw"
  by (simp add: coerce_pr_signal_def)

lemma taxonomy_label_in_taxonomy: "taxonomy_label_for_entity et tag \<in> pr_signal_value ` set PRSignalTaxonomy"
  by (auto simp: taxonomy_label_for_entity_def Let_def simp del: pr_signal_value.simps
      split: option.splits)

section \<open>Language codes\<close>

text \<open>\<^verbatim>\<open>app/domain/research_languages.py\<close>: upload hints and report output.\<close>

definition LANGS :: "pystr list" where
  "LANGS = [u ''uz'', u ''ru'', u ''en'']"

definition normalize_transcription_language :: "pystr option \<Rightarrow> pystr option" where
  "normalize_transcription_language raw =
     (let v = ascii_lower (strip (str_or raw [])) in if v \<in> set LANGS then Some v else None)"

definition normalize_output_language :: "pystr option \<Rightarrow> pystr \<Rightarrow> pystr" where
  "normalize_output_language raw dflt =
     (let v = ascii_lower (strip (str_or raw [])) in if v \<in> set LANGS then v else dflt)"

definition parse_transcription_language_form :: "pystr option \<Rightarrow> pystr option" where
  "parse_transcription_language_form value =
     (let v = ascii_lower (strip (str_or value [])) in
      if v \<in> set (u ''auto'' # LANGS) then normalize_transcription_language value else None)"

fun resolve_language_loop :: "pystr option list \<Rightarrow> pystr option \<times> pystr" where
  "resolve_language_loop [] = (None, u ''auto'')"
| "resolve_language_loop (raw # raws) =
     (let v = ascii_lower (strip (str_or raw [])) in
      if v = u ''auto'' then (None, u ''auto'')
      else if v \<in> set LANGS then (Some v, v) else resolve_language_loop raws)"

definition resolve_transcription_upload :: "pystr option \<Rightarrow> pystr option \<Rightarrow> pystr option \<times> pystr" where
  "resolve_transcription_upload transcription_language language =
     resolve_language_loop [transcription_language, language]"

text \<open>
  Labels survive being written and read back: the value of a signal, in any letter case, with
  spaces or hyphens for underscores and with surrounding white space, is read as that signal, and a
  stored tag with that value is the label of its entity, whatever the entity's type.
\<close>

theorem pr_signal_roundtrip:
  "coerce_pr_signal (pr_signal_value p) = Some p
   \<and> (\<forall>raw. replace_char 45 95 (replace_char 32 95 (ascii_lower (strip raw))) = pr_signal_value p
        \<longleftrightarrow> coerce_pr_signal raw = Some p)
   \<and> taxonomy_label_for_entity et (Some (pr_signal_value p)) = pr_signal_value p"
proof (intro conjI allI iffI)
  fix raw
  show "coerce_pr_signal raw = Some p" if "replace_char 45 95 (replace_char 32 95 (ascii_lower (strip raw))) = pr_signal_value p"
    using that find_pr_signal by (simp add: coerce_pr_signal_def)
  show "replace_char 45 95 (replace_char 32 95 (ascii_lower (strip raw))) = pr_signal_value p" if "coerce_pr_signal raw = Some p"
    using that by (auto simp: coerce_pr_signal_def find_Some_iff)
qed (simp_all add: taxonomy_label_for_entity_def)

end
