(* ===== verification/Floats.thy ===== *)
theory Floats
  imports Prelude "HOL-Library.Log_Nat"
begin

text \<open>
  Python floats. A finite float is the rational number it denotes, and every operation of the
  source rounds its exact result to the nearest IEEE binary64 value, ties to even: \<open>fl\<close>.
  \<open>py_round x k\<close> is \<^verbatim>\<open>round(x, k)\<close>: the exact value is rounded half-even to \<open>k\<close> decimals, then to
  the nearest float; \<open>py_trunc\<close> is \<^verbatim>\<open>int(x)\<close>. The numbers of the program are ratios of counts and
  constants, far from overflow and from subnormal values, which \<open>fl\<close> does not treat.
\<close>

section \<open>Rounding\<close>

definition rne :: "rat \<Rightarrow> int" where
  "rne x = (let f = \<lfloor>x\<rfloor>; d = x - of_int f in
     if d < 1 / 2 then f else if d > 1 / 2 then f + 1 else if even f then f else f + 1)"

definition pow2 :: "int \<Rightarrow> rat" where
  "pow2 e = (if 0 \<le> e then 2 ^ nat e else 1 / 2 ^ nat (- e))"

text \<open>The exponent of a positive rational: \<open>2 ^ e \<le> x < 2 ^ (e + 1)\<close>, off the bit lengths.\<close>

definition float_exp :: "rat \<Rightarrow> int" where
  "float_exp x = (let (p, q) = quotient_of x; e = bitlen p - bitlen q
     in if pow2 e \<le> x then e else e - 1)"

definition fl :: "rat \<Rightarrow> rat" where
  "fl x = (if x = 0 then 0
     else if 0 < x then (let s = pow2 (float_exp x - 52) in of_int (rne (x / s)) * s)
     else (let s = pow2 (float_exp (- x) - 52) in - (of_int (rne (- x / s)) * s)))"

definition py_round :: "rat \<Rightarrow> nat \<Rightarrow> rat" where
  "py_round x k = fl (of_int (rne (x * 10 ^ k)) / 10 ^ k)"

definition py_trunc :: "rat \<Rightarrow> int" where
  "py_trunc x = (if 0 \<le> x then \<lfloor>x\<rfloor> else - \<lfloor>- x\<rfloor>)"

section \<open>Bounds\<close>

lemma rne_cases: "rne x = \<lfloor>x\<rfloor> \<or> rne x = \<lfloor>x\<rfloor> + 1 \<and> of_int \<lfloor>x\<rfloor> < x"
  by (auto simp: rne_def Let_def)

lemma rne_of_int [simp]: "rne (of_int n) = n"
  by (simp add: rne_def)

lemma rne_mono: "x \<le> y \<Longrightarrow> rne x \<le> rne y"
proof -
  assume le: "x \<le> y"
  then have f: "\<lfloor>x\<rfloor> \<le> \<lfloor>y\<rfloor>" by (rule floor_mono)
  show ?thesis
  proof (cases "\<lfloor>x\<rfloor> = \<lfloor>y\<rfloor>")
    case True
    then show ?thesis using le by (auto simp: rne_def Let_def)
  next
    case False
    then have "\<lfloor>x\<rfloor> + 1 \<le> \<lfloor>y\<rfloor>" using f by simp
    then show ?thesis using rne_cases [of x] rne_cases [of y] by auto
  qed
qed

lemma rne_le: "x \<le> of_int n \<Longrightarrow> rne x \<le> n"
  using rne_mono [of x "of_int n"] by simp

lemma rne_ge: "of_int n \<le> x \<Longrightarrow> n \<le> rne x"
  using rne_mono [of "of_int n" x] by simp

lemma pow2_pos [simp]: "0 < pow2 e"
  by (simp add: pow2_def)

lemma pow2_nonzero [simp]: "pow2 e \<noteq> 0"
  by (rule not_sym, rule less_imp_neq) simp

lemma pow2_add1: "pow2 (e + 1) = 2 * pow2 e"
proof (cases "0 \<le> e")
  case True
  then show ?thesis by (simp add: pow2_def nat_add_distrib)
next
  case False
  then have "nat (- e) = Suc (nat (- (e + 1)))" by simp
  then show ?thesis using False by (cases "e = -1") (auto simp: pow2_def)
qed

lemma pow2_add: "pow2 (e + int k) = pow2 e * 2 ^ k"
proof (induction k)
  case (Suc k)
  have "pow2 (e + int (Suc k)) = pow2 ((e + int k) + 1)" by (simp add: add.commute add.left_commute)
  then show ?case using Suc by (simp only: pow2_add1) simp
qed simp

lemma pow2_mono: "a \<le> b \<Longrightarrow> pow2 a \<le> pow2 b"
proof -
  assume "a \<le> b"
  then obtain k where "b = a + int k" using zle_iff_zadd [of a b] by blast
  then show ?thesis by (simp add: pow2_add)
qed

lemma pow2_diff: "pow2 (int a - int b) = 2 ^ a / 2 ^ b"
proof -
  have "pow2 (int a - int b) * 2 ^ b = pow2 (int a)"
    using pow2_add [of "int a - int b" b] by simp
  then show ?thesis by (simp add: pow2_def field_simps)
qed

lemma float_exp_bounds:
  assumes "0 < x"
  shows "pow2 (float_exp x) \<le> x \<and> x < pow2 (float_exp x + 1)"
proof -
  obtain p q where pq: "quotient_of x = (p, q)" by (cases "quotient_of x")
  have x: "x = of_int p / of_int q" and q: "0 < q"
    using quotient_of_div [OF pq] quotient_of_denom_pos [OF pq] by auto
  have p: "0 < p" using assms x q by (simp add: zero_less_divide_iff)
  define a b where "a = nat (bitlen p)" and "b = nat (bitlen q)"
  have "0 < bitlen p" "0 < bitlen q"
    using p q bitlen_eq_zero_iff bitlen_nonneg by (metis linorder_not_less order_le_less)+
  then have ab: "bitlen p = int a" "bitlen q = int b" "0 < a" "0 < b"
    by (auto simp: a_def b_def)
  have bp: "2 ^ (a - 1) \<le> p \<and> p < 2 ^ a" and bq: "2 ^ (b - 1) \<le> q \<and> q < 2 ^ b"
    using bitlen_bounds [OF p] bitlen_bounds [OF q] ab by (simp_all add: nat_diff_distrib)
  have P: "(2::rat) ^ (a - 1) \<le> of_int p" "of_int p < (2::rat) ^ a"
    and Q: "(2::rat) ^ (b - 1) \<le> of_int q" "of_int q < (2::rat) ^ b"
    using bp bq by simp_all
  have half: "0 < k \<Longrightarrow> (2::rat) ^ k = 2 * 2 ^ (k - 1)" for k by (cases k) simp_all
  have sa: "(2::rat) ^ a = 2 * 2 ^ (a - 1)" "(2::rat) ^ b = 2 * 2 ^ (b - 1)"
    using ab half by blast+
  have qp: "(0::rat) < of_int q" using q by simp
  have up: "x < pow2 (int a - int b + 1)"
  proof -
    have "of_int p * 2 ^ b < 2 * 2 ^ a * (of_int q::rat)"
    proof -
      have "of_int p * 2 ^ b < 2 ^ a * (2 ^ b::rat)" using P by simp
      also have "\<dots> \<le> 2 ^ a * (2 * of_int q)" using Q sa by simp
      finally show ?thesis by (simp add: mult_ac)
    qed
    then show ?thesis using qp unfolding x pow2_add1 pow2_diff by (simp add: field_simps)
  qed
  have lo: "pow2 (int a - int b - 1) \<le> x"
  proof -
    have "2 ^ a * of_int q \<le> 2 * of_int p * (2 ^ b::rat)"
    proof -
      have "2 ^ a * of_int q \<le> (2 * of_int p) * (of_int q::rat)" using P sa qp by simp
      also have "\<dots> \<le> (2 * of_int p) * 2 ^ b" using Q P p by (intro mult_left_mono) auto
      finally show ?thesis .
    qed
    then have "2 ^ a / 2 ^ b \<le> 2 * x" using qp by (simp add: x field_simps)
    moreover have "2 * pow2 (int a - int b - 1) = 2 ^ a / 2 ^ b"
      using pow2_add1 [of "int a - int b - 1"] pow2_diff [of a b] by simp
    ultimately show ?thesis by linarith
  qed
  show ?thesis using up lo by (auto simp: float_exp_def pq ab Let_def)
qed

text \<open>
  Rounding to a float respects every bound that is itself on the grid of the argument: an
  integer below \<open>2 ^ 52\<close> in particular.
\<close>

lemma fl_le_grid:
  assumes "0 < x" "x \<le> of_int n * pow2 (float_exp x - 52)"
  shows "fl x \<le> of_int n * pow2 (float_exp x - 52)"
proof -
  have "x / pow2 (float_exp x - 52) \<le> of_int n" using assms by (simp add: field_simps)
  then have "rne (x / pow2 (float_exp x - 52)) \<le> n" by (rule rne_le)
  then show ?thesis using assms by (simp add: fl_def Let_def)
qed

lemma fl_ge_grid:
  assumes "0 < x" "of_int n * pow2 (float_exp x - 52) \<le> x"
  shows "of_int n * pow2 (float_exp x - 52) \<le> fl x"
proof -
  have "of_int n \<le> x / pow2 (float_exp x - 52)" using assms by (simp add: field_simps)
  then have "n \<le> rne (x / pow2 (float_exp x - 52))" by (rule rne_ge)
  then show ?thesis using assms by (simp add: fl_def Let_def)
qed

lemma fl_nonneg: "0 \<le> x \<Longrightarrow> 0 \<le> fl x"
  using fl_ge_grid [of x 0] by (cases "x = 0") (auto simp: fl_def)

lemma fl_zero [simp]: "fl 0 = 0"
  by (simp add: fl_def)

lemma int_on_grid:
  assumes "0 < x" "x < 2 ^ 52"
  shows "\<exists>m. of_int n = of_int m * pow2 (float_exp x - 52)"
proof -
  have "pow2 (float_exp x) < pow2 52"
    using float_exp_bounds [OF assms(1)] assms(2) by (simp add: pow2_def)
  then have "float_exp x < 52" using pow2_mono [of 52 "float_exp x"] by (meson linorder_not_less)
  then obtain k where k: "52 - float_exp x = int k" by (metis less_imp_le diff_ge_0_iff_ge zero_le_imp_eq_int)
  have "pow2 (float_exp x - 52) * 2 ^ k = pow2 0"
    using pow2_add [of "float_exp x - 52" k] unfolding k [symmetric] by simp
  then have "of_int n = of_int (n * 2 ^ k) * pow2 (float_exp x - 52)"
    by (simp add: pow2_def mult.commute mult.left_commute)
  then show ?thesis by blast
qed

lemma fl_le_int: "0 \<le> x \<Longrightarrow> x < 2 ^ 52 \<Longrightarrow> x \<le> of_int n \<Longrightarrow> fl x \<le> of_int n"
  using int_on_grid [of x n] fl_le_grid [of x] by (cases "x = 0") (auto simp: fl_def)

lemma fl_ge_int: "0 \<le> x \<Longrightarrow> x < 2 ^ 52 \<Longrightarrow> of_int n \<le> x \<Longrightarrow> of_int n \<le> fl x"
  using int_on_grid [of x n] fl_ge_grid [of x] by (cases "x = 0") (auto simp: fl_def)

lemma fl_of_int: "0 \<le> n \<Longrightarrow> of_int n < (2::rat) ^ 52 \<Longrightarrow> fl (of_int n) = of_int n"
  by (intro antisym fl_le_int fl_ge_int) auto

lemma fl_0_1: "0 \<le> x \<Longrightarrow> x \<le> 1 \<Longrightarrow> 0 \<le> fl x \<and> fl x \<le> 1"
  using fl_nonneg [of x] fl_le_int [of x 1] by simp

lemma py_round_nonneg: "0 \<le> x \<Longrightarrow> 0 \<le> py_round x k"
  unfolding py_round_def by (intro fl_nonneg divide_nonneg_pos) (auto intro: rne_ge)

lemma py_round_le_int:
  assumes "0 \<le> x" "x \<le> of_int n" "of_int n < (2::rat) ^ 52"
  shows "py_round x k \<le> of_int n"
proof -
  have "x * 10 ^ k \<le> of_int (n * 10 ^ k)" using assms by simp
  then have "rne (x * 10 ^ k) \<le> n * 10 ^ k" by (rule rne_le)
  then have "(of_int (rne (x * 10 ^ k)) :: rat) \<le> of_int (n * 10 ^ k)" by (simp only: of_int_le_iff)
  then have r: "of_int (rne (x * 10 ^ k)) / 10 ^ k \<le> (of_int n :: rat)" by (simp add: field_simps)
  moreover have "0 \<le> rne (x * 10 ^ k)" using assms by (intro rne_ge) simp
  then have "0 \<le> of_int (rne (x * 10 ^ k)) / (10 ^ k :: rat)" by simp
  ultimately show ?thesis unfolding py_round_def using assms by (intro fl_le_int) auto
qed

lemma py_trunc_bounds: "0 \<le> x \<Longrightarrow> x < of_int n + 1 \<Longrightarrow> 0 \<le> py_trunc x \<and> py_trunc x \<le> n"
  by (auto simp: py_trunc_def floor_le_iff)

text \<open>The relative error of one rounding is at most \<open>2 ^ -53\<close>.\<close>

lemma rne_error: "\<bar>of_int (rne x) - x\<bar> \<le> 1 / 2"
proof -
  have "of_int \<lfloor>x\<rfloor> \<le> x" "x < of_int \<lfloor>x\<rfloor> + 1" by linarith+
  then show ?thesis
    unfolding rne_def Let_def by (simp split: if_split)
qed

lemma rne_near: "\<bar>x - of_int n\<bar> < 1 / 2 \<Longrightarrow> rne x = n"
proof -
  assume "\<bar>x - of_int n\<bar> < 1 / 2"
  then have "\<bar>of_int (rne x) - of_int n\<bar> < (1::rat)" using rne_error [of x] by linarith
  then show "rne x = n" by linarith
qed

lemma fl_error:
  assumes "0 \<le> x"
  shows "\<bar>fl x - x\<bar> \<le> x / 2 ^ 53"
proof (cases "x = 0")
  case False
  then have x: "0 < x" using assms by simp
  let ?s = "pow2 (float_exp x - 52)"
  have "fl x - x = (of_int (rne (x / ?s)) - x / ?s) * ?s"
    using x pow2_pos [of "float_exp x - 52"] by (simp add: fl_def Let_def left_diff_distrib less_imp_neq)
  then have "\<bar>fl x - x\<bar> = \<bar>of_int (rne (x / ?s)) - x / ?s\<bar> * ?s"
    by (simp add: abs_mult abs_of_pos)
  also have "\<dots> \<le> 1 / 2 * ?s" by (intro mult_right_mono rne_error) (simp add: less_imp_le)
  finally have "\<bar>fl x - x\<bar> \<le> ?s / 2" by simp
  moreover have "?s * 2 ^ 52 \<le> x"
    using float_exp_bounds [OF x] pow2_add [of "float_exp x - 52" 52] by simp
  ultimately show ?thesis by simp
qed simp

text \<open>A number of tenths survives conversion to a float and back.\<close>

lemma tenth_roundtrip:
  assumes "0 \<le> k" "k \<le> 100" "\<bar>y - of_int k / 10\<bar> \<le> 1 / 100"
  shows "rne (y * 10) = k"
  using assms(3) by (intro rne_near) linarith

lemma tenth_sum:
  fixes z l t q :: rat
  assumes "\<bar>z - (l + t)\<bar> \<le> 1 / 1000" "\<bar>l - q / 10\<bar> \<le> 1 / 1000" "\<bar>t - 1 / 10\<bar> \<le> 1 / 1000"
  shows "\<bar>z - (q + 1) / 10\<bar> \<le> 1 / 100"
proof -
  have "(q + 1) / 10 = q / 10 + 1 / 10" by (rule add_divide_distrib)
  then show ?thesis using assms unfolding abs_le_iff by linarith
qed

lemma fl_tenth:
  assumes "0 \<le> k" "k \<le> 100"
  shows "\<bar>fl (of_int k / 10) - of_int k / 10\<bar> \<le> 1 / 1000"
proof -
  have "\<bar>fl (of_int k / 10) - of_int k / 10\<bar> \<le> of_int k / 10 / 2 ^ 53"
    using assms by (intro fl_error) simp
  also have "\<dots> \<le> 1 / 1000" using assms by simp
  finally show ?thesis .
qed

end
