(* ===== verification/Store.thy ===== *)
theory Store
  imports Domain Floats
begin

text \<open>
  The state the workers share: the tables of the database (\<^verbatim>\<open>app/models\<close>), the Redis locks, the
  messages accepted by the Celery broker, the upload directory, and the clock. One record per ORM class, with the
  columns the pipeline reads or writes; a table is the list of its rows (\<open>Prelude\<close>).

  A task is a function from the world to an outcome and a new world. \<open>Inl e\<close> is an exception
  \<open>e\<close> that leaves the task. \<open>session_scope\<close> is \<^verbatim>\<open>sync_session_scope\<close>: an exception
  inside it rolls every table back, while messages sent, locks taken and files written stay.
\<close>

section \<open>Rows\<close>

text \<open>
  A stored id string is kept as what \<^verbatim>\<open>UUID(str(x))\<close> makes of it: an id, or a string it rejects.
\<close>

datatype raw_id = Raw_id uuid | Bad_id pystr

fun parse_uuid :: "raw_id \<Rightarrow> uuid option" where
  "parse_uuid (Raw_id i) = Some i"
| "parse_uuid (Bad_id s) = None"

fun raw_true :: "raw_id option \<Rightarrow> bool" where
  "raw_true None = False"
| "raw_true (Some (Raw_id i)) = True"
| "raw_true (Some (Bad_id s)) = (s \<noteq> [])"

text \<open>The \<^verbatim>\<open>_batch_analysis\<close> object of \<^verbatim>\<open>metadata_json\<close>; \<open>md_rest\<close> holds the other keys.\<close>

record batch_analysis =
  ba_batch_id :: "raw_id option"
  ba_row_id :: "raw_id option"
  ba_multi :: "bool option"

record metadata =
  md_batch_analysis :: "batch_analysis option"
  md_rest :: "(pystr \<times> pystr) list"

record extraction_state =
  ex_status :: pystr
  ex_reason :: "pystr option"
  ex_entities_created :: int
  ex_chunk_count :: "int option"

text \<open>\<^verbatim>\<open>updated_at\<close> is an ISO string; \<open>Bad_stamp\<close> is one \<^verbatim>\<open>datetime.fromisoformat\<close> rejects.\<close>

datatype stamp = Stamp time | Bad_stamp

record pipeline_state =
  pl_phase :: "pystr option"
  pl_progress :: "int option"
  pl_updated_at :: "stamp option"
  pl_extraction :: "extraction_state option"
  pl_last_error :: "(pystr \<times> pystr) option"

definition empty_pipeline :: pipeline_state where
  "empty_pipeline = \<lparr>pl_phase = None, pl_progress = None, pl_updated_at = None,
     pl_extraction = None, pl_last_error = None\<rparr>"

record source_document =
  doc_id :: uuid
  doc_project_id :: uuid
  doc_filename :: pystr
  doc_original_path :: "pystr option"
  doc_mime_type :: "pystr option"
  doc_source_type :: source_type
  doc_raw_text :: "pystr option"
  doc_pipeline :: pipeline_state
  doc_status :: source_status
  doc_sort_order :: int
  doc_started_at :: "time option"
  doc_completed_at :: "time option"
  doc_last_error :: "pystr option"
  doc_metadata :: metadata
  doc_created_at :: time

record source_audio =
  aud_id :: uuid
  aud_project_id :: uuid
  aud_filename :: pystr
  aud_original_path :: "pystr option"
  aud_mime_type :: "pystr option"
  aud_duration_ms :: "int option"
  aud_language :: "pystr option"
  aud_pipeline_status :: audio_status
  aud_pipeline_error :: "pystr option"
  aud_file_bytes :: "int option"
  aud_status :: source_status
  aud_sort_order :: int
  aud_started_at :: "time option"
  aud_completed_at :: "time option"
  aud_last_error :: "pystr option"
  aud_metadata :: metadata
  aud_created_at :: time

record batch_source =
  row_id :: uuid
  row_batch_id :: uuid
  row_document_id :: "uuid option"
  row_audio_id :: "uuid option"
  row_status :: source_status
  row_sort_order :: int
  row_last_error :: "pystr option"
  row_started_at :: "time option"
  row_completed_at :: "time option"
  row_created_at :: time

record research_batch =
  bt_id :: uuid
  bt_project_id :: uuid
  bt_name :: pystr
  bt_description :: "pystr option"
  bt_language :: "pystr option"
  bt_multi :: bool
  bt_created_at :: time

record transcript =
  tr_id :: uuid
  tr_audio_id :: uuid
  tr_full_text :: pystr
  tr_language :: "pystr option"
  tr_status :: job_status
  tr_provider :: "pystr option"
  tr_created_at :: time

text \<open>Times of transcript segments are in seconds, IEEE doubles kept as rationals.\<close>

record transcript_segment =
  ts_transcript_id :: uuid
  ts_start :: rat
  ts_end :: rat
  ts_text :: pystr

record audio_segment =
  sg_id :: uuid
  sg_audio_id :: uuid
  sg_index :: nat
  sg_start_ms :: int
  sg_end_ms :: int
  sg_path :: pystr
  sg_status :: segment_status
  sg_text :: "pystr option"
  sg_error :: "pystr option"
  sg_provider :: "pystr option"

record text_chunk =
  ch_id :: uuid
  ch_project_id :: uuid
  ch_document_id :: "uuid option"
  ch_audio_id :: "uuid option"
  ch_transcript_id :: "uuid option"
  ch_index :: nat
  ch_text :: pystr
  ch_strategy :: pystr

text \<open>
  A proposed entity, and the stored one. \<^verbatim>\<open>tags_json\<close> is the list of its items, a value being a
  string or \<^verbatim>\<open>None\<close>; of \<^verbatim>\<open>evidence_json\<close> the pipeline reads the quote and the span.
\<close>

record candidate =
  cd_type :: entity_type
  cd_title :: pystr
  cd_content :: pystr
  cd_score :: rat
  cd_tags :: "(pystr \<times> pystr option) list"
  cd_quote :: pystr
  cd_span :: "int \<times> int"

definition pr_signal_tag :: "candidate \<Rightarrow> pystr option" where
  "pr_signal_tag c = (case map_of (cd_tags c) (u ''pr_signal'') of Some v \<Rightarrow> v | None \<Rightarrow> None)"

record extracted_entity =
  en_id :: uuid
  en_project_id :: uuid
  en_document_id :: "uuid option"
  en_audio_id :: "uuid option"
  en_transcript_id :: "uuid option"
  en_chunk_id :: uuid
  en_candidate :: candidate
  en_canonical :: "uuid option"
  en_created_at :: time

record interview_unit =
  iu_project_id :: uuid
  iu_document_id :: uuid
  iu_index :: nat
  iu_split_method :: pystr
  iu_raw_text :: pystr

abbreviation en_type :: "extracted_entity \<Rightarrow> entity_type" where
  "en_type e \<equiv> cd_type (en_candidate e)"

abbreviation en_title :: "extracted_entity \<Rightarrow> pystr" where
  "en_title e \<equiv> cd_title (en_candidate e)"

abbreviation en_content :: "extracted_entity \<Rightarrow> pystr" where
  "en_content e \<equiv> cd_content (en_candidate e)"

section \<open>Settings and environment\<close>

text \<open>The settings the modelled code reads, by the names of \<^verbatim>\<open>app/infrastructure/settings.py\<close>.\<close>

record settings =
  project_queue_enabled :: bool
  project_queue_concurrency :: nat
  chunk_max_chars :: int
  chunk_overlap_chars :: int
  document_pipeline_active_ttl_seconds :: int
  pr_report_min_synthesis_entities :: nat
  research_extraction_provider :: pystr
  research_transcription_provider :: pystr
  transcription_max_segment_bytes :: int
  gemini_fast_path_max_duration :: rat
  openai_api_key :: "pystr option"
  upload_max_bytes :: int
  upload_max_files :: nat

section \<open>Messages and locks\<close>

datatype task =
    Process_batch_queue uuid
  | Process_project_queue uuid
  | Pipeline_document uuid
  | Transcribe_full uuid
  | Split_audio uuid
  | Transcribe_segment uuid
  | Extract_transcript uuid
  | Chunk_document uuid pystr
  | Extract_document uuid
  | Aggregate_project uuid
  | Generate_summary uuid
  | Prepare_report uuid
  | Generate_batch_report uuid uuid "pystr option"

text \<open>A message is a task with its countdown in seconds, if one was asked for.\<close>

type_synonym message = "task \<times> nat option"

text \<open>
  The broker is not part of the program: \<open>broker t = Some e\<close> says that sending task \<open>t\<close> raises
  an exception printed as \<open>e\<close>, \<open>None\<close> that it is accepted.
\<close>

type_synonym broker = "task \<Rightarrow> pystr option"

text \<open>
  What surrounds the program: the broker, Unicode normalisation to NFC and case folding to lower
  case (the Unicode tables are data of the Python runtime, not code of the program), settings.
\<close>

record env =
  broker :: broker
  nfc :: "pystr \<Rightarrow> pystr"
  lower :: "pystr \<Rightarrow> pystr"
  conf :: settings

text \<open>A lock key is the prefix of its queue and the id; the stored value is the holder's token.\<close>

type_synonym lock_key = "string \<times> uuid"

text \<open>
  How Redis answers one call: no client can be made, the command fails, or it is executed.
\<close>

datatype redis_conn = No_client | Command_fails | Redis_ok

text \<open>Floats of a decoded JSON text, and the text itself; an object is the list of its items.\<close>

datatype pyfloat = Finite rat | NaN | Plus_inf | Minus_inf

datatype json =
    JNull
  | JBool bool
  | JInt int
  | JFloat pyfloat
  | JStr pystr
  | JArr "json list"
  | JObj "(pystr \<times> json) list"

text \<open>
  A row of \<^verbatim>\<open>project_llm_cache\<close> or \<^verbatim>\<open>research_batch_llm_cache\<close>, and a public link of a project or a
  batch or a redirected token of a project.
\<close>

record cached_answer =
  ca_owner :: uuid
  ca_kind :: pystr
  ca_key :: pystr
  ca_payload :: json

record public_link =
  lk_owner :: uuid
  lk_token :: pystr

record world =
  documents :: "source_document list"
  audios :: "source_audio list"
  batch_sources :: "batch_source list"
  batches :: "research_batch list"
  transcripts :: "transcript list"
  transcript_segments :: "transcript_segment list"
  audio_segments :: "audio_segment list"
  chunks :: "text_chunk list"
  entities :: "extracted_entity list"
  units :: "interview_unit list"
  projects :: "uuid list"
  snapshots :: "uuid list"
  batch_llm_cache :: "cached_answer list"
  project_llm_cache :: "cached_answer list"
  project_links :: "public_link list"
  batch_links :: "public_link list"
  token_redirects :: "public_link list"
  next_id :: uuid
  clock :: time
  locks :: "lock_key \<Rightarrow> pystr option"
  files :: "pystr \<Rightarrow> bytes option"
  outbox :: "message list"

text \<open>
  An exception: a \<^verbatim>\<open>ValueError\<close> with its message, or any other one by what \<^verbatim>\<open>repr\<close> prints for it.
\<close>

datatype exc = Value_error pystr | Other_error pystr

fun repr_exc :: "exc \<Rightarrow> pystr" where
  "repr_exc (Value_error m) = u ''ValueError('' @ [39] @ m @ [39] @ u '')''"
| "repr_exc (Other_error r) = r"

type_synonym 'a outcome = "(exc + 'a) \<times> world"

definition rollback :: "world \<Rightarrow> world \<Rightarrow> world" where
  "rollback w0 w = w0\<lparr>locks := locks w, files := files w, outbox := outbox w\<rparr>"

definition session_scope :: "(world \<Rightarrow> 'a outcome) \<Rightarrow> world \<Rightarrow> 'a outcome" where
  "session_scope body w =
     (case body w of (Inl e, w') \<Rightarrow> (Inl e, rollback w w') | (Inr x, w') \<Rightarrow> (Inr x, w'))"

text \<open>\<open>.delay\<close> and \<open>.apply_async\<close>.\<close>

definition send :: "env \<Rightarrow> task \<Rightarrow> nat option \<Rightarrow> world \<Rightarrow> unit outcome" where
  "send env t cd w =
     (case broker env t of Some e \<Rightarrow> (Inl (Other_error e), w) | None \<Rightarrow> (Inr (), w\<lparr>outbox := outbox w @ [(t, cd)]\<rparr>))"

definition and_then :: "'a outcome \<Rightarrow> ('a \<Rightarrow> world \<Rightarrow> 'b outcome) \<Rightarrow> 'b outcome" where
  "and_then r f = (case r of (Inl e, w) \<Rightarrow> (Inl e, w) | (Inr x, w) \<Rightarrow> f x w)"

section \<open>Lookups and writes\<close>

definition get_doc :: "world \<Rightarrow> uuid \<Rightarrow> source_document option" where
  "get_doc w i = get_row doc_id i (documents w)"

definition get_audio :: "world \<Rightarrow> uuid \<Rightarrow> source_audio option" where
  "get_audio w i = get_row aud_id i (audios w)"

definition get_source :: "world \<Rightarrow> uuid \<Rightarrow> batch_source option" where
  "get_source w i = get_row row_id i (batch_sources w)"

definition get_transcript :: "world \<Rightarrow> uuid \<Rightarrow> transcript option" where
  "get_transcript w i = get_row tr_id i (transcripts w)"

definition get_segment :: "world \<Rightarrow> uuid \<Rightarrow> audio_segment option" where
  "get_segment w i = get_row sg_id i (audio_segments w)"

definition get_batch :: "world \<Rightarrow> uuid \<Rightarrow> research_batch option" where
  "get_batch w i = get_row bt_id i (batches w)"

definition upd_doc :: "uuid \<Rightarrow> (source_document \<Rightarrow> source_document) \<Rightarrow> world \<Rightarrow> world" where
  "upd_doc i f w = w\<lparr>documents := upd_row doc_id i f (documents w)\<rparr>"

definition upd_audio :: "uuid \<Rightarrow> (source_audio \<Rightarrow> source_audio) \<Rightarrow> world \<Rightarrow> world" where
  "upd_audio i f w = w\<lparr>audios := upd_row aud_id i f (audios w)\<rparr>"

definition upd_source :: "uuid \<Rightarrow> (batch_source \<Rightarrow> batch_source) \<Rightarrow> world \<Rightarrow> world" where
  "upd_source i f w = w\<lparr>batch_sources := upd_row row_id i f (batch_sources w)\<rparr>"

definition upd_segment :: "uuid \<Rightarrow> (audio_segment \<Rightarrow> audio_segment) \<Rightarrow> world \<Rightarrow> world" where
  "upd_segment i f w = w\<lparr>audio_segments := upd_row sg_id i f (audio_segments w)\<rparr>"

text \<open>\<^verbatim>\<open>LIMIT 1\<close> read by \<^verbatim>\<open>session.scalar\<close>.\<close>

definition first_row :: "'r list \<Rightarrow> 'r option" where
  "first_row rs = (case rs of [] \<Rightarrow> None | r # _ \<Rightarrow> Some r)"

named_theorems world_simps \<open>effect of the table writes on every field of the world\<close>

lemma upd_doc_sel [world_simps]:
  "documents (upd_doc i f w) = upd_row doc_id i f (documents w)"
  "audios (upd_doc i f w) = audios w"
  "batch_sources (upd_doc i f w) = batch_sources w"
  "outbox (upd_doc i f w) = outbox w" "locks (upd_doc i f w) = locks w"
  "clock (upd_doc i f w) = clock w" "audio_segments (upd_doc i f w) = audio_segments w"
  "transcripts (upd_doc i f w) = transcripts w" "chunks (upd_doc i f w) = chunks w"
  "entities (upd_doc i f w) = entities w" "projects (upd_doc i f w) = projects w"
  "batch_llm_cache (upd_doc i f w) = batch_llm_cache w"
  "project_llm_cache (upd_doc i f w) = project_llm_cache w" "batches (upd_doc i f w) = batches w"
  by (simp_all add: upd_doc_def)

lemma upd_audio_sel [world_simps]:
  "audios (upd_audio i f w) = upd_row aud_id i f (audios w)"
  "documents (upd_audio i f w) = documents w"
  "batch_sources (upd_audio i f w) = batch_sources w"
  "outbox (upd_audio i f w) = outbox w" "locks (upd_audio i f w) = locks w"
  "clock (upd_audio i f w) = clock w" "audio_segments (upd_audio i f w) = audio_segments w"
  "transcripts (upd_audio i f w) = transcripts w" "chunks (upd_audio i f w) = chunks w"
  "entities (upd_audio i f w) = entities w" "projects (upd_audio i f w) = projects w"
  "batch_llm_cache (upd_audio i f w) = batch_llm_cache w"
  "project_llm_cache (upd_audio i f w) = project_llm_cache w" "batches (upd_audio i f w) = batches w"
  by (simp_all add: upd_audio_def)

lemma upd_source_sel [world_simps]:
  "batch_sources (upd_source i f w) = upd_row row_id i f (batch_sources w)"
  "documents (upd_source i f w) = documents w" "audios (upd_source i f w) = audios w"
  "outbox (upd_source i f w) = outbox w" "locks (upd_source i f w) = locks w"
  "clock (upd_source i f w) = clock w" "audio_segments (upd_source i f w) = audio_segments w"
  "transcripts (upd_source i f w) = transcripts w" "chunks (upd_source i f w) = chunks w"
  "entities (upd_source i f w) = entities w" "projects (upd_source i f w) = projects w"
  "batch_llm_cache (upd_source i f w) = batch_llm_cache w"
  "project_llm_cache (upd_source i f w) = project_llm_cache w" "batches (upd_source i f w) = batches w"
  by (simp_all add: upd_source_def)

lemma upd_segment_sel [world_simps]:
  "audio_segments (upd_segment i f w) = upd_row sg_id i f (audio_segments w)"
  "documents (upd_segment i f w) = documents w" "audios (upd_segment i f w) = audios w"
  "batch_sources (upd_segment i f w) = batch_sources w"
  "outbox (upd_segment i f w) = outbox w" "locks (upd_segment i f w) = locks w"
  "clock (upd_segment i f w) = clock w" "transcripts (upd_segment i f w) = transcripts w"
  "chunks (upd_segment i f w) = chunks w" "entities (upd_segment i f w) = entities w"
  by (simp_all add: upd_segment_def)

lemma rollback_sel [simp]:
  "documents (rollback w0 w) = documents w0" "audios (rollback w0 w) = audios w0"
  "batch_sources (rollback w0 w) = batch_sources w0" "outbox (rollback w0 w) = outbox w"
  "locks (rollback w0 w) = locks w" "audio_segments (rollback w0 w) = audio_segments w0"
  "transcripts (rollback w0 w) = transcripts w0" "chunks (rollback w0 w) = chunks w0"
  "entities (rollback w0 w) = entities w0"
  by (simp_all add: rollback_def)

lemma first_row_SomeD: "first_row rs = Some r \<Longrightarrow> r \<in> set rs"
  by (cases rs) (auto simp: first_row_def)

lemma and_then_simps [simp]:
  "and_then (Inl e, w) f = (Inl e, w)" "and_then (Inr x, w) f = f x w"
  by (simp_all add: and_then_def)

lemma send_simps [simp]:
  "broker env t = None \<Longrightarrow> send env t cd w = (Inr (), w\<lparr>outbox := outbox w @ [(t, cd)]\<rparr>)"
  "broker env t = Some e \<Longrightarrow> send env t cd w = (Inl (Other_error e), w)"
  by (simp_all add: send_def)

section \<open>Concrete worlds for the witnesses\<close>

definition empty_world :: world where
  "empty_world = \<lparr>documents = [], audios = [], batch_sources = [], batches = [], transcripts = [],
     transcript_segments = [], audio_segments = [], chunks = [], entities = [], units = [],
     projects = [], snapshots = [], batch_llm_cache = [], project_llm_cache = [],
     project_links = [], batch_links = [], token_redirects = [], next_id = 1000,
     clock = 0, locks = (\<lambda>_. None), files = (\<lambda>_. None), outbox = []\<rparr>"

definition default_settings :: settings where
  "default_settings = \<lparr>project_queue_enabled = True, project_queue_concurrency = 1,
     chunk_max_chars = 500, chunk_overlap_chars = 80, document_pipeline_active_ttl_seconds = 900,
     pr_report_min_synthesis_entities = 3, research_extraction_provider = u ''gpt'',
     research_transcription_provider = u ''mock'', transcription_max_segment_bytes = 20971520,
     gemini_fast_path_max_duration = 3600, openai_api_key = None,
     upload_max_bytes = 104857600, upload_max_files = 50\<rparr>"

text \<open>Every message accepted; text that needs no normalisation beyond ASCII.\<close>

definition plain_env :: env where
  "plain_env = \<lparr>broker = (\<lambda>_. None), nfc = id, lower = ascii_lower, conf = default_settings\<rparr>"

lemma plain_env_sel [simp]:
  "broker plain_env t = None" "conf plain_env = default_settings" "nfc plain_env = id"
  "lower plain_env = ascii_lower" "project_queue_enabled default_settings"
  "project_queue_concurrency default_settings = 1"
  by (simp_all add: plain_env_def default_settings_def)

lemma empty_world_sel [simp]:
  "documents empty_world = []" "audios empty_world = []" "batch_sources empty_world = []"
  "entities empty_world = []" "locks empty_world k = None" "outbox empty_world = []"
  "clock empty_world = 0" "transcripts empty_world = []" "chunks empty_world = []"
  "audio_segments empty_world = []"
  by (simp_all add: empty_world_def)

definition plain_metadata :: metadata where
  "plain_metadata = \<lparr>md_batch_analysis = None, md_rest = []\<rparr>"

definition plain_document :: "uuid \<Rightarrow> uuid \<Rightarrow> pystr \<Rightarrow> source_document" where
  "plain_document i pid tx = \<lparr>doc_id = i, doc_project_id = pid, doc_filename = u ''notes.txt'',
     doc_original_path = None, doc_mime_type = None, doc_source_type = ST_UPLOAD,
     doc_raw_text = Some tx, doc_pipeline = empty_pipeline, doc_status = SP_PENDING,
     doc_sort_order = 0, doc_started_at = None, doc_completed_at = None, doc_last_error = None,
     doc_metadata = plain_metadata, doc_created_at = int i\<rparr>"

definition plain_audio :: "uuid \<Rightarrow> uuid \<Rightarrow> source_audio" where
  "plain_audio i pid = \<lparr>aud_id = i, aud_project_id = pid, aud_filename = u ''call.m4a'',
     aud_original_path = Some (u ''call.m4a''), aud_mime_type = None, aud_duration_ms = Some 60000,
     aud_language = None, aud_pipeline_status = AP_UPLOADED, aud_pipeline_error = None,
     aud_file_bytes = Some 1000, aud_status = SP_PENDING, aud_sort_order = 0, aud_started_at = None,
     aud_completed_at = None, aud_last_error = None, aud_metadata = plain_metadata,
     aud_created_at = int i\<rparr>"

definition plain_source :: "uuid \<Rightarrow> uuid \<Rightarrow> uuid option \<Rightarrow> uuid option \<Rightarrow> batch_source" where
  "plain_source i b d a = \<lparr>row_id = i, row_batch_id = b, row_document_id = d, row_audio_id = a,
     row_status = SP_PENDING, row_sort_order = int i, row_last_error = None, row_started_at = None,
     row_completed_at = None, row_created_at = int i\<rparr>"

definition plain_entity :: "uuid \<Rightarrow> uuid \<Rightarrow> entity_type \<Rightarrow> pystr \<Rightarrow> extracted_entity" where
  "plain_entity i pid et title = \<lparr>en_id = i, en_project_id = pid, en_document_id = Some 1,
     en_audio_id = None, en_transcript_id = None, en_chunk_id = 1,
     en_candidate = \<lparr>cd_type = et, cd_title = title, cd_content = title, cd_score = 1 / 2,
       cd_tags = [], cd_quote = title, cd_span = (0, 1)\<rparr>,
     en_canonical = None, en_created_at = int i\<rparr>"

end
