(* ===== verification/Aggregation.thy ===== *)
theory Aggregation
  imports Store "HOL-Library.Multiset"
begin

text \<open>
  Deduplication and aggregation (\<^verbatim>\<open>entity_deduplication.py\<close>,
  \<^verbatim>\<open>research_project_aggregation_service.py\<close>): entities of a project are grouped by a fingerprint
  of type, title and content, every entity of a group is linked to the earliest one, and the
  snapshot payload is computed from the entities that are not linked.
\<close>

section \<open>Grouping and counting\<close>

text \<open>\<^verbatim>\<open>groups[k].append(x)\<close> on a \<^verbatim>\<open>defaultdict(list)\<close>, which keeps its keys in insertion order.\<close>

fun group_add :: "'k \<Rightarrow> 'a \<Rightarrow> ('k \<times> 'a list) list \<Rightarrow> ('k \<times> 'a list) list" where
  "group_add k x [] = [(k, [x])]"
| "group_add k x ((k', xs) # gs) =
     (if k' = k then (k', xs @ [x]) # gs else (k', xs) # group_add k x gs)"

definition groups_of :: "('a \<Rightarrow> 'k) \<Rightarrow> 'a list \<Rightarrow> ('k \<times> 'a list) list" where
  "groups_of f xs = fold (\<lambda>x. group_add (f x) x) xs []"

text \<open>\<^verbatim>\<open>Counter\<close>: keys in order of first occurrence, with their counts.\<close>

definition counter :: "'k list \<Rightarrow> ('k \<times> nat) list" where
  "counter ks = map (\<lambda>(k, g). (k, length g)) (groups_of id ks)"

definition most_common :: "nat \<Rightarrow> ('k \<times> nat) list \<Rightarrow> ('k \<times> nat) list" where
  "most_common n c = take n (sort_key (\<lambda>(k, v). - int v) c)"

text \<open>Keys in order of first occurrence.\<close>

definition first_occ :: "'k list \<Rightarrow> 'k list" where
  "first_occ ks = rev (remdups (rev ks))"

lemma first_occ_snoc: "first_occ (ks @ [k]) = (if k \<in> set ks then first_occ ks else first_occ ks @ [k])"
  by (simp add: first_occ_def)

lemma set_first_occ [simp]: "set (first_occ ks) = set ks"
  by (simp add: first_occ_def)

lemma distinct_first_occ [simp]: "distinct (first_occ ks)"
  by (simp add: first_occ_def)

lemma group_add_map:
  assumes "distinct ks"
  shows "group_add k x (map (\<lambda>j. (j, g j)) ks) =
    map (\<lambda>j. (j, if j = k then g j @ [x] else g j)) ks @ (if k \<in> set ks then [] else [(k, [x])])"
  using assms by (induction ks) (auto intro: map_cong)

text \<open>The groups are the elements filtered by key, in the order the keys first occur.\<close>

lemma groups_of_eq: "groups_of f xs = map (\<lambda>k. (k, filter (\<lambda>x. f x = k) xs)) (first_occ (map f xs))"
proof (induction xs rule: rev_induct)
  case Nil
  then show ?case by (simp add: groups_of_def first_occ_def)
next
  case (snoc x xs)
  have "groups_of f (xs @ [x]) = group_add (f x) x (groups_of f xs)" by (simp add: groups_of_def)
  also have "\<dots> = map (\<lambda>j. (j, filter (\<lambda>y. f y = j) (xs @ [x]))) (first_occ (map f xs))
      @ (if f x \<in> f ` set xs then [] else [(f x, [x])])"
    by (subst snoc.IH, subst group_add_map) (auto intro!: map_cong)
  also have "\<dots> = map (\<lambda>j. (j, filter (\<lambda>y. f y = j) (xs @ [x]))) (first_occ (map f (xs @ [x])))"
    by (auto simp: first_occ_snoc image_iff filter_empty_conv)
  finally show ?case .
qed

lemma count_list_filter: "count_list ks k = length (filter (\<lambda>x. x = k) ks)"
  by (induction ks) auto

lemma counter_eq: "counter ks = map (\<lambda>k. (k, count_list ks k)) (first_occ ks)"
  by (simp add: counter_def groups_of_eq count_list_filter cong: map_cong)

lemma sum_count_first_occ:
  "(\<Sum>k\<leftarrow>first_occ (map f xs). length (filter (\<lambda>x. f x = k) xs)) = length xs"
proof -
  have "(\<Sum>k\<leftarrow>first_occ (map f xs). length (filter (\<lambda>x. f x = k) xs))
      = (\<Sum>k\<in>set (map f xs). count_list (map f xs) k)"
    by (simp add: sum_list_distinct_conv_sum_set count_list_filter filter_map o_def)
  also have "\<dots> = length (map f xs)" by (rule sum_count_set) auto
  finally show ?thesis by simp
qed

lemma counter_total: "sum_list (map snd (counter ks)) = length ks"
  using sum_count_first_occ [of id ks] by (simp add: counter_def groups_of_eq o_def)

section \<open>Fingerprints\<close>

text \<open>\<^verbatim>\<open>re.sub(r"\s+", " ", s)\<close>.\<close>

function squeeze :: "pystr \<Rightarrow> pystr" where
  "squeeze [] = []"
| "squeeze (c # s) = (if is_space c then 32 # squeeze (dropWhile is_space s) else c # squeeze s)"
  by pat_completeness auto
termination
  by (relation "measure length") (auto simp: le_imp_less_Suc length_dropWhile_le)

definition normalize_fingerprint_text :: "env \<Rightarrow> pystr \<Rightarrow> pystr" where
  "normalize_fingerprint_text env v = take 480 (strip (squeeze (lower env (nfc env v))))"

definition entity_fingerprint :: "env \<Rightarrow> entity_type \<Rightarrow> pystr \<Rightarrow> pystr \<Rightarrow> pystr" where
  "entity_fingerprint env et title content =
     (let nt = normalize_fingerprint_text env title;
          nc = normalize_fingerprint_text env (take 800 content)
      in entity_type_value et @ u ''|'' @ nt @ u ''|'' @ nc)"

definition fp_of :: "env \<Rightarrow> extracted_entity \<Rightarrow> pystr" where
  "fp_of env e = entity_fingerprint env (en_type e) (en_title e) (en_content e)"

section \<open>Deduplication\<close>

record dedup_stats =
  total_entities :: nat
  distinct_fingerprints :: nat
  clusters_merged :: nat
  duplicates_linked :: nat

definition project_entities :: "world \<Rightarrow> uuid \<Rightarrow> extracted_entity list" where
  "project_entities w pid =
     sort_key (\<lambda>e. (en_created_at e, en_id e)) (filter (\<lambda>e. en_project_id e = pid) (entities w))"

text \<open>The inner loop: each later member of a group is linked to its first member.\<close>

fun link_group :: "extracted_entity list \<Rightarrow> (uuid \<times> uuid) list" where
  "link_group [] = []"
| "link_group (rt # dups) = map (\<lambda>d. (en_id d, en_id rt)) dups"

definition deduplicate_project_entities_sync ::
    "env \<Rightarrow> uuid \<Rightarrow> world \<Rightarrow> dedup_stats \<times> world" where
  "deduplicate_project_entities_sync env pid w =
     (let es = project_entities w pid;
          groups = groups_of (fp_of env) es;
          big = filter (\<lambda>(k, g). 1 < length g) groups;
          links = concat (map (\<lambda>(k, g). link_group g) big)
      in (\<lparr>total_entities = length es, distinct_fingerprints = length groups,
           clusters_merged = length big, duplicates_linked = length links\<rparr>,
          w\<lparr>entities := map (\<lambda>e. if en_project_id e = pid
              then e\<lparr>en_canonical := map_of links (en_id e)\<rparr> else e) (entities w)\<rparr>))"

section \<open>The aggregation snapshot\<close>

text \<open>
  A bucket label \<^verbatim>\<open>f"{lo:.1f}-{hi:.1f}"\<close> is the pair of its two printed numbers, in tenths.
\<close>

definition confidence_bucket :: "rat \<Rightarrow> int \<times> int" where
  "confidence_bucket score =
     (let lo = fl (of_int (py_trunc (fl (score * 10))) / 10);
          hi = py_round (fl (lo + fl (1 / 10))) 1
      in (rne (lo * 10), rne (hi * 10)))"

text \<open>\<^verbatim>\<open>strftime("%Y-%m")\<close> of a UTC time given in seconds since the epoch, as year and month.\<close>

definition year_month :: "time \<Rightarrow> int \<times> int" where
  "year_month t =
     (let z = t div 86400 + 719468; era = z div 146097; doe = z mod 146097;
          yoe = (doe - doe div 1460 + doe div 36524 - doe div 146096) div 365;
          doy = doe - (365 * yoe + yoe div 4 - yoe div 100);
          mp = (5 * doy + 2) div 153;
          m = (if mp < 10 then mp + 3 else mp - 9)
      in (yoe + era * 400 + (if m \<le> 2 then 1 else 0), m))"

record insight =
  in_canonical :: uuid
  in_type :: pystr
  in_title :: pystr
  in_cluster_size :: nat
  in_members :: "uuid list"
  in_chunk :: uuid

record aggregation_payload =
  type_distribution :: "(pystr \<times> nat) list"
  tag_counts :: "(pystr \<times> nat) list"
  confidence_distribution :: "((int \<times> int) \<times> nat) list"
  top_recurring :: "insight list"
  time_buckets :: "((int \<times> int) \<times> nat) list"
  total_canonical :: nat
  total_stats :: dedup_stats

definition tag_key :: "pystr \<times> pystr option \<Rightarrow> pystr" where
  "tag_key kv = (case snd kv of Some v \<Rightarrow> fst kv @ u '':'' @ v | None \<Rightarrow> fst kv)"

definition cluster_members :: "world \<Rightarrow> uuid \<Rightarrow> uuid list" where
  "cluster_members w rt =
     map en_id (filter (\<lambda>e. en_id e = rt \<or> en_canonical e = Some rt) (entities w))"

definition insight_of :: "world \<Rightarrow> extracted_entity \<Rightarrow> insight" where
  "insight_of w rt = \<lparr>in_canonical = en_id rt, in_type = entity_type_value (en_type rt),
     in_title = en_title rt, in_cluster_size = length (cluster_members w (en_id rt)),
     in_members = cluster_members w (en_id rt), in_chunk = en_chunk_id rt\<rparr>"

definition canonical_entities :: "world \<Rightarrow> uuid \<Rightarrow> extracted_entity list" where
  "canonical_entities w pid =
     sort_key (\<lambda>e. (en_type e, en_title e, en_id e))
       (filter (\<lambda>e. en_project_id e = pid \<and> en_canonical e = None) (entities w))"

definition aggregate_project_sync :: "env \<Rightarrow> uuid \<Rightarrow> world \<Rightarrow> aggregation_payload \<times> world" where
  "aggregate_project_sync env pid w =
     (let (stats, w1) = deduplicate_project_entities_sync env pid w;
          cs = canonical_entities w1 pid;
          top = map (insight_of w1) (take 25 (sort_key (\<lambda>r.
              (- int (length (cluster_members w1 (en_id r))), entity_type_value (en_type r), en_title r)) cs));
          payload = \<lparr>
            type_distribution = sort (counter (map (\<lambda>c. entity_type_value (en_type c)) cs)),
            tag_counts = most_common 200 (counter (concat (map (\<lambda>c. map tag_key (cd_tags (en_candidate c))) cs))),
            confidence_distribution = sort (counter (map (\<lambda>c. confidence_bucket (cd_score (en_candidate c))) cs)),
            top_recurring = top,
            time_buckets = sort (counter (map (\<lambda>c. year_month (en_created_at c)) cs)),
            total_canonical = length cs,
            total_stats = stats\<rparr>
      in (payload, w1\<lparr>snapshots := (if pid \<in> set (snapshots w1) then snapshots w1
                                  else snapshots w1 @ [pid])\<rparr>))"

section \<open>What deduplication does\<close>

definition earliest :: "env \<Rightarrow> world \<Rightarrow> uuid \<Rightarrow> extracted_entity \<Rightarrow> extracted_entity" where
  "earliest env w pid e = hd (filter (\<lambda>x. fp_of env x = fp_of env e) (project_entities w pid))"

definition canonical_spec :: "env \<Rightarrow> world \<Rightarrow> uuid \<Rightarrow> extracted_entity \<Rightarrow> uuid option" where
  "canonical_spec env w pid e =
     (let r = earliest env w pid e in if en_id r = en_id e then None else Some (en_id r))"

definition dedup_links :: "env \<Rightarrow> world \<Rightarrow> uuid \<Rightarrow> (uuid \<times> uuid) list" where
  "dedup_links env w pid = concat (map (\<lambda>(k, g). link_group g)
     (filter (\<lambda>(k, g). 1 < length g) (groups_of (fp_of env) (project_entities w pid))))"

lemma set_project_entities [simp]:
  "set (project_entities w pid) = {e \<in> set (entities w). en_project_id e = pid}"
  by (auto simp: project_entities_def)

lemma distinct_project_ids:
  "distinct (map en_id (entities w)) \<Longrightarrow> inj_on en_id (set (project_entities w pid))"
  by (auto simp: distinct_map intro: inj_on_subset)

lemma set_link_group: "(i, r) \<in> set (link_group g) \<longleftrightarrow>
    g \<noteq> [] \<and> r = en_id (hd g) \<and> (\<exists>d \<in> set (tl g). i = en_id d)"
  by (cases g) auto

lemma in_dedup_links: "(i, r) \<in> set (dedup_links env w pid) \<longleftrightarrow>
   (\<exists>k. \<exists>d \<in> set (tl (filter (\<lambda>x. fp_of env x = k) (project_entities w pid))).
      i = en_id d \<and> r = en_id (hd (filter (\<lambda>x. fp_of env x = k) (project_entities w pid))))"
    (is "_ \<longleftrightarrow> (\<exists>k. \<exists>d \<in> set (tl (?g k)). _ d k)")
proof -
  have tl: "1 < length (?g k)" if "d \<in> set (tl (?g k))" for d k
    using in_tlD [OF that] by blast
  have key: "k \<in> set (map (fp_of env) (project_entities w pid))" if "d \<in> set (tl (?g k))" for d k
    using in_tlD [OF that] by auto
  have "(i, r) \<in> set (dedup_links env w pid) \<longleftrightarrow>
      (\<exists>k \<in> set (map (fp_of env) (project_entities w pid)). 1 < length (?g k) \<and> (i, r) \<in> set (link_group (?g k)))"
    unfolding dedup_links_def groups_of_eq by auto
  moreover have "1 < length (?g k) \<Longrightarrow> ?g k \<noteq> []" for k by auto
  ultimately show ?thesis unfolding set_link_group using tl key by blast
qed

lemma map_of_dedup_links:
  assumes dist: "distinct (map en_id (entities w))" and e: "e \<in> set (project_entities w pid)"
  shows "map_of (dedup_links env w pid) (en_id e) = canonical_spec env w pid e"
proof -
  let ?g = "\<lambda>k. filter (\<lambda>x. fp_of env x = k) (project_entities w pid)"
  note inj = distinct_project_ids [OF dist, of pid]
  have dist_g: "distinct (?g k)" for k
    using dist by (auto simp: project_entities_def distinct_map)
  have ne: "?g (fp_of env e) \<noteq> []" using e by (auto simp: filter_empty_conv)
  then obtain h t where ht: "?g (fp_of env e) = h # t" by (meson list.exhaust)
  have mem: "d \<in> set (project_entities w pid) \<and> fp_of env d = k" if "d \<in> set (tl (?g k))" for d k
    using in_tlD [OF that] by simp
  have link: "(en_id e, r) \<in> set (dedup_links env w pid) \<longleftrightarrow> e \<in> set t \<and> r = en_id h" for r
  proof
    assume "(en_id e, r) \<in> set (dedup_links env w pid)"
    then obtain k d where d: "d \<in> set (tl (?g k))" "en_id e = en_id d" "r = en_id (hd (?g k))"
      unfolding in_dedup_links by blast
    then have "d = e" using inj mem [OF d(1)] e by (auto dest: inj_onD)
    then show "e \<in> set t \<and> r = en_id h" using d mem [OF d(1)] ht by auto
  next
    assume "e \<in> set t \<and> r = en_id h"
    then show "(en_id e, r) \<in> set (dedup_links env w pid)"
      unfolding in_dedup_links using ht by (intro exI [of _ "fp_of env e"] bexI [of _ e]) auto
  qed
  have h: "h \<in> set (project_entities w pid)" using ht [symmetric] list.set_intros(1) [of h t] by simp
  have et: "e \<in> set t \<longleftrightarrow> en_id h \<noteq> en_id e"
  proof -
    have "e \<in> set (h # t)" using e ht [symmetric] by simp
    moreover have "h \<notin> set t" using dist_g [of "fp_of env e"] ht by simp
    moreover have "en_id h = en_id e \<longleftrightarrow> h = e" using inj h e by (auto dest: inj_onD)
    ultimately show ?thesis by auto
  qed
  show ?thesis
  proof (cases "e \<in> set t")
    case True
    then have "map_of (dedup_links env w pid) (en_id e) = Some (en_id h)"
      using link by (intro map_of_functional) auto
    then show ?thesis using True et ht by (simp add: canonical_spec_def earliest_def Let_def)
  next
    case False
    then have "map_of (dedup_links env w pid) (en_id e) = None"
      using link by (auto simp: map_of_eq_None_iff)
    then show ?thesis using False et ht by (simp add: canonical_spec_def earliest_def Let_def)
  qed
qed

lemma snd_dedup: "snd (deduplicate_project_entities_sync env pid w) =
    w\<lparr>entities := map (\<lambda>e. if en_project_id e = pid
        then e\<lparr>en_canonical := map_of (dedup_links env w pid) (en_id e)\<rparr> else e) (entities w)\<rparr>"
  by (simp add: deduplicate_project_entities_sync_def Let_def dedup_links_def)

lemma fst_dedup: "fst (deduplicate_project_entities_sync env pid w) =
   \<lparr>total_entities = length (project_entities w pid),
    distinct_fingerprints = length (groups_of (fp_of env) (project_entities w pid)),
    clusters_merged = length (filter (\<lambda>(k, g). 1 < length g) (groups_of (fp_of env) (project_entities w pid))),
    duplicates_linked = length (dedup_links env w pid)\<rparr>"
  by (simp add: deduplicate_project_entities_sync_def Let_def dedup_links_def)

lemma length_link_group: "length (link_group g) = length g - 1"
  by (cases g) auto

lemma length_dedup_links:
  "length (dedup_links env w pid) + length (groups_of (fp_of env) (project_entities w pid))
     = length (project_entities w pid)"
proof -
  let ?es = "project_entities w pid" let ?g = "\<lambda>k. filter (\<lambda>x. fp_of env x = k) ?es"
  have "length (dedup_links env w pid) = (\<Sum>k\<leftarrow>first_occ (map (fp_of env) ?es). length (?g k) - 1)"
  proof -
    have "sum_list (map length (map (\<lambda>(k, g). link_group g) (filter (\<lambda>(k, g). 1 < length g) gs)))
        = (\<Sum>(k, g)\<leftarrow>gs. length g - 1)" for gs :: "(pystr \<times> extracted_entity list) list"
      by (induction gs) (auto simp: length_link_group)
    then show ?thesis
      by (simp add: dedup_links_def length_concat groups_of_eq o_def split_def)
  qed
  moreover have "\<forall>k \<in> set (first_occ (map (fp_of env) ?es)). 0 < length (?g k)"
    by (auto simp: filter_empty_conv)
  note sum_pred_list [OF this]
  ultimately show ?thesis
    using sum_count_first_occ [of "fp_of env" ?es] by (simp add: groups_of_eq)
qed

lemma earliest_facts:
  assumes "e \<in> set (project_entities w pid)"
  shows "earliest env w pid e \<in> set (project_entities w pid)"
    and "fp_of env (earliest env w pid e) = fp_of env e"
    and "(en_created_at (earliest env w pid e), en_id (earliest env w pid e)) \<le> (en_created_at e, en_id e)"
    and "earliest env w pid (earliest env w pid e) = earliest env w pid e"
proof -
  let ?g = "filter (\<lambda>x. fp_of env x = fp_of env e) (project_entities w pid)"
  have e: "e \<in> set ?g" using assms by simp
  then have "earliest env w pid e \<in> set ?g" unfolding earliest_def by (metis hd_in_set empty_iff empty_set)
  then show 1: "earliest env w pid e \<in> set (project_entities w pid)"
    and 2: "fp_of env (earliest env w pid e) = fp_of env e" by simp_all
  then show "earliest env w pid (earliest env w pid e) = earliest env w pid e"
    by (simp add: earliest_def)
  have "sorted (map (\<lambda>e. (en_created_at e, en_id e)) ?g)"
    by (rule sorted_filter) (simp add: project_entities_def)
  then show "(en_created_at (earliest env w pid e), en_id (earliest env w pid e)) \<le> (en_created_at e, en_id e)"
    unfolding earliest_def using e by (cases ?g) auto
qed

section \<open>Properties\<close>

text \<open>
  C11. Deduplication refines its specification: in a project every entity is linked to the
  earliest entity (by creation time, then id) with its fingerprint, the earliest one itself to
  none, whatever links were there before; entities of other projects keep theirs.
\<close>

theorem dedup_refines_spec:
  assumes "distinct (map en_id (entities w))"
  shows "snd (deduplicate_project_entities_sync env pid w) =
    w\<lparr>entities := map (\<lambda>e. if en_project_id e = pid
        then e\<lparr>en_canonical := canonical_spec env w pid e\<rparr> else e) (entities w)\<rparr>"
  unfolding snd_dedup using map_of_dedup_links [OF assms, of _ pid env]
  by (auto intro!: world.fold_congs)

text \<open>
  Links have depth one: a linked entity points to an entity of the same project with the same
  fingerprint, not created later, that is itself not linked.
\<close>

theorem dedup_links_to_canonical:
  assumes dist: "distinct (map en_id (entities w))"
    and e: "e \<in> set (entities (snd (deduplicate_project_entities_sync env pid w)))"
    and p: "en_project_id e = pid" and r: "en_canonical e = Some r"
  shows "\<exists>c \<in> set (entities (snd (deduplicate_project_entities_sync env pid w))).
     en_id c = r \<and> en_project_id c = pid \<and> en_canonical c = None \<and> fp_of env c = fp_of env e
     \<and> en_created_at c \<le> en_created_at e"
proof -
  obtain e0 where e0: "e0 \<in> set (entities w)" "en_project_id e0 = pid"
    and ee: "e = e0\<lparr>en_canonical := canonical_spec env w pid e0\<rparr>"
    using e p dedup_refines_spec [OF dist, of env pid] by (auto split: if_splits)
  let ?c = "earliest env w pid e0"
  have m: "e0 \<in> set (project_entities w pid)" using e0 by simp
  note c = earliest_facts [OF m, of env]
  have "en_id ?c = r" using r ee by (auto simp: canonical_spec_def Let_def split: if_splits)
  moreover have "canonical_spec env w pid ?c = None"
    using c(4) by (simp add: canonical_spec_def)
  moreover have "en_created_at ?c \<le> en_created_at e0" using c(3) by (auto simp: less_eq_prod_def)
  ultimately show ?thesis
    using c(1,2) ee dedup_refines_spec [OF dist, of env pid]
    by (intro bexI [of _ "?c\<lparr>en_canonical := None\<rparr>"]) (auto simp: fp_of_def intro!: image_eqI [of _ _ ?c])
qed

text \<open>
  The statistics add up: every entity is either the first of its fingerprint or linked.
\<close>

theorem dedup_stats_add_up:
  "duplicates_linked (fst (deduplicate_project_entities_sync env pid w))
     + distinct_fingerprints (fst (deduplicate_project_entities_sync env pid w))
   = total_entities (fst (deduplicate_project_entities_sync env pid w))"
  using length_dedup_links [of env w pid] by (simp add: fst_dedup)

lemma entities_dedup: "entities (snd (deduplicate_project_entities_sync env pid w)) =
   map (\<lambda>e. if en_project_id e = pid
        then e\<lparr>en_canonical := map_of (dedup_links env w pid) (en_id e)\<rparr> else e) (entities w)"
  by (simp add: snd_dedup)

text \<open>Grouping does not look at the links, so relinking leaves groups, links and statistics alone.\<close>

definition relink :: "(extracted_entity \<Rightarrow> uuid option) \<Rightarrow> extracted_entity \<Rightarrow> extracted_entity" where
  "relink f e = e\<lparr>en_canonical := f e\<rparr>"

lemma relink_sel [simp]:
  "en_id (relink f e) = en_id e" "en_project_id (relink f e) = en_project_id e"
  "en_created_at (relink f e) = en_created_at e" "fp_of env (relink f e) = fp_of env e"
  by (simp_all add: relink_def fp_of_def)

lemma project_entities_relink:
  assumes "entities w1 = map (\<lambda>e. if en_project_id e = pid then relink f e else e) (entities w)"
  shows "project_entities w1 pid = map (relink f) (project_entities w pid)"
proof -
  have "filter (\<lambda>e. en_project_id e = pid) (entities w1)
      = map (relink f) (filter (\<lambda>e. en_project_id e = pid) (entities w))"
    unfolding assms by (induction "entities w") (auto simp: filter_map o_def intro!: map_cong filter_cong)
  then show ?thesis by (simp add: project_entities_def sort_key_map o_def)
qed

lemma groups_of_relink:
  "groups_of (fp_of env) (map (relink f) es) = map (\<lambda>(k, g). (k, map (relink f) g)) (groups_of (fp_of env) es)"
  by (simp add: groups_of_eq o_def filter_map)

lemma link_group_relink [simp]: "link_group (map (relink f) g) = link_group g"
  by (cases g) auto

lemma dedup_links_relink:
  assumes "entities w1 = map (\<lambda>e. if en_project_id e = pid then relink f e else e) (entities w)"
  shows "dedup_links env w1 pid = dedup_links env w pid"
  by (simp add: dedup_links_def project_entities_relink [OF assms] groups_of_relink filter_map o_def split_def)

text \<open>
  Running it twice changes nothing: neither the rows nor the statistics.
\<close>

theorem dedup_idempotent:
  "deduplicate_project_entities_sync env pid (snd (deduplicate_project_entities_sync env pid w))
     = deduplicate_project_entities_sync env pid w"
proof -
  let ?w1 = "snd (deduplicate_project_entities_sync env pid w)"
  let ?f = "\<lambda>e. map_of (dedup_links env w pid) (en_id e)"
  have e1: "entities ?w1 = map (\<lambda>e. if en_project_id e = pid then relink ?f e else e) (entities w)"
    by (simp add: entities_dedup relink_def)
  note links = dedup_links_relink [OF e1, of env]
  have "fst (deduplicate_project_entities_sync env pid ?w1) = fst (deduplicate_project_entities_sync env pid w)"
    by (simp add: fst_dedup [of env pid ?w1] fst_dedup [of env pid w] links
        project_entities_relink [OF e1] groups_of_relink filter_map o_def split_def)
  moreover have "snd (deduplicate_project_entities_sync env pid ?w1) = ?w1"
  proof -
    have "map (\<lambda>e. if en_project_id e = pid then e\<lparr>en_canonical := ?f e\<rparr> else e) (entities ?w1) = entities ?w1"
      unfolding entities_dedup by (auto simp: o_def)
    then show ?thesis by (simp only: snd_dedup [of env pid ?w1] links) simp
  qed
  ultimately show ?thesis by (metis prod.collapse)
qed

subsection \<open>The snapshot\<close>

lemma length_sort_key_filter: "length (sort_key f (filter P xs)) = length (filter P (sort_key g xs))"
  by (simp add: filter_sort)

lemma firsts_count:
  "distinct es \<Longrightarrow>
     length (filter (\<lambda>e. hd (filter (\<lambda>x. f x = f e) es) = e) es) = length (first_occ (map f es))"
proof (induction es rule: rev_induct)
  case (snoc x es)
  have old: "hd (filter (\<lambda>y. f y = f e) (es @ [x])) = hd (filter (\<lambda>y. f y = f e) es)"
    if "e \<in> set es" for e
    using that by (auto simp: filter_empty_conv hd_append)
  have new: "hd (filter (\<lambda>y. f y = f x) (es @ [x])) = x \<longleftrightarrow> f x \<notin> f ` set es"
  proof (cases "filter (\<lambda>y. f y = f x) es")
    case Nil
    then show ?thesis by (auto simp: filter_empty_conv)
  next
    case (Cons a as)
    then have "a \<in> set (filter (\<lambda>y. f y = f x) es)" by simp
    then have a: "a \<in> set es" "f a = f x" by simp_all
    then have "a \<noteq> x" using snoc.prems by auto
    then show ?thesis using Cons a by (auto simp: image_iff intro: bexI [of _ a])
  qed
  have "filter (\<lambda>e. hd (filter (\<lambda>y. f y = f e) (es @ [x])) = e) es
      = filter (\<lambda>e. hd (filter (\<lambda>y. f y = f e) es) = e) es"
    by (rule filter_cong) (use old in auto)
  then have "filter (\<lambda>e. hd (filter (\<lambda>y. f y = f e) (es @ [x])) = e) (es @ [x])
      = filter (\<lambda>e. hd (filter (\<lambda>y. f y = f e) es) = e) es @ (if f x \<notin> f ` set es then [x] else [])"
    using new by (simp del: filter_append add: filter_append [of _ es "[x]"])
  then show ?case using snoc by (simp add: first_occ_snoc)
qed (simp add: first_occ_def)

lemma distinct_project_entities:
  "distinct (map en_id (entities w)) \<Longrightarrow> distinct (project_entities w pid)"
  by (auto simp: project_entities_def distinct_map)

lemma canonical_count:
  assumes "distinct (map en_id (entities w))"
  shows "length (canonical_entities (snd (deduplicate_project_entities_sync env pid w)) pid)
       = length (groups_of (fp_of env) (project_entities w pid))"
proof -
  let ?w1 = "snd (deduplicate_project_entities_sync env pid w)"
  let ?f = "canonical_spec env w pid"
  have e1: "entities ?w1 = map (\<lambda>e. if en_project_id e = pid then relink ?f e else e) (entities w)"
    by (simp add: dedup_refines_spec [OF assms] relink_def)
  have inj: "inj_on en_id (set (project_entities w pid))" by (rule distinct_project_ids [OF assms])
  have "length (canonical_entities ?w1 pid)
      = length (filter (\<lambda>e. en_canonical e = None) (project_entities ?w1 pid))"
    unfolding canonical_entities_def project_entities_def
    by (subst length_sort_key_filter [where g = "\<lambda>e. (en_created_at e, en_id e)", symmetric])
       (simp add: conj_commute filter_filter length_sort)
  also have "\<dots> = length (filter (\<lambda>e. ?f e = None) (project_entities w pid))"
    by (simp add: project_entities_relink [OF e1] filter_map o_def relink_def)
  also have "\<dots> = length (filter (\<lambda>e. earliest env w pid e = e) (project_entities w pid))"
  proof (rule arg_cong [of _ _ length], rule filter_cong [OF refl])
    fix e assume e: "e \<in> set (project_entities w pid)"
    then show "(?f e = None) = (earliest env w pid e = e)"
      using earliest_facts(1) [OF e, of env] inj by (auto simp: canonical_spec_def Let_def dest: inj_onD)
  qed
  also have "\<dots> = length (first_occ (map (fp_of env) (project_entities w pid)))"
    unfolding earliest_def by (rule firsts_count) (rule distinct_project_entities [OF assms])
  finally show ?thesis by (simp add: groups_of_eq)
qed

lemma sum_sorted_counts: "sum_list (map snd (sort (counter ks))) = length ks"
proof -
  have "sum_list (map snd (sort c)) = sum_list (map snd c)" for c :: "('a::linorder \<times> nat) list"
    by (metis mset_map mset_sort sum_mset_sum_list)
  then show ?thesis by (simp add: counter_total)
qed

text \<open>
  The snapshot's totals agree: the number of canonical entities is the number of distinct
  fingerprints, and the type, confidence and month distributions each add up to it.
\<close>

theorem aggregate_totals:
  assumes "distinct (map en_id (entities w))"
  shows "let p = fst (aggregate_project_sync env pid w) in
      total_canonical p = distinct_fingerprints (total_stats p)
    \<and> sum_list (map snd (type_distribution p)) = total_canonical p
    \<and> sum_list (map snd (confidence_distribution p)) = total_canonical p
    \<and> sum_list (map snd (time_buckets p)) = total_canonical p
    \<and> length (top_recurring p) = min 25 (total_canonical p)"
  using canonical_count [OF assms, of env pid] fst_dedup [of env pid w]
  by (simp add: aggregate_project_sync_def split_def Let_def sum_sorted_counts)

text \<open>
  For a score between 0 and 1 the printed bucket bounds are adjacent tenths, in spite of
  binary floating point: \<open>0.0-0.1\<close> up to \<open>0.9-1.0\<close>, and \<open>1.0-1.1\<close> for a score of 1.
\<close>

theorem confidence_bucket_adjacent:
  assumes "0 \<le> s" and "s \<le> 1"
  shows "\<exists>k. 0 \<le> k \<and> k \<le> 10 \<and> confidence_bucket s = (k, k + 1)"
proof -
  let ?k = "py_trunc (fl (s * 10))"
  have "fl (s * 10) \<le> of_int 10" using assms by (intro fl_le_int) auto
  moreover have "0 \<le> fl (s * 10)" using assms by (intro fl_nonneg) simp
  ultimately have k: "0 \<le> ?k" "?k \<le> 10" using py_trunc_bounds [of "fl (s * 10)" 10] by auto
  let ?lo = "fl (of_int ?k / 10)" and ?t = "fl (1 / 10)"
  have lo: "\<bar>?lo - of_int ?k / 10\<bar> \<le> 1 / 1000" using k by (intro fl_tenth) auto
  have t: "\<bar>?t - 1 / 10\<bar> \<le> 1 / 1000" using fl_tenth [of 1] by simp
  have kq: "(of_int ?k :: rat) \<le> 10" using k by simp
  have "0 \<le> ?lo + ?t" using k by (intro add_nonneg_nonneg fl_nonneg) auto
  moreover have "?lo + ?t \<le> 2" using lo t kq by linarith
  ultimately have "\<bar>fl (?lo + ?t) - (?lo + ?t)\<bar> \<le> 1 / 1000"
    using fl_error [of "?lo + ?t"] by simp
  then have "\<bar>fl (?lo + ?t) - of_int (?k + 1) / 10\<bar> \<le> 1 / 100"
    using lo t tenth_sum by simp
  then have r: "rne (fl (?lo + ?t) * 10) = ?k + 1" using k by (intro tenth_roundtrip) auto
  have "rne (?lo * 10) = ?k" using lo k by (intro tenth_roundtrip) auto
  moreover have "rne (fl (of_int (?k + 1) / 10) * 10) = ?k + 1"
    using fl_tenth [of "?k + 1"] k by (intro tenth_roundtrip) auto
  ultimately have "confidence_bucket s = (?k, ?k + 1)"
    by (simp add: confidence_bucket_def Let_def py_round_def r)
  then show ?thesis using k by blast
qed

theorem confidence_bucket_adjacent_witness:
  "\<exists>k. 0 \<le> k \<and> k \<le> 10 \<and> confidence_bucket (7 / 8) = (k, k + 1)"
  by (rule confidence_bucket_adjacent) simp_all

subsection \<open>Witnesses\<close>

definition two_risks :: world where
  "two_risks = empty_world\<lparr>entities := [plain_entity 1 7 RISK (u ''Fees''), plain_entity 2 7 RISK (u ''fees '')]\<rparr>"

lemma two_risks_distinct: "distinct (map en_id (entities two_risks))"
  by code_simp

theorem dedup_refines_spec_witness:
  "distinct (map en_id (entities two_risks)) \<and>
   snd (deduplicate_project_entities_sync plain_env 7 two_risks) =
    two_risks\<lparr>entities := map (\<lambda>e. if en_project_id e = 7
        then e\<lparr>en_canonical := canonical_spec plain_env two_risks 7 e\<rparr> else e) (entities two_risks)\<rparr>"
  by (rule conjI [OF two_risks_distinct dedup_refines_spec [OF two_risks_distinct]])

definition linked_fees :: extracted_entity where
  "linked_fees = (plain_entity 2 7 RISK (u ''fees ''))\<lparr>en_canonical := Some 1\<rparr>"

lemma two_risks_linked:
  "entities (snd (deduplicate_project_entities_sync plain_env 7 two_risks))
     = [plain_entity 1 7 RISK (u ''Fees''), linked_fees]"
  by code_simp

theorem dedup_links_to_canonical_witness:
  "\<exists>c \<in> set (entities (snd (deduplicate_project_entities_sync plain_env 7 two_risks))).
     en_id c = 1 \<and> en_project_id c = 7 \<and> en_canonical c = None \<and> fp_of plain_env c = fp_of plain_env linked_fees
     \<and> en_created_at c \<le> en_created_at linked_fees"
  by (rule dedup_links_to_canonical [OF two_risks_distinct])
     (simp_all add: two_risks_linked, simp_all add: linked_fees_def plain_entity_def)

theorem aggregate_totals_witness:
  "let p = fst (aggregate_project_sync plain_env 7 two_risks) in
      total_canonical p = distinct_fingerprints (total_stats p)
    \<and> sum_list (map snd (type_distribution p)) = total_canonical p
    \<and> sum_list (map snd (confidence_distribution p)) = total_canonical p
    \<and> sum_list (map snd (time_buckets p)) = total_canonical p
    \<and> length (top_recurring p) = min 25 (total_canonical p)"
  by (rule aggregate_totals [OF two_risks_distinct])

end
