(* ===== verification/Queue_Contract.thy ===== *)
theory Queue_Contract
  imports Store "HOL-Library.Multiset"
begin

text \<open>
  The two contracts the batch queue and the project queue share. \<open>queue_lock\<close>: what taking and
  giving back the Redis lock of one queue promise, and mutual exclusion of the workers that
  follow from it. \<open>status_table\<close>: moving rows of a table into processing, with the effect of a
  whole drain on the table.
\<close>

section \<open>The queue lock\<close>

record lock_result =
  acquired :: bool
  token :: pystr
  busy :: bool

text \<open>
  Workers in any order: \<open>Take\<close> tries to take the lock of a queue with a fresh token, \<open>Give\<close> is a
  worker's \<^verbatim>\<open>finally\<close> clause, \<open>Expire\<close> is the time-to-live of a lock running out. Each call meets
  Redis in a state of its own. The ghost list holds the (queue, token) pairs of the workers that
  drain, with the token the worker was handed: it is empty for a worker that went on without a
  lock because Redis failed.
\<close>

datatype lock_event = Take redis_conn pystr uuid | Give redis_conn pystr uuid | Expire uuid

type_synonym acquire_fun = "redis_conn \<Rightarrow> pystr \<Rightarrow> uuid \<Rightarrow> world \<Rightarrow> lock_result \<times> world"
type_synonym release_fun = "redis_conn \<Rightarrow> uuid \<Rightarrow> pystr \<Rightarrow> world \<Rightarrow> world"

fun lock_step :: "acquire_fun \<Rightarrow> release_fun \<Rightarrow> (uuid \<Rightarrow> lock_key) \<Rightarrow> lock_event \<Rightarrow>
    world \<times> (uuid \<times> pystr) list \<Rightarrow> world \<times> (uuid \<times> pystr) list" where
  "lock_step acq rel key (Take c t q) (w, hs) =
     (case acq c t q w of (r, w1) \<Rightarrow> (w1, if acquired r then (q, token r) # hs else hs))"
| "lock_step acq rel key (Give c t q) (w, hs) =
     (if (q, t) \<in> set hs then (rel c q t w, remove1 (q, t) hs) else (w, hs))"
| "lock_step acq rel key (Expire q) (w, hs) = (w\<lparr>locks := (locks w)(key q := None)\<rparr>, hs)"

definition lock_run :: "acquire_fun \<Rightarrow> release_fun \<Rightarrow> (uuid \<Rightarrow> lock_key) \<Rightarrow> lock_event list \<Rightarrow>
    world \<times> (uuid \<times> pystr) list \<Rightarrow> world \<times> (uuid \<times> pystr) list" where
  "lock_run acq rel key evs s = fold (lock_step acq rel key) evs s"

fun no_expiry :: "lock_event \<Rightarrow> bool" where
  "no_expiry (Take c t q) = (t \<noteq> [])"
| "no_expiry (Give c t q) = True"
| "no_expiry (Expire q) = False"

text \<open>Redis answers whoever asks for a lock. (A failing release is allowed.)\<close>

fun redis_answers :: "lock_event \<Rightarrow> bool" where
  "redis_answers (Take c t q) = (c = Redis_ok)"
| "redis_answers (Give c t q) = True"
| "redis_answers (Expire q) = True"

definition locked_workers :: "(uuid \<times> pystr) list \<Rightarrow> (uuid \<times> pystr) list" where
  "locked_workers hs = filter (\<lambda>(q, t). t \<noteq> []) hs"

locale queue_lock =
  fixes acquire :: acquire_fun
    and release :: release_fun
    and key :: "uuid \<Rightarrow> lock_key"
  assumes key_inj: "key a = key b \<Longrightarrow> a = b"
    and acq_free: "locks w (key q) = None \<Longrightarrow> acquire Redis_ok t q w =
        (\<lparr>acquired = True, token = t, busy = False\<rparr>, w\<lparr>locks := (locks w)(key q \<mapsto> t)\<rparr>)"
    and acq_held: "locks w (key q) = Some t' \<Longrightarrow> acquire Redis_ok t q w =
        (\<lparr>acquired = False, token = [], busy = True\<rparr>, w)"
    and acq_degraded: "c \<noteq> Redis_ok \<Longrightarrow> acquire c t q w =
        (\<lparr>acquired = True, token = [], busy = False\<rparr>, w)"
    and rel_own: "t \<noteq> [] \<Longrightarrow> locks w (key q) = Some t \<Longrightarrow>
        release Redis_ok q t w = w\<lparr>locks := (locks w)(key q := None)\<rparr>"
    and rel_other: "c \<noteq> Redis_ok \<or> t = [] \<or> locks w (key q) \<noteq> Some t \<Longrightarrow> release c q t w = w"
begin

text \<open>
  The token of every worker that drains under a lock is the one stored; so no two of them drain
  one queue.
\<close>

definition lock_inv :: "world \<times> (uuid \<times> pystr) list \<Rightarrow> bool" where
  "lock_inv s \<longleftrightarrow> (\<forall>q t. (q, t) \<in> set (snd s) \<longrightarrow> t \<noteq> [] \<longrightarrow> locks (fst s) (key q) = Some t)
     \<and> distinct (map fst (locked_workers (snd s)))"

lemma lock_invI:
  "(\<And>q t. (q, t) \<in> set hs \<Longrightarrow> t \<noteq> [] \<Longrightarrow> locks w (key q) = Some t) \<Longrightarrow>
     distinct (map fst (locked_workers hs)) \<Longrightarrow> lock_inv (w, hs)"
  by (simp add: lock_inv_def)

lemma lock_invD:
  "lock_inv (w, hs) \<Longrightarrow> (q, t) \<in> set hs \<Longrightarrow> t \<noteq> [] \<Longrightarrow> locks w (key q) = Some t"
  "lock_inv (w, hs) \<Longrightarrow> distinct (map fst (locked_workers hs))"
  by (simp_all add: lock_inv_def)

lemma locked_workers_Cons [simp]:
  "locked_workers ((q, t) # hs) = (if t = [] then locked_workers hs else (q, t) # locked_workers hs)"
  by (simp add: locked_workers_def)

lemma locked_workers_set [simp]: "(q, t) \<in> set (locked_workers hs) \<longleftrightarrow> (q, t) \<in> set hs \<and> t \<noteq> []"
  by (auto simp: locked_workers_def)

lemma locked_workers_remove1:
  "locked_workers (remove1 x hs) = (if snd x = [] then locked_workers hs else remove1 x (locked_workers hs))"
  by (induction hs) (auto simp: locked_workers_def split: prod.splits)

lemma distinct_map_remove1: "distinct (map f xs) \<Longrightarrow> distinct (map f (remove1 x xs))"
  using set_remove1_subset [of x] by (induction xs) auto

lemma lock_inv_take:
  assumes "lock_inv (w, hs)" "t \<noteq> []"
  shows "lock_inv (lock_step acquire release key (Take c t q) (w, hs))"
proof (cases "c = Redis_ok \<and> locks w (key q) = None")
  case True
  then have None: "locks w (key q) = None" by simp
  have new: "(q, t') \<notin> set (locked_workers hs)" for t'
    using lock_invD(1) [OF assms(1), of q t'] None by auto
  have "lock_inv (w\<lparr>locks := (locks w)(key q \<mapsto> t)\<rparr>, (q, t) # hs)"
  proof (rule lock_invI)
    fix q' t' assume a: "(q', t') \<in> set ((q, t) # hs)" "t' \<noteq> []"
    show "locks (w\<lparr>locks := (locks w)(key q \<mapsto> t)\<rparr>) (key q') = Some t'"
    proof (cases "q' = q")
      case True
      then show ?thesis using a new [of t'] by auto
    next
      case False
      then show ?thesis using a lock_invD(1) [OF assms(1), of q' t'] key_inj [of q' q] by auto
    qed
  next
    show "distinct (map fst (locked_workers ((q, t) # hs)))"
      using lock_invD(2) [OF assms(1)] new by (auto split: prod.splits)
  qed
  then show ?thesis using True by (simp add: acq_free [OF None])
next
  case False
  then show ?thesis using assms
    by (cases "c = Redis_ok") (auto simp: acq_held acq_degraded lock_inv_def)
qed

lemma lock_inv_give:
  assumes "lock_inv (w, hs)"
  shows "lock_inv (lock_step acquire release key (Give c t q) (w, hs))"
proof (cases "(q, t) \<in> set hs")
  case True
  have d: "distinct (map fst (locked_workers (remove1 (q, t) hs)))"
    using lock_invD(2) [OF assms] by (simp add: locked_workers_remove1 distinct_map_remove1)
  show ?thesis
  proof (cases "c = Redis_ok \<and> t \<noteq> []")
    case own: True
    then have st: "locks w (key q) = Some t" using lock_invD(1) [OF assms True] by simp
    have "lock_inv (w\<lparr>locks := (locks w)(key q := None)\<rparr>, remove1 (q, t) hs)"
    proof (rule lock_invI [OF _ d])
      fix q' t' assume a: "(q', t') \<in> set (remove1 (q, t) hs)" "t' \<noteq> []"
      then have "(q', t') \<in> set hs" by (meson notin_set_remove1)
      then have s': "locks w (key q') = Some t'" using lock_invD(1) [OF assms _ a(2)] by simp
      have "q' \<noteq> q"
      proof
        assume e: "q' = q"
        then have "t' = t" using s' st by simp
        moreover have "(q, t) \<notin> set (remove1 (q, t) (locked_workers hs))"
          using lock_invD(2) [OF assms] by (simp add: distinct_map)
        ultimately show False using a e own
          by (metis locked_workers_remove1 locked_workers_set snd_conv)
      qed
      then show "locks (w\<lparr>locks := (locks w)(key q := None)\<rparr>) (key q') = Some t'"
        using s' key_inj [of q' q] by auto
    qed
    then show ?thesis using rel_own [OF _ st] own True by simp
  next
    case False
    have "lock_inv (w, remove1 (q, t) hs)"
      by (rule lock_invI [OF _ d]) (meson assms lock_invD(1) notin_set_remove1)
    moreover have "release c q t w = w" using False by (intro rel_other) auto
    ultimately show ?thesis using True by simp
  qed
qed (use assms in simp)

lemma lock_inv_step:
  assumes "lock_inv s" "no_expiry e"
  shows "lock_inv (lock_step acquire release key e s)"
  using assms by (cases s; cases e) (simp_all add: lock_inv_take lock_inv_give del: lock_step.simps)

lemma lock_inv_run: "list_all no_expiry evs \<Longrightarrow> lock_inv s \<Longrightarrow> lock_inv (lock_run acquire release key evs s)"
proof (induction evs arbitrary: s)
  case (Cons e evs)
  then show ?case using lock_inv_step [of s e] by (simp add: lock_run_def)
qed (simp add: lock_run_def)

text \<open>While Redis answers, every worker that drains holds a lock.\<close>

lemma all_locked_step:
  assumes "no_expiry e" "redis_answers e" "locked_workers (snd s) = snd s"
  shows "locked_workers (snd (lock_step acquire release key e s)) = snd (lock_step acquire release key e s)"
proof (cases s)
  case (Pair w hs)
  show ?thesis
  proof (cases e)
    case (Take c t q)
    then show ?thesis using assms Pair
      by (cases "locks w (key q)") (simp_all add: acq_free acq_held)
  next
    case (Give c t q)
    then show ?thesis using assms Pair by (auto simp: locked_workers_remove1)
      (metis locked_workers_set)
  qed (use assms in simp)
qed

lemma all_locked_run:
  "list_all no_expiry evs \<Longrightarrow> list_all redis_answers evs \<Longrightarrow> locked_workers (snd s) = snd s \<Longrightarrow>
     locked_workers (snd (lock_run acquire release key evs s)) = snd (lock_run acquire release key evs s)"
  by (induction evs arbitrary: s) (simp_all add: lock_run_def all_locked_step)

lemma lock_inv_start: "lock_inv (w, [])"
  by (simp add: lock_inv_def locked_workers_def)

lemma mutual_exclusion:
  assumes "list_all no_expiry evs"
  shows "distinct (map fst (locked_workers (snd (lock_run acquire release key evs (w, [])))))"
    "list_all redis_answers evs \<Longrightarrow> distinct (map fst (snd (lock_run acquire release key evs (w, []))))"
proof -
  show *: "distinct (map fst (locked_workers (snd (lock_run acquire release key evs (w, [])))))"
    using lock_inv_run [OF assms lock_inv_start] by (simp add: lock_inv_def)
  show "distinct (map fst (snd (lock_run acquire release key evs (w, []))))"
    if "list_all redis_answers evs"
    using * all_locked_run [OF assms that, of "(w, [])"] by (simp add: locked_workers_def)
qed

text \<open>A failing Redis lets any number of workers drain one queue.\<close>

lemma degraded_workers:
  assumes "c \<noteq> Redis_ok"
  shows "lock_run acquire release key [Take c t q, Take c t' q] (w, []) = (w, [(q, []), (q, [])])"
  using assms by (simp add: lock_run_def acq_degraded)

text \<open>A worker that comes back after its lock expired does not free the lock of its successor.\<close>

lemma late_release_harmless: "locks w (key q) = Some t' \<Longrightarrow> t' \<noteq> t \<Longrightarrow> release c q t w = w"
  by (rule rel_other) simp

end

section \<open>Rows moving into processing\<close>

text \<open>\<open>upd_rows\<close> applies the same write to the rows of several keys, one after the other.\<close>

definition upd_rows :: "('r \<Rightarrow> uuid) \<Rightarrow> ('r \<Rightarrow> 'r) \<Rightarrow> uuid list \<Rightarrow> 'r list \<Rightarrow> 'r list" where
  "upd_rows key f is rows = fold (\<lambda>i. upd_row key i f) is rows"

locale status_table =
  fixes key :: "'r \<Rightarrow> uuid"
    and status :: "'r \<Rightarrow> source_status"
    and mark :: "time \<Rightarrow> 'r \<Rightarrow> 'r"
  assumes key_mark [simp]: "key (mark t r) = key r"
    and status_mark [simp]: "status (mark t r) = SP_PROCESSING"
    and mark_mark [simp]: "mark t (mark t r) = mark t r"
begin

lemma upd_rows_eq:
  "upd_rows key (mark t) is rows = map (\<lambda>r. if key r \<in> set is then mark t r else r) rows"
  by (induction "is" arbitrary: rows) (auto simp: upd_rows_def upd_row_def)

lemma upd_rows_keys: "map key (upd_rows key (mark t) is rows) = map key rows"
  by (auto simp: upd_rows_eq)

text \<open>After marking, the pending rows are exactly the ones that were pending and not picked.\<close>

lemma upd_rows_pending:
  "filter (\<lambda>r. status r = SP_PENDING) (upd_rows key (mark t) is rows)
     = filter (\<lambda>r. status r = SP_PENDING \<and> key r \<notin> set is) rows"
  by (induction rows) (auto simp: upd_rows_eq)

lemma upd_rows_picked:
  "r \<in> set (upd_rows key (mark t) is rows) \<Longrightarrow> key r \<in> set is \<Longrightarrow> status r = SP_PROCESSING"
  by (auto simp: upd_rows_eq split: if_splits)

lemma upd_rows_other:
  "r \<in> set (upd_rows key (mark t) is rows) \<Longrightarrow> key r \<notin> set is \<Longrightarrow> r \<in> set rows"
  by (auto simp: upd_rows_eq split: if_splits)

end

text \<open>Picking: at most \<open>n\<close> rows of a sorted query, the least ones.\<close>

lemma insort_key_split: "sorted (map k xs) \<Longrightarrow> \<exists>A B. xs = A @ B \<and> insort_key k q xs = A @ q # B"
proof (induction xs)
  case (Cons x xs)
  then obtain A B where "xs = A @ B" "insort_key k q xs = A @ q # B" by auto
  then show ?case
    by (cases "k q \<le> k x") (metis append_Nil insort_key.simps(2), metis append_Cons insort_key.simps(2))
qed simp

lemma insort_key_front:
  "sorted (map k (A @ q # B)) \<Longrightarrow> k z \<le> k q \<Longrightarrow> insort_key k z (A @ q # B) = insort_key k z A @ q # B"
  "sorted (map k (A @ q # B)) \<Longrightarrow> k z \<le> k q \<Longrightarrow> insort_key k z (A @ B) = insort_key k z A @ B"
  by (induction A) (auto intro!: insort_is_Cons intro: order_trans)

lemma insort_key_back:
  "\<not> k z \<le> k q \<Longrightarrow> sorted (map k (A @ q # B)) \<Longrightarrow> insort_key k z (A @ q # B) = A @ q # insort_key k z B"
  "\<not> k z \<le> k q \<Longrightarrow> sorted (map k (A @ q # B)) \<Longrightarrow> insort_key k z (A @ B) = A @ insort_key k z B"
  by (induction A) auto

lemma sort_key_drop_one:
  "\<exists>A B. sort_key k (zs @ q # X) = A @ q # B \<and> sort_key k (zs @ X) = A @ B
     \<and> length (filter (\<lambda>z. k z \<le> k q) zs) \<le> length A"
proof (induction zs)
  case Nil
  then show ?case using insort_key_split [of k "sort_key k X" q] by auto
next
  case (Cons z zs)
  then obtain A B where ab: "sort_key k (zs @ q # X) = A @ q # B" "sort_key k (zs @ X) = A @ B"
    "length (filter (\<lambda>z. k z \<le> k q) zs) \<le> length A" by auto
  then have s: "sorted (map k (A @ q # B))" by (metis sorted_sort_key)
  show ?case
  proof (cases "k z \<le> k q")
    case True
    then show ?thesis using ab insort_key_front [OF s True]
      by (intro exI [of _ "insort_key k z A"] exI [of _ B]) simp
  next
    case False
    then show ?thesis using ab insort_key_back [OF False s]
      by (intro exI [of _ A] exI [of _ "insort_key k z B"]) simp
  qed
qed

lemma take_sort_key_drop_one:
  "n \<le> length (filter (\<lambda>z. k z \<le> k q) zs) \<Longrightarrow> take n (sort_key k (zs @ q # X)) = take n (sort_key k (zs @ X))"
  using sort_key_drop_one [of k zs q X] by auto

lemma take_sort_key_drop:
  assumes "\<forall>q \<in> set Q. n \<le> length (filter (\<lambda>z. k z \<le> k q) zs)"
  shows "take n (sort_key k (zs @ Q @ X)) = take n (sort_key k (zs @ X))"
  using assms by (induction Q) (auto simp: take_sort_key_drop_one)

lemma sort_key_sort_append:
  "sort_key k (xs @ sort_key k ys) = sort_key k (xs @ ys)"
  "sort_key k (sort_key k xs @ ys) = sort_key k (xs @ ys)"
proof -
  show "sort_key k (xs @ sort_key k ys) = sort_key k (xs @ ys)"
    by (induction xs) (simp_all add: sorted_sort_id sort_key_id_if_sorted)
  have st: "filter (\<lambda>x. k z = k x) (sort_key k us) = filter (\<lambda>x. k z = k x) us" for z us
    using sort_key_stable [of k "k z" us] unfolding eq_commute [of _ "k z"] .
  show "sort_key k (sort_key k xs @ ys) = sort_key k (xs @ ys)"
    by (rule properties_for_sort_key) (simp_all add: st)
qed

text \<open>
  The queries prefetch at least \<open>n\<close> rows of each kind; that is enough to find the \<open>n\<close> least of
  both kinds together.
\<close>

lemma take_sort_key_prefetch:
  assumes "n \<le> m"
  shows "take n (sort_key k (take m (sort_key k xs) @ take m (sort_key k ys)))
       = take n (sort_key k (xs @ ys))"
proof -
  have least: "n \<le> length (filter (\<lambda>z. k z \<le> k q) (zs @ take m (sort_key k xs) @ zs'))"
    if "q \<in> set (drop m (sort_key k xs))" for q xs zs zs'
  proof -
    have "m < length xs" using that by (metis drop_all empty_iff length_sort linorder_le_less_linear list.set(1))
    moreover have "sorted (map k (take m (sort_key k xs) @ drop m (sort_key k xs)))" by simp
    then have "filter (\<lambda>z. k z \<le> k q) (take m (sort_key k xs)) = take m (sort_key k xs)"
      using that by (auto simp: sorted_append filter_id_conv simp del: append_take_drop_id)
    ultimately show ?thesis using assms by simp
  qed
  let ?P = "take m (sort_key k xs)" and ?R = "take m (sort_key k ys)"
  have "take n (sort_key k (?P @ ?R)) = take n (sort_key k (?P @ drop m (sort_key k xs) @ ?R))"
    by (rule take_sort_key_drop [symmetric]) (use least [of _ xs "[]" "[]"] in auto)
  also have "\<dots> = take n (sort_key k ((sort_key k xs @ ?R) @ drop m (sort_key k ys) @ []))"
    by (subst take_sort_key_drop) (use least [of _ ys "sort_key k xs" "[]"] in \<open>auto simp flip: append_assoc\<close>)
  also have "\<dots> = take n (sort_key k (xs @ ys))" by (simp add: sort_key_sort_append)
  finally show ?thesis .
qed

end
