(* ===== verification/Project_Queue.thy ===== *)
theory Project_Queue
  imports Aggregation Queue_Contract
begin

text \<open>
  The project queue (\<^verbatim>\<open>project_queue_service.py\<close>, \<^verbatim>\<open>project_processing_queue.py\<close>): documents and
  audios of a project carry a processing status; a drain takes a Redis lock, moves up to
  \<open>project_queue_concurrency\<close> pending sources to processing and sends one task for each; the
  pipelines report back through the \<open>maybe_finalize\<close> functions, which end or requeue a source and
  schedule the next drain.
\<close>

section \<open>The lock\<close>

definition PROJECT_QUEUE_LOCK_PREFIX :: string where
  "PROJECT_QUEUE_LOCK_PREFIX = ''ria:project_queue_lock:''"

text \<open>
  \<^verbatim>\<open>SET key token NX\<close> writes only a free key. \<open>tok\<close> is the fresh \<^verbatim>\<open>secrets.token_urlsafe(16)\<close>. Any
  failure of Redis lets the caller go on without a lock.
\<close>

definition try_acquire_project_queue_lock ::
    "redis_conn \<Rightarrow> pystr \<Rightarrow> uuid \<Rightarrow> world \<Rightarrow> lock_result \<times> world" where
  "try_acquire_project_queue_lock conn tok pid w =
     (let key = (PROJECT_QUEUE_LOCK_PREFIX, pid) in
      case conn of
        No_client \<Rightarrow> (\<lparr>acquired = True, token = [], busy = False\<rparr>, w)
      | Command_fails \<Rightarrow> (\<lparr>acquired = True, token = [], busy = False\<rparr>, w)
      | Redis_ok \<Rightarrow>
          (case locks w key of
             None \<Rightarrow> (\<lparr>acquired = True, token = tok, busy = False\<rparr>, w\<lparr>locks := (locks w)(key \<mapsto> tok)\<rparr>)
           | Some _ \<Rightarrow> (\<lparr>acquired = False, token = [], busy = True\<rparr>, w)))"

text \<open>The Lua script deletes the key if it still holds the caller's token.\<close>

definition release_project_queue_lock :: "redis_conn \<Rightarrow> uuid \<Rightarrow> pystr \<Rightarrow> world \<Rightarrow> world" where
  "release_project_queue_lock conn pid tok w =
     (let key = (PROJECT_QUEUE_LOCK_PREFIX, pid) in
      if tok = [] then w
      else if conn = Redis_ok \<and> locks w key = Some tok then w\<lparr>locks := (locks w)(key := None)\<rparr>
      else w)"

section \<open>The summary\<close>

datatype source_kind = Document | Audio

record queue_summary =
  q_idle :: nat
  q_pending :: nat
  q_processing :: nat
  q_completed :: nat
  q_failed :: nat
  q_current :: "(source_kind \<times> uuid) list"

text \<open>
  A row as the summary sees it: its raw \<^verbatim>\<open>processing_status\<close> (absent or a string), its id (\<open>None\<close> if
  it is not a \<^verbatim>\<open>UUID\<close>) and its class.
\<close>

type_synonym status_row = "pystr option \<times> uuid option \<times> source_kind"

definition norm_status :: "pystr option \<Rightarrow> pystr" where
  "norm_status raw = ascii_lower (strip (text_of raw))"

definition project_summary_step :: "status_row \<Rightarrow> queue_summary \<Rightarrow> queue_summary" where
  "project_summary_step row q = (case row of (raw, rid, kind) \<Rightarrow>
     let st = norm_status raw in
     if st = source_status_value SP_IDLE then q\<lparr>q_idle := q_idle q + 1\<rparr>
     else if st = source_status_value SP_PENDING then q\<lparr>q_pending := q_pending q + 1\<rparr>
     else if st = source_status_value SP_PROCESSING then
       q\<lparr>q_processing := q_processing q + 1,
         q_current := (case rid of Some i \<Rightarrow> q_current q @ [(kind, i)] | None \<Rightarrow> q_current q)\<rparr>
     else if st = source_status_value SP_COMPLETED then q\<lparr>q_completed := q_completed q + 1\<rparr>
     else if st = source_status_value SP_FAILED then q\<lparr>q_failed := q_failed q + 1\<rparr>
     else q\<lparr>q_idle := q_idle q + 1\<rparr>)"

definition empty_summary :: queue_summary where
  "empty_summary = \<lparr>q_idle = 0, q_pending = 0, q_processing = 0, q_completed = 0, q_failed = 0,
     q_current = []\<rparr>"

definition compute_project_queue_summary :: "status_row list \<Rightarrow> queue_summary" where
  "compute_project_queue_summary rows = fold project_summary_step rows empty_summary"

definition doc_status_row :: "source_document \<Rightarrow> status_row" where
  "doc_status_row d = (Some (source_status_value (doc_status d)), Some (doc_id d), Document)"

definition aud_status_row :: "source_audio \<Rightarrow> status_row" where
  "aud_status_row a = (Some (source_status_value (aud_status a)), Some (aud_id a), Audio)"

definition fetch_project_queue_summary_sync :: "uuid \<Rightarrow> world \<Rightarrow> queue_summary" where
  "fetch_project_queue_summary_sync pid w =
     compute_project_queue_summary
       (map doc_status_row (filter (\<lambda>d. doc_project_id d = pid) (documents w)) @
        map aud_status_row (filter (\<lambda>a. aud_project_id a = pid) (audios w)))"

definition project_queue_has_active_work :: "queue_summary \<Rightarrow> bool" where
  "project_queue_has_active_work q \<longleftrightarrow> 0 < q_pending q \<or> 0 < q_processing q"

section \<open>Scheduling and marking\<close>

definition invalidate_project_llm_cache_sync :: "uuid \<Rightarrow> world \<Rightarrow> world" where
  "invalidate_project_llm_cache_sync pid w =
     w\<lparr>project_llm_cache := filter (\<lambda>c. ca_owner c \<noteq> pid) (project_llm_cache w)\<rparr>"

definition schedule_project_processing :: "env \<Rightarrow> uuid \<Rightarrow> nat option \<Rightarrow> world \<Rightarrow> unit outcome" where
  "schedule_project_processing env pid countdown w =
     (case countdown of
        Some c \<Rightarrow> send env (Process_project_queue pid) (if 0 < c then Some c else None) w
      | None \<Rightarrow> send env (Process_project_queue pid) None w)"

text \<open>One \<^verbatim>\<open>UPDATE\<close> per table; the result is the number of rows it touched.\<close>

definition mark_idle_and_failed_sources_pending :: "uuid \<Rightarrow> world \<Rightarrow> nat \<times> world" where
  "mark_idle_and_failed_sources_pending pid w =
     (let dp = (\<lambda>d. doc_project_id d = pid \<and> doc_status d \<in> {SP_IDLE, SP_FAILED});
          ap = (\<lambda>a. aud_project_id a = pid \<and> aud_status a \<in> {SP_IDLE, SP_FAILED})
      in (length (filter dp (documents w)) + length (filter ap (audios w)),
          w\<lparr>documents := map (\<lambda>d. if dp d then d\<lparr>doc_status := SP_PENDING, doc_started_at := None,
                doc_completed_at := None\<rparr> else d) (documents w),
            audios := map (\<lambda>a. if ap a then a\<lparr>aud_status := SP_PENDING, aud_started_at := None,
                aud_completed_at := None\<rparr> else a) (audios w)\<rparr>))"

definition doc_pend :: "int \<Rightarrow> source_document \<Rightarrow> source_document" where
  "doc_pend ord d = d\<lparr>doc_status := SP_PENDING, doc_sort_order := ord, doc_started_at := None,
     doc_completed_at := None, doc_last_error := None\<rparr>"

definition aud_pend :: "int \<Rightarrow> source_audio \<Rightarrow> source_audio" where
  "aud_pend ord a = a\<lparr>aud_status := SP_PENDING, aud_sort_order := ord, aud_started_at := None,
     aud_completed_at := None, aud_last_error := None\<rparr>"

fun mark_docs_pending :: "uuid list \<Rightarrow> int \<Rightarrow> world \<Rightarrow> int \<times> world" where
  "mark_docs_pending [] ord w = (ord, w)"
| "mark_docs_pending (i # is) ord w =
     (case get_doc w i of
        None \<Rightarrow> mark_docs_pending is ord w
      | Some _ \<Rightarrow> mark_docs_pending is (ord + 1) (upd_doc i (doc_pend ord) w))"

fun mark_audios_pending :: "uuid list \<Rightarrow> int \<Rightarrow> world \<Rightarrow> int \<times> world" where
  "mark_audios_pending [] ord w = (ord, w)"
| "mark_audios_pending (i # is) ord w =
     (case get_audio w i of
        None \<Rightarrow> mark_audios_pending is ord w
      | Some _ \<Rightarrow> mark_audios_pending is (ord + 1) (upd_audio i (aud_pend ord) w))"

definition mark_sources_pending :: "uuid list \<Rightarrow> uuid list \<Rightarrow> int \<Rightarrow> world \<Rightarrow> world" where
  "mark_sources_pending dids aids sort_base w =
     (let (ord, w1) = mark_docs_pending dids sort_base w in snd (mark_audios_pending aids ord w1))"

text \<open>\<^verbatim>\<open>SELECT max(...)\<close> is \<^verbatim>\<open>NULL\<close> on no rows, which \<^verbatim>\<open>int(x or 0)\<close> turns into 0.\<close>

definition max_or_0 :: "int list \<Rightarrow> int" where
  "max_or_0 xs = (if xs = [] then 0 else Max (set xs))"

definition next_sort_order_sync :: "uuid \<Rightarrow> world \<Rightarrow> int" where
  "next_sort_order_sync pid w =
     max (max (max_or_0 (map doc_sort_order (filter (\<lambda>d. doc_project_id d = pid) (documents w))))
              (max_or_0 (map aud_sort_order (filter (\<lambda>a. aud_project_id a = pid) (audios w))))) (-1) + 1"

definition mark_source_pending_sync :: "source_kind \<Rightarrow> uuid \<Rightarrow> int option \<Rightarrow> world \<Rightarrow> world" where
  "mark_source_pending_sync kind i ord w =
     (case kind of
        Document \<Rightarrow> (case get_doc w i of None \<Rightarrow> w
          | Some d \<Rightarrow> upd_doc i (doc_pend (case ord of Some x \<Rightarrow> x
                | None \<Rightarrow> next_sort_order_sync (doc_project_id d) w)) w)
      | Audio \<Rightarrow> (case get_audio w i of None \<Rightarrow> w
          | Some a \<Rightarrow> upd_audio i (aud_pend (case ord of Some x \<Rightarrow> x
                | None \<Rightarrow> next_sort_order_sync (aud_project_id a) w)) w))"

section \<open>Picking\<close>

record pending_source =
  ps_kind :: source_kind
  ps_id :: uuid
  ps_sort_order :: int
  ps_created_at :: time

definition pending_doc :: "source_document \<Rightarrow> pending_source" where
  "pending_doc d = \<lparr>ps_kind = Document, ps_id = doc_id d, ps_sort_order = doc_sort_order d,
     ps_created_at = doc_created_at d\<rparr>"

definition pending_aud :: "source_audio \<Rightarrow> pending_source" where
  "pending_aud a = \<lparr>ps_kind = Audio, ps_id = aud_id a, ps_sort_order = aud_sort_order a,
     ps_created_at = aud_created_at a\<rparr>"

definition ps_key :: "pending_source \<Rightarrow> int \<times> time" where
  "ps_key p = (ps_sort_order p, ps_created_at p)"

definition pick_pending_project_sources_sync :: "uuid \<Rightarrow> nat \<Rightarrow> world \<Rightarrow> pending_source list" where
  "pick_pending_project_sources_sync pid limit w =
     (let docs = take (max (limit * 2) limit) (sort_key (\<lambda>d. (doc_sort_order d, doc_created_at d))
            (filter (\<lambda>d. doc_project_id d = pid \<and> doc_status d = SP_PENDING) (documents w)));
          auds = take (max (limit * 2) limit) (sort_key (\<lambda>a. (aud_sort_order a, aud_created_at a))
            (filter (\<lambda>a. aud_project_id a = pid \<and> aud_status a = SP_PENDING) (audios w)))
      in take limit (sort_key ps_key (map pending_doc docs @ map pending_aud auds)))"

definition doc_start :: "time \<Rightarrow> source_document \<Rightarrow> source_document" where
  "doc_start now d = d\<lparr>doc_status := SP_PROCESSING, doc_started_at := Some now\<rparr>"

definition aud_start :: "time \<Rightarrow> source_audio \<Rightarrow> source_audio" where
  "aud_start now a = a\<lparr>aud_status := SP_PROCESSING, aud_started_at := Some now\<rparr>"

definition mark_project_source_processing :: "pending_source \<Rightarrow> world \<Rightarrow> world" where
  "mark_project_source_processing item w =
     (case ps_kind item of
        Document \<Rightarrow> upd_doc (ps_id item) (doc_start (clock w)) w
      | Audio \<Rightarrow> upd_audio (ps_id item) (aud_start (clock w)) w)"

section \<open>Finalisation\<close>

text \<open>
  \<^verbatim>\<open>from ... import name\<close> inside a function raises \<^verbatim>\<open>ImportError\<close> when the module binds no such
  name. These are the names \<^verbatim>\<open>app/services/research_project_aggregation_service.py\<close> binds.
\<close>

definition aggregation_module_names :: "string list" where
  "aggregation_module_names = [''annotations'', ''Counter'', ''defaultdict'', ''Any'', ''UUID'', ''func'',
     ''or_'', ''select'', ''Session'', ''PERIOD_KEY_ALL_TIME'', ''SNAPSHOT_TYPE_RESEARCH_ENTITIES'',
     ''ExtractedEntity'', ''upsert_aggregation_snapshot_sync'', ''deduplicate_project_entities_sync'',
     ''_confidence_bucket'', ''ResearchAggregationService'']"

definition import_name :: "string \<Rightarrow> string list \<Rightarrow> pystr + string" where
  "import_name n names = (if n \<in> set names then Inr n else Inl (u ''ImportError''))"

text \<open>Any exception is logged and dropped.\<close>

definition aggregate_project_after_source :: "env \<Rightarrow> uuid \<Rightarrow> world \<Rightarrow> world" where
  "aggregate_project_after_source env pid w =
     (case import_name ''ResearchProjectAggregationService'' aggregation_module_names of
        Inl e \<Rightarrow> w
      | Inr cls \<Rightarrow> snd (aggregate_project_sync env pid w))"

definition maybe_finalize_project_queue_idle :: "uuid \<Rightarrow> world \<Rightarrow> world" where
  "maybe_finalize_project_queue_idle pid w =
     (if project_queue_has_active_work (fetch_project_queue_summary_sync pid w) then w
      else invalidate_project_llm_cache_sync pid w)"

definition doc_finish :: "bool \<Rightarrow> pystr \<Rightarrow> time \<Rightarrow> source_document \<Rightarrow> source_document" where
  "doc_finish ok err now d =
     (if ok then d\<lparr>doc_status := SP_COMPLETED, doc_completed_at := Some now, doc_last_error := None\<rparr>
      else d\<lparr>doc_status := SP_FAILED, doc_last_error := Some (take 8000 err), doc_completed_at := Some now\<rparr>)"

definition aud_finish :: "bool \<Rightarrow> pystr \<Rightarrow> time \<Rightarrow> source_audio \<Rightarrow> source_audio" where
  "aud_finish ok err now a =
     (if ok then a\<lparr>aud_status := SP_COMPLETED, aud_completed_at := Some now, aud_last_error := None\<rparr>
      else a\<lparr>aud_status := SP_FAILED, aud_last_error := Some (take 8000 err), aud_completed_at := Some now\<rparr>)"

definition after_finish :: "env \<Rightarrow> bool \<Rightarrow> uuid \<Rightarrow> world \<Rightarrow> unit outcome" where
  "after_finish env ok pid w =
     (let w1 = (if ok then aggregate_project_after_source env pid w else w)
      in schedule_project_processing env pid None (maybe_finalize_project_queue_idle pid w1))"

definition maybe_finalize_project_after_document_pipeline ::
    "env \<Rightarrow> uuid \<Rightarrow> bool \<Rightarrow> pystr option \<Rightarrow> world \<Rightarrow> unit outcome" where
  "maybe_finalize_project_after_document_pipeline env did ok err w =
     (if \<not> project_queue_enabled (conf env) then (Inr (), w)
      else case get_doc w did of
        None \<Rightarrow> (Inr (), w)
      | Some d \<Rightarrow>
          if doc_status d \<notin> {SP_PENDING, SP_PROCESSING} then (Inr (), w)
          else after_finish env ok (doc_project_id d)
                 (upd_doc did (doc_finish ok (str_or err (u ''pipeline_failed'')) (clock w)) w))"

definition maybe_finalize_project_after_audio_failure ::
    "env \<Rightarrow> uuid \<Rightarrow> pystr \<Rightarrow> world \<Rightarrow> unit outcome" where
  "maybe_finalize_project_after_audio_failure env aid err w =
     (if \<not> project_queue_enabled (conf env) then (Inr (), w)
      else case get_audio w aid of
        None \<Rightarrow> (Inr (), w)
      | Some a \<Rightarrow>
          if aud_status a \<notin> {SP_PENDING, SP_PROCESSING} then (Inr (), w)
          else after_finish env False (aud_project_id a)
                 (upd_audio aid (aud_finish False (str_or (Some err) (u ''audio_pipeline_failed'')) (clock w)) w))"

definition maybe_finalize_project_after_audio_extract_outcome ::
    "env \<Rightarrow> uuid \<Rightarrow> bool \<Rightarrow> pystr option \<Rightarrow> world \<Rightarrow> unit outcome" where
  "maybe_finalize_project_after_audio_extract_outcome env tid ok err w =
     (if \<not> project_queue_enabled (conf env) then (Inr (), w)
      else case get_transcript w tid of
        None \<Rightarrow> (Inr (), w)
      | Some tr \<Rightarrow>
        (case get_audio w (tr_audio_id tr) of
          None \<Rightarrow> (Inr (), w)
        | Some a \<Rightarrow>
            if aud_status a \<notin> {SP_PENDING, SP_PROCESSING} then (Inr (), w)
            else after_finish env ok (aud_project_id a)
                   (upd_audio (tr_audio_id tr) (aud_finish ok
                      (str_or err (u ''transcript_extraction_failed'')) (clock w)) w)))"

definition doc_requeue :: "pystr \<Rightarrow> source_document \<Rightarrow> source_document" where
  "doc_requeue reason d = d\<lparr>doc_status := SP_PENDING,
     doc_last_error := Some (take 8000 (str_or (Some reason) (u ''document_pipeline_busy''))),
     doc_started_at := None\<rparr>"

definition requeue_project_document_pipeline ::
    "env \<Rightarrow> uuid \<Rightarrow> pystr \<Rightarrow> nat \<Rightarrow> world \<Rightarrow> unit outcome" where
  "requeue_project_document_pipeline env did reason countdown w =
     (if \<not> project_queue_enabled (conf env) then (Inr (), w)
      else case get_doc w did of
        None \<Rightarrow> (Inr (), w)
      | Some d \<Rightarrow>
          if doc_status d \<noteq> SP_PROCESSING then (Inr (), w)
          else schedule_project_processing env (doc_project_id d) (Some countdown)
                 (upd_doc did (doc_requeue reason) w))"

text \<open>What the document task returned: its status and its error, if it names one.\<close>

record task_result =
  tk_status :: pystr
  tk_error :: "pystr option"

definition busy_reason :: pystr where
  "busy_reason = u ''document pipeline is already running; queued retry''"

definition finalize_project_document_pipeline_task_result ::
    "env \<Rightarrow> uuid \<Rightarrow> task_result \<Rightarrow> world \<Rightarrow> unit outcome" where
  "finalize_project_document_pipeline_task_result env did r w =
     (if tk_status r = u ''missing'' then
        maybe_finalize_project_after_document_pipeline env did False (Some (u ''source_document_missing'')) w
      else if tk_status r = u ''already_processing'' then
        requeue_project_document_pipeline env did busy_reason 30 w
      else maybe_finalize_project_after_document_pipeline env did (tk_status r = u ''ok'') (tk_error r) w)"

section \<open>The drain task\<close>

datatype drain_result = Skipped_locked | Drain_idle | Dispatched nat nat nat

fun dispatch_pending :: "env \<Rightarrow> pending_source list \<Rightarrow> nat \<Rightarrow> nat \<Rightarrow> world \<Rightarrow> (nat \<times> nat) outcome" where
  "dispatch_pending env [] nd na w = (Inr (nd, na), w)"
| "dispatch_pending env (p # ps) nd na w =
     (case ps_kind p of
        Document \<Rightarrow>
          (case send env (Pipeline_document (ps_id p)) None w of
             (Inr _, w1) \<Rightarrow> dispatch_pending env ps (nd + 1) na w1
           | (Inl e, w1) \<Rightarrow> and_then
               (maybe_finalize_project_after_document_pipeline env (ps_id p) False (Some (repr_exc e)) w1)
               (\<lambda>_. dispatch_pending env ps nd na))
      | Audio \<Rightarrow>
          (case send env (Transcribe_full (ps_id p)) None w of
             (Inr _, w1) \<Rightarrow> dispatch_pending env ps nd (na + 1) w1
           | (Inl e, w1) \<Rightarrow> and_then
               (maybe_finalize_project_after_audio_failure env (ps_id p) (repr_exc e) w1)
               (\<lambda>_. dispatch_pending env ps nd na)))"

text \<open>Without the queue every source is sent, and what cannot be sent is only logged.\<close>

fun send_all :: "env \<Rightarrow> task list \<Rightarrow> nat \<Rightarrow> world \<Rightarrow> nat \<times> world" where
  "send_all env [] n w = (n, w)"
| "send_all env (t # ts) n w =
     (case send env t None w of (Inr _, w1) \<Rightarrow> send_all env ts (n + 1) w1
                             | (Inl _, w1) \<Rightarrow> send_all env ts n w1)"

definition legacy_fan_out_all :: "env \<Rightarrow> uuid \<Rightarrow> world \<Rightarrow> drain_result outcome" where
  "legacy_fan_out_all env pid w =
     (let dids = map doc_id (filter (\<lambda>d. doc_project_id d = pid) (documents w));
          aids = map aud_id (filter (\<lambda>a. aud_project_id a = pid) (audios w))
      in if dids = [] \<and> aids = [] then (Inr Drain_idle, w)
         else (let (nd, w1) = send_all env (map Pipeline_document dids) 0 w;
                   (na, w2) = send_all env (map Transcribe_full aids) 0 w1
               in (Inr (Dispatched (length dids + length aids) nd na), w2)))"

definition drain_project :: "env \<Rightarrow> uuid \<Rightarrow> world \<Rightarrow> drain_result outcome" where
  "drain_project env pid w =
     (let pending = pick_pending_project_sources_sync pid (project_queue_concurrency (conf env)) w;
          w1 = fold mark_project_source_processing pending w
      in if pending = [] then (Inr Drain_idle, w1)
         else and_then (dispatch_pending env pending 0 0 w1)
                (\<lambda>(nd, na) w2. (Inr (Dispatched (length pending) nd na), w2)))"

text \<open>
  \<open>conn\<close> and \<open>conn'\<close> say how Redis answers when the lock is taken and when the \<^verbatim>\<open>finally\<close> clause
  gives it back, which happens whether the drain returns or raises.
\<close>

definition process_project_processing_queue ::
    "env \<Rightarrow> redis_conn \<Rightarrow> redis_conn \<Rightarrow> pystr \<Rightarrow> uuid \<Rightarrow> world \<Rightarrow> drain_result outcome" where
  "process_project_processing_queue env conn conn' tok pid w =
     (if \<not> project_queue_enabled (conf env) then legacy_fan_out_all env pid w
      else let (lk, w1) = try_acquire_project_queue_lock conn tok pid w in
        if \<not> acquired lk then
          (if busy lk then and_then (schedule_project_processing env pid (Some 5) w1)
                             (\<lambda>_ w2. (Inr Skipped_locked, w2))
           else (Inr Skipped_locked, w1))
        else (case drain_project env pid w1 of
                (r, w2) \<Rightarrow> (r, release_project_queue_lock conn' pid (token lk) w2)))"

section \<open>Interpretations\<close>

interpretation project_lock: queue_lock try_acquire_project_queue_lock
  release_project_queue_lock "\<lambda>q. (PROJECT_QUEUE_LOCK_PREFIX, q)"
  by unfold_locales (auto simp: try_acquire_project_queue_lock_def release_project_queue_lock_def
      Let_def split: redis_conn.splits)

interpretation doc_rows: status_table doc_id doc_status doc_start
  by unfold_locales (simp_all add: doc_start_def)

interpretation aud_rows: status_table aud_id aud_status aud_start
  by unfold_locales (simp_all add: aud_start_def)

section \<open>Properties of the summary and the picks\<close>

definition in_state :: "source_status \<Rightarrow> status_row \<Rightarrow> bool" where
  "in_state s row \<longleftrightarrow> norm_status (fst row) = source_status_value s"

lemma source_status_value_eq [simp]: "source_status_value a = source_status_value b \<longleftrightarrow> a = b"
  by (cases a; cases b) (simp_all add: u_def)

definition q_total :: "queue_summary \<Rightarrow> nat" where
  "q_total q = q_idle q + q_pending q + q_processing q + q_completed q + q_failed q"

definition current_of :: "status_row list \<Rightarrow> (source_kind \<times> uuid) list" where
  "current_of rows = concat (map (\<lambda>(raw, rid, kind). case rid of Some i \<Rightarrow> [(kind, i)] | None \<Rightarrow> [])
     (filter (in_state SP_PROCESSING) rows))"

lemma project_summary_step_sel:
  "q_pending (project_summary_step r q) = q_pending q + (if in_state SP_PENDING r then 1 else 0)"
  "q_processing (project_summary_step r q) = q_processing q + (if in_state SP_PROCESSING r then 1 else 0)"
  "q_completed (project_summary_step r q) = q_completed q + (if in_state SP_COMPLETED r then 1 else 0)"
  "q_failed (project_summary_step r q) = q_failed q + (if in_state SP_FAILED r then 1 else 0)"
  "q_total (project_summary_step r q) = q_total q + 1"
  "q_current (project_summary_step r q) = q_current q @ current_of [r]"
  by (cases r; cases "fst (snd r)"; simp add: project_summary_step_def in_state_def Let_def q_total_def
      current_of_def del: source_status_value.simps)+

lemma project_summary_fold:
  "q_pending (fold project_summary_step rows q) = q_pending q + length (filter (in_state SP_PENDING) rows)"
  "q_processing (fold project_summary_step rows q) = q_processing q + length (filter (in_state SP_PROCESSING) rows)"
  "q_completed (fold project_summary_step rows q) = q_completed q + length (filter (in_state SP_COMPLETED) rows)"
  "q_failed (fold project_summary_step rows q) = q_failed q + length (filter (in_state SP_FAILED) rows)"
  "q_total (fold project_summary_step rows q) = q_total q + length rows"
  by (induction rows arbitrary: q) (simp_all add: project_summary_step_sel)

lemma project_summary_current:
  "q_current (fold project_summary_step rows q) = q_current q @ current_of rows"
proof (induction rows arbitrary: q)
  case (Cons r rows)
  have "current_of (r # rows) = current_of [r] @ current_of rows" by (simp add: current_of_def)
  then show ?case by (simp add: Cons project_summary_step_sel del: append_assoc)
qed (simp add: current_of_def)

lemma empty_summary_sel [simp]:
  "q_pending empty_summary = 0" "q_processing empty_summary = 0" "q_completed empty_summary = 0"
  "q_failed empty_summary = 0" "q_total empty_summary = 0" "q_current empty_summary = []"
  by (simp_all add: empty_summary_def q_total_def)

text \<open>
  The queue summary counts every source exactly once: the five counts add up to the number of
  rows, each of pending, processing, completed and failed is the number of rows whose status reads
  as that (anything unknown counts as idle), and the processing sources with a proper id are listed
  in order with their kind.
\<close>

theorem project_summary_counts:
  "let q = compute_project_queue_summary rows in
     q_total q = length rows
     \<and> q_pending q = length (filter (in_state SP_PENDING) rows)
     \<and> q_processing q = length (filter (in_state SP_PROCESSING) rows)
     \<and> q_completed q = length (filter (in_state SP_COMPLETED) rows)
     \<and> q_failed q = length (filter (in_state SP_FAILED) rows)
     \<and> q_current q = current_of rows"
  by (simp add: compute_project_queue_summary_def project_summary_fold project_summary_current Let_def)

lemma in_state_rows [simp]:
  "in_state s (doc_status_row d) \<longleftrightarrow> doc_status d = s"
  "in_state s (aud_status_row a) \<longleftrightarrow> aud_status a = s"
proof -
  have "norm_status (Some (source_status_value x)) = source_status_value x" for x
    by (cases x; simp only:; code_simp)
  then show "in_state s (doc_status_row d) \<longleftrightarrow> doc_status d = s"
    "in_state s (aud_status_row a) \<longleftrightarrow> aud_status a = s"
    by (simp_all add: in_state_def doc_status_row_def aud_status_row_def)
qed

definition active :: "source_status \<Rightarrow> bool" where
  "active s \<longleftrightarrow> s = SP_PENDING \<or> s = SP_PROCESSING"

definition project_active :: "uuid \<Rightarrow> world \<Rightarrow> bool" where
  "project_active pid w \<longleftrightarrow>
     list_ex (\<lambda>d. doc_project_id d = pid \<and> active (doc_status d)) (documents w) \<or>
     list_ex (\<lambda>a. aud_project_id a = pid \<and> active (aud_status a)) (audios w)"

lemma active_work_iff:
  "project_queue_has_active_work (fetch_project_queue_summary_sync pid w) \<longleftrightarrow> project_active pid w"
proof -
  define rows where "rows = map doc_status_row (filter (\<lambda>d. doc_project_id d = pid) (documents w)) @
        map aud_status_row (filter (\<lambda>a. aud_project_id a = pid) (audios w))"
  have "project_queue_has_active_work (compute_project_queue_summary rows)
    \<longleftrightarrow> (\<exists>r \<in> set rows. in_state SP_PENDING r \<or> in_state SP_PROCESSING r)"
    by (auto simp: project_queue_has_active_work_def compute_project_queue_summary_def
        project_summary_fold filter_empty_conv)
  then show ?thesis
    by (auto simp: rows_def fetch_project_queue_summary_sync_def project_active_def active_def
        list_ex_iff bex_Un)
qed

definition pending_sources :: "uuid \<Rightarrow> world \<Rightarrow> pending_source list" where
  "pending_sources pid w =
     map pending_doc (filter (\<lambda>d. doc_project_id d = pid \<and> doc_status d = SP_PENDING) (documents w)) @
     map pending_aud (filter (\<lambda>a. aud_project_id a = pid \<and> aud_status a = SP_PENDING) (audios w))"

lemma pick_global_order:
  "pick_pending_project_sources_sync pid limit w = take limit (sort_key ps_key (pending_sources pid w))"
proof -
  have k: "(\<lambda>d. (doc_sort_order d, doc_created_at d)) = ps_key \<circ> pending_doc"
    "(\<lambda>a. (aud_sort_order a, aud_created_at a)) = ps_key \<circ> pending_aud"
    by (auto simp: ps_key_def pending_doc_def pending_aud_def)
  show ?thesis
    unfolding pick_pending_project_sources_sync_def pending_sources_def k Let_def
      take_map [symmetric] sort_key_map [symmetric]
    by (rule take_sort_key_prefetch) simp
qed

text \<open>
  C6. Although each query prefetches only \<^verbatim>\<open>limit * 2\<close> rows and the two results are merged in
  Python, picking returns exactly the first \<open>limit\<close> of all pending documents and audios of the
  project in queue order (sort order, then creation time, documents first on ties).
\<close>

theorem pick_is_global_order:
  "pick_pending_project_sources_sync pid limit w = take limit (sort_key ps_key (pending_sources pid w))"
  by (rule pick_global_order)

section \<open>Properties of the lock\<close>

text \<open>
  C5. While no lock outlives its six hours, at most one of the workers that hold a lock drains a
  project, whatever Redis does to the workers around them: after any run of workers taking and
  giving back locks, with Redis up or down at each call, the projects drained under a lock are
  distinct. A worker drains without a lock only when Redis failed it: if Redis answered every
  worker that asked for a lock, the projects under drain are distinct altogether.
\<close>

theorem project_queue_mutual_exclusion:
  assumes "list_all no_expiry evs"
  shows "let hs = snd (lock_run try_acquire_project_queue_lock release_project_queue_lock
                    (\<lambda>q. (PROJECT_QUEUE_LOCK_PREFIX, q)) evs (w, []))
     in distinct (map fst (filter (\<lambda>(q, t). t \<noteq> []) hs)) \<and>
        (list_all redis_answers evs \<longrightarrow> distinct (map fst hs))"
  using project_lock.mutual_exclusion [OF assms] unfolding Let_def locked_workers_def by blast

theorem project_queue_mutual_exclusion_witness:
  "let evs = [Take Redis_ok (u ''a'') 7, Take Redis_ok (u ''b'') 7, Take Redis_ok (u ''c'') 8,
              Give Command_fails (u ''a'') 7];
       hs = snd (lock_run try_acquire_project_queue_lock release_project_queue_lock
              (\<lambda>q. (PROJECT_QUEUE_LOCK_PREFIX, q)) evs (empty_world, []))
   in list_all redis_answers evs \<and> distinct (map fst hs)"
  using project_queue_mutual_exclusion [of "[Take Redis_ok (u ''a'') 7, Take Redis_ok (u ''b'') 7,
    Take Redis_ok (u ''c'') 8, Give Command_fails (u ''a'') 7]" empty_world]
  by (simp add: Let_def)

text \<open>
  When Redis fails, two workers drain one project at the same time: each is told that it may go
  on, with no token, and nothing is stored that would stop the other.
\<close>

lemma project_queue_drained_twice_without_redis:
  "lock_run try_acquire_project_queue_lock release_project_queue_lock
     (\<lambda>q. (PROJECT_QUEUE_LOCK_PREFIX, q)) [Take Command_fails t q, Take Command_fails t' q] (w, [])
   = (w, [(q, []), (q, [])])"
  by (rule project_lock.degraded_workers) simp

end
