(* ===== verification/Chunking.thy ===== *)
theory Chunking
  imports Prelude
begin

text \<open>
  Fixed-size chunking (\<^verbatim>\<open>app/services/chunking_service.py\<close>): a text is cut into windows of at
  most \<open>max_chars\<close> characters that overlap by \<open>overlap_chars\<close>, a window ending at its last
  blank or line break when that is not too early. The interface \<open>text_chunker\<close> says what the
  rest of the pipeline relies on in a chunker; \<open>ChunkingService.chunk_text\<close> is one.
\<close>

section \<open>The service\<close>

record chunking_service =
  max_chars :: nat
  overlap_chars :: nat

text \<open>The constructor, which clamps its arguments; Python's integers are \<open>int\<close>.\<close>

definition chunking_service_init :: "int \<Rightarrow> int \<Rightarrow> chunking_service" where
  "chunking_service_init mc oc =
     (let m = max 1 mc; ov = max 0 oc;
          ov' = (if ov \<ge> m then max 0 (m - 1) else ov)
      in \<lparr>max_chars = nat m, overlap_chars = nat ov'\<rparr>)"

definition chunk_ws :: "nat \<Rightarrow> bool" where
  "chunk_ws c \<longleftrightarrow> c = 32 \<or> c = 10 \<or> c = 9 \<or> c = 13"

text \<open>
  The inner \<^verbatim>\<open>while next_start < n and text[next_start] in " \n\t\r"\<close>: it moves past the run of
  those four characters that starts at \<open>i\<close>.
\<close>

definition skip_ws :: "pystr \<Rightarrow> nat \<Rightarrow> nat" where
  "skip_ws text i = i + length (takeWhile chunk_ws (drop i text))"

text \<open>Where the window that starts at \<open>start\<close> ends.\<close>

definition window_end :: "nat \<Rightarrow> pystr \<Rightarrow> nat \<Rightarrow> nat" where
  "window_end max_c text start =
     (let n = length text;
          min_break = max 1 (max_c * 4 div 10);
          end0 = min n (start + max_c);
          segment = slice text start end0;
          brk = max (rfind 32 segment) (rfind 10 segment)
      in if end0 < n \<and> brk \<ge> int min_break then start + nat brk else end0)"

text \<open>
  The outer loop. Truncated subtraction in \<open>en - ov\<close> stands for Python's possibly negative
  \<^verbatim>\<open>end - ov\<close>: both are at most \<open>start\<close> when it is negative, and then \<open>start + 1\<close> is used. The
  guard \<open>0 < max_c\<close> holds for every service (\<open>init_wf\<close> below); it is what makes the loop stop.
\<close>

function chunk_loop :: "nat \<Rightarrow> nat \<Rightarrow> pystr \<Rightarrow> nat \<Rightarrow> pystr list" where
  "chunk_loop max_c ov text start =
     (let n = length text in
      if start < n \<and> 0 < max_c then
        (let en = window_end max_c text start;
             piece = strip (slice text start en) in
         if piece = [] \<and> en < n then chunk_loop max_c ov text (min n (start + max_c))
         else (if piece \<noteq> [] then [piece] else []) @
              (if en \<ge> n then []
               else (let next0 = en - ov;
                         next1 = (if next0 \<le> start then start + 1 else next0);
                         next2 = skip_ws text next1 in
                     if next2 \<ge> n then []
                     else chunk_loop max_c ov text
                            (if next2 \<le> start then min n (start + max_c) else next2))))
      else [])"
  by pat_completeness auto
termination
  by (relation "measure (\<lambda>(max_c, ov, text, start). length text - start)") auto

declare chunk_loop.simps [simp del]

definition chunk_text :: "chunking_service \<Rightarrow> pystr option \<Rightarrow> pystr list" where
  "chunk_text svc t =
     (let text = strip (text_of t) in
      if text = [] then []
      else if length text \<le> max_chars svc then [text]
      else chunk_loop (max_chars svc) (overlap_chars svc) text 0)"

section \<open>Windows\<close>

definition service_wf :: "chunking_service \<Rightarrow> bool" where
  "service_wf svc \<longleftrightarrow> 1 \<le> max_chars svc \<and> overlap_chars svc < max_chars svc"

lemma init_wf: "service_wf (chunking_service_init mc oc)"
  by (auto simp: service_wf_def chunking_service_init_def Let_def)

lemma window_end_bounds:
  assumes "start < length tx" and "0 < max_c"
  shows "start < window_end max_c tx start" "window_end max_c tx start \<le> start + max_c"
    "window_end max_c tx start \<le> length tx"
proof -
  let ?seg = "slice tx start (min (length tx) (start + max_c))"
  have "rfind c ?seg < int (length ?seg)" for c
    using rfind_less [of c ?seg] assms by (auto simp: slice_def)
  then have "max (rfind 32 ?seg) (rfind 10 ?seg) < int (length ?seg)" by simp
  moreover have "length ?seg \<le> max_c" "start + length ?seg \<le> length tx"
    using assms by auto
  ultimately show "start < window_end max_c tx start"
    "window_end max_c tx start \<le> start + max_c" "window_end max_c tx start \<le> length tx"
    using assms by (auto simp: window_end_def Let_def)
qed

lemma skip_ws_ge: "i \<le> skip_ws tx i"
  by (simp add: skip_ws_def)

lemma skip_ws_run: "i \<le> j \<Longrightarrow> j < skip_ws tx i \<Longrightarrow> j < length tx \<and> chunk_ws (tx ! j)"
proof -
  assume j: "i \<le> j" "j < skip_ws tx i"
  then have l: "j - i < length (takeWhile chunk_ws (drop i tx))" by (simp add: skip_ws_def)
  then have "chunk_ws (takeWhile chunk_ws (drop i tx) ! (j - i))"
    by (meson nth_mem set_takeWhileD)
  moreover have "j - i < length (drop i tx)" using l length_takeWhile_le order_less_le_trans by blast
  ultimately show ?thesis using l j by (simp add: takeWhile_nth)
qed

lemma skip_ws_stop: "skip_ws tx i < length tx \<Longrightarrow> \<not> chunk_ws (tx ! skip_ws tx i)"
  using nth_length_takeWhile [of chunk_ws "drop i tx"] by (simp add: skip_ws_def)

lemma chunk_ws_space: "chunk_ws c \<Longrightarrow> is_space c"
  by (auto simp: chunk_ws_def is_space_def)

section \<open>What the chunks are\<close>

definition piece_of :: "nat \<Rightarrow> pystr \<Rightarrow> pystr \<Rightarrow> bool" where
  "piece_of m tx p \<longleftrightarrow> p \<noteq> [] \<and> length p \<le> m \<and> strip p = p
     \<and> (\<exists>j. j + length p \<le> length tx \<and> p = slice tx j (j + length p))"

definition covers :: "pystr \<Rightarrow> pystr list \<Rightarrow> nat \<Rightarrow> bool" where
  "covers tx ps i \<longleftrightarrow>
     (\<exists>p \<in> set ps. \<exists>j \<le> i. i < j + length p \<and> j + length p \<le> length tx \<and> p = slice tx j (j + length p))"

lemma strip_slice_span:
  assumes "a \<le> b" "b \<le> length tx"
  obtains j k where "a \<le> j" "j + k \<le> b" "strip (slice tx a b) = slice tx j (j + k)"
    "\<And>i. a \<le> i \<Longrightarrow> i < b \<Longrightarrow> \<not> is_space (tx ! i) \<Longrightarrow> j \<le> i \<and> i < j + k"
proof -
  let ?s = "slice tx a b"
  obtain x k where x: "x + k \<le> length ?s" "strip ?s = slice ?s x (x + k)"
    "\<forall>i < length ?s. \<not> is_space (?s ! i) \<longrightarrow> x \<le> i \<and> i < x + k"
    using strip_span by blast
  have len: "length ?s = b - a" using assms by simp
  have b: "b = a + (b - a)" using assms by simp
  have "strip ?s = slice tx (a + x) (a + x + k)"
    using x(1,2) len slice_slice [of x k "b - a" tx a] b by simp
  moreover have "a + x \<le> i \<and> i < a + x + k" if "a \<le> i" "i < b" "\<not> is_space (tx ! i)" for i
  proof -
    have "?s ! (i - a) = tx ! i" using that assms by simp
    then have "x \<le> i - a \<and> i - a < x + k"
      using x(3) [rule_format, of "i - a"] that len by (metis diff_less_mono)
    then show ?thesis using that by auto
  qed
  moreover have "a + x + k \<le> b" using x(1) len assms by simp
  ultimately show ?thesis using that [of "a + x" k] by auto
qed

lemma strip_slice_piece:
  assumes "a \<le> b" "b \<le> length tx" "b \<le> a + m" "strip (slice tx a b) \<noteq> []"
  shows "piece_of m tx (strip (slice tx a b))"
proof -
  obtain j k where jk: "a \<le> j" "j + k \<le> b" "strip (slice tx a b) = slice tx j (j + k)"
    using strip_slice_span [OF assms(1,2)] by metis
  have "length (strip (slice tx a b)) = k" using jk assms by simp
  then show ?thesis unfolding piece_of_def
    using jk assms(2-4) strip_strip [of "slice tx a b"] by (intro conjI exI [of _ j]) auto
qed

lemma strip_slice_covers:
  assumes "a \<le> i" "i < b" "b \<le> length tx" "\<not> is_space (tx ! i)"
    "strip (slice tx a b) \<in> set ps"
  shows "covers tx ps i"
proof -
  obtain j k where jk: "j + k \<le> b" "strip (slice tx a b) = slice tx j (j + k)"
    "j \<le> i \<and> i < j + k"
    using strip_slice_span [of a b tx] assms(1-4) by (metis le_less_trans less_imp_le)
  have "length (slice tx j (j + k)) = k" using jk assms(3) by simp
  then show ?thesis unfolding covers_def
    using jk assms(3,5) by (intro bexI [of _ "slice tx j (j + k)"] exI [of _ j]) auto
qed

lemma covers_append: "covers tx (ps @ qs) i \<longleftrightarrow> covers tx ps i \<or> covers tx qs i"
  by (auto simp: covers_def)

lemma chunk_loop_pieces: "p \<in> set (chunk_loop max_c ov tx start) \<Longrightarrow> piece_of max_c tx p"
proof (induction max_c ov tx start rule: chunk_loop.induct)
  case (1 max_c ov tx start)
  show ?case
  proof (cases "start < length tx \<and> 0 < max_c")
    case False
    then show ?thesis using "1.prems"
      by (auto simp: chunk_loop.simps [of max_c ov tx start] Let_def)
  next
    case True
    let ?en = "window_end max_c tx start"
    let ?pc = "strip (slice tx start ?en)"
    note w = window_end_bounds [of start tx max_c]
    have pc: "?pc \<noteq> [] \<Longrightarrow> piece_of max_c tx ?pc"
      using True w by (intro strip_slice_piece) auto
    note IH = "1.IH" [OF refl True refl refl]
    show ?thesis
      using "1.prems" True pc IH(1) IH(2) [OF _ _ refl refl refl]
      by (auto simp: chunk_loop.simps [of max_c ov tx start] Let_def split: if_splits)
  qed
qed

text \<open>
  If every white-space character of the tx is one of the four the loop skips, a window never
  starts with a blank, so no window is thrown away and nothing is lost between windows.
\<close>

lemma chunk_loop_covers:
  "\<lbrakk>\<forall>c \<in> set tx. is_space c \<longrightarrow> chunk_ws c; 0 < max_c; start < length tx;
     \<not> is_space (tx ! start); start \<le> i; i < length tx; \<not> is_space (tx ! i)\<rbrakk>
   \<Longrightarrow> covers tx (chunk_loop max_c ov tx start) i"
proof (induction max_c ov tx start rule: chunk_loop.induct)
  case (1 max_c ov tx start)
  let ?en = "window_end max_c tx start"
  let ?pc = "strip (slice tx start ?en)"
  let ?n1 = "if ?en - ov \<le> start then start + 1 else ?en - ov"
  let ?n2 = "skip_ws tx ?n1"
  note g = "1.prems"
  have w: "start < ?en" "?en \<le> length tx" using window_end_bounds [of start tx max_c] g by auto
  have pc: "?pc \<noteq> []"
    using g w nth_mem [of 0 "slice tx start ?en"] by (auto simp: strip_eq_Nil_iff)
  have eq: "chunk_loop max_c ov tx start = [?pc] @ (if ?en \<ge> length tx then []
      else if ?n2 \<ge> length tx then []
      else chunk_loop max_c ov tx (if ?n2 \<le> start then min (length tx) (start + max_c) else ?n2))"
    using g pc by (simp add: chunk_loop.simps [of max_c ov tx start] Let_def)
  have n1: "start < ?n1" "?n1 \<le> ?en" using w by auto
  show ?case
  proof (cases "i < ?en")
    case True
    then have "covers tx [?pc] i" using g w by (intro strip_slice_covers) auto
    then show ?thesis unfolding eq covers_append by simp
  next
    case False
    have ge: "?n2 \<le> i"
    proof (rule ccontr)
      assume "\<not> ?n2 \<le> i"
      then have "chunk_ws (tx ! i)" using skip_ws_run [of ?n1 i tx] False n1 by simp
      then show False using g chunk_ws_space by blast
    qed
    have lt: "?n2 < length tx" using ge g by simp
    have ns: "\<not> is_space (tx ! ?n2)" using skip_ws_stop [OF lt] g(1) lt by auto
    have gt: "start < ?n2" using n1 skip_ws_ge [of ?n1 tx] by simp
    have en: "\<not> length tx \<le> ?en" using False g by simp
    note IH = "1.IH"(2) [OF refl _ refl refl _ en refl refl refl]
    have "covers tx (chunk_loop max_c ov tx ?n2) i"
      using IH g lt ns ge gt pc by simp
    then show ?thesis unfolding eq covers_append using en lt gt by simp
  qed
qed

section \<open>The chunker interface\<close>

text \<open>
  What the pipeline relies on: blank text has no chunks, other text has at least one, and no
  chunk is blank. The clients below need no more, so they hold for any chunker.
\<close>

locale text_chunker =
  fixes chunk :: "pystr \<Rightarrow> pystr list"
  assumes blank: "strip t = [] \<Longrightarrow> chunk t = []"
    and some: "strip t \<noteq> [] \<Longrightarrow> chunk t \<noteq> []"
    and nonblank: "p \<in> set (chunk t) \<Longrightarrow> strip p \<noteq> []"
begin

lemma chunk_Nil_iff: "chunk t = [] \<longleftrightarrow> strip t = []"
  using blank some by blast

lemma chunk_count_pos: "strip t \<noteq> [] \<Longrightarrow> 0 < length (chunk t)"
  using some by blast

lemma chunk_pieces_have_text: "list_all (\<lambda>p. strip p \<noteq> []) (chunk t)"
  using nonblank by (simp add: list_all_iff)

end

lemma chunk_text_pieces_wf:
  assumes "service_wf svc" and "p \<in> set (chunk_text svc t)"
  shows "piece_of (max_chars svc) (strip (text_of t)) p"
proof (cases "strip (text_of t) = [] \<or> length (strip (text_of t)) \<le> max_chars svc")
  case True
  then show ?thesis using assms
    by (auto simp: chunk_text_def Let_def piece_of_def slice_def split: if_splits option.splits
        intro!: exI [of _ 0])
next
  case False
  then show ?thesis using assms
    by (auto simp: chunk_text_def Let_def chunk_loop_pieces split: if_splits)
qed

lemma stripped_first: "strip s \<noteq> [] \<Longrightarrow> \<not> is_space (strip s ! 0)"
  using strip_hd [of s] by (simp add: hd_conv_nth)

lemma chunk_loop_first:
  assumes "0 < max_c" "start < length tx" "\<not> is_space (tx ! start)"
  shows "chunk_loop max_c ov tx start \<noteq> []"
proof -
  have "strip (slice tx start (window_end max_c tx start)) \<noteq> []"
    using window_end_bounds [of start tx max_c] assms
      nth_mem [of 0 "slice tx start (window_end max_c tx start)"]
    by (auto simp: strip_eq_Nil_iff)
  then show ?thesis using assms by (simp add: chunk_loop.simps [of max_c ov tx start] Let_def)
qed

lemma chunk_text_Nil_iff:
  assumes "service_wf svc"
  shows "chunk_text svc t = [] \<longleftrightarrow> strip (text_of t) = []"
proof -
  have "chunk_loop (max_chars svc) (overlap_chars svc) s 0 \<noteq> []" if "s = strip (text_of t)" "s \<noteq> []" for s
    using that assms stripped_first chunk_loop_first by (auto simp: service_wf_def)
  then show ?thesis by (auto simp: chunk_text_def Let_def)
qed

interpretation fixed: text_chunker "\<lambda>t. chunk_text (chunking_service_init mc oc) (Some t)" for mc oc
proof
  fix t p
  assume "p \<in> set (chunk_text (chunking_service_init mc oc) (Some t))"
  then have "piece_of (max_chars (chunking_service_init mc oc)) (strip (text_of (Some t))) p"
    by (rule chunk_text_pieces_wf [OF init_wf])
  then show "strip p \<noteq> []" by (auto simp: piece_of_def)
qed (use chunk_text_Nil_iff [OF init_wf] in auto)

section \<open>Properties\<close>

text \<open>
  C9. Whatever the constructor was given, every chunk of a text is a non-empty, stripped,
  contiguous piece of the stripped text of at most \<open>max_chars\<close> characters.
\<close>

theorem chunk_text_pieces:
  "list_all (piece_of (nat (max 1 mc)) (strip (text_of t))) (chunk_text (chunking_service_init mc oc) t)"
proof -
  have "max_chars (chunking_service_init mc oc) = nat (max 1 mc)"
    by (simp add: chunking_service_init_def Let_def)
  then show ?thesis
    using chunk_text_pieces_wf [OF init_wf] unfolding list_all_iff by metis
qed

text \<open>
  C10. Chunking loses nothing when the text's only white space is blank, tab, line feed and
  carriage return: every other character of the stripped text lies in one of the chunks, at its
  own position.
\<close>

theorem chunk_text_covers:
  assumes "\<forall>c \<in> set (strip (text_of t)). is_space c \<longrightarrow> chunk_ws c"
    and "i < length (strip (text_of t))" and "\<not> is_space (strip (text_of t) ! i)"
  shows "covers (strip (text_of t)) (chunk_text (chunking_service_init mc oc) t) i"
proof (cases "length (strip (text_of t)) \<le> max_chars (chunking_service_init mc oc)")
  case True
  then show ?thesis using assms by (auto simp: chunk_text_def Let_def covers_def slice_def intro!: exI [of _ 0])
next
  case False
  have "0 < max_chars (chunking_service_init mc oc)"
    using init_wf [of mc oc] by (simp add: service_wf_def)
  then show ?thesis
    using False assms stripped_first chunk_loop_covers [OF assms(1), of _ 0 i]
    by (auto simp: chunk_text_def Let_def)
qed

theorem chunk_text_covers_witness:
  "covers (u ''ab cd ef'') (chunk_text (chunking_service_init 4 1) (Some (u ''ab cd ef''))) 6"
proof -
  have s: "strip (u ''ab cd ef'') = u ''ab cd ef''" by code_simp
  have "\<forall>c \<in> set (u ''ab cd ef''). is_space c \<longrightarrow> chunk_ws c" by code_simp
  moreover have "\<not> is_space (u ''ab cd ef'' ! 6)" by code_simp
  ultimately show ?thesis
    using chunk_text_covers [of "Some (u ''ab cd ef'')" 6 4 1] s by simp
qed

text \<open>
  Without that hypothesis text is lost: a window that starts with a no-break space and
  whose cut leaves only blanks is skipped whole, and the word behind the cut with it. Here ten
  letters, a no-break space and five blanks precede \<open>bbbb\<close>, of which no chunk has a letter.
\<close>

theorem chunk_text_drops_text:
  "let t = replicate 10 97 @ [160] @ replicate 5 32 @ replicate 4 98 @ [32] @ replicate 3 99;
       ps = chunk_text (chunking_service_init 10 0) (Some t)
   in 98 \<in> set t \<and> ps \<noteq> [] \<and> list_all (\<lambda>p. 98 \<notin> set p) ps"
  by code_simp

lemma chunk_text_empty: "chunk_text (chunking_service_init mc oc) t = [] \<longleftrightarrow> strip (text_of t) = []"
  by (cases t) (use fixed.chunk_Nil_iff in \<open>auto simp: chunk_text_def\<close>)

text \<open>
  A text has no chunks exactly when it is absent or blank.
\<close>

theorem chunk_text_empty_iff:
  "chunk_text (chunking_service_init mc oc) t = [] \<longleftrightarrow> strip (text_of t) = []"
  by (rule chunk_text_empty)

end
