(* ===== verification/Processing.thy ===== *)
theory Processing
  imports Project_Queue Chunking "HOL-Library.Word"
begin

text \<open>
  Transcription and chunking (\<^verbatim>\<open>processing_orchestrator_service.py\<close>,
  \<^verbatim>\<open>workers/tasks/research_processing.py\<close>) and the pipeline state kept on a document
  (\<^verbatim>\<open>research_document_pipeline_sync.py\<close>, \<^verbatim>\<open>batch_document_pipeline_recovery_service.py\<close>).
\<close>

section \<open>What the processing calls\<close>

text \<open>
  The outside world of the processing code: the transcription provider (its answer, or the
  exception it raises), semantic chunking by the language model, the entity extraction provider,
  the number read from the first eight hexadecimal digits of a SHA-256 digest, and the answer of
  PostgreSQL to \<^verbatim>\<open>pg_try_advisory_lock\<close>.
\<close>

record structured_transcript =
  st_full_text :: pystr
  st_language :: "pystr option"
  st_provider :: pystr
  st_segments :: "(rat \<times> rat \<times> pystr) list"

record services =
  sv_transcribe :: "source_audio \<Rightarrow> exc + structured_transcript"
  sv_semantic :: "pystr \<Rightarrow> exc + pystr list"
  sv_extract :: "pystr \<Rightarrow> nat \<Rightarrow> pystr option \<Rightarrow> exc + candidate list"
  sv_hash8 :: "pystr \<Rightarrow> nat"
  sv_postgres :: bool
  sv_pg_lock :: "uuid \<Rightarrow> bool"

section \<open>Deletions\<close>

text \<open>
  The foreign keys: \<^verbatim>\<open>ON DELETE CASCADE\<close> from a chunk or a transcript to its entities and from a
  transcript to its segments and chunks, \<^verbatim>\<open>ON DELETE SET NULL\<close> on the link to a canonical entity.
\<close>

definition delete_entities :: "(extracted_entity \<Rightarrow> bool) \<Rightarrow> world \<Rightarrow> world" where
  "delete_entities P w =
     (let gone = map en_id (filter P (entities w)) in
      w\<lparr>entities := map (\<lambda>e. if (case en_canonical e of Some c \<Rightarrow> c \<in> set gone | None \<Rightarrow> False)
          then e\<lparr>en_canonical := None\<rparr> else e) (filter (\<lambda>e. \<not> P e) (entities w))\<rparr>)"

definition delete_chunks :: "(text_chunk \<Rightarrow> bool) \<Rightarrow> world \<Rightarrow> world" where
  "delete_chunks P w =
     (let gone = map ch_id (filter P (chunks w)) in
      delete_entities (\<lambda>e. en_chunk_id e \<in> set gone) (w\<lparr>chunks := filter (\<lambda>c. \<not> P c) (chunks w)\<rparr>))"

definition transcript_ids :: "world \<Rightarrow> uuid \<Rightarrow> uuid list" where
  "transcript_ids w aid = map tr_id (filter (\<lambda>t. tr_audio_id t = aid) (transcripts w))"

definition in_ids :: "uuid option \<Rightarrow> uuid list \<Rightarrow> bool" where
  "in_ids x is = (case x of Some i \<Rightarrow> i \<in> set is | None \<Rightarrow> False)"

definition delete_audio_transcripts :: "uuid \<Rightarrow> world \<Rightarrow> world" where
  "delete_audio_transcripts aid w =
     (let gone = transcript_ids w aid;
          w1 = w\<lparr>transcripts := filter (\<lambda>t. tr_audio_id t \<noteq> aid) (transcripts w),
            transcript_segments := filter (\<lambda>s. ts_transcript_id s \<notin> set gone) (transcript_segments w)\<rparr>
      in delete_entities (\<lambda>e. in_ids (en_transcript_id e) gone)
           (delete_chunks (\<lambda>c. in_ids (ch_transcript_id c) gone) w1))"

section \<open>The orchestrator\<close>

datatype strategy = Fixed | Openai

fun strategy_value :: "strategy \<Rightarrow> pystr" where
  "strategy_value Fixed = u ''fixed''"
| "strategy_value Openai = u ''openai''"

definition orchestrator_chunking :: "env \<Rightarrow> chunking_service" where
  "orchestrator_chunking env = chunking_service_init (chunk_max_chars (conf env)) (chunk_overlap_chars (conf env))"

definition split_parts :: "env \<Rightarrow> services \<Rightarrow> strategy \<Rightarrow> pystr \<Rightarrow> exc + pystr list" where
  "split_parts env sv st raw =
     (case st of Openai \<Rightarrow> sv_semantic sv raw | Fixed \<Rightarrow> Inr (chunk_text (orchestrator_chunking env) (Some raw)))"

text \<open>The rows added for the parts of a document or of a transcript, numbered from 0.\<close>

definition new_chunks :: "uuid \<Rightarrow> uuid \<Rightarrow> uuid option \<Rightarrow> uuid option \<Rightarrow> strategy \<Rightarrow> pystr list \<Rightarrow> text_chunk list" where
  "new_chunks base pid did tid st parts =
     map (\<lambda>(i, t). \<lparr>ch_id = base + i, ch_project_id = pid, ch_document_id = did, ch_audio_id = None,
        ch_transcript_id = tid, ch_index = i, ch_text = t, ch_strategy = strategy_value st\<rparr>)
       (enumerate 0 parts)"

definition add_chunks :: "uuid \<Rightarrow> uuid option \<Rightarrow> uuid option \<Rightarrow> strategy \<Rightarrow> pystr list \<Rightarrow> world \<Rightarrow> world" where
  "add_chunks pid did tid st parts w =
     w\<lparr>chunks := chunks w @ new_chunks (next_id w) pid did tid st parts, next_id := next_id w + length parts\<rparr>"

definition count_document_chunks :: "world \<Rightarrow> uuid \<Rightarrow> nat" where
  "count_document_chunks w did = length (filter (\<lambda>c. ch_document_id c = Some did) (chunks w))"

definition chunk_source_document_sync :: "env \<Rightarrow> services \<Rightarrow> uuid \<Rightarrow> strategy \<Rightarrow> world \<Rightarrow> nat outcome" where
  "chunk_source_document_sync env sv did st w =
     (case get_doc w did of
        None \<Rightarrow> (Inl (Value_error (u ''source_document_not_found'')), w)
      | Some d \<Rightarrow>
        (let raw = strip (text_of (doc_raw_text d)) in
         if raw = [] then (Inl (Value_error (u ''source_document_no_text'')), w)
         else if 0 < count_document_chunks w did then (Inr (count_document_chunks w did), w)
         else (let w1 = delete_chunks (\<lambda>c. ch_document_id c = Some did) w in
           case split_parts env sv st raw of
             Inl e \<Rightarrow> (Inl e, w1)
           | Inr parts \<Rightarrow> (Inr (length parts), add_chunks (doc_project_id d) (Some did) None st parts w1))))"

definition transcript_segments_of :: "world \<Rightarrow> uuid \<Rightarrow> transcript_segment list" where
  "transcript_segments_of w tid = sort_key ts_start (filter (\<lambda>s. ts_transcript_id s = tid) (transcript_segments w))"

definition transcript_base :: "world \<Rightarrow> transcript \<Rightarrow> pystr" where
  "transcript_base w tr =
     (let segs = transcript_segments_of w (tr_id tr)
      in strip (if segs = [] then tr_full_text tr else join (u '' '') (map ts_text segs)))"

definition chunk_transcript_sync :: "env \<Rightarrow> services \<Rightarrow> uuid \<Rightarrow> strategy \<Rightarrow> world \<Rightarrow> nat outcome" where
  "chunk_transcript_sync env sv tid st w =
     (case get_transcript w tid of
        None \<Rightarrow> (Inl (Value_error (u ''transcript_not_found'')), w)
      | Some tr \<Rightarrow>
        (case get_audio w (tr_audio_id tr) of
           None \<Rightarrow> (Inl (Value_error (u ''source_audio_not_found'')), w)
         | Some a \<Rightarrow>
           (let w1 = delete_chunks (\<lambda>c. ch_transcript_id c = Some tid) w;
                base = transcript_base w1 tr
            in if base = [] then (Inl (Value_error (u ''transcript_no_text'')), w1)
               else case split_parts env sv st base of
                 Inl e \<Rightarrow> (Inl e, w1)
               | Inr parts \<Rightarrow> (Inr (length parts), add_chunks (aud_project_id a) None (Some tid) st parts w1))))"

text \<open>
  The file of the audio is read only for the provider, which stands for it here. A transcript that
  names no language takes the audio's.
\<close>

definition add_transcript :: "uuid \<Rightarrow> pystr \<Rightarrow> pystr option \<Rightarrow> pystr option \<Rightarrow> (rat \<times> rat \<times> pystr) list \<Rightarrow>
    world \<Rightarrow> uuid \<times> world" where
  "add_transcript aid full lang prov segs w =
     (let tid = next_id w in
      (tid, w\<lparr>transcripts := transcripts w @ [\<lparr>tr_id = tid, tr_audio_id = aid, tr_full_text = full,
             tr_language = lang, tr_status = JS_COMPLETED, tr_provider = prov, tr_created_at = clock w\<rparr>],
           transcript_segments := transcript_segments w @ map (\<lambda>(a, b, t). \<lparr>ts_transcript_id = tid,
             ts_start = a, ts_end = b, ts_text = t\<rparr>) segs,
           next_id := tid + 1\<rparr>))"

definition truthy :: "pystr option \<Rightarrow> pystr option" where
  "truthy x = (if x = Some [] then None else x)"

definition transcribe_audio_source_sync :: "services \<Rightarrow> uuid \<Rightarrow> world \<Rightarrow> uuid outcome" where
  "transcribe_audio_source_sync sv aid w =
     (case get_audio w aid of
        None \<Rightarrow> (Inl (Value_error (u ''source_audio_not_found'')), w)
      | Some a \<Rightarrow>
        (let w1 = delete_chunks (\<lambda>c. ch_audio_id c = Some aid) (delete_audio_transcripts aid w) in
         case sv_transcribe sv a of
           Inl e \<Rightarrow> (Inl e, w1)
         | Inr st \<Rightarrow>
             (let (tid, w2) = add_transcript aid (st_full_text st)
                    (case truthy (st_language st) of Some l \<Rightarrow> Some l | None \<Rightarrow> aud_language a)
                    (Some (st_provider st)) (st_segments st) w1
              in (Inr tid, w2))))"

section \<open>The processing tasks\<close>

text \<open>The two keys of the advisory lock: the first eight bytes of the id as two signed integers.\<close>

definition document_chunk_advisory_ints :: "uuid \<Rightarrow> int \<times> int" where
  "document_chunk_advisory_ints did =
     (sint (word_of_nat (did div 2 ^ 96) :: 32 word), sint (word_of_nat (did div 2 ^ 64) :: 32 word))"

definition try_pg_advisory_lock_chunk_doc :: "services \<Rightarrow> uuid \<Rightarrow> bool" where
  "try_pg_advisory_lock_chunk_doc sv did = (if \<not> sv_postgres sv then True else sv_pg_lock sv did)"

datatype chunk_result = Not_configured | Chunk_busy | Chunk_noop nat strategy | Chunked nat strategy

definition strategy_of :: "pystr \<Rightarrow> strategy" where
  "strategy_of s = (if s = u ''openai'' then Openai else Fixed)"

definition openai_missing :: "env \<Rightarrow> bool" where
  "openai_missing env \<longleftrightarrow> strip (str_or (openai_api_key (conf env)) []) = []"

definition chunk_source_document :: "env \<Rightarrow> services \<Rightarrow> uuid \<Rightarrow> pystr \<Rightarrow> world \<Rightarrow> chunk_result outcome" where
  "chunk_source_document env sv did strat w =
     (let st = strategy_of strat in
      if st = Openai \<and> openai_missing env then (Inr Not_configured, w)
      else session_scope (\<lambda>w.
        if \<not> try_pg_advisory_lock_chunk_doc sv did then (Inr Chunk_busy, w)
        else if 0 < count_document_chunks w did then (Inr (Chunk_noop (count_document_chunks w did) st), w)
        else and_then (chunk_source_document_sync env sv did st w) (\<lambda>n w1. (Inr (Chunked n st), w1))) w)"

definition chunk_transcript :: "env \<Rightarrow> services \<Rightarrow> uuid \<Rightarrow> pystr \<Rightarrow> world \<Rightarrow> chunk_result outcome" where
  "chunk_transcript env sv tid strat w =
     (let st = strategy_of strat in
      if st = Openai \<and> openai_missing env then (Inr Not_configured, w)
      else session_scope (\<lambda>w. and_then (chunk_transcript_sync env sv tid st w)
             (\<lambda>n w1. (Inr (Chunked n st), w1))) w)"

definition transcribe_audio_source :: "env \<Rightarrow> services \<Rightarrow> uuid \<Rightarrow> world \<Rightarrow> (uuid \<times> nat) outcome" where
  "transcribe_audio_source env sv aid w =
     session_scope (\<lambda>w. and_then (transcribe_audio_source_sync sv aid w)
       (\<lambda>tid w1. and_then (chunk_transcript_sync env sv tid Fixed w1) (\<lambda>n w2. (Inr (tid, n), w2)))) w"

section \<open>The pipeline state of a document\<close>

text \<open>A patch overwrites the keys it has.\<close>

definition merge_document_pipeline_state :: "uuid \<Rightarrow> (pipeline_state \<Rightarrow> pipeline_state) \<Rightarrow> world \<Rightarrow> world" where
  "merge_document_pipeline_state did patch w =
     (case get_doc w did of
        None \<Rightarrow> w
      | Some _ \<Rightarrow> upd_doc did (\<lambda>d. d\<lparr>doc_pipeline := patch (doc_pipeline d)\<rparr>) w)"

definition record_extraction_outcome :: "uuid \<Rightarrow> pystr \<Rightarrow> pystr option \<Rightarrow> int \<Rightarrow> int option \<Rightarrow> world \<Rightarrow> world" where
  "record_extraction_outcome did st reason n hint w =
     merge_document_pipeline_state did (\<lambda>p. p\<lparr>pl_extraction := Some \<lparr>ex_status = st, ex_reason = reason,
       ex_entities_created = n, ex_chunk_count = hint\<rparr>\<rparr>) w"

definition record_pipeline_failure :: "uuid \<Rightarrow> pystr \<Rightarrow> pystr \<Rightarrow> world \<Rightarrow> world" where
  "record_pipeline_failure did step msg w =
     merge_document_pipeline_state did (\<lambda>p. p\<lparr>pl_phase := Some (u ''failed''), pl_progress := Some 0,
       pl_updated_at := Some (Stamp (clock w)),
       pl_extraction := Some \<lparr>ex_status = step, ex_reason = Some (take 2000 msg), ex_entities_created = 0,
         ex_chunk_count = None\<rparr>,
       pl_last_error := Some (step, take 2000 msg)\<rparr>) w"

definition phase_of :: "source_document \<Rightarrow> pystr" where
  "phase_of d = norm_status (pl_phase (doc_pipeline d))"

definition ext_status_of :: "source_document \<Rightarrow> pystr" where
  "ext_status_of d = norm_status (map_option ex_status (pl_extraction (doc_pipeline d)))"

definition document_pipeline_actively_running :: "env \<Rightarrow> time \<Rightarrow> source_document \<Rightarrow> bool" where
  "document_pipeline_actively_running env now d \<longleftrightarrow>
     phase_of d \<in> {u ''chunking'', u ''extracting''} \<and>
     (case pl_updated_at (doc_pipeline d) of
        Some (Stamp t) \<Rightarrow> now - t < document_pipeline_active_ttl_seconds (conf env)
      | _ \<Rightarrow> False)"

definition document_pipeline_needs_recovery :: "env \<Rightarrow> time \<Rightarrow> source_document \<Rightarrow> bool" where
  "document_pipeline_needs_recovery env now d =
     (if document_pipeline_actively_running env now d then False
      else if ext_status_of d \<in> {u ''chunk_failed'', u ''extraction_failed''} then True
      else if phase_of d = u ''failed'' then True
      else if phase_of d \<in> {u ''uploaded'', u ''parsed'', u ''chunking'', u ''extracting''} then True
      else if phase_of d = u ''chunked'' then
        ext_status_of d \<notin> {u ''ok'', u ''completed_zero_entities'', u ''skipped_no_chunks''}
      else if phase_of d = [] \<and> strip (text_of (doc_raw_text d)) \<noteq> [] then True
      else False)"

definition sort_out :: "env \<Rightarrow> time \<Rightarrow> source_document list \<Rightarrow> uuid list \<times> uuid list" where
  "sort_out env now ds =
     (map doc_id (filter (\<lambda>d. \<not> document_pipeline_actively_running env now d
        \<and> document_pipeline_needs_recovery env now d) ds),
      map doc_id (filter (\<lambda>d. document_pipeline_actively_running env now d
        \<or> \<not> document_pipeline_needs_recovery env now d) ds))"

definition list_batch_documents_needing_recovery :: "env \<Rightarrow> uuid \<Rightarrow> world \<Rightarrow> uuid list \<times> uuid list" where
  "list_batch_documents_needing_recovery env bid w =
     sort_out env (clock w) (concat (map (\<lambda>r. case row_document_id r of None \<Rightarrow> []
       | Some did \<Rightarrow> (case get_doc w did of None \<Rightarrow> [] | Some d \<Rightarrow> [d]))
       (filter (\<lambda>r. row_batch_id r = bid) (batch_sources w))))"

definition list_project_documents_needing_recovery :: "env \<Rightarrow> uuid \<Rightarrow> world \<Rightarrow> uuid list \<times> uuid list" where
  "list_project_documents_needing_recovery env pid w =
     sort_out env (clock w) (filter (\<lambda>d. doc_project_id d = pid) (documents w))"

section \<open>What chunking stores\<close>

lemma delete_entities_sel:
  "documents (delete_entities P w) = documents w" "chunks (delete_entities P w) = chunks w"
  "map en_id (entities (delete_entities P w)) = map en_id (filter (\<lambda>e. \<not> P e) (entities w))"
  by (simp_all add: delete_entities_def Let_def o_def if_distrib cong: if_cong)

lemma delete_no_entities: "\<forall>e \<in> set (entities w). \<not> P e \<Longrightarrow> delete_entities P w = w"
  by (cases w) (auto simp: delete_entities_def Let_def filter_id_conv intro!: map_idI split: option.split
      cong: filter_cong)

lemma delete_no_chunks: "\<forall>c \<in> set (chunks w). \<not> P c \<Longrightarrow> delete_chunks P w = w"
  by (cases w) (simp add: delete_chunks_def Let_def filter_id_conv delete_no_entities filter_False)

lemma delete_entities_keeps [simp]:
  "audios (delete_entities P w) = audios w" "transcripts (delete_entities P w) = transcripts w"
  by (simp_all add: delete_entities_def Let_def)


lemma delete_chunks_sel:
  "chunks (delete_chunks P w) = filter (\<lambda>c. \<not> P c) (chunks w)" "documents (delete_chunks P w) = documents w"
  "audios (delete_chunks P w) = audios w" "transcripts (delete_chunks P w) = transcripts w"
  "transcript_segments (delete_chunks P w) = transcript_segments w" "next_id (delete_chunks P w) = next_id w"
  "outbox (delete_chunks P w) = outbox w" "audio_segments (delete_chunks P w) = audio_segments w"
  by (simp_all add: delete_chunks_def delete_entities_def Let_def)

lemma new_chunks_sel:
  "map ch_text (new_chunks b pid did tid st parts) = parts"
  "map ch_index (new_chunks b pid did tid st parts) = [0..<length parts]"
  "c \<in> set (new_chunks b pid did tid st parts) \<Longrightarrow> ch_document_id c = did \<and> ch_transcript_id c = tid
     \<and> ch_project_id c = pid"
  by (auto simp: new_chunks_def o_def split_def enumerate_eq_zip map_fst_zip map_snd_zip)

lemma chunk_document_step:
  assumes "get_doc w did = Some d" "strip (text_of (doc_raw_text d)) \<noteq> []" "count_document_chunks w did = 0"
  shows "chunk_source_document_sync env sv did Fixed w =
     (Inr (length (chunk_text (orchestrator_chunking env) (Some (strip (text_of (doc_raw_text d)))))),
      add_chunks (doc_project_id d) (Some did) None Fixed
        (chunk_text (orchestrator_chunking env) (Some (strip (text_of (doc_raw_text d))))) w)"
proof -
  have "delete_chunks (\<lambda>c. ch_document_id c = Some did) w = w"
    using assms(3) by (intro delete_no_chunks) (simp add: count_document_chunks_def filter_empty_conv)
  then show ?thesis using assms by (simp add: chunk_source_document_sync_def Let_def split_parts_def)
qed

text \<open>
  A document is chunked once: the first run stores the pieces of its text, numbered from zero,
  and leaves every other chunk; whatever strategy a later run asks for, it reports the same number
  and stores nothing.
\<close>

theorem document_is_chunked_once:
  assumes "get_doc w did = Some d" "strip (text_of (doc_raw_text d)) \<noteq> []" "count_document_chunks w did = 0"
    "chunk_source_document_sync env sv did Fixed w = (r, w')"
  shows "(let parts = chunk_text (orchestrator_chunking env) (Some (strip (text_of (doc_raw_text d))));
              own = filter (\<lambda>c. ch_document_id c = Some did) (chunks w')
          in r = Inr (length parts) \<and> map ch_text own = parts \<and> map ch_index own = [0..<length parts]
           \<and> filter (\<lambda>c. ch_document_id c \<noteq> Some did) (chunks w') = chunks w
           \<and> (\<forall>st. chunk_source_document_sync env sv did st w' = (r, w')))"
proof -
  define parts where "parts = chunk_text (orchestrator_chunking env) (Some (strip (text_of (doc_raw_text d))))"
  define new where "new = new_chunks (next_id w) (doc_project_id d) (Some did) None Fixed parts"
  have r: "r = Inr (length parts)" and w': "w' = add_chunks (doc_project_id d) (Some did) None Fixed parts w"
    using assms(4) unfolding chunk_document_step [OF assms(1-3)] parts_def by auto
  have none: "\<forall>c \<in> set (chunks w). ch_document_id c \<noteq> Some did"
    using assms(3) by (simp add: count_document_chunks_def filter_empty_conv)
  have all: "\<forall>c \<in> set new. ch_document_id c = Some did" using new_chunks_sel(3) by (fastforce simp: new_def)
  have cs: "chunks w' = chunks w @ new" by (simp add: w' add_chunks_def new_def)
  have own: "filter (\<lambda>c. ch_document_id c = Some did) (chunks w') = new"
    using none all by (simp add: cs filter_id_conv filter_empty_conv)
  have other: "filter (\<lambda>c. ch_document_id c \<noteq> Some did) (chunks w') = chunks w"
    using none all by (simp add: cs filter_id_conv filter_empty_conv)
  have n: "count_document_chunks w' did = length parts"
    using arg_cong [OF new_chunks_sel(1), of length] own by (simp add: count_document_chunks_def new_def)
  have "parts \<noteq> []" using assms(2) by (simp add: parts_def orchestrator_chunking_def chunk_text_empty)
  moreover have "get_doc w' did = Some d" using assms(1) by (simp add: w' add_chunks_def get_doc_def)
  ultimately have again: "chunk_source_document_sync env sv did st w' = (r, w')" for st
    using assms(2) n by (simp add: chunk_source_document_sync_def r)
  show ?thesis
    using own other again unfolding parts_def [symmetric] Let_def by (simp add: r new_def new_chunks_sel)
qed

theorem document_is_chunked_once_witness:
  "\<forall>sv. let w = empty_world\<lparr>documents := [plain_document 1 7 (u ''Some notes. '')]\<rparr>;
       w' = snd (chunk_source_document_sync plain_env sv 1 Fixed w)
   in map ch_text (filter (\<lambda>c. ch_document_id c = Some 1) (chunks w')) = [u ''Some notes.'']" (is "\<forall>sv. ?goal sv")
proof
  fix sv :: services
  let ?w = "empty_world\<lparr>documents := [plain_document 1 7 (u ''Some notes. '')]\<rparr>"
  have d: "get_doc ?w 1 = Some (plain_document 1 7 (u ''Some notes. ''))"
    by (simp add: get_doc_def get_row_def plain_document_def del: One_nat_def)
  have s: "strip (text_of (doc_raw_text (plain_document 1 7 (u ''Some notes. '')))) = u ''Some notes.''"
    by code_simp
  have c: "chunk_text (orchestrator_chunking plain_env) (Some (u ''Some notes.'')) = [u ''Some notes.'']"
    by code_simp
  have "count_document_chunks ?w 1 = 0" by (simp add: count_document_chunks_def)
  then show "?goal sv"
    using document_is_chunked_once [OF d, of plain_env sv "fst (chunk_source_document_sync plain_env sv 1 Fixed ?w)"
        "snd (chunk_source_document_sync plain_env sv 1 Fixed ?w)"]
    unfolding s c Let_def by (simp add: u_def del: One_nat_def)
qed

text \<open>A transcript that is chunked again loses its chunks first.\<close>

lemma chunk_transcript_step:
  assumes "get_transcript w tid = Some tr" "get_audio w (tr_audio_id tr) = Some a" "transcript_base w tr \<noteq> []"
  shows "chunk_transcript_sync env sv tid Fixed w =
     (Inr (length (chunk_text (orchestrator_chunking env) (Some (transcript_base w tr)))),
      add_chunks (aud_project_id a) None (Some tid) Fixed
        (chunk_text (orchestrator_chunking env) (Some (transcript_base w tr)))
        (delete_chunks (\<lambda>c. ch_transcript_id c = Some tid) w))"
proof -
  have "transcript_base (delete_chunks (\<lambda>c. ch_transcript_id c = Some tid) w) tr = transcript_base w tr"
    by (simp add: transcript_base_def transcript_segments_of_def delete_chunks_sel)
  then show ?thesis using assms by (simp add: chunk_transcript_sync_def Let_def split_parts_def)
qed

lemma add_chunks_sel:
  "documents (add_chunks pid did tid st parts w) = documents w" "audios (add_chunks pid did tid st parts w) = audios w"
  "transcripts (add_chunks pid did tid st parts w) = transcripts w"
  "transcript_segments (add_chunks pid did tid st parts w) = transcript_segments w"
  "audio_segments (add_chunks pid did tid st parts w) = audio_segments w"
  "outbox (add_chunks pid did tid st parts w) = outbox w"
  by (simp_all add: add_chunks_def)

lemma transcript_chunks_after:
  "map ch_text (filter (\<lambda>c. ch_transcript_id c = Some tid) (chunks (add_chunks pid did (Some tid) st parts
     (delete_chunks (\<lambda>c. ch_transcript_id c = Some tid) w)))) = parts"
  "filter (\<lambda>c. ch_transcript_id c \<noteq> Some tid) (chunks (add_chunks pid did (Some tid) st parts
     (delete_chunks (\<lambda>c. ch_transcript_id c = Some tid) w))) = filter (\<lambda>c. ch_transcript_id c \<noteq> Some tid) (chunks w)"
proof -
  have "\<forall>c \<in> set (new_chunks b pid did (Some tid) st parts). ch_transcript_id c = Some tid" for b
    using new_chunks_sel(3) by fastforce
  then show "map ch_text (filter (\<lambda>c. ch_transcript_id c = Some tid) (chunks (add_chunks pid did (Some tid) st parts
     (delete_chunks (\<lambda>c. ch_transcript_id c = Some tid) w)))) = parts"
    "filter (\<lambda>c. ch_transcript_id c \<noteq> Some tid) (chunks (add_chunks pid did (Some tid) st parts
     (delete_chunks (\<lambda>c. ch_transcript_id c = Some tid) w))) = filter (\<lambda>c. ch_transcript_id c \<noteq> Some tid) (chunks w)"
    by (simp_all add: add_chunks_def delete_chunks_sel filter_id_conv filter_empty_conv new_chunks_sel(1))
qed

text \<open>
  Chunking a transcript replaces its chunks by the pieces of its text (its segments joined by
  spaces when it has any), and keeps every other chunk.
\<close>

theorem transcript_chunks_replaced:
  assumes "get_transcript w tid = Some tr" "get_audio w (tr_audio_id tr) = Some a" "transcript_base w tr \<noteq> []"
    "chunk_transcript_sync env sv tid Fixed w = (r, w')"
  shows "(let parts = chunk_text (orchestrator_chunking env) (Some (transcript_base w tr))
          in r = Inr (length parts)
           \<and> map ch_text (filter (\<lambda>c. ch_transcript_id c = Some tid) (chunks w')) = parts
           \<and> filter (\<lambda>c. ch_transcript_id c \<noteq> Some tid) (chunks w') = filter (\<lambda>c. ch_transcript_id c \<noteq> Some tid) (chunks w))"
  using assms(4) unfolding chunk_transcript_step [OF assms(1-3)] Let_def by (auto simp: transcript_chunks_after)

theorem transcript_chunks_replaced_witness:
  "\<forall>sv. let w = empty_world\<lparr>audios := [plain_audio 2 7],
             transcripts := [\<lparr>tr_id = 5, tr_audio_id = 2, tr_full_text = u ''one two'', tr_language = None,
               tr_status = JS_COMPLETED, tr_provider = None, tr_created_at = 0\<rparr>]\<rparr>;
       w' = snd (chunk_transcript_sync plain_env sv 5 Fixed w)
   in map ch_text (filter (\<lambda>c. ch_transcript_id c = Some 5) (chunks w')) = [u ''one two'']" (is "\<forall>sv. ?goal sv")
proof
  fix sv :: services
  let ?tr = "\<lparr>tr_id = 5, tr_audio_id = 2, tr_full_text = u ''one two'', tr_language = None,
     tr_status = JS_COMPLETED, tr_provider = None, tr_created_at = 0\<rparr>"
  let ?w = "empty_world\<lparr>audios := [plain_audio 2 7], transcripts := [?tr]\<rparr>"
  have g: "get_transcript ?w 5 = Some ?tr" "get_audio ?w (tr_audio_id ?tr) = Some (plain_audio 2 7)"
    by (simp_all add: get_transcript_def get_audio_def get_row_def plain_audio_def)
  have b: "transcript_base ?w ?tr = u ''one two''" by code_simp
  have c: "chunk_text (orchestrator_chunking plain_env) (Some (u ''one two'')) = [u ''one two'']" by code_simp
  show "?goal sv"
    using transcript_chunks_replaced [OF g, of plain_env sv "fst (chunk_transcript_sync plain_env sv 5 Fixed ?w)"
        "snd (chunk_transcript_sync plain_env sv 5 Fixed ?w)"]
    unfolding b c Let_def by (simp add: u_def)
qed

end
