(* ===== verification/Sentences.thy ===== *)
theory Sentences
  imports Processing
begin

text \<open>
  The text helpers of \<^verbatim>\<open>extraction/mock_provider.py\<close> that the extraction service uses for every
  provider: masking URLs and e-mail addresses, splitting into sentences with their spans, even
  segments, clipping, titles. Each regular expression is written as the matcher it denotes, with
  the backtracking that can change its result.
\<close>

section \<open>Masking\<close>

definition is_upper :: "nat \<Rightarrow> bool" where
  "is_upper c \<longleftrightarrow> 65 \<le> c \<and> c \<le> 90"

definition is_letter :: "nat \<Rightarrow> bool" where
  "is_letter c \<longleftrightarrow> is_upper c \<or> (97 \<le> c \<and> c \<le> 122)"

definition is_digit :: "nat \<Rightarrow> bool" where
  "is_digit c \<longleftrightarrow> 48 \<le> c \<and> c \<le> 57"

text \<open>A literal character under \<^verbatim>\<open>re.IGNORECASE\<close>; the long s (U+017F) is a case of s.\<close>

definition matches_ic :: "nat \<Rightarrow> nat \<Rightarrow> bool" where
  "matches_ic p c \<longleftrightarrow> lower_char c = p \<or> (p = 115 \<and> c = 383)"

fun literal_ic :: "pystr \<Rightarrow> pystr \<Rightarrow> bool" where
  "literal_ic [] s = True"
| "literal_ic (p # ps) [] = False"
| "literal_ic (p # ps) (c # s) = (matches_ic p c \<and> literal_ic ps s)"

definition url_char :: "nat \<Rightarrow> bool" where
  "url_char c \<longleftrightarrow> \<not> is_space c \<and> c \<notin> set (u ''<>()[]'')"

definition url_last :: "nat \<Rightarrow> bool" where
  "url_last c \<longleftrightarrow> url_char c \<and> c \<notin> set (u ''.,;:'') \<and> c \<noteq> 34 \<and> c \<noteq> 39"

text \<open>
  The body \<^verbatim>\<open>X+Y\<close> with \<open>Y\<close> within \<open>X\<close>: the longest prefix of the run of \<open>X\<close> characters that has at
  least two characters and ends in a \<open>Y\<close>.
\<close>

definition url_body :: "pystr \<Rightarrow> nat option" where
  "url_body s =
     (let run = takeWhile url_char s;
          ns = filter (\<lambda>n. url_last (run ! (n - 1))) [2..<length run + 1]
      in if ns = [] then None else Some (last ns))"

definition url_match :: "pystr \<Rightarrow> nat option" where
  "url_match s =
     (let head = (if literal_ic (u ''https://'') s then Some 8
                  else if literal_ic (u ''http://'') s then Some 7 else None)
      in case head of None \<Rightarrow> None
         | Some h \<Rightarrow> map_option (\<lambda>n. h + n) (url_body (drop h s)))"

definition email_local :: "nat \<Rightarrow> bool" where
  "email_local c \<longleftrightarrow> is_letter c \<or> is_digit c \<or> c \<in> set (u ''._%+-'')"

definition email_domain :: "nat \<Rightarrow> bool" where
  "email_domain c \<longleftrightarrow> is_letter c \<or> is_digit c \<or> c \<in> set (u ''.-'')"

text \<open>
  The domain backs off to its last dot that has a character before it and two letters after it;
  all letters that follow that dot belong to the match.
\<close>

definition email_match :: "pystr \<Rightarrow> nat option" where
  "email_match s =
     (let loc = takeWhile email_local s; rest = drop (length loc) s in
      if loc = [] \<or> rest = [] \<or> hd rest \<noteq> 64 then None
      else (let dom = takeWhile email_domain (tl rest);
                tld = (\<lambda>k. length (takeWhile is_letter (drop (k + 1) dom)));
                ks = filter (\<lambda>k. dom ! k = 46 \<and> 2 \<le> tld k) [1..<length dom]
            in if ks = [] then None
               else Some (length loc + 1 + last ks + 1 + tld (last ks))))"

text \<open>
  \<^verbatim>\<open>finditer\<close> finds the matches from left to right without overlap, and each is replaced by as
  many blanks, so one pass does it.
\<close>

function mask :: "(pystr \<Rightarrow> nat option) \<Rightarrow> pystr \<Rightarrow> pystr" where
  "mask m [] = []"
| "mask m (c # s) =
     (case m (c # s) of
        Some (Suc n) \<Rightarrow> replicate (min (Suc n) (length (c # s))) 32 @ mask m (drop n s)
      | _ \<Rightarrow> c # mask m s)"
  by pat_completeness auto
termination by (relation "measure (length \<circ> snd)") auto

text \<open>Both patterns are searched in the original text.\<close>

definition mask_urls_emails_for_split :: "pystr \<Rightarrow> pystr" where
  "mask_urls_emails_for_split s =
     map (\<lambda>(a, b). if b = 32 then 32 else a) (zip (mask url_match s) (mask email_match s))"

section \<open>Sentences\<close>

definition sentence_end :: "nat \<Rightarrow> bool" where
  "sentence_end c \<longleftrightarrow> c \<in> set (u ''.!?'')"

definition sentence_char :: "nat \<Rightarrow> bool" where
  "sentence_char c \<longleftrightarrow> \<not> sentence_end c \<and> c \<noteq> 10"

text \<open>
  The length of the match at the start of \<open>s\<close>, if there is one: a run of other characters, then
  terminators followed by white space or the end, or nothing before a line feed or the end. A
  shorter run is followed by one of its own characters, and then no alternative matches.
\<close>

definition sentence_match :: "pystr \<Rightarrow> nat option" where
  "sentence_match s =
     (let run = takeWhile sentence_char s; rest = drop (length run) s;
          ends = takeWhile sentence_end rest; after = drop (length ends) rest
      in if run = [] then None
         else if ends \<noteq> [] then
           (if after = [] \<or> is_space (hd after) then Some (length run + length ends) else None)
         else Some (length run))"

text \<open>The spans of the matches of \<^verbatim>\<open>finditer\<close>, \<open>i\<close> being the position of the rest of the text.\<close>

function sentence_spans :: "nat \<Rightarrow> pystr \<Rightarrow> (nat \<times> nat) list" where
  "sentence_spans i [] = []"
| "sentence_spans i (c # s) =
     (case sentence_match (c # s) of
        Some (Suc n) \<Rightarrow> (i, i + Suc n) # sentence_spans (i + Suc n) (drop n s)
      | _ \<Rightarrow> sentence_spans (i + 1) s)"
  by pat_completeness auto
termination by (relation "measure (length \<circ> snd)") auto

definition split_sentences :: "pystr \<Rightarrow> (pystr \<times> nat \<times> nat) list" where
  "split_sentences txt =
     (let t = strip txt in
      if t = [] then []
      else (let spans = sentence_spans 0 (mask_urls_emails_for_split t);
                out = concat (map (\<lambda>(a, b). let seg = strip (Prelude.slice t a b) in
                        if seg = [] then [] else [(seg, a, b)]) spans)
            in if out = [] then [(t, 0, length t)] else out))"

section \<open>Segments, clipping and titles\<close>

definition even_segments :: "pystr \<Rightarrow> nat \<Rightarrow> (nat \<times> nat) list" where
  "even_segments txt n =
     (let L = length txt in
      if n \<le> 1 \<or> L = 0 then [(0, L)]
      else (let n = min n L; step = max 1 (L div n) in
            filter (\<lambda>(a, b). a < b)
              (map (\<lambda>i. (i * step, if i = n - 1 then L else min L ((i + 1) * step))) [0..<n])))"

definition clip :: "pystr \<Rightarrow> nat \<Rightarrow> pystr" where
  "clip txt max_len =
     (let s = strip txt in
      if length s \<le> max_len then s else rstrip (take (max_len - 1) s) @ [8230])"

definition title_from_sentence :: "pystr \<Rightarrow> pystr \<Rightarrow> pystr" where
  "title_from_sentence sentence fallback =
     (let s = strip sentence in
      if s = [] then take 512 fallback
      else (let line = strip (takeWhile (\<lambda>c. c \<noteq> 10) s)
            in str_or (Some (take 512 (clip line 120))) (take 512 fallback)))"

section \<open>Spans\<close>

lemma mask_length [simp]: "length (mask m s) = length s"
  by (induction m s rule: mask.induct) (auto split: option.split nat.split)

lemma mask_urls_emails_length [simp]: "length (mask_urls_emails_for_split s) = length s"
  by (simp add: mask_urls_emails_for_split_def)

lemma sentence_match_le: "sentence_match s = Some n \<Longrightarrow> n \<le> length s"
proof -
  assume a: "sentence_match s = Some n"
  let ?run = "takeWhile sentence_char s"
  have "length ?run + length (takeWhile sentence_end (drop (length ?run) s)) \<le> length s"
    using length_takeWhile_le [of sentence_end "drop (length ?run) s"] length_takeWhile_le [of sentence_char s]
    by simp
  then show ?thesis using a by (auto simp: sentence_match_def Let_def split: if_splits)
qed

text \<open>Spans in increasing order that do not overlap, from \<open>i\<close> up to \<open>L\<close>.\<close>

fun spans_within :: "nat \<Rightarrow> nat \<Rightarrow> (nat \<times> nat) list \<Rightarrow> bool" where
  "spans_within i L [] = True"
| "spans_within i L ((a, b) # ss) = (i \<le> a \<and> a < b \<and> b \<le> L \<and> spans_within b L ss)"

lemma spans_within_mono: "spans_within j L ss \<Longrightarrow> i \<le> j \<Longrightarrow> spans_within i L ss"
  by (cases ss) auto

lemma spans_within_set: "spans_within i L ss \<Longrightarrow> (a, b) \<in> set ss \<Longrightarrow> i \<le> a \<and> a < b \<and> b \<le> L"
  by (induction i L ss rule: spans_within.induct) (auto dest: le_less_trans less_imp_le)

lemma sentence_spans_within: "spans_within i (i + length s) (sentence_spans i s)"
proof (induction i s rule: sentence_spans.induct)
  case (2 i c s)
  show ?case
  proof (cases "sentence_match (c # s)")
    case None
    then show ?thesis using 2 None by (auto intro: spans_within_mono)
  next
    case (Some k)
    show ?thesis
    proof (cases k)
      case 0
      then show ?thesis using 2 Some by (auto intro: spans_within_mono)
    next
      case (Suc n)
      have "n \<le> length s" using sentence_match_le [OF Some] Suc by simp
      then show ?thesis using 2 Some Suc by simp
    qed
  qed
qed simp

lemma spans_within_filter: "spans_within i L ss \<Longrightarrow> spans_within i L (filter P ss)"
  by (induction i L ss rule: spans_within.induct) (auto intro: spans_within_mono)

definition span_of :: "pystr \<times> nat \<times> nat \<Rightarrow> nat \<times> nat" where
  "span_of x = snd x"

lemma split_sentences_spans:
  assumes "t = strip txt" "t \<noteq> []"
  shows "spans_within 0 (length t) (map span_of (split_sentences txt))"
    and "split_sentences txt \<noteq> []"
    and "\<forall>(seg, a, b) \<in> set (split_sentences txt). seg = strip (Prelude.slice t a b) \<and> seg \<noteq> []"
proof -
  define spans where "spans = sentence_spans 0 (mask_urls_emails_for_split t)"
  define out where "out = concat (map (\<lambda>(a, b). let seg = strip (Prelude.slice t a b) in
      if seg = [] then [] else [(seg, a, b)]) spans)"
  have sp: "split_sentences txt = (if out = [] then [(t, 0, length t)] else out)"
    using assms by (simp add: split_sentences_def out_def spans_def Let_def)
  have "map span_of out = filter (\<lambda>(a, b). strip (Prelude.slice t a b) \<noteq> []) spans"
    unfolding out_def by (induction spans) (auto simp: span_of_def Let_def)
  moreover have "spans_within 0 (length t) spans"
    using sentence_spans_within [of 0 "mask_urls_emails_for_split t"] by (simp add: spans_def)
  ultimately have "spans_within 0 (length t) (map span_of out)"
    by (simp add: spans_within_filter)
  then show "spans_within 0 (length t) (map span_of (split_sentences txt))"
    using assms(2) by (simp add: sp span_of_def)
  show "split_sentences txt \<noteq> []" by (simp add: sp)
  have "Prelude.slice t 0 (length t) = t" "strip t = t" by (simp_all add: Prelude.slice_def assms(1))
  moreover have "\<forall>(seg, a, b) \<in> set out. seg = strip (Prelude.slice t a b) \<and> seg \<noteq> []"
    by (auto simp: out_def Let_def split: if_splits)
  ultimately show "\<forall>(seg, a, b) \<in> set (split_sentences txt). seg = strip (Prelude.slice t a b) \<and> seg \<noteq> []"
    using assms(2) by (simp add: sp)
qed

text \<open>
  A text that is not blank has at least one sentence; each sentence is the stripped, non-empty
  piece of the stripped text at its span, and the spans lie in the text, in order and disjoint.
\<close>

theorem split_sentences_pieces:
  assumes "strip txt \<noteq> []"
  shows "split_sentences txt \<noteq> []
     \<and> (\<forall>(seg, a, b) \<in> set (split_sentences txt). seg = strip (Prelude.slice (strip txt) a b) \<and> seg \<noteq> [])
     \<and> spans_within 0 (length (strip txt)) (map span_of (split_sentences txt))"
  using split_sentences_spans [OF refl assms] by blast

theorem split_sentences_pieces_witness:
  "split_sentences (u ''Fees rose. Why?'') \<noteq> []
     \<and> spans_within 0 (length (strip (u ''Fees rose. Why?''))) (map span_of (split_sentences (u ''Fees rose. Why?'')))"
proof -
  have "strip (u ''Fees rose. Why?'') \<noteq> []" by code_simp
  from split_sentences_pieces [OF this] show ?thesis by blast
qed

text \<open>
  Text is lost at a full stop inside a number or a word: a run of ordinary characters that ends
  in a terminator not followed by white space yields no sentence, so everything from the start of
  the sentence up to that point is dropped (of \<^verbatim>\<open>Costs rose 3.5 percent.\<close> only \<^verbatim>\<open>5 percent.\<close> is left).
\<close>

theorem sentence_split_drops_prefix:
  "p \<noteq> [] \<Longrightarrow> list_all sentence_char p \<Longrightarrow> sentence_end e \<Longrightarrow> t \<noteq> [] \<Longrightarrow>
   \<not> is_space (hd t) \<Longrightarrow> \<not> sentence_end (hd t) \<Longrightarrow>
   sentence_spans i (p @ e # t) = sentence_spans (i + length p + 1) t"
proof (induction p arbitrary: i)
  case (Cons c p)
  obtain h t' where t: "t = h # t'" using Cons.prems by (cases t) auto
  have e: "\<not> sentence_char e" using Cons.prems by (simp add: sentence_char_def)
  have run: "takeWhile sentence_char (q @ e # t) = q" if "list_all sentence_char q" for q
    using that e by (induction q) auto
  have no: "sentence_match ((c # p) @ e # t) = None"
    using Cons.prems run [of "c # p"] by (simp add: sentence_match_def t Let_def)
  have tail: "sentence_spans j (e # t) = sentence_spans (j + 1) t" for j
    using e by (simp add: sentence_match_def)
  show ?case
  proof (cases "p = []")
    case True
    then show ?thesis using no tail [of "i + 1"] by simp
  next
    case False
    then show ?thesis using no Cons.IH [of "i + 1"] Cons.prems by simp
  qed
qed simp

theorem sentence_split_drops_prefix_witness:
  "split_sentences (u ''Costs rose 3.5 percent.'') = [(u ''5 percent.'', 13, 23)]
   \<and> sentence_spans 0 (u ''Costs rose 3'' @ 46 # u ''5 percent.'') = sentence_spans 13 (u ''5 percent.'')"
proof
  show "split_sentences (u ''Costs rose 3.5 percent.'') = [(u ''5 percent.'', 13, 23)]" by code_simp
  have "sentence_spans 0 (u ''Costs rose 3'' @ 46 # u ''5 percent.'')
      = sentence_spans (0 + length (u ''Costs rose 3'') + 1) (u ''5 percent.'')"
    by (rule sentence_split_drops_prefix) code_simp+
  then show "sentence_spans 0 (u ''Costs rose 3'' @ 46 # u ''5 percent.'') = sentence_spans 13 (u ''5 percent.'')"
    by (simp add: eval_nat_numeral)
qed

end
