(* ===== verification/Batch_Queue.thy ===== *)
theory Batch_Queue
  imports Project_Queue
begin

text \<open>
  The batch queue (\<^verbatim>\<open>batch_queue_service.py\<close>, \<^verbatim>\<open>batch_processing_queue.py\<close>): the rows of a research
  batch, each a document or an audio, are fanned out to the pipelines all at once under a Redis
  lock. A pipeline reports back by document or transcript; the row is found through the
  \<^verbatim>\<open>_batch_analysis\<close> metadata of the source, or as its newest processing row.
\<close>

section \<open>The lock\<close>

definition BATCH_QUEUE_LOCK_PREFIX :: string where
  "BATCH_QUEUE_LOCK_PREFIX = ''ria:batch_queue_lock:''"

definition try_acquire_batch_queue_lock ::
    "redis_conn \<Rightarrow> pystr \<Rightarrow> uuid \<Rightarrow> world \<Rightarrow> lock_result \<times> world" where
  "try_acquire_batch_queue_lock conn tok bid w =
     (let key = (BATCH_QUEUE_LOCK_PREFIX, bid) in
      case conn of
        No_client \<Rightarrow> (\<lparr>acquired = True, token = [], busy = False\<rparr>, w)
      | Command_fails \<Rightarrow> (\<lparr>acquired = True, token = [], busy = False\<rparr>, w)
      | Redis_ok \<Rightarrow>
          (case locks w key of
             None \<Rightarrow> (\<lparr>acquired = True, token = tok, busy = False\<rparr>, w\<lparr>locks := (locks w)(key \<mapsto> tok)\<rparr>)
           | Some _ \<Rightarrow> (\<lparr>acquired = False, token = [], busy = True\<rparr>, w)))"

definition release_batch_queue_lock :: "redis_conn \<Rightarrow> uuid \<Rightarrow> pystr \<Rightarrow> world \<Rightarrow> world" where
  "release_batch_queue_lock conn bid tok w =
     (let key = (BATCH_QUEUE_LOCK_PREFIX, bid) in
      if tok = [] then w
      else if conn = Redis_ok \<and> locks w key = Some tok then w\<lparr>locks := (locks w)(key := None)\<rparr>
      else w)"

section \<open>The summary\<close>

record batch_summary =
  b_idle :: nat
  b_pending :: nat
  b_processing :: nat
  b_completed :: nat
  b_failed :: nat
  b_seen :: bool
  b_current :: "uuid option"

text \<open>
  \<open>b_current\<close> is the local \<^verbatim>\<open>current_row\<close>. \<open>b_seen\<close> only records that a processing row has been
  seen; the source tests \<^verbatim>\<open>current_row is None\<close> instead.
\<close>

definition batch_summary_step :: "pystr option \<times> uuid option \<Rightarrow> batch_summary \<Rightarrow> batch_summary" where
  "batch_summary_step row q = (case row of (raw, rid) \<Rightarrow>
     let st = norm_status raw in
     if st = source_status_value SP_IDLE then q\<lparr>b_idle := b_idle q + 1\<rparr>
     else if st = source_status_value SP_PENDING then q\<lparr>b_pending := b_pending q + 1\<rparr>
     else if st = source_status_value SP_PROCESSING then
       q\<lparr>b_processing := b_processing q + 1, b_seen := True,
         b_current := (case b_current q of None \<Rightarrow> rid | Some c \<Rightarrow> Some c)\<rparr>
     else if st = source_status_value SP_COMPLETED then q\<lparr>b_completed := b_completed q + 1\<rparr>
     else if st = source_status_value SP_FAILED then q\<lparr>b_failed := b_failed q + 1\<rparr>
     else q\<lparr>b_idle := b_idle q + 1\<rparr>)"

definition compute_batch_queue_summary :: "(pystr option \<times> uuid option) list \<Rightarrow> batch_summary" where
  "compute_batch_queue_summary rows = fold batch_summary_step rows
     \<lparr>b_idle = 0, b_pending = 0, b_processing = 0, b_completed = 0, b_failed = 0, b_seen = False,
      b_current = None\<rparr>"

section \<open>Scheduling and lookup\<close>

definition invalidate_batch_llm_cache_sync :: "uuid \<Rightarrow> world \<Rightarrow> world" where
  "invalidate_batch_llm_cache_sync bid w =
     w\<lparr>batch_llm_cache := filter (\<lambda>c. ca_owner c \<noteq> bid) (batch_llm_cache w)\<rparr>"

definition schedule_batch_queue :: "env \<Rightarrow> uuid \<Rightarrow> nat option \<Rightarrow> world \<Rightarrow> unit outcome" where
  "schedule_batch_queue env bid countdown w =
     (case countdown of
        Some c \<Rightarrow> send env (Process_batch_queue bid) (if 0 < c then Some c else None) w
      | None \<Rightarrow> send env (Process_batch_queue bid) None w)"

definition batch_analysis_from_doc :: "source_document option \<Rightarrow> batch_analysis option" where
  "batch_analysis_from_doc d = (case d of None \<Rightarrow> None | Some d \<Rightarrow> md_batch_analysis (doc_metadata d))"

definition batch_analysis_from_audio_dict :: "metadata \<Rightarrow> batch_analysis option" where
  "batch_analysis_from_audio_dict m = md_batch_analysis m"

text \<open>The row named by the metadata: both ids present and well formed, and the row in that batch.\<close>

definition resolve_by_metadata :: "batch_analysis option \<Rightarrow> world \<Rightarrow> (batch_source \<times> uuid) option" where
  "resolve_by_metadata ba w =
     (case ba of
        None \<Rightarrow> None
      | Some ba \<Rightarrow>
          if raw_true (ba_row_id ba) \<and> raw_true (ba_batch_id ba) then
            (case (Option.bind (ba_row_id ba) parse_uuid, Option.bind (ba_batch_id ba) parse_uuid) of
               (Some rid, Some bid) \<Rightarrow>
                 (case get_source w rid of
                    Some row \<Rightarrow> if row_batch_id row = bid then Some (row, bid) else None
                  | None \<Rightarrow> None)
             | _ \<Rightarrow> None)
          else None)"

text \<open>The newest processing row among those that satisfy \<open>P\<close>.\<close>

definition newest_processing :: "(batch_source \<Rightarrow> bool) \<Rightarrow> world \<Rightarrow> batch_source option" where
  "newest_processing P w = first_row (sort_key (\<lambda>r. - row_created_at r)
     (filter (\<lambda>r. P r \<and> row_status r = SP_PROCESSING) (batch_sources w)))"

definition resolve_document_batch_row :: "uuid \<Rightarrow> world \<Rightarrow> (batch_source \<times> uuid) option" where
  "resolve_document_batch_row did w =
     (case get_doc w did of
        None \<Rightarrow> None
      | Some d \<Rightarrow>
          (case resolve_by_metadata (batch_analysis_from_doc (Some d)) w of
             Some res \<Rightarrow> Some res
           | None \<Rightarrow> map_option (\<lambda>r. (r, row_batch_id r))
                       (newest_processing (\<lambda>r. row_document_id r = Some did) w)))"

definition resolve_audio_batch_row :: "uuid \<Rightarrow> metadata \<Rightarrow> world \<Rightarrow> (batch_source \<times> uuid) option" where
  "resolve_audio_batch_row aid m w =
     (case resolve_by_metadata (batch_analysis_from_audio_dict m) w of
        Some res \<Rightarrow> Some res
      | None \<Rightarrow> map_option (\<lambda>r. (r, row_batch_id r))
                  (newest_processing (\<lambda>r. row_audio_id r = Some aid) w))"

section \<open>Finalisation\<close>

definition row_finish :: "bool \<Rightarrow> pystr \<Rightarrow> time \<Rightarrow> batch_source \<Rightarrow> batch_source" where
  "row_finish ok err now r =
     (if ok then r\<lparr>row_status := SP_COMPLETED, row_completed_at := Some now, row_last_error := None\<rparr>
      else r\<lparr>row_status := SP_FAILED, row_last_error := Some (take 8000 err), row_completed_at := Some now\<rparr>)"

definition finish_row :: "env \<Rightarrow> bool \<Rightarrow> pystr \<Rightarrow> batch_source \<times> uuid \<Rightarrow> world \<Rightarrow> unit outcome" where
  "finish_row env ok err res w = (case res of (row, bid) \<Rightarrow>
     schedule_batch_queue env bid None (invalidate_batch_llm_cache_sync bid
       (upd_source (row_id row) (row_finish ok err (clock w)) w)))"

definition maybe_finalize_batch_after_document_pipeline ::
    "env \<Rightarrow> uuid \<Rightarrow> bool \<Rightarrow> pystr option \<Rightarrow> world \<Rightarrow> unit outcome" where
  "maybe_finalize_batch_after_document_pipeline env did ok err w =
     (case resolve_document_batch_row did w of
        None \<Rightarrow> (Inr (), w)
      | Some res \<Rightarrow> finish_row env ok (str_or err (u ''pipeline_failed'')) res w)"

definition maybe_finalize_batch_after_audio_extract_outcome ::
    "env \<Rightarrow> uuid \<Rightarrow> bool \<Rightarrow> pystr option \<Rightarrow> world \<Rightarrow> unit outcome" where
  "maybe_finalize_batch_after_audio_extract_outcome env tid ok err w =
     (case get_transcript w tid of
        None \<Rightarrow> (Inr (), w)
      | Some tr \<Rightarrow>
        (case get_audio w (tr_audio_id tr) of
           None \<Rightarrow> (Inr (), w)
         | Some a \<Rightarrow>
           (case resolve_audio_batch_row (aud_id a) (aud_metadata a) w of
              None \<Rightarrow> (Inr (), w)
            | Some res \<Rightarrow> finish_row env ok (str_or err (u ''transcript_extraction_failed'')) res w)))"

definition maybe_finalize_batch_after_audio_extract :: "env \<Rightarrow> uuid \<Rightarrow> world \<Rightarrow> unit outcome" where
  "maybe_finalize_batch_after_audio_extract env tid w =
     maybe_finalize_batch_after_audio_extract_outcome env tid True None w"

definition maybe_finalize_batch_after_audio_failure ::
    "env \<Rightarrow> uuid \<Rightarrow> pystr \<Rightarrow> world \<Rightarrow> unit outcome" where
  "maybe_finalize_batch_after_audio_failure env aid err w =
     (case get_audio w aid of
        None \<Rightarrow> (Inr (), w)
      | Some a \<Rightarrow>
        (case resolve_audio_batch_row aid (aud_metadata a) w of
           None \<Rightarrow> (Inr (), w)
         | Some res \<Rightarrow> finish_row env False (str_or (Some err) (u ''audio_pipeline_failed'')) res w))"

definition row_requeue :: "pystr \<Rightarrow> batch_source \<Rightarrow> batch_source" where
  "row_requeue reason r = r\<lparr>row_status := SP_PENDING,
     row_last_error := Some (take 8000 (str_or (Some reason) (u ''document_pipeline_busy''))),
     row_started_at := None\<rparr>"

definition requeue_batch_document_pipeline :: "env \<Rightarrow> uuid \<Rightarrow> pystr \<Rightarrow> nat \<Rightarrow> world \<Rightarrow> unit outcome" where
  "requeue_batch_document_pipeline env did reason countdown w =
     (case resolve_by_metadata (batch_analysis_from_doc (get_doc w did)) w of
        None \<Rightarrow> (Inr (), w)
      | Some (row, bid) \<Rightarrow>
          schedule_batch_queue env bid (Some countdown) (upd_source (row_id row) (row_requeue reason) w))"

section \<open>Picking, marking, metadata\<close>

definition pending_batch_rows :: "uuid \<Rightarrow> world \<Rightarrow> batch_source list" where
  "pending_batch_rows bid w = sort_key (\<lambda>r. (row_sort_order r, row_created_at r))
     (filter (\<lambda>r. row_batch_id r = bid \<and> row_status r = SP_PENDING) (batch_sources w))"

definition pick_next_pending_batch_source_sync :: "uuid \<Rightarrow> world \<Rightarrow> batch_source option" where
  "pick_next_pending_batch_source_sync bid w = first_row (take 1 (pending_batch_rows bid w))"

definition pick_all_pending_batch_sources_sync :: "uuid \<Rightarrow> nat \<Rightarrow> world \<Rightarrow> batch_source list" where
  "pick_all_pending_batch_sources_sync bid limit w = take limit (pending_batch_rows bid w)"

definition row_start :: "time \<Rightarrow> batch_source \<Rightarrow> batch_source" where
  "row_start now r = r\<lparr>row_status := SP_PROCESSING, row_started_at := Some now\<rparr>"

definition mark_batch_source_processing :: "batch_source \<Rightarrow> world \<Rightarrow> world" where
  "mark_batch_source_processing row w = upd_source (row_id row) (row_start (clock w)) w"

definition merge_batch_analysis_metadata :: "metadata \<Rightarrow> uuid \<Rightarrow> uuid \<Rightarrow> bool \<Rightarrow> metadata" where
  "merge_batch_analysis_metadata m bid rid multi =
     m\<lparr>md_batch_analysis := Some \<lparr>ba_batch_id = Some (Raw_id bid), ba_row_id = Some (Raw_id rid),
        ba_multi = Some multi\<rparr>\<rparr>"

definition finalize_document_pipeline_task_result ::
    "env \<Rightarrow> uuid \<Rightarrow> task_result \<Rightarrow> world \<Rightarrow> unit outcome" where
  "finalize_document_pipeline_task_result env did r w =
     and_then (finalize_project_document_pipeline_task_result env did r w) (\<lambda>_ w1.
       if tk_status r = u ''missing'' then
         maybe_finalize_batch_after_document_pipeline env did False (Some (u ''source_document_missing'')) w1
       else if tk_status r = u ''already_processing'' then
         requeue_batch_document_pipeline env did busy_reason 30 w1
       else maybe_finalize_batch_after_document_pipeline env did (tk_status r = u ''ok'') (tk_error r) w1)"

section \<open>The drain task\<close>

fun dispatch_batch_rows :: "env \<Rightarrow> batch_source list \<Rightarrow> nat \<Rightarrow> nat \<Rightarrow> world \<Rightarrow> (nat \<times> nat) outcome" where
  "dispatch_batch_rows env [] nd na w = (Inr (nd, na), w)"
| "dispatch_batch_rows env (src # rows) nd na w =
     (case row_document_id src of
        Some did \<Rightarrow>
          (case send env (Pipeline_document did) None w of
             (Inr _, w1) \<Rightarrow> dispatch_batch_rows env rows (nd + 1) na w1
           | (Inl e, w1) \<Rightarrow> and_then
               (maybe_finalize_batch_after_document_pipeline env did False (Some (repr_exc e)) w1)
               (\<lambda>_. dispatch_batch_rows env rows nd na))
      | None \<Rightarrow>
         (case row_audio_id src of
            Some aid \<Rightarrow>
              (case send env (Transcribe_full aid) None w of
                 (Inr _, w1) \<Rightarrow> dispatch_batch_rows env rows nd (na + 1) w1
               | (Inl e, w1) \<Rightarrow> and_then
                   (maybe_finalize_batch_after_audio_failure env aid (repr_exc e) w1)
                   (\<lambda>_. dispatch_batch_rows env rows nd na))
          | None \<Rightarrow> dispatch_batch_rows env rows nd na w))"

definition drain_batch :: "env \<Rightarrow> uuid \<Rightarrow> world \<Rightarrow> drain_result outcome" where
  "drain_batch env bid w =
     (let rows = pick_all_pending_batch_sources_sync bid 64 w;
          w1 = fold mark_batch_source_processing rows w
      in if rows = [] then (Inr Drain_idle, w1)
         else and_then (dispatch_batch_rows env rows 0 0 w1)
                (\<lambda>(nd, na) w2. (Inr (Dispatched (length rows) nd na), w2)))"

definition process_batch_processing_queue ::
    "env \<Rightarrow> redis_conn \<Rightarrow> redis_conn \<Rightarrow> pystr \<Rightarrow> uuid \<Rightarrow> world \<Rightarrow> drain_result outcome" where
  "process_batch_processing_queue env conn conn' tok bid w =
     (let (lk, w1) = try_acquire_batch_queue_lock conn tok bid w in
        if \<not> acquired lk then
          (if busy lk then and_then (schedule_batch_queue env bid (Some 5) w1)
                             (\<lambda>_ w2. (Inr Skipped_locked, w2))
           else (Inr Skipped_locked, w1))
        else (case drain_batch env bid w1 of
                (r, w2) \<Rightarrow> (r, if token lk \<noteq> [] then release_batch_queue_lock conn' bid (token lk) w2 else w2)))"

section \<open>Interpretations\<close>

interpretation batch_lock: queue_lock try_acquire_batch_queue_lock
  release_batch_queue_lock "\<lambda>q. (BATCH_QUEUE_LOCK_PREFIX, q)"
  by unfold_locales (auto simp: try_acquire_batch_queue_lock_def release_batch_queue_lock_def
      Let_def split: redis_conn.splits)

interpretation batch_rows: status_table row_id row_status row_start
  by unfold_locales (simp_all add: row_start_def)

section \<open>A whole drain\<close>

definition row_message :: "batch_source \<Rightarrow> message list" where
  "row_message r = (case row_document_id r of Some i \<Rightarrow> [(Pipeline_document i, None)]
     | None \<Rightarrow> (case row_audio_id r of Some i \<Rightarrow> [(Transcribe_full i, None)] | None \<Rightarrow> []))"

definition is_doc_row :: "batch_source \<Rightarrow> bool" where
  "is_doc_row r \<longleftrightarrow> row_document_id r \<noteq> None"

definition is_audio_row :: "batch_source \<Rightarrow> bool" where
  "is_audio_row r \<longleftrightarrow> row_document_id r = None \<and> row_audio_id r \<noteq> None"

lemma fold_mark_rows:
  "fold mark_batch_source_processing rows w =
     w\<lparr>batch_sources := upd_rows row_id (row_start (clock w)) (map row_id rows) (batch_sources w)\<rparr>"
  by (induction rows arbitrary: w) (simp_all add: mark_batch_source_processing_def upd_source_def upd_rows_def)

lemma dispatch_rows_accepted:
  assumes "\<And>t. broker env t = None"
  shows "dispatch_batch_rows env rows nd na w =
     (Inr (nd + length (filter is_doc_row rows), na + length (filter is_audio_row rows)),
      w\<lparr>outbox := outbox w @ concat (map row_message rows)\<rparr>)"
  by (induction rows arbitrary: nd na w)
    (auto simp: assms row_message_def is_doc_row_def is_audio_row_def split: option.splits)

text \<open>
  C8. A drain of a batch with the lock free and an accepting broker starts the first 64 of its
  pending rows in queue order, all of them at once: these rows and no others become processing with
  the current time, and each sends its document or its audio to the pipeline, in order.
\<close>

theorem batch_drain_dispatches:
  assumes "\<And>t. broker env t = None" "locks w (BATCH_QUEUE_LOCK_PREFIX, bid) = None" "tok \<noteq> []"
  shows "process_batch_processing_queue env Redis_ok Redis_ok tok bid w =
    (let rows = take 64 (pending_batch_rows bid w) in
     (Inr (if rows = [] then Drain_idle
           else Dispatched (length rows) (length (filter is_doc_row rows)) (length (filter is_audio_row rows))),
      w\<lparr>batch_sources := map (\<lambda>r. if row_id r \<in> row_id ` set rows
           then r\<lparr>row_status := SP_PROCESSING, row_started_at := Some (clock w)\<rparr> else r) (batch_sources w),
        outbox := outbox w @ concat (map row_message rows)\<rparr>))"
proof -
  have pick: "pick_all_pending_batch_sources_sync bid n (w\<lparr>locks := l\<rparr>) = take n (pending_batch_rows bid w)" for n l
    by (simp add: pick_all_pending_batch_sources_sync_def pending_batch_rows_def)
  have unlock: "(locks w)(key := None) = locks w" if "locks w key = None" for key
    using that by auto
  show ?thesis
    using assms(2,3)
    by (simp add: process_batch_processing_queue_def batch_lock.acq_free [OF assms(2)] drain_batch_def pick
        fold_mark_rows dispatch_rows_accepted [OF assms(1)] batch_lock.rel_own batch_rows.upd_rows_eq Let_def unlock)
      (simp add: row_start_def)
qed

definition small_batch :: world where
  "small_batch = empty_world\<lparr>documents := [plain_document 1 7 (u ''text'')], audios := [plain_audio 2 7],
     batch_sources := [plain_source 11 100 None (Some 2), plain_source 10 100 (Some 1) None,
       plain_source 12 101 (Some 1) None]\<rparr>"

theorem batch_drain_dispatches_witness:
  "\<exists>w'. process_batch_processing_queue plain_env Redis_ok Redis_ok (u ''t'') 100 small_batch
     = (Inr (Dispatched 2 1 1), w') \<and> outbox w' = [(Pipeline_document 1, None), (Transcribe_full 2, None)]
     \<and> map row_status (batch_sources w') = [SP_PROCESSING, SP_PROCESSING, SP_PENDING]"
proof -
  have "take 64 (pending_batch_rows 100 small_batch) = [plain_source 10 100 (Some 1) None, plain_source 11 100 None (Some 2)]"
    by code_simp
  moreover have "locks small_batch k = None" "outbox small_batch = []" for k by (simp_all add: small_batch_def)
  ultimately show ?thesis
    using batch_drain_dispatches [of plain_env small_batch 100 "u ''t''"]
    by (simp add: plain_source_def is_doc_row_def is_audio_row_def row_message_def)
      (simp add: small_batch_def plain_source_def)
qed

section \<open>Reports of the pipelines\<close>

lemma resolve_by_metadata_iff:
  "resolve_by_metadata ba w = Some (row, bid) \<longleftrightarrow>
     (\<exists>b. ba = Some b \<and> raw_true (ba_row_id b) \<and> raw_true (ba_batch_id b)
        \<and> Option.bind (ba_row_id b) parse_uuid = Some (row_id row)
        \<and> Option.bind (ba_batch_id b) parse_uuid = Some bid
        \<and> get_source w (row_id row) = Some row \<and> row_batch_id row = bid)"
  by (auto simp: resolve_by_metadata_def get_source_def split: option.splits if_splits dest: get_row_SomeD)

lemma resolve_by_metadata_SomeD:
  "resolve_by_metadata ba w = Some (row, bid) \<Longrightarrow>
     get_source w (row_id row) = Some row \<and> row_batch_id row = bid"
  by (auto simp: resolve_by_metadata_iff)

lemma resolve_document_SomeD:
  "resolve_document_batch_row did w = Some (row, bid) \<Longrightarrow> row \<in> set (batch_sources w) \<and> row_batch_id row = bid"
  by (auto simp: resolve_document_batch_row_def newest_processing_def get_source_def
      split: option.splits dest!: resolve_by_metadata_SomeD first_row_SomeD dest: get_row_SomeD)

text \<open>
  A report for a document that resolves to a batch row ends exactly that row, whatever its
  status was, forgets the cached answers of the row's batch and schedules the next drain of that batch.
\<close>

theorem batch_finalize_document:
  assumes "resolve_document_batch_row did w = Some (row, bid)"
    "broker env (Process_batch_queue bid) = None"
  shows "row_batch_id row = bid \<and> row \<in> set (batch_sources w) \<and>
    maybe_finalize_batch_after_document_pipeline env did ok e w =
      (Inr (), w\<lparr>batch_sources := map (\<lambda>r. if row_id r = row_id row then
           (if ok then r\<lparr>row_status := SP_COMPLETED, row_completed_at := Some (clock w), row_last_error := None\<rparr>
            else r\<lparr>row_status := SP_FAILED, row_last_error := Some (take 8000 (str_or e (u ''pipeline_failed''))),
                   row_completed_at := Some (clock w)\<rparr>) else r) (batch_sources w),
         batch_llm_cache := filter (\<lambda>c. ca_owner c \<noteq> bid) (batch_llm_cache w),
         outbox := outbox w @ [(Process_batch_queue bid, None)]\<rparr>)"
  using assms resolve_document_SomeD [OF assms(1)]
  by (simp add: maybe_finalize_batch_after_document_pipeline_def finish_row_def schedule_batch_queue_def
      upd_source_def invalidate_batch_llm_cache_sync_def upd_row_def row_finish_def cong: if_cong)

definition running_batch :: world where
  "running_batch = small_batch\<lparr>batch_sources := [row_start 5 (plain_source 10 100 (Some 1) None)]\<rparr>"

theorem batch_finalize_document_witness:
  "\<exists>w'. maybe_finalize_batch_after_document_pipeline plain_env 1 True None running_batch = (Inr (), w')
     \<and> map row_status (batch_sources w') = [SP_COMPLETED]"
proof -
  have "resolve_document_batch_row 1 running_batch = Some (row_start 5 (plain_source 10 100 (Some 1) None), 100)"
    by code_simp
  then show ?thesis
    using batch_finalize_document [of 1 running_batch "row_start 5 (plain_source 10 100 (Some 1) None)" 100 plain_env True None]
    by (simp add: running_batch_def)
qed

section \<open>A document in two batches\<close>

definition report_all :: "env \<Rightarrow> uuid \<Rightarrow> (bool \<times> pystr option) list \<Rightarrow> world \<Rightarrow> world" where
  "report_all env did reports w =
     fold (\<lambda>(ok, e) w. snd (maybe_finalize_batch_after_document_pipeline env did ok e w)) reports w"

lemma finish_row_tables:
  "batch_sources (snd (finish_row env ok e (row, bid) w))
     = upd_row row_id (row_id row) (row_finish ok e (clock w)) (batch_sources w)"
  "documents (snd (finish_row env ok e (row, bid) w)) = documents w"
  by (simp_all add: finish_row_def schedule_batch_queue_def send_def invalidate_batch_llm_cache_sync_def
      world_simps split: option.split)

lemma report_one:
  assumes "get_doc w did = Some d" "resolve_by_metadata (md_batch_analysis (doc_metadata d)) w = Some (row, bid)"
    and w': "w' = snd (maybe_finalize_batch_after_document_pipeline env did ok e w)"
  shows "get_doc w' did = Some d"
    and "\<exists>row'. row_id row' = row_id row \<and> resolve_by_metadata (md_batch_analysis (doc_metadata d)) w' = Some (row', bid)"
    and "r \<in> set (batch_sources w) \<Longrightarrow> row_id r \<noteq> row_id row \<Longrightarrow> r \<in> set (batch_sources w')"
proof -
  have w1: "w' = snd (finish_row env ok (str_or e (u ''pipeline_failed'')) (row, bid) w)"
    using assms by (simp add: maybe_finalize_batch_after_document_pipeline_def resolve_document_batch_row_def
        batch_analysis_from_doc_def)
  show "get_doc w' did = Some d" using assms(1) by (simp add: w1 get_doc_def finish_row_tables)
  have get: "get_source w' j = (if row_id row = j then map_option (row_finish ok (str_or e (u ''pipeline_failed'')) (clock w))
      (get_source w j) else get_source w j)" for j
    by (simp add: w1 get_source_def finish_row_tables get_upd_row row_finish_def)
  show "\<exists>row'. row_id row' = row_id row \<and> resolve_by_metadata (md_batch_analysis (doc_metadata d)) w' = Some (row', bid)"
  proof (intro exI conjI)
    let ?row = "row_finish ok (str_or e (u ''pipeline_failed'')) (clock w) row"
    show "row_id ?row = row_id row" by (simp add: row_finish_def)
    have "row_batch_id ?row = row_batch_id row" by (simp add: row_finish_def)
    then show "resolve_by_metadata (md_batch_analysis (doc_metadata d)) w' = Some (?row, bid)"
      using assms(2) unfolding resolve_by_metadata_iff \<open>row_id ?row = row_id row\<close> by (auto simp: get)
  qed
  show "r \<in> set (batch_sources w) \<Longrightarrow> row_id r \<noteq> row_id row \<Longrightarrow> r \<in> set (batch_sources w')"
    by (simp add: w1 finish_row_tables upd_row_other)
qed

text \<open>
  A document placed in two batches is reported to one of them only: while its metadata names a
  row, no sequence of reports for the document ever changes any other row, so a second row that was
  started for the same document stays processing for good.
\<close>

theorem other_batch_row_never_reported:
  assumes "get_doc w did = Some d" "resolve_by_metadata (md_batch_analysis (doc_metadata d)) w = Some (row, bid)"
    "r \<in> set (batch_sources w)" "row_id r \<noteq> row_id row"
  shows "r \<in> set (batch_sources (report_all env did reports w))"
  using assms
proof (induction reports arbitrary: w row)
  case (Cons rep reports)
  obtain ok e where rep: "rep = (ok, e)" by (cases rep)
  let ?w = "snd (maybe_finalize_batch_after_document_pipeline env did ok e w)"
  note one = report_one [where env = env and ok = ok and e = e, OF Cons.prems(1,2) refl]
  obtain row' where "row_id row' = row_id row"
    "resolve_by_metadata (md_batch_analysis (doc_metadata d)) ?w = Some (row', bid)" using one(2) by blast
  then show ?case
    using Cons.IH [OF one(1)] one(3) [OF Cons.prems(3,4)] Cons.prems(4) by (simp add: report_all_def rep)
qed (simp add: report_all_def)

definition twice_queued :: world where
  "twice_queued = empty_world\<lparr>
     documents := [(plain_document 1 7 (u ''text''))\<lparr>doc_metadata :=
        merge_batch_analysis_metadata plain_metadata 101 12 False\<rparr>],
     batch_sources := [row_start 5 (plain_source 10 100 (Some 1) None), row_start 5 (plain_source 12 101 (Some 1) None)]\<rparr>"

theorem other_batch_row_never_reported_witness:
  "row_start 5 (plain_source 10 100 (Some 1) None)
     \<in> set (batch_sources (report_all plain_env 1 [(True, None), (False, Some (u ''late''))] twice_queued))"
proof (rule other_batch_row_never_reported)
  show "get_doc twice_queued 1 = Some ((plain_document 1 7 (u ''text''))\<lparr>doc_metadata :=
        merge_batch_analysis_metadata plain_metadata 101 12 False\<rparr>)" by code_simp
  show "resolve_by_metadata (md_batch_analysis (doc_metadata ((plain_document 1 7 (u ''text''))\<lparr>doc_metadata :=
        merge_batch_analysis_metadata plain_metadata 101 12 False\<rparr>))) twice_queued
      = Some (row_start 5 (plain_source 12 101 (Some 1) None), 101)" by code_simp
  show "row_start 5 (plain_source 10 100 (Some 1) None) \<in> set (batch_sources twice_queued)"
    by (simp add: twice_queued_def)
  show "row_id (row_start 5 (plain_source 10 100 (Some 1) None)) \<noteq> row_id (row_start 5 (plain_source 12 101 (Some 1) None))"
    by code_simp
qed

end
