(* ===== verification/Project_Lifecycle.thy ===== *)
theory Project_Lifecycle
  imports Project_Queue
begin

text \<open>
  What a drain of the project queue and the finalisers do to the sources of a project, and the
  invariant of a source's life: one step relation for all the writes of the project queue.
\<close>

section \<open>A whole drain\<close>

definition picked :: "source_kind \<Rightarrow> pending_source list \<Rightarrow> uuid list" where
  "picked k ps = map ps_id (filter (\<lambda>p. ps_kind p = k) ps)"

fun message_of :: "source_kind \<Rightarrow> uuid \<Rightarrow> task" where
  "message_of Document i = Pipeline_document i"
| "message_of Audio i = Transcribe_full i"

lemma fold_mark:
  "fold mark_project_source_processing ps w =
     w\<lparr>documents := upd_rows doc_id (doc_start (clock w)) (picked Document ps) (documents w),
       audios := upd_rows aud_id (aud_start (clock w)) (picked Audio ps) (audios w)\<rparr>"
proof (induction ps arbitrary: w)
  case (Cons p ps)
  then show ?case
    by (cases "ps_kind p") (simp_all add: mark_project_source_processing_def upd_doc_def upd_audio_def
        picked_def upd_rows_def)
qed (simp add: picked_def upd_rows_def)

lemma dispatch_accepted:
  assumes "\<And>t. broker env t = None"
  shows "dispatch_pending env ps nd na w =
     (Inr (nd + length (picked Document ps), na + length (picked Audio ps)),
      w\<lparr>outbox := outbox w @ map (\<lambda>p. (message_of (ps_kind p) (ps_id p), None)) ps\<rparr>)"
  by (induction ps arbitrary: nd na w) (auto simp: assms picked_def split: source_kind.splits)

lemma drain_equation:
  assumes "project_queue_enabled (conf env)" "\<And>t. broker env t = None"
    "locks w (PROJECT_QUEUE_LOCK_PREFIX, pid) = None" "tok \<noteq> []"
  shows "process_project_processing_queue env Redis_ok Redis_ok tok pid w =
    (let ps = pick_pending_project_sources_sync pid (project_queue_concurrency (conf env)) w in
     (Inr (if ps = [] then Drain_idle
           else Dispatched (length ps) (length (picked Document ps)) (length (picked Audio ps))),
      w\<lparr>documents := map (\<lambda>d. if doc_id d \<in> set (picked Document ps)
           then d\<lparr>doc_status := SP_PROCESSING, doc_started_at := Some (clock w)\<rparr> else d) (documents w),
        audios := map (\<lambda>a. if aud_id a \<in> set (picked Audio ps)
           then a\<lparr>aud_status := SP_PROCESSING, aud_started_at := Some (clock w)\<rparr> else a) (audios w),
        outbox := outbox w @ map (\<lambda>p. (message_of (ps_kind p) (ps_id p), None)) ps\<rparr>))"
proof -
  have pick: "pick_pending_project_sources_sync pid n (w\<lparr>locks := l\<rparr>)
      = pick_pending_project_sources_sync pid n w" for n l
    by (simp add: pick_pending_project_sources_sync_def)
  have unlock: "(locks w)(key := None) = locks w" if "locks w key = None" for key
    using that by auto
  show ?thesis
    using assms(1,3,4)
    by (simp add: process_project_processing_queue_def project_lock.acq_free [OF assms(3)] drain_project_def
        pick fold_mark dispatch_accepted [OF assms(2)] project_lock.rel_own doc_rows.upd_rows_eq
        aud_rows.upd_rows_eq Let_def picked_def unlock)
      (simp add: doc_start_def aud_start_def)
qed

text \<open>
  C2. With the lock free and a broker that accepts, one drain moves exactly the picked sources to
  processing with the current time, sends for each, in pick order, the one message of its kind,
  touches nothing else, and leaves the lock free.
\<close>

theorem project_drain_dispatches:
  assumes "project_queue_enabled (conf env)" "\<And>t. broker env t = None"
    "locks w (PROJECT_QUEUE_LOCK_PREFIX, pid) = None" "tok \<noteq> []"
  shows "process_project_processing_queue env Redis_ok Redis_ok tok pid w =
    (let ps = pick_pending_project_sources_sync pid (project_queue_concurrency (conf env)) w in
     (Inr (if ps = [] then Drain_idle
           else Dispatched (length ps) (length (picked Document ps)) (length (picked Audio ps))),
      w\<lparr>documents := map (\<lambda>d. if doc_id d \<in> set (picked Document ps)
           then d\<lparr>doc_status := SP_PROCESSING, doc_started_at := Some (clock w)\<rparr> else d) (documents w),
        audios := map (\<lambda>a. if aud_id a \<in> set (picked Audio ps)
           then a\<lparr>aud_status := SP_PROCESSING, aud_started_at := Some (clock w)\<rparr> else a) (audios w),
        outbox := outbox w @ map (\<lambda>p. (message_of (ps_kind p) (ps_id p), None)) ps\<rparr>))"
  using drain_equation [OF assms] .

definition two_sources :: world where
  "two_sources = empty_world\<lparr>documents := [plain_document 1 7 (u ''text'')], audios := [plain_audio 2 7]\<rparr>"

theorem project_drain_dispatches_witness:
  "\<exists>w'. process_project_processing_queue plain_env Redis_ok Redis_ok (u ''t'') 7 two_sources
     = (Inr (Dispatched 1 1 0), w') \<and> outbox w' = [(Pipeline_document 1, None)]"
proof -
  have pick: "pick_pending_project_sources_sync 7 1 two_sources = [pending_doc (plain_document 1 7 (u ''text''))]"
    by code_simp
  have "locks two_sources (PROJECT_QUEUE_LOCK_PREFIX, 7) = None" "outbox two_sources = []"
    by (simp_all add: two_sources_def)
  then show ?thesis
    using project_drain_dispatches [of plain_env two_sources 7 "u ''t''"] pick
    by (simp add: picked_def pending_doc_def plain_document_def)
qed

text \<open>
  When another worker holds the lock, a drain changes no table, takes no source and asks to be
  run again in five seconds, so no source is dispatched twice.
\<close>

theorem project_drain_locked:
  assumes "project_queue_enabled (conf env)" "broker env (Process_project_queue pid) = None"
    "locks w (PROJECT_QUEUE_LOCK_PREFIX, pid) = Some t"
  shows "process_project_processing_queue env Redis_ok conn' tok pid w =
     (Inr Skipped_locked, w\<lparr>outbox := outbox w @ [(Process_project_queue pid, Some 5)]\<rparr>)"
  using assms
  by (simp add: process_project_processing_queue_def project_lock.acq_held [OF assms(3)]
      schedule_project_processing_def)

theorem project_drain_locked_witness:
  "process_project_processing_queue plain_env Redis_ok Redis_ok (u ''t'') 7
     (two_sources\<lparr>locks := [(PROJECT_QUEUE_LOCK_PREFIX, 7) \<mapsto> u ''other'']\<rparr>)
   = (Inr Skipped_locked, two_sources\<lparr>locks := [(PROJECT_QUEUE_LOCK_PREFIX, 7) \<mapsto> u ''other''],
        outbox := [(Process_project_queue 7, Some 5)]\<rparr>)"
  by (subst project_drain_locked) (simp_all add: two_sources_def)

section \<open>Draining until nothing is pending\<close>

lemma sort_key_set_take:
  "set (take n (sort_key k xs)) \<subseteq> set xs"
  using set_take_subset [of n "sort_key k xs"] by auto

definition distinct_sources :: "world \<Rightarrow> bool" where
  "distinct_sources w \<longleftrightarrow> distinct (map doc_id (documents w)) \<and> distinct (map aud_id (audios w))"

definition project_drained :: "env \<Rightarrow> pystr \<Rightarrow> uuid \<Rightarrow> world \<Rightarrow> world" where
  "project_drained env tok pid w = snd (process_project_processing_queue env Redis_ok Redis_ok tok pid w)"

lemma pending_source_id_inj:
  assumes "distinct_sources w"
  shows "distinct (map (\<lambda>p. (ps_kind p, ps_id p)) (pending_sources pid w))"
  using assms by (auto simp: distinct_sources_def pending_sources_def pending_doc_def pending_aud_def
      distinct_map inj_on_def)

lemma filter_not_in_map_length:
  assumes "distinct (map f xs)" "set ys \<subseteq> set xs" "distinct ys"
  shows "length (filter (\<lambda>x. f x \<notin> f ` set ys) xs) = length xs - length ys"
proof -
  have d: "distinct xs" and inj: "inj_on f (set xs)" using assms(1) by (simp_all add: distinct_map)
  have "filter (\<lambda>x. f x \<notin> f ` set ys) xs = filter (\<lambda>x. x \<notin> set ys) xs"
    by (rule filter_cong) (use inj assms(2) in \<open>auto simp: inj_on_def\<close>)
  moreover have "length (filter (\<lambda>x. x \<notin> set ys) xs) = card (set xs - set ys)"
    using d by (metis distinct_card distinct_filter set_diff_eq set_filter)
  ultimately show ?thesis
    using assms(2,3) d by (simp add: card_Diff_subset distinct_card)
qed

lemma picked_set: "i \<in> set (picked k ps) \<longleftrightarrow> (k, i) \<in> (\<lambda>p. (ps_kind p, ps_id p)) ` set ps"
  by (auto simp: picked_def image_iff)

lemma pending_after_drain:
  assumes "project_queue_enabled (conf env)" "\<And>t. broker env t = None"
    "locks w (PROJECT_QUEUE_LOCK_PREFIX, pid) = None" "tok \<noteq> []"
    and "ps = pick_pending_project_sources_sync pid (project_queue_concurrency (conf env)) w"
  shows "pending_sources pid (project_drained env tok pid w)
     = filter (\<lambda>p. (ps_kind p, ps_id p) \<notin> (\<lambda>p. (ps_kind p, ps_id p)) ` set ps) (pending_sources pid w)"
proof -
  let ?I = "(\<lambda>p. (ps_kind p, ps_id p)) ` set ps"
  have d: "documents (project_drained env tok pid w)
      = upd_rows doc_id (doc_start (clock w)) (picked Document ps) (documents w)"
    and a: "audios (project_drained env tok pid w)
      = upd_rows aud_id (aud_start (clock w)) (picked Audio ps) (audios w)"
    using drain_equation [OF assms(1-4)] assms(5)
    by (simp_all add: project_drained_def Let_def doc_rows.upd_rows_eq aud_rows.upd_rows_eq
        doc_start_def aud_start_def cong: if_cong)
  have "map pending_doc (filter (\<lambda>d. doc_project_id d = pid \<and> doc_status d = SP_PENDING)
          (upd_rows doc_id (doc_start (clock w)) (picked Document ps) rows))
      = filter (\<lambda>p. (ps_kind p, ps_id p) \<notin> ?I) (map pending_doc
          (filter (\<lambda>d. doc_project_id d = pid \<and> doc_status d = SP_PENDING) rows))" for rows
    unfolding doc_rows.upd_rows_eq by (induction rows) (auto simp: doc_start_def pending_doc_def picked_set)
  moreover have "map pending_aud (filter (\<lambda>a. aud_project_id a = pid \<and> aud_status a = SP_PENDING)
          (upd_rows aud_id (aud_start (clock w)) (picked Audio ps) rows))
      = filter (\<lambda>p. (ps_kind p, ps_id p) \<notin> ?I) (map pending_aud
          (filter (\<lambda>a. aud_project_id a = pid \<and> aud_status a = SP_PENDING) rows))" for rows
    unfolding aud_rows.upd_rows_eq by (induction rows) (auto simp: aud_start_def pending_aud_def picked_set)
  ultimately show ?thesis by (simp add: pending_sources_def d a)
qed

lemma drain_keeps:
  assumes "project_queue_enabled (conf env)" "\<And>t. broker env t = None"
    "locks w (PROJECT_QUEUE_LOCK_PREFIX, pid) = None" "tok \<noteq> []"
  shows "locks (project_drained env tok pid w) = locks w"
    and "distinct_sources w \<Longrightarrow> distinct_sources (project_drained env tok pid w)"
  using drain_equation [OF assms]
  by (simp_all add: project_drained_def Let_def distinct_sources_def o_def if_distrib cong: if_cong)

text \<open>
  C3. Every drain makes progress: with a free lock and an accepting broker, \<open>n\<close> drains leave
  exactly \<open>n * concurrency\<close> fewer pending sources (none, once there are no more), so a project with
  positive concurrency is fully dispatched after finitely many drains.
\<close>

theorem project_drain_progress:
  assumes "project_queue_enabled (conf env)" "\<And>t. broker env t = None"
    "locks w (PROJECT_QUEUE_LOCK_PREFIX, pid) = None" "tok \<noteq> []" "distinct_sources w"
  shows "length (pending_sources pid ((project_drained env tok pid ^^ n) w))
       = length (pending_sources pid w) - n * project_queue_concurrency (conf env)"
proof -
  let ?c = "project_queue_concurrency (conf env)" and ?D = "project_drained env tok pid"
  have one: "length (pending_sources pid (?D v)) = length (pending_sources pid v) - ?c"
    if "locks v (PROJECT_QUEUE_LOCK_PREFIX, pid) = None" "distinct_sources v" for v
  proof -
    let ?ps = "take ?c (sort_key ps_key (pending_sources pid v))"
    have "distinct ?ps" using pending_source_id_inj [OF that(2)] by (auto simp: distinct_map)
    then have "length (pending_sources pid (?D v)) = length (pending_sources pid v) - length ?ps"
      unfolding pending_after_drain [OF assms(1,2) that(1) assms(4) pick_global_order [symmetric]]
      by (rule filter_not_in_map_length [OF pending_source_id_inj [OF that(2)] sort_key_set_take])
    then show ?thesis by auto
  qed
  have "locks ((?D ^^ n) w) = locks w \<and> distinct_sources ((?D ^^ n) w)
      \<and> length (pending_sources pid ((?D ^^ n) w)) = length (pending_sources pid w) - n * ?c"
  proof (induction n)
    case (Suc n)
    then show ?case
      using drain_keeps [OF assms(1,2) _ assms(4), of "(?D ^^ n) w" pid] one [of "(?D ^^ n) w"] assms(3)
      by simp
  qed (use assms in simp)
  then show ?thesis by blast
qed

theorem project_drain_progress_witness:
  "length (pending_sources 7 ((project_drained plain_env (u ''t'') 7 ^^ 2) two_sources)) = 0"
proof -
  have "length (pending_sources 7 two_sources) = 2" by code_simp
  moreover have "distinct_sources two_sources" by code_simp
  ultimately show ?thesis
    using project_drain_progress [of plain_env two_sources 7 "u ''t''" 2]
    by (simp add: two_sources_def)
qed

section \<open>The life of a source\<close>

text \<open>The contract of the two tables of sources: what each write of the queue leaves in a row.\<close>

locale source_rows = status_table key status start
  for key :: "'r \<Rightarrow> uuid"
    and status :: "'r \<Rightarrow> source_status"
    and start :: "time \<Rightarrow> 'r \<Rightarrow> 'r" +
  fixes started :: "'r \<Rightarrow> time option"
    and completed :: "'r \<Rightarrow> time option"
    and err :: "'r \<Rightarrow> pystr option"
    and pend :: "int \<Rightarrow> 'r \<Rightarrow> 'r"
    and finish :: "bool \<Rightarrow> pystr \<Rightarrow> time \<Rightarrow> 'r \<Rightarrow> 'r"
  assumes pend_sel [simp]: "key (pend n r) = key r" "status (pend n r) = SP_PENDING"
      "started (pend n r) = None" "completed (pend n r) = None"
    and start_sel [simp]: "started (start t r) = Some t" "completed (start t r) = completed r"
    and finish_sel [simp]: "key (finish ok e t r) = key r" "completed (finish ok e t r) = Some t"
      "status (finish ok e t r) = (if ok then SP_COMPLETED else SP_FAILED)"
      "err (finish ok e t r) = (if ok then None else Some (take 8000 e))"
begin

text \<open>The status of a row agrees with its time stamps and its error.\<close>

definition consistent :: "'r \<Rightarrow> bool" where
  "consistent r \<longleftrightarrow>
     (status r = SP_PENDING \<longrightarrow> started r = None \<and> completed r = None) \<and>
     (status r = SP_PROCESSING \<longrightarrow> started r \<noteq> None \<and> completed r = None) \<and>
     (status r = SP_COMPLETED \<longrightarrow> completed r \<noteq> None \<and> err r = None) \<and>
     (status r = SP_FAILED \<longrightarrow> completed r \<noteq> None \<and> err r \<noteq> None)"

lemma consistent_writes [simp]:
  "consistent (pend n r)" "consistent (finish ok e t r)"
  "consistent r \<Longrightarrow> status r = SP_PENDING \<Longrightarrow> consistent (start t r)"
  by (simp_all add: consistent_def)

text \<open>A table is sound if its ids are distinct and its rows consistent.\<close>

definition sound :: "'r list \<Rightarrow> bool" where
  "sound rows \<longleftrightarrow> distinct (map key rows) \<and> (\<forall>r \<in> set rows. consistent r)"

lemma sound_map:
  "sound rows \<Longrightarrow> (\<And>r. key (f r) = key r) \<Longrightarrow>
     (\<And>r. r \<in> set rows \<Longrightarrow> consistent r \<Longrightarrow> consistent (f r)) \<Longrightarrow> sound (map f rows)"
  by (simp add: sound_def o_def)

lemma sound_upd_row:
  "sound rows \<Longrightarrow> (\<And>r. key (f r) = key r) \<Longrightarrow> (\<And>r. consistent r \<Longrightarrow> consistent (f r)) \<Longrightarrow>
     sound (upd_row key i f rows)"
  unfolding upd_row_def by (rule sound_map) auto

text \<open>Starting rows that are all pending, as a drain does.\<close>

lemma sound_start:
  assumes "sound rows" "\<And>i. i \<in> set is \<Longrightarrow> \<exists>r \<in> set rows. key r = i \<and> status r = SP_PENDING"
  shows "sound (upd_rows key (start t) is rows)"
proof -
  have pending: "status r = SP_PENDING" if r: "r \<in> set rows" "key r \<in> set is" for r
  proof -
    obtain r' where "r' \<in> set rows" "key r' = key r" "status r' = SP_PENDING" using assms(2) [OF r(2)] by auto
    then show ?thesis using assms(1) r(1) by (auto simp: sound_def distinct_map dest: inj_onD)
  qed
  show ?thesis
    unfolding upd_rows_eq by (rule sound_map [OF assms(1)]) (auto simp: pending)
qed

end

interpretation doc_life: source_rows doc_id doc_status doc_start doc_started_at doc_completed_at
  doc_last_error doc_pend doc_finish
  by unfold_locales (simp_all add: doc_start_def doc_pend_def doc_finish_def)

interpretation aud_life: source_rows aud_id aud_status aud_start aud_started_at aud_completed_at
  aud_last_error aud_pend aud_finish
  by unfold_locales (simp_all add: aud_start_def aud_pend_def aud_finish_def)

text \<open>The invariant written out over the model.\<close>

definition row_consistent :: "source_status \<Rightarrow> time option \<Rightarrow> time option \<Rightarrow> pystr option \<Rightarrow> bool" where
  "row_consistent st started completed err \<longleftrightarrow>
     (st = SP_PENDING \<longrightarrow> started = None \<and> completed = None) \<and>
     (st = SP_PROCESSING \<longrightarrow> started \<noteq> None \<and> completed = None) \<and>
     (st = SP_COMPLETED \<longrightarrow> completed \<noteq> None \<and> err = None) \<and>
     (st = SP_FAILED \<longrightarrow> completed \<noteq> None \<and> err \<noteq> None)"

definition sources_sound :: "world \<Rightarrow> bool" where
  "sources_sound w \<longleftrightarrow> distinct_sources w
     \<and> (\<forall>d \<in> set (documents w). row_consistent (doc_status d) (doc_started_at d) (doc_completed_at d) (doc_last_error d))
     \<and> (\<forall>a \<in> set (audios w). row_consistent (aud_status a) (aud_started_at a) (aud_completed_at a) (aud_last_error a))"

lemma sources_sound_iff:
  "sources_sound w \<longleftrightarrow> doc_life.sound (documents w) \<and> aud_life.sound (audios w)"
  by (auto simp: sources_sound_def doc_life.sound_def aud_life.sound_def distinct_sources_def
      row_consistent_def doc_life.consistent_def aud_life.consistent_def)

text \<open>Every way the project queue writes the tables of sources, and time passing.\<close>

inductive queue_step :: "env \<Rightarrow> world \<Rightarrow> world \<Rightarrow> bool" for env where
  tick: "queue_step env w (w\<lparr>clock := t\<rparr>)"
| drain: "queue_step env w (snd (process_project_processing_queue env c c' tok pid w))"
| doc_done: "queue_step env w (snd (finalize_project_document_pipeline_task_result env did res w))"
| doc_end: "queue_step env w (snd (maybe_finalize_project_after_document_pipeline env did ok e w))"
| aud_failed: "queue_step env w (snd (maybe_finalize_project_after_audio_failure env aid e' w))"
| aud_done: "queue_step env w (snd (maybe_finalize_project_after_audio_extract_outcome env tid ok e w))"
| requeue: "queue_step env w (snd (requeue_project_document_pipeline env did reason n w))"
| restart: "queue_step env w (snd (mark_idle_and_failed_sources_pending pid w))"
| mark_one: "queue_step env w (mark_source_pending_sync kind i ord w)"
| mark_many: "queue_step env w (mark_sources_pending dids aids base w)"

inductive_cases queue_stepE: "queue_step env w w'"

section \<open>Effect of each operation on the two tables\<close>

text \<open>\<open>same_sources\<close>: an operation that leaves both tables alone.\<close>

definition same_sources :: "world \<Rightarrow> world \<Rightarrow> bool" where
  "same_sources w w' \<longleftrightarrow> documents w' = documents w \<and> audios w' = audios w"

lemma sound_same: "same_sources w w' \<Longrightarrow> sources_sound w' \<longleftrightarrow> sources_sound w"
  by (simp add: sources_sound_iff same_sources_def)

lemma send_same: "same_sources w (snd (send env t c w))"
  by (simp add: send_def same_sources_def split: option.split)

lemma schedule_same: "same_sources w (snd (schedule_project_processing env pid c w))"
  by (simp add: schedule_project_processing_def send_same split: option.split)

lemma aggregate_same: "same_sources w (aggregate_project_after_source env pid w)"
  by (simp add: aggregate_project_after_source_def aggregate_project_sync_def
      deduplicate_project_entities_sync_def same_sources_def Let_def split: sum.split)

lemma idle_same: "same_sources w (maybe_finalize_project_queue_idle pid w)"
  by (simp add: maybe_finalize_project_queue_idle_def invalidate_project_llm_cache_sync_def same_sources_def)

lemma same_trans: "same_sources w w1 \<Longrightarrow> same_sources w1 w2 \<Longrightarrow> same_sources w w2"
  by (simp add: same_sources_def)

lemma after_finish_same: "same_sources w (snd (after_finish env ok pid w))"
proof -
  have "same_sources w (if ok then aggregate_project_after_source env pid w else w)"
    by (simp add: aggregate_same) (simp add: same_sources_def)
  then show ?thesis
    unfolding after_finish_def Let_def
    by (rule same_trans [OF same_trans [OF _ idle_same] schedule_same])
qed

lemma lock_same:
  "same_sources w (snd (try_acquire_project_queue_lock c tok pid w))"
  "same_sources w (release_project_queue_lock c pid tok w)"
  by (simp_all add: try_acquire_project_queue_lock_def release_project_queue_lock_def same_sources_def Let_def
      split: redis_conn.split option.split)

lemma sound_upd_doc:
  "sources_sound w \<Longrightarrow> (\<And>d. doc_id (f d) = doc_id d) \<Longrightarrow>
     (\<And>d. doc_life.consistent d \<Longrightarrow> doc_life.consistent (f d)) \<Longrightarrow> sources_sound (upd_doc i f w)"
  by (simp add: sources_sound_iff world_simps doc_life.sound_upd_row)

lemma sound_upd_audio:
  "sources_sound w \<Longrightarrow> (\<And>a. aud_id (f a) = aud_id a) \<Longrightarrow>
     (\<And>a. aud_life.consistent a \<Longrightarrow> aud_life.consistent (f a)) \<Longrightarrow> sources_sound (upd_audio i f w)"
  by (simp add: sources_sound_iff world_simps aud_life.sound_upd_row)

lemma sound_doc_end:
  "sources_sound w \<Longrightarrow> sources_sound (snd (maybe_finalize_project_after_document_pipeline env did ok e w))"
  by (simp add: maybe_finalize_project_after_document_pipeline_def sound_same [OF after_finish_same]
      sound_upd_doc split: option.split)

lemma sound_aud_failed:
  "sources_sound w \<Longrightarrow> sources_sound (snd (maybe_finalize_project_after_audio_failure env aid e w))"
  by (simp add: maybe_finalize_project_after_audio_failure_def sound_same [OF after_finish_same]
      sound_upd_audio split: option.split)

lemma sound_aud_done:
  "sources_sound w \<Longrightarrow> sources_sound (snd (maybe_finalize_project_after_audio_extract_outcome env tid ok e w))"
  by (simp add: maybe_finalize_project_after_audio_extract_outcome_def sound_same [OF after_finish_same]
      sound_upd_audio split: option.split)

text \<open>Requeueing keeps a row consistent because only a processing row is requeued.\<close>

lemma sound_requeue:
  assumes "sources_sound w"
  shows "sources_sound (snd (requeue_project_document_pipeline env did reason n w))"
proof -
  have "sources_sound (upd_doc did (doc_requeue reason) w)"
    if "get_doc w did = Some d" "doc_status d = SP_PROCESSING" for d
  proof -
    have "documents (upd_doc did (doc_requeue reason) w)
        = map (\<lambda>r. if doc_id r = did then doc_requeue reason r else r) (documents w)"
      by (simp add: world_simps upd_row_def)
    moreover have "r = d" if "r \<in> set (documents w)" "doc_id r = did" for r
    proof -
      have "d \<in> set (documents w)" "doc_id d = did"
        using \<open>get_doc w did = Some d\<close> by (auto simp: get_doc_def dest: get_row_SomeD)
      then show ?thesis using that assms
        by (auto simp: sources_sound_iff doc_life.sound_def distinct_map dest: inj_onD)
    qed
    then have "doc_life.sound (map (\<lambda>r. if doc_id r = did then doc_requeue reason r else r) (documents w))"
      using assms \<open>doc_status d = SP_PROCESSING\<close>
      by (intro doc_life.sound_map) (auto simp: sources_sound_iff doc_requeue_def doc_life.consistent_def)
    ultimately show ?thesis using assms by (simp add: sources_sound_iff world_simps)
  qed
  then show ?thesis using assms
    by (simp add: requeue_project_document_pipeline_def sound_same [OF schedule_same] split: option.split)
qed

lemma sound_task_result:
  "sources_sound w \<Longrightarrow> sources_sound (snd (finalize_project_document_pipeline_task_result env did r w))"
  by (simp add: finalize_project_document_pipeline_task_result_def sound_requeue sound_doc_end)

lemma sound_and_then:
  "sources_sound (snd r) \<Longrightarrow> (\<And>x w. sources_sound w \<Longrightarrow> sources_sound (snd (f x w))) \<Longrightarrow>
     sources_sound (snd (and_then r f))"
  by (auto simp: and_then_def split: prod.split sum.split)

lemma sound_dispatch:
  "sources_sound w \<Longrightarrow> sources_sound (snd (dispatch_pending env ps nd na w))"
proof (induction ps arbitrary: nd na w)
  case (Cons p ps)
  have "sources_sound (w\<lparr>outbox := x\<rparr>)" for x
    using Cons.prems by (simp add: sources_sound_iff)
  then show ?case
    using Cons.prems by (cases "ps_kind p"; cases "broker env (message_of (ps_kind p) (ps_id p))")
      (simp_all add: Cons.IH sound_and_then sound_doc_end sound_aud_failed)
qed simp

lemma sound_send_all: "same_sources w (snd (send_all env ts n w))"
proof (induction ts arbitrary: n w)
  case (Cons t ts)
  obtain r w1 where r: "send env t None w = (r, w1)" by (cases "send env t None w")
  then have "same_sources w w1" using send_same [of w env t None] by simp
  then show ?case using Cons.IH same_trans r by (cases r) auto
qed (simp add: same_sources_def)

lemma legacy_same: "same_sources w (snd (legacy_fan_out_all env pid w))"
proof -
  have "same_sources w (snd (send_all env ts' m (snd (send_all env ts n w))))" for ts ts' n m
    by (rule same_trans [OF sound_send_all sound_send_all])
  moreover have "same_sources w w" by (simp add: same_sources_def)
  ultimately show ?thesis
    unfolding legacy_fan_out_all_def Let_def by (simp add: case_prod_unfold)
qed

lemma picked_pending:
  assumes "i \<in> set (picked Document (pick_pending_project_sources_sync pid n w))"
  shows "\<exists>d \<in> set (documents w). doc_id d = i \<and> doc_status d = SP_PENDING"
proof -
  have "\<exists>p \<in> set (pending_sources pid w). ps_kind p = Document \<and> ps_id p = i"
    using assms sort_key_set_take [of n ps_key "pending_sources pid w"]
    by (auto simp: picked_def pick_global_order)
  then show ?thesis by (auto simp: pending_sources_def pending_doc_def pending_aud_def)
qed

lemma picked_pending_audio:
  assumes "i \<in> set (picked Audio (pick_pending_project_sources_sync pid n w))"
  shows "\<exists>a \<in> set (audios w). aud_id a = i \<and> aud_status a = SP_PENDING"
proof -
  have "\<exists>p \<in> set (pending_sources pid w). ps_kind p = Audio \<and> ps_id p = i"
    using assms sort_key_set_take [of n ps_key "pending_sources pid w"]
    by (auto simp: picked_def pick_global_order)
  then show ?thesis by (auto simp: pending_sources_def pending_doc_def pending_aud_def)
qed

lemma sound_drain_project:
  assumes "sources_sound w"
  shows "sources_sound (snd (drain_project env pid w))"
proof -
  let ?ps = "pick_pending_project_sources_sync pid (project_queue_concurrency (conf env)) w"
  have "doc_life.sound (upd_rows doc_id (doc_start (clock w)) (picked Document ?ps) (documents w))"
    by (rule doc_life.sound_start) (use assms picked_pending in \<open>simp_all add: sources_sound_iff\<close>)
  moreover have "aud_life.sound (upd_rows aud_id (aud_start (clock w)) (picked Audio ?ps) (audios w))"
    by (rule aud_life.sound_start) (use assms picked_pending_audio in \<open>simp_all add: sources_sound_iff\<close>)
  ultimately have "sources_sound (fold mark_project_source_processing ?ps w)"
    by (simp add: fold_mark sources_sound_iff)
  then show ?thesis
    by (auto simp: drain_project_def Let_def intro!: sound_and_then sound_dispatch)
qed

lemma sound_drain:
  assumes "sources_sound w"
  shows "sources_sound (snd (process_project_processing_queue env c c' tok pid w))"
proof -
  obtain lk w1 where l: "try_acquire_project_queue_lock c tok pid w = (lk, w1)"
    by (cases "try_acquire_project_queue_lock c tok pid w")
  have w1: "sources_sound w1"
    using lock_same(1) [of w c tok pid] assms by (simp add: l sound_same)
  show ?thesis
  proof (cases "project_queue_enabled (conf env)")
    case True
    obtain r w2 where d: "drain_project env pid w1 = (r, w2)" by (cases "drain_project env pid w1")
    have "sources_sound w2" using sound_drain_project [OF w1, of env pid] by (simp add: d)
    then have "sources_sound (release_project_queue_lock c' pid (token lk) w2)"
      by (simp add: sound_same [OF lock_same(2)])
    moreover have "sources_sound (snd (and_then (schedule_project_processing env pid (Some 5) w1)
        (\<lambda>_ w2. (Inr Skipped_locked, w2))))"
      by (rule sound_and_then) (simp_all add: w1 sound_same [OF schedule_same])
    ultimately show ?thesis
      using True w1 by (simp add: process_project_processing_queue_def l d)
  next
    case False
    have "same_sources w (snd (legacy_fan_out_all env pid w))" by (rule legacy_same)
    then show ?thesis using False assms by (simp add: process_project_processing_queue_def sound_same)
  qed
qed

lemma sound_restart:
  "sources_sound w \<Longrightarrow> sources_sound (snd (mark_idle_and_failed_sources_pending pid w))"
  by (auto simp: mark_idle_and_failed_sources_pending_def Let_def sources_sound_iff
      doc_life.consistent_def aud_life.consistent_def intro!: doc_life.sound_map aud_life.sound_map)

lemma sound_mark_docs: "sources_sound w \<Longrightarrow> sources_sound (snd (mark_docs_pending is n w))"
  by (induction "is" n w rule: mark_docs_pending.induct)
    (simp_all add: sound_upd_doc split: option.split)

lemma sound_mark_audios: "sources_sound w \<Longrightarrow> sources_sound (snd (mark_audios_pending is n w))"
  by (induction "is" n w rule: mark_audios_pending.induct)
    (simp_all add: sound_upd_audio split: option.split)

lemma sound_mark_many: "sources_sound w \<Longrightarrow> sources_sound (mark_sources_pending ds as n w)"
  using sound_mark_docs [of w ds n]
  by (auto simp: mark_sources_pending_def sound_mark_audios split: prod.split)

lemma sound_mark_one: "sources_sound w \<Longrightarrow> sources_sound (mark_source_pending_sync k i n w)"
  by (simp add: mark_source_pending_sync_def sound_upd_doc sound_upd_audio
      split: source_kind.split option.split)

lemma queue_step_sound: "queue_step env w w' \<Longrightarrow> sources_sound w \<Longrightarrow> sources_sound w'"
  by (induction rule: queue_step.induct)
    (simp_all add: sound_drain sound_task_result sound_doc_end sound_aud_failed sound_aud_done
      sound_requeue sound_restart sound_mark_one sound_mark_many, simp add: sources_sound_iff)

text \<open>
  C1. In every run of the project queue (drains, reports of pipelines, requeues, restarts, new
  uploads marked pending, in any order and with any failures of Redis and the broker) the status of
  each source agrees with its stamps and error: a pending one has neither started nor ended, a
  processing one has started and not ended, a completed one has an end and no error, a failed one
  has an end and an error.
\<close>

theorem project_queue_invariant:
  assumes "(queue_step env)\<^sup>*\<^sup>* w w'" "sources_sound w"
  shows "sources_sound w'"
  using assms by (induction rule: rtranclp_induct) (auto intro: queue_step_sound)

theorem project_queue_invariant_witness:
  "sources_sound (snd (maybe_finalize_project_after_document_pipeline plain_env 1 False None
     (snd (process_project_processing_queue plain_env Redis_ok Redis_ok (u ''t'') 7 two_sources))))"
proof (rule project_queue_invariant [of plain_env two_sources])
  show "(queue_step plain_env)\<^sup>*\<^sup>* two_sources (snd (maybe_finalize_project_after_document_pipeline
      plain_env 1 False None (snd (process_project_processing_queue plain_env Redis_ok Redis_ok
      (u ''t'') 7 two_sources))))"
    by (meson queue_step.drain queue_step.doc_end rtranclp.rtrancl_refl rtranclp.rtrancl_into_rtrancl)
  show "sources_sound two_sources" by code_simp
qed

section \<open>Reports of the pipelines\<close>

lemma aggregate_sel:
  "outbox (aggregate_project_after_source env pid w) = outbox w"
  "project_llm_cache (aggregate_project_after_source env pid w) = project_llm_cache w"
  "documents (aggregate_project_after_source env pid w) = documents w"
  "audios (aggregate_project_after_source env pid w) = audios w"
  by (simp_all add: aggregate_project_after_source_def aggregate_project_sync_def
      deduplicate_project_entities_sync_def Let_def split: sum.split)

lemma after_finish_accepted:
  assumes "broker env (Process_project_queue pid) = None"
  shows "\<exists>w'. after_finish env ok pid w = (Inr (), w') \<and> documents w' = documents w \<and> audios w' = audios w
     \<and> outbox w' = outbox w @ [(Process_project_queue pid, None)]
     \<and> project_llm_cache w' = (if project_active pid w then project_llm_cache w
          else filter (\<lambda>c. ca_owner c \<noteq> pid) (project_llm_cache w))"
  using assms
  by (simp add: after_finish_def schedule_project_processing_def maybe_finalize_project_queue_idle_def
      active_work_iff invalidate_project_llm_cache_sync_def aggregate_sel project_active_def Let_def)

text \<open>
  C4. A report for a document that is pending or processing ends exactly that document (completed,
  or failed with its message, at most 8000 characters of it), schedules the next drain of its
  project, and drops the project's cached answers if and only if no other source is still active.
\<close>

theorem project_finalize_document:
  assumes "project_queue_enabled (conf env)" "get_doc w did = Some d" "active (doc_status d)"
    "broker env (Process_project_queue (doc_project_id d)) = None"
  shows "\<exists>w'. maybe_finalize_project_after_document_pipeline env did ok e w = (Inr (), w')
     \<and> documents w' = map (\<lambda>x. if doc_id x = did then
           (if ok then x\<lparr>doc_status := SP_COMPLETED, doc_completed_at := Some (clock w), doc_last_error := None\<rparr>
            else x\<lparr>doc_status := SP_FAILED, doc_completed_at := Some (clock w),
                   doc_last_error := Some (take 8000 (str_or e (u ''pipeline_failed'')))\<rparr>) else x) (documents w)
     \<and> audios w' = audios w
     \<and> outbox w' = outbox w @ [(Process_project_queue (doc_project_id d), None)]
     \<and> project_llm_cache w' = (if project_active (doc_project_id d) w' then project_llm_cache w
          else filter (\<lambda>c. ca_owner c \<noteq> doc_project_id d) (project_llm_cache w))"
proof -
  let ?w = "upd_doc did (doc_finish ok (str_or e (u ''pipeline_failed'')) (clock w)) w"
  obtain w' where w': "after_finish env ok (doc_project_id d) ?w = (Inr (), w')"
    "documents w' = documents ?w" "audios w' = audios ?w"
    "outbox w' = outbox ?w @ [(Process_project_queue (doc_project_id d), None)]"
    "project_llm_cache w' = (if project_active (doc_project_id d) ?w then project_llm_cache ?w
       else filter (\<lambda>c. ca_owner c \<noteq> doc_project_id d) (project_llm_cache ?w))"
    using after_finish_accepted [OF assms(4), of ok ?w] by blast
  have "project_active (doc_project_id d) w' = project_active (doc_project_id d) ?w"
    using w' by (simp add: project_active_def)
  moreover have "maybe_finalize_project_after_document_pipeline env did ok e w
      = after_finish env ok (doc_project_id d) ?w"
    using assms by (auto simp: maybe_finalize_project_after_document_pipeline_def active_def)
  ultimately show ?thesis
    using w' by (simp add: world_simps upd_row_def doc_finish_def cong: if_cong)
qed

theorem project_finalize_document_witness:
  "\<exists>w'. maybe_finalize_project_after_document_pipeline plain_env 1 True None two_sources = (Inr (), w')
     \<and> outbox w' = [(Process_project_queue 7, None)]"
proof -
  have "get_doc two_sources 1 = Some (plain_document 1 7 (u ''text''))" by code_simp
  then show ?thesis
    using project_finalize_document [of plain_env two_sources 1 "plain_document 1 7 (u ''text'')" True None]
    by (auto simp: plain_document_def active_def two_sources_def)
qed

lemma finalize_inactive:
  "get_doc w did = Some d \<Longrightarrow> \<not> active (doc_status d) \<Longrightarrow>
     maybe_finalize_project_after_document_pipeline env did ok e w = (Inr (), w)"
  by (simp add: maybe_finalize_project_after_document_pipeline_def active_def)

text \<open>
  Only the first report for a document counts: whatever a later report (a redelivered task, a
  late failure) says, it changes nothing and schedules nothing.
\<close>

theorem project_finalize_document_once:
  "maybe_finalize_project_after_document_pipeline env did ok' e'
     (snd (maybe_finalize_project_after_document_pipeline env did ok e w))
   = (Inr (), snd (maybe_finalize_project_after_document_pipeline env did ok e w))"
proof (cases "project_queue_enabled (conf env) \<and> (\<exists>d. get_doc w did = Some d \<and> active (doc_status d))")
  case True
  then obtain d where d: "get_doc w did = Some d" "active (doc_status d)" by blast
  let ?f = "doc_finish ok (str_or e (u ''pipeline_failed'')) (clock w)"
  let ?w = "snd (maybe_finalize_project_after_document_pipeline env did ok e w)"
  have "documents ?w = upd_row doc_id did ?f (documents w)"
    using True d after_finish_same [of "upd_doc did ?f w" env ok "doc_project_id d"]
    by (auto simp: maybe_finalize_project_after_document_pipeline_def active_def same_sources_def world_simps)
  then have "get_doc ?w did = Some (?f d)"
    using d by (simp add: get_doc_def get_upd_row doc_finish_def)
  then show ?thesis by (rule finalize_inactive) (simp add: doc_finish_def active_def)
next
  case False
  then have "snd (maybe_finalize_project_after_document_pipeline env did ok e w) = w"
    by (auto simp: maybe_finalize_project_after_document_pipeline_def active_def split: option.split)
  moreover have "maybe_finalize_project_after_document_pipeline env did ok' e' w = (Inr (), w)"
    using False by (auto simp: maybe_finalize_project_after_document_pipeline_def active_def split: option.split)
  ultimately show ?thesis by simp
qed

text \<open>
  The aggregation that is meant to follow every completed source never runs: the queue imports
  it under the name \<^verbatim>\<open>ResearchProjectAggregationService\<close>, which its module does not bind, and the
  error is swallowed. So no report of a source, successful or not, ever writes the snapshot or links
  an entity.
\<close>

theorem project_report_never_aggregates:
  "let w' = snd (maybe_finalize_project_after_document_pipeline env did ok e w) in
     snapshots w' = snapshots w \<and> entities w' = entities w"
proof -
  have a: "aggregate_project_after_source env pid v = v" for pid v
    by (simp add: aggregate_project_after_source_def import_name_def aggregation_module_names_def)
  have "snapshots (snd (after_finish env ok pid v)) = snapshots v
      \<and> entities (snd (after_finish env ok pid v)) = entities v" for pid v
    by (simp add: after_finish_def a schedule_project_processing_def send_def Let_def
        maybe_finalize_project_queue_idle_def invalidate_project_llm_cache_sync_def split: option.split)
  then show ?thesis
    by (simp add: maybe_finalize_project_after_document_pipeline_def Let_def upd_doc_def split: option.split)
qed

end
