(* ===== verification/Entity_Extraction.thy ===== *)
theory Entity_Extraction
  imports Sentences Batch_Queue Project_Lifecycle
begin

text \<open>
  Entity extraction (\<^verbatim>\<open>research_extraction_service.py\<close> and the tasks of
  \<^verbatim>\<open>workers/tasks/research_extraction.py\<close>): what a provider proposes for a chunk is filtered, replaced
  by a sentence level fallback or supplemented, cut to eight, and the rows of the source are replaced.
\<close>

section \<open>Candidates of one chunk\<close>

definition MAX_ENTITY_CONTENT_LEN :: nat where
  "MAX_ENTITY_CONTENT_LEN = 300"

text \<open>\<open>sv_hash8\<close> is the number of the digest's first eight digits; the key names chunk and slot.\<close>

fun digits :: "nat \<Rightarrow> pystr" where
  "digits n = (if n < 10 then [48 + n] else digits (n div 10) @ [48 + n mod 10])"

declare digits.simps [simp del]

definition fallback_confidence :: "services \<Rightarrow> nat \<Rightarrow> nat \<Rightarrow> rat" where
  "fallback_confidence sv ci slot =
     (let n = sv_hash8 sv (u ''svc-sentence-fallback:'' @ digits ci @ u '':'' @ digits slot) mod 351
      in py_round (min (fl (95 / 100)) (fl (fl (6 / 10) + fl (of_nat n / 1000)))) 3)"

definition chunk_body :: "text_chunk \<Rightarrow> pystr" where
  "chunk_body ch = strip (ch_text ch)"

definition filter_provider_candidates :: "text_chunk \<Rightarrow> candidate list \<Rightarrow> candidate list" where
  "filter_provider_candidates ch raw =
     filter (\<lambda>c. let content = strip (cd_content c) in
       \<not> MAX_ENTITY_CONTENT_LEN < length content \<and> \<not> (chunk_body ch \<noteq> [] \<and> content = chunk_body ch)) raw"

definition existing_spans :: "candidate list \<Rightarrow> (int \<times> int) list" where
  "existing_spans cs = map cd_span cs"

definition spans_overlap :: "int \<Rightarrow> int \<Rightarrow> int \<Rightarrow> int \<Rightarrow> bool" where
  "spans_overlap a0 a1 b0 b1 \<longleftrightarrow> \<not> (a1 \<le> b0 \<or> a0 \<ge> b1)"

text \<open>\<^verbatim>\<open>ExtractedEntityCandidate(...)\<close>: its validator strips and cuts the title.\<close>

definition candidate_title :: "pystr \<Rightarrow> pystr" where
  "candidate_title v = (let s = strip v in if s = [] then u ''Untitled'' else take 512 s)"

definition fact :: "services \<Rightarrow> text_chunk \<Rightarrow> pystr option \<Rightarrow> string \<Rightarrow> string \<Rightarrow> nat \<Rightarrow> pystr \<Rightarrow> nat \<Rightarrow> nat \<Rightarrow> candidate" where
  "fact sv ch hint rule fallback slot sent a b =
     \<lparr>cd_type = SUPPORTING_FACT, cd_title = candidate_title (title_from_sentence sent (u fallback)),
      cd_content = clip sent MAX_ENTITY_CONTENT_LEN,
      cd_score = fallback_confidence sv (ch_index ch) slot,
      cd_tags = [(u ''rule'', Some (u rule)), (u ''source_file'', Some (str_or hint []))],
      cd_quote = clip sent MAX_ENTITY_CONTENT_LEN, cd_span = (int a, int b)\<rparr>"

text \<open>
  The loop over even segments, shared by the fallback and the supplement: a segment is used unless
  it overlaps, is shorter than 12 or is the whole chunk. \<open>stop\<close> is the length at which the loop ends
  after an addition: the supplement breaks at three, the fallback only at eight.
\<close>

fun segment_loop :: "services \<Rightarrow> text_chunk \<Rightarrow> pystr option \<Rightarrow> string \<Rightarrow> nat \<Rightarrow> (nat \<times> nat) list \<Rightarrow>
    nat \<Rightarrow> (int \<times> int) list \<Rightarrow> candidate list \<Rightarrow> candidate list" where
  "segment_loop sv ch hint rule stop [] slot existing out = out"
| "segment_loop sv ch hint rule stop ((a, b) # segs) slot existing out =
     (let snippet = strip (Prelude.slice (chunk_body ch) a b) in
      if 8 \<le> length out then out
      else if list_ex (\<lambda>(x, y). spans_overlap (int a) (int b) x y) existing \<or> length snippet < 12
           \<or> snippet = strip (chunk_body ch)
        then segment_loop sv ch hint rule stop segs slot existing out
      else (let out' = out @ [fact sv ch hint rule ''Segment'' (slot + 1) snippet a b] in
            if stop \<le> length out' then out'
            else segment_loop sv ch hint rule stop segs (slot + 1) (existing @ [(int a, int b)]) out'))"

definition segment_count :: "pystr \<Rightarrow> nat" where
  "segment_count txt = min 6 (max 3 ((length txt + 99) div 100))"

definition candidate_order :: "candidate list \<Rightarrow> candidate list" where
  "candidate_order cs = take 8 (sort_key (\<lambda>c. (cd_span c, entity_type_value (cd_type c))) cs)"

definition sentence_level_fallback :: "services \<Rightarrow> text_chunk \<Rightarrow> pystr option \<Rightarrow> candidate list" where
  "sentence_level_fallback sv ch hint =
     (let body = chunk_body ch in
      if body = [] then []
      else (let out = map (\<lambda>(i, sent, a, b). fact sv ch hint ''service_sentence_fallback'' ''Statement'' (i + 1) sent a b)
                  (enumerate 0 (take 8 (split_sentences body)));
                out1 = (if length out < 3 \<and> 30 \<le> length body
                  then segment_loop sv ch hint ''service_segment_fallback'' 8
                         (even_segments body (segment_count body)) (length out) (existing_spans out) out
                  else out);
                out2 = (if out1 = [] then [fact sv ch hint ''service_tiny_chunk'' ''Chunk'' (length out1 + 1) body 0 (length body)]
                        else out1)
            in candidate_order out2))"

definition supplement_sparse :: "services \<Rightarrow> text_chunk \<Rightarrow> candidate list \<Rightarrow> pystr option \<Rightarrow> candidate list" where
  "supplement_sparse sv ch es hint =
     (let body = chunk_body ch in
      if 3 \<le> length es \<or> length body < 30 then es
      else candidate_order (segment_loop sv ch hint ''service_supplement_segment'' 3
             (even_segments body (segment_count body)) (length es) (existing_spans es) es))"

definition finalize_chunk_entities :: "services \<Rightarrow> text_chunk \<Rightarrow> candidate list \<Rightarrow> pystr option \<Rightarrow> candidate list" where
  "finalize_chunk_entities sv ch raw hint =
     (let final = (if length raw \<le> 1 then sentence_level_fallback sv ch hint
                   else (let f = filter_provider_candidates ch raw in
                         if length f \<le> 1 then sentence_level_fallback sv ch hint
                         else supplement_sparse sv ch f hint));
          final1 = (if length final < 3 \<and> 30 \<le> length (chunk_body ch)
                    then supplement_sparse sv ch final hint else final)
      in take 8 final1)"

section \<open>Rows\<close>

definition new_entities :: "uuid \<Rightarrow> time \<Rightarrow> text_chunk \<Rightarrow> candidate list \<Rightarrow> extracted_entity list" where
  "new_entities base now ch cs =
     map (\<lambda>(i, c). \<lparr>en_id = base + i, en_project_id = ch_project_id ch, en_document_id = ch_document_id ch,
        en_audio_id = ch_audio_id ch, en_transcript_id = ch_transcript_id ch, en_chunk_id = ch_id ch,
        en_candidate = c, en_canonical = None, en_created_at = now\<rparr>) (enumerate 0 cs)"

definition persist :: "text_chunk \<Rightarrow> candidate list \<Rightarrow> world \<Rightarrow> nat \<times> world" where
  "persist ch cs w =
     (length cs, w\<lparr>entities := entities w @ new_entities (next_id w) (clock w) ch cs,
                   next_id := next_id w + length cs\<rparr>)"

fun extract_for_chunks :: "services \<Rightarrow> pystr option \<Rightarrow> text_chunk list \<Rightarrow> nat \<Rightarrow> world \<Rightarrow> nat outcome" where
  "extract_for_chunks sv hint [] n w = (Inr n, w)"
| "extract_for_chunks sv hint (ch # chs) n w =
     (case sv_extract sv (ch_text ch) (ch_index ch) hint of
        Inl e \<Rightarrow> (Inl e, w)
      | Inr raw \<Rightarrow> (let (k, w1) = persist ch (finalize_chunk_entities sv ch raw hint) w
                   in extract_for_chunks sv hint chs (n + k) w1))"

definition chunks_for_document_ordered :: "world \<Rightarrow> uuid \<Rightarrow> text_chunk list" where
  "chunks_for_document_ordered w did =
     sort_key (\<lambda>c. (ch_index c, ch_id c)) (filter (\<lambda>c. ch_document_id c = Some did) (chunks w))"

definition chunks_for_transcript_ordered :: "world \<Rightarrow> uuid \<Rightarrow> text_chunk list" where
  "chunks_for_transcript_ordered w tid =
     sort_key (\<lambda>c. (ch_index c, ch_id c)) (filter (\<lambda>c. ch_transcript_id c = Some tid) (chunks w))"

definition chunks_for_audio_scope_ordered :: "world \<Rightarrow> uuid \<Rightarrow> text_chunk list" where
  "chunks_for_audio_scope_ordered w aid =
     sort_key (\<lambda>c. (ch_index c, ch_id c)) (filter (\<lambda>c. ch_audio_id c = Some aid
       \<or> in_ids (ch_transcript_id c) (transcript_ids w aid)) (chunks w))"

definition extract_for_document_sync :: "env \<Rightarrow> services \<Rightarrow> uuid \<Rightarrow> world \<Rightarrow> nat outcome" where
  "extract_for_document_sync env sv did w =
     (case get_doc w did of
        None \<Rightarrow> (Inl (Value_error (u ''source_document_not_found'')), w)
      | Some d \<Rightarrow> and_then
          (if chunks_for_document_ordered w did = [] \<and> strip (text_of (doc_raw_text d)) \<noteq> []
           then chunk_source_document_sync env sv did Fixed w else (Inr 0, w))
          (\<lambda>_ w1. let chs = chunks_for_document_ordered w1 did;
                     w2 = delete_entities (\<lambda>e. en_document_id e = Some did) w1
                 in if chs = [] then (Inr 0, w2)
                    else extract_for_chunks sv (Some (doc_filename d)) chs 0 w2))"

definition extract_for_transcript_sync :: "env \<Rightarrow> services \<Rightarrow> uuid \<Rightarrow> world \<Rightarrow> nat outcome" where
  "extract_for_transcript_sync env sv tid w =
     (case get_transcript w tid of
        None \<Rightarrow> (Inl (Value_error (u ''transcript_not_found'')), w)
      | Some tr \<Rightarrow> and_then
          (if chunks_for_transcript_ordered w tid = [] then chunk_transcript_sync env sv tid Fixed w
           else (Inr 0, w))
          (\<lambda>_ w1. let chs = chunks_for_transcript_ordered w1 tid
                 in if chs = [] then (Inr 0, w1)
                    else extract_for_chunks sv (map_option aud_filename (get_audio w (tr_audio_id tr))) chs 0
                           (delete_entities (\<lambda>e. en_transcript_id e = Some tid) w1)))"

definition latest_completed_transcript :: "world \<Rightarrow> uuid \<Rightarrow> transcript option" where
  "latest_completed_transcript w aid = first_row (sort_key (\<lambda>t. - tr_created_at t)
     (filter (\<lambda>t. tr_audio_id t = aid \<and> tr_status t = JS_COMPLETED) (transcripts w)))"

definition extract_for_audio_sync :: "env \<Rightarrow> services \<Rightarrow> uuid \<Rightarrow> world \<Rightarrow> nat outcome" where
  "extract_for_audio_sync env sv aid w =
     (case get_audio w aid of
        None \<Rightarrow> (Inl (Value_error (u ''source_audio_not_found'')), w)
      | Some a \<Rightarrow> and_then
          (if chunks_for_audio_scope_ordered w aid = [] then
             (case latest_completed_transcript w aid of
                Some tr \<Rightarrow> chunk_transcript_sync env sv (tr_id tr) Fixed w
              | None \<Rightarrow> (Inr 0, w))
           else (Inr 0, w))
          (\<lambda>_ w1. let chs = chunks_for_audio_scope_ordered w1 aid;
                     w2 = delete_entities (\<lambda>e. en_audio_id e = Some aid
                            \<or> in_ids (en_transcript_id e) (transcript_ids w1 aid)) w1
                 in if chs = [] then (Inr 0, w2)
                    else extract_for_chunks sv (Some (aud_filename a)) chs 0 w2))"

section \<open>The tasks\<close>

datatype extract_result = Extracted nat | Extract_missing

text \<open>Only the named \<^verbatim>\<open>ValueError\<close> is turned into a result; everything else is raised again.\<close>

definition extract_entities_for_document :: "env \<Rightarrow> services \<Rightarrow> uuid \<Rightarrow> world \<Rightarrow> extract_result outcome" where
  "extract_entities_for_document env sv did w =
     (case session_scope (extract_for_document_sync env sv did) w of
        (Inr n, w1) \<Rightarrow> (Inr (Extracted n), w1)
      | (Inl e, w1) \<Rightarrow> if e = Value_error (u ''source_document_not_found'') then (Inr Extract_missing, w1)
                      else (Inl e, w1))"

definition extract_entities_for_audio :: "env \<Rightarrow> services \<Rightarrow> uuid \<Rightarrow> world \<Rightarrow> extract_result outcome" where
  "extract_entities_for_audio env sv aid w =
     (case session_scope (extract_for_audio_sync env sv aid) w of
        (Inr n, w1) \<Rightarrow> (Inr (Extracted n), w1)
      | (Inl e, w1) \<Rightarrow> if e = Value_error (u ''source_audio_not_found'') then (Inr Extract_missing, w1)
                      else (Inl e, w1))"

definition finalize_transcript :: "env \<Rightarrow> uuid \<Rightarrow> bool \<Rightarrow> pystr option \<Rightarrow> world \<Rightarrow> unit outcome" where
  "finalize_transcript env tid ok err w =
     and_then (maybe_finalize_project_after_audio_extract_outcome env tid ok err w)
       (\<lambda>_. maybe_finalize_batch_after_audio_extract_outcome env tid ok err)"

text \<open>
  An error of the extraction or of the first finalisation is reported by the handlers and raised
  again; an exception inside a handler replaces it.
\<close>

definition extract_entities_for_transcript :: "env \<Rightarrow> services \<Rightarrow> uuid \<Rightarrow> world \<Rightarrow> extract_result outcome" where
  "extract_entities_for_transcript env sv tid w =
     (case and_then (session_scope (extract_for_transcript_sync env sv tid) w)
             (\<lambda>n w1. and_then (finalize_transcript env tid True None w1) (\<lambda>_ w2. (Inr n, w2))) of
        (Inr n, w1) \<Rightarrow> (Inr (Extracted n), w1)
      | (Inl e, w1) \<Rightarrow>
          if e = Value_error (u ''transcript_not_found'') then (Inr Extract_missing, w1)
          else and_then (finalize_transcript env tid False
                  (Some (case e of Value_error m \<Rightarrow> m | Other_error r \<Rightarrow> r)) w1)
                 (\<lambda>_ w2. (Inl e, w2)))"

section \<open>What a chunk yields\<close>

lemma length_clip: "0 < n \<Longrightarrow> length (clip s n) \<le> n"
proof -
  assume "0 < n"
  have "length (rstrip (take (n - 1) (strip s))) \<le> n - 1"
    using rstrip_take [of "take (n - 1) (strip s)"] by auto
  then show ?thesis using \<open>0 < n\<close> by (auto simp: clip_def Let_def)
qed

lemma fallback_confidence_unit: "0 \<le> fallback_confidence sv ci slot \<and> fallback_confidence sv ci slot \<le> 1"
proof -
  define x where "x = min (fl (95 / 100)) (fl (fl (6 / 10) + fl (of_nat (sv_hash8 sv
    (u ''svc-sentence-fallback:'' @ digits ci @ u '':'' @ digits slot) mod 351) / 1000)))"
  have "fl (95 / 100) \<le> 1" "0 \<le> fl (95 / 100 :: rat)" using fl_0_1 [of "95 / 100"] by simp_all
  moreover have "0 \<le> fl (fl (6 / 10) + fl (of_nat k / 1000))" for k :: nat
    by (intro fl_nonneg add_nonneg_nonneg) simp_all
  ultimately have "0 \<le> x" "x \<le> 1" by (simp_all add: x_def)
  then have "0 \<le> py_round x 3" "py_round x 3 \<le> 1"
    using py_round_nonneg [of x 3] py_round_le_int [of x 1 3] by simp_all
  then show ?thesis by (simp add: fallback_confidence_def x_def Let_def)
qed

text \<open>What every stored entity satisfies.\<close>

definition well_formed :: "candidate \<Rightarrow> bool" where
  "well_formed c \<longleftrightarrow> length (strip (cd_content c)) \<le> 300 \<and> 0 \<le> cd_score c \<and> cd_score c \<le> 1"

lemma fact_well_formed [simp]: "well_formed (fact sv ch hint r f slot sent a b)"
  using length_clip [of 300 sent] length_strip [of "clip sent 300"] fallback_confidence_unit [of sv "ch_index ch" slot]
  by (simp add: well_formed_def fact_def MAX_ENTITY_CONTENT_LEN_def)

lemma segment_loop_all:
  assumes "\<forall>c \<in> set out. well_formed c"
  shows "\<forall>c \<in> set (segment_loop sv ch hint r stop segs slot ex out). well_formed c"
  using assms
  by (induction sv ch hint r stop segs slot ex out rule: segment_loop.induct) (auto simp: Let_def)

lemma segment_loop_ne: "out \<noteq> [] \<Longrightarrow> segment_loop sv ch hint r stop segs slot ex out \<noteq> []"
  by (induction sv ch hint r stop segs slot ex out rule: segment_loop.induct) (auto simp: Let_def)

lemma candidate_order_set: "set (candidate_order cs) \<subseteq> set cs"
  unfolding candidate_order_def by (rule order_trans [OF set_take_subset]) simp

lemma candidate_order_ne [simp]: "candidate_order cs = [] \<longleftrightarrow> cs = []"
  by (metis (no_types) candidate_order_def length_0_conv length_sort take_eq_Nil zero_neq_numeral)

lemma candidate_order_all:
  "\<forall>c \<in> set cs. well_formed c \<Longrightarrow> \<forall>c \<in> set (candidate_order cs). well_formed c"
  using candidate_order_set [of cs] by blast

lemma fallback_all: "\<forall>c \<in> set (sentence_level_fallback sv ch hint). well_formed c"
proof -
  define out where "out = map (\<lambda>(i, sent, a, b). fact sv ch hint ''service_sentence_fallback'' ''Statement''
     (i + 1) sent a b) (enumerate 0 (take 8 (split_sentences (chunk_body ch))))"
  have out: "\<forall>c \<in> set out. well_formed c" by (auto simp: out_def)
  have one: "\<forall>c \<in> set (candidate_order [fact sv ch hint r f n t a b]). well_formed c" for r f n t a b
    by (rule candidate_order_all) simp
  show ?thesis
    unfolding sentence_level_fallback_def Let_def out_def [symmetric]
    using candidate_order_all [OF segment_loop_all [OF out]] candidate_order_all [OF out] one by auto
qed

lemma fallback_ne: "chunk_body ch \<noteq> [] \<Longrightarrow> sentence_level_fallback sv ch hint \<noteq> []"
  by (simp add: sentence_level_fallback_def Let_def)

lemma filter_all:
  "\<forall>c \<in> set raw. 0 \<le> cd_score c \<and> cd_score c \<le> 1 \<Longrightarrow>
     \<forall>c \<in> set (filter_provider_candidates ch raw). well_formed c"
  by (auto simp: filter_provider_candidates_def well_formed_def MAX_ENTITY_CONTENT_LEN_def Let_def)

lemma supplement_all:
  "\<forall>c \<in> set es. well_formed c \<Longrightarrow> \<forall>c \<in> set (supplement_sparse sv ch es hint). well_formed c"
  unfolding supplement_sparse_def Let_def
  using candidate_order_all [OF segment_loop_all [of es]] by simp

lemma supplement_ne: "es \<noteq> [] \<Longrightarrow> supplement_sparse sv ch es hint \<noteq> []"
  by (simp add: supplement_sparse_def Let_def segment_loop_ne)

lemma finalized_chunk:
  assumes "chunk_body ch \<noteq> []" "\<forall>c \<in> set raw. 0 \<le> cd_score c \<and> cd_score c \<le> 1"
  shows "finalize_chunk_entities sv ch raw hint \<noteq> []
     \<and> length (finalize_chunk_entities sv ch raw hint) \<le> 8
     \<and> (\<forall>c \<in> set (finalize_chunk_entities sv ch raw hint). well_formed c)"
proof -
  define final where "final = (if length raw \<le> 1 then sentence_level_fallback sv ch hint
      else (let f = filter_provider_candidates ch raw in
            if length f \<le> 1 then sentence_level_fallback sv ch hint else supplement_sparse sv ch f hint))"
  define final1 where "final1 = (if length final < 3 \<and> 30 \<le> length (chunk_body ch)
      then supplement_sparse sv ch final hint else final)"
  let ?f = "filter_provider_candidates ch raw"
  have "?f \<noteq> [] \<Longrightarrow> supplement_sparse sv ch ?f hint \<noteq> []" by (rule supplement_ne)
  then have "final \<noteq> []" using fallback_ne [OF assms(1)] by (cases ?f) (auto simp: final_def Let_def)
  moreover have "\<forall>c \<in> set final. well_formed c"
    using fallback_all supplement_all [OF filter_all [OF assms(2)]] by (simp add: final_def Let_def)
  ultimately have "final1 \<noteq> []" "\<forall>c \<in> set final1. well_formed c"
    using supplement_ne supplement_all by (simp_all add: final1_def)
  moreover have "finalize_chunk_entities sv ch raw hint = take 8 final1"
    by (simp add: finalize_chunk_entities_def final1_def final_def Let_def)
  ultimately show ?thesis by (auto dest: in_set_takeD)
qed

text \<open>
  Whatever a provider proposes (with scores between 0 and 1), a chunk that is not blank yields
  at least one and at most eight entities, each with at most 300 characters of content and a score
  between 0 and 1.
\<close>

theorem chunk_yields_one_to_eight:
  assumes "chunk_body ch \<noteq> []" "\<forall>c \<in> set raw. 0 \<le> cd_score c \<and> cd_score c \<le> 1"
  shows "finalize_chunk_entities sv ch raw hint \<noteq> []
     \<and> length (finalize_chunk_entities sv ch raw hint) \<le> 8
     \<and> (\<forall>c \<in> set (finalize_chunk_entities sv ch raw hint). well_formed c)"
  by (rule finalized_chunk [OF assms])

definition quiet_services :: services where
  "quiet_services = \<lparr>sv_transcribe = (\<lambda>_. Inl (Other_error (u ''offline''))), sv_semantic = (\<lambda>s. Inr [s]),
     sv_extract = (\<lambda>_ _ _. Inr []), sv_hash8 = (\<lambda>_. 0), sv_postgres = False, sv_pg_lock = (\<lambda>_. True)\<rparr>"

definition plain_chunk :: "uuid \<Rightarrow> uuid \<Rightarrow> pystr \<Rightarrow> text_chunk" where
  "plain_chunk i did tx = \<lparr>ch_id = i, ch_project_id = 7, ch_document_id = Some did, ch_audio_id = None,
     ch_transcript_id = None, ch_index = 0, ch_text = tx, ch_strategy = u ''fixed''\<rparr>"

theorem chunk_yields_one_to_eight_witness:
  "finalize_chunk_entities quiet_services (plain_chunk 5 1 (u ''Fees rose.'')) [] None \<noteq> []
     \<and> length (finalize_chunk_entities quiet_services (plain_chunk 5 1 (u ''Fees rose.'')) [] None) \<le> 8"
proof -
  have "chunk_body (plain_chunk 5 1 (u ''Fees rose.'')) \<noteq> []" by code_simp
  from chunk_yields_one_to_eight [OF this, of "[]" quiet_services None] show ?thesis by simp
qed

section \<open>Replacing the entities of a document\<close>

definition of_document :: "uuid \<Rightarrow> extracted_entity \<Rightarrow> bool" where
  "of_document did e \<longleftrightarrow> en_document_id e = Some did"

lemma new_entities_from:
  "length (new_entities base now ch cs) = length cs"
  "e \<in> set (new_entities base now ch cs) \<Longrightarrow> en_chunk_id e = ch_id ch \<and> en_document_id e = ch_document_id ch"
  by (auto simp: new_entities_def)

lemma extract_for_chunks_appends:
  "extract_for_chunks sv hint chs n w = (Inr m, w') \<Longrightarrow>
     \<exists>new. w' = w\<lparr>entities := entities w @ new, next_id := next_id w + length new\<rparr> \<and> m = n + length new
       \<and> (\<forall>e \<in> set new. \<exists>ch \<in> set chs. en_chunk_id e = ch_id ch \<and> en_document_id e = ch_document_id ch)"
proof (induction sv hint chs n w rule: extract_for_chunks.induct)
  case (2 sv hint ch chs n w)
  then obtain raw where raw: "sv_extract sv (ch_text ch) (ch_index ch) hint = Inr raw"
    by (auto split: sum.splits)
  define cs where "cs = finalize_chunk_entities sv ch raw hint"
  define ne where "ne = new_entities (next_id w) (clock w) ch cs"
  define w1 where "w1 = w\<lparr>entities := entities w @ ne, next_id := next_id w + length ne\<rparr>"
  have p: "persist ch cs w = (length ne, w1)"
    by (simp add: persist_def ne_def w1_def new_entities_from(1))
  have "extract_for_chunks sv hint chs (n + length ne) w1 = (Inr m, w')"
    using 2(2) by (simp add: raw cs_def [symmetric] p)
  from 2(1) [OF raw p [unfolded cs_def, symmetric] refl this]
  obtain new where new: "w' = w1\<lparr>entities := entities w1 @ new, next_id := next_id w1 + length new\<rparr>"
    "m = n + length ne + length new"
    "\<forall>e \<in> set new. \<exists>ch \<in> set chs. en_chunk_id e = ch_id ch \<and> en_document_id e = ch_document_id ch" by auto
  show ?case
  proof (intro exI conjI)
    show "w' = w\<lparr>entities := entities w @ (ne @ new), next_id := next_id w + length (ne @ new)\<rparr>"
      by (simp add: new(1) w1_def)
    show "m = n + length (ne @ new)" by (simp add: new(2))
    show "\<forall>e \<in> set (ne @ new). \<exists>ch' \<in> set (ch # chs). en_chunk_id e = ch_id ch' \<and> en_document_id e = ch_document_id ch'"
      using new(3) new_entities_from(2) by (fastforce simp: ne_def)
  qed
qed (auto intro: exI [of _ "[]"])

lemma delete_entities_document:
  "\<forall>e \<in> set (entities (delete_entities (of_document did) w)). \<not> of_document did e"
  by (auto simp: delete_entities_def Let_def of_document_def split: option.split)

lemma chunk_document_keeps:
  assumes "chunk_source_document_sync env sv did st w = (r, w1)"
  shows "entities w1 = entities w" and "documents w1 = documents w"
proof -
  have "delete_chunks (\<lambda>c. ch_document_id c = Some did) w = w" if "count_document_chunks w did = 0"
    using that by (intro delete_no_chunks) (simp add: count_document_chunks_def filter_empty_conv)
  then show "entities w1 = entities w" "documents w1 = documents w"
    using assms by (auto simp: chunk_source_document_sync_def add_chunks_def Let_def
        split: option.splits if_splits sum.splits)
qed

text \<open>
  C13. Extraction replaces the entities of its document: afterwards the document has exactly as many
  as were reported, all from its own chunks, and the entities of every other source are the same
  ones, in the same order (a duplicate among them may have lost its link to a deleted one).
\<close>

theorem extraction_replaces_entities:
  assumes "extract_for_document_sync env sv did w = (Inr n, w')"
  shows "length (filter (of_document did) (entities w')) = n
     \<and> (\<forall>e \<in> set (filter (of_document did) (entities w')). \<exists>ch \<in> set (chunks w').
          ch_document_id ch = Some did \<and> en_chunk_id e = ch_id ch)
     \<and> map en_id (filter (\<lambda>e. \<not> of_document did e) (entities w'))
        = map en_id (filter (\<lambda>e. \<not> of_document did e) (entities w))"
proof -
  obtain d where d: "get_doc w did = Some d"
    using assms by (auto simp: extract_for_document_sync_def split: option.splits)
  define pre where "pre = (if chunks_for_document_ordered w did = [] \<and> strip (text_of (doc_raw_text d)) \<noteq> []
      then chunk_source_document_sync env sv did Fixed w else (Inr 0, w))"
  have eq: "extract_for_document_sync env sv did w = and_then pre
      (\<lambda>_ w1. let chs = chunks_for_document_ordered w1 did; w2 = delete_entities (\<lambda>e. en_document_id e = Some did) w1
         in if chs = [] then (Inr 0, w2) else extract_for_chunks sv (Some (doc_filename d)) chs 0 w2)"
    by (simp add: extract_for_document_sync_def d pre_def)
  obtain x w1 where w1: "pre = (Inr x, w1)"
    using assms by (cases pre; cases "fst pre") (auto simp: eq and_then_def)
  have same: "entities w1 = entities w"
    using w1 chunk_document_keeps(1) [of env sv did Fixed w] by (auto simp: pre_def split: if_splits)
  let ?chs = "chunks_for_document_ordered w1 did" and ?w2 = "delete_entities (of_document did) w1"
  have del: "(\<lambda>e. en_document_id e = Some did) = of_document did" by (auto simp: of_document_def)
  have ids: "map en_id (filter (\<lambda>e. \<not> of_document did e) (entities ?w2))
      = map en_id (filter (\<lambda>e. \<not> of_document did e) (entities w))"
    using delete_entities_document [of did w1] by (simp add: filter_True delete_entities_sel(3) same)
  have res: "(if ?chs = [] then (Inr 0, ?w2) else extract_for_chunks sv (Some (doc_filename d)) ?chs 0 ?w2) = (Inr n, w')"
    using assms by (simp add: eq w1 Let_def del)
  show ?thesis
  proof (cases "?chs = []")
    case True
    then show ?thesis using res ids delete_entities_document [of did w1] by (auto simp: filter_empty_conv)
  next
    case False
    then obtain new where new: "w' = ?w2\<lparr>entities := entities ?w2 @ new, next_id := next_id ?w2 + length new\<rparr>"
      "n = length new" "\<forall>e \<in> set new. \<exists>ch \<in> set ?chs. en_chunk_id e = ch_id ch \<and> en_document_id e = ch_document_id ch"
      using res extract_for_chunks_appends [of sv "Some (doc_filename d)" ?chs 0 ?w2 n w'] by auto
    have chs: "\<forall>ch \<in> set ?chs. ch \<in> set (chunks w') \<and> ch_document_id ch = Some did"
      by (simp add: new(1) delete_entities_sel chunks_for_document_ordered_def)
    then have "\<forall>e \<in> set new. of_document did e" using new(3) by (auto simp: of_document_def)
    then have "filter (of_document did) (entities w') = new"
      "filter (\<lambda>e. \<not> of_document did e) (entities w') = filter (\<lambda>e. \<not> of_document did e) (entities ?w2)"
      using delete_entities_document [of did w1] by (simp_all add: new(1) filter_empty_conv filter_id_conv)
    then show ?thesis using ids new(2,3) chs by auto
  qed
qed

lemma quiet_extract: "\<exists>m w'. extract_for_chunks quiet_services hint chs n w = (Inr m, w')"
proof -
  have "sv_extract quiet_services x y z = Inr []" for x y z by (simp add: quiet_services_def)
  then show ?thesis by (induction chs arbitrary: n w) (simp_all add: Let_def case_prod_unfold)
qed

theorem extraction_replaces_entities_witness:
  "\<exists>n w'. extract_for_document_sync plain_env quiet_services 1 two_sources = (Inr n, w')
     \<and> length (filter (of_document 1) (entities w')) = n"
proof -
  have d: "get_doc two_sources 1 = Some (plain_document 1 7 (u ''text''))" by code_simp
  have t: "strip (text_of (doc_raw_text (plain_document 1 7 (u ''text'')))) \<noteq> []" by code_simp
  have "\<exists>k w1. chunk_source_document_sync plain_env quiet_services 1 Fixed two_sources = (Inr k, w1)"
    using t by (simp add: chunk_source_document_sync_def d split_parts_def Let_def del: str_or_Nil One_nat_def)
  then obtain k w1 where "chunk_source_document_sync plain_env quiet_services 1 Fixed two_sources = (Inr k, w1)"
    by blast
  then have "\<exists>n w'. extract_for_document_sync plain_env quiet_services 1 two_sources = (Inr n, w')"
    using quiet_extract by (auto simp: extract_for_document_sync_def d Let_def simp del: One_nat_def)
  then show ?thesis using extraction_replaces_entities by blast
qed

section \<open>Reporting the extraction of a transcript\<close>

lemma extract_for_chunks_keeps:
  "extract_for_chunks sv hint chs n w = (Inr m, w') \<Longrightarrow>
     audios w' = audios w \<and> transcripts w' = transcripts w"
  using extract_for_chunks_appends by fastforce

lemma chunk_transcript_keeps:
  "chunk_transcript_sync env sv tid st w = (r, w1) \<Longrightarrow> audios w1 = audios w \<and> transcripts w1 = transcripts w"
  by (auto simp: chunk_transcript_sync_def delete_chunks_def add_chunks_def Let_def
      split: option.splits if_splits sum.splits)

lemma and_then_Inr_iff:
  "and_then p f = (Inr y, w') \<longleftrightarrow> (\<exists>x w1. p = (Inr x, w1) \<and> f x w1 = (Inr y, w'))"
  by (cases p; cases "fst p") (auto simp: and_then_def)

lemma extract_transcript_keeps:
  assumes "extract_for_transcript_sync env sv tid w = (Inr n, w')"
  shows "audios w' = audios w \<and> transcripts w' = transcripts w"
proof -
  obtain tr where tr: "get_transcript w tid = Some tr"
    using assms by (auto simp: extract_for_transcript_sync_def split: option.splits)
  obtain x w1 where w1: "(if chunks_for_transcript_ordered w tid = [] then chunk_transcript_sync env sv tid Fixed w
      else (Inr 0, w)) = (Inr x, w1)"
    and w': "(let chs = chunks_for_transcript_ordered w1 tid in if chs = [] then (Inr 0, w1)
         else extract_for_chunks sv (map_option aud_filename (get_audio w (tr_audio_id tr))) chs 0
                (delete_entities (\<lambda>e. en_transcript_id e = Some tid) w1)) = (Inr n, w')"
    using assms unfolding extract_for_transcript_sync_def tr option.case and_then_Inr_iff by blast
  have "audios w1 = audios w \<and> transcripts w1 = transcripts w"
    using w1 chunk_transcript_keeps [of env sv tid Fixed w] by (auto split: if_splits)
  then show ?thesis
    using w' by (auto simp: Let_def dest: extract_for_chunks_keeps split: if_splits)
qed

lemma chunk_transcript_errors:
  assumes "get_transcript w tid = Some tr" "chunk_transcript_sync env sv tid Fixed w = (Inl e, w1)"
  shows "e \<noteq> Value_error (u ''transcript_not_found'')"
  using assms by (auto simp: chunk_transcript_sync_def split_parts_def Let_def split: option.splits if_splits)

lemma extract_for_chunks_errors:
  "extract_for_chunks sv hint chs n w = (Inl e, w') \<Longrightarrow> \<exists>x y z. sv_extract sv x y z = Inl e"
  by (induction sv hint chs n w rule: extract_for_chunks.induct) (auto split: sum.splits prod.splits)

lemma extract_transcript_errors:
  assumes "get_transcript w tid = Some tr" "extract_for_transcript_sync env sv tid w = (Inl e, w')"
    "\<forall>x y z. sv_extract sv x y z \<noteq> Inl (Value_error (u ''transcript_not_found''))"
  shows "e \<noteq> Value_error (u ''transcript_not_found'')"
  using assms
  by (auto simp: extract_for_transcript_sync_def and_then_def Let_def split: prod.splits sum.splits if_splits
      dest: chunk_transcript_errors [OF assms(1)] extract_for_chunks_errors)

lemma batch_report_keeps_audios:
  assumes "\<And>t. broker env t = None"
  shows "\<exists>w'. maybe_finalize_batch_after_audio_extract_outcome env tid ok e w = (Inr (), w') \<and> audios w' = audios w"
  by (simp add: maybe_finalize_batch_after_audio_extract_outcome_def finish_row_def schedule_batch_queue_def
      send_def assms world_simps invalidate_batch_llm_cache_sync_def split: option.split prod.split)

lemma finalize_transcript_reports:
  assumes "project_queue_enabled (conf env)" "\<And>t. broker env t = None"
    "get_transcript w tid = Some tr" "get_audio w (tr_audio_id tr) = Some a" "active (aud_status a)"
  shows "\<exists>w' a'. finalize_transcript env tid ok e w = (Inr (), w') \<and> get_audio w' (tr_audio_id tr) = Some a'
     \<and> aud_status a' = (if ok then SP_COMPLETED else SP_FAILED)"
proof -
  let ?f = "aud_finish ok (str_or e (u ''transcript_extraction_failed'')) (clock w)"
  let ?w = "upd_audio (tr_audio_id tr) ?f w"
  have p: "maybe_finalize_project_after_audio_extract_outcome env tid ok e w = after_finish env ok (aud_project_id a) ?w"
    using assms(1,3-5) by (auto simp: maybe_finalize_project_after_audio_extract_outcome_def active_def)
  obtain w1 where w1: "after_finish env ok (aud_project_id a) ?w = (Inr (), w1)" "audios w1 = audios ?w"
    using after_finish_accepted [OF assms(2), of ok "aud_project_id a" ?w] by blast
  obtain w2 where w2: "maybe_finalize_batch_after_audio_extract_outcome env tid ok e w1 = (Inr (), w2)" "audios w2 = audios w1"
    using batch_report_keeps_audios [OF assms(2)] by blast
  have "get_audio w2 (tr_audio_id tr) = Some (?f a)"
    using assms(4) by (simp add: get_audio_def w2 w1 world_simps get_upd_row aud_finish_def)
  then show ?thesis using p w1 w2 by (auto simp: finalize_transcript_def aud_finish_def)
qed

text \<open>
  The extraction of a transcript never leaves its audio processing: when the task ends, the
  audio is completed if entities were extracted and failed otherwise, whatever went wrong (the
  provider, the chunking, missing text).
\<close>

theorem transcript_extraction_reports:
  assumes "project_queue_enabled (conf env)" "\<And>t. broker env t = None"
    "get_transcript w tid = Some tr" "get_audio w (tr_audio_id tr) = Some a" "active (aud_status a)"
    "\<forall>x y z. sv_extract sv x y z \<noteq> Inl (Value_error (u ''transcript_not_found''))"
    "extract_entities_for_transcript env sv tid w = (r, w')"
  shows "\<exists>a'. get_audio w' (tr_audio_id tr) = Some a'
     \<and> aud_status a' = (if \<exists>n. r = Inr (Extracted n) then SP_COMPLETED else SP_FAILED)"
proof (cases "fst (extract_for_transcript_sync env sv tid w)")
  case (Inr n)
  then obtain w1 where w1: "extract_for_transcript_sync env sv tid w = (Inr n, w1)" by (cases "extract_for_transcript_sync env sv tid w") auto
  then have k: "get_transcript w1 tid = Some tr" "get_audio w1 (tr_audio_id tr) = Some a"
    using extract_transcript_keeps [OF w1] assms(3,4) by (simp_all add: get_transcript_def get_audio_def)
  obtain w2 a' where "finalize_transcript env tid True None w1 = (Inr (), w2)"
    "get_audio w2 (tr_audio_id tr) = Some a'" "aud_status a' = SP_COMPLETED"
    using finalize_transcript_reports [OF assms(1,2) k assms(5), of True None] by auto
  then show ?thesis
    using assms(7) by (auto simp: extract_entities_for_transcript_def session_scope_def w1)
next
  case (Inl e)
  then obtain w1 where w1: "extract_for_transcript_sync env sv tid w = (Inl e, w1)" by (cases "extract_for_transcript_sync env sv tid w") auto
  have e: "e \<noteq> Value_error (u ''transcript_not_found'')"
    using extract_transcript_errors [OF assms(3) w1 assms(6)] .
  have k: "get_transcript (rollback w w1) tid = Some tr" "get_audio (rollback w w1) (tr_audio_id tr) = Some a"
    using assms(3,4) by (simp_all add: get_transcript_def get_audio_def)
  obtain w2 a' where "finalize_transcript env tid False (Some (case e of Value_error m \<Rightarrow> m | Other_error r \<Rightarrow> r))
      (rollback w w1) = (Inr (), w2)" "get_audio w2 (tr_audio_id tr) = Some a'" "aud_status a' = SP_FAILED"
    using finalize_transcript_reports [OF assms(1,2) k assms(5), of False] by fastforce
  then show ?thesis
    using assms(7) e by (auto simp: extract_entities_for_transcript_def session_scope_def w1)
qed

definition transcribed :: world where
  "transcribed = empty_world\<lparr>audios := [aud_start 3 (plain_audio 2 7)],
     transcripts := [\<lparr>tr_id = 30, tr_audio_id = 2, tr_full_text = u ''Fees rose.'', tr_language = None,
       tr_status = JS_COMPLETED, tr_provider = None, tr_created_at = 4\<rparr>]\<rparr>"

theorem transcript_extraction_reports_witness:
  "\<exists>a' w' r. extract_entities_for_transcript plain_env quiet_services 30 transcribed = (r, w')
     \<and> get_audio w' 2 = Some a' \<and> aud_status a' = (if \<exists>n. r = Inr (Extracted n) then SP_COMPLETED else SP_FAILED)"
proof -
  obtain r w' where e: "extract_entities_for_transcript plain_env quiet_services 30 transcribed = (r, w')"
    by (cases "extract_entities_for_transcript plain_env quiet_services 30 transcribed")
  have "get_transcript transcribed 30 = Some (hd (transcripts transcribed))" by code_simp
  moreover have "get_audio transcribed (tr_audio_id (hd (transcripts transcribed))) = Some (aud_start 3 (plain_audio 2 7))"
    by code_simp
  moreover have "tr_audio_id (hd (transcripts transcribed)) = 2" by (simp add: transcribed_def)
  moreover have "active (aud_status (aud_start 3 (plain_audio 2 7)))" by (simp add: aud_start_def active_def)
  moreover have "\<forall>x y z. sv_extract quiet_services x y z \<noteq> Inl (Value_error (u ''transcript_not_found''))"
    by (simp add: quiet_services_def)
  ultimately show ?thesis
    using transcript_extraction_reports [of plain_env transcribed 30 "hd (transcripts transcribed)" _ quiet_services r w'] e
    by auto
qed

end
