(* ===== verification/Interview_Units.thy ===== *)
theory Interview_Units
  imports Processing
begin

text \<open>
  Splitting a document into interviews (\<^verbatim>\<open>interview_unit_split_service.py\<close>) and storing the units
  (\<^verbatim>\<open>interview_units_sync.py\<close>). The three compiled patterns of the module are parameters: splitting
  at markers, splitting at numbered headings, and the speaker named by a line. So is the answer of
  the language model: \<open>None\<close> for an exception, an empty answer or one without a list of at least two
  interviews, else the texts of its items.
\<close>

record splitter =
  us_marker_split :: "pystr \<Rightarrow> pystr list"
  us_heading_split :: "pystr \<Rightarrow> pystr list"
  us_speaker :: "pystr \<Rightarrow> pystr option"
  us_llm :: "pystr \<Rightarrow> pystr list option"

section \<open>Language\<close>

definition is_cyrillic :: "nat \<Rightarrow> bool" where
  "is_cyrillic c \<longleftrightarrow> 1040 \<le> c \<and> c \<le> 1103
     \<or> c \<in> {1025, 1105, 1038, 1118, 1178, 1179, 1170, 1171, 1202, 1203}"

definition is_latin :: "nat \<Rightarrow> bool" where
  "is_latin c \<longleftrightarrow> 65 \<le> c \<and> c \<le> 90 \<or> 97 \<le> c \<and> c \<le> 122"

definition is_apostrophe :: "nat \<Rightarrow> bool" where
  "is_apostrophe c \<longleftrightarrow> c \<in> {699, 700, 8216, 39, 96}"

definition count_if :: "(nat \<Rightarrow> bool) \<Rightarrow> pystr \<Rightarrow> nat" where
  "count_if P s = length (filter P s)"

definition detect_language :: "pystr \<Rightarrow> pystr \<times> rat" where
  "detect_language t =
     (if strip t = [] then (u ''unknown'', 0)
      else (let cyr = count_if is_cyrillic t; lat = count_if is_latin t; ogh = count_if is_apostrophe t;
                total = max 1 (cyr + lat);
                ratio_c = fl (of_nat cyr / of_nat total);
                ratio_l = fl (of_nat lat / of_nat total)
            in if fl (35 / 100) < ratio_c \<and> fl (2 / 10) < ratio_l then
                 (u ''mixed'', py_round (min (fl (9 / 10)) (fl (fl (45 / 100) + \<bar>fl (ratio_c - ratio_l)\<bar>))) 2)
               else if 3 \<le> ogh \<and> fl (25 / 100) < ratio_l then
                 (u ''uz'', min (fl (92 / 100)) (fl (fl (55 / 100) + fl (of_nat ogh / max 20 (fl (of_nat (length t) / 80))))))
               else if fl (45 / 100) < ratio_c then
                 (u ''ru'', min (fl (95 / 100)) (fl (fl (5 / 10) + fl (ratio_c * fl (45 / 100)))))
               else if fl (45 / 100) < ratio_l then
                 (u ''en'', min (fl (95 / 100)) (fl (fl (5 / 10) + fl (ratio_l * fl (45 / 100)))))
               else (u ''mixed'', fl (45 / 100))))"

definition guess_speaker :: "splitter \<Rightarrow> pystr \<Rightarrow> pystr option" where
  "guess_speaker us block =
     (case us_speaker us block of
        None \<Rightarrow> None
      | Some s \<Rightarrow> (let t = take 512 (strip s) in if t = [] then None else Some t))"

section \<open>Splitting\<close>

definition non_blank :: "pystr list \<Rightarrow> pystr list" where
  "non_blank ps = filter (\<lambda>p. p \<noteq> []) (map strip ps)"

definition split_by_markers :: "splitter \<Rightarrow> pystr \<Rightarrow> pystr list option" where
  "split_by_markers us raw =
     (let t = strip raw in
      if t = [] then None
      else (let parts = non_blank (us_marker_split us t) in if 2 \<le> length parts then Some parts else None))"

definition split_by_numbered_headings :: "splitter \<Rightarrow> pystr \<Rightarrow> pystr list option" where
  "split_by_numbered_headings us raw =
     (let t = strip raw in
      if t = [] \<or> length t < 1200 then None
      else (let parts = non_blank (us_heading_split us t) in
            if 2 \<le> length parts \<and> list_all (\<lambda>p. 200 < length p) (take 3 parts) then Some parts else None))"

text \<open>\<^verbatim>\<open>re.split(r"\n{2,}", text)\<close>; \<open>cur\<close> is the part being read, reversed.\<close>

function split_paras :: "pystr \<Rightarrow> pystr \<Rightarrow> pystr list" where
  "split_paras cur [] = [rev cur]"
| "split_paras cur (c # s) =
     (if c = 10 \<and> s \<noteq> [] \<and> hd s = 10 then rev cur # split_paras [] (dropWhile (\<lambda>x. x = 10) s)
      else split_paras (c # cur) s)"
  by pat_completeness auto
termination
  by (relation "measure (length \<circ> snd)") (auto simp: le_imp_less_Suc length_dropWhile_le)

definition NN :: pystr where
  "NN = [10, 10]"

text \<open>
  The loop over paragraphs: \<open>buf\<close> is the block being filled, \<open>buf_len\<close> its running length. The tail
  that is left over joins the last block when it is shorter than half of \<open>min_block\<close>.
\<close>

fun block_loop :: "nat \<Rightarrow> nat \<Rightarrow> pystr list \<Rightarrow> pystr list \<Rightarrow> nat \<Rightarrow> pystr list \<Rightarrow> pystr list" where
  "block_loop mn mx [] buf buf_len blocks =
     (if buf = [] then blocks
      else if blocks \<noteq> [] \<and> length (join NN buf) < mn div 2
        then butlast blocks @ [last blocks @ NN @ join NN buf]
        else blocks @ [join NN buf])"
| "block_loop mn mx (p # ps) buf buf_len blocks =
     (if mx < buf_len + length p \<and> buf \<noteq> [] then
        block_loop mn mx ps [p] (length p) (blocks @ [join NN buf])
      else if mn \<le> buf_len + (length p + 2) \<and> 2 \<le> length (buf @ [p]) then
        block_loop mn mx ps [] 0 (blocks @ [join NN (buf @ [p])])
      else block_loop mn mx ps (buf @ [p]) (buf_len + (length p + 2)) blocks)"

definition paragraphs :: "pystr \<Rightarrow> pystr list" where
  "paragraphs txt = non_blank (split_paras [] txt)"

definition split_heuristic_blocks :: "pystr \<Rightarrow> pystr list" where
  "split_heuristic_blocks raw =
     (let t = strip raw in
      if t = [] then []
      else (let paras = paragraphs t in
            if paras = [] then [t]
            else filter (\<lambda>b. strip b \<noteq> []) (block_loop 900 14000 paras [] 0 [])))"

definition llm_split_interviews :: "env \<Rightarrow> splitter \<Rightarrow> pystr \<Rightarrow> pystr list option" where
  "llm_split_interviews env us raw =
     (if openai_missing env \<or> length raw < 12000 then None
      else (case us_llm us (take 24000 raw) of
              None \<Rightarrow> None
            | Some items \<Rightarrow> (let out = non_blank items in if 2 \<le> length out then Some out else None)))"

section \<open>Drafts\<close>

record unit_draft =
  ud_index :: nat
  ud_speaker :: "pystr option"
  ud_language :: pystr
  ud_confidence :: rat
  ud_method :: pystr
  ud_raw_text :: pystr

definition draft :: "splitter \<Rightarrow> string \<Rightarrow> nat \<Rightarrow> pystr \<Rightarrow> unit_draft" where
  "draft us method i t = \<lparr>ud_index = i, ud_speaker = guess_speaker us t, ud_language = fst (detect_language t),
     ud_confidence = snd (detect_language t), ud_method = u method, ud_raw_text = t\<rparr>"

definition choose_parts :: "env \<Rightarrow> splitter \<Rightarrow> pystr \<Rightarrow> pystr list \<times> string" where
  "choose_parts env us t =
     (case split_by_markers us t of
        Some parts \<Rightarrow> (parts, ''marker'')
      | None \<Rightarrow> (case split_by_numbered_headings us t of
          Some parts \<Rightarrow> (parts, ''numbered_heading'')
        | None \<Rightarrow> (case llm_split_interviews env us t of
            Some parts \<Rightarrow> (parts, ''llm'')
          | None \<Rightarrow> (split_heuristic_blocks t, ''heuristic''))))"

definition build_interview_unit_drafts :: "env \<Rightarrow> splitter \<Rightarrow> bool \<Rightarrow> pystr \<Rightarrow> unit_draft list" where
  "build_interview_unit_drafts env us multi raw =
     (let t = strip raw in
      if t = [] then []
      else if \<not> multi then [draft us ''collapsed'' 0 t]
      else (let (parts, method) = choose_parts env us t in
            if length parts < 2 then [draft us ''single'' 0 t]
            else map (\<lambda>(i, b). draft us method i b) (enumerate 0 (non_blank parts))))"

definition drafts_to_rows :: "uuid \<Rightarrow> uuid \<Rightarrow> unit_draft list \<Rightarrow> interview_unit list" where
  "drafts_to_rows pid did ds = map (\<lambda>d. \<lparr>iu_project_id = pid, iu_document_id = did, iu_index = ud_index d,
     iu_split_method = ud_method d, iu_raw_text = ud_raw_text d\<rparr>) ds"

text \<open>Every exception is logged and dropped; here nothing raises.\<close>

definition sync_interview_units_for_document_sync :: "env \<Rightarrow> splitter \<Rightarrow> uuid \<Rightarrow> world \<Rightarrow> world" where
  "sync_interview_units_for_document_sync env us did w =
     (case get_doc w did of
        None \<Rightarrow> w
      | Some d \<Rightarrow>
        (let raw = strip (text_of (doc_raw_text d)) in
         if raw = [] then w
         else (let multi = (case md_batch_analysis (doc_metadata d) of
                      Some ba \<Rightarrow> (case ba_multi ba of Some b \<Rightarrow> b | None \<Rightarrow> True)
                    | None \<Rightarrow> True);
                   rows = drafts_to_rows (doc_project_id d) did (build_interview_unit_drafts env us multi raw)
               in w\<lparr>units := filter (\<lambda>x. iu_document_id x \<noteq> did) (units w) @ rows\<rparr>)))"

section \<open>What a split keeps\<close>

definition visible :: "pystr \<Rightarrow> pystr" where
  "visible s = filter (\<lambda>c. \<not> is_space c) s"

lemma visible_append [simp]: "visible (a @ b) = visible a @ visible b"
  by (simp add: visible_def)

lemma visible_Nil [simp]: "visible [] = []"
  by (simp add: visible_def)

lemma visible_dropWhile: "(\<And>c. P c \<Longrightarrow> is_space c) \<Longrightarrow> visible (dropWhile P s) = visible s"
  by (induction s) (auto simp: visible_def)

lemma visible_rev: "visible (rev s) = rev (visible s)"
  by (simp add: visible_def rev_filter)

lemma visible_strip [simp]: "visible (strip s) = visible s"
  by (simp add: strip_def rstrip_def lstrip_def visible_rev visible_dropWhile)

lemma visible_non_blank: "visible (concat (non_blank ps)) = visible (concat ps)"
proof -
  have "visible (concat (filter (\<lambda>p. p \<noteq> []) qs)) = visible (concat qs)" for qs
    by (induction qs) auto
  moreover have "visible (concat (map strip ps)) = visible (concat ps)" by (induction ps) auto
  ultimately show ?thesis by (simp add: non_blank_def)
qed

lemma visible_newline: "is_space c \<Longrightarrow> visible (c # s) = visible s"
  by (simp add: visible_def)

lemma visible_paras: "visible (concat (split_paras cur s)) = visible (rev cur) @ visible s"
proof (induction cur s rule: split_paras.induct)
  case (2 cur c s)
  have nl: "visible (dropWhile (\<lambda>x. x = 10) s) = visible s" by (rule visible_dropWhile) (simp add: is_space_def)
  show ?case
  proof (cases "c = 10 \<and> s \<noteq> [] \<and> hd s = 10")
    case True
    then show ?thesis using 2(1) by (simp add: nl visible_newline is_space_def)
  next
    case False
    have "split_paras cur (c # s) = split_paras (c # cur) s"
      by (simp only: split_paras.simps(2) if_not_P [OF False])
    then have "visible (concat (split_paras cur (c # s))) = visible (rev (c # cur)) @ visible s"
      using 2(2) [OF False] by simp
    then show ?thesis by (simp flip: visible_append)
  qed
qed simp

lemma visible_join: "visible (join NN ps) = visible (concat ps)"
  by (induction NN ps rule: join.induct) (simp_all add: NN_def visible_newline is_space_def)

lemma visible_butlast: "bs \<noteq> [] \<Longrightarrow> visible (concat (butlast bs)) @ visible (last bs) = visible (concat bs)"
  by (induction bs rule: rev_induct) simp_all

lemma visible_NN [simp]: "visible NN = []"
  by (simp add: NN_def visible_newline is_space_def)

lemma visible_block_loop:
  "visible (concat (block_loop mn mx ps buf l bs))
     = visible (concat bs) @ visible (concat buf) @ visible (concat ps)"
proof (induction mn mx ps buf l bs rule: block_loop.induct)
  case (1 mn mx buf l bs)
  then show ?case using visible_butlast [of bs] by (simp add: visible_join flip: append_assoc)
next
  case (2 mn mx p ps buf l bs)
  then show ?case by (auto simp: visible_join)
qed

lemma visible_filter: "visible (concat (filter (\<lambda>b. strip b \<noteq> []) bs)) = visible (concat bs)"
proof (induction bs)
  case (Cons b bs)
  have "visible b = []" if "strip b = []" using that visible_strip [of b] by simp
  then show ?case using Cons by simp
qed simp

text \<open>
  Splitting by paragraphs, the method used when no marker, heading or model answer splits the
  text, loses nothing but white space: the blocks put together have the visible characters of the
  text, in order.
\<close>

theorem heuristic_split_keeps_text:
  "visible (concat (split_heuristic_blocks raw)) = visible raw"
proof -
  have "visible (concat (paragraphs (strip raw))) = visible raw"
    by (simp add: paragraphs_def visible_non_blank visible_paras)
  moreover have "visible raw = []" if "strip raw = []" using that visible_strip [of raw] by simp
  ultimately show ?thesis
    by (auto simp: split_heuristic_blocks_def Let_def visible_filter visible_block_loop)
qed

text \<open>
  Splitting by the language model does lose text: only the first 24000 characters are sent, and
  the answer replaces the whole document, so what follows them never reaches a unit.
\<close>

theorem llm_split_ignores_tail:
  assumes "length x = 24000"
  shows "llm_split_interviews env us (x @ y) = llm_split_interviews env us (x @ z)"
  using assms by (simp add: llm_split_interviews_def)

definition plain_splitter :: splitter where
  "plain_splitter = \<lparr>us_marker_split = (\<lambda>t. [t]), us_heading_split = (\<lambda>t. [t]), us_speaker = (\<lambda>_. None),
     us_llm = (\<lambda>s. Some [take 9000 s, drop 9000 s])\<rparr>"

definition keyed_env :: env where
  "keyed_env = plain_env\<lparr>conf := default_settings\<lparr>openai_api_key := Some (u ''key'')\<rparr>\<rparr>"

theorem llm_split_ignores_tail_witness:
  "llm_split_interviews keyed_env plain_splitter (replicate 24000 97 @ u ''Interview 9: the fees'')
     = llm_split_interviews keyed_env plain_splitter (replicate 24000 97 @ [])"
  by (rule llm_split_ignores_tail) simp

end
