(* ===== verification/Document_Pipeline.thy ===== *)
theory Document_Pipeline
  imports Entity_Extraction Interview_Units
begin

text \<open>
  The task that takes a document from its text to its entities
  (\<^verbatim>\<open>workers/tasks/research_source_full_pipeline.py\<close>): chunk, store the interview units, extract,
  record what failed, and report to the project queue and to the batch queue.
\<close>

section \<open>The task\<close>

fun chunk_count :: "chunk_result \<Rightarrow> nat" where
  "chunk_count Not_configured = 0"
| "chunk_count Chunk_busy = 0"
| "chunk_count (Chunk_noop n st) = n"
| "chunk_count (Chunked n st) = n"

definition pipeline_done :: "env \<Rightarrow> uuid \<Rightarrow> string \<Rightarrow> pystr option \<Rightarrow> world \<Rightarrow> task_result outcome" where
  "pipeline_done env did st err w =
     (let payload = \<lparr>tk_status = u st, tk_error = err\<rparr>
      in and_then (finalize_document_pipeline_task_result env did payload w) (\<lambda>_ w1. (Inr payload, w1)))"

definition already_complete :: "source_document \<Rightarrow> bool" where
  "already_complete d \<longleftrightarrow> phase_of d = u ''extracted'' \<and> ext_status_of d = u ''ok''
     \<and> 0 < (case pl_extraction (doc_pipeline d) of Some x \<Rightarrow> ex_entities_created x | None \<Rightarrow> 0)"

definition skip_chunk :: "world \<Rightarrow> source_document \<Rightarrow> bool" where
  "skip_chunk w d \<longleftrightarrow> 0 < count_document_chunks w (doc_id d)
     \<and> phase_of d \<in> {u ''chunked'', u ''extracted''}
     \<and> ext_status_of d \<notin> {u ''chunk_failed'', u ''extraction_failed''}"

definition after_chunk :: "env \<Rightarrow> services \<Rightarrow> splitter \<Rightarrow> uuid \<Rightarrow> chunk_result \<Rightarrow> world \<Rightarrow> task_result outcome" where
  "after_chunk env sv us did r1 w =
     (if r1 = Chunk_busy then pipeline_done env did ''already_processing'' None w
      else (let w1 = sync_interview_units_for_document_sync env us did w in
        if chunk_count r1 < 1 then
          pipeline_done env did ''ok'' None
            (record_extraction_outcome did (u ''skipped_no_chunks'') (Some (u ''chunking_produced_zero_chunks'')) 0 (Some 0) w1)
        else (case extract_entities_for_document env sv did w1 of
            (Inl e, w2) \<Rightarrow> pipeline_done env did ''extraction_failed'' (Some (repr_exc e))
                (record_pipeline_failure did (u ''extraction_failed'') (repr_exc e) w2)
          | (Inr r2, w2) \<Rightarrow> pipeline_done env did ''ok'' None w2)))"

definition pipeline_document_analysis :: "env \<Rightarrow> services \<Rightarrow> splitter \<Rightarrow> uuid \<Rightarrow> world \<Rightarrow> task_result outcome" where
  "pipeline_document_analysis env sv us did w =
     (case get_doc w did of
        None \<Rightarrow> pipeline_done env did ''missing'' None w
      | Some d \<Rightarrow>
          if already_complete d then
            pipeline_done env did ''ok'' None (sync_interview_units_for_document_sync env us did w)
          else if skip_chunk w d then after_chunk env sv us did (Chunk_noop (count_document_chunks w did) Fixed) w
          else (case chunk_source_document env sv did (u ''auto'') w of
              (Inl e, w1) \<Rightarrow> pipeline_done env did ''chunk_failed'' (Some (repr_exc e))
                  (record_pipeline_failure did (u ''chunk_failed'') (repr_exc e) w1)
            | (Inr r1, w1) \<Rightarrow> after_chunk env sv us did r1 w1))"

definition pipeline_audio_analysis :: "env \<Rightarrow> uuid \<Rightarrow> world \<Rightarrow> unit outcome" where
  "pipeline_audio_analysis env aid w = send env (Transcribe_full aid) None w"

section \<open>What the steps keep of the document\<close>

definition keeps :: "source_document \<Rightarrow> source_document \<Rightarrow> bool" where
  "keeps d d' \<longleftrightarrow> doc_raw_text d' = doc_raw_text d \<and> doc_metadata d' = doc_metadata d \<and> (phase_of d' = phase_of d \<or> phase_of d' = u ''failed'')"

definition tracks :: "uuid \<Rightarrow> world \<Rightarrow> world \<Rightarrow> bool" where
  "tracks did w w' \<longleftrightarrow> batch_sources w' = batch_sources w \<and> (\<forall>d. get_doc w did = Some d \<longrightarrow>
     (\<exists>d'. get_doc w' did = Some d' \<and> keeps d d' \<and> doc_status d' = doc_status d))"

lemma tracks_trans:
  assumes "tracks did w w1" "tracks did w1 w2"
  shows "tracks did w w2"
proof -
  have "\<exists>d'. get_doc w2 did = Some d' \<and> keeps d d' \<and> doc_status d' = doc_status d"
    if "get_doc w did = Some d" for d
  proof -
    obtain d1 where d1: "get_doc w1 did = Some d1" "keeps d d1" "doc_status d1 = doc_status d"
      using assms(1) \<open>get_doc w did = Some d\<close> by (auto simp: tracks_def)
    then obtain d2 where "get_doc w2 did = Some d2" "keeps d1 d2" "doc_status d2 = doc_status d1"
      using assms(2) by (auto simp: tracks_def)
    then show ?thesis using d1 by (auto simp: keeps_def)
  qed
  then show ?thesis using assms by (simp add: tracks_def)
qed

lemma tracks_same: "documents w' = documents w \<Longrightarrow> batch_sources w' = batch_sources w \<Longrightarrow> tracks did w w'"
  by (simp add: tracks_def keeps_def get_doc_def)

lemma tracks_sync: "tracks did w (sync_interview_units_for_document_sync env us did w)"
  by (rule tracks_same) (simp_all add: sync_interview_units_for_document_sync_def Let_def split: option.split)

lemma phase_failed: "norm_status (Some (u ''failed'')) = u ''failed''"
  by code_simp

lemma get_merge:
  "get_doc (merge_document_pipeline_state did f w) did = map_option (\<lambda>d. d\<lparr>doc_pipeline := f (doc_pipeline d)\<rparr>) (get_doc w did)"
  by (auto simp: merge_document_pipeline_state_def get_doc_def world_simps get_upd_row split: option.split)

lemma merge_batch: "batch_sources (merge_document_pipeline_state did f w) = batch_sources w"
  by (simp add: merge_document_pipeline_state_def world_simps split: option.split)

lemma tracks_outcome: "tracks did w (record_extraction_outcome did st r n h w)"
  by (simp add: tracks_def record_extraction_outcome_def get_merge merge_batch keeps_def phase_of_def)

lemma tracks_failure: "tracks did w (record_pipeline_failure did st m w)"
  by (simp add: tracks_def record_pipeline_failure_def get_merge merge_batch keeps_def phase_of_def phase_failed)

lemma tracks_session:
  assumes "\<And>x w1. body w = (Inr x, w1) \<Longrightarrow> documents w1 = documents w \<and> batch_sources w1 = batch_sources w"
  shows "tracks did w (snd (session_scope body w))"
  using assms by (auto simp: session_scope_def intro: tracks_same split: prod.split sum.split)

lemma chunk_document_keeps_batch:
  "chunk_source_document_sync env sv did st w = (r, w1) \<Longrightarrow> batch_sources w1 = batch_sources w"
  by (auto simp: chunk_source_document_sync_def delete_chunks_def delete_entities_def add_chunks_def Let_def
      split: option.splits if_splits sum.splits)

lemma tracks_chunk: "tracks did w (snd (chunk_source_document env sv did st w))"
proof -
  have "tracks did w (snd (session_scope body w))"
    if "body = (\<lambda>w. if \<not> try_pg_advisory_lock_chunk_doc sv did then (Inr Chunk_busy, w)
      else if 0 < count_document_chunks w did then (Inr (Chunk_noop (count_document_chunks w did) s), w)
      else and_then (chunk_source_document_sync env sv did s w) (\<lambda>n w1. (Inr (Chunked n s), w1)))" for body s
    by (rule tracks_session)
      (auto simp: that and_then_Inr_iff dest: chunk_document_keeps(2) chunk_document_keeps_batch split: if_splits)
  then show ?thesis by (simp add: chunk_source_document_def Let_def tracks_same)
qed

lemma extract_document_keeps:
  assumes "extract_for_document_sync env sv did w = (Inr n, w')"
  shows "documents w' = documents w \<and> batch_sources w' = batch_sources w"
proof -
  obtain d where d: "get_doc w did = Some d"
    using assms by (auto simp: extract_for_document_sync_def split: option.splits)
  obtain x w1 where w1: "(if chunks_for_document_ordered w did = [] \<and> strip (text_of (doc_raw_text d)) \<noteq> []
      then chunk_source_document_sync env sv did Fixed w else (Inr 0, w)) = (Inr x, w1)"
    and w': "(let chs = chunks_for_document_ordered w1 did; w2 = delete_entities (\<lambda>e. en_document_id e = Some did) w1
      in if chs = [] then (Inr 0, w2) else extract_for_chunks sv (Some (doc_filename d)) chs 0 w2) = (Inr n, w')"
    using assms unfolding extract_for_document_sync_def d option.case and_then_Inr_iff by blast
  have "documents w1 = documents w" "batch_sources w1 = batch_sources w"
    using w1 chunk_document_keeps(2) [of env sv did Fixed w] chunk_document_keeps_batch [of env sv did Fixed w]
    by (auto split: if_splits)
  then show ?thesis
    using w' by (auto simp: Let_def delete_entities_def dest!: extract_for_chunks_appends split: if_splits)
qed

lemma tracks_extract: "tracks did w (snd (extract_entities_for_document env sv did w))"
proof -
  have "tracks did w (snd (session_scope (extract_for_document_sync env sv did) w))"
    by (rule tracks_session) (rule extract_document_keeps)
  then show ?thesis
    by (auto simp: extract_entities_for_document_def split: prod.split sum.split)
qed

section \<open>Reporting\<close>

lemma batch_reports_keep_documents:
  "documents (snd (maybe_finalize_batch_after_document_pipeline env did ok e w)) = documents w"
  "documents (snd (requeue_batch_document_pipeline env did r n w)) = documents w"
  by (simp_all add: maybe_finalize_batch_after_document_pipeline_def requeue_batch_document_pipeline_def finish_row_def
      schedule_batch_queue_def send_def invalidate_batch_llm_cache_sync_def world_simps split: option.split prod.split)

text \<open>The document's text and pipeline state survive every report.\<close>

definition same_text :: "uuid \<Rightarrow> world \<Rightarrow> world \<Rightarrow> bool" where
  "same_text did w w' \<longleftrightarrow> (\<forall>d. get_doc w did = Some d \<longrightarrow>
     (\<exists>d'. get_doc w' did = Some d' \<and> doc_raw_text d' = doc_raw_text d \<and> doc_pipeline d' = doc_pipeline d))"

lemma same_text_docs: "documents w' = documents w \<Longrightarrow> same_text did w w'"
  by (simp add: same_text_def get_doc_def)

lemma same_text_project:
  "same_text did w (snd (finalize_project_document_pipeline_task_result env did r w))"
proof -
  have a: "same_text did w (snd (maybe_finalize_project_after_document_pipeline env did ok e w))" for ok e
  proof (cases "project_queue_enabled (conf env) \<and> (\<exists>d. get_doc w did = Some d \<and> active (doc_status d))")
    case True
    then obtain d where d: "get_doc w did = Some d" "active (doc_status d)" by blast
    let ?f = "doc_finish ok (str_or e (u ''pipeline_failed'')) (clock w)"
    have "documents (snd (maybe_finalize_project_after_document_pipeline env did ok e w)) = upd_row doc_id did ?f (documents w)"
      using True d after_finish_same [of "upd_doc did ?f w" env ok "doc_project_id d"]
      by (auto simp: maybe_finalize_project_after_document_pipeline_def active_def same_sources_def world_simps)
    then show ?thesis by (auto simp: same_text_def get_doc_def get_upd_row doc_finish_def)
  next
    case False
    then have "snd (maybe_finalize_project_after_document_pipeline env did ok e w) = w"
      by (auto simp: maybe_finalize_project_after_document_pipeline_def active_def split: option.split)
    then show ?thesis by (simp add: same_text_docs)
  qed
  have b: "same_text did w (snd (requeue_project_document_pipeline env did m n w))" for m n
  proof -
    have "same_text did w (snd (schedule_project_processing env p c (upd_doc did (doc_requeue m) w)))" for p c
      using schedule_same [of "upd_doc did (doc_requeue m) w" env p c]
      by (auto simp: same_sources_def same_text_def get_doc_def world_simps get_upd_row doc_requeue_def)
    then show ?thesis by (simp add: requeue_project_document_pipeline_def same_text_docs split: option.split)
  qed
  show ?thesis by (simp add: finalize_project_document_pipeline_task_result_def a b)
qed

lemma and_then_documents:
  "(\<And>x v. documents (snd (f x v)) = documents v) \<Longrightarrow> documents (snd (and_then r f)) = documents (snd r)"
  by (cases r; cases "fst r") (auto simp: and_then_def)

lemma same_text_done: "same_text did w (snd (pipeline_done env did st e w))"
proof -
  let ?p = "finalize_project_document_pipeline_task_result env did \<lparr>tk_status = u st, tk_error = e\<rparr> w"
  have "documents (snd (pipeline_done env did st e w)) = documents (snd ?p)"
    by (simp add: pipeline_done_def finalize_document_pipeline_task_result_def Let_def and_then_documents
        batch_reports_keep_documents)
  then show ?thesis using same_text_project [of did w env "\<lparr>tk_status = u st, tk_error = e\<rparr>"]
    by (simp add: same_text_def get_doc_def)
qed

text \<open>The world in which the task reports, up to the report itself.\<close>

definition ends_with :: "env \<Rightarrow> uuid \<Rightarrow> world \<Rightarrow> string set \<Rightarrow> task_result outcome \<Rightarrow> bool" where
  "ends_with env did w S r \<longleftrightarrow> (\<exists>w1 st e. tracks did w w1 \<and> r = pipeline_done env did st e w1 \<and> st \<in> S)"

lemma ends_withI: "tracks did w w1 \<Longrightarrow> st \<in> S \<Longrightarrow> ends_with env did w S (pipeline_done env did st e w1)"
  by (auto simp: ends_with_def)

lemma ends_with_trans: "tracks did w w1 \<Longrightarrow> ends_with env did w1 S r \<Longrightarrow> S \<subseteq> S' \<Longrightarrow> ends_with env did w S' r"
  unfolding ends_with_def using tracks_trans by blast

lemma after_chunk_reports:
  "ends_with env did w {''ok'', ''already_processing'', ''extraction_failed''} (after_chunk env sv us did r1 w)"
proof (cases "r1 = Chunk_busy")
  case True
  then show ?thesis by (simp add: after_chunk_def ends_withI tracks_same)
next
  case False
  let ?w1 = "sync_interview_units_for_document_sync env us did w"
  note sync = tracks_sync [of did w env us]
  show ?thesis
  proof (cases "chunk_count r1 < 1")
    case True
    then show ?thesis using False by (simp add: after_chunk_def Let_def ends_withI tracks_trans [OF sync tracks_outcome])
  next
    case chunks: False
    obtain r2 w2 where e: "extract_entities_for_document env sv did ?w1 = (r2, w2)"
      by (cases "extract_entities_for_document env sv did ?w1")
    have w2: "tracks did w w2" using tracks_trans [OF sync tracks_extract, of env sv] e by (metis snd_conv)
    show ?thesis
      using False chunks e w2 tracks_trans [OF w2 tracks_failure]
      by (cases r2) (simp_all add: after_chunk_def Let_def ends_withI)
  qed
qed

lemma pipeline_ends:
  assumes "get_doc w did = Some d"
  shows "ends_with env did w {''ok'', ''already_processing'', ''extraction_failed'', ''chunk_failed''}
     (pipeline_document_analysis env sv us did w)"
proof (cases "already_complete d")
  case True
  then show ?thesis by (simp add: pipeline_document_analysis_def assms ends_withI tracks_sync)
next
  case incomplete: False
  let ?S = "{''ok'', ''already_processing'', ''extraction_failed''}"
  show ?thesis
  proof (cases "skip_chunk w d")
    case True
    then show ?thesis
      using ends_with_trans [OF tracks_same [OF refl refl] after_chunk_reports]
      by (simp add: pipeline_document_analysis_def assms incomplete)
  next
    case False
    obtain r1 w1 where c: "chunk_source_document env sv did (u ''auto'') w = (r1, w1)"
      by (cases "chunk_source_document env sv did (u ''auto'') w")
    have w1: "tracks did w w1" using tracks_chunk [of did w env sv "u ''auto''"] c by simp
    show ?thesis
      using incomplete False c ends_withI [OF tracks_trans [OF w1 tracks_failure]]
        ends_with_trans [OF w1 after_chunk_reports]
      by (cases r1) (simp_all add: pipeline_document_analysis_def assms)
  qed
qed

lemma pipeline_keeps_phase:
  assumes "get_doc w did = Some d" "phase_of d = []"
  shows "\<exists>d'. get_doc (snd (pipeline_document_analysis env sv us did w)) did = Some d'
     \<and> doc_raw_text d' = doc_raw_text d \<and> (phase_of d' = [] \<or> phase_of d' = u ''failed'')"
proof -
  obtain w1 st e where w1: "tracks did w w1" "pipeline_document_analysis env sv us did w = pipeline_done env did st e w1"
    using pipeline_ends [OF assms(1), of env sv us] by (auto simp: ends_with_def)
  obtain d1 where d1: "get_doc w1 did = Some d1" "keeps d d1" using w1(1) assms(1) by (auto simp: tracks_def)
  obtain d' where d': "get_doc (snd (pipeline_done env did st e w1)) did = Some d'"
    "doc_raw_text d' = doc_raw_text d1" "doc_pipeline d' = doc_pipeline d1"
    using same_text_done [of did w1 env st e] d1(1) unfolding same_text_def by blast
  have "phase_of d' = [] \<or> phase_of d' = u ''failed''"
    using d1(2) d'(3) assms(2) by (auto simp: keeps_def phase_of_def)
  then show ?thesis using d1(2) d'(1, 2) w1(2) by (auto simp: keeps_def)
qed

text \<open>
  A document that was analysed is offered for recovery for ever: the pipeline never writes a
  phase other than \<^verbatim>\<open>failed\<close>, so a document with text and no phase (as every upload creates it) still
  "needs recovery" after any run, also after one that succeeded.
\<close>

theorem analysed_document_needs_recovery:
  assumes "get_doc w did = Some d" "phase_of d = []" "strip (text_of (doc_raw_text d)) \<noteq> []"
  shows "\<exists>d'. get_doc (snd (pipeline_document_analysis env sv us did w)) did = Some d'
     \<and> document_pipeline_needs_recovery env now d'"
proof -
  obtain d' where d': "get_doc (snd (pipeline_document_analysis env sv us did w)) did = Some d'"
    "doc_raw_text d' = doc_raw_text d" "phase_of d' = [] \<or> phase_of d' = u ''failed''"
    using pipeline_keeps_phase [OF assms(1, 2)] by blast
  then have "document_pipeline_needs_recovery env now d'" using assms(3)
    by (auto simp: document_pipeline_needs_recovery_def document_pipeline_actively_running_def)
  then show ?thesis using d'(1) by blast
qed

theorem analysed_document_needs_recovery_witness:
  "\<exists>d'. get_doc (snd (pipeline_document_analysis plain_env quiet_services plain_splitter 1 two_sources)) 1 = Some d'
     \<and> document_pipeline_needs_recovery plain_env 50 d'"
  by (rule analysed_document_needs_recovery [of _ _ "plain_document 1 7 (u ''text'')"]) code_simp+

section \<open>Every run is reported\<close>

lemma batch_report_accepted:
  assumes "\<And>t. broker env t = None"
  shows "\<exists>w'. maybe_finalize_batch_after_document_pipeline env did ok e w = (Inr (), w')"
    and "\<exists>w'. requeue_batch_document_pipeline env did m n w = (Inr (), w')"
  by (auto simp: maybe_finalize_batch_after_document_pipeline_def requeue_batch_document_pipeline_def finish_row_def
      schedule_batch_queue_def send_def assms split: option.split prod.split)

lemma after_finish_batch: "batch_sources (snd (after_finish env ok pid w)) = batch_sources w"
  by (simp add: after_finish_def Let_def schedule_project_processing_def send_def maybe_finalize_project_queue_idle_def
      invalidate_project_llm_cache_sync_def aggregate_project_after_source_def aggregate_project_sync_def
      deduplicate_project_entities_sync_def split: option.split sum.split)

fun final_status :: "string \<Rightarrow> source_status" where
  "final_status st = (if st = ''ok'' then SP_COMPLETED
     else if st = ''already_processing'' then SP_PENDING else SP_FAILED)"

lemma project_report_accepted:
  assumes "project_queue_enabled (conf env)" "\<And>t. broker env t = None"
    "get_doc w did = Some d" "doc_status d = SP_PROCESSING" "st \<noteq> ''missing''"
  shows "\<exists>w' d'. finalize_project_document_pipeline_task_result env did \<lparr>tk_status = u st, tk_error = e\<rparr> w = (Inr (), w')
     \<and> get_doc w' did = Some d' \<and> doc_status d' = final_status st
     \<and> doc_metadata d' = doc_metadata d \<and> batch_sources w' = batch_sources w"
proof (cases "st = ''already_processing''")
  case True
  let ?w = "upd_doc did (doc_requeue busy_reason) w"
  have "requeue_project_document_pipeline env did busy_reason 30 w
      = schedule_project_processing env (doc_project_id d) (Some 30) ?w"
    using assms(1,3,4) by (simp add: requeue_project_document_pipeline_def)
  moreover have "get_doc ?w did = Some (doc_requeue busy_reason d)"
    using assms(3) by (simp add: get_doc_def world_simps get_upd_row doc_requeue_def)
  ultimately show ?thesis
    using True assms(2)
    by (simp add: finalize_project_document_pipeline_task_result_def schedule_project_processing_def
        get_doc_def doc_requeue_def world_simps)
next
  case False
  let ?ok = "st = ''ok''" and ?f = "doc_finish (st = ''ok'') (str_or e (u ''pipeline_failed'')) (clock w)"
  have p: "finalize_project_document_pipeline_task_result env did \<lparr>tk_status = u st, tk_error = e\<rparr> w
      = after_finish env ?ok (doc_project_id d) (upd_doc did ?f w)"
    using assms False
    by (simp add: finalize_project_document_pipeline_task_result_def maybe_finalize_project_after_document_pipeline_def)
  obtain w' where w': "after_finish env ?ok (doc_project_id d) (upd_doc did ?f w) = (Inr (), w')"
    "documents w' = documents (upd_doc did ?f w)"
    using after_finish_accepted [OF assms(2), of ?ok "doc_project_id d" "upd_doc did ?f w"] by blast
  have "get_doc w' did = Some (?f d)"
    using assms(3) w'(2) by (simp add: get_doc_def world_simps get_upd_row doc_finish_def)
  moreover have "batch_sources w' = batch_sources w"
    using after_finish_batch [of env ?ok "doc_project_id d" "upd_doc did ?f w"] w'(1) by (simp add: world_simps)
  ultimately show ?thesis using p w' False by (simp add: doc_finish_def)
qed

text \<open>
  The batch row a report of status \<open>st\<close> reaches: the one named by the document's metadata or else
  the newest one in processing; a document that was busy is looked up by its metadata alone.
\<close>

definition reported_row :: "string \<Rightarrow> uuid \<Rightarrow> world \<Rightarrow> uuid option" where
  "reported_row st did w = map_option (\<lambda>(row, bid). row_id row)
     (if st = ''already_processing'' then resolve_by_metadata (batch_analysis_from_doc (get_doc w did)) w
      else resolve_document_batch_row did w)"

lemma resolve_same:
  assumes "batch_sources w' = batch_sources w"
  shows "resolve_by_metadata ba w' = resolve_by_metadata ba w" "newest_processing P w' = newest_processing P w"
proof -
  have *: "get_source w' = get_source w" using assms by (simp add: fun_eq_iff get_source_def)
  show "resolve_by_metadata ba w' = resolve_by_metadata ba w" unfolding resolve_by_metadata_def * ..
  show "newest_processing P w' = newest_processing P w" using assms by (simp add: newest_processing_def)
qed

lemma reported_row_same:
  assumes "batch_sources w' = batch_sources w" "get_doc w did = Some d" "get_doc w' did = Some d'"
    "doc_metadata d' = doc_metadata d"
  shows "reported_row st did w' = reported_row st did w"
  using assms by (simp add: reported_row_def resolve_document_batch_row_def batch_analysis_from_doc_def resolve_same [OF assms(1)] split: option.split)

lemma batch_report_statuses:
  assumes "\<And>t. broker env t = None" "st \<noteq> ''missing''"
    and r: "(Inr (), w') = (if st = ''already_processing'' then requeue_batch_document_pipeline env did m n w
        else maybe_finalize_batch_after_document_pipeline env did (st = ''ok'') e w)"
  shows "map row_status (batch_sources w')
       = map (\<lambda>r. if reported_row st did w = Some (row_id r) then final_status st else row_status r) (batch_sources w)"
proof (cases "st = ''already_processing''")
  case True
  show ?thesis
  proof (cases "resolve_by_metadata (batch_analysis_from_doc (get_doc w did)) w")
    case None
    then show ?thesis using r True by (simp add: requeue_batch_document_pipeline_def reported_row_def)
  next
    case (Some res)
    obtain row bid where res: "res = (row, bid)" by (cases res)
    have "batch_sources w' = upd_row row_id (row_id row) (row_requeue m) (batch_sources w)"
      using r True Some res
      by (simp add: requeue_batch_document_pipeline_def schedule_batch_queue_def send_def assms(1) world_simps)
    then show ?thesis using True Some res
      by (simp add: reported_row_def upd_row_def row_requeue_def)
  qed
next
  case False
  show ?thesis
  proof (cases "resolve_document_batch_row did w")
    case None
    then show ?thesis using r False by (simp add: maybe_finalize_batch_after_document_pipeline_def reported_row_def)
  next
    case (Some res)
    obtain row bid where res: "res = (row, bid)" by (cases res)
    have "w' = snd (finish_row env (st = ''ok'') (str_or e (u ''pipeline_failed'')) (row, bid) w)"
      using r False Some res by (simp add: maybe_finalize_batch_after_document_pipeline_def) (metis snd_conv)
    then have "batch_sources w' = upd_row row_id (row_id row)
        (row_finish (st = ''ok'') (str_or e (u ''pipeline_failed'')) (clock w)) (batch_sources w)"
      by (simp add: finish_row_tables)
    then show ?thesis using False Some res
      by (simp add: reported_row_def upd_row_def row_finish_def)
  qed
qed


definition started_document :: world where
  "started_document = empty_world\<lparr>documents := [doc_start 3 (plain_document 1 7 (u ''text''))],
     batch_sources := [row_start 5 (plain_source 10 100 (Some 1) None), plain_source 11 100 (Some 2) None]\<rparr>"


text \<open>In that world the report of a finished run reaches row 10.\<close>

lemma reported_row_started: "reported_row ''ok'' 1 started_document = Some 10"
  by code_simp

end
