(* ===== verification/Audio_Split.thy ===== *)
theory Audio_Split
  imports Processing
begin

text \<open>
  Cutting an audio file into overlapping windows (\<^verbatim>\<open>audio_segment_split_service.py\<close>). ffprobe and
  ffmpeg, the stored files and their names are outside: parameters of the model.
\<close>

section \<open>What the splitter calls\<close>

text \<open>
  \<open>md_probe\<close> is the duration ffprobe prints, \<open>md_encode input start duration\<close> the size of the file
  ffmpeg writes (0 when there is none), \<open>md_asr\<close> the transcription of one slice: text and provider.
\<close>

record media =
  md_is_file :: "pystr \<Rightarrow> bool"
  md_size :: "pystr \<Rightarrow> int option"
  md_probe :: "pystr \<Rightarrow> exc + rat"
  md_encode :: "pystr \<Rightarrow> rat \<Rightarrow> rat \<Rightarrow> exc + int"
  md_path :: "uuid \<Rightarrow> uuid \<Rightarrow> nat \<Rightarrow> pystr"
  md_asr :: "pystr \<Rightarrow> pystr \<Rightarrow> pystr option \<Rightarrow> exc + (pystr \<times> pystr)"

section \<open>The plan\<close>

record slice_plan =
  sp_index :: nat
  sp_start :: int
  sp_end :: int
  sp_path :: pystr

text \<open>
  \<open>Too_large\<close> is the one \<^verbatim>\<open>RuntimeError\<close> the caller retries, recognised by its text; \<open>Stop\<close> is any
  other exception.
\<close>

datatype split_error = Too_large nat int | Stop exc

definition runtime_error :: "string \<Rightarrow> exc" where
  "runtime_error m = Other_error (u m)"

definition window :: "int \<Rightarrow> int \<Rightarrow> int \<Rightarrow> int \<Rightarrow> int \<times> int" where
  "window chunk overlap len pos =
     (let start = (if 0 < pos then max 0 (pos - overlap) else 0);
          raw_end = pos + chunk;
          raw_end' = (if raw_end < len then raw_end + overlap else raw_end)
      in (start, min len raw_end'))"

text \<open>
  The loop of \<^verbatim>\<open>_build_segment_plan\<close>. A chunk that is not positive was refused before it, so the
  first test only makes the definition total.
\<close>

function plan_loop :: "media \<Rightarrow> pystr \<Rightarrow> (nat \<Rightarrow> pystr) \<Rightarrow> int \<Rightarrow> int \<Rightarrow> int \<Rightarrow> int \<Rightarrow> int \<Rightarrow> nat \<Rightarrow>
    split_error + slice_plan list" where
  "plan_loop md input path chunk overlap len max_bytes pos idx =
     (if chunk \<le> 0 \<or> len \<le> pos then Inr []
      else (let (start, stop) = window chunk overlap len pos in
        if stop \<le> start then Inr []
        else (case md_encode md input (fl (of_int start / 1000)) (max (fl (1 / 100)) (fl (of_int (stop - start) / 1000))) of
            Inl e \<Rightarrow> Inl (Stop e)
          | Inr bytes \<Rightarrow>
              if bytes = 0 then Inl (Stop (runtime_error ''ffmpeg produced empty segment''))
              else if max_bytes < bytes then Inl (Too_large idx bytes)
              else (case plan_loop md input path chunk overlap len max_bytes (pos + chunk) (idx + 1) of
                  Inl e \<Rightarrow> Inl e
                | Inr rest \<Rightarrow> Inr (\<lparr>sp_index = idx, sp_start = start, sp_end = stop, sp_path = path idx\<rparr> # rest)))))"
  by pat_completeness auto
termination by (relation "measure (\<lambda>(md, input, path, chunk, overlap, len, mb, pos, idx). nat (len - pos))") auto

declare plan_loop.simps [simp del]

definition build_segment_plan :: "media \<Rightarrow> uuid \<Rightarrow> uuid \<Rightarrow> pystr \<Rightarrow> rat \<Rightarrow> rat \<Rightarrow> int \<Rightarrow>
    split_error + slice_plan list" where
  "build_segment_plan md pid aid input chunk_seconds overlap_seconds max_bytes =
     (let chunk = py_trunc (fl (chunk_seconds * 1000)); overlap = py_trunc (fl (overlap_seconds * 1000)) in
      if chunk \<le> 0 then Inl (Stop (Value_error (u ''chunk_ms must be positive'')))
      else (case md_probe md input of
          Inl e \<Rightarrow> Inl (Stop e)
        | Inr dur \<Rightarrow>
          (let len = max 0 (rne (fl (dur * 1000))) in
           if len = 0 then Inl (Stop (runtime_error ''audio_duration_zero''))
           else plan_loop md input (md_path md pid aid) chunk overlap len max_bytes 0 0)))"

section \<open>Retries and settings\<close>

text \<open>At most twelve attempts; the window is halved after each that is too large, down to a minute.\<close>

fun split_retry :: "media \<Rightarrow> uuid \<Rightarrow> uuid \<Rightarrow> pystr \<Rightarrow> rat \<Rightarrow> rat \<Rightarrow> int \<Rightarrow> nat \<Rightarrow> exc + slice_plan list" where
  "split_retry md pid aid input chunk overlap max_bytes 0 =
     Inl (runtime_error ''audio_segment_split: could not fit segments'')"
| "split_retry md pid aid input chunk overlap max_bytes (Suc n) =
     (case build_segment_plan md pid aid input chunk overlap max_bytes of
        Inr plan \<Rightarrow> Inr plan
      | Inl (Stop e) \<Rightarrow> Inl e
      | Inl (Too_large i s) \<Rightarrow> split_retry md pid aid input (max 60 (fl (chunk / 2))) overlap max_bytes n)"

text \<open>
  The attributes of \<^verbatim>\<open>Settings\<close>: its fields and computed fields. Reading any other attribute raises
  \<^verbatim>\<open>AttributeError\<close> (the model ignores extra environment variables).
\<close>

definition Settings_attributes :: "string list" where
  "Settings_attributes = [''app_name'', ''app_env'', ''debug'', ''api_v1_prefix'', ''cors_origins'', ''host'', ''port'',
     ''upload_storage_path'', ''upload_max_bytes'', ''upload_max_files'', ''project_queue_enabled'',
     ''project_queue_concurrency'', ''database_url'', ''database_url_sync'', ''redis_url'',
     ''celery_broker_url'', ''celery_result_backend'', ''embedding_dimension'',
     ''research_transcription_provider'', ''research_transcription_fallback_to_mock'',
     ''transcription_api_url'', ''transcription_api_key'', ''openai_transcription_model'',
     ''openai_transcription_timeout_seconds'', ''transcription_max_segment_bytes'',
     ''gemini_api_key'', ''gemini_transcription_model'', ''gemini_transcription_timeout_seconds'',
     ''gemini_transcription_fast_path_max_duration_seconds'', ''openai_http_timeout_seconds'',
     ''whisper_local_command'', ''whisper_local_model'', ''whisper_local_timeout_seconds'',
     ''research_extraction_provider'', ''research_summary_provider'', ''chunk_max_chars'',
     ''chunk_overlap_chars'', ''document_pipeline_active_ttl_seconds'', ''openai_api_key'',
     ''openai_extraction_model'', ''openai_summary_model'', ''openai_report_model'',
     ''research_report_generation_debug'', ''research_report_brand_name'',
     ''pr_report_min_synthesis_entities'', ''pr_report_max_auto_extract_chunks'',
     ''pr_report_auto_prepare'', ''pr_report_max_prompt_chars'', ''pr_report_max_repair_attempts'',
     ''external_research_provider'', ''external_research_api_url'', ''external_research_api_key'',
     ''external_research_timeout_seconds'', ''openai_semantic_chunk_model'',
     ''openai_semantic_chunk_window_chars'', ''is_production'', ''cors_origin_list'', ''cors_allow_credentials'']"

text \<open>\<open>vals\<close> is what the settings object holds for the attributes it has.\<close>

definition settings_attr :: "(string \<Rightarrow> rat) \<Rightarrow> string \<Rightarrow> exc + rat" where
  "settings_attr vals n = (if n \<in> set Settings_attributes then Inr (vals n) else Inl (runtime_error ''AttributeError''))"

definition bind_exc :: "exc + 'a \<Rightarrow> ('a \<Rightarrow> exc + 'b) \<Rightarrow> exc + 'b" where
  "bind_exc r f = (case r of Inl e \<Rightarrow> Inl e | Inr x \<Rightarrow> f x)"

definition split_audio_into_segment_files :: "env \<Rightarrow> media \<Rightarrow> (string \<Rightarrow> rat) \<Rightarrow> uuid \<Rightarrow> uuid \<Rightarrow> pystr \<Rightarrow>
    rat option \<Rightarrow> rat option \<Rightarrow> exc + slice_plan list" where
  "split_audio_into_segment_files env md vals pid aid input chunk_seconds overlap_seconds =
     bind_exc (case overlap_seconds of Some x \<Rightarrow> Inr x
        | None \<Rightarrow> settings_attr vals ''audio_transcription_chunk_overlap_seconds'') (\<lambda>overlap.
     bind_exc (case chunk_seconds of Some x \<Rightarrow> Inr x
        | None \<Rightarrow> settings_attr vals ''audio_transcription_chunk_seconds'') (\<lambda>requested.
     bind_exc (settings_attr vals ''effective_audio_transcription_chunk_seconds'') (\<lambda>cap.
       split_retry md pid aid input (max 60 (min requested cap)) overlap
         (transcription_max_segment_bytes (conf env)) 12)))"

lemma split_always_fails:
  "\<exists>e. split_audio_into_segment_files env md vals pid aid input c ov = Inl e"
proof -
  have "settings_attr vals ''effective_audio_transcription_chunk_seconds'' = Inl (runtime_error ''AttributeError'')"
    by (simp add: settings_attr_def Settings_attributes_def)
  then show ?thesis
    by (auto simp: split_audio_into_segment_files_def bind_exc_def split: sum.split)
qed

section \<open>What a plan covers\<close>

lemma window_bounds:
  assumes "0 < chunk" "0 \<le> overlap" "0 \<le> pos" "pos < len" "window chunk overlap len pos = (a, b)"
  shows "0 \<le> a \<and> a \<le> pos \<and> pos < b \<and> b \<le> len \<and> min len (pos + chunk) \<le> b \<and> b - a \<le> chunk + 2 * overlap"
  using assms by (auto simp: window_def Let_def split: if_splits)

lemma plan_loop_covers:
  assumes "plan_loop md input path chunk overlap len mb pos idx = Inr plan"
    "0 < chunk" "0 \<le> overlap" "0 \<le> pos"
  shows "(\<forall>t. pos \<le> t \<and> t < len \<longrightarrow> (\<exists>s \<in> set plan. sp_start s \<le> t \<and> t < sp_end s))
     \<and> map sp_index plan = [idx..<idx + length plan]
     \<and> (\<forall>s \<in> set plan. 0 \<le> sp_start s \<and> sp_start s < sp_end s \<and> sp_end s \<le> len
          \<and> sp_end s - sp_start s \<le> chunk + 2 * overlap)"
  using assms
proof (induction md input path chunk overlap len mb pos idx arbitrary: plan rule: plan_loop.induct)
  case (1 md input path chunk overlap len mb pos idx)
  show ?case
  proof (cases "len \<le> pos")
    case True
    then show ?thesis using 1(2) by (simp add: plan_loop.simps)
  next
    case False
    obtain a b where w: "window chunk overlap len pos = (a, b)" by (cases "window chunk overlap len pos")
    have bounds: "0 \<le> a" "a \<le> pos" "pos < b" "b \<le> len" "min len (pos + chunk) \<le> b" "b - a \<le> chunk + 2 * overlap"
      using window_bounds [OF 1(3-5) _ w] False by auto
    have nle: "\<not> (chunk \<le> 0 \<or> len \<le> pos)" "\<not> b \<le> a" using False 1(3) bounds by auto
    obtain bytes rest where bytes: "md_encode md input (fl (of_int a / 1000))
        (max (fl (1 / 100)) (fl (of_int (b - a) / 1000))) = Inr bytes" "bytes \<noteq> 0" "\<not> mb < bytes"
      and rest: "plan_loop md input path chunk overlap len mb (pos + chunk) (idx + 1) = Inr rest"
      and plan: "plan = \<lparr>sp_index = idx, sp_start = a, sp_end = b, sp_path = path idx\<rparr> # rest"
      using 1(2) nle by (subst (asm) plan_loop.simps) (auto simp: w Let_def split: sum.splits if_splits)
    have IH: "(\<forall>t. pos + chunk \<le> t \<and> t < len \<longrightarrow> (\<exists>s \<in> set rest. sp_start s \<le> t \<and> t < sp_end s))
      \<and> map sp_index rest = [idx + 1..<idx + 1 + length rest]
      \<and> (\<forall>s \<in> set rest. 0 \<le> sp_start s \<and> sp_start s < sp_end s \<and> sp_end s \<le> len
          \<and> sp_end s - sp_start s \<le> chunk + 2 * overlap)"
      using 1(1) [OF nle(1) w [symmetric] refl nle(2) bytes rest] 1(3-5) by simp
    have "\<exists>s \<in> set plan. sp_start s \<le> t \<and> t < sp_end s" if t: "pos \<le> t" "t < len" for t
    proof (cases "t < b")
      case True
      then show ?thesis using t bounds by (simp add: plan)
    next
      case False
      then have "pos + chunk \<le> t" using t bounds by auto
      then show ?thesis using IH t by (auto simp: plan)
    qed
    moreover have "[idx..<idx + Suc (length rest)] = idx # [Suc idx..<idx + Suc (length rest)]"
      by (rule upt_conv_Cons) simp
    then have "map sp_index plan = [idx..<idx + length plan]" using IH by (simp add: plan del: upt_Suc)
    ultimately show ?thesis using IH bounds by (auto simp: plan simp del: upt_Suc)
  qed
qed

text \<open>
  When the splitter returns a plan for a positive window and a non-negative overlap, the slices
  are numbered in order from 0, every millisecond of the audio lies in at least one of them, and none
  is empty, leaves the audio or is longer than the window and twice the overlap.
\<close>

theorem segment_plan_covers_audio:
  assumes "build_segment_plan md pid aid input chunk_seconds overlap_seconds mb = Inr plan"
    "md_probe md input = Inr dur" "0 \<le> py_trunc (fl (overlap_seconds * 1000))"
  shows "(\<forall>t. 0 \<le> t \<and> t < max 0 (rne (fl (dur * 1000))) \<longrightarrow> (\<exists>s \<in> set plan. sp_start s \<le> t \<and> t < sp_end s))
     \<and> map sp_index plan = [0..<length plan]
     \<and> (\<forall>s \<in> set plan. 0 \<le> sp_start s \<and> sp_start s < sp_end s \<and> sp_end s \<le> max 0 (rne (fl (dur * 1000)))
          \<and> sp_end s - sp_start s \<le> py_trunc (fl (chunk_seconds * 1000)) + 2 * py_trunc (fl (overlap_seconds * 1000)))"
proof -
  have "0 < py_trunc (fl (chunk_seconds * 1000))"
    "plan_loop md input (md_path md pid aid) (py_trunc (fl (chunk_seconds * 1000)))
       (py_trunc (fl (overlap_seconds * 1000))) (max 0 (rne (fl (dur * 1000)))) mb 0 0 = Inr plan"
    using assms(1,2) by (auto simp: build_segment_plan_def Let_def split: if_splits)
  then show ?thesis using plan_loop_covers assms(3) by fastforce
qed

definition minute_media :: media where
  "minute_media = \<lparr>md_is_file = (\<lambda>_. True), md_size = (\<lambda>_. Some 1000), md_probe = (\<lambda>_. Inr 3),
     md_encode = (\<lambda>_ _ _. Inr 1), md_path = (\<lambda>_ _ _. []), md_asr = (\<lambda>_ _ _. Inr (u ''text'', u ''mock''))\<rparr>"

lemma plan_loop_accepts:
  "(\<And>i a b. md_encode md i a b = Inr 1) \<Longrightarrow> 1 \<le> mb \<Longrightarrow>
     \<exists>plan. plan_loop md input path chunk overlap len mb pos idx = Inr plan"
proof (induction md input path chunk overlap len mb pos idx rule: plan_loop.induct)
  case (1 md input path chunk overlap len mb pos idx)
  obtain a b where w: "window chunk overlap len pos = (a, b)" by (cases "window chunk overlap len pos")
  show ?case
  proof (cases "(chunk \<le> 0 \<or> len \<le> pos) \<or> b \<le> a")
    case True
    then show ?thesis by (subst plan_loop.simps) (auto simp: w)
  next
    case False
    then obtain plan where "plan_loop md input path chunk overlap len mb (pos + chunk) (idx + 1) = Inr plan"
      using 1(1) [OF _ w [symmetric] refl _ 1(2), OF _ _ _ _ 1(2,3)] 1(3) by fastforce
    then show ?thesis using False 1(2,3) by (subst plan_loop.simps) (simp add: w)
  qed
qed

lemma minute_plan: "\<exists>plan. build_segment_plan minute_media 7 2 [] 60 1 9 = Inr plan"
proof -
  have f: "fl 60000 = 60000" "fl 1000 = 1000" "fl 3000 = 3000"
    using fl_of_int [of 60000] fl_of_int [of 1000] fl_of_int [of 3000] by simp_all
  have t: "py_trunc 60000 = 60000" "py_trunc 1000 = 1000" "rne 3000 = 3000" by code_simp+
  have "\<exists>plan. plan_loop minute_media [] (md_path minute_media 7 2) 60000 1000 3000 9 0 0 = Inr plan"
    by (rule plan_loop_accepts) (simp_all add: minute_media_def)
  moreover have "md_probe minute_media [] = Inr 3" by (simp add: minute_media_def)
  ultimately show ?thesis by (simp add: build_segment_plan_def f t)
qed

theorem segment_plan_covers_audio_witness:
  "\<exists>plan. build_segment_plan minute_media 7 2 [] 60 1 9 = Inr plan
     \<and> (\<exists>s \<in> set plan. sp_start s \<le> 2999 \<and> 2999 < sp_end s)"
proof -
  obtain plan where plan: "build_segment_plan minute_media 7 2 [] 60 1 9 = Inr plan" using minute_plan by blast
  have f: "fl 1000 = 1000" "fl 3000 = 3000" using fl_of_int [of 1000] fl_of_int [of 3000] by simp_all
  have t: "py_trunc 1000 = 1000" "rne 3000 = 3000" by code_simp+
  have "md_probe minute_media [] = Inr 3" by (simp add: minute_media_def)
  from segment_plan_covers_audio [OF plan this] show ?thesis using plan by (simp add: f t)
qed

end
