(* ===== verification/Audio_Pipeline.thy ===== *)
theory Audio_Pipeline
  imports Audio_Split Entity_Extraction
begin

text \<open>
  Transcribing an audio in slices (\<^verbatim>\<open>workers/tasks/audio_segment_pipeline.py\<close>): one-shot Gemini or
  ffmpeg slices, one task per slice, and the merge that the last slice to end performs.

  The merge reports a failed audio through functions that open a database session of their own while
  the session of the merge is still open. In PostgreSQL an \<^verbatim>\<open>UPDATE\<close> of a row that another open
  transaction has updated waits for that transaction to end; here it would have to end after the call
  that waits. \<open>Blocks w\<close> is a task that waits so: nothing of its open session is stored, and \<open>w\<close> is
  what was committed before.
\<close>

datatype 'a run = Blocks world | Ends "'a outcome"

definition run_session :: "(world \<Rightarrow> 'a run) \<Rightarrow> world \<Rightarrow> 'a run" where
  "run_session body w =
     (case body w of
        Blocks _ \<Rightarrow> Blocks w
      | Ends (Inl e, w') \<Rightarrow> Ends (Inl e, rollback w w')
      | Ends (Inr x, w') \<Rightarrow> Ends (Inr x, w'))"

definition then_run :: "'a run \<Rightarrow> ('a \<Rightarrow> world \<Rightarrow> 'b run) \<Rightarrow> 'b run" where
  "then_run r f = (case r of Blocks w \<Rightarrow> Blocks w | Ends (Inl e, w) \<Rightarrow> Ends (Inl e, w) | Ends (Inr x, w) \<Rightarrow> f x w)"

section \<open>The merge\<close>

definition PARA :: pystr where
  "PARA = [10, 10]"

definition audio_slices :: "world \<Rightarrow> uuid \<Rightarrow> audio_segment list" where
  "audio_slices w aid = filter (\<lambda>s. sg_audio_id s = aid) (audio_segments w)"

definition slices_in :: "world \<Rightarrow> uuid \<Rightarrow> segment_status \<Rightarrow> audio_segment list" where
  "slices_in w aid st = filter (\<lambda>s. sg_status s = st) (audio_slices w aid)"

definition aud_set :: "audio_status \<Rightarrow> pystr option \<Rightarrow> source_audio \<Rightarrow> source_audio" where
  "aud_set st e a = a\<lparr>aud_pipeline_status := st, aud_pipeline_error := e\<rparr>"

text \<open>Whether the project's failure report would write the audio's row.\<close>

definition project_failure_writes :: "env \<Rightarrow> uuid \<Rightarrow> world \<Rightarrow> bool" where
  "project_failure_writes env aid w \<longleftrightarrow> project_queue_enabled (conf env) \<and>
     (case get_audio w aid of None \<Rightarrow> False | Some a \<Rightarrow> aud_status a \<in> {SP_PENDING, SP_PROCESSING})"

text \<open>
  The two reports of a failed audio; \<open>locked\<close> says that the open session has already updated its row.
\<close>

definition report_failure :: "env \<Rightarrow> bool \<Rightarrow> uuid \<Rightarrow> pystr \<Rightarrow> world \<Rightarrow> unit run" where
  "report_failure env locked aid msg w =
     (if locked \<and> project_failure_writes env aid w then Blocks w
      else Ends (and_then (maybe_finalize_project_after_audio_failure env aid msg w)
                  (\<lambda>_. maybe_finalize_batch_after_audio_failure env aid msg)))"

definition ALL_FAILED :: pystr where
  "ALL_FAILED = u ''All transcription segments failed''"

definition MERGED_EMPTY :: pystr where
  "MERGED_EMPTY = u ''Merged transcript empty''"

definition merge_parts :: "world \<Rightarrow> uuid \<Rightarrow> pystr list" where
  "merge_parts w aid = filter (\<lambda>t. t \<noteq> []) (map (\<lambda>s. strip (text_of (sg_text s)))
     (sort_key sg_index (slices_in w aid AS_DONE)))"

definition merge_provider :: "world \<Rightarrow> uuid \<Rightarrow> pystr" where
  "merge_provider w aid =
     (case filter (\<lambda>s. strip (text_of (sg_provider s)) \<noteq> []) (sort_key sg_index (slices_in w aid AS_DONE)) of
        [] \<Rightarrow> u ''chunked-asr''
      | s # _ \<Rightarrow> text_of (sg_provider s))"

definition merge_note :: "nat \<Rightarrow> nat \<Rightarrow> pystr option" where
  "merge_note n_failed n_done =
     (if 0 < n_failed then Some (digits n_failed @ u '' segment(s) failed; merged '' @ digits n_done @ u '' slice(s).'')
      else None)"

text \<open>What follows once the audio's row has been moved from transcribing to merging.\<close>

definition store_merge :: "env \<Rightarrow> services \<Rightarrow> uuid \<Rightarrow> source_audio \<Rightarrow> pystr \<Rightarrow> world \<Rightarrow> unit outcome" where
  "store_merge env sv aid a merged w =
     (let w1 = delete_chunks (\<lambda>c. ch_audio_id c = Some aid) (delete_audio_transcripts aid w);
          (tid, w2) = add_transcript aid merged (aud_language a) (Some (merge_provider w aid))
             [(0, 0, take 8000 merged)] w1
      in and_then (chunk_transcript_sync env sv tid Fixed w2) (\<lambda>_ w3.
           send env (Extract_transcript tid) None
             (upd_audio aid (aud_set AP_READY (merge_note (length (slices_in w aid AS_FAILED))
                (length (slices_in w aid AS_DONE)))) w3)))"

definition try_merge_audio :: "env \<Rightarrow> services \<Rightarrow> uuid \<Rightarrow> world \<Rightarrow> unit run" where
  "try_merge_audio env sv aid w =
     (if slices_in w aid AS_PENDING \<noteq> [] \<or> slices_in w aid AS_PROCESSING \<noteq> [] then Ends (Inr (), w)
      else if audio_slices w aid = [] then Ends (Inr (), w)
      else case get_audio w aid of
        None \<Rightarrow> Ends (Inr (), w)
      | Some a \<Rightarrow>
          if slices_in w aid AS_DONE = [] then
            report_failure env (aud_pipeline_status a \<noteq> AP_FAILED \<or> aud_pipeline_error a \<noteq> Some ALL_FAILED)
              aid ALL_FAILED (upd_audio aid (aud_set AP_FAILED (Some ALL_FAILED)) w)
          else if aud_pipeline_status a \<noteq> AP_TRANSCRIBING then Ends (Inr (), w)
          else (let w1 = upd_audio aid (\<lambda>a. a\<lparr>aud_pipeline_status := AP_MERGING\<rparr>) w;
                    merged = join PARA (merge_parts w aid)
                in if strip merged = [] then
                     report_failure env True aid MERGED_EMPTY (upd_audio aid (aud_set AP_FAILED (Some MERGED_EMPTY)) w1)
                   else Ends (store_merge env sv aid a merged w1)))"

section \<open>One slice\<close>

datatype slice_result = Slice_missing | Slice_skipped | Slice_ok

fun str_exc :: "exc \<Rightarrow> pystr" where
  "str_exc (Value_error m) = m"
| "str_exc (Other_error r) = r"

definition slice_fail :: "pystr \<Rightarrow> audio_segment \<Rightarrow> audio_segment" where
  "slice_fail msg s = s\<lparr>sg_status := AS_FAILED, sg_error := Some msg\<rparr>"

text \<open>The part of a media type before the first semicolon.\<close>

definition mime_for_asr :: "source_audio option \<Rightarrow> pystr" where
  "mime_for_asr a =
     (case a of None \<Rightarrow> u ''audio/opus''
      | Some a \<Rightarrow> if strip (text_of (aud_mime_type a)) = [] then u ''audio/opus''
                 else strip (takeWhile (\<lambda>c. c \<noteq> 59) (text_of (aud_mime_type a))))"

definition transcribe_audio_segment :: "env \<Rightarrow> services \<Rightarrow> media \<Rightarrow> uuid \<Rightarrow> world \<Rightarrow> slice_result run" where
  "transcribe_audio_segment env sv md sid w =
     (case get_segment w sid of
        None \<Rightarrow> Ends (Inr Slice_missing, w)
      | Some seg \<Rightarrow>
        if sg_status seg = AS_DONE then Ends (Inr Slice_skipped, w)
        else (let a = get_audio w (sg_audio_id seg);
                  w1 = upd_segment sid (\<lambda>s. s\<lparr>sg_status := AS_PROCESSING, sg_error := None\<rparr>) w;
                  failed = (\<lambda>msg e. then_run (run_session (\<lambda>w. try_merge_audio env sv (sg_audio_id seg)
                      (upd_segment sid (slice_fail msg) w)) w1) (\<lambda>_ w2. Ends (Inl e, w2)))
          in case md_asr md (sg_path seg) (mime_for_asr a) (Option.bind a aud_language) of
               Inl e \<Rightarrow> failed (take 4000 (str_exc e)) e
             | Inr (txt, prov) \<Rightarrow>
                 if strip txt = [] then failed (u ''empty_transcription'') (runtime_error ''empty_transcription'')
                 else then_run (run_session (\<lambda>w. try_merge_audio env sv (sg_audio_id seg)
                     (upd_segment sid (\<lambda>s. s\<lparr>sg_text := Some txt, sg_provider := Some prov, sg_status := AS_DONE\<rparr>) w)) w1)
                   (\<lambda>_ w2. Ends (Inr Slice_ok, w2))))"

section \<open>Splitting and the fast path\<close>

definition delete_slices :: "uuid \<Rightarrow> world \<Rightarrow> world" where
  "delete_slices aid w = w\<lparr>audio_segments := filter (\<lambda>s. sg_audio_id s \<noteq> aid) (audio_segments w)\<rparr>"

definition new_slice :: "uuid \<Rightarrow> uuid \<Rightarrow> slice_plan \<Rightarrow> audio_segment" where
  "new_slice sid aid p = \<lparr>sg_id = sid, sg_audio_id = aid, sg_index = sp_index p, sg_start_ms = sp_start p,
     sg_end_ms = sp_end p, sg_path = sp_path p, sg_status = AS_PENDING, sg_text = None, sg_error = None,
     sg_provider = None\<rparr>"

definition add_slices :: "uuid \<Rightarrow> slice_plan list \<Rightarrow> world \<Rightarrow> world" where
  "add_slices aid plan w =
     w\<lparr>audio_segments := audio_segments w @ map (\<lambda>(i, p). new_slice (next_id w + i) aid p) (enumerate 0 plan),
       next_id := next_id w + length plan\<rparr>"

datatype split_result = Split_missing | Split_error pystr | Split_ok nat

definition split_fail :: "uuid \<Rightarrow> pystr \<Rightarrow> world \<Rightarrow> world" where
  "split_fail aid msg w = upd_audio aid (aud_set AP_FAILED (Some msg)) w"

text \<open>The body of the first session: a result, or the ids of the slices to transcribe.\<close>

definition split_body :: "env \<Rightarrow> media \<Rightarrow> (string \<Rightarrow> rat) \<Rightarrow> uuid \<Rightarrow> world \<Rightarrow> (split_result + uuid list) outcome" where
  "split_body env md vals aid w =
     (case get_audio w aid of
        None \<Rightarrow> (Inr (Inl Split_missing), w)
      | Some a \<Rightarrow>
        if text_of (aud_original_path a) = [] then
          (Inr (Inl (Split_error (u ''missing_original_path''))), split_fail aid (u ''missing_original_path'') w)
        else (let src = text_of (aud_original_path a);
                  w1 = delete_slices aid (upd_audio aid (aud_set AP_SPLITTING None) w)
          in if \<not> md_is_file md src then
               (Inr (Inl (Split_error (u ''file_not_found''))), split_fail aid (u ''file_not_found:'' @ src) w1)
             else (case split_audio_into_segment_files env md vals (aud_project_id a) aid src None None of
                 Inl e \<Rightarrow> (Inl e, w1)
               | Inr plan \<Rightarrow>
                   if plan = [] then (Inr (Inl (Split_error (u ''no_segments''))), split_fail aid (u ''no_segments_produced'') w1)
                   else (let w2 = upd_audio aid (\<lambda>a. a\<lparr>aud_pipeline_status := AP_TRANSCRIBING\<rparr>) (add_slices aid plan w1)
                         in (Inr (Inr (map sg_id (sort_key sg_index (audio_slices w2 aid)))), w2)))))"

fun send_each :: "env \<Rightarrow> task list \<Rightarrow> world \<Rightarrow> unit outcome" where
  "send_each env [] w = (Inr (), w)"
| "send_each env (t # ts) w = and_then (send env t None w) (\<lambda>_. send_each env ts)"

definition split_audio_into_segments :: "env \<Rightarrow> media \<Rightarrow> (string \<Rightarrow> rat) \<Rightarrow> uuid \<Rightarrow> world \<Rightarrow> split_result outcome" where
  "split_audio_into_segments env md vals aid w =
     (case session_scope (split_body env md vals aid) w of
        (Inl e, w1) \<Rightarrow> (Inr (Split_error (str_exc e)), split_fail aid (take 4000 (str_exc e)) w1)
      | (Inr (Inl r), w1) \<Rightarrow> (Inr r, w1)
      | (Inr (Inr ids), w1) \<Rightarrow> and_then (send_each env (map Transcribe_segment ids) w1)
          (\<lambda>_ w2. (Inr (Split_ok (length ids)), w2)))"

definition GEMINI_INLINE_CAP_BYTES :: int where
  "GEMINI_INLINE_CAP_BYTES = 18 * 1024 * 1024"

definition max_gemini_inline_bytes :: "settings \<Rightarrow> int" where
  "max_gemini_inline_bytes st = min (transcription_max_segment_bytes st) GEMINI_INLINE_CAP_BYTES"

text \<open>The column has three decimals, kept here in milliseconds; \<^verbatim>\<open>float\<close> rounds it.\<close>

definition audio_duration_seconds :: "source_audio \<Rightarrow> rat option" where
  "audio_duration_seconds a = map_option (\<lambda>ms. fl (of_int ms / 1000)) (aud_duration_ms a)"

definition should_use_gemini_fast_path :: "settings \<Rightarrow> media \<Rightarrow> source_audio \<Rightarrow> pystr \<Rightarrow> bool" where
  "should_use_gemini_fast_path st md a path \<longleftrightarrow>
     ascii_lower (research_transcription_provider st) = u ''gemini'' \<and>
     (case audio_duration_seconds a of None \<Rightarrow> False | Some d \<Rightarrow> d \<le> gemini_fast_path_max_duration st) \<and>
     md_is_file md path \<and>
     (case (case aud_file_bytes a of Some b \<Rightarrow> Some b | None \<Rightarrow> md_size md path) of
        None \<Rightarrow> False | Some sz \<Rightarrow> 0 < sz \<and> sz \<le> max_gemini_inline_bytes st)"

datatype fast_result = Fast_missing | Fast_deferred | Fast_ok slice_result | Fast_fallback pystr

definition fast_body :: "env \<Rightarrow> media \<Rightarrow> uuid \<Rightarrow> world \<Rightarrow> (fast_result + uuid) outcome" where
  "fast_body env md aid w =
     (case get_audio w aid of
        None \<Rightarrow> (Inr (Inl Fast_missing), w)
      | Some a \<Rightarrow>
        if text_of (aud_original_path a) = [] \<or> \<not> should_use_gemini_fast_path (conf env) md a (text_of (aud_original_path a)) then
          and_then (send env (Split_audio aid) None w) (\<lambda>_ w1. (Inr (Inl Fast_deferred), w1))
        else (let w1 = upd_audio aid (aud_set AP_TRANSCRIBING None) (delete_slices aid w);
                  dur = (case audio_duration_seconds a of None \<Rightarrow> 0 | Some d \<Rightarrow> py_trunc (fl (d * 1000)))
          in (Inr (Inr (next_id w1)), add_slices aid [\<lparr>sp_index = 0, sp_start = 0, sp_end = dur,
                sp_path = text_of (aud_original_path a)\<rparr>] w1)))"

text \<open>A failure anywhere in the attempt falls back to slicing.\<close>

definition fast_fallback :: "env \<Rightarrow> uuid \<Rightarrow> exc \<Rightarrow> world \<Rightarrow> fast_result run" where
  "fast_fallback env aid e w =
     Ends (and_then (send env (Split_audio aid) None
         (delete_slices aid (upd_audio aid (\<lambda>a. a\<lparr>aud_pipeline_error := None\<rparr>) w)))
       (\<lambda>_ w1. (Inr (Fast_fallback (take 800 (str_exc e))), w1)))"

definition transcribe_full_audio_gemini_fast :: "env \<Rightarrow> services \<Rightarrow> media \<Rightarrow> uuid \<Rightarrow> world \<Rightarrow> fast_result run" where
  "transcribe_full_audio_gemini_fast env sv md aid w =
     (case session_scope (fast_body env md aid) w of
        (Inl e, w1) \<Rightarrow> fast_fallback env aid e w1
      | (Inr (Inl r), w1) \<Rightarrow> Ends (Inr r, w1)
      | (Inr (Inr sid), w1) \<Rightarrow>
         (case transcribe_audio_segment env sv md sid w1 of
            Blocks w2 \<Rightarrow> Blocks w2
          | Ends (Inl e, w2) \<Rightarrow> fast_fallback env aid e w2
          | Ends (Inr r, w2) \<Rightarrow> Ends (Inr (Fast_ok r), w2)))"

section \<open>Splitting never succeeds\<close>

lemma split_fail_sel:
  "get_audio (split_fail aid msg w) aid = map_option (aud_set AP_FAILED (Some msg)) (get_audio w aid)"
  "outbox (split_fail aid msg w) = outbox w"
  by (simp_all add: split_fail_def get_audio_def world_simps get_upd_row aud_set_def)

lemma delete_slices_sel [simp]:
  "audios (delete_slices aid w) = audios w" "outbox (delete_slices aid w) = outbox w"
  by (simp_all add: delete_slices_def)

text \<open>
  C15. No audio is ever split: the splitter reads three settings that \<^verbatim>\<open>Settings\<close> does not have, so
  every attempt ends with the audio's pipeline failed. Neither queue is told and nothing is sent, so
  a source that was being processed stays processing, and its project never becomes idle.
\<close>

theorem split_never_succeeds:
  assumes "get_audio w aid = Some a" "split_audio_into_segments env md vals aid w = (r, w')"
  shows "(\<exists>msg. r = Inr (Split_error msg))
     \<and> (\<exists>a'. get_audio w' aid = Some a' \<and> aud_pipeline_status a' = AP_FAILED \<and> aud_status a' = aud_status a)
     \<and> outbox w' = outbox w"
proof -
  obtain e where e: "split_audio_into_segment_files env md vals (aud_project_id a) aid (text_of (aud_original_path a)) None None = Inl e"
    using split_always_fails by blast
  have g: "get_audio (delete_slices aid (upd_audio aid f w)) aid = Some (f a)" if "\<And>x. aud_id (f x) = aud_id x" for f
    using that assms(1) by (simp add: get_audio_def world_simps get_upd_row)
  have r: "get_audio (rollback w v) aid = Some a" for v using assms(1) by (simp add: get_audio_def)
  show ?thesis
    using assms(2) e unfolding split_audio_into_segments_def split_body_def assms(1) option.case session_scope_def Let_def
    by (auto simp: split_fail_sel r g aud_set_def assms(1) world_simps split: if_splits)
qed

theorem split_never_succeeds_witness:
  "\<exists>r w'. split_audio_into_segments plain_env minute_media (\<lambda>_. 60) 2 two_sources = (r, w')
     \<and> (\<exists>msg. r = Inr (Split_error msg)) \<and> outbox w' = []"
proof -
  have g: "get_audio two_sources 2 = Some (plain_audio 2 7)" by code_simp
  obtain r w' where s: "split_audio_into_segments plain_env minute_media (\<lambda>_. 60) 2 two_sources = (r, w')"
    by (cases "split_audio_into_segments plain_env minute_media (\<lambda>_. 60) 2 two_sources")
  have "outbox two_sources = []" by (simp add: two_sources_def)
  then show ?thesis using split_never_succeeds [OF g s] s by auto
qed

section \<open>The last slice fails\<close>

lemma slices_upd:
  "audio_slices (upd_segment sid f w) aid =
     filter (\<lambda>s. sg_audio_id s = aid) (upd_row sg_id sid f (audio_segments w))"
  by (simp add: audio_slices_def world_simps)

lemma filter_upd_row_all:
  assumes "\<And>x. P (f x) \<longleftrightarrow> P x" "\<And>x. key (f x) = key x"
    "\<forall>x \<in> set (filter P xs). key x \<noteq> i \<longrightarrow> Q x" "\<And>x. Q (f x)"
  shows "\<forall>x \<in> set (filter P (upd_row key i f xs)). Q x"
  using assms by (auto simp: upd_row_def)

lemma filter_upd_row_Nil:
  assumes "\<And>x. P (f x) \<longleftrightarrow> P x"
  shows "filter P (upd_row key i f xs) = [] \<longleftrightarrow> filter P xs = []"
  by (induction xs) (auto simp: upd_row_def assms)

lemma upd_row_twice:
  assumes "\<And>x. key (f x) = key x"
  shows "upd_row key i g (upd_row key i f xs) = upd_row key i (\<lambda>x. g (f x)) xs"
  using assms by (induction xs) (auto simp: upd_row_def)

lemma merge_all_failed_blocks:
  assumes "project_queue_enabled (conf env)" "audio_slices w aid \<noteq> []"
    "\<forall>s \<in> set (audio_slices w aid). sg_status s = AS_FAILED"
    "get_audio w aid = Some a" "active (aud_status a)" "aud_pipeline_status a = AP_TRANSCRIBING"
  shows "\<exists>v. try_merge_audio env sv aid w = Blocks v"
proof -
  have none: "slices_in w aid st = []" if "st \<noteq> AS_FAILED" for st
    using assms(3) that by (auto simp: slices_in_def filter_empty_conv)
  have "get_audio (upd_audio aid (aud_set AP_FAILED (Some ALL_FAILED)) w) aid = Some (aud_set AP_FAILED (Some ALL_FAILED) a)"
    using assms(4) by (simp add: get_audio_def world_simps get_upd_row aud_set_def)
  then have "project_failure_writes env aid (upd_audio aid (aud_set AP_FAILED (Some ALL_FAILED)) w)"
    using assms(1,5) by (auto simp: project_failure_writes_def aud_set_def active_def)
  then show ?thesis
    using assms(2,4,6) by (simp add: try_merge_audio_def none report_failure_def)
qed

lemma slice_attempt_fails:
  assumes "get_segment w sid = Some seg" "sg_status seg \<noteq> AS_DONE" "get_audio w (sg_audio_id seg) = Some a"
    "md_asr md (sg_path seg) (mime_for_asr (Some a)) (aud_language a) = Inl e"
    "\<exists>v. try_merge_audio env sv (sg_audio_id seg) (upd_segment sid (slice_fail (take 4000 (str_exc e)))
       (upd_segment sid (\<lambda>s. s\<lparr>sg_status := AS_PROCESSING, sg_error := None\<rparr>) w)) = Blocks v"
  shows "transcribe_audio_segment env sv md sid w =
     Blocks (upd_segment sid (\<lambda>s. s\<lparr>sg_status := AS_PROCESSING, sg_error := None\<rparr>) w)"
  using assms by (auto simp: transcribe_audio_segment_def run_session_def then_run_def)

lemma failed_slices_upd:
  assumes "get_segment w sid = Some seg"
    "\<forall>s \<in> set (audio_slices w (sg_audio_id seg)). sg_id s \<noteq> sid \<longrightarrow> sg_status s = AS_FAILED"
  shows "audio_slices (upd_segment sid (slice_fail m) (upd_segment sid (\<lambda>s. s\<lparr>sg_status := AS_PROCESSING, sg_error := None\<rparr>) w))
           (sg_audio_id seg) \<noteq> []" (is "?ne")
    "\<forall>s \<in> set (audio_slices (upd_segment sid (slice_fail m) (upd_segment sid (\<lambda>s. s\<lparr>sg_status := AS_PROCESSING, sg_error := None\<rparr>) w))
           (sg_audio_id seg)). sg_status s = AS_FAILED" (is "?all")
proof -
  have "seg \<in> set (audio_segments w)" using assms(1) by (auto simp: get_segment_def dest: get_row_SomeD)
  then have "filter (\<lambda>s. sg_audio_id s = sg_audio_id seg) (audio_segments w) \<noteq> []" by (auto simp: filter_empty_conv)
  then show ?ne by (simp add: slices_upd world_simps filter_upd_row_Nil slice_fail_def)
  have tw: "upd_row sg_id sid (slice_fail m) (upd_row sg_id sid (\<lambda>s. s\<lparr>sg_status := AS_PROCESSING, sg_error := None\<rparr>) xs) =
      upd_row sg_id sid (\<lambda>s. slice_fail m (s\<lparr>sg_status := AS_PROCESSING, sg_error := None\<rparr>)) xs" for xs
    by (rule upd_row_twice) simp
  have "\<forall>s \<in> set (filter (\<lambda>s. sg_audio_id s = sg_audio_id seg) (upd_row sg_id sid
      (\<lambda>s. slice_fail m (s\<lparr>sg_status := AS_PROCESSING, sg_error := None\<rparr>)) (audio_segments w))). sg_status s = AS_FAILED"
    by (rule filter_upd_row_all) (use assms(2) in \<open>simp_all add: slice_fail_def audio_slices_def\<close>)
  then show ?all by (simp add: slices_upd world_simps tw)
qed

text \<open>
  C16. When the last slice of an audio fails and no slice succeeded, the task never ends: the merge
  has updated the audio's row in its open session, and the report to the project queue waits for that
  row in a session of its own. What is stored is a slice that is still processing; nothing is sent.
\<close>

theorem last_failed_slice_blocks:
  assumes "project_queue_enabled (conf env)" "get_segment w sid = Some seg" "sg_status seg \<noteq> AS_DONE"
    "\<forall>s \<in> set (audio_slices w (sg_audio_id seg)). sg_id s \<noteq> sid \<longrightarrow> sg_status s = AS_FAILED"
    "get_audio w (sg_audio_id seg) = Some a" "active (aud_status a)" "aud_pipeline_status a = AP_TRANSCRIBING"
    "md_asr md (sg_path seg) (mime_for_asr (Some a)) (aud_language a) = Inl e"
  shows "\<exists>w' seg'. transcribe_audio_segment env sv md sid w = Blocks w'
     \<and> get_segment w' sid = Some seg' \<and> sg_status seg' = AS_PROCESSING \<and> outbox w' = outbox w"
proof -
  let ?w1 = "upd_segment sid (\<lambda>s. s\<lparr>sg_status := AS_PROCESSING, sg_error := None\<rparr>) w"
  have g: "get_audio (upd_segment sid f v) i = get_audio v i" for f v i
    by (simp add: get_audio_def world_simps)
  have "transcribe_audio_segment env sv md sid w = Blocks ?w1"
    by (rule slice_attempt_fails [OF assms(2,3,5,8)], rule merge_all_failed_blocks [OF assms(1) _ _ _ assms(6,7)])
      (use failed_slices_upd [OF assms(2,4)] assms(5) in \<open>simp_all add: g\<close>)
  moreover have "get_segment ?w1 sid = Some (seg\<lparr>sg_status := AS_PROCESSING, sg_error := None\<rparr>)"
    using assms(2) by (simp add: get_segment_def world_simps get_upd_row)
  moreover have "outbox ?w1 = outbox w" by (simp add: world_simps)
  ultimately show ?thesis by auto
qed

definition one_slice :: world where
  "one_slice = empty_world\<lparr>audios := [(plain_audio 2 7)\<lparr>aud_pipeline_status := AP_TRANSCRIBING\<rparr>],
     audio_segments := [new_slice 40 2 \<lparr>sp_index = 0, sp_start = 0, sp_end = 1000, sp_path = u ''seg''\<rparr>]\<rparr>"

theorem last_failed_slice_blocks_witness:
  "\<exists>w' seg'. transcribe_audio_segment plain_env quiet_services
       (minute_media\<lparr>md_asr := (\<lambda>_ _ _. Inl (Other_error (u ''timeout'')))\<rparr>) 40 one_slice = Blocks w'
     \<and> get_segment w' 40 = Some seg' \<and> sg_status seg' = AS_PROCESSING \<and> outbox w' = outbox one_slice"
  by (rule last_failed_slice_blocks [of _ _ _ "hd (audio_segments one_slice)" "hd (audios one_slice)" _ "Other_error (u ''timeout'')"])
    (simp_all add: one_slice_def get_segment_def get_audio_def get_row_def new_slice_def audio_slices_def
      plain_audio_def active_def)

section \<open>The merge succeeds\<close>

lemma delete_audio_transcripts_sel:
  "transcripts (delete_audio_transcripts aid w) = filter (\<lambda>t. tr_audio_id t \<noteq> aid) (transcripts w)"
  "audios (delete_audio_transcripts aid w) = audios w" "next_id (delete_audio_transcripts aid w) = next_id w"
  "outbox (delete_audio_transcripts aid w) = outbox w" "audio_segments (delete_audio_transcripts aid w) = audio_segments w"
  by (simp_all add: delete_audio_transcripts_def Let_def delete_entities_def delete_chunks_sel)

lemma delete_audio_transcripts_segments:
  "set (transcript_segments (delete_audio_transcripts aid w)) \<subseteq> set (transcript_segments w)"
  by (auto simp: delete_audio_transcripts_def Let_def delete_entities_def delete_chunks_sel)

lemma first_part:
  assumes "merge_parts w aid \<noteq> []"
  obtains c s where "join PARA (merge_parts w aid) = c # s" "\<not> is_space c"
proof -
  obtain p ps where ps: "merge_parts w aid = p # ps" using assms by (cases "merge_parts w aid") auto
  then have "p \<in> set (merge_parts w aid)" by simp
  then obtain q where q: "p = strip q" "p \<noteq> []" by (auto simp: merge_parts_def)
  obtain c s where c: "p = c # s" using q(2) by (cases p) blast+
  have "\<not> is_space c" using strip_hd [of q] q c by (metis list.sel(1))
  moreover have "\<exists>s'. join PARA (p # ps) = c # s'" by (cases ps) (simp_all add: c)
  ultimately show thesis using that ps by auto
qed

lemma preview_not_blank:
  assumes "merge_parts w aid \<noteq> []" "0 < n"
  shows "strip (take n (join PARA (merge_parts w aid))) \<noteq> []"
  using first_part [OF assms(1)] assms(2) by (metis list.set_intros(1) strip_eq_Nil_iff take_Cons' less_not_refl)

lemma merge_step:
  assumes "slices_in w aid AS_PENDING = []" "slices_in w aid AS_PROCESSING = []"
    "get_audio w aid = Some a" "aud_pipeline_status a = AP_TRANSCRIBING" "merge_parts w aid \<noteq> []"
  shows "try_merge_audio env sv aid w =
     Ends (store_merge env sv aid a (join PARA (merge_parts w aid)) (upd_audio aid (\<lambda>a. a\<lparr>aud_pipeline_status := AP_MERGING\<rparr>) w))"
proof -
  have d: "slices_in w aid AS_DONE \<noteq> []" using assms(5) by (auto simp: merge_parts_def)
  then have "audio_slices w aid \<noteq> []" by (auto simp: slices_in_def)
  moreover have "strip (join PARA (merge_parts w aid)) \<noteq> []"
    by (rule first_part [OF assms(5)]) (auto simp: strip_eq_Nil_iff)
  ultimately show ?thesis using assms d by (simp add: try_merge_audio_def Let_def)
qed

lemma store_merge_result:
  fixes w aid a
  defines "m \<equiv> join PARA (merge_parts w aid)"
  assumes ga: "get_audio w aid = Some a" and ne: "strip (take 8000 m) \<noteq> []" and br: "\<And>t. broker env t = None"
    and fresh: "\<forall>t \<in> set (transcripts w). tr_id t \<noteq> next_id w"
      "\<forall>s \<in> set (transcript_segments w). ts_transcript_id s \<noteq> next_id w"
  shows "\<exists>w' tr. store_merge env sv aid a m w = (Inr (), w')
     \<and> filter (\<lambda>t. tr_audio_id t = aid) (transcripts w') = [tr] \<and> tr_full_text tr = m \<and> tr_status tr = JS_COMPLETED
     \<and> map ch_text (filter (\<lambda>c. ch_transcript_id c = Some (tr_id tr)) (chunks w')) =
         chunk_text (orchestrator_chunking env) (Some (strip (take 8000 m)))
     \<and> get_audio w' aid = Some (aud_set AP_READY (merge_note (length (slices_in w aid AS_FAILED)) (length (slices_in w aid AS_DONE))) a)
     \<and> audio_segments w' = audio_segments w \<and> outbox w' = outbox w @ [(Extract_transcript (tr_id tr), None)]"
proof -
  define w1 where "w1 = delete_chunks (\<lambda>c. ch_audio_id c = Some aid) (delete_audio_transcripts aid w)"
  define tr where "tr = \<lparr>tr_id = next_id w, tr_audio_id = aid, tr_full_text = m, tr_language = aud_language a,
     tr_status = JS_COMPLETED, tr_provider = Some (merge_provider w aid), tr_created_at = clock w1\<rparr>"
  define w2 where "w2 = snd (add_transcript aid m (aud_language a) (Some (merge_provider w aid)) [(0, 0, take 8000 m)] w1)"
  have n: "next_id w1 = next_id w" by (simp add: w1_def delete_chunks_sel delete_audio_transcripts_sel)
  have t1: "transcripts w1 = filter (\<lambda>t. tr_audio_id t \<noteq> aid) (transcripts w)"
    by (simp add: w1_def delete_chunks_sel delete_audio_transcripts_sel)
  have s1: "\<forall>s \<in> set (transcript_segments w1). ts_transcript_id s \<noteq> next_id w"
    using fresh(2) delete_audio_transcripts_segments [of aid w] by (auto simp: w1_def delete_chunks_sel)
  have add: "add_transcript aid m (aud_language a) (Some (merge_provider w aid)) [(0, 0, take 8000 m)] w1 = (next_id w, w2)"
    by (simp add: w2_def add_transcript_def Let_def n)
  have t2: "transcripts w2 = transcripts w1 @ [tr]" by (simp add: w2_def add_transcript_def Let_def n tr_def)
  have a2: "audios w2 = audios w" "outbox w2 = outbox w" "audio_segments w2 = audio_segments w"
    by (simp_all add: w2_def add_transcript_def Let_def w1_def delete_chunks_sel delete_audio_transcripts_sel)
  have s2: "transcript_segments w2 = transcript_segments w1 @ [\<lparr>ts_transcript_id = next_id w, ts_start = 0, ts_end = 0, ts_text = take 8000 m\<rparr>]"
    by (simp add: w2_def add_transcript_def Let_def n)
  have g1: "get_row tr_id (next_id w) (transcripts w1) = None" using fresh(1) by (auto simp: get_row_None_iff t1)
  have g2: "get_transcript w2 (next_id w) = Some tr"
    using g1 by (simp add: get_transcript_def t2 get_row_append) (simp add: get_row_def tr_def)
  have b: "transcript_base w2 tr = strip (take 8000 m)"
    using s1 by (simp add: transcript_base_def transcript_segments_of_def s2 tr_def filter_False)
  have g3: "get_audio w2 (tr_audio_id tr) = Some a" using ga by (simp add: get_audio_def a2 tr_def)
  define w3 where "w3 = add_chunks (aud_project_id a) None (Some (next_id w)) Fixed
     (chunk_text (orchestrator_chunking env) (Some (strip (take 8000 m)))) (delete_chunks (\<lambda>c. ch_transcript_id c = Some (next_id w)) w2)"
  have step: "\<exists>k. chunk_transcript_sync env sv (next_id w) Fixed w2 = (Inr k, w3)"
    using chunk_transcript_step [OF g2 g3, of env sv] ne by (simp add: b w3_def)
  define w4 where "w4 = (upd_audio aid (aud_set AP_READY (merge_note (length (slices_in w aid AS_FAILED)) (length (slices_in w aid AS_DONE)))) w3)
     \<lparr>outbox := outbox w @ [(Extract_transcript (next_id w), None)]\<rparr>"
  have w3: "audios w3 = audios w" "outbox w3 = outbox w" "audio_segments w3 = audio_segments w" "transcripts w3 = transcripts w1 @ [tr]"
    by (simp_all add: w3_def add_chunks_sel delete_chunks_sel a2 t2)
  have c3: "map ch_text (filter (\<lambda>c. ch_transcript_id c = Some (next_id w)) (chunks w3)) =
      chunk_text (orchestrator_chunking env) (Some (strip (take 8000 m)))"
    by (simp add: w3_def transcript_chunks_after(1))
  have c4: "chunks w4 = chunks w3" "transcripts w4 = transcripts w3" "audio_segments w4 = audio_segments w3"
    by (simp_all add: w4_def upd_audio_def)
  have "store_merge env sv aid a m w = (Inr (), w4)"
    using step br by (auto simp: store_merge_def w1_def [symmetric] add Let_def w4_def world_simps w3(2))
  moreover have "filter (\<lambda>t. tr_audio_id t = aid) (transcripts w4) = [tr]"
    by (simp add: c4 w3 t1 filter_False) (simp add: tr_def)
  moreover have "get_audio w4 aid = Some (aud_set AP_READY (merge_note (length (slices_in w aid AS_FAILED)) (length (slices_in w aid AS_DONE))) a)"
    using ga by (simp add: w4_def get_audio_def world_simps get_upd_row aud_set_def w3)
  moreover have "outbox w4 = outbox w @ [(Extract_transcript (tr_id tr), None)]" by (simp add: w4_def tr_def)
  ultimately show ?thesis
    by (intro exI [of _ w4] exI [of _ tr]) (simp add: c4 w3 tr_def c3)
qed

lemma slices_upd_audio [simp]:
  "slices_in (upd_audio i f w) aid st = slices_in w aid st" "audio_slices (upd_audio i f w) aid = audio_slices w aid"
  "merge_parts (upd_audio i f w) aid = merge_parts w aid" "merge_provider (upd_audio i f w) aid = merge_provider w aid"
  by (simp_all add: slices_in_def audio_slices_def merge_parts_def merge_provider_def upd_audio_def)

lemma slices_cong:
  assumes "audio_segments w' = audio_segments w"
  shows "slices_in w' aid st = slices_in w aid st" "audio_slices w' aid = audio_slices w aid"
  by (simp_all add: slices_in_def audio_slices_def assms)

text \<open>
  C14. When no slice of a transcribing audio is left to transcribe and at least one has text, the
  merge ends: the audio has exactly one transcript, the texts of the slices in order, is ready, and
  one extraction is asked for; a second merge changes nothing. The chunks, though, are those of the
  first 8000 characters only: they are all that the merge stores as the transcript's segment, and
  chunking prefers segments to the full text, so the rest of a long audio is never extracted.
\<close>

theorem merge_stores_one_transcript:
  assumes "slices_in w aid AS_PENDING = []" "slices_in w aid AS_PROCESSING = []"
    "get_audio w aid = Some a" "aud_pipeline_status a = AP_TRANSCRIBING" "merge_parts w aid \<noteq> []"
    "\<forall>t. broker env t = None" "\<forall>t \<in> set (transcripts w). tr_id t \<noteq> next_id w"
    "\<forall>s \<in> set (transcript_segments w). ts_transcript_id s \<noteq> next_id w"
  shows "\<exists>w' tr. try_merge_audio env sv aid w = Ends (Inr (), w')
     \<and> filter (\<lambda>t. tr_audio_id t = aid) (transcripts w') = [tr]
     \<and> tr_full_text tr = join PARA (merge_parts w aid) \<and> tr_status tr = JS_COMPLETED
     \<and> map ch_text (filter (\<lambda>c. ch_transcript_id c = Some (tr_id tr)) (chunks w')) =
         chunk_text (orchestrator_chunking env) (Some (strip (take 8000 (join PARA (merge_parts w aid)))))
     \<and> (\<exists>a'. get_audio w' aid = Some a' \<and> aud_pipeline_status a' = AP_READY)
     \<and> outbox w' = outbox w @ [(Extract_transcript (tr_id tr), None)]
     \<and> try_merge_audio env sv aid w' = Ends (Inr (), w')"
proof -
  let ?w = "upd_audio aid (\<lambda>a. a\<lparr>aud_pipeline_status := AP_MERGING\<rparr>) w"
  let ?a = "a\<lparr>aud_pipeline_status := AP_MERGING\<rparr>"
  have g: "get_audio ?w aid = Some ?a" using assms(3) by (simp add: get_audio_def world_simps get_upd_row)
  have eq: "store_merge env sv aid a m v = store_merge env sv aid ?a m v" for m v
    by (simp add: store_merge_def)
  have sel: "transcripts ?w = transcripts w" "transcript_segments ?w = transcript_segments w" "next_id ?w = next_id w"
    "audio_segments ?w = audio_segments w" "outbox ?w = outbox w"
    by (simp_all add: upd_audio_def)
  obtain w' tr where r: "store_merge env sv aid ?a (join PARA (merge_parts w aid)) ?w = (Inr (), w')"
     "filter (\<lambda>t. tr_audio_id t = aid) (transcripts w') = [tr]" "tr_full_text tr = join PARA (merge_parts w aid)"
     "tr_status tr = JS_COMPLETED"
     "map ch_text (filter (\<lambda>c. ch_transcript_id c = Some (tr_id tr)) (chunks w')) =
         chunk_text (orchestrator_chunking env) (Some (strip (take 8000 (join PARA (merge_parts w aid)))))"
     "\<exists>e. get_audio w' aid = Some (aud_set AP_READY e ?a)"
     "audio_segments w' = audio_segments w" "outbox w' = outbox w @ [(Extract_transcript (tr_id tr), None)]"
    using store_merge_result [OF g, of env sv] assms(6,7,8) preview_not_blank [OF assms(5), of 8000]
    by (auto simp: sel)
  have d: "slices_in w' aid AS_DONE \<noteq> []" "audio_slices w' aid \<noteq> []"
    using assms(5) slices_cong [OF r(7)] by (auto simp: merge_parts_def slices_in_def)
  have "try_merge_audio env sv aid w' = Ends (Inr (), w')"
    using r(6) d assms(1,2) slices_cong [OF r(7)] by (auto simp: try_merge_audio_def aud_set_def)
  moreover have "try_merge_audio env sv aid w = Ends (Inr (), w')"
    using merge_step [OF assms(1-5)] r(1) by (simp add: eq)
  ultimately show ?thesis
    using r by (intro exI [of _ w'] exI [of _ tr]) (auto simp: aud_set_def)
qed

definition two_slices :: world where
  "two_slices = empty_world\<lparr>audios := [(plain_audio 2 7)\<lparr>aud_pipeline_status := AP_TRANSCRIBING\<rparr>],
     audio_segments :=
       [(new_slice 41 2 \<lparr>sp_index = 1, sp_start = 0, sp_end = 1000, sp_path = u ''seg''\<rparr>)
          \<lparr>sg_status := AS_DONE, sg_text := Some (u ''second'')\<rparr>,
        (new_slice 40 2 \<lparr>sp_index = 0, sp_start = 0, sp_end = 1000, sp_path = u ''seg''\<rparr>)
          \<lparr>sg_status := AS_DONE, sg_text := Some (u '' first'')\<rparr>]\<rparr>"

theorem merge_stores_one_transcript_witness:
  "\<exists>w' tr. try_merge_audio plain_env quiet_services 2 two_slices = Ends (Inr (), w')
     \<and> filter (\<lambda>t. tr_audio_id t = 2) (transcripts w') = [tr]
     \<and> tr_full_text tr = u ''first'' @ PARA @ u ''second''"
proof -
  have p: "merge_parts two_slices 2 = [u ''first'', u ''second'']" by code_simp
  have s: "slices_in two_slices 2 AS_PENDING = []" "slices_in two_slices 2 AS_PROCESSING = []" by code_simp+
  have g: "get_audio two_slices 2 = Some ((plain_audio 2 7)\<lparr>aud_pipeline_status := AP_TRANSCRIBING\<rparr>)" by code_simp
  have e: "transcripts two_slices = []" "transcript_segments two_slices = []" by (simp_all add: two_slices_def empty_world_def)
  show ?thesis
    using merge_stores_one_transcript [OF s g, of plain_env quiet_services] unfolding p e by auto
qed

end
