(* ===== verification/Readiness.thy ===== *)
theory Readiness
  imports Entity_Extraction
begin

text \<open>
  Preparing a project for its report (\<^verbatim>\<open>research_pipeline_orchestrator_service.py\<close>): read-only
  diagnostics, bounded preparation (chunk, then extract what has no entities, then aggregate), and
  the unbounded variant. The diagnostics are dictionaries in the source; here they are records with
  one field per key, and a key that is only sometimes set is an option.
\<close>

section \<open>Counts\<close>

definition in_audio_scope :: "world \<Rightarrow> uuid \<Rightarrow> uuid option \<Rightarrow> uuid option \<Rightarrow> bool" where
  "in_audio_scope w aid a t \<longleftrightarrow> a = Some aid \<or> in_ids t (transcript_ids w aid)"

definition pr_entity :: "extracted_entity \<Rightarrow> bool" where
  "pr_entity e \<longleftrightarrow> en_type e \<in> set PR_SYNTHESIS_ENTITY_TYPES"

definition count_document_entities :: "world \<Rightarrow> uuid \<Rightarrow> nat" where
  "count_document_entities w did = length (filter (\<lambda>e. en_document_id e = Some did) (entities w))"

definition count_document_pr_entities :: "world \<Rightarrow> uuid \<Rightarrow> nat" where
  "count_document_pr_entities w did =
     length (filter (\<lambda>e. en_document_id e = Some did \<and> pr_entity e) (entities w))"

definition count_audio_scope_chunks :: "world \<Rightarrow> uuid \<Rightarrow> nat" where
  "count_audio_scope_chunks w aid =
     length (filter (\<lambda>c. in_audio_scope w aid (ch_audio_id c) (ch_transcript_id c)) (chunks w))"

definition count_audio_scope_entities :: "world \<Rightarrow> uuid \<Rightarrow> nat" where
  "count_audio_scope_entities w aid =
     length (filter (\<lambda>e. in_audio_scope w aid (en_audio_id e) (en_transcript_id e)) (entities w))"

definition count_audio_scope_pr_entities :: "world \<Rightarrow> uuid \<Rightarrow> nat" where
  "count_audio_scope_pr_entities w aid =
     length (filter (\<lambda>e. in_audio_scope w aid (en_audio_id e) (en_transcript_id e) \<and> pr_entity e) (entities w))"

definition count_project_chunks :: "world \<Rightarrow> uuid \<Rightarrow> nat" where
  "count_project_chunks w pid = length (filter (\<lambda>c. ch_project_id c = pid) (chunks w))"

definition count_project_entities :: "world \<Rightarrow> uuid \<Rightarrow> nat" where
  "count_project_entities w pid = length (filter (\<lambda>e. en_project_id e = pid) (entities w))"

definition count_project_pr_entities :: "world \<Rightarrow> uuid \<Rightarrow> nat" where
  "count_project_pr_entities w pid = length (filter (\<lambda>e. en_project_id e = pid \<and> pr_entity e) (entities w))"

definition count_project_supporting_facts :: "world \<Rightarrow> uuid \<Rightarrow> nat" where
  "count_project_supporting_facts w pid =
     length (filter (\<lambda>e. en_project_id e = pid \<and> en_type e = SUPPORTING_FACT) (entities w))"

text \<open>Snapshots are kept as the projects that have the one of the only type and period in use.\<close>

definition aggregation_exists :: "world \<Rightarrow> uuid \<Rightarrow> bool" where
  "aggregation_exists w pid \<longleftrightarrow> pid \<in> set (snapshots w)"

section \<open>The decision\<close>

record decision =
  dc_ready :: bool
  dc_blocking :: "pystr list"
  dc_warnings :: "pystr list"

definition build_pr_readiness_decision ::
    "nat \<Rightarrow> nat \<Rightarrow> nat \<Rightarrow> nat \<Rightarrow> nat \<Rightarrow> nat \<Rightarrow> nat \<Rightarrow> bool \<Rightarrow> decision" where
  "build_pr_readiness_decision processable chunk_n pr_n min_pr needs_chunking needs_extraction low_signal has_agg =
     (let blocking = (if processable = 0 then [u ''no_processable_sources''] else [])
            @ (if 0 < processable \<and> chunk_n = 0 then [u ''no_chunks''] else [])
            @ (if 0 < chunk_n \<and> pr_n < min_pr then [u ''low_pr_signal''] else []);
          warns = (if needs_chunking \<noteq> 0 then [u ''sources_need_chunking''] else [])
            @ (if needs_extraction \<noteq> 0 then [u ''sources_need_extraction''] else [])
            @ (if low_signal \<noteq> 0 then [u ''sources_have_only_low_signal_entities''] else [])
            @ (if min_pr \<le> pr_n \<and> \<not> has_agg then [u ''aggregation_missing''] else [])
      in \<lparr>dc_ready = (blocking = []), dc_blocking = blocking, dc_warnings = warns\<rparr>)"

section \<open>Diagnostics\<close>

record source_view =
  sv_kind :: source_kind
  sv_id :: uuid
  sv_title :: pystr
  sv_processable :: bool
  sv_chunk_count :: nat
  sv_entity_count :: nat
  sv_pr_entity_count :: nat
  sv_needs_chunking :: bool
  sv_needs_extraction :: bool
  sv_low_signal :: bool
  sv_reason :: "pystr option"

definition source_view_of :: "source_kind \<Rightarrow> uuid \<Rightarrow> pystr \<Rightarrow> bool \<Rightarrow> nat \<Rightarrow> nat \<Rightarrow> nat \<Rightarrow> pystr \<Rightarrow> source_view" where
  "source_view_of k i title has_text c e p reason =
     \<lparr>sv_kind = k, sv_id = i, sv_title = title, sv_processable = has_text, sv_chunk_count = c,
      sv_entity_count = e, sv_pr_entity_count = p, sv_needs_chunking = (has_text \<and> c = 0),
      sv_needs_extraction = (0 < c \<and> e = 0), sv_low_signal = (0 < c \<and> 0 < e \<and> p = 0),
      sv_reason = (if has_text then None else Some reason)\<rparr>"

definition document_has_text :: "source_document \<Rightarrow> bool" where
  "document_has_text d \<longleftrightarrow> strip (text_of (doc_raw_text d)) \<noteq> []"

definition audio_has_text :: "world \<Rightarrow> uuid \<Rightarrow> bool" where
  "audio_has_text w aid \<longleftrightarrow> (case latest_completed_transcript w aid of None \<Rightarrow> False
     | Some tr \<Rightarrow> strip (tr_full_text tr) \<noteq> [])"

definition document_view :: "world \<Rightarrow> source_document \<Rightarrow> source_view" where
  "document_view w d = source_view_of Document (doc_id d) (doc_filename d) (document_has_text d)
     (count_document_chunks w (doc_id d)) (count_document_entities w (doc_id d))
     (count_document_pr_entities w (doc_id d)) (u ''document_has_no_text'')"

definition audio_view :: "world \<Rightarrow> source_audio \<Rightarrow> source_view" where
  "audio_view w a = source_view_of Audio (aud_id a) (aud_filename a) (audio_has_text w (aud_id a))
     (count_audio_scope_chunks w (aud_id a)) (count_audio_scope_entities w (aud_id a))
     (count_audio_scope_pr_entities w (aud_id a)) (u ''no_completed_transcript'')"

record readiness =
  rd_project_found :: bool
  rd_ready :: bool
  rd_blocking :: "pystr list"
  rd_warnings :: "pystr list"
  rd_queue :: "queue_summary option"
  rd_source_count :: nat
  rd_processable_documents :: nat
  rd_completed_audios :: nat
  rd_chunk_count :: nat
  rd_entity_count :: nat
  rd_pr_entity_count :: nat
  rd_supporting_facts :: nat
  rd_needs_chunking :: nat
  rd_needs_extraction :: nat
  rd_low_signal :: nat
  rd_aggregation_exists :: bool
  rd_min_pr_entities :: "nat option"
  rd_sources :: "source_view list"

definition missing_project :: readiness where
  "missing_project = \<lparr>rd_project_found = False, rd_ready = False, rd_blocking = [u ''project_not_found''],
     rd_warnings = [], rd_queue = None, rd_source_count = 0, rd_processable_documents = 0,
     rd_completed_audios = 0, rd_chunk_count = 0, rd_entity_count = 0, rd_pr_entity_count = 0,
     rd_supporting_facts = 0, rd_needs_chunking = 0, rd_needs_extraction = 0, rd_low_signal = 0,
     rd_aggregation_exists = False, rd_min_pr_entities = None, rd_sources = []\<rparr>"

definition project_documents :: "world \<Rightarrow> uuid \<Rightarrow> source_document list" where
  "project_documents w pid = filter (\<lambda>d. doc_project_id d = pid) (documents w)"

definition project_audios :: "world \<Rightarrow> uuid \<Rightarrow> source_audio list" where
  "project_audios w pid = filter (\<lambda>a. aud_project_id a = pid) (audios w)"

definition count_of :: "('a \<Rightarrow> bool) \<Rightarrow> 'a list \<Rightarrow> nat" where
  "count_of P xs = length (filter P xs)"

definition document_views :: "uuid \<Rightarrow> world \<Rightarrow> source_view list" where
  "document_views pid w = map (document_view w) (sort_key doc_created_at (project_documents w pid))"

definition audio_views :: "uuid \<Rightarrow> world \<Rightarrow> source_view list" where
  "audio_views pid w = map (audio_view w) (sort_key aud_created_at (project_audios w pid))"

definition count_views :: "(source_view \<Rightarrow> bool) \<Rightarrow> uuid \<Rightarrow> world \<Rightarrow> nat" where
  "count_views P pid w = count_of P (document_views pid w) + count_of P (audio_views pid w)"

definition project_decision :: "env \<Rightarrow> uuid \<Rightarrow> world \<Rightarrow> decision" where
  "project_decision env pid w =
     build_pr_readiness_decision (count_views sv_processable pid w) (count_project_chunks w pid)
       (count_project_pr_entities w pid) (pr_report_min_synthesis_entities (conf env))
       (count_views sv_needs_chunking pid w) (count_views sv_needs_extraction pid w)
       (count_views sv_low_signal pid w) (aggregation_exists w pid)"

definition inspect_project_pr_readiness_sync :: "env \<Rightarrow> uuid \<Rightarrow> world \<Rightarrow> readiness" where
  "inspect_project_pr_readiness_sync env pid w =
     (if pid \<notin> set (projects w) then missing_project
      else
       (let dc = project_decision env pid w;
            q = fetch_project_queue_summary_sync pid w;
            busy = project_queue_has_active_work q
        in \<lparr>rd_project_found = True, rd_ready = (dc_ready dc \<and> \<not> busy),
            rd_blocking = (if busy \<and> u ''processing_not_complete'' \<notin> set (dc_blocking dc)
               then dc_blocking dc @ [u ''processing_not_complete''] else dc_blocking dc),
            rd_warnings = dc_warnings dc, rd_queue = Some q,
            rd_source_count = length (project_documents w pid) + length (project_audios w pid),
            rd_processable_documents = count_of sv_processable (document_views pid w),
            rd_completed_audios = count_of sv_processable (audio_views pid w),
            rd_chunk_count = count_project_chunks w pid,
            rd_entity_count = count_project_entities w pid,
            rd_pr_entity_count = count_project_pr_entities w pid,
            rd_supporting_facts = count_project_supporting_facts w pid,
            rd_needs_chunking = count_views sv_needs_chunking pid w,
            rd_needs_extraction = count_views sv_needs_extraction pid w,
            rd_low_signal = count_views sv_low_signal pid w,
            rd_aggregation_exists = aggregation_exists w pid,
            rd_min_pr_entities = Some (pr_report_min_synthesis_entities (conf env)),
            rd_sources = document_views pid w @ audio_views pid w\<rparr>))"

section \<open>Preparing the sources\<close>

record prep_entry =
  pe_id :: uuid
  pe_skipped :: bool
  pe_reason :: "pystr option"
  pe_chunked :: bool
  pe_chunk_count :: nat
  pe_entities_existing :: nat
  pe_pr_existing :: nat
  pe_extracted :: bool
  pe_created :: nat

text \<open>Absent counts are read with \<^verbatim>\<open>entry.get(..., 0)\<close>, absent flags with \<^verbatim>\<open>.get\<close>.\<close>

definition skipped_entry :: "uuid \<Rightarrow> pystr option \<Rightarrow> prep_entry" where
  "skipped_entry i reason = \<lparr>pe_id = i, pe_skipped = True, pe_reason = reason, pe_chunked = False,
     pe_chunk_count = 0, pe_entities_existing = 0, pe_pr_existing = 0, pe_extracted = False, pe_created = 0\<rparr>"

definition chunked_entry :: "uuid \<Rightarrow> bool \<Rightarrow> nat \<Rightarrow> nat \<Rightarrow> nat \<Rightarrow> prep_entry" where
  "chunked_entry i chunked n e p = \<lparr>pe_id = i, pe_skipped = False, pe_reason = None, pe_chunked = chunked,
     pe_chunk_count = n, pe_entities_existing = e, pe_pr_existing = p, pe_extracted = False, pe_created = 0\<rparr>"

definition ensure_document_chunks :: "env \<Rightarrow> services \<Rightarrow> uuid \<Rightarrow> world \<Rightarrow> (bool \<times> nat) outcome" where
  "ensure_document_chunks env sv did w =
     (if count_document_chunks w did = 0 then
        and_then (chunk_source_document_sync env sv did Fixed w) (\<lambda>n w1. (Inr (True, n), w1))
      else (Inr (False, count_document_chunks w did), w))"

definition ensure_audio_chunks :: "env \<Rightarrow> services \<Rightarrow> uuid \<Rightarrow> transcript \<Rightarrow> world \<Rightarrow> (bool \<times> nat) outcome" where
  "ensure_audio_chunks env sv aid tr w =
     (if count_audio_scope_chunks w aid = 0 then
        and_then (chunk_transcript_sync env sv (tr_id tr) Fixed w) (\<lambda>n w1. (Inr (True, n), w1))
      else (Inr (False, count_audio_scope_chunks w aid), w))"

definition prepare_document :: "env \<Rightarrow> services \<Rightarrow> source_document \<Rightarrow> world \<Rightarrow> prep_entry outcome" where
  "prepare_document env sv d w =
     (if \<not> document_has_text d then (Inr (skipped_entry (doc_id d) None), w)
      else and_then (ensure_document_chunks env sv (doc_id d) w) (\<lambda>(chunked, n) w1.
        (Inr (chunked_entry (doc_id d) chunked n (count_document_entities w1 (doc_id d))
          (count_document_pr_entities w1 (doc_id d))), w1)))"

definition prepare_audio :: "env \<Rightarrow> services \<Rightarrow> source_audio \<Rightarrow> world \<Rightarrow> prep_entry outcome" where
  "prepare_audio env sv a w =
     (case latest_completed_transcript w (aud_id a) of
        None \<Rightarrow> (Inr (skipped_entry (aud_id a) (Some (u ''no_completed_transcript''))), w)
      | Some tr \<Rightarrow> and_then (ensure_audio_chunks env sv (aud_id a) tr w) (\<lambda>(chunked, n) w1.
          (Inr (chunked_entry (aud_id a) chunked n (count_audio_scope_entities w1 (aud_id a))
            (count_audio_scope_pr_entities w1 (aud_id a))), w1)))"

text \<open>A loop over rows whose body may raise, collecting what each pass appends.\<close>

fun for_each :: "('a \<Rightarrow> world \<Rightarrow> 'b outcome) \<Rightarrow> 'a list \<Rightarrow> world \<Rightarrow> 'b list outcome" where
  "for_each f [] w = (Inr [], w)"
| "for_each f (x # xs) w = and_then (f x w) (\<lambda>y w1. and_then (for_each f xs w1) (\<lambda>ys w2. (Inr (y # ys), w2)))"

definition wants_extraction :: "prep_entry \<Rightarrow> bool" where
  "wants_extraction e \<longleftrightarrow> 0 < pe_chunk_count e \<and> pe_entities_existing e = 0"

definition extract_entry :: "(uuid \<Rightarrow> world \<Rightarrow> nat outcome) \<Rightarrow> prep_entry \<Rightarrow> world \<Rightarrow> prep_entry outcome" where
  "extract_entry f e w =
     (if wants_extraction e then
        and_then (f (pe_id e) w) (\<lambda>n w1. (Inr (e\<lparr>pe_extracted := True, pe_created := n\<rparr>), w1))
      else (Inr e, w))"

definition chunks_to_auto_extract :: "prep_entry list \<Rightarrow> prep_entry list \<Rightarrow> nat" where
  "chunks_to_auto_extract ds as = sum_list (map pe_chunk_count (filter wants_extraction (ds @ as)))"

datatype prep_end =
    Project_not_found
  | Auto_prepare_disabled
  | Enough_signal nat
  | Cap_exceeded nat
  | Prepared nat

record prep =
  pr_documents :: "prep_entry list"
  pr_audios :: "prep_entry list"
  pr_blocked :: bool
  pr_reasons :: "pystr list"
  pr_aggregated :: "bool option"
  pr_end :: prep_end

definition aggregate_if_any :: "env \<Rightarrow> uuid \<Rightarrow> world \<Rightarrow> bool \<times> world" where
  "aggregate_if_any env pid w =
     (if 0 < count_project_entities w pid then (True, snd (aggregate_project_sync env pid w)) else (False, w))"

definition prepare_project_for_pr_report_sync ::
    "env \<Rightarrow> services \<Rightarrow> uuid \<Rightarrow> nat \<Rightarrow> bool \<Rightarrow> world \<Rightarrow> prep outcome" where
  "prepare_project_for_pr_report_sync env sv pid cap auto w =
     (if pid \<notin> set (projects w) then
        (Inr \<lparr>pr_documents = [], pr_audios = [], pr_blocked = True, pr_reasons = [u ''project_not_found''],
              pr_aggregated = None, pr_end = Project_not_found\<rparr>, w)
      else if \<not> auto then
        (Inr \<lparr>pr_documents = [], pr_audios = [], pr_blocked = False, pr_reasons = [],
              pr_aggregated = None, pr_end = Auto_prepare_disabled\<rparr>, w)
      else and_then (for_each (prepare_document env sv) (project_documents w pid) w) (\<lambda>ds w1.
           and_then (for_each (prepare_audio env sv) (project_audios w1 pid) w1) (\<lambda>as w2.
        let n = chunks_to_auto_extract ds as in
        if pr_report_min_synthesis_entities (conf env) \<le> count_project_pr_entities w2 pid then
          (let (agg, w3) = aggregate_if_any env pid w2
           in (Inr \<lparr>pr_documents = ds, pr_audios = as, pr_blocked = False, pr_reasons = [],
                    pr_aggregated = Some agg, pr_end = Enough_signal n\<rparr>, w3))
        else if research_extraction_provider (conf env) = u ''gpt'' \<and> cap < n then
          (Inr \<lparr>pr_documents = ds, pr_audios = as, pr_blocked = True,
                pr_reasons = [u ''auto_extract_chunk_cap_exceeded''], pr_aggregated = None,
                pr_end = Cap_exceeded n\<rparr>, w2)
        else and_then (for_each (extract_entry (extract_for_document_sync env sv)) ds w2) (\<lambda>ds' w3.
             and_then (for_each (extract_entry (extract_for_audio_sync env sv)) as w3) (\<lambda>as' w4.
          let (agg, w5) = aggregate_if_any env pid w4
          in (Inr \<lparr>pr_documents = ds', pr_audios = as', pr_blocked = False, pr_reasons = [],
                   pr_aggregated = Some agg, pr_end = Prepared n\<rparr>, w5))))))"

section \<open>Preparing every source\<close>

definition ensure_document :: "env \<Rightarrow> services \<Rightarrow> source_document \<Rightarrow> world \<Rightarrow> prep_entry outcome" where
  "ensure_document env sv d w =
     (if \<not> document_has_text d then (Inr (skipped_entry (doc_id d) None), w)
      else and_then (ensure_document_chunks env sv (doc_id d) w) (\<lambda>(chunked, n) w1.
        let k = count_document_entities w1 (doc_id d) in
        if k = 0 \<and> 0 < n then
          and_then (extract_for_document_sync env sv (doc_id d) w1) (\<lambda>m w2.
            (Inr ((chunked_entry (doc_id d) chunked n 0 0)\<lparr>pe_extracted := True, pe_created := m\<rparr>), w2))
        else (Inr (chunked_entry (doc_id d) chunked n k 0), w1)))"

definition ensure_audio :: "env \<Rightarrow> services \<Rightarrow> source_audio \<Rightarrow> world \<Rightarrow> prep_entry outcome" where
  "ensure_audio env sv a w =
     (case latest_completed_transcript w (aud_id a) of
        None \<Rightarrow> (Inr (skipped_entry (aud_id a) (Some (u ''no_completed_transcript''))), w)
      | Some tr \<Rightarrow> and_then (ensure_audio_chunks env sv (aud_id a) tr w) (\<lambda>(chunked, n) w1.
          let k = count_audio_scope_entities w1 (aud_id a) in
          if k = 0 \<and> 0 < n then
            and_then (extract_for_audio_sync env sv (aud_id a) w1) (\<lambda>m w2.
              (Inr ((chunked_entry (aud_id a) chunked n 0 0)\<lparr>pe_extracted := True, pe_created := m\<rparr>), w2))
          else (Inr (chunked_entry (aud_id a) chunked n k 0), w1)))"

definition ensure_project_sources_pipeline_sync ::
    "env \<Rightarrow> services \<Rightarrow> uuid \<Rightarrow> world \<Rightarrow> (prep_entry list \<times> prep_entry list) outcome" where
  "ensure_project_sources_pipeline_sync env sv pid w =
     and_then (for_each (ensure_document env sv) (project_documents w pid) w) (\<lambda>ds w1.
     and_then (for_each (ensure_audio env sv) (project_audios w1 pid) w1) (\<lambda>as w2. (Inr (ds, as), w2)))"

definition ensure_project_ready_for_report_sync ::
    "env \<Rightarrow> services \<Rightarrow> uuid \<Rightarrow> world \<Rightarrow> (prep_entry list \<times> prep_entry list) outcome" where
  "ensure_project_ready_for_report_sync env sv pid w =
     and_then (ensure_project_sources_pipeline_sync env sv pid w)
       (\<lambda>p w1. (Inr p, snd (aggregate_project_sync env pid w1)))"

record prep_summary =
  ps_documents :: nat
  ps_audios :: nat
  ps_chunked :: nat
  ps_extracted :: nat
  ps_audios_skipped :: nat

definition prep_summary_of :: "prep_entry list \<Rightarrow> prep_entry list \<Rightarrow> prep_summary" where
  "prep_summary_of ds as = \<lparr>ps_documents = length ds, ps_audios = length as,
     ps_chunked = count_of pe_chunked ds + count_of pe_chunked as,
     ps_extracted = count_of pe_extracted ds + count_of pe_extracted as,
     ps_audios_skipped = count_of pe_skipped as\<rparr>"

section \<open>When a report may be made\<close>

lemma count_of_simps [simp]:
  "count_of P xs = 0 \<longleftrightarrow> (\<forall>x \<in> set xs. \<not> P x)" "0 < count_of P xs \<longleftrightarrow> (\<exists>x \<in> set xs. P x)"
  by (auto simp: count_of_def filter_empty_conv)

definition processable_source :: "world \<Rightarrow> uuid \<Rightarrow> bool" where
  "processable_source w pid \<longleftrightarrow> (\<exists>d \<in> set (documents w). doc_project_id d = pid \<and> document_has_text d)
     \<or> (\<exists>a \<in> set (audios w). aud_project_id a = pid \<and> audio_has_text w (aud_id a))"

lemma processable_count: "count_views sv_processable pid w = 0 \<longleftrightarrow> \<not> processable_source w pid"
  by (auto simp: count_views_def processable_source_def document_views_def audio_views_def document_view_def
      audio_view_def source_view_of_def project_documents_def project_audios_def)

lemma decision_ready:
  "dc_ready (build_pr_readiness_decision p c n m nc nx nl ag) \<longleftrightarrow> p \<noteq> 0 \<and> c \<noteq> 0 \<and> m \<le> n"
  by (auto simp: build_pr_readiness_decision_def Let_def)

lemma decision_blocking:
  "dc_blocking (build_pr_readiness_decision p c n m nc nx nl ag) = []
     \<longleftrightarrow> dc_ready (build_pr_readiness_decision p c n m nc nx nl ag)"
  by (simp add: build_pr_readiness_decision_def Let_def)

lemma project_chunks_0:
  "count_project_chunks w pid \<noteq> 0 \<longleftrightarrow> (\<exists>c \<in> set (chunks w). ch_project_id c = pid)"
  by (auto simp: count_project_chunks_def filter_empty_conv)

text \<open>
  The diagnostics allow a report exactly when the project exists, one of its documents has text
  or one of its audios a completed transcript with text, it has a chunk and the required number of
  signals, and none of its sources waits or is being processed; and exactly when no blocking reason
  is given. Each source is listed once.
\<close>

theorem readiness_decision:
  "(rd_ready (inspect_project_pr_readiness_sync env pid w) \<longleftrightarrow>
      pid \<in> set (projects w) \<and> processable_source w pid \<and> (\<exists>c \<in> set (chunks w). ch_project_id c = pid)
      \<and> pr_report_min_synthesis_entities (conf env) \<le> count_project_pr_entities w pid
      \<and> \<not> project_active pid w)
   \<and> (rd_ready (inspect_project_pr_readiness_sync env pid w) \<longleftrightarrow>
        rd_blocking (inspect_project_pr_readiness_sync env pid w) = [])
   \<and> length (rd_sources (inspect_project_pr_readiness_sync env pid w)) =
        rd_source_count (inspect_project_pr_readiness_sync env pid w)"
proof (cases "pid \<in> set (projects w)")
  case True
  let ?r = "inspect_project_pr_readiness_sync env pid w" and ?dc = "project_decision env pid w"
  have r: "rd_ready ?r \<longleftrightarrow> dc_ready ?dc \<and> \<not> project_active pid w"
    "rd_blocking ?r = [] \<longleftrightarrow> dc_blocking ?dc = [] \<and> \<not> project_active pid w"
    "length (rd_sources ?r) = rd_source_count ?r"
    using True by (auto simp: inspect_project_pr_readiness_sync_def Let_def active_work_iff document_views_def
        audio_views_def)
  have "dc_ready ?dc \<longleftrightarrow> processable_source w pid \<and> (\<exists>c \<in> set (chunks w). ch_project_id c = pid)
      \<and> pr_report_min_synthesis_entities (conf env) \<le> count_project_pr_entities w pid"
    unfolding project_decision_def decision_ready processable_count project_chunks_0 by simp
  moreover have "dc_blocking ?dc = [] \<longleftrightarrow> dc_ready ?dc" unfolding project_decision_def by (rule decision_blocking)
  ultimately show ?thesis using True r by simp
qed (simp add: inspect_project_pr_readiness_sync_def missing_project_def)

section \<open>Preparation only adds\<close>

definition nonblank :: "text_chunk \<Rightarrow> bool" where
  "nonblank c \<longleftrightarrow> chunk_body c \<noteq> []"

definition grows :: "world \<Rightarrow> world \<Rightarrow> bool" where
  "grows w w' \<longleftrightarrow> documents w' = documents w \<and> audios w' = audios w \<and> transcripts w' = transcripts w
     \<and> projects w' = projects w
     \<and> (\<exists>cs. chunks w' = chunks w @ cs \<and> (\<forall>c \<in> set cs. nonblank c)) \<and> (\<exists>es. entities w' = entities w @ es)"

lemma grows_refl [intro, simp]: "grows w w"
  by (simp add: grows_def)

lemma grows_trans [trans]: "grows w1 w2 \<Longrightarrow> grows w2 w3 \<Longrightarrow> grows w1 w3"
  unfolding grows_def by (elim conjE exE) (simp, blast)

lemma pieces_nonblank:
  assumes "c \<in> set (new_chunks b pid did tid st (chunk_text (chunking_service_init mc oc) (Some t)))"
  shows "nonblank c"
proof -
  have "ch_text c \<in> set (chunk_text (chunking_service_init mc oc) (Some t))"
    using assms new_chunks_sel(1) [of b pid did tid st "chunk_text (chunking_service_init mc oc) (Some t)"]
    by (metis image_eqI list.set_map)
  then have "strip (ch_text c) \<noteq> []"
    using fixed.chunk_pieces_have_text [of mc oc t] by (simp add: list_all_iff chunk_text_def)
  then show ?thesis by (simp add: nonblank_def chunk_body_def)
qed

lemma add_chunks_grows:
  "grows w (add_chunks pid did tid st (chunk_text (orchestrator_chunking env) (Some t)) w)"
  unfolding grows_def using pieces_nonblank by (auto simp: add_chunks_def orchestrator_chunking_def)

lemma chunk_document_grows:
  assumes "chunk_source_document_sync env sv did Fixed w = (Inr n, w')"
  shows "grows w w'" "0 < n" "count_document_chunks w' did = n"
proof -
  obtain d where d: "get_doc w did = Some d" "strip (text_of (doc_raw_text d)) \<noteq> []"
    using assms by (auto simp: chunk_source_document_sync_def Let_def split: option.splits if_splits)
  show "grows w w'" "0 < n" "count_document_chunks w' did = n"
  proof (atomize (full), cases "count_document_chunks w did = 0")
    case True
    let ?p = "chunk_text (orchestrator_chunking env) (Some (strip (text_of (doc_raw_text d))))"
    have "n = length ?p" "w' = add_chunks (doc_project_id d) (Some did) None Fixed ?p w"
      using assms chunk_document_step [OF d True, of env sv] by auto
    moreover have "?p \<noteq> []" using d(2) by (simp add: orchestrator_chunking_def chunk_text_empty)
    moreover have "count_document_chunks (add_chunks (doc_project_id d) (Some did) None Fixed ?p w) did = length ?p"
      using True new_chunks_sel(3) arg_cong [OF new_chunks_sel(1), of length]
      by (auto simp: count_document_chunks_def add_chunks_def filter_id_conv)
    ultimately show "grows w w' \<and> 0 < n \<and> count_document_chunks w' did = n" using add_chunks_grows by auto
  next
    case False
    then show "grows w w' \<and> 0 < n \<and> count_document_chunks w' did = n"
      using assms d by (auto simp: chunk_source_document_sync_def Let_def)
  qed
qed

lemma transcript_in_scope:
  "latest_completed_transcript w aid = Some tr \<Longrightarrow> tr_id tr \<in> set (transcript_ids w aid)"
  by (auto simp: latest_completed_transcript_def transcript_ids_def dest!: first_row_SomeD)

lemma chunk_transcript_grows:
  assumes "chunk_transcript_sync env sv tid Fixed w = (Inr n, w')"
    and none: "\<forall>c \<in> set (chunks w). ch_transcript_id c \<noteq> Some tid"
  shows "grows w w' \<and> 0 < n \<and> length (filter (\<lambda>c. ch_transcript_id c = Some tid) (chunks w')) = n"
proof -
  have del: "delete_chunks (\<lambda>c. ch_transcript_id c = Some tid) w = w" by (rule delete_no_chunks) (rule none)
  obtain tr a where ta: "get_transcript w tid = Some tr" "get_audio w (tr_audio_id tr) = Some a" "transcript_base w tr \<noteq> []"
    using assms(1) by (auto simp: chunk_transcript_sync_def Let_def del split: option.splits if_splits)
  let ?p = "chunk_text (orchestrator_chunking env) (Some (transcript_base w tr))"
  have w': "n = length ?p" "w' = add_chunks (aud_project_id a) None (Some tid) Fixed ?p w"
    using assms(1) chunk_transcript_step [OF ta, of env sv] by (auto simp: del)
  have "strip (transcript_base w tr) \<noteq> []" using ta(3) by (simp add: transcript_base_def Let_def)
  then have "?p \<noteq> []" by (simp add: orchestrator_chunking_def chunk_text_empty)
  moreover have "map ch_text (filter (\<lambda>c. ch_transcript_id c = Some tid) (chunks w')) = ?p"
    using transcript_chunks_after(1) [of tid _ _ _ _ w] by (simp add: w'(2) del)
  ultimately show ?thesis using add_chunks_grows w' by (metis length_greater_0_conv length_map)
qed

lemma finalize_ne:
  assumes "nonblank ch"
  shows "finalize_chunk_entities sv ch raw hint \<noteq> []"
  using assms supplement_ne [of "filter_provider_candidates ch raw" sv ch hint] supplement_ne fallback_ne
  by (cases "filter_provider_candidates ch raw")
    (auto simp: finalize_chunk_entities_def nonblank_def Let_def)

definition entity_of_chunk :: "text_chunk \<Rightarrow> extracted_entity \<Rightarrow> bool" where
  "entity_of_chunk ch e \<longleftrightarrow> en_document_id e = ch_document_id ch \<and> en_audio_id e = ch_audio_id ch
     \<and> en_transcript_id e = ch_transcript_id ch"

lemma new_entities_of_chunk: "e \<in> set (new_entities b now ch cs) \<Longrightarrow> entity_of_chunk ch e"
  by (auto simp: new_entities_def entity_of_chunk_def)

lemma grows_entities: "grows w w' \<Longrightarrow> e \<in> set (entities w) \<Longrightarrow> e \<in> set (entities w')"
  by (auto simp: grows_def)

lemma grows_chunks: "grows w w' \<Longrightarrow> c \<in> set (chunks w) \<Longrightarrow> c \<in> set (chunks w')"
  by (auto simp: grows_def)

lemma extract_chunks_grow:
  "extract_for_chunks sv hint chs n w = (Inr m, w') \<Longrightarrow>
     grows w w' \<and> (\<forall>ch \<in> set chs. nonblank ch \<longrightarrow> (\<exists>e \<in> set (entities w'). entity_of_chunk ch e))"
proof (induction sv hint chs n w rule: extract_for_chunks.induct)
  case (2 sv hint ch chs n w)
  then obtain raw where raw: "sv_extract sv (ch_text ch) (ch_index ch) hint = Inr raw"
    by (auto split: sum.splits)
  define cs where "cs = finalize_chunk_entities sv ch raw hint"
  obtain k w1 where p: "persist ch cs w = (k, w1)" by (cases "persist ch cs w")
  have "extract_for_chunks sv hint chs (n + k) w1 = (Inr m, w')"
    using 2(2) by (simp add: raw cs_def [symmetric] p)
  from 2(1) [OF raw p [unfolded cs_def, symmetric] refl this]
  have IH: "grows w1 w'" "\<forall>ch \<in> set chs. nonblank ch \<longrightarrow> (\<exists>e \<in> set (entities w'). entity_of_chunk ch e)" by auto
  have g: "grows w w1" using p by (auto simp: persist_def grows_def)
  have "\<exists>e \<in> set (entities w1). entity_of_chunk ch e" if "nonblank ch"
  proof -
    have "new_entities (next_id w) (clock w) ch cs \<noteq> []"
      using finalize_ne [OF that] new_entities_from(1) [of "next_id w" "clock w" ch cs] by (auto simp: cs_def)
    then obtain e where "e \<in> set (new_entities (next_id w) (clock w) ch cs)" by (meson last_in_set)
    moreover from this have "entity_of_chunk ch e" by (rule new_entities_of_chunk)
    ultimately show ?thesis using p by (auto simp: persist_def)
  qed
  then show ?case using IH grows_trans [OF g IH(1)] grows_entities [OF IH(1)] by auto
qed auto

lemma sort_key_Nil_iff: "sort_key f xs = [] \<longleftrightarrow> xs = []"
  by (metis set_empty set_sort)

lemma count_pos:
  "0 < count_document_chunks w did \<longleftrightarrow> (\<exists>c \<in> set (chunks w). ch_document_id c = Some did)"
  "0 < count_document_entities w did \<longleftrightarrow> (\<exists>e \<in> set (entities w). en_document_id e = Some did)"
  "0 < count_audio_scope_chunks w aid
     \<longleftrightarrow> (\<exists>c \<in> set (chunks w). in_audio_scope w aid (ch_audio_id c) (ch_transcript_id c))"
  "0 < count_audio_scope_entities w aid
     \<longleftrightarrow> (\<exists>e \<in> set (entities w). in_audio_scope w aid (en_audio_id e) (en_transcript_id e))"
  by (auto simp: count_document_chunks_def count_document_entities_def count_audio_scope_chunks_def
      count_audio_scope_entities_def filter_empty_conv)

lemma extract_document_grows:
  assumes "extract_for_document_sync env sv did w = (Inr n, w')" "count_document_entities w did = 0"
    "\<forall>c \<in> set (chunks w). nonblank c" "0 < count_document_chunks w did"
  shows "grows w w' \<and> 0 < count_document_entities w' did"
proof -
  have ne: "chunks_for_document_ordered w did \<noteq> []"
    using assms(4) by (auto simp: chunks_for_document_ordered_def count_pos sort_key_Nil_iff filter_empty_conv)
  have "delete_entities (\<lambda>e. en_document_id e = Some did) w = w"
    using assms(2) by (intro delete_no_entities) (auto simp: count_document_entities_def filter_empty_conv)
  then obtain hint where "extract_for_chunks sv hint (chunks_for_document_ordered w did) 0 w = (Inr n, w')"
    using assms(1) ne by (auto simp: extract_for_document_sync_def Let_def split: option.splits)
  from extract_chunks_grow [OF this]
  have g: "grows w w'" "\<forall>ch \<in> set (chunks_for_document_ordered w did). nonblank ch \<longrightarrow> (\<exists>e \<in> set (entities w'). entity_of_chunk ch e)"
    by auto
  obtain c where "c \<in> set (chunks_for_document_ordered w did)" using ne by (meson last_in_set)
  moreover from this have "ch_document_id c = Some did" "nonblank c"
    using assms(3) by (auto simp: chunks_for_document_ordered_def)
  ultimately obtain e where "e \<in> set (entities w')" "entity_of_chunk c e" "ch_document_id c = Some did"
    using g(2) by metis
  then show ?thesis using g(1) unfolding count_pos entity_of_chunk_def by metis
qed

lemma extract_audio_grows:
  assumes "extract_for_audio_sync env sv aid w = (Inr n, w')" "count_audio_scope_entities w aid = 0"
    "\<forall>c \<in> set (chunks w). nonblank c" "0 < count_audio_scope_chunks w aid"
  shows "grows w w' \<and> 0 < count_audio_scope_entities w' aid"
proof -
  have ne: "chunks_for_audio_scope_ordered w aid \<noteq> []"
    using assms(4) by (auto simp: chunks_for_audio_scope_ordered_def count_pos sort_key_Nil_iff filter_empty_conv in_audio_scope_def)
  have "delete_entities (\<lambda>e. en_audio_id e = Some aid \<or> in_ids (en_transcript_id e) (transcript_ids w aid)) w = w"
    using assms(2) by (intro delete_no_entities)
      (auto simp: count_audio_scope_entities_def filter_empty_conv in_audio_scope_def)
  then obtain hint where "extract_for_chunks sv hint (chunks_for_audio_scope_ordered w aid) 0 w = (Inr n, w')"
    using assms(1) ne by (auto simp: extract_for_audio_sync_def Let_def split: option.splits)
  from extract_chunks_grow [OF this]
  have g: "grows w w'" "\<forall>ch \<in> set (chunks_for_audio_scope_ordered w aid). nonblank ch \<longrightarrow> (\<exists>e \<in> set (entities w'). entity_of_chunk ch e)"
    by auto
  have ids: "transcript_ids w' aid = transcript_ids w aid" using g(1) by (simp add: grows_def transcript_ids_def)
  obtain c where "c \<in> set (chunks_for_audio_scope_ordered w aid)" using ne by (meson last_in_set)
  moreover from this have "in_audio_scope w' aid (ch_audio_id c) (ch_transcript_id c)" "nonblank c"
    using assms(3) by (auto simp: chunks_for_audio_scope_ordered_def in_audio_scope_def ids)
  ultimately obtain e where "e \<in> set (entities w')" "entity_of_chunk c e"
    "in_audio_scope w' aid (ch_audio_id c) (ch_transcript_id c)"
    using g(2) by metis
  then show ?thesis using g(1) unfolding count_pos entity_of_chunk_def by metis
qed

section \<open>Preparing every source, once\<close>

definition document_covered :: "world \<Rightarrow> source_document \<Rightarrow> bool" where
  "document_covered w d \<longleftrightarrow> \<not> document_has_text d
     \<or> 0 < count_document_chunks w (doc_id d) \<and> 0 < count_document_entities w (doc_id d)"

definition audio_covered :: "world \<Rightarrow> source_audio \<Rightarrow> bool" where
  "audio_covered w a \<longleftrightarrow> latest_completed_transcript w (aud_id a) = None
     \<or> 0 < count_audio_scope_chunks w (aud_id a) \<and> 0 < count_audio_scope_entities w (aud_id a)"

lemma grows_scope:
  assumes "grows w w'"
  shows "in_audio_scope w' aid = in_audio_scope w aid" "latest_completed_transcript w' aid = latest_completed_transcript w aid"
  using assms by (auto simp: fun_eq_iff grows_def in_audio_scope_def transcript_ids_def latest_completed_transcript_def)

lemma grows_keeps:
  assumes "grows w w'"
  shows "document_covered w d \<Longrightarrow> document_covered w' d" "audio_covered w a \<Longrightarrow> audio_covered w' a"
    "\<forall>c \<in> set (chunks w). nonblank c \<Longrightarrow> \<forall>c \<in> set (chunks w'). nonblank c"
  using grows_entities [OF assms] grows_chunks [OF assms]
  unfolding document_covered_def audio_covered_def count_pos grows_scope [OF assms]
  by (blast, blast, use assms in \<open>auto simp: grows_def\<close>)

lemma for_each_grows:
  assumes step: "\<And>x w y w'. f x w = (Inr y, w') \<Longrightarrow> \<forall>c \<in> set (chunks w). nonblank c \<Longrightarrow> grows w w' \<and> P w' x"
    and keep: "\<And>w w' x. grows w w' \<Longrightarrow> P w x \<Longrightarrow> P w' x"
  shows "for_each f xs w = (Inr ys, w') \<Longrightarrow> \<forall>c \<in> set (chunks w). nonblank c \<Longrightarrow> grows w w' \<and> (\<forall>x \<in> set xs. P w' x)"
proof (induction xs arbitrary: w ys)
  case (Cons x xs)
  obtain y w1 ys' where a: "f x w = (Inr y, w1)" "for_each f xs w1 = (Inr ys', w')"
    using Cons.prems(1) by (auto simp: and_then_Inr_iff)
  note s = step [OF a(1) Cons.prems(2)]
  have "grows w1 w' \<and> (\<forall>x \<in> set xs. P w' x)"
    by (rule Cons.IH [OF a(2)]) (use grows_keeps(3) s Cons.prems(2) in blast)
  then show ?case using s keep grows_trans by (metis set_ConsD)
qed simp

lemma for_each_idle:
  assumes "\<forall>x \<in> set xs. \<exists>y. f x w = (Inr y, w) \<and> Q y"
  shows "\<exists>ys. for_each f xs w = (Inr ys, w) \<and> (\<forall>y \<in> set ys. Q y)"
  using assms by (induction xs) auto

lemma ensure_document_covers:
  assumes "ensure_document env sv d w = (Inr e, w')" "\<forall>c \<in> set (chunks w). nonblank c"
  shows "grows w w' \<and> document_covered w' d"
proof (cases "document_has_text d")
  case True
  let ?i = "doc_id d"
  obtain b n w1 where c: "ensure_document_chunks env sv ?i w = (Inr (b, n), w1)"
    using assms(1) True by (auto simp: ensure_document_def and_then_Inr_iff)
  have g: "grows w w1" "0 < count_document_chunks w1 ?i" "0 < n"
    using c chunk_document_grows by (auto simp: ensure_document_chunks_def and_then_Inr_iff split: if_splits)
  show ?thesis
  proof (cases "count_document_entities w1 ?i = 0")
    case z: True
    obtain m where "extract_for_document_sync env sv ?i w1 = (Inr m, w')"
      using assms(1) True c z g(3) by (auto simp: ensure_document_def and_then_Inr_iff)
    from extract_document_grows [OF this z grows_keeps(3) [OF g(1) assms(2)] g(2)]
    have "grows w1 w'" "0 < count_document_entities w' ?i" by auto
    moreover from this(1) g(2) have "0 < count_document_chunks w' ?i" using grows_chunks by (auto simp: count_pos)
    ultimately show ?thesis using grows_trans [OF g(1)] by (simp add: document_covered_def)
  next
    case False
    then have "w' = w1" using assms(1) True c by (simp add: ensure_document_def)
    then show ?thesis using g False by (simp add: document_covered_def)
  qed
next
  case False
  then show ?thesis using assms(1) by (simp add: ensure_document_def document_covered_def)
qed

lemma ensure_audio_covers:
  assumes "ensure_audio env sv a w = (Inr e, w')" "\<forall>c \<in> set (chunks w). nonblank c"
  shows "grows w w' \<and> audio_covered w' a"
proof (cases "latest_completed_transcript w (aud_id a)")
  case (Some tr)
  let ?i = "aud_id a"
  obtain b n w1 where c: "ensure_audio_chunks env sv ?i tr w = (Inr (b, n), w1)"
    using assms(1) Some by (auto simp: ensure_audio_def and_then_Inr_iff)
  have none: "\<forall>c \<in> set (chunks w). ch_transcript_id c \<noteq> Some (tr_id tr)" if "count_audio_scope_chunks w ?i = 0"
    using that transcript_in_scope [OF Some]
    by (auto simp: count_audio_scope_chunks_def filter_empty_conv in_audio_scope_def in_ids_def split: option.splits)
  have g: "grows w w1 \<and> 0 < count_audio_scope_chunks w1 ?i \<and> 0 < n"
  proof (cases "count_audio_scope_chunks w ?i = 0")
    case True
    then have "chunk_transcript_sync env sv (tr_id tr) Fixed w = (Inr n, w1)"
      using c by (auto simp: ensure_audio_chunks_def and_then_Inr_iff)
    from chunk_transcript_grows [OF this none [OF True]]
    have "grows w w1" "0 < n" "filter (\<lambda>c. ch_transcript_id c = Some (tr_id tr)) (chunks w1) \<noteq> []" by auto
    moreover from this(1) have "in_audio_scope w1 ?i x (Some (tr_id tr))" for x
      using transcript_in_scope [OF Some] by (simp add: grows_scope in_audio_scope_def in_ids_def)
    ultimately show ?thesis unfolding count_pos filter_empty_conv by metis
  qed (use c in \<open>auto simp: ensure_audio_chunks_def\<close>)
  show ?thesis
  proof (cases "count_audio_scope_entities w1 ?i = 0")
    case z: True
    obtain m where "extract_for_audio_sync env sv ?i w1 = (Inr m, w')"
      using assms(1) Some c z g by (auto simp: ensure_audio_def and_then_Inr_iff)
    from extract_audio_grows [OF this z grows_keeps(3)] g assms(2)
    have "grows w1 w'" "0 < count_audio_scope_entities w' ?i" by auto
    moreover from this(1) g have "0 < count_audio_scope_chunks w' ?i"
      using grows_chunks by (auto simp: count_pos grows_scope)
    ultimately show ?thesis using grows_trans g by (auto simp: audio_covered_def)
  next
    case False
    then have "w' = w1" using assms(1) Some c by (simp add: ensure_audio_def)
    then show ?thesis using g False by (simp add: audio_covered_def)
  qed
next
  case None
  then show ?thesis using assms(1) by (simp add: ensure_audio_def audio_covered_def)
qed

lemma ensure_document_idle:
  "document_covered w d \<Longrightarrow> \<exists>e. ensure_document env sv d w = (Inr e, w) \<and> \<not> pe_chunked e \<and> \<not> pe_extracted e"
  by (auto simp: document_covered_def ensure_document_def ensure_document_chunks_def skipped_entry_def
      chunked_entry_def)

lemma ensure_audio_idle:
  "audio_covered w a \<Longrightarrow> \<exists>e. ensure_audio env sv a w = (Inr e, w) \<and> \<not> pe_chunked e \<and> \<not> pe_extracted e"
  by (auto simp: audio_covered_def ensure_audio_def ensure_audio_chunks_def skipped_entry_def
      chunked_entry_def split: option.split)

text \<open>
  C17. When the preparation of all sources returns, in a database without blank chunks, nothing has been
  removed; every document with text and every audio with a completed transcript has at least one chunk and
  at least one entity (not every chunk of it: a source that had an entity is not extracted again); and a
  second run chunks nothing, extracts nothing and leaves the database as it is.
\<close>

theorem ensure_covers_every_source:
  assumes "ensure_project_sources_pipeline_sync env sv pid w = (Inr r, w')" "\<forall>c \<in> set (chunks w). nonblank c"
  shows "grows w w'
     \<and> (\<forall>d \<in> set (project_documents w pid). document_covered w' d)
     \<and> (\<forall>a \<in> set (project_audios w pid). audio_covered w' a)
     \<and> (\<exists>ds as. ensure_project_sources_pipeline_sync env sv pid w' = (Inr (ds, as), w')
          \<and> ps_chunked (prep_summary_of ds as) = 0 \<and> ps_extracted (prep_summary_of ds as) = 0)"
proof -
  obtain ds as w1 where a: "for_each (ensure_document env sv) (project_documents w pid) w = (Inr ds, w1)"
    "for_each (ensure_audio env sv) (project_audios w1 pid) w1 = (Inr as, w')"
    using assms(1) by (auto simp: ensure_project_sources_pipeline_sync_def and_then_Inr_iff)
  have d: "grows w w1 \<and> (\<forall>d \<in> set (project_documents w pid). document_covered w1 d)"
    by (rule for_each_grows [OF _ _ a(1) assms(2)]) (use ensure_document_covers grows_keeps(1) in blast)+
  have n: "\<forall>c \<in> set (chunks w1). nonblank c" using grows_keeps(3) d assms(2) by blast
  have u: "grows w1 w' \<and> (\<forall>a \<in> set (project_audios w1 pid). audio_covered w' a)"
    by (rule for_each_grows [OF _ _ a(2) n]) (use ensure_audio_covers grows_keeps(2) in blast)+
  have eq: "project_documents w' pid = project_documents w pid" "project_audios w' pid = project_audios w pid"
    "project_audios w1 pid = project_audios w pid"
    using d u by (auto simp: grows_def project_documents_def project_audios_def)
  have cov: "\<forall>d \<in> set (project_documents w pid). document_covered w' d"
    "\<forall>a \<in> set (project_audios w pid). audio_covered w' a"
    using d u grows_keeps(1) eq by metis+
  obtain ds' where "for_each (ensure_document env sv) (project_documents w' pid) w' = (Inr ds', w')"
      "\<forall>y \<in> set ds'. \<not> pe_chunked y \<and> \<not> pe_extracted y"
    using for_each_idle [of "project_documents w' pid" "ensure_document env sv" w' "\<lambda>y. \<not> pe_chunked y \<and> \<not> pe_extracted y"]
      ensure_document_idle cov(1) eq by metis
  moreover obtain as' where "for_each (ensure_audio env sv) (project_audios w' pid) w' = (Inr as', w')"
      "\<forall>y \<in> set as'. \<not> pe_chunked y \<and> \<not> pe_extracted y"
    using for_each_idle [of "project_audios w' pid" "ensure_audio env sv" w' "\<lambda>y. \<not> pe_chunked y \<and> \<not> pe_extracted y"]
      ensure_audio_idle cov(2) eq by metis
  ultimately have "ensure_project_sources_pipeline_sync env sv pid w' = (Inr (ds', as'), w')
      \<and> ps_chunked (prep_summary_of ds' as') = 0 \<and> ps_extracted (prep_summary_of ds' as') = 0"
    by (simp add: ensure_project_sources_pipeline_sync_def prep_summary_of_def)
  moreover have "grows w w'" using d u grows_trans by blast
  ultimately show ?thesis using cov by blast
qed

theorem ensure_covers_every_source_witness:
  "\<exists>r w'. ensure_project_sources_pipeline_sync plain_env quiet_services 7 two_sources = (Inr r, w')
     \<and> document_covered w' (plain_document 1 7 (u ''text'')) \<and> grows two_sources w'"
proof -
  let ?d = "plain_document 1 7 (u ''text'')"
  have d: "get_doc two_sources 1 = Some ?d" "project_documents two_sources 7 = [?d]" by code_simp+
  have t: "strip (text_of (doc_raw_text ?d)) \<noteq> []" "doc_id ?d = 1" by code_simp+
  have n: "count_document_chunks two_sources 1 = 0" by code_simp
  obtain k w1 where c: "chunk_source_document_sync plain_env quiet_services 1 Fixed two_sources = (Inr k, w1)"
    using chunk_document_step [OF d(1) t(1) n] by blast
  have ne: "\<exists>m w2. extract_for_document_sync plain_env quiet_services 1 v = (Inr m, w2)"
    if "0 < count_document_chunks v 1" "get_doc v 1 = Some ?d" for v
    using that quiet_extract by (auto simp: extract_for_document_sync_def Let_def count_pos
        chunks_for_document_ordered_def sort_key_Nil_iff filter_empty_conv)
  have g: "grows two_sources w1" "0 < k" "0 < count_document_chunks w1 1" "get_doc w1 1 = Some ?d"
    using chunk_document_grows [OF c] d(1) by (auto simp: grows_def get_doc_def)
  have "\<exists>e w2. ensure_document plain_env quiet_services ?d two_sources = (Inr e, w2)"
    using c n t ne [OF g(3,4)] g(2)
    by (cases "count_document_entities w1 1 = 0") (auto simp: ensure_document_def document_has_text_def ensure_document_chunks_def Let_def simp del: str_or_Nil One_nat_def)
  then obtain e w2 where e: "ensure_document plain_env quiet_services ?d two_sources = (Inr e, w2)" by blast
  have b: "\<forall>c \<in> set (chunks two_sources). nonblank c" by (simp add: two_sources_def)
  have g2: "grows two_sources w2" using ensure_document_covers [OF e b] by simp
  have "latest_completed_transcript two_sources i = None" for i
    by (simp add: two_sources_def latest_completed_transcript_def first_row_def)
  then have "ensure_audio plain_env quiet_services a w2 = (Inr (skipped_entry (aud_id a) (Some (u ''no_completed_transcript''))), w2)" for a
    using grows_scope(2) [OF g2] by (simp add: ensure_audio_def)
  then have "\<exists>as. for_each (ensure_audio plain_env quiet_services) xs w2 = (Inr as, w2)" for xs
    by (induction xs) auto
  then obtain as where "for_each (ensure_audio plain_env quiet_services) (project_audios w2 7) w2 = (Inr as, w2)" by blast
  then have r: "ensure_project_sources_pipeline_sync plain_env quiet_services 7 two_sources = (Inr ([e], as), w2)"
    using d(2) e by (simp add: ensure_project_sources_pipeline_sync_def)
  from ensure_covers_every_source [OF r b] show ?thesis using r d(2) by auto
qed

section \<open>The bound on automatic extraction\<close>

lemma chunking_keeps_entities:
  assumes "for_each (prepare_document env sv) xs w = (Inr ys, w')"
  shows "entities w' = entities w"
  using assms
  by (induction xs arbitrary: w ys)
    (auto simp: and_then_Inr_iff prepare_document_def ensure_document_chunks_def chunk_document_keeps split: if_splits)

lemma audio_chunking_keeps_entities:
  assumes "for_each (prepare_audio env sv) xs w = (Inr ys, w')"
  shows "entities w' = entities w"
  using assms
proof (induction xs arbitrary: w ys)
  case (Cons a xs)
  obtain y w1 ys' where s: "prepare_audio env sv a w = (Inr y, w1)" "for_each (prepare_audio env sv) xs w1 = (Inr ys', w')"
    using Cons.prems by (auto simp: and_then_Inr_iff)
  have "entities w1 = entities w"
  proof (cases "latest_completed_transcript w (aud_id a)")
    case (Some tr)
    have "delete_chunks (\<lambda>c. ch_transcript_id c = Some (tr_id tr)) w = w" if "count_audio_scope_chunks w (aud_id a) = 0"
      using that transcript_in_scope [OF Some] by (intro delete_no_chunks)
        (auto simp: count_audio_scope_chunks_def filter_empty_conv in_audio_scope_def in_ids_def split: option.splits)
    then show ?thesis using s(1) Some
      by (auto simp: prepare_audio_def ensure_audio_chunks_def and_then_Inr_iff chunk_transcript_sync_def Let_def
          add_chunks_def split: if_splits option.splits sum.splits)
  qed (use s(1) in \<open>simp add: prepare_audio_def\<close>)
  then show ?case using Cons.IH [OF s(2)] by simp
qed simp

lemma not_yet_extracted:
  "prepare_document env sv d w = (Inr e, w') \<Longrightarrow> \<not> pe_extracted e"
  "prepare_audio env sv a w = (Inr e, w') \<Longrightarrow> \<not> pe_extracted e"
  by (auto simp: prepare_document_def prepare_audio_def skipped_entry_def chunked_entry_def and_then_Inr_iff
      split: if_splits option.splits)

lemma for_each_all:
  assumes "for_each f xs w = (Inr ys, w')" "\<And>x w y w'. f x w = (Inr y, w') \<Longrightarrow> P y"
  shows "\<forall>y \<in> set ys. P y"
  using assms(1) by (induction xs arbitrary: w ys) (auto simp: and_then_Inr_iff dest: assms(2))

lemma prepare_document_effect:
  assumes "prepare_document env sv d w = (Inr e, w')"
  shows "w' = w \<or> count_document_chunks w (doc_id d) = 0
     \<and> (\<exists>pid parts. w' = add_chunks pid (Some (doc_id d)) None Fixed parts w)"
proof -
  have "v = w \<or> count_document_chunks w did = 0 \<and> (\<exists>pid parts. v = add_chunks pid (Some did) None Fixed parts w)"
    if c: "chunk_source_document_sync env sv did Fixed w = (Inr n, v)" for did n v
  proof (cases "count_document_chunks w did = 0")
    case True
    obtain d where d: "get_doc w did = Some d" "strip (text_of (doc_raw_text d)) \<noteq> []"
      using c by (auto simp: chunk_source_document_sync_def Let_def split: option.splits if_splits)
    show ?thesis using chunk_document_step [OF d True, of env sv] c True by auto
  qed (use c in \<open>auto simp: chunk_source_document_sync_def Let_def split: option.splits if_splits\<close>)
  then show ?thesis using assms
    by (auto simp: prepare_document_def ensure_document_chunks_def and_then_Inr_iff split: if_splits)
qed

lemma no_scope_chunks:
  assumes "latest_completed_transcript w aid = Some tr" "count_audio_scope_chunks w aid = 0"
  shows "delete_chunks (\<lambda>c. ch_transcript_id c = Some (tr_id tr)) w = w"
  using assms(2) transcript_in_scope [OF assms(1)] by (intro delete_no_chunks)
    (auto simp: count_audio_scope_chunks_def filter_empty_conv in_audio_scope_def in_ids_def split: option.splits)

lemma prepare_audio_effect:
  assumes "prepare_audio env sv a w = (Inr e, w')"
  shows "w' = w \<or> count_audio_scope_chunks w (aud_id a) = 0
     \<and> (\<exists>tr pid parts. latest_completed_transcript w (aud_id a) = Some tr \<and> w' = add_chunks pid None (Some (tr_id tr)) Fixed parts w)"
proof (cases "latest_completed_transcript w (aud_id a)")
  case (Some tr)
  then obtain b n where c: "ensure_audio_chunks env sv (aud_id a) tr w = (Inr (b, n), w')"
    using assms by (auto simp: prepare_audio_def and_then_Inr_iff)
  show ?thesis
  proof (cases "count_audio_scope_chunks w (aud_id a) = 0")
    case True
    have "chunk_transcript_sync env sv (tr_id tr) Fixed w = (Inr n, w')"
      using c True by (auto simp: ensure_audio_chunks_def and_then_Inr_iff)
    then have "\<exists>pid parts. w' = add_chunks pid None (Some (tr_id tr)) Fixed parts w"
      by (auto simp: chunk_transcript_sync_def Let_def no_scope_chunks [OF Some True]
          split: option.splits if_splits sum.splits)
    then show ?thesis using Some True by blast
  qed (use c in \<open>auto simp: ensure_audio_chunks_def\<close>)
qed (use assms in \<open>simp add: prepare_audio_def\<close>)

text \<open>Only the extraction reads the provider's answers.\<close>

lemma same_fact:
  "fact (sv\<lparr>sv_extract := f\<rparr>) = fact sv"
  by (simp add: fun_eq_iff fact_def fallback_confidence_def)

lemma same_segments:
  "segment_loop (sv\<lparr>sv_extract := f\<rparr>) ch hint r stop segs k ex out = segment_loop sv ch hint r stop segs k ex out"
  by (induction sv ch hint r stop segs k ex out rule: segment_loop.induct) (simp_all add: Let_def same_fact)

lemma same_finalize: "finalize_chunk_entities (sv\<lparr>sv_extract := f\<rparr>) ch raw hint = finalize_chunk_entities sv ch raw hint"
  unfolding finalize_chunk_entities_def sentence_level_fallback_def supplement_sparse_def same_fact same_segments ..

lemma same_split: "split_parts env (sv\<lparr>sv_extract := f\<rparr>) st raw = split_parts env sv st raw"
  by (cases st) (simp_all add: split_parts_def)

lemma same_chunking:
  "chunk_source_document_sync env (sv\<lparr>sv_extract := f\<rparr>) did st w = chunk_source_document_sync env sv did st w"
  "chunk_transcript_sync env (sv\<lparr>sv_extract := f\<rparr>) tid st w = chunk_transcript_sync env sv tid st w"
  unfolding chunk_source_document_sync_def chunk_transcript_sync_def same_split by (rule refl)+

lemma same_preparation:
  "prepare_document env (sv\<lparr>sv_extract := f\<rparr>) = prepare_document env sv"
  "prepare_audio env (sv\<lparr>sv_extract := f\<rparr>) = prepare_audio env sv"
  unfolding fun_eq_iff prepare_document_def prepare_audio_def ensure_document_chunks_def
    ensure_audio_chunks_def same_chunking by simp_all

definition same_answers :: "services \<Rightarrow> (pystr \<Rightarrow> nat \<Rightarrow> pystr option \<Rightarrow> exc + candidate list) \<Rightarrow> text_chunk list \<Rightarrow> bool" where
  "same_answers sv f chs \<longleftrightarrow>
     (\<forall>ch \<in> set chs. \<forall>hint. f (ch_text ch) (ch_index ch) hint = sv_extract sv (ch_text ch) (ch_index ch) hint)"

lemma same_answers_append [simp]: "same_answers sv f (xs @ ys) \<longleftrightarrow> same_answers sv f xs \<and> same_answers sv f ys"
  by (auto simp: same_answers_def)

lemma same_extraction:
  "same_answers sv f chs \<Longrightarrow>
     extract_for_chunks (sv\<lparr>sv_extract := f\<rparr>) hint chs n w = extract_for_chunks sv hint chs n w"
  by (induction chs arbitrary: n w)
    (auto simp: same_answers_def same_finalize split: sum.split prod.split)

text \<open>
  Extraction of a source that has chunks: it leaves the chunks alone and asks the provider about
  exactly the chunks of the source.
\<close>

definition extracts_own ::
    "(services \<Rightarrow> uuid \<Rightarrow> world \<Rightarrow> nat outcome) \<Rightarrow> (world \<Rightarrow> uuid \<Rightarrow> text_chunk list) \<Rightarrow> bool" where
  "extracts_own X C \<longleftrightarrow>
     (\<forall>sv i w n w'. C w i \<noteq> [] \<longrightarrow> X sv i w = (Inr n, w') \<longrightarrow> chunks w' = chunks w \<and> transcripts w' = transcripts w)
     \<and> (\<forall>sv f i w. C w i \<noteq> [] \<longrightarrow> same_answers sv f (C w i) \<longrightarrow> X (sv\<lparr>sv_extract := f\<rparr>) i w = X sv i w)
     \<and> (\<forall>w w'. chunks w' = chunks w \<longrightarrow> transcripts w' = transcripts w \<longrightarrow> C w' = C w)"

lemma extracts_ownD:
  assumes "extracts_own X C"
  shows "C w i \<noteq> [] \<Longrightarrow> X sv i w = (Inr n, w') \<Longrightarrow> chunks w' = chunks w"
    "C w i \<noteq> [] \<Longrightarrow> X sv i w = (Inr n, w') \<Longrightarrow> transcripts w' = transcripts w"
    "C w i \<noteq> [] \<Longrightarrow> same_answers sv f (C w i) \<Longrightarrow> X (sv\<lparr>sv_extract := f\<rparr>) i w = X sv i w"
    "chunks w' = chunks w \<Longrightarrow> transcripts w' = transcripts w \<Longrightarrow> C w' = C w"
  using assms unfolding extracts_own_def by blast+

lemma extract_for_chunks_tables:
  "extract_for_chunks sv hint chs n (delete_entities P w) = (Inr m, w') \<Longrightarrow>
     chunks w' = chunks w \<and> transcripts w' = transcripts w"
  by (drule extract_for_chunks_appends) (auto simp: delete_entities_def Let_def)

lemma document_extracts_own: "extracts_own (extract_for_document_sync env) chunks_for_document_ordered"
  unfolding extracts_own_def
proof (intro conjI allI impI)
  fix sv i w n w' assume "chunks_for_document_ordered w i \<noteq> []" "extract_for_document_sync env sv i w = (Inr n, w')"
  then show "chunks w' = chunks w" "transcripts w' = transcripts w"
    by (auto simp: extract_for_document_sync_def Let_def dest: extract_for_chunks_tables split: option.splits)
next
  fix sv f i w assume "chunks_for_document_ordered w i \<noteq> []" "same_answers sv f (chunks_for_document_ordered w i)"
  then show "extract_for_document_sync env (sv\<lparr>sv_extract := f\<rparr>) i w = extract_for_document_sync env sv i w"
    by (simp add: extract_for_document_sync_def Let_def same_extraction split: option.split)
next
  fix w w' :: world assume "chunks w' = chunks w"
  then show "chunks_for_document_ordered w' = chunks_for_document_ordered w"
    by (simp add: fun_eq_iff chunks_for_document_ordered_def)
qed

lemma audio_extracts_own: "extracts_own (extract_for_audio_sync env) chunks_for_audio_scope_ordered"
  unfolding extracts_own_def
proof (intro conjI allI impI)
  fix sv i w n w' assume "chunks_for_audio_scope_ordered w i \<noteq> []" "extract_for_audio_sync env sv i w = (Inr n, w')"
  then show "chunks w' = chunks w" "transcripts w' = transcripts w"
    by (auto simp: extract_for_audio_sync_def Let_def dest: extract_for_chunks_tables split: option.splits)
next
  fix sv f i w assume "chunks_for_audio_scope_ordered w i \<noteq> []" "same_answers sv f (chunks_for_audio_scope_ordered w i)"
  then show "extract_for_audio_sync env (sv\<lparr>sv_extract := f\<rparr>) i w = extract_for_audio_sync env sv i w"
    by (simp add: extract_for_audio_sync_def Let_def same_extraction split: option.split)
next
  fix w w' :: world assume "chunks w' = chunks w" "transcripts w' = transcripts w"
  then show "chunks_for_audio_scope_ordered w' = chunks_for_audio_scope_ordered w"
    by (simp add: fun_eq_iff chunks_for_audio_scope_ordered_def transcript_ids_def)
qed

definition chunks_of_entries :: "(uuid \<Rightarrow> text_chunk list) \<Rightarrow> (prep_entry \<Rightarrow> bool) \<Rightarrow> prep_entry list \<Rightarrow> text_chunk list" where
  "chunks_of_entries C P es = concat (map (\<lambda>e. C (pe_id e)) (filter P es))"

lemma chunks_of_entries_simps [simp]:
  "chunks_of_entries C P [] = []"
  "chunks_of_entries C P (e # es) = (if P e then C (pe_id e) @ chunks_of_entries C P es else chunks_of_entries C P es)"
  by (simp_all add: chunks_of_entries_def)

lemma chunks_of_no_entries: "\<forall>e \<in> set es. \<not> P e \<Longrightarrow> chunks_of_entries C P es = []"
  by (induction es) auto

lemma extract_entries_own:
  assumes "extracts_own X C" "for_each (extract_entry (X sv)) es w = (Inr es', w')"
    "\<forall>e \<in> set es. \<not> pe_extracted e \<and> (wants_extraction e \<longrightarrow> C w (pe_id e) \<noteq> [])"
  shows "chunks w' = chunks w \<and> transcripts w' = transcripts w
     \<and> chunks_of_entries (C w) pe_extracted es' = chunks_of_entries (C w) wants_extraction es
     \<and> (same_answers sv f (chunks_of_entries (C w) wants_extraction es) \<longrightarrow>
          for_each (extract_entry (X (sv\<lparr>sv_extract := f\<rparr>))) es w = (Inr es', w'))"
  using assms(2, 3)
proof (induction es arbitrary: w es')
  case (Cons e es)
  obtain y w1 ys where s: "extract_entry (X sv) e w = (Inr y, w1)"
    "for_each (extract_entry (X sv)) es w1 = (Inr ys, w')" "es' = y # ys"
    using Cons.prems(1) by (auto simp: and_then_Inr_iff)
  note own = extracts_ownD [OF assms(1)]
  have y: "chunks w1 = chunks w \<and> transcripts w1 = transcripts w \<and> pe_id y = pe_id e \<and> pe_extracted y = wants_extraction e"
  proof (cases "wants_extraction e")
    case True
    then obtain n where "X sv (pe_id e) w = (Inr n, w1)" "y = e\<lparr>pe_extracted := True, pe_created := n\<rparr>"
      using s(1) by (auto simp: extract_entry_def and_then_Inr_iff)
    then show ?thesis using True own(1,2) [of w "pe_id e" sv n w1] Cons.prems(2) by simp
  next
    case False
    then show ?thesis using s(1) Cons.prems(2) by (simp add: extract_entry_def)
  qed
  then have C: "C w1 = C w" using own(4) by blast
  have again: "extract_entry (X (sv\<lparr>sv_extract := f\<rparr>)) e w = (Inr y, w1)"
    if "wants_extraction e \<longrightarrow> same_answers sv f (C w (pe_id e))"
    using s(1) that Cons.prems(2) own(3) [of w "pe_id e" sv f] by (auto simp: extract_entry_def)
  have "\<forall>e \<in> set es. \<not> pe_extracted e \<and> (wants_extraction e \<longrightarrow> C w1 (pe_id e) \<noteq> [])"
    using Cons.prems(2) C by simp
  note IH = Cons.IH [OF s(2) this]
  then show ?case using s(3) y again by (simp add: C)
qed simp

text \<open>What the preparation records of a source is the number of chunks it has.\<close>

definition document_counted :: "world \<Rightarrow> prep_entry \<Rightarrow> bool" where
  "document_counted w e \<longleftrightarrow> (0 < pe_chunk_count e \<longrightarrow> count_document_chunks w (pe_id e) = pe_chunk_count e)"

definition audio_counted :: "world \<Rightarrow> prep_entry \<Rightarrow> bool" where
  "audio_counted w e \<longleftrightarrow> (0 < pe_chunk_count e \<longrightarrow> count_audio_scope_chunks w (pe_id e) = pe_chunk_count e)"

lemma for_each_establishes:
  assumes step: "\<And>x w y w'. f x w = (Inr y, w') \<Longrightarrow> I w \<Longrightarrow> I w' \<and> P w' y"
    and keep: "\<And>x w y w' z. f x w = (Inr y, w') \<Longrightarrow> I w \<Longrightarrow> P w z \<Longrightarrow> P w' z"
  shows "for_each f xs w = (Inr ys, w') \<Longrightarrow> I w \<Longrightarrow> I w' \<and> (\<forall>y \<in> set ys. P w' y) \<and> (\<forall>z. P w z \<longrightarrow> P w' z)"
proof (induction xs arbitrary: w ys)
  case (Cons x xs)
  obtain y w1 ys' where s: "f x w = (Inr y, w1)" "for_each f xs w1 = (Inr ys', w')" "ys = y # ys'"
    using Cons.prems(1) by (auto simp: and_then_Inr_iff)
  note 1 = step [OF s(1) Cons.prems(2)]
  then show ?case using Cons.IH [OF s(2)] keep [OF s(1) Cons.prems(2)] s(3) by auto
qed simp

lemma added_document_chunks:
  assumes "i \<noteq> j"
  shows "count_document_chunks (add_chunks pid (Some j) t st parts w) i = count_document_chunks w i"
  using assms new_chunks_sel(3) by (fastforce simp: count_document_chunks_def add_chunks_def filter_empty_conv)

lemma added_transcript_chunks:
  "count_document_chunks (add_chunks pid None t st parts w) i = count_document_chunks w i"
  using new_chunks_sel(3) by (fastforce simp: count_document_chunks_def add_chunks_def filter_empty_conv)

lemma added_other_scope:
  assumes "case t of None \<Rightarrow> True | Some j \<Rightarrow> j \<notin> set (transcript_ids w aid)"
  shows "count_audio_scope_chunks (add_chunks pid did t st parts w) aid = count_audio_scope_chunks w aid"
proof -
  have ids: "transcript_ids (add_chunks pid did t st parts w) aid = transcript_ids w aid"
    by (simp add: transcript_ids_def add_chunks_sel)
  have "ch_audio_id c = None" if "c \<in> set (new_chunks b pid did t st parts)" for c b
    using that by (auto simp: new_chunks_def)
  then have "\<not> in_audio_scope w aid (ch_audio_id c) (ch_transcript_id c)"
    if "c \<in> set (new_chunks (next_id w) pid did t st parts)" for c
    using that assms new_chunks_sel(3) [OF that] by (auto simp: in_audio_scope_def in_ids_def split: option.splits)
  then have "filter (\<lambda>c. in_audio_scope w aid (ch_audio_id c) (ch_transcript_id c)) (new_chunks (next_id w) pid did t st parts) = []"
    by (simp add: filter_empty_conv)
  then show ?thesis
    by (simp add: count_audio_scope_chunks_def in_audio_scope_def ids) (simp add: add_chunks_def)
qed

lemma prepare_document_counts:
  assumes "prepare_document env sv d w = (Inr e, w')"
  shows "document_counted w' e" "document_counted w z \<Longrightarrow> document_counted w' z"
    "audios w' = audios w" "transcripts w' = transcripts w"
proof -
  show "document_counted w' e"
    using assms chunk_document_grows(3)
    by (auto simp: document_counted_def prepare_document_def skipped_entry_def chunked_entry_def
        ensure_document_chunks_def and_then_Inr_iff split: if_splits)
  show "document_counted w' z" if "document_counted w z"
    using that prepare_document_effect [OF assms]
    by (cases "pe_id z = doc_id d") (auto simp: document_counted_def added_document_chunks)
  show "audios w' = audios w" "transcripts w' = transcripts w"
    using prepare_document_effect [OF assms] by (auto simp: add_chunks_sel)
qed

text \<open>Transcripts have ids of their own, so the chunks of one audio's transcript are no other audio's.\<close>

lemma other_audio_transcript:
  assumes "distinct (map tr_id (transcripts w))" "latest_completed_transcript w aid = Some tr" "aid \<noteq> aid'"
  shows "tr_id tr \<notin> set (transcript_ids w aid')"
proof
  assume "tr_id tr \<in> set (transcript_ids w aid')"
  then obtain t' where t': "t' \<in> set (transcripts w)" "tr_audio_id t' = aid'" "tr_id t' = tr_id tr"
    by (auto simp: transcript_ids_def)
  have "tr \<in> set (transcripts w)" "tr_audio_id tr = aid"
    using assms(2) by (auto simp: latest_completed_transcript_def dest!: first_row_SomeD)
  moreover have "inj_on tr_id (set (transcripts w))" using assms(1) by (simp add: distinct_map)
  ultimately show False using t' assms(3) by (metis inj_onD)
qed

lemma chunk_transcript_scope:
  assumes "chunk_transcript_sync env sv (tr_id tr) Fixed w = (Inr n, w')"
    "latest_completed_transcript w aid = Some tr" "count_audio_scope_chunks w aid = 0"
  shows "count_audio_scope_chunks w' aid = n"
proof -
  have z: "\<not> in_audio_scope w aid (ch_audio_id c) (ch_transcript_id c)" if "c \<in> set (chunks w)" for c
    using assms(3) that by (auto simp: count_audio_scope_chunks_def filter_empty_conv)
  obtain pid parts where w': "w' = add_chunks pid None (Some (tr_id tr)) Fixed parts w" "n = length parts"
    using assms(1) by (auto simp: chunk_transcript_sync_def Let_def no_scope_chunks [OF assms(2, 3)]
        split: option.splits if_splits sum.splits)
  let ?new = "new_chunks (next_id w) pid None (Some (tr_id tr)) Fixed parts"
  have "in_audio_scope w aid (ch_audio_id c) (ch_transcript_id c)" if "c \<in> set ?new" for c
    using new_chunks_sel(3) [OF that] transcript_in_scope [OF assms(2)] by (simp add: in_audio_scope_def in_ids_def)
  then have "filter (\<lambda>c. in_audio_scope w aid (ch_audio_id c) (ch_transcript_id c)) (chunks w @ ?new) = ?new"
    using z by (simp add: filter_empty_conv filter_id_conv)
  moreover have "length ?new = n"
    using arg_cong [OF new_chunks_sel(1), of length "next_id w" pid None "Some (tr_id tr)" Fixed parts] w'(2) by simp
  moreover have "in_audio_scope w' = in_audio_scope w" "chunks w' = chunks w @ ?new"
    by (simp_all add: w' fun_eq_iff in_audio_scope_def transcript_ids_def add_chunks_sel) (simp add: add_chunks_def)
  ultimately show ?thesis by (simp add: count_audio_scope_chunks_def)
qed

lemma prepare_audio_counts:
  assumes "prepare_audio env sv a w = (Inr e, w')" "distinct (map tr_id (transcripts w))"
  shows "audio_counted w' e" "audio_counted w z \<Longrightarrow> audio_counted w' z"
    "document_counted w y \<Longrightarrow> document_counted w' y" "transcripts w' = transcripts w"
proof -
  show "audio_counted w' e"
    using assms(1) chunk_transcript_scope
    by (auto simp: audio_counted_def prepare_audio_def skipped_entry_def chunked_entry_def
        ensure_audio_chunks_def and_then_Inr_iff split: if_splits option.splits)
  show "audio_counted w' z" if z: "audio_counted w z"
  proof (cases "w' = w \<or> pe_id z = aud_id a")
    case True
    then show ?thesis using z prepare_audio_effect [OF assms(1)] by (auto simp: audio_counted_def)
  next
    case False
    then obtain tr pid parts where t: "latest_completed_transcript w (aud_id a) = Some tr"
      "w' = add_chunks pid None (Some (tr_id tr)) Fixed parts w" using prepare_audio_effect [OF assms(1)] by blast
    have "count_audio_scope_chunks w' (pe_id z) = count_audio_scope_chunks w (pe_id z)"
      unfolding t(2) using other_audio_transcript [OF assms(2) t(1)] False by (intro added_other_scope) auto
    then show ?thesis using z by (simp add: audio_counted_def)
  qed
  show "document_counted w' y" if "document_counted w y"
    using that prepare_audio_effect [OF assms(1)] by (auto simp: document_counted_def added_transcript_chunks)
  show "transcripts w' = transcripts w"
    using prepare_audio_effect [OF assms(1)] by (auto simp: add_chunks_sel)
qed

lemma preparation_counts:
  assumes "for_each (prepare_document env sv) xs w = (Inr ds, w1)" "for_each (prepare_audio env sv) ys w1 = (Inr as, w2)"
    "distinct (map tr_id (transcripts w))"
  shows "(\<forall>e \<in> set ds. document_counted w2 e) \<and> (\<forall>e \<in> set as. audio_counted w2 e)"
proof -
  have 1: "distinct (map tr_id (transcripts w1)) \<and> (\<forall>y \<in> set ds. document_counted w1 y)
      \<and> (\<forall>z. document_counted w z \<longrightarrow> document_counted w1 z)"
    by (rule for_each_establishes [OF _ _ assms(1), where I = "\<lambda>w. distinct (map tr_id (transcripts w))"])
      (use prepare_document_counts assms(3) in auto)
  let ?I = "\<lambda>w. distinct (map tr_id (transcripts w)) \<and> (\<forall>y \<in> set ds. document_counted w y)"
  have "?I w2 \<and> (\<forall>y \<in> set as. audio_counted w2 y) \<and> (\<forall>z. audio_counted w1 z \<longrightarrow> audio_counted w2 z)"
    by (rule for_each_establishes [OF _ _ assms(2), where I = ?I]) (use prepare_audio_counts 1 in auto)
  then show ?thesis by blast
qed

lemma length_chunks_of_entries:
  assumes "\<forall>e \<in> set es. wants_extraction e \<longrightarrow> length (C (pe_id e)) = pe_chunk_count e"
  shows "length (chunks_of_entries C wants_extraction es) = sum_list (map pe_chunk_count (filter wants_extraction es))"
  using assms by (induction es) auto

lemma ordered_lengths:
  "length (chunks_for_document_ordered w i) = count_document_chunks w i"
  "length (chunks_for_audio_scope_ordered w i) = count_audio_scope_chunks w i"
  by (simp_all add: chunks_for_document_ordered_def count_document_chunks_def chunks_for_audio_scope_ordered_def
      count_audio_scope_chunks_def in_audio_scope_def)

lemma aggregate_if_any_tables:
  "chunks (snd (aggregate_if_any env pid w)) = chunks w" "transcripts (snd (aggregate_if_any env pid w)) = transcripts w"
  by (simp_all add: aggregate_if_any_def aggregate_project_sync_def deduplicate_project_entities_sync_def Let_def)

text \<open>The chunks of the sources a preparation extracted, as they are in the database afterwards.\<close>

definition sent_chunks :: "prep \<Rightarrow> world \<Rightarrow> text_chunk list" where
  "sent_chunks p w = chunks_of_entries (chunks_for_document_ordered w) pe_extracted (pr_documents p)
     @ chunks_of_entries (chunks_for_audio_scope_ordered w) pe_extracted (pr_audios p)"

text \<open>
  C18. Preparing a report is bounded: with the GPT provider it extracts sources that have together at
  most as many chunks as the cap allows, and its result (the answer and the database) depends on the
  provider's answers about those chunks only. A preparation that is blocked extracts nothing and leaves the
  entities as they are. (Transcripts have ids of their own.)
\<close>

theorem preparation_is_bounded:
  assumes "prepare_project_for_pr_report_sync env sv pid cap auto w = (Inr p, w')"
    "research_extraction_provider (conf env) = u ''gpt''" "distinct (map tr_id (transcripts w))"
  shows "length (sent_chunks p w') \<le> cap
     \<and> (\<forall>f. same_answers sv f (sent_chunks p w') \<longrightarrow>
          prepare_project_for_pr_report_sync env (sv\<lparr>sv_extract := f\<rparr>) pid cap auto w = (Inr p, w'))
     \<and> (pr_blocked p \<longrightarrow> sent_chunks p w' = [] \<and> entities w' = entities w)"
proof (cases "pid \<in> set (projects w) \<and> auto")
  case True
  obtain ds w1 as w2 where a: "for_each (prepare_document env sv) (project_documents w pid) w = (Inr ds, w1)"
    "for_each (prepare_audio env sv) (project_audios w1 pid) w1 = (Inr as, w2)"
    using assms(1) True by (auto simp: prepare_project_for_pr_report_sync_def and_then_Inr_iff)
  have ent: "entities w2 = entities w"
    using chunking_keeps_entities [OF a(1)] audio_chunking_keeps_entities [OF a(2)] by simp
  have fresh: "\<forall>e \<in> set ds. \<not> pe_extracted e" "\<forall>e \<in> set as. \<not> pe_extracted e"
    by (rule for_each_all [OF a(1)], erule not_yet_extracted(1), rule for_each_all [OF a(2)], erule not_yet_extracted(2))
  note none = chunks_of_no_entries [OF fresh(1)] chunks_of_no_entries [OF fresh(2)]
  consider (enough) "pr_report_min_synthesis_entities (conf env) \<le> count_project_pr_entities w2 pid"
    | (over) "\<not> pr_report_min_synthesis_entities (conf env) \<le> count_project_pr_entities w2 pid" "cap < chunks_to_auto_extract ds as"
    | (go) "\<not> pr_report_min_synthesis_entities (conf env) \<le> count_project_pr_entities w2 pid" "chunks_to_auto_extract ds as \<le> cap"
    by linarith
  then show ?thesis
  proof cases
    case enough
    then have "\<not> pr_blocked p" "sent_chunks p w' = []"
      using assms True a none by (auto simp: prepare_project_for_pr_report_sync_def sent_chunks_def Let_def split: prod.splits)
    moreover have "prepare_project_for_pr_report_sync env (sv\<lparr>sv_extract := f\<rparr>) pid cap auto w = (Inr p, w')" for f
      using assms(1) True a enough by (simp add: prepare_project_for_pr_report_sync_def same_preparation Let_def)
    ultimately show ?thesis by simp
  next
    case over
    then have "w' = w2" "sent_chunks p w' = []"
      using assms True a none by (auto simp: prepare_project_for_pr_report_sync_def sent_chunks_def Let_def)
    moreover have "prepare_project_for_pr_report_sync env (sv\<lparr>sv_extract := f\<rparr>) pid cap auto w = (Inr p, w')" for f
      using assms True a over by (simp add: prepare_project_for_pr_report_sync_def same_preparation Let_def)
    ultimately show ?thesis using ent by simp
  next
    case go
    then obtain ds' w3 as' w4 where b: "for_each (extract_entry (extract_for_document_sync env sv)) ds w2 = (Inr ds', w3)"
      "for_each (extract_entry (extract_for_audio_sync env sv)) as w3 = (Inr as', w4)"
      and p: "\<not> pr_blocked p" "pr_documents p = ds'" "pr_audios p = as'" "w' = snd (aggregate_if_any env pid w4)"
      using assms True a by (fastforce simp: prepare_project_for_pr_report_sync_def Let_def and_then_Inr_iff split_def)
    let ?D = "chunks_for_document_ordered" and ?A = "chunks_for_audio_scope_ordered"
    have n: "\<forall>e \<in> set ds. wants_extraction e \<longrightarrow> length (?D w2 (pe_id e)) = pe_chunk_count e"
      "\<forall>e \<in> set as. wants_extraction e \<longrightarrow> length (?A w2 (pe_id e)) = pe_chunk_count e"
      using preparation_counts [OF a assms(3)]
      by (auto simp: ordered_lengths document_counted_def audio_counted_def wants_extraction_def)
    have d: "\<forall>e \<in> set ds. \<not> pe_extracted e \<and> (wants_extraction e \<longrightarrow> ?D w2 (pe_id e) \<noteq> [])"
      using n(1) fresh(1) by (fastforce simp: wants_extraction_def)
    note ed = extract_entries_own [OF document_extracts_own b(1) d]
    have A: "?A w3 = ?A w2" by (rule extracts_ownD(4) [OF audio_extracts_own]) (use ed [of undefined] in simp_all)
    have u: "\<forall>e \<in> set as. \<not> pe_extracted e \<and> (wants_extraction e \<longrightarrow> ?A w3 (pe_id e) \<noteq> [])"
      using n(2) fresh(2) unfolding A by (fastforce simp: wants_extraction_def)
    note ea = extract_entries_own [OF audio_extracts_own b(2) u]
    have k: "chunks w' = chunks w2" "transcripts w' = transcripts w2"
      using ed [of undefined] ea [of undefined] by (simp_all add: p(4) aggregate_if_any_tables)
    have "?D w' = ?D w2" "?A w' = ?A w2"
      by (rule extracts_ownD(4) [OF document_extracts_own k], rule extracts_ownD(4) [OF audio_extracts_own k])
    then have sent: "sent_chunks p w'
        = chunks_of_entries (?D w2) wants_extraction ds @ chunks_of_entries (?A w2) wants_extraction as"
      using ed [of undefined] ea [of undefined] by (simp add: sent_chunks_def p A)
    then have "length (sent_chunks p w') \<le> cap"
      using go(2) length_chunks_of_entries [OF n(1)] length_chunks_of_entries [OF n(2)]
      by (simp add: chunks_to_auto_extract_def)
    moreover have "prepare_project_for_pr_report_sync env (sv\<lparr>sv_extract := f\<rparr>) pid cap auto w = (Inr p, w')"
      if "same_answers sv f (sent_chunks p w')" for f
    proof -
      have "for_each (extract_entry (extract_for_document_sync env (sv\<lparr>sv_extract := f\<rparr>))) ds w2 = (Inr ds', w3)"
        "for_each (extract_entry (extract_for_audio_sync env (sv\<lparr>sv_extract := f\<rparr>))) as w3 = (Inr as', w4)"
        using that ed [of f] ea [of f] by (simp_all add: sent A)
      then show ?thesis using assms(1) True a b go
        by (simp add: prepare_project_for_pr_report_sync_def same_preparation Let_def)
    qed
    ultimately show ?thesis using p(1) by simp
  qed
next
  case False
  then show ?thesis
    using assms(1) by (cases "pid \<in> set (projects w)") (auto simp: prepare_project_for_pr_report_sync_def sent_chunks_def)
qed

lemma prepare_extracts:
  assumes "pid \<in> set (projects w)" "for_each (prepare_document env sv) (project_documents w pid) w = (Inr ds, w1)"
    "for_each (prepare_audio env sv) (project_audios w1 pid) w1 = (Inr as, w2)"
    "count_project_pr_entities w2 pid < pr_report_min_synthesis_entities (conf env)" "chunks_to_auto_extract ds as \<le> cap"
    "for_each (extract_entry (extract_for_document_sync env sv)) ds w2 = (Inr ds', w3)"
    "for_each (extract_entry (extract_for_audio_sync env sv)) as w3 = (Inr as', w4)"
  shows "\<exists>p w'. prepare_project_for_pr_report_sync env sv pid cap True w = (Inr p, w') \<and> \<not> pr_blocked p
     \<and> pr_documents p = ds' \<and> pr_audios p = as'"
  using assms by (cases "aggregate_if_any env pid w4") (simp add: prepare_project_for_pr_report_sync_def Let_def)

theorem preparation_is_bounded_witness:
  "\<exists>p w'. prepare_project_for_pr_report_sync plain_env quiet_services 7 1 True (two_sources\<lparr>projects := [7]\<rparr>) = (Inr p, w')
     \<and> \<not> pr_blocked p \<and> map pe_extracted (pr_documents p) = [True] \<and> length (sent_chunks p w') \<le> 1"
proof -
  let ?w = "two_sources\<lparr>projects := [7]\<rparr>" and ?e = "chunked_entry 1 True 1 0 0"
    and ?a = "skipped_entry 2 (Some (u ''no_completed_transcript''))"
  have d: "fst (for_each (prepare_document plain_env quiet_services) (project_documents ?w 7) ?w) = Inr [?e]"
    by code_simp
  then obtain w1 where a: "for_each (prepare_document plain_env quiet_services) (project_documents ?w 7) ?w = (Inr [?e], w1)"
    by (cases "for_each (prepare_document plain_env quiet_services) (project_documents ?w 7) ?w") auto
  have w1: "transcripts w1 = [] \<and> audios w1 = [plain_audio 2 7] \<and> documents w1 = documents ?w \<and> entities w1 = []"
    using a prepare_document_effect [of plain_env quiet_services "plain_document 1 7 (u ''text'')" ?w ?e w1]
    by (auto simp: and_then_Inr_iff project_documents_def two_sources_def add_chunks_def plain_document_def)
  have b: "for_each (prepare_audio plain_env quiet_services) (project_audios w1 7) w1 = (Inr [?a], w1)"
    using w1 by (simp add: project_audios_def plain_audio_def prepare_audio_def latest_completed_transcript_def first_row_def)
  have c1: "count_document_chunks w1 1 = 1"
    using preparation_counts [OF a b] by (simp add: document_counted_def chunked_entry_def two_sources_def)
  obtain d where "get_doc w1 1 = Some d" using w1 by (auto simp: get_doc_def two_sources_def get_row_def plain_document_def)
  moreover have "chunks_for_document_ordered w1 1 \<noteq> []" using c1 ordered_lengths(1) [of w1 1] by auto
  ultimately have "extract_for_document_sync plain_env quiet_services 1 w1 = extract_for_chunks quiet_services
      (Some (doc_filename d)) (chunks_for_document_ordered w1 1) 0 (delete_entities (\<lambda>e. en_document_id e = Some 1) w1)"
    by (simp add: extract_for_document_sync_def Let_def)
  then obtain m w3 where "extract_for_document_sync plain_env quiet_services 1 w1 = (Inr m, w3)"
    using quiet_extract by metis
  then have x: "for_each (extract_entry (extract_for_document_sync plain_env quiet_services)) [?e] w1
      = (Inr [?e\<lparr>pe_extracted := True, pe_created := m\<rparr>], w3)"
    "for_each (extract_entry (extract_for_audio_sync plain_env quiet_services)) [?a] w3 = (Inr [?a], w3)"
    by (simp_all add: extract_entry_def wants_extraction_def chunked_entry_def skipped_entry_def)
  have z: "count_project_pr_entities w1 7 = 0" using w1 by (simp add: count_project_pr_entities_def)
  have c: "chunks_to_auto_extract [?e] [?a] = 1"
    by (simp add: chunks_to_auto_extract_def wants_extraction_def chunked_entry_def skipped_entry_def)
  have "7 \<in> set (projects ?w)" "0 < pr_report_min_synthesis_entities (conf plain_env)" by (simp_all add: default_settings_def)
  then obtain p w' where p: "prepare_project_for_pr_report_sync plain_env quiet_services 7 1 True ?w = (Inr p, w')"
    "\<not> pr_blocked p" "pr_documents p = [?e\<lparr>pe_extracted := True, pe_created := m\<rparr>]"
    using prepare_extracts [OF _ a b _ _ x, of 1] c z by auto
  have "distinct (map tr_id (transcripts ?w))" by (simp add: two_sources_def)
  moreover have "research_extraction_provider (conf plain_env) = u ''gpt''" by (simp add: default_settings_def)
  ultimately show ?thesis using preparation_is_bounded [OF p(1)] p by (intro exI [of _ p] exI [of _ w']) simp
qed

section \<open>One blank transcript stops every report\<close>

text \<open>The audio \<open>aid\<close> has the blank transcript \<open>tr\<close> and no chunk.\<close>

definition blank_audio :: "uuid \<Rightarrow> transcript \<Rightarrow> world \<Rightarrow> bool" where
  "blank_audio aid tr w \<longleftrightarrow> distinct (map tr_id (transcripts w)) \<and> latest_completed_transcript w aid = Some tr
     \<and> get_transcript w (tr_id tr) = Some tr \<and> get_audio w (tr_audio_id tr) \<noteq> None \<and> transcript_base w tr = []
     \<and> count_audio_scope_chunks w aid = 0"

lemma blank_audio_fails:
  assumes "blank_audio (aud_id a) tr w"
  shows "fst (prepare_audio env sv a w) = Inl (Value_error (u ''transcript_no_text''))"
proof -
  have l: "latest_completed_transcript w (aud_id a) = Some tr" and z: "count_audio_scope_chunks w (aud_id a) = 0"
    using assms by (auto simp: blank_audio_def)
  have "fst (chunk_transcript_sync env sv (tr_id tr) Fixed w) = Inl (Value_error (u ''transcript_no_text''))"
    using assms by (auto simp: chunk_transcript_sync_def Let_def no_scope_chunks [OF l z] blank_audio_def)
  then show ?thesis using l z
    by (cases "chunk_transcript_sync env sv (tr_id tr) Fixed w") (simp add: prepare_audio_def ensure_audio_chunks_def)
qed

lemma blank_audio_other_chunks:
  assumes "blank_audio aid tr w" "case t of None \<Rightarrow> True | Some i \<Rightarrow> i \<notin> set (transcript_ids w aid)"
  shows "blank_audio aid tr (add_chunks pid did t st parts w)"
  using assms added_other_scope [OF assms(2), of pid did st parts]
  by (simp add: blank_audio_def latest_completed_transcript_def get_transcript_def get_audio_def transcript_base_def
      transcript_segments_of_def add_chunks_sel)

lemma blank_audio_documents:
  assumes "blank_audio aid tr w" "for_each (prepare_document env sv) ds w = (Inr es, w')"
  shows "blank_audio aid tr w' \<and> audios w' = audios w"
  using assms
proof (induction ds arbitrary: w es)
  case (Cons d ds)
  obtain e w1 es' where s: "prepare_document env sv d w = (Inr e, w1)" "for_each (prepare_document env sv) ds w1 = (Inr es', w')"
    using Cons.prems(2) by (auto simp: and_then_Inr_iff)
  have "blank_audio aid tr w1 \<and> audios w1 = audios w"
    using prepare_document_effect [OF s(1)] blank_audio_other_chunks [OF Cons.prems(1)] Cons.prems(1)
    by (force simp: add_chunks_sel)
  then show ?case using Cons.IH s(2) by metis
qed simp

lemma blank_audio_audios:
  assumes "blank_audio aid tr w" "aid \<in> aud_id ` set as"
  shows "\<exists>e. fst (for_each (prepare_audio env sv) as w) = Inl e"
  using assms
proof (induction as arbitrary: w)
  case (Cons b as)
  show ?case
  proof (cases "prepare_audio env sv b w")
    case (Pair r w1)
    show ?thesis
    proof (cases r)
      case (Inr e)
      have ne: "aud_id b \<noteq> aid"
        using blank_audio_fails [of b tr w env sv] Cons.prems(1) Pair Inr by (cases "aud_id b = aid") auto
      have other: "tr_id t \<notin> set (transcript_ids w aid)" if "latest_completed_transcript w (aud_id b) = Some t" for t
        using other_audio_transcript [OF _ that ne] Cons.prems(1) by (simp add: blank_audio_def)
      have "blank_audio aid tr w1"
        using prepare_audio_effect [OF Pair [unfolded Inr]] blank_audio_other_chunks [OF Cons.prems(1)] other Cons.prems(1)
        by force
      then obtain x where "fst (for_each (prepare_audio env sv) as w1) = Inl x" using Cons.IH Cons.prems(2) ne by auto
      then show ?thesis using Pair Inr by (cases "for_each (prepare_audio env sv) as w1") auto
    qed (use Pair in auto)
  qed
qed simp

text \<open>
  If the latest completed transcript of one audio of a project is blank and none of its segments
  has text, the preparation of the whole project ends with an error, whatever its other sources hold
  and however much signal it already has. (The diagnostics list that audio as not processable.)
\<close>

theorem blank_transcript_stops_preparation:
  assumes "pid \<in> set (projects w)" "a \<in> set (project_audios w pid)" "blank_audio (aud_id a) tr w"
  shows "\<exists>e. fst (prepare_project_for_pr_report_sync env sv pid cap True w) = Inl e"
proof (cases "for_each (prepare_document env sv) (project_documents w pid) w")
  case (Pair r w1)
  show ?thesis
  proof (cases r)
    case (Inr ds)
    have b: "blank_audio (aud_id a) tr w1" "audios w1 = audios w"
      using blank_audio_documents [OF assms(3) Pair [unfolded Inr]] by auto
    then have "aud_id a \<in> aud_id ` set (project_audios w1 pid)" using assms(2) by (simp add: project_audios_def)
    from blank_audio_audios [OF b(1) this, of env sv]
    obtain e where "fst (for_each (prepare_audio env sv) (project_audios w1 pid) w1) = Inl e" by blast
    then show ?thesis using assms(1) Pair Inr
      by (cases "for_each (prepare_audio env sv) (project_audios w1 pid) w1")
        (simp add: prepare_project_for_pr_report_sync_def)
  qed (use Pair assms(1) in \<open>auto simp: prepare_project_for_pr_report_sync_def\<close>)
qed

definition silent_audio :: world where
  "silent_audio = empty_world\<lparr>projects := [7], audios := [plain_audio 2 7],
     transcripts := [\<lparr>tr_id = 5, tr_audio_id = 2, tr_full_text = [], tr_language = None,
       tr_status = JS_COMPLETED, tr_provider = None, tr_created_at = 0\<rparr>]\<rparr>"

theorem blank_transcript_stops_preparation_witness:
  "\<exists>e. fst (prepare_project_for_pr_report_sync plain_env quiet_services 7 10 True silent_audio) = Inl e"
proof (rule blank_transcript_stops_preparation)
  show "7 \<in> set (projects silent_audio)" "plain_audio 2 7 \<in> set (project_audios silent_audio 7)"
    by (simp_all add: silent_audio_def project_audios_def plain_audio_def)
  have "latest_completed_transcript silent_audio 2 = Some (hd (transcripts silent_audio))" by code_simp
  moreover have "get_transcript silent_audio (tr_id (hd (transcripts silent_audio))) = Some (hd (transcripts silent_audio))"
    "transcript_base silent_audio (hd (transcripts silent_audio)) = []"
    "get_audio silent_audio (tr_audio_id (hd (transcripts silent_audio))) = Some (plain_audio 2 7)"
    "count_audio_scope_chunks silent_audio 2 = 0"
    by code_simp+
  moreover have "distinct (map tr_id (transcripts silent_audio))" by (simp add: silent_audio_def)
  ultimately show "blank_audio (aud_id (plain_audio 2 7)) (hd (transcripts silent_audio)) silent_audio"
    by (simp add: blank_audio_def plain_audio_def)
qed

end
