(* ===== verification/Gpt_Extraction.thy ===== *)
theory Gpt_Extraction
  imports Entity_Extraction
begin

text \<open>
  The language model provider of the extraction (\<^verbatim>\<open>extraction/gpt_provider.py\<close>): how an answer, which
  may be anything, becomes candidates. The call itself, \<^verbatim>\<open>json.loads\<close>, \<^verbatim>\<open>str\<close> of a value that is not a
  string and \<^verbatim>\<open>float\<close> of a string are parameters.
\<close>

section \<open>Answers\<close>

fun json_true :: "json \<Rightarrow> bool" where
  "json_true JNull = False"
| "json_true (JBool b) = b"
| "json_true (JInt n) = (n \<noteq> 0)"
| "json_true (JFloat x) = (x \<noteq> Finite 0)"
| "json_true (JStr s) = (s \<noteq> [])"
| "json_true (JArr xs) = (xs \<noteq> [])"
| "json_true (JObj kvs) = (kvs \<noteq> [])"

datatype reply = Api_error | Reply "pystr option"

record gpt =
  gp_complete :: "pystr \<Rightarrow> nat \<Rightarrow> pystr option \<Rightarrow> reply"
  gp_loads :: "pystr \<Rightarrow> json option"
  gp_str :: "json \<Rightarrow> pystr"
  gp_float :: "pystr \<Rightarrow> pyfloat option"
  gp_lower :: "pystr \<Rightarrow> pystr"

definition py_str :: "gpt \<Rightarrow> json \<Rightarrow> pystr" where
  "py_str g v = (case v of JStr s \<Rightarrow> s | _ \<Rightarrow> gp_str g v)"

text \<open>\<^verbatim>\<open>str(item.get(key, "") or "").strip()\<close>.\<close>

definition item_str :: "gpt \<Rightarrow> (pystr \<times> json) list \<Rightarrow> string \<Rightarrow> pystr" where
  "item_str g item key = strip (case map_of item (u key) of
     None \<Rightarrow> [] | Some v \<Rightarrow> (if json_true v then py_str g v else []))"

section \<open>Entity types\<close>

definition all_entity_types :: "entity_type list" where
  "all_entity_types = PRIMARY_RESEARCH_ENTITY_TYPES @ LEGACY_ENTITY_TYPES"

definition EntityType_of :: "pystr \<Rightarrow> entity_type option" where
  "EntityType_of s = find (\<lambda>t. entity_type_value t = s) all_entity_types"

definition LEGACY_MAP :: "(pystr \<times> entity_type) list" where
  "LEGACY_MAP = [(u ''person'', SUPPORTING_FACT), (u ''organization'', SUPPORTING_FACT),
     (u ''location'', SUPPORTING_FACT), (u ''date'', SUPPORTING_FACT), (u ''topic'', BEHAVIOR_PATTERN),
     (u ''claim'', SUPPORTING_FACT), (u ''metric'', SUPPORTING_FACT), (u ''reference'', SUPPORTING_FACT),
     (u ''custom'', OPEN_QUESTION)]"

definition coerce_entity_type :: "gpt \<Rightarrow> pystr \<Rightarrow> entity_type" where
  "coerce_entity_type g raw =
     (let s = replace_char 45 95 (replace_char 32 95 (gp_lower g (strip raw))) in
      case EntityType_of s of
        None \<Rightarrow> SUPPORTING_FACT
      | Some et \<Rightarrow>
          if et \<in> set PRIMARY_RESEARCH_ENTITY_TYPES then et
          else (case map_of LEGACY_MAP s of Some t \<Rightarrow> t | None \<Rightarrow> SUPPORTING_FACT))"

section \<open>Candidates\<close>

definition MAX_CONTENT_LEN :: nat where
  "MAX_CONTENT_LEN = 300"

definition MAX_ENTITIES_PER_CHUNK :: nat where
  "MAX_ENTITIES_PER_CHUNK = 24"

text \<open>
  \<^verbatim>\<open>float(v)\<close>: a \<^verbatim>\<open>TypeError\<close> or \<^verbatim>\<open>ValueError\<close> is \<open>Inr None\<close>; an integer that rounds to no float raises
  \<^verbatim>\<open>OverflowError\<close>, which is neither.
\<close>

definition py_float :: "gpt \<Rightarrow> json \<Rightarrow> exc + pyfloat option" where
  "py_float g v = (case v of
       JBool b \<Rightarrow> Inr (Some (Finite (if b then 1 else 0)))
     | JInt n \<Rightarrow> (if 2 ^ 1024 - 2 ^ 970 \<le> \<bar>n\<bar> then Inl (Other_error (u ''OverflowError''))
                  else Inr (Some (Finite (fl (of_int n)))))
     | JFloat x \<Rightarrow> Inr (Some x)
     | JStr s \<Rightarrow> Inr (gp_float g s)
     | _ \<Rightarrow> Inr None)"

text \<open>\<^verbatim>\<open>max(0.0, min(1.0, conf))\<close>; both keep their first argument when the comparison is false.\<close>

fun clamp_unit :: "pyfloat \<Rightarrow> rat" where
  "clamp_unit (Finite x) = max 0 (min 1 x)"
| "clamp_unit NaN = 1"
| "clamp_unit Plus_inf = 1"
| "clamp_unit Minus_inf = 0"

definition confidence_of :: "gpt \<Rightarrow> (pystr \<times> json) list \<Rightarrow> exc + rat" where
  "confidence_of g item =
     (case py_float g (case map_of item (u ''confidence'') of Some v \<Rightarrow> v | None \<Rightarrow> JFloat (Finite (3 / 4))) of
        Inl e \<Rightarrow> Inl e
      | Inr c \<Rightarrow> Inr (clamp_unit (case c of Some x \<Rightarrow> x | None \<Rightarrow> Finite (3 / 4))))"

definition gpt_tags :: "gpt \<Rightarrow> (pystr \<times> json) list \<Rightarrow> (pystr \<times> pystr option) list" where
  "gpt_tags g item =
     (let tags = (case map_of item (u ''tags'') of
            Some (JObj kvs) \<Rightarrow> map (\<lambda>(k, v). (k, if json_true v then Some (py_str g v) else None)) kvs
          | _ \<Rightarrow> [])
      in if u ''provider'' \<in> set (map fst tags) then tags else tags @ [(u ''provider'', Some (u ''gpt_extraction''))])"

definition UNTITLED_UNIT :: pystr where
  "UNTITLED_UNIT = [1045, 1076, 1080, 1085, 1080, 1094, 1072, 32, 1072, 1085, 1072, 1083, 1080, 1079, 1072]"

text \<open>The evidence names no span, which is read as the empty span at 0.\<close>

definition to_candidate :: "gpt \<Rightarrow> pystr \<Rightarrow> (pystr \<times> json) list \<Rightarrow> exc + candidate option" where
  "to_candidate g chunk item =
     (let content = item_str g item ''content''; ct = strip chunk in
      if content = [] then Inr None
      else if MAX_CONTENT_LEN < length content then Inr None
      else if ct \<noteq> [] \<and> content = ct then Inr None
      else case confidence_of g item of
        Inl e \<Rightarrow> Inl e
      | Inr c \<Rightarrow>
          (let title = item_str g item ''title''; quote = item_str g item ''evidence''
           in Inr (Some \<lparr>cd_type = coerce_entity_type g (case map_of item (u ''entity_type'') of
                   None \<Rightarrow> [] | Some v \<Rightarrow> (if json_true v then py_str g v else [])),
                cd_title = candidate_title (take 512 (if title = [] then UNTITLED_UNIT else title)),
                cd_content = content, cd_score = c, cd_tags = gpt_tags g item,
                cd_quote = (if quote \<noteq> [] then take 2000 quote else take 200 content), cd_span = (0, 0)\<rparr>)))"

fun is_object :: "json \<Rightarrow> bool" where
  "is_object (JObj _) = True"
| "is_object _ = False"

definition parse_entities_loose :: "json \<Rightarrow> (pystr \<times> json) list list" where
  "parse_entities_loose data =
     (case data of
        JObj kvs \<Rightarrow> (case map_of kvs (u ''entities'') of
            Some (JArr items) \<Rightarrow> concat (map (\<lambda>it. case it of JObj kv \<Rightarrow> [kv] | _ \<Rightarrow> []) items)
          | _ \<Rightarrow> [])
      | _ \<Rightarrow> [])"

fun to_candidates :: "gpt \<Rightarrow> pystr \<Rightarrow> (pystr \<times> json) list list \<Rightarrow> exc + candidate list" where
  "to_candidates g chunk [] = Inr []"
| "to_candidates g chunk (it # its) =
     (case to_candidate g chunk it of
        Inl e \<Rightarrow> Inl e
      | Inr c \<Rightarrow> (case to_candidates g chunk its of
            Inl e \<Rightarrow> Inl e
          | Inr cs \<Rightarrow> Inr (case c of Some x \<Rightarrow> x # cs | None \<Rightarrow> cs)))"

definition extract_from_chunk :: "gpt \<Rightarrow> pystr \<Rightarrow> nat \<Rightarrow> pystr option \<Rightarrow> exc + candidate list" where
  "extract_from_chunk g chunk ci hint =
     (case gp_complete g chunk ci hint of
        Api_error \<Rightarrow> Inr []
      | Reply None \<Rightarrow> Inr []
      | Reply (Some msg) \<Rightarrow>
          if msg = [] then Inr []
          else (case gp_loads g msg of
            None \<Rightarrow> Inr []
          | Some data \<Rightarrow> to_candidates g chunk (take MAX_ENTITIES_PER_CHUNK (parse_entities_loose data))))"

text \<open>The extraction service with this provider.\<close>

definition gpt_services :: "gpt \<Rightarrow> services \<Rightarrow> services" where
  "gpt_services g sv = sv\<lparr>sv_extract := extract_from_chunk g\<rparr>"

section \<open>Whatever the model answers\<close>

lemma clamp_unit_bounds: "0 \<le> clamp_unit x \<and> clamp_unit x \<le> 1"
  by (cases x) auto

lemma legacy_map_primary: "map_of LEGACY_MAP s = Some t \<Longrightarrow> t \<in> set PRIMARY_RESEARCH_ENTITY_TYPES"
  by (auto simp: LEGACY_MAP_def PRIMARY_RESEARCH_ENTITY_TYPES_def split: if_splits)

lemma coerce_primary: "coerce_entity_type g raw \<in> set PRIMARY_RESEARCH_ENTITY_TYPES"
proof -
  have "SUPPORTING_FACT \<in> set PRIMARY_RESEARCH_ENTITY_TYPES" by (simp add: PRIMARY_RESEARCH_ENTITY_TYPES_def)
  then show ?thesis
    using legacy_map_primary by (auto simp: coerce_entity_type_def Let_def split: option.split)
qed

definition proper :: "pystr \<Rightarrow> candidate \<Rightarrow> bool" where
  "proper chunk c \<longleftrightarrow> cd_type c \<in> set PRIMARY_RESEARCH_ENTITY_TYPES \<and> well_formed c
     \<and> cd_content c \<noteq> [] \<and> strip (cd_content c) = cd_content c \<and> cd_content c \<noteq> strip chunk
     \<and> cd_title c \<noteq> [] \<and> length (cd_title c) \<le> 512 \<and> u ''provider'' \<in> set (map fst (cd_tags c))"

lemma candidate_title_bounds: "candidate_title v \<noteq> [] \<and> length (candidate_title v) \<le> 512"
  by (simp add: candidate_title_def Let_def u_def)

lemma gpt_tags_provider: "u ''provider'' \<in> set (map fst (gpt_tags g item))"
  by (simp add: gpt_tags_def Let_def del: set_map)

lemma confidence_bounds: "confidence_of g item = Inr x \<Longrightarrow> 0 \<le> x \<and> x \<le> 1"
  using clamp_unit_bounds by (auto simp: confidence_of_def split: sum.splits)

lemma item_str_strip: "strip (item_str g item k) = item_str g item k"
  by (simp add: item_str_def)

lemma to_candidate_sel:
  assumes "to_candidate g chunk item = Inr (Some c)"
  shows "cd_content c = item_str g item ''content''" "cd_content c \<noteq> []" "length (cd_content c) \<le> 300"
    "cd_content c \<noteq> strip chunk" "\<exists>x. confidence_of g item = Inr x \<and> cd_score c = x"
    "\<exists>r. cd_type c = coerce_entity_type g r" "\<exists>t. cd_title c = candidate_title t" "cd_tags c = gpt_tags g item"
  using assms unfolding to_candidate_def Let_def
  by (auto simp: MAX_CONTENT_LEN_def split: if_splits sum.splits)

lemma to_candidate_proper:
  assumes "to_candidate g chunk item = Inr (Some c)"
  shows "proper chunk c"
proof -
  note s = to_candidate_sel [OF assms]
  have "strip (cd_content c) = cd_content c" unfolding s(1) by (rule item_str_strip)
  moreover have "0 \<le> cd_score c \<and> cd_score c \<le> 1" using s(5) confidence_bounds by auto
  moreover have "cd_type c \<in> set PRIMARY_RESEARCH_ENTITY_TYPES" using s(6) coerce_primary by auto
  moreover have "cd_title c \<noteq> [] \<and> length (cd_title c) \<le> 512" using s(7) candidate_title_bounds by metis
  moreover have "u ''provider'' \<in> set (map fst (cd_tags c))" unfolding s(8) by (rule gpt_tags_provider)
  ultimately show ?thesis using s(2,3,4) unfolding proper_def well_formed_def by simp
qed

lemma to_candidates_proper:
  "to_candidates g chunk its = Inr cs \<Longrightarrow> (\<forall>c \<in> set cs. proper chunk c) \<and> length cs \<le> length its"
proof (induction its arbitrary: cs)
  case (Cons it its)
  then show ?case
    by (auto split: sum.splits option.splits dest: to_candidate_proper)
qed simp

lemma gpt_proper:
  assumes "extract_from_chunk g chunk ci hint = Inr cs"
  shows "length cs \<le> 24 \<and> (\<forall>c \<in> set cs. proper chunk c)"
proof (cases "\<exists>data. to_candidates g chunk (take MAX_ENTITIES_PER_CHUNK (parse_entities_loose data)) = Inr cs")
  case True
  then obtain data where d: "to_candidates g chunk (take MAX_ENTITIES_PER_CHUNK (parse_entities_loose data)) = Inr cs" by blast
  from to_candidates_proper [OF d] show ?thesis by (simp add: MAX_ENTITIES_PER_CHUNK_def)
next
  case False
  then have "cs = []" using assms by (auto simp: extract_from_chunk_def split: reply.splits option.splits if_splits)
  then show ?thesis by simp
qed

lemma to_candidates_fails:
  "to_candidates g chunk its = Inl e \<Longrightarrow> e = Other_error (u ''OverflowError'')
     \<and> (\<exists>it n. it \<in> set its \<and> map_of it (u ''confidence'') = Some (JInt n) \<and> 2 ^ 1024 - 2 ^ 970 \<le> \<bar>n\<bar>)"
proof (induction its)
  case (Cons it its)
  show ?case
  proof (cases "to_candidate g chunk it")
    case (Inl e')
    then have "confidence_of g it = Inl e'" by (auto simp: to_candidate_def Let_def split: if_splits sum.splits)
    then have "e' = Other_error (u ''OverflowError'')
        \<and> (\<exists>n. map_of it (u ''confidence'') = Some (JInt n) \<and> 2 ^ 1024 - 2 ^ 970 \<le> \<bar>n\<bar>)"
      unfolding confidence_of_def py_float_def by (auto split: sum.splits option.splits json.splits if_splits)
    then show ?thesis using Cons.prems Inl by auto
  next
    case (Inr c)
    then show ?thesis using Cons by (auto split: sum.splits)
  qed
qed simp


text \<open>A model that answers one object with a legacy type, no title and an infinite confidence.\<close>

definition odd_answer :: gpt where
  "odd_answer = \<lparr>gp_complete = (\<lambda>_ _ _. Reply (Some (u ''x''))),
     gp_loads = (\<lambda>_. Some (JObj [(u ''entities'', JArr [JNull, JObj [(u ''entity_type'', JStr (u ''Person'')),
        (u ''content'', JStr (u '' fees rose '')), (u ''confidence'', JFloat Plus_inf)]])])),
     gp_str = (\<lambda>_. u ''?''), gp_float = (\<lambda>_. None), gp_lower = ascii_lower\<rparr>"

lemma odd_answer_candidate:
  "\<exists>c. extract_from_chunk odd_answer (u ''All the fees rose.'') 0 None = Inr [c] \<and> proper (u ''All the fees rose.'') c
     \<and> cd_type c = SUPPORTING_FACT \<and> cd_score c = 1"
proof -
  have "case extract_from_chunk odd_answer (u ''All the fees rose.'') 0 None of Inl e \<Rightarrow> False
      | Inr cs \<Rightarrow> map (\<lambda>c. (cd_type c, cd_score c)) cs = [(SUPPORTING_FACT, 1)]"
    by code_simp
  then obtain c where c: "extract_from_chunk odd_answer (u ''All the fees rose.'') 0 None = Inr [c]"
    "cd_type c = SUPPORTING_FACT" "cd_score c = 1"
    by (auto split: sum.splits)
  from gpt_proper [OF c(1)] c show ?thesis by simp
qed

text \<open>
  With this provider no property of its answers has to be assumed: a chunk with text gets one to
  eight entities with short content and a score between 0 and 1, whatever the model answers.
\<close>

theorem gpt_chunk_yields_one_to_eight:
  assumes "sv_extract (gpt_services g sv) (ch_text ch) (ch_index ch) hint = Inr raw" "chunk_body ch \<noteq> []"
  shows "finalize_chunk_entities sv ch raw hint \<noteq> []
     \<and> length (finalize_chunk_entities sv ch raw hint) \<le> 8
     \<and> (\<forall>c \<in> set (finalize_chunk_entities sv ch raw hint). well_formed c)"
proof -
  have "\<forall>c \<in> set raw. proper (ch_text ch) c"
    using assms(1) gpt_proper by (auto simp: gpt_services_def)
  then have "\<forall>c \<in> set raw. 0 \<le> cd_score c \<and> cd_score c \<le> 1" by (simp add: proper_def well_formed_def)
  then show ?thesis by (rule finalized_chunk [OF assms(2)])
qed

theorem gpt_chunk_yields_one_to_eight_witness:
  "\<exists>raw. sv_extract (gpt_services odd_answer quiet_services) (u ''Fees rose.'') 0 None = Inr raw
     \<and> finalize_chunk_entities quiet_services (plain_chunk 5 1 (u ''Fees rose.'')) raw None \<noteq> []
     \<and> length (finalize_chunk_entities quiet_services (plain_chunk 5 1 (u ''Fees rose.'')) raw None) \<le> 8"
proof -
  let ?ch = "plain_chunk 5 1 (u ''Fees rose.'')"
  have ch: "ch_text ?ch = u ''Fees rose.''" "ch_index ?ch = 0" by (simp_all add: plain_chunk_def)
  have "case sv_extract (gpt_services odd_answer quiet_services) (u ''Fees rose.'') 0 None of Inl e \<Rightarrow> False | Inr cs \<Rightarrow> True"
    by code_simp
  then obtain raw where r: "sv_extract (gpt_services odd_answer quiet_services) (ch_text ?ch) (ch_index ?ch) None = Inr raw"
    unfolding ch by (auto split: sum.splits)
  have "chunk_body ?ch \<noteq> []" by code_simp
  from gpt_chunk_yields_one_to_eight [OF r this] show ?thesis using r unfolding ch by blast
qed

end
