(* ===== verification/Report_Task.thy ===== *)
theory Report_Task
  imports Readiness Gpt_Extraction
begin

text \<open>
  Making the report of a project (\<^verbatim>\<open>workers/tasks/research_report.py\<close>, \<^verbatim>\<open>research_aggregate.py\<close> and the
  report rows of \<^verbatim>\<open>research_report_generation_service.py\<close>): a row is created as generating, the project
  is prepared and inspected, and the row ends ready or failed. Of a row the status and the progress
  keys of \<^verbatim>\<open>report_extras_json\<close> are kept, not its text.
\<close>

section \<open>Report rows\<close>

datatype report_status = RS_DRAFT | RS_GENERATING | RS_READY | RS_FAILED

record report =
  rp_id :: uuid
  rp_project :: uuid
  rp_status :: report_status
  rp_stage :: "pystr option"
  rp_error :: "(pystr \<times> pystr) option"
  rp_prep :: "prep option"
  rp_readiness :: "readiness option"

text \<open>The database with its reports, and a session over both.\<close>

type_synonym store = "world \<times> report list"
type_synonym 'a result = "(exc + 'a) \<times> store"

definition in_session :: "(store \<Rightarrow> 'a result) \<Rightarrow> store \<Rightarrow> 'a result" where
  "in_session body s =
     (case body s of
        (Inl e, s') \<Rightarrow> (Inl e, (rollback (fst s) (fst s'), snd s))
      | (Inr x, s') \<Rightarrow> (Inr x, s'))"

definition on_world :: "(world \<Rightarrow> 'a outcome) \<Rightarrow> store \<Rightarrow> 'a result" where
  "on_world f s = (case f (fst s) of (r, w) \<Rightarrow> (r, (w, snd s)))"

definition bind_result :: "'a result \<Rightarrow> ('a \<Rightarrow> store \<Rightarrow> 'b result) \<Rightarrow> 'b result" where
  "bind_result r f = (case r of (Inl e, s) \<Rightarrow> (Inl e, s) | (Inr x, s) \<Rightarrow> f x s)"

definition get_report :: "store \<Rightarrow> uuid \<Rightarrow> report option" where
  "get_report s i = get_row rp_id i (snd s)"

definition upd_report :: "uuid \<Rightarrow> (report \<Rightarrow> report) \<Rightarrow> store \<Rightarrow> store" where
  "upd_report i f s = (fst s, upd_row rp_id i f (snd s))"

definition new_report :: "uuid \<Rightarrow> uuid \<Rightarrow> pystr \<Rightarrow> report" where
  "new_report i pid stage = \<lparr>rp_id = i, rp_project = pid, rp_status = RS_GENERATING, rp_stage = Some stage,
     rp_error = None, rp_prep = None, rp_readiness = None\<rparr>"

definition add_report :: "uuid \<Rightarrow> pystr \<Rightarrow> store \<Rightarrow> uuid \<times> store" where
  "add_report pid stage s = (let i = next_id (fst s) in
     (i, ((fst s)\<lparr>next_id := i + 1\<rparr>, snd s @ [new_report i pid stage])))"

definition create_generating_report_sync :: "uuid \<Rightarrow> pystr \<Rightarrow> store \<Rightarrow> uuid result" where
  "create_generating_report_sync pid stage s =
     (if pid \<notin> set (projects (fst s)) then (Inl (Value_error (u ''project_not_found'')), s)
      else (let (i, s') = add_report pid stage s in (Inr i, s')))"

text \<open>\<open>extra\<close> sets further keys.\<close>

definition mark_report_stage_sync :: "uuid \<Rightarrow> pystr \<Rightarrow> (report \<Rightarrow> report) \<Rightarrow> store \<Rightarrow> store" where
  "mark_report_stage_sync i stage extra s =
     (case get_report s i of None \<Rightarrow> s
      | Some _ \<Rightarrow> upd_report i (\<lambda>r. (extra (r\<lparr>rp_stage := Some stage\<rparr>))\<lparr>rp_status := RS_GENERATING\<rparr>) s)"

definition mark_report_failed_sync :: "uuid \<Rightarrow> pystr \<Rightarrow> pystr \<Rightarrow> (report \<Rightarrow> report) \<Rightarrow> store \<Rightarrow> store" where
  "mark_report_failed_sync i code msg extra s =
     (case get_report s i of None \<Rightarrow> s
      | Some _ \<Rightarrow> upd_report i (\<lambda>r. (extra (r\<lparr>rp_stage := Some (u ''failed''), rp_error := Some (code, take 1000 msg)\<rparr>))
            \<lparr>rp_status := RS_FAILED\<rparr>) s)"

section \<open>Generation\<close>

text \<open>
  The language model and the assembly of its input and of its answer: \<open>lm_input\<close> is what building
  the prompt raises, \<open>lm_call\<close> the answer to an attempt, \<open>lm_errors\<close> the validation, \<open>lm_write\<close> what
  storing the answer's sections raises, \<open>lm_repairs\<close> the setting \<^verbatim>\<open>pr_report_max_repair_attempts\<close>.
\<close>

record llm =
  lm_input :: "uuid \<Rightarrow> world \<Rightarrow> exc option"
  lm_call :: "nat \<Rightarrow> exc + pystr option"
  lm_loads :: "pystr \<Rightarrow> json option"
  lm_errors :: "json \<Rightarrow> pystr list"
  lm_write :: "json \<Rightarrow> exc option"
  lm_repairs :: nat

definition llm_attempt :: "llm \<Rightarrow> nat \<Rightarrow> exc + json" where
  "llm_attempt lm k =
     (case lm_call lm k of
        Inl e \<Rightarrow> Inl e
      | Inr raw \<Rightarrow>
          (if text_of raw = [] then Inl (Other_error (u ''empty_report_llm_response''))
           else case lm_loads lm (text_of raw) of
             None \<Rightarrow> Inl (Other_error (u ''invalid_report_json''))
           | Some data \<Rightarrow> Inr data))"

text \<open>\<open>n\<close> more attempts after attempt \<open>k\<close>; the last answer is used even if it is not valid.\<close>

fun llm_loop :: "llm \<Rightarrow> nat \<Rightarrow> nat \<Rightarrow> exc + json" where
  "llm_loop lm k n =
     (case llm_attempt lm k of
        Inl e \<Rightarrow> Inl e
      | Inr data \<Rightarrow>
          if lm_errors lm data = [] then Inr data
          else (case n of 0 \<Rightarrow> Inr data | Suc m \<Rightarrow> llm_loop lm (k + 1) m))"

declare llm_loop.simps [simp del]

definition generate_for_project_sync :: "env \<Rightarrow> llm \<Rightarrow> uuid \<Rightarrow> uuid option \<Rightarrow> store \<Rightarrow> uuid result" where
  "generate_for_project_sync env lm pid rid s =
     (if pid \<notin> set (projects (fst s)) then (Inl (Value_error (u ''project_not_found'')), s)
      else if openai_missing env then (Inl (Value_error (u ''openai_api_key_required_for_research_report'')), s)
      else case lm_input lm pid (fst s) of
        Some e \<Rightarrow> (Inl e, s)
      | None \<Rightarrow>
         (case (case rid of
                  Some i \<Rightarrow> (case get_report s i of
                      None \<Rightarrow> (Inl (Value_error (u ''report_not_found'')), s)
                    | Some _ \<Rightarrow> (Inr i, upd_report i (\<lambda>r. r\<lparr>rp_status := RS_GENERATING,
                          rp_stage := Some (u ''generating_report'')\<rparr>) s))
                | None \<Rightarrow> (let (i, s') = add_report pid (u ''generating_report'') s in (Inr i, s'))) of
            (Inl e, s1) \<Rightarrow> (Inl e, s1)
          | (Inr i, s1) \<Rightarrow>
             (case llm_loop lm 0 (lm_repairs lm) of
                Inl e \<Rightarrow> (Inl e, upd_report i (\<lambda>r. r\<lparr>rp_status := RS_FAILED\<rparr>) s1)
              | Inr data \<Rightarrow>
                 (case lm_write lm data of
                    Some e \<Rightarrow> (Inl e, s1)
                  | None \<Rightarrow> (Inr i, upd_report i (\<lambda>r. r\<lparr>rp_status := RS_READY, rp_stage := None, rp_error := None,
                        rp_prep := None, rp_readiness := None\<rparr>) s1)))))"

section \<open>The tasks\<close>

datatype report_result =
    Report_ok uuid
  | Report_missing
  | Report_blocked pystr
  | Report_openai_required

definition generate_research_report :: "env \<Rightarrow> llm \<Rightarrow> uuid \<Rightarrow> store \<Rightarrow> report_result result" where
  "generate_research_report env lm pid s =
     (case in_session (generate_for_project_sync env lm pid None) s of
        (Inr i, s1) \<Rightarrow> (Inr (Report_ok i), s1)
      | (Inl e, s1) \<Rightarrow>
          (if e = Value_error (u ''project_not_found'') then (Inr Report_missing, s1)
           else if e = Value_error (u ''openai_api_key_required_for_research_report'') then (Inr Report_openai_required, s1)
           else (Inl e, s1)))"

definition first_reason :: "pystr list \<Rightarrow> string \<Rightarrow> pystr" where
  "first_reason rs fallback = (case rs of [] \<Rightarrow> u fallback | r # _ \<Rightarrow> r)"

text \<open>The second session: \<open>Some code\<close> when the report is blocked.\<close>

definition prepare_report :: "env \<Rightarrow> services \<Rightarrow> nat \<Rightarrow> bool \<Rightarrow> uuid \<Rightarrow> uuid \<Rightarrow> store \<Rightarrow> pystr option result" where
  "prepare_report env sv cap auto pid rid s =
     bind_result (on_world (prepare_project_for_pr_report_sync env sv pid cap auto) s) (\<lambda>p s1.
       if pr_blocked p then
         (let code = first_reason (pr_reasons p) ''preparation_blocked''
          in (Inr (Some code), mark_report_failed_sync rid code
                (u ''PR analysis preparation was blocked to avoid excessive token usage.'')
                (\<lambda>r. r\<lparr>rp_prep := Some p\<rparr>) s1))
       else (let rd = inspect_project_pr_readiness_sync env pid (fst s1) in
         if \<not> rd_ready rd then
           (let code = first_reason (rd_blocking rd) ''not_ready_for_report''
            in (Inr (Some code), mark_report_failed_sync rid code
                  (u ''Not enough prepared PR signal to generate a useful report.'')
                  (\<lambda>r. r\<lparr>rp_prep := Some p, rp_readiness := Some rd\<rparr>) s1))
         else (Inr None, mark_report_stage_sync rid (u ''generating_report'')
                  (\<lambda>r. r\<lparr>rp_prep := Some p, rp_readiness := Some rd\<rparr>) s1)))"

fun exc_text :: "exc \<Rightarrow> pystr" where
  "exc_text (Value_error m) = m"
| "exc_text (Other_error r) = r"

definition report_failed :: "uuid option \<Rightarrow> pystr \<Rightarrow> pystr \<Rightarrow> store \<Rightarrow> store" where
  "report_failed rid code msg s = (case rid of None \<Rightarrow> s | Some i \<Rightarrow> mark_report_failed_sync i code msg id s)"

definition handle_report_error :: "uuid option \<Rightarrow> exc \<Rightarrow> store \<Rightarrow> report_result result" where
  "handle_report_error rid e s =
     (if e = Value_error (u ''project_not_found'') then (Inr Report_missing, s)
      else if e = Value_error (u ''openai_api_key_required_for_research_report'') then
        (Inr Report_openai_required, report_failed rid (u ''openai_required'')
           (u ''OPENAI_API_KEY is required for PR report generation.'') s)
      else (case e of
          Value_error m \<Rightarrow> (Inl e, report_failed rid (take 120 m) m s)
        | Other_error r \<Rightarrow> (Inl e, report_failed rid (u ''unexpected_error'') r s)))"

definition prepare_and_generate_research_report ::
    "env \<Rightarrow> services \<Rightarrow> llm \<Rightarrow> nat \<Rightarrow> bool \<Rightarrow> uuid \<Rightarrow> store \<Rightarrow> report_result result" where
  "prepare_and_generate_research_report env sv lm cap auto pid s =
     (case in_session (create_generating_report_sync pid (u ''preparing'')) s of
        (Inl e, s1) \<Rightarrow> handle_report_error None e s1
      | (Inr rid, s1) \<Rightarrow>
         (case in_session (prepare_report env sv cap auto pid rid) s1 of
            (Inl e, s2) \<Rightarrow> handle_report_error (Some rid) e s2
          | (Inr (Some code), s2) \<Rightarrow> (Inr (Report_blocked code), s2)
          | (Inr None, s2) \<Rightarrow>
             (case in_session (generate_for_project_sync env lm pid (Some rid)) s2 of
                (Inl e, s3) \<Rightarrow> handle_report_error (Some rid) e s3
              | (Inr i, s3) \<Rightarrow> (Inr (Report_ok i), s3))))"

section \<open>Aggregation and summary\<close>

definition aggregate_project :: "env \<Rightarrow> uuid \<Rightarrow> world \<Rightarrow> aggregation_payload outcome" where
  "aggregate_project env pid w =
     session_scope (\<lambda>w. case aggregate_project_sync env pid w of (p, w') \<Rightarrow> (Inr p, w')) w"

datatype summary_result = Summary_ok uuid | Summary_missing

text \<open>\<open>summary\<close> is the summary provider. The handler is inside the session, so a missing project commits.\<close>

definition generate_project_summary ::
    "env \<Rightarrow> services \<Rightarrow> (uuid \<Rightarrow> world \<Rightarrow> uuid outcome) \<Rightarrow> uuid \<Rightarrow> world \<Rightarrow> summary_result outcome" where
  "generate_project_summary env sv summary pid w =
     session_scope (\<lambda>w.
       case and_then (ensure_project_ready_for_report_sync env sv pid w) (\<lambda>_. summary pid) of
         (Inr i, w1) \<Rightarrow> (Inr (Summary_ok i), w1)
       | (Inl e, w1) \<Rightarrow> if e = Value_error (u ''project_not_found'') then (Inr Summary_missing, w1) else (Inl e, w1)) w"

section \<open>Which errors preparation can end with\<close>

abbreviation PNF :: exc where
  "PNF \<equiv> Value_error (u ''project_not_found'')"

lemma and_then_error:
  assumes "fst (and_then p f) = Inl e" "fst p \<noteq> Inl e" "\<And>x w'. p = (Inr x, w') \<Longrightarrow> fst (f x w') \<noteq> Inl e"
  shows False
  using assms by (cases p; cases "fst p") (auto simp: and_then_def)

lemma chunking_errors:
  "fst (chunk_source_document_sync env sv did Fixed w) \<noteq> Inl PNF"
  "fst (chunk_transcript_sync env sv tid Fixed w) \<noteq> Inl PNF"
  by (auto simp: chunk_source_document_sync_def chunk_transcript_sync_def split_parts_def Let_def
      split: option.splits if_splits)

lemma extract_chunks_error:
  assumes "\<forall>t i h. sv_extract sv t i h \<noteq> Inl PNF"
  shows "fst (extract_for_chunks sv hint chs n w) \<noteq> Inl PNF"
  using extract_for_chunks_errors [of sv hint chs n w PNF] assms by (metis prod.collapse)

lemma extraction_errors:
  assumes "\<forall>t i h. sv_extract sv t i h \<noteq> Inl PNF"
  shows "fst (extract_for_document_sync env sv did w) \<noteq> Inl PNF" "fst (extract_for_audio_sync env sv aid w) \<noteq> Inl PNF"
  using extract_chunks_error [OF assms] chunking_errors
  by (auto simp: extract_for_document_sync_def extract_for_audio_sync_def Let_def split: option.splits if_splits
      elim!: and_then_error)

lemma for_each_error:
  assumes "\<And>x w. fst (f x w) \<noteq> Inl e"
  shows "fst (for_each f xs w) \<noteq> Inl e"
  using assms by (induction xs arbitrary: w) (auto elim!: and_then_error)

lemma preparation_errors:
  assumes "\<forall>t i h. sv_extract sv t i h \<noteq> Inl PNF"
  shows "fst (prepare_project_for_pr_report_sync env sv pid cap auto w) \<noteq> Inl PNF"
proof -
  have d: "fst (prepare_document env sv d w) \<noteq> Inl PNF" for d w
    using chunking_errors by (auto simp: prepare_document_def ensure_document_chunks_def elim!: and_then_error)
  have a: "fst (prepare_audio env sv a w) \<noteq> Inl PNF" for a w
    using chunking_errors by (auto simp: prepare_audio_def ensure_audio_chunks_def split: option.splits elim!: and_then_error)
  have x: "fst (extract_entry (extract_for_document_sync env sv) e w) \<noteq> Inl PNF"
    "fst (extract_entry (extract_for_audio_sync env sv) e w) \<noteq> Inl PNF" for e w
    using extraction_errors [OF assms] by (auto simp: extract_entry_def elim!: and_then_error)
  have "fst (for_each (prepare_document env sv) xs w) \<noteq> Inl PNF"
    "fst (for_each (prepare_audio env sv) ys w) \<noteq> Inl PNF"
    "fst (for_each (extract_entry (extract_for_document_sync env sv)) es w) \<noteq> Inl PNF"
    "fst (for_each (extract_entry (extract_for_audio_sync env sv)) es w) \<noteq> Inl PNF" for xs ys es w
    by (rule for_each_error, rule d a x(1) x(2))+
  then show ?thesis
    by (auto simp: prepare_project_for_pr_report_sync_def Let_def split_def elim!: and_then_error split: if_splits)
qed

section \<open>No report is left generating\<close>

lemma get_upd_report:
  "(\<And>r. rp_id (f r) = rp_id r) \<Longrightarrow> get_report (upd_report i f s) i = map_option f (get_report s i)"
  by (simp add: get_report_def upd_report_def get_upd_row)

lemma upd_report_world [simp]: "fst (upd_report i f s) = fst s"
  by (simp add: upd_report_def)

lemma mark_failed_status:
  assumes "get_report s i = Some r" "\<And>r. rp_id (extra r) = rp_id r"
  shows "\<exists>r'. get_report (mark_report_failed_sync i code msg extra s) i = Some r' \<and> rp_status r' = RS_FAILED
     \<and> rp_id r' = i"
proof -
  have "rp_id r = i" using assms(1) by (auto simp: get_report_def dest: get_row_SomeD)
  then show ?thesis by (simp add: mark_report_failed_sync_def assms get_upd_report)
qed

lemma mark_stage_status:
  assumes "get_report s i = Some r" "\<And>r. rp_id (extra r) = rp_id r"
  shows "\<exists>r'. get_report (mark_report_stage_sync i stage extra s) i = Some r'"
  using assms by (simp add: mark_report_stage_sync_def get_upd_report)

lemma in_session_error: "in_session body s = (Inl e, s') \<Longrightarrow> snd s' = snd s \<and> (\<exists>v. body s = (Inl e, v))"
  by (auto simp: in_session_def split: prod.splits sum.splits)

lemma in_session_ok: "in_session body s = (Inr x, s') \<longleftrightarrow> body s = (Inr x, s')"
  by (auto simp: in_session_def split: prod.splits sum.splits)

lemma on_world_reports: "on_world f s = (r, s') \<Longrightarrow> snd s' = snd s \<and> f (fst s) = (r, fst s')"
  by (auto simp: on_world_def split: prod.splits)

lemma prepare_report_ends:
  assumes "prepare_report env sv cap auto pid rid s = (Inr res, s')" "get_report s rid = Some r"
  shows "\<exists>r'. get_report s' rid = Some r' \<and> (res = None \<or> rp_status r' = RS_FAILED)
     \<and> (res = None \<longrightarrow> rd_ready (inspect_project_pr_readiness_sync env pid (fst s')))"
proof -
  obtain p s1 where o: "on_world (prepare_project_for_pr_report_sync env sv pid cap auto) s = (Inr p, s1)"
    using assms(1) by (auto simp: prepare_report_def bind_result_def split: prod.splits sum.splits)
  have g: "get_report s1 rid = Some r" using assms(2) on_world_reports [OF o] by (simp add: get_report_def)
  have w: "fst (mark_report_stage_sync rid st ex s1) = fst s1" for st ex
    by (simp add: mark_report_stage_sync_def split: option.split)
  have f: "\<exists>r'. get_report (mark_report_failed_sync rid code msg (\<lambda>r. r\<lparr>rp_prep := q\<rparr>) s1) rid = Some r' \<and> rp_status r' = RS_FAILED"
    "\<exists>r'. get_report (mark_report_failed_sync rid code msg (\<lambda>r. r\<lparr>rp_prep := q, rp_readiness := d\<rparr>) s1) rid = Some r' \<and> rp_status r' = RS_FAILED"
    "\<exists>r'. get_report (mark_report_stage_sync rid code (\<lambda>r. r\<lparr>rp_prep := q, rp_readiness := d\<rparr>) s1) rid = Some r'"
    for code msg q d
    using mark_failed_status [OF g, of "\<lambda>r. r\<lparr>rp_prep := q\<rparr>" code msg]
      mark_failed_status [OF g, of "\<lambda>r. r\<lparr>rp_prep := q, rp_readiness := d\<rparr>" code msg]
      mark_stage_status [OF g, of "\<lambda>r. r\<lparr>rp_prep := q, rp_readiness := d\<rparr>" code] by auto
  show ?thesis
    using assms(1) o f by (auto simp: prepare_report_def bind_result_def Let_def w split: if_splits)
qed

lemma prepare_report_error:
  assumes "\<forall>t i h. sv_extract sv t i h \<noteq> Inl PNF" "prepare_report env sv cap auto pid rid s = (Inl e, s')"
  shows "e \<noteq> PNF"
  using assms(2) preparation_errors [OF assms(1), of env pid cap auto "fst s"]
  by (auto simp: prepare_report_def bind_result_def Let_def on_world_def split: prod.splits sum.splits if_splits)

text \<open>What the model and the assembly around it raise is never the error for a missing project.\<close>

definition llm_ok :: "llm \<Rightarrow> bool" where
  "llm_ok lm \<longleftrightarrow> (\<forall>p w. lm_input lm p w \<noteq> Some PNF) \<and> (\<forall>k. lm_call lm k \<noteq> Inl PNF) \<and> (\<forall>d. lm_write lm d \<noteq> Some PNF)"

lemma llm_loop_error: "llm_ok lm \<Longrightarrow> llm_loop lm k n \<noteq> Inl PNF"
proof (induction lm k n rule: llm_loop.induct)
  case (1 lm k n)
  have "llm_attempt lm k \<noteq> Inl PNF"
    using 1(2) by (auto simp: llm_attempt_def llm_ok_def split: sum.splits option.splits)
  then show ?case using 1 by (subst llm_loop.simps) (auto split: sum.splits nat.splits)
qed

lemma generate_ends:
  assumes "generate_for_project_sync env lm pid (Some rid) s = (res, s')" "get_report s rid = Some r"
    "pid \<in> set (projects (fst s))" "llm_ok lm"
  shows "(\<exists>e. res = Inl e \<and> e \<noteq> PNF)
     \<or> res = Inr rid \<and> (\<exists>r'. get_report s' rid = Some r' \<and> rp_status r' = RS_READY)"
proof -
  let ?s1 = "upd_report rid (\<lambda>r. r\<lparr>rp_status := RS_GENERATING, rp_stage := Some (u ''generating_report'')\<rparr>) s"
  have g: "get_report ?s1 rid = Some (r\<lparr>rp_status := RS_GENERATING, rp_stage := Some (u ''generating_report'')\<rparr>)"
    using assms(2) by (simp add: get_upd_report)
  have l: "llm_loop lm 0 (lm_repairs lm) \<noteq> Inl PNF" by (rule llm_loop_error [OF assms(4)])
  show ?thesis
    using assms l g unfolding generate_for_project_sync_def llm_ok_def
    by (auto simp: get_upd_report split: if_splits option.splits sum.splits)
qed

text \<open>
  C19. A task that makes a report ends with its row ready or failed, never generating, whatever the
  preparation, the diagnostics and the language model do; the row is ready exactly when the task
  answers that it is, and then the diagnostics of the prepared project allowed the report.
\<close>

theorem report_never_left_generating:
  assumes "prepare_and_generate_research_report env sv lm cap auto pid s = (res, s')"
    "pid \<in> set (projects (fst s))" "\<forall>r \<in> set (snd s). rp_id r \<noteq> next_id (fst s)"
    "\<forall>t i h. sv_extract sv t i h \<noteq> Inl PNF" "llm_ok lm"
  shows "\<exists>r. get_report s' (next_id (fst s)) = Some r \<and> rp_status r \<in> {RS_READY, RS_FAILED}
     \<and> (rp_status r = RS_READY \<longleftrightarrow> res = Inr (Report_ok (next_id (fst s))))"
proof -
  define rid where "rid = next_id (fst s)"
  define s1 where "s1 = ((fst s)\<lparr>next_id := rid + 1\<rparr>, snd s @ [new_report rid pid (u ''preparing'')])"
  have c: "in_session (create_generating_report_sync pid (u ''preparing'')) s = (Inr rid, s1)"
    using assms(2) by (simp add: in_session_def create_generating_report_sync_def add_report_def Let_def rid_def s1_def)
  have "get_row rp_id rid (snd s) = None" using assms(3) by (auto simp: get_row_None_iff rid_def)
  then have g1: "get_report s1 rid = Some (new_report rid pid (u ''preparing''))"
    by (simp add: get_report_def s1_def get_row_append) (simp add: get_row_def new_report_def)
  have fail: "\<exists>r'. get_report v' rid = Some r' \<and> rp_status r' = RS_FAILED" "res' \<noteq> Inr (Report_ok rid)"
    if "handle_report_error (Some rid) e v = (res', v')" "e \<noteq> PNF" "get_report v rid = Some r" for e v v' res' r
    using that mark_failed_status [OF that(3), of id]
    by (auto simp: handle_report_error_def report_failed_def split: if_splits exc.splits)
  have ended: ?thesis if "handle_report_error (Some rid) e v = (res, s')" "e \<noteq> PNF" "get_report v rid = Some r" for e v r
    using fail [OF that] unfolding rid_def [symmetric] by auto
  obtain r2 s2 where p: "in_session (prepare_report env sv cap auto pid rid) s1 = (r2, s2)" by (metis surj_pair)
  show ?thesis
  proof (cases r2)
    case (Inl e)
    note ie = in_session_error [OF p [unfolded Inl]]
    then have "e \<noteq> PNF" using prepare_report_error [OF assms(4)] by blast
    moreover have "get_report s2 rid = Some (new_report rid pid (u ''preparing''))"
      using g1 ie by (simp add: get_report_def)
    moreover have "handle_report_error (Some rid) e s2 = (res, s')"
      using assms(1) c p Inl by (simp add: prepare_and_generate_research_report_def)
    ultimately show ?thesis using ended by blast
  next
    case (Inr code)
    then have b: "prepare_report env sv cap auto pid rid s1 = (Inr code, s2)" using p by (simp add: in_session_ok)
    obtain r' where r': "get_report s2 rid = Some r'" "code = None \<or> rp_status r' = RS_FAILED"
      "code = None \<longrightarrow> rd_ready (inspect_project_pr_readiness_sync env pid (fst s2))"
      using prepare_report_ends [OF b g1] by blast
    show ?thesis
    proof (cases code)
      case None
      have pid: "pid \<in> set (projects (fst s2))"
        using r'(3) None by (auto simp: inspect_project_pr_readiness_sync_def missing_project_def split: if_splits)
      obtain r3 s3 where q: "in_session (generate_for_project_sync env lm pid (Some rid)) s2 = (r3, s3)" by (metis surj_pair)
      have res: "(res, s') = (case r3 of Inl e \<Rightarrow> handle_report_error (Some rid) e s3 | Inr i \<Rightarrow> (Inr (Report_ok i), s3))"
        using assms(1) c p q Inr None by (auto simp: prepare_and_generate_research_report_def split: sum.split)
      show ?thesis
      proof (cases r3)
        case (Inl e)
        note ie = in_session_error [OF q [unfolded Inl]]
        then have "e \<noteq> PNF" using generate_ends [OF _ r'(1) pid assms(5)] by blast
        moreover have "get_report s3 rid = Some r'" using r'(1) ie by (simp add: get_report_def)
        moreover have "handle_report_error (Some rid) e s3 = (res, s')" using res Inl by simp
        ultimately show ?thesis using ended by blast
      next
        case (Inr i)
        then have "generate_for_project_sync env lm pid (Some rid) s2 = (Inr i, s3)" using q by (simp add: in_session_ok)
        from generate_ends [OF this r'(1) pid assms(5)] show ?thesis using res Inr unfolding rid_def by auto
      qed
    next
      case (Some x)
      then show ?thesis using assms(1) c p Inr r' by (auto simp: prepare_and_generate_research_report_def rid_def)
    qed
  qed
qed

definition silent_llm :: llm where
  "silent_llm = \<lparr>lm_input = (\<lambda>_ _. None), lm_call = (\<lambda>_. Inr None), lm_loads = (\<lambda>_. None),
     lm_errors = (\<lambda>_. []), lm_write = (\<lambda>_. None), lm_repairs = 1\<rparr>"

theorem report_never_left_generating_witness:
  "\<exists>r. get_report (snd (prepare_and_generate_research_report plain_env quiet_services silent_llm 10 True 7 (silent_audio, []))) 1000
      = Some r \<and> rp_status r = RS_FAILED"
proof -
  let ?s = "(silent_audio, []) :: store"
  obtain res s' where r: "prepare_and_generate_research_report plain_env quiet_services silent_llm 10 True 7 ?s = (res, s')"
    by (metis surj_pair)
  have n: "next_id (fst ?s) = 1000" "7 \<in> set (projects (fst ?s))" by (simp_all add: silent_audio_def empty_world_def)
  have sv: "\<forall>t i h. sv_extract quiet_services t i h \<noteq> Inl PNF" by (simp add: quiet_services_def)
  have lm: "llm_ok silent_llm" by (simp add: llm_ok_def silent_llm_def)
  have e: "\<forall>x \<in> set (snd ?s). rp_id x \<noteq> next_id (fst ?s)" by simp
  have "fst (prepare_and_generate_research_report plain_env quiet_services silent_llm 10 True 7 ?s)
      = Inl (Value_error (u ''transcript_no_text''))"
    by code_simp
  then have "res = Inl (Value_error (u ''transcript_no_text''))" using r by simp
  then show ?thesis using report_never_left_generating [OF r n(2) e sv lm] r unfolding n by auto
qed

end
