(* ===== verification/Utf8.thy ===== *)
theory Utf8
  imports Prelude
begin

text \<open>
  \<^verbatim>\<open>str.encode("utf-8")\<close> and the strict \<^verbatim>\<open>bytes.decode("utf-8")\<close> of the Python library, as uploads and
  transcript downloads use them, and that they are inverse to each other.
\<close>

section \<open>UTF-8\<close>

definition cont_byte :: "nat \<Rightarrow> bool" where
  "cont_byte b \<longleftrightarrow> 128 \<le> b \<and> b < 192"

text \<open>\<^verbatim>\<open>str.encode\<close>, one code point; a surrogate or a number that is no code point has none.\<close>

definition utf8_char :: "nat \<Rightarrow> bytes option" where
  "utf8_char c =
     (if c < 128 then Some [c]
      else if c < 2048 then Some [192 + c div 64, 128 + c mod 64]
      else if 55296 \<le> c \<and> c < 57344 then None
      else if c < 65536 then Some [224 + c div 4096, 128 + c div 64 mod 64, 128 + c mod 64]
      else if c < 1114112 then
        Some [240 + c div 262144, 128 + c div 4096 mod 64, 128 + c div 64 mod 64, 128 + c mod 64]
      else None)"

fun utf8_encode :: "pystr \<Rightarrow> bytes option" where
  "utf8_encode [] = Some []"
| "utf8_encode (c # s) =
     (case utf8_char c of None \<Rightarrow> None | Some bs \<Rightarrow> map_option ((@) bs) (utf8_encode s))"

text \<open>The strict decoder: one code point off the front, no overlong form and no surrogate.\<close>

fun utf8_step :: "bytes \<Rightarrow> (nat \<times> bytes) option" where
  "utf8_step [] = None"
| "utf8_step (a # r) =
     (if a < 128 then Some (a, r)
      else if 194 \<le> a \<and> a < 224 then
        (case r of b # r' \<Rightarrow> if cont_byte b then Some ((a - 192) * 64 + (b - 128), r') else None | _ \<Rightarrow> None)
      else if 224 \<le> a \<and> a < 240 then
        (case r of b # c # r' \<Rightarrow>
           (let n = (a - 224) * 4096 + (b - 128) * 64 + (c - 128) in
            if cont_byte b \<and> cont_byte c \<and> 2048 \<le> n \<and> \<not> (55296 \<le> n \<and> n < 57344) then Some (n, r') else None)
         | _ \<Rightarrow> None)
      else if 240 \<le> a \<and> a < 245 then
        (case r of b # c # d # r' \<Rightarrow>
           (let n = (a - 240) * 262144 + (b - 128) * 4096 + (c - 128) * 64 + (d - 128) in
            if cont_byte b \<and> cont_byte c \<and> cont_byte d \<and> 65536 \<le> n \<and> n < 1114112 then Some (n, r') else None)
         | _ \<Rightarrow> None)
      else None)"

lemma utf8_step_shorter: "utf8_step bs = Some (c, r) \<Longrightarrow> length r < length bs"
  by (cases bs) (auto simp: Let_def split: if_splits list.splits)

function utf8_decode :: "bytes \<Rightarrow> pystr option" where
  "utf8_decode bs =
     (if bs = [] then Some []
      else case utf8_step bs of None \<Rightarrow> None | Some (c, r) \<Rightarrow> map_option ((#) c) (utf8_decode r))"
  by auto
termination
  by (relation "measure length") (auto dest: utf8_step_shorter)

declare utf8_decode.simps [simp del] utf8_step.simps [simp del]

subsection \<open>Encoding and strict decoding are inverse\<close>

lemma radix64:
  fixes x y :: nat
  assumes "y < 64"
  shows "(x * 64 + y) div 64 = x" "(x * 64 + y) mod 64 = y"
  using assms by simp_all

lemma radix_bound: "(x::nat) < 16 \<Longrightarrow> y < 64 \<Longrightarrow> z < 64 \<Longrightarrow> (x * 64 + y) * 64 + z < 65536"
  by simp

lemma div_chain: "(c::nat) div 4096 = c div 64 div 64" "c div 262144 = c div 64 div 64 div 64"
  by (simp_all add: div_mult2_eq [symmetric])

lemma radix3: "(c::nat) div 4096 * 4096 + c div 64 mod 64 * 64 + c mod 64 = c"
proof -
  have "c = c div 64 * 64 + c mod 64" "c div 64 = c div 64 div 64 * 64 + c div 64 mod 64" by simp_all
  then show ?thesis unfolding div_chain by linarith
qed

lemma radix4: "(c::nat) div 262144 * 262144 + c div 4096 mod 64 * 4096 + c div 64 mod 64 * 64 + c mod 64 = c"
proof -
  have "c = c div 64 * 64 + c mod 64" "c div 64 = c div 64 div 64 * 64 + c div 64 mod 64"
    "c div 64 div 64 = c div 64 div 64 div 64 * 64 + c div 64 div 64 mod 64" by simp_all
  then show ?thesis unfolding div_chain by linarith
qed

lemma cont_byte_of: "cont_byte (128 + x mod 64)"
proof -
  have "x mod 64 < 64" by simp
  then show ?thesis unfolding cont_byte_def by linarith
qed

lemma utf8_step_char:
  assumes "utf8_char c = Some p"
  shows "utf8_step (p @ r) = Some (c, r)"
proof -
  consider (1) "c < 128" | (2) "128 \<le> c" "c < 2048" | (3) "2048 \<le> c" "c < 65536" "\<not> (55296 \<le> c \<and> c < 57344)"
    | (4) "65536 \<le> c" "c < 1114112" using assms by (auto simp: utf8_char_def split: if_splits)
  then show ?thesis
  proof cases
    case 1 then show ?thesis using assms by (auto simp: utf8_char_def utf8_step.simps)
  next
    case 2
    then have "2 \<le> c div 64" "c div 64 < 32" by linarith+
    moreover have "p = [192 + c div 64, 128 + c mod 64]" using assms 2 by (simp add: utf8_char_def)
    ultimately show ?thesis by (simp add: utf8_step.simps cont_byte_of)
  next
    case 3
    then have "c div 4096 < 16" by linarith
    moreover have "p = [224 + c div 4096, 128 + c div 64 mod 64, 128 + c mod 64]" using assms 3 by (auto simp: utf8_char_def)
    ultimately show ?thesis using 3 radix3 [of c] by (auto simp: utf8_step.simps cont_byte_of Let_def)
  next
    case 4
    then have "c div 262144 < 5" by linarith
    moreover have "p = [240 + c div 262144, 128 + c div 4096 mod 64, 128 + c div 64 mod 64, 128 + c mod 64]"
      using assms 4 by (auto simp: utf8_char_def)
    ultimately show ?thesis using 4 radix4 [of c] by (simp add: utf8_step.simps cont_byte_of Let_def)
  qed
qed

lemma utf8_char_step:
  assumes "utf8_step bs = Some (n, r)"
  shows "\<exists>p. utf8_char n = Some p \<and> bs = p @ r"
proof (cases bs)
  case Nil then show ?thesis using assms by (simp add: utf8_step.simps)
next
  case (Cons a s)
  have step: "utf8_step (a # s) = Some (n, r)" using assms Cons by simp
  consider (1) "a < 128" | (2) "194 \<le> a" "a < 224" | (3) "224 \<le> a" "a < 240" | (4) "240 \<le> a" "a < 245"
    using step by (auto simp: utf8_step.simps split: if_splits)
  then show ?thesis
  proof cases
    case 1 then show ?thesis using step Cons by (auto simp: utf8_step.simps utf8_char_def)
  next
    case 2
    then obtain b where s: "s = b # r" and b: "cont_byte b" and n: "n = (a - 192) * 64 + (b - 128)"
      using step by (auto simp: utf8_step.simps split: list.splits if_splits)
    have "b - 128 < 64" using b by (auto simp: cont_byte_def)
    then have "n div 64 = a - 192" "n mod 64 = b - 128" using radix64 n by simp_all
    moreover have "\<not> n < 128" "n < 2048" using 2 n b by (auto simp: cont_byte_def)
    ultimately show ?thesis using 2 b Cons s by (auto simp: utf8_char_def cont_byte_def)
  next
    case 3
    then obtain b c where s: "s = b # c # r" and bc: "cont_byte b" "cont_byte c"
      and n: "n = ((a - 224) * 64 + (b - 128)) * 64 + (c - 128)" and lo: "2048 \<le> n" "\<not> (55296 \<le> n \<and> n < 57344)"
      using step by (auto simp: utf8_step.simps Let_def algebra_simps split: list.splits if_splits)
    have lt: "b - 128 < 64" "c - 128 < 64" using bc by (auto simp: cont_byte_def)
    have q: "n div 64 = (a - 224) * 64 + (b - 128)" "n mod 64 = c - 128" unfolding n by (rule radix64 [OF lt(2)])+
    have q': "n div 4096 = a - 224" "n div 64 mod 64 = b - 128"
      unfolding div_chain q by (rule radix64 [OF lt(1)])+
    have "a - 224 < 16" using 3 by simp
    then have "n < 65536" unfolding n by (rule radix_bound [OF _ lt])
    then show ?thesis using 3 bc Cons s lo q q' by (auto simp: utf8_char_def cont_byte_def)
  next
    case 4
    then obtain b c d where s: "s = b # c # d # r" and bc: "cont_byte b" "cont_byte c" "cont_byte d"
      and n: "n = (((a - 240) * 64 + (b - 128)) * 64 + (c - 128)) * 64 + (d - 128)" and lo: "65536 \<le> n" "n < 1114112"
      using step by (auto simp: utf8_step.simps Let_def algebra_simps split: list.splits if_splits)
    have lt: "b - 128 < 64" "c - 128 < 64" "d - 128 < 64" using bc by (auto simp: cont_byte_def)
    have q: "n div 64 = ((a - 240) * 64 + (b - 128)) * 64 + (c - 128)" "n mod 64 = d - 128"
      unfolding n by (rule radix64 [OF lt(3)])+
    have q2: "n div 4096 = (a - 240) * 64 + (b - 128)" "n div 64 mod 64 = c - 128"
      unfolding div_chain q by (rule radix64 [OF lt(2)])+
    have q3: "n div 262144 = a - 240" "n div 4096 mod 64 = b - 128"
    proof -
      have "n div 262144 = n div 4096 div 64" by (simp add: div_chain)
      then show "n div 262144 = a - 240" "n div 4096 mod 64 = b - 128" unfolding q2 using lt(1) by (simp_all add: radix64)
    qed
    show ?thesis using 4 bc Cons s lo q(2) q2(2) q3 by (auto simp: utf8_char_def cont_byte_def)
  qed
qed

lemma utf8_decode_encode: "utf8_encode s = Some bs \<Longrightarrow> utf8_decode bs = Some s"
proof (induction s arbitrary: bs)
  case Nil then show ?case by (simp add: utf8_decode.simps)
next
  case (Cons c s)
  then obtain p q where q: "utf8_char c = Some p" "utf8_encode s = Some q" "bs = p @ q"
    by (auto split: option.splits)
  have st: "utf8_step bs = Some (c, q)" using q by (simp add: utf8_step_char)
  then have "bs \<noteq> []" by (auto simp: utf8_step.simps)
  then show ?case using Cons.IH [OF q(2)] by (simp add: utf8_decode.simps [of bs] st)
qed

lemma utf8_encode_decode: "utf8_decode bs = Some s \<Longrightarrow> utf8_encode s = Some bs"
proof (induction bs arbitrary: s rule: utf8_decode.induct)
  case (1 bs)
  show ?case
  proof (cases "bs = []")
    case True then show ?thesis using 1 by (simp add: utf8_decode.simps)
  next
    case False
    then obtain c r t where st: "utf8_step bs = Some (c, r)" and t: "utf8_decode r = Some t" "s = c # t"
      using 1(2) by (auto simp: utf8_decode.simps [of bs] split: option.splits)
    obtain p where "utf8_char c = Some p" "bs = p @ r" using utf8_char_step [OF st] by blast
    then show ?thesis using 1(1) [OF False st refl t(1)] t by simp
  qed
qed

end
