(* ===== verification/Uploads.thy ===== *)
theory Uploads
  imports Batch_Queue Gpt_Extraction Utf8
begin

text \<open>
  Taking files in: the limit on what is read (\<^verbatim>\<open>api/upload_utils.py\<close>), the names files are stored
  under (\<^verbatim>\<open>infrastructure/storage/local.py\<close>), the text of a document
  (\<^verbatim>\<open>docx_text_extraction.py\<close>), transcript downloads (\<^verbatim>\<open>transcript_export_service.py\<close>), and the rows
  that result (\<^verbatim>\<open>ingestion_service.py\<close>). Limits on the length of columns are not modelled.
\<close>

section \<open>Reading\<close>

record upload_file =
  up_filename :: "pystr option"
  up_type :: "pystr option"
  up_content :: bytes

text \<open>An error of a handler: an \<^verbatim>\<open>HTTPException\<close> with the code of its detail, or another exception.\<close>

datatype failure = Http nat pystr | Raised exc

text \<open>\<open>n\<close> bytes at a time; \<open>None\<close> when the limit is passed.\<close>

function read_loop :: "nat \<Rightarrow> int \<Rightarrow> bytes \<Rightarrow> bytes \<Rightarrow> bytes option" where
  "read_loop n mx acc rest =
     (let piece = take n rest in
      if piece = [] then Some acc
      else if mx < int (length acc) + int (length piece) then None
      else read_loop n mx (acc @ piece) (drop n rest))"
  by auto
termination
  by (relation "measure (\<lambda>(n, mx, acc, rest). length rest)") auto

declare read_loop.simps [simp del]

definition DEFAULT_UPLOAD_READ_CHUNK_BYTES :: nat where
  "DEFAULT_UPLOAD_READ_CHUNK_BYTES = 1024 * 1024"

definition read_upload_file_with_limit :: "upload_file \<Rightarrow> int \<Rightarrow> nat \<Rightarrow> failure + bytes" where
  "read_upload_file_with_limit f mx n =
     (if mx < 1 then Inl (Raised (Value_error (u ''max_bytes must be positive'')))
      else if n < 1 then Inl (Raised (Value_error (u ''chunk_bytes must be positive'')))
      else case read_loop n mx [] (up_content f) of
        None \<Rightarrow> Inl (Http 413 (u ''upload_too_large''))
      | Some b \<Rightarrow> Inr b)"

section \<open>Names and kinds of files\<close>

definition rsplit_last :: "nat \<Rightarrow> pystr \<Rightarrow> pystr" where
  "rsplit_last c s = rev (takeWhile (\<lambda>x. x \<noteq> c) (rev s))"

fun replace_dots :: "pystr \<Rightarrow> pystr" where
  "replace_dots (a # b # s) = (if a = 46 \<and> b = 46 then 95 # replace_dots s else a # replace_dots (b # s))"
| "replace_dots s = s"

definition safe_upload_filename :: "pystr option \<Rightarrow> pystr" where
  "safe_upload_filename filename =
     (let c = rsplit_last 47 (replace_char 92 47 (text_of filename));
          c' = strip (replace_dots (filter (\<lambda>x. x \<noteq> 0) c))
      in if c' = [] \<or> c' = u ''.'' \<or> c' = u ''_'' then u ''upload.bin'' else c')"

definition hex_digit :: "nat \<Rightarrow> nat" where
  "hex_digit d = (if d < 10 then 48 + d else 87 + d)"

text \<open>\<open>uuid.hex\<close> and \<open>str(uuid)\<close>: 32 digits, and the same in groups.\<close>

definition uuid_hex :: "uuid \<Rightarrow> pystr" where
  "uuid_hex i = map (\<lambda>k. hex_digit (i div 16 ^ k mod 16)) (rev [0..<32])"

definition uuid_str :: "uuid \<Rightarrow> pystr" where
  "uuid_str i = (let h = uuid_hex i in Prelude.slice h 0 8 @ [45] @ Prelude.slice h 8 12 @ [45] @ Prelude.slice h 12 16 @ [45]
     @ Prelude.slice h 16 20 @ [45] @ Prelude.slice h 20 32)"

text \<open>\<open>LocalFileStorage.save\<close>; files are named relative to the upload directory.\<close>

definition save_file :: "pystr \<Rightarrow> pystr \<Rightarrow> bytes \<Rightarrow> world \<Rightarrow> pystr \<times> world" where
  "save_file dir filename content w =
     (let path = dir @ [47] @ uuid_hex (next_id w) @ [95] @ safe_upload_filename (Some filename)
      in (path, w\<lparr>next_id := next_id w + 1, files := (files w)(path \<mapsto> content)\<rparr>))"

definition project_prefix :: "uuid \<Rightarrow> pystr" where
  "project_prefix pid = u ''research_sources/'' @ uuid_str pid"

text \<open>\<^verbatim>\<open>PurePosixPath(s).suffix\<close>; the name is the last component that is neither empty nor a single dot.\<close>

fun split_on :: "nat \<Rightarrow> pystr \<Rightarrow> pystr \<Rightarrow> pystr list" where
  "split_on c cur [] = [rev cur]"
| "split_on c cur (x # s) = (if x = c then rev cur # split_on c [] s else split_on c (x # cur) s)"

definition path_name :: "pystr \<Rightarrow> pystr" where
  "path_name s = (let ps = filter (\<lambda>p. p \<noteq> [] \<and> p \<noteq> [46]) (split_on 47 [] s) in if ps = [] then [] else last ps)"

definition path_suffix :: "pystr \<Rightarrow> pystr" where
  "path_suffix s = (let n = path_name s; i = rfind 46 n in
     if 0 < i \<and> i < int (length n) - 1 then drop (nat i) n else [])"

definition str_starts_with :: "pystr \<Rightarrow> pystr \<Rightarrow> bool" where
  "str_starts_with p s \<longleftrightarrow> take (length p) s = p"

definition str_ends_with :: "pystr \<Rightarrow> pystr \<Rightarrow> bool" where
  "str_ends_with p s \<longleftrightarrow> length p \<le> length s \<and> drop (length s - length p) s = p"

definition AUDIO_EXTS :: "pystr list" where
  "AUDIO_EXTS = [u ''.mp3'', u ''.wav'', u ''.m4a'', u ''.aac'', u ''.ogg'', u ''.flac'', u ''.opus'', u ''.webm'',
     u ''.wma'', u ''.aiff'', u ''.caf'']"

definition is_audio_upload :: "pystr \<Rightarrow> pystr option \<Rightarrow> bool" where
  "is_audio_upload filename mime \<longleftrightarrow>
     ascii_lower (path_suffix filename) \<in> set AUDIO_EXTS
     \<or> str_starts_with (u ''audio/'') (ascii_lower (text_of mime)) \<or> str_starts_with (u ''video/'') (ascii_lower (text_of mime))"

text \<open>The part of a MIME type before the first semicolon.\<close>

definition bare_mime :: "pystr option \<Rightarrow> pystr" where
  "bare_mime mime = strip (takeWhile (\<lambda>c. c \<noteq> 59) (ascii_lower (text_of mime)))"

definition DOCX_MIME :: pystr where
  "DOCX_MIME = u ''application/vnd.openxmlformats-officedocument.wordprocessingml.document''"

definition is_docx_filename_or_mime :: "pystr \<Rightarrow> pystr option \<Rightarrow> bool" where
  "is_docx_filename_or_mime filename mime \<longleftrightarrow>
     (46 \<in> set filename \<and> ascii_lower (rsplit_last 46 filename) = u ''docx'')
     \<or> str_ends_with (u ''.docx'') (ascii_lower filename) \<or> str_starts_with DOCX_MIME (bare_mime mime)"

definition is_legacy_doc_filename_or_mime :: "pystr \<Rightarrow> pystr option \<Rightarrow> bool" where
  "is_legacy_doc_filename_or_mime filename mime \<longleftrightarrow>
     (str_ends_with (u ''.doc'') (ascii_lower filename) \<and> \<not> str_ends_with (u ''.docx'') (ascii_lower filename))
     \<or> bare_mime mime = u ''application/msword''"

section \<open>The text of a document\<close>

text \<open>
  The docx library, as a parameter: the texts of the paragraphs and of the cells of each row of each
  table, or \<open>None\<close> when opening the file raises.
\<close>

type_synonym docx = "bytes \<Rightarrow> (pystr list \<times> pystr list list list) option"

definition row_text :: "pystr list \<Rightarrow> pystr" where
  "row_text cells = join (u '' | '') (filter (\<lambda>c. c \<noteq> []) (map strip cells))"

definition extract_plain_text_from_docx :: "docx \<Rightarrow> bytes \<Rightarrow> exc + pystr" where
  "extract_plain_text_from_docx dx content =
     (if content = [] then Inl (Value_error (u ''docx_corrupt_or_unreadable''))
      else case dx content of
        None \<Rightarrow> Inl (Value_error (u ''docx_corrupt_or_unreadable''))
      | Some (paras, tables) \<Rightarrow>
          (let parts = filter (\<lambda>t. strip t \<noteq> []) paras
                 @ concat (map (\<lambda>rows. filter (\<lambda>t. t \<noteq> []) (map row_text rows)) tables);
               tx = strip (join [10] parts)
           in if tx = [] then Inl (Value_error (u ''docx_empty'')) else Inr tx))"

definition PLAIN_TEXT_MIMES :: "pystr list" where
  "PLAIN_TEXT_MIMES = [u ''text/plain'', u ''text/markdown'', u ''application/x-markdown'']"

text \<open>The source returns a pair whose second part, a path, is always \<^verbatim>\<open>None\<close>.\<close>

definition resolve_document_text :: "docx \<Rightarrow> pystr \<Rightarrow> bytes \<Rightarrow> pystr option \<Rightarrow> exc + pystr option" where
  "resolve_document_text dx filename content mime =
     (if is_legacy_doc_filename_or_mime filename mime then Inl (Value_error (u ''doc_format_not_supported_use_docx''))
      else if is_docx_filename_or_mime filename mime then
        (case extract_plain_text_from_docx dx content of Inl e \<Rightarrow> Inl e | Inr t \<Rightarrow> Inr (Some t))
      else if ascii_lower (text_of mime) \<in> set PLAIN_TEXT_MIMES
          \<or> ascii_lower (path_suffix filename) \<in> set [u ''.txt'', u ''.md'', u ''.markdown''] then Inr (utf8_decode content)
      else Inr None)"

section \<open>The rows\<close>

definition new_document :: "uuid \<Rightarrow> uuid \<Rightarrow> pystr \<Rightarrow> pystr option \<Rightarrow> pystr option \<Rightarrow> source_type \<Rightarrow> pystr option
    \<Rightarrow> metadata \<Rightarrow> time \<Rightarrow> source_document" where
  "new_document i pid filename path mime st raw meta now = \<lparr>doc_id = i, doc_project_id = pid, doc_filename = filename,
     doc_original_path = path, doc_mime_type = mime, doc_source_type = st, doc_raw_text = raw,
     doc_pipeline = empty_pipeline, doc_status = SP_IDLE, doc_sort_order = 0, doc_started_at = None,
     doc_completed_at = None, doc_last_error = None, doc_metadata = meta, doc_created_at = now\<rparr>"

definition new_audio :: "uuid \<Rightarrow> uuid \<Rightarrow> pystr \<Rightarrow> pystr \<Rightarrow> pystr option \<Rightarrow> pystr option \<Rightarrow> metadata \<Rightarrow> time \<Rightarrow> source_audio" where
  "new_audio i pid filename path mime lang meta now = \<lparr>aud_id = i, aud_project_id = pid, aud_filename = filename,
     aud_original_path = Some path, aud_mime_type = mime, aud_duration_ms = None, aud_language = lang,
     aud_pipeline_status = AP_READY, aud_pipeline_error = None, aud_file_bytes = None, aud_status = SP_IDLE,
     aud_sort_order = 0, aud_started_at = None, aud_completed_at = None, aud_last_error = None,
     aud_metadata = meta, aud_created_at = now\<rparr>"

definition add_document_row :: "uuid \<Rightarrow> pystr \<Rightarrow> pystr option \<Rightarrow> pystr option \<Rightarrow> source_type \<Rightarrow> pystr option \<Rightarrow> metadata
    \<Rightarrow> world \<Rightarrow> uuid \<times> world" where
  "add_document_row pid filename path mime st raw meta w =
     (next_id w, w\<lparr>next_id := next_id w + 1,
        documents := documents w @ [new_document (next_id w) pid filename path mime st raw meta (clock w)]\<rparr>)"

definition add_audio_row :: "uuid \<Rightarrow> pystr \<Rightarrow> pystr \<Rightarrow> pystr option \<Rightarrow> pystr option \<Rightarrow> metadata \<Rightarrow> world \<Rightarrow> uuid \<times> world" where
  "add_audio_row pid filename path mime lang meta w =
     (next_id w, w\<lparr>next_id := next_id w + 1,
        audios := audios w @ [new_audio (next_id w) pid filename path mime lang meta (clock w)]\<rparr>)"

text \<open>\<^verbatim>\<open>d[k] = v\<close> and \<^verbatim>\<open>d.setdefault(k, v)\<close>.\<close>

definition dict_set :: "pystr \<Rightarrow> pystr \<Rightarrow> (pystr \<times> pystr) list \<Rightarrow> (pystr \<times> pystr) list" where
  "dict_set k v d = (if k \<in> set (map fst d) then map (\<lambda>(k', v'). (k', if k' = k then v else v')) d else d @ [(k, v)])"

definition set_default :: "pystr \<Rightarrow> pystr \<Rightarrow> (pystr \<times> pystr) list \<Rightarrow> (pystr \<times> pystr) list" where
  "set_default k v d = (if k \<in> set (map fst d) then d else d @ [(k, v)])"

definition PROJECT_NOT_FOUND :: exc where
  "PROJECT_NOT_FOUND = Value_error (u ''project_not_found'')"

definition upload_text_file :: "docx \<Rightarrow> uuid \<Rightarrow> pystr \<Rightarrow> bytes \<Rightarrow> pystr option \<Rightarrow> source_type \<Rightarrow> metadata \<Rightarrow> world
    \<Rightarrow> uuid outcome" where
  "upload_text_file dx pid filename content mime st extra w =
     (if pid \<notin> set (projects w) then (Inl PROJECT_NOT_FOUND, w)
      else case resolve_document_text dx filename content mime of
        Inl e \<Rightarrow> (Inl e, w)
      | Inr raw \<Rightarrow>
         (case (if raw = None then (case save_file (project_prefix pid @ u ''/documents'') filename content w of
                  (p, w1) \<Rightarrow> (Some p, w1)) else (None, w)) of
            (path, w1) \<Rightarrow> (case add_document_row pid filename path mime st raw extra w1 of (i, w2) \<Rightarrow> (Inr i, w2))))"

definition upload_audio_file :: "uuid \<Rightarrow> pystr \<Rightarrow> bytes \<Rightarrow> pystr option \<Rightarrow> pystr option \<Rightarrow> source_type \<Rightarrow> metadata \<Rightarrow> world
    \<Rightarrow> uuid outcome" where
  "upload_audio_file pid filename content mime lang st extra w =
     (if pid \<notin> set (projects w) then (Inl PROJECT_NOT_FOUND, w)
      else case save_file (project_prefix pid @ u ''/audio'') filename content w of
        (path, w1) \<Rightarrow>
          (let meta = extra\<lparr>md_rest := dict_set (u ''ingestion_source_type'') (source_type_value st) (md_rest extra)\<rparr>
           in (case add_audio_row pid filename path mime lang meta w1 of (i, w2) \<Rightarrow> (Inr i, w2))))"

definition upload_audio_file_stream :: "env \<Rightarrow> uuid \<Rightarrow> upload_file \<Rightarrow> pystr option \<Rightarrow> pystr option \<Rightarrow> source_type \<Rightarrow> metadata
    \<Rightarrow> world \<Rightarrow> uuid outcome" where
  "upload_audio_file_stream env pid f lang tr_lang st extra w =
     (if pid \<notin> set (projects w) then (Inl PROJECT_NOT_FOUND, w)
      else case read_loop (1024 * 1024) (upload_max_bytes (conf env)) [] (up_content f) of
        None \<Rightarrow> (Inl (Value_error (u ''upload_too_large'')), w)
      | Some content \<Rightarrow>
         (let fname = str_or (up_filename f) (u ''audio'');
              m1 = dict_set (u ''ingestion_source_type'') (source_type_value st) (md_rest extra);
              m2 = (if strip (text_of tr_lang) = [] then m1
                    else dict_set (u ''transcription_language'') (strip (text_of tr_lang)) m1)
          in (case save_file (project_prefix pid @ u ''/audio'') fname content w of
                (path, w1) \<Rightarrow> (case add_audio_row pid fname path (up_type f) lang (extra\<lparr>md_rest := m2\<rparr>) w1 of
                    (i, w2) \<Rightarrow> (Inr i, w2)))))"

definition create_raw_text_note :: "uuid \<Rightarrow> pystr \<Rightarrow> pystr \<Rightarrow> source_type \<Rightarrow> metadata \<Rightarrow> world \<Rightarrow> uuid outcome" where
  "create_raw_text_note pid title raw st extra w =
     (if pid \<notin> set (projects w) then (Inl PROJECT_NOT_FOUND, w)
      else (let meta = (if title = [] then extra else extra\<lparr>md_rest := set_default (u ''title'') title (md_rest extra)\<rparr>)
            in (case add_document_row pid (if title = [] then u ''note.txt'' else title) None (Some (u ''text/plain'')) st
                  (Some raw) meta w of (i, w1) \<Rightarrow> (Inr i, w1))))"

section \<open>Transcript downloads\<close>

definition export_char :: "nat \<Rightarrow> bool" where
  "export_char c \<longleftrightarrow> 65 \<le> c \<and> c \<le> 90 \<or> 97 \<le> c \<and> c \<le> 122 \<or> 48 \<le> c \<and> c \<le> 57 \<or> c = 46 \<or> c = 95 \<or> c = 45"

text \<open>\<^verbatim>\<open>re.sub\<close> of every run of other characters by one underscore; \<open>r\<close>: inside a run.\<close>

fun sub_runs :: "bool \<Rightarrow> pystr \<Rightarrow> pystr" where
  "sub_runs r [] = []"
| "sub_runs r (c # s) = (if export_char c then c # sub_runs False s else if r then sub_runs True s else 95 # sub_runs True s)"

definition strip_chars :: "nat list \<Rightarrow> pystr \<Rightarrow> pystr" where
  "strip_chars cs s = rev (dropWhile (\<lambda>c. c \<in> set cs) (rev (dropWhile (\<lambda>c. c \<in> set cs) s)))"

text \<open>\<^verbatim>\<open>s.rsplit(c, 1)[0]\<close>.\<close>

definition rsplit_head :: "nat \<Rightarrow> pystr \<Rightarrow> pystr" where
  "rsplit_head c s = (let i = rfind c s in if i < 0 then s else take (nat i) s)"

definition safe_export_stem :: "pystr \<Rightarrow> pystr" where
  "safe_export_stem filename =
     (let b = strip (rsplit_head 46 (if filename = [] then u ''transcript'' else filename));
          base = (if b = [] then u ''transcript'' else b);
          s = strip_chars [46, 95] (sub_runs False base)
      in take 80 (if s = [] then u ''transcript'' else s))"

definition build_transcript_txt_bytes :: "pystr \<Rightarrow> bytes option" where
  "build_transcript_txt_bytes full_text = utf8_encode full_text"

section \<open>The limit on what is read\<close>

lemma read_loop_eq:
  assumes "0 < n" "int (length acc) \<le> mx"
  shows "read_loop n mx acc rest = (if int (length acc) + int (length rest) \<le> mx then Some (acc @ rest) else None)"
  using assms
proof (induction n mx acc rest rule: read_loop.induct)
  case (1 n mx acc rest)
  show ?case
  proof (cases "take n rest = [] \<or> mx < int (length acc) + int (length (take n rest))")
    case True then show ?thesis using 1(2, 3) by (auto simp: read_loop.simps [of n mx acc rest] Let_def)
  next
    case False
    then have "read_loop n mx (acc @ take n rest) (drop n rest) =
        (if int (length (acc @ take n rest)) + int (length (drop n rest)) \<le> mx
         then Some ((acc @ take n rest) @ drop n rest) else None)"
      using 1 by (intro "1.IH") auto
    moreover have "length (acc @ take n rest) + length (drop n rest) = length acc + length rest"
      using append_take_drop_id [of n rest] by (metis append.assoc length_append)
    ultimately show ?thesis using False by (simp add: read_loop.simps [of n mx acc rest] Let_def) (linarith | simp)?
  qed
qed

text \<open>
  Reading an upload in pieces of any positive size returns its bytes unchanged when they are within
  the limit, and is refused with 413 when they are not.
\<close>

theorem upload_read_up_to_limit:
  assumes "1 \<le> mx" "1 \<le> n"
  shows "read_upload_file_with_limit f mx n =
    (if int (length (up_content f)) \<le> mx then Inr (up_content f) else Inl (Http 413 (u ''upload_too_large'')))"
  using assms by (simp add: read_upload_file_with_limit_def read_loop_eq)

theorem upload_read_up_to_limit_witness:
  "read_upload_file_with_limit \<lparr>up_filename = None, up_type = None, up_content = [1, 2, 3, 4, 5]\<rparr> 5 2 = Inr [1, 2, 3, 4, 5]
   \<and> read_upload_file_with_limit \<lparr>up_filename = None, up_type = None, up_content = [1, 2, 3, 4, 5]\<rparr> 4 2
       = Inl (Http 413 (u ''upload_too_large''))"
  by (simp add: upload_read_up_to_limit)

section \<open>Stored names\<close>

fun no_dots :: "pystr \<Rightarrow> bool" where
  "no_dots (a # b # s) \<longleftrightarrow> \<not> (a = 46 \<and> b = 46) \<and> no_dots (b # s)"
| "no_dots s \<longleftrightarrow> True"

lemma no_dots_append: "no_dots (p @ s) \<Longrightarrow> no_dots s"
proof (induction p)
  case (Cons a p) then show ?case by (cases "p @ s") auto
qed simp

lemma no_dots_prefix: "no_dots (s @ r) \<Longrightarrow> no_dots s"
  by (induction s rule: no_dots.induct) auto

lemma no_dots_slice: "no_dots s \<Longrightarrow> no_dots (Prelude.slice s a b)"
  using no_dots_append [of "take a s" "drop a s"] no_dots_prefix [of "take (b - a) (drop a s)" "drop (b - a) (drop a s)"]
  by (simp add: Prelude.slice_def del: drop_drop)

lemma no_dots_strip: "no_dots s \<Longrightarrow> no_dots (strip s)"
  using strip_span [of s] no_dots_slice by metis

lemma no_dots_replace: "no_dots (replace_dots s)"
proof (induction s rule: replace_dots.induct)
  case (1 a b s)
  show ?case
  proof (cases "a = 46 \<and> b = 46")
    case True
    then show ?thesis using 1(1) by (cases "replace_dots s") auto
  next
    case False
    then show ?thesis using 1(2) by (cases s) (auto split: if_splits)
  qed
qed auto

lemma no_dots_iff: "no_dots s \<Longrightarrow> s \<noteq> p @ [46, 46] @ r"
  using no_dots_append [of p "[46, 46] @ r"] by auto

lemma set_replace_dots: "set (replace_dots s) \<subseteq> insert 95 (set s)"
  by (induction s rule: replace_dots.induct) auto

lemma safe_name:
  "safe_upload_filename f \<noteq> []" "set (safe_upload_filename f) \<inter> {0, 47, 92} = {}" "no_dots (safe_upload_filename f)"
proof -
  define c where "c = rsplit_last 47 (replace_char 92 47 (text_of f))"
  have c: "92 \<notin> set c" "47 \<notin> set c"
    by (auto simp: c_def rsplit_last_def replace_char_def dest!: set_takeWhileD split: if_splits)
  define d where "d = strip (replace_dots (filter (\<lambda>x. x \<noteq> 0) c))"
  have s: "set d \<subseteq> insert 95 (set c - {0})"
    unfolding d_def using set_strip set_replace_dots [of "filter (\<lambda>x. x \<noteq> 0) c"] by fastforce
  have n: "no_dots d" unfolding d_def by (intro no_dots_strip no_dots_replace)
  have e: "safe_upload_filename f = (if d = [] \<or> d = u ''.'' \<or> d = u ''_'' then u ''upload.bin'' else d)"
    unfolding safe_upload_filename_def d_def c_def Let_def ..
  have b: "set (u ''upload.bin'') \<inter> {0, 47, 92} = {}" "no_dots (u ''upload.bin'')" by (simp_all add: u_def)
  show "safe_upload_filename f \<noteq> []" unfolding e by (auto simp: u_def)
  show "set (safe_upload_filename f) \<inter> {0, 47, 92} = {}" using s c b(1) unfolding e by auto
  show "no_dots (safe_upload_filename f)" using n b(2) unfolding e by auto
qed

lemma length_uuid_hex [simp]: "length (uuid_hex i) = 32"
  by (simp add: uuid_hex_def)

lemma uuid_hex_chars: "c \<in> set (uuid_hex i) \<Longrightarrow> 48 \<le> c \<and> c \<le> 102 \<and> c \<noteq> 92"
proof -
  have "hex_digit (m mod 16) \<in> {48..102} - {92}" for m
  proof -
    have "m mod 16 < 16" by simp
    then show ?thesis unfolding hex_digit_def by auto
  qed
  then show "c \<in> set (uuid_hex i) \<Longrightarrow> 48 \<le> c \<and> c \<le> 102 \<and> c \<noteq> 92" by (fastforce simp: uuid_hex_def)
qed

text \<open>Equal digits of numbers below the bound mean equal numbers.\<close>

lemma mod_power_digits:
  "(\<And>k. k < n \<Longrightarrow> i div 16 ^ k mod 16 = j div 16 ^ k mod 16) \<Longrightarrow> i mod 16 ^ n = j mod 16 ^ (n::nat)"
  for i j :: nat
proof (induction n)
  case (Suc n)
  have "m mod 16 ^ Suc n = m div 16 ^ n mod 16 * 16 ^ n + m mod 16 ^ n" for m :: nat
    using mod_mult2_eq [of m "16 ^ n" 16] by (simp add: mult.commute)
  then show ?case using Suc by simp
qed simp

lemma hex_digit_inj: "a < 16 \<Longrightarrow> b < 16 \<Longrightarrow> hex_digit a = hex_digit b \<Longrightarrow> a = b"
  by (auto simp: hex_digit_def split: if_splits)

lemma uuid_hex_inj:
  assumes "uuid_hex i = uuid_hex j" "i < 2 ^ 128" "j < 2 ^ 128"
  shows "i = j"
proof -
  have "i div 16 ^ k mod 16 = j div 16 ^ k mod 16" if "k < 32" for k
  proof -
    have "rev (uuid_hex i) ! k = rev (uuid_hex j) ! k" using assms(1) by simp
    then show ?thesis using that by (auto simp: uuid_hex_def rev_map intro: hex_digit_inj)
  qed
  then have "i mod 16 ^ 32 = j mod 16 ^ 32" by (rule mod_power_digits)
  moreover have "(16::nat) ^ 32 = 2 ^ 128" by simp
  ultimately show ?thesis using assms(2, 3) by simp
qed

lemma append_last_part:
  assumes "xs @ [s] @ ys = xs' @ [s] @ ys'" "s \<notin> set ys" "s \<notin> set ys'"
  shows "xs = xs' \<and> ys = ys'"
proof -
  have r: "rev ys @ [s] @ rev xs = rev ys' @ [s] @ rev xs'" using assms(1) by (metis append.assoc rev_append rev_singleton_conv)
  have "takeWhile (\<lambda>x. x \<noteq> s) (rev zs @ [s] @ ws) = rev zs" if "s \<notin> set zs" for zs ws
    using that by (subst takeWhile_append2) auto
  then have "rev ys = rev ys'" using r assms(2, 3) by metis
  then show ?thesis using r by auto
qed

definition stored_path :: "pystr \<Rightarrow> uuid \<Rightarrow> pystr \<Rightarrow> pystr" where
  "stored_path dir i filename = dir @ [47] @ uuid_hex i @ [95] @ safe_upload_filename (Some filename)"

lemma save_file_eq: "save_file dir f content w =
    (stored_path dir (next_id w) f, w\<lparr>next_id := next_id w + 1, files := (files w)(stored_path dir (next_id w) f \<mapsto> content)\<rparr>)"
  by (simp add: save_file_def stored_path_def Let_def)

lemma stored_name:
  "set (uuid_hex i @ [95] @ safe_upload_filename f) \<inter> {0, 47, 92} = {}" "no_dots (uuid_hex i @ [95] @ safe_upload_filename f)"
proof -
  have h: "48 \<le> c \<and> c \<noteq> 92" if "c \<in> set (uuid_hex i)" for c using uuid_hex_chars [OF that] by simp
  then show "set (uuid_hex i @ [95] @ safe_upload_filename f) \<inter> {0, 47, 92} = {}" using safe_name(2) [of f] by force
  have "no_dots (ds @ [95] @ s)" if "\<forall>c \<in> set ds. c \<noteq> 46" "no_dots s" for ds s
    using that
  proof (induction ds)
    case Nil then show ?case by (cases s) auto
  next
    case (Cons d ds) then show ?case by (cases ds) auto
  qed
  then show "no_dots (uuid_hex i @ [95] @ safe_upload_filename f)" using h safe_name(3) by force
qed

lemma stored_path_inj:
  assumes "stored_path d i f = stored_path e j g" "i < 2 ^ 128" "j < 2 ^ 128"
  shows "i = j"
proof -
  have "uuid_hex i @ [95] @ safe_upload_filename (Some f) = uuid_hex j @ [95] @ safe_upload_filename (Some g)"
    using append_last_part [OF assms(1) [unfolded stored_path_def]] stored_name(1) by blast
  then have "uuid_hex i = uuid_hex j" by (metis append_eq_append_conv length_uuid_hex)
  then show ?thesis using uuid_hex_inj assms(2, 3) by blast
qed

text \<open>
  C21. Whatever name the client sends, an upload is stored as one component directly below the chosen
  directory: the name is not empty, has no slash, backslash or NUL and no two dots in a row. Two uploads are
  never stored under one path, so the second leaves the bytes of the first in place.
\<close>

theorem uploads_are_stored_apart:
  assumes "Suc (next_id w) < 2 ^ 128" "save_file d f a w = (p, w1)" "save_file e g b w1 = (q, w2)"
  shows "p \<noteq> q \<and> files w2 p = Some a \<and> files w2 q = Some b
    \<and> (\<exists>name. p = d @ [47] @ name \<and> name \<noteq> [] \<and> set name \<inter> {0, 47, 92} = {} \<and> (\<nexists>x y. name = x @ [46, 46] @ y))"
proof -
  have p: "p = stored_path d (next_id w) f" "w1 = w\<lparr>next_id := next_id w + 1, files := (files w)(p \<mapsto> a)\<rparr>"
    using assms(2) by (auto simp: save_file_eq)
  have q: "q = stored_path e (next_id w + 1) g" "w2 = w1\<lparr>next_id := next_id w1 + 1, files := (files w1)(q \<mapsto> b)\<rparr>"
    using assms(3) p by (auto simp: save_file_eq)
  have "p \<noteq> q" using stored_path_inj [of d "next_id w" f e "next_id w + 1" g] assms(1) p q by auto
  moreover have "\<exists>name. p = d @ [47] @ name \<and> name \<noteq> [] \<and> set name \<inter> {0, 47, 92} = {} \<and> (\<nexists>x y. name = x @ [46, 46] @ y)"
    using stored_name [of "next_id w" "Some f"] no_dots_iff p(1) unfolding stored_path_def by blast
  ultimately show ?thesis using p q by simp
qed

theorem uploads_are_stored_apart_witness:
  "fst (save_file (u ''d'') (u ''../../etc/passwd'') [1] empty_world)
     \<noteq> fst (save_file (u ''d'') (u ''../../etc/passwd'') [2] (snd (save_file (u ''d'') (u ''../../etc/passwd'') [1] empty_world)))"
proof -
  obtain p w1 where 1: "save_file (u ''d'') (u ''../../etc/passwd'') [1] empty_world = (p, w1)" by (metis surj_pair)
  obtain q w2 where 2: "save_file (u ''d'') (u ''../../etc/passwd'') [2] w1 = (q, w2)" by (metis surj_pair)
  have "Suc (next_id empty_world) < 2 ^ 128" by (simp add: empty_world_def)
  then show ?thesis using uploads_are_stored_apart [OF _ 1 2] 1 2 by simp
qed

section \<open>A downloaded transcript can be uploaded again\<close>

lemma split_on_none: "c \<notin> set s \<Longrightarrow> split_on c cur s = [rev cur @ s]"
  by (induction s arbitrary: cur) auto

lemma rfind_append:
  assumes "c \<notin> set t"
  shows "rfind c (s @ [c] @ t) = int (length s)"
proof -
  let ?P = "\<lambda>j. (s @ [c] @ t) ! j = c"
  have "[0..<length (s @ [c] @ t)] = [0..<length s] @ [length s] @ [Suc (length s)..<length (s @ [c] @ t)]"
    using upt_add_eq_append [of 0 "length s" "Suc (length t)"] upt_conv_Cons [of "length s" "length s + Suc (length t)"]
    by simp
  moreover have "filter ?P [Suc (length s)..<length (s @ [c] @ t)] = []"
  proof (rule filter_False, rule ballI)
    fix j assume "j \<in> set [Suc (length s)..<length (s @ [c] @ t)]"
    then have "(s @ [c] @ t) ! j = t ! (j - Suc (length s))" "j - Suc (length s) < length t"
      by (auto simp: nth_append nth_Cons')
    then show "\<not> ?P j" using assms by (metis nth_mem)
  qed
  ultimately have "filter ?P [0..<length (s @ [c] @ t)] = filter ?P [0..<length s] @ [length s]" by (simp add: nth_append)
  then show ?thesis by (simp add: rfind_def Let_def)
qed

lemma sub_runs_chars: "c \<in> set (sub_runs r s) \<Longrightarrow> export_char c"
  by (induction r s rule: sub_runs.induct) (auto split: if_splits simp: export_char_def)

lemma export_stem:
  "safe_export_stem f \<noteq> []" "length (safe_export_stem f) \<le> 80" "c \<in> set (safe_export_stem f) \<Longrightarrow> export_char c"
proof -
  obtain b where e: "safe_export_stem f = take 80 (if strip_chars [46, 95] (sub_runs False b) = []
      then u ''transcript'' else strip_chars [46, 95] (sub_runs False b))"
    unfolding safe_export_stem_def Let_def by blast
  have d: "\<forall>c \<in> set (u ''transcript''). export_char c" by (simp add: u_def export_char_def)
  have s: "\<forall>c \<in> set (strip_chars cs (sub_runs False b)). export_char c" for cs
    using sub_runs_chars by (auto simp: strip_chars_def dest!: set_dropWhileD)
  show "safe_export_stem f \<noteq> []" "length (safe_export_stem f) \<le> 80" unfolding e by (auto simp: u_def)
  show "c \<in> set (safe_export_stem f) \<Longrightarrow> export_char c"
    using d s [of "[46, 95]"] unfolding e by (auto dest!: in_set_takeD split: if_splits)
qed

lemma txt_name:
  assumes "\<And>c. c \<in> set s \<Longrightarrow> export_char c" "s \<noteq> []"
  shows "path_suffix (s @ u ''.txt'') = u ''.txt''"
    "\<not> is_docx_filename_or_mime (s @ u ''.txt'') (Some (u ''text/plain; charset=utf-8''))"
    "\<not> is_legacy_doc_filename_or_mime (s @ u ''.txt'') (Some (u ''text/plain; charset=utf-8''))"
proof -
  have t: "u ''.txt'' = [46] @ [116, 120, 116]" by (simp add: u_def)
  have "47 \<notin> set (s @ u ''.txt'')" using assms(1) [of 47] by (auto simp: export_char_def u_def)
  then have n: "path_name (s @ u ''.txt'') = s @ u ''.txt''"
    using assms(2) by (simp add: path_name_def split_on_none Let_def u_def)
  have r: "rfind 46 (s @ u ''.txt'') = int (length s)" unfolding t by (rule rfind_append) simp
  have "0 < length s" using assms(2) by simp
  then show "path_suffix (s @ u ''.txt'') = u ''.txt''" by (simp add: path_suffix_def n r Let_def)
  have lw: "ascii_lower (s @ u ''.txt'') = ascii_lower s @ u ''.txt''" by (simp add: ascii_lower_def u_def lower_char_def)
  have rs: "rsplit_last 46 (s @ u ''.txt'') = u ''txt''" by (simp add: rsplit_last_def u_def)
  have e: "\<not> str_ends_with (p @ [b]) (x @ u ''.txt'')" if "b \<noteq> 116" for p b x
  proof
    assume a: "str_ends_with (p @ [b]) (x @ u ''.txt'')"
    then have "last (x @ u ''.txt'') = last (p @ [b])"
      unfolding str_ends_with_def by (metis last_drop last_snoc length_append_singleton snoc_eq_iff_butlast
          diff_less length_greater_0_conv zero_less_Suc append_is_Nil_conv le_zero_eq length_0_conv nat.distinct(1))
    then show False using that by (simp add: u_def)
  qed
  have x: "u ''.docx'' = u ''.doc'' @ [120]" "u ''.doc'' = u ''.do'' @ [99]" by (simp_all add: u_def)
  have m: "bare_mime (Some (u ''text/plain; charset=utf-8'')) = u ''text/plain''" by code_simp
  have d: "\<not> str_starts_with DOCX_MIME (u ''text/plain'')" by code_simp
  have k: "ascii_lower (u ''txt'') \<noteq> u ''docx''" by code_simp
  show "\<not> is_docx_filename_or_mime (s @ u ''.txt'') (Some (u ''text/plain; charset=utf-8''))"
    unfolding is_docx_filename_or_mime_def lw rs m using d k e [of 120] x(1) by simp
  show "\<not> is_legacy_doc_filename_or_mime (s @ u ''.txt'') (Some (u ''text/plain; charset=utf-8''))"
    unfolding is_legacy_doc_filename_or_mime_def lw m using e [of 99 "u ''.do''"] x(2) by simp
qed

text \<open>
  C22. A transcript without surrogates that is downloaded as text and uploaded under the name of the download
  becomes a document with exactly that text, waiting for its analysis; no file is stored.
\<close>

theorem transcript_download_roundtrip:
  assumes "build_transcript_txt_bytes tx = Some b" "pid \<in> set (projects w)"
  shows "\<exists>d. upload_text_file dx pid (safe_export_stem name @ u ''.txt'') b (Some (u ''text/plain; charset=utf-8'')) st extra w
      = (Inr (doc_id d), w\<lparr>next_id := next_id w + 1, documents := documents w @ [d]\<rparr>)
    \<and> doc_raw_text d = Some tx \<and> doc_original_path d = None \<and> doc_project_id d = pid \<and> doc_status d = SP_IDLE"
proof -
  have "ascii_lower (u ''.txt'') \<in> set [u ''.txt'', u ''.md'', u ''.markdown'']" by code_simp
  then have "resolve_document_text dx (safe_export_stem name @ u ''.txt'') b (Some (u ''text/plain; charset=utf-8'')) = Inr (Some tx)"
    using txt_name [of "safe_export_stem name", OF export_stem(3) export_stem(1)] utf8_decode_encode assms(1)
    by (simp add: resolve_document_text_def build_transcript_txt_bytes_def)
  then show ?thesis using assms(2)
    by (intro exI [of _ "new_document (next_id w) pid (safe_export_stem name @ u ''.txt'') None
          (Some (u ''text/plain; charset=utf-8'')) st (Some tx) extra (clock w)"])
       (simp add: upload_text_file_def add_document_row_def new_document_def)
qed

theorem transcript_download_roundtrip_witness:
  "\<exists>d. upload_text_file (\<lambda>_. None) 7 (safe_export_stem (u ''a/b c.mp3'') @ u ''.txt'') [208, 159, 33]
      (Some (u ''text/plain; charset=utf-8'')) ST_UPLOAD plain_metadata (empty_world\<lparr>projects := [7]\<rparr>)
      = (Inr (doc_id d), empty_world\<lparr>projects := [7], next_id := 1001, documents := [d]\<rparr>)
    \<and> doc_raw_text d = Some [1055, 33]"
proof -
  have "build_transcript_txt_bytes [1055, 33] = Some [208, 159, 33]" by code_simp
  from transcript_download_roundtrip [OF this, of 7 "empty_world\<lparr>projects := [7]\<rparr>" "\<lambda>_. None" "u ''a/b c.mp3''" ST_UPLOAD plain_metadata]
  show ?thesis by (auto simp: empty_world_def)
qed

text \<open>
  A document that was taken in has a text or a stored file, never both and never neither; a stored file
  holds the bytes that were sent, and the row waits outside every queue.
\<close>

theorem uploaded_document_has_text_or_file:
  assumes "upload_text_file dx pid filename content mime st extra w = (Inr i, w')"
  shows "\<exists>d. documents w' = documents w @ [d] \<and> doc_id d = i \<and> doc_project_id d = pid \<and> doc_status d = SP_IDLE
    \<and> (doc_raw_text d = None \<longleftrightarrow> doc_original_path d \<noteq> None)
    \<and> (\<forall>p. doc_original_path d = Some p \<longrightarrow> files w' p = Some content)
    \<and> (doc_original_path d = None \<longrightarrow> files w' = files w) \<and> outbox w' = outbox w \<and> audios w' = audios w"
  using assms
  by (auto simp: upload_text_file_def save_file_eq add_document_row_def new_document_def split: if_splits sum.splits option.splits)

theorem uploaded_document_has_text_or_file_witness:
  "\<exists>i w'. upload_text_file (\<lambda>_. None) 7 (u ''scan.pdf'') [37, 80, 68, 70] None ST_UPLOAD plain_metadata
        (empty_world\<lparr>projects := [7]\<rparr>) = (Inr i, w')
     \<and> (\<exists>d. documents w' = [d] \<and> doc_raw_text d = None \<and> doc_original_path d \<noteq> None)"
proof -
  have "\<not> (is_legacy_doc_filename_or_mime (u ''scan.pdf'') None \<or> is_docx_filename_or_mime (u ''scan.pdf'') None)" by code_simp
  moreover have "\<not> (ascii_lower (text_of None) \<in> set PLAIN_TEXT_MIMES
      \<or> ascii_lower (path_suffix (u ''scan.pdf'')) \<in> set [u ''.txt'', u ''.md'', u ''.markdown''])" by code_simp
  ultimately have r: "resolve_document_text (\<lambda>_. None) (u ''scan.pdf'') [37, 80, 68, 70] None = Inr None"
    by (simp add: resolve_document_text_def del: str_or_Nil set_simps list.set)
  obtain i w' where up: "upload_text_file (\<lambda>_. None) 7 (u ''scan.pdf'') [37, 80, 68, 70] None ST_UPLOAD plain_metadata
        (empty_world\<lparr>projects := [7]\<rparr>) = (Inr i, w')"
    by (simp add: upload_text_file_def r save_file_eq add_document_row_def)
  have "documents w' = [d] \<longrightarrow> doc_raw_text d = None" for d
    using up by (auto simp: upload_text_file_def r save_file_eq add_document_row_def new_document_def)
  then show ?thesis using uploaded_document_has_text_or_file [OF up] up by auto
qed

end
