(* ===== verification/Source_Routes.thy ===== *)
theory Source_Routes
  imports Uploads
begin

text \<open>
  The HTTP handlers that take sources in and start their processing: \<^verbatim>\<open>api/routes/research_sources.py\<close>,
  the upload and queue handlers of \<^verbatim>\<open>project_analysis.py\<close> and \<^verbatim>\<open>research_batches.py\<close>, and the task
  handlers of \<^verbatim>\<open>research_projects.py\<close>. A handler maps the world to a failure or an answer and to the
  world with what it has committed; writes that are not committed are dropped with the session.
\<close>

type_synonym 'a response = "(failure + 'a) \<times> world"

text \<open>What surrounds the handlers: the docx library, the JSON parser, and an object as stored metadata.\<close>

record web =
  wb_docx :: docx
  wb_loads :: "pystr \<Rightarrow> json option"
  wb_meta :: "(pystr \<times> json) list \<Rightarrow> metadata"

definition project_404 :: failure where
  "project_404 = Http 404 (u ''project_not_found'')"

definition DOCX_ERROR_CODES :: "pystr list" where
  "DOCX_ERROR_CODES = [u ''docx_empty'', u ''docx_corrupt_or_unreadable'', u ''doc_format_not_supported_use_docx'']"

definition http_exception_for_ingestion_value_error :: "pystr \<Rightarrow> failure" where
  "http_exception_for_ingestion_value_error code =
     (if code \<in> set DOCX_ERROR_CODES then Http 422 code else Http 400 (u ''ingestion_failed''))"

text \<open>The handlers' \<^verbatim>\<open>except ValueError\<close>.\<close>

fun ingestion_failure :: "exc \<Rightarrow> failure" where
  "ingestion_failure (Value_error m) =
     (if m = u ''project_not_found'' then project_404 else http_exception_for_ingestion_value_error m)"
| "ingestion_failure (Other_error r) = Raised (Other_error r)"

definition read_file :: "env \<Rightarrow> upload_file \<Rightarrow> failure + bytes" where
  "read_file env f = read_upload_file_with_limit f (upload_max_bytes (conf env)) DEFAULT_UPLOAD_READ_CHUNK_BYTES"

section \<open>One source of a project\<close>

definition upload_text_source :: "env \<Rightarrow> web \<Rightarrow> uuid \<Rightarrow> upload_file \<Rightarrow> source_type \<Rightarrow> world \<Rightarrow> uuid response" where
  "upload_text_source env wb pid f st w =
     (if pid \<notin> set (projects w) then (Inl project_404, w)
      else case read_file env f of
        Inl e \<Rightarrow> (Inl e, w)
      | Inr data \<Rightarrow>
         (case upload_text_file (wb_docx wb) pid (str_or (up_filename f) (u ''upload.txt'')) data (up_type f) st plain_metadata w of
            (Inl e, w1) \<Rightarrow> (Inl (ingestion_failure e), w1)
          | (Inr i, w1) \<Rightarrow> (Inr i, w1)))"

definition upload_audio_source :: "env \<Rightarrow> uuid \<Rightarrow> upload_file \<Rightarrow> pystr option \<Rightarrow> source_type \<Rightarrow> world \<Rightarrow> uuid response" where
  "upload_audio_source env pid f lang st w =
     (if pid \<notin> set (projects w) then (Inl project_404, w)
      else case read_file env f of
        Inl e \<Rightarrow> (Inl e, w)
      | Inr data \<Rightarrow>
         (case upload_audio_file pid (str_or (up_filename f) (u ''upload.bin'')) data (up_type f) lang st plain_metadata w of
            (Inl e, w1) \<Rightarrow> (Inl (if e = PROJECT_NOT_FOUND then project_404 else Raised e), w1)
          | (Inr i, w1) \<Rightarrow> (Inr i, w1)))"

definition raw_text_note :: "uuid \<Rightarrow> pystr \<Rightarrow> pystr \<Rightarrow> metadata \<Rightarrow> world \<Rightarrow> uuid response" where
  "raw_text_note pid title raw extra w =
     (if pid \<notin> set (projects w) then (Inl project_404, w)
      else case create_raw_text_note pid title raw ST_MANUAL extra w of
        (Inl e, w1) \<Rightarrow> (Inl (if e = PROJECT_NOT_FOUND then project_404 else Raised e), w1)
      | (Inr i, w1) \<Rightarrow> (Inr i, w1))"

section \<open>Many sources of a project, one answer per file\<close>

record bulk_item =
  bi_filename :: pystr
  bi_kind :: source_kind
  bi_result :: "pystr + uuid"

record bulk_response =
  br_status :: nat
  br_total :: nat
  br_succeeded :: nat
  br_failed :: nat
  br_items :: "bulk_item list"

definition bulk_extra :: "pystr \<Rightarrow> metadata" where
  "bulk_extra filename = plain_metadata\<lparr>md_rest := [(u ''bulk_upload'', u ''true''), (u ''original_filename'', filename)]\<rparr>"

definition bulk_error :: "pystr \<Rightarrow> source_kind \<Rightarrow> pystr \<Rightarrow> bulk_item" where
  "bulk_error filename kind code = \<lparr>bi_filename = filename, bi_kind = kind, bi_result = Inl code\<rparr>"

definition bulk_ok :: "pystr \<Rightarrow> source_kind \<Rightarrow> uuid \<Rightarrow> bulk_item" where
  "bulk_ok filename kind i = \<lparr>bi_filename = filename, bi_kind = kind, bi_result = Inr i\<rparr>"

definition bulk_text_item :: "env \<Rightarrow> web \<Rightarrow> uuid \<Rightarrow> source_type \<Rightarrow> upload_file \<Rightarrow> world \<Rightarrow> bulk_item response" where
  "bulk_text_item env wb pid st f w =
     (let filename = str_or (up_filename f) (u ''upload.txt'') in
      case read_file env f of
        Inl (Http s code) \<Rightarrow> (Inr (bulk_error filename Document code), w)
      | Inl (Raised e) \<Rightarrow> (Inl (Raised e), w)
      | Inr data \<Rightarrow>
         (case upload_text_file (wb_docx wb) pid filename data (up_type f) st (bulk_extra filename) w of
            (Inl e, w1) \<Rightarrow>
              (case ingestion_failure e of
                 Raised e' \<Rightarrow> (Inl (Raised e'), w1)
               | Http s code \<Rightarrow> if Http s code = project_404 then (Inl project_404, w1)
                   else (Inr (bulk_error filename Document code), w1))
          | (Inr i, w1) \<Rightarrow> (Inr (bulk_ok filename Document i), w1)))"

definition bulk_audio_item :: "env \<Rightarrow> uuid \<Rightarrow> pystr option \<Rightarrow> source_type \<Rightarrow> upload_file \<Rightarrow> world \<Rightarrow> bulk_item response" where
  "bulk_audio_item env pid lang st f w =
     (let filename = str_or (up_filename f) (u ''upload.bin'') in
      case read_file env f of
        Inl (Http s code) \<Rightarrow> (Inr (bulk_error filename Audio code), w)
      | Inl (Raised e) \<Rightarrow> (Inl (Raised e), w)
      | Inr data \<Rightarrow>
         (case upload_audio_file pid filename data (up_type f) lang st (bulk_extra filename) w of
            (Inl e, w1) \<Rightarrow> (Inl (Raised e), w1)
          | (Inr i, w1) \<Rightarrow> (Inr (bulk_ok filename Audio i), w1)))"

fun each_file :: "(upload_file \<Rightarrow> world \<Rightarrow> 'a response) \<Rightarrow> upload_file list \<Rightarrow> world \<Rightarrow> 'a list response" where
  "each_file step [] w = (Inr [], w)"
| "each_file step (f # fs) w =
     (case step f w of
        (Inl e, w1) \<Rightarrow> (Inl e, w1)
      | (Inr x, w1) \<Rightarrow> (case each_file step fs w1 of
            (Inl e, w2) \<Rightarrow> (Inl e, w2)
          | (Inr xs, w2) \<Rightarrow> (Inr (x # xs), w2)))"

definition bulk_response_of :: "bulk_item list \<Rightarrow> bulk_response" where
  "bulk_response_of items =
     (let failed = length (filter (\<lambda>it. \<exists>c. bi_result it = Inl c) items)
      in \<lparr>br_status = (if 0 < failed then 207 else 201), br_total = length items,
          br_succeeded = length items - failed, br_failed = failed, br_items = items\<rparr>)"

definition bulk_upload :: "env \<Rightarrow> (upload_file \<Rightarrow> world \<Rightarrow> bulk_item response) \<Rightarrow> uuid \<Rightarrow> upload_file list \<Rightarrow> world
    \<Rightarrow> bulk_response response" where
  "bulk_upload env step pid fs w =
     (if pid \<notin> set (projects w) then (Inl project_404, w)
      else if fs = [] then (Inl (Http 400 (u ''at least one file is required'')), w)
      else if upload_max_files (conf env) < length fs then (Inl (Http 400 (u ''too_many_files'')), w)
      else case each_file step fs w of
        (Inl e, w1) \<Rightarrow> (Inl e, w1)
      | (Inr items, w1) \<Rightarrow> (Inr (bulk_response_of items), w1))"

definition upload_text_sources_bulk :: "env \<Rightarrow> web \<Rightarrow> uuid \<Rightarrow> upload_file list \<Rightarrow> source_type \<Rightarrow> world \<Rightarrow> bulk_response response" where
  "upload_text_sources_bulk env wb pid fs st w = bulk_upload env (bulk_text_item env wb pid st) pid fs w"

definition upload_audio_sources_bulk :: "env \<Rightarrow> uuid \<Rightarrow> upload_file list \<Rightarrow> pystr option \<Rightarrow> source_type \<Rightarrow> world
    \<Rightarrow> bulk_response response" where
  "upload_audio_sources_bulk env pid fs lang st w = bulk_upload env (bulk_audio_item env pid lang st) pid fs w"

section \<open>Starting tasks\<close>

definition queue_task :: "env \<Rightarrow> task \<Rightarrow> world \<Rightarrow> unit response" where
  "queue_task env t w = (case send env t None w of (Inl e, w1) \<Rightarrow> (Inl (Raised e), w1) | (Inr x, w1) \<Rightarrow> (Inr x, w1))"

definition document_404 :: failure where
  "document_404 = Http 404 (u ''source_document_not_found'')"

definition audio_404 :: failure where
  "audio_404 = Http 404 (u ''source_audio_not_found'')"

definition queue_transcribe_audio :: "env \<Rightarrow> uuid \<Rightarrow> world \<Rightarrow> unit response" where
  "queue_transcribe_audio env aid w =
     (if get_audio w aid = None then (Inl audio_404, w) else queue_task env (Transcribe_full aid) w)"

definition queue_chunk_document :: "env \<Rightarrow> uuid \<Rightarrow> world \<Rightarrow> unit response" where
  "queue_chunk_document env did w =
     (if get_doc w did = None then (Inl document_404, w) else queue_task env (Chunk_document did (u ''fixed'')) w)"

definition queue_chunk_document_semantic :: "env \<Rightarrow> uuid \<Rightarrow> world \<Rightarrow> unit response" where
  "queue_chunk_document_semantic env did w =
     (if strip (text_of (openai_api_key (conf env))) = [] then (Inl (Http 400 (u ''openai_not_configured'')), w)
      else if get_doc w did = None then (Inl document_404, w) else queue_task env (Chunk_document did (u ''openai'')) w)"

definition queue_extract_document :: "env \<Rightarrow> uuid \<Rightarrow> world \<Rightarrow> unit response" where
  "queue_extract_document env did w =
     (if get_doc w did = None then (Inl document_404, w) else queue_task env (Extract_document did) w)"

definition queue_project_task :: "env \<Rightarrow> (uuid \<Rightarrow> task) \<Rightarrow> uuid \<Rightarrow> world \<Rightarrow> unit response" where
  "queue_project_task env t pid w = (if pid \<notin> set (projects w) then (Inl project_404, w) else queue_task env (t pid) w)"

definition queue_aggregate_project :: "env \<Rightarrow> uuid \<Rightarrow> world \<Rightarrow> unit response" where
  "queue_aggregate_project env = queue_project_task env Aggregate_project"

definition queue_generate_project_summary :: "env \<Rightarrow> uuid \<Rightarrow> world \<Rightarrow> unit response" where
  "queue_generate_project_summary env = queue_project_task env Generate_summary"

definition queue_generate_research_report :: "env \<Rightarrow> uuid \<Rightarrow> world \<Rightarrow> unit response" where
  "queue_generate_research_report env = queue_project_task env Prepare_report"

definition queue_smart_research_report :: "env \<Rightarrow> uuid \<Rightarrow> world \<Rightarrow> unit response" where
  "queue_smart_research_report env = queue_project_task env Prepare_report"

definition queue_regenerate_research_report :: "env \<Rightarrow> uuid \<Rightarrow> world \<Rightarrow> unit response" where
  "queue_regenerate_research_report env = queue_project_task env Prepare_report"

section \<open>Transcripts\<close>

text \<open>
  The handlers order by \<^verbatim>\<open>updated_at\<close>; no code of the program writes a transcript after it was created,
  so this is the order of \<^verbatim>\<open>created_at\<close>. \<open>docx_bytes\<close> is the docx writer.
\<close>

datatype export_format = Txt | Docx

definition transcript_404 :: failure where
  "transcript_404 = Http 404 (u ''transcript_not_found'')"

definition export_audio_transcript :: "(pystr \<Rightarrow> pystr \<Rightarrow> bytes) \<Rightarrow> uuid \<Rightarrow> export_format \<Rightarrow> world \<Rightarrow> failure + pystr \<times> bytes" where
  "export_audio_transcript docx_bytes aid fmt w =
     (case get_audio w aid of
        None \<Rightarrow> Inl audio_404
      | Some a \<Rightarrow>
         (case latest_completed_transcript w aid of
            None \<Rightarrow> Inl transcript_404
          | Some tr \<Rightarrow>
             (let stem = safe_export_stem (if aud_filename a = [] then u ''transcript'' else aud_filename a) in
              case fmt of
                Txt \<Rightarrow> (case build_transcript_txt_bytes (tr_full_text tr) of
                    None \<Rightarrow> Inl (Raised (Value_error (u ''surrogates not allowed'')))
                  | Some b \<Rightarrow> Inr (stem @ u ''.txt'', b))
              | Docx \<Rightarrow> Inr (stem @ u ''.docx'', docx_bytes stem (tr_full_text tr)))))"

definition add_batch_row :: "uuid \<Rightarrow> uuid option \<Rightarrow> uuid option \<Rightarrow> int \<Rightarrow> source_status \<Rightarrow> world \<Rightarrow> uuid \<times> world" where
  "add_batch_row bid did aid ord st w =
     (next_id w, w\<lparr>next_id := next_id w + 1,
        batch_sources := batch_sources w @ [\<lparr>row_id = next_id w, row_batch_id = bid, row_document_id = did,
          row_audio_id = aid, row_status = st, row_sort_order = ord, row_last_error = None, row_started_at = None,
          row_completed_at = None, row_created_at = clock w\<rparr>]\<rparr>)"

definition add_document :: "uuid \<Rightarrow> uuid \<Rightarrow> int \<Rightarrow> source_status \<Rightarrow> world \<Rightarrow> uuid \<times> world" where
  "add_document bid did ord st w = add_batch_row bid (Some did) None ord st w"

definition add_audio :: "uuid \<Rightarrow> uuid \<Rightarrow> int \<Rightarrow> source_status \<Rightarrow> world \<Rightarrow> uuid \<times> world" where
  "add_audio bid aid ord st w = add_batch_row bid None (Some aid) ord st w"

text \<open>The note is committed before the batch is looked up.\<close>

definition promote_audio_transcript_to_document ::
    "uuid \<Rightarrow> uuid \<Rightarrow> uuid option \<Rightarrow> pystr \<Rightarrow> world \<Rightarrow> uuid response" where
  "promote_audio_transcript_to_document aid target bid filename_stem w =
     (case get_audio w aid of
        None \<Rightarrow> (Inl audio_404, w)
      | Some a \<Rightarrow>
         if target \<noteq> aud_project_id a then (Inl (Http 400 (u ''project_mismatch'')), w)
         else (case latest_completed_transcript w aid of
            None \<Rightarrow> (Inl transcript_404, w)
          | Some tr \<Rightarrow>
             (case create_raw_text_note target (safe_export_stem filename_stem @ u ''.txt'') (tr_full_text tr) ST_IMPORT
                 (plain_metadata\<lparr>md_rest := [(u ''promoted_from_audio_id'', uuid_str aid),
                    (u ''promoted_from_transcript_id'', uuid_str (tr_id tr))]\<rparr>) w of
                (Inl e, w1) \<Rightarrow> (Inl (Raised e), w1)
              | (Inr did, w1) \<Rightarrow>
                 (case bid of
                    None \<Rightarrow> (Inr did, w1)
                  | Some b \<Rightarrow>
                     (case get_batch w1 b of
                        None \<Rightarrow> (Inl (Http 404 (u ''batch_not_found'')), w1)
                      | Some bt \<Rightarrow>
                         if bt_project_id bt \<noteq> target then (Inl (Http 404 (u ''batch_not_found'')), w1)
                         else (case add_document b did 0 SP_IDLE w1 of (_, w2) \<Rightarrow> (Inr did, w2)))))))"

section \<open>Batches of a project\<close>

definition create_project_batch :: "uuid \<Rightarrow> pystr \<Rightarrow> pystr option \<Rightarrow> world \<Rightarrow> uuid response" where
  "create_project_batch pid name descr w =
     (if pid \<notin> set (projects w) then (Inl project_404, w)
      else (let d = strip (text_of descr) in
        (Inr (next_id w), w\<lparr>next_id := next_id w + 1,
           batches := batches w @ [\<lparr>bt_id = next_id w, bt_project_id = pid, bt_name = strip name,
             bt_description = (if d = [] then None else Some d), bt_language = None, bt_multi = True,
             bt_created_at = clock w\<rparr>]\<rparr>)))"

text \<open>The keys a patch sets, with \<^verbatim>\<open>None\<close> for \<^verbatim>\<open>null\<close>.\<close>

record batch_patch =
  bp_name :: "pystr option option"
  bp_description :: "pystr option option"
  bp_language :: "pystr option option"
  bp_multi :: "bool option option"

definition patch_batch :: "batch_patch \<Rightarrow> research_batch \<Rightarrow> research_batch" where
  "patch_batch p b = b
     \<lparr>bt_name := (case bp_name p of Some (Some n) \<Rightarrow> take 512 (strip n) | _ \<Rightarrow> bt_name b),
      bt_description := (case bp_description p of None \<Rightarrow> bt_description b
        | Some v \<Rightarrow> (let d = strip (text_of v) in if d = [] then None else Some d)),
      bt_language := (case bp_language p of None \<Rightarrow> bt_language b
        | Some v \<Rightarrow> (if strip (text_of v) = [] then None else Some (normalize_output_language v (u ''ru'')))),
      bt_multi := (case bp_multi p of Some (Some m) \<Rightarrow> m | _ \<Rightarrow> bt_multi b)\<rparr>"

definition batch_404 :: failure where
  "batch_404 = Http 404 (u ''batch_not_found'')"

definition update_batch :: "uuid \<Rightarrow> batch_patch \<Rightarrow> world \<Rightarrow> unit response" where
  "update_batch bid p w =
     (case get_batch w bid of
        None \<Rightarrow> (Inl batch_404, w)
      | Some _ \<Rightarrow>
         (let w1 = w\<lparr>batches := upd_row bt_id bid (patch_batch p) (batches w)\<rparr>
          in (Inr (), if bp_multi p \<noteq> None \<or> bp_language p \<noteq> None then invalidate_batch_llm_cache_sync bid w1 else w1)))"

section \<open>Every file of a bulk upload is answered\<close>

definition ok_ids :: "bulk_item \<Rightarrow> uuid list" where
  "ok_ids it = (case bi_result it of Inl _ \<Rightarrow> [] | Inr i \<Rightarrow> [i])"

lemma upload_text_outcome:
  assumes "pid \<in> set (projects w)"
  shows "(\<exists>m. upload_text_file dx pid filename content mime st extra w = (Inl (Value_error m), w)
      \<and> m \<in> set DOCX_ERROR_CODES)
    \<or> (\<exists>i w' d. upload_text_file dx pid filename content mime st extra w = (Inr i, w') \<and> doc_id d = i
        \<and> documents w' = documents w @ [d] \<and> projects w' = projects w \<and> outbox w' = outbox w)"
proof -
  have docx: "extract_plain_text_from_docx dx c = Inl e \<Longrightarrow> \<exists>m \<in> set DOCX_ERROR_CODES. e = Value_error m" for c e
    by (auto simp: extract_plain_text_from_docx_def DOCX_ERROR_CODES_def Let_def split: if_splits option.splits)
  have "resolve_document_text dx filename content mime = Inl e \<Longrightarrow> \<exists>m \<in> set DOCX_ERROR_CODES. e = Value_error m" for e
    by (auto simp: resolve_document_text_def split: if_splits sum.splits dest!: docx) (simp_all add: DOCX_ERROR_CODES_def)
  then show ?thesis
    using assms by (cases "resolve_document_text dx filename content mime")
      (auto simp: upload_text_file_def save_file_eq add_document_row_def new_document_def split: option.splits)
qed

lemma bulk_text_item_answers:
  assumes "pid \<in> set (projects w)" "1 \<le> upload_max_bytes (conf env)"
  shows "\<exists>it w1 ds. bulk_text_item env wb pid st f w = (Inr it, w1) \<and> bi_filename it = str_or (up_filename f) (u ''upload.txt'')
    \<and> documents w1 = documents w @ ds \<and> map doc_id ds = ok_ids it \<and> projects w1 = projects w \<and> outbox w1 = outbox w"
proof -
  let ?n = "str_or (up_filename f) (u ''upload.txt'')"
  have r: "read_file env f = (if int (length (up_content f)) \<le> upload_max_bytes (conf env) then Inr (up_content f)
      else Inl (Http 413 (u ''upload_too_large'')))"
    using assms(2) by (simp add: read_file_def read_upload_file_with_limit_def read_loop_eq DEFAULT_UPLOAD_READ_CHUNK_BYTES_def)
  have c: "m \<in> set DOCX_ERROR_CODES \<Longrightarrow> ingestion_failure (Value_error m) = Http 422 m \<and> Http 422 m \<noteq> project_404" for m
    by (auto simp: DOCX_ERROR_CODES_def project_404_def http_exception_for_ingestion_value_error_def)
  show ?thesis
  proof (cases "int (length (up_content f)) \<le> upload_max_bytes (conf env)")
    case False
    then show ?thesis by (simp add: bulk_text_item_def r bulk_error_def ok_ids_def)
  next
    case True
    then show ?thesis
      using upload_text_outcome [OF assms(1), of "wb_docx wb" ?n "up_content f" "up_type f" st "bulk_extra ?n"] c
      by (auto simp: bulk_text_item_def r bulk_error_def bulk_ok_def ok_ids_def Let_def simp del: ingestion_failure.simps)
  qed
qed

lemma each_text_file_answers:
  assumes "pid \<in> set (projects w)" "1 \<le> upload_max_bytes (conf env)"
  shows "\<exists>its w1 ds. each_file (bulk_text_item env wb pid st) fs w = (Inr its, w1)
    \<and> map bi_filename its = map (\<lambda>f. str_or (up_filename f) (u ''upload.txt'')) fs
    \<and> documents w1 = documents w @ ds \<and> map doc_id ds = concat (map ok_ids its) \<and> outbox w1 = outbox w"
  using assms(1)
proof (induction fs arbitrary: w)
  case (Cons f fs)
  obtain it w1 ds where 1: "bulk_text_item env wb pid st f w = (Inr it, w1)" "bi_filename it = str_or (up_filename f) (u ''upload.txt'')"
    "documents w1 = documents w @ ds" "map doc_id ds = ok_ids it" "projects w1 = projects w" "outbox w1 = outbox w"
    using bulk_text_item_answers [OF Cons.prems assms(2)] by blast
  then have "pid \<in> set (projects w1)" using Cons.prems by simp
  from Cons.IH [OF this] obtain its w2 es where 2: "each_file (bulk_text_item env wb pid st) fs w1 = (Inr its, w2)"
    "map bi_filename its = map (\<lambda>f. str_or (up_filename f) (u ''upload.txt'')) fs"
    "documents w2 = documents w1 @ es" "map doc_id es = concat (map ok_ids its)" "outbox w2 = outbox w1" by blast
  have "documents w2 = documents w @ (ds @ es)" "map doc_id (ds @ es) = concat (map ok_ids (it # its))" "outbox w2 = outbox w"
    using 1 2 by simp_all
  then show ?case using 1 2 by auto
qed simp

lemma bulk_counts: "length (concat (map ok_ids its)) + length (filter (\<lambda>it. \<exists>c. bi_result it = Inl c) its) = length its"
  by (induction its) (auto simp: ok_ids_def split: sum.splits)

text \<open>
  A bulk upload of texts answers every file, in order: each item is an error or names the document that
  was stored, the counts add up to the number of files, and the answer is 207 exactly when one failed.
\<close>

theorem bulk_text_upload_answers_every_file:
  assumes "pid \<in> set (projects w)" "fs \<noteq> []" "length fs \<le> upload_max_files (conf env)" "1 \<le> upload_max_bytes (conf env)"
  shows "\<exists>r w' ds. upload_text_sources_bulk env wb pid fs st w = (Inr r, w')
    \<and> map bi_filename (br_items r) = map (\<lambda>f. str_or (up_filename f) (u ''upload.txt'')) fs
    \<and> documents w' = documents w @ ds \<and> map doc_id ds = concat (map ok_ids (br_items r))
    \<and> br_succeeded r = length ds \<and> br_succeeded r + br_failed r = length fs
    \<and> (br_status r = 207 \<longleftrightarrow> 0 < br_failed r) \<and> outbox w' = outbox w"
proof -
  obtain its w1 ds where e: "each_file (bulk_text_item env wb pid st) fs w = (Inr its, w1)"
    and n: "map bi_filename its = map (\<lambda>f. str_or (up_filename f) (u ''upload.txt'')) fs"
    and d: "documents w1 = documents w @ ds" "map doc_id ds = concat (map ok_ids its)" "outbox w1 = outbox w"
    using each_text_file_answers [OF assms(1, 4)] by blast
  have l: "length its = length fs" using n by (metis length_map)
  have "length ds = length (concat (map ok_ids its))" using d(2) by (metis length_map)
  then have c: "length ds + length (filter (\<lambda>it. \<exists>c. bi_result it = Inl c) its) = length fs"
    using l bulk_counts [of its] by linarith
  then have "length fs - length (filter (\<lambda>it. \<exists>c. bi_result it = Inl c) its) = length ds"
    "filter (\<lambda>it. \<exists>c. bi_result it = Inl c) its = [] \<Longrightarrow> length ds = length fs" by linarith (use c in simp)
  then show ?thesis
    using assms e n d l c by (simp add: upload_text_sources_bulk_def bulk_upload_def bulk_response_of_def Let_def)
qed

definition two_files :: "upload_file list" where
  "two_files = [\<lparr>up_filename = Some (u ''a.txt''), up_type = None, up_content = [104, 105]\<rparr>,
     \<lparr>up_filename = Some (u ''b.doc''), up_type = None, up_content = [1]\<rparr>]"

definition plain_web :: web where
  "plain_web = \<lparr>wb_docx = (\<lambda>_. None), wb_loads = (\<lambda>_. None), wb_meta = (\<lambda>_. plain_metadata)\<rparr>"

theorem bulk_text_upload_answers_every_file_witness:
  "\<exists>r w' ds. upload_text_sources_bulk plain_env plain_web 7 two_files ST_UPLOAD (empty_world\<lparr>projects := [7]\<rparr>) = (Inr r, w')
    \<and> documents w' = ds \<and> br_succeeded r = length ds \<and> br_succeeded r + br_failed r = 2"
proof -
  have "7 \<in> set (projects (empty_world\<lparr>projects := [7]\<rparr>))" "two_files \<noteq> []"
    "length two_files \<le> upload_max_files (conf plain_env)" "1 \<le> upload_max_bytes (conf plain_env)"
    by (simp_all add: two_files_def default_settings_def)
  from bulk_text_upload_answers_every_file [OF this, of plain_web ST_UPLOAD] show ?thesis
    by (auto simp: two_files_def)
qed

section \<open>A promoted transcript without its batch\<close>

text \<open>
  Promoting a transcript into a batch that does not exist is refused with 404 and yet leaves the new
  document in the project: it was committed before the batch was looked up, so a client that tries again
  collects one more copy of the transcript each time.
\<close>

theorem refused_promotion_leaves_a_document:
  assumes "get_audio w aid = Some a" "latest_completed_transcript w aid = Some tr"
    and "aud_project_id a \<in> set (projects w)" "get_batch w b = None"
  shows "\<exists>d w'. promote_audio_transcript_to_document aid (aud_project_id a) (Some b) name w
      = (Inl (Http 404 (u ''batch_not_found'')), w')
    \<and> documents w' = documents w @ [d] \<and> doc_project_id d = aud_project_id a \<and> doc_raw_text d = Some (tr_full_text tr)"
  using assms
  by (auto simp: promote_audio_transcript_to_document_def create_raw_text_note_def add_document_row_def new_document_def
      get_batch_def Let_def)

definition spoken :: world where
  "spoken = empty_world\<lparr>projects := [7], audios := [plain_audio 1 7],
     transcripts := [\<lparr>tr_id = 2, tr_audio_id = 1, tr_full_text = u ''hello'', tr_language = None,
       tr_status = JS_COMPLETED, tr_provider = None, tr_created_at = 0\<rparr>]\<rparr>"

theorem refused_promotion_leaves_a_document_witness:
  "\<exists>d w'. promote_audio_transcript_to_document 1 7 (Some 9) (u ''talk'') spoken
      = (Inl (Http 404 (u ''batch_not_found'')), w') \<and> documents w' = [d] \<and> doc_raw_text d = Some (u ''hello'')"
proof -
  have a: "get_audio spoken 1 = Some (plain_audio 1 7)"
    by (simp add: spoken_def get_audio_def get_row_def plain_audio_def del: One_nat_def)
  obtain tr where tr: "latest_completed_transcript spoken 1 = Some tr" "tr_full_text tr = u ''hello''"
    by (simp add: latest_completed_transcript_def spoken_def first_row_def del: One_nat_def)
  have "aud_project_id (plain_audio 1 7) = 7" "aud_project_id (plain_audio 1 7) \<in> set (projects spoken)"
    "get_batch spoken 9 = None" "documents spoken = []"
    by (simp_all add: plain_audio_def spoken_def get_batch_def get_row_def empty_world_def)
  then show ?thesis using refused_promotion_leaves_a_document [OF a tr(1), of 9 "u ''talk''"] tr(2) by auto
qed

end
