(* ===== verification/Queue_Routes.thy ===== *)
theory Queue_Routes
  imports Source_Routes
begin

text \<open>
  The handlers that put sources into the queues: bulk upload, processing and recovery of a project
  (\<^verbatim>\<open>api/routes/project_analysis.py\<close>) and of a batch (\<^verbatim>\<open>research_batches.py\<close>), and
  \<^verbatim>\<open>ResearchBatchRepository.delete_source_row\<close>.
\<close>

section \<open>Guards\<close>

definition ensure_project_queue_idle :: "bool \<Rightarrow> uuid \<Rightarrow> world \<Rightarrow> failure option" where
  "ensure_project_queue_idle force pid w =
     (if force then None
      else if project_queue_has_active_work (fetch_project_queue_summary_sync pid w)
        then Some (Http 409 (u ''processing_not_complete'')) else None)"

definition GROUP_BY_FIELDS :: "pystr list" where
  "GROUP_BY_FIELDS = [u ''gender'', u ''age_range'', u ''segments'', u ''language'', u ''city'',
     u ''interview_type'', u ''source'', u ''date'', u ''interview_unit'']"

definition validate_segment_query :: "pystr option \<Rightarrow> pystr option \<Rightarrow> failure + pystr option" where
  "validate_segment_query group_by seg =
     (if (case seg of None \<Rightarrow> False | Some s \<Rightarrow> strip s = []) then Inl (Http 400 (u ''empty_segment''))
      else if seg \<noteq> None \<and> group_by = None then Inl (Http 400 (u ''segment_requires_group_by''))
      else if (case group_by of None \<Rightarrow> False | Some g \<Rightarrow> g \<notin> set GROUP_BY_FIELDS)
        then Inl (Http 400 (u ''invalid_group_by''))
      else if (case seg of None \<Rightarrow> False | Some s \<Rightarrow> 240 < length s) then Inl (Http 400 (u ''segment_too_long''))
      else Inr (map_option strip seg))"

text \<open>The \<^verbatim>\<open>metadata_json\<close> form field.\<close>

definition parse_metadata_json :: "web \<Rightarrow> pystr \<Rightarrow> failure + metadata" where
  "parse_metadata_json wb s =
     (if strip s = [] then Inr plain_metadata
      else case wb_loads wb s of
        Some (JObj kvs) \<Rightarrow> Inr (wb_meta wb kvs)
      | _ \<Rightarrow> Inl (Http 400 (u ''invalid_metadata_json'')))"

section \<open>Bulk upload to a project\<close>

definition MAX_BULK_FILES :: nat where "MAX_BULK_FILES = 100"
definition MAX_PROJECT_SOURCES :: nat where "MAX_PROJECT_SOURCES = 500"

text \<open>The form of a bulk upload.\<close>

record upload_form =
  uf_meta :: pystr
  uf_run :: bool
  uf_language :: "pystr option"
  uf_transcription_language :: "pystr option"
  uf_source_type :: source_type
  uf_invalidate :: bool

fun file_failure :: "failure \<Rightarrow> failure" where
  "file_failure (Raised e) = ingestion_failure e"
| "file_failure (Http s c) = Http s c"

text \<open>One file, stored and committed: its kind and its source.\<close>

definition store_file :: "env \<Rightarrow> web \<Rightarrow> upload_form \<Rightarrow> metadata \<Rightarrow> uuid \<Rightarrow> upload_file \<Rightarrow> world
    \<Rightarrow> (source_kind \<times> uuid) response" where
  "store_file env wb fm meta pid f w =
     (let fname = str_or (up_filename f) (u ''upload'') in
      if is_audio_upload fname (up_type f) then
        (case upload_audio_file_stream env pid f (uf_language fm) (uf_transcription_language fm) (uf_source_type fm) meta w of
           (Inl e, w1) \<Rightarrow> (Inl (ingestion_failure e), w1)
         | (Inr i, w1) \<Rightarrow> (Inr (Audio, i), w1))
      else (case read_file env f of
          Inl e \<Rightarrow> (Inl (file_failure e), w)
        | Inr data \<Rightarrow>
           (case upload_text_file (wb_docx wb) pid fname data (up_type f) (uf_source_type fm) meta w of
              (Inl e, w1) \<Rightarrow> (Inl (ingestion_failure e), w1)
            | (Inr i, w1) \<Rightarrow> (Inr (Document, i), w1))))"

definition ids_of :: "source_kind \<Rightarrow> (source_kind \<times> uuid) list \<Rightarrow> uuid list" where
  "ids_of k cs = map snd (filter (\<lambda>c. fst c = k) cs)"

definition count_project_sources :: "uuid \<Rightarrow> world \<Rightarrow> nat" where
  "count_project_sources pid w = length (filter (\<lambda>d. doc_project_id d = pid) (documents w))
     + length (filter (\<lambda>a. aud_project_id a = pid) (audios w))"

text \<open>A failed send is logged; the answer names the drain that was scheduled.\<close>

definition enqueue_project :: "env \<Rightarrow> uuid \<Rightarrow> (source_kind \<times> uuid) list \<Rightarrow> nat \<Rightarrow> world \<Rightarrow> pystr list \<times> world" where
  "enqueue_project env pid cs base w =
     (case schedule_project_processing env pid None
          (mark_sources_pending (ids_of Document cs) (ids_of Audio cs) (int base) w) of
        (Inl e, w1) \<Rightarrow> ([], w1)
      | (Inr _, w1) \<Rightarrow> ([u ''project_processing_queue''], w1))"

definition bulk_upload_project_sources :: "env \<Rightarrow> web \<Rightarrow> upload_form \<Rightarrow> uuid \<Rightarrow> upload_file list \<Rightarrow> world
    \<Rightarrow> ((source_kind \<times> uuid) list \<times> pystr list) response" where
  "bulk_upload_project_sources env wb fm pid fs w =
     (if pid \<notin> set (projects w) then (Inl project_404, w)
      else if fs = [] then (Inl (Http 400 (u ''no_files'')), w)
      else if MAX_BULK_FILES < length fs then (Inl (Http 400 (u ''too_many_files'')), w)
      else if MAX_PROJECT_SOURCES < count_project_sources pid w + length fs then (Inl (Http 400 (u ''project_capacity'')), w)
      else case parse_metadata_json wb (uf_meta fm) of
        Inl e \<Rightarrow> (Inl e, w)
      | Inr meta \<Rightarrow>
         (case each_file (store_file env wb fm meta pid) fs w of
            (Inl e, w1) \<Rightarrow> (Inl e, w1)
          | (Inr cs, w1) \<Rightarrow>
             (let w2 = (if cs \<noteq> [] \<and> uf_invalidate fm then invalidate_project_llm_cache_sync pid w1 else w1) in
              if uf_run fm \<and> cs \<noteq> []
              then (case enqueue_project env pid cs (count_project_sources pid w) w2 of (ts, w3) \<Rightarrow> (Inr (cs, ts), w3))
              else (Inr (cs, []), w2))))"

section \<open>Processing and recovery of a project\<close>

definition queue_process_project :: "env \<Rightarrow> uuid \<Rightarrow> world \<Rightarrow> unit response" where
  "queue_process_project env pid w =
     (if pid \<notin> set (projects w) then (Inl project_404, w)
      else case schedule_project_processing env pid None (snd (mark_idle_and_failed_sources_pending pid w)) of
        (Inl e, w1) \<Rightarrow> (Inl (Http 502 (u ''queue_failed'')), w1)
      | (Inr x, w1) \<Rightarrow> (Inr x, w1))"

text \<open>The queue of a project as the client sees it.\<close>

record queue_item =
  qi_kind :: source_kind
  qi_id :: uuid
  qi_filename :: pystr
  qi_status :: source_status
  qi_error :: "pystr option"

definition get_project_processing_queue :: "uuid \<Rightarrow> world \<Rightarrow> failure + queue_summary \<times> queue_item list" where
  "get_project_processing_queue pid w =
     (if pid \<notin> set (projects w) then Inl project_404
      else Inr (fetch_project_queue_summary_sync pid w,
        map (\<lambda>d. \<lparr>qi_kind = Document, qi_id = doc_id d, qi_filename = doc_filename d, qi_status = doc_status d,
              qi_error = doc_last_error d\<rparr>) (filter (\<lambda>d. doc_project_id d = pid) (documents w)) @
        map (\<lambda>a. \<lparr>qi_kind = Audio, qi_id = aud_id a, qi_filename = aud_filename a, qi_status = aud_status a,
              qi_error = aud_last_error a\<rparr>) (filter (\<lambda>a. aud_project_id a = pid) (audios w))))"

fun requeue_documents :: "uuid list \<Rightarrow> int \<Rightarrow> world \<Rightarrow> world" where
  "requeue_documents [] i w = w"
| "requeue_documents (did # dids) i w =
     (case get_doc w did of
        None \<Rightarrow> requeue_documents dids (i + 1) w
      | Some _ \<Rightarrow> requeue_documents dids (i + 1) (upd_doc did (doc_pend (10000 + i)) w))"

record recover_response =
  rc_queued :: "uuid list"
  rc_skipped :: "uuid list"
  rc_tasks :: "pystr list"

text \<open>The send is after the commit, and its failure leaves the handler.\<close>

definition recover_project_document_pipeline :: "env \<Rightarrow> uuid \<Rightarrow> world \<Rightarrow> recover_response response" where
  "recover_project_document_pipeline env pid w =
     (if pid \<notin> set (projects w) then (Inl project_404, w)
      else case list_project_documents_needing_recovery env pid w of
        (queued, skipped) \<Rightarrow>
          if queued = [] then (Inr \<lparr>rc_queued = [], rc_skipped = skipped, rc_tasks = []\<rparr>, w)
          else (case schedule_project_processing env pid None (requeue_documents queued 0 w) of
              (Inl e, w1) \<Rightarrow> (Inl (Raised e), w1)
            | (Inr _, w1) \<Rightarrow> (Inr \<lparr>rc_queued = queued, rc_skipped = skipped, rc_tasks = [u ''project_processing_queue'']\<rparr>, w1)))"

section \<open>Sources of a batch\<close>

definition MAX_BATCH_SOURCES :: nat where "MAX_BATCH_SOURCES = 200"

definition join_document :: "research_batch \<Rightarrow> uuid \<Rightarrow> int \<Rightarrow> source_status \<Rightarrow> world \<Rightarrow> uuid \<times> world" where
  "join_document b did ord st w = (case add_document (bt_id b) did ord st w of (rid, w1) \<Rightarrow>
     (rid, upd_doc did (\<lambda>d. d\<lparr>doc_metadata := merge_batch_analysis_metadata (doc_metadata d) (bt_id b) rid (bt_multi b)\<rparr>) w1))"

definition join_audio :: "research_batch \<Rightarrow> uuid \<Rightarrow> int \<Rightarrow> source_status \<Rightarrow> world \<Rightarrow> uuid \<times> world" where
  "join_audio b aid ord st w = (case add_audio (bt_id b) aid ord st w of (rid, w1) \<Rightarrow>
     (rid, upd_audio aid (\<lambda>a. a\<lparr>aud_metadata := merge_batch_analysis_metadata (aud_metadata a) (bt_id b) rid (bt_multi b)\<rparr>) w1))"

definition source_404 :: failure where
  "source_404 = Http 404 (u ''source_not_found'')"

text \<open>The row is added pending; a failed send is logged.\<close>

definition finish_add :: "env \<Rightarrow> uuid \<Rightarrow> uuid \<times> world \<Rightarrow> uuid response" where
  "finish_add env bid r = (case r of (rid, w) \<Rightarrow>
     (Inr rid, snd (schedule_batch_queue env bid None (invalidate_batch_llm_cache_sync bid w))))"

definition add_batch_source :: "env \<Rightarrow> uuid \<Rightarrow> uuid option \<Rightarrow> uuid option \<Rightarrow> world \<Rightarrow> uuid response" where
  "add_batch_source env bid did aid w =
     (if (did = None) = (aid = None) then (Inl (Http 400 (u ''invalid_source_payload'')), w)
      else case get_batch w bid of
        None \<Rightarrow> (Inl batch_404, w)
      | Some b \<Rightarrow>
         (case did of
            Some i \<Rightarrow>
             (case get_doc w i of
                None \<Rightarrow> (Inl source_404, w)
              | Some d \<Rightarrow> if doc_project_id d \<noteq> bt_project_id b then (Inl source_404, w)
                  else finish_add env bid (join_document b i 0 SP_PENDING w))
          | None \<Rightarrow>
             (case get_audio w (the aid) of
                None \<Rightarrow> (Inl source_404, w)
              | Some a \<Rightarrow> if aud_project_id a \<noteq> bt_project_id b then (Inl source_404, w)
                  else finish_add env bid (join_audio b (aud_id a) 0 SP_PENDING w))))"

text \<open>One file of a batch upload: stored, then joined to the batch at its place.\<close>

definition store_batch_file :: "env \<Rightarrow> web \<Rightarrow> upload_form \<Rightarrow> metadata \<Rightarrow> research_batch \<Rightarrow> int \<times> upload_file \<Rightarrow> world
    \<Rightarrow> (source_kind \<times> uuid \<times> uuid) response" where
  "store_batch_file env wb fm meta b p w =
     (case store_file env wb fm meta (bt_project_id b) (snd p) w of
        (Inl e, w1) \<Rightarrow> (Inl e, w1)
      | (Inr (k, i), w1) \<Rightarrow>
         (case (case k of Document \<Rightarrow> join_document b i (fst p) (if uf_run fm then SP_PENDING else SP_IDLE) w1
                 | Audio \<Rightarrow> join_audio b i (fst p) (if uf_run fm then SP_PENDING else SP_IDLE) w1) of
            (rid, w2) \<Rightarrow> (Inr (k, i, rid), w2)))"

fun each_numbered :: "(int \<times> upload_file \<Rightarrow> world \<Rightarrow> 'a response) \<Rightarrow> int \<Rightarrow> upload_file list \<Rightarrow> world \<Rightarrow> 'a list response" where
  "each_numbered step n [] w = (Inr [], w)"
| "each_numbered step n (f # fs) w =
     (case step (n, f) w of
        (Inl e, w1) \<Rightarrow> (Inl e, w1)
      | (Inr x, w1) \<Rightarrow> (case each_numbered step (n + 1) fs w1 of
            (Inl e, w2) \<Rightarrow> (Inl e, w2)
          | (Inr xs, w2) \<Rightarrow> (Inr (x # xs), w2)))"

definition batch_rows :: "uuid \<Rightarrow> world \<Rightarrow> batch_source list" where
  "batch_rows bid w = filter (\<lambda>r. row_batch_id r = bid) (batch_sources w)"

definition bulk_upload_batch_sources :: "env \<Rightarrow> web \<Rightarrow> upload_form \<Rightarrow> uuid \<Rightarrow> upload_file list \<Rightarrow> world
    \<Rightarrow> ((source_kind \<times> uuid \<times> uuid) list \<times> bool) response" where
  "bulk_upload_batch_sources env wb fm bid fs w =
     (case get_batch w bid of
        None \<Rightarrow> (Inl batch_404, w)
      | Some b \<Rightarrow>
         if fs = [] then (Inl (Http 400 (u ''no_files'')), w)
         else if MAX_BULK_FILES < length fs then (Inl (Http 400 (u ''too_many_files'')), w)
         else if MAX_BATCH_SOURCES < length (batch_rows bid w) + length fs then (Inl (Http 400 (u ''batch_capacity'')), w)
         else case parse_metadata_json wb (uf_meta fm) of
           Inl e \<Rightarrow> (Inl e, w)
         | Inr meta \<Rightarrow>
            (case each_numbered (store_batch_file env wb fm meta b) (int (length (batch_rows bid w))) fs w of
               (Inl e, w1) \<Rightarrow> (Inl e, w1)
             | (Inr cs, w1) \<Rightarrow>
                (let w2 = (if cs \<noteq> [] \<and> uf_invalidate fm then invalidate_batch_llm_cache_sync bid w1 else w1) in
                 if uf_run fm \<and> cs \<noteq> []
                 then (case schedule_batch_queue env bid None w2 of
                     (Inl e, w3) \<Rightarrow> (Inr (cs, False), w3)
                   | (Inr _, w3) \<Rightarrow> (Inr (cs, True), w3))
                 else (Inr (cs, False), w2))))"

text \<open>The send is before the commit: when it fails nothing is written.\<close>

definition recover_batch_document_pipeline :: "env \<Rightarrow> uuid \<Rightarrow> world \<Rightarrow> recover_response response" where
  "recover_batch_document_pipeline env bid w =
     (if get_batch w bid = None then (Inl batch_404, w)
      else case list_batch_documents_needing_recovery env bid w of
        (queued, skipped) \<Rightarrow>
          if queued = [] then (Inr \<lparr>rc_queued = [], rc_skipped = skipped, rc_tasks = []\<rparr>, w)
          else (case schedule_batch_queue env bid None w of
              (Inl e, w1) \<Rightarrow> (Inl (Raised e), w1)
            | (Inr _, w1) \<Rightarrow>
               (Inr \<lparr>rc_queued = queued, rc_skipped = skipped, rc_tasks = [u ''process_batch_processing_queue'']\<rparr>,
                w1\<lparr>batch_sources := map (\<lambda>r. if row_batch_id r = bid \<and> (\<exists>d \<in> set queued. row_document_id r = Some d)
                     then r\<lparr>row_status := SP_PENDING, row_last_error := None\<rparr> else r) (batch_sources w1)\<rparr>)))"

definition delete_source_row :: "uuid \<Rightarrow> uuid \<Rightarrow> world \<Rightarrow> bool \<times> world" where
  "delete_source_row bid rid w =
     (case get_source w rid of
        None \<Rightarrow> (False, w)
      | Some r \<Rightarrow> if row_batch_id r \<noteq> bid then (False, w)
          else (True, w\<lparr>batch_sources := filter (\<lambda>r. row_id r \<noteq> rid) (batch_sources w)\<rparr>))"

definition remove_batch_source :: "uuid \<Rightarrow> uuid \<Rightarrow> world \<Rightarrow> unit response" where
  "remove_batch_source bid rid w =
     (case delete_source_row bid rid w of
        (False, w1) \<Rightarrow> (Inl (Http 404 (u ''batch_source_not_found'')), w1)
      | (True, w1) \<Rightarrow> (Inr (), invalidate_batch_llm_cache_sync bid w1))"

definition queue_batch_report :: "env \<Rightarrow> uuid \<Rightarrow> pystr option \<Rightarrow> world \<Rightarrow> unit response" where
  "queue_batch_report env bid lang w =
     (case get_batch w bid of
        None \<Rightarrow> (Inl batch_404, w)
      | Some b \<Rightarrow> queue_task env (Generate_batch_report (bt_project_id b) bid lang) w)"

section \<open>What a bulk upload stores\<close>

text \<open>Ids are handed out in increasing order, so the rows already there keep their lookups.\<close>

definition fresh_ids :: "world \<Rightarrow> bool" where
  "fresh_ids w \<longleftrightarrow> (\<forall>d \<in> set (documents w). doc_id d < next_id w) \<and> (\<forall>a \<in> set (audios w). aud_id a < next_id w)"

text \<open>\<open>ds\<close> and \<open>as\<close> were stored for \<open>cs\<close>, outside every queue, and nothing else but files was written.\<close>

definition stored :: "uuid \<Rightarrow> world \<Rightarrow> (source_kind \<times> uuid) list \<Rightarrow> source_document list \<Rightarrow> source_audio list \<Rightarrow> world \<Rightarrow> bool" where
  "stored pid w cs ds as w' \<longleftrightarrow> documents w' = documents w @ ds \<and> audios w' = audios w @ as
     \<and> map doc_id ds = ids_of Document cs \<and> map aud_id as = ids_of Audio cs
     \<and> (\<forall>d \<in> set ds. doc_project_id d = pid \<and> doc_status d = SP_IDLE)
     \<and> (\<forall>a \<in> set as. aud_project_id a = pid \<and> aud_status a = SP_IDLE)
     \<and> (\<forall>c \<in> set cs. next_id w \<le> snd c \<and> snd c < next_id w') \<and> sorted_wrt (<) (map snd cs) \<and> next_id w \<le> next_id w'
     \<and> outbox w' = outbox w \<and> projects w' = projects w \<and> project_llm_cache w' = project_llm_cache w
     \<and> batch_sources w' = batch_sources w \<and> batches w' = batches w"

lemma stored_Nil: "stored pid w [] [] [] w"
  by (simp add: stored_def ids_of_def)

lemma stored_append:
  assumes "stored pid w cs ds as w1" "stored pid w1 cs' ds' as' w2"
  shows "stored pid w (cs @ cs') (ds @ ds') (as @ as') w2"
  using assms by (fastforce simp: stored_def ids_of_def sorted_wrt_append)

lemma upload_text_stores:
  assumes "upload_text_file dx pid fn c mime st m w = (Inr i, w')"
  shows "\<exists>d. stored pid w [(Document, i)] [d] [] w'"
  using assms
  by (auto simp: upload_text_file_def save_file_eq add_document_row_def new_document_def stored_def ids_of_def
      split: if_splits sum.splits option.splits)

lemma upload_text_fails: "upload_text_file dx pid fn c mime st m w = (Inl e, w') \<Longrightarrow> w' = w"
  by (auto simp: upload_text_file_def save_file_eq add_document_row_def split: if_splits sum.splits option.splits)

lemma upload_stream_stores:
  assumes "upload_audio_file_stream env pid f lang trl st m w = (Inr i, w')"
  shows "\<exists>a. stored pid w [(Audio, i)] [] [a] w'"
  using assms
  by (auto simp: upload_audio_file_stream_def save_file_eq add_audio_row_def new_audio_def stored_def ids_of_def Let_def
      split: if_splits option.splits)

lemma upload_stream_fails: "upload_audio_file_stream env pid f lang trl st m w = (Inl e, w') \<Longrightarrow> w' = w"
  by (auto simp: upload_audio_file_stream_def save_file_eq add_audio_row_def Let_def split: if_splits option.splits)

lemma store_file_stores:
  assumes "store_file env wb fm meta pid f w = (Inr c, w')"
  shows "\<exists>ds as. stored pid w [c] ds as w'"
  using assms upload_text_stores upload_stream_stores
  by (fastforce simp: store_file_def Let_def split: if_splits sum.splits prod.splits)

lemma store_file_fails: "store_file env wb fm meta pid f w = (Inl e, w') \<Longrightarrow> w' = w"
  by (auto simp: store_file_def Let_def dest: upload_text_fails upload_stream_fails split: if_splits sum.splits prod.splits)

lemma each_file_stores:
  assumes "each_file (store_file env wb fm meta pid) fs w = (Inr cs, w')"
  shows "length cs = length fs \<and> (\<exists>ds as. stored pid w cs ds as w')"
  using assms
proof (induction fs arbitrary: w cs)
  case Nil then show ?case using stored_Nil by auto
next
  case (Cons f fs)
  then obtain c w1 cs' where 1: "store_file env wb fm meta pid f w = (Inr c, w1)"
    and 2: "each_file (store_file env wb fm meta pid) fs w1 = (Inr cs', w')" and cs: "cs = c # cs'"
    by (auto split: prod.splits sum.splits)
  obtain ds as where s: "stored pid w [c] ds as w1" using store_file_stores [OF 1] by blast
  obtain ds' as' where s': "stored pid w1 cs' ds' as' w'" "length cs' = length fs" using Cons.IH [OF 2] by blast
  show ?case using stored_append [OF s s'(1)] s'(2) cs by auto
qed

text \<open>Every file up to the first that fails is stored.\<close>

lemma each_file_fails:
  assumes "each_file (store_file env wb fm meta pid) fs w = (Inl e, w')"
  shows "\<exists>k cs ds as. k < length fs \<and> length cs = k \<and> stored pid w cs ds as w'"
  using assms
proof (induction fs arbitrary: w)
  case (Cons f fs)
  show ?case
  proof (cases "store_file env wb fm meta pid f w")
    case (Pair r w1)
    show ?thesis
    proof (cases r)
      case (Inl e')
      then have "w' = w" using Cons.prems Pair store_file_fails [of env wb fm meta pid f w e' w1] by simp
      then show ?thesis using stored_Nil by (intro exI [of _ 0] exI [of _ "[]"]) simp
    next
      case (Inr c)
      then have 2: "each_file (store_file env wb fm meta pid) fs w1 = (Inl e, w')"
        using Cons.prems Pair by (auto split: prod.splits sum.splits)
      obtain ds as where s: "stored pid w [c] ds as w1" using store_file_stores Pair Inr by blast
      obtain k cs ds' as' where k: "k < length fs" "length cs = k" "stored pid w1 cs ds' as' w'" using Cons.IH [OF 2] by blast
      show ?thesis
        using stored_append [OF s k(3)] k(1, 2) by (intro exI [of _ "Suc k"] exI [of _ "c # cs"]) auto
    qed
  qed
qed simp

section \<open>Marking what was stored\<close>

fun pend_docs :: "int \<Rightarrow> source_document list \<Rightarrow> source_document list" where
  "pend_docs ord [] = []"
| "pend_docs ord (d # ds) = doc_pend ord d # pend_docs (ord + 1) ds"

fun pend_audios :: "int \<Rightarrow> source_audio list \<Rightarrow> source_audio list" where
  "pend_audios ord [] = []"
| "pend_audios ord (a # as) = aud_pend ord a # pend_audios (ord + 1) as"

lemma pend_docs_sel:
  "map doc_id (pend_docs ord ds) = map doc_id ds"
  "map doc_sort_order (pend_docs ord ds) = map (\<lambda>k. ord + int k) [0..<length ds]"
  "d \<in> set (pend_docs ord ds) \<Longrightarrow> doc_status d = SP_PENDING"
  by (induction ds arbitrary: ord) (auto simp: doc_pend_def map_upt_Suc add.assoc simp del: upt_Suc)

lemma pend_audios_sel:
  "map aud_id (pend_audios ord as) = map aud_id as"
  "map aud_sort_order (pend_audios ord as) = map (\<lambda>k. ord + int k) [0..<length as]"
  "a \<in> set (pend_audios ord as) \<Longrightarrow> aud_status a = SP_PENDING"
  by (induction as arbitrary: ord) (auto simp: aud_pend_def map_upt_Suc add.assoc simp del: upt_Suc)

lemma upd_row_middle:
  assumes "i \<notin> key ` set xs" "i \<notin> key ` set ys" "key r = i"
  shows "upd_row key i f (xs @ r # ys) = xs @ f r # ys" "get_row key i (xs @ r # ys) = Some r"
proof -
  have "upd_row key i f xs = xs" "upd_row key i f ys = ys" using assms(1, 2) by (auto intro: upd_row_absent)
  then show "upd_row key i f (xs @ r # ys) = xs @ f r # ys" using assms(3) by (simp add: upd_row_def)
  have "get_row key i xs = None" using assms(1) by (simp add: get_row_None_iff)
  then show "get_row key i (xs @ r # ys) = Some r" using assms(3) by (simp add: get_row_append) (simp add: get_row_def)
qed

lemma mark_docs_rows:
  assumes "documents w = xs @ ds" "distinct (map doc_id ds)" "doc_id ` set xs \<inter> doc_id ` set ds = {}"
  shows "mark_docs_pending (map doc_id ds) ord w = (ord + int (length ds), w\<lparr>documents := xs @ pend_docs ord ds\<rparr>)"
  using assms
proof (induction ds arbitrary: xs ord w)
  case (Cons d ds)
  have fresh: "doc_id d \<notin> doc_id ` set xs" "doc_id d \<notin> doc_id ` set ds" using Cons.prems(2, 3) by auto
  let ?w = "upd_doc (doc_id d) (doc_pend ord) w"
  have w: "documents ?w = (xs @ [doc_pend ord d]) @ ds"
    using upd_row_middle(1) [OF fresh refl] Cons.prems(1) by (simp add: upd_doc_def)
  have "doc_id ` set (xs @ [doc_pend ord d]) \<inter> doc_id ` set ds = {}"
    using Cons.prems(3) fresh by (auto simp: doc_pend_def)
  then have "mark_docs_pending (map doc_id ds) (ord + 1) ?w
      = (ord + 1 + int (length ds), ?w\<lparr>documents := (xs @ [doc_pend ord d]) @ pend_docs (ord + 1) ds\<rparr>)"
    using Cons.IH [OF w] Cons.prems(2) by simp
  moreover have "get_doc w (doc_id d) = Some d"
    using upd_row_middle(2) [OF fresh refl] Cons.prems(1) by (simp add: get_doc_def)
  ultimately show ?case by (simp add: upd_doc_def)
qed simp

lemma mark_audios_rows:
  assumes "audios w = xs @ as" "distinct (map aud_id as)" "aud_id ` set xs \<inter> aud_id ` set as = {}"
  shows "mark_audios_pending (map aud_id as) ord w = (ord + int (length as), w\<lparr>audios := xs @ pend_audios ord as\<rparr>)"
  using assms
proof (induction as arbitrary: xs ord w)
  case (Cons a as)
  have fresh: "aud_id a \<notin> aud_id ` set xs" "aud_id a \<notin> aud_id ` set as" using Cons.prems(2, 3) by auto
  let ?w = "upd_audio (aud_id a) (aud_pend ord) w"
  have w: "audios ?w = (xs @ [aud_pend ord a]) @ as"
    using upd_row_middle(1) [OF fresh refl] Cons.prems(1) by (simp add: upd_audio_def)
  have "aud_id ` set (xs @ [aud_pend ord a]) \<inter> aud_id ` set as = {}"
    using Cons.prems(3) fresh by (auto simp: aud_pend_def)
  then have "mark_audios_pending (map aud_id as) (ord + 1) ?w
      = (ord + 1 + int (length as), ?w\<lparr>audios := (xs @ [aud_pend ord a]) @ pend_audios (ord + 1) as\<rparr>)"
    using Cons.IH [OF w] Cons.prems(2) by simp
  moreover have "get_audio w (aud_id a) = Some a"
    using upd_row_middle(2) [OF fresh refl] Cons.prems(1) by (simp add: get_audio_def)
  ultimately show ?case by (simp add: upd_audio_def)
qed simp

lemma ids_of_sub: "sorted_wrt (<) (map snd cs) \<Longrightarrow> sorted_wrt (<) (ids_of k cs)"
  by (induction cs) (auto simp: ids_of_def)

lemma stored_marked:
  assumes "stored pid w cs ds as w1" "fresh_ids w" "documents w2 = documents w1" "audios w2 = audios w1"
  shows "mark_sources_pending (ids_of Document cs) (ids_of Audio cs) ord w2
    = w2\<lparr>documents := documents w @ pend_docs ord ds, audios := audios w @ pend_audios (ord + int (length ds)) as\<rparr>"
proof -
  have i: "map doc_id ds = ids_of Document cs" "map aud_id as = ids_of Audio cs" using assms(1) by (simp_all add: stored_def)
  have sub: "set (ids_of k cs) \<subseteq> snd ` set cs" for k by (auto simp: ids_of_def)
  have "distinct (ids_of k cs)" for k
    using assms(1) ids_of_sub [of cs k] strict_sorted_iff by (auto simp: stored_def)
  then have dist: "distinct (map doc_id ds)" "distinct (map aud_id as)" by (simp_all add: i)
  have new: "\<forall>j \<in> set (ids_of k cs). next_id w \<le> j" for k using assms(1) sub [of k] by (fastforce simp: stored_def)
  have "doc_id ` set (documents w) \<inter> set (ids_of Document cs) = {}"
    "aud_id ` set (audios w) \<inter> set (ids_of Audio cs) = {}"
    using assms(2) new by (fastforce simp: fresh_ids_def)+
  then have "doc_id ` set (documents w) \<inter> doc_id ` set ds = {}" "aud_id ` set (audios w) \<inter> aud_id ` set as = {}"
    by (simp_all add: i [symmetric])
  then show ?thesis
    using mark_docs_rows [of w2 "documents w" ds ord] mark_audios_rows [of _ "audios w" as "ord + int (length ds)"]
      assms dist by (simp add: mark_sources_pending_def i [symmetric] stored_def)
qed

lemma ids_of_lengths: "length (ids_of Document cs) + length (ids_of Audio cs) = length cs"
proof -
  have "fst c = Audio \<longleftrightarrow> fst c \<noteq> Document" for c :: "source_kind \<times> uuid" by (cases "fst c") auto
  then show ?thesis using sum_length_filter_compl [of "\<lambda>c. fst c = Document" cs] by (simp add: ids_of_def)
qed

lemma upt_orders:
  "map (\<lambda>k. int n + int k) [0..<a] @ map (\<lambda>k. int n + int a + int k) [0..<b] = map int [n..<n + a + b]"
proof -
  have "map (\<lambda>k. int m + int k) [0..<c] = map int [m..<m + c]" for m c
    using map_add_upt [of m c] by (metis (mono_tags, lifting) list.map_comp map_eq_conv o_apply of_nat_add add.commute)
  from this [of n a] this [of "n + a" b] show ?thesis
    using upt_add_eq_append [of n "n + a" b] by simp
qed


definition run_form :: upload_form where
  "run_form = \<lparr>uf_meta = [], uf_run = True, uf_language = None, uf_transcription_language = None,
     uf_source_type = ST_UPLOAD, uf_invalidate = True\<rparr>"

definition text_and_audio :: "upload_file list" where
  "text_and_audio = [\<lparr>up_filename = Some (u ''a.mp3''), up_type = None, up_content = [1]\<rparr>,
     \<lparr>up_filename = Some (u ''b.txt''), up_type = None, up_content = [104, 105]\<rparr>]"


text \<open>
  When a file of a bulk upload is refused, the answer is only that error; the files before it stay in the
  project, outside the queue and with the old cache, although the analysis was asked for, and no drain is scheduled.
\<close>

theorem failed_bulk_upload_keeps_earlier_files:
  assumes "bulk_upload_project_sources env wb fm pid fs w = (Inl e, w')"
  shows "\<exists>ds as. documents w' = documents w @ ds \<and> audios w' = audios w @ as
    \<and> length ds + length as \<le> length fs - 1
    \<and> (\<forall>d \<in> set ds. doc_project_id d = pid \<and> doc_status d = SP_IDLE)
    \<and> (\<forall>a \<in> set as. aud_project_id a = pid \<and> aud_status a = SP_IDLE)
    \<and> outbox w' = outbox w \<and> project_llm_cache w' = project_llm_cache w"
proof -
  have "w' = w \<or> (\<exists>meta. each_file (store_file env wb fm meta pid) fs w = (Inl e, w'))"
    using assms unfolding bulk_upload_project_sources_def
    by (auto simp: Let_def split: if_splits sum.splits prod.splits)
  then show ?thesis
  proof
    assume "\<exists>meta. each_file (store_file env wb fm meta pid) fs w = (Inl e, w')"
    then obtain k cs ds as where k: "k < length fs" "length cs = k" and s: "stored pid w cs ds as w'"
      using each_file_fails by blast
    have "length ds + length as = k" using ids_of_lengths [of cs] k(2) s by (metis length_map stored_def)
    then have "length ds + length as \<le> length fs - 1" using k(1) by simp
    then show ?thesis using s by (intro exI [of _ ds] exI [of _ as]) (simp add: stored_def)
  qed simp
qed

theorem failed_bulk_upload_keeps_earlier_files_witness:
  "\<exists>w' d. bulk_upload_project_sources plain_env plain_web run_form 7 two_files (empty_world\<lparr>projects := [7]\<rparr>)
      = (Inl (Http 422 (u ''doc_format_not_supported_use_docx'')), w')
    \<and> documents w' = [d] \<and> doc_status d = SP_IDLE \<and> outbox w' = []"
proof -
  have f: "\<not> is_audio_upload (u ''a.txt'') None" "\<not> is_audio_upload (u ''b.doc'') None" by code_simp+
  have r: "resolve_document_text (\<lambda>_. None) (u ''a.txt'') [104, 105] None = Inr (Some [104, 105])"
    "resolve_document_text (\<lambda>_. None) (u ''b.doc'') [1] None = Inl (Value_error (u ''doc_format_not_supported_use_docx''))"
    by code_simp+
  have l: "read_loop 1048576 104857600 [] xs = Some xs" if "length xs \<le> 5" for xs using that by (simp add: read_loop_eq)
  obtain r' w' where 0: "bulk_upload_project_sources plain_env plain_web run_form 7 two_files (empty_world\<lparr>projects := [7]\<rparr>)
      = (r', w')" by (metis surj_pair)
  then have "r' = Inl (Http 422 (u ''doc_format_not_supported_use_docx'')) \<and> documents w' \<noteq> []"
    by (auto simp: bulk_upload_project_sources_def two_files_def run_form_def store_file_def f plain_web_def
        read_file_def read_upload_file_with_limit_def DEFAULT_UPLOAD_READ_CHUNK_BYTES_def
        default_settings_def l upload_text_file_def r [simplified] r save_file_eq add_document_row_def
        MAX_BULK_FILES_def MAX_PROJECT_SOURCES_def count_project_sources_def parse_metadata_json_def Let_def
        http_exception_for_ingestion_value_error_def DOCX_ERROR_CODES_def
        split: prod.splits)
  then have b: "bulk_upload_project_sources plain_env plain_web run_form 7 two_files (empty_world\<lparr>projects := [7]\<rparr>)
      = (Inl (Http 422 (u ''doc_format_not_supported_use_docx'')), w')" "documents w' \<noteq> []" using 0 by auto
  have x: "length (documents w') \<le> 1" "\<forall>d \<in> set (documents w'). doc_status d = SP_IDLE" "outbox w' = []"
    using failed_bulk_upload_keeps_earlier_files [OF b(1)] by (auto simp: two_files_def)
  then obtain d where "documents w' = [d]" using b(2) by (cases "documents w'") auto
  then show ?thesis using b(1) x by auto
qed

section \<open>Uploads to a batch\<close>

lemma join_document_eq: "join_document b did ord st w = (rid, w') \<Longrightarrow>
   batch_sources w' = batch_sources w @ [\<lparr>row_id = rid, row_batch_id = bt_id b, row_document_id = Some did, row_audio_id = None,
     row_status = st, row_sort_order = ord, row_last_error = None, row_started_at = None, row_completed_at = None,
     row_created_at = clock w\<rparr>] \<and> outbox w' = outbox w"
  by (auto simp: join_document_def add_document_def add_batch_row_def world_simps)

lemma join_audio_eq: "join_audio b aid ord st w = (rid, w') \<Longrightarrow>
   batch_sources w' = batch_sources w @ [\<lparr>row_id = rid, row_batch_id = bt_id b, row_document_id = None, row_audio_id = Some aid,
     row_status = st, row_sort_order = ord, row_last_error = None, row_started_at = None, row_completed_at = None,
     row_created_at = clock w\<rparr>] \<and> outbox w' = outbox w"
  by (auto simp: join_audio_def add_audio_def add_batch_row_def world_simps)

definition run_status :: "upload_form \<Rightarrow> source_status" where
  "run_status fm = (if uf_run fm then SP_PENDING else SP_IDLE)"

lemma store_batch_file_ok:
  assumes "store_batch_file env wb fm meta b p w = (Inr c, w')"
  shows "\<exists>r. batch_sources w' = batch_sources w @ [r] \<and> row_batch_id r = bt_id b \<and> row_status r = run_status fm
    \<and> row_sort_order r = fst p \<and> row_id r = snd (snd c) \<and> outbox w' = outbox w"
proof -
  obtain k i w1 where 1: "store_file env wb fm meta (bt_project_id b) (snd p) w = (Inr (k, i), w1)"
    using assms by (auto simp: store_batch_file_def split: prod.splits sum.splits)
  have "batch_sources w1 = batch_sources w" "outbox w1 = outbox w"
    using store_file_stores [OF 1] by (auto simp: stored_def)
  then show ?thesis
    using assms 1 by (cases k) (auto simp: store_batch_file_def run_status_def split: prod.splits
        dest!: join_document_eq join_audio_eq)
qed

lemma store_batch_file_fails: "store_batch_file env wb fm meta b p w = (Inl e, w') \<Longrightarrow> w' = w"
  by (auto simp: store_batch_file_def dest: store_file_fails split: prod.splits sum.splits)

lemma each_numbered_rows:
  assumes "each_numbered (store_batch_file env wb fm meta b) n fs w = (res, w')"
  shows "\<exists>rs. batch_sources w' = batch_sources w @ rs \<and> (\<forall>r \<in> set rs. row_batch_id r = bt_id b \<and> row_status r = run_status fm)
    \<and> map row_sort_order rs = map (\<lambda>k. n + int k) [0..<length rs] \<and> outbox w' = outbox w
    \<and> (case res of Inl e \<Rightarrow> length rs < length fs | Inr cs \<Rightarrow> map row_id rs = map (snd \<circ> snd) cs \<and> length cs = length fs)"
  using assms
proof (induction fs arbitrary: n w res)
  case (Cons f fs)
  show ?case
  proof (cases "store_batch_file env wb fm meta b (n, f) w")
    case (Pair r1 w1)
    show ?thesis
    proof (cases r1)
      case (Inl e)
      then have "w' = w" "res = Inl e" using Cons.prems Pair store_batch_file_fails by fastforce+
      then show ?thesis by simp
    next
      case (Inr c)
      obtain r where r: "batch_sources w1 = batch_sources w @ [r]" "row_batch_id r = bt_id b" "row_status r = run_status fm"
        "row_sort_order r = n" "row_id r = snd (snd c)" "outbox w1 = outbox w"
        using store_batch_file_ok Pair Inr by fastforce
      obtain res1 where n: "each_numbered (store_batch_file env wb fm meta b) (n + 1) fs w1 = (res1, w')"
        and res: "res = (case res1 of Inl e \<Rightarrow> Inl e | Inr xs \<Rightarrow> Inr (c # xs))"
        using Cons.prems Pair Inr by (auto split: prod.splits sum.splits)
      obtain rs where rs: "batch_sources w' = batch_sources w1 @ rs"
        "\<forall>r \<in> set rs. row_batch_id r = bt_id b \<and> row_status r = run_status fm"
        "map row_sort_order rs = map (\<lambda>k. n + 1 + int k) [0..<length rs]" "outbox w' = outbox w1"
        "case res1 of Inl e \<Rightarrow> length rs < length fs | Inr cs \<Rightarrow> map row_id rs = map (snd \<circ> snd) cs \<and> length cs = length fs"
        using Cons.IH [OF n] by blast
      have "map row_sort_order (r # rs) = map (\<lambda>k. n + int k) [0..<length (r # rs)]"
        using r(4) rs(3) by (simp add: map_upt_Suc add.assoc del: upt_Suc)
      then show ?thesis
        using r rs res by (intro exI [of _ "r # rs"]) (auto split: sum.splits)
    qed
  qed
qed simp

text \<open>
  When a file of a bulk upload to a batch is refused, the rows of the files before it are already pending,
  yet no drain is scheduled: they wait until something else starts the queue of the batch.
\<close>

theorem failed_batch_upload_leaves_pending_rows:
  assumes "bulk_upload_batch_sources env wb fm bid fs w = (Inl e, w')" "uf_run fm"
  shows "outbox w' = outbox w \<and> (\<exists>rs. batch_sources w' = batch_sources w @ rs \<and> length rs \<le> length fs - 1
    \<and> (\<forall>r \<in> set rs. row_batch_id r = bid \<and> row_status r = SP_PENDING))"
proof -
  consider "w' = w" | meta b n where "get_batch w bid = Some b" "each_numbered (store_batch_file env wb fm meta b) n fs w = (Inl e, w')"
    using assms(1) unfolding bulk_upload_batch_sources_def
    by (auto simp: Let_def split: if_splits sum.splits prod.splits option.splits)
  then show ?thesis
  proof cases
    case 1 then show ?thesis by simp
  next
    case 2
    then have "bt_id b = bid" by (auto simp: get_batch_def dest: get_row_SomeD)
    then show ?thesis using each_numbered_rows [OF 2(2)] assms(2) by (auto simp: run_status_def)
  qed
qed

definition batch_world :: world where
  "batch_world = empty_world\<lparr>projects := [7], batches := [\<lparr>bt_id = 3, bt_project_id = 7, bt_name = u ''wave'', bt_description = None,
     bt_language = None, bt_multi = True, bt_created_at = 0\<rparr>]\<rparr>"

theorem failed_batch_upload_leaves_pending_rows_witness:
  "\<exists>w' r. bulk_upload_batch_sources plain_env plain_web run_form 3 two_files batch_world
      = (Inl (Http 422 (u ''doc_format_not_supported_use_docx'')), w')
    \<and> batch_sources w' = [r] \<and> row_status r = SP_PENDING \<and> outbox w' = []"
proof -
  have f: "\<not> is_audio_upload (u ''a.txt'') None" "\<not> is_audio_upload (u ''b.doc'') None" by code_simp+
  have r: "resolve_document_text (\<lambda>_. None) (u ''a.txt'') [104, 105] None = Inr (Some [104, 105])"
    "resolve_document_text (\<lambda>_. None) (u ''b.doc'') [1] None = Inl (Value_error (u ''doc_format_not_supported_use_docx''))"
    by code_simp+
  have l: "read_loop 1048576 104857600 [] xs = Some xs" if "length xs \<le> 5" for xs using that by (simp add: read_loop_eq)
  obtain r' w' where 0: "bulk_upload_batch_sources plain_env plain_web run_form 3 two_files batch_world = (r', w')" by (metis surj_pair)
  then have b: "r' = Inl (Http 422 (u ''doc_format_not_supported_use_docx''))" "batch_sources w' \<noteq> []"
    by (auto simp: bulk_upload_batch_sources_def two_files_def run_form_def store_batch_file_def store_file_def f plain_web_def
        read_file_def read_upload_file_with_limit_def DEFAULT_UPLOAD_READ_CHUNK_BYTES_def get_batch_def get_row_def batch_world_def
        default_settings_def l upload_text_file_def r [simplified] r save_file_eq add_document_row_def batch_rows_def
        MAX_BULK_FILES_def MAX_BATCH_SOURCES_def parse_metadata_json_def Let_def
        http_exception_for_ingestion_value_error_def DOCX_ERROR_CODES_def join_document_def add_document_def add_batch_row_def world_simps
        split: prod.splits)
  have "uf_run run_form" "batch_sources batch_world = []" "outbox batch_world = []" "length two_files = 2"
    by (simp_all add: run_form_def batch_world_def two_files_def)
  then obtain rs where x: "batch_sources w' = rs" "length rs \<le> 1" "\<forall>r \<in> set rs. row_status r = SP_PENDING" "outbox w' = []"
    using failed_batch_upload_leaves_pending_rows [OF 0 [unfolded b(1)]] by auto
  then obtain r where "rs = [r]" using b(2) by (cases rs) auto
  then show ?thesis using 0 b(1) x by auto
qed

end
