(* ===== verification/Progress.thy ===== *)
theory Progress
  imports Document_Pipeline Queue_Routes Readiness
begin

text \<open>
  What the client is shown while sources are processed (\<^verbatim>\<open>audio_pipeline_progress_service.py\<close>), and the
  lists and details of sources (\<^verbatim>\<open>source_query_service.py\<close> and the repositories it uses).
\<close>

section \<open>Progress of one audio\<close>

definition segments_with :: "uuid \<Rightarrow> (audio_segment \<Rightarrow> bool) \<Rightarrow> world \<Rightarrow> nat" where
  "segments_with aid P w = length (filter (\<lambda>s. sg_audio_id s = aid \<and> P s) (audio_segments w))"

text \<open>\<^verbatim>\<open>int(100.0 * n_done / n_total + 0.5)\<close>; both branches of the source return it.\<close>

definition chunk_progress_percent :: "nat \<Rightarrow> nat \<Rightarrow> int" where
  "chunk_progress_percent n_total n_done =
     (if n_total < 1 then 0
      else min 100 (py_trunc (fl (fl (fl (100 * of_nat n_done) / of_nat n_total) + 1 / 2))))"

text \<open>The status is one of the enumeration; the source also passes an unknown status through.\<close>

definition ui_stage_and_progress :: "audio_status \<Rightarrow> nat \<Rightarrow> nat \<Rightarrow> nat \<Rightarrow> pystr \<times> int" where
  "ui_stage_and_progress st n_total n_done n_failed =
     (if st = AP_FAILED \<or> (0 < n_total \<and> n_total \<le> n_done + n_failed \<and> n_done = 0 \<and> n_failed = n_total)
      then (u ''failed'', 0)
      else if st = AP_READY then (u ''done'', 100)
      else (let pct = chunk_progress_percent n_total n_done in
        case st of
          AP_UPLOADED \<Rightarrow> (u ''uploaded'', 0)
        | AP_SPLITTING \<Rightarrow> (u ''splitting'', pct)
        | AP_TRANSCRIBING \<Rightarrow> (u ''transcribing'', pct)
        | _ \<Rightarrow> (u ''analyzing'', max pct (if n_total \<noteq> 0 \<and> n_total \<le> n_done then 90 else pct))))"

record audio_progress =
  ap_audio_id :: uuid
  ap_filename :: pystr
  ap_overall :: audio_status
  ap_total :: nat
  ap_done :: nat
  ap_failed :: nat
  ap_stage :: pystr
  ap_error :: "pystr option"
  ap_percent :: int

definition build_audio_progress :: "world \<Rightarrow> uuid \<Rightarrow> audio_progress option" where
  "build_audio_progress w aid =
     (case get_audio w aid of
        None \<Rightarrow> None
      | Some a \<Rightarrow>
         (let n_total = segments_with aid (\<lambda>_. True) w;
              n_done = segments_with aid (\<lambda>s. sg_status s = AS_DONE) w;
              n_failed = segments_with aid (\<lambda>s. sg_status s = AS_FAILED) w;
              (ps, pct) = ui_stage_and_progress (aud_pipeline_status a) n_total n_done n_failed;
              pct1 = (if ps = u ''done'' then 100 else pct);
              pct2 = (if ps = u ''failed'' then 0 else pct1)
          in Some \<lparr>ap_audio_id = aud_id a, ap_filename = aud_filename a, ap_overall = aud_pipeline_status a,
               ap_total = n_total, ap_done = n_done, ap_failed = n_failed, ap_stage = ps,
               ap_error = aud_pipeline_error a, ap_percent = pct2\<rparr>))"

section \<open>Progress of a batch\<close>

definition count_units :: "uuid \<Rightarrow> world \<Rightarrow> nat" where
  "count_units did w = length (filter (\<lambda>i. iu_document_id i = did) (units w))"

record rollup =
  ru_total :: nat
  ru_processed :: nat
  ru_errors :: nat

definition rollup_add :: "nat \<Rightarrow> nat \<Rightarrow> nat \<Rightarrow> rollup \<Rightarrow> rollup" where
  "rollup_add t p e r = \<lparr>ru_total = ru_total r + t, ru_processed = ru_processed r + p, ru_errors = ru_errors r + e\<rparr>"

definition rollup_document :: "bool \<Rightarrow> world \<Rightarrow> uuid \<Rightarrow> rollup \<Rightarrow> rollup" where
  "rollup_document multi w did r =
     (case get_doc w did of
        None \<Rightarrow> r
      | Some d \<Rightarrow>
         (let is_done = (ascii_lower (text_of (pl_phase (doc_pipeline d))) = u ''extracted''); n = count_units did w in
          if multi \<and> 0 < n then rollup_add n (if is_done then n else 0) 0 r
          else rollup_add 1 (if is_done then 1 else 0) 0 r))"

definition rollup_audio :: "world \<Rightarrow> uuid \<Rightarrow> rollup \<Rightarrow> rollup" where
  "rollup_audio w aid r =
     (case get_audio w aid of
        None \<Rightarrow> rollup_add 1 0 1 r
      | Some a \<Rightarrow>
          if aud_pipeline_status a = AP_READY then rollup_add 1 1 0 r
          else if aud_pipeline_status a = AP_FAILED then rollup_add 1 0 1 r
          else rollup_add 1 0 0 r)"

definition the_list :: "'a option list \<Rightarrow> 'a list" where
  "the_list xs = concat (map (\<lambda>x. case x of None \<Rightarrow> [] | Some y \<Rightarrow> [y]) xs)"

definition interview_rollup :: "research_batch \<Rightarrow> world \<Rightarrow> rollup" where
  "interview_rollup b w =
     (let rows = batch_rows (bt_id b) w;
          r1 = fold (rollup_document (bt_multi b) w) (the_list (map row_document_id rows)) \<lparr>ru_total = 0, ru_processed = 0, ru_errors = 0\<rparr>
      in fold (rollup_audio w) (the_list (map row_audio_id rows)) r1)"

record batch_audio_summary =
  bs_total :: nat
  bs_ready :: nat
  bs_failed :: nat
  bs_in_progress :: nat
  bs_rollup :: rollup

definition build_batch_audio_pipeline :: "world \<Rightarrow> uuid \<Rightarrow> (audio_progress list \<times> batch_audio_summary) option" where
  "build_batch_audio_pipeline w bid =
     (case get_batch w bid of
        None \<Rightarrow> None
      | Some b \<Rightarrow>
         (let items = the_list (map (build_audio_progress w) (the_list (map row_audio_id (batch_rows bid w))));
              n = (\<lambda>P. length (filter P items))
          in Some (items, \<lparr>bs_total = length items, bs_ready = n (\<lambda>p. ap_overall p = AP_READY),
               bs_failed = n (\<lambda>p. ap_overall p = AP_FAILED),
               bs_in_progress = n (\<lambda>p. ap_overall p \<noteq> AP_READY \<and> ap_overall p \<noteq> AP_FAILED),
               bs_rollup = interview_rollup b w\<rparr>)))"

definition get_source_audio_progress :: "uuid \<Rightarrow> world \<Rightarrow> failure + audio_progress" where
  "get_source_audio_progress aid w = (case build_audio_progress w aid of None \<Rightarrow> Inl audio_404 | Some p \<Rightarrow> Inr p)"

section \<open>Lists and details of sources\<close>

record source_item =
  si_kind :: source_kind
  si_id :: uuid
  si_filename :: pystr
  si_mime_type :: "pystr option"
  si_source_type :: "source_type option"
  si_language :: "pystr option"
  si_created_at :: time

definition document_item :: "source_document \<Rightarrow> source_item" where
  "document_item d = \<lparr>si_kind = Document, si_id = doc_id d, si_filename = doc_filename d, si_mime_type = doc_mime_type d,
     si_source_type = Some (doc_source_type d), si_language = None, si_created_at = doc_created_at d\<rparr>"

definition audio_item :: "source_audio \<Rightarrow> source_item" where
  "audio_item a = \<lparr>si_kind = Audio, si_id = aud_id a, si_filename = aud_filename a, si_mime_type = aud_mime_type a,
     si_source_type = None, si_language = aud_language a, si_created_at = aud_created_at a\<rparr>"

text \<open>Newest first; ids break ties, so the order does not depend on the database.\<close>

definition all_sources :: "uuid \<Rightarrow> world \<Rightarrow> source_item list" where
  "all_sources pid w = map document_item (filter (\<lambda>d. doc_project_id d = pid) (documents w))
     @ map audio_item (filter (\<lambda>a. aud_project_id a = pid) (audios w))"

definition stmt_unified_sources_page :: "uuid \<Rightarrow> nat \<Rightarrow> nat \<Rightarrow> world \<Rightarrow> source_item list" where
  "stmt_unified_sources_page pid offset limit w =
     take limit (drop offset (sort_key (\<lambda>s. (- si_created_at s, - int (si_id s))) (all_sources pid w)))"

definition list_unified_sources :: "uuid \<Rightarrow> nat \<Rightarrow> nat \<Rightarrow> world \<Rightarrow> exc + source_item list \<times> nat" where
  "list_unified_sources pid offset limit w =
     (if pid \<notin> set (projects w) then Inl PROJECT_NOT_FOUND
      else Inr (stmt_unified_sources_page pid offset limit w, count_project_sources pid w))"

text \<open>A document with the number of its chunks and entities.\<close>

definition get_document_detail :: "uuid \<Rightarrow> world \<Rightarrow> (source_document \<times> nat \<times> nat) option" where
  "get_document_detail did w = map_option (\<lambda>d. (d, length (filter (\<lambda>c. ch_document_id c = Some did) (chunks w)),
     count_document_entities w did)) (get_doc w did)"

definition list_document_chunks :: "uuid \<Rightarrow> world \<Rightarrow> text_chunk list option" where
  "list_document_chunks did w = (if get_doc w did = None then None else Some (chunks_for_document_ordered w did))"

definition get_latest_for_audio :: "world \<Rightarrow> uuid \<Rightarrow> transcript option" where
  "get_latest_for_audio w aid = first_row (sort_key (\<lambda>t. - tr_created_at t) (filter (\<lambda>t. tr_audio_id t = aid) (transcripts w)))"

record audio_detail =
  ad_audio :: source_audio
  ad_transcript :: "(transcript \<times> nat) option"
  ad_segments :: nat
  ad_sample :: "transcript_segment list"
  ad_chunks :: nat
  ad_entities :: nat

definition get_audio_detail :: "uuid \<Rightarrow> world \<Rightarrow> audio_detail option" where
  "get_audio_detail aid w =
     map_option (\<lambda>a.
       (let tr = get_latest_for_audio w aid;
            segs = (case tr of None \<Rightarrow> [] | Some t \<Rightarrow> filter (\<lambda>s. ts_transcript_id s = tr_id t) (transcript_segments w))
        in \<lparr>ad_audio = a,
             ad_transcript = map_option (\<lambda>t. (t, length (filter (\<lambda>e. en_transcript_id e = Some (tr_id t)) (entities w)))) tr,
             ad_segments = length segs, ad_sample = take 20 (sort_key ts_start segs),
             ad_chunks = count_audio_scope_chunks w aid, ad_entities = count_audio_scope_entities w aid\<rparr>)) (get_audio w aid)"

text \<open>The entity query behind the entity lists; \<open>created_at\<close> alone orders it.\<close>

record entity_filter =
  ef_type :: "entity_type option"
  ef_exclude :: "entity_type list"
  ef_min_confidence :: "rat option"
  ef_document :: "uuid option"
  ef_audio :: "uuid option"
  ef_transcript :: "uuid option"

definition opt_matches :: "'a option \<Rightarrow> 'a option \<Rightarrow> bool" where
  "opt_matches f v \<longleftrightarrow> f = None \<or> v = f"

definition entity_matches :: "entity_filter \<Rightarrow> extracted_entity \<Rightarrow> bool" where
  "entity_matches f e \<longleftrightarrow>
     (case ef_type f of Some t \<Rightarrow> en_type e = t | None \<Rightarrow> en_type e \<notin> set (ef_exclude f))
     \<and> (case ef_min_confidence f of None \<Rightarrow> True | Some c \<Rightarrow> c \<le> cd_score (en_candidate e))
     \<and> opt_matches (ef_document f) (en_document_id e) \<and> opt_matches (ef_audio f) (en_audio_id e)
     \<and> opt_matches (ef_transcript f) (en_transcript_id e)"

definition list_entities_for_project :: "uuid \<Rightarrow> entity_filter \<Rightarrow> nat \<Rightarrow> nat \<Rightarrow> world \<Rightarrow> extracted_entity list \<times> nat" where
  "list_entities_for_project pid f offset limit w =
     (let es = filter (\<lambda>e. en_project_id e = pid \<and> entity_matches f e) (entities w)
      in (take limit (drop offset (sort_key (\<lambda>e. - en_created_at e) es)), length es))"

section \<open>What the client sees adds up\<close>

lemma chunk_progress_bounds: "0 \<le> chunk_progress_percent n d \<and> chunk_progress_percent n d \<le> 100"
proof -
  have "0 \<le> fl (fl (fl (100 * of_nat d) / of_nat n) + 1 / 2)" by (intro fl_nonneg add_nonneg_nonneg divide_nonneg_nonneg) auto
  then have "0 \<le> py_trunc (fl (fl (fl (100 * of_nat d) / of_nat n) + 1 / 2))" by (simp add: py_trunc_def)
  then show ?thesis by (simp add: chunk_progress_percent_def)
qed

lemma length_filter_disjoint:
  assumes "\<And>x. P x \<Longrightarrow> \<not> Q x" "\<And>x. P x \<or> Q x \<Longrightarrow> R x"
  shows "length (filter P xs) + length (filter Q xs) \<le> length (filter R xs)"
proof (induction xs)
  case (Cons x xs)
  have "\<not> (P x \<and> Q x)" "P x \<or> Q x \<longrightarrow> R x" using assms by blast+
  then show ?case using Cons by auto
qed simp

lemma segments_split:
  "segments_with aid (\<lambda>s. sg_status s = AS_DONE) w + segments_with aid (\<lambda>s. sg_status s = AS_FAILED) w
     \<le> segments_with aid (\<lambda>_. True) w"
  unfolding segments_with_def by (rule length_filter_disjoint) auto

lemma length_partition3:
  "length (filter (\<lambda>p. f p = a) xs) + length (filter (\<lambda>p. f p = b) xs) + length (filter (\<lambda>p. f p \<noteq> a \<and> f p \<noteq> b) xs) = length xs"
  if "a \<noteq> b"
  using that by (induction xs) auto

definition rollup_ok :: "rollup \<Rightarrow> bool" where
  "rollup_ok r \<longleftrightarrow> ru_processed r + ru_errors r \<le> ru_total r"

lemma rollup_steps:
  "rollup_ok r \<Longrightarrow> rollup_ok (rollup_document multi w did r)" "rollup_ok r \<Longrightarrow> rollup_ok (rollup_audio w aid r)"
  by (auto simp: rollup_ok_def rollup_document_def rollup_audio_def rollup_add_def Let_def split: option.split)

lemma rollup_folds: "rollup_ok r \<Longrightarrow> (\<And>x r. rollup_ok r \<Longrightarrow> rollup_ok (f x r)) \<Longrightarrow> rollup_ok (fold f xs r)"
  by (induction xs arbitrary: r) auto

lemma progress_item:
  assumes "build_audio_progress w aid = Some p"
  shows "0 \<le> ap_percent p \<and> ap_percent p \<le> 100 \<and> ap_done p + ap_failed p \<le> ap_total p"
proof -
  obtain a where a: "get_audio w aid = Some a" using assms by (auto simp: build_audio_progress_def split: option.splits)
  let ?n = "segments_with aid (\<lambda>_. True) w" and ?d = "segments_with aid (\<lambda>s. sg_status s = AS_DONE) w"
    and ?f = "segments_with aid (\<lambda>s. sg_status s = AS_FAILED) w"
  obtain ps pct where u: "ui_stage_and_progress (aud_pipeline_status a) ?n ?d ?f = (ps, pct)" by (metis surj_pair)
  then have "0 \<le> pct \<and> pct \<le> 100"
    using chunk_progress_bounds [of ?n ?d]
    by (auto simp: ui_stage_and_progress_def Let_def split: audio_status.splits if_splits)
  moreover have "ap_percent p \<in> {0, 100, pct}" "ap_done p = ?d" "ap_failed p = ?f" "ap_total p = ?n"
    using assms a u by (auto simp: build_audio_progress_def)
  ultimately show ?thesis using segments_split [of aid w] by auto
qed

text \<open>
  The summary of a batch adds up: every audio shown is ready, failed or in progress, at most all interviews
  are processed or in error, and each audio's finished and failed slices are at most its slices, its percentage
  between 0 and 100.
\<close>

theorem batch_progress_adds_up:
  assumes "build_batch_audio_pipeline w bid = Some (items, s)"
  shows "bs_ready s + bs_failed s + bs_in_progress s = bs_total s \<and> bs_total s = length items
    \<and> ru_processed (bs_rollup s) + ru_errors (bs_rollup s) \<le> ru_total (bs_rollup s)
    \<and> (\<forall>p \<in> set items. 0 \<le> ap_percent p \<and> ap_percent p \<le> 100 \<and> ap_done p + ap_failed p \<le> ap_total p)"
proof -
  obtain b where b: "items = the_list (map (build_audio_progress w) (the_list (map row_audio_id (batch_rows bid w))))"
    "bs_rollup s = interview_rollup b w" "bs_total s = length items"
    "bs_ready s = length (filter (\<lambda>p. ap_overall p = AP_READY) items)"
    "bs_failed s = length (filter (\<lambda>p. ap_overall p = AP_FAILED) items)"
    "bs_in_progress s = length (filter (\<lambda>p. ap_overall p \<noteq> AP_READY \<and> ap_overall p \<noteq> AP_FAILED) items)"
    using assms by (auto simp: build_batch_audio_pipeline_def Let_def split: option.splits)
  have "rollup_ok (interview_rollup b w)"
    unfolding interview_rollup_def Let_def by (intro rollup_folds rollup_steps) (simp_all add: rollup_ok_def)
  moreover have "\<forall>p \<in> set items. \<exists>aid. build_audio_progress w aid = Some p"
    unfolding b(1) by (auto simp: the_list_def split: option.splits)
  ultimately show ?thesis
    using b(2-) length_partition3 [of AP_READY AP_FAILED ap_overall items] progress_item by (auto simp: rollup_ok_def)
qed

definition half_done :: world where
  "half_done = batch_world\<lparr>audios := [(plain_audio 1 7)\<lparr>aud_pipeline_status := AP_TRANSCRIBING\<rparr>],
     batch_sources := [plain_source 5 3 None (Some 1)],
     audio_segments := [\<lparr>sg_id = 8, sg_audio_id = 1, sg_index = 0, sg_start_ms = 0, sg_end_ms = 1, sg_path = [], sg_status = AS_DONE,
        sg_text = None, sg_error = None, sg_provider = None\<rparr>,
       \<lparr>sg_id = 9, sg_audio_id = 1, sg_index = 1, sg_start_ms = 1, sg_end_ms = 2, sg_path = [], sg_status = AS_PENDING,
        sg_text = None, sg_error = None, sg_provider = None\<rparr>]\<rparr>"

theorem batch_progress_adds_up_witness:
  "\<exists>p s. build_batch_audio_pipeline half_done 3 = Some ([p], s) \<and> ap_percent p = 50 \<and> bs_in_progress s = 1 \<and> bs_total s = 1"
proof -
  have h: "(case build_batch_audio_pipeline half_done 3 of Some ([p], s) \<Rightarrow> ap_percent p = 50 \<and> bs_ready s = 0 \<and> bs_failed s = 0
      | _ \<Rightarrow> False)" by code_simp
  then obtain p s where b: "build_batch_audio_pipeline half_done 3 = Some ([p], s)" "ap_percent p = 50" "bs_ready s = 0" "bs_failed s = 0"
    by (auto split: option.splits prod.splits list.splits)
  then show ?thesis using batch_progress_adds_up [OF b(1)] by auto
qed

section \<open>What the client sees too early, and never\<close>

text \<open>
  An audio that was just uploaded, has no transcript and stands in no queue is shown as done with 100 per
  cent: the column's default is \<^verbatim>\<open>ready\<close>, and the upload does not set it to \<^verbatim>\<open>uploaded\<close>.
\<close>

theorem fresh_upload_is_shown_done:
  assumes "upload_audio_file_stream env pid f lang trl st extra w = (Inr i, w')" "fresh_ids w"
    and "\<forall>s \<in> set (audio_segments w). sg_audio_id s < next_id w"
  shows "\<exists>p a. build_audio_progress w' i = Some p \<and> ap_stage p = u ''done'' \<and> ap_percent p = 100
    \<and> get_audio w' i = Some a \<and> aud_status a = SP_IDLE \<and> transcripts w' = transcripts w"
proof -
  obtain a where a: "audios w' = audios w @ [a]" "aud_id a = i" "next_id w < i" "aud_pipeline_status a = AP_READY" "aud_status a = SP_IDLE"
    and o: "audio_segments w' = audio_segments w" "transcripts w' = transcripts w"
    using assms(1)
    by (auto simp: upload_audio_file_stream_def save_file_eq add_audio_row_def new_audio_def Let_def split: if_splits option.splits)
  have "get_row aud_id i (audios w) = None" using assms(2) a(3) by (auto simp: get_row_None_iff fresh_ids_def)
  then have g: "get_audio w' i = Some a" using a(1, 2) by (simp add: get_audio_def get_row_append) (simp add: get_row_def)
  have "segments_with i (\<lambda>_. True) w' = 0" using assms(3) a(3) o(1) by (fastforce simp: segments_with_def filter_empty_conv)
  then have "build_audio_progress w' i = Some \<lparr>ap_audio_id = i, ap_filename = aud_filename a, ap_overall = AP_READY, ap_total = 0,
      ap_done = segments_with i (\<lambda>s. sg_status s = AS_DONE) w', ap_failed = segments_with i (\<lambda>s. sg_status s = AS_FAILED) w',
      ap_stage = u ''done'', ap_error = aud_pipeline_error a, ap_percent = 100\<rparr>"
    using g a by (simp add: build_audio_progress_def ui_stage_and_progress_def Let_def)
  then show ?thesis using g a o by simp
qed

theorem fresh_upload_is_shown_done_witness:
  "\<exists>i w' p. upload_audio_file_stream plain_env 7 \<lparr>up_filename = Some (u ''a.mp3''), up_type = None, up_content = [1]\<rparr> None None
      ST_UPLOAD plain_metadata (empty_world\<lparr>projects := [7]\<rparr>) = (Inr i, w')
    \<and> build_audio_progress w' i = Some p \<and> ap_percent p = 100 \<and> transcripts w' = []"
proof -
  let ?f = "\<lparr>up_filename = Some (u ''a.mp3''), up_type = None, up_content = [1]\<rparr>"
  have "read_loop 1048576 104857600 [] [1] = Some [1]" by (simp add: read_loop_eq)
  then obtain i w' where up: "upload_audio_file_stream plain_env 7 ?f None None ST_UPLOAD plain_metadata (empty_world\<lparr>projects := [7]\<rparr>) = (Inr i, w')"
    by (simp add: upload_audio_file_stream_def save_file_eq add_audio_row_def default_settings_def Let_def)
  show ?thesis using fresh_upload_is_shown_done [OF up] up by (auto simp: fresh_ids_def)
qed

text \<open>
  A document that the pipeline has analysed, with whatever outcome, is never counted as a processed interview:
  the count asks for the phase \<^verbatim>\<open>extracted\<close>, which the pipeline does not write.
\<close>

theorem analysed_document_is_never_counted:
  assumes "get_doc w did = Some d" "phase_of d = []"
  shows "ru_processed (rollup_document multi (snd (pipeline_document_analysis env sv us did w)) did r) = ru_processed r
    \<and> ru_total r < ru_total (rollup_document multi (snd (pipeline_document_analysis env sv us did w)) did r)"
proof -
  obtain d' where d': "get_doc (snd (pipeline_document_analysis env sv us did w)) did = Some d'"
    "phase_of d' = [] \<or> phase_of d' = u ''failed''"
    using pipeline_keeps_phase [OF assms] by blast
  have "strip (u ''extracted'') = u ''extracted''" by code_simp
  then have "ascii_lower (text_of (pl_phase (doc_pipeline d'))) \<noteq> u ''extracted''"
    using d'(2) by (auto simp: phase_of_def norm_status_def lower_strip)
  then show ?thesis using d'(1) by (auto simp: rollup_document_def rollup_add_def Let_def)
qed

theorem analysed_document_is_never_counted_witness:
  "ru_processed (rollup_document True (snd (pipeline_document_analysis plain_env quiet_services plain_splitter 1 two_sources)) 1
     \<lparr>ru_total = 0, ru_processed = 0, ru_errors = 0\<rparr>) = 0"
proof -
  have "get_doc two_sources 1 = Some (plain_document 1 7 (u ''text''))" "phase_of (plain_document 1 7 (u ''text'')) = []" by code_simp+
  then show ?thesis using analysed_document_is_never_counted [of two_sources 1 _ True plain_env quiet_services plain_splitter
      "\<lparr>ru_total = 0, ru_processed = 0, ru_errors = 0\<rparr>"] by simp
qed

section \<open>Pages of sources\<close>

lemma pages_take: "concat (map (\<lambda>k. take l (drop (k * l) xs)) [0..<n]) = take (n * l) xs"
proof (induction n)
  case (Suc n)
  have "take (n * l) xs @ take l (drop (n * l) xs) = take (n * l + l) xs" by (simp add: take_add)
  then show ?case using Suc by (simp add: add.commute)
qed simp

text \<open>
  The pages of the unified source list hold every document and audio of the project exactly once, newest
  first, when the client reads pages of one size until the reported total is reached.
\<close>

theorem unified_pages_partition_sources:
  assumes "list_unified_sources pid 0 l w = Inr (page, cnt)" "cnt \<le> n * l"
  shows "mset (concat (map (\<lambda>k. stmt_unified_sources_page pid (k * l) l w) [0..<n])) = mset (all_sources pid w)
    \<and> sorted_wrt (\<lambda>s t. si_created_at t \<le> si_created_at s) (concat (map (\<lambda>k. stmt_unified_sources_page pid (k * l) l w) [0..<n]))
    \<and> cnt = length (all_sources pid w)"
proof -
  let ?xs = "sort_key (\<lambda>s. (- si_created_at s, - int (si_id s))) (all_sources pid w)"
  have t: "cnt = length (all_sources pid w)"
    using assms(1) by (auto simp: list_unified_sources_def count_project_sources_def all_sources_def split: if_splits)
  then have c: "concat (map (\<lambda>k. stmt_unified_sources_page pid (k * l) l w) [0..<n]) = ?xs"
    using assms(2) by (simp add: stmt_unified_sources_page_def pages_take)
  have "sorted_wrt (\<lambda>s t. (- si_created_at s, - int (si_id s)) \<le> (- si_created_at t, - int (si_id t))) ?xs"
    using sorted_sort_key [of "\<lambda>s. (- si_created_at s, - int (si_id s))" "all_sources pid w"] by (simp add: sorted_map)
  then have "sorted_wrt (\<lambda>s t. si_created_at t \<le> si_created_at s) ?xs"
    by (rule sorted_wrt_mono_rel [rotated]) (auto simp: less_eq_prod_def)
  then show ?thesis unfolding c using t by simp
qed

theorem unified_pages_partition_sources_witness:
  "mset (concat (map (\<lambda>k. stmt_unified_sources_page 7 (k * 1) 1 (two_sources\<lparr>projects := [7]\<rparr>)) [0..<2])) = mset (all_sources 7 (two_sources\<lparr>projects := [7]\<rparr>))"
proof -
  have "case list_unified_sources 7 0 1 (two_sources\<lparr>projects := [7]\<rparr>) of Inr (p, c) \<Rightarrow> c \<le> 2 * 1 | Inl e \<Rightarrow> False" by code_simp
  then obtain p c where "list_unified_sources 7 0 1 (two_sources\<lparr>projects := [7]\<rparr>) = Inr (p, c)" "c \<le> 2 * 1" by (auto split: sum.splits prod.splits)
  from unified_pages_partition_sources [OF this] show ?thesis by blast
qed

end
