(* ===== verification/Llm_Cache.thy ===== *)
theory Llm_Cache
  imports Queue_Routes
begin

text \<open>
  Cached analyses of a project or a batch (\<^verbatim>\<open>batch_cached_llm_service.py\<close>,
  \<^verbatim>\<open>project_cached_llm_service.py\<close>): the fingerprint of the corpus, the key of an answer, the two
  cache tables, the handlers that serve portraits and strategies, and the public links to a report.
  What the language model and the dashboards make of a corpus is a parameter.
\<close>

section \<open>Corpus and fingerprint\<close>

record corpus =
  co_id :: uuid
  co_project :: uuid
  co_documents :: "uuid list"
  co_audios :: "uuid list"
  co_multi :: bool

text \<open>
  What surrounds the analyses: SHA-256 in hexadecimal, the text of ids and times, the time stamps
  that the tables of the model leave out, the languages of the projects, the response models
  (\<open>an_valid\<close> is \<^verbatim>\<open>model_validate\<close> accepting a payload) and the generators, by the kind of the
  answer. An answer is the JSON it is stored as; the optional one is a portrait given in advance.
\<close>

record analysis =
  an_sha256 :: "pystr \<Rightarrow> pystr"
  an_id :: "uuid \<Rightarrow> pystr"
  an_iso :: "time \<Rightarrow> pystr"
  an_entity_at :: "extracted_entity \<Rightarrow> time"
  an_chunk_at :: "text_chunk \<Rightarrow> time"
  an_language :: "uuid \<Rightarrow> pystr option"
  an_valid :: "pystr \<Rightarrow> json \<Rightarrow> bool"
  an_generate :: "pystr \<Rightarrow> corpus \<Rightarrow> pystr option \<Rightarrow> pystr option \<Rightarrow> pystr \<Rightarrow> json option \<Rightarrow> world \<Rightarrow> exc + json"

definition some_ids :: "uuid option list \<Rightarrow> uuid list" where
  "some_ids xs = map the (filter (\<lambda>x. x \<noteq> None) xs)"

definition batch_corpus :: "research_batch \<Rightarrow> world \<Rightarrow> corpus" where
  "batch_corpus b w =
     (let rows = filter (\<lambda>s. row_batch_id s = bt_id b) (batch_sources w) in
      \<lparr>co_id = bt_id b, co_project = bt_project_id b, co_documents = some_ids (map row_document_id rows),
       co_audios = some_ids (map row_audio_id rows), co_multi = bt_multi b\<rparr>)"

definition project_sources :: "uuid \<Rightarrow> world \<Rightarrow> uuid list \<times> uuid list" where
  "project_sources pid w =
     (map doc_id (filter (\<lambda>d. doc_project_id d = pid) (documents w)),
      map aud_id (filter (\<lambda>a. aud_project_id a = pid) (audios w)))"

definition load_project_batch_view :: "uuid \<Rightarrow> world \<Rightarrow> exc + corpus" where
  "load_project_batch_view pid w =
     (if pid \<notin> set (projects w) then Inl (Value_error (u ''project_not_found''))
      else case project_sources pid w of (ds, as) \<Rightarrow>
        Inr \<lparr>co_id = pid, co_project = pid, co_documents = ds, co_audios = as, co_multi = True\<rparr>)"

definition resolve_transcript_ids :: "uuid list \<Rightarrow> world \<Rightarrow> uuid list" where
  "resolve_transcript_ids aids w = map tr_id (filter (\<lambda>t. tr_audio_id t \<in> set aids) (transcripts w))"

definition among :: "uuid option \<Rightarrow> uuid list \<Rightarrow> bool" where
  "among x is \<longleftrightarrow> (case x of None \<Rightarrow> False | Some i \<Rightarrow> i \<in> set is)"

definition text_chunks_scope_and :: "uuid \<Rightarrow> uuid list \<Rightarrow> uuid list \<Rightarrow> uuid list \<Rightarrow> text_chunk \<Rightarrow> bool" where
  "text_chunks_scope_and pid dids aids tids c \<longleftrightarrow> ch_project_id c = pid
     \<and> (among (ch_document_id c) dids \<or> among (ch_audio_id c) aids \<or> among (ch_transcript_id c) tids)"

definition corpus_entities :: "corpus \<Rightarrow> world \<Rightarrow> extracted_entity list" where
  "corpus_entities co w =
     (let tids = resolve_transcript_ids (co_audios co) w in
      filter (\<lambda>e. en_project_id e = co_project co \<and> en_canonical e = None
        \<and> (among (en_document_id e) (co_documents co) \<or> among (en_audio_id e) (co_audios co)
           \<or> among (en_transcript_id e) tids)) (entities w))"

definition corpus_chunks :: "corpus \<Rightarrow> world \<Rightarrow> text_chunk list" where
  "corpus_chunks co w =
     filter (text_chunks_scope_and (co_project co) (co_documents co) (co_audios co)
       (resolve_transcript_ids (co_audios co) w)) (chunks w)"

text \<open>\<^verbatim>\<open>func.max\<close> of a column, printed; there is none without rows.\<close>

definition latest :: "(time \<Rightarrow> pystr) \<Rightarrow> time list \<Rightarrow> pystr" where
  "latest str ts = (if ts = [] then u ''none'' else str (Max (set ts)))"

definition corpora_fingerprint :: "analysis \<Rightarrow> corpus \<Rightarrow> world \<Rightarrow> pystr" where
  "corpora_fingerprint an co w =
     (if co_documents co = [] \<and> co_audios co = [] then u ''empty''
      else (let es = corpus_entities co w; cs = corpus_chunks co w in
        take 24 (an_sha256 an (u ''v1|e:'' @ digits (length es) @ u ''|'' @ latest (an_iso an) (map (an_entity_at an) es)
          @ u ''|c:'' @ digits (length cs) @ u ''|'' @ latest (an_iso an) (map (an_chunk_at an) cs)))))"

definition compute_batch_corpora_fingerprint :: "analysis \<Rightarrow> research_batch \<Rightarrow> world \<Rightarrow> pystr" where
  "compute_batch_corpora_fingerprint an b w = corpora_fingerprint an (batch_corpus b w) w"

text \<open>The project's view has no mode of its own, and the fingerprint reads none.\<close>

definition compute_project_corpora_fingerprint :: "analysis \<Rightarrow> uuid \<Rightarrow> world \<Rightarrow> pystr" where
  "compute_project_corpora_fingerprint an pid w =
     (case project_sources pid w of (ds, as) \<Rightarrow>
        if ds = [] \<and> as = [] then u ''empty''
        else corpora_fingerprint an \<lparr>co_id = pid, co_project = pid, co_documents = ds, co_audios = as, co_multi = True\<rparr> w)"

section \<open>Keys\<close>

definition CACHE_KIND_PORTRAIT :: pystr where "CACHE_KIND_PORTRAIT = u ''audience_portrait''"
definition CACHE_KIND_STRATEGY :: pystr where "CACHE_KIND_STRATEGY = u ''pr_strategy''"

definition or_underscore :: "pystr option \<Rightarrow> pystr" where
  "or_underscore x = str_or (Some (strip (case x of None \<Rightarrow> [] | Some s \<Rightarrow> s))) (u ''_'')"

definition mode_tag :: "bool option \<Rightarrow> pystr" where
  "mode_tag m = (case m of None \<Rightarrow> u ''sf_'' | Some True \<Rightarrow> u ''sf1'' | Some False \<Rightarrow> u ''sf0'')"

definition lang_tag :: "env \<Rightarrow> pystr \<Rightarrow> pystr" where
  "lang_tag env l = take 8 (lower env (strip (if l = [] then u ''ru'' else l)))"

definition revision_tag :: "pystr option \<Rightarrow> pystr" where
  "revision_tag r = take 48 (strip (case r of None \<Rightarrow> [] | Some s \<Rightarrow> s))"

definition make_cache_key :: "env \<Rightarrow> analysis \<Rightarrow> pystr \<Rightarrow> uuid \<Rightarrow> pystr option \<Rightarrow> pystr option \<Rightarrow> pystr
    \<Rightarrow> bool option \<Rightarrow> pystr option \<Rightarrow> pystr" where
  "make_cache_key env an kind i gb sv l mi fp =
     (let r = revision_tag fp;
          base = kind @ u '':'' @ an_id an i @ u '':'' @ or_underscore gb @ u '':'' @ or_underscore sv @ u '':''
            @ lang_tag env l @ u '':'' @ mode_tag mi;
          raw = (if r = [] then base else base @ u '':r:'' @ r)
      in if 720 < length raw then kind @ u '':'' @ an_id an i @ u '':h:'' @ an_sha256 an raw else raw)"

text \<open>\<^verbatim>\<open>str.replace(old, new, 1)\<close> for a pattern that is not empty.\<close>

fun replace_first :: "pystr \<Rightarrow> pystr \<Rightarrow> pystr \<Rightarrow> pystr" where
  "replace_first old new s =
     (if take (length old) s = old then new @ drop (length old) s
      else case s of [] \<Rightarrow> [] | c # cs \<Rightarrow> c # replace_first old new cs)"

declare replace_first.simps [simp del]

definition make_project_cache_key :: "env \<Rightarrow> analysis \<Rightarrow> pystr \<Rightarrow> uuid \<Rightarrow> pystr option \<Rightarrow> pystr option \<Rightarrow> pystr
    \<Rightarrow> bool option \<Rightarrow> pystr option \<Rightarrow> pystr" where
  "make_project_cache_key env an kind i gb sv l mi fp =
     replace_first (kind @ u '':'' @ an_id an i) (kind @ u '':project:'' @ an_id an i)
       (make_cache_key env an kind i gb sv l mi fp)"

section \<open>The cache tables\<close>

definition get_by_cache_key :: "pystr \<Rightarrow> cached_answer list \<Rightarrow> cached_answer option" where
  "get_by_cache_key key rows = first_row (filter (\<lambda>c. ca_key c = key) rows)"

text \<open>The column \<^verbatim>\<open>cache_key\<close> is unique, so the row found is the only one with the key.\<close>

definition upsert_payload :: "uuid \<Rightarrow> pystr \<Rightarrow> pystr \<Rightarrow> json \<Rightarrow> cached_answer list \<Rightarrow> cached_answer list" where
  "upsert_payload i kind key payload rows =
     (case get_by_cache_key key rows of
        None \<Rightarrow> rows @ [\<lparr>ca_owner = i, ca_kind = kind, ca_key = key, ca_payload = payload\<rparr>]
      | Some _ \<Rightarrow> map (\<lambda>c. if ca_key c = key then c\<lparr>ca_payload := payload, ca_kind := kind, ca_owner := i\<rparr> else c) rows)"

text \<open>What the cache answers: nothing when asked to recalculate or when the payload is stale.\<close>

definition cached_response :: "analysis \<Rightarrow> bool \<Rightarrow> pystr \<Rightarrow> pystr \<Rightarrow> cached_answer list \<Rightarrow> json option" where
  "cached_response an recalc kind key rows =
     (if recalc then None
      else case get_by_cache_key key rows of
        None \<Rightarrow> None
      | Some c \<Rightarrow> if an_valid an kind (ca_payload c) then Some (ca_payload c) else None)"

section \<open>Answers, from the cache or generated\<close>

definition batch_answer :: "env \<Rightarrow> analysis \<Rightarrow> pystr \<Rightarrow> research_batch \<Rightarrow> pystr option \<Rightarrow> pystr option \<Rightarrow> pystr
    \<Rightarrow> bool \<Rightarrow> json option \<Rightarrow> world \<Rightarrow> json outcome" where
  "batch_answer env an kind b gb sv l recalc pre w =
     (let key = make_cache_key env an kind (bt_id b) gb sv l (Some (bt_multi b))
            (Some (compute_batch_corpora_fingerprint an b w)) in
      case cached_response an recalc kind key (batch_llm_cache w) of
        Some r \<Rightarrow> (Inr r, w)
      | None \<Rightarrow>
         (case an_generate an kind (batch_corpus b w) gb sv l pre w of
            Inl e \<Rightarrow> (Inl e, w)
          | Inr r \<Rightarrow> (Inr r, w\<lparr>batch_llm_cache := upsert_payload (bt_id b) kind key r (batch_llm_cache w)\<rparr>)))"

definition get_or_create_audience_portrait_response :: "env \<Rightarrow> analysis \<Rightarrow> research_batch \<Rightarrow> pystr option
    \<Rightarrow> pystr option \<Rightarrow> pystr \<Rightarrow> bool \<Rightarrow> world \<Rightarrow> json outcome" where
  "get_or_create_audience_portrait_response env an b gb sv l recalc w =
     batch_answer env an CACHE_KIND_PORTRAIT b gb sv l recalc None w"

definition get_or_create_pr_strategy_response :: "env \<Rightarrow> analysis \<Rightarrow> research_batch \<Rightarrow> pystr option
    \<Rightarrow> pystr option \<Rightarrow> pystr \<Rightarrow> bool \<Rightarrow> json option \<Rightarrow> world \<Rightarrow> json outcome" where
  "get_or_create_pr_strategy_response env an b gb sv l recalc pre w =
     batch_answer env an CACHE_KIND_STRATEGY b gb sv l recalc pre w"

definition project_answer :: "env \<Rightarrow> analysis \<Rightarrow> pystr \<Rightarrow> uuid \<Rightarrow> pystr option \<Rightarrow> pystr option \<Rightarrow> pystr
    \<Rightarrow> bool \<Rightarrow> json option \<Rightarrow> world \<Rightarrow> json outcome" where
  "project_answer env an kind pid gb sv l recalc pre w =
     (case load_project_batch_view pid w of
        Inl e \<Rightarrow> (Inl e, w)
      | Inr view \<Rightarrow>
         (let key = make_project_cache_key env an kind pid gb sv l (Some (co_multi view))
                (Some (compute_project_corpora_fingerprint an pid w)) in
          case cached_response an recalc kind key (project_llm_cache w) of
            Some r \<Rightarrow> (Inr r, w)
          | None \<Rightarrow>
             (case an_generate an kind view gb sv l pre w of
                Inl e \<Rightarrow> (Inl e, w)
              | Inr r \<Rightarrow> (Inr r, w\<lparr>project_llm_cache := upsert_payload pid kind key r (project_llm_cache w)\<rparr>))))"

definition get_or_create_project_audience_portrait_response :: "env \<Rightarrow> analysis \<Rightarrow> uuid \<Rightarrow> pystr option
    \<Rightarrow> pystr option \<Rightarrow> pystr \<Rightarrow> bool \<Rightarrow> world \<Rightarrow> json outcome" where
  "get_or_create_project_audience_portrait_response env an pid gb sv l recalc w =
     project_answer env an CACHE_KIND_PORTRAIT pid gb sv l recalc None w"

definition get_or_create_project_pr_strategy_response :: "env \<Rightarrow> analysis \<Rightarrow> uuid \<Rightarrow> pystr option
    \<Rightarrow> pystr option \<Rightarrow> pystr \<Rightarrow> bool \<Rightarrow> json option \<Rightarrow> world \<Rightarrow> json outcome" where
  "get_or_create_project_pr_strategy_response env an pid gb sv l recalc pre w =
     project_answer env an CACHE_KIND_STRATEGY pid gb sv l recalc pre w"

section \<open>Handlers\<close>

definition project_output_language :: "analysis \<Rightarrow> uuid \<Rightarrow> pystr" where
  "project_output_language an pid = normalize_output_language (an_language an pid) (u ''ru'')"

fun project_analysis_failure :: "pystr \<Rightarrow> exc \<Rightarrow> failure" where
  "project_analysis_failure code (Value_error m) =
     (if m = u ''openai_api_key_missing'' then Http 503 (u ''openai_not_configured'')
      else if m = u ''project_not_found'' then project_404 else Http 502 code)"
| "project_analysis_failure code (Other_error r) = Http 502 code"

fun batch_analysis_failure :: "pystr \<Rightarrow> exc \<Rightarrow> failure" where
  "batch_analysis_failure code (Value_error m) =
     (if m = u ''openai_api_key_missing'' then Http 503 (u ''openai_not_configured'') else Http 502 code)"
| "batch_analysis_failure code (Other_error r) = Http 502 code"

definition answer_with :: "(exc \<Rightarrow> failure) \<Rightarrow> 'a outcome \<Rightarrow> 'a response" where
  "answer_with f r = (case r of (Inl e, w) \<Rightarrow> (Inl (f e), w) | (Inr x, w) \<Rightarrow> (Inr x, w))"

definition get_project_audience_portrait :: "env \<Rightarrow> analysis \<Rightarrow> uuid \<Rightarrow> bool \<Rightarrow> bool \<Rightarrow> pystr option
    \<Rightarrow> pystr option \<Rightarrow> world \<Rightarrow> json response" where
  "get_project_audience_portrait env an pid recalc force gb sv w =
     (case validate_segment_query gb sv of
        Inl e \<Rightarrow> (Inl e, w)
      | Inr seg \<Rightarrow>
         if pid \<notin> set (projects w) then (Inl project_404, w)
         else (case ensure_project_queue_idle force pid w of
            Some e \<Rightarrow> (Inl e, w)
          | None \<Rightarrow> answer_with (project_analysis_failure (u ''portrait_generation_failed''))
              (get_or_create_project_audience_portrait_response env an pid gb seg (project_output_language an pid) recalc w)))"

definition get_project_pr_strategy :: "env \<Rightarrow> analysis \<Rightarrow> uuid \<Rightarrow> bool \<Rightarrow> bool \<Rightarrow> pystr option
    \<Rightarrow> pystr option \<Rightarrow> world \<Rightarrow> json response" where
  "get_project_pr_strategy env an pid recalc force gb sv w =
     (case validate_segment_query gb sv of
        Inl e \<Rightarrow> (Inl e, w)
      | Inr seg \<Rightarrow>
         if pid \<notin> set (projects w) then (Inl project_404, w)
         else (case ensure_project_queue_idle force pid w of
            Some e \<Rightarrow> (Inl e, w)
          | None \<Rightarrow> answer_with (project_analysis_failure (u ''pr_strategy_generation_failed''))
              (get_or_create_project_pr_strategy_response env an pid gb seg (project_output_language an pid) recalc None w)))"

definition effective_output_language :: "research_batch \<Rightarrow> pystr option \<Rightarrow> pystr" where
  "effective_output_language b pl =
     (let l = bt_language b in
      if (case l of None \<Rightarrow> False | Some s \<Rightarrow> strip s \<noteq> []) then normalize_output_language l (u ''ru'')
      else normalize_output_language pl (u ''ru''))"

text \<open>The batch handlers have the checks of the project's, written out, and no check of the queue.\<close>

definition with_batch :: "uuid \<Rightarrow> (research_batch \<Rightarrow> world \<Rightarrow> 'a response) \<Rightarrow> world \<Rightarrow> 'a response" where
  "with_batch bid f w =
     (case get_batch w bid of
        None \<Rightarrow> (Inl batch_404, w)
      | Some b \<Rightarrow> if bt_project_id b \<notin> set (projects w) then (Inl project_404, w) else f b w)"

definition get_audience_portrait :: "env \<Rightarrow> analysis \<Rightarrow> uuid \<Rightarrow> bool \<Rightarrow> pystr option \<Rightarrow> pystr option \<Rightarrow> world \<Rightarrow> json response" where
  "get_audience_portrait env an bid recalc gb sv w =
     (case validate_segment_query gb sv of
        Inl e \<Rightarrow> (Inl e, w)
      | Inr seg \<Rightarrow> with_batch bid (\<lambda>b w.
          answer_with (batch_analysis_failure (u ''portrait_generation_failed''))
            (get_or_create_audience_portrait_response env an b gb seg
               (effective_output_language b (an_language an (bt_project_id b))) recalc w)) w)"

definition get_pr_strategy :: "env \<Rightarrow> analysis \<Rightarrow> uuid \<Rightarrow> bool \<Rightarrow> pystr option \<Rightarrow> pystr option \<Rightarrow> world \<Rightarrow> json response" where
  "get_pr_strategy env an bid recalc gb sv w =
     (case validate_segment_query gb sv of
        Inl e \<Rightarrow> (Inl e, w)
      | Inr seg \<Rightarrow> with_batch bid (\<lambda>b w.
          answer_with (batch_analysis_failure (u ''pr_strategy_generation_failed''))
            (get_or_create_pr_strategy_response env an b gb seg
               (effective_output_language b (an_language an (bt_project_id b))) recalc None w)) w)"


section \<open>Keys tell requests apart\<close>

lemma colon_split:
  "c \<notin> set a \<Longrightarrow> c \<notin> set b \<Longrightarrow> a @ c # x = b @ c # y \<longleftrightarrow> a = b \<and> x = y"
proof (induction a arbitrary: b)
  case Nil
  then show ?case by (cases b) auto
next
  case (Cons k a)
  then show ?case by (cases b) auto
qed

lemma colon_split_last:
  assumes "c \<notin> set a" "c \<notin> set b"
  shows "x @ c # a = y @ c # b \<longleftrightarrow> x = y \<and> a = b"
proof -
  have "x @ c # a = y @ c # b \<longleftrightarrow> rev a @ c # rev x = rev b @ c # rev y"
    by (metis rev_append rev_is_rev_conv rev.simps(2) append.assoc append_Cons append_Nil)
  also have "\<dots> \<longleftrightarrow> rev a = rev b \<and> rev x = rev y"
    using assms by (intro colon_split) auto
  finally show ?thesis by auto
qed

text \<open>
  What the libraries promise: ids print as 36 characters, without a colon and differently, a digest
  is 64 hexadecimal digits, and the lower case of a language code is the code.
\<close>

definition HEX_DIGITS :: pystr where "HEX_DIGITS = u ''0123456789abcdef''"

definition library_text :: "env \<Rightarrow> analysis \<Rightarrow> bool" where
  "library_text env an \<longleftrightarrow> (\<forall>i. length (an_id an i) = 36 \<and> 58 \<notin> set (an_id an i)) \<and> inj (an_id an)
     \<and> (\<forall>s. length (an_sha256 an s) = 64 \<and> set (an_sha256 an s) \<subseteq> set HEX_DIGITS)
     \<and> (\<forall>l \<in> set LANGS. lower env l = l)"

lemma library_textD:
  assumes "library_text env an"
  shows "length (an_id an i) = 36" "58 \<notin> set (an_id an i)" "an_id an i = an_id an j \<longleftrightarrow> i = j"
    "length (an_sha256 an s) = 64" "set (an_sha256 an s) \<subseteq> set HEX_DIGITS" "l \<in> set LANGS \<Longrightarrow> lower env l = l"
  using assms by (auto simp: library_text_def inj_eq)

text \<open>The requests the handlers pass on.\<close>

definition proper_request :: "pystr \<Rightarrow> pystr option \<Rightarrow> pystr option \<Rightarrow> pystr \<Rightarrow> bool" where
  "proper_request kind gb sv l \<longleftrightarrow> kind \<in> {CACHE_KIND_PORTRAIT, CACHE_KIND_STRATEGY}
     \<and> (case gb of None \<Rightarrow> True | Some g \<Rightarrow> g \<in> set GROUP_BY_FIELDS)
     \<and> (case sv of None \<Rightarrow> True | Some s \<Rightarrow> s \<noteq> [] \<and> strip s = s \<and> length s \<le> 240) \<and> l \<in> set LANGS"

definition revision :: "pystr \<Rightarrow> bool" where
  "revision r \<longleftrightarrow> r \<noteq> [] \<and> length r \<le> 24 \<and> (\<forall>c \<in> set r. c \<noteq> 58 \<and> \<not> is_space c)"

lemma revision_tag_id: "revision r \<Longrightarrow> revision_tag (Some r) = r"
  by (auto simp: revision_def revision_tag_def strip_fixed)

lemma hex_revision: "set r \<subseteq> set HEX_DIGITS \<Longrightarrow> r \<noteq> [] \<Longrightarrow> length r \<le> 24 \<Longrightarrow> revision r"
  by (auto simp: revision_def HEX_DIGITS_def u_def is_space_def)

lemma fingerprint_revision:
  assumes "library_text env an"
  shows "revision (corpora_fingerprint an co w)"
proof (cases "co_documents co = [] \<and> co_audios co = []")
  case True
  then show ?thesis by (auto simp: corpora_fingerprint_def revision_def u_def is_space_def)
next
  case False
  then obtain s where "corpora_fingerprint an co w = take 24 (an_sha256 an s)"
    by (auto simp: corpora_fingerprint_def Let_def)
  moreover have "set (take 24 (an_sha256 an s)) \<subseteq> set HEX_DIGITS"
    using library_textD(5) [OF assms] set_take_subset by fast
  moreover have "length (take 24 (an_sha256 an s)) = 24"
    by (simp add: library_textD(4) [OF assms])
  ultimately show ?thesis
    by (intro hex_revision) auto
qed

lemma project_fingerprint_revision:
  assumes "library_text env an"
  shows "revision (compute_project_corpora_fingerprint an pid w)"
  using fingerprint_revision [OF assms]
  by (auto simp: compute_project_corpora_fingerprint_def revision_def u_def is_space_def split: prod.split)

lemma kind_plain: "kind \<in> {CACHE_KIND_PORTRAIT, CACHE_KIND_STRATEGY} \<Longrightarrow> 58 \<notin> set kind \<and> length kind \<le> 17"
  by (auto simp: CACHE_KIND_PORTRAIT_def CACHE_KIND_STRATEGY_def u_def)

lemma group_plain:
  "(case gb of None \<Rightarrow> True | Some g \<Rightarrow> g \<in> set GROUP_BY_FIELDS) \<Longrightarrow>
     58 \<notin> set (or_underscore gb) \<and> length (or_underscore gb) \<le> 14"
proof (cases gb)
  case (Some g)
  have "\<forall>g \<in> set GROUP_BY_FIELDS. strip g = g \<and> 58 \<notin> set g \<and> length g \<le> 14 \<and> g \<noteq> []"
    by (auto simp: GROUP_BY_FIELDS_def u_def intro!: strip_fixed) (simp_all add: is_space_def)
  then show "(case gb of None \<Rightarrow> True | Some g \<Rightarrow> g \<in> set GROUP_BY_FIELDS) \<Longrightarrow> ?thesis"
    using Some by (auto simp: or_underscore_def)
qed (simp_all add: or_underscore_def u_def)

lemma length_or_underscore: "(case x of None \<Rightarrow> True | Some s \<Rightarrow> length s \<le> 240) \<Longrightarrow> length (or_underscore x) \<le> 240"
  using length_strip by (auto simp: or_underscore_def str_or_def u_def split: option.splits intro: order_trans)

lemma lang_tag_id: "library_text env an \<Longrightarrow> l \<in> set LANGS \<Longrightarrow> lang_tag env l = l \<and> 58 \<notin> set l \<and> length l = 2"
proof -
  assume a: "library_text env an" "l \<in> set LANGS"
  have "\<forall>l \<in> set LANGS. strip l = l \<and> take 8 l = l \<and> 58 \<notin> set l \<and> length l = 2 \<and> l \<noteq> []"
    by (auto simp: LANGS_def u_def intro!: strip_fixed) (simp_all add: is_space_def)
  then show ?thesis
    using a library_textD(6) by (auto simp: lang_tag_def)
qed

lemma mode_plain: "58 \<notin> set (mode_tag m) \<and> length (mode_tag m) = 3"
  by (auto simp: mode_tag_def u_def split: option.split bool.split)

lemma mode_tag_inj: "mode_tag m = mode_tag m' \<longleftrightarrow> m = m'"
  by (auto simp: mode_tag_def u_def split: option.splits bool.splits)

text \<open>The tail of a key, after kind and id, of a request that the handlers pass on.\<close>

definition key_tail :: "pystr option \<Rightarrow> pystr option \<Rightarrow> pystr \<Rightarrow> bool option \<Rightarrow> pystr \<Rightarrow> pystr" where
  "key_tail gb sv l mi r = or_underscore gb @ 58 # ((((or_underscore sv @ 58 # l) @ 58 # mode_tag mi) @ 58 # u ''r'') @ 58 # r)"

lemma cache_key_form:
  assumes "library_text env an" "proper_request kind gb sv l" "revision r"
  shows "make_cache_key env an kind i gb sv l mi (Some r) = kind @ 58 # an_id an i @ 58 # key_tail gb sv l mi r"
proof -
  have [simp]: "lang_tag env l = l" "length l = 2" "revision_tag (Some r) = r" "r \<noteq> []" "length (mode_tag mi) = 3"
      "length (an_id an i) = 36"
    using assms lang_tag_id [OF assms(1)] mode_plain [of mi] library_textD(1) [OF assms(1)]
    by (auto simp: proper_request_def revision_tag_id revision_def)
  have "length kind \<le> 17" "length (or_underscore gb) \<le> 14" "length (or_underscore sv) \<le> 240" "length r \<le> 24"
    using assms kind_plain [of kind] group_plain [of gb] length_or_underscore [of sv]
    by (simp_all add: proper_request_def revision_def split: option.splits)
  then show ?thesis
    by (simp add: make_cache_key_def Let_def key_tail_def u_def)
qed

lemma project_key_form:
  assumes "library_text env an" "proper_request kind gb sv l" "revision r"
  shows "make_project_cache_key env an kind i gb sv l mi (Some r) =
    kind @ 58 # u ''project'' @ 58 # an_id an i @ 58 # key_tail gb sv l mi r"
  by (simp add: make_project_cache_key_def cache_key_form [OF assms] u_def replace_first.simps)

lemma key_tail_inj:
  assumes "(case gb of None \<Rightarrow> True | Some g \<Rightarrow> g \<in> set GROUP_BY_FIELDS)"
    "(case gb' of None \<Rightarrow> True | Some g \<Rightarrow> g \<in> set GROUP_BY_FIELDS)"
    "58 \<notin> set l" "58 \<notin> set l'" "revision r" "revision r'"
    "key_tail gb sv l mi r = key_tail gb' sv' l' mi' r'"
  shows "or_underscore gb = or_underscore gb' \<and> or_underscore sv = or_underscore sv' \<and> l = l' \<and> mi = mi' \<and> r = r'"
proof -
  have g: "58 \<notin> set (or_underscore gb)" "58 \<notin> set (or_underscore gb')"
    using assms(1,2) group_plain by blast+
  have r: "58 \<notin> set r" "58 \<notin> set r'" "58 \<notin> set (u ''r'')"
    using assms(5,6) by (auto simp: revision_def u_def)
  show ?thesis
    using assms(7) unfolding key_tail_def colon_split [OF g]
      colon_split_last [OF r(1,2)] colon_split_last [OF r(3) r(3)]
      colon_split_last [OF conjunct1 [OF mode_plain] conjunct1 [OF mode_plain]]
      colon_split_last [OF assms(3,4)] mode_tag_inj by blast
qed

lemma project_key_inj:
  assumes lib: "library_text env an" and p: "proper_request kind gb sv l" "proper_request kind' gb' sv' l'"
    and r: "revision r" "revision r'"
    and eq: "make_project_cache_key env an kind i gb sv l mi (Some r) = make_project_cache_key env an kind' i' gb' sv' l' mi' (Some r')"
  shows "kind = kind' \<and> i = i' \<and> or_underscore gb = or_underscore gb' \<and> or_underscore sv = or_underscore sv'
    \<and> l = l' \<and> mi = mi' \<and> r = r'"
proof -
  have k: "58 \<notin> set kind" "58 \<notin> set kind'" "58 \<notin> set (u ''project'')"
    using p kind_plain by (auto simp: proper_request_def u_def)
  have t: "kind = kind' \<and> an_id an i = an_id an i' \<and> key_tail gb sv l mi r = key_tail gb' sv' l' mi' r'"
    using eq unfolding project_key_form [OF lib p(1) r(1)] project_key_form [OF lib p(2) r(2)]
      colon_split [OF k(1,2)] colon_split [OF k(3) k(3)]
      colon_split [OF library_textD(2) [OF lib] library_textD(2) [OF lib]] by blast
  have "58 \<notin> set l" "58 \<notin> set l'"
    using p lang_tag_id [OF lib] by (auto simp: proper_request_def)
  with t key_tail_inj [of gb gb' l l' r r' sv mi sv' mi'] p r show ?thesis
    using library_textD(3) [OF lib] by (auto simp: proper_request_def)
qed


text \<open>
  Every key fits the column \<^verbatim>\<open>cache_key\<close>, \<^verbatim>\<open>String(767)\<close>, whatever group, segment, language, mode and
  revision are given: a longer one is replaced by a digest. The premises are what the libraries
  promise of ids and digests.
\<close>

theorem cache_key_fits_column:
  assumes "library_text env an" "kind \<in> {CACHE_KIND_PORTRAIT, CACHE_KIND_STRATEGY}"
  shows "length (make_cache_key env an kind i gb sv l mi r) \<le> 767
    \<and> length (make_project_cache_key env an kind i gb sv l mi r) \<le> 767"
proof -
  have n: "length kind \<le> 17" "length (an_id an i) = 36" "\<And>s. length (an_sha256 an s) = 64"
    using assms kind_plain library_textD by auto
  define base where "base = u '':'' @ or_underscore gb @ u '':'' @ or_underscore sv @ u '':'' @ lang_tag env l @ u '':''
      @ mode_tag mi @ (if revision_tag r = [] then [] else u '':r:'' @ revision_tag r)"
  define raw where "raw = (kind @ 58 # an_id an i) @ base"
  have key: "make_cache_key env an kind i gb sv l mi r =
      (if 720 < length raw then (kind @ 58 # an_id an i) @ u '':h:'' @ an_sha256 an raw else (kind @ 58 # an_id an i) @ base)"
    by (simp add: make_cache_key_def Let_def raw_def base_def u_def)
  obtain t where t: "make_cache_key env an kind i gb sv l mi r = (kind @ 58 # an_id an i) @ t"
      "length ((kind @ 58 # an_id an i) @ t) \<le> 720"
    using key n raw_def by (cases "720 < length raw") auto
  then have "make_project_cache_key env an kind i gb sv l mi r = (kind @ u '':project:'' @ an_id an i) @ t"
    by (simp add: make_project_cache_key_def replace_first.simps u_def)
  with t n show ?thesis by simp
qed

section \<open>Answers and the cache\<close>

lemma get_by_cache_key_SomeD: "get_by_cache_key key rows = Some c \<Longrightarrow> c \<in> set rows \<and> ca_key c = key"
  by (auto simp: get_by_cache_key_def dest: first_row_SomeD)

lemma upsert_found:
  "\<exists>c. get_by_cache_key key (upsert_payload i kind key p rows) = Some c \<and> ca_payload c = p"
proof (cases "get_by_cache_key key rows")
  case None
  then have "filter (\<lambda>c. ca_key c = key) rows = []"
    by (auto simp: get_by_cache_key_def first_row_def split: list.splits)
  then show ?thesis using None by (simp add: upsert_payload_def) (simp add: get_by_cache_key_def first_row_def)
next
  case (Some c)
  define f :: "cached_answer \<Rightarrow> cached_answer" where "f = (\<lambda>c. if ca_key c = key then c\<lparr>ca_payload := p, ca_kind := kind, ca_owner := i\<rparr> else c)"
  have k: "ca_key (f c) = ca_key c" for c by (simp add: f_def)
  obtain cs where "filter (\<lambda>c. ca_key c = key) rows = c # cs"
    using Some by (auto simp: get_by_cache_key_def first_row_def split: list.splits)
  then have "get_by_cache_key key (map f rows) = Some (f c)"
    by (simp add: get_by_cache_key_def first_row_def filter_map o_def k)
  moreover have "ca_payload (f c) = p"
    using get_by_cache_key_SomeD [OF Some] by (simp add: f_def)
  ultimately show ?thesis
    using Some by (auto simp: upsert_payload_def f_def)
qed

lemma set_upsert: "c \<in> set (upsert_payload i kind key p rows) \<Longrightarrow>
    c \<in> set rows \<or> ca_owner c = i \<and> ca_key c = key \<and> ca_payload c = p"
  by (auto simp: upsert_payload_def split: option.splits if_splits)

text \<open>What a project answer reads is untouched by storing one.\<close>

lemma corpus_of_cached [simp]:
  "load_project_batch_view pid (w\<lparr>project_llm_cache := c\<rparr>) = load_project_batch_view pid w"
  "compute_project_corpora_fingerprint an pid (w\<lparr>project_llm_cache := c\<rparr>) = compute_project_corpora_fingerprint an pid w"
  "project_queue_has_active_work (fetch_project_queue_summary_sync p (w\<lparr>project_llm_cache := c\<rparr>))
    \<longleftrightarrow> project_queue_has_active_work (fetch_project_queue_summary_sync p w)"
  by (simp_all add: load_project_batch_view_def project_sources_def compute_project_corpora_fingerprint_def
      corpora_fingerprint_def corpus_entities_def corpus_chunks_def resolve_transcript_ids_def
      fetch_project_queue_summary_sync_def)

lemma other_generator [simp]:
  "compute_project_corpora_fingerprint (an\<lparr>an_generate := g\<rparr>) pid w = compute_project_corpora_fingerprint an pid w"
  "make_project_cache_key env (an\<lparr>an_generate := g\<rparr>) kind i gb sv l mi r = make_project_cache_key env an kind i gb sv l mi r"
  "cached_response (an\<lparr>an_generate := g\<rparr>) recalc kind key rows = cached_response an recalc kind key rows"
  "project_output_language (an\<lparr>an_generate := g\<rparr>) pid = project_output_language an pid"
  by (simp_all add: compute_project_corpora_fingerprint_def corpora_fingerprint_def make_project_cache_key_def
      make_cache_key_def cached_response_def project_output_language_def Let_def split: option.split prod.split)

definition project_key :: "env \<Rightarrow> analysis \<Rightarrow> pystr \<Rightarrow> uuid \<Rightarrow> pystr option \<Rightarrow> pystr option \<Rightarrow> pystr \<Rightarrow> world \<Rightarrow> pystr" where
  "project_key env an kind pid gb sv l w =
     make_project_cache_key env an kind pid gb sv l (Some True) (Some (compute_project_corpora_fingerprint an pid w))"

definition project_view :: "uuid \<Rightarrow> world \<Rightarrow> corpus" where
  "project_view pid w = \<lparr>co_id = pid, co_project = pid, co_documents = fst (project_sources pid w),
     co_audios = snd (project_sources pid w), co_multi = True\<rparr>"

lemma project_answer_eq:
  "pid \<in> set (projects w) \<Longrightarrow> project_answer env an kind pid gb sv l recalc pre w =
     (case cached_response an recalc kind (project_key env an kind pid gb sv l w) (project_llm_cache w) of
        Some r \<Rightarrow> (Inr r, w)
      | None \<Rightarrow> (case an_generate an kind (project_view pid w) gb sv l pre w of
          Inl e \<Rightarrow> (Inl e, w)
        | Inr r \<Rightarrow> (Inr r, w\<lparr>project_llm_cache :=
            upsert_payload pid kind (project_key env an kind pid gb sv l w) r (project_llm_cache w)\<rparr>)))"
  by (simp add: project_answer_def load_project_batch_view_def project_view_def project_key_def Let_def split: prod.split option.split sum.split)

lemma project_answer_missing:
  "pid \<notin> set (projects w) \<Longrightarrow>
     project_answer env an kind pid gb sv l recalc pre w = (Inl (Value_error (u ''project_not_found'')), w)"
  by (simp add: project_answer_def load_project_batch_view_def)

lemma project_answer_Inl: "project_answer env an kind pid gb sv l recalc pre w = (Inl e, w') \<Longrightarrow> w' = w"
  by (cases "pid \<in> set (projects w)") (auto simp: project_answer_eq project_answer_missing split: option.splits sum.splits)

lemma project_answer_again:
  assumes "project_answer env an kind pid gb sv l recalc pre w = (Inr r, w')" "an_valid an kind r"
  shows "project_answer env (an\<lparr>an_generate := g\<rparr>) kind pid gb sv l False pre' w' = (Inr r, w')"
proof -
  have p: "pid \<in> set (projects w)"
    using assms(1) by (cases "pid \<in> set (projects w)") (auto simp: project_answer_missing)
  let ?k = "project_key env an kind pid gb sv l w"
  have w': "w' = w \<and> cached_response an recalc kind ?k (project_llm_cache w) = Some r
      \<or> w' = w\<lparr>project_llm_cache := upsert_payload pid kind ?k r (project_llm_cache w)\<rparr>"
    using assms(1) by (auto simp: project_answer_eq [OF p] split: option.splits sum.splits)
  have "cached_response an False kind ?k (project_llm_cache w') = Some r"
    using w'
  proof
    assume "w' = w \<and> cached_response an recalc kind ?k (project_llm_cache w) = Some r"
    then show ?thesis by (auto simp: cached_response_def split: if_splits option.splits)
  next
    assume "w' = w\<lparr>project_llm_cache := upsert_payload pid kind ?k r (project_llm_cache w)\<rparr>"
    then show ?thesis
      using upsert_found [of ?k pid kind r "project_llm_cache w"] assms(2) by (auto simp: cached_response_def)
  qed
  moreover have "project_key env (an\<lparr>an_generate := g\<rparr>) kind pid gb sv l w' = ?k" "pid \<in> set (projects w')"
    using w' p by (auto simp: project_key_def)
  ultimately show ?thesis by (simp add: project_answer_eq)
qed


section \<open>What the cache serves\<close>

text \<open>
  A generation: the request that reached the model, the world it was made in, the revision of the
  corpus there, and the answer. \<open>cache_run\<close> are the histories of a project cache: it starts empty, any request that the
  handlers pass on may come with any outcome of the model, and everything else the program does to
  the world at most removes cached rows.
\<close>

record generation =
  gn_kind :: pystr
  gn_project :: uuid
  gn_group :: "pystr option"
  gn_segment :: "pystr option"
  gn_language :: pystr
  gn_world :: world
  gn_revision :: pystr
  gn_answer :: json

definition generations :: "env \<Rightarrow> analysis \<Rightarrow> pystr \<Rightarrow> uuid \<Rightarrow> pystr option \<Rightarrow> pystr option \<Rightarrow> pystr
    \<Rightarrow> bool \<Rightarrow> json option \<Rightarrow> world \<Rightarrow> generation list" where
  "generations env an kind pid gb sv l recalc pre w =
     (if pid \<in> set (projects w)
        \<and> cached_response an recalc kind (project_key env an kind pid gb sv l w) (project_llm_cache w) = None
      then (case an_generate an kind (project_view pid w) gb sv l pre w of
          Inl e \<Rightarrow> []
        | Inr r \<Rightarrow> [\<lparr>gn_kind = kind, gn_project = pid, gn_group = gb, gn_segment = sv, gn_language = l,
            gn_world = w, gn_revision = compute_project_corpora_fingerprint an pid w, gn_answer = r\<rparr>])
      else [])"

lemma generations_world: "list_all (\<lambda>x. gn_world x = w) (generations env an kind pid gb sv l recalc pre w)"
  by (simp add: generations_def split: sum.split)

inductive cache_run :: "env \<Rightarrow> analysis \<Rightarrow> world \<Rightarrow> generation list \<Rightarrow> bool" for env an where
  empty: "project_llm_cache w = [] \<Longrightarrow> cache_run env an w []"
| elsewhere: "cache_run env an w gs \<Longrightarrow> set (project_llm_cache w') \<subseteq> set (project_llm_cache w) \<Longrightarrow>
    cache_run env an w' gs"
| request: "cache_run env an w gs \<Longrightarrow> proper_request kind gb sv l \<Longrightarrow>
    project_answer env (an\<lparr>an_generate := g\<rparr>) kind pid gb sv l recalc pre w = (r, w') \<Longrightarrow>
    cache_run env an w' (gs @ generations env (an\<lparr>an_generate := g\<rparr>) kind pid gb sv l recalc pre w)"

definition generated_for :: "env \<Rightarrow> analysis \<Rightarrow> generation list \<Rightarrow> cached_answer \<Rightarrow> bool" where
  "generated_for env an gs c \<longleftrightarrow> (\<exists>g \<in> set gs. proper_request (gn_kind g) (gn_group g) (gn_segment g) (gn_language g)
     \<and> revision (gn_revision g) \<and> gn_revision g = compute_project_corpora_fingerprint an (gn_project g) (gn_world g)
     \<and> ca_owner c = gn_project g \<and> ca_payload c = gn_answer g
     \<and> ca_key c = make_project_cache_key env an (gn_kind g) (gn_project g) (gn_group g) (gn_segment g) (gn_language g)
         (Some True) (Some (gn_revision g)))"

lemma cache_run_generated:
  assumes "cache_run env an w gs" "library_text env an"
  shows "c \<in> set (project_llm_cache w) \<Longrightarrow> generated_for env an gs c"
  using assms(1)
proof (induction arbitrary: c)
  case (request w gs kind gb sv l g pid recalc pre r w')
  show ?case
  proof (cases "c \<in> set (project_llm_cache w)")
    case True
    then show ?thesis using request.IH by (auto simp: generated_for_def)
  next
    case False
    then have p: "pid \<in> set (projects w)"
      using request.hyps(3) request.prems by (cases "pid \<in> set (projects w)") (auto simp: project_answer_missing)
    have rev: "revision (compute_project_corpora_fingerprint an pid w)"
      by (rule project_fingerprint_revision [OF assms(2)])
    from False request.prems request.hyps(3) obtain x where
      x: "cached_response an recalc kind (project_key env an kind pid gb sv l w) (project_llm_cache w) = None"
        "g kind (project_view pid w) gb sv l pre w = Inr x"
        "c \<in> set (upsert_payload pid kind (project_key env an kind pid gb sv l w) x (project_llm_cache w))"
      by (auto simp: project_answer_eq [OF p] project_key_def split: option.splits sum.splits)
    then show ?thesis
      using set_upsert [OF x(3)] False p request.hyps(2) rev
      by (auto simp: generated_for_def generations_def project_key_def)
  qed
qed (auto simp: generated_for_def)

lemma served_from_cache:
  assumes run: "cache_run env an w gs" and lib: "library_text env an" and req: "proper_request kind gb sv l"
    and ans: "project_answer env (an\<lparr>an_generate := g\<rparr>) kind pid gb sv l recalc pre w = (Inr r, w')"
  shows "\<exists>x \<in> set (gs @ generations env (an\<lparr>an_generate := g\<rparr>) kind pid gb sv l recalc pre w).
    gn_kind x = kind \<and> gn_project x = pid \<and> or_underscore (gn_group x) = or_underscore gb
    \<and> or_underscore (gn_segment x) = or_underscore sv \<and> gn_language x = l \<and> gn_answer x = r
    \<and> gn_revision x = compute_project_corpora_fingerprint an pid w
    \<and> gn_revision x = compute_project_corpora_fingerprint an pid (gn_world x)
    \<and> proper_request kind (gn_group x) (gn_segment x) l"
proof -
  have p: "pid \<in> set (projects w)"
    using ans by (cases "pid \<in> set (projects w)") (auto simp: project_answer_missing)
  show ?thesis
  proof (cases "cached_response an recalc kind (project_key env an kind pid gb sv l w) (project_llm_cache w)")
    case None
    then obtain x where "g kind (project_view pid w) gb sv l pre w = Inr x" "x = r"
      using ans by (auto simp: project_answer_eq [OF p] project_key_def split: sum.splits)
    then show ?thesis using None p req by (simp add: generations_def project_key_def)
  next
    case (Some y)
    then have "y = r" using ans by (simp add: project_answer_eq [OF p] project_key_def)
    then obtain c where c: "c \<in> set (project_llm_cache w)" "ca_key c = project_key env an kind pid gb sv l w" "ca_payload c = r"
      using Some get_by_cache_key_SomeD by (fastforce simp: cached_response_def split: if_splits option.splits)
    obtain x where x: "x \<in> set gs" "proper_request (gn_kind x) (gn_group x) (gn_segment x) (gn_language x)"
        "revision (gn_revision x)" "ca_payload c = gn_answer x"
        "gn_revision x = compute_project_corpora_fingerprint an (gn_project x) (gn_world x)"
        "ca_key c = make_project_cache_key env an (gn_kind x) (gn_project x) (gn_group x) (gn_segment x) (gn_language x)
           (Some True) (Some (gn_revision x))"
      using cache_run_generated [OF run lib c(1)] unfolding generated_for_def by blast
    have "gn_kind x = kind \<and> gn_project x = pid \<and> or_underscore (gn_group x) = or_underscore gb
        \<and> or_underscore (gn_segment x) = or_underscore sv \<and> gn_language x = l \<and> Some True = Some True
        \<and> gn_revision x = compute_project_corpora_fingerprint an pid w"
      by (rule project_key_inj [OF lib x(2) req x(3) project_fingerprint_revision [OF lib]])
        (use x(6) c(2) in \<open>simp add: project_key_def\<close>)
    then show ?thesis using x(1,2,4,5) c(3) by (intro bexI [of _ x]) auto
  qed
qed


lemma no_rows_no_answer:
  assumes run: "cache_run env an w gs" and lib: "library_text env an" and req: "proper_request kind gb sv l"
    and none: "\<And>c. c \<in> set (project_llm_cache w) \<Longrightarrow> ca_owner c \<noteq> pid"
  shows "cached_response an recalc kind (project_key env an kind pid gb sv l w) (project_llm_cache w) = None"
proof (rule ccontr)
  assume "\<not> ?thesis"
  then obtain c :: cached_answer where c: "c \<in> set (project_llm_cache w)" "ca_key c = project_key env an kind pid gb sv l w"
    using get_by_cache_key_SomeD by (fastforce simp: cached_response_def split: if_splits option.splits)
  obtain x :: generation where x: "proper_request (gn_kind x) (gn_group x) (gn_segment x) (gn_language x)"
      "revision (gn_revision x)" "ca_owner c = gn_project x"
      "ca_key c = make_project_cache_key env an (gn_kind x) (gn_project x) (gn_group x) (gn_segment x) (gn_language x)
         (Some True) (Some (gn_revision x))"
    using cache_run_generated [OF run lib c(1)] unfolding generated_for_def by blast
  have "make_project_cache_key env an (gn_kind x) (gn_project x) (gn_group x) (gn_segment x) (gn_language x)
         (Some True) (Some (gn_revision x)) = project_key env an kind pid gb sv l w"
    using x(4) c(2) by simp
  then have "gn_project x = pid"
    using project_key_inj [OF lib x(1) req x(2) project_fingerprint_revision [OF lib]] unfolding project_key_def by blast
  then show False using none [OF c(1)] x(3) by simp
qed

lemma normalized_language: "normalize_output_language x (u ''ru'') \<in> set LANGS"
  by (auto simp: normalize_output_language_def Let_def LANGS_def)

lemma validated_request:
  assumes "validate_segment_query gb sv = Inr seg" "kind \<in> {CACHE_KIND_PORTRAIT, CACHE_KIND_STRATEGY}"
  shows "proper_request kind gb seg (project_output_language an pid)"
proof -
  have "case gb of None \<Rightarrow> True | Some g \<Rightarrow> g \<in> set GROUP_BY_FIELDS"
    using assms(1) by (auto simp: validate_segment_query_def split: if_splits option.splits)
  moreover have "case seg of None \<Rightarrow> True | Some s \<Rightarrow> s \<noteq> [] \<and> strip s = s \<and> length s \<le> 240"
    using assms(1) by (auto simp: validate_segment_query_def split: if_splits option.splits
        intro: order_trans [OF length_strip])
  ultimately show ?thesis
    using assms(2) by (auto simp: proper_request_def project_output_language_def normalized_language)
qed

text \<open>
  What the fingerprint is a digest of: how many entities and chunks the corpus has, and the times
  of the newest.
\<close>

definition newest :: "time list \<Rightarrow> time option" where
  "newest ts = (if ts = [] then None else Some (Max (set ts)))"

definition corpus_state :: "analysis \<Rightarrow> uuid \<Rightarrow> world \<Rightarrow> (nat \<times> time option) \<times> nat \<times> time option" where
  "corpus_state an pid w =
     ((length (corpus_entities (project_view pid w) w), newest (map (an_entity_at an) (corpus_entities (project_view pid w) w))),
      length (corpus_chunks (project_view pid w) w), newest (map (an_chunk_at an) (corpus_chunks (project_view pid w) w)))"

definition stamp :: "analysis \<Rightarrow> time option \<Rightarrow> pystr" where
  "stamp an t = (case t of None \<Rightarrow> u ''none'' | Some t \<Rightarrow> an_iso an t)"

definition state_text :: "analysis \<Rightarrow> (nat \<times> time option) \<times> nat \<times> time option \<Rightarrow> pystr" where
  "state_text an = (\<lambda>((n, t), m, s). u ''v1'' @ 124 # (u ''e:'' @ digits n) @ 124 # stamp an t
     @ 124 # (u ''c:'' @ digits m) @ 124 # stamp an s)"

text \<open>
  Times are printed differently, without a bar and never as \<^verbatim>\<open>none\<close>; and the 24 digits kept of a
  digest tell the states of the project apart that it has in the given worlds.
\<close>

definition printed_times :: "analysis \<Rightarrow> bool" where
  "printed_times an \<longleftrightarrow> inj (an_iso an) \<and> (\<forall>t. 124 \<notin> set (an_iso an t) \<and> an_iso an t \<noteq> u ''none'')"

definition digest_tells_apart :: "analysis \<Rightarrow> uuid \<Rightarrow> world list \<Rightarrow> bool" where
  "digest_tells_apart an pid ws \<longleftrightarrow>
     inj_on (\<lambda>s. take 24 (an_sha256 an s)) ((\<lambda>w. state_text an (corpus_state an pid w)) ` set ws)"

lemma stamp_inj: "printed_times an \<Longrightarrow> stamp an t = stamp an s \<longleftrightarrow> t = s"
  unfolding printed_times_def by (cases t; cases s) (auto simp: stamp_def inj_eq)

lemma stamp_plain: "printed_times an \<Longrightarrow> 124 \<notin> set (stamp an t)"
  by (cases t) (auto simp: stamp_def printed_times_def u_def)

lemma digits_digit: "c \<in> set (digits n) \<Longrightarrow> 48 \<le> c \<and> c < 58"
proof (induction n rule: digits.induct)
  case (1 n)
  have "n mod 10 < 10" by simp
  then show ?case using 1 by (subst (asm) (2) digits.simps) (auto split: if_splits)
qed

lemma not_a_digit: "c < 48 \<or> 58 \<le> c \<Longrightarrow> c \<notin> set (digits n)"
  using digits_digit [of c n] by linarith

lemma digits_read: "foldl (\<lambda>a c. 10 * a + (c - 48)) 0 (digits n) = n"
  by (induction n rule: digits.induct) (subst digits.simps, auto)

lemma digits_inj: "digits n = digits m \<longleftrightarrow> n = m"
  using digits_read by metis

lemma digits_plain: "124 \<notin> set (u ''e:'' @ digits n)" "124 \<notin> set (u ''c:'' @ digits n)" "124 \<notin> set (u ''v1'')"
  by (simp_all add: u_def not_a_digit)

lemma state_text_inj:
  assumes "printed_times an" "state_text an x = state_text an y"
  shows "x = y"
proof -
  obtain n t m s n' t' m' s' where xy: "x = ((n, t), m, s)" "y = ((n', t'), m', s')" by (metis surj_pair)
  have "digits n = digits n' \<and> stamp an t = stamp an t' \<and> digits m = digits m' \<and> stamp an s = stamp an s'"
    using assms(2) unfolding xy state_text_def prod.case
      colon_split [OF digits_plain(3) digits_plain(3)] colon_split [OF digits_plain(1) digits_plain(1)]
      colon_split [OF stamp_plain [OF assms(1)] stamp_plain [OF assms(1)]]
      colon_split [OF digits_plain(2) digits_plain(2)] by simp
  then show ?thesis using xy stamp_inj [OF assms(1)] digits_inj by auto
qed

lemma project_fingerprint_eq:
  "compute_project_corpora_fingerprint an pid w =
     (if project_sources pid w = ([], []) then u ''empty'' else take 24 (an_sha256 an (state_text an (corpus_state an pid w))))"
proof -
  have "latest (an_iso an) ts = stamp an (newest ts)" for ts by (simp add: latest_def stamp_def newest_def)
  then show ?thesis
    by (cases "project_sources pid w")
      (auto simp: compute_project_corpora_fingerprint_def corpora_fingerprint_def project_view_def corpus_state_def
        state_text_def Let_def u_def)
qed

lemma no_sources_no_corpus:
  assumes "project_sources pid w = ([], [])"
  shows "corpus_state an pid w = ((0, None), 0, None)"
proof -
  have "corpus_entities (project_view pid w) w = []" "corpus_chunks (project_view pid w) w = []"
    using assms by (auto simp: corpus_entities_def corpus_chunks_def project_view_def among_def resolve_transcript_ids_def
        text_chunks_scope_and_def filter_empty_conv split: option.splits)
  then show ?thesis by (simp add: corpus_state_def newest_def)
qed

lemma same_fingerprint_same_state:
  assumes "library_text env an" "printed_times an" "digest_tells_apart an pid ws" "v \<in> set ws" "w \<in> set ws"
    "compute_project_corpora_fingerprint an pid v = compute_project_corpora_fingerprint an pid w"
  shows "corpus_state an pid v = corpus_state an pid w"
proof -
  have "length (take 24 (an_sha256 an t)) = 24" for t using library_textD(4) [OF assms(1)] by simp
  moreover have "length (u ''empty'') \<noteq> 24" by (simp add: u_def)
  ultimately have e: "take 24 (an_sha256 an t) \<noteq> u ''empty''" for t by metis
  show ?thesis
  proof (cases "project_sources pid w = ([], [])")
    case True
    then have "project_sources pid v = ([], [])"
      using assms(6) e by (auto simp: project_fingerprint_eq split: if_splits)
    then show ?thesis using True by (simp add: no_sources_no_corpus)
  next
    case False
    then have "take 24 (an_sha256 an (state_text an (corpus_state an pid v))) = take 24 (an_sha256 an (state_text an (corpus_state an pid w)))"
      using assms(6) e [symmetric] by (auto simp: project_fingerprint_eq split: if_splits)
    then have "state_text an (corpus_state an pid v) = state_text an (corpus_state an pid w)"
      using assms(3,4,5) unfolding digest_tells_apart_def inj_on_def by blast
    then show ?thesis by (rule state_text_inj [OF assms(2)])
  qed
qed

text \<open>In a key no segment is written \<^verbatim>\<open>_\<close>, and so is the segment of that name.\<close>

definition same_segment :: "pystr option \<Rightarrow> pystr option \<Rightarrow> bool" where
  "same_segment s t \<longleftrightarrow> s = t \<or> {s, t} = {None, Some (u ''_'')}"

lemma proper_segments:
  assumes "proper_request k gb sv l" "proper_request k' gb' sv' l'" "or_underscore sv = or_underscore sv'"
  shows "same_segment sv sv'"
  using assms by (cases sv; cases sv') (auto simp: proper_request_def or_underscore_def same_segment_def)

lemma proper_groups:
  assumes "proper_request k gb sv l" "proper_request k' gb' sv' l'" "or_underscore gb = or_underscore gb'"
  shows "gb = gb'"
proof -
  have "\<forall>g \<in> set GROUP_BY_FIELDS. strip g = g \<and> g \<noteq> [] \<and> g \<noteq> u ''_''"
    by (auto simp: GROUP_BY_FIELDS_def u_def intro!: strip_fixed) (simp_all add: is_space_def)
  then show ?thesis using assms
    by (cases gb; cases gb') (auto simp: proper_request_def or_underscore_def)
qed

text \<open>
  C23. A portrait that a project's handler serves was made for this very request and for the corpus as
  it is: in every history of the cache, with any answers of the model, the served answer is one that the
  model gave for a portrait of the same project, group and language and of the same segment (no segment and
  one named \<^verbatim>\<open>_\<close> are not told apart), in a world where the project had as many entities and as many chunks
  as it has now, and the newest of each from the same time. The premises are what the libraries promise of
  ids, digests and times, and that the truncated digest has no collision among the states that occur.
\<close>

theorem portrait_is_of_this_corpus:
  assumes "cache_run env an w gs" "library_text env an" "printed_times an"
    "digest_tells_apart an pid (w # map gn_world gs)"
    "get_project_audience_portrait env (an\<lparr>an_generate := g\<rparr>) pid recalc force gb sv w = (Inr r, w')"
  shows "\<exists>seg x. validate_segment_query gb sv = Inr seg
    \<and> x \<in> set (gs @ generations env (an\<lparr>an_generate := g\<rparr>) CACHE_KIND_PORTRAIT pid gb seg
        (project_output_language an pid) recalc None w)
    \<and> gn_kind x = CACHE_KIND_PORTRAIT \<and> gn_project x = pid \<and> gn_language x = project_output_language an pid
    \<and> gn_group x = gb \<and> same_segment (gn_segment x) seg
    \<and> corpus_state an pid (gn_world x) = corpus_state an pid w \<and> gn_answer x = r"
proof -
  obtain seg where seg: "validate_segment_query gb sv = Inr seg"
    using assms(5) by (cases "validate_segment_query gb sv") (auto simp: get_project_audience_portrait_def)
  have proper: "proper_request CACHE_KIND_PORTRAIT gb seg (project_output_language an pid)"
    by (rule validated_request [OF seg]) simp
  obtain w'' where "project_answer env (an\<lparr>an_generate := g\<rparr>) CACHE_KIND_PORTRAIT pid gb seg
      (project_output_language an pid) recalc None w = (Inr r, w'')"
    using assms(5) seg by (auto simp: get_project_audience_portrait_def answer_with_def
        get_or_create_project_audience_portrait_response_def split: if_splits option.splits prod.splits sum.splits)
  from served_from_cache [OF assms(1,2) proper this] obtain x
    where "x \<in> set (gs @ generations env (an\<lparr>an_generate := g\<rparr>) CACHE_KIND_PORTRAIT pid gb seg
        (project_output_language an pid) recalc None w)"
    and "gn_kind x = CACHE_KIND_PORTRAIT \<and> gn_project x = pid \<and> or_underscore (gn_group x) = or_underscore gb
      \<and> or_underscore (gn_segment x) = or_underscore seg \<and> gn_language x = project_output_language an pid \<and> gn_answer x = r
      \<and> gn_revision x = compute_project_corpora_fingerprint an pid w
      \<and> gn_revision x = compute_project_corpora_fingerprint an pid (gn_world x)
      \<and> proper_request CACHE_KIND_PORTRAIT (gn_group x) (gn_segment x) (project_output_language an pid)" by (rule bexE)
  then have x: "x \<in> set (gs @ generations env (an\<lparr>an_generate := g\<rparr>) CACHE_KIND_PORTRAIT pid gb seg
        (project_output_language an pid) recalc None w)"
    "gn_kind x = CACHE_KIND_PORTRAIT \<and> gn_project x = pid \<and> gn_language x = project_output_language an pid \<and> gn_answer x = r"
    "or_underscore (gn_group x) = or_underscore gb" "or_underscore (gn_segment x) = or_underscore seg"
    "compute_project_corpora_fingerprint an pid (gn_world x) = compute_project_corpora_fingerprint an pid w"
    "proper_request CACHE_KIND_PORTRAIT (gn_group x) (gn_segment x) (project_output_language an pid)"
    by auto
  have "gn_world x \<in> set (w # map gn_world gs)"
    using x(1) generations_world [of w env "an\<lparr>an_generate := g\<rparr>" CACHE_KIND_PORTRAIT pid gb seg]
    by (auto simp: list_all_iff)
  then have "corpus_state an pid (gn_world x) = corpus_state an pid w"
    by (intro same_fingerprint_same_state [OF assms(2,3,4) _ _ x(5)]) simp_all
  moreover have "gn_group x = gb" "same_segment (gn_segment x) seg"
    using proper_groups [OF x(6) proper x(3)] proper_segments [OF x(6) proper x(4)] by simp_all
  ultimately show ?thesis using seg x(1,2) by blast
qed

text \<open>
  When the report of a document ends the last active source of its project, the next request for
  a portrait goes to the model, whatever was cached before: the answer is what the model gives now
  for the project as it is now, and a failure of the model is the handler's.
\<close>

theorem finished_project_is_analysed_afresh:
  assumes run: "cache_run env an w gs" and lib: "library_text env an"
    and doc: "project_queue_enabled (conf env)" "get_doc w did = Some d" "active (doc_status d)"
      "broker env (Process_project_queue (doc_project_id d)) = None"
    and fin: "maybe_finalize_project_after_document_pipeline env did ok e w = (Inr (), w1)"
      "\<not> project_active (doc_project_id d) w1"
    and req: "validate_segment_query gb sv = Inr seg" "doc_project_id d \<in> set (projects w1)"
  shows "fst (get_project_audience_portrait env (an\<lparr>an_generate := g\<rparr>) (doc_project_id d) False force gb sv w1) =
    (case g CACHE_KIND_PORTRAIT (project_view (doc_project_id d) w1) gb seg
        (project_output_language an (doc_project_id d)) None w1 of
       Inl x \<Rightarrow> Inl (project_analysis_failure (u ''portrait_generation_failed'') x)
     | Inr r \<Rightarrow> Inr r)"
proof -
  let ?pid = "doc_project_id d" and ?w = "upd_doc did (doc_finish ok (str_or e (u ''pipeline_failed'')) (clock w)) w"
  have "maybe_finalize_project_after_document_pipeline env did ok e w = after_finish env ok ?pid ?w"
    using doc by (auto simp: maybe_finalize_project_after_document_pipeline_def active_def)
  then obtain w2 where w2: "w1 = w2" "project_llm_cache w2 = (if project_active ?pid ?w then project_llm_cache ?w
      else filter (\<lambda>c. ca_owner c \<noteq> ?pid) (project_llm_cache ?w))"
      "documents w2 = documents ?w" "audios w2 = audios ?w"
    using after_finish_accepted [OF doc(4), of ok ?w] fin(1) by auto
  then have cache: "project_llm_cache w1 = filter (\<lambda>c. ca_owner c \<noteq> ?pid) (project_llm_cache w)"
    using fin(2) by (simp add: world_simps project_active_def)
  have "cache_run env an w1 gs"
    by (rule cache_run.elsewhere [OF run]) (auto simp: cache)
  then have "cached_response an False CACHE_KIND_PORTRAIT (project_key env an CACHE_KIND_PORTRAIT ?pid gb seg
      (project_output_language an ?pid) w1) (project_llm_cache w1) = None"
    by (rule no_rows_no_answer [OF _ lib validated_request [OF req(1)]]) (auto simp: cache)
  moreover have "ensure_project_queue_idle force ?pid w1 = None"
    using fin(2) by (simp add: ensure_project_queue_idle_def active_work_iff)
  ultimately show ?thesis
    using req by (simp add: get_project_audience_portrait_def answer_with_def project_answer_eq project_key_def
        get_or_create_project_audience_portrait_response_def split: sum.split)
qed


lemma ensure_idle_eq:
  "ensure_project_queue_idle force pid w =
     (if force \<or> \<not> project_active pid w then None else Some (Http 409 (u ''processing_not_complete'')))"
  by (simp add: ensure_project_queue_idle_def active_work_iff)

lemma project_active_cached [simp]: "project_active pid (w\<lparr>project_llm_cache := c\<rparr>) = project_active pid w"
  by (simp add: project_active_def)

text \<open>
  A served request is answered from the cache when it is repeated: with the same answer, with
  nothing written and with the model never asked (whatever it would say), provided that the response
  model accepts the stored answer and that the first request was not refused.
\<close>

theorem repeated_request_is_cached:
  assumes "get_project_audience_portrait env an pid recalc force gb sv w = (Inr r, w')"
    "an_valid an CACHE_KIND_PORTRAIT r"
  shows "get_project_audience_portrait env (an\<lparr>an_generate := g\<rparr>) pid False force gb sv w' = (Inr r, w')"
proof -
  obtain seg where seg: "validate_segment_query gb sv = Inr seg" "pid \<in> set (projects w)"
      "ensure_project_queue_idle force pid w = None"
    using assms(1) by (auto simp: get_project_audience_portrait_def split: sum.splits if_splits option.splits)
  then have ans: "project_answer env an CACHE_KIND_PORTRAIT pid gb seg (project_output_language an pid) recalc None w = (Inr r, w')"
    using assms(1) by (auto simp: get_project_audience_portrait_def answer_with_def
        get_or_create_project_audience_portrait_response_def split: prod.splits sum.splits)
  then obtain c where w': "w' = w \<or> w' = w\<lparr>project_llm_cache := c\<rparr>"
    using seg(2) by (auto simp: project_answer_eq split: option.splits sum.splits)
  have "project_answer env (an\<lparr>an_generate := g\<rparr>) CACHE_KIND_PORTRAIT pid gb seg (project_output_language an pid) False None w'
      = (Inr r, w')"
    by (rule project_answer_again [OF ans assms(2)])
  moreover have "pid \<in> set (projects w')" "ensure_project_queue_idle force pid w' = None"
    using w' seg by (auto simp: ensure_idle_eq split: if_splits)
  ultimately show ?thesis
    using seg by (simp add: get_project_audience_portrait_def answer_with_def
        get_or_create_project_audience_portrait_response_def)
qed

text \<open>
  A refused or failed request writes nothing, and its error is one of the documented ones: 400 for
  the query, 404 for the project, 409 while sources are active (unless forced), 503 without an API
  key, 502 for any other failure of the model. While sources are active and the request is not
  forced, a valid request for a known project is refused.
\<close>

theorem portrait_errors:
  "fst (get_project_audience_portrait env an pid recalc force gb sv w) = Inl e \<Longrightarrow>
     snd (get_project_audience_portrait env an pid recalc force gb sv w) = w
     \<and> e \<in> {Http 400 (u ''empty_segment''), Http 400 (u ''segment_requires_group_by''), Http 400 (u ''invalid_group_by''),
         Http 400 (u ''segment_too_long''), project_404, Http 409 (u ''processing_not_complete''),
         Http 503 (u ''openai_not_configured''), Http 502 (u ''portrait_generation_failed'')}
     \<and> (e = Http 409 (u ''processing_not_complete'') \<longleftrightarrow>
          (\<exists>seg. validate_segment_query gb sv = Inr seg) \<and> pid \<in> set (projects w) \<and> \<not> force \<and> project_active pid w)"
proof (cases "validate_segment_query gb sv")
  case (Inl f)
  then have "f \<in> {Http 400 (u ''empty_segment''), Http 400 (u ''segment_requires_group_by''),
      Http 400 (u ''invalid_group_by''), Http 400 (u ''segment_too_long'')}"
    by (auto simp: validate_segment_query_def split: if_splits option.splits)
  moreover assume "fst (get_project_audience_portrait env an pid recalc force gb sv w) = Inl e"
  ultimately show ?thesis using Inl by (auto simp: get_project_audience_portrait_def)
next
  case (Inr seg)
  assume e: "fst (get_project_audience_portrait env an pid recalc force gb sv w) = Inl e"
  show ?thesis
  proof (cases "pid \<in> set (projects w) \<and> (force \<or> \<not> project_active pid w)")
    case True
    then have eq: "get_project_audience_portrait env an pid recalc force gb sv w =
        answer_with (project_analysis_failure (u ''portrait_generation_failed''))
          (project_answer env an CACHE_KIND_PORTRAIT pid gb seg (project_output_language an pid) recalc None w)"
      using Inr by (auto simp: get_project_audience_portrait_def ensure_idle_eq
          get_or_create_project_audience_portrait_response_def)
    with e obtain x where "project_answer env an CACHE_KIND_PORTRAIT pid gb seg (project_output_language an pid) recalc None w
        = (Inl x, w)" "e = project_analysis_failure (u ''portrait_generation_failed'') x"
      using project_answer_Inl by (fastforce simp: answer_with_def split: prod.splits sum.splits)
    with eq True show ?thesis
      by (cases x) (auto simp: answer_with_def project_404_def)
  next
    case False
    with e Inr show ?thesis
      by (auto simp: get_project_audience_portrait_def ensure_idle_eq project_404_def split: if_splits)
  qed
qed

section \<open>Public links\<close>

text \<open>\<^verbatim>\<open>secrets.token_urlsafe(32)\<close> is the argument \<open>fresh\<close>; a link is the row of its project or batch.\<close>

definition upsert_link :: "uuid \<Rightarrow> pystr \<Rightarrow> public_link list \<Rightarrow> public_link list" where
  "upsert_link i tok rows =
     (if \<exists>l \<in> set rows. lk_owner l = i then map (\<lambda>l. if lk_owner l = i then l\<lparr>lk_token := tok\<rparr> else l) rows
      else rows @ [\<lparr>lk_owner = i, lk_token = tok\<rparr>])"

definition upsert_for_project :: "pystr \<Rightarrow> uuid \<Rightarrow> pystr option \<Rightarrow> world \<Rightarrow> pystr \<times> world" where
  "upsert_for_project fresh pid tok w =
     (let t = str_or tok fresh in (t, w\<lparr>project_links := upsert_link pid t (project_links w)\<rparr>))"

definition upsert_for_batch :: "pystr \<Rightarrow> uuid \<Rightarrow> pystr option \<Rightarrow> world \<Rightarrow> pystr \<times> world" where
  "upsert_for_batch fresh bid tok w =
     (let t = str_or tok fresh in (t, w\<lparr>batch_links := upsert_link bid t (batch_links w)\<rparr>))"

definition usable_token :: "pystr \<Rightarrow> bool" where
  "usable_token t \<longleftrightarrow> t \<noteq> [] \<and> length t \<le> 96"

definition owner_of_token :: "pystr \<Rightarrow> public_link list \<Rightarrow> uuid option" where
  "owner_of_token t rows = map_option lk_owner (find (\<lambda>l. lk_token l = t) rows)"

text \<open>\<^verbatim>\<open>resolve_project_id\<close>: the row of the token, else the row of the project it is redirected to.\<close>

definition resolve_project_id :: "pystr \<Rightarrow> world \<Rightarrow> uuid option" where
  "resolve_project_id tk w =
     (let t = strip tk in
      if \<not> usable_token t then None
      else case owner_of_token t (project_links w) of
        Some p \<Rightarrow> Some p
      | None \<Rightarrow>
         (case owner_of_token t (token_redirects w) of
            None \<Rightarrow> None
          | Some p \<Rightarrow> if \<exists>l \<in> set (project_links w). lk_owner l = p then Some p else None))"

definition resolve_batch_token :: "pystr \<Rightarrow> world \<Rightarrow> uuid option" where
  "resolve_batch_token tk w =
     (let t = strip tk in if \<not> usable_token t then None else owner_of_token t (batch_links w))"

definition register_redirect_token :: "uuid \<Rightarrow> pystr \<Rightarrow> world \<Rightarrow> world" where
  "register_redirect_token pid tk w =
     (let t = strip tk in
      if t = [] then w
      else if \<exists>l \<in> set (token_redirects w). lk_token l = t
      then w\<lparr>token_redirects := map (\<lambda>l. if lk_token l = t then l\<lparr>lk_owner := pid\<rparr> else l) (token_redirects w)\<rparr>
      else w\<lparr>token_redirects := token_redirects w @ [\<lparr>lk_owner = pid, lk_token = t\<rparr>]\<rparr>)"

definition create_project_public_link :: "pystr \<Rightarrow> uuid \<Rightarrow> world \<Rightarrow> pystr response" where
  "create_project_public_link fresh pid w =
     (if pid \<notin> set (projects w) then (Inl project_404, w)
      else case upsert_for_project fresh pid None w of (t, w1) \<Rightarrow> (Inr t, w1))"

definition create_batch_public_link :: "pystr \<Rightarrow> uuid \<Rightarrow> world \<Rightarrow> pystr response" where
  "create_batch_public_link fresh bid w =
     (case get_batch w bid of
        None \<Rightarrow> (Inl batch_404, w)
      | Some _ \<Rightarrow> (case upsert_for_batch fresh bid None w of (t, w1) \<Rightarrow> (Inr t, w1)))"

text \<open>\<open>build\<close> makes the report of a project (\<^verbatim>\<open>build_public_report_for_project\<close>).\<close>

definition report_404 :: failure where "report_404 = Http 404 (u ''report_not_found'')"

definition get_public_report :: "(uuid \<Rightarrow> world \<Rightarrow> 'a outcome) \<Rightarrow> pystr \<Rightarrow> world \<Rightarrow> 'a response" where
  "get_public_report build tk w =
     (let raw = strip tk in
      if \<not> usable_token raw then (Inl report_404, w)
      else case resolve_project_id raw w of
        Some p \<Rightarrow> if p \<notin> set (projects w) then (Inl report_404, w)
            else answer_with (batch_analysis_failure (u ''public_report_failed'')) (build p w)
      | None \<Rightarrow>
         (case resolve_batch_token raw w of
            None \<Rightarrow> (Inl report_404, w)
          | Some bid \<Rightarrow>
             (case get_batch w bid of
                None \<Rightarrow> (Inl report_404, w)
              | Some b \<Rightarrow> answer_with (batch_analysis_failure (u ''public_report_failed''))
                  (if bt_project_id b \<notin> set (projects w) then (Inl (Value_error (u ''project_not_found'')), w)
                   else build (bt_project_id b) w))))"


lemma owner_of_token_Cons: "owner_of_token t (l # rows) = (if lk_token l = t then Some (lk_owner l) else owner_of_token t rows)"
  by (simp add: owner_of_token_def)

lemma owner_of_token_None: "owner_of_token t rows = None \<longleftrightarrow> t \<notin> lk_token ` set rows"
  by (auto simp: owner_of_token_def find_None_iff)

lemma owner_of_token_iff:
  "distinct (map lk_token rows) \<Longrightarrow> owner_of_token t rows = Some p \<longleftrightarrow> (\<exists>l \<in> set rows. lk_token l = t \<and> lk_owner l = p)"
proof (induction rows)
  case (Cons l rows)
  then have "lk_token k = lk_token l \<Longrightarrow> k \<notin> set rows" for k :: public_link
    by (metis distinct.simps(2) image_eqI list.set_map list.simps(9))
  then show ?case using Cons by (auto simp: owner_of_token_Cons)
qed (simp add: owner_of_token_def)

definition retoken :: "uuid \<Rightarrow> pystr \<Rightarrow> public_link \<Rightarrow> public_link" where
  "retoken i t l = (if lk_owner l = i then l\<lparr>lk_token := t\<rparr> else l)"

lemma retoken_sel [simp]:
  "lk_owner (retoken i t l) = lk_owner l" "lk_token (retoken i t l) = (if lk_owner l = i then t else lk_token l)"
  "lk_owner l \<noteq> i \<Longrightarrow> retoken i t l = l"
  by (simp_all add: retoken_def)

lemma set_upsert_link:
  "set (upsert_link i t rows) = (if i \<in> lk_owner ` set rows then retoken i t ` set rows
     else insert \<lparr>lk_owner = i, lk_token = t\<rparr> (set rows))"
proof -
  have "(\<exists>l \<in> set rows. lk_owner l = i) \<longleftrightarrow> i \<in> lk_owner ` set rows" by blast
  then show ?thesis by (simp add: upsert_link_def retoken_def [abs_def])
qed

lemma upsert_link_owner: "\<exists>l \<in> set (upsert_link i t rows). lk_owner l = i \<and> lk_token l = t"
proof (cases "i \<in> lk_owner ` set rows")
  case True
  then obtain l where "l \<in> set rows" "lk_owner l = i" by blast
  then show ?thesis
    using True by (intro bexI [of _ "retoken i t l"]) (simp_all add: set_upsert_link)
qed (simp add: set_upsert_link)

lemma upsert_link_other:
  "l \<in> set (upsert_link i t rows) \<Longrightarrow> lk_owner l \<noteq> i \<Longrightarrow> l \<in> set rows"
  "l \<in> set rows \<Longrightarrow> lk_owner l \<noteq> i \<Longrightarrow> l \<in> set (upsert_link i t rows)"
  "l \<in> set (upsert_link i t rows) \<Longrightarrow> lk_owner l = i \<Longrightarrow> lk_token l = t"
proof -
  show "l \<in> set rows" if "l \<in> set (upsert_link i t rows)" "lk_owner l \<noteq> i"
    using that by (cases "i \<in> lk_owner ` set rows") (auto simp: set_upsert_link)
  show "l \<in> set (upsert_link i t rows)" if "l \<in> set rows" "lk_owner l \<noteq> i"
    using that image_eqI [of l "retoken i t" l "set rows"] by (simp add: set_upsert_link)
  show "lk_token l = t" if l: "l \<in> set (upsert_link i t rows)" "lk_owner l = i"
  proof (cases "i \<in> lk_owner ` set rows")
    case False
    then have "l = \<lparr>lk_owner = i, lk_token = t\<rparr>"
      using l by (metis image_eqI insert_iff set_upsert_link)
    then show ?thesis by (metis public_link.select_convs(2))
  qed (use l in \<open>auto simp: set_upsert_link\<close>)
qed

lemma upsert_link_distinct:
  assumes "distinct (map lk_token rows)" "distinct (map lk_owner rows)" "t \<notin> lk_token ` set rows"
  shows "distinct (map lk_token (upsert_link i t rows))"
proof (cases "\<exists>l \<in> set rows. lk_owner l = i")
  case True
  define g where "g = (\<lambda>l :: public_link. if lk_owner l = i then t else lk_token l)"
  have "map lk_token (upsert_link i t rows) = map g rows"
    using True by (auto simp: upsert_link_def g_def)
  moreover have "inj_on g (set rows)"
    using assms by (auto simp: g_def inj_on_def distinct_map)
  ultimately show ?thesis using assms(1) by (simp add: distinct_map)
next
  case False
  then show ?thesis using assms by (auto simp: upsert_link_def)
qed

lemma resolve_cases:
  "resolve_project_id tk w = Some p \<longleftrightarrow> usable_token (strip tk) \<and>
     (owner_of_token (strip tk) (project_links w) = Some p
      \<or> owner_of_token (strip tk) (project_links w) = None \<and> owner_of_token (strip tk) (token_redirects w) = Some p
        \<and> (\<exists>l \<in> set (project_links w). lk_owner l = p))"
  by (auto simp: resolve_project_id_def Let_def split: option.split)

lemma link_made:
  assumes "usable_token fresh" "create_project_public_link fresh pid w = (Inr t, w')"
  shows "t = fresh" "project_links w' = upsert_link pid fresh (project_links w)" "token_redirects w' = token_redirects w"
    "pid \<in> set (projects w')"
  using assms by (auto simp: create_project_public_link_def upsert_for_project_def usable_token_def Let_def split: if_splits)

lemma new_link_resolves:
  assumes "distinct (map lk_token (project_links w))" "distinct (map lk_owner (project_links w))"
    and "usable_token fresh" "strip fresh = fresh" "fresh \<notin> lk_token ` set (project_links w)"
    and "create_project_public_link fresh pid w = (Inr t, w')"
  shows "resolve_project_id t w' = Some pid"
  using assms upsert_link_owner [of pid fresh "project_links w"] link_made [OF assms(3,6)]
    owner_of_token_iff [OF upsert_link_distinct [OF assms(1,2,5)]]
  by (auto simp: resolve_cases)

text \<open>
  A new public link opens its project's report and closes the link the project had: the new token
  resolves to the project, a former token of it resolves to nothing (unless it is registered as a
  redirect), and every token of another project resolves as before. The premises are the unique
  columns of the table and a fresh, usable token.
\<close>

theorem new_link_replaces_old:
  assumes uniq: "distinct (map lk_token (project_links w))" "distinct (map lk_owner (project_links w))"
    and fresh: "usable_token fresh" "strip fresh = fresh" "fresh \<notin> lk_token ` set (project_links w)"
    and made: "create_project_public_link fresh pid w = (Inr t, w')"
  shows "resolve_project_id t w' = Some pid
    \<and> (\<forall>l tk. l \<in> set (project_links w) \<and> lk_owner l = pid \<and> lk_token l \<notin> lk_token ` set (token_redirects w)
        \<and> strip tk = lk_token l \<longrightarrow> resolve_project_id tk w' = None)
    \<and> (\<forall>tk p. resolve_project_id tk w = Some p \<and> p \<noteq> pid \<and> strip tk \<noteq> fresh \<longrightarrow> resolve_project_id tk w' = Some p)"
proof -
  note new = link_made(1-3) [OF fresh(1) made]
  note own = owner_of_token_iff [OF upsert_link_distinct [OF uniq fresh(3)]]
  have "resolve_project_id t w' = Some pid"
    by (rule new_link_resolves [OF uniq fresh made])
  moreover have "resolve_project_id tk w' = None"
    if l: "l \<in> set (project_links w)" "lk_owner l = pid" "lk_token l \<notin> lk_token ` set (token_redirects w)" "strip tk = lk_token l" for l tk
  proof (rule ccontr)
    assume "resolve_project_id tk w' \<noteq> None"
    then obtain p where p: "resolve_project_id tk w' = Some p" by blast
    have "owner_of_token (strip tk) (token_redirects w) = None"
      using l by (simp add: owner_of_token_None)
    then obtain k where k: "k \<in> set (upsert_link pid fresh (project_links w))" "lk_token k = lk_token l"
      using p l(4) by (auto simp: resolve_cases new own)
    have "lk_token l \<noteq> fresh" using l(1) fresh(3) by auto
    then have "lk_owner k \<noteq> pid" using upsert_link_other(3) [OF k(1)] k(2) by auto
    then have "k \<in> set (project_links w)" using upsert_link_other(1) [OF k(1)] by blast
    then have "k = l" using uniq(1) l(1) k(2) by (auto simp: distinct_map inj_on_def)
    then show False using \<open>lk_owner k \<noteq> pid\<close> l(2) by simp
  qed
  moreover have "resolve_project_id tk w' = Some p"
    if r: "resolve_project_id tk w = Some p" "p \<noteq> pid" "strip tk \<noteq> fresh" for tk p
  proof (cases "owner_of_token (strip tk) (project_links w) = Some p")
    case True
    then obtain l where "l \<in> set (project_links w)" "lk_token l = strip tk" "lk_owner l = p"
      using owner_of_token_iff [OF uniq(1)] by blast
    then have "owner_of_token (strip tk) (project_links w') = Some p"
      using upsert_link_other(2) r(2) by (auto simp: new own)
    then show ?thesis using r(1) by (simp add: resolve_cases)
  next
    case False
    then have n: "owner_of_token (strip tk) (project_links w) = None"
        "owner_of_token (strip tk) (token_redirects w) = Some p" "\<exists>l \<in> set (project_links w). lk_owner l = p"
      using r(1) by (auto simp: resolve_cases)
    have "owner_of_token (strip tk) (project_links w') = None"
    proof (rule ccontr)
      assume "owner_of_token (strip tk) (project_links w') \<noteq> None"
      then obtain k where k: "k \<in> set (upsert_link pid fresh (project_links w))" "lk_token k = strip tk"
        by (auto simp: new own)
      then have "lk_owner k \<noteq> pid" using upsert_link_other(3) r(3) by fastforce
      then have "k \<in> set (project_links w)" using upsert_link_other(1) k(1) by blast
      with k(2) n(1) show False unfolding owner_of_token_None by (metis image_eqI)
    qed
    moreover have "\<exists>l \<in> set (project_links w'). lk_owner l = p"
      using n(3) r(2) upsert_link_other(2) by (auto simp: new)
    ultimately show ?thesis using r(1) n(2) by (simp add: resolve_cases new)
  qed
  ultimately show ?thesis by blast
qed


section \<open>Concrete requests\<close>

definition answer_json :: "string \<Rightarrow> json" where "answer_json s = JStr (u s)"

definition plain_analysis :: analysis where
  "plain_analysis = \<lparr>an_sha256 = (\<lambda>_. replicate 64 48), an_id = (\<lambda>i. replicate 35 48 @ [100 + i]),
     an_iso = (\<lambda>t. (if t < 0 then [45] else []) @ digits (nat \<bar>t\<bar>)), an_entity_at = en_created_at, an_chunk_at = (\<lambda>_. 0),
     an_language = (\<lambda>_. None), an_valid = (\<lambda>_ _. True),
     an_generate = (\<lambda>_ _ _ _ _ _ _. Inr (answer_json ''first''))\<rparr>"

lemma plain_valid [simp]: "an_valid plain_analysis k j"
  by (simp add: plain_analysis_def)

lemma plain_library: "library_text plain_env plain_analysis"
  by (auto simp: library_text_def plain_analysis_def inj_def HEX_DIGITS_def LANGS_def u_def ascii_lower_def lower_char_def)

lemma plain_times: "printed_times plain_analysis"
proof -
  have d: "45 \<notin> set (digits n)" "110 \<notin> set (digits n)" "124 \<notin> set (digits n)" for n
    by (simp_all add: not_a_digit)
  have "s = t" if "an_iso plain_analysis s = an_iso plain_analysis t" for s t
    using that d(1) [of "nat \<bar>s\<bar>"] d(1) [of "nat \<bar>t\<bar>"]
    by (auto simp: plain_analysis_def digits_inj eq_nat_nat_iff split: if_splits) (metis list.set_intros(1))+
  moreover have "an_iso plain_analysis t \<noteq> u ''none''" for t
    using d(2) [of "nat \<bar>t\<bar>"] by (auto simp: plain_analysis_def u_def)
  ultimately show ?thesis using d(3) by (auto simp: printed_times_def inj_def plain_analysis_def)
qed

text \<open>A project with one document, in two states of its queue.\<close>

definition study :: "source_status \<Rightarrow> world" where
  "study st = empty_world\<lparr>projects := [7], documents := [(plain_document 1 7 (u ''an interview''))\<lparr>doc_status := st\<rparr>]\<rparr>"

lemma study_sel [simp]:
  "projects (study st) = [7]" "project_llm_cache (study st) = []" "project_active 7 (study st) \<longleftrightarrow> active st"
  "documents (study st) = [(plain_document 1 7 (u ''an interview''))\<lparr>doc_status := st\<rparr>]" "audios (study st) = []"
  by (simp_all add: study_def empty_world_def project_active_def plain_document_def)

definition first_answer :: "json \<times> world" where
  "first_answer = (answer_json ''first'', (study SP_COMPLETED)\<lparr>project_llm_cache :=
     [\<lparr>ca_owner = 7, ca_kind = CACHE_KIND_PORTRAIT,
       ca_key = project_key plain_env plain_analysis CACHE_KIND_PORTRAIT 7 None None (u ''ru'') (study SP_COMPLETED),
       ca_payload = answer_json ''first''\<rparr>]\<rparr>)"

lemma plain_language: "project_output_language plain_analysis 7 = u ''ru''"
  by (simp add: project_output_language_def plain_analysis_def normalize_output_language_def LANGS_def ascii_lower_def)

lemma first_request:
  "project_answer plain_env plain_analysis CACHE_KIND_PORTRAIT 7 None None (u ''ru'') False None (study SP_COMPLETED)
     = (Inr (fst first_answer), snd first_answer)"
  by (subst project_answer_eq)
    (simp_all add: cached_response_def get_by_cache_key_def first_row_def upsert_payload_def first_answer_def plain_analysis_def)

lemma first_handled:
  "get_project_audience_portrait plain_env plain_analysis 7 False False None None (study SP_COMPLETED)
     = (Inr (answer_json ''first''), snd first_answer)"
  using first_request
  by (simp add: get_project_audience_portrait_def validate_segment_query_def ensure_idle_eq active_def answer_with_def
      get_or_create_project_audience_portrait_response_def plain_language first_answer_def)

lemma first_run: "\<exists>gs. cache_run plain_env plain_analysis (snd first_answer) gs \<and> set (map gn_world gs) \<subseteq> {study SP_COMPLETED}"
proof -
  let ?gs = "generations plain_env (plain_analysis\<lparr>an_generate := an_generate plain_analysis\<rparr>) CACHE_KIND_PORTRAIT
      7 None None (u ''ru'') False None (study SP_COMPLETED)"
  have a: "cache_run plain_env plain_analysis (study SP_COMPLETED) []"
    by (rule cache_run.empty) simp
  have b: "proper_request CACHE_KIND_PORTRAIT None None (u ''ru'')"
    by (simp add: proper_request_def LANGS_def)
  have c: "project_answer plain_env (plain_analysis\<lparr>an_generate := an_generate plain_analysis\<rparr>) CACHE_KIND_PORTRAIT
      7 None None (u ''ru'') False None (study SP_COMPLETED) = (Inr (fst first_answer), snd first_answer)"
    using first_request by simp
  have "cache_run plain_env plain_analysis (snd first_answer) ([] @ ?gs)"
    by (rule cache_run.request [OF a b c])
  moreover have "set (map gn_world ?gs) \<subseteq> {study SP_COMPLETED}"
    using generations_world [of "study SP_COMPLETED" plain_env "plain_analysis\<lparr>an_generate := an_generate plain_analysis\<rparr>"
        CACHE_KIND_PORTRAIT 7 None None "u ''ru''" False None] by (auto simp: list_all_iff simp del: study_sel)
  ultimately show ?thesis by (intro exI [of _ ?gs]) simp
qed

definition second_model :: "pystr \<Rightarrow> corpus \<Rightarrow> pystr option \<Rightarrow> pystr option \<Rightarrow> pystr \<Rightarrow> json option \<Rightarrow> world \<Rightarrow> exc + json" where
  "second_model k co gb sv l pre w = Inr (answer_json ''second'')"

theorem cache_key_fits_column_witness:
  "length (make_cache_key plain_env plain_analysis CACHE_KIND_PORTRAIT 7 None (Some (replicate 3000 97)) (u ''ru'') None None) \<le> 767"
  using cache_key_fits_column [OF plain_library, of CACHE_KIND_PORTRAIT 7 None "Some (replicate 3000 97)" "u ''ru''" None None] by simp

theorem repeated_request_is_cached_witness:
  "get_project_audience_portrait plain_env (plain_analysis\<lparr>an_generate := second_model\<rparr>) 7 False False None None (snd first_answer)
     = (Inr (answer_json ''first''), snd first_answer)"
  by (rule repeated_request_is_cached [OF first_handled]) (simp add: plain_analysis_def)

theorem portrait_is_of_this_corpus_witness:
  "\<exists>gs x. cache_run plain_env plain_analysis (snd first_answer) gs \<and> x \<in> set gs
     \<and> corpus_state plain_analysis 7 (gn_world x) = corpus_state plain_analysis 7 (snd first_answer)
     \<and> gn_answer x = answer_json ''first''"
proof -
  obtain gs where run: "cache_run plain_env plain_analysis (snd first_answer) gs"
    and ws: "set (map gn_world gs) \<subseteq> {study SP_COMPLETED}"
    using first_run by blast
  have "corpus_state plain_analysis 7 v = corpus_state plain_analysis 7 (study SP_COMPLETED)"
    if "v \<in> set (snd first_answer # map gn_world gs)" for v
  proof -
    have "v = snd first_answer \<or> v = study SP_COMPLETED" using that ws by auto
    then show ?thesis
      by (auto simp: first_answer_def corpus_state_def project_view_def project_sources_def corpus_entities_def
          corpus_chunks_def resolve_transcript_ids_def)
  qed
  then have apart: "digest_tells_apart plain_analysis 7 (snd first_answer # map gn_world gs)"
    unfolding digest_tells_apart_def by (intro inj_onI) (metis (mono_tags, lifting) imageE)
  have again: "project_answer plain_env (plain_analysis\<lparr>an_generate := second_model\<rparr>) CACHE_KIND_PORTRAIT 7 None None (u ''ru'')
      False None (snd first_answer) = (Inr (answer_json ''first''), snd first_answer)"
    using project_answer_again [OF first_request, of second_model None] by (simp add: first_answer_def plain_analysis_def)
  then have served: "get_project_audience_portrait plain_env (plain_analysis\<lparr>an_generate := second_model\<rparr>) 7 False False None None
      (snd first_answer) = (Inr (answer_json ''first''), snd first_answer)"
    by (simp add: get_project_audience_portrait_def validate_segment_query_def ensure_idle_eq active_def answer_with_def
        get_or_create_project_audience_portrait_response_def plain_language) (simp add: first_answer_def active_def)
  have "generations plain_env (plain_analysis\<lparr>an_generate := second_model\<rparr>) CACHE_KIND_PORTRAIT 7 None None (u ''ru'') False None
      (snd first_answer) = []"
    by (simp add: generations_def cached_response_def get_by_cache_key_def first_row_def first_answer_def project_key_def)
  then show ?thesis
    using portrait_is_of_this_corpus [OF run plain_library plain_times apart served] run
    by (auto simp: plain_language validate_segment_query_def)
qed

theorem portrait_errors_witness:
  "fst (get_project_audience_portrait plain_env plain_analysis 7 False False None None (study SP_PROCESSING))
     = Inl (Http 409 (u ''processing_not_complete''))
   \<and> snd (get_project_audience_portrait plain_env plain_analysis 7 False False None None (study SP_PROCESSING)) = study SP_PROCESSING"
proof -
  have "fst (get_project_audience_portrait plain_env plain_analysis 7 False False None None (study SP_PROCESSING))
     = Inl (Http 409 (u ''processing_not_complete''))"
    by (simp add: get_project_audience_portrait_def validate_segment_query_def ensure_idle_eq active_def)
  with portrait_errors [OF this] show ?thesis by blast
qed


text \<open>The document is processed again while the first answer is cached.\<close>

definition restudied :: world where
  "restudied = (snd first_answer)\<lparr>documents := documents (study SP_PROCESSING)\<rparr>"

theorem finished_project_is_analysed_afresh_witness:
  "\<exists>w1. maybe_finalize_project_after_document_pipeline plain_env 1 True None restudied = (Inr (), w1)
     \<and> fst (get_project_audience_portrait plain_env (plain_analysis\<lparr>an_generate := second_model\<rparr>) 7 False False None None w1)
         = Inr (answer_json ''second'')"
proof -
  obtain gs where "cache_run plain_env plain_analysis (snd first_answer) gs"
    using first_run by blast
  then have run: "cache_run plain_env plain_analysis restudied gs"
    by (rule cache_run.elsewhere) (simp add: restudied_def)
  define d where "d = (plain_document 1 7 (u ''an interview''))\<lparr>doc_status := SP_PROCESSING\<rparr>"
  have d: "doc_project_id d = 7" "doc_status d = SP_PROCESSING" "doc_id d = 1"
    by (simp_all add: d_def plain_document_def)
  have w: "documents restudied = [d]" "audios restudied = []" "projects restudied = [7]" "get_doc restudied 1 = Some d"
    using d(3) by (simp_all add: restudied_def first_answer_def d_def get_doc_def get_row_def del: One_nat_def)
  define w1 where "w1 = snd (maybe_finalize_project_after_document_pipeline plain_env 1 True None restudied)"
  have eq: "maybe_finalize_project_after_document_pipeline plain_env 1 True None restudied =
      after_finish plain_env True 7 (upd_doc 1 (doc_finish True (u ''pipeline_failed'') (clock restudied)) restudied)"
    using w d by (simp add: maybe_finalize_project_after_document_pipeline_def)
  obtain w2 where w2: "after_finish plain_env True 7 (upd_doc 1 (doc_finish True (u ''pipeline_failed'') (clock restudied)) restudied) = (Inr (), w2)"
      "documents w2 = [doc_finish True (u ''pipeline_failed'') (clock restudied) d]" "audios w2 = []"
    using after_finish_accepted [of plain_env 7 True "upd_doc 1 (doc_finish True (u ''pipeline_failed'') (clock restudied)) restudied"] w d
    by (auto simp: world_simps upd_row_def)
  have "projects w2 = [7]"
    using w2(1) w by (auto simp: after_finish_def schedule_project_processing_def maybe_finalize_project_queue_idle_def
        invalidate_project_llm_cache_sync_def aggregate_project_after_source_def aggregate_project_sync_def
        deduplicate_project_entities_sync_def upd_doc_def Let_def split: if_splits sum.splits)
  moreover have "\<not> project_active 7 w2"
    using d by (auto simp: project_active_def w2 doc_finish_def active_def)
  ultimately have "fst (get_project_audience_portrait plain_env (plain_analysis\<lparr>an_generate := second_model\<rparr>) 7 False False None None w2)
      = Inr (answer_json ''second'')"
    using finished_project_is_analysed_afresh [OF run plain_library _ w(4), of True None w2 None None None second_model False]
      eq w2(1) d by (simp add: active_def validate_segment_query_def second_model_def)
  then show ?thesis using eq w2(1) by auto
qed

definition linked :: world where
  "linked = (study SP_COMPLETED)\<lparr>project_links := [\<lparr>lk_owner = 7, lk_token = u ''old''\<rparr>, \<lparr>lk_owner = 8, lk_token = u ''other''\<rparr>]\<rparr>"

theorem new_link_replaces_old_witness:
  "\<exists>w'. create_project_public_link (u ''new'') 7 linked = (Inr (u ''new''), w') \<and> resolve_project_id (u ''new'') w' = Some 7
     \<and> resolve_project_id (u ''old'') linked = Some 7 \<and> resolve_project_id (u ''old'') w' = None
     \<and> resolve_project_id (u ''other'') w' = Some 8"
proof -
  have s: "strip (u ''new'') = u ''new''" "strip (u ''old'') = u ''old''" "strip (u ''other'') = u ''other''"
    by (intro strip_fixed; simp add: u_def is_space_def)+
  have red: "token_redirects linked = []"
    by (simp add: linked_def study_def empty_world_def)
  have links: "project_links linked = [\<lparr>lk_owner = 7, lk_token = u ''old''\<rparr>, \<lparr>lk_owner = 8, lk_token = u ''other''\<rparr>]"
    by (simp add: linked_def)
  have r: "resolve_project_id (u ''old'') linked = Some 7" "resolve_project_id (u ''other'') linked = Some 8"
    by (simp_all add: resolve_project_id_def s usable_token_def owner_of_token_def links)
  obtain w' where made: "create_project_public_link (u ''new'') 7 linked = (Inr (u ''new''), w')"
    by (simp add: create_project_public_link_def upsert_for_project_def linked_def Let_def)
  note t = new_link_replaces_old [OF _ _ _ s(1) _ made]
  have "resolve_project_id (u ''new'') w' = Some 7
    \<and> (\<forall>l tk. l \<in> set (project_links linked) \<and> lk_owner l = 7 \<and> lk_token l \<notin> lk_token ` set (token_redirects linked)
        \<and> strip tk = lk_token l \<longrightarrow> resolve_project_id tk w' = None)
    \<and> (\<forall>tk p. resolve_project_id tk linked = Some p \<and> p \<noteq> 7 \<and> strip tk \<noteq> u ''new'' \<longrightarrow> resolve_project_id tk w' = Some p)"
    by (rule t) (simp_all add: links usable_token_def)
  then have "resolve_project_id (u ''new'') w' = Some 7" "resolve_project_id (u ''old'') w' = None"
      "resolve_project_id (u ''other'') w' = Some 8"
    using r s red links by fastforce+
  then show ?thesis using made r by blast
qed

end
