(* ===== verification/Report_View.thy ===== *)
theory Report_View
  imports Llm_Cache "HOL-Library.Sublist"
begin

text \<open>
  Reports put together from cached answers: the full report of a project or a batch
  (\<^verbatim>\<open>build_project_full_report_response\<close>, \<^verbatim>\<open>build_full_report_response\<close>), the report modes of a batch
  (\<^verbatim>\<open>batch_scenario_report_service.py\<close>) and the sections of the public report
  (\<^verbatim>\<open>report_narrative_service.py\<close>). The figures of the dashboards and of the custdev bundle, which
  are passed on as they are, are left out.
\<close>

section \<open>What the answers hold\<close>

record portrait_fields =
  pf_decision_making :: pystr
  pf_fears :: pystr
  pf_trust_drivers :: pystr
  pf_pain_points :: pystr
  pf_language_style :: pystr
  pf_brand_perception :: pystr
  pf_emotional_triggers :: pystr

record strategy_fields =
  sf_summary :: pystr
  sf_insights :: "pystr list"
  sf_risks :: "pystr list"
  sf_gaps :: "pystr list"
  sf_messages :: "pystr list"
  sf_talking_points :: "pystr list"
  sf_media_hooks :: "pystr list"
  sf_next_steps :: "pystr list"

text \<open>The evidence of a corpus: labels of its risks, texts of its quotes and insights; \<^verbatim>\<open>None\<close> is a missing key.\<close>

record evidence =
  ev_interviews :: int
  ev_risk_labels :: "pystr option list"
  ev_quotes :: "pystr option list"
  ev_insights :: "pystr option list"

text \<open>
  The fields of a portrait and of a strategy answer with their confidence, the evidence of a corpus
  (\<^verbatim>\<open>build_portrait_context\<close> and the dashboard, which may raise), and the latest report of a project:
  its id, whether it is ready, and its summary.
\<close>

record reading =
  rd_portrait :: "json \<Rightarrow> portrait_fields \<times> rat"
  rd_strategy :: "json \<Rightarrow> strategy_fields \<times> rat"
  rd_evidence :: "corpus \<Rightarrow> world \<Rightarrow> exc + evidence"
  rd_latest :: "uuid \<Rightarrow> world \<Rightarrow> (uuid \<times> bool \<times> pystr) option"

definition nonblank :: "pystr list \<Rightarrow> pystr list" where
  "nonblank xs = filter (\<lambda>x. strip x \<noteq> []) xs"

definition label_text :: "pystr option \<Rightarrow> pystr" where
  "label_text x = strip (case x of None \<Rightarrow> [] | Some s \<Rightarrow> s)"

definition NEWLINES :: pystr where "NEWLINES = [10, 10]"

section \<open>The full report\<close>

definition ready_summary :: "(uuid \<times> bool \<times> pystr) option \<Rightarrow> pystr" where
  "ready_summary rep = (case rep of Some (i, True, x) \<Rightarrow> strip x | _ \<Rightarrow> [])"

definition summary_parts :: "portrait_fields \<Rightarrow> strategy_fields \<Rightarrow> pystr list" where
  "summary_parts p s =
     (if sf_summary s \<noteq> [] then [strip (sf_summary s)] else []) @
     (if pf_brand_perception p \<noteq> [] then [strip (pf_brand_perception p)] else []) @
     (case sf_insights s of [] \<Rightarrow> [] | x # _ \<Rightarrow> [x])"

definition executive_summary :: "(uuid \<times> bool \<times> pystr) option \<Rightarrow> portrait_fields \<Rightarrow> strategy_fields \<Rightarrow> pystr" where
  "executive_summary rep p s =
     (if ready_summary rep \<noteq> [] then ready_summary rep
      else take 4000 (join NEWLINES (filter (\<lambda>x. x \<noteq> []) (summary_parts p s))))"

definition report_risks :: "evidence \<Rightarrow> strategy_fields \<Rightarrow> pystr list" where
  "report_risks ev s = take 40 (filter (\<lambda>x. x \<noteq> []) (map label_text (ev_risk_labels ev)) @ nonblank (sf_risks s))"

definition report_recommendations :: "strategy_fields \<Rightarrow> pystr list" where
  "report_recommendations s = take 36 (take 12 (nonblank (sf_insights s)) @ take 12 (nonblank (sf_messages s)))"

record full_report =
  fr_summary :: pystr
  fr_portrait :: json
  fr_strategy :: json
  fr_risks :: "pystr list"
  fr_recommendations :: "pystr list"
  fr_next_steps :: "pystr list"
  fr_confidence :: rat
  fr_interviews :: int
  fr_report :: "uuid option"
  fr_report_ready :: bool

definition assemble_report :: "reading \<Rightarrow> evidence \<Rightarrow> json \<Rightarrow> json \<Rightarrow> (uuid \<times> bool \<times> pystr) option \<Rightarrow> full_report" where
  "assemble_report rd ev pj sj rep =
     (case (rd_portrait rd pj, rd_strategy rd sj) of ((p, pc), (s, sc)) \<Rightarrow>
        \<lparr>fr_summary = executive_summary rep p s, fr_portrait = pj, fr_strategy = sj, fr_risks = report_risks ev s,
         fr_recommendations = report_recommendations s, fr_next_steps = take 24 (nonblank (sf_next_steps s)),
         fr_confidence = py_round (fl (fl (pc + sc) / 2)) 2, fr_interviews = ev_interviews ev,
         fr_report = map_option fst rep,
         fr_report_ready = (case rep of None \<Rightarrow> False | Some (i, ready, x) \<Rightarrow> ready)\<rparr>)"

text \<open>Each of the two answers is committed by its own call.\<close>

definition build_project_full_report_response :: "env \<Rightarrow> analysis \<Rightarrow> reading \<Rightarrow> uuid \<Rightarrow> pystr \<Rightarrow> bool \<Rightarrow> world
    \<Rightarrow> full_report outcome" where
  "build_project_full_report_response env an rd pid l recalc w =
     (case load_project_batch_view pid w of
        Inl e \<Rightarrow> (Inl e, w)
      | Inr view \<Rightarrow>
         (case rd_evidence rd view w of
            Inl e \<Rightarrow> (Inl e, w)
          | Inr ev \<Rightarrow>
             and_then (get_or_create_project_audience_portrait_response env an pid None None l recalc w) (\<lambda>pj w1.
             and_then (get_or_create_project_pr_strategy_response env an pid None None l recalc (Some pj) w1) (\<lambda>sj w2.
               (Inr (assemble_report rd ev pj sj (rd_latest rd pid w2)), w2)))))"

text \<open>
  The batch version asks the repository for \<^verbatim>\<open>get_latest_for_batch\<close>. Attribute lookup on the class
  finds these methods and raises otherwise.
\<close>

definition report_repository_methods :: "string list" where
  "report_repository_methods = [''__init__'', ''get_latest_for_project'', ''delete_all_for_project'']"

definition get_attribute :: "pystr \<Rightarrow> string \<Rightarrow> string list \<Rightarrow> exc + string" where
  "get_attribute cls n names = (if n \<in> set names then Inr n
     else Inl (Other_error (u ''AttributeError('' @ [34, 39] @ cls @ [39] @ u '' object has no attribute '' @ [39] @ u n @ [39, 34] @ u '')'')))"

definition latest_for_batch :: "exc + string" where
  "latest_for_batch = get_attribute (u ''ResearchReportRepository'') ''get_latest_for_batch'' report_repository_methods"

definition build_full_report_response :: "env \<Rightarrow> analysis \<Rightarrow> reading \<Rightarrow> research_batch \<Rightarrow> pystr \<Rightarrow> bool \<Rightarrow> world
    \<Rightarrow> full_report outcome" where
  "build_full_report_response env an rd b l recalc w =
     (case rd_evidence rd (batch_corpus b w) w of
        Inl e \<Rightarrow> (Inl e, w)
      | Inr ev \<Rightarrow>
         and_then (get_or_create_audience_portrait_response env an b None None l recalc w) (\<lambda>pj w1.
         and_then (get_or_create_pr_strategy_response env an b None None l recalc (Some pj) w1) (\<lambda>sj w2.
           (case latest_for_batch of
              Inl e \<Rightarrow> (Inl e, w2)
            | Inr m \<Rightarrow> (Inr (assemble_report rd ev pj sj (rd_latest rd (bt_id b) w2)), w2)))))"

definition get_project_full_report :: "env \<Rightarrow> analysis \<Rightarrow> reading \<Rightarrow> uuid \<Rightarrow> bool \<Rightarrow> bool \<Rightarrow> world \<Rightarrow> full_report response" where
  "get_project_full_report env an rd pid recalc force w =
     (if pid \<notin> set (projects w) then (Inl project_404, w)
      else case ensure_project_queue_idle force pid w of
        Some e \<Rightarrow> (Inl e, w)
      | None \<Rightarrow> answer_with (project_analysis_failure (u ''full_report_generation_failed''))
          (build_project_full_report_response env an rd pid (project_output_language an pid) recalc w))"

definition get_full_report :: "env \<Rightarrow> analysis \<Rightarrow> reading \<Rightarrow> uuid \<Rightarrow> bool \<Rightarrow> world \<Rightarrow> full_report response" where
  "get_full_report env an rd bid recalc w = with_batch bid (\<lambda>b w.
     answer_with (batch_analysis_failure (u ''full_report_generation_failed''))
       (build_full_report_response env an rd b (effective_output_language b (an_language an (bt_project_id b))) recalc w)) w"

text \<open>\<open>render\<close> makes the PDF or the Word file.\<close>

definition export_batch_narrative :: "env \<Rightarrow> analysis \<Rightarrow> reading \<Rightarrow> (full_report \<Rightarrow> bytes) \<Rightarrow> uuid \<Rightarrow> world \<Rightarrow> bytes response" where
  "export_batch_narrative env an rd render bid w = with_batch bid (\<lambda>b w.
     (case answer_with (batch_analysis_failure (u ''narrative_export_failed''))
         (build_full_report_response env an rd b (effective_output_language b (an_language an (bt_project_id b))) False w) of
        (Inl e, w1) \<Rightarrow> (Inl e, w1)
      | (Inr r, w1) \<Rightarrow> (Inr (render r), w1))) w"

section \<open>Report modes of a batch\<close>

definition distinct_texts :: "env \<Rightarrow> pystr list \<Rightarrow> pystr list" where
  "distinct_texts env xs = map strip (keep_first (\<lambda>x. lower env (strip x)) [[]] xs)"

definition risks_from_ctx_and_strategy :: "env \<Rightarrow> evidence \<Rightarrow> pystr list \<Rightarrow> pystr list" where
  "risks_from_ctx_and_strategy env ev risks =
     take 40 (distinct_texts env (filter (\<lambda>x. x \<noteq> []) (map label_text (ev_risk_labels ev)) @ nonblank risks))"

definition recommendations_from_strategy :: "env \<Rightarrow> pystr list \<Rightarrow> pystr list \<Rightarrow> pystr list" where
  "recommendations_from_strategy env insights messages =
     take 28 (distinct_texts env (take 12 (nonblank insights) @ take 12 (nonblank messages)))"

definition phrases_of :: "nat \<Rightarrow> pystr option list \<Rightarrow> pystr list" where
  "phrases_of n xs = map (take 280) (filter (\<lambda>t. 14 \<le> length t) (map label_text (take n xs)))"

definition audience_phrases_from_ctx :: "env \<Rightarrow> evidence \<Rightarrow> pystr list" where
  "audience_phrases_from_ctx env ev =
     (let qs = phrases_of 22 (ev_quotes ev);
          ps = (if length qs < 6 then qs @ phrases_of 14 (ev_insights ev) else qs)
      in take 24 (keep_first (\<lambda>p. take 80 (lower env p)) [] ps))"

datatype report_mode = Pr_audit | Audience | Messaging

datatype scenario =
    Audit pystr "pystr list" "pystr list" "pystr list" int
  | Insight portrait_fields rat int
  | Kit "pystr list" "pystr list" "pystr list" "pystr list" int

definition scenario_language :: "env \<Rightarrow> pystr \<Rightarrow> pystr" where
  "scenario_language env l =
     (let v = take 8 (lower env (strip (if l = [] then u ''ru'' else l))) in if v \<in> set LANGS then v else u ''ru'')"

text \<open>
  The argument \<^verbatim>\<open>recalculate\<close> is dropped. The audience section counts the interviews of the evidence
  or, if there is none, those that the stored portrait counts (\<open>counted\<close>).
\<close>

definition build_batch_scenario_report :: "env \<Rightarrow> analysis \<Rightarrow> reading \<Rightarrow> (json \<Rightarrow> int) \<Rightarrow> research_batch \<Rightarrow> report_mode
    \<Rightarrow> pystr \<Rightarrow> world \<Rightarrow> scenario outcome" where
  "build_batch_scenario_report env an rd counted b mode l w =
     (let lang = scenario_language env l in
      case rd_evidence rd (batch_corpus b w) w of
        Inl e \<Rightarrow> (Inl e, w)
      | Inr ev \<Rightarrow>
         and_then (get_or_create_audience_portrait_response env an b None None lang False w) (\<lambda>pj w1.
           (case mode of
              Audience \<Rightarrow> (Inr (Insight (fst (rd_portrait rd pj)) (snd (rd_portrait rd pj))
                  (if ev_interviews ev \<noteq> 0 then ev_interviews ev else counted pj)), w1)
            | Pr_audit \<Rightarrow>
               and_then (get_or_create_pr_strategy_response env an b None None lang False (Some pj) w1) (\<lambda>sj w2.
                 (let s = fst (rd_strategy rd sj) in
                  (Inr (Audit (sf_summary s) (risks_from_ctx_and_strategy env ev (sf_risks s)) (sf_gaps s)
                     (recommendations_from_strategy env (sf_insights s) (sf_messages s)) (ev_interviews ev)), w2)))
            | Messaging \<Rightarrow>
               and_then (get_or_create_pr_strategy_response env an b None None lang False (Some pj) w1) (\<lambda>sj w2.
                 (let s = fst (rd_strategy rd sj) in
                  (Inr (Kit (sf_talking_points s) (sf_messages s) (audience_phrases_from_ctx env ev) (sf_media_hooks s)
                     (ev_interviews ev)), w2))))))"

definition get_batch_scenario_report :: "env \<Rightarrow> analysis \<Rightarrow> reading \<Rightarrow> (json \<Rightarrow> int) \<Rightarrow> uuid \<Rightarrow> report_mode \<Rightarrow> world \<Rightarrow> scenario response" where
  "get_batch_scenario_report env an rd counted bid mode w = with_batch bid (\<lambda>b w.
     answer_with (batch_analysis_failure (u ''scenario_report_failed''))
       (build_batch_scenario_report env an rd counted b mode (effective_output_language b (an_language an (bt_project_id b))) w)) w"

section \<open>Sections of the public report\<close>

record titles =
  ti_exec :: pystr
  ti_portrait :: pystr
  ti_strategy :: pystr
  ti_risks :: pystr
  ti_recs :: pystr
  ti_next :: pystr

definition titles_of :: "env \<Rightarrow> pystr \<Rightarrow> titles" where
  "titles_of env l =
     (let lg = take 8 (lower env (strip (if l = [] then u ''ru'' else l))) in
      if lg = u ''en'' then \<lparr>ti_exec = u ''Executive summary'', ti_portrait = u ''Audience portrait'',
          ti_strategy = u ''PR & communications'', ti_risks = u ''Risks'', ti_recs = u ''Recommendations'', ti_next = u ''Next steps''\<rparr>
      else if lg = u ''uz'' then \<lparr>ti_exec = u ''Ijrochi xulosa'', ti_portrait = u ''Auditoriya portreti'',
          ti_strategy = u ''PR va kommunikatsiya'', ti_risks = u ''Xavflar'', ti_recs = u ''Tavsiyalar'', ti_next = u ''Keyingi qadamlar''\<rparr>
      else \<lparr>ti_exec = [1056, 1077, 1079, 1102, 1084, 1077],
          ti_portrait = [1055, 1086, 1088, 1090, 1088, 1077, 1090, 32, 1072, 1091, 1076, 1080, 1090, 1086, 1088, 1080, 1080],
          ti_strategy = [80, 82, 32, 1080, 32, 1082, 1086, 1084, 1084, 1091, 1085, 1080, 1082, 1072, 1094, 1080, 1080],
          ti_risks = [1056, 1080, 1089, 1082, 1080], ti_recs = [1056, 1077, 1082, 1086, 1084, 1077, 1085, 1076, 1072, 1094, 1080, 1080],
          ti_next = [1057, 1083, 1077, 1076, 1091, 1102, 1097, 1080, 1077, 32, 1096, 1072, 1075, 1080]\<rparr>)"

text \<open>A list as lines that begin with a bullet (U+2022).\<close>

definition bullets :: "pystr list \<Rightarrow> pystr" where
  "bullets xs = join [10] (map (\<lambda>x. [8226, 32] @ x) (nonblank xs))"

definition section_of :: "pystr \<Rightarrow> pystr \<Rightarrow> (pystr \<times> pystr) list" where
  "section_of title body = (if strip body \<noteq> [] then [(title, strip body)] else [])"

definition list_section :: "pystr \<Rightarrow> pystr list \<Rightarrow> (pystr \<times> pystr) list" where
  "list_section title xs = (if xs \<noteq> [] then [(title, bullets xs)] else [])"

definition strategy_parts :: "strategy_fields \<Rightarrow> pystr list" where
  "strategy_parts s = (if strip (sf_summary s) \<noteq> [] then [strip (sf_summary s)] else []) @
     map bullets (filter (\<lambda>xs. xs \<noteq> []) [sf_insights s, sf_risks s, sf_gaps s, sf_messages s, sf_talking_points s, sf_media_hooks s])"

definition narrative_sections :: "env \<Rightarrow> reading \<Rightarrow> pystr \<Rightarrow> full_report \<Rightarrow> (pystr \<times> pystr) list" where
  "narrative_sections env rd l r =
     (let t = titles_of env l; p = fst (rd_portrait rd (fr_portrait r)); s = fst (rd_strategy rd (fr_strategy r)) in
      section_of (ti_exec t) (fr_summary r) @
      section_of (ti_portrait t) (join NEWLINES (nonblank [pf_decision_making p, pf_fears p, pf_trust_drivers p,
        pf_pain_points p, pf_language_style p, pf_brand_perception p, pf_emotional_triggers p])) @
      section_of (ti_strategy t) (join NEWLINES (strategy_parts s)) @
      list_section (ti_risks t) (fr_risks r) @ list_section (ti_recs t) (fr_recommendations r) @
      list_section (ti_next t) (fr_next_steps r))"

definition markdown_from_sections :: "pystr \<Rightarrow> (pystr \<times> pystr) list \<Rightarrow> pystr" where
  "markdown_from_sections name secs =
     strip (u ''# '' @ (if strip name \<noteq> [] then strip name else u ''Report'') @ [10] @
       concat (map (\<lambda>(t, b). [10] @ u ''## '' @ t @ [10, 10] @ b @ [10]) secs))"

definition build_public_report_for_project :: "env \<Rightarrow> analysis \<Rightarrow> reading \<Rightarrow> (uuid \<Rightarrow> pystr option) \<Rightarrow> uuid \<Rightarrow> world
    \<Rightarrow> (full_report \<times> (pystr \<times> pystr) list \<times> pystr) outcome" where
  "build_public_report_for_project env an rd name pid w =
     (let l = project_output_language an pid in
      and_then (build_project_full_report_response env an rd pid l False w) (\<lambda>r w1.
        (let secs = narrative_sections env rd l r in
         (Inr (r, secs, markdown_from_sections (str_or (name pid) (u ''Project'')) secs), w1))))"


section \<open>Facts about lists of texts\<close>

lemma nonblank_set: "x \<in> set (nonblank xs) \<longleftrightarrow> x \<in> set xs \<and> strip x \<noteq> []"
  by (simp add: nonblank_def)

lemma nonblank_fixed: "(\<And>x. x \<in> set xs \<Longrightarrow> strip x \<noteq> []) \<Longrightarrow> nonblank xs = xs"
  by (auto simp: nonblank_def filter_id_conv)

lemma label_text_strip [simp]: "strip (label_text x) = label_text x"
  by (simp add: label_text_def)

section \<open>What the reports promise\<close>

lemma project_report_cases:
  assumes "pid \<in> set (projects w)"
  shows "build_project_full_report_response env an rd pid l recalc w =
    (case rd_evidence rd (project_view pid w) w of
       Inl e \<Rightarrow> (Inl e, w)
     | Inr ev \<Rightarrow>
        and_then (project_answer env an CACHE_KIND_PORTRAIT pid None None l recalc None w) (\<lambda>pj w1.
        and_then (project_answer env an CACHE_KIND_STRATEGY pid None None l recalc (Some pj) w1) (\<lambda>sj w2.
          (Inr (assemble_report rd ev pj sj (rd_latest rd pid w2)), w2))))"
  using assms
  by (simp add: build_project_full_report_response_def load_project_batch_view_def project_view_def
      get_or_create_project_audience_portrait_response_def get_or_create_project_pr_strategy_response_def split: prod.split sum.split)

text \<open>
  A full report that a project's handler answers is a proper one: at most 40 risks, 24
  recommendations and 24 next steps, none of them blank, a summary that is the one of the ready
  report or has at most 4000 characters, and a confidence in the unit interval if those of the two
  answers are.
\<close>

theorem full_report_is_proper:
  assumes "get_project_full_report env an rd pid recalc force w = (Inr r, w')"
    and "\<And>j. 0 \<le> snd (rd_portrait rd j) \<and> snd (rd_portrait rd j) \<le> 1"
    and "\<And>j. 0 \<le> snd (rd_strategy rd j) \<and> snd (rd_strategy rd j) \<le> 1"
  shows "length (fr_risks r) \<le> 40 \<and> length (fr_recommendations r) \<le> 24 \<and> length (fr_next_steps r) \<le> 24
    \<and> nonblank (fr_risks r @ fr_recommendations r @ fr_next_steps r) = fr_risks r @ fr_recommendations r @ fr_next_steps r
    \<and> (length (fr_summary r) \<le> 4000 \<or> fr_summary r = ready_summary (rd_latest rd pid w'))
    \<and> 0 \<le> fr_confidence r \<and> fr_confidence r \<le> 1"
proof -
  have p: "pid \<in> set (projects w)"
    using assms(1) by (auto simp: get_project_full_report_def split: if_splits)
  obtain ev pj sj where r: "r = assemble_report rd ev pj sj (rd_latest rd pid w')"
    using assms(1) p by (auto simp: get_project_full_report_def project_report_cases answer_with_def and_then_def
        split: option.splits sum.splits prod.splits)
  obtain pf pc s sc where f: "rd_portrait rd pj = (pf, pc)" "rd_strategy rd sj = (s, sc)"
    by (metis surj_pair)
  then have c: "0 \<le> pc" "pc \<le> 1" "0 \<le> sc" "sc \<le> 1"
    using assms(2) [of pj] assms(3) [of sj] by auto
  have "0 \<le> fl (pc + sc)" "fl (pc + sc) \<le> 2"
    using c fl_nonneg [of "pc + sc"] fl_le_int [of "pc + sc" 2] by auto
  then have "0 \<le> fl (fl (pc + sc) / 2) \<and> fl (fl (pc + sc) / 2) \<le> 1"
    by (intro fl_0_1) auto
  then have "0 \<le> fr_confidence r \<and> fr_confidence r \<le> 1"
    using py_round_nonneg py_round_le_int [of _ 1] by (simp add: r assemble_report_def f)
  moreover have "nonblank (fr_risks r @ fr_recommendations r @ fr_next_steps r) = fr_risks r @ fr_recommendations r @ fr_next_steps r"
    by (rule nonblank_fixed)
      (auto simp: r assemble_report_def f report_risks_def report_recommendations_def nonblank_set dest!: in_set_takeD)
  moreover have "length (fr_risks r) \<le> 40"
    by (simp only: r assemble_report_def f report_risks_def length_take split_conv full_report.simps)
  moreover have "length (fr_recommendations r) \<le> 24" "length (fr_next_steps r) \<le> 24"
    by (simp_all add: r assemble_report_def f report_recommendations_def)
  moreover have "length (fr_summary r) \<le> 4000 \<or> fr_summary r = ready_summary (rd_latest rd pid w')"
    by (simp add: r assemble_report_def f executive_summary_def)
  ultimately show ?thesis by blast
qed

lemma latest_for_batch_raises:
  "latest_for_batch = Inl (Other_error (u ''AttributeError('' @ [34, 39] @ u ''ResearchReportRepository'' @ [39]
     @ u '' object has no attribute '' @ [39] @ u ''get_latest_for_batch'' @ [39, 34] @ u '')''))"
  by (simp add: latest_for_batch_def get_attribute_def report_repository_methods_def)

lemma batch_report_raises: "\<exists>e w'. build_full_report_response env an rd b l recalc w = (Inl e, w')"
  by (auto simp: build_full_report_response_def and_then_def latest_for_batch_raises split: sum.split prod.split)

text \<open>
  No full report of a batch is ever answered, whatever the model says, because the repository
  has no \<^verbatim>\<open>get_latest_for_batch\<close>; the narrative export of a batch builds on it and fails too.
\<close>

theorem batch_full_report_never_answered:
  "fst (get_full_report env an rd bid recalc w) \<noteq> Inr r \<and> fst (export_batch_narrative env an rd render bid w) \<noteq> Inr x"
proof -
  have a: "fst (answer_with f (build_full_report_response env an rd b l c v)) \<noteq> Inr y" for f b l c v y
    using batch_report_raises [of env an rd b l c v] by (auto simp: answer_with_def)
  have "fst (get_full_report env an rd bid recalc w) \<noteq> Inr r"
    using a by (auto simp: get_full_report_def with_batch_def split: option.split)
  moreover have "fst (export_batch_narrative env an rd render bid w) \<noteq> Inr x"
    using a by (auto simp: export_batch_narrative_def with_batch_def split: option.split prod.split sum.split) (metis fst_conv)
  ultimately show ?thesis ..
qed

text \<open>
  When everything before it goes well the failure comes after both answers were made and stored: the
  error is 502, and the world is the one after the strategy.
\<close>

theorem batch_report_fails_late:
  assumes "get_batch w bid = Some b" "bt_project_id b \<in> set (projects w)" "rd_evidence rd (batch_corpus b w) w = Inr ev"
    "get_or_create_audience_portrait_response env an b None None
       (effective_output_language b (an_language an (bt_project_id b))) recalc w = (Inr pj, w1)"
    "get_or_create_pr_strategy_response env an b None None
       (effective_output_language b (an_language an (bt_project_id b))) recalc (Some pj) w1 = (Inr sj, w2)"
  shows "get_full_report env an rd bid recalc w = (Inl (Http 502 (u ''full_report_generation_failed'')), w2)"
  using assms
  by (simp add: get_full_report_def with_batch_def build_full_report_response_def answer_with_def latest_for_batch_raises)

text \<open>
  When a project's full report fails after its portrait was made, the portrait is kept: the world
  is the one after the portrait, and asking for the portrait again is answered from the cache,
  whatever the model would say.
\<close>

theorem failed_report_keeps_portrait:
  assumes "get_project_full_report env an rd pid recalc force w = (Inl e, w')"
    and portrait: "get_project_audience_portrait env an pid recalc force None None w = (Inr pj, w1)"
    and ev: "rd_evidence rd (project_view pid w) w = Inr ev"
    and valid: "an_valid an CACHE_KIND_PORTRAIT pj"
  shows "w' = w1 \<and> get_project_audience_portrait env (an\<lparr>an_generate := g\<rparr>) pid False force None None w' = (Inr pj, w')"
proof -
  have ok: "pid \<in> set (projects w)" "ensure_project_queue_idle force pid w = None"
    using portrait by (auto simp: get_project_audience_portrait_def validate_segment_query_def split: if_splits option.splits)
  then have ans: "project_answer env an CACHE_KIND_PORTRAIT pid None None (project_output_language an pid) recalc None w = (Inr pj, w1)"
    using portrait by (auto simp: get_project_audience_portrait_def validate_segment_query_def answer_with_def
        get_or_create_project_audience_portrait_response_def split: prod.splits sum.splits)
  then have w': "w' = w1"
    using assms(1) ok ev project_answer_Inl
    by (fastforce simp: get_project_full_report_def project_report_cases answer_with_def and_then_def
        split: prod.splits sum.splits)
  have "pid \<in> set (projects w1)" "ensure_project_queue_idle force pid w1 = None"
    using ans ok by (auto simp: project_answer_eq ensure_idle_eq split: option.splits sum.splits if_splits)
  then show ?thesis
    using project_answer_again [OF ans valid, of g None] w'
    by (simp add: get_project_audience_portrait_def validate_segment_query_def answer_with_def
        get_or_create_project_audience_portrait_response_def)
qed

text \<open>
  The risks of a scenario report are clean: at most 40 stripped, non-blank texts that differ even
  when case is ignored, and while there are fewer than 40 none is lost: every label of the evidence and
  every risk of the strategy that is not blank occurs, up to case.
\<close>

theorem scenario_risks_clean:
  assumes "lower env [] = []" "\<And>s. lower env s = [] \<Longrightarrow> s = []"
  shows "length (risks_from_ctx_and_strategy env ev risks) \<le> 40
    \<and> nonblank (risks_from_ctx_and_strategy env ev risks) = risks_from_ctx_and_strategy env ev risks
    \<and> map strip (risks_from_ctx_and_strategy env ev risks) = risks_from_ctx_and_strategy env ev risks
    \<and> distinct (map (lower env) (risks_from_ctx_and_strategy env ev risks))
    \<and> (length (risks_from_ctx_and_strategy env ev risks) < 40 \<longrightarrow>
        lower env ` set (map label_text (ev_risk_labels ev) @ map strip risks) - {[]}
          = lower env ` set (risks_from_ctx_and_strategy env ev risks))"
proof -
  define k where "k x = lower env (strip x)" for x
  define xs where "xs = filter (\<lambda>x. x \<noteq> []) (map label_text (ev_risk_labels ev)) @ nonblank risks"
  define ys where "ys = keep_first k [[]] xs"
  have r: "risks_from_ctx_and_strategy env ev risks = take 40 (map strip ys)"
    by (simp add: risks_from_ctx_and_strategy_def distinct_texts_def ys_def xs_def k_def [abs_def])
  have low: "lower env s = [] \<longleftrightarrow> s = []" for s using assms by metis
  have y: "strip y \<noteq> []" if "y \<in> set ys" for y
    using keep_first_set [of y k "[[]]" xs] that low by (auto simp: ys_def k_def)
  have "distinct (map (lower env) (map strip ys))"
    using keep_first_distinct [of k "[[]]" xs] by (simp add: ys_def k_def [abs_def] o_def)
  then have d: "distinct (map (lower env) (take 40 (map strip ys)))"
    by (metis distinct_take take_map)
  have cover: "k ` set ys = lower env ` set (map label_text (ev_risk_labels ev) @ map strip risks) - {[]}"
  proof -
    have "k ` set ys = k ` set xs"
    proof
      show "k ` set ys \<subseteq> k ` set xs"
        using keep_first_set by (fastforce simp: ys_def)
      have "strip x \<noteq> []" if "x \<in> set xs" for x
        using that by (auto simp: xs_def nonblank_set)
      then show "k ` set xs \<subseteq> k ` set ys"
        using keep_first_covers [of _ xs k "[[]]"] low by (auto simp: ys_def k_def)
    qed
    also have "\<dots> = lower env ` strip ` set xs"
      by (simp add: k_def [abs_def] image_image)
    also have "strip ` set xs = set (map label_text (ev_risk_labels ev) @ map strip risks) - {[]}"
    proof -
      have "strip ` set (filter (\<lambda>x. x \<noteq> []) (map label_text (ev_risk_labels ev))) = label_text ` set (ev_risk_labels ev) - {[]}"
        by (force simp: image_iff)
      moreover have "strip ` set (nonblank risks) = strip ` set risks - {[]}"
        by (auto simp: nonblank_set)
      ultimately show ?thesis by (auto simp: xs_def image_Un)
    qed
    also have "lower env ` (set (map label_text (ev_risk_labels ev) @ map strip risks) - {[]})
        = lower env ` set (map label_text (ev_risk_labels ev) @ map strip risks) - {[]}"
      using low by fastforce
    finally show ?thesis .
  qed
  have "nonblank (take 40 (map strip ys)) = take 40 (map strip ys)"
    by (rule nonblank_fixed) (auto dest!: in_set_takeD y)
  moreover have "map strip (take 40 (map strip ys)) = take 40 (map strip ys)"
    by (simp add: take_map o_def)
  moreover have "lower env ` set (take 40 (map strip ys)) = k ` set ys" if "length (take 40 (map strip ys)) < 40"
    using that by (simp add: k_def [abs_def] image_image)
  moreover have "length (take 40 (map strip ys)) \<le> 40"
    by simp
  ultimately show ?thesis
    unfolding r using d cover by metis
qed


lemma strip_bullets: "xs \<noteq> [] \<Longrightarrow> nonblank xs = xs \<Longrightarrow> strip (bullets xs) \<noteq> []"
proof -
  assume a: "xs \<noteq> []" "nonblank xs = xs"
  have "8226 \<in> set (bullets xs)"
    using a by (cases xs rule: list.exhaust [case_names Nil Cons]; cases "tl xs") (auto simp: bullets_def)
  moreover have "\<not> is_space 8226" by (simp add: is_space_def)
  ultimately show ?thesis by (auto simp: strip_eq_Nil_iff)
qed

definition titles_list :: "titles \<Rightarrow> pystr list" where
  "titles_list t = [ti_exec t, ti_portrait t, ti_strategy t, ti_risks t, ti_recs t, ti_next t]"

lemma section_titles:
  "map fst (section_of x b) = [] \<or> map fst (section_of x b) = [x]" "map fst (list_section x xs) = [] \<or> map fst (list_section x xs) = [x]"
  by (auto simp: section_of_def list_section_def)

lemma subseq_six:
  assumes "\<And>i. i < 6 \<Longrightarrow> f i = [] \<or> f i = [g i]"
  shows "subseq (f 0 @ f 1 @ f 2 @ f 3 @ f 4 @ f (5::nat)) [g 0, g 1, g 2, g 3, g 4, g 5]"
proof -
  have "subseq (f i) [g i]" if "i < 6" for i
    using assms [OF that] by auto
  then have "subseq (f 0 @ f 1 @ f 2 @ f 3 @ f 4 @ f 5) ([g 0] @ [g 1] @ [g 2] @ [g 3] @ [g 4] @ [g 5])"
    by (intro list_emb_append_mono) simp_all
  then show ?thesis by simp
qed

text \<open>
  The public report of a report that the handler answered has no empty section, and its sections
  are those of the six titles that have something to say, in the fixed order.
\<close>

theorem public_sections_filled:
  assumes "get_project_full_report env an rd pid recalc force w = (Inr r, w')"
  shows "filter (\<lambda>s. strip (snd s) = []) (narrative_sections env rd l r) = []
    \<and> subseq (map fst (narrative_sections env rd l r)) (titles_list (titles_of env l))"
proof -
  have p: "pid \<in> set (projects w)"
    using assms by (auto simp: get_project_full_report_def split: if_splits)
  obtain ev pj sj where r: "r = assemble_report rd ev pj sj (rd_latest rd pid w')"
    using assms p by (auto simp: get_project_full_report_def project_report_cases answer_with_def and_then_def
        split: option.splits sum.splits prod.splits)
  have n: "nonblank (fr_risks r) = fr_risks r" "nonblank (fr_recommendations r) = fr_recommendations r"
      "nonblank (fr_next_steps r) = fr_next_steps r"
    by (rule nonblank_fixed; auto simp: r assemble_report_def report_risks_def report_recommendations_def nonblank_set
        split: prod.splits dest!: in_set_takeD)+
  define t where "t = titles_of env l"
  let ?p = "fst (rd_portrait rd (fr_portrait r))" and ?s = "fst (rd_strategy rd (fr_strategy r))"
  define f where "f i = (if i = 0 then section_of (ti_exec t) (fr_summary r)
      else if i = 1 then section_of (ti_portrait t) (join NEWLINES (nonblank [pf_decision_making ?p, pf_fears ?p, pf_trust_drivers ?p,
        pf_pain_points ?p, pf_language_style ?p, pf_brand_perception ?p, pf_emotional_triggers ?p]))
      else if i = 2 then section_of (ti_strategy t) (join NEWLINES (strategy_parts ?s))
      else if i = 3 then list_section (ti_risks t) (fr_risks r)
      else if i = 4 then list_section (ti_recs t) (fr_recommendations r)
      else list_section (ti_next t) (fr_next_steps r))" for i :: nat
  have secs: "narrative_sections env rd l r = f 0 @ f 1 @ f 2 @ f 3 @ f 4 @ f 5"
    by (simp add: narrative_sections_def f_def t_def Let_def)
  have "filter (\<lambda>s. strip (snd s) = []) (f i) = []" for i
    using n by (simp add: f_def section_of_def list_section_def strip_bullets)
  then have "filter (\<lambda>s. strip (snd s) = []) (narrative_sections env rd l r) = []"
    by (simp only: secs filter_append append_Nil)
  moreover have "subseq (map fst (f 0) @ map fst (f 1) @ map fst (f 2) @ map fst (f 3) @ map fst (f 4) @ map fst (f 5))
      [titles_list t ! 0, titles_list t ! 1, titles_list t ! 2, titles_list t ! 3, titles_list t ! 4, titles_list t ! 5]"
  proof (rule subseq_six [of "\<lambda>i. map fst (f i)" "\<lambda>i. titles_list t ! i"])
    fix i :: nat
    assume "i < 6"
    then consider "i = 0" | "i = 1" | "i = 2" | "i = 3" | "i = 4" | "i = 5" by linarith
    then show "map fst (f i) = [] \<or> map fst (f i) = [titles_list t ! i]"
      using section_titles by cases (simp_all add: f_def titles_list_def)
  qed
  ultimately show ?thesis
    by (simp add: secs t_def [symmetric]) (simp add: titles_list_def)
qed

text \<open>
  A public link that was just created opens the report of its project: the handler of the public
  report builds exactly that project's report with the returned token, and passes its error on.
\<close>

theorem new_link_opens_report:
  assumes "distinct (map lk_token (project_links w))" "distinct (map lk_owner (project_links w))"
    and "usable_token fresh" "strip fresh = fresh" "fresh \<notin> lk_token ` set (project_links w)"
    and "create_project_public_link fresh pid w = (Inr t, w')"
  shows "get_public_report (build_public_report_for_project env an rd name) t w' =
    answer_with (batch_analysis_failure (u ''public_report_failed'')) (build_public_report_for_project env an rd name pid w')"
  using new_link_resolves [OF assms] link_made [OF assms(3,6)] assms(3,4)
  by (simp add: get_public_report_def)

text \<open>A report mode of a batch asks the model when nothing is cached, though it is described as derived from the cache.\<close>

theorem scenario_asks_the_model:
  assumes "batch_llm_cache w = []" "rd_evidence rd (batch_corpus b w) w = Inr ev"
    "an_generate an CACHE_KIND_PORTRAIT (batch_corpus b w) None None (scenario_language env l) None w = Inl e"
  shows "build_batch_scenario_report env an rd counted b mode l w = (Inl e, w)"
  using assms
  by (simp add: build_batch_scenario_report_def get_or_create_audience_portrait_response_def batch_answer_def
      cached_response_def get_by_cache_key_def first_row_def)


section \<open>Concrete reports\<close>

definition plain_reading :: reading where
  "plain_reading = \<lparr>rd_portrait = (\<lambda>_. (\<lparr>pf_decision_making = u ''slow'', pf_fears = [], pf_trust_drivers = [], pf_pain_points = [],
       pf_language_style = [], pf_brand_perception = u ''good'', pf_emotional_triggers = []\<rparr>, 1 / 2)),
     rd_strategy = (\<lambda>_. (\<lparr>sf_summary = u ''brand'', sf_insights = [u ''insight''], sf_risks = [u ''price'', u '' ''], sf_gaps = [],
       sf_messages = [], sf_talking_points = [], sf_media_hooks = [], sf_next_steps = []\<rparr>, 1 / 2)),
     rd_evidence = (\<lambda>_ _. Inr \<lparr>ev_interviews = 1, ev_risk_labels = [Some (u ''Price''), None], ev_quotes = [], ev_insights = []\<rparr>),
     rd_latest = (\<lambda>_ _. None)\<rparr>"

lemma plain_report:
  "\<exists>r w'. get_project_full_report plain_env plain_analysis plain_reading 7 True False (study SP_COMPLETED) = (Inr r, w')
     \<and> fr_risks r = [u ''Price'', u ''price'']"
proof -
  have s: "strip (u ''Price'') = u ''Price''" "strip (u ''price'') = u ''price''" "strip (u '' '') = []"
    by (intro strip_fixed; simp add: u_def is_space_def; fail | simp add: strip_eq_Nil_iff u_def is_space_def)+
  have "\<exists>w1. project_answer plain_env plain_analysis CACHE_KIND_PORTRAIT 7 None None (u ''ru'') True None (study SP_COMPLETED)
      = (Inr (answer_json ''first''), w1) \<and> projects w1 = [7]"
    by (subst project_answer_eq) (simp_all add: cached_response_def plain_analysis_def)
  then obtain w1 where w1: "project_answer plain_env plain_analysis CACHE_KIND_PORTRAIT 7 None None (u ''ru'') True None (study SP_COMPLETED)
      = (Inr (answer_json ''first''), w1)" "projects w1 = [7]" by blast
  have "\<exists>w2. project_answer plain_env plain_analysis CACHE_KIND_STRATEGY 7 None None (u ''ru'') True (Some (answer_json ''first'')) w1
      = (Inr (answer_json ''first''), w2)"
    by (subst project_answer_eq) (simp_all add: cached_response_def plain_analysis_def w1)
  then obtain w2 where w2: "project_answer plain_env plain_analysis CACHE_KIND_STRATEGY 7 None None (u ''ru'') True (Some (answer_json ''first'')) w1
      = (Inr (answer_json ''first''), w2)" by blast
  show ?thesis
    by (simp add: get_project_full_report_def project_report_cases ensure_idle_eq active_def answer_with_def plain_language w1 w2
        plain_reading_def assemble_report_def report_risks_def nonblank_def label_text_def s)
qed

theorem full_report_is_proper_witness:
  "\<exists>r w'. get_project_full_report plain_env plain_analysis plain_reading 7 True False (study SP_COMPLETED) = (Inr r, w')
     \<and> length (fr_risks r) \<le> 40 \<and> nonblank (fr_risks r @ fr_recommendations r @ fr_next_steps r) = fr_risks r @ fr_recommendations r @ fr_next_steps r
     \<and> 0 \<le> fr_confidence r \<and> fr_confidence r \<le> 1"
proof -
  obtain r w' where r: "get_project_full_report plain_env plain_analysis plain_reading 7 True False (study SP_COMPLETED) = (Inr r, w')"
    using plain_report by blast
  then show ?thesis
    using full_report_is_proper [OF r] by (simp add: plain_reading_def)
qed

theorem public_sections_filled_witness:
  "\<exists>r w'. get_project_full_report plain_env plain_analysis plain_reading 7 True False (study SP_COMPLETED) = (Inr r, w')
     \<and> filter (\<lambda>s. strip (snd s) = []) (narrative_sections plain_env plain_reading (u ''en'') r) = []
     \<and> fr_risks r = [u ''Price'', u ''price'']"
proof -
  obtain r w' where r: "get_project_full_report plain_env plain_analysis plain_reading 7 True False (study SP_COMPLETED) = (Inr r, w')"
      "fr_risks r = [u ''Price'', u ''price'']"
    using plain_report by blast
  then show ?thesis using public_sections_filled [OF r(1)] by blast
qed

text \<open>A model that makes portraits and refuses strategies.\<close>

definition half_model :: "pystr \<Rightarrow> corpus \<Rightarrow> pystr option \<Rightarrow> pystr option \<Rightarrow> pystr \<Rightarrow> json option \<Rightarrow> world \<Rightarrow> exc + json" where
  "half_model k co gb sv l pre w = (if k = CACHE_KIND_PORTRAIT then Inr (answer_json ''first'') else Inl (Other_error (u ''timeout'')))"

theorem failed_report_keeps_portrait_witness:
  "\<exists>w'. get_project_full_report plain_env (plain_analysis\<lparr>an_generate := half_model\<rparr>) plain_reading 7 True False (study SP_COMPLETED)
       = (Inl (Http 502 (u ''full_report_generation_failed'')), w')
     \<and> get_project_audience_portrait plain_env (plain_analysis\<lparr>an_generate := second_model\<rparr>) 7 False False None None w'
       = (Inr (answer_json ''first''), w')"
proof -
  let ?an = "plain_analysis\<lparr>an_generate := half_model\<rparr>"
  have "\<exists>w1. project_answer plain_env ?an CACHE_KIND_PORTRAIT 7 None None (u ''ru'') True None (study SP_COMPLETED)
      = (Inr (answer_json ''first''), w1) \<and> projects w1 = [7]"
    by (subst project_answer_eq) (simp_all add: cached_response_def half_model_def)
  then obtain w1 where w1: "project_answer plain_env ?an CACHE_KIND_PORTRAIT 7 None None (u ''ru'') True None (study SP_COMPLETED)
      = (Inr (answer_json ''first''), w1)" "projects w1 = [7]" by blast
  have w2: "project_answer plain_env ?an CACHE_KIND_STRATEGY 7 None None (u ''ru'') True (Some (answer_json ''first'')) w1
      = (Inl (Other_error (u ''timeout'')), w1)"
    by (subst project_answer_eq)
      (simp_all add: cached_response_def half_model_def w1 CACHE_KIND_PORTRAIT_def CACHE_KIND_STRATEGY_def)
  have full: "get_project_full_report plain_env ?an plain_reading 7 True False (study SP_COMPLETED)
      = (Inl (Http 502 (u ''full_report_generation_failed'')), w1)"
    by (simp add: get_project_full_report_def project_report_cases ensure_idle_eq active_def answer_with_def plain_language
        w1 w2 plain_reading_def)
  have "get_project_audience_portrait plain_env ?an 7 True False None None (study SP_COMPLETED) = (Inr (answer_json ''first''), w1)"
    by (simp add: get_project_audience_portrait_def validate_segment_query_def ensure_idle_eq active_def answer_with_def
        get_or_create_project_audience_portrait_response_def plain_language w1)
  from failed_report_keeps_portrait [OF full this, of _ second_model] full show ?thesis
    by (simp add: plain_reading_def)
qed

definition plain_evidence :: evidence where
  "plain_evidence = \<lparr>ev_interviews = 1, ev_risk_labels = [Some (u ''Price''), None], ev_quotes = [], ev_insights = []\<rparr>"

theorem scenario_risks_clean_witness:
  "distinct (map (lower plain_env) (risks_from_ctx_and_strategy plain_env plain_evidence [u ''price'', u ''delay'']))
   \<and> length (risks_from_ctx_and_strategy plain_env plain_evidence [u ''price'', u ''delay'']) = 2"
proof -
  have s: "strip (u ''Price'') = u ''Price''" "strip (u ''price'') = u ''price''" "strip (u ''delay'') = u ''delay''"
    by (intro strip_fixed; simp add: u_def is_space_def)+
  have "length (risks_from_ctx_and_strategy plain_env plain_evidence [u ''price'', u ''delay'']) = 2"
    by (simp add: risks_from_ctx_and_strategy_def distinct_texts_def plain_evidence_def label_text_def nonblank_def s)
      (simp add: ascii_lower_def lower_char_def u_def)
  then show ?thesis
    using scenario_risks_clean [of plain_env plain_evidence "[u ''price'', u ''delay'']"] by (simp add: ascii_lower_def)
qed

theorem new_link_opens_report_witness:
  "\<exists>w'. create_project_public_link (u ''new'') 7 linked = (Inr (u ''new''), w')
     \<and> get_public_report (build_public_report_for_project plain_env plain_analysis plain_reading (\<lambda>_. None)) (u ''new'') w' =
       answer_with (batch_analysis_failure (u ''public_report_failed''))
         (build_public_report_for_project plain_env plain_analysis plain_reading (\<lambda>_. None) 7 w')"
proof -
  have s: "strip (u ''new'') = u ''new''" by (intro strip_fixed; simp add: u_def is_space_def)
  have links: "project_links linked = [\<lparr>lk_owner = 7, lk_token = u ''old''\<rparr>, \<lparr>lk_owner = 8, lk_token = u ''other''\<rparr>]"
    by (simp add: linked_def)
  obtain w' where made: "create_project_public_link (u ''new'') 7 linked = (Inr (u ''new''), w')"
    by (simp add: create_project_public_link_def upsert_for_project_def linked_def Let_def)
  show ?thesis
    using new_link_opens_report [OF _ _ _ s _ made, of plain_env plain_analysis plain_reading "\<lambda>_. None"] made
    by (simp add: links usable_token_def)
qed

end
