(* ===== verification/Calendar.thy ===== *)
theory Calendar
  imports Entity_Extraction
begin

text \<open>
  Python dates as the dashboards use them (\<^verbatim>\<open>batch_dashboard_pr.py\<close>): \<^verbatim>\<open>date.fromisoformat\<close> of the
  documented forms, the UTC date of a time, and the ISO week of a date. A date is year, month and
  day, compared in that order, as \<^verbatim>\<open>datetime.date\<close> compares; ordinals count days from 0001-01-01.
\<close>

type_synonym date = "int \<times> int \<times> int"

section \<open>The calendar\<close>

definition is_leap :: "int \<Rightarrow> bool" where
  "is_leap y \<longleftrightarrow> y mod 4 = 0 \<and> (y mod 100 \<noteq> 0 \<or> y mod 400 = 0)"

definition days_in_month :: "int \<Rightarrow> int \<Rightarrow> int" where
  "days_in_month y m = (if m = 2 then (if is_leap y then 29 else 28)
     else if m \<in> {4, 6, 9, 11} then 30 else 31)"

definition days_before_year :: "int \<Rightarrow> int" where
  "days_before_year y = (y - 1) * 365 + (y - 1) div 4 - (y - 1) div 100 + (y - 1) div 400"

definition days_before_month :: "int \<Rightarrow> int \<Rightarrow> int" where
  "days_before_month y m = (\<Sum>k\<leftarrow>[1..m - 1]. days_in_month y k)"

fun ymd2ord :: "date \<Rightarrow> int" where
  "ymd2ord (y, m, d) = days_before_year y + days_before_month y m + d"

fun valid_date :: "date \<Rightarrow> bool" where
  "valid_date (y, m, d) \<longleftrightarrow> 1 \<le> y \<and> y \<le> 9999 \<and> 1 \<le> m \<and> m \<le> 12 \<and> 1 \<le> d \<and> d \<le> days_in_month y m"

text \<open>The date of a day counted from 1970-01-01, by eras of 400 years that start in March.\<close>

definition civil_date :: "int \<Rightarrow> date" where
  "civil_date n =
     (let z = n + 719468; era = z div 146097; doe = z mod 146097;
          yoe = (doe - doe div 1460 + doe div 36524 - doe div 146096) div 365;
          doy = doe - (365 * yoe + yoe div 4 - yoe div 100);
          mp = (5 * doy + 2) div 153;
          m = (if mp < 10 then mp + 3 else mp - 9)
      in (yoe + era * 400 + (if m \<le> 2 then 1 else 0), m, doy - (153 * mp + 2) div 5 + 1))"

definition ord2ymd :: "int \<Rightarrow> date" where
  "ord2ymd n = civil_date (n - 719163)"

definition utc_date :: "time \<Rightarrow> date" where
  "utc_date t = civil_date (t div 86400)"

section \<open>ISO weeks\<close>

text \<open>\<^verbatim>\<open>week1_monday\<close>: the Monday of the week with the first Thursday of the year.\<close>

definition week1_monday :: "int \<Rightarrow> int" where
  "week1_monday y =
     (let f = days_before_year y + 1; wd = (f + 6) mod 7 in f - wd + (if 3 < wd then 7 else 0))"

definition isocalendar :: "date \<Rightarrow> int \<times> int" where
  "isocalendar dt =
     (let y = fst dt; today = ymd2ord dt; w = (today - week1_monday y) div 7 in
      if w < 0 then (y - 1, (today - week1_monday (y - 1)) div 7 + 1)
      else if 52 \<le> w \<and> week1_monday (y + 1) \<le> today then (y + 1, 1)
      else (y, w + 1))"

definition pad2 :: "int \<Rightarrow> pystr" where
  "pad2 n = [nat (48 + n div 10), nat (48 + n mod 10)]"

text \<open>\<^verbatim>\<open>week_key\<close>: \<^verbatim>\<open>f"{y}-W{w:02d}"\<close>.\<close>

definition week_key :: "date \<Rightarrow> pystr" where
  "week_key d = (case isocalendar d of (y, w) \<Rightarrow> digits (nat y) @ u ''-W'' @ pad2 w)"

section \<open>Parsing\<close>

definition is_digit :: "nat \<Rightarrow> bool" where
  "is_digit c \<longleftrightarrow> 48 \<le> c \<and> c \<le> 57"

definition number :: "pystr \<Rightarrow> int" where
  "number s = fold (\<lambda>c n. 10 * n + (int c - 48)) s 0"

definition valid_or_none :: "date \<Rightarrow> date option" where
  "valid_or_none d = (if valid_date d then Some d else None)"

text \<open>A day of an ISO week: weeks 1 to 52, and 53 in a year that has it; days 1 to 7.\<close>

definition week_date :: "int \<Rightarrow> int \<Rightarrow> int \<Rightarrow> date option" where
  "week_date y w d =
     (let long = (week1_monday y + 364 < week1_monday (y + 1)) in
      if 1 \<le> y \<and> y \<le> 9999 \<and> 1 \<le> w \<and> (w \<le> 52 \<or> w = 53 \<and> long) \<and> 1 \<le> d \<and> d \<le> 7
      then valid_or_none (ord2ymd (week1_monday y + (w - 1) * 7 + d - 1)) else None)"

text \<open>\<^verbatim>\<open>YYYY-MM-DD\<close>, \<^verbatim>\<open>YYYYMMDD\<close>, \<^verbatim>\<open>YYYY-Www-D\<close>, \<^verbatim>\<open>YYYY-Www\<close>, \<^verbatim>\<open>YYYYWwwD\<close> and \<^verbatim>\<open>YYYYWww\<close>.\<close>

definition digits_only :: "nat \<Rightarrow> pystr \<Rightarrow> bool" where
  "digits_only k s \<longleftrightarrow> length s = k \<and> list_all is_digit s"

definition date_fromisoformat :: "pystr \<Rightarrow> date option" where
  "date_fromisoformat s =
     (let y = take 4 s; dash = (take 1 (drop 4 s) = [45]); r = drop (if dash then 5 else 4) s;
          after = (\<lambda>t. if dash then drop 1 t else t); broken = (\<lambda>t. dash \<and> take 1 t \<noteq> [45])
      in if \<not> digits_only 4 y then None
      else if take 1 r = [87] then
        (let w = take 2 (drop 1 r); t = drop 3 r in
         if \<not> digits_only 2 w then None
         else if t = [] then week_date (number y) (number w) 1
         else if broken t \<or> \<not> digits_only 1 (after t) then None
         else week_date (number y) (number w) (number (after t)))
      else
        (let m = take 2 r; t = drop 2 r in
         if \<not> digits_only 2 m \<or> broken t \<or> \<not> digits_only 2 (after t) then None
         else valid_or_none (number y, number m, number (after t))))"

definition parse_iso_date :: "pystr option \<Rightarrow> date option" where
  "parse_iso_date raw =
     (case raw of None \<Rightarrow> None
      | Some r \<Rightarrow> if strip r = [] then None else date_fromisoformat (take 10 (strip r)))"

section \<open>Facts\<close>

text \<open>The week of a date is between 1 and 53.\<close>

lemma days_before_month_nonneg: "0 \<le> days_before_month y m"
  unfolding days_before_month_def by (rule sum_list_nonneg) (auto simp: days_in_month_def)

lemma year_length: "364 \<le> days_before_year (y + 1) - days_before_year y"
  "days_before_year (y + 1) - days_before_year y \<le> 367"
proof -
  have step: "0 \<le> (z + 1) div k - z div k \<and> (z + 1) div k - z div k \<le> 1" if "1 < k" for z k :: int
  proof -
    have "z div k \<le> (z + 1) div k" using that by (intro zdiv_mono1) auto
    moreover have "(z + 1) div k \<le> (z + k) div k" using that by (intro zdiv_mono1) auto
    ultimately show ?thesis using that by simp
  qed
  have y: "y = (y - 1) + 1" by simp
  show "364 \<le> days_before_year (y + 1) - days_before_year y"
    "days_before_year (y + 1) - days_before_year y \<le> 367"
    using step [of 4 "y - 1"] step [of 100 "y - 1"] step [of 400 "y - 1"]
    unfolding days_before_year_def by simp_all
qed

lemma week1_monday_near:
  "days_before_year y - 2 \<le> week1_monday y" "week1_monday y \<le> days_before_year y + 4"
  using pos_mod_bound [of 7 "days_before_year y + 1 + 6"] pos_mod_sign [of 7 "days_before_year y + 1 + 6"]
  by (auto simp: week1_monday_def Let_def)

lemma week1_monday_grid: "\<exists>k. week1_monday y = 7 * k + 1"
proof -
  define f where "f = days_before_year y + 1"
  have "f - r = 7 * (q - 1) + 1" if "7 * q + r = f + 6" for q r :: int
    using that by (simp add: algebra_simps)
  from this [OF mult_div_mod_eq] have "week1_monday y = 7 * ((f + 6) div 7 - 1 + (if 3 < (f + 6) mod 7 then 1 else 0)) + 1"
    unfolding week1_monday_def f_def [symmetric] Let_def by simp
  then show ?thesis by blast
qed

lemma weeks_of_year:
  "week1_monday (y + 1) \<le> week1_monday y + 371" "week1_monday y + 358 \<le> week1_monday (y + 1)"
proof -
  obtain j k where "week1_monday y = 7 * j + 1" "week1_monday (y + 1) = 7 * k + 1"
    using week1_monday_grid by meson
  moreover from this have "k - j \<le> 53"
    using year_length [of y] week1_monday_near [of y] week1_monday_near [of "y + 1"] by linarith
  ultimately show "week1_monday (y + 1) \<le> week1_monday y + 371" "week1_monday y + 358 \<le> week1_monday (y + 1)"
    using year_length [of y] week1_monday_near [of y] week1_monday_near [of "y + 1"] by linarith+
qed

lemma iso_week_bounds:
  assumes "1 \<le> d"
  shows "1 \<le> snd (isocalendar (y, m, d))" "snd (isocalendar (y, m, d)) \<le> 53"
proof -
  define t where "t = ymd2ord (y, m, d)"
  define w where "w = (t - week1_monday y) div 7"
  have t: "days_before_year y + 1 \<le> t" using assms days_before_month_nonneg [of y m] by (simp add: t_def)
  have cal: "isocalendar (y, m, d) = (if w < 0 then (y - 1, (t - week1_monday (y - 1)) div 7 + 1)
      else if 52 \<le> w \<and> week1_monday (y + 1) \<le> t then (y + 1, 1) else (y, w + 1))"
    by (simp add: isocalendar_def t_def w_def Let_def)
  have "0 \<le> (t - week1_monday (y - 1)) div 7 \<and> (t - week1_monday (y - 1)) div 7 \<le> 52" if "w < 0"
  proof -
    have lt: "t < week1_monday y" using that by (simp add: w_def)
    have "week1_monday y \<le> week1_monday (y - 1) + 371" "week1_monday (y - 1) + 358 \<le> week1_monday y"
      using weeks_of_year [of "y - 1"] by simp_all
    then have "0 \<le> t - week1_monday (y - 1)" "t - week1_monday (y - 1) < 371"
      using lt t week1_monday_near [of y] by linarith+
    then show ?thesis by (simp add: pos_imp_zdiv_nonneg_iff)
  qed
  moreover have "w \<le> 52" if "t < week1_monday (y + 1)"
    using that weeks_of_year [of y] by (simp add: w_def)
  ultimately show "1 \<le> snd (isocalendar (y, m, d))" "snd (isocalendar (y, m, d)) \<le> 53"
    unfolding cal by auto
qed

text \<open>A date printed by \<^verbatim>\<open>isoformat\<close> reads back as itself, padded or followed by a time of day.\<close>

fun isoformat :: "date \<Rightarrow> pystr" where
  "isoformat (y, m, d) = pad2 (y div 100) @ pad2 (y mod 100) @ [45] @ pad2 m @ [45] @ pad2 d"

lemma digit_range: "0 \<le> n \<Longrightarrow> n \<le> 9 \<Longrightarrow> is_digit (nat (48 + n))"
  by (simp add: is_digit_def nat_le_iff le_nat_iff)

lemma pad2_digits: "0 \<le> n \<Longrightarrow> n \<le> 99 \<Longrightarrow> list_all is_digit (pad2 n)"
  unfolding pad2_def by (simp add: digit_range)

lemma number_pad2: "0 \<le> n \<Longrightarrow> n \<le> 99 \<Longrightarrow> number (pad2 n) = n"
  by (simp add: number_def pad2_def)

lemma number_append: "number (s @ pad2 n) = (if 0 \<le> n \<and> n \<le> 99 then 100 * number s + n else number (s @ pad2 n))"
  by (auto simp: number_def pad2_def)

lemma length_pad2 [simp]: "length (pad2 n) = 2"
  by (simp add: pad2_def)

lemma drop_pad2: "drop 2 (pad2 n @ s) = s" "take 2 (pad2 n @ s) = pad2 n"
  by (simp_all add: pad2_def)

lemma days_in_month_le: "days_in_month y m \<le> 31"
  by (simp add: days_in_month_def)

lemma isoformat_parses:
  assumes "valid_date d"
  shows "date_fromisoformat (isoformat d) = Some d" "length (isoformat d) = 10"
proof -
  obtain y m k where d: "d = (y, m, k)" by (cases d)
  have r: "1 \<le> y" "y \<le> 9999" "1 \<le> m" "m \<le> 12" "1 \<le> k" "k \<le> 31"
    using assms days_in_month_le [of y m] unfolding d by auto
  let ?yy = "pad2 (y div 100) @ pad2 (y mod 100)"
  have s: "isoformat d = ?yy @ [45] @ pad2 m @ [45] @ pad2 k" by (simp add: d)
  have t4: "take 4 (isoformat d) = ?yy" "drop 4 (isoformat d) = 45 # pad2 m @ 45 # pad2 k"
      "drop 5 (isoformat d) = pad2 m @ 45 # pad2 k"
    unfolding s by (simp_all add: pad2_def)
  have "0 \<le> y div 100" "y div 100 \<le> 99" "y mod 100 \<le> 99"
    using r pos_mod_bound [of 100 y] by auto
  then have yy: "digits_only 4 ?yy" "number ?yy = y"
    using r pad2_digits [of "y div 100"] pad2_digits [of "y mod 100"] number_pad2 [of "y div 100"]
      number_append [of "pad2 (y div 100)" "y mod 100"] mult_div_mod_eq [of 100 y]
    by (auto simp: digits_only_def)
  have w: "take 1 (pad2 m @ 45 # pad2 k) \<noteq> [87]" using r by (auto simp: pad2_def nat_eq_iff)
  show "date_fromisoformat (isoformat d) = Some d"
    using yy w r pad2_digits [of m] pad2_digits [of k] number_pad2 [of m] number_pad2 [of k] assms
    by (simp add: date_fromisoformat_def t4 drop_pad2 digits_only_def valid_or_none_def d)
  show "length (isoformat d) = 10" unfolding s by simp
qed

lemma valid_date_parsed: "date_fromisoformat s = Some d \<Longrightarrow> valid_date d"
  by (auto simp: date_fromisoformat_def week_date_def valid_or_none_def Let_def split: if_splits)

end
