(* ===== verification/Dashboard_Blocks.thy ===== *)
theory Dashboard_Blocks
  imports Llm_Cache Calendar
begin

text \<open>
  The blocks of a dashboard (\<^verbatim>\<open>research_batch_dashboard_service.py\<close>, \<^verbatim>\<open>batch_dashboard_pr.py\<close>):
  segment labels, counts of themes, shares, rollups with quotes, the heat map of risks, the weekly
  series, words and phrases. Each block is a function of the entities in scope and of the metadata
  of their sources.
\<close>

section \<open>Metadata of the sources\<close>

text \<open>
  What the dashboards read that the tables of the model leave out: the items of a source's
  \<^verbatim>\<open>metadata_json\<close>, the printed id of an interview unit; and \<^verbatim>\<open>str\<close> of a JSON value that is no
  string, and the word characters of the Unicode tables (\<^verbatim>\<open>\w\<close>).
\<close>

type_synonym items = "(pystr \<times> json) list"

record dash =
  da_meta :: "metadata \<Rightarrow> items"
  da_str :: "json \<Rightarrow> pystr"
  da_word :: "nat \<Rightarrow> bool"
  da_unit :: "interview_unit \<Rightarrow> pystr"
  da_brand :: "pystr option"

definition UNKNOWN :: pystr where "UNKNOWN = u ''unknown''"

definition str_of :: "dash \<Rightarrow> json \<Rightarrow> pystr" where
  "str_of da v = (case v of JStr s \<Rightarrow> s | _ \<Rightarrow> da_str da v)"

text \<open>\<^verbatim>\<open>d.get(k)\<close>; \<^verbatim>\<open>a or b\<close> on decoded values; \<^verbatim>\<open>str(d.get(k) or "").strip()\<close>.\<close>

definition item :: "items \<Rightarrow> pystr \<Rightarrow> json" where
  "item m k = (case map_of m k of Some v \<Rightarrow> v | None \<Rightarrow> JNull)"

definition json_or :: "json \<Rightarrow> json \<Rightarrow> json" where
  "json_or a b = (if json_true a then a else b)"

definition text_item :: "dash \<Rightarrow> items \<Rightarrow> string \<Rightarrow> pystr" where
  "text_item da m k = (let v = item m (u k) in if json_true v then strip (str_of da v) else [])"

definition nonempty_texts :: "dash \<Rightarrow> json list \<Rightarrow> pystr list" where
  "nonempty_texts da xs = filter (\<lambda>s. s \<noteq> []) (map (\<lambda>x. strip (str_of da x)) xs)"

text \<open>A value that is printed: the text of an object that a browser stringified is unknown.\<close>

definition plain_label :: "dash \<Rightarrow> json \<Rightarrow> pystr" where
  "plain_label da v =
     (let s = strip (str_of da v) in
      if s \<in> {u ''[object Object]'', u ''[object object]''} \<or> str_starts_with (u ''[object '') s then UNKNOWN
      else if s \<noteq> [] then s else UNKNOWN)"

definition age_label :: "dash \<Rightarrow> items \<Rightarrow> pystr" where
  "age_label da kvs =
     (let lo = json_or (item kvs (u ''min'')) (item kvs (u ''from''));
          hi = json_or (item kvs (u ''max'')) (item kvs (u ''to''))
      in if lo \<noteq> JNull \<and> hi \<noteq> JNull then str_of da lo @ u ''-'' @ str_of da hi
         else if kvs \<noteq> [] then
           (let s = join (u '', '') (map (\<lambda>(k, v). k @ u '':'' @ str_of da v) (filter (\<lambda>(k, v). v \<noteq> JNull) (take 6 kvs)))
            in if s \<noteq> [] then s else UNKNOWN)
         else plain_label da (JObj kvs))"

definition segment_label :: "dash \<Rightarrow> items \<Rightarrow> pystr \<Rightarrow> pystr" where
  "segment_label da meta gb =
     (case item meta gb of
        JNull \<Rightarrow> UNKNOWN
      | JArr xs \<Rightarrow> (let inner = nonempty_texts da xs in
          if inner \<noteq> [] then join (u '', '') (sort inner) else UNKNOWN)
      | JObj kvs \<Rightarrow> if gb = u ''age_range'' then age_label da kvs else plain_label da (JObj kvs)
      | v \<Rightarrow> plain_label da v)"

text \<open>\<^verbatim>\<open>_load_metadata_maps\<close>: the metadata by document and by audio, and the audio of a transcript.\<close>

record maps =
  mp_doc :: "(uuid \<times> items) list"
  mp_audio :: "(uuid \<times> items) list"
  mp_transcript :: "(uuid \<times> uuid) list"

definition load_metadata_maps :: "dash \<Rightarrow> uuid list \<Rightarrow> uuid list \<Rightarrow> world \<Rightarrow> maps" where
  "load_metadata_maps da dids aids w =
     \<lparr>mp_doc = map (\<lambda>d. (doc_id d, da_meta da (doc_metadata d))) (filter (\<lambda>d. doc_id d \<in> set dids) (documents w)),
      mp_audio = map (\<lambda>a. (aud_id a, da_meta da (aud_metadata a))) (filter (\<lambda>a. aud_id a \<in> set aids) (audios w)),
      mp_transcript = map (\<lambda>t. (tr_id t, tr_audio_id t)) (filter (\<lambda>t. tr_audio_id t \<in> set aids) (transcripts w))\<rparr>"

definition meta_at :: "(uuid \<times> items) list \<Rightarrow> uuid \<Rightarrow> items" where
  "meta_at l i = (case map_of l i of Some m \<Rightarrow> m | None \<Rightarrow> [])"

definition meta_for_entity :: "maps \<Rightarrow> extracted_entity \<Rightarrow> items" where
  "meta_for_entity mp e =
     (case en_document_id e of
        Some d \<Rightarrow> meta_at (mp_doc mp) d
      | None \<Rightarrow> (case en_audio_id e of
          Some a \<Rightarrow> meta_at (mp_audio mp) a
        | None \<Rightarrow> (case en_transcript_id e of
            Some t \<Rightarrow> (case map_of (mp_transcript mp) t of Some a \<Rightarrow> meta_at (mp_audio mp) a | None \<Rightarrow> [])
          | None \<Rightarrow> [])))"

definition taxonomy_of :: "extracted_entity \<Rightarrow> pystr" where
  "taxonomy_of e = taxonomy_label_for_entity (en_type e) (pr_signal_tag (en_candidate e))"

section \<open>Filters\<close>

definition in_range :: "date option \<Rightarrow> date option \<Rightarrow> date \<Rightarrow> bool" where
  "in_range df dt d \<longleftrightarrow> \<not> (df \<noteq> None \<and> d < the df) \<and> \<not> (dt \<noteq> None \<and> the dt < d)"

definition entity_effective_date :: "dash \<Rightarrow> items \<Rightarrow> extracted_entity \<Rightarrow> date option" where
  "entity_effective_date da meta e =
     (let ds = take 10 (text_item da meta ''date'') in
      case (if ds \<noteq> [] then parse_iso_date (Some ds) else None) of
        Some d \<Rightarrow> Some d
      | None \<Rightarrow> Some (utc_date (en_created_at e)))"

definition entity_matches_date_filter :: "dash \<Rightarrow> items \<Rightarrow> date option \<Rightarrow> date option \<Rightarrow> extracted_entity \<Rightarrow> bool" where
  "entity_matches_date_filter da meta df dt e \<longleftrightarrow>
     (if df = None \<and> dt = None then True
      else case entity_effective_date da meta e of None \<Rightarrow> True | Some d \<Rightarrow> in_range df dt d)"

text \<open>A query parameter is an optional string; \<open>given\<close> is its truth value.\<close>

definition given :: "pystr option \<Rightarrow> bool" where
  "given x \<longleftrightarrow> (case x of None \<Rightarrow> False | Some s \<Rightarrow> s \<noteq> [])"

definition DASHBOARD_GROUP_BY_FIELDS :: "pystr list" where
  "DASHBOARD_GROUP_BY_FIELDS = map u [''gender'', ''age_range'', ''segments'', ''language'', ''city'',
     ''interview_type'', ''source'', ''date'', ''interview_unit'']"

definition groups_by :: "pystr option \<Rightarrow> bool" where
  "groups_by gb \<longleftrightarrow> given gb \<and> the gb \<in> set DASHBOARD_GROUP_BY_FIELDS"

definition meta_in_scope :: "dash \<Rightarrow> pystr option \<Rightarrow> pystr option \<Rightarrow> pystr option \<Rightarrow> pystr option \<Rightarrow> items \<Rightarrow> bool" where
  "meta_in_scope da gb seg d_from d_to m \<longleftrightarrow>
     (let df = parse_iso_date d_from; dt = parse_iso_date d_to in
      \<not> (given seg \<and> groups_by gb \<and> segment_label da m (the gb) \<noteq> the seg)
      \<and> (df = None \<and> dt = None \<or> (case parse_iso_date (Some (text_item da m ''date'')) of
           None \<Rightarrow> True | Some md \<Rightarrow> in_range df dt md)))"

definition narrow_source_ids :: "dash \<Rightarrow> maps \<Rightarrow> pystr option \<Rightarrow> pystr option \<Rightarrow> pystr option \<Rightarrow> pystr option
    \<Rightarrow> uuid list \<Rightarrow> uuid list \<Rightarrow> uuid list \<times> uuid list" where
  "narrow_source_ids da mp gb seg d_from d_to dids aids =
     (filter (\<lambda>i. meta_in_scope da gb seg d_from d_to (meta_at (mp_doc mp) i)) dids,
      filter (\<lambda>i. meta_in_scope da gb seg d_from d_to (meta_at (mp_audio mp) i)) aids)"

section \<open>Quotes and sentences\<close>

text \<open>\<^verbatim>\<open>" ".join(s.split())\<close>, and \<^verbatim>\<open>s.strip(" .")\<close>.\<close>

definition collapse :: "pystr \<Rightarrow> pystr" where
  "collapse s = strip (squeeze s)"

definition strip_dots :: "pystr \<Rightarrow> pystr" where
  "strip_dots s = rev (dropWhile (\<lambda>c. c = 32 \<or> c = 46) (rev (dropWhile (\<lambda>c. c = 32 \<or> c = 46) s)))"

definition or_else :: "pystr \<Rightarrow> pystr \<Rightarrow> pystr" where
  "or_else a b = (if a \<noteq> [] then a else b)"

definition entity_quote :: "nat \<Rightarrow> extracted_entity \<Rightarrow> pystr" where
  "entity_quote n e = take n (collapse (or_else (strip (cd_quote (en_candidate e))) (strip (en_content e))))"

definition human_insight_text :: "env \<Rightarrow> extracted_entity \<Rightarrow> pystr \<Rightarrow> pystr \<Rightarrow> pystr" where
  "human_insight_text env e label sig =
     (let quote = entity_quote 220 e;
          clean = or_else (strip_dots (collapse label)) (taxonomy_of e)
      in if quote \<noteq> [] \<and> lower env quote \<noteq> lower env clean
         then [1042, 32, 1080, 1085, 1090, 1077, 1088, 1074, 1100, 1102, 32, 1087, 1086, 1074, 1090, 1086,
       1088, 1103, 1077, 1090, 1089, 1103, 32, 1089, 1080, 1075, 1085, 1072, 1083, 32, 171] @ clean
           @ [187, 58, 32, 1088, 1077, 1089, 1087, 1086, 1085, 1076, 1077, 1085, 1090, 32, 1092, 1086,
       1088, 1084, 1091, 1083, 1080, 1088, 1091, 1077, 1090, 32, 1101, 1090, 1086, 32, 1090, 1072, 1082,
       32, 8212, 32, 171] @ quote @ [187, 46]
         else [1042, 32, 1080, 1085, 1090, 1077, 1088, 1074, 1100, 1102, 32, 1087, 1086, 1074, 1090, 1086,
       1088, 1103, 1077, 1090, 1089, 1103, 32, 1089, 1080, 1075, 1085, 1072, 1083, 32, 171] @ clean
           @ [187, 32, 1074, 32, 1079, 1086, 1085, 1077, 32, 171] @ sig @ [187, 46])"

section \<open>Counts of themes\<close>

definition TOPIC_TYPES :: "entity_type list" where
  "TOPIC_TYPES = [TOPIC, HYPOTHESIS, OPEN_QUESTION]"

definition PROBLEM_TYPES :: "entity_type list" where
  "PROBLEM_TYPES = [PROBLEM, PAIN_POINT, USER_NEED, ADOPTION_BARRIER]"

definition PATTERN_TYPES :: "entity_type list" where
  "PATTERN_TYPES = [BEHAVIOR_PATTERN, SENTIMENT_SIGNAL, TRUST_ISSUE]"

definition RISK_TYPES :: "entity_type list" where
  "RISK_TYPES = [RISK, TRUST_ISSUE]"

definition SENT_POS :: "entity_type list" where
  "SENT_POS = [SENTIMENT_SIGNAL, TRUST_ISSUE]"

definition SENT_NEG :: "entity_type list" where
  "SENT_NEG = [RISK, PROBLEM, PAIN_POINT]"

definition PR_SYNTHESIS_INSIGHT_TYPES :: "entity_type list" where
  "PR_SYNTHESIS_INSIGHT_TYPES = [PROBLEM, PAIN_POINT, USER_NEED, BEHAVIOR_PATTERN, TRUST_ISSUE, ADOPTION_BARRIER,
     RISK, HYPOTHESIS, OPEN_QUESTION, SENTIMENT_SIGNAL]"

definition RISK_TAXONOMY :: "pystr list" where
  "RISK_TAXONOMY = map u [''objection'', ''reputation_threat'', ''risk_signal'']"

record dash_insight =
  di_signal :: pystr
  di_type :: pystr
  di_label :: pystr
  di_text :: pystr
  di_quote :: pystr
  di_document :: "uuid option"
  di_audio :: "uuid option"
  di_transcript :: "uuid option"
  di_chunk :: uuid

record block =
  bk_topics :: "(pystr \<times> nat) list"
  bk_problems :: "(pystr \<times> nat) list"
  bk_risks :: "(pystr \<times> nat) list"
  bk_patterns :: "(pystr \<times> nat) list"
  bk_insights :: "dash_insight list"
  bk_pos :: nat
  bk_neg :: nat
  bk_balance :: pystr

text \<open>The title, or where it is shorter than four characters the start of the content.\<close>

definition theme_of :: "extracted_entity \<Rightarrow> pystr" where
  "theme_of e = (let t = strip (en_title e) in if length t < 4 then take 120 (strip (en_content e)) else t)"

definition title_or_content :: "extracted_entity \<Rightarrow> pystr" where
  "title_or_content e = or_else (strip (en_title e)) (strip (en_content e))"

definition themes :: "entity_type list \<Rightarrow> extracted_entity list \<Rightarrow> (pystr \<times> nat) list" where
  "themes ts es = counter (map (\<lambda>e. take 120 (theme_of e)) (filter (\<lambda>e. 4 \<le> length (theme_of e) \<and> en_type e \<in> set ts) es))"

definition statement_of :: "extracted_entity \<Rightarrow> pystr" where
  "statement_of e = or_else (take 120 (strip (en_title e))) (take 120 (strip (en_content e)))"

definition statements :: "extracted_entity list \<Rightarrow> (pystr \<times> nat) list" where
  "statements es = counter (map statement_of (filter (\<lambda>e. 4 \<le> length (theme_of e)
     \<and> en_type e \<in> {SUPPORTING_FACT, CLAIM, CUSTOM, TOPIC} \<and> 8 \<le> length (statement_of e)) es))"

definition dash_insight_of :: "env \<Rightarrow> pystr \<Rightarrow> extracted_entity \<Rightarrow> dash_insight" where
  "dash_insight_of env label e =
     \<lparr>di_signal = taxonomy_of e, di_type = entity_type_value (en_type e), di_label = take 220 label,
      di_text = take 700 (human_insight_text env e (take 220 label) (taxonomy_of e)), di_quote = entity_quote 360 e,
      di_document = en_document_id e, di_audio = en_audio_id e, di_transcript = en_transcript_id e,
      di_chunk = en_chunk_id e\<rparr>"

definition balance_of :: "nat \<Rightarrow> nat \<Rightarrow> pystr" where
  "balance_of p n =
     (if of_nat p > fl (of_nat n * fl (12 / 10)) then u ''positive''
      else if of_nat n > fl (of_nat p * fl (12 / 10)) then u ''negative'' else u ''mixed'')"

definition risk_fallback :: "extracted_entity list \<Rightarrow> (pystr \<times> nat) list" where
  "risk_fallback es = counter (map (\<lambda>e. taxonomy_of e @ u '': '' @ take 120 (title_or_content e))
     (filter (\<lambda>e. taxonomy_of e \<in> set RISK_TAXONOMY \<and> 4 \<le> length (take 120 (title_or_content e))) es))"

definition fallback_insights :: "env \<Rightarrow> extracted_entity list \<Rightarrow> dash_insight list" where
  "fallback_insights env es =
     take 20 (map (\<lambda>e. dash_insight_of env (take 400 (title_or_content e)) e)
       (filter (\<lambda>e. 12 \<le> length (take 400 (title_or_content e))) (take 40 es)))"

definition aggregate_entities_block :: "env \<Rightarrow> extracted_entity list \<Rightarrow> block" where
  "aggregate_entities_block env es =
     (let usable = filter (\<lambda>e. 4 \<le> length (theme_of e)) es;
          topics = themes TOPIC_TYPES es; patterns = themes PATTERN_TYPES es; risks = themes RISK_TYPES es;
          said = statements es;
          found = map (\<lambda>e. dash_insight_of env (theme_of e) e)
            (filter (\<lambda>e. en_type e \<in> set PR_SYNTHESIS_INSIGHT_TYPES) usable);
          p = length (filter (\<lambda>e. en_type e \<in> set SENT_POS) usable);
          n = length (filter (\<lambda>e. en_type e \<notin> set SENT_POS \<and> en_type e \<in> set SENT_NEG) usable);
          topics' = (if topics = [] \<and> said \<noteq> [] then most_common 12 said else topics);
          patterns' = (if patterns = [] \<and> said \<noteq> [] then most_common 10 said else patterns);
          found' = (if found = [] \<and> es \<noteq> [] then fallback_insights env es else found);
          risks' = (if risks = [] then risk_fallback es else risks)
      in \<lparr>bk_topics = most_common 12 topics', bk_problems = most_common 12 (themes PROBLEM_TYPES es),
          bk_risks = most_common 12 risks', bk_patterns = most_common 10 patterns',
          bk_insights = take 20 found', bk_pos = p, bk_neg = n, bk_balance = balance_of p n\<rparr>)"

section \<open>Shares\<close>

text \<open>\<^verbatim>\<open>round(100.0 * v / n, 1)\<close>.\<close>

definition pct :: "nat \<Rightarrow> nat \<Rightarrow> rat" where
  "pct v n = py_round (fl (fl (100 * of_nat v) / of_nat n)) 1"

definition or_one :: "nat \<Rightarrow> nat" where
  "or_one n = (if n = 0 then 1 else n)"

definition bar_rows_with_pct :: "(pystr \<times> nat) list \<Rightarrow> (pystr \<times> nat \<times> rat) list" where
  "bar_rows_with_pct rows =
     (let total = or_one (sum_list (map snd rows)) in map (\<lambda>(k, v). (k, v, pct v total)) rows)"

record shares =
  sh_pos :: rat
  sh_neg :: rat
  sh_rest :: rat

definition sentiment_with_fractions :: "nat \<Rightarrow> nat \<Rightarrow> shares" where
  "sentiment_with_fractions p n =
     (let tot = p + n in
      if tot < 1 then \<lparr>sh_pos = 0, sh_neg = 0, sh_rest = 0\<rparr>
      else (let part = (\<lambda>v. fl (fl (100 * of_nat v) / of_nat tot)); rem = fl (fl (100 - part p) - part n)
            in \<lparr>sh_pos = pct p tot, sh_neg = pct n tot, sh_rest = py_round (max 0 rem) 1\<rparr>))"

definition pr_taxonomy_totals :: "extracted_entity list \<Rightarrow> (pystr \<times> nat \<times> rat) list" where
  "pr_taxonomy_totals es =
     (let c = counter (map taxonomy_of es); total = or_one (sum_list (map snd c));
          order = map pr_signal_value PRSignalTaxonomy;
          cnt = (\<lambda>k. case map_of c k of Some v \<Rightarrow> v | None \<Rightarrow> 0)
      in map (\<lambda>k. (k, cnt k, pct (cnt k) total)) (filter (\<lambda>k. cnt k \<noteq> 0) order)
         @ map (\<lambda>(k, v). (k, v, pct v total))
             (filter (\<lambda>(k, v). k \<notin> set order \<and> v \<noteq> 0) (most_common (length c) c)))"

record stacked_row =
  sr_segment :: pystr
  sr_pos :: nat
  sr_neg :: nat
  sr_pos_pct :: rat
  sr_neg_pct :: rat
  sr_balance :: pystr

definition sentiment_stacked_from_breakdown :: "(pystr \<times> block) list \<Rightarrow> stacked_row list" where
  "sentiment_stacked_from_breakdown rows = map (\<lambda>(k, b).
     \<lparr>sr_segment = k, sr_pos = bk_pos b, sr_neg = bk_neg b, sr_pos_pct = pct (bk_pos b) (or_one (bk_pos b + bk_neg b)),
      sr_neg_pct = pct (bk_neg b) (or_one (bk_pos b + bk_neg b)), sr_balance = bk_balance b\<rparr>) rows"

section \<open>Segments\<close>

definition segment_of :: "dash \<Rightarrow> maps \<Rightarrow> pystr \<Rightarrow> extracted_entity \<Rightarrow> pystr" where
  "segment_of da mp gb e = segment_label da (meta_for_entity mp e) gb"

definition risk_heatmap :: "dash \<Rightarrow> maps \<Rightarrow> pystr option \<Rightarrow> extracted_entity list
    \<Rightarrow> pystr list \<times> (pystr \<times> (pystr \<times> nat) list) list" where
  "risk_heatmap da mp gb es =
     (if \<not> groups_by gb \<or> the gb = u ''interview_unit'' then ([], [])
      else (let cols = sort RISK_TAXONOMY;
                risky = filter (\<lambda>e. taxonomy_of e \<in> set RISK_TAXONOMY) es;
                seg = segment_of da mp (the gb);
                segs = take 24 (sort (remdups (map seg risky)))
            in (cols, map (\<lambda>s. (s, map (\<lambda>c. (c, length (filter (\<lambda>e. seg e = s \<and> taxonomy_of e = c) risky))) cols)) segs)))"

definition segment_compare_pr_bars :: "dash \<Rightarrow> maps \<Rightarrow> pystr \<Rightarrow> pystr \<Rightarrow> pystr \<Rightarrow> extracted_entity list
    \<Rightarrow> (pystr \<times> nat \<times> rat) list \<times> (pystr \<times> nat \<times> rat) list" where
  "segment_compare_pr_bars da mp gb a b es =
     (pr_taxonomy_totals (filter (\<lambda>e. segment_of da mp gb e = a) es),
      pr_taxonomy_totals (filter (\<lambda>e. segment_of da mp gb e = b) es))"

section \<open>Rollups and traces\<close>

record rollup_row =
  rr_label :: pystr
  rr_taxonomy :: pystr
  rr_count :: nat
  rr_quotes :: "pystr list"
  rr_sources :: "pystr list"
  rr_tags :: "pystr list"
  rr_status :: pystr

definition DASH :: pystr where "DASH = [8212]"

definition rollup_label :: "extracted_entity \<Rightarrow> pystr" where
  "rollup_label e = or_else (take 200 (strip (en_title e))) (or_else (take 120 (strip (en_content e))) DASH)"

definition rollup_quote :: "extracted_entity \<Rightarrow> pystr" where
  "rollup_quote e = or_else (strip (cd_quote (en_candidate e))) (take 400 (strip (en_content e)))"

definition entity_sources :: "extracted_entity \<Rightarrow> pystr list" where
  "entity_sources e = uuid_str (en_id e) #
     (case en_document_id e of Some d \<Rightarrow> [u ''doc:'' @ uuid_str d] | None \<Rightarrow> [])"

definition segment_tags :: "dash \<Rightarrow> items \<Rightarrow> pystr list" where
  "segment_tags da m = concat (map (\<lambda>k. case item m k of
       JNull \<Rightarrow> [] | JArr xs \<Rightarrow> map (\<lambda>x. k @ u '':'' @ str_of da x) (take 6 xs) | v \<Rightarrow> [k @ u '':'' @ str_of da v])
     (map u [''gender'', ''age_range'', ''segments'', ''city'', ''language'']))"

text \<open>The loop over the members of a group stops behind the member with the fifth quote.\<close>

fun rollup_scan :: "dash \<Rightarrow> maps \<Rightarrow> extracted_entity list \<Rightarrow> pystr list \<times> pystr list \<times> pystr list
    \<Rightarrow> pystr list \<times> pystr list \<times> pystr list" where
  "rollup_scan da mp [] acc = acc"
| "rollup_scan da mp (x # xs) (qs, ids, tags) =
     (let ids' = ids @ entity_sources x; q = rollup_quote x;
          qs' = (if 8 \<le> length q then qs @ [take 500 q] else qs);
          tags' = tags @ segment_tags da (meta_for_entity mp x)
      in if 5 \<le> length qs' then (qs', ids', tags') else rollup_scan da mp xs (qs', ids', tags'))"

definition build_pr_insight_rollups :: "dash \<Rightarrow> maps \<Rightarrow> nat \<Rightarrow> extracted_entity list \<Rightarrow> rollup_row list" where
  "build_pr_insight_rollups da mp limit es =
     map (\<lambda>((tax, label), g). case rollup_scan da mp g ([], [], []) of (qs, ids, tags) \<Rightarrow>
         \<lparr>rr_label = label, rr_taxonomy = tax, rr_count = length g, rr_quotes = take 5 qs, rr_sources = take 24 ids,
          rr_tags = take 20 (sort (remdups tags)),
          rr_status = (if 2 \<le> length (take 5 qs) then u ''ok'' else u ''insufficient_evidence'')\<rparr>)
       (take limit (sort_key (\<lambda>(k, g). - int (length g)) (groups_of (\<lambda>e. (taxonomy_of e, rollup_label e)) es)))"

record trace_row =
  tw_label :: pystr
  tw_signal :: pystr
  tw_type :: pystr
  tw_sources :: "pystr list"
  tw_quote :: pystr
  tw_link :: "(uuid \<times> uuid \<times> uuid) option"

definition traceability_rows :: "nat \<Rightarrow> extracted_entity list \<Rightarrow> trace_row list" where
  "traceability_rows limit es = map (\<lambda>e.
     \<lparr>tw_label = or_else (take 220 (en_title e)) (take 120 (en_content e)), tw_signal = taxonomy_of e,
      tw_type = entity_type_value (en_type e),
      tw_sources = entity_sources e @ [u ''chunk:'' @ uuid_str (en_chunk_id e)],
      tw_quote = take 500 (or_else (strip (cd_quote (en_candidate e))) (take 360 (strip (en_content e)))),
      tw_link = (case en_document_id e of None \<Rightarrow> None | Some d \<Rightarrow> Some (en_project_id e, d, en_chunk_id e))\<rparr>)
     (take limit es)"

text \<open>
  \<open>rf_nav\<close> is the kind of the link that opens the source. The offset of a reference reads keys that
  no provider writes into \<^verbatim>\<open>evidence_json\<close>; it is left out.
\<close>

record source_ref =
  rf_entity :: uuid
  rf_project :: uuid
  rf_document :: "uuid option"
  rf_audio :: "uuid option"
  rf_transcript :: "uuid option"
  rf_chunk :: uuid
  rf_unit :: "pystr option"
  rf_nav :: pystr

record traced_label =
  tl_label :: pystr
  tl_signal :: pystr
  tl_type :: pystr
  tl_count :: nat
  tl_entities :: "uuid list"
  tl_refs :: "source_ref list"

definition unit_tag :: "extracted_entity \<Rightarrow> pystr" where
  "unit_tag e = (case map_of (cd_tags (en_candidate e)) (u ''interview_unit_id'') of
     Some (Some s) \<Rightarrow> s | _ \<Rightarrow> [])"

definition source_ref_of :: "extracted_entity \<Rightarrow> source_ref" where
  "source_ref_of x =
     \<lparr>rf_entity = en_id x, rf_project = en_project_id x, rf_document = en_document_id x, rf_audio = en_audio_id x,
      rf_transcript = en_transcript_id x, rf_chunk = en_chunk_id x,
      rf_unit = (if unit_tag x \<noteq> [] then Some (unit_tag x) else None),
      rf_nav = (if en_document_id x \<noteq> None then u ''document'' else if en_audio_id x \<noteq> None then u ''audio''
        else if en_transcript_id x \<noteq> None then u ''transcript'' else u ''entity'')\<rparr>"

definition traced_labels :: "entity_type list \<Rightarrow> nat \<Rightarrow> extracted_entity list \<Rightarrow> traced_label list" where
  "traced_labels ts limit es =
     (let kept = filter (\<lambda>e. en_type e \<in> set ts \<and> 3 \<le> length (take 200 (strip (en_title e)))) es;
          key = (\<lambda>e. (entity_type_value (en_type e), take 200 (strip (en_title e)), taxonomy_of e));
          groups = map (\<lambda>(k, g). (k, take 64 g)) (groups_of key kept)
      in map (\<lambda>((et, title, sig), g).
           \<lparr>tl_label = title, tl_signal = sig, tl_type = et, tl_count = length g, tl_entities = map en_id g,
            tl_refs = map source_ref_of (take 32 g)\<rparr>)
         (take limit (sort_key (\<lambda>(k, g). - int (length g)) groups)))"

definition pr_signal_tag_integrity :: "extracted_entity list \<Rightarrow> nat \<times> nat \<times> bool" where
  "pr_signal_tag_integrity es =
     (let raw = (\<lambda>e. strip (text_of (pr_signal_tag (en_candidate e))));
          explicit = filter (\<lambda>e. raw e \<noteq> []) es;
          wrong = filter (\<lambda>e. case coerce_pr_signal (raw e) of None \<Rightarrow> False
             | Some pr \<Rightarrow> en_type e \<noteq> PR_SIGNAL_TO_ENTITY_TYPE pr) explicit
      in (length explicit, length wrong, 0 < length wrong))"

definition quality_note :: "nat \<Rightarrow> nat \<Rightarrow> pystr" where
  "quality_note n_ent n_quotes =
     (if n_ent < 15 then [1052, 1072, 1083, 1086, 32, 1080, 1079, 1074, 1083, 1077, 1095, 1105, 1085, 1085,
       1099, 1093, 32, 1077, 1076, 1080, 1085, 1080, 1094, 32, 8212, 32, 1076, 1086, 1078, 1076, 1080,
       1090, 1077, 1089, 1100, 32, 1079, 1072, 1074, 1077, 1088, 1096, 1077, 1085, 1080, 1103, 32, 1080,
       1079, 1074, 1083, 1077, 1095, 1077, 1085, 1080, 1103, 32, 1087, 1086, 32, 1074, 1089, 1077, 1084,
       32, 1092, 1072, 1081, 1083, 1072, 1084, 46]
      else if n_quotes < 8 then [1052, 1072, 1083, 1086, 32, 1094, 1080, 1090, 1072, 1090, 32, 1089, 32,
       1103, 1074, 1085, 1099, 1084, 32, 101, 118, 105, 100, 101, 110, 99, 101, 32, 8212, 32, 1087, 1088,
       1086, 1074, 1077, 1088, 1100, 1090, 1077, 32, 1082, 1072, 1095, 1077, 1089, 1090, 1074, 1086, 32,
       1090, 1088, 1072, 1085, 1089, 1082, 1088, 1080, 1087, 1090, 1086, 1074, 32, 1080, 32, 1095, 1072,
       1085, 1082, 1086, 1074, 46]
      else [1048, 1079, 1074, 1083, 1077, 1095, 1077, 1085, 1080, 1077, 32, 1074, 32, 1076, 1086, 1087,
       1091, 1089, 1090, 1080, 1084, 1099, 1093, 32, 1087, 1088, 1077, 1076, 1077, 1083, 1072, 1093, 32,
       1076, 1083, 1103, 32, 80, 82, 45, 1089, 1083, 1086, 1103, 32, 40, 1087, 1088, 1080, 32, 1089, 1086,
       1073, 1083, 1102, 1076, 1077, 1085, 1080, 1080, 32, 1095, 1077, 1082, 1083, 1080, 1089, 1090, 1072,
       32, 1086, 1073, 1098, 1105, 1084, 1072, 41, 46])"

section \<open>Weekly series\<close>

record period =
  pe_week :: pystr
  pe_balance :: int
  pe_pos :: nat
  pe_neg :: nat
  pe_risk :: nat
  pe_theme :: nat
  pe_score :: int
  pe_risk_index :: int

record timeline =
  tm_series :: "period list"
  tm_emerging :: "pystr list"
  tm_fading :: "pystr list"

definition clamp100 :: "int \<Rightarrow> int" where
  "clamp100 n = max 0 (min 100 n)"

definition week_of :: "dash \<Rightarrow> maps \<Rightarrow> extracted_entity \<Rightarrow> pystr option" where
  "week_of da mp e = map_option week_key (entity_effective_date da (meta_for_entity mp e) e)"

definition timeline_title :: "extracted_entity \<Rightarrow> pystr" where
  "timeline_title e = strip (or_else (take 80 (strip (en_title e))) (take 40 (strip (en_content e))))"

definition counted :: "(extracted_entity \<Rightarrow> bool) \<Rightarrow> extracted_entity list \<Rightarrow> nat" where
  "counted P es = length (filter P es)"

definition risk_hit :: "extracted_entity \<Rightarrow> bool" where
  "risk_hit e \<longleftrightarrow> taxonomy_of e \<in> {u ''risk_signal'', u ''reputation_threat''}"

definition theme_hit :: "extracted_entity \<Rightarrow> bool" where
  "theme_hit e \<longleftrightarrow> taxonomy_of e \<in> {u ''message_resonance'', u ''proof_point'', u ''trust_driver''}"

definition positive_type :: "extracted_entity \<Rightarrow> bool" where
  "positive_type e \<longleftrightarrow> en_type e \<in> set SENT_POS"

definition negative_type :: "extracted_entity \<Rightarrow> bool" where
  "negative_type e \<longleftrightarrow> en_type e \<notin> set SENT_POS \<and> en_type e \<in> set SENT_NEG"

text \<open>One point of the series, from the entities of its week and the highest number of risks of any week.\<close>

definition period_of :: "nat \<Rightarrow> pystr \<times> extracted_entity list \<Rightarrow> period" where
  "period_of max_risk kb =
     (case kb of (k, b) \<Rightarrow>
       (let p = counted positive_type b; n = counted negative_type b; r = counted risk_hit b; bal = int p - int n
        in \<lparr>pe_week = k, pe_balance = bal, pe_pos = p, pe_neg = n, pe_risk = r, pe_theme = counted theme_hit b,
            pe_score = clamp100 (rne (fl (50 + fl (fl (50 * of_int bal) / of_nat (or_one (p + n)))))),
            pe_risk_index = clamp100 (rne (fl (fl (100 * of_nat r) / of_nat max_risk)))\<rparr>))"

definition titles_in :: "(pystr \<times> extracted_entity list) list \<Rightarrow> (pystr \<times> nat) list" where
  "titles_in bs = counter (concat (map (\<lambda>(k, b). filter (\<lambda>t. t \<noteq> []) (map timeline_title b)) bs))"

text \<open>\<^verbatim>\<open>Counter.__sub__\<close> keeps the positive differences.\<close>

definition counter_minus :: "('k \<times> nat) list \<Rightarrow> ('k \<times> nat) list \<Rightarrow> ('k \<times> nat) list" where
  "counter_minus a b = filter (\<lambda>(k, v). 0 < v)
     (map (\<lambda>(k, v). (k, v - (case map_of b k of Some n \<Rightarrow> n | None \<Rightarrow> 0))) a)"

definition timeline_series_real :: "dash \<Rightarrow> maps \<Rightarrow> extracted_entity list \<Rightarrow> timeline" where
  "timeline_series_real da mp es =
     (let dated = filter (\<lambda>e. week_of da mp e \<noteq> None) es;
          buckets = groups_of (\<lambda>e. the (week_of da mp e)) dated
      in if buckets = [] then \<lparr>tm_series = [], tm_emerging = [], tm_fading = []\<rparr>
      else (let bs = sort_key fst buckets; n = length bs;
                max_risk = or_one (Max (set (map (\<lambda>(k, b). counted risk_hit b) bs)));
                early = titles_in (take (max 1 (n div 3)) bs);
                late = titles_in (drop (max 1 ((2 * n) div 3)) bs)
            in \<lparr>tm_series = map (period_of max_risk) bs,
                tm_emerging = (if 2 \<le> n then map fst (most_common 4 (counter_minus late early)) else []),
                tm_fading = (if 2 \<le> n then map fst (most_common 4 (counter_minus early late)) else [])\<rparr>))"

section \<open>The audience\<close>

record audience =
  au_count :: nat
  au_gender :: "(pystr \<times> nat) list"
  au_age :: "(pystr \<times> nat) list"
  au_segments :: "(pystr \<times> nat) list"
  au_language :: "(pystr \<times> nat) list"
  au_city :: "(pystr \<times> nat) list"
  au_interview :: "(pystr \<times> nat) list"
  au_source :: "(pystr \<times> nat) list"
  au_date :: "(pystr \<times> nat) list"

definition listed :: "pystr \<Rightarrow> pystr list" where
  "listed s = (if s \<noteq> [] then [s] else [])"

definition gender_values :: "dash \<Rightarrow> items \<Rightarrow> pystr list" where
  "gender_values da m = (case item m (u ''gender'') of
     JArr xs \<Rightarrow> nonempty_texts da xs | JStr s \<Rightarrow> listed (strip s) | _ \<Rightarrow> [])"

definition age_values :: "dash \<Rightarrow> items \<Rightarrow> pystr list" where
  "age_values da m = (case item m (u ''age_range'') of
     JObj kvs \<Rightarrow> [segment_label da m (u ''age_range'')] | JStr s \<Rightarrow> listed (strip s) | _ \<Rightarrow> [])"

definition segment_values :: "dash \<Rightarrow> items \<Rightarrow> pystr list" where
  "segment_values da m = (case item m (u ''segments'') of JArr xs \<Rightarrow> nonempty_texts da xs | _ \<Rightarrow> [])"

definition audience_snapshot_from_metas :: "dash \<Rightarrow> items list \<Rightarrow> audience" where
  "audience_snapshot_from_metas da ms =
     (let tally = (\<lambda>f n. most_common n (counter (concat (map f ms)))); field = (\<lambda>k. tally (\<lambda>m. listed (text_item da m k)) 20)
      in \<lparr>au_count = length ms, au_gender = tally (gender_values da) 20, au_age = tally (age_values da) 20,
          au_segments = tally (segment_values da) 30, au_language = field ''language'', au_city = field ''city'',
          au_interview = field ''interview_type'', au_source = field ''source'', au_date = field ''date''\<rparr>)"

section \<open>Words and phrases\<close>

text \<open>The maximal runs of word characters, as \<^verbatim>\<open>findall\<close> of a character class returns them.\<close>

function runs :: "(nat \<Rightarrow> bool) \<Rightarrow> pystr \<Rightarrow> pystr list" where
  "runs P s = (case dropWhile (\<lambda>c. \<not> P c) s of
     [] \<Rightarrow> [] | c # t \<Rightarrow> (c # takeWhile P t) # runs P (dropWhile P t))"
  by pat_completeness auto
termination
proof (relation "measure (\<lambda>(P, s). length s)")
  fix P :: "nat \<Rightarrow> bool" and s c t
  assume "dropWhile (\<lambda>c. \<not> P c) s = c # t"
  then have "Suc (length t) \<le> length s" using length_dropWhile_le [of "\<lambda>c. \<not> P c" s] by simp
  then show "((P, dropWhile P t), P, s) \<in> measure (\<lambda>(P, s). length s)"
    using length_dropWhile_le [of P t] by simp
qed simp

declare runs.simps [simp del]

text \<open>The words the dashboards may leave out: the ASCII ones, then those with other letters.\<close>

definition DASH_STOPWORDS :: "pystr list" where
  "DASH_STOPWORDS = map u
    [''the'', ''and'', ''for'', ''that'', ''this'', ''with'', ''from'', ''have'', ''has'', ''had'', ''was'',
     ''were'', ''are'', ''but'', ''not'', ''you'', ''your'', ''they'', ''their'', ''say'', ''like'', ''just'',
     ''really'', ''basically'', ''literally'', ''actually'', ''maybe'', ''probably'', ''kinda'', ''sorta'',
     ''gonna'', ''wanna'', ''gotta'', ''demak'', ''shekilli'', ''hop'', ''mayli'', ''nimadir''] @
    [[1082, 1072, 1082], [1095, 1090, 1086], [1101, 1090, 1086], [1074, 1089, 1077], [1074, 1089, 1105],
     [1080, 1083, 1080], [1076, 1083, 1103], [1087, 1088, 1080], [1090, 1072, 1082], [1077, 1075, 1086],
     [1077, 1105], [1085, 1080, 1093], [1086, 1085, 1080], [1073, 1099, 1083], [1073, 1099, 1083, 1072],
     [1073, 1099, 1083, 1080], [1073, 1091, 1076, 1077, 1090], [1077, 1097, 1105], [1091, 1078, 1077],
     [1090, 1072, 1084], [1090, 1091, 1090], [1082, 1086, 1075, 1076, 1072], [1075, 1076, 1077],
     [1086, 1095, 1077, 1085, 1100], [1087, 1088, 1086, 1089, 1090, 1086], [1090, 1080, 1087, 1072],
     [1074, 1086, 1090], [1085, 1091], [1076, 1072], [1085, 1077, 1090], [1084, 1077, 1085, 1103],
     [1085, 1072, 1089], [1074, 1072, 1089], [1074, 1072, 1084], [1084, 1085, 1077], [1085, 1072, 1084],
     [1087, 1088, 1086], [1085, 1072, 1076], [1087, 1086, 1076], [1080, 1079], [1087, 1086], [1074, 1086],
     [1076, 1086], [1073, 1077, 1079], [1086, 1085, 1072], [1086, 1085, 1086], [1084, 1099], [1074, 1099],
     [1086, 1085], [1082, 1086, 1090, 1086, 1088, 1099, 1081], [1082, 1086, 1090, 1086, 1088, 1072, 1103],
     [1082, 1086, 1090, 1086, 1088, 1099, 1077], [1082, 1086, 1090, 1086, 1088, 1086, 1077], [1101, 1090,
       1080],
     [1101, 1090, 1086, 1090], [1101, 1090, 1072], [1090, 1086, 1078, 1077], [1090, 1072, 1082, 1078, 1077],
     [1073, 1086, 1083, 1077, 1077], [1084, 1077, 1085, 1077, 1077], [1084, 1086, 1078, 1077, 1090],
     [1084, 1086, 1078, 1085, 1086], [1085, 1091, 1078, 1085, 1086], [1085, 1072, 1076, 1086],
     [1077, 1089, 1083, 1080], [1090, 1086], [1072], [1080], [1074], [1085, 1072], [1089], [1082], [1086],
       [1091],
     [1103], [1073, 1099], [1083, 1080], [1078, 1077], [1073, 1099, 1090, 1100], [1077, 1089, 1090, 1100],
     [1082, 1086, 1088, 1086, 1095, 1077], [1079, 1085, 1072, 1095, 1080, 1090],
     [1082, 1089, 1090, 1072, 1090, 1080], [1074, 1088, 1086, 1076, 1077],
     [1082, 1072, 1078, 1077, 1090, 1089, 1103], [1085, 1072, 1074, 1077, 1088, 1085, 1086, 1077],
     [1090, 1080, 1087, 1091], [1082, 1072, 1088, 1086, 1095, 1077], [1073, 1083, 1080, 1085], [1101, 1101],
     [1072, 1075, 1072], [1074, 1086, 1073, 1097, 1077, 1084], [1079, 1085, 1072, 1077, 1096, 1100],
     [1087, 1086, 1085, 1080, 1084, 1072, 1077, 1096, 1100], [1089, 1083, 1091, 1096, 1072, 1081],
     [1083, 1080, 1073, 1086], [1090, 1086, 1083, 1100, 1082, 1086], [1076, 1072, 1078, 1077],
     [1093, 1086, 1090, 1103], [1080, 1073, 1086], [1083, 1080, 1096, 1100], [1091, 1078], [1074, 1077,
       1076, 1100],
     [1076, 1077], [1084, 1086, 1083], [120, 111, 699, 112]]"

definition corpus_tokens :: "env \<Rightarrow> dash \<Rightarrow> bool \<Rightarrow> pystr \<Rightarrow> pystr list" where
  "corpus_tokens env da stop s =
     (let ws = map (lower env) (filter (\<lambda>w. 2 < length w) (runs (da_word da) s))
      in if stop then filter (\<lambda>w. w \<notin> set DASH_STOPWORDS) ws else ws)"

definition tokenize_corpus :: "env \<Rightarrow> dash \<Rightarrow> nat \<Rightarrow> bool \<Rightarrow> pystr \<Rightarrow> (pystr \<times> nat) list" where
  "tokenize_corpus env da limit stop s = most_common limit (counter (corpus_tokens env da stop s))"

definition ngram_counts :: "pystr list \<Rightarrow> nat \<Rightarrow> nat \<Rightarrow> (pystr \<times> nat) list" where
  "ngram_counts tokens n limit =
     (if length tokens < n then []
      else most_common limit (counter (filter (\<lambda>g. 4 \<le> length g)
        (map (\<lambda>i. join (u '' '') (Prelude.slice tokens i (i + n))) [0..<length tokens - n + 1]))))"

text \<open>The text of at most 800 chunks, joined by line feeds and cut to 120000 characters.\<close>

definition corpus_text :: "text_chunk list \<Rightarrow> pystr" where
  "corpus_text cs = take 120000 (join [10] (filter (\<lambda>t. t \<noteq> []) (map ch_text (take 800 cs))))"

definition word_frequency_for_chunks :: "env \<Rightarrow> dash \<Rightarrow> nat \<Rightarrow> bool \<Rightarrow> text_chunk list \<Rightarrow> (pystr \<times> nat) list" where
  "word_frequency_for_chunks env da limit stop cs = tokenize_corpus env da limit stop (corpus_text cs)"

definition ngrams_for_chunks :: "env \<Rightarrow> dash \<Rightarrow> bool \<Rightarrow> text_chunk list \<Rightarrow> (pystr \<times> nat) list \<times> (pystr \<times> nat) list" where
  "ngrams_for_chunks env da stop cs =
     (let tokens = corpus_tokens env da stop (corpus_text cs)
      in (ngram_counts tokens 2 40, ngram_counts tokens 3 30))"

section \<open>Facts\<close>

subsection \<open>Shares\<close>

text \<open>A share of at most a billion is exact to a twentieth and between 0 and 100.\<close>

lemma fl_hundred: "v \<le> 10 ^ 9 \<Longrightarrow> fl (100 * of_nat v) = 100 * of_nat v"
  using fl_of_int [of "int (100 * v)"] by simp

lemma share_bounds: "v \<le> n \<Longrightarrow> 0 < n \<Longrightarrow> 0 \<le> 100 * of_nat v / (of_nat n :: rat) \<and> 100 * of_nat v / (of_nat n :: rat) \<le> 100"
  by (simp add: field_simps)

lemma part_bounds:
  assumes "v \<le> n" "0 < n" "n \<le> 10 ^ 9"
  shows "fl (fl (100 * of_nat v) / of_nat n) = fl (100 * of_nat v / of_nat n)"
    "0 \<le> fl (100 * of_nat v / (of_nat n :: rat))" "fl (100 * of_nat v / (of_nat n :: rat)) \<le> 100"
  using assms fl_hundred [of v] share_bounds [of v n] fl_nonneg fl_le_int [of "100 * of_nat v / of_nat n" 100] by auto

lemma pct_bounds:
  assumes "v \<le> n" "0 < n" "n \<le> 10 ^ 9"
  shows "0 \<le> pct v n" "pct v n \<le> 100"
  using part_bounds [OF assms] py_round_nonneg py_round_le_int [of "fl (100 * of_nat v / of_nat n)" 100]
  by (simp_all add: pct_def)

lemma py_round_tenth_error:
  assumes "0 \<le> x" "x \<le> 100"
  shows "\<bar>py_round x 1 - x\<bar> \<le> 51 / 1000"
proof -
  define k where "k = rne (x * 10)"
  have k: "0 \<le> k" "k \<le> 1000" using assms by (auto simp: k_def intro: rne_ge rne_le)
  have e: "\<bar>of_int k - x * 10\<bar> \<le> 1 / 2" unfolding k_def by (rule rne_error)
  have f: "\<bar>fl (of_int k / 10) - of_int k / 10\<bar> \<le> of_int k / 10 / 2 ^ 53" using k by (intro fl_error) simp
  have "(of_int k :: rat) \<le> of_int 1000" using k(2) by (simp only: of_int_le_iff)
  then have "(of_int k / 10 / 2 ^ 53 :: rat) \<le> 1 / 1000" by simp
  moreover have "\<bar>of_int k / 10 - x\<bar> \<le> 1 / 20" using e unfolding abs_le_iff by simp
  ultimately show ?thesis using f unfolding py_round_def k_def [symmetric] power_one_right abs_le_iff by linarith
qed

lemma fl_share_error: "0 \<le> x \<Longrightarrow> x \<le> 100 \<Longrightarrow> \<bar>fl x - x\<bar> \<le> 1 / 1000"
  using fl_error [of x] by simp

lemma pct_error:
  assumes "v \<le> n" "0 < n" "n \<le> 10 ^ 9"
  shows "\<bar>pct v n - 100 * of_nat v / of_nat n\<bar> \<le> 52 / 1000"
proof -
  let ?x = "100 * of_nat v / of_nat n :: rat"
  note b = share_bounds [OF assms(1, 2)] and p = part_bounds [OF assms]
  have "\<bar>fl ?x - ?x\<bar> \<le> 1 / 1000" using b fl_share_error by simp
  moreover have "\<bar>py_round (fl ?x) 1 - fl ?x\<bar> \<le> 51 / 1000" using p(2, 3) by (rule py_round_tenth_error)
  ultimately show ?thesis unfolding pct_def p(1) abs_le_iff by linarith
qed

lemma or_one_pos [simp]: "0 < or_one n" "n \<le> or_one n"
  by (auto simp: or_one_def)

lemma or_one_id [simp]: "0 < n \<Longrightarrow> or_one n = n"
  by (simp add: or_one_def)

subsection \<open>Counters\<close>

lemma map_of_counter: "map_of (counter ks) k = (if k \<in> set ks then Some (count_list ks k) else None)"
  by (auto simp: counter_eq map_of_map_restrict restrict_map_def)

lemma keys_counter: "map fst (counter ks) = first_occ ks"
  by (simp add: counter_eq o_def)

lemma set_most_common: "set (most_common n c) \<subseteq> set c"
  by (auto simp: most_common_def dest: in_set_takeD)

lemma length_most_common: "length (most_common n c) \<le> n"
  by (simp add: most_common_def)

lemma distinct_most_common: "distinct (map fst c) \<Longrightarrow> distinct (map fst (most_common n c))"
proof -
  assume "distinct (map fst c)"
  moreover have "mset (map fst (sort_key (\<lambda>(k, v). - int v) c)) = mset (map fst c)"
    by (metis mset_map mset_sort)
  ultimately have "distinct (map fst (sort_key (\<lambda>(k, v). - int v) c))" by (metis mset_eq_imp_distinct_iff)
  then show ?thesis by (simp add: most_common_def take_map [symmetric] distinct_take)
qed

lemma sum_filter_nonzero: "(\<Sum>k\<leftarrow>filter (\<lambda>k. f k \<noteq> (0::nat)) ks. f k) = (\<Sum>k\<leftarrow>ks. f k)"
  by (induction ks) auto

lemma taxonomy_known: "taxonomy_of e \<in> set (map pr_signal_value PRSignalTaxonomy)"
  by (auto simp: taxonomy_of_def taxonomy_label_for_entity_def Let_def simp del: pr_signal_value.simps split: option.splits)

lemma distinct_taxonomy: "distinct (map pr_signal_value PRSignalTaxonomy)"
  by (simp add: PRSignalTaxonomy_def distinct_map inj_on_def)

lemma taxonomy_totals_eq:
  "pr_taxonomy_totals es = (let n = \<lambda>k. length (filter (\<lambda>e. taxonomy_of e = k) es) in
     map (\<lambda>k. (k, n k, pct (n k) (or_one (length es))))
       (filter (\<lambda>k. n k \<noteq> 0) (map pr_signal_value PRSignalTaxonomy)))"
proof -
  let ?ks = "map taxonomy_of es" and ?order = "map pr_signal_value PRSignalTaxonomy"
  have cnt: "(case map_of (counter ?ks) k of Some v \<Rightarrow> v | None \<Rightarrow> 0) = length (filter (\<lambda>e. taxonomy_of e = k) es)" for k
    by (auto simp: map_of_counter count_list_filter filter_map o_def filter_empty_conv)
  have none: "filter (\<lambda>(k, v). k \<notin> set ?order \<and> v \<noteq> 0) (most_common m (counter ?ks)) = []" for m
  proof -
    have "k \<in> set ?order" if "(k, v) \<in> set (counter ?ks)" for k v
      using that taxonomy_known by (auto simp: counter_eq)
    then show ?thesis using set_most_common [of m "counter ?ks"] by (fastforce simp: filter_empty_conv)
  qed
  show ?thesis
    unfolding pr_taxonomy_totals_def Let_def cnt none counter_total by simp
qed

lemma sum_list_error:
  fixes f g :: "'a \<Rightarrow> rat"
  shows "\<forall>k \<in> set ks. \<bar>f k - g k\<bar> \<le> d \<Longrightarrow> \<bar>(\<Sum>k\<leftarrow>ks. f k) - (\<Sum>k\<leftarrow>ks. g k)\<bar> \<le> of_nat (length ks) * d"
proof (induction ks)
  case (Cons k ks)
  have "\<bar>f k - g k\<bar> \<le> d" "\<bar>(\<Sum>k\<leftarrow>ks. f k) - (\<Sum>k\<leftarrow>ks. g k)\<bar> \<le> of_nat (length ks) * d" using Cons by auto
  then show ?case unfolding abs_le_iff by (simp add: distrib_right)
qed simp

lemma sum_shares: "(\<Sum>k\<leftarrow>ks. 100 * of_nat (n k) / (m::rat)) = 100 * of_nat (\<Sum>k\<leftarrow>ks. n k) / m"
  by (induction ks) (simp_all add: add_divide_distrib distrib_left)

lemma sum_over_taxonomy:
  "(\<Sum>k\<leftarrow>map pr_signal_value PRSignalTaxonomy. length (filter (\<lambda>e. taxonomy_of e = k) es)) = length es"
proof -
  have "(\<Sum>k\<leftarrow>map pr_signal_value PRSignalTaxonomy. length (filter (\<lambda>e. taxonomy_of e = k) es))
      = (\<Sum>k\<in>set (map pr_signal_value PRSignalTaxonomy). count_list (map taxonomy_of es) k)"
    by (subst sum_list_distinct_conv_sum_set [OF distinct_taxonomy]) (simp add: count_list_filter filter_map o_def)
  also have "\<dots> = length (map taxonomy_of es)"
  proof (rule sum_count_set)
    show "set (map taxonomy_of es) \<subseteq> set (map pr_signal_value PRSignalTaxonomy)"
      using taxonomy_known by (metis image_subsetI list.set_map)
  qed (rule finite_set)
  finally show ?thesis by simp
qed

lemma taxonomy_sum: "(\<Sum>(k, v, p)\<leftarrow>pr_taxonomy_totals es. v) = length es"
proof -
  let ?n = "\<lambda>k. length (filter (\<lambda>e. taxonomy_of e = k) es)"
  have "(\<Sum>(k, v, p)\<leftarrow>pr_taxonomy_totals es. v) = (\<Sum>k\<leftarrow>filter (\<lambda>k. ?n k \<noteq> 0) (map pr_signal_value PRSignalTaxonomy). ?n k)"
    unfolding taxonomy_totals_eq Let_def by (simp add: o_def)
  then show ?thesis using sum_filter_nonzero [of ?n] sum_over_taxonomy [of es] by simp
qed

text \<open>
  The totals of the PR taxonomy count every entity once: the counts add up to the number of
  entities, every row has a positive count and a share between 0 and 100, and the rounded shares
  of a set of entities that is not empty add up to 100 within 0.4.
\<close>

theorem taxonomy_totals_add_up:
  assumes "length es \<le> 10 ^ 9"
  shows "(\<Sum>(k, v, p)\<leftarrow>pr_taxonomy_totals es. v) = length es
    \<and> distinct (map fst (pr_taxonomy_totals es))
    \<and> (\<forall>(k, v, p) \<in> set (pr_taxonomy_totals es). 0 < v \<and> 0 \<le> p \<and> p \<le> 100)
    \<and> (es \<noteq> [] \<longrightarrow> \<bar>(\<Sum>(k, v, p)\<leftarrow>pr_taxonomy_totals es. p) - 100\<bar> \<le> 4 / 10)"
proof -
  let ?n = "\<lambda>k. length (filter (\<lambda>e. taxonomy_of e = k) es)" and ?m = "or_one (length es)"
  let ?ks = "filter (\<lambda>k. ?n k \<noteq> 0) (map pr_signal_value PRSignalTaxonomy)"
  note eq = taxonomy_totals_eq [of es, unfolded Let_def]
  have m: "?n k \<le> ?m" "0 < ?m" "?m \<le> 10 ^ 9" for k
    using assms length_filter_le [of "\<lambda>e. taxonomy_of e = k" es] by (auto simp: or_one_def)
  have total: "(\<Sum>k\<leftarrow>?ks. ?n k) = length es" using sum_filter_nonzero [of ?n] sum_over_taxonomy [of es] by simp
  have sp: "(\<Sum>(k, v, p)\<leftarrow>pr_taxonomy_totals es. p) = (\<Sum>k\<leftarrow>?ks. pct (?n k) ?m)"
    unfolding eq by (simp add: o_def)
  have dist: "distinct (map fst (pr_taxonomy_totals es))"
    unfolding eq using distinct_taxonomy by (simp add: o_def)
  have rows: "\<forall>(k, v, p) \<in> set (pr_taxonomy_totals es). 0 < v \<and> 0 \<le> p \<and> p \<le> 100"
    unfolding eq using pct_bounds [OF m] by auto
  have near: "es \<noteq> [] \<longrightarrow> \<bar>(\<Sum>(k, v, p)\<leftarrow>pr_taxonomy_totals es. p) - 100\<bar> \<le> 4 / 10"
  proof
    assume that: "es \<noteq> []"
    have "length ?ks \<le> 7" by (rule order_trans [OF length_filter_le]) (simp add: PRSignalTaxonomy_def)
    then have le: "of_nat (length ?ks) * (52 / 1000) \<le> (4 / 10 :: rat)"
      using of_nat_mono [of "length ?ks" 7, where ?'a = rat] by simp
    have "\<bar>(\<Sum>k\<leftarrow>?ks. pct (?n k) ?m) - (\<Sum>k\<leftarrow>?ks. 100 * of_nat (?n k) / of_nat ?m)\<bar> \<le> of_nat (length ?ks) * (52 / 1000)"
      using pct_error [OF m] by (intro sum_list_error) blast
    moreover have "(\<Sum>k\<leftarrow>?ks. 100 * of_nat (?n k) / (of_nat ?m :: rat)) = 100"
      unfolding sum_shares total using that by simp
    ultimately show "\<bar>(\<Sum>(k, v, p)\<leftarrow>pr_taxonomy_totals es. p) - 100\<bar> \<le> 4 / 10"
      using le unfolding sp by linarith
  qed
  show ?thesis by (intro conjI taxonomy_sum dist rows near)
qed

text \<open>
  The neutral share of the sentiment is 0 whatever the signals are: it is what the positive and
  the negative share leave of 100, and signals that are neither are not counted.
\<close>

theorem neutral_share_is_zero:
  assumes "p + n \<le> 10 ^ 9"
  shows "sh_rest (sentiment_with_fractions p n) = 0
    \<and> 0 \<le> sh_pos (sentiment_with_fractions p n) \<and> sh_pos (sentiment_with_fractions p n) \<le> 100
    \<and> 0 \<le> sh_neg (sentiment_with_fractions p n) \<and> sh_neg (sentiment_with_fractions p n) \<le> 100"
proof (cases "p + n < 1")
  case True
  then show ?thesis by (simp add: sentiment_with_fractions_def)
next
  case False
  then have pn: "p \<le> p + n" "n \<le> p + n" "0 < p + n" by auto
  let ?A = "100 * of_nat p / of_nat (p + n) :: rat" and ?B = "100 * of_nat n / of_nat (p + n) :: rat"
  have "?A + ?B = 100 * (of_nat p + of_nat n) / of_nat (p + n)" by (simp add: add_divide_distrib distrib_left)
  then have AB: "?A + ?B = 100" using pn(3) by (simp flip: of_nat_add)
  note bA = share_bounds [OF pn(1, 3)] and bB = share_bounds [OF pn(2, 3)]
  note pA = part_bounds [OF pn(1, 3) assms] and pB = part_bounds [OF pn(2, 3) assms]
  define d where "d = fl (100 - fl ?A) - fl ?B"
  have "\<bar>fl ?A - ?A\<bar> \<le> 1 / 1000" "\<bar>fl ?B - ?B\<bar> \<le> 1 / 1000" using bA bB fl_share_error by auto
  moreover have "\<bar>fl (100 - fl ?A) - (100 - fl ?A)\<bar> \<le> 1 / 1000" using pA by (intro fl_share_error) auto
  ultimately have d: "d \<le> 3 / 1000" using AB unfolding d_def abs_le_iff by linarith
  have r0: "max 0 (fl d) \<le> 4 / 1000 \<and> 0 \<le> max 0 (fl d)"
  proof (cases "0 \<le> d")
    case True
    then have "fl d \<le> 4 / 1000" using d fl_share_error [of d] unfolding abs_le_iff by linarith
    then show ?thesis by simp
  next
    case False
    then have "fl d \<le> 0" using fl_nonneg [of "- d"] by (auto simp: fl_def Let_def)
    then show ?thesis by simp
  qed
  then have "rne (max 0 (fl d) * 10) = 0" by (intro rne_near) (auto simp: abs_le_iff)
  then have "py_round (max 0 (fl d)) 1 = 0" by (simp add: py_round_def)
  then have "sh_rest (sentiment_with_fractions p n) = 0"
    using False pA(1) pB(1) by (simp add: sentiment_with_fractions_def Let_def d_def)
  then show ?thesis
    using False pct_bounds [OF pn(1, 3) assms] pct_bounds [OF pn(2, 3) assms]
    by (simp add: sentiment_with_fractions_def Let_def)
qed

subsection \<open>Weekly series\<close>

lemma sum_list_sort_key: "(\<Sum>x\<leftarrow>sort_key k xs. f x) = ((\<Sum>x\<leftarrow>xs. f x) :: nat)"
  by (metis mset_map mset_sort sum_mset_sum_list)

lemma sum_groups: "(\<Sum>(k, g)\<leftarrow>groups_of f xs. length (filter P g)) = length (filter P xs)"
proof -
  have "(\<Sum>(k, g)\<leftarrow>groups_of f xs. length (filter P g))
      = (\<Sum>k\<in>set (map f xs). count_list (map f (filter P xs)) k)"
    by (simp add: groups_of_eq o_def sum_list_distinct_conv_sum_set count_list_filter filter_map conj_commute)
  also have "\<dots> = length (map f (filter P xs))" by (rule sum_count_set) auto
  finally show ?thesis by simp
qed

lemma distinct_group_keys: "distinct (map fst (groups_of f xs))"
  by (simp add: groups_of_eq o_def)

lemma every_entity_dated [simp]: "week_of da mp e \<noteq> None"
  by (simp add: week_of_def entity_effective_date_def Let_def del: split_paired_Ex not_None_eq split: option.split)

lemma clamp100_bounds: "0 \<le> clamp100 n \<and> clamp100 n \<le> 100"
  by (simp add: clamp100_def)

lemma counter_minus_less:
  "t \<in> fst ` set (counter_minus (counter a) (counter b)) \<Longrightarrow> count_list b t < count_list a t"
  by (auto simp: counter_minus_def counter_eq map_of_map_restrict restrict_map_def count_notin split: if_splits)

lemma counter_minus_disjoint:
  "fst ` set (counter_minus (counter a) (counter b)) \<inter> fst ` set (counter_minus (counter b) (counter a)) = {}"
  using counter_minus_less [of _ a b] counter_minus_less [of _ b a] by fastforce

lemma set_map_most_common: "set (map fst (most_common n c)) \<subseteq> fst ` set c"
  using set_most_common [of n c] by auto

lemma period_of_facts:
  "pe_week (period_of m kb) = fst kb"
  "pe_pos (period_of m kb) = counted positive_type (snd kb)"
  "pe_neg (period_of m kb) = counted negative_type (snd kb)"
  "pe_risk (period_of m kb) = counted risk_hit (snd kb)"
  "pe_theme (period_of m kb) = counted theme_hit (snd kb)"
  by (simp_all add: period_of_def Let_def split: prod.split)

lemma period_scores: "0 \<le> pe_score (period_of m kb) \<and> pe_score (period_of m kb) \<le> 100
    \<and> 0 \<le> pe_risk_index (period_of m kb) \<and> pe_risk_index (period_of m kb) \<le> 100"
  by (simp add: period_of_def Let_def clamp100_bounds split: prod.split)

text \<open>The series over sorted buckets, as the definition computes it.\<close>

definition week_groups :: "dash \<Rightarrow> maps \<Rightarrow> extracted_entity list \<Rightarrow> (pystr \<times> extracted_entity list) list" where
  "week_groups da mp es = sort_key fst (groups_of (\<lambda>e. the (week_of da mp e)) es)"

lemma week_groups_sorted: "sorted_wrt (<) (map fst (week_groups da mp es))"
proof -
  let ?g = "groups_of (\<lambda>e. the (week_of da mp e)) es"
  have "mset (map fst (week_groups da mp es)) = mset (map fst ?g)"
    unfolding week_groups_def by (metis mset_map mset_sort)
  then have "distinct (map fst (week_groups da mp es))"
    using distinct_group_keys [of "\<lambda>e. the (week_of da mp e)" es] by (metis mset_eq_imp_distinct_iff)
  then show ?thesis by (simp add: strict_sorted_iff week_groups_def)
qed

lemma week_groups_sum: "(\<Sum>kb\<leftarrow>week_groups da mp es. counted P (snd kb)) = counted P es"
  using sum_groups [of P "\<lambda>e. the (week_of da mp e)" es]
  by (simp add: week_groups_def sum_list_sort_key counted_def split_def)

lemma series_eq: "\<exists>m. tm_series (timeline_series_real da mp es) = map (period_of m) (week_groups da mp es)"
  by (auto simp: timeline_series_real_def week_groups_def Let_def)

lemma series_sum:
  assumes "\<And>m kb. f (period_of m kb) = counted P (snd kb)"
  shows "(\<Sum>p\<leftarrow>tm_series (timeline_series_real da mp es). f p) = counted P es"
proof -
  obtain m where "tm_series (timeline_series_real da mp es) = map (period_of m) (week_groups da mp es)"
    using series_eq by blast
  then show ?thesis using week_groups_sum [of P da mp es] by (simp add: o_def assms)
qed

lemma trends_disjoint:
  "set (tm_emerging (timeline_series_real da mp es)) \<inter> set (tm_fading (timeline_series_real da mp es)) = {}"
proof -
  have "set (map fst (most_common 4 (counter_minus (counter x) (counter y))))
      \<inter> set (map fst (most_common 4 (counter_minus (counter y) (counter x)))) = {}" for x y :: "pystr list"
    using counter_minus_disjoint [of x y] set_map_most_common [of 4 "counter_minus (counter x) (counter y)"]
      set_map_most_common [of 4 "counter_minus (counter y) (counter x)"] by blast
  then show ?thesis
    by (cases "groups_of (\<lambda>e. the (week_of da mp e)) es = []";
        cases "2 \<le> length (groups_of (\<lambda>e. the (week_of da mp e)) es)")
       (simp_all add: timeline_series_real_def Let_def titles_in_def del: set_map One_nat_def)
qed

text \<open>
  The weekly series counts every entity in exactly one week, since an entity without a date in
  its source's metadata has the date of its creation: the positive, negative and risk counts of the
  weeks add up, the weeks come once each and in order, scores are between 0 and 100, and no title
  is both emerging and fading.
\<close>

theorem timeline_counts_every_entity:
  "(\<Sum>p\<leftarrow>tm_series (timeline_series_real da mp es). pe_pos p) = counted positive_type es
   \<and> (\<Sum>p\<leftarrow>tm_series (timeline_series_real da mp es). pe_neg p) = counted negative_type es
   \<and> (\<Sum>p\<leftarrow>tm_series (timeline_series_real da mp es). pe_risk p) = counted risk_hit es
   \<and> sorted_wrt (<) (map pe_week (tm_series (timeline_series_real da mp es)))
   \<and> list_all (\<lambda>p. 0 \<le> pe_score p \<and> pe_score p \<le> 100 \<and> 0 \<le> pe_risk_index p \<and> pe_risk_index p \<le> 100)
       (tm_series (timeline_series_real da mp es))
   \<and> set (tm_emerging (timeline_series_real da mp es)) \<inter> set (tm_fading (timeline_series_real da mp es)) = {}"
proof (intro conjI series_sum period_of_facts trends_disjoint)
  obtain m where eq: "tm_series (timeline_series_real da mp es) = map (period_of m) (week_groups da mp es)"
    using series_eq by blast
  show "sorted_wrt (<) (map pe_week (tm_series (timeline_series_real da mp es)))"
    using week_groups_sorted [of da mp es] by (simp add: eq o_def period_of_facts sorted_wrt_map)
  show "list_all (\<lambda>p. 0 \<le> pe_score p \<and> pe_score p \<le> 100 \<and> 0 \<le> pe_risk_index p \<and> pe_risk_index p \<le> 100)
       (tm_series (timeline_series_real da mp es))"
    using period_scores by (auto simp: eq list_all_iff)
qed

subsection \<open>Rollups\<close>

lemma rollup_scan_quotes:
  "length qs < 5 \<Longrightarrow> take 5 (fst (rollup_scan da mp g (qs, ids, tags)))
     = take 5 (qs @ map (\<lambda>e. take 500 (rollup_quote e)) (filter (\<lambda>e. 8 \<le> length (rollup_quote e)) g))"
proof (induction g arbitrary: qs ids tags)
  case (Cons x g)
  show ?case
  proof (cases "8 \<le> length (rollup_quote x)")
    case True
    show ?thesis
    proof (cases "length qs = 4")
      case True
      then show ?thesis using \<open>8 \<le> length (rollup_quote x)\<close> by (simp add: Let_def)
    next
      case False
      then have "length (qs @ [take 500 (rollup_quote x)]) < 5" using Cons.prems by simp
      note Cons.IH [OF this]
      then show ?thesis using True False Cons.prems by (simp add: Let_def)
    qed
  next
    case False
    then show ?thesis using Cons by (simp add: Let_def)
  qed
qed simp

text \<open>
  A rollup row stands for the entities with its label and signal: it counts all of them, quotes
  the first five that have at least eight characters, cut to 500, and reports enough evidence exactly when
  at least two of them have such a quote.
\<close>

theorem rollup_evidence:
  assumes "r \<in> set (build_pr_insight_rollups da mp limit es)"
  defines "members \<equiv> filter (\<lambda>e. taxonomy_of e = rr_taxonomy r \<and> rollup_label e = rr_label r) es"
  shows "rr_count r = length members \<and> members \<noteq> []
    \<and> rr_quotes r = take 5 (map (\<lambda>e. take 500 (rollup_quote e)) (filter (\<lambda>e. 8 \<le> length (rollup_quote e)) members))
    \<and> (rr_status r = u ''ok'' \<longleftrightarrow> 2 \<le> length (filter (\<lambda>e. 8 \<le> length (rollup_quote e)) members))"
proof -
  let ?f = "\<lambda>e. (taxonomy_of e, rollup_label e)"
  obtain tax label g where g: "((tax, label), g) \<in> set (groups_of ?f es)"
    and r: "rr_label r = label" "rr_taxonomy r = tax" "rr_count r = length g"
      "rr_quotes r = take 5 (fst (rollup_scan da mp g ([], [], [])))"
      "rr_status r = (if 2 \<le> length (take 5 (fst (rollup_scan da mp g ([], [], [])))) then u ''ok'' else u ''insufficient_evidence'')"
    using assms(1) by (auto simp: build_pr_insight_rollups_def split_def dest!: in_set_takeD)
  have gm: "g = members" and ne: "g \<noteq> []"
    using g unfolding members_def r by (auto simp: groups_of_eq filter_empty_conv)
  have "take 5 (fst (rollup_scan da mp g ([], [], [])))
      = take 5 (map (\<lambda>e. take 500 (rollup_quote e)) (filter (\<lambda>e. 8 \<le> length (rollup_quote e)) g))"
    using rollup_scan_quotes [of "[]"] by simp
  then show ?thesis unfolding r gm [symmetric] using ne by simp
qed

subsection \<open>Segments and dates\<close>

lemma join_nonempty: "xs \<noteq> [] \<Longrightarrow> \<forall>x \<in> set xs. x \<noteq> [] \<Longrightarrow> join sep xs \<noteq> []"
  by (cases xs rule: list.exhaust; cases "tl xs") auto

lemma plain_label_nonempty: "plain_label da v \<noteq> []"
  by (simp add: plain_label_def UNKNOWN_def Let_def)

text \<open>No segment has an empty label, so every entity is in a segment that a request can name.\<close>

lemma segment_label_nonempty: "segment_label da m gb \<noteq> []"
proof -
  have age: "age_label da kvs \<noteq> []" for kvs
    using plain_label_nonempty by (simp add: age_label_def UNKNOWN_def Let_def)
  have "join (u '', '') (sort (nonempty_texts da xs)) \<noteq> []" if "nonempty_texts da xs \<noteq> []" for xs
    using that by (intro join_nonempty) (auto simp: nonempty_texts_def simp flip: set_empty)
  then show ?thesis
    using age plain_label_nonempty by (auto simp: segment_label_def UNKNOWN_def Let_def split: json.split)
qed

lemma take_strip:
  assumes "s \<noteq> []" "\<forall>c \<in> set s. \<not> is_space c"
  shows "take (length s) (strip (s @ r)) = s"
proof -
  obtain c t where s: "s = c # t" using assms(1) by (cases s) auto
  then have "lstrip (s @ r) = s @ r" using assms(2) by (simp add: lstrip_def)
  moreover obtain k where k: "rstrip (s @ r) = take k (s @ r)"
      "\<forall>i < length (s @ r). \<not> is_space ((s @ r) ! i) \<longrightarrow> i < k"
    using rstrip_take [of "s @ r"] by blast
  moreover have "length s - 1 < k"
  proof (rule k(2) [rule_format])
    have l: "length s - 1 < length s" using assms(1) by simp
    then show "length s - 1 < length (s @ r)" by simp
    show "\<not> is_space ((s @ r) ! (length s - 1))" using l assms(2) by (simp add: nth_append del: One_nat_def)
  qed
  ultimately show ?thesis by (simp add: strip_def)
qed

lemma isoformat_not_space: "valid_date d \<Longrightarrow> \<forall>c \<in> set (isoformat d). \<not> is_space c"
proof -
  assume v: "valid_date d"
  obtain y m k where d: "d = (y, m, k)" by (cases d)
  have "0 \<le> y div 100" "y div 100 \<le> 99" "0 \<le> y mod 100" "y mod 100 \<le> 99" "0 \<le> m" "m \<le> 99" "0 \<le> k" "k \<le> 99"
    using v days_in_month_le [of y m] pos_mod_bound [of 100 y] pos_mod_sign [of 100 y] unfolding d by auto
  then have "list_all is_digit (pad2 (y div 100) @ pad2 (y mod 100) @ pad2 m @ pad2 k)"
    by (simp add: pad2_digits)
  then have "\<forall>c \<in> set (isoformat d). is_digit c \<or> c = 45" by (auto simp: d list_all_iff)
  moreover have "\<not> is_space c" if "is_digit c \<or> c = 45" for c using that by (auto simp: is_digit_def is_space_def)
  ultimately show ?thesis by blast
qed

lemma parse_iso_date_of:
  assumes "valid_date d"
  shows "parse_iso_date (Some (isoformat d @ r)) = Some d"
    "strip (isoformat d @ r) \<noteq> []" "parse_iso_date (Some (strip (isoformat d @ r))) = Some d"
proof -
  note iso = isoformat_parses [OF assms]
  have "isoformat d \<noteq> []" using iso(2) by auto
  then have t: "take 10 (strip (isoformat d @ r)) = isoformat d"
    using take_strip [of "isoformat d" r] isoformat_not_space [OF assms] iso(2) by simp
  then show ne: "strip (isoformat d @ r) \<noteq> []" using \<open>isoformat d \<noteq> []\<close> by auto
  show "parse_iso_date (Some (isoformat d @ r)) = Some d"
    "parse_iso_date (Some (strip (isoformat d @ r))) = Some d"
    using t ne iso(1) by (simp_all add: parse_iso_date_def)
qed

text \<open>
  A request for a range of dates keeps exactly the sources dated inside it, both ends included:
  the metadata may carry the date alone or followed by a time of day.
\<close>

theorem date_range_is_inclusive:
  assumes "valid_date a" "valid_date b" "valid_date d"
    and "map_of m (u ''date'') = Some (JStr (isoformat d @ time_of_day))"
  shows "meta_in_scope da None None (Some (isoformat a)) (Some (isoformat b)) m \<longleftrightarrow> a \<le> d \<and> d \<le> b"
proof -
  note p = parse_iso_date_of
  have "text_item da m ''date'' = strip (isoformat d @ time_of_day)"
    using assms(4) isoformat_parses(2) [OF assms(3)] by (auto simp: text_item_def item_def str_of_def Let_def)
  then show ?thesis
    using p(1) [OF assms(1), of "[]"] p(1) [OF assms(2), of "[]"] p(3) [OF assms(3), of time_of_day]
    by (simp add: meta_in_scope_def given_def in_range_def Let_def not_less del: not_None_eq split_paired_All)
qed

section \<open>Concrete runs\<close>

definition plain_dash :: dash where
  "plain_dash = \<lparr>da_meta = (\<lambda>_. []), da_str = (\<lambda>_. u ''value''), da_word = (\<lambda>c. c \<noteq> 32),
     da_unit = (\<lambda>i. digits (iu_index i)), da_brand = None\<rparr>"

definition no_maps :: maps where
  "no_maps = \<lparr>mp_doc = [], mp_audio = [], mp_transcript = []\<rparr>"

definition signal :: "uuid \<Rightarrow> entity_type \<Rightarrow> string \<Rightarrow> string \<Rightarrow> extracted_entity" where
  "signal i et title quote = \<lparr>en_id = i, en_project_id = 1, en_document_id = Some 7, en_audio_id = None,
     en_transcript_id = None, en_chunk_id = 9,
     en_candidate = \<lparr>cd_type = et, cd_title = u title, cd_content = u quote, cd_score = 1 / 2, cd_tags = [],
       cd_quote = u quote, cd_span = (0, 0)\<rparr>,
     en_canonical = None, en_created_at = 0\<rparr>"

definition price_signals :: "extracted_entity list" where
  "price_signals = [signal 1 RISK ''Price'' ''It is too expensive'', signal 2 RISK ''Price'' ''I cannot pay that'',
     signal 3 TRUST_ISSUE ''Support'' ''They answer quickly'']"

theorem taxonomy_totals_add_up_witness:
  "length price_signals = 3 \<and> (\<Sum>(k, v, p)\<leftarrow>pr_taxonomy_totals price_signals. v) = 3
   \<and> \<bar>(\<Sum>(k, v, p)\<leftarrow>pr_taxonomy_totals price_signals. p) - 100\<bar> \<le> 4 / 10"
  using taxonomy_totals_add_up [of price_signals] by (simp add: price_signals_def)

theorem neutral_share_is_zero_witness: "sh_rest (sentiment_with_fractions 1 2) = 0"
  using neutral_share_is_zero [of 1 2] by simp

theorem rollup_evidence_witness:
  "rr_count (hd (build_pr_insight_rollups plain_dash no_maps 40 price_signals))
     = length (filter (\<lambda>e. taxonomy_of e = rr_taxonomy (hd (build_pr_insight_rollups plain_dash no_maps 40 price_signals))
         \<and> rollup_label e = rr_label (hd (build_pr_insight_rollups plain_dash no_maps 40 price_signals))) price_signals)"
proof -
  let ?rows = "build_pr_insight_rollups plain_dash no_maps 40 price_signals"
  have "?rows \<noteq> []"
    by (simp add: build_pr_insight_rollups_def groups_of_eq price_signals_def first_occ_def)
  then have "hd ?rows \<in> set ?rows" by (rule hd_in_set)
  then show ?thesis using rollup_evidence [of "hd ?rows" plain_dash no_maps 40 price_signals] by blast
qed

theorem date_range_is_inclusive_witness:
  "\<not> meta_in_scope plain_dash None None (Some (isoformat (2024, 1, 1))) (Some (isoformat (2024, 2, 29)))
     [(u ''date'', JStr (isoformat (2024, 3, 1) @ u ''T10:00''))]"
  using date_range_is_inclusive [of "(2024, 1, 1)" "(2024, 2, 29)" "(2024, 3, 1)"
      "[(u ''date'', JStr (isoformat (2024, 3, 1) @ u ''T10:00''))]" "u ''T10:00''" plain_dash]
  by (simp add: days_in_month_def is_leap_def)
end
