(* ===== verification/Synthesis_Gates.thy ===== *)
theory Synthesis_Gates
  imports Dashboard_Blocks
begin

text \<open>
  The gates in front of the language model (\<^verbatim>\<open>data_readiness_service.py\<close>,
  \<^verbatim>\<open>evidence_driven_bundle.py\<close>): the strict checklist, the coverage score, the warnings, and
  what is missing when the model is not asked.
\<close>

section \<open>The context\<close>

text \<open>
  The evidence of a study as the gates read it. \<^verbatim>\<open>entity_row_count\<close> and \<^verbatim>\<open>evidence_quotes_count\<close> are
  keys that not every caller sets; the quotes of a dashboard and of a portrait differ in their fields.
\<close>

record 'q pr_context =
  cx_interviews :: nat
  cx_topics :: "(pystr \<times> nat) list"
  cx_problems :: "(pystr \<times> nat) list"
  cx_risks :: "(pystr \<times> nat) list"
  cx_patterns :: "(pystr \<times> nat) list"
  cx_insights :: "dash_insight list"
  cx_quotes :: "'q list"
  cx_entities :: "nat option"
  cx_evidence :: "nat option"

definition or_default :: "nat \<Rightarrow> nat option \<Rightarrow> nat" where
  "or_default d x = (case x of None \<Rightarrow> d | Some n \<Rightarrow> n)"

definition evidence_quotes :: "('q, 'm) pr_context_scheme \<Rightarrow> nat" where
  "evidence_quotes c = or_default (length (cx_quotes c)) (cx_evidence c)"

definition translated :: "pystr \<Rightarrow> pystr \<Rightarrow> pystr \<Rightarrow> pystr \<Rightarrow> pystr" where
  "translated lang ru uz en =
     (let lg = take 8 (ascii_lower (strip (or_else lang (u ''ru'')))) in
      if lg = u ''uz'' then uz else if lg = u ''en'' then en else ru)"

section \<open>Strict gates\<close>

definition MIN_INTERVIEWS_STRICT :: nat where "MIN_INTERVIEWS_STRICT = 10"
definition MIN_ENTITY_ROWS_STRICT :: nat where "MIN_ENTITY_ROWS_STRICT = 50"
definition MIN_EVIDENCE_QUOTES_STRICT :: nat where "MIN_EVIDENCE_QUOTES_STRICT = 12"
definition MIN_RISK_PROBLEM_VOLUME_STRICT :: nat where "MIN_RISK_PROBLEM_VOLUME_STRICT = 18"

record gate_item =
  gi_id :: pystr
  gi_label :: pystr
  gi_passed :: bool
  gi_current :: nat
  gi_threshold :: nat

record strict_readiness =
  sd_ready :: bool
  sd_checklist :: "gate_item list"
  sd_message :: pystr

definition bar_volume :: "(pystr \<times> nat) list \<Rightarrow> nat" where
  "bar_volume rows = sum_list (map snd rows)"

definition gate :: "string \<Rightarrow> pystr \<Rightarrow> nat \<Rightarrow> nat \<Rightarrow> gate_item" where
  "gate i label cur threshold = \<lparr>gi_id = u i, gi_label = label, gi_passed = threshold \<le> cur,
     gi_current = cur, gi_threshold = threshold\<rparr>"

definition strict_checklist :: "pystr \<Rightarrow> ('q, 'm) pr_context_scheme \<Rightarrow> gate_item list" where
  "strict_checklist lang c =
     [gate ''interviews'' (translated lang [1048, 1085, 1090, 1077, 1088, 1074, 1100, 1102, 32, 40, 117,
       110, 105, 116, 115, 32, 47, 32, 1080, 1089, 1090, 1086, 1095, 1085, 1080, 1082, 1080,
       41] (u ''Intervyular'')
        (u ''Interviews (units / sources)'')) (cx_interviews c) MIN_INTERVIEWS_STRICT,
      gate ''entities'' (translated lang [1048, 1079, 1074, 1083, 1077, 1095, 1105, 1085, 1085, 1099, 1077,
       32, 1089, 1091, 1097, 1085, 1086, 1089, 1090, 1080, 32, 40, 1089, 1090, 1088, 1086, 1082, 1080,
       41] (u ''Ajratilgan obyektlar'')
        (u ''Extracted entity rows'')) (or_default 0 (cx_entities c)) MIN_ENTITY_ROWS_STRICT,
      gate ''evidence_quotes'' (translated lang [1044, 1086, 1082, 1072, 1079, 1072, 1090, 1077, 1083,
       1100, 1085, 1099, 1077, 32, 1094, 1080, 1090, 1072, 1090, 1099] (u ''Iqtiboslar'')
        (u ''Evidence quotes'')) (evidence_quotes c) MIN_EVIDENCE_QUOTES_STRICT,
      gate ''risk_problem_signals'' (translated lang [1057, 1080, 1075, 1085, 1072, 1083, 1099, 32, 1087,
       1088, 1086, 1073, 1083, 1077, 1084, 32, 1080, 32, 1088, 1080, 1089, 1082, 1086, 1074, 32, 40, 1086,
       1073, 1098, 1105, 1084, 32, 1087, 1086, 32, 1076, 1072, 1085, 1085, 1099, 1084, 41]
        (u ''Muammo va xavf signallari'') (u ''Problem + risk signal volume''))
        (bar_volume (cx_problems c) + bar_volume (cx_risks c)) MIN_RISK_PROBLEM_VOLUME_STRICT]"

definition assess_strict_pr_readiness :: "pystr \<Rightarrow> ('q, 'm) pr_context_scheme \<Rightarrow> strict_readiness" where
  "assess_strict_pr_readiness lang c =
     (let gates = strict_checklist lang c; ready = list_all gi_passed gates in
      \<lparr>sd_ready = ready, sd_checklist = gates,
       sd_message = (if ready then [] else translated lang
         [1053, 1072, 1073, 1086, 1088, 32, 1076, 1072, 1085, 1085, 1099, 1093, 32, 1077, 1097, 1105, 32,
       1085, 1077, 32, 1075, 1086, 1090, 1086, 1074, 32, 1076, 1083, 1103, 32, 1089, 1083, 1086, 1103, 32,
       1080, 1085, 1089, 1072, 1081, 1090, 1086, 1074, 32, 1080, 32, 1076, 1077, 1081, 1089, 1090, 1074,
       1080, 1081, 58, 32, 1074, 1099, 1087, 1086, 1083, 1085, 1080, 1090, 1077, 32, 1095, 1077, 1082,
       1083, 1080, 1089, 1090, 32, 1085, 1080, 1078, 1077, 32, 40, 1080, 1085, 1090, 1077, 1088, 1074,
       1100, 1102, 44, 32, 1080, 1079, 1074, 1083, 1077, 1095, 1077, 1085, 1080, 1077, 44, 32, 1094, 1080,
       1090, 1072, 1090, 1099, 41, 46]
         [73, 110, 115, 105, 103, 104, 116, 32, 118, 97, 32, 104, 97, 114, 97, 107, 97, 116, 32, 113, 97,
       116, 108, 97, 109, 105, 32, 117, 99, 104, 117, 110, 32, 109, 97, 700, 108, 117, 109, 111, 116, 108,
       97, 114, 32, 116, 111, 699, 108, 105, 113, 32, 101, 109, 97, 115, 32, 8212, 32, 112, 97, 115, 116,
       100, 97, 103, 105, 32, 114, 111, 699, 121, 120, 97, 116, 110, 105, 32, 98, 97, 106, 97, 114, 105,
       110, 103, 46]
         [68, 97, 116, 97, 115, 101, 116, 32, 105, 115, 32, 110, 111, 116, 32, 121, 101, 116, 32, 114, 101,
       97, 100, 121, 32, 102, 111, 114, 32, 105, 110, 115, 105, 103, 104, 116, 32, 97, 110, 100, 32, 97,
       99, 116, 105, 111, 110, 32, 108, 97, 121, 101, 114, 115, 32, 8212, 32, 99, 111, 109, 112, 108, 101,
       116, 101, 32, 116, 104, 101, 32, 99, 104, 101, 99, 107, 108, 105, 115, 116, 32, 98, 101, 108, 111,
       119, 46])\<rparr>)"

section \<open>Coverage\<close>

record data_readiness =
  dr_score :: rat
  dr_can :: bool
  dr_warnings :: "pystr list"
  dr_message :: pystr
  dr_interviews :: nat
  dr_signal :: bool
  dr_quotes :: nat

definition insufficient_synthesis_message :: "pystr \<Rightarrow> pystr" where
  "insufficient_synthesis_message lang = translated lang
     [1053, 1077, 1076, 1086, 1089, 1090, 1072, 1090, 1086, 1095, 1085, 1086, 32, 1076, 1072, 1085, 1085,
       1099, 1093, 32, 1076, 1083, 1103, 32, 1074, 1099, 1074, 1086, 1076, 1072, 46, 32, 1047, 1072, 1075,
       1088, 1091, 1079, 1080, 1090, 1077, 32, 1080, 32, 1086, 1073, 1088, 1072, 1073, 1086, 1090, 1072,
       1081, 1090, 1077, 32, 1080, 1085, 1090, 1077, 1088, 1074, 1100, 1102, 32, 40, 1080, 32, 1076, 1086,
       1078, 1076, 1080, 1090, 1077, 1089, 1100, 32, 1080, 1079, 1074, 1083, 1077, 1095, 1077, 1085, 1080,
       1103, 32, 1089, 1091, 1097, 1085, 1086, 1089, 1090, 1077, 1081, 41, 44, 32, 1079, 1072, 1090, 1077,
       1084, 32, 1089, 1092, 1086, 1088, 1084, 1080, 1088, 1091, 1081, 1090, 1077, 32, 1086, 1090, 1095,
       1105, 1090, 32, 1089, 1085, 1086, 1074, 1072, 46]
     [88, 117, 108, 111, 115, 97, 32, 117, 99, 104, 117, 110, 32, 121, 101, 116, 97, 114, 108, 105, 32,
       109, 97, 700, 108, 117, 109, 111, 116, 32, 121, 111, 39, 113, 46, 32, 73, 110, 116, 101, 114, 118,
       700, 121, 117, 108, 97, 114, 110, 105, 32, 121, 117, 107, 108, 97, 110, 103, 32, 118, 97, 32, 116,
       97, 104, 108, 105, 108, 32, 116, 117, 103, 97, 115, 104, 105, 110, 105, 32, 107, 117, 116, 105, 110,
       103, 44, 32, 107, 101, 121, 105, 110, 32, 113, 97, 121, 116, 97, 32, 117, 114, 105, 110, 105, 110,
       103, 46]
     (u ''Not enough data to draw conclusions. Upload and process interviews (wait for entity extraction), then retry.'')"

definition bars :: "('q, 'm) pr_context_scheme \<Rightarrow> nat" where
  "bars c = length (cx_topics c) + length (cx_problems c) + length (cx_risks c)"

definition build_data_warnings :: "('q, 'm) pr_context_scheme \<Rightarrow> pystr list" where
  "build_data_warnings c =
     (if cx_interviews c < 1 then [[1053, 1077, 1090, 32, 1080, 1085, 1090, 1077, 1088, 1074, 1100, 1102,
       32, 1074, 32, 1074, 1099, 1073, 1086, 1088, 1082, 1077, 32, 8212, 32, 1072, 1085, 1072, 1083, 1080,
       1090, 1080, 1082, 1072, 32, 1087, 1091, 1089, 1090, 1072, 46]]
      else if cx_interviews c < 10 then
        [[1052, 1072, 1083, 1086, 32, 1080, 1085, 1090, 1077, 1088, 1074, 1100, 1102, 32,
       40] @ digits (cx_interviews c)
          @ [41, 58, 32, 1076, 1083, 1103, 32, 1091, 1089, 1090, 1086, 1081, 1095, 1080, 1074, 1099, 1093,
       32, 1074, 1099, 1074, 1086, 1076, 1086, 1074, 32, 1086, 1073, 1099, 1095, 1085, 1086, 32, 1085,
       1091, 1078, 1085, 1072, 32, 1073, 1086, 1083, 1077, 1077, 32, 1096, 1080, 1088, 1086, 1082, 1072,
       1103, 32, 1074, 1099, 1073, 1086, 1088, 1082, 1072, 32, 40, 1086, 1088, 1080, 1077, 1085, 1090,
       1080, 1088, 32, 8212, 32, 1086, 1090, 32, 49, 48, 41, 46]]
      else []) @
     (if bars c < 1 \<and> length (cx_quotes c) < 1 then
        [[1053, 1077, 1090, 32, 1080, 1079, 1074, 1083, 1077, 1095, 1105, 1085, 1085, 1099, 1093, 32, 1090,
       1077, 1084, 44, 32, 1087, 1088, 1086, 1073, 1083, 1077, 1084, 44, 32, 1088, 1080, 1089, 1082, 1086,
       1074, 32, 1080, 32, 1094, 1080, 1090, 1072, 1090, 32, 8212, 32, 1087, 1088, 1086, 1074, 1077, 1088,
       1100, 1090, 1077, 44, 32, 1095, 1090, 1086, 32, 1080, 1089, 1090, 1086, 1095, 1085, 1080, 1082,
       1080, 32, 1086, 1073, 1088, 1072, 1073, 1086, 1090, 1072, 1085, 1099, 32, 40, 1086, 1095, 1077,
       1088, 1077, 1076, 1100, 44, 32, 1080, 1079, 1074, 1083, 1077, 1095, 1077, 1085, 1080, 1077, 32,
       1089, 1091, 1097, 1085, 1086, 1089, 1090, 1077, 1081, 41, 46]]
      else if bars c < 1 then
        [[1052, 1072, 1083, 1086, 32, 1089, 1090, 1088, 1091, 1082, 1090, 1091, 1088, 1080, 1088, 1086,
       1074, 1072, 1085, 1085, 1099, 1093, 32, 1090, 1077, 1084, 47, 1087, 1088, 1086, 1073, 1083, 1077,
       1084, 47, 1088, 1080, 1089, 1082, 1086, 1074, 32, 8212, 32, 1086, 1094, 1077, 1085, 1082, 1072, 32,
       1086, 1087, 1080, 1088, 1072, 1077, 1090, 1089, 1103, 32, 1074, 32, 1086, 1089, 1085, 1086, 1074,
       1085, 1086, 1084, 32, 1085, 1072, 32, 1094, 1080, 1090, 1072, 1090, 1099, 32, 1080, 32, 1095, 1072,
       1089, 1090, 1086, 1090, 1091, 32, 1089, 1083, 1086, 1074, 46]]
      else [])"

text \<open>\<^verbatim>\<open>min(1.0, n / d) * w\<close>.\<close>

definition weighted :: "nat \<Rightarrow> nat \<Rightarrow> rat \<Rightarrow> rat" where
  "weighted n d w = fl (min 1 (fl (of_nat n / of_nat d)) * fl w)"

definition raw_coverage :: "('q, 'm) pr_context_scheme \<Rightarrow> rat" where
  "raw_coverage c =
     py_round (min 1 (fl (fl (fl (weighted (cx_interviews c) 12 (3 / 10) + weighted (bars c) 18 (35 / 100))
       + weighted (length (cx_quotes c)) 16 (25 / 100))
       + weighted (length (cx_patterns c) + length (cx_insights c)) 14 (1 / 10)))) 2"

definition assess_synthesis_readiness :: "pystr \<Rightarrow> ('q, 'm) pr_context_scheme \<Rightarrow> data_readiness" where
  "assess_synthesis_readiness lang c =
     (let support = (0 < length (cx_quotes c) \<or> 0 < length (cx_patterns c) \<or> 0 < length (cx_insights c));
          sig = (0 < bars c \<or> support);
          can = (if cx_interviews c < 1 then False else if \<not> sig then False else True);
          cov = raw_coverage c
      in \<lparr>dr_score = (if can then cov else py_round (min cov (fl (2 / 10))) 2), dr_can = can,
          dr_warnings = build_data_warnings c,
          dr_message = (if can then [] else insufficient_synthesis_message lang),
          dr_interviews = cx_interviews c, dr_signal = sig, dr_quotes = length (cx_quotes c)\<rparr>)"

section \<open>The empty dashboard\<close>

definition bar_nonempty :: "(pystr \<times> nat) list \<Rightarrow> bool" where
  "bar_nonempty rows \<longleftrightarrow> list_ex (\<lambda>r. 0 < snd r) rows"

definition dashboard_empty_for_llm :: "('q, 'm) pr_context_scheme \<Rightarrow> bool \<times> pystr list" where
  "dashboard_empty_for_llm c =
     (let ic = cx_interviews c; ent = or_default 0 (cx_entities c); qn = length (cx_quotes c); eq = evidence_quotes c;
          topics = bar_nonempty (cx_topics c); none = (\<not> topics \<and> \<not> bar_nonempty (cx_problems c) \<and> \<not> bar_nonempty (cx_risks c))
      in (ic < 1 \<or> ent < 1 \<and> none \<or> qn < 2 \<and> eq < 2 \<and> \<not> topics,
          (if ic < 1 then [[1084, 1072, 1083, 1086, 32, 1080, 1085, 1090, 1077, 1088, 1074, 1100,
       1102]] else [])
          @ (if ent < 1 then [[1085, 1077, 1090, 32, 1080, 1079, 1074, 1083, 1077, 1095, 1105, 1085, 1085,
       1099, 1093, 32, 1089, 1091, 1097, 1085, 1086, 1089, 1090, 1077, 1081]] else [])
          @ (if qn < 2 \<and> eq < 2 then [[1085, 1077, 1076, 1086, 1089, 1090, 1072, 1090, 1086, 1095,
       1085, 1086, 32, 1094, 1080, 1090, 1072, 1090]] else [])
          @ (if none then [[1085, 1077, 1090, 32, 1087, 1088, 1086, 1073, 1083, 1077, 1084, 47, 1088, 1080,
       1089, 1082, 1086, 1074, 47, 1090, 1077, 1084, 32, 1074, 32, 1072, 1075, 1088, 1077, 1075, 1072,
       1090, 1072, 1093]] else [])))"

text \<open>The keys of \<^verbatim>\<open>insufficient_data\<close> but its constant status: message and what is missing.\<close>

definition insufficient_data_payload :: "pystr \<Rightarrow> pystr list \<Rightarrow> pystr \<times> pystr list" where
  "insufficient_data_payload lang missing =
     (let lg = take 8 (ascii_lower (strip (or_else lang (u ''ru'')))) in
      (if str_starts_with (u ''ru'') lg then [1053, 1077, 1076, 1086, 1089, 1090, 1072, 1090, 1086, 1095,
       1085, 1086, 32, 1076, 1072, 1085, 1085, 1099, 1093, 32, 1076, 1083, 1103, 32, 1074, 1099, 1074,
       1086, 1076, 1072]
       else if str_starts_with (u ''uz'') lg then [77, 97, 700, 108, 117, 109, 111, 116, 32, 121, 101, 116,
       97, 114, 108, 105, 32, 101, 109, 97, 115] else u ''Insufficient data for synthesis'',
       if missing = [] then [u ''unknown''] else missing))"

definition insufficient_missing_from_readiness :: "bool \<Rightarrow> gate_item list \<Rightarrow> bool \<Rightarrow> pystr list" where
  "insufficient_missing_from_readiness strict_ready gates can =
     first_occ ((if \<not> can then [[1084, 1072, 1083, 1086, 32, 1089, 1080, 1075, 1085, 1072, 1083, 1072,
       32, 1076, 1083, 1103, 32, 1089, 1080, 1085, 1090, 1077, 1079, 1072]] else [])
       @ (if \<not> strict_ready then filter (\<lambda>l. l \<noteq> []) (map (\<lambda>g. strip (or_else (gi_label g) (gi_id g)))
            (filter (\<lambda>g. \<not> gi_passed g) gates)) else []))"

definition pr_quality_warning :: "('q, 'm) pr_context_scheme \<Rightarrow> pystr option" where
  "pr_quality_warning c =
     (if 10 \<le> cx_interviews c then None
      else if bar_nonempty (cx_problems c) \<or> bar_nonempty (cx_risks c) then None
      else Some [1053, 1077, 1076, 1086, 1089, 1090, 1072, 1090, 1086, 1095, 1085, 1086, 32, 1076, 1072,
       1085, 1085, 1099, 1093, 32, 1076, 1083, 1103, 32, 1082, 1072, 1095, 1077, 1089, 1090, 1074, 1077,
       1085, 1085, 1086, 1075, 1086, 32, 1072, 1085, 1072, 1083, 1080, 1079, 1072])"

section \<open>Facts\<close>

lemma weighted_bounds: "0 \<le> w \<Longrightarrow> w \<le> 1 \<Longrightarrow> 0 \<le> weighted n d w \<and> weighted n d w \<le> 1"
proof -
  assume w: "0 \<le> w" "w \<le> 1"
  have "0 \<le> min 1 (fl (of_nat n / of_nat d))" "min 1 (fl (of_nat n / of_nat d)) \<le> 1"
    using fl_nonneg [of "of_nat n / of_nat d"] by auto
  moreover have "0 \<le> fl w" "fl w \<le> 1" using w fl_0_1 by blast+
  ultimately show ?thesis
    unfolding weighted_def by (intro fl_0_1) (auto intro: mult_le_one)
qed

lemma raw_coverage_bounds: "0 \<le> raw_coverage c \<and> raw_coverage c \<le> 1"
proof -
  have nn: "0 \<le> weighted n d (3 / 10)" "0 \<le> weighted n d (35 / 100)" "0 \<le> weighted n d (25 / 100)" "0 \<le> weighted n d (1 / 10)"
    for n d using weighted_bounds by simp_all
  show ?thesis
    unfolding raw_coverage_def using py_round_le_int [of _ 1] py_round_nonneg fl_nonneg nn by (simp add: add_nonneg_nonneg)
qed

text \<open>Two decimals of a number of at most \<open>fl (2 / 10)\<close> are at most that.\<close>

lemma py_round_fifth:
  assumes "0 \<le> x" "x \<le> fl (2 / 10)"
  shows "py_round x 2 \<le> fl (2 / 10)"
proof -
  define k where "k = rne (x * 10 ^ 2)"
  have near: "\<bar>fl (2 / 10) - 2 / 10\<bar> \<le> 1 / 1000000" by (rule order_trans [OF fl_error]) simp_all
  have "x * 10 ^ 2 - 20 < 1 / 2" using assms(2) near unfolding abs_le_iff by (simp add: algebra_simps)
  then have "x * 10 ^ 2 \<le> 20 \<or> \<bar>x * 10 ^ 2 - 20\<bar> < 1 / 2" unfolding abs_less_iff by linarith
  then have k: "k \<le> 20" unfolding k_def using rne_le [of "x * 10 ^ 2" 20] rne_near [of "x * 10 ^ 2" 20]
    unfolding of_int_numeral by auto
  have k0: "0 \<le> k" unfolding k_def using assms(1) by (intro rne_ge) simp
  show ?thesis
  proof (cases "k = 20")
    case True
    then show ?thesis unfolding py_round_def k_def [symmetric] by simp
  next
    case False
    then have "of_int k \<le> (19 :: rat)" using k of_int_le_iff [of k 19, where ?'a = rat] by simp
    moreover have "\<bar>fl (of_int k / 10 ^ 2) - of_int k / 10 ^ 2\<bar> \<le> of_int k / 10 ^ 2 / 2 ^ 53"
      using k0 by (intro fl_error) simp
    ultimately show ?thesis unfolding py_round_def k_def [symmetric] using near unfolding abs_le_iff by simp
  qed
qed

text \<open>
  The coverage score is between 0 and 1, whatever the evidence, and a study that may not be
  synthesised scores at most 0.2.
\<close>

theorem coverage_score_bounds:
  "0 \<le> dr_score (assess_synthesis_readiness lang c) \<and> dr_score (assess_synthesis_readiness lang c) \<le> 1
   \<and> (dr_can (assess_synthesis_readiness lang c) \<or> dr_score (assess_synthesis_readiness lang c) \<le> fl (2 / 10))"
proof -
  define m where "m = min (raw_coverage c) (fl (2 / 10))"
  have m: "0 \<le> m" "m \<le> fl (2 / 10)" using raw_coverage_bounds [of c] fl_nonneg [of "2 / 10"] by (auto simp: m_def)
  have "fl (2 / 10) \<le> 1" using fl_0_1 [of "2 / 10"] by simp
  then have "py_round m 2 \<le> 1" using py_round_fifth [OF m] by linarith
  moreover have "dr_score (assess_synthesis_readiness lang c)
      = (if dr_can (assess_synthesis_readiness lang c) then raw_coverage c else py_round m 2)"
    unfolding m_def assess_synthesis_readiness_def Let_def by simp
  ultimately show ?thesis
    using raw_coverage_bounds [of c] py_round_fifth [OF m] py_round_nonneg [OF m(1), of 2] by simp
qed

lemma strict_ready_iff:
  "sd_ready (assess_strict_pr_readiness lang c) \<longleftrightarrow>
     10 \<le> cx_interviews c \<and> 50 \<le> or_default 0 (cx_entities c) \<and> 12 \<le> evidence_quotes c
     \<and> 18 \<le> bar_volume (cx_problems c) + bar_volume (cx_risks c)"
  by (simp add: assess_strict_pr_readiness_def strict_checklist_def gate_def Let_def MIN_INTERVIEWS_STRICT_def
      MIN_ENTITY_ROWS_STRICT_def MIN_EVIDENCE_QUOTES_STRICT_def MIN_RISK_PROBLEM_VOLUME_STRICT_def)

text \<open>A study that passes the strict gates passes the other two: they decide alone.\<close>

lemma strict_implies_others:
  assumes "sd_ready (assess_strict_pr_readiness lang c)"
  shows "dr_can (assess_synthesis_readiness lang c)" "\<not> fst (dashboard_empty_for_llm c)"
proof -
  have "cx_problems c \<noteq> [] \<or> cx_risks c \<noteq> []" using assms unfolding strict_ready_iff by (auto simp: bar_volume_def)
  then have "0 < bars c" by (auto simp: bars_def)
  then show "dr_can (assess_synthesis_readiness lang c)" "\<not> fst (dashboard_empty_for_llm c)"
    using assms unfolding strict_ready_iff by (simp_all add: assess_synthesis_readiness_def dashboard_empty_for_llm_def Let_def)
qed

end
