(* ===== verification/Portrait.thy ===== *)
theory Portrait
  imports Synthesis_Gates "HOL-Library.While_Combinator"
begin

text \<open>
  The audience portrait (\<^verbatim>\<open>audience_portrait_service.py\<close>): the evidence of a study, its quotes
  spread over the sources, the gates, the answer of the model and the quotes behind each field. The
  prompts are left out: the model is asked with the context itself.
\<close>

section \<open>Quotes spread over the sources\<close>

record portrait_quote =
  pq_type :: pystr
  pq_title :: pystr
  pq_text :: pystr
  pq_entity :: uuid
  pq_document :: "uuid option"
  pq_audio :: "uuid option"
  pq_transcript :: "uuid option"
  pq_chunk :: uuid
  pq_segment :: "(pystr \<times> pystr) list"

definition source_bucket :: "uuid option \<Rightarrow> uuid option \<Rightarrow> uuid option \<Rightarrow> pystr \<Rightarrow> pystr" where
  "source_bucket d a t none =
     (case d of Some i \<Rightarrow> u ''d:'' @ uuid_str i
      | None \<Rightarrow> (case a of Some i \<Rightarrow> u ''a:'' @ uuid_str i
        | None \<Rightarrow> (case t of Some i \<Rightarrow> u ''t:'' @ uuid_str i | None \<Rightarrow> none)))"

definition quote_source_bucket :: "portrait_quote \<Rightarrow> pystr" where
  "quote_source_bucket q = source_bucket (pq_document q) (pq_audio q) (pq_transcript q) (u ''z:unknown'')"

text \<open>
  The inner \<^verbatim>\<open>for\<close> of a round takes one quote of every bucket that has one left and stops when
  the limit is reached; its second result is \<^verbatim>\<open>progressed\<close>. The outer \<^verbatim>\<open>while\<close> is \<open>while_option\<close>,
  so a loop that would not end has the value \<open>None\<close>.
\<close>

fun one_round :: "nat \<Rightarrow> nat \<Rightarrow> 'q list list \<Rightarrow> 'q list \<Rightarrow> 'q list \<times> bool" where
  "one_round limit i [] out = (out, False)"
| "one_round limit i (b # bs) out =
     (if i < length b
      then (let out' = out @ [b ! i] in
        if limit \<le> length out' then (out', True) else (fst (one_round limit i bs out'), True))
      else one_round limit i bs out)"

definition stratify_loop :: "nat \<Rightarrow> 'q list list \<Rightarrow> ('q list \<times> nat \<times> bool) option" where
  "stratify_loop limit bs = while_option (\<lambda>(out, i, go). go \<and> length out < limit)
     (\<lambda>(out, i, go). case one_round limit i bs out of (out', progressed) \<Rightarrow>
        (out', if progressed then i + 1 else i, progressed)) ([], 0, True)"

definition quote_buckets :: "portrait_quote list \<Rightarrow> portrait_quote list list" where
  "quote_buckets qs = map snd (sort_key (\<lambda>(k, g). (str_starts_with (u ''z:'') k, k)) (groups_of quote_source_bucket qs))"

definition stratify_quotes_by_source :: "nat \<Rightarrow> portrait_quote list \<Rightarrow> portrait_quote list option" where
  "stratify_quotes_by_source limit qs = map_option fst (stratify_loop limit (quote_buckets qs))"

section \<open>The evidence of a study\<close>

definition QUOTE_ENTITY_TYPES :: "entity_type list" where
  "QUOTE_ENTITY_TYPES = [PROBLEM, PAIN_POINT, USER_NEED, TRUST_ISSUE, SENTIMENT_SIGNAL, RISK, BEHAVIOR_PATTERN,
     ADOPTION_BARRIER]"

definition MAX_ENTITIES_LOAD :: nat where "MAX_ENTITIES_LOAD = 4000"
definition MAX_QUOTES :: nat where "MAX_QUOTES = 64"
definition MAX_QUOTE_CHARS :: nat where "MAX_QUOTE_CHARS = 380"

definition segment_object :: "dash \<Rightarrow> items \<Rightarrow> (pystr \<times> pystr) list" where
  "segment_object da m = filter (\<lambda>(k, v). v \<noteq> [] \<and> v \<noteq> UNKNOWN)
     (map (\<lambda>k. (k, segment_label da m k)) DASHBOARD_GROUP_BY_FIELDS)"

definition quote_of :: "dash \<Rightarrow> maps \<Rightarrow> extracted_entity \<Rightarrow> portrait_quote" where
  "quote_of da mp e =
     \<lparr>pq_type = entity_type_value (en_type e), pq_title = take 220 (en_title e),
      pq_text = take MAX_QUOTE_CHARS (entity_quote MAX_QUOTE_CHARS e), pq_entity = en_id e,
      pq_document = en_document_id e, pq_audio = en_audio_id e, pq_transcript = en_transcript_id e,
      pq_chunk = en_chunk_id e, pq_segment = segment_object da (meta_for_entity mp e)\<rparr>"

definition quote_candidates :: "dash \<Rightarrow> maps \<Rightarrow> extracted_entity list \<Rightarrow> portrait_quote list" where
  "quote_candidates da mp es = map (quote_of da mp)
     (filter (\<lambda>e. en_type e \<in> set QUOTE_ENTITY_TYPES \<and> 12 \<le> length (entity_quote MAX_QUOTE_CHARS e)) es)"

text \<open>For each source its three most frequent titles.\<close>

definition top_titles :: "extracted_entity list \<Rightarrow> pystr \<Rightarrow> pystr list" where
  "top_titles es k = map fst (most_common 3 (counter (map (\<lambda>e. take 220 (strip (en_title e)))
     (filter (\<lambda>e. take 220 (strip (en_title e)) \<noteq> []
        \<and> source_bucket (en_document_id e) (en_audio_id e) (en_transcript_id e) [] = k) es))))"

definition build_interview_evidence_summaries :: "extracted_entity list \<Rightarrow> uuid list \<Rightarrow> uuid list
    \<Rightarrow> (source_kind \<times> uuid \<times> pystr list) list" where
  "build_interview_evidence_summaries es dids aids =
     take 24 (map (\<lambda>i. (Document, i, top_titles es (u ''d:'' @ uuid_str i))) dids
       @ map (\<lambda>i. (Audio, i, top_titles es (u ''a:'' @ uuid_str i))) aids)"

record portrait_context = "portrait_quote pr_context" +
  pc_audience :: audience
  pc_words :: "(pystr \<times> nat) list"
  pc_sentiment :: items
  pc_rollups :: "rollup_row list"
  pc_summaries :: "(source_kind \<times> uuid \<times> pystr list) list"

definition sentiment_items :: "nat \<Rightarrow> nat \<Rightarrow> pystr \<Rightarrow> items" where
  "sentiment_items p n b = [(u ''positive_signals'', JInt (int p)), (u ''negative_signals'', JInt (int n)),
     (u ''balance'', JStr b)]"

definition has_evidence :: "extracted_entity \<Rightarrow> bool" where
  "has_evidence e \<longleftrightarrow> 8 \<le> length (strip (cd_quote (en_candidate e))) \<or> 12 \<le> length (strip (en_content e))"

definition count_units_for_documents :: "uuid list \<Rightarrow> world \<Rightarrow> nat" where
  "count_units_for_documents dids w = length (filter (\<lambda>i. iu_document_id i \<in> set dids) (units w))"

text \<open>The oldest 4000 canonical entities of the sources.\<close>

definition load_entities :: "corpus \<Rightarrow> world \<Rightarrow> extracted_entity list" where
  "load_entities co w = take MAX_ENTITIES_LOAD (sort_key en_created_at (corpus_entities co w))"

definition empty_portrait_context :: "audience \<Rightarrow> portrait_context" where
  "empty_portrait_context a = \<lparr>cx_interviews = 0, cx_topics = [], cx_problems = [], cx_risks = [], cx_patterns = [],
     cx_insights = [], cx_quotes = [], cx_entities = Some 0, cx_evidence = Some 0, pc_audience = a, pc_words = [],
     pc_sentiment = sentiment_items 0 0 (u ''unknown''), pc_rollups = [], pc_summaries = []\<rparr>"

definition build_portrait_context :: "env \<Rightarrow> dash \<Rightarrow> corpus \<Rightarrow> pystr option \<Rightarrow> pystr option \<Rightarrow> world
    \<Rightarrow> portrait_context option" where
  "build_portrait_context env da co gb sv w =
     (let dids = co_documents co; aids = co_audios co; mp = load_metadata_maps da dids aids w;
          segmented = (groups_by gb \<and> given sv);
          inside = (\<lambda>m. \<not> segmented \<or> segment_label da m (the gb) = the sv);
          ms = filter inside (map (meta_at (mp_doc mp)) dids @ map (meta_at (mp_audio mp)) aids);
          aud = audience_snapshot_from_metas da ms
      in if dids = [] \<and> aids = [] then Some (empty_portrait_context aud)
      else (let es = filter (\<lambda>e. inside (meta_for_entity mp e)) (load_entities co w);
                agg = aggregate_entities_block env es;
                seg_docs = filter (\<lambda>i. inside (meta_at (mp_doc mp) i)) dids;
                seg_audios = filter (\<lambda>i. inside (meta_at (mp_audio mp) i)) aids;
                tids = map fst (filter (\<lambda>(t, a). a \<in> set seg_audios) (mp_transcript mp));
                words = word_frequency_for_chunks env da 36 False
                  (filter (text_chunks_scope_and (co_project co) seg_docs seg_audios tids) (chunks w));
                n_units = count_units_for_documents dids w;
                n = (if co_multi co \<and> 0 < n_units then n_units + length aids else length ms)
            in case stratify_quotes_by_source MAX_QUOTES (quote_candidates da mp es) of
                 None \<Rightarrow> None
               | Some qs \<Rightarrow> Some \<lparr>cx_interviews = n, cx_topics = take 15 (bk_topics agg),
                   cx_problems = take 15 (bk_problems agg), cx_risks = take 12 (bk_risks agg),
                   cx_patterns = take 12 (bk_patterns agg), cx_insights = take 18 (bk_insights agg), cx_quotes = qs,
                   cx_entities = Some (length es), cx_evidence = Some (counted has_evidence es),
                   pc_audience = aud\<lparr>au_count := n\<rparr>, pc_words = take 30 words,
                   pc_sentiment = sentiment_items (bk_pos agg) (bk_neg agg) (bk_balance agg),
                   pc_rollups = build_pr_insight_rollups da mp 18 es,
                   pc_summaries = build_interview_evidence_summaries es dids aids\<rparr>))"

section \<open>The snapshot\<close>

text \<open>
  \<^verbatim>\<open>float(d.get(k) or 0.0)\<close> of a number. The rows of the context have a label and a value only, so the
  share of every row is 0.
\<close>

definition float_item :: "items \<Rightarrow> string \<Rightarrow> rat" where
  "float_item m k = (case item m (u k) of JFloat (Finite x) \<Rightarrow> x | JInt n \<Rightarrow> fl (of_int n) | _ \<Rightarrow> 0)"

record snapshot =
  sn_topics :: "(pystr \<times> nat \<times> rat) list"
  sn_problems :: "(pystr \<times> nat \<times> rat) list"
  sn_risks :: "(pystr \<times> nat \<times> rat) list"
  sn_positive :: rat
  sn_negative :: rat
  sn_neutral :: rat
  sn_interviews :: nat

definition dashboard_first_bundle :: "portrait_context \<Rightarrow> snapshot" where
  "dashboard_first_bundle c =
     (let s = pc_sentiment c; p = float_item s ''positive_pct''; n = float_item s ''negative_pct'';
          given_rest = float_item s ''neutralish_pct'';
          rest = (if given_rest \<noteq> 0 then given_rest else max 0 (fl (fl (100 - p) - n)));
          rows = (\<lambda>l. take 20 (map (\<lambda>(k, v). (k, v, 0)) l))
      in \<lparr>sn_topics = rows (cx_topics c), sn_problems = rows (cx_problems c), sn_risks = rows (cx_risks c),
          sn_positive = p, sn_negative = n, sn_neutral = py_round rest 1, sn_interviews = cx_interviews c\<rparr>)"

section \<open>Generation\<close>

definition PORTRAIT_FIELDS :: "(pystr \<times> entity_type list) list" where
  "PORTRAIT_FIELDS =
     [(u ''decision_making'', [BEHAVIOR_PATTERN, OPEN_QUESTION, HYPOTHESIS, ADOPTION_BARRIER]),
      (u ''fears'', [RISK, PAIN_POINT, ADOPTION_BARRIER, TRUST_ISSUE]),
      (u ''trust_drivers'', [TRUST_ISSUE, SENTIMENT_SIGNAL, BEHAVIOR_PATTERN]),
      (u ''pain_points'', [PROBLEM, PAIN_POINT, USER_NEED, ADOPTION_BARRIER]),
      (u ''language_style'', [SENTIMENT_SIGNAL, BEHAVIOR_PATTERN, USER_NEED]),
      (u ''brand_perception'', [TRUST_ISSUE, RECOMMENDATION, SENTIMENT_SIGNAL]),
      (u ''emotional_triggers'', [SENTIMENT_SIGNAL, RISK, PROBLEM, PAIN_POINT])]"

type_synonym portrait = "(pystr \<times> pystr) list"

definition static_portrait_blocked :: "pystr \<Rightarrow> portrait" where
  "static_portrait_blocked msg = map (\<lambda>(k, ts). (k, msg)) PORTRAIT_FIELDS"

record grounded =
  gd_insight :: pystr
  gd_quote :: pystr
  gd_entity :: uuid
  gd_document :: "uuid option"
  gd_transcript :: "uuid option"
  gd_audio :: "uuid option"

definition grounded_of :: "portrait_quote \<Rightarrow> grounded" where
  "grounded_of q = \<lparr>gd_insight = take 200 (pq_title q), gd_quote = take 420 (pq_text q), gd_entity = pq_entity q,
     gd_document = pq_document q, gd_transcript = pq_transcript q, gd_audio = pq_audio q\<rparr>"

text \<open>The loop over the quotes adds each to every field of its type that has fewer than five.\<close>

definition add_to_fields :: "portrait_quote \<Rightarrow> (pystr \<times> entity_type list \<times> grounded list) list
    \<Rightarrow> (pystr \<times> entity_type list \<times> grounded list) list" where
  "add_to_fields q fs =
     (case EntityType_of (pq_type q) of
        None \<Rightarrow> fs
      | Some et \<Rightarrow> map (\<lambda>(k, ts, gs). (k, ts, if et \<in> set ts \<and> length gs < 5 then gs @ [grounded_of q] else gs)) fs)"

definition map_quotes_to_portrait_fields :: "portrait_quote list \<Rightarrow> (pystr \<times> grounded list) list" where
  "map_quotes_to_portrait_fields qs = map (\<lambda>(k, ts, gs). (k, take 4 gs))
     (fold add_to_fields qs (map (\<lambda>(k, ts). (k, ts, [])) PORTRAIT_FIELDS))"

text \<open>
  The model: its answer to a context in a language, or the exception of the call; \<^verbatim>\<open>json.loads\<close>,
  which raises a \<^verbatim>\<open>ValueError\<close> on a text that is not JSON.
\<close>

record 'c chat =
  ct_answer :: "'c \<Rightarrow> pystr \<Rightarrow> exc + pystr option"
  ct_loads :: "pystr \<Rightarrow> json option"
  ct_error :: "pystr \<Rightarrow> pystr"

definition loads :: "('c, 'm) chat_scheme \<Rightarrow> pystr \<Rightarrow> exc + json" where
  "loads ct raw = (case ct_loads ct raw of None \<Rightarrow> Inl (Value_error (ct_error ct raw)) | Some v \<Rightarrow> Inr v)"

definition parse_portrait_json :: "dash \<Rightarrow> ('c, 'm) chat_scheme \<Rightarrow> pystr \<Rightarrow> exc + portrait" where
  "parse_portrait_json da ct raw =
     (case loads ct raw of
        Inl e \<Rightarrow> Inl e
      | Inr (JObj kvs) \<Rightarrow> Inr (map (\<lambda>(k, ts). (k, case item kvs k of JNull \<Rightarrow> [] | v \<Rightarrow> strip (str_of da v))) PORTRAIT_FIELDS)
      | Inr _ \<Rightarrow> Inl (Value_error (u ''portrait_not_object'')))"

definition asked :: "env \<Rightarrow> ('c, 'm) chat_scheme \<Rightarrow> 'c \<Rightarrow> pystr \<Rightarrow> exc + pystr" where
  "asked env ct c lang =
     (if strip (text_of (openai_api_key (conf env))) = [] then Inl (Value_error (u ''openai_api_key_missing''))
      else case ct_answer ct c lang of
        Inl e \<Rightarrow> Inl e
      | Inr raw \<Rightarrow> if text_of raw = [] then Inl (Value_error (u ''empty_llm_response'')) else Inr (text_of raw))"

definition run_portrait_generation_sync :: "env \<Rightarrow> dash \<Rightarrow> (portrait_context, 'm) chat_scheme \<Rightarrow> portrait_context \<Rightarrow> pystr
    \<Rightarrow> exc + portrait" where
  "run_portrait_generation_sync env da ct c lang =
     (case asked env ct c lang of Inl e \<Rightarrow> Inl e | Inr raw \<Rightarrow> parse_portrait_json da ct raw)"

record portrait_meta =
  pm_interviews :: nat
  pm_topics :: nat
  pm_quotes :: nat
  pm_blocked :: bool
  pm_score :: rat
  pm_grounding :: "(pystr \<times> grounded list) list"
  pm_warnings :: "pystr list"
  pm_message :: "pystr option"
  pm_strict :: bool
  pm_gates :: "gate_item list"
  pm_snapshot :: snapshot
  pm_insufficient :: "(pystr \<times> pystr list) option"

definition no_grounding :: "(pystr \<times> grounded list) list" where
  "no_grounding = map (\<lambda>(k, ts). (k, [])) PORTRAIT_FIELDS"

definition portrait_meta_of :: "portrait_context \<Rightarrow> bool \<Rightarrow> data_readiness \<Rightarrow> (pystr \<times> grounded list) list
    \<Rightarrow> pystr list \<Rightarrow> pystr option \<Rightarrow> bool \<Rightarrow> gate_item list \<Rightarrow> (pystr \<times> pystr list) option \<Rightarrow> portrait_meta" where
  "portrait_meta_of c blocked r grounding warnings msg strict gates ins =
     \<lparr>pm_interviews = cx_interviews c, pm_topics = length (cx_topics c), pm_quotes = length (cx_quotes c),
      pm_blocked = blocked, pm_score = dr_score r, pm_grounding = grounding, pm_warnings = warnings, pm_message = msg,
      pm_strict = strict, pm_gates = gates, pm_snapshot = dashboard_first_bundle c, pm_insufficient = ins\<rparr>"

definition generate_portrait :: "env \<Rightarrow> dash \<Rightarrow> (portrait_context, 'm) chat_scheme \<Rightarrow> pystr \<Rightarrow> portrait_context
    \<Rightarrow> exc + portrait \<times> portrait_meta" where
  "generate_portrait env da ct lang c =
     (let r = assess_synthesis_readiness lang c; s = assess_strict_pr_readiness lang c in
      if fst (dashboard_empty_for_llm c) then
        (let ins = insufficient_data_payload lang (snd (dashboard_empty_for_llm c)) in
         Inr (static_portrait_blocked (fst ins), portrait_meta_of c True r no_grounding
           (first_occ (dr_warnings r @ [fst ins])) (Some (fst ins)) False [] (Some ins)))
      else if \<not> dr_can r \<or> \<not> sd_ready s then
        (let msg = (if \<not> sd_ready s then sd_message s else insufficient_synthesis_message lang);
             ins = insufficient_data_payload lang (insufficient_missing_from_readiness (sd_ready s) (sd_checklist s) (dr_can r))
         in Inr (static_portrait_blocked msg, portrait_meta_of c True r no_grounding
              (first_occ (dr_warnings r @ listed (sd_message s))) (Some msg) (sd_ready s) (sd_checklist s) (Some ins)))
      else case run_portrait_generation_sync env da ct c lang of
        Inl e \<Rightarrow> Inl e
      | Inr p \<Rightarrow> Inr (p, portrait_meta_of c False r (map_quotes_to_portrait_fields (cx_quotes c)) (dr_warnings r) None
          (sd_ready s) (sd_checklist s) None))"

definition generate_audience_portrait :: "env \<Rightarrow> dash \<Rightarrow> (portrait_context, 'm) chat_scheme \<Rightarrow> corpus \<Rightarrow> pystr option
    \<Rightarrow> pystr option \<Rightarrow> pystr \<Rightarrow> world \<Rightarrow> (exc + portrait \<times> portrait_meta \<times> portrait_context) option" where
  "generate_audience_portrait env da ct co gb sv lang w =
     (case build_portrait_context env da co gb sv w of
        None \<Rightarrow> None
      | Some c \<Rightarrow> Some (case generate_portrait env da ct lang c of
          Inl e \<Rightarrow> Inl e | Inr (p, m) \<Rightarrow> Inr (p, m, c)))"

section \<open>The loop over the rounds\<close>

definition round_quotes :: "nat \<Rightarrow> 'q list list \<Rightarrow> 'q list" where
  "round_quotes i bs = map (\<lambda>b. b ! i) (filter (\<lambda>b. i < length b) bs)"

definition rounds :: "nat \<Rightarrow> 'q list list \<Rightarrow> 'q list" where
  "rounds n bs = concat (map (\<lambda>i. round_quotes i bs) [0..<n])"

definition longest :: "'q list list \<Rightarrow> nat" where
  "longest bs = foldr max (map length bs) 0"

lemma longest_ge: "b \<in> set bs \<Longrightarrow> length b \<le> longest bs"
  by (induction bs) (auto simp: longest_def)

lemma rounds_Suc: "rounds (Suc n) bs = rounds n bs @ round_quotes n bs"
  by (simp add: rounds_def)

lemma rounds_split: "m \<le> n \<Longrightarrow> \<exists>r. rounds n bs = rounds m bs @ r"
  by (auto simp: rounds_def simp flip: concat_append map_append upt_add_eq_append dest!: le_Suc_ex)
     (metis concat_append map_append upt_add_eq_append zero_le)

lemma round_quotes_empty: "round_quotes i bs = [] \<Longrightarrow> i \<le> j \<Longrightarrow> round_quotes j bs = []"
  by (auto simp: round_quotes_def filter_empty_conv)

lemma rounds_end:
  assumes "round_quotes i bs = []" "i \<le> n"
  shows "rounds n bs = rounds i bs"
  using assms(2) by (induction n rule: dec_induct) (simp_all add: rounds_Suc round_quotes_empty [OF assms(1)])

lemma one_round_eq:
  "length out < limit \<Longrightarrow> one_round limit i bs out = (take limit (out @ round_quotes i bs), round_quotes i bs \<noteq> [])"
proof (induction bs arbitrary: out)
  case (Cons b bs)
  then show ?case by (auto simp: round_quotes_def Let_def take_Cons')
qed (simp add: round_quotes_def)

text \<open>The state of the loop: the quotes of the first rounds, up to the limit.\<close>

definition loop_state :: "nat \<Rightarrow> 'q list list \<Rightarrow> 'q list \<times> nat \<times> bool \<Rightarrow> bool" where
  "loop_state limit bs s \<longleftrightarrow> (case s of (out, i, go) \<Rightarrow>
     out = take limit (rounds i bs) \<and> i \<le> longest bs \<and> (\<not> go \<longrightarrow> round_quotes i bs = []))"

lemma round_in_range: "round_quotes i bs \<noteq> [] \<Longrightarrow> i < longest bs"
  using longest_ge by (fastforce simp: round_quotes_def filter_empty_conv)

lemma loop_step:
  assumes "loop_state limit bs (out, i, go)" "go" "length out < limit"
  shows "one_round limit i bs out = (take limit (rounds (Suc i) bs), round_quotes i bs \<noteq> [])"
    and "round_quotes i bs = [] \<Longrightarrow> take limit (rounds (Suc i) bs) = out"
proof -
  have "out = rounds i bs" using assms by (auto simp: loop_state_def)
  then show "one_round limit i bs out = (take limit (rounds (Suc i) bs), round_quotes i bs \<noteq> [])"
    "round_quotes i bs = [] \<Longrightarrow> take limit (rounds (Suc i) bs) = out"
    using assms one_round_eq [of out limit i bs] by (simp_all add: rounds_Suc)
qed

lemma loop_end:
  assumes "loop_state limit bs (out, i, go)" "\<not> (go \<and> length out < limit)"
  shows "out = take limit (rounds (longest bs) bs)"
proof (cases go)
  case True
  then have "limit \<le> length (rounds i bs)" using assms by (auto simp: loop_state_def)
  then show ?thesis using assms(1) rounds_split [of i "longest bs" bs] by (auto simp: loop_state_def)
next
  case False
  then show ?thesis using assms(1) rounds_end [of i bs "longest bs"] by (simp add: loop_state_def)
qed

lemma stratify_loop_ends: "map_option fst (stratify_loop limit bs) = Some (take limit (rounds (longest bs) bs))"
proof -
  let ?b = "\<lambda>(out, i, go). go \<and> length out < limit"
  let ?c = "\<lambda>(out, i, go). case one_round limit i bs out of (out', progressed) \<Rightarrow>
        (out', if progressed then i + 1 else i, progressed)"
  let ?f = "\<lambda>(out, i, go). if go then Suc (longest bs - i) else 0"
  have init: "loop_state limit bs ([], 0, True)" by (simp add: loop_state_def rounds_def)
  have step: "loop_state limit bs (?c s) \<and> ?f (?c s) < ?f s" if s: "loop_state limit bs s" "?b s" for s
  proof -
    obtain out i go where [simp]: "s = (out, i, go)" by (cases s)
    note st = loop_step [of limit bs out i go]
    show ?thesis
    proof (cases "round_quotes i bs = []")
      case True
      then show ?thesis using s st by (auto simp: loop_state_def)
    next
      case False
      then show ?thesis using s st round_in_range [OF False] by (auto simp: loop_state_def)
    qed
  qed
  obtain s where s: "while_option ?b ?c ([], 0, True) = Some s"
    using measure_while_option_Some [of "loop_state limit bs" ?b ?c ?f, OF step init] by blast
  have "loop_state limit bs s" using while_option_rule [OF _ s, of "loop_state limit bs"] step init by blast
  moreover have "\<not> ?b s" by (rule while_option_stop [OF s])
  moreover obtain out i go where s': "s = (out, i, go)" by (cases s)
  ultimately have "out = take limit (rounds (longest bs) bs)" using loop_end [of limit bs out i go] by simp
  then show ?thesis using s unfolding stratify_loop_def s' by simp
qed

lemma mset_rounds: "longest bs \<le> n \<Longrightarrow> mset (rounds n bs) = mset (concat bs)"
proof (induction bs)
  case Nil
  then show ?case by (simp add: rounds_def round_quotes_def)
next
  case (Cons b bs)
  have app: "mset (concat (map (\<lambda>i. f i @ g i) ns)) = mset (concat (map f ns)) + mset (concat (map g ns))"
    for f g :: "nat \<Rightarrow> 'a list" and ns by (induction ns) auto
  have "concat (map (\<lambda>i. if i < length b then [b ! i] else []) [0..<m]) = take m b" for m
    by (induction m) (auto simp: take_Suc_conv_app_nth)
  moreover have "round_quotes i (b # bs) = (if i < length b then [b ! i] else []) @ round_quotes i bs" for i
    by (simp add: round_quotes_def)
  moreover have "length b \<le> n" "longest bs \<le> n" using Cons.prems by (auto simp: longest_def)
  ultimately show ?case using Cons.IH by (simp add: rounds_def app)
qed

lemma count_concat: "count (mset (concat (map snd gs))) x = (\<Sum>(k, g)\<leftarrow>gs. length (filter (\<lambda>y. y = x) g))"
  by (induction gs) (auto simp: count_mset count_list_filter)

lemma mset_concat_groups: "mset (concat (map snd (groups_of f xs))) = mset xs"
proof (rule multiset_eqI)
  fix x
  show "count (mset (concat (map snd (groups_of f xs)))) x = count (mset xs) x"
    by (simp add: count_concat sum_groups) (simp add: count_mset count_list_filter)
qed

lemma mset_quote_buckets: "mset (concat (quote_buckets qs)) = mset qs"
proof -
  have "mset (concat (map snd (sort_key k gs))) = mset (concat (map snd gs))" for k :: "pystr \<times> portrait_quote list \<Rightarrow> bool \<times> pystr" and gs
    by (metis mset_concat mset_map mset_sort sum_mset_sum_list)
  then show ?thesis by (simp add: quote_buckets_def mset_concat_groups)
qed

lemma quote_bucket_of:
  "b \<in> set (quote_buckets qs) \<longleftrightarrow> (\<exists>k \<in> quote_source_bucket ` set qs. b = filter (\<lambda>q. quote_source_bucket q = k) qs)"
  by (simp add: quote_buckets_def groups_of_eq image_image) blast

text \<open>The first quotes of the buckets come from different sources, one from each.\<close>

lemma first_of_buckets:
  "distinct (map (\<lambda>b. quote_source_bucket (hd b)) (quote_buckets qs))"
  "set (map (\<lambda>b. quote_source_bucket (hd b)) (quote_buckets qs)) = quote_source_bucket ` set qs"
  "b \<in> set (quote_buckets qs) \<Longrightarrow> b \<noteq> []"
proof -
  define srt where "srt = sort_key (\<lambda>(k, g). (str_starts_with (u ''z:'') k, k)) (groups_of quote_source_bucket qs)"
  have g: "snd x \<noteq> [] \<and> quote_source_bucket (hd (snd x)) = fst x" if "x \<in> set srt" for x
  proof -
    have "set srt = (\<lambda>k. (k, filter (\<lambda>q. quote_source_bucket q = k) qs)) ` quote_source_bucket ` set qs"
      by (simp add: srt_def groups_of_eq)
    from that [unfolded this] obtain k where k: "x = (k, filter (\<lambda>q. quote_source_bucket q = k) qs)"
      "k \<in> quote_source_bucket ` set qs" by (rule imageE)
    then have ne: "filter (\<lambda>q. quote_source_bucket q = k) qs \<noteq> []" by (auto simp: filter_empty_conv)
    then have "hd (filter (\<lambda>q. quote_source_bucket q = k) qs) \<in> set (filter (\<lambda>q. quote_source_bucket q = k) qs)" by (rule hd_in_set)
    then show ?thesis using ne k(1) by simp
  qed
  then have e: "map (\<lambda>b. quote_source_bucket (hd b)) (quote_buckets qs) = map fst srt"
    by (simp add: quote_buckets_def srt_def [symmetric])
  have m: "mset (map fst srt) = mset (first_occ (map quote_source_bucket qs))"
    by (simp add: srt_def groups_of_eq multiset.map_comp o_def)
  show "distinct (map (\<lambda>b. quote_source_bucket (hd b)) (quote_buckets qs))"
    unfolding e mset_eq_imp_distinct_iff [OF m] by simp
  show "set (map (\<lambda>b. quote_source_bucket (hd b)) (quote_buckets qs)) = quote_source_bucket ` set qs"
    unfolding e mset_eq_setD [OF m] by simp
  show "b \<in> set (quote_buckets qs) \<Longrightarrow> b \<noteq> []" using g by (auto simp: quote_buckets_def srt_def [symmetric])
qed

lemma first_round_first:
  assumes "\<forall>b \<in> set bs. b \<noteq> []"
  shows "\<exists>r. rounds (longest bs) bs = map hd bs @ r"
proof (cases "bs = []")
  case False
  then have "round_quotes 0 bs \<noteq> []" using assms by (cases bs) (auto simp: round_quotes_def)
  then have "1 \<le> longest bs" using round_in_range by fastforce
  then obtain r where "rounds (longest bs) bs = rounds 1 bs @ r" using rounds_split by blast
  moreover have "rounds 1 bs = map hd bs"
    using assms by (induction bs) (auto simp: rounds_def round_quotes_def hd_conv_nth)
  ultimately show ?thesis by metis
qed (simp add: rounds_def round_quotes_def)

text \<open>
  C24. Spreading the quotes ends for every limit: the loop returns as many of the given quotes as the
  limit allows, each at most as often as it was given, and from as many sources as the limit allows: from
  all of them when they are at most as many as the limit, and else from as many as there are quotes.
\<close>

theorem stratify_ends_and_spreads:
  "\<exists>out. stratify_quotes_by_source limit qs = Some out \<and> mset out \<subseteq># mset qs \<and> length out = min limit (length qs)
     \<and> card (quote_source_bucket ` set out) = min limit (card (quote_source_bucket ` set qs))"
proof -
  let ?bs = "quote_buckets qs"
  define out where "out = take limit (rounds (longest ?bs) ?bs)"
  have m: "mset (rounds (longest ?bs) ?bs) = mset qs" using mset_rounds [OF order_refl, of ?bs] mset_quote_buckets by simp
  have "stratify_quotes_by_source limit qs = Some out"
    unfolding stratify_quotes_by_source_def out_def by (rule stratify_loop_ends)
  moreover have sub: "mset out \<subseteq># mset qs" unfolding out_def m [symmetric] by (metis append_take_drop_id mset_append mset_subset_eq_add_left)
  moreover have "length out = min limit (length qs)"
    using mset_eq_length [OF m] by (simp add: out_def min.commute)
  moreover have "card (quote_source_bucket ` set out) = min limit (card (quote_source_bucket ` set qs))"
  proof -
    let ?ks = "map (\<lambda>b. quote_source_bucket (hd b)) ?bs"
    have n: "card (quote_source_bucket ` set qs) = length ?ks"
      using distinct_card [OF first_of_buckets(1), of qs] by (simp only: first_of_buckets(2))
    obtain r where "rounds (longest ?bs) ?bs = map hd ?bs @ r" using first_round_first first_of_buckets(3) by blast
    then have o: "out = take limit (map hd ?bs) @ take (limit - length ?bs) r" by (simp add: out_def)
    have f: "quote_source_bucket ` set (take limit (map hd ?bs)) = set (take limit ?ks)"
      by (simp add: take_map image_image)
    show ?thesis
    proof (cases "limit \<le> length ?bs")
      case True
      then have "quote_source_bucket ` set out = set (take limit ?ks)" using o f by simp
      moreover have "card (set (take limit ?ks)) = limit"
        using True distinct_card [OF distinct_take [OF first_of_buckets(1)], of limit qs] by simp
      ultimately show ?thesis using True n by simp
    next
      case False
      then have "quote_source_bucket ` set qs \<subseteq> quote_source_bucket ` set out"
        using f o first_of_buckets(2) [of qs] by (simp add: image_Un)
      moreover have "quote_source_bucket ` set out \<subseteq> quote_source_bucket ` set qs"
        using set_mset_mono [OF sub] by auto
      ultimately show ?thesis using False n by simp
    qed
  qed
  ultimately show ?thesis by blast
qed

lemma stratify_total: "\<exists>out. stratify_quotes_by_source limit qs = Some out"
  using stratify_loop_ends unfolding stratify_quotes_by_source_def by blast

lemma portrait_context_total: "\<exists>c. build_portrait_context env da co gb sv w = Some c"
proof -
  obtain f where "\<And>qs. stratify_quotes_by_source MAX_QUOTES qs = Some (f qs)" using stratify_total by metis
  then show ?thesis by (simp add: build_portrait_context_def Let_def)
qed

section \<open>What the portrait rests on\<close>

lemma add_to_fields_step:
  "add_to_fields q (map (\<lambda>(k, ts). (k, ts, take 5 (map grounded_of (filter (P ts) qs)))) fs)
   = map (\<lambda>(k, ts). (k, ts, take 5 (map grounded_of (filter (P ts) (qs @ [q]))))) fs"
  if "\<And>ts. P ts q = (case EntityType_of (pq_type q) of None \<Rightarrow> False | Some et \<Rightarrow> et \<in> set ts)"
  using that by (auto simp: add_to_fields_def split: option.split)

definition of_types :: "entity_type list \<Rightarrow> portrait_quote \<Rightarrow> bool" where
  "of_types ts q \<longleftrightarrow> (case EntityType_of (pq_type q) of None \<Rightarrow> False | Some et \<Rightarrow> et \<in> set ts)"

text \<open>
  The quotes shown behind a field of the portrait are the first four quotes of the evidence whose
  type belongs to the field, in their order, whatever the model wrote.
\<close>

theorem grounding_is_first_four_of_type:
  "map_quotes_to_portrait_fields qs = map (\<lambda>(k, ts). (k, take 4 (map grounded_of (filter (of_types ts) qs)))) PORTRAIT_FIELDS"
proof -
  have "fold add_to_fields qs (map (\<lambda>(k, ts). (k, ts, [])) PORTRAIT_FIELDS)
      = map (\<lambda>(k, ts). (k, ts, take 5 (map grounded_of (filter (of_types ts) qs)))) PORTRAIT_FIELDS"
  proof (induction qs rule: rev_induct)
    case (snoc q qs)
    show ?case unfolding fold_append comp_apply snoc.IH fold_simps by (rule add_to_fields_step) (simp add: of_types_def)
  qed simp
  then show ?thesis by (simp add: map_quotes_to_portrait_fields_def split_def)
qed

lemma translated_cases: "translated l a b c = a \<or> translated l a b c = b \<or> translated l a b c = c"
  by (simp add: translated_def Let_def)

lemma strict_message_nonempty: "\<not> sd_ready (assess_strict_pr_readiness l c) \<Longrightarrow> sd_message (assess_strict_pr_readiness l c) \<noteq> []"
  by (auto simp: assess_strict_pr_readiness_def Let_def translated_def)

lemma payload_message_nonempty: "fst (insufficient_data_payload l m) \<noteq> []"
  by (simp add: insufficient_data_payload_def Let_def)

text \<open>
  The model is asked exactly when the study has ten interviews, fifty entities, twelve quotes and
  a volume of eighteen of problems and risks: then the portrait is its answer, with the quotes of
  the evidence behind it, or its error; otherwise every field holds one message and the meta data say
  that the synthesis is blocked.
\<close>

theorem portrait_asks_model_iff_strict:
  "if 10 \<le> cx_interviews c \<and> 50 \<le> or_default 0 (cx_entities c) \<and> 12 \<le> evidence_quotes c
      \<and> 18 \<le> bar_volume (cx_problems c) + bar_volume (cx_risks c)
   then (case run_portrait_generation_sync env da ct c lang of
       Inl e \<Rightarrow> generate_portrait env da ct lang c = Inl e
     | Inr p \<Rightarrow> \<exists>m. generate_portrait env da ct lang c = Inr (p, m) \<and> \<not> pm_blocked m \<and> pm_strict m
         \<and> pm_grounding m = map_quotes_to_portrait_fields (cx_quotes c))
   else \<exists>msg m. generate_portrait env da ct lang c = Inr (static_portrait_blocked msg, m) \<and> msg \<noteq> []
     \<and> pm_blocked m \<and> \<not> pm_strict m \<and> pm_message m = Some msg"
proof (cases "sd_ready (assess_strict_pr_readiness lang c)")
  case True
  note others = strict_implies_others [OF True]
  have iff: "10 \<le> cx_interviews c \<and> 50 \<le> or_default 0 (cx_entities c) \<and> 12 \<le> evidence_quotes c
      \<and> 18 \<le> bar_volume (cx_problems c) + bar_volume (cx_risks c)" using True unfolding strict_ready_iff .
  show ?thesis
    unfolding if_P [OF iff] generate_portrait_def Let_def portrait_meta_of_def using True others
    by (simp split: sum.split)
next
  case False
  have iff: "\<not> (10 \<le> cx_interviews c \<and> 50 \<le> or_default 0 (cx_entities c) \<and> 12 \<le> evidence_quotes c
      \<and> 18 \<le> bar_volume (cx_problems c) + bar_volume (cx_risks c))" using False unfolding strict_ready_iff .
  show ?thesis
    unfolding if_not_P [OF iff] generate_portrait_def Let_def portrait_meta_of_def
    using False strict_message_nonempty [OF False] payload_message_nonempty by simp
qed

text \<open>
  The snapshot that goes out with a portrait calls every study neutral: it looks for shares in
  the sentiment, and the evidence has counts only.
\<close>

theorem snapshot_always_neutral:
  assumes "build_portrait_context env da co gb sv w = Some c"
  shows "sn_positive (dashboard_first_bundle c) = 0 \<and> sn_negative (dashboard_first_bundle c) = 0
    \<and> sn_neutral (dashboard_first_bundle c) = 100"
proof -
  obtain p n b where s: "pc_sentiment c = sentiment_items p n b"
    using assms by (auto simp: build_portrait_context_def empty_portrait_context_def Let_def split: if_splits option.splits)
  have "fl 100 = 100" "rne 1000 = 1000" using fl_of_int [of 100] rne_of_int [of 1000] by simp_all
  then show ?thesis
    by (simp add: dashboard_first_bundle_def s sentiment_items_def float_item_def item_def Let_def py_round_def)
qed

section \<open>Concrete runs\<close>

definition nowhere :: corpus where
  "nowhere = \<lparr>co_id = 1, co_project = 1, co_documents = [], co_audios = [], co_multi = True\<rparr>"

theorem snapshot_always_neutral_witness:
  "sn_neutral (dashboard_first_bundle (the (build_portrait_context plain_env plain_dash nowhere None None empty_world))) = 100"
proof -
  have "build_portrait_context plain_env plain_dash nowhere None None empty_world
      = Some (empty_portrait_context (audience_snapshot_from_metas plain_dash []))"
    by (simp add: build_portrait_context_def nowhere_def Let_def groups_by_def given_def)
  then show ?thesis using snapshot_always_neutral [of plain_env plain_dash nowhere None None empty_world] by simp
qed

end
