(* ===== verification/Dashboard.thy ===== *)
theory Dashboard
  imports Portrait Document_Pipeline
begin

text \<open>
  The dashboards of a batch and of a project (\<^verbatim>\<open>build_batch_dashboard\<close>, \<^verbatim>\<open>build_project_dashboard\<close> and
  their handlers): the scope of a request, the entities in it, and the blocks over them. The lexicon
  signals of the payload are in the theory \<open>Lexicon\<close>.
\<close>

section \<open>Requests and payloads\<close>

record dash_query =
  dq_group :: "pystr option"
  dq_segment :: "pystr option"
  dq_from :: "pystr option"
  dq_to :: "pystr option"
  dq_stop :: bool
  dq_a :: "pystr option"
  dq_b :: "pystr option"

record segment_row =
  se_key :: pystr
  se_count :: nat
  se_unit :: "interview_unit option"
  se_block :: block
  se_words :: "(pystr \<times> nat) list"

record graph_node =
  gn_kind :: pystr
  gn_label :: pystr
  gn_frequency :: nat
  gn_confidence :: rat

record mini_quote =
  mq_signal :: pystr
  mq_type :: pystr
  mq_text :: pystr
  mq_title :: pystr
  mq_document :: "uuid option"
  mq_audio :: "uuid option"
  mq_transcript :: "uuid option"
  mq_chunk :: uuid

record data_quality =
  ql_score :: rat
  ql_can :: bool
  ql_strict :: bool
  ql_message :: "pystr option"
  ql_gates :: "gate_item list"
  ql_warnings :: "pystr list"

record diagnostics =
  dg_interviews :: nat
  dg_processed :: nat
  dg_documents_ready :: nat
  dg_transcripts :: nat
  dg_entities :: nat
  dg_chunks :: nat
  dg_quotes :: nat
  dg_missing :: "pystr list"
  dg_running :: bool
  dg_gap :: bool
  dg_note :: pystr

record dashboard =
  db_sources :: nat
  db_entities :: nat
  db_topics :: "(pystr \<times> nat \<times> rat) list"
  db_problems :: "(pystr \<times> nat \<times> rat) list"
  db_risks :: "(pystr \<times> nat \<times> rat) list"
  db_words :: "(pystr \<times> nat) list"
  db_bigrams :: "(pystr \<times> nat) list"
  db_trigrams :: "(pystr \<times> nat) list"
  db_sentiment :: "nat \<times> nat \<times> pystr \<times> shares"
  db_patterns :: "(pystr \<times> nat) list"
  db_insights :: "dash_insight list"
  db_audience :: audience
  db_quality :: data_quality
  db_traced :: "traced_label list \<times> traced_label list \<times> traced_label list"
  db_segments :: "segment_row list"
  db_graph :: "graph_node list"
  db_units :: "(interview_unit \<times> pystr) list"
  db_pipelines :: "(uuid \<times> pystr \<times> pipeline_state) list"
  db_taxonomy :: "(pystr \<times> nat \<times> rat) list"
  db_quotes :: nat
  db_note :: pystr
  db_trace :: "trace_row list"
  db_integrity :: "nat \<times> nat \<times> bool"
  db_timeline :: timeline
  db_rollups :: "rollup_row list"
  db_heatmap :: "pystr list \<times> (pystr \<times> (pystr \<times> nat) list) list"
  db_stacked :: "stacked_row list"
  db_compare :: "((pystr \<times> nat \<times> rat) list \<times> (pystr \<times> nat \<times> rat) list) option"
  db_processed :: nat
  db_diagnostics :: diagnostics

section \<open>Diagnostics\<close>

text \<open>A document row is the id, the name and the pipeline state; \<^verbatim>\<open>pipeline_phase\<close> reads the phase.\<close>

definition pipeline_phase :: "pipeline_state \<Rightarrow> pystr" where
  "pipeline_phase p = ascii_lower (strip (text_of (pl_phase p)))"

definition READY_PHASES :: "pystr list" where
  "READY_PHASES = map u [''chunked'', ''extracted'', ''synthesized'', ''done'', ''parsed'']"

definition document_rows :: "uuid list \<Rightarrow> world \<Rightarrow> (uuid \<times> pystr \<times> pipeline_state) list" where
  "document_rows dids w =
     map (\<lambda>d. (doc_id d, doc_filename d, doc_pipeline d)) (filter (\<lambda>d. doc_id d \<in> set dids) (documents w))"

definition ready_documents :: "(uuid \<times> pystr \<times> pipeline_state) list \<Rightarrow> nat" where
  "ready_documents rows = length (filter (\<lambda>(i, f, p). pipeline_phase p \<in> set READY_PHASES) rows)"

definition extraction_failed :: "pipeline_state \<Rightarrow> bool" where
  "extraction_failed p = (case pl_extraction p of None \<Rightarrow> False
     | Some x \<Rightarrow> ex_status x \<in> {u ''chunk_failed'', u ''extraction_failed''})"

definition build_data_readiness_diagnostics :: "nat \<Rightarrow> nat \<Rightarrow> nat \<Rightarrow> nat \<Rightarrow> nat \<Rightarrow> nat
    \<Rightarrow> (uuid \<times> pystr \<times> pipeline_state) list \<Rightarrow> nat \<Rightarrow> block \<Rightarrow> diagnostics" where
  "build_data_readiness_diagnostics interviews docs_ready n_transcripts n_chunks n_entities n_quotes rows n_audios b =
     (let low = (2 < n_entities \<and> bar_volume (bk_risks b) < 1);
          missing = (if interviews < 1 \<and> n_audios < 1 \<and> rows = [] then [u ''no_batch_sources''] else [])
            @ (if n_chunks < 1 \<and> (rows \<noteq> [] \<or> 0 < n_audios) then [u ''chunking_not_run_or_empty_corpus''] else [])
            @ (if 0 < n_chunks \<and> n_entities < 1 then [u ''no_entities''] else [])
            @ (if 0 < n_entities \<and> bk_topics b = [] then [u ''no_typed_topic_labels''] else [])
            @ (if low then [u ''low_risk_signals''] else [])
            @ (if list_ex (\<lambda>(i, f, p). extraction_failed p) rows then [u ''pipeline_errors_on_documents''] else [])
            @ (if list_ex (\<lambda>(i, f, p). pipeline_phase p = u ''uploaded'') rows then [u ''documents_not_chunked''] else [])
      in \<lparr>dg_interviews = interviews, dg_processed = min interviews (docs_ready + n_transcripts),
          dg_documents_ready = docs_ready, dg_transcripts = n_transcripts, dg_entities = n_entities, dg_chunks = n_chunks,
          dg_quotes = n_quotes, dg_missing = missing,
          dg_running = (rows \<noteq> [] \<and> docs_ready < length rows \<or> 0 < n_audios \<and> n_transcripts < n_audios),
          dg_gap = (0 < n_chunks \<and> n_entities < 1),
          dg_note = (if n_entities < 1 then [1053, 1077, 1076, 1086, 1089, 1090, 1072, 1090, 1086, 1095,
       1085, 1086, 32, 1080, 1079, 1074, 1083, 1077, 1095, 1105, 1085, 1085, 1099, 1093, 32, 1089, 1091,
       1097, 1085, 1086, 1089, 1090, 1077, 1081, 32, 1076, 1083, 1103, 32, 1074, 1080, 1079, 1091, 1072,
       1083, 1080, 1079, 1072, 1094, 1080, 1080]
            else if u ''low_risk_signals'' \<in> set missing
              then [1057, 1091, 1097, 1085, 1086, 1089, 1090, 1080, 32, 1077, 1089, 1090, 1100, 44, 32,
       1085, 1086, 32, 1084, 1072, 1083, 1086, 32, 80, 82, 45, 1088, 1080, 1089, 1082, 1086, 1074, 1099,
       1093, 32, 1089, 1080, 1075, 1085, 1072, 1083, 1086, 1074, 32, 8212, 32, 1087, 1088, 1086, 1074,
       1077, 1088, 1100, 1090, 1077, 32, 1090, 1080, 1087, 1080, 1079, 1072, 1094, 1080, 1102, 32, 1080,
       1079, 1074, 1083, 1077, 1095, 1077, 1085, 1080, 1103]
            else [])\<rparr>)"

section \<open>The insight graph\<close>

definition bar_nodes :: "string \<Rightarrow> rat \<Rightarrow> nat \<Rightarrow> (pystr \<times> nat) list \<Rightarrow> graph_node list" where
  "bar_nodes kind conf' n rows = map (\<lambda>(k, v). \<lparr>gn_kind = u kind, gn_label = k, gn_frequency = v, gn_confidence = fl conf'\<rparr>)
     (take n rows)"

definition build_insight_graph_v1 :: "block \<Rightarrow> graph_node list" where
  "build_insight_graph_v1 b =
     bar_nodes ''pain_point'' (55 / 100) 14 (bk_problems b) @ bar_nodes ''fear_or_risk'' (52 / 100) 10 (bk_risks b)
     @ bar_nodes ''behavior_pattern'' (1 / 2) 10 (bk_patterns b)
     @ map (\<lambda>i. \<lparr>gn_kind = or_else (di_signal i) (u ''insight''), gn_label = take 400 (di_text i), gn_frequency = 1,
          gn_confidence = fl (48 / 100)\<rparr>) (take 12 (bk_insights b))"

section \<open>Building a dashboard\<close>

definition list_units_for_documents :: "uuid list \<Rightarrow> nat \<Rightarrow> world \<Rightarrow> interview_unit list" where
  "list_units_for_documents dids limit w =
     take limit (sort_key (\<lambda>i. (iu_document_id i, iu_index i)) (filter (\<lambda>i. iu_document_id i \<in> set dids) (units w)))"

definition unit_key :: "extracted_entity \<Rightarrow> pystr" where
  "unit_key e = or_else (strip (unit_tag e)) UNKNOWN"

text \<open>The breakdown by interview unit: one row for each unit in scope.\<close>

definition unit_breakdown :: "env \<Rightarrow> dash \<Rightarrow> interview_unit list \<Rightarrow> extracted_entity list \<Rightarrow> segment_row list" where
  "unit_breakdown env da us es = map (\<lambda>i. let mine = filter (\<lambda>e. unit_key e = da_unit da i) es in
     \<lparr>se_key = da_unit da i, se_count = length mine, se_unit = Some i, se_block = aggregate_entities_block env mine,
      se_words = []\<rparr>) us"

text \<open>The breakdown by a field of the metadata: one row for each label that an entity has.\<close>

definition label_breakdown :: "env \<Rightarrow> dash \<Rightarrow> maps \<Rightarrow> corpus \<Rightarrow> pystr \<Rightarrow> bool \<Rightarrow> extracted_entity list \<Rightarrow> world
    \<Rightarrow> segment_row list" where
  "label_breakdown env da mp co gb stop es w = map (\<lambda>(k, g).
       let ds = filter (\<lambda>i. segment_label da (meta_at (mp_doc mp) i) gb = k) (co_documents co);
           as = filter (\<lambda>i. segment_label da (meta_at (mp_audio mp) i) gb = k) (co_audios co);
           ts = map fst (filter (\<lambda>(t, a). a \<in> set as) (mp_transcript mp))
       in \<lparr>se_key = k, se_count = length g, se_unit = None, se_block = aggregate_entities_block env g,
           se_words = word_frequency_for_chunks env da 24 stop
             (filter (text_chunks_scope_and (co_project co) ds as ts) (chunks w))\<rparr>)
     (sort_key (\<lambda>(k, g). (- int (length g), k)) (groups_of (segment_of da mp gb) es))"

definition segment_breakdown :: "env \<Rightarrow> dash \<Rightarrow> maps \<Rightarrow> corpus \<Rightarrow> pystr option \<Rightarrow> bool \<Rightarrow> extracted_entity list \<Rightarrow> world
    \<Rightarrow> segment_row list" where
  "segment_breakdown env da mp co gb stop es w =
     (if gb = Some (u ''interview_unit'') then unit_breakdown env da (list_units_for_documents (co_documents co) 2000 w) es
      else if groups_by gb then label_breakdown env da mp co (the gb) stop es w else [])"

definition mini_quotes :: "extracted_entity list \<Rightarrow> mini_quote list" where
  "mini_quotes es = take 8 (map (\<lambda>e.
     \<lparr>mq_signal = taxonomy_of e, mq_type = entity_type_value (en_type e), mq_text = take 300 (entity_quote 300 e),
      mq_title = take 200 (en_title e), mq_document = en_document_id e, mq_audio = en_audio_id e,
      mq_transcript = en_transcript_id e, mq_chunk = en_chunk_id e\<rparr>)
     (filter (\<lambda>e. 16 \<le> length (entity_quote 300 e)) (take 40 es)))"

definition dash_context :: "nat \<Rightarrow> block \<Rightarrow> mini_quote list \<Rightarrow> nat option \<Rightarrow> nat option \<Rightarrow> mini_quote pr_context" where
  "dash_context n b qs ents evid = \<lparr>cx_interviews = n, cx_topics = bk_topics b, cx_problems = bk_problems b,
     cx_risks = bk_risks b, cx_patterns = bk_patterns b, cx_insights = bk_insights b, cx_quotes = qs,
     cx_entities = ents, cx_evidence = evid\<rparr>"

definition dash_quality :: "mini_quote pr_context \<Rightarrow> mini_quote pr_context \<Rightarrow> data_quality" where
  "dash_quality wctx sctx =
     (let r = assess_synthesis_readiness (u ''ru'') wctx; s = assess_strict_pr_readiness (u ''ru'') sctx;
          ws = first_occ (build_data_warnings wctx @ dr_warnings r)
      in \<lparr>ql_score = dr_score r, ql_can = dr_can r, ql_strict = sd_ready s,
          ql_message = (if sd_message s \<noteq> [] then Some (sd_message s) else None), ql_gates = sd_checklist s,
          ql_warnings = (if \<not> sd_ready s \<and> sd_message s \<noteq> [] then first_occ (sd_message s # ws) else ws)\<rparr>)"

definition scope_filtered :: "dash_query \<Rightarrow> bool" where
  "scope_filtered q \<longleftrightarrow> given (dq_segment q) \<and> groups_by (dq_group q) \<or> given (dq_from q) \<or> given (dq_to q)"

definition scope_of :: "dash \<Rightarrow> maps \<Rightarrow> dash_query \<Rightarrow> corpus \<Rightarrow> corpus" where
  "scope_of da mp q co =
     (if scope_filtered q
      then (case narrow_source_ids da mp (dq_group q) (dq_segment q) (dq_from q) (dq_to q) (co_documents co) (co_audios co) of
        (ds, as) \<Rightarrow> co\<lparr>co_documents := ds, co_audios := as\<rparr>)
      else co)"

definition scope_entities :: "dash \<Rightarrow> maps \<Rightarrow> dash_query \<Rightarrow> corpus \<Rightarrow> world \<Rightarrow> extracted_entity list" where
  "scope_entities da mp q sc w =
     (let df = parse_iso_date (dq_from q); dt = parse_iso_date (dq_to q); es = load_entities sc w
      in if df \<noteq> None \<or> dt \<noteq> None
         then filter (\<lambda>e. entity_matches_date_filter da (meta_for_entity mp e) df dt e) es else es)"

definition compare_bars :: "dash \<Rightarrow> maps \<Rightarrow> dash_query \<Rightarrow> extracted_entity list
    \<Rightarrow> ((pystr \<times> nat \<times> rat) list \<times> (pystr \<times> nat \<times> rat) list) option" where
  "compare_bars da mp q es =
     (if given (dq_a q) \<and> given (dq_b q) \<and> groups_by (dq_group q) \<and> the (dq_group q) \<noteq> u ''interview_unit''
      then Some (segment_compare_pr_bars da mp (the (dq_group q)) (the (dq_a q)) (the (dq_b q)) es) else None)"

definition empty_block :: block where
  "empty_block = \<lparr>bk_topics = [], bk_problems = [], bk_risks = [], bk_patterns = [], bk_insights = [], bk_pos = 0,
     bk_neg = 0, bk_balance = u ''unknown''\<rparr>"

definition empty_dashboard :: "audience \<Rightarrow> dashboard" where
  "empty_dashboard a =
     \<lparr>db_sources = 0, db_entities = 0, db_topics = [], db_problems = [], db_risks = [], db_words = [], db_bigrams = [],
      db_trigrams = [], db_sentiment = (0, 0, u ''unknown'', sentiment_with_fractions 0 0), db_patterns = [],
      db_insights = [], db_audience = a,
      db_quality = (let c = dash_context 0 empty_block [] None None; s = dash_context 0 empty_block [] (Some 0) (Some 0)
        in (dash_quality c s)\<lparr>ql_warnings := build_data_warnings c\<rparr>),
      db_traced = ([], [], []), db_segments = [], db_graph = [], db_units = [], db_pipelines = [], db_taxonomy = [],
      db_quotes = 0, db_note = quality_note 0 0, db_trace = [], db_integrity = pr_signal_tag_integrity [],
      db_timeline = \<lparr>tm_series = [], tm_emerging = [], tm_fading = []\<rparr>, db_rollups = [], db_heatmap = ([], []),
      db_stacked = [], db_compare = None, db_processed = 0,
      db_diagnostics = build_data_readiness_diagnostics 0 0 0 0 0 0 [] 0 empty_block\<rparr>"

definition build_dashboard :: "env \<Rightarrow> dash \<Rightarrow> nat \<Rightarrow> corpus \<Rightarrow> dash_query \<Rightarrow> world \<Rightarrow> dashboard" where
  "build_dashboard env da n_sources co q w =
     (let mp = load_metadata_maps da (co_documents co) (co_audios co) w;
          sc = scope_of da mp q co;
          aud0 = audience_snapshot_from_metas da (map (meta_at (mp_doc mp)) (co_documents sc)
            @ map (meta_at (mp_audio mp)) (co_audios sc))
      in if co_documents co = [] \<and> co_audios co = [] then empty_dashboard aud0
      else (let es = scope_entities da mp q sc w;
          tids = map fst (filter (\<lambda>(t, a). a \<in> set (co_audios sc)) (mp_transcript mp));
          cs = filter (text_chunks_scope_and (co_project co) (co_documents sc) (co_audios sc) tids) (chunks w);
          words = word_frequency_for_chunks env da 60 (dq_stop q) cs;
          phrases = ngrams_for_chunks env da (dq_stop q) cs;
          b = aggregate_entities_block env es;
          n_units = count_units_for_documents (co_documents sc) w;
          aud = (if co_multi co \<and> 0 < n_units then aud0\<lparr>au_count := n_units + length (co_audios sc)\<rparr> else aud0);
          segs = segment_breakdown env da mp sc (dq_group q) (dq_stop q) es w;
          qs = mini_quotes es; evid = counted has_evidence es;
          quality = dash_quality (dash_context (au_count aud) b qs None None)
            (dash_context (au_count aud) b qs (Some (length es)) (Some evid));
          rows = document_rows (co_documents co) w; ready = ready_documents rows;
          n_transcripts = length (filter (\<lambda>t. tr_audio_id t \<in> set (co_audios sc) \<and> tr_status t = JS_COMPLETED) (transcripts w));
          guess = (if au_count aud \<noteq> 0 then au_count aud else n_sources)
        in \<lparr>db_sources = n_sources, db_entities = length es, db_topics = bar_rows_with_pct (bk_topics b),
            db_problems = bar_rows_with_pct (bk_problems b), db_risks = bar_rows_with_pct (bk_risks b),
            db_words = words, db_bigrams = fst phrases, db_trigrams = snd phrases,
            db_sentiment = (bk_pos b, bk_neg b, bk_balance b, sentiment_with_fractions (bk_pos b) (bk_neg b)),
            db_patterns = bk_patterns b, db_insights = bk_insights b, db_audience = aud, db_quality = quality,
            db_traced = (traced_labels TOPIC_TYPES 18 es, traced_labels PROBLEM_TYPES 18 es, traced_labels RISK_TYPES 16 es),
            db_segments = segs, db_graph = build_insight_graph_v1 b,
            db_units = map (\<lambda>i. (i, take 240 (iu_raw_text i))) (list_units_for_documents (co_documents co) 120 w),
            db_pipelines = rows, db_taxonomy = pr_taxonomy_totals es, db_quotes = evid,
            db_note = quality_note (length es) evid, db_trace = traceability_rows 80 es,
            db_integrity = pr_signal_tag_integrity es, db_timeline = timeline_series_real da mp es,
            db_rollups = build_pr_insight_rollups da mp 40 es, db_heatmap = risk_heatmap da mp (dq_group q) es,
            db_stacked = sentiment_stacked_from_breakdown (map (\<lambda>r. (se_key r, se_block r)) segs),
            db_compare = compare_bars da mp q es, db_processed = min guess (ready + n_transcripts),
            db_diagnostics = build_data_readiness_diagnostics guess ready n_transcripts (length cs) (length es) evid rows
              (length (co_audios sc)) b\<rparr>))"

definition build_batch_dashboard :: "env \<Rightarrow> dash \<Rightarrow> research_batch \<Rightarrow> dash_query \<Rightarrow> world \<Rightarrow> dashboard" where
  "build_batch_dashboard env da b q w =
     build_dashboard env da (length (filter (\<lambda>s. row_batch_id s = bt_id b) (batch_sources w))) (batch_corpus b w) q w"

definition build_project_dashboard :: "env \<Rightarrow> dash \<Rightarrow> uuid \<Rightarrow> dash_query \<Rightarrow> world \<Rightarrow> exc + dashboard" where
  "build_project_dashboard env da pid q w =
     (case load_project_batch_view pid w of
        Inl e \<Rightarrow> Inl e
      | Inr co \<Rightarrow> Inr (build_dashboard env da (length (co_documents co) + length (co_audios co)) co q w))"

section \<open>Handlers\<close>

definition dashboard_build_kwargs :: "dash_query \<Rightarrow> failure + dash_query" where
  "dashboard_build_kwargs q =
     (if dq_group q \<noteq> None \<and> the (dq_group q) \<notin> set DASHBOARD_GROUP_BY_FIELDS
      then Inl (Http 400 (u ''invalid_group_by'')) else Inr q)"

definition get_batch_dashboard :: "env \<Rightarrow> dash \<Rightarrow> uuid \<Rightarrow> dash_query \<Rightarrow> world \<Rightarrow> dashboard response" where
  "get_batch_dashboard env da bid q w =
     (case dashboard_build_kwargs q of
        Inl e \<Rightarrow> (Inl e, w)
      | Inr q \<Rightarrow> (case get_batch w bid of
          None \<Rightarrow> (Inl batch_404, w)
        | Some b \<Rightarrow> (Inr (build_batch_dashboard env da b q w), w)))"

definition get_project_dashboard :: "env \<Rightarrow> dash \<Rightarrow> uuid \<Rightarrow> dash_query \<Rightarrow> world \<Rightarrow> dashboard response" where
  "get_project_dashboard env da pid q w =
     (if pid \<notin> set (projects w) then (Inl project_404, w)
      else case dashboard_build_kwargs q of
        Inl e \<Rightarrow> (Inl e, w)
      | Inr q \<Rightarrow> (case build_project_dashboard env da pid q w of
          Inl e \<Rightarrow> (Inl (if e = Value_error (u ''project_not_found'') then project_404 else Http 500 []), w)
        | Inr d \<Rightarrow> (Inr d, w)))"

section \<open>What a dashboard counts\<close>

lemma load_entities_bound: "length (load_entities co w) \<le> 4000"
  by (simp add: load_entities_def MAX_ENTITIES_LOAD_def)

lemma scope_entities_bound: "length (scope_entities da mp q sc w) \<le> 4000"
  using load_entities_bound [of sc w] by (auto simp: scope_entities_def Let_def intro: order_trans [OF length_filter_le])

lemma label_breakdown_counts:
  "(\<Sum>r\<leftarrow>label_breakdown env da mp co gb stop es w. se_count r) = length es"
  "distinct (map se_key (label_breakdown env da mp co gb stop es w))"
  "set (map se_key (label_breakdown env da mp co gb stop es w)) = segment_of da mp gb ` set es"
proof -
  let ?gs = "groups_of (segment_of da mp gb) es"
  have m: "mset (map fst (sort_key k ?gs)) = mset (map fst ?gs)" for k :: "pystr \<times> extracted_entity list \<Rightarrow> int \<times> pystr"
    by (metis mset_map mset_sort)
  have "(\<Sum>r\<leftarrow>label_breakdown env da mp co gb stop es w. se_count r) = (\<Sum>(k, g)\<leftarrow>?gs. length g)"
    by (simp add: label_breakdown_def Let_def o_def split_def sum_list_sort_key)
  then show "(\<Sum>r\<leftarrow>label_breakdown env da mp co gb stop es w. se_count r) = length es"
    using sum_groups [of "\<lambda>_. True" "segment_of da mp gb" es] by simp
  have keys: "map se_key (label_breakdown env da mp co gb stop es w)
      = map fst (sort_key (\<lambda>(k, g). (- int (length g), k)) ?gs)"
    by (simp add: label_breakdown_def Let_def o_def split_def)
  show "distinct (map se_key (label_breakdown env da mp co gb stop es w))"
    unfolding keys using m distinct_group_keys by (metis mset_eq_imp_distinct_iff)
  show "set (map se_key (label_breakdown env da mp co gb stop es w)) = segment_of da mp gb ` set es"
    unfolding keys by (simp add: groups_of_eq image_image)
qed

text \<open>The scope and the metadata of a request, as the dashboard computes them.\<close>

definition request_maps :: "dash \<Rightarrow> corpus \<Rightarrow> world \<Rightarrow> maps" where
  "request_maps da co w = load_metadata_maps da (co_documents co) (co_audios co) w"

definition request_entities :: "dash \<Rightarrow> dash_query \<Rightarrow> corpus \<Rightarrow> world \<Rightarrow> extracted_entity list" where
  "request_entities da q co w =
     scope_entities da (request_maps da co w) q (scope_of da (request_maps da co w) q co) w"

lemma dashboard_parts:
  assumes "co_documents co \<noteq> [] \<or> co_audios co \<noteq> []"
  shows "db_entities (build_dashboard env da n co q w) = length (request_entities da q co w)"
    "db_taxonomy (build_dashboard env da n co q w) = pr_taxonomy_totals (request_entities da q co w)"
    "db_segments (build_dashboard env da n co q w) = segment_breakdown env da (request_maps da co w)
       (scope_of da (request_maps da co w) q co) (dq_group q) (dq_stop q) (request_entities da q co w) w"
  using assms by (auto simp: build_dashboard_def Let_def request_maps_def request_entities_def)

lemma empty_dashboard_parts:
  assumes "co_documents co = []" "co_audios co = []"
  shows "db_entities (build_dashboard env da n co q w) = 0" "db_taxonomy (build_dashboard env da n co q w) = []"
    "db_segments (build_dashboard env da n co q w) = []"
  using assms by (simp_all add: build_dashboard_def Let_def empty_dashboard_def)

text \<open>
  The numbers of a dashboard fit together: grouped by a field of the metadata, the rows of the
  breakdown have different labels and their counts add up to the entities of the dashboard, and so do
  the totals of the taxonomy; a dashboard never counts more than 4000 entities.
\<close>

theorem dashboard_counts_add_up:
  assumes "groups_by (dq_group q)" "the (dq_group q) \<noteq> u ''interview_unit''"
  shows "(\<Sum>r\<leftarrow>db_segments (build_dashboard env da n co q w). se_count r) = db_entities (build_dashboard env da n co q w)
    \<and> distinct (map se_key (db_segments (build_dashboard env da n co q w)))
    \<and> (\<Sum>(k, v, p)\<leftarrow>db_taxonomy (build_dashboard env da n co q w). v) = db_entities (build_dashboard env da n co q w)
    \<and> db_entities (build_dashboard env da n co q w) \<le> 4000"
proof (cases "co_documents co = [] \<and> co_audios co = []")
  case True
  then show ?thesis by (simp add: empty_dashboard_parts)
next
  case False
  then have ne: "co_documents co \<noteq> [] \<or> co_audios co \<noteq> []" by blast
  have "dq_group q \<noteq> Some (u ''interview_unit'')" using assms by auto
  then have "db_segments (build_dashboard env da n co q w) = label_breakdown env da (request_maps da co w)
      (scope_of da (request_maps da co w) q co) (the (dq_group q)) (dq_stop q) (request_entities da q co w) w"
    using assms by (simp add: dashboard_parts [OF ne] segment_breakdown_def)
  then show ?thesis
    using label_breakdown_counts taxonomy_sum [of "request_entities da q co w"]
    by (simp add: dashboard_parts [OF ne]) (simp add: request_entities_def scope_entities_bound)
qed

text \<open>
  The breakdown by interview unit is empty: its rows count the entities tagged with the id of the
  unit, and entities without such a tag, which is all that the extraction creates, are in no row.
\<close>

theorem unit_breakdown_is_empty:
  assumes "dq_group q = Some (u ''interview_unit'')"
    and "\<And>e. e \<in> set (entities w) \<Longrightarrow> unit_tag e = []" and "\<And>i. da_unit da i \<noteq> UNKNOWN"
  shows "list_all (\<lambda>r. se_count r = 0) (db_segments (build_dashboard env da n co q w))"
proof (cases "co_documents co = [] \<and> co_audios co = []")
  case True
  then show ?thesis by (simp add: empty_dashboard_parts)
next
  case False
  then have ne: "co_documents co \<noteq> [] \<or> co_audios co \<noteq> []" by blast
  have sub: "set (request_entities da q co w) \<subseteq> set (entities w)"
    by (auto simp: request_entities_def scope_entities_def load_entities_def corpus_entities_def Let_def
        dest!: in_set_takeD split: if_splits)
  have "unit_key e = UNKNOWN" if "e \<in> set (request_entities da q co w)" for e
    using assms(2) sub that by (auto simp: unit_key_def or_else_def)
  then have "filter (\<lambda>e. unit_key e = da_unit da i) (request_entities da q co w) = []" for i
    using assms(3) [of i] by (auto simp: filter_empty_conv)
  then show ?thesis
    using assms(1) by (simp add: dashboard_parts [OF ne] segment_breakdown_def unit_breakdown_def Let_def list_all_iff)
qed

text \<open>
  The dashboard of a study with a document that the pipeline has just analysed, with whatever
  outcome, still reports running pipelines: it waits for a phase that the pipeline never writes.
\<close>

theorem analysed_study_still_running:
  assumes "get_doc w did = Some d" "phase_of d = []" "did \<in> set (co_documents co)"
  shows "dg_running (db_diagnostics (build_dashboard env' da n co q (snd (pipeline_document_analysis env sv us did w))))"
proof -
  define w' where "w' = snd (pipeline_document_analysis env sv us did w)"
  obtain d' where d': "get_doc w' did = Some d'" "phase_of d' = [] \<or> phase_of d' = u ''failed''"
    using pipeline_keeps_phase [OF assms(1, 2)] unfolding w'_def by blast
  have mem: "d' \<in> set (documents w')" "doc_id d' = did" using d'(1) get_row_SomeD unfolding get_doc_def by metis+
  let ?rows = "document_rows (co_documents co) w'"
  have row: "(did, doc_filename d', doc_pipeline d') \<in> set ?rows" using mem assms(3) by (auto simp: document_rows_def)
  have "pipeline_phase (doc_pipeline d') = phase_of d'"
    by (simp add: pipeline_phase_def phase_of_def norm_status_def lower_strip)
  then have "pipeline_phase (doc_pipeline d') \<notin> set READY_PHASES" using d'(2) by (auto simp: READY_PHASES_def)
  then have "ready_documents ?rows < length ?rows"
    unfolding ready_documents_def using row by (intro length_filter_less [of "(did, doc_filename d', doc_pipeline d')"]) auto
  moreover have "?rows \<noteq> []" using row by auto
  moreover have "co_documents co \<noteq> []" using assms(3) by auto
  ultimately show ?thesis
    unfolding w'_def [symmetric] by (simp add: build_dashboard_def Let_def build_data_readiness_diagnostics_def)
qed

section \<open>Filtering by segment\<close>

text \<open>
  An entity has one source: a document, or an audio whose transcript it may name; transcripts have
  their own ids.
\<close>

definition one_source :: "world \<Rightarrow> extracted_entity \<Rightarrow> bool" where
  "one_source w e \<longleftrightarrow> (en_document_id e \<noteq> None \<longrightarrow> en_audio_id e = None \<and> en_transcript_id e = None)
     \<and> (\<forall>a t. en_audio_id e = Some a \<and> en_transcript_id e = Some (tr_id t) \<and> t \<in> set (transcripts w) \<longrightarrow> tr_audio_id t = a)"

text \<open>The same request without a segment, and what it shows of a segment.\<close>

definition all_segments :: "dash_query \<Rightarrow> dash_query" where
  "all_segments q = q\<lparr>dq_segment := None\<rparr>"

lemma not_given_no_date: "\<not> given x \<Longrightarrow> parse_iso_date x = None"
  by (auto simp: given_def parse_iso_date_def split: option.splits)

lemma scope_segment:
  assumes "given (dq_segment q)" "groups_by (dq_group q)"
  shows "co_documents (scope_of da mp q co) = filter (\<lambda>i. segment_label da (meta_at (mp_doc mp) i) (the (dq_group q)) = the (dq_segment q))
      (co_documents (scope_of da mp (all_segments q) co))"
    "co_audios (scope_of da mp q co) = filter (\<lambda>i. segment_label da (meta_at (mp_audio mp) i) (the (dq_group q)) = the (dq_segment q))
      (co_audios (scope_of da mp (all_segments q) co))"
    "co_project (scope_of da mp q' co) = co_project co"
    "set (co_audios (scope_of da mp q' co)) \<subseteq> set (co_audios co)"
proof -
  have m: "meta_in_scope da (dq_group q) (dq_segment q) f t m \<longleftrightarrow> meta_in_scope da (dq_group q) None f t m
      \<and> segment_label da m (the (dq_group q)) = the (dq_segment q)" for f t m
    using assms by (auto simp: meta_in_scope_def Let_def given_def [of None])
  have n: "meta_in_scope da gb None (dq_from q) (dq_to q) m" if "\<not> given (dq_from q)" "\<not> given (dq_to q)" for gb m
    using that by (simp add: meta_in_scope_def given_def [of None] not_given_no_date)
  show "co_documents (scope_of da mp q co) = filter (\<lambda>i. segment_label da (meta_at (mp_doc mp) i) (the (dq_group q)) = the (dq_segment q))
      (co_documents (scope_of da mp (all_segments q) co))"
    "co_audios (scope_of da mp q co) = filter (\<lambda>i. segment_label da (meta_at (mp_audio mp) i) (the (dq_group q)) = the (dq_segment q))
      (co_audios (scope_of da mp (all_segments q) co))"
    using assms m n by (auto simp: scope_of_def scope_filtered_def all_segments_def narrow_source_ids_def
        given_def [of None] intro!: filter_cong)
  show "co_project (scope_of da mp q' co) = co_project co" "set (co_audios (scope_of da mp q' co)) \<subseteq> set (co_audios co)"
    by (auto simp: scope_of_def narrow_source_ids_def)
qed

text \<open>Where an entity with one source comes from decides whether it is in scope, and its label.\<close>

lemma transcript_audio:
  assumes "distinct (map tr_id (transcripts w))" "t \<in> set (transcripts w)" "tr_audio_id t \<in> set (co_audios co)"
  shows "map_of (mp_transcript (request_maps da co w)) (tr_id t) = Some (tr_audio_id t)"
proof (rule map_of_is_SomeI)
  show "distinct (map fst (mp_transcript (request_maps da co w)))"
    using assms(1) by (simp add: request_maps_def load_metadata_maps_def o_def distinct_map_filter)
  show "(tr_id t, tr_audio_id t) \<in> set (mp_transcript (request_maps da co w))"
    using assms(2,3) by (auto simp: request_maps_def load_metadata_maps_def)
qed

definition from_sources :: "uuid list \<Rightarrow> uuid list \<Rightarrow> world \<Rightarrow> extracted_entity \<Rightarrow> bool" where
  "from_sources ds as w e \<longleftrightarrow> among (en_document_id e) ds \<or> among (en_audio_id e) as
     \<or> among (en_transcript_id e) (resolve_transcript_ids as w)"

lemma among_simps [simp]: "\<not> among None is" "among (Some i) is \<longleftrightarrow> i \<in> set is"
  by (simp_all add: among_def)

lemma from_segment_sources:
  fixes da co w gb s
  defines "mp \<equiv> request_maps da co w"
  assumes wf: "one_source w e" "distinct (map tr_id (transcripts w))" and sub: "set as \<subseteq> set (co_audios co)"
  shows "from_sources (filter (\<lambda>i. segment_label da (meta_at (mp_doc mp) i) gb = s) ds)
        (filter (\<lambda>i. segment_label da (meta_at (mp_audio mp) i) gb = s) as) w e
     \<longleftrightarrow> from_sources ds as w e \<and> segment_of da mp gb e = s"
proof (cases "en_document_id e")
  case (Some i)
  then show ?thesis using wf(1) by (auto simp: from_sources_def one_source_def segment_of_def meta_for_entity_def)
next
  case no_document: None
  show ?thesis
  proof (cases "en_audio_id e")
    case (Some a)
    have own: "tr_audio_id t = a" if "t \<in> set (transcripts w)" "en_transcript_id e = Some (tr_id t)" for t
      using wf(1) Some that by (auto simp: one_source_def)
    have own_in: "a \<in> set bs" if "among (en_transcript_id e) (resolve_transcript_ids bs w)" for bs
      using own that by (cases "en_transcript_id e") (auto simp: resolve_transcript_ids_def)
    then have "from_sources ds' bs w e \<longleftrightarrow> a \<in> set bs" for ds' bs
      using no_document Some by (auto simp: from_sources_def)
    then show ?thesis using no_document Some by (auto simp: segment_of_def meta_for_entity_def)
  next
    case no_audio: None
    show ?thesis
    proof (cases "en_transcript_id e")
      case (Some j)
      have lab: "segment_of da mp gb e = segment_label da (meta_at (mp_audio mp) (tr_audio_id t)) gb"
        if "t \<in> set (transcripts w)" "tr_id t = j" "tr_audio_id t \<in> set as" for t
        using transcript_audio [OF wf(2) that(1)] that sub no_document no_audio Some
        by (auto simp: segment_of_def meta_for_entity_def mp_def)
      have "j \<in> set (resolve_transcript_ids bs w) \<longleftrightarrow> (\<exists>t \<in> set (transcripts w). tr_id t = j \<and> tr_audio_id t \<in> set bs)" for bs
        by (auto simp: resolve_transcript_ids_def)
      then show ?thesis using no_document no_audio Some lab by (auto simp: from_sources_def)
    qed (use no_document no_audio in \<open>simp add: from_sources_def\<close>)
  qed
qed

lemma corpus_entities_from:
  "corpus_entities co w = filter (\<lambda>e. en_project_id e = co_project co \<and> en_canonical e = None
     \<and> from_sources (co_documents co) (co_audios co) w e) (entities w)"
  by (simp add: corpus_entities_def from_sources_def Let_def)

lemma request_entities_segment:
  assumes "given (dq_segment q)" "groups_by (dq_group q)"
    and wf: "\<And>e. e \<in> set (entities w) \<Longrightarrow> one_source w e" "distinct (map tr_id (transcripts w))"
    and small: "length (corpus_entities (scope_of da (request_maps da co w) (all_segments q) co) w) \<le> MAX_ENTITIES_LOAD"
  shows "request_entities da q co w
    = filter (\<lambda>e. segment_of da (request_maps da co w) (the (dq_group q)) e = the (dq_segment q))
        (request_entities da (all_segments q) co w)"
proof -
  let ?mp = "request_maps da co w"
  let ?sc = "scope_of da ?mp q co" and ?all = "scope_of da ?mp (all_segments q) co"
  let ?P = "\<lambda>e. segment_of da ?mp (the (dq_group q)) e = the (dq_segment q)"
  note sc = scope_segment [OF assms(1,2), where da = da and mp = ?mp and co = co]
  have c: "corpus_entities ?sc w = filter ?P (corpus_entities ?all w)"
    unfolding corpus_entities_from filter_filter
    by (rule filter_cong [OF refl])
      (use from_segment_sources [OF wf sc(4), of _ da "the (dq_group q)" "the (dq_segment q)"] in \<open>auto simp: sc(1-3)\<close>)
  then have "length (corpus_entities ?sc w) \<le> MAX_ENTITIES_LOAD"
    using small by (simp add: order_trans [OF length_filter_le])
  then have l: "load_entities ?sc w = filter ?P (load_entities ?all w)"
    using small by (simp add: load_entities_def c filter_sort)
  have "dq_from (all_segments q) = dq_from q" "dq_to (all_segments q) = dq_to q" by (simp_all add: all_segments_def)
  then show ?thesis
    unfolding request_entities_def scope_entities_def Let_def l by (simp add: conj_commute)
qed

lemma groups_of_one: "filter (\<lambda>(k, g). k = s) (groups_of f xs) = groups_of f (filter (\<lambda>x. f x = s) xs)"
proof -
  have one: "filter (\<lambda>k. k = s) ks = (if s \<in> set ks then [s] else [])" if "distinct ks" for ks
    using that by (induction ks) auto
  have "first_occ (map f (filter (\<lambda>x. f x = s) xs)) = (if s \<in> f ` set xs then [s] else [])"
    by (induction xs rule: rev_induct) (auto simp: first_occ_snoc image_iff, simp_all add: first_occ_def)
  moreover have "filter (\<lambda>(k, g). k = s) (groups_of f xs)
      = map (\<lambda>k. (k, filter (\<lambda>x. f x = k) xs)) (filter (\<lambda>k. k = s) (first_occ (map f xs)))"
    by (simp add: groups_of_eq filter_map o_def)
  ultimately show ?thesis by (simp add: one groups_of_eq image_iff conj_commute cong: filter_cong)
qed

text \<open>
  C25. A dashboard filtered by a segment counts that segment exactly: it counts as many entities as the
  dashboard of all segments has with the segment's label, its taxonomy and its table of traced labels are
  those of these entities, and its breakdown consists of the segment's row in the dashboard of all segments,
  with the same counts, signals and words. Premises: entities have one source, transcripts their own ids, and
  all segments together have at most 4000 entities, the number that is loaded. (The lists of interview units
  and of pipeline states are those of all documents, whatever the segment.)
\<close>

theorem segment_filter_is_exact:
  assumes "given (dq_segment q)" "groups_by (dq_group q)" "the (dq_group q) \<noteq> u ''interview_unit''"
    and "\<And>e. e \<in> set (entities w) \<Longrightarrow> one_source w e" "distinct (map tr_id (transcripts w))"
    and "length (corpus_entities (scope_of da (request_maps da co w) (all_segments q) co) w) \<le> 4000"
    and "co_documents co \<noteq> [] \<or> co_audios co \<noteq> []"
  shows "let mine = filter (\<lambda>e. segment_of da (request_maps da co w) (the (dq_group q)) e = the (dq_segment q))
                      (request_entities da (all_segments q) co w);
             shown = build_dashboard env da n co q w; whole = build_dashboard env da n co (all_segments q) w
     in db_entities whole = length (request_entities da (all_segments q) co w) \<and> db_entities shown = length mine
        \<and> db_taxonomy shown = pr_taxonomy_totals mine \<and> db_trace shown = traceability_rows 80 mine
        \<and> db_segments shown = filter (\<lambda>r. se_key r = the (dq_segment q)) (db_segments whole)"
proof -
  let ?mp = "request_maps da co w" and ?g = "the (dq_group q)" and ?s = "the (dq_segment q)"
  let ?sc = "scope_of da ?mp q co" and ?all = "scope_of da ?mp (all_segments q) co"
  have es: "request_entities da q co w
      = filter (\<lambda>e. segment_of da ?mp ?g e = ?s) (request_entities da (all_segments q) co w)"
    by (rule request_entities_segment) (use assms in \<open>simp_all add: MAX_ENTITIES_LOAD_def\<close>)
  note sc = scope_segment [OF assms(1,2), where da = da and mp = ?mp and co = co]
  let ?h = "\<lambda>(k :: pystr, g :: extracted_entity list). (- int (length g), k)"
  have sorted_one: "filter (\<lambda>(k, g). k = ?s) (sort_key ?h (groups_of f xs)) = sort_key ?h (groups_of f (filter (\<lambda>x. f x = ?s) xs))"
    for f and xs :: "extracted_entity list" by (simp add: filter_sort groups_of_one)
  have key: "k = ?s" if "(k, g) \<in> set (groups_of f (filter (\<lambda>x. f x = ?s) xs))"
    for k g f and xs :: "extracted_entity list" using that by (auto simp: groups_of_eq)
  have "label_breakdown env da ?mp ?sc ?g (dq_stop q) (request_entities da q co w) w
      = filter (\<lambda>r. se_key r = ?s) (label_breakdown env da ?mp ?all ?g (dq_stop q) (request_entities da (all_segments q) co w) w)"
    unfolding label_breakdown_def filter_map o_def Let_def es
    by (simp add: split_def sorted_one [unfolded split_def]) (auto simp: sc conj_absorb dest!: key)
  then have seg: "segment_breakdown env da ?mp ?sc (dq_group q) (dq_stop q) (request_entities da q co w) w
      = filter (\<lambda>r. se_key r = ?s)
          (segment_breakdown env da ?mp ?all (dq_group q) (dq_stop q) (request_entities da (all_segments q) co w) w)"
    using assms(2,3) by (auto simp: segment_breakdown_def)
  have tr: "db_trace (build_dashboard env da n co q w) = traceability_rows 80 (request_entities da q co w)"
    using assms(7) by (auto simp: build_dashboard_def Let_def request_maps_def request_entities_def)
  have "dq_group (all_segments q) = dq_group q" "dq_stop (all_segments q) = dq_stop q" by (simp_all add: all_segments_def)
  then show ?thesis
    unfolding Let_def dashboard_parts [OF assms(7)] tr using es seg by simp
qed

section \<open>Concrete runs\<close>

definition by_gender :: "pystr option \<Rightarrow> dash_query" where
  "by_gender seg = \<lparr>dq_group = Some (u ''gender''), dq_segment = seg, dq_from = None, dq_to = None, dq_stop = False,
     dq_a = None, dq_b = None\<rparr>"

definition women :: dash where
  "women = plain_dash\<lparr>da_meta := (\<lambda>_. [(u ''gender'', JStr (u ''female''))])\<rparr>"

text \<open>A document with the three entities of \<open>price_signals\<close>.\<close>

definition priced :: world where
  "priced = empty_world\<lparr>projects := [1], documents := [plain_document 7 1 (u ''text'')], entities := price_signals\<rparr>"

definition priced_corpus :: corpus where
  "priced_corpus = \<lparr>co_id = 1, co_project = 1, co_documents = [7], co_audios = [], co_multi = False\<rparr>"

lemma gender_groups: "groups_by (Some (u ''gender''))" "u ''gender'' \<noteq> u ''interview_unit''"
  by (simp_all add: groups_by_def given_def DASHBOARD_GROUP_BY_FIELDS_def)

lemma priced_entities: "request_entities da (by_gender None) priced_corpus priced = price_signals"
proof -
  have "corpus_entities priced_corpus priced = price_signals"
    by (simp add: corpus_entities_def priced_corpus_def priced_def price_signals_def signal_def among_def)
  moreover have "sort_key en_created_at price_signals = price_signals"
    by (simp add: price_signals_def signal_def)
  moreover have "length price_signals \<le> 4000" by (simp add: price_signals_def)
  ultimately have "load_entities priced_corpus priced = price_signals" by (simp add: load_entities_def MAX_ENTITIES_LOAD_def)
  moreover have "scope_of da mp (by_gender None) priced_corpus = priced_corpus" for mp
    by (simp add: scope_of_def scope_filtered_def by_gender_def given_def)
  moreover have "parse_iso_date None = None" by (simp add: parse_iso_date_def)
  ultimately show ?thesis by (simp add: request_entities_def scope_entities_def by_gender_def Let_def)
qed

lemma priced_count: "db_entities (build_dashboard env da n priced_corpus (by_gender None) priced) = 3"
  using dashboard_parts(1) [of priced_corpus env da n "by_gender None" priced] priced_entities
  by (simp add: priced_corpus_def [THEN arg_cong, of co_documents] price_signals_def)

theorem dashboard_counts_add_up_witness:
  "(\<Sum>r\<leftarrow>db_segments (build_dashboard plain_env women 1 priced_corpus (by_gender None) priced). se_count r) = 3
   \<and> (\<Sum>(k, v, p)\<leftarrow>db_taxonomy (build_dashboard plain_env women 1 priced_corpus (by_gender None) priced). v) = 3"
  using dashboard_counts_add_up [of "by_gender None" plain_env women 1 priced_corpus priced] gender_groups
    priced_count [of plain_env women 1] by (simp add: by_gender_def)

theorem unit_breakdown_is_empty_witness:
  "list_all (\<lambda>r. se_count r = 0)
     (db_segments (build_dashboard plain_env plain_dash 1 priced_corpus ((by_gender None)\<lparr>dq_group := Some (u ''interview_unit'')\<rparr>) priced))"
proof (rule unit_breakdown_is_empty)
  show "unit_tag e = []" if "e \<in> set (entities priced)" for e
    using that by (auto simp: priced_def price_signals_def signal_def unit_tag_def)
  show "da_unit plain_dash i \<noteq> UNKNOWN" for i
  proof -
    have "list_all is_digit (digits k)" for k
    proof (induction k rule: digits.induct)
      case (1 n)
      have "n mod 10 \<le> 9" using mod_less_divisor [of 10 n] by simp
      then show ?case using 1 by (subst digits.simps) (simp add: is_digit_def [abs_def])
    qed
    moreover have "\<not> list_all is_digit UNKNOWN" by code_simp
    ultimately show ?thesis unfolding plain_dash_def dash.simps by metis
  qed
qed simp

theorem analysed_study_still_running_witness:
  "dg_running (db_diagnostics (build_dashboard plain_env plain_dash 1 priced_corpus (by_gender None)
     (snd (pipeline_document_analysis plain_env quiet_services plain_splitter 7 priced))))"
  by (rule analysed_study_still_running [of _ _ "plain_document 7 1 (u ''text'')"]) code_simp+

theorem segment_filter_is_exact_witness:
  "let shown = build_dashboard plain_env women 1 priced_corpus (by_gender (Some (u ''female''))) priced;
       whole = build_dashboard plain_env women 1 priced_corpus (by_gender None) priced
   in db_segments shown = filter (\<lambda>r. se_key r = u ''female'') (db_segments whole) \<and> db_entities whole = 3"
proof -
  let ?q = "by_gender (Some (u ''female''))"
  have q: "dq_segment ?q = Some (u ''female'')" "dq_group ?q = Some (u ''gender'')" "all_segments ?q = by_gender None"
    by (simp_all add: by_gender_def all_segments_def)
  have one: "one_source priced e" if "e \<in> set (entities priced)" for e
    using that by (auto simp: priced_def price_signals_def signal_def one_source_def)
  have ids: "distinct (map tr_id (transcripts priced))" by (simp add: priced_def empty_world_def)
  have "length (corpus_entities co priced) \<le> length (entities priced)" for co
    unfolding corpus_entities_from by (rule length_filter_le)
  moreover have "length (entities priced) \<le> 4000" by (simp add: priced_def price_signals_def)
  ultimately have small: "length (corpus_entities co priced) \<le> 4000" for co by (rule order_trans)
  have seg: "given (dq_segment ?q)" "groups_by (dq_group ?q)" "the (dq_group ?q) \<noteq> u ''interview_unit''"
    using gender_groups unfolding q by (simp_all add: given_def)
  have ne: "co_documents priced_corpus \<noteq> [] \<or> co_audios priced_corpus \<noteq> []" by (simp add: priced_corpus_def)
  show ?thesis
    using segment_filter_is_exact [OF seg one ids small ne, where env = plain_env and da = women and n = 1] priced_count [of plain_env women 1]
    unfolding Let_def q by simp
qed

end
