(* ===== verification/Grounding.thy ===== *)
theory Grounding
  imports Portrait Report_View
begin

text \<open>
  The evidence behind the statements of the model (\<^verbatim>\<open>pr_grounding_service.py\<close>, and the shaping of it in
  \<^verbatim>\<open>evidence_driven_bundle.py\<close>): quotes are scored against a statement, two to five of them back it,
  and a statement with fewer is left out.
\<close>

section \<open>Scores\<close>

text \<open>The set of the words of a text that have more than two characters.\<close>

definition tok :: "env \<Rightarrow> dash \<Rightarrow> pystr \<Rightarrow> pystr set" where
  "tok env da s = set (map (lower env) (filter (\<lambda>w. 2 < length w) (runs (da_word da) s)))"

definition score_match :: "env \<Rightarrow> dash \<Rightarrow> pystr \<Rightarrow> portrait_quote \<Rightarrow> rat" where
  "score_match env da insight q =
     (let a = tok env da insight; b = tok env da (pq_text q) \<union> tok env da (pq_title q); n = card (a \<inter> b);
          j = fl (of_nat n / of_nat (card (a \<union> b)))
      in if a = {} \<or> b = {} then 0 else if n < 1 then 0
      else min 1 (if sublist (lower env (pq_text q)) (lower env insight) then fl (j + fl (15 / 100)) else j))"

section \<open>The quotes of a statement\<close>

record evidence_item =
  ei_quote :: pystr
  ei_entity :: uuid
  ei_document :: "uuid option"
  ei_audio :: "uuid option"
  ei_transcript :: "uuid option"
  ei_chunk :: uuid
  ei_segment :: "(pystr \<times> pystr) list"

definition quote_evidence_item :: "portrait_quote \<Rightarrow> evidence_item" where
  "quote_evidence_item q =
     \<lparr>ei_quote = take 900 (pq_text q), ei_entity = pq_entity q, ei_document = pq_document q, ei_audio = pq_audio q,
      ei_transcript = pq_transcript q, ei_chunk = pq_chunk q, ei_segment = pq_segment q\<rparr>"

text \<open>The loop takes a quote of an entity that has none yet and stops behind the last one allowed.\<close>

fun pick_loop :: "nat \<Rightarrow> portrait_quote list \<Rightarrow> uuid list \<Rightarrow> evidence_item list \<Rightarrow> evidence_item list" where
  "pick_loop n [] used out = out"
| "pick_loop n (q # qs) used out =
     (if pq_entity q \<in> set used then pick_loop n qs used out
      else let out' = out @ [quote_evidence_item q] in
        if n \<le> length out' then out' else pick_loop n qs (pq_entity q # used) out')"

definition matching_quotes :: "env \<Rightarrow> dash \<Rightarrow> pystr \<Rightarrow> portrait_quote list \<Rightarrow> portrait_quote list" where
  "matching_quotes env da t qs =
     filter (\<lambda>q. 10 \<le> length (strip (pq_text q)) \<and> \<not> score_match env da t q < fl (1 / 100)) qs"

definition pick_evidence_for_text :: "env \<Rightarrow> dash \<Rightarrow> nat \<Rightarrow> nat \<Rightarrow> pystr \<Rightarrow> portrait_quote list \<Rightarrow> evidence_item list" where
  "pick_evidence_for_text env da min_n max_n txt qs =
     (let t = strip txt in
      if length t < 4 \<or> qs = [] then []
      else (let out = pick_loop max_n (sort_key (\<lambda>q. - score_match env da t q) (matching_quotes env da t qs)) [] []
        in if length out < min_n then [] else out))"

section \<open>Action cards\<close>

text \<open>A card as the model's answer is read, with its raw references, and as it is served.\<close>

record base_card =
  kc_action :: pystr
  kc_for_segment :: pystr
  kc_channel :: pystr
  kc_message :: pystr
  kc_effect :: pystr
  kc_risk :: pystr
  kc_based_on :: "pystr list"

record draft_card = base_card +
  kc_refs :: "json list"

record action_card = base_card +
  kc_evidence :: "evidence_item list"
  kc_status :: pystr

definition card_message :: "'m base_card_scheme \<Rightarrow> pystr" where
  "card_message c = strip (or_else (kc_message c) (kc_action c))"

definition enrich_action_card :: "env \<Rightarrow> dash \<Rightarrow> portrait_quote list \<Rightarrow> draft_card \<Rightarrow> action_card" where
  "enrich_action_card env da qs c =
     (let ev = (if card_message c \<noteq> [] then pick_evidence_for_text env da 2 5 (card_message c) qs else []);
          ok = (2 \<le> length ev)
      in \<lparr>kc_action = take 900 (strip (kc_action c)), kc_for_segment = take 200 (or_else (kc_for_segment c) (u ''all'')),
          kc_channel = take 200 (strip (kc_channel c)), kc_message = take 900 (strip (kc_message c)),
          kc_effect = take 600 (strip (kc_effect c)), kc_risk = take 600 (strip (kc_risk c)),
          kc_based_on = take 24 (filter (\<lambda>s. s \<noteq> []) (map strip (kc_based_on c))),
          kc_evidence = (if ok then ev else []),
          kc_status = (if ok then u ''ok'' else u ''insufficient_evidence'')\<rparr>)"

definition enrich_action_cards_with_evidence :: "env \<Rightarrow> dash \<Rightarrow> draft_card list \<Rightarrow> portrait_quote list \<Rightarrow> action_card list" where
  "enrich_action_cards_with_evidence env da cs qs = map (enrich_action_card env da qs) cs"

section \<open>Grounded statements\<close>

text \<open>\<open>gr_kind\<close> is both \<^verbatim>\<open>insight_kind\<close> and \<^verbatim>\<open>insight_type\<close>, which are equal for every kind.\<close>

record grounding_row =
  gr_id :: uuid
  gr_insight :: pystr
  gr_kind :: pystr
  gr_evidence :: "evidence_item list"

text \<open>\<open>ids\<close> are the answers of \<^verbatim>\<open>uuid4\<close>, in the order in which rows are added.\<close>

definition with_ids :: "(nat \<Rightarrow> uuid) \<Rightarrow> (pystr \<times> pystr \<times> evidence_item list) list \<Rightarrow> grounding_row list" where
  "with_ids ids rows = map (\<lambda>(n, k, t, ev). \<lparr>gr_id = ids n, gr_insight = take 2000 t, gr_kind = k, gr_evidence = ev\<rparr>)
     (enumerate 0 rows)"

definition text_rows :: "env \<Rightarrow> dash \<Rightarrow> portrait_quote list \<Rightarrow> string \<Rightarrow> pystr list
    \<Rightarrow> (pystr \<times> pystr \<times> evidence_item list) list" where
  "text_rows env da qs k ts = filter (\<lambda>(k, t, ev). \<not> length ev < 2)
     (map (\<lambda>t. (u k, t, pick_evidence_for_text env da 2 5 t qs)) (filter (\<lambda>t. t \<noteq> []) (map strip ts)))"

definition card_evidence :: "env \<Rightarrow> dash \<Rightarrow> portrait_quote list \<Rightarrow> action_card \<Rightarrow> evidence_item list" where
  "card_evidence env da qs c =
     (let norm = filter (\<lambda>x. strip (ei_quote x) \<noteq> []) (kc_evidence c) in
      if length norm < 2 then pick_evidence_for_text env da 2 5 (card_message c) qs else norm)"

definition card_rows :: "env \<Rightarrow> dash \<Rightarrow> portrait_quote list \<Rightarrow> action_card list \<Rightarrow> (pystr \<times> pystr \<times> evidence_item list) list" where
  "card_rows env da qs cs = map (\<lambda>c. (u ''action_card'', card_message c, take 5 (card_evidence env da qs c)))
     (filter (\<lambda>c. \<not> length (card_message c) < 8 \<and> \<not> length (card_evidence env da qs c) < 2) cs)"

definition build_pr_grounding :: "env \<Rightarrow> dash \<Rightarrow> (nat \<Rightarrow> uuid) \<Rightarrow> strategy_fields \<Rightarrow> action_card list
    \<Rightarrow> portrait_quote list \<Rightarrow> grounding_row list" where
  "build_pr_grounding env da ids sf cs qs =
     (let rows = text_rows env da qs ''key_pr_insight'' (sf_insights sf)
            @ text_rows env da qs ''reputational_risk'' (sf_risks sf)
            @ text_rows env da qs ''recommended_message'' (sf_messages sf)
      in with_ids ids (if rows = [] then card_rows env da qs cs else rows))"

section \<open>Evidence insights\<close>

record evidence_insight =
  in_id :: uuid
  in_insight :: pystr
  in_count :: nat
  in_coverage :: rat
  in_evidence :: "evidence_item list"
  in_sources :: "pystr list"
  in_transcripts :: "pystr list"

definition source_keys :: "evidence_item \<Rightarrow> pystr list" where
  "source_keys x = (case ei_document x of Some d \<Rightarrow> [u ''doc:'' @ uuid_str d] | None \<Rightarrow> [])
     @ (case ei_audio x of Some a \<Rightarrow> [u ''audio:'' @ uuid_str a] | None \<Rightarrow> [])"

definition transcript_keys :: "evidence_item \<Rightarrow> pystr list" where
  "transcript_keys x = (case ei_transcript x of Some t \<Rightarrow> [uuid_str t] | None \<Rightarrow> [])"

definition insight_of_row :: "nat \<Rightarrow> grounding_row \<Rightarrow> evidence_insight option" where
  "insight_of_row ic r =
     (let t = strip (gr_insight r);
          shaped = map (\<lambda>x. x\<lparr>ei_quote := take 900 (ei_quote x)\<rparr>)
            (filter (\<lambda>x. \<not> length (take 900 (ei_quote x)) < 4) (take 5 (gr_evidence r)));
          srcs = concat (map source_keys shaped); trs = concat (map transcript_keys shaped);
          cov = card (set srcs \<union> set (map (\<lambda>t. u ''tr:'' @ t) trs))
      in if length (gr_evidence r) < 2 \<or> t = [] \<or> length shaped < 2 then None
      else Some \<lparr>in_id = gr_id r, in_insight = take 2000 t, in_count = max (length shaped) cov,
         in_coverage = min 100 (pct cov ic), in_evidence = shaped, in_sources = take 32 (sort (remdups srcs)),
         in_transcripts = take 32 (sort (remdups trs))\<rparr>)"

definition evidence_insights_from_grounding :: "nat \<Rightarrow> grounding_row list \<Rightarrow> evidence_insight list" where
  "evidence_insights_from_grounding interviews rows =
     List.map_filter (insight_of_row (max 1 (if interviews \<noteq> 0 then interviews else 1))) rows"

text \<open>A card is based on the first five insights that cite an entity it cites.\<close>

definition attach_based_on :: "evidence_insight list \<Rightarrow> action_card \<Rightarrow> action_card" where
  "attach_based_on ins c =
     c\<lparr>kc_based_on := take 5 (map (\<lambda>i. uuid_str (in_id i))
       (filter (\<lambda>i. \<exists>x \<in> set (in_evidence i). ei_entity x \<in> ei_entity ` set (kc_evidence c)) ins))\<rparr>"

definition attach_based_on_to_actions :: "action_card list \<Rightarrow> evidence_insight list \<Rightarrow> action_card list" where
  "attach_based_on_to_actions cs ins = map (attach_based_on ins) cs"

section \<open>The best quotes are picked\<close>

lemma pick_loop_eq:
  "length out < n \<Longrightarrow> pick_loop n qs used out = take n (out @ map quote_evidence_item (keep_first pq_entity used qs))"
  by (induction n qs used out rule: pick_loop.induct) (auto simp: Let_def take_Cons')

definition cited :: "env \<Rightarrow> dash \<Rightarrow> pystr \<Rightarrow> portrait_quote list \<Rightarrow> portrait_quote list" where
  "cited env da t qs =
     take 5 (keep_first pq_entity [] (sort_key (\<lambda>q. - score_match env da t q) (matching_quotes env da t qs)))"

lemma pick_eq:
  "pick_evidence_for_text env da 2 5 txt qs =
     (if length (strip txt) < 4 \<or> length (cited env da (strip txt) qs) < 2 then []
      else map quote_evidence_item (cited env da (strip txt) qs))"
proof -
  have "cited env da t [] = []" for t by (simp add: cited_def matching_quotes_def)
  then show ?thesis by (auto simp: pick_evidence_for_text_def Let_def pick_loop_eq cited_def take_map)
qed

lemma cited_matching: "set (cited env da t qs) \<subseteq> set (matching_quotes env da t qs)"
  using keep_first_set by (fastforce simp: cited_def dest: in_set_takeD)

lemma cited_distinct: "distinct (map pq_entity (cited env da t qs))"
  by (simp add: cited_def flip: take_map) (simp add: keep_first_distinct)

lemma length_cited: "length (cited env da t qs) = min 5 (card (pq_entity ` set (matching_quotes env da t qs)))"
  by (simp add: cited_def length_keep_first)

text \<open>A quote of an entity that is not cited scores no higher than a cited quote.\<close>

lemma cited_best:
  assumes "q \<in> set (matching_quotes env da t qs)" "pq_entity q \<notin> pq_entity ` set (cited env da t qs)"
    "c \<in> set (cited env da t qs)"
  shows "score_match env da t q \<le> score_match env da t c"
proof -
  let ?f = "\<lambda>q. - score_match env da t q"
  let ?s = "sort_key ?f (matching_quotes env da t qs)"
  let ?k = "keep_first pq_entity [] ?s"
  have s: "sorted (map ?f ?k)" by (rule sorted_keep_first) simp
  obtain y where y: "y \<in> set ?k" "pq_entity y = pq_entity q" "?f y \<le> ?f q"
    using keep_first_least [of ?f ?s q pq_entity "[]"] assms(1) by auto
  have "y \<notin> set (take 5 ?k)" using assms(2) y(2) by (metis cited_def imageI)
  then have "y \<in> set (drop 5 ?k)" using y(1) by (metis append_take_drop_id Un_iff set_append)
  moreover have "c \<in> set (take 5 ?k)" using assms(3) by (simp add: cited_def)
  moreover have "sorted (map ?f (take 5 ?k) @ map ?f (drop 5 ?k))"
    using s by (metis append_take_drop_id map_append)
  ultimately have "?f c \<le> ?f y" by (auto simp: sorted_append)
  then show ?thesis using y(3) by simp
qed

section \<open>Every statement is backed\<close>

text \<open>Two to five quotes of different entities, each taken from the evidence of the study.\<close>

definition backed :: "portrait_quote list \<Rightarrow> evidence_item list \<Rightarrow> bool" where
  "backed qs es \<longleftrightarrow> 2 \<le> length es \<and> length es \<le> 5 \<and> distinct (map ei_entity es)
     \<and> list_all (\<lambda>x. 10 \<le> length (ei_quote x)) es \<and> set es \<subseteq> quote_evidence_item ` set qs"

lemma entities_of_items: "map ei_entity (map quote_evidence_item qs) = map pq_entity qs"
  by (simp add: quote_evidence_item_def)

lemma matching_long: "q \<in> set (matching_quotes env da t qs) \<Longrightarrow> q \<in> set qs \<and> 10 \<le> length (ei_quote (quote_evidence_item q))"
  using length_strip [of "pq_text q"] by (simp add: matching_quotes_def quote_evidence_item_def)

lemma pick_backed:
  assumes "2 \<le> length (pick_evidence_for_text env da 2 5 t qs)"
  shows "backed qs (pick_evidence_for_text env da 2 5 t qs)"
proof -
  let ?c = "cited env da (strip t) qs"
  have eq: "pick_evidence_for_text env da 2 5 t qs = map quote_evidence_item ?c" and "2 \<le> length ?c"
    using assms by (auto simp: pick_eq split: if_splits)
  moreover have "length ?c \<le> 5" by (simp add: length_cited)
  moreover have "distinct (map pq_entity ?c)" by (rule cited_distinct)
  moreover have "q \<in> set qs \<and> 10 \<le> length (ei_quote (quote_evidence_item q))" if "q \<in> set ?c" for q
    using cited_matching that matching_long by blast
  ultimately show ?thesis unfolding backed_def eq entities_of_items by (auto simp: list_all_iff)
qed

lemma pick_all_or_none: "pick_evidence_for_text env da 2 5 t qs = [] \<or> backed qs (pick_evidence_for_text env da 2 5 t qs)"
  using pick_backed [of env da t qs] by (auto simp: pick_eq)

lemma backed_filter: "backed qs es \<Longrightarrow> 2 \<le> length (filter P es) \<Longrightarrow> backed qs (filter P es)"
  by (auto simp: backed_def list_all_iff distinct_map_filter intro: order.trans [OF length_filter_le])

lemma enriched_card_backed: "kc_evidence (enrich_action_card env da qs c) = [] \<or> backed qs (kc_evidence (enrich_action_card env da qs c))"
  using pick_backed [of env da "card_message c" qs] by (simp add: enrich_action_card_def Let_def)

lemma card_evidence_backed:
  assumes "kc_evidence c = [] \<or> backed qs (kc_evidence c)" "\<not> length (card_evidence env da qs c) < 2"
  shows "backed qs (card_evidence env da qs c)"
proof (cases "length (filter (\<lambda>x. strip (ei_quote x) \<noteq> []) (kc_evidence c)) < 2")
  case True
  then show ?thesis using assms(2) pick_backed by (simp add: card_evidence_def)
next
  case False
  then have "backed qs (kc_evidence c)" using assms(1) by auto
  then show ?thesis using False backed_filter by (simp add: card_evidence_def not_less)
qed

lemma backed_take5: "backed qs es \<Longrightarrow> take 5 es = es"
  by (simp add: backed_def)

text \<open>The rows before they get their ids: a text that is not blank, with evidence that backs it.\<close>

lemma text_rows_backed: "(k', t, ev) \<in> set (text_rows env da qs k ts) \<Longrightarrow> strip t = t \<and> t \<noteq> [] \<and> backed qs ev"
  by (auto simp: text_rows_def pick_backed not_less)

lemma card_rows_backed:
  assumes "(k, t, ev) \<in> set (card_rows env da qs cs)"
    and "\<And>c. c \<in> set cs \<Longrightarrow> kc_evidence c = [] \<or> backed qs (kc_evidence c)"
  shows "strip t = t \<and> t \<noteq> [] \<and> backed qs ev"
proof -
  obtain c where c: "c \<in> set cs" "t = card_message c" "ev = take 5 (card_evidence env da qs c)"
      "\<not> length (card_message c) < 8" "\<not> length (card_evidence env da qs c) < 2"
    using assms(1) by (auto simp: card_rows_def)
  then have "backed qs (card_evidence env da qs c)" using card_evidence_backed assms(2) by blast
  moreover have "strip t = t" by (simp add: c(2) card_message_def)
  ultimately show ?thesis using c backed_take5 by auto
qed

lemma with_ids_rows:
  "r \<in> set (with_ids ids rows) \<Longrightarrow> \<exists>k t. (k, t, gr_evidence r) \<in> set rows \<and> gr_insight r = take 2000 t"
  by (force simp: with_ids_def dest: in_set_enumerate_eq [THEN iffD1] nth_mem)

lemma grounding_row_ok:
  assumes "r \<in> set (build_pr_grounding env da ids sf cs qs)"
    and "\<And>c. c \<in> set cs \<Longrightarrow> kc_evidence c = [] \<or> backed qs (kc_evidence c)"
  shows "strip (gr_insight r) \<noteq> [] \<and> backed qs (gr_evidence r)"
proof -
  let ?rows = "text_rows env da qs ''key_pr_insight'' (sf_insights sf)
    @ text_rows env da qs ''reputational_risk'' (sf_risks sf) @ text_rows env da qs ''recommended_message'' (sf_messages sf)"
  obtain k t where mem: "(k, t, gr_evidence r) \<in> set (if ?rows = [] then card_rows env da qs cs else ?rows)"
      and ins: "gr_insight r = take 2000 t"
    using assms(1) with_ids_rows unfolding build_pr_grounding_def Let_def by blast
  have kt: "strip t = t" "t \<noteq> []" "backed qs (gr_evidence r)"
  proof -
    have "strip t = t \<and> t \<noteq> [] \<and> backed qs (gr_evidence r)"
    proof (cases "?rows = []")
      case True
      then have "(k, t, gr_evidence r) \<in> set (card_rows env da qs cs)" using mem by simp
      then show ?thesis using assms(2) by (rule card_rows_backed)
    next
      case False
      then have "(k, t, gr_evidence r) \<in> set ?rows" using mem by (simp only: if_False)
      then show ?thesis using text_rows_backed unfolding set_append by blast
    qed
    then show "strip t = t" "t \<noteq> []" "backed qs (gr_evidence r)" by simp_all
  qed
  have "\<not> is_space (hd t)" using kt(1,2) strip_hd [of t] by simp
  moreover have "hd t \<in> set (take 2000 t)" using kt(2) by (cases t) auto
  ultimately show ?thesis using kt(3) by (auto simp: ins strip_eq_Nil_iff)
qed

text \<open>
  C27. What backs a statement is its best evidence: the quotes are ranked by their score, every entity is
  cited once, the best five are taken, and with fewer than two entities that match there is none.
\<close>

theorem evidence_is_the_best:
  "if 4 \<le> length (strip t) \<and> 2 \<le> card (pq_entity ` set (matching_quotes env da (strip t) qs))
   then \<exists>cs. pick_evidence_for_text env da 2 5 t qs = map quote_evidence_item cs
     \<and> length cs = min 5 (card (pq_entity ` set (matching_quotes env da (strip t) qs)))
     \<and> distinct (map pq_entity cs) \<and> set cs \<subseteq> set (matching_quotes env da (strip t) qs)
     \<and> list_all (\<lambda>q. pq_entity q \<in> pq_entity ` set cs
         \<or> list_all (\<lambda>c. score_match env da (strip t) q \<le> score_match env da (strip t) c) cs)
       (matching_quotes env da (strip t) qs)
   else pick_evidence_for_text env da 2 5 t qs = []"
proof (cases "4 \<le> length (strip t) \<and> 2 \<le> card (pq_entity ` set (matching_quotes env da (strip t) qs))")
  case True
  let ?c = "cited env da (strip t) qs"
  have "pick_evidence_for_text env da 2 5 t qs = map quote_evidence_item ?c"
    using True by (auto simp: pick_eq length_cited)
  then show ?thesis unfolding if_P [OF True]
    using length_cited cited_distinct cited_matching cited_best by (intro exI [of _ ?c]) (auto simp: list_all_iff)
next
  case False
  then show ?thesis unfolding if_not_P [OF False] by (auto simp: pick_eq length_cited)
qed

text \<open>
  Every grounded statement cites two to five quotes of different entities, all of them quotes of the
  study, and becomes one evidence insight with the same id and the same quotes, whose coverage is a
  percentage.
\<close>

definition insight_valid :: "evidence_insight \<Rightarrow> bool" where
  "insight_valid i \<longleftrightarrow> 2 \<le> in_count i \<and> 0 \<le> in_coverage i \<and> in_coverage i \<le> 100"

lemma pct_nonneg: "0 \<le> pct v n"
  unfolding pct_def by (intro py_round_nonneg fl_nonneg divide_nonneg_nonneg) auto

lemma insight_of_backed_row:
  assumes "strip (gr_insight r) \<noteq> []" "backed qs (gr_evidence r)"
  shows "\<exists>i. insight_of_row n r = Some i \<and> in_id i = gr_id r \<and> in_evidence i = gr_evidence r \<and> insight_valid i"
proof -
  let ?ev = "gr_evidence r"
  have long: "x \<in> set ?ev \<Longrightarrow> 10 \<le> length (ei_quote x) \<and> take 900 (ei_quote x) = ei_quote x" for x
    using assms(2) by (auto simp: backed_def list_all_iff quote_evidence_item_def)
  then have "filter (\<lambda>x. \<not> length (take 900 (ei_quote x)) < 4) ?ev = ?ev" by (fastforce simp: filter_id_conv)
  moreover have "map (\<lambda>x. x\<lparr>ei_quote := take 900 (ei_quote x)\<rparr>) ?ev = ?ev" using long by (simp add: map_idI)
  ultimately show ?thesis
    using assms backed_take5 [OF assms(2)] pct_nonneg
    by (auto simp: insight_of_row_def insight_valid_def Let_def backed_def le_max_iff_disj)
qed

theorem every_statement_is_backed:
  "let cards = enrich_action_cards_with_evidence env da cs qs;
       rows = build_pr_grounding env da ids sf cards qs; ins = evidence_insights_from_grounding n rows
   in list_all (\<lambda>r. backed qs (gr_evidence r)) rows \<and> map in_id ins = map gr_id rows
     \<and> map in_evidence ins = map gr_evidence rows \<and> list_all insight_valid ins"
proof -
  define rows where "rows = build_pr_grounding env da ids sf (enrich_action_cards_with_evidence env da cs qs) qs"
  have ok: "strip (gr_insight r) \<noteq> [] \<and> backed qs (gr_evidence r)" if "r \<in> set rows" for r
    using that enriched_card_backed unfolding rows_def
    by (elim grounding_row_ok) (auto simp: enrich_action_cards_with_evidence_def)
  have "map in_id (List.map_filter (insight_of_row m) rs) = map gr_id rs
      \<and> map in_evidence (List.map_filter (insight_of_row m) rs) = map gr_evidence rs
      \<and> list_all insight_valid (List.map_filter (insight_of_row m) rs)" if "set rs \<subseteq> set rows" for rs m
    using that
  proof (induction rs)
    case (Cons r rs)
    then obtain i where "insight_of_row m r = Some i" "in_id i = gr_id r" "in_evidence i = gr_evidence r" "insight_valid i"
      using insight_of_backed_row ok by (metis list.set_intros(1) subsetD)
    then show ?case using Cons by (simp add: List.map_filter_def)
  qed (simp add: List.map_filter_def)
  from this [of rows] ok show ?thesis
    unfolding rows_def [symmetric] Let_def by (simp add: evidence_insights_from_grounding_def list_all_iff)
qed
end
