(* ===== verification/Strategy.thy ===== *)
theory Strategy
  imports Grounding
begin

text \<open>
  The PR strategy of a study (\<^verbatim>\<open>pr_strategy_service.py\<close>) with its layer of decisions
  (\<^verbatim>\<open>decision_layer_service.py\<close>): priority actions, the matrix of impact and effort, alerts of the model
  and of rules, merged. As with the portrait, the model is asked with the evidence itself.
\<close>

section \<open>Actions and alerts of the model\<close>

record priority_action =
  pa_action :: pystr
  pa_impact :: pystr
  pa_effort :: pystr
  pa_reason :: pystr
  pa_based_on :: "pystr list"

record alert =
  al_type :: pystr
  al_message :: pystr
  al_severity :: pystr

definition LEVELS :: "pystr list" where "LEVELS = map u [''high'', ''medium'', ''low'']"
definition ALERT_TYPES :: "pystr list" where "ALERT_TYPES = map u [''risk'', ''sentiment'', ''trust'']"
definition ALERT_SEV :: "pystr list" where "ALERT_SEV = map u [''high'', ''medium'']"

definition norm_word :: "env \<Rightarrow> pystr list \<Rightarrow> string \<Rightarrow> pystr \<Rightarrow> pystr" where
  "norm_word env known d v = (let s = lower env (strip v) in if s \<in> set known then s else u d)"

definition norm_level :: "env \<Rightarrow> pystr \<Rightarrow> pystr" where
  "norm_level env v = norm_word env LEVELS ''medium'' v"

definition norm_alert_type :: "env \<Rightarrow> pystr \<Rightarrow> pystr" where
  "norm_alert_type env v = norm_word env ALERT_TYPES ''risk'' v"

definition norm_severity :: "env \<Rightarrow> pystr \<Rightarrow> pystr" where
  "norm_severity env v = norm_word env ALERT_SEV ''medium'' v"

fun dicts :: "json list \<Rightarrow> items list" where
  "dicts [] = []"
| "dicts (JObj kvs # js) = kvs # dicts js"
| "dicts (_ # js) = dicts js"

definition list_items :: "json \<Rightarrow> json list" where
  "list_items v = (case v of JArr xs \<Rightarrow> xs | _ \<Rightarrow> [])"

definition based_on_texts :: "dash \<Rightarrow> items \<Rightarrow> pystr list" where
  "based_on_texts da m = take 24 (nonempty_texts da (list_items (item m (u ''based_on''))))"

definition parse_priority_actions :: "env \<Rightarrow> dash \<Rightarrow> json \<Rightarrow> priority_action list" where
  "parse_priority_actions env da raw =
     map (\<lambda>m. \<lparr>pa_action = take 500 (text_item da m ''action''), pa_impact = norm_level env (text_item da m ''impact''),
         pa_effort = norm_level env (text_item da m ''effort''), pa_reason = take 900 (text_item da m ''reason''),
         pa_based_on = based_on_texts da m\<rparr>)
       (filter (\<lambda>m. text_item da m ''action'' \<noteq> []) (dicts (take 24 (list_items raw))))"

definition parse_alerts :: "env \<Rightarrow> dash \<Rightarrow> json \<Rightarrow> alert list" where
  "parse_alerts env da raw =
     map (\<lambda>m. \<lparr>al_type = norm_alert_type env (text_item da m ''type''), al_message = take 600 (text_item da m ''message''),
         al_severity = norm_severity env (text_item da m ''severity'')\<rparr>)
       (filter (\<lambda>m. text_item da m ''message'' \<noteq> []) (dicts (take 16 (list_items raw))))"

definition build_impact_effort_matrix :: "priority_action list \<Rightarrow> (pystr \<times> pystr \<times> pystr) list" where
  "build_impact_effort_matrix as = map (\<lambda>a. (pa_action a, pa_impact a, pa_effort a)) as"

section \<open>Alerts by rules\<close>

text \<open>The language of the texts, normalised by each caller and once more when a text is chosen.\<close>

definition norm_lang :: "pystr \<Rightarrow> pystr" where
  "norm_lang l = take 8 (ascii_lower (strip (or_else l (u ''ru''))))"

definition count_item :: "items \<Rightarrow> string \<Rightarrow> nat" where
  "count_item m k = (case item m (u k) of JInt n \<Rightarrow> nat n | _ \<Rightarrow> 0)"

definition sentiment_alerts :: "env \<Rightarrow> dash \<Rightarrow> pystr \<Rightarrow> items \<Rightarrow> alert list" where
  "sentiment_alerts env da lang m =
     (let neg = count_item m ''negative_signals''; pos = count_item m ''positive_signals'';
          bal = lower env (let v = item m (u ''balance'') in if json_true v then str_of da v else [])
      in if bal = u ''negative'' \<or> 0 < neg \<and> 0 < pos \<and> of_nat neg \<ge> fl (of_nat pos * fl (14 / 10))
      then [\<lparr>al_type = u ''sentiment'',
         al_message = translated lang
           ([1055, 1077, 1088, 1077, 1082, 1086, 1089, 32, 1074, 32, 1085, 1077, 1075, 1072, 1090, 1080,
       1074, 1085, 1099, 1093, 32, 1089, 1080, 1075, 1085, 1072, 1083, 1072, 1093, 58,
       32] @ digits neg @ [32, 1085, 1077, 1075, 46, 32, 118, 115, 32] @ digits pos @ [32, 1087, 1086,
       1079, 46, 32, 8212, 32, 1087, 1088, 1086, 1074, 1077, 1088, 1100, 1090, 1077, 32, 1090, 1086, 1085,
       32, 1082, 1086, 1084, 1084, 1091, 1085, 1080, 1082, 1072, 1094, 1080, 1081, 32, 1080, 32, 1092,
       1072, 1082, 1090, 1099, 46])
           (u ''Negativ signallar ustun: '' @ digits neg @ u '' vs '' @ digits pos @ [32, 8212, 32, 116,
       111, 110, 32, 118, 97, 32, 100, 97, 108, 105, 108, 108, 97, 114, 46])
           (u ''Negative sentiment skew: '' @ digits neg @ u '' vs '' @ digits pos @ [32, 112, 111, 115,
       105, 116, 105, 118, 101, 32, 8212, 32, 114, 101, 118, 105, 101, 119, 32, 116, 111, 110, 101, 32, 97,
       110, 100, 32, 101, 118, 105, 100, 101, 110, 99, 101, 46]),
         al_severity = (if max 10 (pos * 2) \<le> neg \<or> bal = u ''negative'' then u ''high'' else u ''medium'')\<rparr>]
      else [])"

definition repeated_risk :: "env \<Rightarrow> pystr list \<Rightarrow> pystr \<Rightarrow> bool" where
  "repeated_risk env rep_risks label =
     list_ex (\<lambda>r. 6 < length r \<and> (sublist (lower env label) r \<or> sublist r (lower env label))) rep_risks"

definition risk_alert :: "env \<Rightarrow> pystr \<Rightarrow> pystr list \<Rightarrow> pystr \<times> nat \<Rightarrow> alert list" where
  "risk_alert env lang rep_risks row =
     (let lab = strip (fst row); val = snd row; repeated = repeated_risk env rep_risks lab in
      if lab = [] \<or> val < 4 then []
      else if val \<ge> 8 \<or> repeated
      then [\<lparr>al_type = u ''risk'',
         al_message = translated lang
           ([1063, 1072, 1089, 1090, 1099, 1081, 32, 1088, 1080, 1089, 1082, 47, 1085, 1072, 1087, 1088,
       1103, 1078, 1105, 1085, 1085, 1072, 1103, 32, 1090, 1077, 1084, 1072, 32,
       171] @ take 120 lab @ [187, 32, 40, 215] @ digits val @ u '')''
              @ (if repeated then [32, 8212, 32, 1089, 1086, 1074, 1087, 1072, 1076, 1072, 1077, 1090, 32,
       1089, 32, 1088, 1077, 1087, 1091, 1090, 1072, 1094, 1080, 1086, 1085, 1085, 1099, 1084, 1080, 32,
       1088, 1080, 1089, 1082, 1072, 1084, 1080, 32, 1089, 1090, 1088, 1072, 1090, 1077, 1075, 1080,
       1080] else []) @ u ''.'')
           ([84, 97, 107, 114, 111, 114, 108, 97, 110, 117, 118, 99, 104, 105, 32, 120, 97, 118, 102, 58,
       32, 171] @ take 120 lab @ [187, 32, 40, 215] @ digits val @ u '').'')
           ([70, 114, 101, 113, 117, 101, 110, 116, 32, 114, 105, 115, 107, 32, 116, 104, 101, 109, 101,
       32, 8220] @ take 120 lab @ [8221, 32, 40, 215] @ digits val @ u '')''
              @ (if repeated then [32, 8212, 32, 111, 118, 101, 114, 108, 97, 112, 115, 32, 115, 116, 114,
       97, 116, 101, 103, 121, 32, 114, 105, 115, 107, 115] else []) @ u ''.''),
         al_severity = (if 10 \<le> val \<or> repeated then u ''high'' else u ''medium'')\<rparr>]
      else [])"

definition trust_count :: "env \<Rightarrow> dash_insight list \<Rightarrow> nat" where
  "trust_count env xs = length (filter (\<lambda>x. lower env (di_signal x) = u ''trust_driver''
     \<or> lower env (di_type x) \<in> {u ''trust_issue'', u ''trust''}) xs)"

definition trust_alerts :: "env \<Rightarrow> pystr \<Rightarrow> dash_insight list \<Rightarrow> alert list" where
  "trust_alerts env lang xs =
     (let n = trust_count env xs in
      if 2 \<le> n
      then [\<lparr>al_type = u ''trust'',
         al_message = translated lang
           ([1053, 1077, 1089, 1082, 1086, 1083, 1100, 1082, 1086, 32, 1089, 1080, 1075, 1085, 1072, 1083,
       1086, 1074, 32, 1076, 1086, 1074, 1077, 1088, 1080, 1103, 47, 1085, 1072, 1087, 1088, 1103, 1078,
       1077, 1085, 1080, 1103, 32, 1074, 32, 1080, 1085, 1089, 1072, 1081, 1090, 1072, 1093, 32,
       40] @ digits n @ [41, 32, 8212, 32, 1091, 1089, 1080, 1083, 1080, 1090, 1100, 32, 112, 114, 111,
       111, 102, 32, 1080, 32, 1087, 1088, 1086, 1079, 1088, 1072, 1095, 1085, 1086, 1089, 1090, 1100, 46])
           (u ''Ishonch bilan bog'' @ [39] @ u ''liq '' @ digits n @ [32, 116, 97, 32, 115, 105, 103, 110,
       97, 108, 32, 8212, 32, 105, 115, 104, 111, 110, 99, 104, 108, 105, 108, 105, 107, 110, 105, 32, 109,
       117, 115, 116, 97, 104, 107, 97, 109, 108, 97, 110, 103, 46])
           (digits n @ [32, 116, 114, 117, 115, 116, 45, 114, 101, 108, 97, 116, 101, 100, 32, 105, 110,
       115, 105, 103, 104, 116, 32, 115, 105, 103, 110, 97, 108, 115, 32, 8212, 32, 115, 116, 114, 101,
       110, 103, 116, 104, 101, 110, 32, 112, 114, 111, 111, 102, 32, 97, 110, 100, 32, 116, 114, 97, 110,
       115, 112, 97, 114, 101, 110, 99, 121, 46]),
         al_severity = (if n < 4 then u ''medium'' else u ''high'')\<rparr>]
      else [])"

definition heuristic_alerts_from_strategy_and_ctx :: "env \<Rightarrow> dash \<Rightarrow> strategy_fields \<Rightarrow> portrait_context \<Rightarrow> pystr \<Rightarrow> alert list" where
  "heuristic_alerts_from_strategy_and_ctx env da sf c l =
     (let lang = norm_lang l;
          rep_risks = map (\<lambda>x. lower env (strip x)) (nonblank (sf_risks sf))
      in sentiment_alerts env da lang (pc_sentiment c)
         @ concat (map (risk_alert env lang rep_risks) (take 8 (cx_risks c)))
         @ trust_alerts env lang (cx_insights c))"

section \<open>Merged alerts\<close>

definition alert_key :: "env \<Rightarrow> alert \<Rightarrow> pystr \<times> pystr" where
  "alert_key env a = (al_type a, squeeze (take 72 (lower env (al_message a))))"

text \<open>\<^verbatim>\<open>DecisionAlertItem\<close>: its validators put the type and the severity into their vocabularies.\<close>

definition validated :: "env \<Rightarrow> alert \<Rightarrow> alert" where
  "validated env a = a\<lparr>al_type := norm_alert_type env (al_type a), al_severity := norm_severity env (al_severity a)\<rparr>"

text \<open>The two nested loops, over the two lists one behind the other.\<close>

fun merge_loop :: "env \<Rightarrow> nat \<Rightarrow> alert list \<Rightarrow> (pystr \<times> pystr) list \<Rightarrow> alert list \<Rightarrow> alert list" where
  "merge_loop env limit [] seen out = out"
| "merge_loop env limit (a # as) seen out =
     (if alert_key env a \<in> set seen then merge_loop env limit as seen out
      else let out' = out @ [validated env a] in
        if limit \<le> length out' then out' else merge_loop env limit as (alert_key env a # seen) out')"

definition merge_alerts :: "env \<Rightarrow> alert list \<Rightarrow> alert list \<Rightarrow> nat \<Rightarrow> alert list" where
  "merge_alerts env primary secondary limit = merge_loop env limit (primary @ secondary) [] []"

section \<open>Actions without the model\<close>

definition fallback_reason :: "pystr \<Rightarrow> pystr" where
  "fallback_reason lang = translated lang
     [1042, 1099, 1074, 1077, 1076, 1077, 1085, 1086, 32, 1080, 1079, 32, 1089, 1090, 1088, 1072, 1090,
       1077, 1075, 1080, 1080, 32, 40, 1088, 1080, 1089, 1082, 1080, 32, 47, 32, 1089, 1083, 1077, 1076,
       1091, 1102, 1097, 1080, 1077, 32, 1096, 1072, 1075, 1080, 41, 32, 1087, 1088, 1080, 32, 1086, 1090,
       1089, 1091, 1090, 1089, 1090, 1074, 1080, 1080, 32, 1103, 1074, 1085, 1086, 1075, 1086, 32, 1073,
       1083, 1086, 1082, 1072, 32, 112, 114, 105, 111, 114, 105, 116, 121, 95, 97, 99, 116, 105, 111, 110,
       115, 32, 1086, 1090, 32, 1084, 1086, 1076, 1077, 1083, 1080, 46]
     (u ''Strategiyadan (xavf / keyingi qadamlar).'')
     (u ''Derived from strategy risks/next steps when model omitted priority_actions.'')"

definition fallback_priority_actions :: "strategy_fields \<Rightarrow> pystr \<Rightarrow> priority_action list" where
  "fallback_priority_actions sf l = take 8 (map (\<lambda>(x, impact, effort).
       \<lparr>pa_action = take 400 (strip x), pa_impact = u impact, pa_effort = u effort, pa_reason = fallback_reason (norm_lang l),
        pa_based_on = []\<rparr>)
     (filter (\<lambda>(x, impact, effort). strip x \<noteq> []) (map (\<lambda>x. (x, ''high'', ''medium'')) (take 2 (sf_risks sf))
       @ map (\<lambda>x. (x, ''medium'', ''low'')) (take 5 (sf_next_steps sf)))))"

section \<open>The answer of the model\<close>

definition LINE_BREAKS :: "nat list" where
  "LINE_BREAKS = [10, 11, 12, 13, 28, 29, 30, 133, 8232, 8233]"

text \<open>The lines that are not empty are the runs of characters between line breaks.\<close>

definition bullet_lines :: "pystr \<Rightarrow> pystr list" where
  "bullet_lines s = filter (\<lambda>t. t \<noteq> [])
     (map (\<lambda>l. strip (dropWhile (\<lambda>c. c \<in> {45, 8226, 42,
       32}) (strip l))) (runs (\<lambda>c. c \<notin> set LINE_BREAKS) s))"

definition as_str_list :: "dash \<Rightarrow> json \<Rightarrow> pystr list" where
  "as_str_list da v =
     (case v of JNull \<Rightarrow> [] | JArr xs \<Rightarrow> nonempty_texts da xs
      | _ \<Rightarrow> (let s = strip (str_of da v) in
          if s = [] then []
          else if 10 \<in> set s then (if bullet_lines s \<noteq> [] then bullet_lines s else [s])
          else [s]))"

record strategy_draft =
  pl_fields :: strategy_fields
  pl_actions :: json
  pl_alerts :: json
  pl_cards :: "draft_card list"

definition draft_card_of :: "dash \<Rightarrow> items \<Rightarrow> draft_card" where
  "draft_card_of da m =
     (let seg = item m (u ''for_segment'') in
      \<lparr>kc_action = text_item da m ''action'',
       kc_for_segment = strip (if json_true seg then str_of da seg else u ''all''),
       kc_channel = text_item da m ''channel'', kc_message = text_item da m ''message'',
       kc_effect = text_item da m ''expected_effect'', kc_risk = text_item da m ''risk_if_ignored'',
       kc_based_on = based_on_texts da m, kc_refs = list_items (item m (u ''evidence_refs''))\<rparr>)"

definition fields_of :: "dash \<Rightarrow> items \<Rightarrow> strategy_fields" where
  "fields_of da m = (let texts = (\<lambda>k. as_str_list da (item m (u k))) in
     \<lparr>sf_summary = text_item da m ''brand_perception_summary'', sf_insights = texts ''key_pr_insights'',
      sf_risks = texts ''reputational_risks'', sf_gaps = texts ''communication_gaps'',
      sf_messages = texts ''recommended_messages'', sf_talking_points = texts ''talking_points'',
      sf_media_hooks = texts ''media_hooks'', sf_next_steps = texts ''next_steps''\<rparr>)"

definition parse_strategy_json :: "dash \<Rightarrow> ('c, 'm) chat_scheme \<Rightarrow> pystr \<Rightarrow> exc + strategy_draft" where
  "parse_strategy_json da ct raw =
     (case loads ct raw of
        Inl e \<Rightarrow> Inl e
      | Inr (JObj m) \<Rightarrow> Inr \<lparr>pl_fields = fields_of da m, pl_actions = item m (u ''priority_actions''),
          pl_alerts = item m (u ''alerts''),
          pl_cards = filter (\<lambda>c. kc_action c \<noteq> [] \<or> kc_message c \<noteq> [])
            (map (draft_card_of da) (dicts (list_items (item m (u ''action_cards'')))))\<rparr>
      | Inr _ \<Rightarrow> Inl (Value_error (u ''strategy_not_object'')))"

text \<open>
  The question: brand, segment, portrait and evidence. The evidence is the context without its counts
  of entities, with the rollups that have quotes and the first 32 quotes.
\<close>

record strategy_question =
  sq_brand :: pystr
  sq_group_by :: "pystr option"
  sq_segment :: "pystr option"
  sq_portrait :: portrait
  sq_evidence :: portrait_context

definition research_evidence :: "portrait_context \<Rightarrow> portrait_context" where
  "research_evidence c = c\<lparr>cx_entities := None, cx_evidence := None, cx_quotes := take 32 (cx_quotes c),
     pc_rollups := filter (\<lambda>r. rr_quotes r \<noteq> []) (take 18 (pc_rollups c)), pc_summaries := take 24 (pc_summaries c)\<rparr>"

definition generate_pr_strategy_sync :: "env \<Rightarrow> dash \<Rightarrow> (strategy_question, 'm) chat_scheme \<Rightarrow> strategy_question \<Rightarrow> pystr
    \<Rightarrow> exc + strategy_draft" where
  "generate_pr_strategy_sync env da ct q lang =
     (case asked env ct q lang of Inl e \<Rightarrow> Inl e | Inr raw \<Rightarrow> parse_strategy_json da ct raw)"

section \<open>The strategy\<close>

record pr_strategy =
  sg_fields :: strategy_fields
  sg_actions :: "priority_action list"
  sg_matrix :: "(pystr \<times> pystr \<times> pystr) list"
  sg_alerts :: "alert list"
  sg_cards :: "action_card list"
  sg_grounding :: "grounding_row list"
  sg_insights :: "evidence_insight list"

definition static_strategy_blocked :: "pystr \<Rightarrow> pr_strategy" where
  "static_strategy_blocked msg =
     \<lparr>sg_fields = \<lparr>sf_summary = msg, sf_insights = [], sf_risks = [], sf_gaps = [], sf_messages = [], sf_talking_points = [],
        sf_media_hooks = [], sf_next_steps = []\<rparr>,
      sg_actions = [], sg_matrix = [], sg_alerts = [], sg_cards = [], sg_grounding = [], sg_insights = []\<rparr>"

text \<open>Cards, grounding and insights are still missing behind this step.\<close>

definition enrich_strategy_decision_layer :: "env \<Rightarrow> dash \<Rightarrow> strategy_draft \<Rightarrow> portrait_context \<Rightarrow> pystr \<Rightarrow> pr_strategy" where
  "enrich_strategy_decision_layer env da d c l =
     (let lang = norm_lang l; parsed = parse_priority_actions env da (pl_actions d);
          actions = (if parsed \<noteq> [] then parsed else fallback_priority_actions (pl_fields d) lang)
      in \<lparr>sg_fields = pl_fields d, sg_actions = actions, sg_matrix = build_impact_effort_matrix actions,
          sg_alerts = merge_alerts env (parse_alerts env da (pl_alerts d))
            (heuristic_alerts_from_strategy_and_ctx env da (pl_fields d) c lang) 14,
          sg_cards = [], sg_grounding = [], sg_insights = []\<rparr>)"

definition action_of_card :: "action_card \<Rightarrow> priority_action" where
  "action_of_card c =
     \<lparr>pa_action = take 500 (strip (or_else (kc_action c) (kc_message c))),
      pa_impact = (if kc_status c = u ''ok'' then u ''high'' else u ''medium''), pa_effort = u ''medium'',
      pa_reason = take 800 (kc_message c),
      pa_based_on = take 24 (filter (\<lambda>x. x \<noteq> []) (map strip (kc_based_on c)))\<rparr>"

definition finished_strategy :: "env \<Rightarrow> dash \<Rightarrow> (nat \<Rightarrow> uuid) \<Rightarrow> portrait_context \<Rightarrow> draft_card list \<Rightarrow> pr_strategy \<Rightarrow> pr_strategy" where
  "finished_strategy env da ids c drafts s =
     (let cards = enrich_action_cards_with_evidence env da drafts (cx_quotes c);
          rows = build_pr_grounding env da ids (sg_fields s) cards (cx_quotes c);
          ins = evidence_insights_from_grounding (cx_interviews c) rows;
          cards' = attach_based_on_to_actions cards ins;
          actions = take 16 (map action_of_card (filter (\<lambda>c. kc_status c = u ''ok'') cards'))
      in s\<lparr>sg_cards := cards', sg_grounding := rows, sg_insights := ins, sg_actions := actions,
           sg_matrix := build_impact_effort_matrix actions\<rparr>)"

record strategy_meta =
  sm_interviews :: nat
  sm_group_by :: "pystr option"
  sm_segment :: "pystr option"
  sm_brand :: pystr
  sm_used_portrait :: bool
  sm_blocked :: bool
  sm_score :: rat
  sm_warnings :: "pystr list"
  sm_message :: "pystr option"
  sm_strict :: bool
  sm_gates :: "gate_item list"
  sm_snapshot :: snapshot
  sm_insufficient :: "(pystr \<times> pystr list) option"

text \<open>The request: segment, language, brand of the settings and a portrait given in advance.\<close>

record strategy_request =
  rq_group_by :: "pystr option"
  rq_segment :: "pystr option"
  rq_language :: pystr
  rq_brand :: "pystr option"
  rq_portrait :: "portrait option"

definition brand_of :: "strategy_request \<Rightarrow> pystr" where
  "brand_of q = or_else (strip (or_else (text_of (rq_brand q)) (u ''Click''))) (u ''Click'')"

definition strategy_meta_of :: "strategy_request \<Rightarrow> portrait_context \<Rightarrow> bool \<Rightarrow> data_readiness \<Rightarrow> pystr list
    \<Rightarrow> pystr option \<Rightarrow> bool \<Rightarrow> gate_item list \<Rightarrow> (pystr \<times> pystr list) option \<Rightarrow> strategy_meta" where
  "strategy_meta_of q c blocked r warnings msg strict gates ins =
     \<lparr>sm_interviews = cx_interviews c, sm_group_by = rq_group_by q, sm_segment = rq_segment q, sm_brand = brand_of q,
      sm_used_portrait = (\<not> blocked), sm_blocked = blocked, sm_score = dr_score r, sm_warnings = warnings,
      sm_message = msg, sm_strict = strict, sm_gates = gates, sm_snapshot = dashboard_first_bundle c,
      sm_insufficient = ins\<rparr>"

definition strategy_portrait :: "env \<Rightarrow> dash \<Rightarrow> (portrait_context, 'm) chat_scheme \<Rightarrow> strategy_request \<Rightarrow> portrait_context
    \<Rightarrow> exc + portrait" where
  "strategy_portrait env da pchat q c = (case rq_portrait q of
     Some p \<Rightarrow> Inr p | None \<Rightarrow> run_portrait_generation_sync env da pchat c (rq_language q))"

definition generate_pr_strategy :: "env \<Rightarrow> dash \<Rightarrow> (portrait_context, 'm) chat_scheme \<Rightarrow> (strategy_question, 'n) chat_scheme
    \<Rightarrow> (nat \<Rightarrow> uuid) \<Rightarrow> strategy_request \<Rightarrow> portrait_context \<Rightarrow> exc + pr_strategy \<times> strategy_meta" where
  "generate_pr_strategy env da pchat ct ids q c =
     (let lang = rq_language q; r = assess_synthesis_readiness lang c; s = assess_strict_pr_readiness lang c in
      if fst (dashboard_empty_for_llm c) then
        (let ins = insufficient_data_payload lang (snd (dashboard_empty_for_llm c)) in
         Inr (static_strategy_blocked (fst ins), strategy_meta_of q c True r (first_occ (dr_warnings r @ [fst ins]))
           (Some (fst ins)) False [] (Some ins)))
      else if \<not> dr_can r \<or> \<not> sd_ready s then
        (let msg = (if \<not> sd_ready s then sd_message s else insufficient_synthesis_message lang);
             ins = insufficient_data_payload lang (insufficient_missing_from_readiness (sd_ready s) (sd_checklist s) (dr_can r))
         in Inr (static_strategy_blocked msg, strategy_meta_of q c True r
              (first_occ (dr_warnings r @ listed (sd_message s))) (Some msg) (sd_ready s) (sd_checklist s) (Some ins)))
      else case strategy_portrait env da pchat q c of
        Inl e \<Rightarrow> Inl e
      | Inr p \<Rightarrow>
         (case generate_pr_strategy_sync env da ct \<lparr>sq_brand = brand_of q, sq_group_by = rq_group_by q,
              sq_segment = rq_segment q, sq_portrait = p, sq_evidence = research_evidence c\<rparr> lang of
            Inl e \<Rightarrow> Inl e
          | Inr d \<Rightarrow> Inr (finished_strategy env da ids c (pl_cards d) (enrich_strategy_decision_layer env da d c lang),
              strategy_meta_of q c False r (case pr_quality_warning c of None \<Rightarrow> dr_warnings r
                 | Some x \<Rightarrow> first_occ (dr_warnings r @ [x])) None (sd_ready s) (sd_checklist s) None)))"

section \<open>Which alerts are shown\<close>

lemma merge_loop_eq:
  "length out < limit \<Longrightarrow> merge_loop env limit as seen out
     = take limit (out @ map (validated env) (keep_first (alert_key env) seen as))"
  by (induction env limit as seen out rule: merge_loop.induct) (auto simp: Let_def take_Cons')

lemma keep_first_append: "\<exists>zs. keep_first k seen (xs @ ys) = keep_first k seen xs @ zs \<and> set zs \<subseteq> set ys"
proof (induction xs arbitrary: seen)
  case Nil
  then show ?case using keep_first_set by fastforce
qed simp

lemma norm_word_known: "u d \<in> set known \<Longrightarrow> norm_word env known d v \<in> set known"
  by (simp add: norm_word_def Let_def)

text \<open>The alerts of the model and of the rules use the vocabularies already.\<close>

definition in_vocabulary :: "alert \<Rightarrow> bool" where
  "in_vocabulary a \<longleftrightarrow> al_type a \<in> set ALERT_TYPES \<and> al_severity a \<in> set ALERT_SEV"

definition lower_keeps_words :: "env \<Rightarrow> bool" where
  "lower_keeps_words env \<longleftrightarrow> list_all (\<lambda>w. lower env w = w) (ALERT_TYPES @ ALERT_SEV)"

lemma strip_words: "w \<in> set (ALERT_TYPES @ ALERT_SEV) \<Longrightarrow> strip w = w"
  by (intro strip_fixed) (auto simp: ALERT_TYPES_def ALERT_SEV_def u_def is_space_def)

lemma validated_id:
  assumes "lower_keeps_words env" "in_vocabulary a"
  shows "validated env a = a"
proof -
  have "norm_word env ALERT_TYPES ''risk'' (al_type a) = al_type a" "norm_word env ALERT_SEV ''medium'' (al_severity a) = al_severity a"
    using assms strip_words [of "al_type a"] strip_words [of "al_severity a"]
    by (auto simp: norm_word_def in_vocabulary_def lower_keeps_words_def list_all_iff)
  then show ?thesis by (simp add: validated_def norm_alert_type_def norm_severity_def)
qed

lemma norm_known: "norm_alert_type env v \<in> set ALERT_TYPES" "norm_severity env v \<in> set ALERT_SEV"
  unfolding norm_alert_type_def norm_severity_def by (rule norm_word_known, simp add: ALERT_TYPES_def ALERT_SEV_def)+

lemma parsed_in_vocabulary: "a \<in> set (parse_alerts env da raw) \<Longrightarrow> in_vocabulary a"
  using norm_known by (auto simp: parse_alerts_def in_vocabulary_def)

lemma known_words: "u ''sentiment'' \<in> set ALERT_TYPES" "u ''risk'' \<in> set ALERT_TYPES" "u ''trust'' \<in> set ALERT_TYPES"
    "u ''high'' \<in> set ALERT_SEV" "u ''medium'' \<in> set ALERT_SEV"
  by (simp_all add: ALERT_TYPES_def ALERT_SEV_def)

lemma rule_in_vocabulary:
  "a \<in> set (sentiment_alerts env da lang m) \<Longrightarrow> in_vocabulary a"
  "a \<in> set (risk_alert env lang rs row) \<Longrightarrow> in_vocabulary a"
  "a \<in> set (trust_alerts env lang xs) \<Longrightarrow> in_vocabulary a"
  unfolding sentiment_alerts_def risk_alert_def trust_alerts_def Let_def
  by (simp_all add: in_vocabulary_def known_words split: if_splits)

lemma rules_in_vocabulary: "a \<in> set (heuristic_alerts_from_strategy_and_ctx env da sf c l) \<Longrightarrow> in_vocabulary a"
  using rule_in_vocabulary unfolding heuristic_alerts_from_strategy_and_ctx_def Let_def by fastforce

lemma merged_eq:
  assumes "lower_keeps_words env" "\<And>a. a \<in> set (p @ s) \<Longrightarrow> in_vocabulary a"
  shows "merge_alerts env p s 14 = take 14 (keep_first (alert_key env) [] (p @ s))"
proof -
  have "map (validated env) (keep_first (alert_key env) [] (p @ s)) = keep_first (alert_key env) [] (p @ s)"
    using validated_id [OF assms(1) assms(2)] keep_first_set by (fastforce intro!: map_idI)
  then show ?thesis by (simp add: merge_alerts_def merge_loop_eq)
qed

lemma merged_alerts_are_first:
  fixes env p s defines "as \<equiv> keep_first (alert_key env) [] (p @ s)"
  shows "distinct (map (alert_key env) (take 14 as))"
    and "length (take 14 as) = min 14 (card (alert_key env ` set (p @ s)))"
    and "set (take 14 as) \<subseteq> set (p @ s)"
    and "set (take (card (alert_key env ` set p)) (take 14 as)) \<subseteq> set p"
proof -
  show "distinct (map (alert_key env) (take 14 as))"
    unfolding as_def take_map [symmetric] by (rule distinct_take) (rule keep_first_distinct)
  show "length (take 14 as) = min 14 (card (alert_key env ` set (p @ s)))"
    by (simp only: as_def length_take length_keep_first min.commute)
  show "set (take 14 as) \<subseteq> set (p @ s)"
    using keep_first_set unfolding as_def by (fastforce dest: in_set_takeD)
  obtain zs where "as = keep_first (alert_key env) [] p @ zs"
    using keep_first_append [of "alert_key env" "[]" p s] by (auto simp: as_def)
  then have "set (take (card (alert_key env ` set p)) as) \<subseteq> set p"
    using keep_first_set [of _ "alert_key env" "[]" p] length_keep_first [of "alert_key env" p] by auto
  then show "set (take (card (alert_key env ` set p)) (take 14 as)) \<subseteq> set p"
    unfolding take_take by (rule order.trans [rotated]) (rule set_take_subset_set_take, simp)
qed

text \<open>
  The alerts of a strategy: at most fourteen, one for every kind of message that the model or a rule
  reports as long as there is room, those of the model first, all within the vocabularies.
\<close>

theorem alerts_one_of_a_kind:
  assumes "lower_keeps_words env"
  shows "let p = parse_alerts env da (pl_alerts d); s = heuristic_alerts_from_strategy_and_ctx env da (pl_fields d) c (norm_lang l);
      shown = sg_alerts (enrich_strategy_decision_layer env da d c l)
    in distinct (map (alert_key env) shown) \<and> length shown = min 14 (card (alert_key env ` set (p @ s)))
      \<and> set shown \<subseteq> set (p @ s) \<and> set (take (card (alert_key env ` set p)) shown) \<subseteq> set p
      \<and> list_all in_vocabulary shown"
proof -
  define p where "p = parse_alerts env da (pl_alerts d)"
  define s where "s = heuristic_alerts_from_strategy_and_ctx env da (pl_fields d) c (norm_lang l)"
  have voc: "a \<in> set (p @ s) \<Longrightarrow> in_vocabulary a" for a
    using parsed_in_vocabulary rules_in_vocabulary by (auto simp: p_def s_def)
  have "merge_alerts env p s 14 = take 14 (keep_first (alert_key env) [] (p @ s))" by (rule merged_eq [OF assms voc])
  then have eq: "sg_alerts (enrich_strategy_decision_layer env da d c l) = take 14 (keep_first (alert_key env) [] (p @ s))"
    by (simp only: enrich_strategy_decision_layer_def Let_def pr_strategy.simps p_def s_def)
  show ?thesis
    unfolding Let_def p_def [symmetric] s_def [symmetric] eq list_all_iff
    using merged_alerts_are_first [where env = env and p = p and s = s] voc by blast
qed

section \<open>No action without evidence\<close>

definition card_honest :: "portrait_quote list \<Rightarrow> action_card \<Rightarrow> bool" where
  "card_honest qs c \<longleftrightarrow> (if kc_status c = u ''ok'' then backed qs (kc_evidence c)
     else kc_evidence c = [] \<and> kc_status c = u ''insufficient_evidence'')"

lemma enriched_card_honest: "card_honest qs (enrich_action_card env da qs c)"
  using pick_backed [of env da "card_message c" qs] by (simp add: card_honest_def enrich_action_card_def Let_def)

lemma attach_fields [simp]: "kc_status (attach_based_on ins c) = kc_status c" "kc_evidence (attach_based_on ins c) = kc_evidence c"
  by (simp_all add: attach_based_on_def)

lemma attached_ids: "set (kc_based_on (attach_based_on ins c)) \<subseteq> (\<lambda>i. uuid_str (in_id i)) ` set ins"
  by (auto simp: attach_based_on_def dest!: in_set_takeD)

lemma finished_strategy_backed:
  fixes env da ids c drafts s0 defines "s \<equiv> finished_strategy env da ids c drafts s0"
  shows "list_all (card_honest (cx_quotes c)) (sg_cards s)"
    and "list_all (\<lambda>r. backed (cx_quotes c) (gr_evidence r)) (sg_grounding s)"
    and "map in_id (sg_insights s) = map gr_id (sg_grounding s)"
    and "list_all (\<lambda>k. set (kc_based_on k) \<subseteq> (\<lambda>i. uuid_str (in_id i)) ` set (sg_insights s)) (sg_cards s)"
    and "sg_actions s = take 16 (map action_of_card (filter (\<lambda>k. kc_status k = u ''ok'') (sg_cards s)))"
proof -
  note defs = s_def finished_strategy_def Let_def
  have "card_honest (cx_quotes c) (attach_based_on ins (enrich_action_card env da (cx_quotes c) k))" for ins k
    using enriched_card_honest by (simp add: card_honest_def)
  then show "list_all (card_honest (cx_quotes c)) (sg_cards s)"
    by (simp add: defs attach_based_on_to_actions_def enrich_action_cards_with_evidence_def list.pred_map o_def list_all_length)
  show "list_all (\<lambda>r. backed (cx_quotes c) (gr_evidence r)) (sg_grounding s)" "map in_id (sg_insights s) = map gr_id (sg_grounding s)"
    using every_statement_is_backed [of env da drafts "cx_quotes c" ids "sg_fields s0" "cx_interviews c"]
    by (simp_all add: defs)
  show "list_all (\<lambda>k. set (kc_based_on k) \<subseteq> (\<lambda>i. uuid_str (in_id i)) ` set (sg_insights s)) (sg_cards s)"
    by (simp add: defs attach_based_on_to_actions_def list.pred_map o_def list_all_iff attached_ids)
  show "sg_actions s = take 16 (map action_of_card (filter (\<lambda>k. kc_status k = u ''ok'') (sg_cards s)))"
    by (simp add: defs)
qed

lemma blocked_backed:
  "list_all P (sg_cards (static_strategy_blocked m)) \<and> sg_grounding (static_strategy_blocked m) = []
    \<and> sg_insights (static_strategy_blocked m) = [] \<and> sg_actions (static_strategy_blocked m) = []"
  by (simp add: static_strategy_blocked_def)

text \<open>
  C26. Whatever the model answers, a strategy that is returned cites quotes of the study or says that it
  has none: each card either is marked \<^verbatim>\<open>ok\<close> and cites two to five quotes of different entities, or is marked
  \<^verbatim>\<open>insufficient_evidence\<close> and cites nothing; each entry of the grounding cites two to five such quotes, and the
  insights are one for each entry of the grounding; a card refers to insights of the strategy only; and the
  actions are those of the first sixteen cards marked \<^verbatim>\<open>ok\<close>, so every action has its quotes. Actions the model
  lists of its own are dropped. (The plain texts of the strategy that no entry of the grounding covers
  stay in it without quotes.)
\<close>

theorem strategy_is_backed:
  "case generate_pr_strategy env da pchat ct ids q c of
     Inl e \<Rightarrow> True
   | Inr (s, m) \<Rightarrow> list_all (card_honest (cx_quotes c)) (sg_cards s)
       \<and> list_all (\<lambda>r. backed (cx_quotes c) (gr_evidence r)) (sg_grounding s)
       \<and> map in_id (sg_insights s) = map gr_id (sg_grounding s)
       \<and> list_all (\<lambda>k. set (kc_based_on k) \<subseteq> (\<lambda>i. uuid_str (in_id i)) ` set (sg_insights s)) (sg_cards s)
       \<and> sg_actions s = take 16 (map action_of_card (filter (\<lambda>k. kc_status k = u ''ok'') (sg_cards s)))"
proof -
  have blocked: "sg_cards (static_strategy_blocked m) = []" "sg_grounding (static_strategy_blocked m) = []"
    "sg_insights (static_strategy_blocked m) = []" "sg_actions (static_strategy_blocked m) = []" for m
    by (simp_all add: static_strategy_blocked_def)
  show ?thesis
    unfolding generate_pr_strategy_def Let_def
    using finished_strategy_backed [where c = c and env = env and da = da and ids = ids]
    by (simp add: blocked split: sum.split)
qed

text \<open>
  A strategy is asked of the model exactly when the strict gates are open; a portrait given in advance
  is used as it is and the model is asked for one otherwise. With a gate closed neither is asked, and
  the strategy is empty but for the message that says so.
\<close>

theorem strategy_asks_model_iff_strict:
  "if 10 \<le> cx_interviews c \<and> 50 \<le> or_default 0 (cx_entities c) \<and> 12 \<le> evidence_quotes c
      \<and> 18 \<le> bar_volume (cx_problems c) + bar_volume (cx_risks c)
   then (case strategy_portrait env da pchat q c of
       Inl e \<Rightarrow> generate_pr_strategy env da pchat ct ids q c = Inl e
     | Inr p \<Rightarrow> (case generate_pr_strategy_sync env da ct \<lparr>sq_brand = brand_of q, sq_group_by = rq_group_by q,
           sq_segment = rq_segment q, sq_portrait = p, sq_evidence = research_evidence c\<rparr> (rq_language q) of
         Inl e \<Rightarrow> generate_pr_strategy env da pchat ct ids q c = Inl e
       | Inr d \<Rightarrow> \<exists>s m. generate_pr_strategy env da pchat ct ids q c = Inr (s, m) \<and> sg_fields s = pl_fields d
           \<and> \<not> sm_blocked m \<and> sm_strict m))
   else \<exists>msg m. generate_pr_strategy env da pchat ct ids q c = Inr (static_strategy_blocked msg, m) \<and> msg \<noteq> []
     \<and> sm_blocked m \<and> \<not> sm_strict m \<and> sm_message m = Some msg"
proof (cases "sd_ready (assess_strict_pr_readiness (rq_language q) c)")
  case True
  note others = strict_implies_others [OF True]
  have iff: "10 \<le> cx_interviews c \<and> 50 \<le> or_default 0 (cx_entities c) \<and> 12 \<le> evidence_quotes c
      \<and> 18 \<le> bar_volume (cx_problems c) + bar_volume (cx_risks c)" using True unfolding strict_ready_iff .
  have kept: "sg_fields (finished_strategy env da ids c ds (enrich_strategy_decision_layer env da d c l)) = pl_fields d" for ds d l
    by (simp add: finished_strategy_def enrich_strategy_decision_layer_def Let_def)
  show ?thesis
    unfolding if_P [OF iff] generate_pr_strategy_def Let_def strategy_meta_of_def using True others
    by (simp add: kept split: sum.split)
next
  case False
  have iff: "\<not> (10 \<le> cx_interviews c \<and> 50 \<le> or_default 0 (cx_entities c) \<and> 12 \<le> evidence_quotes c
      \<and> 18 \<le> bar_volume (cx_problems c) + bar_volume (cx_risks c))" using False unfolding strict_ready_iff .
  show ?thesis
    unfolding if_not_P [OF iff] generate_pr_strategy_def Let_def strategy_meta_of_def
    using False strict_message_nonempty [OF False] payload_message_nonempty by simp
qed

section \<open>Concrete runs\<close>

definition one_alert_draft :: "json \<Rightarrow> strategy_draft" where
  "one_alert_draft al = \<lparr>pl_fields = \<lparr>sf_summary = [], sf_insights = [], sf_risks = [], sf_gaps = [], sf_messages = [],
     sf_talking_points = [], sf_media_hooks = [], sf_next_steps = []\<rparr>, pl_actions = JNull, pl_alerts = al, pl_cards = []\<rparr>"

lemma plain_keeps_words: "lower_keeps_words plain_env"
  by (simp add: lower_keeps_words_def ALERT_TYPES_def ALERT_SEV_def plain_env_def u_def ascii_lower_def lower_char_def)

theorem alerts_one_of_a_kind_witness:
  "let msg = JObj [(u ''type'', JStr (u ''trust'')), (u ''message'', JStr (u ''No proof'')), (u ''severity'', JStr (u ''HIGH''))]
   in length (sg_alerts (enrich_strategy_decision_layer plain_env plain_dash (one_alert_draft (JArr [msg, msg]))
        (empty_portrait_context (audience_snapshot_from_metas plain_dash [])) (u ''en''))) = 1"
proof -
  let ?msg = "JObj [(u ''type'', JStr (u ''trust'')), (u ''message'', JStr (u ''No proof'')), (u ''severity'', JStr (u ''HIGH''))]"
  let ?c = "empty_portrait_context (audience_snapshot_from_metas plain_dash [])"
  have "heuristic_alerts_from_strategy_and_ctx plain_env plain_dash (pl_fields (one_alert_draft (JArr [?msg, ?msg]))) ?c (norm_lang (u ''en'')) = []"
    by (simp add: heuristic_alerts_from_strategy_and_ctx_def sentiment_alerts_def trust_alerts_def trust_count_def count_item_def
        item_def sentiment_items_def empty_portrait_context_def str_of_def ascii_lower_def lower_char_def u_def Let_def)
  moreover have "card (alert_key plain_env ` set (parse_alerts plain_env plain_dash (pl_alerts (one_alert_draft (JArr [?msg, ?msg]))))) = 1"
    by (simp add: parse_alerts_def one_alert_draft_def list_items_def text_item_def item_def str_of_def strip_def lstrip_def rstrip_def
        is_space_def u_def Let_def)
  ultimately show ?thesis
    using alerts_one_of_a_kind [OF plain_keeps_words, of plain_dash "one_alert_draft (JArr [?msg, ?msg])" ?c "u ''en''"]
    by (simp add: Let_def)
qed
end
