(* ===== verification/Segment_Compare.thy ===== *)
theory Segment_Compare
  imports Strategy Dashboard
begin

text \<open>
  The comparison of two segments of a batch (\<^verbatim>\<open>segment_compare_service.py\<close>, and its part of
  \<^verbatim>\<open>decision_layer_service.py\<close>): the two segments are resolved, their blocks of the dashboard, their
  portraits and strategies are put side by side, and actions and alerts are derived.
\<close>

section \<open>Resolving segments\<close>

text \<open>Hyphens are dropped; a prefix is enough, and eight characters of any part.\<close>

definition unit_token :: "env \<Rightarrow> pystr \<Rightarrow> pystr" where
  "unit_token env s = filter (\<lambda>c. c \<noteq> 45) (lower env (strip s))"

definition resolve_interview_unit_segment :: "env \<Rightarrow> pystr \<Rightarrow> pystr list \<Rightarrow> pystr option" where
  "resolve_interview_unit_segment env requested labels =
     (let req = unit_token env requested in
      if req = [] then None
      else List.find (\<lambda>l. let ls = unit_token env l in ls = req \<or> str_starts_with req ls \<or> 8 \<le> length req \<and> sublist req ls) labels)"

text \<open>En dash, em dash and minus sign count as hyphens.\<close>

definition normalize_segment_token :: "env \<Rightarrow> pystr \<Rightarrow> pystr" where
  "normalize_segment_token env raw =
     collapse (map (\<lambda>c. if c \<in> {8211, 8212, 8722} then 45 else c) (lower env (strip raw)))"

definition collect_segment_labels :: "dash \<Rightarrow> maps \<Rightarrow> pystr \<Rightarrow> batch_source list \<Rightarrow> pystr list" where
  "collect_segment_labels da mp gb rows = List.map_filter (\<lambda>s. case row_document_id s of
       Some d \<Rightarrow> Some (segment_label da (meta_at (mp_doc mp) d) gb)
     | None \<Rightarrow> map_option (\<lambda>a. segment_label da (meta_at (mp_audio mp) a) gb) (row_audio_id s)) rows"

definition resolve_segment_value :: "env \<Rightarrow> pystr \<Rightarrow> pystr list \<Rightarrow> pystr option" where
  "resolve_segment_value env requested candidates =
     (let req = strip requested in
      if req = [] then None
      else if req \<in> set candidates then Some req
      else List.find (\<lambda>c. normalize_segment_token env c = normalize_segment_token env req) candidates)"

definition find_segment_block :: "env \<Rightarrow> pystr \<Rightarrow> segment_row list \<Rightarrow> segment_row option" where
  "find_segment_block env key rows = List.find (\<lambda>r. se_key r = key
     \<or> normalize_segment_token env (se_key r) = normalize_segment_token env key) rows"

section \<open>Sides\<close>

record compare_side =
  si_key :: pystr
  si_interviews :: nat
  si_topics :: "(pystr \<times> nat) list"
  si_problems :: "(pystr \<times> nat) list"
  si_risks :: "(pystr \<times> nat) list"
  si_pos :: nat
  si_neg :: nat
  si_balance :: pystr
  si_insights :: "dash_insight list"
  si_words :: "(pystr \<times> nat) list"
  si_portrait :: pystr
  si_strategy :: pystr

definition empty_side :: "pystr \<Rightarrow> compare_side" where
  "empty_side k = \<lparr>si_key = k, si_interviews = 0, si_topics = [], si_problems = [], si_risks = [], si_pos = 0, si_neg = 0,
     si_balance = u ''unknown'', si_insights = [], si_words = [], si_portrait = [], si_strategy = []\<rparr>"

definition merge_dashboard_block :: "pystr \<Rightarrow> segment_row option \<Rightarrow> nat \<Rightarrow> compare_side" where
  "merge_dashboard_block k row n =
     (case row of
        None \<Rightarrow> empty_side k
      | Some r \<Rightarrow> (let b = se_block r in
          \<lparr>si_key = k, si_interviews = n, si_topics = bk_topics b, si_problems = bk_problems b, si_risks = bk_risks b,
           si_pos = bk_pos b, si_neg = bk_neg b, si_balance = bk_balance b, si_insights = bk_insights b,
           si_words = se_words r, si_portrait = [], si_strategy = []\<rparr>))"

text \<open>A side has no key \<^verbatim>\<open>top_patterns\<close>, so reading it gives nothing.\<close>

definition side_patterns :: "compare_side \<Rightarrow> pystr list" where
  "side_patterns s = []"

definition portrait_summary :: "portrait_fields \<Rightarrow> pystr" where
  "portrait_summary p = take 1400 (join NEWLINES (map (\<lambda>t. take 500 (strip t))
     (nonblank [pf_brand_perception p, pf_trust_drivers p, pf_pain_points p, pf_decision_making p])))"

definition strategy_summary :: "strategy_fields \<Rightarrow> pystr" where
  "strategy_summary s = take 1200 (join [10] (map (\<lambda>t. take 600 (strip t)) (nonblank [sf_summary s])
     @ map (\<lambda>t. take 280 (strip t)) (nonblank (take 3 (sf_insights s)))))"

section \<open>Differences\<close>

text \<open>The sets of labels, in the order in which \<^verbatim>\<open>sorted\<close> prints them.\<close>

definition label_set :: "(pystr \<times> nat) list \<Rightarrow> pystr list" where
  "label_set rows = sort (remdups (filter (\<lambda>s. s \<noteq> []) (map (\<lambda>r. strip (fst r)) rows)))"

definition pattern_text_set :: "pystr list \<Rightarrow> pystr list" where
  "pattern_text_set ts = sort (remdups (map (\<lambda>t. take 120 (strip t)) (nonblank ts)))"

definition both :: "pystr list \<Rightarrow> pystr list \<Rightarrow> pystr list" where
  "both xs ys = filter (\<lambda>x. x \<in> set ys) xs"

definition only :: "pystr list \<Rightarrow> pystr list \<Rightarrow> pystr list" where
  "only xs ys = filter (\<lambda>x. x \<notin> set ys) xs"

definition listing :: "nat \<Rightarrow> pystr \<Rightarrow> pystr list \<Rightarrow> pystr" where
  "listing n none xs = or_else (join (u '', '') (take n xs)) none"

definition signal_example :: "compare_side \<Rightarrow> pystr" where
  "signal_example s = (case List.find (\<lambda>t. 24 \<le> length t) (map (\<lambda>x. strip (or_else (di_text x) (di_label x))) (take 6 (si_insights s))) of
     Some t \<Rightarrow> take 240 t | None \<Rightarrow> [])"

definition example_of :: "compare_side \<Rightarrow> compare_side \<Rightarrow> pystr" where
  "example_of a b = or_else (signal_example a) (signal_example b)"

definition QUOTED :: "pystr \<Rightarrow> pystr" where "QUOTED s = [171] @ s @ [187]"

definition topics_difference :: "pystr \<Rightarrow> compare_side \<Rightarrow> compare_side \<Rightarrow> pystr" where
  "topics_difference lang a b =
     (let ta = label_set (si_topics a); tb = label_set (si_topics b); c = both ta tb in
      translated lang
        ([1054, 1073, 1072, 32, 1089, 1077, 1075, 1084, 1077, 1085, 1090, 1072, 32, 1075, 1086, 1074, 1086,
       1088, 1103, 1090, 32, 1086, 32] @ listing 4 [1087, 1086, 1093, 1086, 1078, 1080, 1093, 32, 1090,
       1077, 1084, 1072, 1093] c @ [44, 32, 1085, 1086, 32, 1072, 1082, 1094, 1077, 1085, 1090, 1099, 32,
       1088, 1072, 1089, 1093, 1086, 1076, 1103, 1090, 1089, 1103, 58, 32, 1091, 32] @ QUOTED (si_key a)
           @ [32, 1079, 1072, 1084, 1077, 1090, 1085, 1077, 1077, 32] @ listing 3 [1086, 1073, 1097, 1080,
       1081, 32, 1092, 1086, 1085] (only ta tb) @ [44, 32, 1072, 32, 1091, 32] @ QUOTED (si_key b) @ [32,
       8212, 32]
           @ listing 3 [1090, 1086, 1090, 32, 1078, 1077, 32, 1085, 1072, 1073, 1086, 1088, 32, 1090, 1077,
       1084] (only tb ta) @ u ''. '' @ example_of a b)
        (u ''Umumiy mavzular ('' @ digits (length c) @ u ''): '' @ listing 6 DASH c @ u ''. Faqat '' @ QUOTED (si_key a) @ u '': ''
           @ listing 5 DASH (only ta tb) @ u ''. Faqat '' @ QUOTED (si_key b) @ u '': '' @ listing 5 DASH (only tb ta) @ u ''.'')
        (u ''Shared topics ('' @ digits (length c) @ u ''): '' @ listing 6 DASH c @ u ''. Only in '' @ si_key a @ u '': ''
           @ listing 5 DASH (only ta tb) @ u ''. Only in '' @ si_key b @ u '': '' @ listing 5 DASH (only tb ta) @ u ''.''))"

definition problems_difference :: "pystr \<Rightarrow> compare_side \<Rightarrow> compare_side \<Rightarrow> pystr" where
  "problems_difference lang a b =
     (let pa = label_set (si_problems a); pb = label_set (si_problems b); c = digits (length (both pa pb));
          oa = digits (length (only pa pb)); ob = digits (length (only pb pa)) in
      translated lang
        ([1055, 1088, 1086, 1073, 1083, 1077, 1084, 1099, 32, 1095, 1072, 1089, 1090, 1080, 1095, 1085,
       1086, 32, 1087, 1077, 1088, 1077, 1089, 1077, 1082, 1072, 1102, 1090, 1089, 1103, 32, 40] @ c @ [32,
       1089, 1086, 1074, 1087, 1072, 1076, 1077, 1085, 1080, 1081, 41, 44, 32, 1085, 1086, 32, 1079, 1074,
       1091, 1095, 1072, 1090, 32, 1087, 1086, 45, 1088, 1072, 1079, 1085, 1086, 1084, 1091, 58, 32, 1074,
       32] @ QUOTED (si_key a)
           @ [32, 1077, 1089, 1090, 1100, 32] @ oa @ [32, 1091, 1085, 1080, 1082, 1072, 1083, 1100, 1085,
       1099, 1093, 32, 1090, 1088, 1077, 1074, 1086, 1075, 44, 32, 1074, 32] @ QUOTED (si_key b) @ [32,
       8212, 32] @ ob @ u ''. '' @ example_of a b)
        (u ''Muammolar kesishmasi: '' @ c @ u ''. '' @ QUOTED (si_key a) @ u '' uchun noyob: '' @ oa @ u '', ''
           @ QUOTED (si_key b) @ u '' uchun: '' @ ob @ u ''.'')
        (u ''Problem label overlap: '' @ c @ u ''. Unique to '' @ si_key a @ u '': '' @ oa @ u '', to '' @ si_key b @ u '': ''
           @ ob @ u ''.''))"

definition risks_difference :: "pystr \<Rightarrow> compare_side \<Rightarrow> compare_side \<Rightarrow> pystr" where
  "risks_difference lang a b =
     (let ra = label_set (si_risks a); rb = label_set (si_risks b); oa = only ra rb; ob = only rb ra in
      translated lang
        ([1056, 1080, 1089, 1082, 1086, 1074, 1099, 1081, 32, 1087, 1088, 1086, 1092, 1080, 1083, 1100, 32,
       1088, 1072, 1079, 1083, 1080, 1095, 1072, 1077, 1090, 1089, 1103, 58, 32, 1091,
       32] @ QUOTED (si_key a) @ [32, 1086, 1090, 1076, 1077, 1083, 1100, 1085, 1086, 32, 1074, 1089, 1087,
       1083, 1099, 1074, 1072, 1077, 1090, 32]
           @ listing 3 [1085, 1077, 1090, 32, 1091, 1085, 1080, 1082, 1072, 1083, 1100, 1085, 1086, 1075,
       1086, 32, 1088, 1080, 1089, 1082, 1072] oa @ [44, 32, 1091, 32] @ QUOTED (si_key b) @ [32, 8212, 32]
           @ listing 3 [1085, 1077, 1090, 32, 1091, 1085, 1080, 1082, 1072, 1083, 1100, 1085, 1086, 1075,
       1086, 32, 1088, 1080, 1089, 1082, 1072] ob @ u ''. '' @ example_of a b)
        (u ''Faqat '' @ QUOTED (si_key a) @ u '' xavflari: '' @ listing 6 DASH oa @ u ''. Faqat '' @ QUOTED (si_key b) @ u '': ''
           @ listing 6 DASH ob @ u ''.'')
        (u ''Risks only in '' @ si_key a @ u '': '' @ listing 6 DASH oa @ u ''. Only in '' @ si_key b @ u '': ''
           @ listing 6 DASH ob @ u ''.''))"

definition signal_counts :: "compare_side \<Rightarrow> pystr" where
  "signal_counts s = u ''(+'' @ digits (si_pos s) @ [47, 8722] @ digits (si_neg s) @ u '')''"

definition sentiment_difference :: "pystr \<Rightarrow> compare_side \<Rightarrow> compare_side \<Rightarrow> pystr" where
  "sentiment_difference lang a b =
     (let ba = or_else (si_balance a) (u ''n/a''); bb = or_else (si_balance b) (u ''n/a'') in
      translated lang
        ([1058, 1086, 1085, 1072, 1083, 1100, 1085, 1086, 1089, 1090, 1100, 58,
       32] @ QUOTED (si_key a) @ [32, 8212, 32] @ ba @ u '' '' @ signal_counts a @ u ''; '' @ QUOTED (si_key b)
           @ [32, 8212, 32] @ bb @ u '' '' @ signal_counts b @ u ''.'')
        (u ''Sentiment: '' @ QUOTED (si_key a) @ [32, 8212, 32] @ ba @ u ''; '' @ QUOTED (si_key b) @ [32, 8212, 32] @ bb @ u ''.'')
        (u ''Sentiment: '' @ si_key a @ [32, 8212, 32] @ ba @ u '' '' @ signal_counts a @ u ''; '' @ si_key b @ [32, 8212, 32] @ bb
           @ u '' '' @ signal_counts b @ u ''.''))"

definition patterns_difference :: "pystr \<Rightarrow> compare_side \<Rightarrow> compare_side \<Rightarrow> pystr" where
  "patterns_difference lang a b =
     (let pa = pattern_text_set (side_patterns a); pb = pattern_text_set (side_patterns b);
          c = digits (length (both pa pb)); oa = listing 4 DASH (only pa pb); ob = listing 4 DASH (only pb pa) in
      translated lang
        ([1054, 1073, 1097, 1080, 1077, 32, 1087, 1072, 1090, 1090, 1077, 1088, 1085, 1099, 58,
       32] @ c @ [46, 32, 1071, 1088, 1095, 1077, 32, 1074, 32] @ QUOTED (si_key a) @ u '': '' @ oa @ [46,
       32, 1042, 32] @ QUOTED (si_key b) @ u '': ''
           @ ob @ u ''.'')
        (u ''Umumiy naqshlar: '' @ c @ u ''. '' @ QUOTED (si_key a) @ u '' da kuchliroq: '' @ oa @ u ''. '' @ QUOTED (si_key b)
           @ u '': '' @ ob @ u ''.'')
        (u ''Shared patterns: '' @ c @ u ''. More specific to '' @ si_key a @ u '': '' @ oa @ u ''. To '' @ si_key b @ u '': ''
           @ ob @ u ''.''))"

definition trust_difference :: "pystr \<Rightarrow> compare_side \<Rightarrow> compare_side \<Rightarrow> portrait_fields \<Rightarrow> portrait_fields \<Rightarrow> pystr" where
  "trust_difference lang a b p q =
     (let ta = take 320 (strip (pf_trust_drivers p)); tb = take 320 (strip (pf_trust_drivers q));
          few = [1084, 1072, 1083, 1086, 32, 1089, 1080, 1075, 1085, 1072, 1083, 1086, 1074] in
      translated lang
        ([1044, 1088, 1072, 1081, 1074, 1077, 1088, 1099, 32, 1076, 1086, 1074, 1077, 1088, 1080, 1103, 58,
       32] @ QUOTED (si_key a) @ [32, 8212, 32] @ or_else ta few @ u ''. '' @ QUOTED (si_key b) @ [32, 8212, 32]
           @ or_else tb few @ u ''.'')
        (u ''Ishonch: '' @ QUOTED (si_key a) @ [32, 8212, 32] @ or_else ta (u ''kam'') @ u ''. '' @ QUOTED (si_key b) @ [32, 8212, 32]
           @ or_else tb (u ''kam'') @ u ''.'')
        (u ''Trust drivers: '' @ si_key a @ [32, 8212, 32] @ or_else ta (u ''thin evidence'') @ u ''. '' @ si_key b @ [32, 8212, 32]
           @ or_else tb (u ''thin evidence'') @ u ''.''))"

definition pain_difference :: "pystr \<Rightarrow> compare_side \<Rightarrow> compare_side \<Rightarrow> portrait_fields \<Rightarrow> portrait_fields \<Rightarrow> pystr" where
  "pain_difference lang a b p q =
     (let pa = or_else (take 320 (strip (pf_pain_points p))) DASH; pb = or_else (take 320 (strip (pf_pain_points q))) DASH in
      translated lang
        ([1041, 1086, 1083, 1077, 1074, 1099, 1077, 32, 1090, 1086, 1095, 1082, 1080, 58,
       32] @ QUOTED (si_key a) @ [32, 8212, 32] @ pa @ u ''; '' @ QUOTED (si_key b) @ [32, 8212, 32] @ pb @ u ''.'')
        (u ''Dard nuqtalari: '' @ QUOTED (si_key a) @ [32, 8212, 32] @ pa @ u ''; '' @ QUOTED (si_key b) @ [32, 8212, 32] @ pb @ u ''.'')
        (u ''Pain points: '' @ si_key a @ [32, 8212, 32] @ pa @ u ''; '' @ si_key b @ [32, 8212, 32] @ pb @ u ''.''))"

definition narrative_difference :: "pystr \<Rightarrow> compare_side \<Rightarrow> compare_side \<Rightarrow> portrait_fields \<Rightarrow> portrait_fields \<Rightarrow> pystr" where
  "narrative_difference lang a b p q =
     (let pa = or_else (take 360 (strip (pf_brand_perception p))) DASH; pb = or_else (take 360 (strip (pf_brand_perception q))) DASH in
      translated lang
        ([1042, 1086, 1089, 1087, 1088, 1080, 1103, 1090, 1080, 1077, 32, 1082, 1086, 1085, 1090, 1077,
       1082, 1089, 1090, 1072, 47, 1073, 1088, 1077, 1085, 1076, 1072, 58, 32] @ QUOTED (si_key a) @ [32,
       8212, 32] @ pa @ u ''; '' @ QUOTED (si_key b) @ [32, 8212, 32] @ pb @ u ''.'')
        (u ''Kontekst: '' @ QUOTED (si_key a) @ [32, 8212, 32] @ pa @ u ''; '' @ QUOTED (si_key b) @ [32, 8212, 32] @ pb @ u ''.'')
        (u ''Brand/context perception: '' @ si_key a @ [32, 8212, 32] @ pa @ u ''; '' @ si_key b @ [32, 8212, 32] @ pb @ u ''.''))"

definition build_differences :: "pystr \<Rightarrow> compare_side \<Rightarrow> compare_side \<Rightarrow> portrait_fields \<Rightarrow> portrait_fields
    \<Rightarrow> (pystr \<times> pystr) list" where
  "build_differences lang a b p q =
     [(u ''topics'', topics_difference lang a b), (u ''problems'', problems_difference lang a b),
      (u ''risks'', risks_difference lang a b), (u ''sentiment'', sentiment_difference lang a b),
      (u ''patterns'', patterns_difference lang a b), (u ''trust'', trust_difference lang a b p q),
      (u ''pain'', pain_difference lang a b p q), (u ''narrative'', narrative_difference lang a b p q)]"

section \<open>Implications\<close>

definition first_or_dash :: "pystr list \<Rightarrow> pystr" where
  "first_or_dash xs = (case xs of [] \<Rightarrow> DASH | x # _ \<Rightarrow> x)"

definition gaps_implication :: "pystr \<Rightarrow> compare_side \<Rightarrow> compare_side \<Rightarrow> strategy_fields \<Rightarrow> strategy_fields \<Rightarrow> pystr list" where
  "gaps_implication lang a b s t =
     (let ga = take 4 (map strip (nonblank (sf_gaps s))); gb = take 4 (map strip (nonblank (sf_gaps t))) in
      if ga \<noteq> [] \<or> gb \<noteq> []
      then [translated lang
        ([1056, 1072, 1079, 1085, 1099, 1077, 32, 1087, 1088, 1086, 1073, 1077, 1083, 1099, 32, 1074, 32,
       1082, 1086, 1084, 1084, 1091, 1085, 1080, 1082, 1072, 1094, 1080, 1080, 58,
       32] @ QUOTED (si_key a) @ [32, 8212, 32] @ first_or_dash ga @ u ''; '' @ QUOTED (si_key b)
           @ [32, 8212, 32] @ first_or_dash gb @ u ''.'')
        (u ''Turli kommunikatsiya bo'' @ [39] @ u ''shliqlari: '' @ QUOTED (si_key a) @ u '' / '' @ QUOTED (si_key b) @ u ''.'')
        (u ''Different comms gaps between '' @ si_key a @ u '' and '' @ si_key b @ u ''.'')]
      else [])"

definition risk_implications :: "pystr \<Rightarrow> compare_side \<Rightarrow> compare_side \<Rightarrow> pystr list" where
  "risk_implications lang a b =
     (let ra = label_set (si_risks a); rb = label_set (si_risks b) in
      map (\<lambda>r. translated lang
        ([1056, 1080, 1089, 1082, 32] @ QUOTED r @ [32, 1091, 1089, 1080, 1083, 1077, 1085, 32, 1074, 32,
       1089, 1077, 1075, 1084, 1077, 1085, 1090, 1077, 32] @ QUOTED (si_key a) @ [32, 8212, 32, 1087, 1088,
       1086, 1074, 1077, 1088, 1100, 1090, 1077, 32, 1089, 1086, 1086, 1073, 1097, 1077, 1085, 1080, 1103,
       32, 1080, 32, 1076, 1086, 1082, 1072, 1079, 1072, 1090, 1077, 1083, 1100, 1089, 1090, 1074, 1072, 46])
        (QUOTED r @ u '' xavfi '' @ QUOTED (si_key a) @ [32, 100, 97, 32, 8212, 32, 120, 97, 98, 97, 114,
       108, 97, 114, 32, 118, 97, 32, 100, 97, 108, 105, 108, 108, 97, 114, 46])
        ([82, 105, 115, 107, 32, 8220] @ r @ [8221, 32, 105, 115, 32, 109, 111, 114, 101, 32, 115, 97, 108,
       105, 101, 110, 116, 32, 105, 110, 32] @ si_key a @ u '': adjust proof points and messaging.'')) (take 3 (only ra rb))
      @ map (\<lambda>r. translated lang
        ([1056, 1080, 1089, 1082, 32] @ QUOTED r @ [32, 1074, 1099, 1088, 1072, 1078, 1077, 1085, 32, 1074,
       32] @ QUOTED (si_key b) @ [32, 8212, 32, 1086, 1090, 1076, 1077, 1083, 1100, 1085, 1072, 1103, 32,
       1083, 1080, 1085, 1080, 1103, 32, 81, 38, 65, 32, 1080, 32, 1084, 1077, 1076, 1080, 1072, 1075,
       1086, 1090, 1086, 1074, 1085, 1086, 1089, 1090, 1100, 46])
        (QUOTED r @ u '' '' @ QUOTED (si_key b) @ u '' uchun alohida Q&A.'')
        ([82, 105, 115, 107, 32, 8220] @ r @ [8221, 32, 105, 115, 32, 109, 111, 114, 101, 32, 115, 97, 108,
       105, 101, 110, 116, 32, 105, 110, 32] @ si_key b @ u '': prepare Q&A and media lines.'')) (take 3 (only rb ra)))"

definition messages_implication :: "pystr \<Rightarrow> compare_side \<Rightarrow> compare_side \<Rightarrow> strategy_fields \<Rightarrow> strategy_fields \<Rightarrow> pystr list" where
  "messages_implication lang a b s t =
     (let ma = take 2 (map strip (nonblank (sf_messages s))); mb = take 2 (map strip (nonblank (sf_messages t))) in
      if ma \<noteq> [] \<or> mb \<noteq> []
      then [translated lang
        ([1056, 1072, 1079, 1074, 1077, 1089, 1090, 1080, 32, 1082, 1083, 1102, 1095, 1077, 1074, 1099,
       1077, 32, 1092, 1086, 1088, 1084, 1091, 1083, 1080, 1088, 1086, 1074, 1082, 1080, 58, 32, 1076,
       1083, 1103, 32] @ QUOTED (si_key a) @ [32, 8212, 32] @ first_or_dash ma @ [59, 32, 1076, 1083, 1103,
       32]
           @ QUOTED (si_key b) @ [32, 8212, 32] @ first_or_dash mb @ u ''.'')
        (u ''Xabarlar: '' @ QUOTED (si_key a) @ u '' / '' @ QUOTED (si_key b) @ u '' uchun alohida formulalar.'')
        (u ''Split core messages: lead with different proof for '' @ si_key a @ u '' vs '' @ si_key b @ u ''.'')]
      else [])"

definition pr_implications :: "pystr \<Rightarrow> compare_side \<Rightarrow> compare_side \<Rightarrow> strategy_fields \<Rightarrow> strategy_fields \<Rightarrow> pystr list" where
  "pr_implications lang a b s t =
     (let found = gaps_implication lang a b s t @ risk_implications lang a b @ messages_implication lang a b s t in
      take 12 (if found \<noteq> [] then found
       else [translated lang
         [1057, 1077, 1075, 1084, 1077, 1085, 1090, 1099, 32, 1073, 1083, 1080, 1079, 1082, 1080, 32, 1087,
       1086, 32, 1088, 1080, 1089, 1082, 1072, 1084, 32, 1080, 32, 1090, 1077, 1084, 1072, 1084, 32, 8212,
       32, 1080, 1089, 1087, 1086, 1083, 1100, 1079, 1091, 1081, 1090, 1077, 32, 1077, 1076, 1080, 1085,
       1099, 1081, 32, 1082, 1072, 1088, 1082, 1072, 1089, 32, 1089, 1086, 1086, 1073, 1097, 1077, 1085,
       1080, 1081, 32, 1089, 32, 1084, 1080, 1082, 1088, 1086, 1085, 1072, 1089, 1090, 1088, 1086, 1081,
       1082, 1086, 1081, 32, 1090, 1086, 1085, 1072, 46]
         [83, 101, 103, 109, 101, 110, 116, 108, 97, 114, 32, 121, 97, 113, 105, 110, 32, 8212, 32, 121,
       97, 103, 111, 110, 97, 32, 114, 97, 109, 107, 97, 44, 32, 109, 97, 121, 100, 97, 32, 116, 111, 110,
       32, 102, 97, 114, 113, 105, 46]
         (u ''Segments align on risks/topics: one narrative frame with tone micro-adjustments.'')]))"

section \<open>Actions and alerts of a comparison\<close>

record compare_question =
  cq_segment_a :: pystr
  cq_segment_b :: pystr
  cq_differences :: "(pystr \<times> pystr) list"
  cq_implications :: "pystr list"
  cq_strategy_a :: strategy_fields
  cq_strategy_b :: strategy_fields

text \<open>What the question takes of a strategy: risks, gaps, insights, steps and messages, cut.\<close>

definition strategy_excerpt :: "strategy_fields \<Rightarrow> strategy_fields" where
  "strategy_excerpt s = \<lparr>sf_summary = [], sf_insights = take 8 (sf_insights s), sf_risks = take 8 (sf_risks s), sf_gaps = take 6 (sf_gaps s),
     sf_messages = take 6 (sf_messages s), sf_talking_points = [], sf_media_hooks = [], sf_next_steps = take 8 (sf_next_steps s)\<rparr>"

definition compare_language :: "pystr \<Rightarrow> pystr" where
  "compare_language l = (let lang = norm_lang l in if lang \<in> set LANGS then lang else u ''ru'')"

definition generate_compare_decision_layer_sync :: "env \<Rightarrow> dash \<Rightarrow> (compare_question, 'm) chat_scheme \<Rightarrow> compare_question
    \<Rightarrow> pystr \<Rightarrow> exc + priority_action list \<times> alert list" where
  "generate_compare_decision_layer_sync env da ct q l =
     (case asked env ct (q\<lparr>cq_differences := take 16 (cq_differences q), cq_implications := take 14 (cq_implications q),
         cq_strategy_a := strategy_excerpt (cq_strategy_a q), cq_strategy_b := strategy_excerpt (cq_strategy_b q)\<rparr>) (compare_language l) of
        Inl e \<Rightarrow> Inl e
      | Inr raw \<Rightarrow> (case loads ct raw of
          Inl e \<Rightarrow> Inl e
        | Inr (JObj m) \<Rightarrow> Inr (parse_priority_actions env da (item m (u ''priority_actions'')), parse_alerts env da (item m (u ''alerts'')))
        | Inr _ \<Rightarrow> Inl (Value_error (u ''compare_decision_not_object''))))"

definition sentiment_gap_alerts :: "env \<Rightarrow> pystr \<Rightarrow> compare_side \<Rightarrow> compare_side \<Rightarrow> alert list" where
  "sentiment_gap_alerts env lang a b =
     (let ba = lower env (si_balance a); bb = lower env (si_balance b); na = or_else ba (u ''n/a''); nb = or_else bb (u ''n/a'') in
      if ba \<noteq> bb \<and> (u ''negative'' \<in> {ba, bb} \<or> u ''positive'' \<in> {ba, bb})
      then [\<lparr>al_type = u ''sentiment'',
         al_message = translated lang
           ([1056, 1072, 1079, 1085, 1099, 1081, 32, 1087, 1088, 1086, 1092, 1080, 1083, 1100, 32, 1090,
       1086, 1085, 1072, 1083, 1100, 1085, 1086, 1089, 1090, 1080, 58, 32] @ QUOTED (si_key a) @ [32, 8212,
       32] @ na @ u '', '' @ QUOTED (si_key b) @ [32, 8212, 32] @ nb
              @ [59, 32, 1085, 1077, 32, 1080, 1089, 1087, 1086, 1083, 1100, 1079, 1091, 1081, 1090, 1077,
       32, 1086, 1076, 1085, 1091, 32, 1101, 1084, 1086, 1094, 1080, 1086, 1085, 1072, 1083, 1100, 1085,
       1091, 1102, 32, 1087, 1086, 1076, 1072, 1095, 1091, 32, 1076, 1083, 1103, 32, 1086, 1073, 1077,
       1080, 1093, 32, 1075, 1088, 1091, 1087, 1087, 46])
           (u ''Sentiment farqi: '' @ QUOTED (si_key a) @ u '' / '' @ QUOTED (si_key b) @ u ''.'')
           (u ''Sentiment profile differs: '' @ si_key a @ u '' ('' @ na @ u '') vs '' @ si_key b @ u '' ('' @ nb
              @ u ''); avoid one emotional frame for both.''),
         al_severity = (if u ''negative'' \<in> {ba, bb} then u ''high'' else u ''medium'')\<rparr>]
      else [])"

definition risk_labels :: "env \<Rightarrow> compare_side \<Rightarrow> pystr list" where
  "risk_labels env s = map (\<lambda>r. lower env (strip (fst r))) (take 6 (si_risks s))"

definition shared_risk_alerts :: "env \<Rightarrow> pystr \<Rightarrow> compare_side \<Rightarrow> compare_side \<Rightarrow> alert list" where
  "shared_risk_alerts env lang a b =
     (let overlap = take 3 (filter (\<lambda>k. k \<noteq> [] \<and> k \<in> set (risk_labels env b) \<and> 4 < length k) (map fst (counter (risk_labels env a))));
          l = join (u '', '') overlap in
      if overlap \<noteq> []
      then [\<lparr>al_type = u ''risk'',
         al_message = translated lang
           ([1055, 1086, 1074, 1090, 1086, 1088, 1103, 1102, 1097, 1080, 1077, 1089, 1103, 32, 1088, 1080,
       1089, 1082, 45, 1090, 1077, 1084, 1099, 32, 1074, 32, 1086, 1073, 1086, 1080, 1093, 32, 1089, 1077,
       1075, 1084, 1077, 1085, 1090, 1072, 1093, 58, 32] @ l @ [32, 8212, 32, 1077, 1076, 1080, 1085, 1099,
       1081, 32, 1087, 1083, 1072, 1085, 32, 1084, 1086, 1085, 1080, 1090, 1086, 1088, 1080, 1085, 1075,
       1072, 44, 32, 1085, 1086, 32, 1088, 1072, 1079, 1085, 1099, 1077, 32, 81, 38, 65, 32, 1087, 1086,
       32, 1089, 1077, 1075, 1084, 1077, 1085, 1090, 1072, 1084, 46])
           (u ''Ikkala segmentda takrorlanuvchi xavflar: '' @ l @ u ''.'')
           (u ''Recurring risk themes in both segments: '' @ l @ [32, 8212, 32, 111, 110, 101, 32, 109,
       111, 110, 105, 116, 111, 114, 105, 110, 103, 32, 112, 108, 97, 110, 44, 32, 115, 112, 108, 105, 116,
       32, 81, 38, 65, 46]),
         al_severity = u ''medium''\<rparr>]
      else [])"

text \<open>The segments of the alerts are the keys of the sides.\<close>

definition heuristic_alerts_segment_compare :: "env \<Rightarrow> compare_side \<Rightarrow> compare_side \<Rightarrow> pystr \<Rightarrow> alert list" where
  "heuristic_alerts_segment_compare env a b l =
     sentiment_gap_alerts env (norm_lang l) a b @ shared_risk_alerts env (norm_lang l) a b"

definition plain_action :: "pystr \<Rightarrow> string \<Rightarrow> pystr \<Rightarrow> priority_action" where
  "plain_action a impact reason =
     \<lparr>pa_action = a, pa_impact = u impact, pa_effort = u ''medium'', pa_reason = reason, pa_based_on = []\<rparr>"

definition implication_actions :: "pystr \<Rightarrow> pystr list \<Rightarrow> priority_action list" where
  "implication_actions lang ps = map (\<lambda>t. plain_action (take 480 t) ''medium'' (translated lang
       [1053, 1072, 32, 1086, 1089, 1085, 1086, 1074, 1077, 32, 80, 82, 45, 1080, 1084, 1087, 1083, 1080,
       1082, 1072, 1094, 1080, 1081, 32, 1089, 1088, 1072, 1074, 1085, 1077, 1085, 1080, 1103, 32, 1089,
       1077, 1075, 1084, 1077, 1085, 1090, 1086, 1074, 32, 40, 102, 97, 108, 108, 98, 97, 99, 107, 41,
       46] (u ''Segment taqqoslash PR-implikatsiyalari.'')
       (u ''From segment-compare PR implications (fallback).'')))
     (filter (\<lambda>t. t \<noteq> []) (map strip (take 6 ps)))"

definition difference_action :: "pystr \<Rightarrow> pystr \<times> pystr \<Rightarrow> priority_action list" where
  "difference_action lang d =
     (let dim = strip (fst d); summ = take 400 (strip (snd d)); cut = take 200 summ @ [8230] in
      if summ = [] then []
      else [plain_action (translated lang ([1059, 1095, 1077, 1089, 1090, 1100, 32, 1080, 1079, 1084, 1077,
       1088, 1077, 1085, 1080, 1077, 32] @ QUOTED dim @ u '': '' @ cut)
          (QUOTED dim @ u '' bo'' @ [39] @ u ''yicha: '' @ cut) ([65, 100, 100, 114, 101, 115, 115, 32,
       100, 105, 109, 101, 110, 115, 105, 111, 110, 32, 8220] @ dim @ [8221, 58, 32] @ cut))
        (if dim \<in> {u ''risks'', u ''trust'', u ''sentiment''} then ''high'' else ''medium'') (take 700 summ)])"

definition default_action :: "pystr \<Rightarrow> priority_action" where
  "default_action lang = plain_action (translated lang
       [1057, 1086, 1075, 1083, 1072, 1089, 1086, 1074, 1072, 1090, 1100, 32, 1086, 1090, 1076, 1077, 1083,
       1100, 1085, 1099, 1077, 32, 1083, 1080, 1085, 1080, 1080, 32, 1082, 1086, 1084, 1084, 1091, 1085,
       1080, 1082, 1072, 1094, 1080, 1081, 32, 1076, 1083, 1103, 32, 1076, 1074, 1091, 1093, 32, 1089,
       1077, 1075, 1084, 1077, 1085, 1090, 1086, 1074, 32, 1080, 32, 1087, 1088, 1086, 1074, 1077, 1088,
       1080, 1090, 1100, 32, 1076, 1072, 1085, 1085, 1099, 1077, 32, 1087, 1086, 1089, 1083, 1077, 32,
       1080, 1079, 1074, 1083, 1077, 1095, 1077, 1085, 1080, 1103, 32, 1089, 1091, 1097, 1085, 1086, 1089,
       1090, 1077, 1081, 46]
       (u ''Ikki segment uchun alohida kommunikatsiya liniyalari.'')
       (u ''Align separate comms tracks for both segments and re-check data after entity extraction.'')) ''medium''
     (translated lang [1053, 1077, 1076, 1086, 1089, 1090, 1072, 1090, 1086, 1095, 1085, 1086, 32, 1075,
       1086, 1090, 1086, 1074, 1099, 1093, 32, 1080, 1084, 1087, 1083, 1080, 1082, 1072, 1094, 1080, 1081,
       32, 1076, 1083, 1103, 32, 1072, 1074, 1090, 1086, 1084, 1072, 1090, 1080, 1095, 1077, 1089, 1082,
       1086, 1075, 1086, 32, 1089, 1087, 1080, 1089, 1082, 1072, 32, 1076, 1077, 1081, 1089, 1090, 1074,
       1080, 1081, 46]
       (u ''Implikatsiyalar yetarli emas.'') (u ''Insufficient implications for an auto action list.''))"

text \<open>At most six actions come first, so that the \<^verbatim>\<open>break\<close> leaves the first eight.\<close>

definition fallback_compare_priority_actions :: "pystr list \<Rightarrow> (pystr \<times> pystr) list \<Rightarrow> pystr \<Rightarrow> priority_action list" where
  "fallback_compare_priority_actions ps ds l =
     (let lang = norm_lang l; out = take 8 (implication_actions lang ps @ concat (map (difference_action lang) (take 4 ds))) in
      if out = [] then [default_action lang] else out)"

section \<open>The comparison\<close>

record comparison =
  cp_group_by :: pystr
  cp_side_a :: compare_side
  cp_side_b :: compare_side
  cp_differences :: "(pystr \<times> pystr) list"
  cp_implications :: "pystr list"
  cp_actions :: "priority_action list"
  cp_matrix :: "(pystr \<times> pystr \<times> pystr) list"
  cp_alerts :: "alert list"

definition batch_rows_of :: "research_batch \<Rightarrow> world \<Rightarrow> batch_source list" where
  "batch_rows_of b w = filter (\<lambda>s. row_batch_id s = bt_id b) (batch_sources w)"

definition resolved_segment :: "env \<Rightarrow> dash \<Rightarrow> maps \<Rightarrow> pystr \<Rightarrow> research_batch \<Rightarrow> world \<Rightarrow> pystr \<Rightarrow> pystr option" where
  "resolved_segment env da mp gb b w seg =
     (if gb = u ''interview_unit''
      then resolve_interview_unit_segment env seg (map (da_unit da) (list_units_for_documents (co_documents (batch_corpus b w)) 2000 w))
      else resolve_segment_value env seg (collect_segment_labels da mp gb (batch_rows_of b w)))"

definition interviews_of :: "dash \<Rightarrow> maps \<Rightarrow> pystr \<Rightarrow> research_batch \<Rightarrow> world \<Rightarrow> pystr \<Rightarrow> nat" where
  "interviews_of da mp gb b w seg =
     (if gb = u ''interview_unit'' then 1
      else length (filter (\<lambda>k. k = seg) (collect_segment_labels da mp gb (batch_rows_of b w))))"

definition grouped_query :: "pystr \<Rightarrow> dash_query" where
  "grouped_query gb = \<lparr>dq_group = Some gb, dq_segment = None, dq_from = None, dq_to = None, dq_stop = False, dq_a = None, dq_b = None\<rparr>"

text \<open>What is checked before anything is asked: the two segments, or the error.\<close>

definition compared_segments :: "env \<Rightarrow> dash \<Rightarrow> pystr \<Rightarrow> pystr \<Rightarrow> pystr \<Rightarrow> research_batch \<Rightarrow> world
    \<Rightarrow> exc + compare_side \<times> compare_side" where
  "compared_segments env da gb sa sb b w =
     (let co = batch_corpus b w; mp = load_metadata_maps da (co_documents co) (co_audios co) w;
          rows = db_segments (build_batch_dashboard env da b (grouped_query gb) w);
          side = (\<lambda>k. merge_dashboard_block k (find_segment_block env k rows) (interviews_of da mp gb b w k)) in
      if gb \<notin> set DASHBOARD_GROUP_BY_FIELDS then Inl (Value_error (u ''invalid_group_by''))
      else case resolved_segment env da mp gb b w sa of
        None \<Rightarrow> Inl (Value_error (u ''segment_a_unknown''))
      | Some ra \<Rightarrow> (case resolved_segment env da mp gb b w sb of
          None \<Rightarrow> Inl (Value_error (u ''segment_b_unknown''))
        | Some rb \<Rightarrow>
            if ra = rb then Inl (Value_error (u ''segments_equal''))
            else if interviews_of da mp gb b w ra < 1 \<or> interviews_of da mp gb b w rb < 1
            then Inl (Value_error (u ''segment_no_interviews''))
            else Inr (side ra, side rb)))"

definition finished_comparison :: "env \<Rightarrow> dash \<Rightarrow> (compare_question, 'm) chat_scheme \<Rightarrow> pystr \<Rightarrow> pystr \<Rightarrow> compare_side \<Rightarrow> compare_side
    \<Rightarrow> portrait_fields \<times> portrait_fields \<Rightarrow> strategy_fields \<times> strategy_fields \<Rightarrow> comparison" where
  "finished_comparison env da ct gb lang a b ps ss =
     (case (ps, ss) of ((p, q), (s, t)) \<Rightarrow>
      let a' = a\<lparr>si_portrait := portrait_summary p, si_strategy := strategy_summary s\<rparr>;
          b' = b\<lparr>si_portrait := portrait_summary q, si_strategy := strategy_summary t\<rparr>;
          ds = build_differences lang a' b' p q; im = pr_implications lang a' b' s t;
          answer = (case generate_compare_decision_layer_sync env da ct \<lparr>cq_segment_a = si_key a', cq_segment_b = si_key b',
              cq_differences = ds, cq_implications = im, cq_strategy_a = s, cq_strategy_b = t\<rparr> lang of
            Inl e \<Rightarrow> ([], []) | Inr r \<Rightarrow> r);
          actions = (if fst answer = [] then fallback_compare_priority_actions im ds lang else fst answer)
      in \<lparr>cp_group_by = gb, cp_side_a = a', cp_side_b = b', cp_differences = ds, cp_implications = im, cp_actions = actions,
          cp_matrix = build_impact_effort_matrix actions,
          cp_alerts = merge_alerts env (snd answer) (heuristic_alerts_segment_compare env a' b' lang) 14\<rparr>)"

text \<open>The portraits and then the strategies of both sides, from the cache or the model, one after the other.\<close>

definition compare_batch_segments :: "env \<Rightarrow> dash \<Rightarrow> analysis \<Rightarrow> reading \<Rightarrow> (compare_question, 'm) chat_scheme \<Rightarrow> pystr \<Rightarrow> pystr \<Rightarrow> pystr
    \<Rightarrow> pystr \<Rightarrow> research_batch \<Rightarrow> world \<Rightarrow> comparison outcome" where
  "compare_batch_segments env da an rd ct group_by sa sb l b w =
     (let gb = strip group_by; lang = ascii_lower (strip (or_else l (u ''ru''))) in
      case compared_segments env da gb sa sb b w of
        Inl e \<Rightarrow> (Inl e, w)
      | Inr (a, c) \<Rightarrow>
         and_then (get_or_create_audience_portrait_response env an b (Some gb) (Some (si_key a)) lang False w) (\<lambda>pa w1.
         and_then (get_or_create_audience_portrait_response env an b (Some gb) (Some (si_key c)) lang False w1) (\<lambda>pb w2.
         and_then (get_or_create_pr_strategy_response env an b (Some gb) (Some (si_key a)) lang False (Some pa) w2) (\<lambda>ja w3.
         and_then (get_or_create_pr_strategy_response env an b (Some gb) (Some (si_key c)) lang False (Some pb) w3) (\<lambda>jb w4.
           (Inr (finished_comparison env da ct gb lang a c (fst (rd_portrait rd pa), fst (rd_portrait rd pb))
              (fst (rd_strategy rd ja), fst (rd_strategy rd jb))), w4))))))"

definition COMPARE_ARGUMENT_ERRORS :: "pystr list" where
  "COMPARE_ARGUMENT_ERRORS = map u [''invalid_group_by'', ''segment_a_unknown'', ''segment_b_unknown'', ''segments_equal'', ''segment_no_interviews'']"

fun compare_failure :: "exc \<Rightarrow> failure" where
  "compare_failure (Value_error m) =
     (if m = u ''openai_api_key_missing'' then Http 503 (u ''openai_not_configured'')
      else if m \<in> set COMPARE_ARGUMENT_ERRORS then Http 400 m else Http 502 (u ''segment_compare_failed''))"
| "compare_failure (Other_error r) = Http 500 []"

definition compare_batch_segments_endpoint :: "env \<Rightarrow> dash \<Rightarrow> analysis \<Rightarrow> reading \<Rightarrow> (compare_question, 'm) chat_scheme \<Rightarrow> uuid \<Rightarrow> pystr
    \<Rightarrow> pystr \<Rightarrow> pystr \<Rightarrow> world \<Rightarrow> comparison response" where
  "compare_batch_segments_endpoint env da an rd ct bid group_by segment_a segment_b w =
     (let gb = strip group_by; sa = strip segment_a; sb = strip segment_b in
      if gb \<notin> set DASHBOARD_GROUP_BY_FIELDS then (Inl (Http 400 (u ''invalid_group_by'')), w)
      else if sa = [] \<or> sb = [] then (Inl (Http 400 (u ''empty_segment'')), w)
      else if 240 < length sa \<or> 240 < length sb then (Inl (Http 400 (u ''segment_too_long'')), w)
      else with_batch bid (\<lambda>b w. answer_with compare_failure
        (compare_batch_segments env da an rd ct gb sa sb (effective_output_language b (an_language an (bt_project_id b))) b w)) w)"

section \<open>Facts\<close>

lemma find_SomeD: "List.find P xs = Some x \<Longrightarrow> x \<in> set xs \<and> P x"
  by (induction xs) (auto split: if_splits)

lemma find_NoneD: "List.find P xs = None \<Longrightarrow> x \<in> set xs \<Longrightarrow> \<not> P x"
  by (induction xs) (auto split: if_splits)

text \<open>
  A segment that is asked for is a label of the batch, the same one if there is one, and otherwise the
  first that differs in case, blanks and kinds of hyphens only; nothing is found if there is none.
\<close>

theorem segment_is_resolved:
  "case resolve_segment_value env requested labels of
     Some c \<Rightarrow> c \<in> set labels \<and> normalize_segment_token env c = normalize_segment_token env requested
       \<and> c = (if strip requested \<in> set labels then strip requested else c)
   | None \<Rightarrow> strip requested = [] \<or> normalize_segment_token env requested \<notin> normalize_segment_token env ` set labels"
proof -
  have n: "normalize_segment_token env (strip requested) = normalize_segment_token env requested"
    by (simp add: normalize_segment_token_def)
  show ?thesis
    unfolding resolve_segment_value_def Let_def
    by (auto simp: n dest: find_SomeD find_NoneD split: option.split)
qed

lemma translated_nonempty: "a \<noteq> [] \<Longrightarrow> b \<noteq> [] \<Longrightarrow> c \<noteq> [] \<Longrightarrow> translated l a b c \<noteq> []"
  by (simp add: translated_def Let_def)

lemma fallback_nonempty: "fallback_compare_priority_actions ps ds l \<noteq> [] \<and> length (fallback_compare_priority_actions ps ds l) \<le> 8"
proof -
  have "length (take 8 xs) \<le> 8" for xs :: "priority_action list" by simp
  then show ?thesis by (simp only: fallback_compare_priority_actions_def Let_def split: if_split) simp
qed

lemma implications_bounds: "1 \<le> length (pr_implications lang a b s t) \<and> length (pr_implications lang a b s t) \<le> 8"
proof -
  have "length (gaps_implication lang a b s t) \<le> 1" "length (messages_implication lang a b s t) \<le> 1"
    "length (risk_implications lang a b) \<le> 6"
    by (simp_all add: gaps_implication_def messages_implication_def risk_implications_def Let_def)
  then show ?thesis by (auto simp: pr_implications_def Let_def Suc_le_eq)
qed

lemma merge_alerts_bound: "length (merge_alerts env p s 14) \<le> 14"
  by (simp add: merge_alerts_def merge_loop_eq)

definition comparison_sound :: "comparison \<Rightarrow> bool" where
  "comparison_sound r \<longleftrightarrow> si_key (cp_side_a r) \<noteq> si_key (cp_side_b r) \<and> length (cp_differences r) = 8
     \<and> 1 \<le> length (cp_implications r) \<and> length (cp_implications r) \<le> 8 \<and> cp_actions r \<noteq> []
     \<and> cp_matrix r = map (\<lambda>x. (pa_action x, pa_impact x, pa_effort x)) (cp_actions r) \<and> length (cp_alerts r) \<le> 14"

lemma finished_comparison_sound:
  assumes "si_key a \<noteq> si_key b"
  shows "comparison_sound (finished_comparison env da ct gb lang a b ps ss)"
proof -
  obtain p q s t where ps: "ps = (p, q)" "ss = (s, t)" by (metis surj_pair)
  show ?thesis
    using assms implications_bounds fallback_nonempty merge_alerts_bound
    unfolding comparison_sound_def finished_comparison_def ps Let_def prod.case
    by (simp add: build_differences_def build_impact_effort_matrix_def)
qed

lemma side_key [simp]: "si_key (merge_dashboard_block k row n) = k"
  by (simp add: merge_dashboard_block_def empty_side_def Let_def split: option.split)

lemma compared_keys: "compared_segments env da gb sa sb b w = Inr (x, y) \<Longrightarrow> si_key x \<noteq> si_key y"
  by (auto simp: compared_segments_def Let_def split: if_splits option.splits)

text \<open>
  C28. A comparison that is returned has two different segments, a difference for each of the eight
  dimensions, one to eight implications, at least one action, the matrix of its actions and at most fourteen
  alerts. The call that asks the model for decisions decides nothing of this: with any other answer
  or an exception there, the comparison is returned as well, with the same differences, and one that fails
  (for the segments, or because a portrait or a strategy could not be made) fails in the same way.
\<close>

theorem comparison_survives_decision_model:
  "case compare_batch_segments env da an rd ct gb sa sb l b w of
     (Inl e, w') \<Rightarrow> compare_batch_segments env da an rd ct' gb sa sb l b w = (Inl e, w')
   | (Inr r, w') \<Rightarrow> comparison_sound r
       \<and> (\<exists>r'. compare_batch_segments env da an rd ct' gb sa sb l b w = (Inr r', w') \<and> comparison_sound r'
           \<and> cp_differences r' = cp_differences r)"
proof (cases "compared_segments env da (strip gb) sa sb b w")
  case (Inl e)
  then show ?thesis by (simp add: compare_batch_segments_def Let_def)
next
  case (Inr xy)
  obtain x y where xy: "xy = (x, y)" by (metis surj_pair)
  have ne: "si_key x \<noteq> si_key y" using Inr compared_keys unfolding xy by blast
  have same: "cp_differences (finished_comparison env da ct' gb l x y ps ss) = cp_differences (finished_comparison env da ct gb l x y ps ss)"
    for gb l ps ss by (simp add: finished_comparison_def Let_def split: prod.split)
  show ?thesis
    using finished_comparison_sound [OF ne, of env da ct] finished_comparison_sound [OF ne, of env da ct'] same
    by (simp add: compare_batch_segments_def Let_def Inr xy and_then_def split: sum.split prod.split)
qed

text \<open>
  Patterns are never compared: whatever the two segments say, none is shared and none is specific.
\<close>

theorem patterns_never_compared:
  "patterns_difference (u ''en'') a b = u ''Shared patterns: 0. More specific to '' @ si_key a @ u '': '' @ DASH @ u ''. To ''
     @ si_key b @ u '': '' @ DASH @ u ''.''"
  by (simp add: patterns_difference_def Let_def side_patterns_def pattern_text_set_def nonblank_def both_def only_def listing_def
      or_else_def translated_def strip_def lstrip_def rstrip_def is_space_def u_def ascii_lower_def lower_char_def digits.simps)
end
