(* ===== verification/Regex.thy ===== *)
theory Regex
  imports Prelude
begin

text \<open>
  Python's \<^verbatim>\<open>re\<close>, as far as the sources use it: a backtracking matcher on code points that tries the
  alternatives in the order of the pattern and repeats greedily, and \<^verbatim>\<open>search\<close>, \<^verbatim>\<open>match\<close>, \<^verbatim>\<open>finditer\<close>
  and \<^verbatim>\<open>sub\<close> over it. The matcher finds a match exactly if the pattern has one.
\<close>

section \<open>Patterns\<close>

text \<open>
  A character class is a predicate. \<open>Bound\<close> is \<^verbatim>\<open>\b\<close>, \<open>Start\<close> and \<open>Finish\<close> are \<^verbatim>\<open>^\<close> and \<^verbatim>\<open>$\<close>, \<open>Behind\<close> is a
  look-behind at one character.
\<close>

datatype re =
    Eps
  | Chr "nat \<Rightarrow> bool"
  | Seq re re
  | Alt re re
  | Star re
  | Bound
  | Start
  | Finish
  | Behind "nat \<Rightarrow> bool"

definition Opt :: "re \<Rightarrow> re" where "Opt r = Alt r Eps"
definition Plus :: "re \<Rightarrow> re" where "Plus r = Seq r (Star r)"

fun Seqs :: "re list \<Rightarrow> re" where
  "Seqs [] = Eps"
| "Seqs [r] = r"
| "Seqs (r # rs) = Seq r (Seqs rs)"

fun Alts :: "re list \<Rightarrow> re" where
  "Alts [] = Chr (\<lambda>c. False)"
| "Alts [r] = r"
| "Alts (r # rs) = Alt r (Alts rs)"

text \<open>
  A lower-case Latin or Cyrillic letter of a pattern under \<^verbatim>\<open>IGNORECASE\<close>: its upper case, and the few
  other characters that fold to it.
\<close>

definition fold_char :: "nat \<Rightarrow> nat" where
  "fold_char c = (if 1040 \<le> c \<and> c \<le> 1071 then c + 32 else if c = 1025 then 1105 else lower_char c)"

definition FOLDED :: "(nat \<times> nat) list" where
  "FOLDED = [(105, 304), (105, 305), (107, 8490), (115, 383), (1074, 7296), (1076, 7297), (1086, 7298), (1089, 7299),
     (1090, 7300), (1090, 7301), (1098, 7302)]"

definition same_ic :: "nat \<Rightarrow> nat \<Rightarrow> bool" where
  "same_ic p c \<longleftrightarrow> fold_char c = p \<or> (p, c) \<in> set FOLDED"

definition Lit :: "pystr \<Rightarrow> re" where
  "Lit s = Seqs (map (\<lambda>p. Chr (same_ic p)) s)"

definition Spaces :: re where "Spaces = Star (Chr is_space)"
definition Spaces1 :: re where "Spaces1 = Plus (Chr is_space)"

section \<open>Matching\<close>

text \<open>\<open>wd\<close> are the word characters of the Unicode tables. \<^verbatim>\<open>$\<close> also matches before a final line feed.\<close>

definition word_at :: "(nat \<Rightarrow> bool) \<Rightarrow> pystr \<Rightarrow> nat \<Rightarrow> bool" where
  "word_at wd s i \<longleftrightarrow> i < length s \<and> wd (s ! i)"

definition boundary :: "(nat \<Rightarrow> bool) \<Rightarrow> pystr \<Rightarrow> nat \<Rightarrow> bool" where
  "boundary wd s i \<longleftrightarrow> word_at wd s i \<noteq> (0 < i \<and> word_at wd s (i - 1))"

definition at_finish :: "pystr \<Rightarrow> nat \<Rightarrow> bool" where
  "at_finish s i \<longleftrightarrow> i = length s \<or> Suc i = length s \<and> s ! i = 10"

text \<open>
  The ends of the matches that start at \<open>i\<close>, in the order in which backtracking finds them. A round of
  a repetition that matches the empty string ends it.
\<close>

function ends :: "(nat \<Rightarrow> bool) \<Rightarrow> pystr \<Rightarrow> re \<Rightarrow> nat \<Rightarrow> nat list" where
  "ends wd s Eps i = [i]"
| "ends wd s (Chr P) i = (if i < length s \<and> P (s ! i) then [Suc i] else [])"
| "ends wd s (Seq a b) i = concat (map (ends wd s b) (ends wd s a i))"
| "ends wd s (Alt a b) i = ends wd s a i @ ends wd s b i"
| "ends wd s (Star a) i =
     concat (map (\<lambda>j. if i < j \<and> j \<le> length s then ends wd s (Star a) j else []) (ends wd s a i)) @ [i]"
| "ends wd s Bound i = (if boundary wd s i then [i] else [])"
| "ends wd s Start i = (if i = 0 then [i] else [])"
| "ends wd s Finish i = (if at_finish s i then [i] else [])"
| "ends wd s (Behind P) i = (if 0 < i \<and> i \<le> length s \<and> P (s ! (i - 1)) then [i] else [])"
  by pat_completeness auto
termination by (relation "measures [\<lambda>(wd, s, r, i). size r, \<lambda>(wd, s, r, i). length s - i]") auto

definition match_at :: "(nat \<Rightarrow> bool) \<Rightarrow> re \<Rightarrow> pystr \<Rightarrow> nat \<Rightarrow> nat option" where
  "match_at wd r s i = (case ends wd s r i of [] \<Rightarrow> None | j # _ \<Rightarrow> Some j)"

definition matches_start :: "(nat \<Rightarrow> bool) \<Rightarrow> re \<Rightarrow> pystr \<Rightarrow> bool" where
  "matches_start wd r s \<longleftrightarrow> match_at wd r s 0 \<noteq> None"

definition match_start :: "(nat \<Rightarrow> bool) \<Rightarrow> re \<Rightarrow> pystr \<Rightarrow> nat \<Rightarrow> nat option" where
  "match_start wd r s p = List.find (\<lambda>i. match_at wd r s i \<noteq> None) [p..<Suc (length s)]"

definition search_from :: "(nat \<Rightarrow> bool) \<Rightarrow> re \<Rightarrow> pystr \<Rightarrow> nat \<Rightarrow> (nat \<times> nat) option" where
  "search_from wd r s p = (case match_start wd r s p of None \<Rightarrow> None | Some i \<Rightarrow> Some (i, the (match_at wd r s i)))"

definition found :: "(nat \<Rightarrow> bool) \<Rightarrow> re \<Rightarrow> pystr \<Rightarrow> bool" where
  "found wd r s \<longleftrightarrow> search_from wd r s 0 \<noteq> None"

lemma find_upt_ge: "List.find P [p..<n] = Some i \<Longrightarrow> p \<le> i \<and> i < n \<and> P i"
  by (auto simp: find_Some_iff)

lemma match_start_Some: "match_start wd r s p = Some i \<Longrightarrow> p \<le> i \<and> i \<le> length s \<and> match_at wd r s i \<noteq> None"
  unfolding match_start_def by (drule find_upt_ge) simp

lemma search_from_ge: "search_from wd r s p = Some (i, j) \<Longrightarrow> p \<le> i \<and> i \<le> length s"
  by (auto simp: search_from_def split: option.splits dest: match_start_Some)

text \<open>The patterns the sources iterate over do not match the empty string, so a match ends behind its start.\<close>

function finditer_from :: "(nat \<Rightarrow> bool) \<Rightarrow> re \<Rightarrow> pystr \<Rightarrow> nat \<Rightarrow> (nat \<times> nat) list" where
  "finditer_from wd r s p = (case search_from wd r s p of
     None \<Rightarrow> [] | Some (i, j) \<Rightarrow> (i, j) # finditer_from wd r s (max j (Suc i)))"
  by pat_completeness auto
termination
  by (relation "measure (\<lambda>(wd, r, s, p). Suc (length s) - p)") (auto dest!: search_from_ge)

declare finditer_from.simps [simp del]

definition finditer :: "(nat \<Rightarrow> bool) \<Rightarrow> re \<Rightarrow> pystr \<Rightarrow> (nat \<times> nat) list" where
  "finditer wd r s = finditer_from wd r s 0"

text \<open>The text around the matches: \<^verbatim>\<open>split\<close> lists the pieces, \<^verbatim>\<open>sub\<close> joins them with the replacement.\<close>

fun pieces_from :: "pystr \<Rightarrow> nat \<Rightarrow> (nat \<times> nat) list \<Rightarrow> pystr list" where
  "pieces_from s p [] = [drop p s]"
| "pieces_from s p ((i, j) # ms) = slice s p i # pieces_from s j ms"

definition re_split :: "(nat \<Rightarrow> bool) \<Rightarrow> re \<Rightarrow> pystr \<Rightarrow> pystr list" where
  "re_split wd r s = pieces_from s 0 (finditer wd r s)"

definition re_sub :: "(nat \<Rightarrow> bool) \<Rightarrow> re \<Rightarrow> pystr \<Rightarrow> pystr \<Rightarrow> pystr" where
  "re_sub wd r new s = join new (re_split wd r s)"

section \<open>What a pattern matches\<close>

inductive matches :: "(nat \<Rightarrow> bool) \<Rightarrow> pystr \<Rightarrow> re \<Rightarrow> nat \<Rightarrow> nat \<Rightarrow> bool" for wd s where
  eps: "matches wd s Eps i i"
| chr: "i < length s \<Longrightarrow> P (s ! i) \<Longrightarrow> matches wd s (Chr P) i (Suc i)"
| seq: "matches wd s a i j \<Longrightarrow> matches wd s b j k \<Longrightarrow> matches wd s (Seq a b) i k"
| alt1: "matches wd s a i j \<Longrightarrow> matches wd s (Alt a b) i j"
| alt2: "matches wd s b i j \<Longrightarrow> matches wd s (Alt a b) i j"
| star0: "matches wd s (Star a) i i"
| star1: "matches wd s a i j \<Longrightarrow> matches wd s (Star a) j k \<Longrightarrow> matches wd s (Star a) i k"
| bound: "boundary wd s i \<Longrightarrow> matches wd s Bound i i"
| start: "matches wd s Start 0 0"
| finish: "at_finish s i \<Longrightarrow> matches wd s Finish i i"
| behind: "0 < i \<Longrightarrow> i \<le> length s \<Longrightarrow> P (s ! (i - 1)) \<Longrightarrow> matches wd s (Behind P) i i"

inductive_cases matches_elims:
  "matches wd s Eps i j"
  "matches wd s (Chr P) i j"
  "matches wd s (Seq a b) i j"
  "matches wd s (Alt a b) i j"
  "matches wd s Bound i j"
  "matches wd s Start i j"
  "matches wd s Finish i j"
  "matches wd s (Behind P) i j"

lemma matches_range: "matches wd s r i j \<Longrightarrow> i \<le> length s \<Longrightarrow> i \<le> j \<and> j \<le> length s"
  by (induction r i j rule: matches.induct) auto

lemma ends_star: "j \<in> set (ends wd s (Star a) i) \<longleftrightarrow>
    j = i \<or> (\<exists>k \<in> set (ends wd s a i). i < k \<and> k \<le> length s \<and> j \<in> set (ends wd s (Star a) k))"
  by (simp only: ends.simps(5) [of wd s a i]) (auto split: if_splits simp del: ends.simps)

declare ends.simps(5) [simp del]

lemma ends_sound: "j \<in> set (ends wd s r i) \<Longrightarrow> matches wd s r i j"
proof (induction wd s r i arbitrary: j rule: ends.induct)
  case (1 wd s i)
  then show ?case by (simp add: eps)
next
  case (2 wd s P i)
  then show ?case by (simp add: chr split: if_splits)
next
  case (3 wd s a b i)
  then obtain k where k: "k \<in> set (ends wd s a i)" "j \<in> set (ends wd s b k)" by auto
  show ?case using k 3 by (intro seq [of _ _ _ _ k])
next
  case (4 wd s a b i)
  then show ?case by (simp, metis alt1 alt2)
next
  case (5 wd s a i)
  show ?case
  proof (cases "j = i")
    case False
    then obtain k where k: "k \<in> set (ends wd s a i)" "i < k" "k \<le> length s" "j \<in> set (ends wd s (Star a) k)"
      using 5(3) by (subst (asm) ends_star) blast
    show ?thesis by (rule star1 [OF 5(1) [OF k(1)] 5(2) [OF k(1) _ k(4)]]) (simp add: k)
  qed (simp add: star0)
next
  case (6 wd s i)
  then show ?case by (simp add: bound split: if_splits)
next
  case (7 wd s i)
  then show ?case by (simp add: start split: if_splits)
next
  case (8 wd s i)
  then show ?case by (simp add: finish split: if_splits)
next
  case (9 wd s P i)
  then show ?case by (simp add: behind split: if_splits)
qed

lemma star_ends_step: "j \<in> set (ends wd s a i) \<Longrightarrow> i < j \<Longrightarrow> j \<le> length s \<Longrightarrow> k \<in> set (ends wd s (Star a) j)
    \<Longrightarrow> k \<in> set (ends wd s (Star a) i)"
  by (subst ends_star) blast

lemma star_ends_refl: "i \<in> set (ends wd s (Star a) i)"
  by (subst ends_star) simp

lemma star_ends: "matches wd s r i j \<Longrightarrow> r = Star a \<Longrightarrow> i \<le> length s
    \<Longrightarrow> (\<And>i j. matches wd s a i j \<Longrightarrow> i \<le> length s \<Longrightarrow> j \<in> set (ends wd s a i)) \<Longrightarrow> j \<in> set (ends wd s r i)"
proof (induction r i j rule: matches.induct)
  case (star0 b i)
  show ?case by (rule star_ends_refl)
next
  case (star1 b i j k)
  have b: "b = a" using star1.prems(1) by simp
  have ij: "i \<le> j" "j \<le> length s" using matches_range [OF star1.hyps(1) star1.prems(2)] by simp_all
  have k: "k \<in> set (ends wd s (Star b) j)" by (rule star1.IH(2) [OF _ ij(2) star1.prems(3)]) (simp add: b)
  show ?case
  proof (cases "i = j")
    case True
    then show ?thesis using k by simp
  next
    case False
    have "j \<in> set (ends wd s b i)" using star1.prems(3) [of i j] star1.hyps(1) star1.prems(2) by (simp add: b)
    then show ?thesis using star_ends_step False ij k by auto
  qed
qed simp_all

lemma ends_complete: "matches wd s r i j \<Longrightarrow> i \<le> length s \<Longrightarrow> j \<in> set (ends wd s r i)"
proof (induction r arbitrary: i j)
  case (Seq a b)
  then show ?case using matches_range by (fastforce elim: matches_elims)
next
  case (Star a)
  then show ?case by (intro star_ends [OF _ refl]) auto
qed (auto elim: matches_elims)

lemma ends_iff: "i \<le> length s \<Longrightarrow> j \<in> set (ends wd s r i) \<longleftrightarrow> matches wd s r i j"
  using ends_sound ends_complete by blast

lemma match_at_matches: "match_at wd r s i = Some j \<Longrightarrow> matches wd s r i j"
  by (rule ends_sound) (auto simp: match_at_def split: list.splits)

lemma match_at_None: "i \<le> length s \<Longrightarrow> match_at wd r s i = None \<longleftrightarrow> (\<forall>j. \<not> matches wd s r i j)"
  using ends_iff by (auto simp: match_at_def split: list.splits) (metis empty_iff list.set(1) list.set_intros(1))+

text \<open>
  A search finds something exactly if the pattern matches somewhere in the text, and then its first
  match from the left.
\<close>

theorem search_finds_leftmost:
  "case search_from wd r s p of
     Some (i, j) \<Rightarrow> p \<le> i \<and> matches wd s r i j \<and> (\<nexists>k l. p \<le> k \<and> k < i \<and> matches wd s r k l)
   | None \<Rightarrow> (\<nexists>k l. p \<le> k \<and> k \<le> length s \<and> matches wd s r k l)"
proof (cases "match_start wd r s p")
  case None
  then have "\<not> matches wd s r k l" if "p \<le> k" "k \<le> length s" for k l
    using that match_at_None [where i = k and s = s and wd = wd and r = r]
    by (auto simp: match_start_def find_None_iff simp del: upt_Suc not_None_eq)
  then show ?thesis by (auto simp: search_from_def None)
next
  case (Some i)
  note i = match_start_Some [OF Some]
  have "match_at wd r s k = None" if "p \<le> k" "k < i" for k
  proof -
    let ?is = "[p..<Suc (length s)]"
    obtain n where n: "n < length ?is" "i = ?is ! n" "\<forall>m<n. \<not> match_at wd r s (?is ! m) \<noteq> None"
      using Some unfolding match_start_def find_Some_iff by blast
    have "k - p < n" "?is ! (k - p) = k" using n(1,2) that by (simp_all del: upt_Suc)
    then show ?thesis using n(3) by metis
  qed
  then have "\<not> matches wd s r k l" if "p \<le> k" "k < i" for k l
    using that i match_at_None [where i = k and s = s and wd = wd and r = r] by simp
  then show ?thesis using i match_at_matches by (auto simp: search_from_def Some)
qed

lemma found_iff: "found wd r s \<longleftrightarrow> (\<exists>i j. i \<le> length s \<and> matches wd s r i j)"
proof (cases "match_start wd r s 0")
  case None
  then have "\<not> matches wd s r k l" if "k \<le> length s" for k l
    using that match_at_None [where i = k and s = s and wd = wd and r = r]
    by (auto simp: match_start_def find_None_iff simp del: upt_Suc not_None_eq)
  then show ?thesis by (auto simp: found_def search_from_def None)
next
  case (Some i)
  obtain j where "i \<le> length s" "match_at wd r s i = Some j" using match_start_Some [OF Some] by auto
  then have "\<exists>i j. i \<le> length s \<and> matches wd s r i j" using match_at_matches by blast
  then show ?thesis by (simp add: found_def search_from_def Some)
qed

section \<open>Matches of a part of the text\<close>

lemma matches_iffs:
  "matches wd s Eps i j \<longleftrightarrow> j = i"
  "matches wd s (Chr P) i j \<longleftrightarrow> j = Suc i \<and> i < length s \<and> P (s ! i)"
  "matches wd s (Seq a b) i j \<longleftrightarrow> (\<exists>k. matches wd s a i k \<and> matches wd s b k j)"
  "matches wd s (Alt a b) i j \<longleftrightarrow> matches wd s a i j \<or> matches wd s b i j"
  "matches wd s Bound i j \<longleftrightarrow> j = i \<and> boundary wd s i"
  "matches wd s (Behind P) i j \<longleftrightarrow> j = i \<and> 0 < i \<and> i \<le> length s \<and> P (s ! (i - 1))"
  by (auto elim: matches_elims intro: matches.intros)

lemma matches_Alts: "matches wd s (Alts rs) i j \<longleftrightarrow> (\<exists>r \<in> set rs. matches wd s r i j)"
  by (induction rs rule: Alts.induct) (auto simp: matches_iffs)

lemma matches_Seqs_Cons: "matches wd s (Seqs (r # rs)) i j \<longleftrightarrow> (\<exists>k. matches wd s r i k \<and> matches wd s (Seqs rs) k j)"
  by (cases rs) (auto simp: matches_iffs)

lemma matches_Lit_Cons: "matches wd s (Lit (p # ps)) i j \<longleftrightarrow> i < length s \<and> same_ic p (s ! i) \<and> matches wd s (Lit ps) (Suc i) j"
  by (auto simp: Lit_def matches_Seqs_Cons matches_iffs)

text \<open>
  A pattern all of whose classes lie classes_in \<open>Q\<close> and that looks at the text only through word
  boundaries matches a part of a text as it matches the whole, if the part is set off by characters
  that are not word characters.
\<close>

fun classes_in :: "(nat \<Rightarrow> bool) \<Rightarrow> re \<Rightarrow> bool" where
  "classes_in Q (Chr P) = (\<forall>c. P c \<longrightarrow> Q c)"
| "classes_in Q (Seq a b) = (classes_in Q a \<and> classes_in Q b)"
| "classes_in Q (Alt a b) = (classes_in Q a \<and> classes_in Q b)"
| "classes_in Q (Star a) = classes_in Q a"
| "classes_in Q r = (r = Eps \<or> r = Bound)"

lemma classes_in_Seqs [simp]: "classes_in Q (Seqs rs) = (\<forall>r \<in> set rs. classes_in Q r)"
  by (induction rs rule: Seqs.induct) auto

lemma classes_in_Alts [simp]: "classes_in Q (Alts rs) = (\<forall>r \<in> set rs. classes_in Q r)"
  by (induction rs rule: Alts.induct) auto

lemma matches_within: "matches wd s r i j \<Longrightarrow> classes_in Q r \<Longrightarrow> i \<le> length s \<Longrightarrow> i \<le> k \<Longrightarrow> k < j \<Longrightarrow> Q (s ! k)"
proof (induction r i j rule: matches.induct)
  case (chr i P)
  have "k = i" using chr.prems(3,4) by simp
  then show ?case using chr.hyps(2) chr.prems(1) by simp
next
  case (seq a i j b l)
  then show ?case using matches_range [OF seq.hyps(1)] by (cases "k < j") auto
next
  case (star1 a i j l)
  then show ?case using matches_range [OF star1.hyps(1)] by (cases "k < j") auto
qed auto

definition set_off :: "(nat \<Rightarrow> bool) \<Rightarrow> pystr \<Rightarrow> pystr \<Rightarrow> bool" where
  "set_off wd a b \<longleftrightarrow> (a = [] \<or> \<not> wd (last a)) \<and> (b = [] \<or> \<not> wd (hd b))"

lemma boundary_part:
  assumes "set_off wd a b" "i \<le> length c"
  shows "boundary wd (a @ c @ b) (length a + i) = boundary wd c i"
proof -
  have r: "word_at wd (a @ c @ b) (length a + i) = word_at wd c i"
    using assms by (cases b) (auto simp: word_at_def set_off_def nth_append)
  have "(0 < length a + i \<and> word_at wd (a @ c @ b) (length a + i - 1)) = (0 < i \<and> word_at wd c (i - 1))"
  proof (cases i)
    case 0
    then show ?thesis using assms by (cases "a = []") (auto simp: word_at_def set_off_def nth_append last_conv_nth)
  next
    case (Suc n)
    then show ?thesis using assms by (auto simp: word_at_def nth_append)
  qed
  then show ?thesis using r by (simp add: boundary_def)
qed

lemma matches_part_of:
  assumes "set_off wd a b"
  shows "matches wd c r i j \<Longrightarrow> classes_in Q r \<Longrightarrow> i \<le> length c \<Longrightarrow> matches wd (a @ c @ b) r (length a + i) (length a + j)"
proof (induction r i j rule: matches.induct)
  case (chr i P)
  then show ?case by (simp add: matches_iffs nth_append)
next
  case (seq p i j q k)
  then show ?case using matches_range [OF seq.hyps(1)] by (auto intro: matches.seq)
next
  case (star1 p i j k)
  then show ?case using matches_range [OF star1.hyps(1)] by (auto intro: matches.star1)
next
  case (bound i)
  then show ?case using boundary_part [OF assms] by (simp add: matches_iffs)
qed (auto intro: matches.intros)

lemma matches_part:
  assumes "set_off wd a b"
  shows "matches wd s r i j \<Longrightarrow> s = a @ c @ b \<Longrightarrow> classes_in Q r \<Longrightarrow> length a \<le> i \<Longrightarrow> i \<le> length s \<Longrightarrow> j \<le> length a + length c
    \<Longrightarrow> matches wd c r (i - length a) (j - length a)"
proof (induction r i j rule: matches.induct)
  case (chr i P)
  then have "i - length a < length c" by simp
  then show ?case using chr by (simp add: matches_iffs nth_append Suc_diff_le)
next
  case (seq p i j q k)
  have "i \<le> j" "j \<le> k" "j \<le> length s" using matches_range [OF seq.hyps(1)] matches_range [OF seq.hyps(2)] seq.prems by auto
  then show ?case using seq by (auto intro!: matches.seq [of _ _ _ _ "j - length a"])
next
  case (star1 p i j k)
  have "i \<le> j" "j \<le> k" "j \<le> length s" using matches_range [OF star1.hyps(1)] matches_range [OF star1.hyps(2)] star1.prems by auto
  then show ?case using star1 by (auto intro!: matches.star1 [of _ _ _ _ "j - length a"])
next
  case (bound i)
  then show ?case using boundary_part [OF assms, of "i - length a" c] by (simp add: matches_iffs)
qed (auto intro: matches.intros)

section \<open>Pieces of a split text\<close>

lemma finditer_from_matches: "(i, j) \<in> set (finditer_from wd r s p) \<Longrightarrow> p \<le> i \<and> i \<le> length s \<and> matches wd s r i j"
proof (induction wd r s p rule: finditer_from.induct)
  case (1 wd r s p)
  show ?case
  proof (cases "search_from wd r s p")
    case None
    then show ?thesis using 1 by (subst (asm) finditer_from.simps) simp
  next
    case (Some m)
    obtain k l where m: "m = (k, l)" by (cases m)
    have k: "match_start wd r s p = Some k" "l = the (match_at wd r s k)"
      using Some m by (auto simp: search_from_def split: option.splits)
    have "p \<le> k \<and> k \<le> length s \<and> matches wd s r k l"
      using match_start_Some [OF k(1)] match_at_matches k(2) by auto
    moreover have "(i, j) = (k, l) \<or> (i, j) \<in> set (finditer_from wd r s (max l (Suc k)))"
      using 1(2) by (subst (asm) finditer_from.simps) (simp add: Some m)
    ultimately show ?thesis using 1(1) [OF Some m [symmetric]] by auto
  qed
qed

lemma pieces_from_end: "x \<in> set (butlast (pieces_from s p ms)) \<Longrightarrow> x \<noteq> [] \<Longrightarrow> \<forall>m \<in> set ms. fst m \<le> length s
    \<Longrightarrow> \<exists>m \<in> set ms. 0 < fst m \<and> last x = s ! (fst m - 1)"
proof (induction s p ms rule: pieces_from.induct)
  case (2 s p i j ms)
  have ne: "pieces_from s j ms \<noteq> []" by (cases ms) auto
  show ?case
  proof (cases "x = slice s p i")
    case True
    then have "p < i" "i \<le> length s" using 2 by (auto simp: slice_def)
    then show ?thesis using True 2 by (auto simp: last_conv_nth)
  next
    case False
    then have "x \<in> set (butlast (pieces_from s j ms))" using 2(2) ne by simp
    then show ?thesis using 2 by auto
  qed
qed simp

end
