(* ===== verification/Report_Language.thy ===== *)
theory Report_Language
  imports Dashboard_Blocks Regex "HOL-Library.Sublist"
begin

text \<open>
  The language rules of a report (\<^verbatim>\<open>research_report_generation_service.py\<close>, \<^verbatim>\<open>quote_filters.py\<close>): the
  patterns of product advice and of English words, the texts that replace product advice, and the
  checks an answer of the model has to pass.
\<close>

section \<open>Patterns\<close>

text \<open>The constant texts of the sources, in code points.\<close>

definition lits :: "re list \<Rightarrow> re" where
  "lits rs = Seqs (concat (map (\<lambda>r. [r, Spaces1]) (butlast rs)) @ [last rs])"

definition APP :: re where "APP = Lit [1087, 1088, 1080, 1083, 1086, 1078, 1077, 1085]"
definition APP_FORM :: re where "APP_FORM = Seq APP (Alts [Lit [1080, 1077], Lit [1080, 1103]])"
definition INTO :: re where "INTO = Opt (Seq (Lit [1074]) Spaces1)"

definition PRODUCT_CHANGE_RE :: re where
  "PRODUCT_CHANGE_RE = lits [Seq (Lit [1087, 1088, 1086, 1076, 1091, 1082, 1090, 1086,
       1074]) (Alts [Lit [1086, 1077], Lit [1072, 1103], Lit [1099, 1077], Lit [1099, 1093]]),
     Alts [Lit [1080, 1079, 1084, 1077, 1085, 1077, 1085, 1080, 1077], Lit [1088, 1077, 1096, 1077, 1085,
       1080, 1077], Lit [1091, 1083, 1091, 1095, 1096, 1077, 1085, 1080, 1077], Lit [1076, 1086, 1088,
       1072, 1073, 1086, 1090, 1082]]]"

definition PRODUCT_ADVICE_RE :: "(nat \<Rightarrow> bool) \<Rightarrow> re" where
  "PRODUCT_ADVICE_RE wd = Alts [
     Seqs [Lit [1091, 1083, 1091, 1095, 1096, 1080, 1090, 1100], Spaces,
       Alts [Lit (u ''ux''), Lit [1086, 1087, 1099, 1090], Lit [1080, 1085, 1090, 1077, 1088, 1092, 1077,
       1081, 1089], Lit [1087, 1088, 1086, 1076, 1091, 1082, 1090], Lit [1089, 1077, 1088, 1074, 1080,
       1089], APP_FORM,
         Seq (Lit [1082, 1083, 1080, 1077, 1085, 1090, 1089, 1082]) (Opt (Alts [Lit [1080, 1081],
       Lit [1086, 1077], Lit [1091, 1102]]))]],
     Seq (Lit [1080, 1085, 1090, 1077, 1075, 1088, 1080, 1088]) (Alts [Lit [1086, 1074, 1072, 1090, 1100],
       Lit [1072, 1094, 1080, 1103], Lit [1086, 1074, 1072, 1090, 1100, 1089, 1103]]),
     Seqs [Lit [1076, 1086, 1073, 1072, 1074, 1080, 1090, 1100], Spaces1, INTO, Alts [APP_FORM, Lit [1087,
       1088, 1086, 1076, 1091, 1082, 1090], Lit [1089, 1077, 1088, 1074, 1080, 1089], Lit [1092, 1091,
       1085, 1082, 1094]]],
     Seqs [Lit [1085, 1086, 1074, 1086, 1089, 1090, 1085], Star (Chr wd), Spaces, Lit [1083, 1077, 1085,
       1090]],
     lits [Lit [1083, 1077, 1085, 1090, 1072], Lit [1085, 1086, 1074, 1086, 1089, 1090]],
     lits [Lit [1087, 1086, 1074, 1099, 1089, 1080, 1090, 1100], Seq (Lit [1074, 1086, 1074, 1083, 1077,
       1095]) (Star (Chr wd))],
     lits [Lit [1088, 1086, 1089, 1090], Seq (Lit [1074, 1086, 1074, 1083, 1077, 1095]) (Star (Chr wd))],
     Lit (u ''adoption''), Lit (u ''onboarding''), Lit (u ''retention''),
     Seqs [Bound, Lit (u ''ux''), Bound], Seqs [Bound, Lit (u ''ui''), Bound],
     Seqs [Bound, Lit (u ''feature''), Bound], Seqs [Bound, Lit (u ''mvp''), Bound],
     Seqs [Lit (u ''road''), Opt (Chr is_space), Lit (u ''map'')],
     lits [Lit [1101, 1082, 1088, 1072, 1085], Alts [Lit [1087, 1086, 1076, 1090, 1074, 1077, 1088, 1078,
       1076], Lit [1086, 1087, 1083, 1072, 1090]]],
     Lit [1092, 1091, 1085, 1082, 1094, 1080, 1086, 1085, 1072, 1083],
     Seqs [Lit [1092, 1080, 1095], Opt (Alts [Lit [1072], Lit [1080]]), Bound],
     PRODUCT_CHANGE_RE,
     Seqs [Lit (u ''customer''), Spaces, Lit (u ''journey'')], Seqs [Lit (u ''user''), Spaces, Lit (u ''journey'')],
     Seqs [Lit [1102, 1079, 1077, 1088], Spaces, Lit [1092, 1083, 1086, 1091]],
     Seqs [Lit [1074, 1085, 1077, 1076, 1088, 1080, 1090, 1100], Spaces1, INTO, Alts [APP, Lit [1087, 1088,
       1086, 1076, 1091, 1082, 1090]]],
     lits [Lit [1088, 1072, 1089, 1096, 1080, 1088, 1080, 1090, 1100], Lit [1092, 1091, 1085, 1082, 1094,
       1080, 1086, 1085, 1072, 1083]],
     lits [Lit [1076, 1086, 1073, 1072, 1074, 1080, 1090, 1100], Lit [1092, 1091, 1085, 1082, 1094]],
     lits [Lit [1088, 1072, 1089, 1096, 1080, 1088, 1080, 1090, 1100], Lit [1087, 1072, 1088, 1090, 1085,
       1105, 1088]],
     lits [Lit [1086, 1087, 1090, 1080, 1084, 1080, 1079, 1080, 1088, 1086, 1074, 1072, 1090, 1100], APP],
     lits [Lit [1091, 1083, 1091, 1095, 1096, 1080, 1090, 1100], Lit [1087, 1088, 1086, 1080, 1079, 1074,
       1086, 1076, 1080, 1090, 1077, 1083, 1100, 1085, 1086, 1089, 1090]],
     lits [Lit [1091, 1083, 1091, 1095, 1096, 1080, 1090, 1100], Lit [1082, 1072, 1095, 1077, 1089, 1090,
       1074, 1086], APP],
     lits [Lit [1091, 1089, 1082, 1086, 1088, 1080, 1090, 1100], Lit [1088, 1072, 1073, 1086, 1090, 1091],
       APP],
     lits [Lit [1085, 1086, 1074, 1072, 1103], Lit [1092, 1091, 1085, 1082, 1094]]]"

definition FORBIDDEN_ENGLISH_RE :: re where
  "FORBIDDEN_ENGLISH_RE = Seqs [Bound, Alts (map (\<lambda>w. Lit (u w)) [''performance'', ''integration'', ''improve'',
       ''improving'', ''optimize'', ''optimizing'', ''feature'', ''features'', ''quality'']
     @ [Seqs [Lit (u ''user''), Spaces, Lit (u ''experience'')]]
     @ map (\<lambda>w. Lit (u w)) [''roadmap'', ''release'', ''deployment'', ''backend'', ''frontend'', ''dashboard'']), Bound]"

definition TRIVIAL_QUOTE_RE :: re where
  "TRIVIAL_QUOTE_RE = Seqs [Start, Alts [Lit [1089, 1087, 1072, 1089, 1080, 1073, 1086], Lit [1073, 1083,
       1072, 1075, 1086, 1076, 1072, 1088, 1102], Lit [1086, 1082, 1077, 1081], Lit [1086, 1082],
       Seq (Lit [1076]) (Plus (Lit [1072])), Seq (Lit [1085, 1077]) (Plus (Lit [1090])), Lit [1089, 1091,
       1087, 1077, 1088], Lit [1082, 1083, 1072, 1089, 1089],
       Lit [1087, 1086, 1085, 1103, 1090, 1085, 1086], Lit [1093, 1086, 1088, 1086, 1096, 1086], Lit [1085,
       1086, 1088, 1084, 1072, 1083, 1100, 1085, 1086], Lit (u ''thanks''), Lit (u ''thank you''),
       Seq (Lit (u ''ok'')) (Opt (Chr (\<lambda>c. c = 46))), Lit (u ''cool''), Lit (u ''great''), Lit (u ''nice'')],
     Spaces, Star (Chr (\<lambda>c. c = 33 \<or> c = 46)), Finish]"

definition is_trivial_quote :: "(nat \<Rightarrow> bool) \<Rightarrow> nat \<Rightarrow> pystr \<Rightarrow> bool" where
  "is_trivial_quote wd min_len s =
     (let t = strip s in length t < min_len \<or> matches_start wd TRIVIAL_QUOTE_RE t
        \<or> length (runs (\<lambda>c. \<not> is_space c) t) \<le> 2 \<and> length t < 40)"

definition product_advice :: "(nat \<Rightarrow> bool) \<Rightarrow> pystr \<Rightarrow> bool" where
  "product_advice wd s = found wd (PRODUCT_ADVICE_RE wd) s"

text \<open>\<^verbatim>\<open>_strip_urls_and_uuid_tokens\<close>.\<close>

definition URL_RE :: re where
  "URL_RE = Seqs [Lit (u ''http''), Opt (Lit (u ''s'')), Lit (u ''://''), Plus (Chr (\<lambda>c. \<not> is_space c))]"

definition hex_digit :: "nat \<Rightarrow> bool" where
  "hex_digit c \<longleftrightarrow> 48 \<le> c \<and> c \<le> 57 \<or> 97 \<le> lower_char c \<and> lower_char c \<le> 102"

fun times_re :: "nat \<Rightarrow> re \<Rightarrow> re list" where
  "times_re 0 r = []"
| "times_re (Suc n) r = r # times_re n r"

definition UUID_RE :: re where
  "UUID_RE = Seqs ([Bound] @ times_re 8 (Chr hex_digit)
     @ concat (map (\<lambda>n. Lit (u ''-'') # times_re n (Chr hex_digit)) [4, 4, 4, 12]) @ [Bound])"

definition strip_urls_and_uuid_tokens :: "(nat \<Rightarrow> bool) \<Rightarrow> pystr \<Rightarrow> pystr" where
  "strip_urls_and_uuid_tokens wd s = re_sub wd UUID_RE [32] (re_sub wd URL_RE [32] s)"

section \<open>Lines and the summary\<close>

definition PLAIN_LINE :: pystr where
  "PLAIN_LINE = [1057, 1086, 1075, 1083, 1072, 1089, 1086, 1074, 1072, 1090, 1100, 32, 1083, 1080, 1085,
       1080, 1102, 32, 80, 82, 32, 1080, 32, 81, 38, 65, 32, 1087, 1086, 32, 1090, 1077, 1084, 1077, 32,
       1076, 1086, 1074, 1077, 1088, 1080, 1103, 59, 32, 1086, 1087, 1088, 1077, 1076, 1077, 1083, 1080,
       1090, 1100, 32, 1082, 1072, 1085, 1072, 1083, 1099, 32, 1086, 1090, 1074, 1077, 1090, 1086, 1074,
       32, 1073, 1077, 1079, 32, 1087, 1088, 1077, 1076, 1083, 1086, 1078, 1077, 1085, 1080, 1081, 32,
       1087, 1086, 32, 1080, 1079, 1084, 1077, 1085, 1077, 1085, 1080, 1102, 32, 1087, 1088, 1086, 1076,
       1091, 1082, 1090, 1072, 46]"

definition pr_sanitize_plain_line :: "(nat \<Rightarrow> bool) \<Rightarrow> pystr \<Rightarrow> pystr" where
  "pr_sanitize_plain_line wd line = (let t = strip line in
     if t = [] then t else if product_advice wd t then PLAIN_LINE else t)"

text \<open>The end of a sentence: a full stop, an exclamation or question mark or an ellipsis.\<close>

definition sentence_end :: "nat \<Rightarrow> bool" where
  "sentence_end c \<longleftrightarrow> c = 46 \<or> c = 33 \<or> c = 63 \<or> c = 8230"

definition AFTER_SENTENCE :: re where
  "AFTER_SENTENCE = Seq (Behind sentence_end) Spaces1"

definition SUMMARY_FALLBACK :: pystr where
  "SUMMARY_FALLBACK = [1055, 1086, 32, 1084, 1072, 1090, 1077, 1088, 1080, 1072, 1083, 1072, 1084, 32,
       1080, 1085, 1090, 1077, 1088, 1074, 1100, 1102, 32, 1082, 1083, 1102, 1095, 1077, 1074, 1086, 1081,
       32, 1092, 1086, 1082, 1091, 1089, 32, 1076, 1083, 1103, 32, 80, 82, 32, 8212, 32, 1076, 1086, 1074,
       1077, 1088, 1080, 1077, 44, 32, 1087, 1088, 1086, 1079, 1088, 1072, 1095, 1085, 1086, 1089, 1090,
       1100, 32, 1082, 1086, 1084, 1084, 1091, 1085, 1080, 1082, 1072, 1094, 1080, 1081, 32, 1080, 32,
       1074, 1099, 1073, 1086, 1088, 32, 1082, 1072, 1085, 1072, 1083, 1086, 1074, 44, 32, 1082, 1086,
       1090, 1086, 1088, 1099, 1084, 32, 1072, 1091, 1076, 1080, 1090, 1086, 1088, 1080, 1103, 32, 1076,
       1086, 1074, 1077, 1088, 1103, 1077, 1090, 46, 32]
     @ [1055, 1088, 1086, 1076, 1091, 1082, 1090, 1086, 1074, 1099, 1077, 32, 1080, 1079, 1084, 1077, 1085,
       1077, 1085, 1080, 1103, 32, 1074, 32, 1086, 1090, 1095, 1105, 1090, 32, 1085, 1077, 32, 1074, 1093,
       1086, 1076, 1103, 1090, 58, 32, 1076, 1072, 1083, 1100, 1085, 1077, 1081, 1096, 1080, 1077, 32,
       1096, 1072, 1075, 1080, 32, 8212, 32, 1074, 32, 1073, 1083, 1086, 1082, 1072, 1093, 32, 1088, 1077,
       1082, 1086, 1084, 1077, 1085, 1076, 1072, 1094, 1080, 1081, 32, 1080, 32, 110, 101, 120, 116, 95,
       115, 116, 101, 112, 115, 32, 1085, 1072, 32, 1089, 1090, 1086, 1088, 1086, 1085, 1077, 32, 1082,
       1086, 1084, 1084, 1091, 1085, 1080, 1082, 1072, 1094, 1080, 1081, 46]"

definition clean_sentences :: "(nat \<Rightarrow> bool) \<Rightarrow> pystr \<Rightarrow> pystr list" where
  "clean_sentences wd s = filter (\<lambda>c. c \<noteq> [] \<and> \<not> product_advice wd c) (re_split wd AFTER_SENTENCE (strip s))"

definition pr_sanitize_executive_summary :: "(nat \<Rightarrow> bool) \<Rightarrow> pystr \<Rightarrow> pystr" where
  "pr_sanitize_executive_summary wd s =
     (if strip s = [] \<or> \<not> product_advice wd s then s
      else (let r = strip (join [32] (clean_sentences wd s)) in if length r < 80 then SUMMARY_FALLBACK else r))"

section \<open>Items\<close>

text \<open>\<^verbatim>\<open>d[k] = v\<close>, and \<^verbatim>\<open>str(d.get(k) or "")\<close>.\<close>

definition put_item :: "items \<Rightarrow> pystr \<Rightarrow> json \<Rightarrow> items" where
  "put_item m k v = (if k \<in> fst ` set m then map (\<lambda>(i, x). if i = k then (i, v) else (i, x)) m else m @ [(k, v)])"

definition raw_item :: "dash \<Rightarrow> items \<Rightarrow> string \<Rightarrow> pystr" where
  "raw_item da m k = (let v = item m (u k) in if json_true v then str_of da v else [])"

definition PR_ITEM_STRING_KEYS :: "pystr list" where
  "PR_ITEM_STRING_KEYS = map u [''finding'', ''explanation'', ''causal_chain'', ''impact'', ''recommendation'',
     ''forecast'', ''text'', ''comms_signal'', ''pr_relevance'', ''reputation_gap'', ''pr_action'', ''comms_follow_up'',
     ''insight_fact'', ''pr_risk_why'', ''message_what_to_say'', ''channel_where'', ''tone_format_how'']"

fun shown_text :: "json \<Rightarrow> pystr list" where
  "shown_text (JStr s) = (if strip s = [] then [] else [s])"
| "shown_text _ = []"

definition item_blob :: "env \<Rightarrow> items \<Rightarrow> pystr" where
  "item_blob env m = lower env (join [10] (concat (map (\<lambda>k. shown_text (item m k)) PR_ITEM_STRING_KEYS)))"

definition item_has_product_advice :: "env \<Rightarrow> dash \<Rightarrow> items \<Rightarrow> bool" where
  "item_has_product_advice env da m = product_advice (da_word da) (item_blob env m)"

definition TRUST_WORDS :: "pystr list" where
  "TRUST_WORDS = [[1084, 1086, 1096, 1077, 1085, 1085, 1080, 1082], [1084, 1086, 1096, 1077, 1085, 1085,
       1080, 1095], [1086, 1073, 1084, 1072, 1085], [1073, 1077, 1079, 1086, 1087, 1072, 1089, 1085, 1086,
       1089, 1090], [1076, 1086, 1074, 1077, 1088], [1089, 1090, 1088, 1072, 1093], [1090, 1088, 1077,
       1074, 1086, 1075], [1088, 1080, 1089, 1082], [1091, 1082, 1088, 1072, 1076, 1091, 1090], [1089,
       1082, 1072, 1084]]"

definition CHANNEL_WORDS :: "pystr list" where
  "CHANNEL_WORDS = [[1089, 1084, 1080], [1086, 1085, 1083, 1072, 1081, 1085], [1090, 1077, 1083, 1077,
       1075, 1088, 1072, 1084], u ''telegram'', [1080, 1085, 1089, 1090, 1072, 1075, 1088, 1072, 1084],
       u ''tiktok'', [1089, 1086, 1094, 1089, 1077, 1090], u ''youtube'',
     [1082, 1072, 1085, 1072, 1083], [1087, 1083, 1086, 1097, 1072, 1076, 1082], [1084, 1077, 1089, 1089,
       1077, 1085, 1076, 1078]]"

definition CRISIS_WORDS :: "pystr list" where
  "CRISIS_WORDS = [[1082, 1088, 1080, 1079, 1080, 1089], [1085, 1077, 1075, 1072, 1090, 1080, 1074], [1089,
       1082, 1072, 1085, 1076, 1072, 1083], [1072, 1090, 1072, 1082], [1086, 1073, 1074, 1080, 1085, 1077,
       1085]]"

definition TRUST_TEMPLATE :: "pystr \<times> pystr \<times> pystr" where
  "TRUST_TEMPLATE =
    ([1055, 1086, 1076, 1075, 1086, 1090, 1086, 1074, 1080, 1090, 1100, 32, 1088, 1072, 1089, 1096, 1080,
       1088, 1077, 1085, 1085, 1099, 1081, 32, 81, 38, 65, 32, 1080, 32, 1090, 1077, 1079, 1080, 1089,
       1099, 32, 1086, 32, 1073, 1077, 1079, 1086, 1087, 1072, 1089, 1085, 1086, 1089, 1090, 1080, 44, 32,
       1087, 1088, 1086, 1079, 1088, 1072, 1095, 1085, 1086, 1089, 1090, 1080, 32, 1087, 1088, 1086, 1094,
       1077, 1089, 1089, 1086, 1074, 32, 1080, 32, 1082, 1086, 1085, 1090, 1088, 1086, 1083, 1077, 32,
       1088, 1080, 1089, 1082, 1086, 1074, 59, 32]
     @ [1089, 1086, 1075, 1083, 1072, 1089, 1086, 1074, 1072, 1090, 1100, 32, 1077, 1076, 1080, 1085, 1091,
       1102, 32, 1083, 1080, 1085, 1080, 1102, 32, 1076, 1083, 1103, 32, 1089, 1087, 1080, 1082, 1077,
       1088, 1086, 1074, 44, 32, 1057, 1052, 1048, 32, 1080, 32, 1086, 1092, 1080, 1094, 1080, 1072, 1083,
       1100, 1085, 1099, 1093, 32, 1089, 1086, 1094, 1082, 1072, 1085, 1072, 1083, 1086, 1074, 59, 32,
       1087, 1088, 1086, 1090, 1077, 1089, 1090, 1080, 1088, 1086, 1074, 1072, 1090, 1100, 32, 1092, 1086,
       1088, 1084, 1091, 1083, 1080, 1088, 1086, 1074, 1082, 1080, 32, 1085, 1072, 32, 1087, 1086, 1085,
       1103, 1090, 1085, 1086, 1089, 1090, 1100, 32, 1080, 32, 1089, 1085, 1103, 1090, 1080, 1077, 32,
       1090, 1088, 1077, 1074, 1086, 1075, 1080, 46],
     [1059, 1089, 1080, 1083, 1080, 1090, 1100, 32, 1086, 1087, 1086, 1088, 1085, 1099, 1077, 32, 1084,
       1077, 1089, 1089, 1077, 1076, 1078, 1080, 32, 1076, 1086, 1074, 1077, 1088, 1080, 1103, 58, 32,
       1092, 1072, 1082, 1090, 1091, 1088, 1072, 44, 32, 1087, 1086, 1076, 1090, 1074, 1077, 1088, 1078,
       1076, 1077, 1085, 1080, 1103, 44, 32, 1101, 1082, 1089, 1087, 1077, 1088, 1090, 1085, 1099, 1077,
       32, 1080, 32, 1087, 1072, 1088, 1090, 1085, 1105, 1088, 1089, 1082, 1080, 1077, 32, 1082, 1086,
       1084, 1084, 1077, 1085, 1090, 1072, 1088, 1080, 1080, 59, 32, 1080, 1079, 1073, 1077, 1075, 1072,
       1090, 1100, 32, 1086, 1073, 1097, 1080, 1093, 32, 1086, 1073, 1077, 1097, 1072, 1085, 1080, 1081,
       32, 1073, 1077, 1079, 32, 1086, 1087, 1086, 1088, 1099, 32, 1085, 1072, 32, 1087, 1088, 1086, 1074,
       1077, 1088, 1103, 1077, 1084, 1099, 1077, 32, 1092, 1086, 1088, 1084, 1091, 1083, 1080, 1088, 1086,
       1074, 1082, 1080, 46],
     [1042, 1082, 1083, 1102, 1095, 1080, 1090, 1100, 32, 1084, 1086, 1085, 1080, 1090, 1086, 1088, 1080,
       1085, 1075, 32, 1086, 1073, 1089, 1091, 1078, 1076, 1077, 1085, 1080, 1081, 32, 1090, 1077, 1084,
       1099, 32, 1074, 32, 1057, 1052, 1048, 32, 1080, 32, 1089, 1086, 1094, 1089, 1077, 1090, 1103, 1093,
       59, 32, 1086, 1087, 1088, 1077, 1076, 1077, 1083, 1080, 1090, 1100, 32, 1090, 1088, 1080, 1075,
       1075, 1077, 1088, 1099, 32, 1076, 1083, 1103, 32, 1086, 1087, 1077, 1088, 1077, 1078, 1072, 1102,
       1097, 1077, 1075, 1086, 32, 1086, 1090, 1074, 1077, 1090, 1072, 32, 1080, 32, 1076, 1077, 1088,
       1078, 1072, 1090, 1100, 32, 1075, 1086, 1090, 1086, 1074, 1099, 1081, 32, 1087, 1072, 1082, 1077,
       1090, 32, 1091, 1090, 1086, 1095, 1085, 1077, 1085, 1080, 1081, 46])"

definition CHANNEL_TEMPLATE :: "pystr \<times> pystr \<times> pystr" where
  "CHANNEL_TEMPLATE =
    ([1047, 1072, 1092, 1080, 1082, 1089, 1080, 1088, 1086, 1074, 1072, 1090, 1100, 44, 32, 1082, 1072,
       1082, 1080, 1084, 32, 1082, 1072, 1085, 1072, 1083, 1072, 1084, 32, 1080, 32, 1092, 1086, 1088,
       1084, 1072, 1090, 1072, 1084, 32, 1072, 1091, 1076, 1080, 1090, 1086, 1088, 1080, 1103, 32, 1076,
       1086, 1074, 1077, 1088, 1103, 1077, 1090, 32, 1074, 32, 1090, 1077, 1084, 1077, 59, 32, 1089, 1082,
       1086, 1088, 1088, 1077, 1082, 1090, 1080, 1088, 1086, 1074, 1072, 1090, 1100, 32, 1084, 1077, 1076,
       1080, 1072, 1087, 1083, 1072, 1085, 32, 1080, 32, 1087, 1088, 1080, 1086, 1088, 1080, 1090, 1077,
       1090, 32, 1087, 1083, 1086, 1097, 1072, 1076, 1086, 1082, 32]
     @ [40, 1074, 32, 1090, 46, 1095, 46, 32, 1084, 1077, 1089, 1089, 1077, 1085, 1076, 1078, 1077, 1088,
       1099, 32, 1080, 32, 1089, 1086, 1094, 1089, 1077, 1090, 1080, 44, 32, 1077, 1089, 1083, 1080, 32,
       1101, 1090, 1086, 32, 1089, 1083, 1077, 1076, 1091, 1077, 1090, 32, 1080, 1079, 32, 1080, 1085,
       1090, 1077, 1088, 1074, 1100, 1102, 41, 46],
     [1055, 1086, 1076, 1075, 1086, 1090, 1086, 1074, 1080, 1090, 1100, 32, 1072, 1076, 1072, 1087, 1090,
       1080, 1088, 1086, 1074, 1072, 1085, 1085, 1099, 1077, 32, 1084, 1077, 1089, 1089, 1077, 1076, 1078,
       1080, 32, 1080, 32, 1092, 1086, 1088, 1084, 1072, 1090, 1099, 32, 1087, 1086, 1076, 32, 1074, 1099,
       1073, 1088, 1072, 1085, 1085, 1099, 1077, 32, 1082, 1072, 1085, 1072, 1083, 1099, 59, 32, 1088,
       1072, 1079, 1088, 1072, 1073, 1086, 1090, 1072, 1090, 1100, 32, 81, 38, 65, 32, 1076, 1083, 1103,
       32, 1082, 1086, 1084, 1084, 1077, 1085, 1090, 1072, 1090, 1086, 1088, 1086, 1074, 32, 1080, 32,
       1089, 1087, 1080, 1082, 1077, 1088, 1086, 1074, 46],
     [1053, 1072, 1089, 1090, 1088, 1086, 1080, 1090, 1100, 32, 1086, 1090, 1089, 1083, 1077, 1078, 1080,
       1074, 1072, 1085, 1080, 1077, 32, 1085, 1072, 1088, 1088, 1072, 1090, 1080, 1074, 1072, 32, 1087,
       1086, 32, 1082, 1083, 1102, 1095, 1077, 1074, 1099, 1084, 32, 1087, 1083, 1086, 1097, 1072, 1076,
       1082, 1072, 1084, 59, 32, 1087, 1088, 1080, 32, 1080, 1089, 1082, 1072, 1078, 1077, 1085, 1080,
       1103, 1093, 32, 8212, 32, 1075, 1086, 1090, 1086, 1074, 1080, 1090, 1100, 32, 1090, 1086, 1095,
       1077, 1095, 1085, 1099, 1081, 32, 1086, 1092, 1080, 1094, 1080, 1072, 1083, 1100, 1085, 1099, 1081,
       32, 1086, 1090, 1074, 1077, 1090, 32, 1080, 32, 1073, 1088, 1080, 1092, 32, 1076, 1083, 1103, 32,
       1051, 1055, 1056, 46])"

definition CRISIS_TEMPLATE :: "pystr \<times> pystr \<times> pystr" where
  "CRISIS_TEMPLATE =
    ([1040, 1082, 1090, 1080, 1074, 1080, 1088, 1086, 1074, 1072, 1090, 1100, 32, 1072, 1085, 1090, 1080,
       1082, 1088, 1080, 1079, 1080, 1089, 1085, 1099, 1081, 32, 1082, 1086, 1085, 1090, 1091, 1088, 58,
       32, 1089, 1094, 1077, 1085, 1072, 1088, 1080, 1080, 32, 1086, 1090, 1074, 1077, 1090, 1072, 44, 32,
       1077, 1076, 1080, 1085, 1099, 1081, 32, 1087, 1088, 1077, 1089, 1089, 45, 1094, 1077, 1085, 1090,
       1088, 44, 32, 1087, 1088, 1080, 1086, 1088, 1080, 1090, 1077, 1090, 32, 1092, 1072, 1082, 1090,
       1091, 1088, 1099, 32, 1080, 32, 1102, 1088, 1080, 1076, 1080, 1095, 1077, 1089, 1082, 1086, 1081,
       32, 1074, 1099, 1074, 1077, 1088, 1082, 1080, 32, 1092, 1086, 1088, 1084, 1091, 1083, 1080, 1088,
       1086, 1074, 1086, 1082, 46],
     [1055, 1086, 1076, 1075, 1086, 1090, 1086, 1074, 1080, 1090, 1100, 32, 1076, 1077, 1088, 1078, 1072,
       1090, 1077, 1083, 1077, 1081, 32, 1083, 1080, 1085, 1080, 1080, 32, 1076, 1083, 1103, 32, 1057,
       1052, 1048, 32, 1080, 32, 1089, 1086, 1094, 1089, 1077, 1090, 1077, 1081, 44, 32, 1087, 1072, 1082,
       1077, 1090, 32, 1090, 1077, 1079, 1080, 1089, 1086, 1074, 32, 1080, 32, 1079, 1072, 1087, 1088,
       1077, 1090, 1085, 1099, 1077, 32, 1092, 1086, 1088, 1084, 1091, 1083, 1080, 1088, 1086, 1074, 1082,
       1080, 59, 32, 1087, 1088, 1086, 1074, 1077, 1089, 1090, 1080, 32, 1074, 1085, 1091, 1090, 1088,
       1077, 1085, 1085, 1080, 1081, 32, 1073, 1088, 1080, 1092, 46],
     [1059, 1089, 1080, 1083, 1080, 1090, 1100, 32, 1084, 1086, 1085, 1080, 1090, 1086, 1088, 1080, 1085,
       1075, 32, 1080, 32, 1072, 1083, 1077, 1088, 1090, 1099, 32, 1087, 1086, 32, 1090, 1077, 1084, 1077,
       59, 32, 1087, 1088, 1080, 32, 1085, 1077, 1086, 1073, 1093, 1086, 1076, 1080, 1084, 1086, 1089,
       1090, 1080, 32, 8212, 32, 1086, 1087, 1077, 1088, 1077, 1078, 1072, 1102, 1097, 1077, 1077, 32,
       1087, 1080, 1089, 1100, 1084, 1086, 32, 1088, 1077, 1076, 1072, 1082, 1090, 1086, 1088, 1072, 1084,
       32, 1080, 1083, 1080, 32, 1087, 1086, 1089, 1090, 45, 1088, 1072, 1079, 1098, 1103, 1089, 1085,
       1077, 1085, 1080, 1077, 32, 1074, 32, 1076, 1086, 1074, 1077, 1088, 1077, 1085, 1085, 1099, 1093,
       32, 1082, 1072, 1085, 1072, 1083, 1072, 1093, 46])"

definition PR_TEMPLATE :: "pystr \<times> pystr \<times> pystr" where
  "PR_TEMPLATE =
    ([1057, 1092, 1086, 1088, 1084, 1080, 1088, 1086, 1074, 1072, 1090, 1100, 32, 80, 82, 45, 1087, 1072,
       1082, 1077, 1090, 58, 32, 81, 38, 65, 44, 32, 1090, 1077, 1079, 1080, 1089, 1099, 32, 1076, 1083,
       1103, 32, 1089, 1087, 1080, 1082, 1077, 1088, 1072, 44, 32, 1087, 1088, 1080, 1086, 1088, 1080,
       1090, 1077, 1090, 1085, 1099, 1077, 32, 1082, 1072, 1085, 1072, 1083, 1099, 32, 1080, 32, 1092,
       1086, 1088, 1084, 1072, 1090, 1099, 32, 1082, 1086, 1084, 1084, 1091, 1085, 1080, 1082, 1072, 1094,
       1080, 1080, 59, 32, 1089, 1086, 1075, 1083, 1072, 1089, 1086, 1074, 1072, 1090, 1100, 32, 1083,
       1080, 1085, 1080, 1102, 32, 1089, 32, 1102, 1088, 1080, 1076, 1080, 1095, 1077, 1089, 1082, 1080,
       1084, 32, 1080, 32, 1082, 1086, 1084, 1087, 1083, 1072, 1077, 1085, 1089, 45, 1073, 1083, 1086,
       1082, 1086, 1084, 32, 1087, 1088, 1080, 32, 1085, 1077, 1086, 1073, 1093, 1086, 1076, 1080, 1084,
       1086, 1089, 1090, 1080, 46],
     [1055, 1088, 1086, 1090, 1077, 1089, 1090, 1080, 1088, 1086, 1074, 1072, 1090, 1100, 32, 1082, 1083,
       1102, 1095, 1077, 1074, 1099, 1077, 32, 1092, 1086, 1088, 1084, 1091, 1083, 1080, 1088, 1086, 1074,
       1082, 1080, 32, 1085, 1072, 32, 1087, 1086, 1085, 1103, 1090, 1085, 1086, 1089, 1090, 1100, 32,
       1080, 32, 1086, 1090, 1089, 1091, 1090, 1089, 1090, 1074, 1080, 1077, 32, 1076, 1074, 1091, 1089,
       1084, 1099, 1089, 1083, 1077, 1085, 1085, 1086, 1089, 1090, 1077, 1081, 59, 32, 1076, 1086, 1088,
       1072, 1073, 1086, 1090, 1072, 1090, 1100, 32, 1084, 1077, 1089, 1089, 1077, 1076, 1078, 1080, 32,
       1086, 32, 1076, 1086, 1074, 1077, 1088, 1080, 1080, 32, 1080, 32, 1087, 1088, 1086, 1079, 1088,
       1072, 1095, 1085, 1086, 1089, 1090, 1080, 32, 1087, 1086, 1076, 32, 1074, 1099, 1103, 1074, 1083,
       1077, 1085, 1085, 1099, 1077, 32, 1074, 32, 1080, 1085, 1090, 1077, 1088, 1074, 1100, 1102, 32,
       1086, 1087, 1072, 1089, 1077, 1085, 1080, 1103, 46],
     [1047, 1072, 1087, 1083, 1072, 1085, 1080, 1088, 1086, 1074, 1072, 1090, 1100, 32, 1084, 1086, 1085,
       1080, 1090, 1086, 1088, 1080, 1085, 1075, 32, 1090, 1077, 1084, 1099, 32, 1074, 32, 1084, 1077,
       1076, 1080, 1072, 32, 1080, 32, 1089, 1086, 1094, 1089, 1077, 1090, 1103, 1093, 32, 1080, 32, 1089,
       1083, 1077, 1076, 1091, 1102, 1097, 1080, 1081, 32, 1094, 1080, 1082, 1083, 32, 1089, 1086, 1075,
       1083, 1072, 1089, 1086, 1074, 1072, 1085, 1080, 1103, 32, 1082, 1086, 1084, 1084, 1091, 1085, 1080,
       1082, 1072, 1094, 1080, 1086, 1085, 1085, 1099, 1093, 32, 1096, 1072, 1075, 1086, 1074, 46])"

text \<open>Three texts that belong together: a recommendation, an action of the team and what follows.\<close>

definition pr_template_bundle :: "env \<Rightarrow> pystr \<Rightarrow> pystr \<times> pystr \<times> pystr" where
  "pr_template_bundle env context =
     (let ctx = lower env context; names = (\<lambda>ws. list_ex (\<lambda>w. sublist w ctx) ws) in
      if names TRUST_WORDS then TRUST_TEMPLATE
      else if names CHANNEL_WORDS then CHANNEL_TEMPLATE
      else if names CRISIS_WORDS then CRISIS_TEMPLATE
      else PR_TEMPLATE)"

definition SOFTENED_KEYS :: "pystr list" where
  "SOFTENED_KEYS = map u [''comms_signal'', ''pr_relevance'', ''reputation_gap'', ''insight_fact'', ''pr_risk_why'',
     ''message_what_to_say'', ''channel_where'', ''tone_format_how'', ''finding'', ''explanation'', ''forecast'']"

definition SOFT_FALLBACK :: pystr where
  "SOFT_FALLBACK = [1057, 1080, 1075, 1085, 1072, 1083, 32, 1080, 1085, 1090, 1077, 1088, 1074, 1100, 1102,
       32, 1086, 1090, 1085, 1086, 1089, 1080, 1090, 1089, 1103, 32, 1082, 32, 1079, 1086, 1085, 1077, 32,
       1076, 1086, 1074, 1077, 1088, 1080, 1103, 32, 1080, 32, 1074, 1086, 1089, 1087, 1088, 1080, 1103,
       1090, 1080, 1103, 32, 1073, 1088, 1077, 1085, 1076, 1072, 59, 32]
     @ [1076, 1077, 1090, 1072, 1083, 1100, 1085, 1072, 1103, 32, 1080, 1085, 1090, 1077, 1088, 1087, 1088,
       1077, 1090, 1072, 1094, 1080, 1103, 32, 8212, 32, 1074, 32, 1087, 1086, 1083, 1103, 1093, 32, 1082,
       1086, 1084, 1084, 1091, 1085, 1080, 1082, 1072, 1094, 1080, 1086, 1085, 1085, 1086, 1075, 1086, 32,
       1089, 1080, 1075, 1085, 1072, 1083, 1072, 32, 1080, 32, 80, 82, 45, 1076, 1077, 1081, 1089, 1090,
       1074, 1080, 1081, 46]"

text \<open>Product advice is cut out of a text; little text is replaced.\<close>

definition softened :: "(nat \<Rightarrow> bool) \<Rightarrow> pystr \<Rightarrow> pystr" where
  "softened wd s = (let r = collapse (re_sub wd (PRODUCT_ADVICE_RE wd) [32] s) in if length r < 50 then SOFT_FALLBACK else r)"

definition rewrite_key :: "(nat \<Rightarrow> bool) \<Rightarrow> (pystr \<Rightarrow> pystr) \<Rightarrow> pystr \<Rightarrow> items \<Rightarrow> items" where
  "rewrite_key wd f k m = (case item m k of
     JStr s \<Rightarrow> if product_advice wd s then put_item m k (JStr (f s)) else m | _ \<Rightarrow> m)"

definition IMPACT_FALLBACK :: pystr where
  "IMPACT_FALLBACK = [1056, 1072, 1089, 1090, 1105, 1090, 32, 1088, 1080, 1089, 1082, 32, 1076, 1083, 1103,
       32, 1088, 1077, 1087, 1091, 1090, 1072, 1094, 1080, 1080, 32, 1080, 32, 1076, 1086, 1074, 1077,
       1088, 1080, 1103, 32, 1082, 32, 1085, 1072, 1088, 1088, 1072, 1090, 1080, 1074, 1091, 32, 1073,
       1088, 1077, 1085, 1076, 1072, 59, 32, 1074, 1085, 1077, 1096, 1085, 1080, 1077, 32, 1082, 1086,
       1084, 1084, 1091, 1085, 1080, 1082, 1072, 1094, 1080, 1080, 32, 1084, 1086, 1075, 1091, 1090, 32,
       1088, 1072, 1089, 1093, 1086, 1076, 1080, 1090, 1100, 1089, 1103, 32, 1089, 32, 1086, 1078, 1080,
       1076, 1072, 1085, 1080, 1103, 1084, 1080, 32, 1072, 1091, 1076, 1080, 1090, 1086, 1088, 1080, 1080,
       32, 8212, 32]
     @ [1101, 1090, 1086, 32, 1079, 1086, 1085, 1072, 32, 1086, 1090, 1074, 1077, 1090, 1089, 1090, 1074,
       1077, 1085, 1085, 1086, 1089, 1090, 1080, 32, 80, 82, 32, 1080, 32, 1082, 1086, 1088, 1087, 1086,
       1088, 1072, 1090, 1080, 1074, 1085, 1099, 1093, 32, 1082, 1086, 1084, 1084, 1091, 1085, 1080, 1082,
       1072, 1094, 1080, 1081, 46]"

definition CHAIN_FALLBACK :: pystr where
  "CHAIN_FALLBACK = [1057, 1080, 1075, 1085, 1072, 1083, 32, 1074, 32, 1080, 1085, 1090, 1077, 1088, 1074,
       1100, 1102, 32, 8594, 32, 1074, 1086, 1089, 1087, 1088, 1080, 1103, 1090, 1080, 1077, 32, 1080, 32,
       1076, 1086, 1074, 1077, 1088, 1080, 1077, 32, 1082, 32, 1073, 1088, 1077, 1085, 1076, 1091, 32,
       8594, 32, 1088, 1080, 1089, 1082, 32, 1076, 1083, 1103, 32, 1088, 1077, 1087, 1091, 1090, 1072,
       1094, 1080, 1080, 32, 1080, 32, 1084, 1077, 1076, 1080, 1072, 1087, 1086, 1083, 1103]"

definition pr_sanitize_analytical_item :: "env \<Rightarrow> dash \<Rightarrow> items \<Rightarrow> items" where
  "pr_sanitize_analytical_item env da m =
     (if \<not> item_has_product_advice env da m then m
      else case pr_template_bundle env (item_blob env m) of (main, team, follow) \<Rightarrow>
        (let wd = da_word da;
             m1 = put_item (put_item (put_item m (u ''recommendation'') (JStr main)) (u ''pr_action'') (JStr team))
                    (u ''comms_follow_up'') (JStr follow);
             m2 = fold (rewrite_key wd (softened wd)) SOFTENED_KEYS m1;
             m3 = rewrite_key wd (\<lambda>_. IMPACT_FALLBACK) (u ''impact'') m2
         in rewrite_key wd (\<lambda>_. CHAIN_FALLBACK) (u ''causal_chain'') m3))"

definition STEP_FALLBACK :: pystr where
  "STEP_FALLBACK = [1057, 1086, 1075, 1083, 1072, 1089, 1086, 1074, 1072, 1090, 1100, 32, 1089, 32, 80, 82,
       32, 1080, 32, 1082, 1086, 1088, 1087, 1086, 1088, 1072, 1090, 1080, 1074, 1085, 1099, 1084, 1080,
       32, 1082, 1086, 1084, 1084, 1091, 1085, 1080, 1082, 1072, 1094, 1080, 1103, 1084, 1080, 32, 1083,
       1080, 1085, 1080, 1102, 32, 1089, 1086, 1086, 1073, 1097, 1077, 1085, 1080, 1081, 32, 1080, 32, 81,
       38, 65, 59, 32]
     @ [1086, 1087, 1088, 1077, 1076, 1077, 1083, 1080, 1090, 1100, 32, 1082, 1072, 1085, 1072, 1083, 1099,
       32, 1076, 1086, 1085, 1077, 1089, 1077, 1085, 1080, 1103, 32, 1080, 32, 1092, 1086, 1088, 1084,
       1072, 1090, 32, 1086, 1090, 1074, 1077, 1090, 1086, 1074, 32, 1073, 1077, 1079, 32, 1087, 1088,
       1077, 1076, 1083, 1086, 1078, 1077, 1085, 1080, 1081, 32, 1087, 1086, 32, 1080, 1079, 1084, 1077,
       1085, 1077, 1085, 1080, 1102, 32, 1087, 1088, 1086, 1076, 1091, 1082, 1090, 1072, 46]"

definition pr_sanitize_next_step_item :: "dash \<Rightarrow> items \<Rightarrow> items" where
  "pr_sanitize_next_step_item da m =
     (if product_advice (da_word da) (raw_item da m ''text'')
      then (let m1 = put_item m (u ''text'') (JStr STEP_FALLBACK)
            in if json_true (item m1 (u ''rationale''))
               then put_item m1 (u ''rationale'') (JStr [1064, 1072, 1075, 32, 1079, 1072, 1084, 1077,
       1085, 1105, 1085, 32, 1085, 1072, 32, 1082, 1086, 1084, 1084, 1091, 1085, 1080, 1082, 1072, 1094,
       1080, 1086, 1085, 1085, 1099, 1081, 32, 1080, 1079, 45, 1079, 1072, 32, 1087, 1086, 1083, 1080,
       1090, 1080, 1082, 1080, 32, 1086, 1090, 1095, 1105, 1090, 1072, 32, 40, 1090, 1086, 1083, 1100,
       1082, 1086, 32, 80, 82, 45, 1091, 1088, 1086, 1074, 1077, 1085, 1100, 41, 46])
               else m1)
      else m)"

section \<open>What the patterns match\<close>

text \<open>The literal every match of an alternative starts with.\<close>

definition ADVICE_STEMS :: "pystr list" where
  "ADVICE_STEMS = [[1091, 1083, 1091, 1095, 1096, 1080, 1090, 1100], [1080, 1085, 1090, 1077, 1075, 1088,
       1080, 1088], [1076, 1086, 1073, 1072, 1074, 1080, 1090, 1100], [1085, 1086, 1074, 1086, 1089, 1090,
       1085], [1083, 1077, 1085, 1090, 1072], [1087, 1086, 1074, 1099, 1089, 1080, 1090, 1100], [1088,
       1086, 1089, 1090],
     u ''adoption'', u ''onboarding'', u ''retention'', u ''ux'', u ''ui'', u ''feature'', u ''mvp'', u ''road'',
     [1101, 1082, 1088, 1072, 1085], [1092, 1091, 1085, 1082, 1094, 1080, 1086, 1085, 1072, 1083], [1092,
       1080, 1095], u ''customer'', u ''user'', [1102, 1079, 1077, 1088], [1074, 1085, 1077, 1076, 1088,
       1080, 1090, 1100],
     [1088, 1072, 1089, 1096, 1080, 1088, 1080, 1090, 1100], [1086, 1087, 1090, 1080, 1084, 1080, 1079,
       1080, 1088, 1086, 1074, 1072, 1090, 1100], [1091, 1089, 1082, 1086, 1088, 1080, 1090, 1100], [1085,
       1086, 1074, 1072, 1103]]"

text \<open>Every match of \<open>r\<close> starts with a match of a pattern of \<open>qs\<close>.\<close>

definition stemmed :: "re set \<Rightarrow> re \<Rightarrow> bool" where
  "stemmed qs r \<longleftrightarrow> (\<forall>wd s i j. matches wd s r i j \<longrightarrow> (\<exists>q \<in> qs. \<exists>k. matches wd s q i k))"

lemma stemmedD: "stemmed qs r \<Longrightarrow> matches wd s r i j \<Longrightarrow> \<exists>q \<in> qs. \<exists>k. matches wd s q i k"
  unfolding stemmed_def by metis

lemma stemmed_self: "r \<in> qs \<Longrightarrow> stemmed qs r"
  by (auto simp: stemmed_def)

lemma stemmed_Seq: "stemmed qs a \<Longrightarrow> stemmed qs (Seq a b)"
  unfolding stemmed_def matches_iffs by blast

lemma stemmed_Seqs: "stemmed qs a \<Longrightarrow> stemmed qs (Seqs (a # rs))"
  unfolding stemmed_def matches_Seqs_Cons by blast

lemma stemmed_Bound: "stemmed qs a \<Longrightarrow> stemmed qs (Seqs (Bound # a # rs))"
  unfolding stemmed_def matches_Seqs_Cons matches_iffs by blast

lemma stemmed_lits: "stemmed qs a \<Longrightarrow> stemmed qs (lits (a # b # rs))"
  by (simp add: lits_def stemmed_Seqs stemmed_Seq)

lemma stemmed_Alts: "(\<And>r. r \<in> set rs \<Longrightarrow> stemmed qs r) \<Longrightarrow> stemmed qs (Alts rs)"
  unfolding stemmed_def matches_Alts by blast

lemma stemmed_change: "stemmed {Lit [1087, 1088, 1086, 1076, 1091, 1082, 1090, 1086, 1074]} PRODUCT_CHANGE_RE"
  by (simp add: PRODUCT_CHANGE_RE_def stemmed_lits stemmed_Seq stemmed_self)

lemma stemmed_advice:
  assumes "PRODUCT_CHANGE_RE \<in> qs" "\<And>p. p \<in> set ADVICE_STEMS \<Longrightarrow> Lit p \<in> qs"
  shows "stemmed qs (PRODUCT_ADVICE_RE wd)"
proof -
  have lit: "stemmed qs (Lit p)" if "p \<in> set ADVICE_STEMS" for p using that assms(2) stemmed_self by blast
  show ?thesis
    unfolding PRODUCT_ADVICE_RE_def
    by (rule stemmed_Alts, simp only: set_simps insert_iff empty_iff simp_thms, elim disjE)
       (simp_all only: stemmed_self [OF assms(1)] lit stemmed_Seq stemmed_Seqs stemmed_Bound stemmed_lits
         ADVICE_STEMS_def set_simps insert_iff simp_thms)
qed

lemma advice_cases:
  assumes "matches wd s (PRODUCT_ADVICE_RE wd) i j"
  shows "(\<exists>k. matches wd s PRODUCT_CHANGE_RE i k) \<or> (\<exists>p \<in> set ADVICE_STEMS. \<exists>k. matches wd s (Lit p) i k)"
proof -
  have "stemmed (insert PRODUCT_CHANGE_RE (Lit ` set ADVICE_STEMS)) (PRODUCT_ADVICE_RE wd)"
    by (rule stemmed_advice) simp_all
  then obtain q k where "q \<in> insert PRODUCT_CHANGE_RE (Lit ` set ADVICE_STEMS)" "matches wd s q i k"
    using stemmedD [OF _ assms] by blast
  then show ?thesis by (elim insertE imageE) auto
qed

lemma product_advice_starts:
  assumes "matches wd s (PRODUCT_ADVICE_RE wd) i j"
  obtains p k where "p \<in> set ([1087, 1088, 1086, 1076, 1091, 1082, 1090, 1086,
       1074] # ADVICE_STEMS)" "matches wd s (Lit p) i k"
proof -
  have "\<exists>k'. matches wd s (Lit [1087, 1088, 1086, 1076, 1091, 1082, 1090, 1086,
       1074]) i k'" if "matches wd s PRODUCT_CHANGE_RE i k" for k
    using stemmedD [OF stemmed_change that] by simp
  then show ?thesis using advice_cases [OF assms] that by (metis list.set_intros)
qed

text \<open>The alternative of product changes also needs one of four words behind its stem.\<close>

definition CHANGE_TAILS :: "pystr list" where
  "CHANGE_TAILS = [[1080, 1079, 1084, 1077, 1085, 1077, 1085, 1080, 1077], [1088, 1077, 1096, 1077, 1085,
       1080, 1077], [1091, 1083, 1091, 1095, 1096, 1077, 1085, 1080, 1077], [1076, 1086, 1088, 1072, 1073,
       1086, 1090, 1082]]"

lemma change_tail:
  assumes "matches wd s PRODUCT_CHANGE_RE i j" "i \<le> length s"
  shows "\<exists>p \<in> set CHANGE_TAILS. \<exists>k l. k \<le> length s \<and> matches wd s (Lit p) k l"
proof -
  obtain a b where m: "matches wd s (Seq (Lit [1087, 1088, 1086, 1076, 1091, 1082, 1090, 1086,
       1074]) (Alts [Lit [1086, 1077], Lit [1072, 1103], Lit [1099, 1077], Lit [1099, 1093]])) i a"
      "matches wd s Spaces1 a b" "matches wd s (Alts (map Lit CHANGE_TAILS)) b j"
    using assms(1) by (auto simp: PRODUCT_CHANGE_RE_def lits_def matches_iffs(3) CHANGE_TAILS_def)
  have "b \<le> length s" using matches_range [OF m(1) assms(2)] matches_range [OF m(2)] by simp
  then show ?thesis using m(3) by (auto simp: matches_Alts)
qed

text \<open>A text without the rare characters that fold to a letter matches a literal by its lower case.\<close>

definition no_rare :: "pystr \<Rightarrow> bool" where
  "no_rare s \<longleftrightarrow> list_all (\<lambda>c. c \<notin> set (map snd FOLDED)) s"

lemma no_rareD: "no_rare s \<Longrightarrow> c \<in> set s \<Longrightarrow> same_ic p c \<longleftrightarrow> fold_char c = p"
  by (force simp: no_rare_def same_ic_def list_all_iff)

lemma Lit_folded:
  "no_rare s \<Longrightarrow> matches wd s (Lit p) i k \<Longrightarrow> i \<le> length s \<Longrightarrow> prefix p (drop i (map fold_char s))"
proof (induction p arbitrary: i)
  case (Cons c p)
  then have "i < length s" "fold_char (s ! i) = c" "prefix p (drop (Suc i) (map fold_char s))"
    using no_rareD [OF Cons.prems(1), of "s ! i"] by (simp_all add: matches_Lit_Cons)
  then show ?case by (simp add: Cons_nth_drop_Suc [symmetric])
qed simp

text \<open>A stem or tail at some place of a folded text, looked up by its first character.\<close>

definition stems_at :: "nat \<Rightarrow> pystr list" where
  "stems_at c = filter (\<lambda>p. hd p = c) (ADVICE_STEMS @ CHANGE_TAILS)"

fun has_stem :: "pystr \<Rightarrow> bool" where
  "has_stem [] = False"
| "has_stem (c # cs) = (list_ex (\<lambda>p. prefix p (c # cs)) (stems_at c) \<or> has_stem cs)"

lemma has_stem_sublist: "p \<in> set (ADVICE_STEMS @ CHANGE_TAILS) \<Longrightarrow> p \<noteq> [] \<Longrightarrow> sublist p s \<Longrightarrow> has_stem s"
proof (induction s)
  case (Cons c cs)
  then show ?case by (cases p) (auto simp: sublist_Cons_right stems_at_def list_ex_iff intro: bexI [of _ p])
qed simp

lemma stems_nonempty: "list_all (\<lambda>p. p \<noteq> []) (ADVICE_STEMS @ CHANGE_TAILS)"
  by (simp add: ADVICE_STEMS_def CHANGE_TAILS_def)

lemma no_product_advice:
  assumes "no_rare s" "\<not> has_stem (map fold_char s)"
  shows "\<not> product_advice wd s"
proof
  assume "product_advice wd s"
  then obtain i j where i: "i \<le> length s" "matches wd s (PRODUCT_ADVICE_RE wd) i j"
    by (auto simp: product_advice_def found_iff)
  obtain p k l where p: "p \<in> set (ADVICE_STEMS @ CHANGE_TAILS)" "k \<le> length s" "matches wd s (Lit p) k l"
    using advice_cases [OF i(2)] change_tail i(1) unfolding set_append by blast
  obtain q where "drop k (map fold_char s) = p @ q" using Lit_folded [OF assms(1) p(3,2)] by (auto simp: prefix_def)
  then have "map fold_char s = take k (map fold_char s) @ p @ q" by (metis append_take_drop_id)
  then have "sublist p (map fold_char s)" unfolding sublist_def by blast
  moreover have "p \<noteq> []" using p(1) stems_nonempty unfolding list_all_iff by blast
  ultimately show False using assms(2) has_stem_sublist [OF p(1)] by simp
qed

lemma texts_clean:
  "\<not> product_advice wd PLAIN_LINE" "\<not> product_advice wd SUMMARY_FALLBACK" "\<not> product_advice wd STEP_FALLBACK"
  "\<not> product_advice wd []"
  by (rule no_product_advice, code_simp, code_simp)+

lemma plain_line_clean: "\<not> product_advice wd (pr_sanitize_plain_line wd s)"
  by (auto simp: pr_sanitize_plain_line_def Let_def texts_clean)

section \<open>The summary\<close>

text \<open>What is known of the word characters: white space and the ends of sentences are none.\<close>

definition word_class :: "(nat \<Rightarrow> bool) \<Rightarrow> bool" where
  "word_class wd \<longleftrightarrow> (\<forall>c. is_space c \<or> sentence_end c \<longrightarrow> \<not> wd c)"

definition in_sentence :: "re \<Rightarrow> bool" where
  "in_sentence r = classes_in (\<lambda>c. \<not> sentence_end c) r"

lemma in_sentence_Lit: "list_all (\<lambda>p. \<not> sentence_end p) s \<Longrightarrow> in_sentence (Lit s)"
  by (auto simp: in_sentence_def Lit_def list_all_iff same_ic_def sentence_end_def fold_char_def lower_char_def FOLDED_def)

lemma in_sentence_rules:
  "in_sentence Spaces" "in_sentence Spaces1" "in_sentence (Chr is_space)" "in_sentence Eps" "in_sentence Bound"
  "in_sentence (Seq a b) = (in_sentence a \<and> in_sentence b)" "in_sentence (Alt a b) = (in_sentence a \<and> in_sentence b)"
  "in_sentence (Star a) = in_sentence a" "in_sentence (Opt a) = in_sentence a"
  "in_sentence (Seqs rs) = (\<forall>r \<in> set rs. in_sentence r)" "in_sentence (Alts rs) = (\<forall>r \<in> set rs. in_sentence r)"
  by (auto simp: in_sentence_def Spaces_def Spaces1_def Plus_def Opt_def is_space_def sentence_end_def)

lemma in_sentence_lits: "\<forall>r \<in> set rs. in_sentence r \<Longrightarrow> rs \<noteq> [] \<Longrightarrow> in_sentence (lits rs)"
  by (auto simp: lits_def in_sentence_rules dest: in_set_butlastD)

lemma advice_in_sentence:
  assumes "word_class wd"
  shows "in_sentence (PRODUCT_ADVICE_RE wd)"
proof -
  have w: "in_sentence (Chr wd)" using assms by (auto simp: word_class_def in_sentence_def)
  show ?thesis
    unfolding PRODUCT_ADVICE_RE_def PRODUCT_CHANGE_RE_def APP_FORM_def APP_def INTO_def
    by (simp add: in_sentence_rules in_sentence_lits w in_sentence_Lit sentence_end_def u_def)
qed

lemma fold_space: "is_space x \<Longrightarrow> fold_char x = x"
  by (auto simp: is_space_def fold_char_def lower_char_def)

lemma rare_no_space: "list_all (\<lambda>x. \<not> is_space x) (map snd FOLDED)"
  by code_simp

lemma advice_start:
  assumes "matches wd s (PRODUCT_ADVICE_RE wd) i j"
  shows "i < length s \<and> \<not> is_space (s ! i)"
proof -
  let ?ps = "[1087, 1088, 1086, 1076, 1091, 1082, 1090, 1086, 1074] # ADVICE_STEMS"
  obtain p k where p: "p \<in> set ?ps" "matches wd s (Lit p) i k" by (rule product_advice_starts [OF assms])
  have "list_all (\<lambda>p. p \<noteq> [] \<and> \<not> is_space (hd p)) ?ps" by code_simp
  then have "p \<noteq> [] \<and> \<not> is_space (hd p)" using p(1) unfolding list_all_iff by blast
  then obtain c q where q: "p = c # q" "\<not> is_space c" by (cases p) auto
  have "i < length s" "same_ic c (s ! i)" using p(2) by (simp_all add: q(1) matches_Lit_Cons)
  moreover have "is_space x \<Longrightarrow> same_ic c x \<Longrightarrow> is_space c" for x
    using fold_space [of x] rare_no_space by (auto simp: same_ic_def list_all_iff)
  ultimately show ?thesis using q(2) by blast
qed

definition ends_sentence :: "pystr \<Rightarrow> bool" where
  "ends_sentence s \<longleftrightarrow> s \<noteq> [] \<and> sentence_end (last s)"

text \<open>Clean sentences, joined by a space, are clean: advice lies within one sentence.\<close>

lemma join_clean:
  assumes w: "word_class wd"
  shows "list_all (\<lambda>c. \<not> product_advice wd c) cs \<Longrightarrow> list_all ends_sentence (butlast cs) \<Longrightarrow> \<not> product_advice wd (join [32] cs)"
proof (induction "[32] :: pystr" cs rule: join.induct)
  case 1
  show ?case by (simp, rule no_product_advice; code_simp)
next
  case (3 x y ys)
  let ?r = "PRODUCT_ADVICE_RE wd"
  let ?rest = "join [32] (y # ys)"
  let ?s = "x @ 32 # ?rest"
  have x: "ends_sentence x" "\<not> product_advice wd x" and rest: "\<not> product_advice wd ?rest" using 3 by auto
  note clean_re = advice_in_sentence [OF w, unfolded in_sentence_def]
  have nw: "\<not> wd 32" "\<not> wd (last x)" using w x(1) by (auto simp: word_class_def is_space_def ends_sentence_def)
  show ?case
  proof
    assume "product_advice wd (join [32] (x # y # ys))"
    then obtain i j where m: "matches wd ?s ?r i j" "i \<le> length ?s" by (auto simp: product_advice_def found_iff)
    have i: "i < length ?s" "\<not> is_space (?s ! i)" using advice_start [OF m(1)] by auto
    have no_end: "\<not> sentence_end (?s ! k)" if "i \<le> k" "k < j" for k
      using matches_within [OF m(1) clean_re m(2) that] .
    have j: "j \<le> length ?s" using matches_range [OF m] by simp
    have not_at: "i \<noteq> length x" using i(2) by (auto simp: is_space_def)
    show False
    proof (cases "i < length x")
      case True
      have lx: "?s ! (length x - 1) = last x" using x(1) by (simp add: nth_append last_conv_nth ends_sentence_def)
      have "sentence_end (?s ! (length x - 1))" using lx x(1) by (simp add: ends_sentence_def)
      moreover have "i \<le> length x - 1" using True by simp
      ultimately have "\<not> length x - 1 < j" using no_end by blast
      then have "j \<le> length x" by simp
      then have "matches wd x ?r (i - length ([] :: pystr)) (j - length ([] :: pystr))"
        by (intro matches_part [where b = "32 # ?rest", OF _ m(1) _ clean_re _ m(2)]) (simp_all add: set_off_def nw)
      then have "product_advice wd x" unfolding product_advice_def found_iff using True by (auto intro: less_imp_le)
      then show False using x(2) by contradiction
    next
      case False
      then have "length (x @ [32]) \<le> i" using not_at by simp
      then have part: "matches wd ?rest ?r (i - length (x @ [32])) (j - length (x @ [32]))"
        using j by (intro matches_part [where b = "[]", OF _ m(1) _ clean_re _ m(2)]) (simp_all add: set_off_def nw)
      have "i - length (x @ [32]) \<le> length ?rest" using i(1) by simp
      then have "product_advice wd ?rest" unfolding product_advice_def found_iff using part by blast
      then show False using rest by contradiction
    qed
  qed
qed simp

lemma butlast_filter: "x \<in> set (butlast (filter P xs)) \<Longrightarrow> x \<in> set (butlast xs) \<and> P x"
proof (induction xs)
  case (Cons a xs)
  then show ?case by (cases "filter P xs = []"; cases "xs = []") (auto split: if_splits)
qed simp

lemma sentences_end: "list_all ends_sentence (butlast (clean_sentences wd s))"
  unfolding list_all_iff
proof
  fix x
  assume "x \<in> set (butlast (clean_sentences wd s))"
  then have x: "x \<in> set (butlast (pieces_from (strip s) 0 (finditer_from wd AFTER_SENTENCE (strip s) 0)))" "x \<noteq> []"
    by (auto simp: clean_sentences_def re_split_def finditer_def dest: butlast_filter)
  let ?ms = "finditer_from wd AFTER_SENTENCE (strip s) 0"
  have ms: "fst m \<le> length (strip s) \<and> matches wd (strip s) AFTER_SENTENCE (fst m) (snd m)" if "m \<in> set ?ms" for m
    using finditer_from_matches [of "fst m" "snd m"] that by simp
  then obtain m where m: "m \<in> set ?ms" "last x = strip s ! (fst m - 1)" using pieces_from_end [OF x] by blast
  then have "sentence_end (strip s ! (fst m - 1))" using ms by (auto simp: AFTER_SENTENCE_def matches_iffs)
  then show "ends_sentence x" using x(2) m(2) by (simp add: ends_sentence_def)
qed

lemma strip_clean:
  assumes w: "word_class wd" and s: "\<not> product_advice wd s"
  shows "\<not> product_advice wd (strip s)"
proof
  assume "product_advice wd (strip s)"
  then obtain i j where m: "i \<le> length (strip s)" "matches wd (strip s) (PRODUCT_ADVICE_RE wd) i j"
    by (auto simp: product_advice_def found_iff)
  obtain a k where k: "a + k \<le> length s" "strip s = Prelude.slice s a (a + k)"
    "\<forall>i < length s. \<not> is_space (s ! i) \<longrightarrow> a \<le> i \<and> i < a + k"
    using strip_span by blast
  let ?pre = "take a s" and ?post = "drop (a + k) s"
  have "take k (drop a s) @ ?post = drop a s" using append_take_drop_id [of k "drop a s"] by (simp add: add.commute)
  then have "?pre @ take k (drop a s) @ ?post = s" by (simp only: append_take_drop_id)
  then have s_eq: "?pre @ strip s @ ?post = s" unfolding k(2) Prelude.slice_def diff_add_inverse .
  have "last ?pre = s ! (a - 1) \<and> is_space (s ! (a - 1))" if "?pre \<noteq> []"
    using that k(1) k(3) [rule_format, of "a - 1"] by (cases a) (auto simp: last_conv_nth)
  moreover have "hd ?post = s ! (a + k) \<and> is_space (s ! (a + k))" if "?post \<noteq> []"
    using that k(3) [rule_format, of "a + k"] by (auto simp: hd_drop_conv_nth)
  ultimately have "set_off wd ?pre ?post" using w unfolding set_off_def word_class_def by metis
  then have "matches wd (?pre @ strip s @ ?post) (PRODUCT_ADVICE_RE wd) (length ?pre + i) (length ?pre + j)"
    by (rule matches_part_of [OF _ m(2) advice_in_sentence [OF w, unfolded in_sentence_def] m(1)])
  then have "matches wd s (PRODUCT_ADVICE_RE wd) (length ?pre + i) (length ?pre + j)" using s_eq by simp
  moreover have "length ?pre + i \<le> length s" using m(1) k(1,2) by simp
  ultimately have "product_advice wd s" unfolding product_advice_def found_iff by blast
  then show False using s by contradiction
qed

lemma blank_clean: "strip s = [] \<Longrightarrow> \<not> product_advice wd s"
  using advice_start by (fastforce simp: product_advice_def found_iff strip_eq_Nil_iff)

text \<open>
  C29. The executive summary that is stored contains no product advice, whatever the model wrote: the
  sentences that do are dropped, what is left cannot form advice across their ends, and a summary that
  gets too short is replaced.
\<close>

theorem summary_has_no_advice:
  assumes "word_class wd"
  shows "\<not> product_advice wd (pr_sanitize_executive_summary wd s)"
proof -
  have "list_all (\<lambda>c. \<not> product_advice wd c) (clean_sentences wd s)" by (simp add: clean_sentences_def list_all_iff)
  then have "\<not> product_advice wd (strip (join [32] (clean_sentences wd s)))"
    by (intro strip_clean join_clean assms sentences_end)
  then show ?thesis using blank_clean texts_clean(2) by (auto simp: pr_sanitize_executive_summary_def Let_def)
qed

definition ascii_word :: "nat \<Rightarrow> bool" where
  "ascii_word c \<longleftrightarrow> 48 \<le> c \<and> c \<le> 57 \<or> 65 \<le> c \<and> c \<le> 90 \<or> c = 95 \<or> 97 \<le> c \<and> c \<le> 122"

lemma word_class_ascii: "word_class ascii_word"
  by (auto simp: word_class_def ascii_word_def is_space_def sentence_end_def)

theorem summary_has_no_advice_witness:
  "\<not> product_advice ascii_word (pr_sanitize_executive_summary ascii_word (u ''Trust fell. Fix onboarding!''))"
  by (rule summary_has_no_advice [OF word_class_ascii])

end
