(* ===== verification/Report_Content.thy ===== *)
theory Report_Content
  imports Report_Language Report_Task Strategy
begin

text \<open>
  The text of a report (\<^verbatim>\<open>research_report_generation_service.py\<close>): the payload of the prompt and its
  limit, the check of an answer of the model, and what is stored of it after the filter for product
  advice.
\<close>

section \<open>Lists of the answer\<close>

definition as_list :: "json \<Rightarrow> json list" where
  "as_list v = (case v of JArr xs \<Rightarrow> xs | JObj m \<Rightarrow> [JObj m] | _ \<Rightarrow> [])"

fun stripped_string :: "json \<Rightarrow> pystr" where
  "stripped_string (JStr s) = strip s"
| "stripped_string _ = []"

definition words :: "pystr \<Rightarrow> pystr list" where
  "words s = runs (\<lambda>c. \<not> is_space c) s"

text \<open>\<^verbatim>\<open>rstrip(",;:")\<close> of the first twenty words.\<close>

definition short_line :: "pystr \<Rightarrow> pystr" where
  "short_line s = (let ws = words s in
     if 20 < length ws then rev (dropWhile (\<lambda>c. c = 44 \<or> c = 59 \<or> c = 58) (rev (join [32] (take 20 ws)))) else s)"

definition normalize_talking_points :: "json \<Rightarrow> pystr list" where
  "normalize_talking_points raw =
     take 14 (map short_line (filter (\<lambda>s. s \<noteq> []) (map stripped_string (as_list raw))))"

definition normalize_short_string_list :: "json \<Rightarrow> nat \<Rightarrow> pystr list" where
  "normalize_short_string_list raw n =
     take n (map (take 500) (filter (\<lambda>s. s \<noteq> []) (map stripped_string (as_list raw))))"

text \<open>\<^verbatim>\<open>str(a or b or ... or "").strip()\<close>.\<close>

definition first_text :: "dash \<Rightarrow> items \<Rightarrow> string list \<Rightarrow> pystr" where
  "first_text da m ks = (case List.find json_true (map (\<lambda>k. item m (u k)) ks) of
     None \<Rightarrow> [] | Some v \<Rightarrow> strip (str_of da v))"

definition bullet_text :: "dash \<Rightarrow> json \<Rightarrow> pystr" where
  "bullet_text da it = (case it of JStr s \<Rightarrow> strip s
     | JObj m \<Rightarrow> first_text da m [''text'', ''statement'', ''risk''] | _ \<Rightarrow> [])"

definition normalize_pr_bullet_list :: "dash \<Rightarrow> json \<Rightarrow> pystr list" where
  "normalize_pr_bullet_list da raw =
     take 14 (map (take 800) (filter (\<lambda>s. s \<noteq> []) (map (bullet_text da) (as_list raw))))"

fun object_or_empty :: "json \<Rightarrow> json" where
  "object_or_empty (JObj m) = JObj m"
| "object_or_empty _ = JObj []"

definition merge_text :: "items \<Rightarrow> pystr \<Rightarrow> items \<Rightarrow> items" where
  "merge_text l k m = (let s = stripped_string (item l k) in if s = [] then m else put_item m k (JStr s))"

definition merge_object :: "items \<Rightarrow> pystr \<Rightarrow> items \<Rightarrow> items" where
  "merge_object l k m = (case item l k of JObj (kv # kvs) \<Rightarrow> put_item m k (JObj (kv # kvs)) | _ \<Rightarrow> m)"

definition merge_word_analysis :: "dash \<Rightarrow> items \<Rightarrow> json \<Rightarrow> items" where
  "merge_word_analysis da b llm =
     (let base = [(u ''word_frequency'', object_or_empty (item b (u ''word_frequency''))),
          (u ''themed_buckets'', object_or_empty (item b (u ''themed_buckets''))),
          (u ''pr_interpretation'', JStr (text_item da b ''pr_interpretation'')),
          (u ''dominant_lexicon_pr_perception'', JStr (text_item da b ''dominant_lexicon_pr_perception'')),
          (u ''risk_signal_strength'', json_or (item b (u ''risk_signal_strength'')) (JStr (u ''medium''))),
          (u ''trust_vs_risk_balance'', json_or (item b (u ''trust_vs_risk_balance'')) (JStr (u ''mixed'')))] in
      case llm of
        JObj l \<Rightarrow> merge_object l (u ''themed_buckets'') (merge_object l (u ''word_frequency'')
          (fold (merge_text l) (map u [''pr_interpretation'', ''dominant_lexicon_pr_perception'', ''risk_signal_strength'',
             ''trust_vs_risk_balance'']) base))
      | _ \<Rightarrow> base)"

definition normalize_external_article_row :: "dash \<Rightarrow> json \<Rightarrow> items list" where
  "normalize_external_article_row da row = (case row of
     JObj m \<Rightarrow>
       (let title = text_item da m ''title''; url = text_item da m ''url'' in
        if title = [] \<or> url = [] then []
        else [[(u ''title'', JStr title), (u ''url'', JStr url), (u ''summary'', JStr (text_item da m ''summary'')),
          (u ''why_relevant_for_pr'', JStr (first_text da m [''why_relevant_for_pr'', ''relevance'']))]])
   | _ \<Rightarrow> [])"

definition normalize_external_articles_list :: "dash \<Rightarrow> json \<Rightarrow> json list \<Rightarrow> items list" where
  "normalize_external_articles_list da raw fallback =
     (let merged = concat (map (normalize_external_article_row da) (as_list raw))
      in if merged \<noteq> [] then merged else concat (map (normalize_external_article_row da) fallback))"

section \<open>Items of the answer\<close>

definition merge_grounded_in :: "dash \<Rightarrow> items \<Rightarrow> pystr list" where
  "merge_grounded_in da m =
     (let xs = nonempty_texts da (list_items (item m (u ''grounded_in'')))
      in if xs \<noteq> [] then xs else nonempty_texts da (list_items (item m (u ''evidence_unit_ids''))))"

definition DISPLAY_FIELDS :: "(pystr \<times> pystr) list" where
  "DISPLAY_FIELDS = [
     (u ''comms_signal'', [1057, 1080, 1075, 1085, 1072, 1083, 32, 1076, 1083, 1103, 32, 80, 82]),
       (u ''pr_relevance'', [1047, 1085, 1072, 1095, 1080, 1084, 1086, 1089, 1090, 1100, 32, 1076, 1083,
       1103, 32, 80, 82]),
     (u ''reputation_gap'', [1056, 1077, 1087, 1091, 1090, 1072, 1094, 1080, 1086, 1085, 1085, 1099, 1081,
       32, 1088, 1072, 1079, 1088, 1099, 1074, 32, 1080, 1083, 1080, 32, 1082, 1086, 1084, 1084, 1091,
       1085, 1080, 1082, 1072, 1094, 1080, 1086, 1085, 1085, 1099, 1081, 32, 1079, 1072, 1079, 1086, 1088]),
     (u ''pr_action'', [1054, 1090, 1074, 1077, 1090, 32, 80, 82, 45, 1082, 1086, 1084, 1072, 1085, 1076,
       1099]), (u ''comms_follow_up'', [1057, 1083, 1077, 1076, 1091, 1102, 1097, 1080, 1081, 32, 1096,
       1072, 1075, 32, 1074, 32, 1082, 1086, 1084, 1084, 1091, 1085, 1080, 1082, 1072, 1094, 1080, 1103,
       1093]),
     (u ''insight_fact'', [1063, 1090, 1086, 32, 1087, 1088, 1086, 1080, 1089, 1093, 1086, 1076, 1080,
       1090, 32, 40, 1080, 1085, 1089, 1072, 1081, 1090, 41]), (u ''pr_risk_why'', [1055, 1086, 1095, 1077,
       1084, 1091, 32, 1101, 1090, 1086, 32, 1088, 1080, 1089, 1082, 32, 1076, 1083, 1103, 32, 80, 82]),
     (u ''message_what_to_say'', [1063, 1090, 1086, 32, 1075, 1086, 1074, 1086, 1088, 1080, 1090, 1100]),
       (u ''channel_where'', [1043, 1076, 1077, 32, 1075, 1086, 1074, 1086, 1088, 1080, 1090, 1100]),
     (u ''tone_format_how'', [1050, 1072, 1082, 32, 1075, 1086, 1074, 1086, 1088, 1080, 1090, 1100, 32, 40,
       1090, 1086, 1085, 32, 1080, 32, 1092, 1086, 1088, 1084, 1072, 1090, 41]), (u ''finding'', []),
       (u ''explanation'', []),
     (u ''causal_chain'', [1062, 1077, 1087, 1086, 1095, 1082, 1072]), (u ''impact'', []),
       (u ''recommendation'', []), (u ''forecast'', [1055, 1088, 1086, 1075, 1085, 1086, 1079])]"

definition display_part :: "items \<Rightarrow> pystr \<times> pystr \<Rightarrow> pystr list" where
  "display_part m kl = (let s = stripped_string (item m (fst kl)) in
     if s = [] then [] else if snd kl = [] then [s] else [snd kl @ u '': '' @ s])"

definition compose_display_text :: "items \<Rightarrow> pystr" where
  "compose_display_text m = strip (join [10, 10] (concat (map (display_part m) DISPLAY_FIELDS)))"

definition plain_text_item :: "pystr \<Rightarrow> items" where
  "plain_text_item s = [(u ''text'', JStr s), (u ''grounded_in'', JArr [])]"

definition normalize_analytical_item :: "dash \<Rightarrow> json \<Rightarrow> items" where
  "normalize_analytical_item da raw = (case raw of
     JStr s \<Rightarrow> plain_text_item (strip s)
   | JObj m0 \<Rightarrow>
       (let m = put_item m0 (u ''grounded_in'') (JArr (map JStr (merge_grounded_in da m0)));
            given = stripped_string (item m (u ''text''));
            composed = compose_display_text m
        in put_item m (u ''text'') (JStr (if length given < 120 \<and> composed \<noteq> [] then composed else given)))
   | v \<Rightarrow> plain_text_item (da_str da v))"

definition normalize_next_step :: "dash \<Rightarrow> json \<Rightarrow> items" where
  "normalize_next_step da raw = (case raw of
     JStr s \<Rightarrow> (if strip s = [] then [] else [(u ''text'', JStr (strip s))])
   | JObj m \<Rightarrow>
       (let t = first_text da m [''text'', ''step'']; r = first_text da m [''rationale'', ''why''] in
        if t = [] then []
        else if r \<noteq> [] then [(u ''text'', JStr (t @ [10, 10] @ [1047, 1072, 1095, 1077, 1084, 58,
       32] @ r)), (u ''rationale'', JStr r)]
        else [(u ''text'', JStr t)])
   | _ \<Rightarrow> [])"

definition ANALYTICAL_SECTION_KEYS :: "pystr list" where
  "ANALYTICAL_SECTION_KEYS =
     map u [''key_findings'', ''problems'', ''patterns'', ''risks'', ''hypotheses'', ''recommendations'', ''forecast'']"

text \<open>\<^verbatim>\<open>_normalize_section_list\<close>, for the next steps and for the analytical sections.\<close>

definition next_step_list :: "dash \<Rightarrow> json \<Rightarrow> json list" where
  "next_step_list da raw = map JObj (filter (\<lambda>m. m \<noteq> []) (map (normalize_next_step da) (as_list raw)))"

definition section_list :: "dash \<Rightarrow> json \<Rightarrow> json list" where
  "section_list da raw = map (JObj \<circ> normalize_analytical_item da) (filter json_true (as_list raw))"

section \<open>What is stored\<close>

record report_content =
  rc_title :: pystr
  rc_description :: "pystr option"
  rc_summary :: pystr
  rc_sections :: "(pystr \<times> json list) list"
  rc_next_steps :: "json list"
  rc_articles :: "items list"
  rc_quotes :: "json list"
  rc_talking_points :: "pystr list"
  rc_reputational_risks :: "pystr list"
  rc_communication_gaps :: "pystr list"
  rc_next_steps_pr :: "pystr list"
  rc_infopovody :: "pystr list"
  rc_open_questions :: "pystr list"
  rc_word_analysis :: items

text \<open>The answer \<open>d\<close>, before the filter; \<open>wb\<close> is the word block of the input.\<close>

definition read_answer :: "dash \<Rightarrow> pystr \<Rightarrow> json list \<Rightarrow> items \<Rightarrow> items \<Rightarrow> report_content" where
  "read_answer da name drafts wb d =
     (let get = (\<lambda>k. item d (u k)); desc = text_item da d ''description'' in
      \<lparr>rc_title = take 2000 (let v = get ''title'' in if json_true v then str_of da v else name),
       rc_description = (if desc = [] then None else Some desc),
       rc_summary = text_item da d ''executive_summary'',
       rc_sections = map (\<lambda>k. (k, section_list da (item d k))) ANALYTICAL_SECTION_KEYS,
       rc_next_steps = next_step_list da (get ''next_steps''),
       rc_articles = normalize_external_articles_list da (get ''external_articles'') drafts,
       rc_quotes = as_list (get ''supporting_quotes''),
       rc_talking_points = normalize_talking_points (get ''talking_points''),
       rc_reputational_risks = normalize_pr_bullet_list da (get ''reputational_risks''),
       rc_communication_gaps = normalize_pr_bullet_list da (get ''communication_gaps''),
       rc_next_steps_pr = normalize_pr_bullet_list da (get ''next_steps_pr''),
       rc_infopovody = normalize_short_string_list (get ''infopovody'') 10,
       rc_open_questions = normalize_short_string_list (get ''open_questions'') 12,
       rc_word_analysis = merge_word_analysis da wb (get ''word_analysis'')\<rparr>)"

definition item_is_meaningful :: "dash \<Rightarrow> items \<Rightarrow> bool" where
  "item_is_meaningful da m \<longleftrightarrow> 40 \<le> length (text_item da m ''text'') \<or> 40 \<le> length (text_item da m ''finding'')"

definition rebuild_item_display_text :: "items \<Rightarrow> items" where
  "rebuild_item_display_text m = put_item m (u ''text'') (JStr (compose_display_text m))"

definition postprocess_item :: "env \<Rightarrow> dash \<Rightarrow> json \<Rightarrow> json list" where
  "postprocess_item env da it = (case it of
     JObj m \<Rightarrow> (let r = rebuild_item_display_text (pr_sanitize_analytical_item env da m)
       in if item_is_meaningful da r then [JObj r] else [])
   | v \<Rightarrow> [v])"

definition postprocess_step :: "dash \<Rightarrow> json \<Rightarrow> json" where
  "postprocess_step da it = (case it of JObj m \<Rightarrow> JObj (pr_sanitize_next_step_item da m) | v \<Rightarrow> v)"

definition sanitize_lines :: "dash \<Rightarrow> pystr list \<Rightarrow> pystr list" where
  "sanitize_lines da xs = map (pr_sanitize_plain_line (da_word da)) (filter (\<lambda>x. strip x \<noteq> []) xs)"

definition sanitize_words :: "dash \<Rightarrow> items \<Rightarrow> items" where
  "sanitize_words da m = (case item m (u ''dominant_lexicon_pr_perception'') of
     JStr s \<Rightarrow> if strip s = [] then m
       else put_item m (u ''dominant_lexicon_pr_perception'') (JStr (pr_sanitize_plain_line (da_word da) s))
   | _ \<Rightarrow> m)"

definition apply_pr_postprocess :: "env \<Rightarrow> dash \<Rightarrow> report_content \<Rightarrow> report_content" where
  "apply_pr_postprocess env da c = c\<lparr>
     rc_summary := pr_sanitize_executive_summary (da_word da) (rc_summary c),
     rc_sections := map (\<lambda>(k, xs). (k, concat (map (postprocess_item env da) xs))) (rc_sections c),
     rc_next_steps := map (postprocess_step da) (filter json_true (rc_next_steps c)),
     rc_talking_points := sanitize_lines da (rc_talking_points c),
     rc_infopovody := sanitize_lines da (rc_infopovody c),
     rc_open_questions := sanitize_lines da (rc_open_questions c),
     rc_reputational_risks := sanitize_lines da (rc_reputational_risks c),
     rc_communication_gaps := sanitize_lines da (rc_communication_gaps c),
     rc_next_steps_pr := sanitize_lines da (rc_next_steps_pr c),
     rc_word_analysis := sanitize_words da (rc_word_analysis c)\<rparr>"

definition stored_report :: "env \<Rightarrow> dash \<Rightarrow> pystr \<Rightarrow> json list \<Rightarrow> items \<Rightarrow> items \<Rightarrow> report_content" where
  "stored_report env da name drafts wb d = apply_pr_postprocess env da (read_answer da name drafts wb d)"

section \<open>The check of an answer\<close>

definition string_lines :: "json \<Rightarrow> pystr list" where
  "string_lines v = concat (map shown_text (as_list v))"

definition value_lines :: "json \<Rightarrow> pystr list" where
  "value_lines v = concat (map (\<lambda>it. case it of JObj m \<Rightarrow> concat (map (shown_text \<circ> snd) m) | w \<Rightarrow> shown_text w) (as_list v))"

definition field_lines :: "string list \<Rightarrow> json \<Rightarrow> pystr list" where
  "field_lines ks v = concat (map (\<lambda>it. case it of JObj m \<Rightarrow> concat (map (\<lambda>k. shown_text (item m (u k))) ks) | _ \<Rightarrow> []) (as_list v))"

definition collect_strings_for_pr_validation :: "items \<Rightarrow> pystr" where
  "collect_strings_for_pr_validation d =
     (let get = (\<lambda>k. item d (u k)) in
      join [10] (concat (map (shown_text \<circ> get) [''title'', ''description'', ''executive_summary''])
        @ concat (map (\<lambda>k. value_lines (item d k)) ANALYTICAL_SECTION_KEYS)
        @ value_lines (get ''next_steps'')
        @ field_lines [''note''] (get ''supporting_quotes'')
        @ concat (map (string_lines \<circ> get) [''talking_points'', ''infopovody'', ''open_questions'', ''reputational_risks'',
            ''communication_gaps'', ''next_steps_pr''])
        @ (case get ''word_analysis'' of
             JObj m \<Rightarrow> concat (map (\<lambda>k. shown_text (item m (u k))) [''pr_interpretation'', ''dominant_lexicon_pr_perception''])
           | _ \<Rightarrow> [])
        @ field_lines [''relevance'', ''summary'', ''why_relevant_for_pr''] (get ''external_articles'')))"

definition RECOMMENDATION_FIVE_KEYS :: "string list" where
  "RECOMMENDATION_FIVE_KEYS =
     [''insight_fact'', ''pr_risk_why'', ''message_what_to_say'', ''channel_where'', ''tone_format_how'']"

fun recommendation_errors :: "dash \<Rightarrow> json list \<Rightarrow> pystr list" where
  "recommendation_errors da [] = []"
| "recommendation_errors da (JObj m # rs) =
     (case List.find (\<lambda>k. length (text_item da m k) < 10) RECOMMENDATION_FIVE_KEYS of
        None \<Rightarrow> [] | Some k \<Rightarrow> [u ''recommendation_missing_'' @ u k]) @ recommendation_errors da rs"
| "recommendation_errors da (_ # rs) = [u ''recommendation_item_is_not_object'']"

definition error_if :: "bool \<Rightarrow> string \<Rightarrow> pystr list" where
  "error_if b e = (if b then [u e] else [])"

definition report_data_validation_errors :: "dash \<Rightarrow> pystr \<Rightarrow> items \<Rightarrow> pystr list" where
  "report_data_validation_errors da lang d =
     (let wd = da_word da; blob = collect_strings_for_pr_validation d; ru = (lang = u ''ru'');
          kf = as_list (item d (u ''key_findings'')) \<noteq> [];
          tps = normalize_talking_points (item d (u ''talking_points''));
          none = (\<lambda>k. normalize_pr_bullet_list da (item d (u k)) = []) in
      keep_first id [] (
        error_if (product_advice wd blob) ''product_or_ux_language_present''
        @ error_if (ru \<and> found wd FORBIDDEN_ENGLISH_RE (strip_urls_and_uuid_tokens wd blob)) ''english_terms_present_in_russian_report''
        @ recommendation_errors da (as_list (item d (u ''recommendations'')))
        @ error_if (ru \<and> length (text_item da d ''executive_summary'') < 40 \<and> kf) ''executive_summary_too_short''
        @ error_if (ru \<and> list_ex (\<lambda>t. 22 < length (words t)) tps) ''talking_point_too_long''
        @ error_if (ru \<and> kf \<and> length tps < 2) ''not_enough_talking_points''
        @ error_if (ru \<and> kf \<and> none ''reputational_risks'') ''missing_reputational_risks''
        @ error_if (ru \<and> kf \<and> none ''communication_gaps'') ''missing_communication_gaps''
        @ error_if (ru \<and> kf \<and> none ''next_steps_pr'') ''missing_next_steps_pr''))"

definition report_data_fails_pr_validation :: "dash \<Rightarrow> pystr \<Rightarrow> items \<Rightarrow> bool" where
  "report_data_fails_pr_validation da lang d = (report_data_validation_errors da lang d \<noteq> [])"

section \<open>The prompt\<close>

definition select_synthesis_entities :: "extracted_entity list \<Rightarrow> extracted_entity list" where
  "select_synthesis_entities es =
     (let pr = filter (\<lambda>e. en_type e \<in> set PR_SYNTHESIS_ENTITY_TYPES) es
      in if pr \<noteq> [] then pr else take 40 (filter (\<lambda>e. en_type e \<noteq> SUPPORTING_FACT) es))"

definition entity_sort_key :: "extracted_entity \<Rightarrow> nat \<times> rat \<times> pystr" where
  "entity_sort_key e = (if en_type e \<in> set PR_SYNTHESIS_ENTITY_TYPES then 0 else 1,
     - cd_score (en_candidate e), take 200 (en_title e))"

definition select_prompt_entities :: "extracted_entity list \<Rightarrow> extracted_entity list" where
  "select_prompt_entities es = take 60 (sort_key entity_sort_key es)"

definition canonical_entity_index :: "(uuid \<Rightarrow> pystr) \<Rightarrow> extracted_entity list \<Rightarrow> json list" where
  "canonical_entity_index show_id es = map (\<lambda>e. JObj [(u ''id'', JStr (show_id (en_id e))),
     (u ''type'', JStr (entity_type_value (en_type e))), (u ''title'', JStr (take 240 (en_title e)))]) (take 180 es)"

definition type_counts :: "extracted_entity list \<Rightarrow> (pystr \<times> nat) list" where
  "type_counts es = (let vs = map (\<lambda>e. entity_type_value (en_type e)) es in
     sort_key (\<lambda>(k, n). (- int n, k)) (map (\<lambda>k. (k, count_list vs k)) (remdups vs)))"

definition merge_theme_lists :: "env \<Rightarrow> pystr list \<Rightarrow> pystr list \<Rightarrow> pystr list" where
  "merge_theme_lists env primary secondary =
     take 14 (map (take 200) (keep_first (lower env) [] (filter (\<lambda>t. t \<noteq> []) (map strip (primary @ secondary)))))"

text \<open>The titles of the entities of some types, until there are \<open>n\<close>.\<close>

fun add_titles :: "entity_type list \<Rightarrow> nat \<Rightarrow> extracted_entity list \<Rightarrow> pystr list \<Rightarrow> pystr list" where
  "add_titles ts n [] seen = seen"
| "add_titles ts n (e # es) seen =
     (let t = strip (en_title e);
          seen' = (if en_type e \<in> set ts \<and> t \<noteq> [] \<and> t \<notin> set seen then seen @ [t] else seen)
      in if n \<le> length seen' then seen' else add_titles ts n es seen')"

definition infer_search_themes :: "extracted_entity list \<Rightarrow> pystr list" where
  "infer_search_themes es =
     (let seen = add_titles PRIMARY_RESEARCH_ENTITY_TYPES 10 es
            (add_titles [PROBLEM, PAIN_POINT, USER_NEED, TRUST_ISSUE, ADOPTION_BARRIER, RISK, HYPOTHESIS] 8 es [])
      in if seen \<noteq> [] then seen else [[1055, 1086, 1083, 1100, 1079, 1086, 1074, 1072, 1090, 1077,
       1083, 1100, 1089, 1082, 1086, 1077, 32, 1080, 1089, 1089, 1083, 1077, 1076, 1086, 1074, 1072, 1085,
       1080, 1077]])"

definition trim_json_value :: "(json \<Rightarrow> pystr) \<Rightarrow> items \<Rightarrow> nat \<Rightarrow> items" where
  "trim_json_value dumps payload n =
     (let raw = dumps (JObj payload) in
      if length raw \<le> n then payload
      else [(u ''_truncated'', JBool True), (u ''aggregation_keys'', JArr (map JStr (take 40 (map fst payload)))),
        (u ''aggregation_excerpt'', JStr (take n raw))])"

definition compact_aggregation_snapshot :: "items \<Rightarrow> items" where
  "compact_aggregation_snapshot m =
     concat (map (\<lambda>k. case item m k of JObj v \<Rightarrow> [(k, JObj v)] | _ \<Rightarrow> [])
         (map u [''totals'', ''entity_type_distribution'', ''confidence_distribution'']))
     @ (case item m (u ''top_recurring_insights'') of JArr xs \<Rightarrow> [(u ''top_recurring_insights'', JArr (take 8 xs))] | _ \<Rightarrow> [])"

definition on_object :: "pystr \<Rightarrow> (items \<Rightarrow> items) \<Rightarrow> items \<Rightarrow> items" where
  "on_object k f m = (case item m k of JObj v \<Rightarrow> put_item m k (JObj (f v)) | _ \<Rightarrow> m)"

definition shorten_list :: "pystr \<times> nat \<Rightarrow> items \<Rightarrow> items" where
  "shorten_list kn m = (case item m (fst kn) of JArr xs \<Rightarrow> put_item m (fst kn) (JArr (take (snd kn) xs)) | _ \<Rightarrow> m)"

definition compact_words :: "items \<Rightarrow> items" where
  "compact_words m = on_object (u ''themed_buckets'')
       (map (\<lambda>(k, v). (k, case v of JObj b \<Rightarrow> JObj (take 6 b) | _ \<Rightarrow> v)))
     (on_object (u ''word_frequency'') (take 20) m)"

definition compact_synthesis :: "items \<Rightarrow> items" where
  "compact_synthesis s =
     on_object (u ''word_frequency_block'') compact_words
       (fold shorten_list [(u ''evidence_quotes'', 10), (u ''key_signals'', 10), (u ''recurring_patterns'', 8),
          (u ''top_topics'', 8), (u ''external_research_seeds'', 6)]
         (on_object (u ''aggregation_snapshot'') compact_aggregation_snapshot s))"

definition compact_payload :: "items \<Rightarrow> items" where
  "compact_payload p = shorten_list (u ''draft_external_articles'', 6) (shorten_list (u ''canonical_entity_index'', 40)
     (on_object (u ''synthesis_input'') compact_synthesis p))"

definition bounded_user_payload_json :: "(json \<Rightarrow> pystr) \<Rightarrow> items \<Rightarrow> nat \<Rightarrow> pystr" where
  "bounded_user_payload_json dumps payload n =
     (let raw = dumps (JObj payload) in
      if length raw \<le> n then raw
      else (let raw2 = dumps (JObj (compact_payload payload)) in
        if length raw2 \<le> n then raw2 else take (n - 1) raw2 @ [8230]))"

text \<open>\<^verbatim>\<open>pr_report_max_prompt_chars or _DEFAULT_MAX_USER_JSON_CHARS\<close>.\<close>

definition prompt_limit :: "nat \<Rightarrow> nat" where
  "prompt_limit configured = (if configured = 0 then 45000 else configured)"

text \<open>The message of the user; \<open>synthesis\<close> is the compressed input, \<open>instructions\<close> a fixed text.\<close>

definition report_prompt :: "(json \<Rightarrow> pystr) \<Rightarrow> (uuid \<Rightarrow> pystr) \<Rightarrow> nat \<Rightarrow> pystr \<Rightarrow> pystr \<Rightarrow> items \<Rightarrow> json list
    \<Rightarrow> extracted_entity list \<Rightarrow> pystr" where
  "report_prompt dumps show_id configured lang instructions synthesis drafts canonicals =
     (let es = select_synthesis_entities canonicals in
      bounded_user_payload_json dumps
        [(u ''analysis_mode'', JStr (u ''smart_synthesis'')), (u ''report_language'', JStr lang),
         (u ''instructions'', JStr instructions), (u ''synthesis_input'', JObj synthesis),
         (u ''canonical_entity_index'', JArr (canonical_entity_index show_id (select_prompt_entities es))),
         (u ''draft_external_articles'', JArr drafts),
         (u ''unit_counts_by_type'', JObj (map (\<lambda>(k, n). (k, JInt (int n))) (type_counts es)))]
        (prompt_limit configured))"

section \<open>Stored items\<close>

lemma item_put [simp]: "item (put_item m k v) k' = (if k' = k then v else item m k')"
proof (cases "k \<in> fst ` set m")
  case True
  have "map_of (map (\<lambda>(i, x). if i = k then (i, v) else (i, x)) m) k'
      = (if k' = k then (if k \<in> fst ` set m then Some v else None) else map_of m k')"
    by (induction m) (auto, force)
  then show ?thesis using True by (simp add: item_def put_item_def)
next
  case False
  then have "map_of m k = None" by (simp add: map_of_eq_None_iff)
  then show ?thesis using False by (auto simp: item_def put_item_def map_add_def split: option.splits)
qed

lemma compose_put_text: "compose_display_text (put_item m (u ''text'') v) = compose_display_text m"
  by (simp add: compose_display_text_def DISPLAY_FIELDS_def display_part_def)

text \<open>An item with its text composed of its own fields, long enough to be shown.\<close>

fun shown_item :: "dash \<Rightarrow> json \<Rightarrow> bool" where
  "shown_item da (JObj m) = (item m (u ''text'') = JStr (compose_display_text m) \<and> item_is_meaningful da m)"
| "shown_item da _ = False"

lemma postprocess_item_shown: "list_all (shown_item da) (postprocess_item env da (JObj m))"
  by (simp add: postprocess_item_def Let_def rebuild_item_display_text_def compose_put_text)

lemma section_items_shown:
  "list_all (shown_item da) (concat (map (postprocess_item env da) (section_list da v)))"
  using postprocess_item_shown by (fastforce simp: section_list_def list_all_iff)

text \<open>
  C31. Every item of the analytical sections that is stored is an object whose text is composed of its
  own fields, and is at least forty characters long, or its finding is: what the model wrote as text is
  never stored.
\<close>

theorem stored_items_are_composed:
  "list_all (\<lambda>(k, xs). list_all (shown_item da) xs) (rc_sections (stored_report env da name drafts wb d))"
  by (simp add: stored_report_def apply_pr_postprocess_def read_answer_def Let_def ANALYTICAL_SECTION_KEYS_def
      section_items_shown)

text \<open>An item given as a string has no field but its text.\<close>

lemma item_plain: "item (plain_text_item s) k
    = (if k = u ''text'' then JStr s else if k = u ''grounded_in'' then JArr [] else JNull)"
  by (simp add: plain_text_item_def item_def)

lemma compose_plain: "compose_display_text (plain_text_item s) = []"
  by (simp add: compose_display_text_def DISPLAY_FIELDS_def display_part_def item_plain)

definition proper_text :: "pystr \<Rightarrow> bool" where
  "proper_text s \<longleftrightarrow> 40 \<le> length s \<and> \<not> is_space (hd s) \<and> \<not> is_space (last s)"

lemma proper_strip: "proper_text s \<Longrightarrow> strip s = s \<and> s \<noteq> []"
  by (auto simp: proper_text_def strip_fixed)

definition proper_template :: "pystr \<times> pystr \<times> pystr \<Rightarrow> bool" where
  "proper_template t = (case t of (a, b, c) \<Rightarrow> proper_text a \<and> proper_text b \<and> proper_text c)"

lemma templates_proper: "proper_template (pr_template_bundle env ctx)"
proof -
  have "proper_template TRUST_TEMPLATE" "proper_template CHANNEL_TEMPLATE" "proper_template CRISIS_TEMPLATE"
    "proper_template PR_TEMPLATE"
    by code_simp+
  then show ?thesis by (simp add: pr_template_bundle_def Let_def)
qed

lemma rewrite_absent: "list_all (\<lambda>k. item m k = JNull) ks \<Longrightarrow> fold (rewrite_key wd f) ks m = m"
  by (induction ks) (simp_all add: rewrite_key_def)

lemma sanitized_plain:
  assumes "item_has_product_advice env da (plain_text_item s)"
    and t: "pr_template_bundle env (item_blob env (plain_text_item s)) = (a, b, c)"
  shows "pr_sanitize_analytical_item env da (plain_text_item s)
    = put_item (put_item (put_item (plain_text_item s) (u ''recommendation'') (JStr a)) (u ''pr_action'') (JStr b))
        (u ''comms_follow_up'') (JStr c)" (is "_ = ?m")
proof -
  have "list_all (\<lambda>k. item ?m k = JNull) SOFTENED_KEYS" by (simp add: SOFTENED_KEYS_def item_plain)
  then have "fold (rewrite_key wd f) SOFTENED_KEYS ?m = ?m" for wd f by (rule rewrite_absent)
  moreover have "rewrite_key wd f (u ''impact'') ?m = ?m" "rewrite_key wd f (u ''causal_chain'') ?m = ?m" for wd f
    by (simp_all add: rewrite_key_def item_plain)
  ultimately show ?thesis using assms(1) by (simp add: pr_sanitize_analytical_item_def t Let_def)
qed

lemma compose_templates:
  assumes p: "proper_text a" "proper_text b" "proper_text c"
    and m: "\<And>k. item m k = (if k = u ''comms_follow_up'' then JStr c else if k = u ''pr_action'' then JStr b
      else if k = u ''recommendation'' then JStr a else item (plain_text_item s) k)"
  shows "40 \<le> length (strip (compose_display_text m))"
proof -
  let ?t = "join [10, 10] [[1054, 1090, 1074, 1077, 1090, 32, 80, 82, 45, 1082, 1086, 1084, 1072, 1085,
       1076, 1099] @ u '': '' @ b, [1057, 1083, 1077, 1076, 1091, 1102, 1097, 1080, 1081, 32, 1096, 1072,
       1075, 32, 1074, 32, 1082, 1086, 1084, 1084, 1091, 1085, 1080, 1082, 1072, 1094, 1080, 1103,
       1093] @ u '': '' @ c, a]"
  have "compose_display_text m = strip ?t"
    using p [THEN proper_strip] by (simp add: compose_display_text_def DISPLAY_FIELDS_def display_part_def m item_plain)
  moreover have "strip ?t = ?t" using p(1) proper_strip [OF p(1)] by (intro strip_fixed) (simp add: is_space_def proper_text_def)
  moreover have "40 \<le> length ?t" using p(1) by (simp add: proper_text_def)
  ultimately show ?thesis by simp
qed

lemma plain_section: "section_list da (JArr [JStr s]) = (if s = [] then [] else [JObj (plain_text_item (strip s))])"
  by (simp add: section_list_def as_list_def normalize_analytical_item_def)

text \<open>
  An item of an analytical section that the model answers as a plain string is stored only if it
  contains product advice, and then as the texts of a template: any other plain string is lost.
\<close>

theorem plain_item_stored_iff_advice:
  "concat (map (postprocess_item env da) (section_list da (JArr [JStr s]))) \<noteq> []
     \<longleftrightarrow> s \<noteq> [] \<and> item_has_product_advice env da (plain_text_item (strip s))"
proof (cases "item_has_product_advice env da (plain_text_item (strip s))")
  case False
  then have "pr_sanitize_analytical_item env da (plain_text_item (strip s)) = plain_text_item (strip s)"
    by (simp add: pr_sanitize_analytical_item_def)
  then have "postprocess_item env da (JObj (plain_text_item (strip s))) = []"
    by (simp add: postprocess_item_def rebuild_item_display_text_def compose_plain item_is_meaningful_def text_item_def item_plain)
  then show ?thesis using False by (simp add: plain_section)
next
  case True
  obtain a b c where t: "pr_template_bundle env (item_blob env (plain_text_item (strip s))) = (a, b, c)"
    by (cases "pr_template_bundle env (item_blob env (plain_text_item (strip s)))")
  have p: "proper_text a" "proper_text b" "proper_text c"
    using templates_proper [of env "item_blob env (plain_text_item (strip s))"] by (simp_all add: t proper_template_def)
  let ?m = "pr_sanitize_analytical_item env da (plain_text_item (strip s))"
  have m: "40 \<le> length (strip (compose_display_text ?m))"
    using sanitized_plain [OF True t] by (intro compose_templates [where s = "strip s", OF p]) simp
  then have "compose_display_text ?m \<noteq> []" by auto
  then have "item_is_meaningful da (rebuild_item_display_text ?m)"
    using m by (simp add: item_is_meaningful_def text_item_def rebuild_item_display_text_def str_of_def Let_def)
  then show ?thesis using True by (simp add: plain_section postprocess_item_def Let_def)
qed

lemma sanitized_clean: "list_all (\<lambda>x. \<not> product_advice (da_word da) x) (sanitize_lines da xs)"
  by (auto simp: sanitize_lines_def list_all_iff plain_line_clean)

definition report_lines :: "report_content \<Rightarrow> pystr list" where
  "report_lines c = rc_talking_points c @ rc_infopovody c @ rc_open_questions c @ rc_reputational_risks c
     @ rc_communication_gaps c @ rc_next_steps_pr c"

text \<open>
  C30. No line of the lists of a report contains product advice, whatever the model wrote.
\<close>

theorem report_lines_have_no_advice:
  "list_all (\<lambda>x. \<not> product_advice (da_word da) x) (report_lines (stored_report env da name drafts wb d))"
  by (simp add: report_lines_def stored_report_def apply_pr_postprocess_def sanitized_clean)

section \<open>The answer that is stored\<close>

text \<open>The attempts of \<open>generate_for_project_sync\<close> with this check.\<close>

definition answer_errors :: "dash \<Rightarrow> pystr \<Rightarrow> json \<Rightarrow> pystr list" where
  "answer_errors da lang v = (case v of JObj d \<Rightarrow> report_data_validation_errors da lang d | _ \<Rightarrow> [])"

definition checked_llm :: "dash \<Rightarrow> pystr \<Rightarrow> llm \<Rightarrow> llm" where
  "checked_llm da lang lm = lm\<lparr>lm_errors := answer_errors da lang\<rparr>"

lemma llm_loop_answer: "llm_loop lm k n = Inr v \<Longrightarrow> lm_errors lm v = [] \<or> llm_attempt lm (k + n) = Inr v"
proof (induction n arbitrary: k)
  case 0
  then show ?case by (subst (asm) llm_loop.simps) (auto split: sum.splits if_splits)
next
  case (Suc n)
  then show ?case using Suc.IH [of "Suc k"] by (subst (asm) llm_loop.simps) (auto split: sum.splits if_splits)
qed

text \<open>
  The answer a report is made of has no error the check finds, or it is the answer to the last of
  the attempts.
\<close>

theorem answer_is_checked:
  "case llm_loop (checked_llm da lang lm) 0 (lm_repairs lm) of Inl e \<Rightarrow> True
   | Inr v \<Rightarrow> answer_errors da lang v = [] \<or> llm_attempt (checked_llm da lang lm) (lm_repairs lm) = Inr v"
  using llm_loop_answer [of "checked_llm da lang lm" 0 "lm_repairs lm"] by (simp add: checked_llm_def split: sum.split)

end
