(* ===== verification/Report_Input.thy ===== *)
theory Report_Input
  imports Report_Content
begin

text \<open>
  The compressed input of a report (\<^verbatim>\<open>smart_report_input_builder.py\<close>): the language of the study,
  its signals, recurring titles and quotes, the words of its corpus and the seeds of a search; and the
  prompt made of it.
\<close>

section \<open>Language and samples\<close>

definition cyrillic :: "nat \<Rightarrow> bool" where
  "cyrillic c \<longleftrightarrow> 1024 \<le> c \<and> c \<le> 1279"

definition latin :: "nat \<Rightarrow> bool" where
  "latin c \<longleftrightarrow> 97 \<le> c \<and> c \<le> 122 \<or> 65 \<le> c \<and> c \<le> 90"

definition detect_dominant_report_language :: "pystr list \<Rightarrow> pystr" where
  "detect_dominant_report_language samples =
     (let cyr = length (filter cyrillic (concat samples)); lat = length (filter latin (concat samples)) in
      if cyr = 0 \<and> lat = 0 \<or> fl (of_nat lat * fl (45 / 100)) \<le> of_nat cyr then u ''ru'' else u ''en'')"

definition entity_text_sample :: "extracted_entity \<Rightarrow> pystr" where
  "entity_text_sample e = (let q = cd_quote (en_candidate e) in
     join [32] ([en_title e, en_content e] @ (if q = [] then [] else [q])))"

definition collect_language_samples :: "extracted_entity list \<Rightarrow> pystr list" where
  "collect_language_samples es = filter (\<lambda>s. 12 \<le> length s) (map (strip \<circ> entity_text_sample) (take 80 es))"

section \<open>Signals\<close>

definition theme_char :: "(nat \<Rightarrow> bool) \<Rightarrow> nat \<Rightarrow> bool" where
  "theme_char wd c \<longleftrightarrow> wd c \<or> is_space c \<or> list_ex (\<lambda>p. same_ic p c) (1105 # [1072..<1104])"

definition norm_theme_key :: "env \<Rightarrow> (nat \<Rightarrow> bool) \<Rightarrow> pystr \<Rightarrow> pystr" where
  "norm_theme_key env wd s = take 160 (filter (theme_char wd) (squeeze (strip (lower env s))))"

definition pr_entity :: "extracted_entity \<Rightarrow> bool" where
  "pr_entity e \<longleftrightarrow> en_type e \<in> set PR_SYNTHESIS_ENTITY_TYPES"

text \<open>A recurring title: its key and the entities that have it.\<close>

definition recurring_patterns :: "env \<Rightarrow> (nat \<Rightarrow> bool) \<Rightarrow> extracted_entity list \<Rightarrow> (pystr \<times> uuid list) list" where
  "recurring_patterns env wd es =
     (let key = (\<lambda>e. norm_theme_key env wd (strip (en_title e)));
          named = filter (\<lambda>e. pr_entity e \<and> 6 \<le> length (strip (en_title e)) \<and> key e \<noteq> []) es
      in map (\<lambda>(k, g). (k, keep_first id [] (map en_id g)))
           (take 10 (sort_key (\<lambda>(k, g). - int (length g)) (groups_of key named))))"

definition titles_by_types :: "env \<Rightarrow> extracted_entity list \<Rightarrow> entity_type list \<Rightarrow> nat \<Rightarrow> pystr list" where
  "titles_by_types env es ts n = take n (keep_first (lower env) []
     (filter (\<lambda>t. 4 \<le> length t) (map (strip \<circ> en_title) (filter (\<lambda>e. en_type e \<in> set ts) es))))"

definition signal_line :: "extracted_entity \<Rightarrow> pystr" where
  "signal_line e = u ''['' @ entity_type_value (en_type e) @ u ''] '' @ take 220 (strip (en_title e))"

definition SIGNAL_TYPES :: "entity_type list" where
  "SIGNAL_TYPES = [TRUST_ISSUE, RISK, PROBLEM, PAIN_POINT, ADOPTION_BARRIER, USER_NEED, HYPOTHESIS, SENTIMENT_SIGNAL]"

definition key_signals :: "env \<Rightarrow> extracted_entity list \<Rightarrow> pystr list" where
  "key_signals env es =
     (let titled = (\<lambda>n. filter (\<lambda>e. n \<le> length (strip (en_title e)))) in
      take 12 (keep_first (lower env) []
        (map signal_line (concat (map (\<lambda>t. titled 8 (filter (\<lambda>e. en_type e = t) es)) SIGNAL_TYPES)
           @ titled 10 (filter pr_entity es)))))"

definition input_quotes :: "(nat \<Rightarrow> bool) \<Rightarrow> extracted_entity list \<Rightarrow> (pystr \<times> uuid) list" where
  "input_quotes wd es =
     map (\<lambda>(q, i). (take 280 q, i)) (take 16 (keep_first (take 200 \<circ> fst) []
       (filter (\<lambda>(q, i). 12 \<le> length q \<and> \<not> is_trivial_quote wd 24 q)
         (map (\<lambda>e. (strip (cd_quote (en_candidate e)), en_id e)) (filter pr_entity es)))))"

section \<open>Words\<close>

definition REPORT_STOP :: "pystr list" where
  "REPORT_STOP = words ([1080, 32, 1074, 32, 1074, 1086, 32, 1085, 1077, 32, 1085, 1072, 32, 1095, 1090,
       1086, 32, 1079, 1072, 32, 1082, 1072, 1082, 32, 1087, 1086, 32, 1080, 1079, 32, 1082, 32, 1072, 32,
       1085, 1086, 32, 1078, 1077, 32, 1083, 1080, 32, 1073, 1099, 32, 1084, 1099, 32, 1074, 1099, 32,
       1086, 1085, 32, 1086, 1085, 1072, 32, 1086, 1085, 1080, 32, 1077, 1075, 1086, 32, 1077, 1077, 32,
       1080, 1093, 32]
     @ [1101, 1090, 1086, 32, 1101, 1090, 1086, 1090, 32, 1101, 1090, 1072, 32, 1101, 1090, 1080, 32, 1076,
       1083, 1103, 32, 1087, 1088, 1080, 32, 1073, 1077, 1079, 32, 1076, 1086, 32, 1086, 1090, 32, 1076,
       1086, 32, 1085, 1072, 1076, 32, 1087, 1086, 1076, 32, 1087, 1088, 1080, 32, 1087, 1088, 1086, 32,
       1089, 1086, 32, 1074, 1089, 1077, 32, 1074, 1089, 1077, 1075, 1086, 32, 1090, 1072, 1082, 1078,
       1077, 32]
     @ [1082, 1086, 1075, 1076, 1072, 32, 1075, 1076, 1077, 32, 1082, 1090, 1086, 32, 1090, 1086, 32, 1090,
       1072, 1082, 32, 1090, 1072, 1084, 32, 1090, 1091, 1090, 32, 1091, 1078, 1077, 32, 1077, 1097, 1077,
       32, 1086, 1095, 1077, 1085, 1100, 32, 1073, 1086, 1083, 1077, 1077, 32, 1084, 1077, 1085, 1077,
       1077, 32, 1087, 1088, 1086, 1089, 1090, 1086, 32, 1087, 1088, 1086, 1089, 1090, 1086, 32]
     @ [1077, 1089, 1090, 1100, 32, 1073, 1099, 1083, 32, 1073, 1099, 1083, 1072, 32, 1073, 1099, 1083,
       1080, 32, 1073, 1099, 1090, 1100, 32, 1073, 1091, 1076, 1077, 1090, 32, 1084, 1086, 1075, 32, 1084,
       1086, 1078, 1077, 1090, 32, 1085, 1091, 1078, 1085, 1086, 32, 1085, 1072, 1076, 1086, 32, 1088,
       1072, 1079, 32, 1086, 1076, 1080, 1085, 32, 1076, 1074, 1072, 32, 1090, 1088, 1080, 32]
     @ [1082, 1086, 1090, 1086, 1088, 1099, 1081, 32, 1082, 1086, 1090, 1086, 1088, 1072, 1103, 32, 1082,
       1086, 1090, 1086, 1088, 1086, 1077, 32, 1082, 1086, 1090, 1086, 1088, 1099, 1077, 32, 1082, 1086,
       1090, 1086, 1088, 1099, 1081, 32, 1082, 1086, 1090, 1086, 1088, 1099, 1093])"

definition letter :: "nat \<Rightarrow> bool" where
  "letter c \<longleftrightarrow> 1040 \<le> c \<and> c \<le> 1103 \<or> c = 1025 \<or> c = 1105 \<or> latin c"

definition tokenize_words :: "env \<Rightarrow> pystr \<Rightarrow> pystr list" where
  "tokenize_words env s = filter (\<lambda>w. 3 \<le> length w) (runs letter (lower env s))"

definition WORD_NEEDLES :: "(string \<times> pystr list) list" where
  "WORD_NEEDLES = [
     (''trust'', [[1076, 1086, 1074, 1077, 1088], [1085, 1072, 1076, 1077, 1078, 1085], [1087, 1088, 1086,
       1079, 1088, 1072, 1095, 1085], [1073, 1077, 1079, 1086, 1087, 1072, 1089], [1079, 1072, 1097, 1080,
       1090], [1082, 1086, 1085, 1090, 1088, 1086, 1083], [1075, 1072, 1088, 1072, 1085, 1090], [1086,
       1092, 1080, 1094, 1080, 1072, 1083, 1100, 1085], [1083, 1080, 1094, 1077, 1085, 1079], [1088, 1077,
       1075, 1091, 1083, 1103, 1090, 1086, 1088]]),
     (''risk'', [[1088, 1080, 1089, 1082], [1086, 1087, 1072, 1089], [1084, 1086, 1096, 1077, 1085], [1089,
       1082, 1072, 1084], [1086, 1073, 1084, 1072, 1085], [1091, 1082, 1088, 1072, 1076, 1091, 1090],
       [1087, 1086, 1090, 1077, 1088, 1103], [1090, 1088, 1077, 1074, 1086, 1075], [1089, 1090, 1088, 1072,
       1093], [1089, 1086, 1084, 1085, 1077, 1085], [1085, 1077, 1075, 1072, 1090, 1080, 1074],
        [1078, 1072, 1083, 1086, 1073], [1082, 1088, 1080, 1079, 1080, 1089]]),
     (''fintech'', [[1087, 1083, 1072, 1090, 1077, 1078], [1087, 1077, 1088, 1077, 1074, 1086, 1076],
       [1082, 1072, 1088, 1090], [1073, 1072, 1085, 1082], [1092, 1080, 1085, 1072, 1085, 1089], [1076,
       1077, 1085, 1100, 1075], [1089, 1095, 1077, 1090], [1089, 1095, 1105, 1090], [1082, 1101, 1096,
       1073, 1101, 1082], [1082, 1077, 1096, 1073, 1101, 1082], [1082, 1088, 1077, 1076, 1080, 1090],
        [1079, 1072, 1081, 1084], [1073, 1088, 1086, 1082, 1077, 1088]]),
     (''pr_comms'', [[1089, 1084, 1080], [1087, 1088, 1077, 1089, 1089], [1082, 1086, 1084, 1084, 1091,
       1085, 1080, 1082, 1072, 1094], [1084, 1077, 1089, 1089, 1077, 1076, 1078], [1085, 1072, 1088, 1088,
       1072, 1090, 1080, 1074], [1088, 1077, 1087, 1091, 1090, 1072, 1094], [1080, 1084, 1080, 1076, 1078],
       [1089, 1086, 1094, 1089, 1077, 1090], [1090, 1077, 1083, 1077, 1075, 1088, 1072, 1084],
        u ''instagram'', [1080, 1085, 1089, 1090, 1072, 1075, 1088, 1072, 1084], u ''youtube'',
       u ''tiktok'']),
     (''problems'', [[1087, 1088, 1086, 1073, 1083, 1077, 1084], [1089, 1083, 1086, 1078, 1085], [1085,
       1077, 1091, 1076, 1086, 1073, 1085], [1073, 1072, 1075], [1086, 1096, 1080, 1073, 1082], [1085,
       1077, 32, 1088, 1072, 1073, 1086, 1090, 1072, 1077, 1090], [1078, 1072, 1083, 1086, 1073], [1073,
       1072, 1088, 1100, 1077, 1088], [1073, 1086, 1083, 1100]])]"

definition bucket_for_word :: "env \<Rightarrow> pystr \<Rightarrow> string option" where
  "bucket_for_word env w =
     map_option fst (List.find (\<lambda>(label, ns). list_ex (\<lambda>n. sublist n (lower env w)) ns) WORD_NEEDLES)"

record word_block =
  wb_frequency :: "(pystr \<times> nat) list"
  wb_buckets :: "(string \<times> (pystr \<times> nat) list) list"
  wb_interpretation :: pystr
  wb_dominant :: pystr
  wb_strength :: pystr
  wb_balance :: pystr
  wb_tagged_ratio :: rat

definition bucket_of :: "env \<Rightarrow> string \<Rightarrow> (pystr \<times> nat) list \<Rightarrow> (pystr \<times> nat) list" where
  "bucket_of env label freq = filter (\<lambda>(w, n). bucket_for_word env w = Some label) freq"

definition score_of :: "(pystr \<times> nat) list \<Rightarrow> nat" where
  "score_of ws = sum_list (map snd ws)"

definition RISK_INTERP :: pystr where
  "RISK_INTERP = [1042, 32, 1083, 1077, 1082, 1089, 1080, 1082, 1077, 32, 1079, 1072, 1084, 1077, 1090,
       1085, 1086, 32, 1073, 1086, 1083, 1100, 1096, 1077, 32, 1084, 1072, 1088, 1082, 1077, 1088, 1086,
       1074, 32, 1090, 1088, 1077, 1074, 1086, 1075, 1080, 32, 1080, 32, 1088, 1080, 1089, 1082, 1072, 44,
       32, 1095, 1077, 1084, 32, 1086, 1087, 1086, 1088, 32, 1085, 1072, 32, 1076, 1086, 1074, 1077, 1088,
       1080, 1077, 32, 8212, 32]
     @ [1101, 1090, 1086, 32, 1087, 1086, 1074, 1099, 1096, 1072, 1077, 1090, 32, 1095, 1091, 1074, 1089,
       1090, 1074, 1080, 1090, 1077, 1083, 1100, 1085, 1086, 1089, 1090, 1100, 32, 1072, 1091, 1076, 1080,
       1090, 1086, 1088, 1080, 1080, 32, 1082, 32, 1089, 1082, 1077, 1087, 1090, 1080, 1095, 1077, 1089,
       1082, 1086, 1084, 1091, 32, 1087, 1088, 1086, 1095, 1090, 1077, 1085, 1080, 1102, 32, 1092, 1080,
       1085, 1090, 1077, 1093, 45, 1082, 1086, 1084, 1084, 1091, 1085, 1080, 1082, 1072, 1094, 1080, 1081,
       46]"

definition TRUST_INTERP :: pystr where
  "TRUST_INTERP = [1051, 1077, 1082, 1089, 1080, 1082, 1072, 32, 1095, 1072, 1097, 1077, 32, 1086, 1087,
       1080, 1088, 1072, 1077, 1090, 1089, 1103, 32, 1085, 1072, 32, 1090, 1077, 1084, 1099, 32, 1085,
       1072, 1076, 1105, 1078, 1085, 1086, 1089, 1090, 1080, 32, 1080, 32, 1087, 1088, 1086, 1079, 1088,
       1072, 1095, 1085, 1086, 1089, 1090, 1080, 32, 8212, 32, 1093, 1086, 1088, 1086, 1096, 1072, 1103,
       32, 1073, 1072, 1079, 1072, 32, 1076, 1083, 1103, 32, 1089, 1087, 1086, 1082, 1086, 1081, 1085,
       1099, 1093, 32]
     @ [1088, 1077, 1075, 1091, 1083, 1103, 1090, 1086, 1088, 1085, 1086, 32, 1074, 1099, 1074, 1077, 1088,
       1077, 1085, 1085, 1099, 1093, 32, 80, 82, 45, 1092, 1086, 1088, 1084, 1091, 1083, 1080, 1088, 1086,
       1074, 1086, 1082, 46]"

definition MIXED_INTERP :: pystr where
  "MIXED_INTERP = [1057, 1084, 1077, 1096, 1072, 1085, 1085, 1099, 1081, 32, 1073, 1072, 1083, 1072, 1085,
       1089, 32, 1076, 1086, 1074, 1077, 1088, 1080, 1103, 32, 1080, 32, 1088, 1080, 1089, 1082, 1072, 32,
       1074, 32, 1092, 1086, 1088, 1084, 1091, 1083, 1080, 1088, 1086, 1074, 1082, 1072, 1093, 58, 32,
       1074, 1072, 1078, 1085, 1086, 32, 1085, 1077, 32, 1076, 1086, 1087, 1091, 1089, 1090, 1080, 1090,
       1100, 32, 1088, 1072, 1089, 1093, 1086, 1078, 1076, 1077, 1085, 1080, 1103, 32]
     @ [1084, 1077, 1078, 1076, 1091, 32, 1086, 1073, 1077, 1097, 1072, 1085, 1080, 1103, 1084, 1080, 32,
       1074, 32, 1082, 1086, 1084, 1084, 1091, 1085, 1080, 1082, 1072, 1094, 1080, 1103, 1093, 32, 1080,
       32, 1090, 1077, 1084, 44, 32, 1095, 1090, 1086, 32, 1083, 1102, 1076, 1080, 32, 1088, 1077, 1072,
       1083, 1100, 1085, 1086, 32, 1086, 1073, 1089, 1091, 1078, 1076, 1072, 1102, 1090, 32, 1074, 32,
       1080, 1085, 1090, 1077, 1088, 1074, 1100, 1102, 46]"

text \<open>Balance, strength and interpretation of the scores of trust and risk.\<close>

definition lexical_balance :: "pystr \<Rightarrow> nat \<Rightarrow> nat \<Rightarrow> pystr \<times> pystr \<times> pystr" where
  "lexical_balance lang trust risk =
     (if lang = u ''ru'' then
        (if fl (of_nat trust * fl (135 / 100)) < of_nat risk
         then (u ''risk-dominant'', if 12 < risk then u ''high'' else u ''medium'', RISK_INTERP)
         else if fl (of_nat risk * fl (125 / 100)) < of_nat trust then (u ''trust-dominant'', u ''low'', TRUST_INTERP)
         else (u ''mixed'', u ''medium'', MIXED_INTERP))
      else (u ''mixed'', u ''medium'',
        u ''Lexical mix suggests monitoring both reassurance and risk narratives before scaling comms.''))"

definition dominant_perception :: "pystr \<Rightarrow> (pystr \<times> nat) list \<Rightarrow> pystr" where
  "dominant_perception lang ws =
     (if lang = u ''ru'' \<and> ws \<noteq> [] then
        [1042, 32, 1087, 1086, 1074, 1077, 1088, 1093, 1085, 1086, 1089, 1090, 1085, 1086, 1084, 32, 1089,
       1083, 1086, 1077, 32, 1082, 1086, 1088, 1087, 1091, 1089, 1072, 32, 1095, 1072, 1097, 1077, 32,
       1074, 1089, 1090, 1088, 1077, 1095, 1072, 1102, 1090, 1089, 1103, 32, 1089, 1083, 1086, 1074, 1072,
       58, 32] @ join (u '', '') (map fst (take 6 ws))
        @ [46, 32, 1044, 1083, 1103, 32, 80, 82, 45, 1074, 1086, 1089, 1087, 1088, 1080, 1103, 1090, 1080,
       1103, 32, 1101, 1090, 1086, 32, 1079, 1072, 1076, 1072, 1105, 1090, 32, 1090, 1086, 1085, 44, 32]
        @ [1074, 32, 1082, 1086, 1090, 1086, 1088, 1086, 1084, 32, 1072, 1091, 1076, 1080, 1090, 1086,
       1088, 1080, 1103, 32, 171, 1089, 1083, 1099, 1096, 1080, 1090, 187, 32, 1073, 1088, 1077, 1085,
       1076, 58, 32, 1087, 1088, 1080, 32, 1079, 1072, 1084, 1077, 1090, 1085, 1086, 1081, 32, 1076, 1086,
       1083, 1077, 32, 1090, 1088, 1077, 1074, 1086, 1078, 1085, 1086, 1081, 32, 1083, 1077, 1082, 1089,
       1080, 1082, 1080, 32, 1076, 1072, 1078, 1077, 32, 1085, 1077, 1081, 1090, 1088, 1072, 1083, 1100,
       1085, 1099, 1077, 32, 1089, 1086, 1086, 1073, 1097, 1077, 1085, 1080, 1103, 32]
        @ [1084, 1086, 1075, 1091, 1090, 32, 1095, 1080, 1090, 1072, 1090, 1100, 1089, 1103, 32, 1089,
       1082, 1077, 1087, 1090, 1080, 1095, 1077, 1089, 1082, 1080, 59, 32, 1087, 1088, 1080, 32, 1089,
       1087, 1086, 1082, 1086, 1081, 1085, 1099, 1093, 32, 1086, 1087, 1086, 1088, 1072, 1093, 32, 1076,
       1086, 1074, 1077, 1088, 1080, 1103, 32, 8212, 32, 1086, 1082, 1085, 1086, 32, 1076, 1083, 1103, 32,
       1091, 1074, 1077, 1088, 1077, 1085, 1085, 1099, 1093, 44, 32, 1085, 1086, 32, 1074, 1099, 1074,
       1077, 1088, 1077, 1085, 1085, 1099, 1093, 32, 1092, 1086, 1088, 1084, 1091, 1083, 1080, 1088, 1086,
       1074, 1086, 1082, 46]
      else if ws \<noteq> [] then
        u ''Dominant tokens shape how the narrative sounds to outsiders; align spokespeople and owned channels ''
        @ u ''with the same vocabulary the audience already uses.''
      else [])"

definition build_word_frequency_analysis :: "env \<Rightarrow> pystr \<Rightarrow> pystr \<Rightarrow> word_block" where
  "build_word_frequency_analysis env corpus lang =
     (let freq = counter (filter (\<lambda>w. w \<notin> set REPORT_STOP \<and> 2 < length w) (tokenize_words env corpus));
          bucket = (\<lambda>label. bucket_of env label freq);
          trust = score_of (bucket ''trust''); risk = score_of (bucket ''risk'')
      in case lexical_balance lang trust risk of (balance, strength, interp) \<Rightarrow>
        \<lparr>wb_frequency = most_common 20 freq,
         wb_buckets = map (\<lambda>(label, ns). (label, most_common 6 (bucket label))) WORD_NEEDLES,
         wb_interpretation = interp, wb_dominant = dominant_perception lang (most_common 10 freq),
         wb_strength = strength, wb_balance = balance,
         wb_tagged_ratio = py_round (fl (of_nat (trust + risk) / of_nat (trust + risk + 1))) 3\<rparr>)"

section \<open>Seeds and topics\<close>

definition SEEDS_RU :: "pystr list" where
  "SEEDS_RU = [[1076, 1086, 1074, 1077, 1088, 1080, 1077, 32, 1082, 32, 1092, 1080, 1085, 1090, 1077, 1093,
       45, 1087, 1088, 1080, 1083, 1086, 1078, 1077, 1085, 1080, 1103, 1084, 32, 1080, 32, 1084, 1086,
       1073, 1080, 1083, 1100, 1085, 1099, 1084, 32, 1087, 1083, 1072, 1090, 1077, 1078, 1072, 1084],
       [1088, 1077, 1087, 1091, 1090, 1072, 1094, 1080, 1103, 32, 1092, 1080, 1085, 1072, 1085, 1089, 1086,
       1074, 1099, 1093, 32, 1087, 1088, 1080, 1083, 1086, 1078, 1077, 1085, 1080, 1081, 32, 1082, 1086,
       1084, 1084, 1091, 1085, 1080, 1082, 1072, 1094, 1080, 1080, 32, 1073, 1077, 1079, 1086, 1087, 1072,
       1089, 1085, 1086, 1089, 1090, 1100],
     [1082, 1086, 1084, 1084, 1091, 1085, 1080, 1082, 1072, 1094, 1080, 1080, 32, 1074, 1086, 1082, 1088,
       1091, 1075, 32, 1084, 1086, 1096, 1077, 1085, 1085, 1080, 1095, 1077, 1089, 1090, 1074, 1072, 32,
       1080, 32, 1079, 1072, 1097, 1080, 1090, 1099, 32, 1087, 1086, 1083, 1100, 1079, 1086, 1074, 1072,
       1090, 1077, 1083, 1077, 1081, 32, 1092, 1080, 1085, 1090, 1077, 1093],
     [1080, 1089, 1089, 1083, 1077, 1076, 1086, 1074, 1072, 1085, 1080, 1103, 32, 1076, 1086, 1074, 1077,
       1088, 1080, 1103, 32, 1072, 1091, 1076, 1080, 1090, 1086, 1088, 1080, 1080, 32, 1082, 32, 1094,
       1080, 1092, 1088, 1086, 1074, 1099, 1084, 32, 1092, 1080, 1085, 1072, 1085, 1089, 1086, 1074, 1099,
       1084, 32, 1089, 1077, 1088, 1074, 1080, 1089, 1072, 1084], [1082, 1077, 1081, 1089, 1099, 32, 80,
       82, 32, 1080, 32, 1088, 1077, 1087, 1091, 1090, 1072, 1094, 1080, 1080, 32, 1074, 32, 1092, 1080,
       1085, 1090, 1077, 1093, 1077]]"

definition SEEDS_EN :: "pystr list" where
  "SEEDS_EN = map u [''trust in fintech apps mobile payments'', ''financial app reputation communications safety scams'',
     ''audience trust research digital financial services'', ''fintech PR case studies reputation'']"

definition external_research_seeds :: "env \<Rightarrow> pystr \<Rightarrow> pystr list \<Rightarrow> pystr \<Rightarrow> pystr list" where
  "external_research_seeds env project_name patterns lang =
     (let seeds = (if lang = u ''ru'' then SEEDS_RU else SEEDS_EN)
            @ map (take 120) (filter (\<lambda>p. p \<noteq> []) (map strip (take 6 patterns)));
          name = strip project_name
      in take 8 (keep_first (lower env) [] ((if name \<noteq> [] \<and> name \<notin> set seeds then [take 120 name] else []) @ seeds)))"

text \<open>The titles of topics behind the patterns; the limit is looked at after each entity.\<close>

fun add_topics :: "env \<Rightarrow> extracted_entity list \<Rightarrow> pystr list \<Rightarrow> pystr list" where
  "add_topics env [] topics = topics"
| "add_topics env (e # es) topics =
     (let t = strip (en_title e);
          topics' = (if en_type e = TOPIC \<and> t \<noteq> [] \<and> lower env t \<notin> set (map (lower env) topics) then topics @ [t] else topics)
      in if 10 \<le> length topics' then topics' else add_topics env es topics')"

definition top_topics :: "env \<Rightarrow> pystr list \<Rightarrow> extracted_entity list \<Rightarrow> pystr list" where
  "top_topics env patterns es = add_topics env es (keep_first (lower env) [] (filter (\<lambda>t. t \<noteq> []) (map strip patterns)))"

definition compact_snapshot_for_report :: "items \<Rightarrow> items" where
  "compact_snapshot_for_report m = compact_aggregation_snapshot m"

section \<open>The input\<close>

definition texts :: "pystr list \<Rightarrow> json" where
  "texts xs = JArr (map JStr xs)"

definition counts :: "(pystr \<times> nat) list \<Rightarrow> json" where
  "counts c = JObj (map (\<lambda>(k, n). (k, JInt (int n))) c)"

text \<open>The block without the dominant words and the ratio.\<close>

definition word_frequency_block :: "word_block \<Rightarrow> items" where
  "word_frequency_block b = [(u ''word_frequency'', counts (wb_frequency b)),
     (u ''themed_buckets'', JObj (map (\<lambda>(k, c). (u k, counts c)) (wb_buckets b))),
     (u ''pr_interpretation'', JStr (wb_interpretation b)), (u ''risk_signal_strength'', JStr (wb_strength b)),
     (u ''trust_vs_risk_balance'', JStr (wb_balance b))]"

definition report_language_of :: "extracted_entity list \<Rightarrow> pystr" where
  "report_language_of es = detect_dominant_report_language (collect_language_samples es)"

definition report_word_block :: "env \<Rightarrow> extracted_entity list \<Rightarrow> word_block" where
  "report_word_block env es =
     build_word_frequency_analysis env (join [10] (map entity_text_sample (take 120 es))) (report_language_of es)"

definition build_smart_report_input :: "env \<Rightarrow> dash \<Rightarrow> (uuid \<Rightarrow> pystr) \<Rightarrow> pystr \<Rightarrow> pystr \<Rightarrow> extracted_entity list
    \<Rightarrow> items \<Rightarrow> pystr \<Rightarrow> items" where
  "build_smart_report_input env da show_id name description es snapshot brand =
     (let wd = da_word da; lang = report_language_of es; recurring = recurring_patterns env wd es;
          patterns = map fst recurring
      in [(u ''brand_context'', JObj [(u ''company_name'', JStr brand), (u ''domain'', JStr (u ''fintech'')),
             (u ''analysis_mode'', JStr (u ''pr''))]),
          (u ''report_language'', JStr lang),
          (u ''project_context'', JObj [(u ''name'', JStr name), (u ''description'', JStr (take 2000 description))]),
          (u ''key_signals'', texts (key_signals env es)),
          (u ''recurring_patterns'', JArr (map (\<lambda>(k, ids). JObj [(u ''pattern'', JStr k),
             (u ''mentions'', JInt (int (length ids))), (u ''supporting_entity_ids'', texts (map show_id (take 16 ids)))]) recurring)),
          (u ''audience_concerns'', texts (titles_by_types env es [PAIN_POINT, USER_NEED, PROBLEM, ADOPTION_BARRIER] 8)),
          (u ''trust_signals'', texts (titles_by_types env es [TRUST_ISSUE, SENTIMENT_SIGNAL] 6)),
          (u ''pr_risks'', texts (titles_by_types env es [RISK, TRUST_ISSUE] 8)),
          (u ''evidence_quotes'', JArr (map (\<lambda>(q, i). JObj [(u ''quote'', JStr q), (u ''source_type'', JStr (u ''interview'')),
             (u ''entity_id'', JStr (show_id i))]) (input_quotes wd es))),
          (u ''top_topics'', texts (top_topics env patterns es)),
          (u ''word_frequency_block'', JObj (word_frequency_block (report_word_block env es))),
          (u ''external_research_seeds'', texts (external_research_seeds env name patterns lang)),
          (u ''aggregation_snapshot'', JObj (compact_snapshot_for_report snapshot))])"

text \<open>
  What \<^verbatim>\<open>generate_for_project_sync\<close> sends: the first 300 entities that are no duplicates, the snapshot
  cut at 14000 characters, and the prompt.
\<close>

definition project_report_prompt :: "env \<Rightarrow> dash \<Rightarrow> (json \<Rightarrow> pystr) \<Rightarrow> (uuid \<Rightarrow> pystr) \<Rightarrow> nat \<Rightarrow> pystr \<Rightarrow> pystr \<Rightarrow> pystr
    \<Rightarrow> (pystr \<Rightarrow> pystr) \<Rightarrow> items \<Rightarrow> json list \<Rightarrow> uuid \<Rightarrow> world \<Rightarrow> pystr" where
  "project_report_prompt env da dumps show_id configured name description brand instructions snapshot drafts pid w =
     (let canonicals = take 300 (sort_key en_created_at (filter (\<lambda>e. en_project_id e = pid \<and> en_canonical e = None) (entities w)));
          es = select_synthesis_entities canonicals;
          synthesis = build_smart_report_input env da show_id name description es (trim_json_value dumps snapshot 14000) brand;
          lang = report_language_of es
      in report_prompt dumps show_id configured lang (instructions lang) synthesis drafts canonicals)"

section \<open>What the prompt loses\<close>

lemma prompt_bounded:
  "length (report_prompt dumps show_id configured lang instructions synthesis drafts canonicals) \<le> prompt_limit configured"
proof -
  have "length (bounded_user_payload_json dumps p n) \<le> n" if "0 < n" for p n
    using that by (auto simp: bounded_user_payload_json_def Let_def)
  moreover have "0 < prompt_limit configured" by (simp add: prompt_limit_def)
  ultimately show ?thesis by (simp add: report_prompt_def Let_def)
qed

text \<open>
  C33. The prompt of a report is never longer than the limit that is set, whatever the project holds.
\<close>

theorem project_prompt_bounded:
  "length (project_report_prompt env da dumps show_id configured name description brand instructions snapshot drafts pid w)
     \<le> prompt_limit configured"
  by (simp add: project_report_prompt_def Let_def prompt_bounded)

text \<open>
  Of a snapshot with more than 14000 characters nothing reaches the prompt: the excerpt it is cut to
  has none of the keys that the input keeps.
\<close>

theorem large_snapshot_is_dropped:
  "compact_snapshot_for_report (trim_json_value dumps snapshot n)
     = (if length (dumps (JObj snapshot)) \<le> n then compact_aggregation_snapshot snapshot else [])"
  by (simp add: compact_snapshot_for_report_def trim_json_value_def Let_def compact_aggregation_snapshot_def item_def)

text \<open>
  The sentence on the dominant words of the corpus is computed and lost: the report has one only if
  the model writes it.
\<close>

theorem dominant_words_are_lost:
  "item (merge_word_analysis da (word_frequency_block (report_word_block env es)) JNull) (u ''dominant_lexicon_pr_perception'')
     = JStr []"
  by (simp add: merge_word_analysis_def word_frequency_block_def text_item_def item_def Let_def)

end
