(* ===== verification/Lexicon.thy ===== *)
theory Lexicon
  imports Dashboard_Blocks "HOL-Library.Sublist" "HOL-Library.Multiset"
begin

text \<open>
  The signals of the words people use (\<^verbatim>\<open>pr_lexicon_signals.py\<close>) and the comments on an entity
  (\<^verbatim>\<open>pr_entity_enrichment.py\<close>): terms and phrases of six categories, counted over the chunks of a
  study, with the interviews they occur in and example quotes.
\<close>

section \<open>Words\<close>

definition CATEGORIES_ORDER :: "string list" where
  "CATEGORIES_ORDER = [''trust'', ''risk'', ''convenience'', ''negative'', ''money'', ''brand'']"

definition PR_FILLERS_RU :: "pystr list" where
  "PR_FILLERS_RU = [[1085, 1091], [1090, 1080, 1087, 1072], [1082, 1072, 1082], [1073, 1099], [1074, 1086,
       1086, 1073, 1097, 1077], [1087, 1088, 1086, 1089, 1090, 1086], [1090, 1072, 1084], [1074, 1086,
       1090], [1101, 1090, 1086], [1079, 1085, 1072, 1095, 1080, 1090], [1082, 1086, 1088, 1086, 1095,
       1077], [1073, 1083, 1080, 1085], [1083, 1072, 1076, 1085, 1086], [1090, 1080, 1087, 1091], [1090,
       1080, 1087], [1082, 1072, 1088, 1086, 1095, 1077], [1082, 1086, 1088, 1086, 1095], [1101, 1101],
       [1084, 1084], [1072, 1075, 1072], [1085, 1091, 1091], [1074, 1086, 1073, 1097, 1077, 1084], [1082,
       1089, 1090, 1072, 1090, 1080], [1079, 1085, 1072, 1077, 1096, 1100], [1087, 1086, 1085, 1080, 1084,
       1072, 1077, 1096, 1100], [1089, 1083, 1091, 1096, 1072, 1081], [1076, 1072], [1085, 1077, 1090],
       [1074, 1088, 1086, 1076, 1077], [1082, 1072, 1078, 1077, 1090, 1089, 1103], [1085, 1072, 1074, 1077,
       1088, 1085, 1086, 1077], [1089, 1072, 1084, 1086, 1077], [1090, 1072, 1082], [1090, 1091, 1090],
       [1077, 1097, 1105], [1091, 1078, 1077], [1086, 1095, 1077, 1085, 1100], [1087, 1088, 1103, 1084],
       [1087, 1088, 1103, 1084, 1086]]"

definition PR_FILLERS_UZ :: "pystr list" where
  "PR_FILLERS_UZ = [u ''xa'', u ''yo'', u ''qani'', u ''demak'', [120, 111, 699, 112], u ''hop'',
       u ''mayli'', u ''shunday'', u ''ana'', u ''mana'', [111, 699, 122, 105], u ''nimaga'', u ''qanaqa'',
       u ''nimadir'', u ''shekilli'', u ''deyman'', u ''bilasizmi'', u ''tushunarli'']"

definition PR_GENERIC :: "pystr list" where
  "PR_GENERIC = [[1095, 1077, 1083, 1086, 1074, 1077, 1082], [1083, 1102, 1076, 1080], [1095, 1077, 1083,
       1086, 1074, 1077, 1082, 1072], [1083, 1102, 1076, 1077, 1081], [1087, 1088, 1080, 1083, 1086, 1078,
       1077, 1085, 1080, 1077], [1087, 1088, 1080, 1083, 1086, 1078, 1077, 1085, 1080, 1103], [1073, 1072,
       1085, 1082], [1073, 1072, 1085, 1082, 1072], [1073, 1072, 1085, 1082, 1077], [1082, 1072, 1088,
       1090, 1072], [1082, 1072, 1088, 1090, 1099], [1082, 1072, 1088, 1090, 1086, 1081], [1087, 1086,
       1083, 1100, 1079, 1086, 1074, 1072, 1090, 1100, 1089, 1103], [1080, 1089, 1087, 1086, 1083, 1100,
       1079, 1086, 1074, 1072, 1090, 1100], [1080, 1089, 1087, 1086, 1083, 1100, 1079, 1091, 1102], [1076,
       1077, 1083, 1086], [1074, 1077, 1097, 1100], [1074, 1086, 1087, 1088, 1086, 1089], [1088, 1072,
       1079], [1076, 1074, 1072], [1074, 1089, 1105], [1074, 1089, 1077], [1074, 1088, 1077, 1084, 1103],
       [1089, 1077, 1075, 1086, 1076, 1085, 1103], [1079, 1072, 1074, 1090, 1088, 1072], [1074, 1095, 1077,
       1088, 1072], [1075, 1086, 1076], [1084, 1077, 1089, 1103, 1094], [1085, 1077, 1076, 1077, 1083,
       1103], [1076, 1077, 1085, 1100], [1095, 1072, 1089], [1084, 1080, 1085, 1091, 1090, 1072], [1080,
       1085, 1090, 1077, 1088, 1074, 1100, 1102], [1086, 1090, 1074, 1077, 1090], [1089, 1082, 1072, 1079,
       1072, 1083], [1089, 1082, 1072, 1079, 1072, 1083, 1072], [1075, 1086, 1074, 1086, 1088, 1080, 1090],
       [1075, 1086, 1074, 1086, 1088, 1103, 1090], [1076, 1091, 1084, 1072, 1102], [1076, 1091, 1084, 1072,
       1077, 1090], [1079, 1085, 1072, 1102], [1079, 1085, 1072, 1077, 1090], u ''odam'', u ''odamlar'',
       u ''ilova'', u ''karta'', u ''foydalanish'', u ''thing'', u ''people'', u ''person'', u ''app'', u ''application'', u ''time'', u ''day'', u ''week'', u ''year'', u ''interview'']"

definition PR_STOP_EXTRA :: "pystr list" where
  "PR_STOP_EXTRA = [[1082, 1086, 1090, 1086, 1088, 1099, 1081], [1082, 1086, 1090, 1086, 1088, 1072, 1103],
       [1082, 1086, 1090, 1086, 1088, 1086, 1077], [1082, 1086, 1090, 1086, 1088, 1099, 1077], [1101, 1090,
       1086, 1090], [1101, 1090, 1072], [1101, 1090, 1080], [1090, 1086, 1090], [1090, 1072], [1090, 1077],
       [1090, 1072, 1082, 1086, 1081], [1090, 1072, 1082, 1072, 1103], [1090, 1072, 1082, 1080, 1077],
       [1090, 1072, 1082, 1086, 1077], [1084, 1086, 1081], [1084, 1086, 1103], [1084, 1086, 1105], [1084,
       1086, 1080], [1085, 1072, 1096], [1085, 1072, 1096, 1072], [1085, 1072, 1096, 1077], [1085, 1072,
       1096, 1080], [1074, 1072, 1096], [1074, 1072, 1096, 1072], [1074, 1072, 1096, 1077], [1074, 1072,
       1096, 1080], [1080, 1093], [1077, 1075, 1086], [1077, 1105], [1077, 1084, 1091], [1077, 1081],
       [1085, 1080, 1084], [1085, 1080, 1093], [1080, 1084], [1095, 1090, 1086, 1073, 1099], [1075, 1076,
       1077], [1082, 1086, 1075, 1076, 1072], [1087, 1086, 1095, 1077, 1084, 1091], [1079, 1072, 1095,
       1077, 1084], [1089, 1082, 1086, 1083, 1100, 1082, 1086], [1090, 1086, 1078, 1077], [1090, 1072,
       1082, 1078, 1077], [1080, 1083, 1080], [1083, 1080, 1073, 1086], [1090, 1086, 1083, 1100, 1082,
       1086], [1076, 1072, 1078, 1077], [1074, 1077, 1089, 1100], [1074, 1089, 1103], [1082, 1072, 1078,
       1076, 1099, 1081], [1083, 1102, 1073, 1086, 1081], [1089, 1072, 1084, 1099, 1081], [1073, 1086,
       1083, 1077, 1077], [1084, 1077, 1085, 1077, 1077], [1089, 1083, 1080, 1096, 1082, 1086, 1084]]"

definition LEX_TRUST :: "pystr list" where
  "LEX_TRUST = [[1076, 1086, 1074, 1077, 1088, 1080, 1077], [1076, 1086, 1074, 1077, 1088, 1103, 1102],
       [1076, 1086, 1074, 1077, 1088, 1103, 1102, 1090], [1085, 1072, 1076, 1105, 1078, 1085, 1099, 1081],
       [1085, 1072, 1076, 1077, 1078, 1085, 1099, 1081], [1085, 1072, 1076, 1105, 1078, 1085, 1086], [1085,
       1072, 1076, 1077, 1078, 1085, 1086], [1073, 1077, 1079, 1086, 1087, 1072, 1089, 1085, 1086], [1073,
       1077, 1079, 1086, 1087, 1072, 1089, 1085, 1086, 1089, 1090, 1100], [1075, 1072, 1088, 1072, 1085,
       1090, 1080, 1103], [1075, 1072, 1088, 1072, 1085, 1090, 1080, 1088, 1091, 1102, 1090], [1091, 1074,
       1077, 1088, 1077, 1085, 1085, 1086, 1089, 1090, 1100], [1091, 1074, 1077, 1088, 1077, 1085], [1091,
       1074, 1077, 1088, 1077, 1085, 1072], [1087, 1088, 1086, 1074, 1077, 1088, 1077, 1085, 1085, 1099,
       1081], [1087, 1088, 1086, 1074, 1077, 1088, 1077, 1085, 1086], [1088, 1077, 1087, 1091, 1090, 1072,
       1094, 1080, 1103], [1088, 1077, 1087, 1091, 1090, 1072, 1094, 1080, 1080], [1095, 1077, 1089, 1090,
       1085, 1086], [1087, 1088, 1086, 1079, 1088, 1072, 1095, 1085, 1086], [1087, 1088, 1086, 1079, 1088,
       1072, 1095, 1085, 1086, 1089, 1090, 1100], u ''ishtiyot'', u ''ishonch'', u ''xavfsiz'']"

definition LEX_RISK :: "pystr list" where
  "LEX_RISK = [[1073, 1086, 1102, 1089, 1100], [1089, 1090, 1088, 1072, 1096, 1085, 1086], [1086, 1087,
       1072, 1089, 1085, 1086], [1086, 1087, 1072, 1089, 1085, 1086, 1089, 1090, 1100], [1084, 1086, 1096,
       1077, 1085, 1085, 1080, 1082, 1080], [1084, 1086, 1096, 1077, 1085, 1085, 1080, 1082], [1086, 1073,
       1084, 1072, 1085], [1086, 1073, 1084, 1072, 1085, 1099, 1074, 1072, 1102, 1090], [1086, 1096, 1080,
       1073, 1082, 1072], [1086, 1096, 1080, 1073, 1082, 1091], [1087, 1086, 1090, 1077, 1088, 1103, 1090,
       1100], [1087, 1086, 1090, 1077, 1088, 1103, 1083], [1073, 1083, 1086, 1082, 1080, 1088, 1086, 1074,
       1082, 1072], [1079, 1072, 1073, 1083, 1086, 1082, 1080, 1088, 1086, 1074, 1072, 1083, 1080], [1088,
       1080, 1089, 1082], [1088, 1080, 1089, 1082, 1080], [1091, 1075, 1088, 1086, 1079, 1072], [1086,
       1087, 1072, 1089, 1072, 1102, 1089, 1100], u ''xavf'', u ''aldov'', u ''firibgar'', u ''scam'',
       u ''fraud'']"

definition LEX_CONVENIENCE :: "pystr list" where
  "LEX_CONVENIENCE = [[1091, 1076, 1086, 1073, 1085, 1086], [1091, 1076, 1086, 1073, 1085, 1099, 1081],
       [1091, 1076, 1086, 1073, 1085, 1077, 1077], [1073, 1099, 1089, 1090, 1088, 1086], [1073, 1099, 1089,
       1090, 1088, 1077, 1077], [1083, 1077, 1075, 1082, 1086], [1083, 1105, 1075, 1082, 1086], [1087,
       1086, 1085, 1103, 1090, 1085, 1086], [1087, 1086, 1085, 1103, 1090, 1085, 1099, 1081], [1076, 1086,
       1089, 1090, 1091, 1087, 1085, 1086], [1080, 1085, 1090, 1091, 1080, 1090, 1080, 1074, 1085, 1086],
       u ''qulay'', u ''tez'', u ''oson'', u ''easy'', u ''fast'', u ''simple'']"

definition LEX_NEGATIVE :: "pystr list" where
  "LEX_NEGATIVE = [[1073, 1077, 1089, 1080, 1090], [1089, 1083, 1086, 1078, 1085, 1086], [1089, 1083, 1086,
       1078, 1085, 1099, 1081], [1076, 1086, 1083, 1075, 1086], [1085, 1077, 1087, 1086, 1085, 1103, 1090,
       1085, 1086], [1085, 1077, 1091, 1076, 1086, 1073, 1085, 1086], [1088, 1072, 1079, 1076, 1088, 1072,
       1078, 1072, 1077, 1090], [1087, 1088, 1086, 1073, 1083, 1077, 1084, 1072], [1087, 1088, 1086, 1073,
       1083, 1077, 1084, 1099], [1091, 1078, 1072, 1089, 1085, 1086], [1087, 1083, 1086, 1093, 1086],
       [1086, 1090, 1074, 1088, 1072, 1090, 1080, 1090, 1077, 1083, 1100, 1085, 1086], u ''noqulay'',
       u ''tushunarsiz'', u ''annoying'', u ''confusing'', u ''slow'']"

definition LEX_MONEY :: "pystr list" where
  "LEX_MONEY = [[1082, 1086, 1084, 1080, 1089, 1089, 1080, 1103], [1082, 1086, 1084, 1080, 1089, 1089,
       1080, 1080], [1073, 1077, 1089, 1087, 1083, 1072, 1090, 1085, 1086], [1076, 1086, 1088, 1086, 1075,
       1086], [1076, 1077, 1096, 1077, 1074, 1086], [1074, 1099, 1075, 1086, 1076, 1085, 1086], [1082,
       1077, 1096, 1073, 1101, 1082], [1082, 1101, 1096, 1073, 1101, 1082], [1087, 1077, 1088, 1077, 1074,
       1086, 1076], [1086, 1087, 1083, 1072, 1090, 1072], [1087, 1083, 1072, 1090, 1105, 1078], [1087,
       1083, 1072, 1090, 1077, 1078], [1090, 1072, 1088, 1080, 1092], [1089, 1090, 1086, 1080, 1084, 1086,
       1089, 1090, 1100], [1094, 1077, 1085, 1072], u ''komissiya'', u ''bepul'', u ''qimmat'',
       u ''arzon'', u ''fee'', u ''free'', u ''expensive'', u ''cashback'']"

definition LEX_BRAND :: "pystr list" where
  "LEX_BRAND = [[1089, 1083, 1099, 1096, 1072, 1083], [1089, 1083, 1099, 1096, 1072, 1083, 1072], [1088,
       1077, 1082, 1086, 1084, 1077, 1085, 1076, 1086, 1074, 1072, 1083, 1080], [1088, 1077, 1082, 1086,
       1084, 1077, 1085, 1076, 1091, 1102, 1090], [1079, 1085, 1072, 1082, 1086, 1084, 1099, 1077], [1086,
       1090, 1079, 1099, 1074, 1099], [1086, 1090, 1079, 1099, 1074], [1073, 1088, 1077, 1085, 1076],
       u ''recommend'', u ''reviews'', u ''review'', u ''heard'']"

definition PHRASES_RAW :: "(pystr \<times> string) list" where
  "PHRASES_RAW = [([1085, 1077, 32, 1076, 1086, 1074, 1077, 1088, 1103, 1102], ''trust''), ([1085, 1077,
       32, 1076, 1086, 1074, 1077, 1088, 1103, 1077, 1084], ''trust''), ([1085, 1077, 32, 1076, 1086, 1074,
       1077, 1088, 1103, 1102, 1090], ''trust''), ([1073, 1086, 1102, 1089, 1100, 32, 1084, 1086, 1096,
       1077, 1085, 1085, 1080, 1082, 1086, 1074], ''risk''), ([1073, 1086, 1102, 1089, 1100, 32, 1086,
       1073, 1084, 1072, 1085, 1072], ''risk''), ([1091, 1076, 1086, 1073, 1085, 1086, 32, 1087, 1086,
       1083, 1100, 1079, 1086, 1074, 1072, 1090, 1100, 1089, 1103], ''convenience''), ([1073, 1077, 1079,
       32, 1082, 1086, 1084, 1080, 1089, 1089, 1080, 1080], ''money''), ([1073, 1077, 1079, 32, 1082, 1086,
       1084, 1080, 1089, 1089, 1080, 1103], ''money''), ([1076, 1086, 1083, 1075, 1086, 32, 1075, 1088,
       1091, 1079, 1080, 1090, 1089, 1103], ''negative''), ([1088, 1077, 1082, 1086, 1084, 1077, 1085,
       1076, 1086, 1074, 1072, 1083, 1080, 32, 1076, 1088, 1091, 1079, 1100, 1103], ''brand''), ([1085,
       1077, 32, 1087, 1086, 1085, 1080, 1084, 1072, 1102], ''negative''), ([1085, 1077, 32, 1087, 1086,
       1085, 1103, 1090, 1085, 1086], ''negative''), ([1085, 1077, 1091, 1076, 1086, 1073, 1085, 1086, 32,
       1087, 1086, 1083, 1100, 1079, 1086, 1074, 1072, 1090, 1100, 1089, 1103], ''negative''), ([1086,
       1095, 1077, 1085, 1100, 32, 1076, 1086, 1088, 1086, 1075, 1086], ''money''), ([1086, 1095, 1077,
       1085, 1100, 32, 1091, 1076, 1086, 1073, 1085, 1086], ''convenience''), ([1085, 1077, 32, 1073, 1077,
       1079, 1086, 1087, 1072, 1089, 1085, 1086], ''risk''), (u ''do not trust'', ''trust''), ([100, 111,
       110, 39, 116, 32, 116, 114, 117, 115, 116], ''trust''), (u ''no commission'', ''money''),
       (u ''loads slowly'', ''negative''), (u ''friends recommended'', ''brand'')]"

text \<open>The seeds of a category; the words of brands are only looked up as tokens of the brand.\<close>

definition UNIGRAMS :: "string \<Rightarrow> pystr list" where
  "UNIGRAMS cat = (if cat = ''trust'' then LEX_TRUST else if cat = ''risk'' then LEX_RISK
     else if cat = ''convenience'' then LEX_CONVENIENCE else if cat = ''negative'' then LEX_NEGATIVE
     else if cat = ''money'' then LEX_MONEY else if cat = ''brand'' then LEX_BRAND else [])"

definition ALL_LEX_STOP :: "pystr list" where
  "ALL_LEX_STOP = DASH_STOPWORDS @ PR_FILLERS_RU @ PR_FILLERS_UZ @ PR_GENERIC @ PR_STOP_EXTRA"

section \<open>Text\<close>

definition norm_text :: "env \<Rightarrow> pystr \<Rightarrow> pystr" where
  "norm_text env s = map (\<lambda>c. if c = 1105 then 1077 else c) (lower env s)"

definition norm_phrase :: "env \<Rightarrow> pystr \<Rightarrow> pystr" where
  "norm_phrase env s = join [32] (map (norm_text env) (runs (\<lambda>c. \<not> is_space c) s))"

text \<open>The interview of a chunk: its document, its transcript, its audio file, or the chunk itself.\<close>

definition chunk_interview_key :: "text_chunk \<Rightarrow> string \<times> uuid" where
  "chunk_interview_key ch =
     (case ch_document_id ch of Some i \<Rightarrow> (''doc'', i) | None \<Rightarrow>
      (case ch_transcript_id ch of Some i \<Rightarrow> (''tr'', i) | None \<Rightarrow>
       (case ch_audio_id ch of Some i \<Rightarrow> (''aud'', i) | None \<Rightarrow> (''ch'', ch_id ch))))"

text \<open>\<^verbatim>\<open>s.find(t)\<close>.\<close>

definition first_at :: "pystr \<Rightarrow> pystr \<Rightarrow> nat option" where
  "first_at t s = List.find (\<lambda>i. take (length t) (drop i s) = t) [0..<Suc (length s)]"

definition snippet :: "env \<Rightarrow> pystr \<Rightarrow> pystr \<Rightarrow> pystr" where
  "snippet env s needle =
     (let t = strip s in
      if t = [] then []
      else case first_at (norm_text env needle) (norm_text env t) of
        None \<Rightarrow> take 280 t
      | Some i \<Rightarrow> take 480 (strip (map (\<lambda>c. if c = 10 then 32 else c)
          (Prelude.slice t (i - 70) (min (length t) (i + length needle + 70))))))"

definition lex_tokens :: "env \<Rightarrow> dash \<Rightarrow> pystr \<Rightarrow> pystr list" where
  "lex_tokens env da s = map (norm_text env) (filter (\<lambda>w. 2 < length w) (runs (da_word da) s))"

definition dedupe_phrases :: "env \<Rightarrow> (pystr \<times> string) list \<Rightarrow> (pystr \<times> string) list" where
  "dedupe_phrases env ps = keep_first (norm_phrase env \<circ> fst) [[]] (sort_key (\<lambda>p. - int (length (fst p))) ps)"

definition PHRASES :: "env \<Rightarrow> (pystr \<times> string) list" where
  "PHRASES env = dedupe_phrases env PHRASES_RAW"

definition without_suffix :: "pystr list \<Rightarrow> pystr \<Rightarrow> pystr option" where
  "without_suffix sufs w = map_option (\<lambda>s. take (length w - length s) w)
     (List.find (\<lambda>s. suffix s w \<and> length s + 2 < length w) sufs)"

definition light_stem_ru :: "pystr \<Rightarrow> pystr" where
  "light_stem_ru w =
     (if length w < 5 then w
      else case without_suffix [[1072, 1084, 1080], [1103, 1084, 1080], [1072, 1093], [1103, 1093], [1086, 1074], [1077, 1074], [1072, 1084], [1077, 1084], [1086, 1084], [1086, 1081], [1099, 1081], [1072, 1103], [1086, 1077], [1099, 1077], [1080, 1077]] w of
        Some s \<Rightarrow> s
      | None \<Rightarrow> (case without_suffix [[1086, 1089, 1090, 1100], [1077, 1085, 1080, 1077], [1072,
       1085, 1080, 1077], [1085, 1080, 1077]] w of Some s \<Rightarrow> s | None \<Rightarrow> w))"

definition lemma_key :: "env \<Rightarrow> pystr \<Rightarrow> pystr" where
  "lemma_key env w = (let n = norm_text env w in
     if list_ex (\<lambda>c. 1072 \<le> c \<and> c \<le> 1103 \<or> c = 1105) n then light_stem_ru n else n)"

section \<open>Signals\<close>

record lex_row =
  lr_term :: pystr
  lr_category :: string
  lr_count :: nat
  lr_coverage :: nat
  lr_pct :: rat
  lr_quotes :: "(pystr \<times> uuid option \<times> uuid) list"

record lexicon_signals =
  ls_has_signals :: bool
  ls_interview_count :: nat
  ls_by_category :: "(string \<times> lex_row list) list"
  ls_flat :: "lex_row list"

text \<open>The words of a brand, longer than two characters.\<close>

definition brand_unigrams :: "env \<Rightarrow> dash \<Rightarrow> pystr list \<Rightarrow> pystr list" where
  "brand_unigrams env da brands =
     filter (\<lambda>t. 2 < length t) (map (norm_text env) (concat (map (runs (da_word da) \<circ> norm_text env)
       (filter (\<lambda>b. strip b \<noteq> []) brands))))"

text \<open>A hit: term and category, the chunk, a quote.\<close>

type_synonym lex_hit = "(pystr \<times> string) \<times> text_chunk \<times> pystr"

definition phrase_hits :: "env \<Rightarrow> text_chunk \<Rightarrow> lex_hit list" where
  "phrase_hits env ch =
     (let padded = [32] @ collapse (norm_text env (ch_text ch)) @ [32] in
      map (\<lambda>(p, cat). ((p, cat), ch, snippet env (ch_text ch) (norm_phrase env p)))
        (filter (\<lambda>(p, cat). 4 \<le> length (norm_phrase env p) \<and> sublist ([32] @ norm_phrase env p @ [32]) padded) (PHRASES env)))"

definition seed_category :: "env \<Rightarrow> pystr \<Rightarrow> string option" where
  "seed_category env tok =
     List.find (\<lambda>cat. cat \<noteq> ''brand'' \<and> (tok \<in> set (UNIGRAMS cat) \<or> lemma_key env tok \<in> set (UNIGRAMS cat))) CATEGORIES_ORDER"

definition token_category :: "env \<Rightarrow> pystr list \<Rightarrow> pystr \<Rightarrow> string option" where
  "token_category env brand tok = (if tok \<in> set brand then Some ''brand'' else seed_category env tok)"

definition token_hits :: "env \<Rightarrow> dash \<Rightarrow> pystr list \<Rightarrow> text_chunk \<Rightarrow> lex_hit list" where
  "token_hits env da brand ch =
     concat (map (\<lambda>tok. case token_category env brand tok of None \<Rightarrow> []
         | Some cat \<Rightarrow> [((tok, cat), ch, snippet env (ch_text ch) tok)])
       (filter (\<lambda>t. t \<notin> set ALL_LEX_STOP) (lex_tokens env da (ch_text ch))))"

definition chunk_hits :: "env \<Rightarrow> dash \<Rightarrow> pystr list \<Rightarrow> text_chunk \<Rightarrow> lex_hit list" where
  "chunk_hits env da brand ch =
     (if length (ch_text ch) < 8 then [] else phrase_hits env ch @ token_hits env da brand ch)"

definition lex_row_of :: "nat \<Rightarrow> (pystr \<times> string) \<times> lex_hit list \<Rightarrow> lex_row" where
  "lex_row_of ic g =
     (let cov = card (set (map (\<lambda>(k, ch, q). chunk_interview_key ch) (snd g))) in
      \<lparr>lr_term = fst (fst g), lr_category = snd (fst g), lr_count = length (snd g), lr_coverage = cov, lr_pct = pct cov ic,
       lr_quotes = map (\<lambda>(k, ch, q). (q, ch_transcript_id ch, ch_id ch)) (take 3 (filter (\<lambda>(k, ch, q). q \<noteq> []) (snd g)))\<rparr>)"

definition by_count :: "lex_row \<Rightarrow> int \<times> pystr" where
  "by_count r = (- int (lr_count r), lr_term r)"

definition lex_hits :: "env \<Rightarrow> dash \<Rightarrow> pystr list \<Rightarrow> text_chunk list \<Rightarrow> lex_hit list" where
  "lex_hits env da brands cs = concat (map (chunk_hits env da (brand_unigrams env da brands)) cs)"

definition lex_rows :: "nat \<Rightarrow> lex_hit list \<Rightarrow> lex_row list" where
  "lex_rows ic hits = map (lex_row_of ic) (sort_key (\<lambda>(k, hs). - int (length hs)) (groups_of fst hits))"

definition build_pr_lexicon_signals_from_chunks :: "env \<Rightarrow> dash \<Rightarrow> nat \<Rightarrow> pystr list \<Rightarrow> nat \<Rightarrow> text_chunk list \<Rightarrow> lexicon_signals" where
  "build_pr_lexicon_signals_from_chunks env da interviews brands per cs =
     (let ic = max 1 interviews; rows = lex_rows ic (lex_hits env da brands cs);
          cats = map (\<lambda>c. (c, take per (sort_key by_count (filter (\<lambda>r. lr_category r = c) rows)))) CATEGORIES_ORDER
      in \<lparr>ls_has_signals = (0 < sum_list (map (length \<circ> snd) cats)), ls_interview_count = ic, ls_by_category = cats,
          ls_flat = take (per * length CATEGORIES_ORDER) (sort_key by_count rows)\<rparr>)"

text \<open>For a dashboard: the first 800 chunks in scope, fourteen rows of a category.\<close>

definition pr_lexicon_signals_for_scope :: "env \<Rightarrow> dash \<Rightarrow> nat \<Rightarrow> pystr \<Rightarrow> text_chunk list \<Rightarrow> lexicon_signals" where
  "pr_lexicon_signals_for_scope env da interviews brand cs =
     build_pr_lexicon_signals_from_chunks env da interviews (if strip brand \<noteq> [] then [strip brand] else []) 14 (take 800 cs)"

section \<open>Comments on an entity\<close>

definition pr_fields_for_entity :: "extracted_entity \<Rightarrow> pystr \<times> pystr" where
  "pr_fields_for_entity e =
     (let title = take 200 (strip (en_title e)); et = en_type e in
      if et = RISK then
        ([1057, 1080, 1075, 1085, 1072, 1083, 32, 171] @ title @ [187, 32, 1087, 1086, 1074, 1099, 1096,
       1072, 1077, 1090, 32, 1095, 1091, 1074, 1089, 1090, 1074, 1080, 1090, 1077, 1083, 1100, 1085, 1086,
       1089, 1090, 1100, 32, 1072, 1091, 1076, 1080, 1090, 1086, 1088, 1080, 1080, 32, 1082, 32, 1085,
       1077, 1075, 1072, 1090, 1080, 1074, 1085, 1086, 1084, 1091, 32, 1089, 1094, 1077, 1085, 1072, 1088,
       1080, 1102, 32, 1074, 1086, 1082, 1088, 1091, 1075, 32, 1073, 1088, 1077, 1085, 1076, 1072, 32,
       1080, 32, 1084, 1086, 1078, 1077, 1090, 32, 1091, 1089, 1080, 1083, 1080, 1090, 1100, 32, 1089,
       1082, 1077, 1087, 1089, 1080, 1089, 32, 1074, 32, 1057, 1052, 1048, 32, 1080, 32, 1089, 1086, 1094,
       1089, 1077, 1090, 1103, 1093, 44, 32, 1077, 1089, 1083, 1080, 32, 1090, 1077, 1084, 1091, 32, 1085,
       1077, 32, 1079, 1072, 1082, 1088, 1099, 1090, 1100, 32, 1082, 1086, 1084, 1084, 1091, 1085, 1080,
       1082, 1072, 1094, 1080, 1086, 1085, 1085, 1086, 46],
         [1047, 1072, 1092, 1080, 1082, 1089, 1080, 1088, 1086, 1074, 1072, 1090, 1100, 32, 1092, 1072,
       1082, 1090, 1080, 1095, 1077, 1089, 1082, 1080, 1081, 32, 1082, 1086, 1085, 1090, 1091, 1088, 32,
       1088, 1080, 1089, 1082, 1072, 44, 32, 1087, 1086, 1076, 1075, 1086, 1090, 1086, 1074, 1080, 1090,
       1100, 32, 81, 38, 65, 32, 1080, 32, 1076, 1077, 1088, 1078, 1072, 1090, 1077, 1083, 1103, 32, 1083,
       1080, 1085, 1080, 1080, 59, 32, 1080, 1079, 1073, 1077, 1075, 1072, 1090, 1100, 32, 1088, 1072,
       1079, 1084, 1099, 1090, 1099, 1093, 32, 1086, 1073, 1077, 1097, 1072, 1085, 1080, 1081, 32, 8212,
       32, 1086, 1087, 1077, 1088, 1077, 1090, 1100, 1089, 1103, 32, 1085, 1072, 32, 1087, 1088, 1086,
       1074, 1077, 1088, 1103, 1077, 1084, 1099, 1077, 32, 1092, 1086, 1088, 1084, 1091, 1083, 1080, 1088,
       1086, 1074, 1082, 1080, 32, 1080, 32, 1077, 1076, 1080, 1085, 1099, 1081, 32, 1090, 1086, 1085, 32,
       1074, 1086, 32, 1074, 1089, 1077, 1093, 32, 1082, 1072, 1085, 1072, 1083, 1072, 1093, 46])
      else if et = TRUST_ISSUE then
        ([1058, 1077, 1084, 1072, 32, 171] @ title @ [187, 32, 1073, 1100, 1105, 1090, 32, 1087, 1086, 32,
       1076, 1086, 1074, 1077, 1088, 1080, 1102, 58, 32, 1087, 1088, 1080, 32, 1089, 1083, 1072, 1073,
       1086, 1084, 32, 1086, 1090, 1074, 1077, 1090, 1077, 32, 1088, 1072, 1089, 1090, 1105, 1090, 32,
       1088, 1072, 1079, 1088, 1099, 1074, 32, 1084, 1077, 1078, 1076, 1091, 32, 1086, 1078, 1080, 1076,
       1072, 1085, 1080, 1103, 1084, 1080, 32, 1080, 32, 1085, 1072, 1088, 1088, 1072, 1090, 1080, 1074,
       1086, 1084, 32, 1073, 1088, 1077, 1085, 1076, 1072, 46],
         [1057, 1084, 1077, 1089, 1090, 1080, 1090, 1100, 32, 1072, 1082, 1094, 1077, 1085, 1090, 32, 1085,
       1072, 32, 1087, 1088, 1086, 1079, 1088, 1072, 1095, 1085, 1086, 1089, 1090, 1100, 32, 1087, 1088,
       1086, 1094, 1077, 1089, 1089, 1086, 1074, 32, 1080, 32, 1082, 1086, 1085, 1090, 1088, 1086, 1083,
       1100, 32, 1076, 1083, 1103, 32, 1087, 1086, 1083, 1100, 1079, 1086, 1074, 1072, 1090, 1077, 1083,
       1103, 59, 32, 1076, 1072, 1090, 1100, 32, 1089, 1087, 1080, 1082, 1077, 1088, 1091, 32, 1082, 1086,
       1088, 1086, 1090, 1082, 1080, 1077, 32, 1090, 1077, 1079, 1080, 1089, 1099, 32, 1073, 1077, 1079,
       1086, 1087, 1072, 1089, 1085, 1086, 1089, 1090, 1080, 32, 1080, 32, 1089, 1094, 1077, 1085, 1072,
       1088, 1080, 1080, 32, 1086, 1090, 1074, 1077, 1090, 1072, 32, 1085, 1072, 32, 1087, 1088, 1086,
       1074, 1086, 1082, 1072, 1094, 1080, 1086, 1085, 1085, 1099, 1077, 32, 1074, 1086, 1087, 1088, 1086,
       1089, 1099, 46])
      else if et = HYPOTHESIS then
        ([1043, 1080, 1087, 1086, 1090, 1077, 1079, 1072, 32, 171] @ title @ [187, 32, 1079, 1072, 1076,
       1072, 1105, 1090, 32, 1085, 1072, 1087, 1088, 1072, 1074, 1083, 1077, 1085, 1080, 1077, 44, 32,
       1074, 32, 1082, 1086, 1090, 1086, 1088, 1086, 1084, 32, 1084, 1086, 1078, 1077, 1090, 32, 1088,
       1072, 1079, 1074, 1077, 1088, 1085, 1091, 1090, 1100, 1089, 1103, 32, 1084, 1077, 1076, 1080, 1072,
       1087, 1086, 1083, 1077, 32, 8212, 32, 1087, 1086, 1083, 1077, 1079, 1085, 1086, 32, 1076, 1083,
       1103, 32, 1086, 1087, 1077, 1088, 1077, 1078, 1072, 1102, 1097, 1077, 1081, 32, 80, 82, 45, 1087,
       1086, 1076, 1075, 1086, 1090, 1086, 1074, 1082, 1080, 46],
         [1055, 1088, 1086, 1074, 1077, 1088, 1080, 1090, 1100, 32, 1086, 1073, 1089, 1091, 1078, 1076,
       1077, 1085, 1080, 1077, 32, 1090, 1077, 1084, 1099, 32, 1074, 32, 1076, 1086, 1074, 1077, 1088,
       1077, 1085, 1085, 1099, 1093, 32, 1082, 1072, 1085, 1072, 1083, 1072, 1093, 59, 32, 1087, 1088,
       1080, 32, 1087, 1086, 1076, 1090, 1074, 1077, 1088, 1078, 1076, 1077, 1085, 1080, 1080, 32, 1089,
       1080, 1075, 1085, 1072, 1083, 1072, 32, 8212, 32, 1087, 1086, 1076, 1075, 1086, 1090, 1086, 1074,
       1080, 1090, 1100, 32, 1087, 1086, 1079, 1080, 1094, 1080, 1102, 32, 1080, 32, 1080, 1085, 1092,
       1086, 1087, 1086, 1074, 1086, 1076, 1099, 44, 32, 1085, 1077, 32, 1089, 1084, 1077, 1096, 1080,
       1074, 1072, 1103, 32, 1075, 1080, 1087, 1086, 1090, 1077, 1079, 1091, 32, 1089, 32, 1087, 1086,
       1076, 1090, 1074, 1077, 1088, 1078, 1076, 1105, 1085, 1085, 1099, 1084, 32, 1092, 1072, 1082, 1090,
       1086, 1084, 46])
      else if et = BEHAVIOR_PATTERN then
        ([1055, 1072, 1090, 1090, 1077, 1088, 1085, 32, 171] @ title @ [187, 32, 1087, 1086, 1082, 1072,
       1079, 1099, 1074, 1072, 1077, 1090, 44, 32, 1082, 1072, 1082, 32, 1072, 1091, 1076, 1080, 1090,
       1086, 1088, 1080, 1103, 32, 1088, 1077, 1072, 1083, 1100, 1085, 1086, 32, 1087, 1086, 1090, 1088,
       1077, 1073, 1083, 1103, 1077, 1090, 32, 1080, 1085, 1092, 1086, 1088, 1084, 1072, 1094, 1080, 1102,
       32, 8212, 32, 1101, 1090, 1086, 32, 1086, 1087, 1088, 1077, 1076, 1077, 1083, 1103, 1077, 1090, 44,
       32, 1075, 1076, 1077, 32, 1073, 1088, 1077, 1085, 1076, 32, 1074, 1099, 1080, 1075, 1088, 1099,
       1074, 1072, 1077, 1090, 32, 1080, 1083, 1080, 32, 1087, 1088, 1086, 1080, 1075, 1088, 1099, 1074,
       1072, 1077, 1090, 32, 1074, 1085, 1080, 1084, 1072, 1085, 1080, 1077, 46],
         [1057, 1086, 1075, 1083, 1072, 1089, 1086, 1074, 1072, 1090, 1100, 32, 1087, 1088, 1080, 1086,
       1088, 1080, 1090, 1077, 1090, 32, 1082, 1072, 1085, 1072, 1083, 1086, 1074, 32, 1080, 32, 1092,
       1086, 1088, 1084, 1072, 1090, 1086, 1074, 32, 1082, 1086, 1084, 1084, 1091, 1085, 1080, 1082, 1072,
       1094, 1080, 1080, 32, 1089, 32, 1101, 1090, 1080, 1084, 32, 1087, 1072, 1090, 1090, 1077, 1088,
       1085, 1086, 1084, 59, 32, 1072, 1076, 1072, 1087, 1090, 1080, 1088, 1086, 1074, 1072, 1090, 1100,
       32, 1084, 1077, 1089, 1089, 1077, 1076, 1078, 1080, 32, 1087, 1086, 1076, 32, 1085, 1086, 1089,
       1080, 1090, 1077, 1083, 1080, 44, 32, 1082, 1086, 1090, 1086, 1088, 1099, 1084, 32, 1076, 1086,
       1074, 1077, 1088, 1103, 1102, 1090, 32, 1074, 32, 1080, 1085, 1090, 1077, 1088, 1074, 1100, 1102, 46])
      else if et = PROBLEM \<or> et = PAIN_POINT \<or> et = USER_NEED then
        ([1060, 1086, 1088, 1084, 1091, 1083, 1080, 1088, 1086, 1074, 1082, 1072, 32, 171] @ title @ [187,
       32, 1086, 1090, 1088, 1072, 1078, 1072, 1077, 1090, 32, 1086, 1078, 1080, 1076, 1072, 1085, 1080,
       1103, 32, 1080, 32, 1073, 1086, 1083, 1080, 32, 1072, 1091, 1076, 1080, 1090, 1086, 1088, 1080,
       1080, 32, 8212, 32, 1085, 1072, 1087, 1088, 1103, 1084, 1091, 1102, 32, 1074, 1083, 1080, 1103,
       1077, 1090, 32, 1085, 1072, 32, 1075, 1086, 1090, 1086, 1074, 1085, 1086, 1089, 1090, 1100, 32,
       1076, 1086, 1074, 1077, 1088, 1103, 1090, 1100, 32, 1092, 1080, 1085, 1090, 1077, 1093, 45, 1082,
       1086, 1084, 1084, 1091, 1085, 1080, 1082, 1072, 1094, 1080, 1103, 1084, 32, 1080, 32, 1074, 1086,
       1089, 1087, 1088, 1080, 1085, 1080, 1084, 1072, 1090, 1100, 32, 1086, 1092, 1080, 1094, 1080, 1072,
       1083, 1100, 1085, 1099, 1077, 32, 1089, 1086, 1086, 1073, 1097, 1077, 1085, 1080, 1103, 46],
         [1055, 1077, 1088, 1077, 1074, 1077, 1089, 1090, 1080, 32, 1073, 1086, 1083, 1100, 32, 1074, 32,
       1103, 1079, 1099, 1082, 32, 1074, 1099, 1075, 1086, 1076, 1099, 32, 1080, 32, 1082, 1086, 1085,
       1090, 1088, 1086, 1083, 1103, 32, 1073, 1077, 1079, 32, 1087, 1088, 1086, 1076, 1091, 1082, 1090,
       1086, 1074, 1086, 1075, 1086, 32, 171, 1092, 1080, 1082, 1089, 1080, 1084, 32, 1092, 1080, 1095,
       1077, 1081, 187, 59, 32, 1087, 1086, 1076, 1075, 1086, 1090, 1086, 1074, 1080, 1090, 1100, 32, 1082,
       1086, 1088, 1086, 1090, 1082, 1080, 1077, 32, 1086, 1090, 1074, 1077, 1090, 1099, 32, 1076, 1083,
       1103, 32, 1089, 1087, 1080, 1082, 1077, 1088, 1072, 32, 1080, 32, 1089, 1086, 1094, 1089, 1077,
       1090, 1077, 1081, 32, 1074, 32, 1090, 1086, 1085, 1077, 32, 1089, 1087, 1086, 1082, 1086, 1081,
       1085, 1086, 1081, 32, 1091, 1074, 1077, 1088, 1077, 1085, 1085, 1086, 1089, 1090, 1080, 46])
      else if et = ADOPTION_BARRIER then
        ([1041, 1072, 1088, 1100, 1077, 1088, 32, 171] @ title @ [187, 32, 1089, 1085, 1080, 1078, 1072,
       1077, 1090, 32, 1075, 1086, 1090, 1086, 1074, 1085, 1086, 1089, 1090, 1100, 32, 1082, 32, 1076,
       1077, 1081, 1089, 1090, 1074, 1080, 1102, 32, 8212, 32, 1088, 1080, 1089, 1082, 32, 1076, 1083,
       1103, 32, 1088, 1077, 1087, 1091, 1090, 1072, 1094, 1080, 1080, 32, 171, 1089, 1083, 1086, 1078,
       1085, 1086, 1075, 1086, 187, 32, 1080, 1083, 1080, 32, 171, 1085, 1077, 1087, 1088, 1086, 1079,
       1088, 1072, 1095, 1085, 1086, 1075, 1086, 187, 32, 1089, 1077, 1088, 1074, 1080, 1089, 1072, 46],
         [1056, 1072, 1079, 1083, 1086, 1078, 1080, 1090, 1100, 32, 1073, 1072, 1088, 1100, 1077, 1088, 32,
       1085, 1072, 32, 1082, 1086, 1084, 1084, 1091, 1085, 1080, 1082, 1072, 1094, 1080, 1086, 1085, 1085,
       1099, 1077, 32, 1091, 1079, 1083, 1099, 58, 32, 1095, 1090, 1086, 32, 1086, 1073, 1098, 1103, 1089,
       1085, 1080, 1090, 1100, 32, 1087, 1077, 1088, 1074, 1099, 1084, 44, 32, 1075, 1076, 1077, 32, 1076,
       1072, 1090, 1100, 32, 1087, 1086, 1076, 1090, 1074, 1077, 1088, 1078, 1076, 1077, 1085, 1080, 1077,
       32, 1076, 1086, 1074, 1077, 1088, 1080, 1103, 59, 32, 1085, 1077, 32, 1089, 1087, 1086, 1088, 1080,
       1090, 1100, 32, 1089, 32, 1101, 1084, 1086, 1094, 1080, 1077, 1081, 32, 8212, 32, 1089, 1085, 1080,
       1084, 1072, 1090, 1100, 32, 1077, 1105, 32, 1092, 1072, 1082, 1090, 1091, 1088, 1086, 1081, 32,
       1080, 32, 1089, 1094, 1077, 1085, 1072, 1088, 1080, 1103, 1084, 1080, 46])
      else if et = OPEN_QUESTION \<or> et = SENTIMENT_SIGNAL then
        ([1057, 1080, 1075, 1085, 1072, 1083, 32, 171] @ title @ [187, 32, 1079, 1072, 1076, 1072, 1105,
       1090, 32, 1079, 1086, 1085, 1091, 32, 1085, 1077, 1086, 1087, 1088, 1077, 1076, 1077, 1083, 1105,
       1085, 1085, 1086, 1089, 1090, 1080, 32, 1074, 32, 1075, 1086, 1083, 1086, 1074, 1077, 32, 1072,
       1091, 1076, 1080, 1090, 1086, 1088, 1080, 1080, 32, 8212, 32, 1090, 1072, 1084, 32, 1083, 1077,
       1075, 1082, 1086, 32, 1087, 1086, 1103, 1074, 1083, 1103, 1102, 1090, 1089, 1103, 32, 1089, 1083,
       1091, 1093, 1080, 32, 1080, 32, 1080, 1089, 1082, 1072, 1078, 1077, 1085, 1080, 1103, 46],
         [1047, 1072, 1092, 1080, 1082, 1089, 1080, 1088, 1086, 1074, 1072, 1090, 1100, 32, 1074, 1086,
       1087, 1088, 1086, 1089, 32, 1074, 32, 81, 38, 65, 59, 32, 1087, 1088, 1080, 32, 1087, 1086, 1103,
       1074, 1083, 1077, 1085, 1080, 1080, 32, 1074, 32, 1084, 1077, 1076, 1080, 1072, 1087, 1086, 1083,
       1077, 32, 8212, 32, 1073, 1099, 1089, 1090, 1088, 1099, 1081, 32, 1092, 1072, 1082, 1090, 1080,
       1095, 1077, 1089, 1082, 1080, 1081, 32, 1086, 1090, 1074, 1077, 1090, 32, 1080, 32, 1077, 1076,
       1080, 1085, 1072, 1103, 32, 1083, 1080, 1085, 1080, 1103, 32, 1076, 1083, 1103, 32, 1082, 1086,
       1084, 1072, 1085, 1076, 1099, 46])
      else 
        ([1045, 1076, 1080, 1085, 1080, 1094, 1072, 32, 171] @ title @ [187, 32, 1074, 1083, 1080, 1103,
       1077, 1090, 32, 1085, 1072, 32, 1090, 1086, 44, 32, 1082, 1072, 1082, 32, 1072, 1091, 1076, 1080,
       1090, 1086, 1088, 1080, 1103, 32, 1095, 1080, 1090, 1072, 1077, 1090, 32, 1073, 1088, 1077, 1085,
       1076, 32, 1074, 32, 1087, 1086, 1074, 1077, 1089, 1090, 1082, 1077, 59, 32, 1089, 1090, 1086, 1080,
       1090, 32, 1103, 1074, 1085, 1086, 32, 1087, 1088, 1080, 1074, 1103, 1079, 1072, 1090, 1100, 32,
       1077, 1105, 32, 1082, 32, 1083, 1080, 1085, 1080, 1080, 32, 1082, 1086, 1084, 1084, 1091, 1085,
       1080, 1082, 1072, 1094, 1080, 1081, 44, 32, 1072, 32, 1085, 1077, 32, 1086, 1089, 1090, 1072, 1074,
       1083, 1103, 1090, 1100, 32, 1090, 1086, 1083, 1100, 1082, 1086, 32, 1074, 32, 1080, 1089, 1089,
       1083, 1077, 1076, 1086, 1074, 1072, 1090, 1077, 1083, 1100, 1089, 1082, 1080, 1093, 32, 1079, 1072,
       1084, 1077, 1090, 1082, 1072, 1093, 46],
         [1057, 1092, 1086, 1088, 1084, 1091, 1083, 1080, 1088, 1086, 1074, 1072, 1090, 1100, 32, 1086,
       1076, 1080, 1085, 32, 1103, 1089, 1085, 1099, 1081, 32, 1084, 1077, 1089, 1089, 1077, 1076, 1078,
       32, 1076, 1083, 1103, 32, 1074, 1085, 1077, 1096, 1085, 1080, 1093, 32, 1082, 1072, 1085, 1072,
       1083, 1086, 1074, 32, 1080, 32, 1087, 1088, 1086, 1074, 1077, 1088, 1080, 1090, 1100, 44, 32, 1085,
       1077, 32, 1087, 1088, 1086, 1090, 1080, 1074, 1086, 1088, 1077, 1095, 1080, 1090, 32, 1083, 1080,
       32, 1086, 1085, 32, 1076, 1088, 1091, 1075, 1080, 1084, 32, 1086, 1087, 1086, 1088, 1085, 1099,
       1084, 32, 1090, 1077, 1079, 1080, 1089, 1072, 1084, 32, 1073, 1088, 1077, 1085, 1076, 1072, 46]))"

section \<open>Rows\<close>

lemma lex_rows_mset:
  "mset (lex_rows ic hits) = mset (map (\<lambda>k. lex_row_of ic (k, filter (\<lambda>h. fst h = k) hits)) (first_occ (map fst hits)))"
proof -
  have "mset (map g (sort_key f xs)) = mset (map g xs)" for g :: "(pystr \<times> string) \<times> lex_hit list \<Rightarrow> lex_row"
      and f :: "(pystr \<times> string) \<times> lex_hit list \<Rightarrow> int" and xs
    by (simp only: mset_map mset_sort)
  then show ?thesis by (simp only: lex_rows_def groups_of_eq map_map o_def)
qed

text \<open>A row counts at least one hit, of at most as many interviews, and shows at most three quotes.\<close>

definition proper_row :: "lex_row \<Rightarrow> bool" where
  "proper_row r \<longleftrightarrow> 1 \<le> lr_coverage r \<and> lr_coverage r \<le> lr_count r \<and> length (lr_quotes r) \<le> 3"

lemma lex_row_proper: "hs \<noteq> [] \<Longrightarrow> proper_row (lex_row_of ic (k, hs))"
  using card_length [of "map (\<lambda>(k, ch, q). chunk_interview_key ch) hs"]
  by (simp add: proper_row_def lex_row_of_def Let_def card_gt_0_iff Suc_le_eq)

lemma lex_rows_proper: "r \<in> set (lex_rows ic hits) \<Longrightarrow> proper_row r"
proof -
  assume "r \<in> set (lex_rows ic hits)"
  then have "r \<in> set_mset (mset (lex_rows ic hits))" by simp
  then obtain k where k: "k \<in> set (map fst hits)" "r = lex_row_of ic (k, filter (\<lambda>h. fst h = k) hits)"
    unfolding lex_rows_mset by auto
  have "filter (\<lambda>h. fst h = k) hits \<noteq> []" using k(1) by (auto simp: filter_empty_conv)
  then show ?thesis using k(2) lex_row_proper by blast
qed

text \<open>
  The lexicon of a study: every row counts at least one hit, its interviews are at most its hits,
  it shows at most three quotes; rows come by falling count and then by term, in their category, at most
  so many of one category.
\<close>

definition proper_lexicon :: "nat \<Rightarrow> lexicon_signals \<Rightarrow> bool" where
  "proper_lexicon per s \<longleftrightarrow> list_all proper_row (ls_flat s) \<and> sorted (map by_count (ls_flat s))
     \<and> map fst (ls_by_category s) = CATEGORIES_ORDER
     \<and> list_all (\<lambda>(c, rs). length rs \<le> per \<and> sorted (map by_count rs) \<and> list_all (\<lambda>r. lr_category r = c \<and> proper_row r) rs)
         (ls_by_category s)"

lemma sorted_take_by: "sorted (map f (take n (sort_key f xs)))"
  by (metis sorted_sort_key sorted_wrt_take take_map)

theorem lexicon_is_proper: "proper_lexicon per (build_pr_lexicon_signals_from_chunks env da interviews brands per cs)"
  using lex_rows_proper
  by (auto simp: proper_lexicon_def build_pr_lexicon_signals_from_chunks_def Let_def list_all_iff sorted_take_by o_def
      dest!: in_set_takeD)

section \<open>What is counted\<close>

text \<open>
  The uses of a term under a category in a chunk, said over the text alone: a known phrase of four
  characters or more between blanks is one use, and so is every word of three characters or more that is
  no stop word and means the category. The words of a brand mean the brand; any other word means the
  first category whose seeds have it or its stem.
\<close>

definition uses_phrase :: "env \<Rightarrow> text_chunk \<Rightarrow> pystr \<Rightarrow> string \<Rightarrow> bool" where
  "uses_phrase env ch t c \<longleftrightarrow> (t, c) \<in> set (PHRASES env) \<and> 4 \<le> length (norm_phrase env t)
     \<and> sublist ([32] @ norm_phrase env t @ [32]) ([32] @ collapse (norm_text env (ch_text ch)) @ [32])"

definition of_brand :: "env \<Rightarrow> dash \<Rightarrow> pystr list \<Rightarrow> pystr \<Rightarrow> bool" where
  "of_brand env da brands t \<longleftrightarrow> 2 < length t
     \<and> list_ex (\<lambda>b. strip b \<noteq> [] \<and> list_ex (\<lambda>p. norm_text env p = t) (runs (da_word da) (norm_text env b))) brands"

definition seeded :: "env \<Rightarrow> pystr \<Rightarrow> string \<Rightarrow> bool" where
  "seeded env t c \<longleftrightarrow> t \<in> set (UNIGRAMS c) \<or> lemma_key env t \<in> set (UNIGRAMS c)"

definition means :: "env \<Rightarrow> dash \<Rightarrow> pystr list \<Rightarrow> pystr \<Rightarrow> string \<Rightarrow> bool" where
  "means env da brands t c \<longleftrightarrow> t \<notin> set ALL_LEX_STOP
     \<and> (if of_brand env da brands t then c = ''brand''
        else c \<in> set [''trust'', ''risk'', ''convenience'', ''negative'', ''money''] \<and> seeded env t c
          \<and> list_all (\<lambda>e. \<not> seeded env t e) (takeWhile (\<lambda>e. e \<noteq> c) CATEGORIES_ORDER))"

definition uses :: "env \<Rightarrow> dash \<Rightarrow> pystr list \<Rightarrow> pystr \<Rightarrow> string \<Rightarrow> text_chunk \<Rightarrow> nat" where
  "uses env da brands t c ch =
     (if length (ch_text ch) < 8 then 0
      else (if uses_phrase env ch t c then 1 else 0)
        + (if means env da brands t c
           then length (filter (\<lambda>w. 2 < length w \<and> norm_text env w = t) (runs (da_word da) (ch_text ch))) else 0))"

lemma set_brand_unigrams: "t \<in> set (brand_unigrams env da brands) \<longleftrightarrow> of_brand env da brands t"
  by (auto simp: brand_unigrams_def of_brand_def list_ex_iff)

lemma token_means: "t \<notin> set ALL_LEX_STOP \<and> token_category env (brand_unigrams env da brands) t = Some c \<longleftrightarrow> means env da brands t c"
proof -
  have "seed_category env t = Some c \<longleftrightarrow> c \<in> set [''trust'', ''risk'', ''convenience'', ''negative'', ''money''] \<and> seeded env t c
      \<and> list_all (\<lambda>e. \<not> seeded env t e) (takeWhile (\<lambda>e. e \<noteq> c) CATEGORIES_ORDER)"
    unfolding seed_category_def seeded_def [symmetric] CATEGORIES_ORDER_def by auto
  then show ?thesis by (auto simp: token_category_def means_def set_brand_unigrams)
qed

lemma token_hits_of:
  "length (filter (\<lambda>h. fst h = (t, c)) (concat (map (\<lambda>tok. case f tok of None \<Rightarrow> [] | Some cat \<Rightarrow> [((tok, cat), g tok)]) ts)))
   = (if f t = Some c then count_list ts t else 0)"
  by (induction ts) (auto split: option.split)

lemma count_tokens:
  "count_list (filter P (map f (filter Q ws))) t = (if P t then length (filter (\<lambda>w. Q w \<and> f w = t) ws) else 0)"
  by (induction ws) auto

lemma distinct_PHRASES: "distinct (PHRASES env)"
  using keep_first_distinct unfolding PHRASES_def dedupe_phrases_def distinct_map by blast

lemma phrase_hits_of: "length (filter (\<lambda>h. fst h = (t, c)) (phrase_hits env ch)) = (if uses_phrase env ch t c then 1 else 0)"
proof -
  have "length (filter (\<lambda>h. fst h = (t, c)) (map (\<lambda>(p, cat). ((p, cat), g p)) (filter Q ps)))
      = (if (t, c) \<in> set ps \<and> Q (t, c) then 1 else 0)" if "distinct ps" for g :: "pystr \<Rightarrow> text_chunk \<times> pystr" and Q ps
    using that by (induction ps) auto
  from this [OF distinct_PHRASES, of "\<lambda>p. (ch, snippet env (ch_text ch) (norm_phrase env p))"]
  show ?thesis by (simp add: phrase_hits_def uses_phrase_def Let_def)
qed

lemma chunk_hits_of:
  "length (filter (\<lambda>h. fst h = (t, c)) (chunk_hits env da (brand_unigrams env da brands) ch)) = uses env da brands t c ch"
  using token_means [of t env da brands c]
  by (auto simp: chunk_hits_def uses_def phrase_hits_of token_hits_def token_hits_of lex_tokens_def count_tokens)

lemma hits_of: "length (filter (\<lambda>h. fst h = (t, c)) (lex_hits env da brands cs)) = sum_list (map (uses env da brands t c) cs)"
  by (induction cs) (simp_all add: lex_hits_def chunk_hits_of)

lemma chunk_of_hit: "h \<in> set (chunk_hits env da brand ch) \<Longrightarrow> fst (snd h) = ch"
  by (auto simp: chunk_hits_def phrase_hits_def token_hits_def Let_def split: if_splits option.splits)

lemma chunks_of_hits:
  "(\<lambda>h. fst (snd h)) ` set (filter (\<lambda>h. fst h = (t, c)) (lex_hits env da brands cs)) = set (filter (\<lambda>ch. 0 < uses env da brands t c ch) cs)"
proof (induction cs)
  case (Cons ch cs)
  let ?hs = "filter (\<lambda>h. fst h = (t, c)) (chunk_hits env da (brand_unigrams env da brands) ch)"
  have "\<And>h. h \<in> set ?hs \<Longrightarrow> fst (snd h) = ch" using chunk_of_hit by auto
  then have "(\<lambda>h. fst (snd h)) ` set ?hs = (if ?hs = [] then {} else {ch})" by (cases ?hs) auto
  then show ?case using Cons chunk_hits_of [of t c env da brands ch]
    by (auto simp: lex_hits_def image_Un simp flip: length_greater_0_conv)
qed (simp add: lex_hits_def)

text \<open>
  Rows account for the uses of a term under a category when the term has one row, with the number of its
  uses, of the interviews it is used in and quotes of chunks that use it, or no row, because it is not
  used or because the rows are as many as may be and all at least as much used.
\<close>

definition accounts :: "env \<Rightarrow> dash \<Rightarrow> pystr list \<Rightarrow> nat \<Rightarrow> text_chunk list \<Rightarrow> nat \<Rightarrow> lex_row list \<Rightarrow> pystr \<Rightarrow> string \<Rightarrow> bool" where
  "accounts env da brands ic cs mx rs t c \<longleftrightarrow>
     (let n = sum_list (map (uses env da brands t c) cs); used = filter (\<lambda>ch. 0 < uses env da brands t c ch) cs in
      case filter (\<lambda>r. lr_term r = t \<and> lr_category r = c) rs of
        [] \<Rightarrow> n = 0 \<or> length rs = mx \<and> list_all (\<lambda>r. n < lr_count r \<or> n = lr_count r \<and> lr_term r \<le> t) rs
      | [r] \<Rightarrow> 0 < n \<and> lr_count r = n \<and> lr_coverage r = card (set (map chunk_interview_key used))
          \<and> lr_pct r = pct (lr_coverage r) ic \<and> length (lr_quotes r) \<le> 3
          \<and> list_all (\<lambda>(q, tr, i). list_ex (\<lambda>ch. ch_id ch = i \<and> ch_transcript_id ch = tr) used) (lr_quotes r)
      | _ \<Rightarrow> False)"

lemma take_sorted_cases:
  fixes f :: "'a \<Rightarrow> 'b::linorder"
  assumes "filter P xs = [r]"
  shows "filter P (take n (sort_key f xs)) = [r] \<or> filter P (take n (sort_key f xs)) = []
    \<and> length (take n (sort_key f xs)) = n \<and> list_all (\<lambda>x. f x \<le> f r) (take n (sort_key f xs))"
proof -
  let ?ys = "sort_key f xs"
  have "mset (filter P ?ys) = {#r#}" using assms by (metis mset_filter mset_sort mset_single_iff_right)
  then have y: "filter P (take n ?ys) @ filter P (drop n ?ys) = [r]" by (metis append_take_drop_id filter_append mset_single_iff)
  show ?thesis
  proof (cases "filter P (take n ?ys)")
    case Nil
    then have r: "r \<in> set (drop n ?ys)" using y
      by (metis append_Nil filter_is_subset list.set_intros(1) subsetD)
    then have "n < length ?ys" by (metis drop_all empty_iff empty_set not_le)
    moreover have "sorted (map f (take n ?ys) @ map f (drop n ?ys))" by (metis append_take_drop_id map_append sorted_sort_key)
    ultimately show ?thesis using Nil r by (auto simp: sorted_append list_all_iff)
  qed (use y in auto)
qed

lemma take_sorted_none: "filter P xs = [] \<Longrightarrow> filter P (take n (sort_key f xs)) = []"
  by (auto simp: filter_empty_conv dest: in_set_takeD)

lemma row_of_key:
  "filter (\<lambda>r. lr_term r = t \<and> lr_category r = c) (lex_rows ic hits) =
     (let hs = filter (\<lambda>h. fst h = (t, c)) hits in if hs = [] then [] else [lex_row_of ic ((t, c), hs)])"
proof -
  let ?P = "\<lambda>r. lr_term r = t \<and> lr_category r = c" and ?row = "\<lambda>k. lex_row_of ic (k, filter (\<lambda>h. fst h = k) hits)"
  have one: "filter (\<lambda>k. k = x) ks = (if x \<in> set ks then [x] else [])" if "distinct ks" for x :: "pystr \<times> string" and ks
    using that by (induction ks) auto
  have k: "?P \<circ> ?row = (\<lambda>k. k = (t, c))" by (auto simp: lex_row_of_def Let_def)
  have "mset (filter ?P (lex_rows ic hits)) = mset (filter ?P (map ?row (first_occ (map fst hits))))"
    by (simp only: mset_filter lex_rows_mset)
  also have "filter ?P (map ?row (first_occ (map fst hits))) = (if (t, c) \<in> set (map fst hits) then [?row (t, c)] else [])"
    by (simp only: filter_map k one distinct_first_occ set_first_occ) simp
  finally have m: "mset (filter ?P (lex_rows ic hits)) = mset (if (t, c) \<in> set (map fst hits) then [?row (t, c)] else [])" .
  have "filter (\<lambda>h. fst h = (t, c)) hits = [] \<longleftrightarrow> (t, c) \<notin> set (map fst hits)" by (force simp: filter_empty_conv)
  with m show ?thesis by (cases "(t, c) \<in> set (map fst hits)") (simp_all only: Let_def if_True if_False mset_single_iff mset.simps mset_zero_iff simp_thms)
qed

lemma accountsI:
  assumes "filter (\<lambda>r. lr_term r = t \<and> lr_category r = c) rs = [r]
      \<or> filter (\<lambda>r. lr_term r = t \<and> lr_category r = c) rs = [] \<and> length rs = mx \<and> list_all (\<lambda>x. by_count x \<le> by_count r) rs"
    "0 < sum_list (map (uses env da brands t c) cs)" "lr_term r = t" "lr_count r = sum_list (map (uses env da brands t c) cs)"
    "lr_coverage r = card (chunk_interview_key ` set (filter (\<lambda>ch. 0 < uses env da brands t c ch) cs))"
    "lr_pct r = pct (lr_coverage r) ic" "length (lr_quotes r) \<le> 3"
    "list_all (\<lambda>(q, tr, i). list_ex (\<lambda>ch. ch_id ch = i \<and> ch_transcript_id ch = tr)
       (filter (\<lambda>ch. 0 < uses env da brands t c ch) cs)) (lr_quotes r)"
  shows "accounts env da brands ic cs mx rs t c"
proof -
  have "by_count x \<le> by_count r \<longleftrightarrow> lr_count r < lr_count x \<or> lr_count r = lr_count x \<and> lr_term x \<le> t" for x
    using assms(3) by (auto simp: by_count_def less_eq_prod_def)
  then show ?thesis unfolding accounts_def Let_def using assms by (elim disjE) simp_all
qed

lemma rows_account:
  assumes "\<And>r. lr_term r = t \<Longrightarrow> lr_category r = c \<Longrightarrow> Q r"
  shows "accounts env da brands ic cs mx (take mx (sort_key by_count (filter Q (lex_rows ic (lex_hits env da brands cs))))) t c"
proof -
  let ?P = "\<lambda>r. lr_term r = t \<and> lr_category r = c" and ?hs = "filter (\<lambda>h. fst h = (t, c)) (lex_hits env da brands cs)"
  let ?R = "filter Q (lex_rows ic (lex_hits env da brands cs))" and ?r = "lex_row_of ic ((t, c), ?hs)"
  let ?n = "sum_list (map (uses env da brands t c) cs)" and ?used = "filter (\<lambda>ch. 0 < uses env da brands t c ch) cs"
  have n: "length ?hs = ?n" by (rule hits_of)
  have "filter ?P ?R = filter ?P (lex_rows ic (lex_hits env da brands cs))" using assms by (auto intro: filter_cong)
  then have R: "filter ?P ?R = (if ?hs = [] then [] else [?r])" by (simp only: row_of_key Let_def)
  show ?thesis
  proof (cases "?hs = []")
    case True
    then show ?thesis using n take_sorted_none [of ?P ?R mx by_count] R by (simp add: accounts_def Let_def)
  next
    case False
    have c: "(\<lambda>(k, ch, q). chunk_interview_key ch) ` set ?hs = chunk_interview_key ` set ?used"
      unfolding chunks_of_hits [symmetric] image_image by (simp add: split_def)
    have "fst (snd h) \<in> set ?used" if "h \<in> set ?hs" for h using that chunks_of_hits by blast
    then have q: "list_all (\<lambda>(q, tr, i). list_ex (\<lambda>ch. ch_id ch = i \<and> ch_transcript_id ch = tr) ?used) (lr_quotes ?r)"
      by (fastforce simp: lex_row_of_def Let_def list_all_iff list_ex_iff dest!: in_set_takeD)
    have "filter ?P ?R = [?r]" using R False by simp
    note t = take_sorted_cases [OF this, of mx by_count]
    show ?thesis
    proof (rule accountsI [OF t])
      show "0 < ?n" using n False by (metis length_greater_0_conv)
      show "lr_coverage ?r = card (chunk_interview_key ` set ?used)" using c by (simp add: lex_row_of_def Let_def)
    qed (use n q in \<open>simp_all add: lex_row_of_def Let_def\<close>)
  qed
qed

lemma PHRASES_categories: "(t, c) \<in> set (PHRASES env) \<Longrightarrow> c \<in> set CATEGORIES_ORDER"
proof -
  have "list_all (\<lambda>p. snd p \<in> set CATEGORIES_ORDER) PHRASES_RAW" by code_simp
  then show "(t, c) \<in> set (PHRASES env) \<Longrightarrow> c \<in> set CATEGORIES_ORDER"
    unfolding PHRASES_def dedupe_phrases_def by (fastforce simp: list_all_iff dest!: keep_first_set)
qed

lemma uses_categories: "c \<notin> set CATEGORIES_ORDER \<Longrightarrow> uses env da brands t c ch = 0"
  using PHRASES_categories [of t c env] by (auto simp: uses_def uses_phrase_def means_def CATEGORIES_ORDER_def)

lemma length_CATEGORIES: "length CATEGORIES_ORDER = 6"
  by (simp add: CATEGORIES_ORDER_def)

text \<open>The rows of a category.\<close>

definition category_rows :: "lexicon_signals \<Rightarrow> string \<Rightarrow> lex_row list" where
  "category_rows s c = (case map_of (ls_by_category s) c of Some rs \<Rightarrow> rs | None \<Rightarrow> [])"


text \<open>A phrase is only found between blanks: at the end of a sentence it is missed.\<close>

definition said :: "string \<Rightarrow> text_chunk" where
  "said s = \<lparr>ch_id = 1, ch_project_id = 1, ch_document_id = Some 2, ch_audio_id = None, ch_transcript_id = None,
     ch_index = 0, ch_text = u s, ch_strategy = []\<rparr>"

lemma phrase_before_full_stop_is_missed:
  "phrase_hits plain_env (said ''I do not trust.'') = []" "phrase_hits plain_env (said ''I do not trust it.'') \<noteq> []"
  by code_simp+

end
