(* ===== verification/Mock_Provider.thy ===== *)
theory Mock_Provider
  imports Gpt_Extraction Regex
begin

text \<open>
  The extraction provider without a language model (\<^verbatim>\<open>extraction/mock_provider.py\<close>): sentences are cut into
  fragments, links and addresses become facts, and rules give each fragment its type. And the
  interface of both providers (\<^verbatim>\<open>extraction/provider.py\<close>).
\<close>

section \<open>Fragments\<close>

text \<open>\<^verbatim>\<open>s.find(t, p)\<close>, and \<^verbatim>\<open>s.replace(t, " ")\<close> for a text that is not empty.\<close>

definition find_from :: "pystr \<Rightarrow> pystr \<Rightarrow> nat \<Rightarrow> nat option" where
  "find_from s t p = List.find (\<lambda>i. take (length t) (drop i s) = t) [p..<Suc (length s)]"

function blank_out :: "pystr \<Rightarrow> pystr \<Rightarrow> pystr" where
  "blank_out t [] = []"
| "blank_out t (c # s) =
     (if t \<noteq> [] \<and> take (length t) (c # s) = t then 32 # blank_out t (drop (length t) (c # s)) else c # blank_out t s)"
  by pat_completeness auto
termination by (relation "measure (length \<circ> snd)") auto

text \<open>The places of pieces of a sentence that starts at \<open>s0\<close>, each looked for behind the one before.\<close>

fun place_pieces :: "pystr \<Rightarrow> nat \<Rightarrow> nat \<Rightarrow> pystr list \<Rightarrow> (pystr \<times> nat \<times> nat) list" where
  "place_pieces sent s0 cursor [] = []"
| "place_pieces sent s0 cursor (p # ps) =
     (case (case find_from sent p cursor of None \<Rightarrow> find_from sent p 0 | Some i \<Rightarrow> Some i) of
        None \<Rightarrow> place_pieces sent s0 cursor ps
      | Some i \<Rightarrow> (p, s0 + i, s0 + i + length p) # place_pieces sent s0 (i + length p) ps)"

definition no_word :: "nat \<Rightarrow> bool" where "no_word c = False"

definition expand_sentence_fragments :: "pystr \<Rightarrow> nat \<Rightarrow> nat \<Rightarrow> (pystr \<times> nat \<times> nat) list" where
  "expand_sentence_fragments sentence s0 s1 =
     (let sent = strip sentence in
      if sent = [] then []
      else if 59 \<in> set sent then
        (let parts = place_pieces sent s0 0 (filter (\<lambda>p. p \<noteq> [])
               (map strip (re_split no_word (Seqs [Spaces, Lit [59], Spaces]) sent)))
         in if parts \<noteq> [] then parts else [(sent, s0, s1)])
      else if 90 < length sent \<and> 2 \<le> length (filter (\<lambda>c. c = 44) sent) then
        (let out = place_pieces sent s0 0 (filter (\<lambda>p. 12 \<le> length p)
               (map strip (take 6 (re_split no_word (Seq (Lit [44]) Spaces) sent))))
         in if 2 \<le> length out then out else [(sent, s0, s1)])
      else [(sent, s0, s1)])"

section \<open>Rules\<close>

text \<open>The spans of the matches of a pattern, \<open>i\<close> being the position of the rest of the text.\<close>

function match_spans :: "(pystr \<Rightarrow> nat option) \<Rightarrow> nat \<Rightarrow> pystr \<Rightarrow> (nat \<times> nat) list" where
  "match_spans m i [] = []"
| "match_spans m i (c # s) =
     (case m (c # s) of
        Some (Suc n) \<Rightarrow> (i, i + Suc n) # match_spans m (i + Suc n) (drop n s)
      | _ \<Rightarrow> match_spans m (i + 1) s)"
  by pat_completeness auto
termination by (relation "measure (length \<circ> snd \<circ> snd)") auto

text \<open>The word characters and the digits of the Unicode tables.\<close>

record unicode =
  un_word :: "nat \<Rightarrow> bool"
  un_digit :: "nat \<Rightarrow> bool"

definition either :: "string list \<Rightarrow> re" where
  "either ws = Alts (map (\<lambda>w. Lit (u w)) ws)"

definition two_words :: "string \<Rightarrow> string \<Rightarrow> re" where
  "two_words a b = Seqs [Lit (u a), Spaces1, Lit (u b)]"

definition as_word :: "re \<Rightarrow> re" where
  "as_word r = Seqs [Bound, r, Bound]"

definition REC_START :: re where
  "REC_START = Seqs [Start, Spaces, Seq (Alts [Lit (u ''recommendation''), two_words ''we'' ''suggest'', two_words ''we'' ''should'',
     Lit (u ''should'')]) Bound]"

definition HYP_START :: re where
  "HYP_START = Seqs [Start, Spaces, Seq (Alts [Seqs [Lit (u ''there''), Spaces1, Lit (u ''is''), Spaces1, Lit (u ''a''), Spaces1,
     Lit (u ''hypothesis'')], two_words ''we'' ''believe'', two_words ''it'' ''could'', Lit (u ''might'')]) Bound]"

definition PROBLEM_RE :: re where
  "PROBLEM_RE = as_word (either [''pain'', ''struggle'', ''confus'', ''difficult'', ''problem'', ''issue'', ''broken'', ''annoy'',
     ''frustrat''])"

definition RISK_RE :: re where
  "RISK_RE = as_word (Alts [Seq (Lit (u ''risk'')) (Opt (Lit (u ''s''))), Lit (u ''fear''), two_words ''may'' ''switch'',
     Lit (u ''error''), Lit (u ''uncertain'')])"

definition OPP_RE :: re where
  "OPP_RE = as_word (Alts [Lit (u ''opportunity''), Lit (u ''potential''), two_words ''could'' ''introduce''])"

definition INSIGHT_RE :: re where
  "INSIGHT_RE = as_word (Alts [Seq (Lit (u ''user'')) (Opt (Lit (u ''s''))), two_words ''we'' ''observed'',
     two_words ''common'' ''issue''])"

definition NUMBER_RE :: "(nat \<Rightarrow> bool) \<Rightarrow> re" where
  "NUMBER_RE dg = Alt
     (Seqs [Bound, Plus (Chr dg), Star (Seq (Chr (\<lambda>c. c = 46 \<or> c = 44)) (Plus (Chr dg))),
        Opt (Alts [Seq Spaces (Lit [37]), Seqs [Spaces, Lit (u ''percent''), Bound], as_word (either [''k'', ''m'', ''b''])])])
     (Seqs [Bound, Chr dg, Opt (Chr dg), Opt (Chr dg), Plus (Seqs [Lit [44], Chr dg, Chr dg, Chr dg]), Bound])"

definition FILLERS :: "pystr list" where
  "FILLERS = map u [''see'', ''and'', ''contact'', ''at'', ''the'', ''a'', ''an'', ''or'', ''to'', ''for'', ''on'', ''in'', ''of'']
     @ [[1080], [1080, 1083, 1080], [1074], [1085, 1072], [1087, 1086], [1082], [1091], [1086], [1086, 1073], [1079, 1072], [1080, 1079], [1086, 1090], [1076, 1086], [1076, 1083, 1103], [1073, 1077, 1079], [1087, 1088, 1080], [1101, 1090, 1086], [1082, 1072, 1082]]"

text \<open>Type and rule of a fragment: the first pattern that matches.\<close>

definition rule_of :: "unicode \<Rightarrow> pystr \<Rightarrow> entity_type \<times> string" where
  "rule_of un s =
     (let wd = un_word un in
      if matches_start wd REC_START s then (RECOMMENDATION, ''starter'')
      else if matches_start wd HYP_START s then (HYPOTHESIS, ''hypothesis_starter'')
      else if found wd PROBLEM_RE s then (PROBLEM, ''problem_signal'')
      else if found wd RISK_RE s then (RISK, ''risk_keyword'')
      else if found wd OPP_RE s then (OPPORTUNITY, ''opportunity_keyword'')
      else if found wd INSIGHT_RE s then (BEHAVIOR_PATTERN, ''user_behavior'')
      else if found wd (NUMBER_RE (un_digit un)) s then (SUPPORTING_FACT, ''numeric'')
      else (SUPPORTING_FACT, ''sentence_fallback''))"

section \<open>Candidates\<close>

text \<open>What is known of a candidate before it is numbered; the quote is cut out of the chunk later.\<close>

record mock_draft =
  md_type :: entity_type
  md_title :: pystr
  md_content :: pystr
  md_tags :: "(pystr \<times> pystr option) list"
  md_span :: "nat \<times> nat"

text \<open>
  \<^verbatim>\<open>urlparse(url).netloc\<close> of a match: the text between the slashes and the next slash, question mark or
  hash. The check of \<^verbatim>\<open>urllib\<close> for characters that normalise to one of these is left out.
\<close>

definition netloc :: "pystr \<Rightarrow> pystr" where
  "netloc url = takeWhile (\<lambda>c. c \<noteq> 47 \<and> c \<noteq> 63 \<and> c \<noteq> 35) (drop 3 (dropWhile (\<lambda>c. c \<noteq> 58) url))"

definition source_tag :: "pystr option \<Rightarrow> pystr \<times> pystr option" where
  "source_tag hint = (u ''source_file'', Some (str_or hint []))"

definition url_draft :: "pystr option \<Rightarrow> pystr \<Rightarrow> nat \<Rightarrow> nat \<times> nat \<Rightarrow> mock_draft" where
  "url_draft hint sent s0 ab =
     (let url = rev (dropWhile (\<lambda>c. c \<in> set (u '').,;]'')) (rev (Prelude.slice sent (fst ab) (snd ab))));
          host = (if netloc url \<noteq> [] then netloc url else clip url 40)
      in \<lparr>md_type = SUPPORTING_FACT,
       md_title = (if take 512 host \<noteq> [] then take 512 host else [1057, 1089, 1099, 1083, 1082,
       1072]), md_content = clip url 300,
          md_tags = [(u ''pattern'', Some (u ''url'')), source_tag hint], md_span = (s0 + fst ab, s0 + snd ab)\<rparr>)"

definition email_draft :: "pystr \<Rightarrow> nat \<Rightarrow> nat \<times> nat \<Rightarrow> mock_draft" where
  "email_draft sent s0 ab =
     (let em = Prelude.slice sent (fst ab) (snd ab) in
      \<lparr>md_type = SUPPORTING_FACT, md_title = [1055, 1086, 1095, 1090, 1072, 58, 32] @ take 80 em,
       md_content = em,
       md_tags = [(u ''pattern'', Some (u ''email''))], md_span = (s0 + fst ab, s0 + snd ab)\<rparr>)"

definition remainder_words :: "env \<Rightarrow> unicode \<Rightarrow> pystr \<Rightarrow> pystr list" where
  "remainder_words env un sent =
     (let cut = fold (\<lambda>ab. blank_out (Prelude.slice sent (fst ab) (snd ab)));
          rest = cut (match_spans email_match 0 sent) (cut (match_spans url_match 0 sent) sent)
      in filter (\<lambda>w. w \<noteq> []) (re_split no_word (Plus (Chr (\<lambda>c. \<not> un_word un c))) (lower env rest)))"

definition semantic_draft :: "unicode \<Rightarrow> pystr option \<Rightarrow> pystr \<Rightarrow> nat \<Rightarrow> nat \<Rightarrow> mock_draft" where
  "semantic_draft un hint sent s0 s1 =
     \<lparr>md_type = fst (rule_of un sent), md_title = title_from_sentence sent [1060, 1086, 1088, 1084,
       1091, 1083, 1080, 1088, 1086, 1074, 1082, 1072], md_content = clip sent 300,
      md_tags = [source_tag hint, (u ''rule'', Some (u (snd (rule_of un sent))))], md_span = (s0, s1)\<rparr>"

definition process_sentence :: "env \<Rightarrow> unicode \<Rightarrow> pystr option \<Rightarrow> pystr \<times> nat \<times> nat \<Rightarrow> mock_draft list" where
  "process_sentence env un hint frag = (case frag of (sentence, s0, s1) \<Rightarrow>
     (let sent = strip sentence; ws = remainder_words env un sent in
      if sent = [] then []
      else map (url_draft hint sent s0) (match_spans url_match 0 sent) @ map (email_draft sent s0) (match_spans email_match 0 sent)
        @ (if length ws < 2 \<or> length ws \<le> 6 \<and> list_all (\<lambda>w. w \<in> set FILLERS) ws then [] else [semantic_draft un hint sent s0 s1])))"

definition mock_confidence :: "services \<Rightarrow> nat \<Rightarrow> nat \<Rightarrow> rat" where
  "mock_confidence sv ci slot =
     (let n = sv_hash8 sv (u ''mock-extract-v3:'' @ digits ci @ u '':'' @ digits slot) mod 351
      in py_round (min (fl (95 / 100)) (fl (fl (6 / 10) + fl (of_nat n / 1000)))) 3)"

definition append_candidate :: "services \<Rightarrow> nat \<Rightarrow> pystr \<Rightarrow> nat \<times> mock_draft \<Rightarrow> candidate" where
  "append_candidate sv ci chunk sd = (case sd of (slot, d) \<Rightarrow>
     \<lparr>cd_type = md_type d, cd_title = candidate_title (clip (md_title d) 512), cd_content = clip (md_content d) 300,
      cd_score = mock_confidence sv ci slot, cd_tags = md_tags d,
      cd_quote = clip (strip (Prelude.slice chunk (fst (md_span d)) (snd (md_span d)))) 300,
      cd_span = (int (fst (md_span d)), int (snd (md_span d)))\<rparr>)"

text \<open>The segments that fill up a chunk with fewer than three candidates, until there are eight.\<close>

definition overlaps :: "(nat \<times> nat) list \<Rightarrow> nat \<times> nat \<Rightarrow> bool" where
  "overlaps existing ab = list_ex (\<lambda>xy. \<not> (snd ab \<le> fst xy \<or> snd xy \<le> fst ab)) existing"

definition segment_draft :: "pystr option \<Rightarrow> pystr \<Rightarrow> pystr \<Rightarrow> string \<Rightarrow> nat \<times> nat \<Rightarrow> mock_draft" where
  "segment_draft hint s fallback rule ab =
     \<lparr>md_type = SUPPORTING_FACT, md_title = title_from_sentence s fallback, md_content = clip s 300,
      md_tags = [(u ''rule'', Some (u rule)), source_tag hint], md_span = ab\<rparr>"

definition density_drafts :: "pystr option \<Rightarrow> pystr \<Rightarrow> mock_draft list \<Rightarrow> mock_draft list" where
  "density_drafts hint chunk ds =
     (if length ds < 3 \<and> 30 \<le> length chunk then
        take (8 - length ds) (map (\<lambda>ab. segment_draft hint (strip (Prelude.slice chunk (fst ab) (snd ab))) [1060, 1088, 1072, 1075, 1084, 1077, 1085, 1090] ''segment_density'' ab)
          (filter (\<lambda>ab. \<not> overlaps (map md_span ds) ab \<and> 12 \<le> length (strip (Prelude.slice chunk (fst ab) (snd ab))))
            (even_segments chunk (segment_count chunk))))
      else [])"

definition sentence_drafts :: "env \<Rightarrow> unicode \<Rightarrow> pystr option \<Rightarrow> pystr \<Rightarrow> mock_draft list" where
  "sentence_drafts env un hint chunk =
     concat (map (process_sentence env un hint)
       (concat (map (\<lambda>(sent, s0, s1). expand_sentence_fragments sent s0 s1) (split_sentences chunk))))"

definition mock_extract :: "env \<Rightarrow> unicode \<Rightarrow> services \<Rightarrow> pystr \<Rightarrow> nat \<Rightarrow> pystr option \<Rightarrow> candidate list" where
  "mock_extract env un sv txt ci hint =
     (let chunk = strip txt; ds = sentence_drafts env un hint chunk; ds1 = ds @ density_drafts hint chunk ds;
          ds2 = (if ds1 \<noteq> [] then ds1
                 else [segment_draft hint chunk [1057, 1074, 1086, 1076, 1082, 1072, 32, 1087, 1086, 32,
       1092, 1088, 1072, 1075, 1084, 1077, 1085, 1090, 1091] ''chunk_fallback'' (0, length chunk)])
      in if chunk = [] then [] else candidate_order (map (append_candidate sv ci chunk) (enumerate 1 ds2)))"

section \<open>The providers\<close>

datatype provider_choice = Mock | Gpt

text \<open>\<^verbatim>\<open>get_extraction_provider\<close>: without a key the mock provider stands in for the model.\<close>

definition get_extraction_provider :: "pystr \<Rightarrow> pystr option \<Rightarrow> exc + provider_choice" where
  "get_extraction_provider key api_key =
     (if key = u ''mock'' then Inr Mock
      else if key = u ''gpt'' then (if strip (text_of api_key) = [] then Inr Mock else Inr Gpt)
      else Inl (Value_error (u ''Unknown research_extraction_provider: '' @ key)))"

fun extract_with :: "env \<Rightarrow> unicode \<Rightarrow> gpt \<Rightarrow> services \<Rightarrow> provider_choice \<Rightarrow> pystr \<Rightarrow> nat \<Rightarrow> pystr option \<Rightarrow> exc + candidate list" where
  "extract_with env un g sv Mock = (\<lambda>txt ci hint. Inr (mock_extract env un sv txt ci hint))"
| "extract_with env un g sv Gpt = extract_from_chunk g"

section \<open>Spans\<close>

lemma url_match_le: "url_match s = Some n \<Longrightarrow> n \<le> length s"
proof -
  assume a: "url_match s = Some n"
  have body: "url_body t = Some k \<Longrightarrow> k \<le> length t" for t k
  proof -
    assume "url_body t = Some k"
    then have "k \<in> set (filter (\<lambda>n. url_last (takeWhile url_char t ! (n - 1))) [2..<length (takeWhile url_char t) + 1])"
      by (auto simp: url_body_def Let_def simp del: set_filter split: if_splits intro: last_in_set)
    then have "k \<in> {2..<length (takeWhile url_char t) + 1}" by (simp only: set_filter set_upt mem_Collect_eq)
    then show ?thesis using length_takeWhile_le [of url_char t] by auto
  qed
  have lit: "literal_ic p t \<Longrightarrow> length p \<le> length t" for p t by (induction p t rule: literal_ic.induct) auto
  have "literal_ic (u ''https://'') s \<Longrightarrow> 8 \<le> length s" "literal_ic (u ''http://'') s \<Longrightarrow> 7 \<le> length s"
    using lit [of "u ''https://''" s] lit [of "u ''http://''" s] by (simp_all add: eval_nat_numeral)
  then obtain k where "8 \<le> length s \<and> url_body (drop 8 s) = Some k \<and> n = 8 + k \<or> 7 \<le> length s \<and> url_body (drop 7 s) = Some k \<and> n = 7 + k"
    using a by (auto simp: url_match_def Let_def split: if_splits)
  then show ?thesis using body by fastforce
qed

lemma email_match_le: "email_match s = Some n \<Longrightarrow> n \<le> length s"
proof -
  assume a: "email_match s = Some n"
  define loc where "loc = takeWhile email_local s"
  define rest where "rest = drop (length loc) s"
  define dom where "dom = takeWhile email_domain (tl rest)"
  define tld where "tld = (\<lambda>k. length (takeWhile is_letter (drop (k + 1) dom)))"
  define ks where "ks = filter (\<lambda>k. dom ! k = 46 \<and> 2 \<le> tld k) [1..<length dom]"
  have n: "rest \<noteq> []" "ks \<noteq> []" "n = length loc + 1 + last ks + 1 + tld (last ks)"
    using a by (auto simp: email_match_def Let_def loc_def rest_def dom_def tld_def ks_def split: if_splits)
  have "last ks \<in> set ks" using n(2) by simp
  then have "last ks < length dom" by (simp add: ks_def)
  moreover have "tld (last ks) \<le> length dom - (last ks + 1)"
    using length_takeWhile_le [of is_letter "drop (last ks + 1) dom"] by (simp add: tld_def)
  moreover have "length dom \<le> length rest - 1" using length_takeWhile_le [of email_domain "tl rest"] by (simp add: dom_def)
  moreover have "length loc + length rest = length s" using length_takeWhile_le [of email_local s] by (simp add: rest_def loc_def)
  ultimately show ?thesis using n by simp
qed

lemma match_spans_in:
  "(a, b) \<in> set (match_spans m i s) \<Longrightarrow> (\<And>t n. m t = Some n \<Longrightarrow> n \<le> length t) \<Longrightarrow> i \<le> a \<and> a < b \<and> b \<le> i + length s"
proof (induction m i s rule: match_spans.induct)
  case (2 m i c s)
  show ?case
  proof (cases "m (c # s)")
    case None
    then show ?thesis using 2 by auto
  next
    case (Some k)
    have k: "k \<le> length (c # s)" using 2(5) [OF Some] .
    show ?thesis
    proof (cases k)
      case 0
      then show ?thesis using 2 Some by auto
    next
      case (Suc n)
      then have "(a, b) = (i, i + Suc n) \<or> (a, b) \<in> set (match_spans m (i + Suc n) (drop n s))" using 2(4) Some by simp
      then show ?thesis using 2(3) [OF Some Suc] 2(5) k Suc by fastforce
    qed
  qed
qed simp

lemma find_from_place: "find_from s t p = Some i \<Longrightarrow> i + length t \<le> length s"
proof -
  assume "find_from s t p = Some i"
  then have "i \<le> length s" "take (length t) (drop i s) = t" 
    unfolding find_from_def by (auto dest!: find_upt_ge simp del: upt_Suc)
  moreover then have "length t \<le> length s - i" by (metis length_drop length_take min.cobounded1)
  ultimately show ?thesis by simp
qed

lemma place_pieces_in: "(p, a, b) \<in> set (place_pieces sent s0 c ps) \<Longrightarrow> s0 \<le> a \<and> b = a + length p \<and> b \<le> s0 + length sent"
  by (induction sent s0 c ps rule: place_pieces.induct) (auto split: option.splits dest!: find_from_place)

lemma fragments_in:
  assumes "(p, a, b) \<in> set (expand_sentence_fragments sent s0 s1)" "s0 + length sent \<le> s1"
  shows "s0 \<le> a \<and> a + length p \<le> b \<and> b \<le> s1"
proof -
  have "(p, a, b) = (strip sent, s0, s1) \<or> (\<exists>c ps. (p, a, b) \<in> set (place_pieces (strip sent) s0 c ps))"
    using assms(1) unfolding expand_sentence_fragments_def Let_def by (auto split: if_splits)
  then show ?thesis using assms(2) length_strip [of sent] by (auto dest!: place_pieces_in)
qed

lemma process_in:
  assumes "d \<in> set (process_sentence env un hint (p, a, b))" "a + length p \<le> b"
  shows "a \<le> fst (md_span d) \<and> fst (md_span d) \<le> snd (md_span d) \<and> snd (md_span d) \<le> b"
proof -
  have len: "length (strip p) \<le> length p" by (rule length_strip)
  note spans = match_spans_in [where m = url_match and i = 0 and s = "strip p", OF _ url_match_le]
    match_spans_in [where m = email_match and i = 0 and s = "strip p", OF _ email_match_le]
  have "(\<exists>x y. ((x, y) \<in> set (match_spans url_match 0 (strip p)) \<or> (x, y) \<in> set (match_spans email_match 0 (strip p)))
      \<and> md_span d = (a + x, a + y)) \<or> md_span d = (a, b)"
    using assms(1) by (auto simp: process_sentence_def Let_def url_draft_def email_draft_def semantic_draft_def split: if_splits)
  then show ?thesis using spans assms(2) len by fastforce
qed

definition span_in :: "nat \<Rightarrow> mock_draft \<Rightarrow> bool" where
  "span_in n d \<longleftrightarrow> fst (md_span d) \<le> snd (md_span d) \<and> snd (md_span d) \<le> n"

lemma sentence_drafts_in: "d \<in> set (sentence_drafts env un hint (strip txt)) \<Longrightarrow> span_in (length (strip txt)) d"
proof -
  assume "d \<in> set (sentence_drafts env un hint (strip txt))"
  then obtain sent s0 s1 p a b where s: "(sent, s0, s1) \<in> set (split_sentences (strip txt))"
    "(p, a, b) \<in> set (expand_sentence_fragments sent s0 s1)" "d \<in> set (process_sentence env un hint (p, a, b))"
    by (auto simp: sentence_drafts_def)
  have ne: "strip txt \<noteq> []" using s(1) by (auto simp: split_sentences_def)
  note sp = split_sentences_spans [of "strip txt" "strip txt", simplified, OF ne]
  have "(s0, s1) \<in> set (map span_of (split_sentences (strip txt)))" using s(1) by (force simp: span_of_def)
  then have w: "s0 < s1" "s1 \<le> length (strip txt)" using spans_within_set [OF sp(1)] by auto
  have "sent = strip (Prelude.slice (strip txt) s0 s1)" using sp(3) s(1) by auto
  then have "length sent \<le> s1 - s0" using length_strip [of "Prelude.slice (strip txt) s0 s1"] by simp
  then show ?thesis using fragments_in [OF s(2)] process_in [OF s(3)] w by (force simp: span_in_def)
qed

lemma even_segments_in: "(a, b) \<in> set (even_segments txt n) \<Longrightarrow> a \<le> b \<and> b \<le> length txt"
  by (auto simp: even_segments_def Let_def split: if_splits)

lemma density_in: "d \<in> set (density_drafts hint chunk ds) \<Longrightarrow> span_in (length chunk) d"
  using even_segments_in [of _ _ chunk "segment_count chunk"]
  by (auto simp: density_drafts_def span_in_def segment_draft_def dest!: in_set_takeD split: if_splits)

section \<open>What the mock provider proposes\<close>

lemma mock_confidence_unit: "0 \<le> mock_confidence sv ci slot \<and> mock_confidence sv ci slot \<le> 1"
proof -
  define k where "k = sv_hash8 sv (u ''mock-extract-v3:'' @ digits ci @ u '':'' @ digits slot) mod 351"
  define x where "x = min (fl (95 / 100)) (fl (fl (6 / 10) + fl (of_nat k / 1000)))"
  have "fl (95 / 100) \<le> 1" "0 \<le> fl (95 / 100 :: rat)" using fl_0_1 [of "95 / 100"] by simp_all
  moreover have "0 \<le> fl (fl (6 / 10) + fl (of_nat k / 1000))" by (intro fl_nonneg add_nonneg_nonneg) simp_all
  ultimately have "0 \<le> x" "x \<le> 1" by (simp_all add: x_def)
  then have "0 \<le> py_round x 3" "py_round x 3 \<le> 1" using py_round_nonneg [of x 3] py_round_le_int [of x 1 3] by simp_all
  then show ?thesis by (simp add: mock_confidence_def x_def k_def Let_def)
qed

text \<open>A candidate whose content and quote are at most 300 characters long and whose span lies in the chunk.\<close>

definition placed :: "pystr \<Rightarrow> candidate \<Rightarrow> bool" where
  "placed chunk c \<longleftrightarrow> well_formed c \<and> cd_title c \<noteq> [] \<and> length (cd_quote c) \<le> 300
     \<and> 0 \<le> fst (cd_span c) \<and> fst (cd_span c) \<le> snd (cd_span c) \<and> snd (cd_span c) \<le> int (length chunk)"

lemma append_placed: "span_in (length chunk) d \<Longrightarrow> placed chunk (append_candidate sv ci chunk (slot, d))"
  using order_trans [OF length_strip length_clip, of 300 "md_content d"] mock_confidence_unit [of sv ci slot]
  by (simp add: placed_def well_formed_def append_candidate_def span_in_def length_clip candidate_title_bounds)

text \<open>What is drafted lies within the chunk, and the answer is the drafts, made candidates, in order.\<close>

lemma mock_extract_shape:
  assumes "strip s \<noteq> []"
  obtains ds where "ds \<noteq> []" "\<forall>d \<in> set ds. span_in (length (strip s)) d"
    "mock_extract env un sv s ci hint = candidate_order (map (append_candidate sv ci (strip s)) (enumerate 1 ds))"
proof -
  let ?c = "strip s"
  define ds where "ds = sentence_drafts env un hint ?c @ density_drafts hint ?c (sentence_drafts env un hint ?c)"
  define ds2 where "ds2 = (if ds \<noteq> [] then ds else [segment_draft hint ?c [1057, 1074, 1086, 1076,
       1082, 1072, 32, 1087, 1086, 32, 1092, 1088, 1072, 1075, 1084, 1077, 1085, 1090,
       1091] ''chunk_fallback'' (0, length ?c)])"
  have "mock_extract env un sv s ci hint = candidate_order (map (append_candidate sv ci ?c) (enumerate 1 ds2))"
    using assms by (simp add: mock_extract_def Let_def ds_def ds2_def)
  moreover have "\<forall>d \<in> set ds2. span_in (length ?c) d"
    using sentence_drafts_in density_in by (auto simp: ds2_def ds_def span_in_def segment_draft_def split: if_splits)
  moreover have "ds2 \<noteq> []" by (simp add: ds2_def)
  ultimately show ?thesis using that by blast
qed

lemma candidate_order_sorted:
  "sorted (map (\<lambda>c. (cd_span c, entity_type_value (cd_type c))) (candidate_order cs))"
  unfolding candidate_order_def take_map [symmetric] by (rule sorted_wrt_take) simp

lemma candidate_order_length: "length (candidate_order cs) \<le> 8"
  by (simp add: candidate_order_def)

lemma mock_placed: "list_all (placed (strip s)) (mock_extract env un sv s ci hint)"
proof (cases "strip s = []")
  case True
  then show ?thesis by (simp add: mock_extract_def)
next
  case False
  then obtain ds where ds: "\<forall>d \<in> set ds. span_in (length (strip s)) d"
    "mock_extract env un sv s ci hint = candidate_order (map (append_candidate sv ci (strip s)) (enumerate 1 ds))"
    by (rule mock_extract_shape)
  then have "\<forall>c \<in> set (map (append_candidate sv ci (strip s)) (enumerate 1 ds)). placed (strip s) c"
    using append_placed by (auto simp: in_set_enumerate_eq)
  then show ?thesis using candidate_order_set unfolding ds list_all_iff by blast
qed

text \<open>
  The provider without a language model proposes nothing for a blank text and otherwise one to
  eight candidates, in the order of their spans; each has a title, at most 300 characters of content
  and of quote, a score between 0 and 1 and a span within the chunk.
\<close>

theorem mock_candidates_placed:
  "(mock_extract env un sv txt ci hint = [] \<longleftrightarrow> strip txt = [])
   \<and> length (mock_extract env un sv txt ci hint) \<le> 8
   \<and> list_all (placed (strip txt)) (mock_extract env un sv txt ci hint)
   \<and> sorted (map (\<lambda>c. (cd_span c, entity_type_value (cd_type c))) (mock_extract env un sv txt ci hint))"
proof (cases "strip txt = []")
  case True
  then show ?thesis by (simp add: mock_extract_def)
next
  case False
  then obtain ds where "ds \<noteq> []"
    "mock_extract env un sv txt ci hint = candidate_order (map (append_candidate sv ci (strip txt)) (enumerate 1 ds))"
    by (rule mock_extract_shape)
  then show ?thesis
    using False mock_placed [of "txt" env un sv ci hint]
    by (simp add: candidate_order_length candidate_order_sorted enumerate_eq_zip Suc_le_eq)
qed

text \<open>
  A sentence behind another starts with a blank that its text has not: the spans of its fragments are one
  character early, and a quote loses its last one.
\<close>

lemma fragments_are_shifted:
  "concat (map (\<lambda>(sent, s0, s1). expand_sentence_fragments sent s0 s1) (split_sentences (u ''Ok. Aa; bb'')))
     = [(u ''Ok.'', 0, 3), (u ''Aa'', 3, 5), (u ''bb'', 7, 9)]"
  "Prelude.slice (u ''Ok. Aa; bb'') 7 9 = u '' b''"
  by code_simp+

text \<open>
  The signals of a problem are stems between word boundaries: none of their usual words matches.
\<close>

lemma stems_match_no_word:
  "\<not> found is_letter PROBLEM_RE (u ''confusing problems'')" "found is_letter PROBLEM_RE (u ''a problem'')"
  by code_simp+

section \<open>The interface of the providers\<close>

text \<open>
  \<^verbatim>\<open>ResearchExtractionProvider\<close>: an extraction may fail; what it proposes has scores between 0 and 1.
\<close>

locale extraction_provider =
  fixes propose :: "pystr \<Rightarrow> nat \<Rightarrow> pystr option \<Rightarrow> exc + candidate list"
  assumes scores: "propose s ci hint = Inr cs \<Longrightarrow> c \<in> set cs \<Longrightarrow> 0 \<le> cd_score c \<and> cd_score c \<le> 1"
begin

lemma fills_chunk:
  "chunk_body ch \<noteq> [] \<Longrightarrow> propose s ci hint = Inr raw \<Longrightarrow>
     finalize_chunk_entities sv ch raw hint \<noteq> [] \<and> length (finalize_chunk_entities sv ch raw hint) \<le> 8
     \<and> list_all well_formed (finalize_chunk_entities sv ch raw hint)"
  using finalized_chunk [of ch raw sv hint] scores [of s ci hint raw] unfolding list_all_iff by blast

lemma fills_chunk_cases:
  "case propose s ci hint of Inl e \<Rightarrow> True
   | Inr raw \<Rightarrow> chunk_body ch = [] \<or> finalize_chunk_entities sv ch raw hint \<noteq> []
       \<and> length (finalize_chunk_entities sv ch raw hint) \<le> 8 \<and> list_all well_formed (finalize_chunk_entities sv ch raw hint)"
  using fills_chunk by (auto split: sum.split)

end

interpretation mock: extraction_provider "extract_with env un g sv Mock" for env un g sv
proof
  fix s ci hint cs c
  assume "extract_with env un g sv Mock s ci hint = Inr cs" "c \<in> set cs"
  then have "c \<in> set (mock_extract env un sv s ci hint)" by simp
  then show "0 \<le> cd_score c \<and> cd_score c \<le> 1"
    using mock_placed [of s env un sv ci hint] by (auto simp: list_all_iff placed_def well_formed_def)
qed

interpretation model: extraction_provider "extract_with env un g sv Gpt" for env un g sv
proof
  fix s ci hint cs c
  assume "extract_with env un g sv Gpt s ci hint = Inr cs" "c \<in> set cs"
  then show "0 \<le> cd_score c \<and> cd_score c \<le> 1" using gpt_proper [of g s ci hint cs] by (auto simp: proper_def well_formed_def)
qed

text \<open>
  C32. With either provider a chunk that is not blank ends with one to eight well-formed entities, unless
  the extraction fails.
\<close>

theorem every_provider_fills_chunks:
  "case extract_with env un g sv p (ch_text ch) (ch_index ch) hint of Inl e \<Rightarrow> True
   | Inr raw \<Rightarrow> chunk_body ch = [] \<or> finalize_chunk_entities sv ch raw hint \<noteq> []
       \<and> length (finalize_chunk_entities sv ch raw hint) \<le> 8 \<and> list_all well_formed (finalize_chunk_entities sv ch raw hint)"
  using mock.fills_chunk_cases model.fills_chunk_cases by (cases p) blast+

end
