(* ===== verification/Materials.thy ===== *)
theory Materials
  imports Aggregation Uploads Regex
begin

text \<open>
  The demonstration pipeline of materials (\<^verbatim>\<open>api/v1\<close>, \<^verbatim>\<open>material_service.py\<close>, \<^verbatim>\<open>workers/tasks/pipeline.py\<close>
  and their repositories). It has tables of its own: a material is a text or an audio file, the task
  normalises its text, extracts entities by patterns and keeps one insight of it, and a second task
  counts all tables for the dashboard.
\<close>

section \<open>Rows\<close>

datatype material_type = Text_material | Audio_material

datatype material_status =
  MS_PENDING | MS_TRANSCRIBING | MS_NORMALIZING | MS_EXTRACTING | MS_DEDUPLICATING | MS_AGGREGATING | MS_COMPLETED | MS_FAILED

fun material_status_value :: "material_status \<Rightarrow> pystr" where
  "material_status_value MS_PENDING = u ''pending''"
| "material_status_value MS_TRANSCRIBING = u ''transcribing''"
| "material_status_value MS_NORMALIZING = u ''normalizing''"
| "material_status_value MS_EXTRACTING = u ''extracting''"
| "material_status_value MS_DEDUPLICATING = u ''deduplicating''"
| "material_status_value MS_AGGREGATING = u ''aggregating''"
| "material_status_value MS_COMPLETED = u ''completed''"
| "material_status_value MS_FAILED = u ''failed''"

datatype entity_kind = EK_PERSON | EK_ORGANIZATION | EK_LOCATION | EK_DATE | EK_TOPIC | EK_CLAIM | EK_METRIC | EK_CUSTOM

fun entity_kind_value :: "entity_kind \<Rightarrow> pystr" where
  "entity_kind_value EK_PERSON = u ''person''"
| "entity_kind_value EK_ORGANIZATION = u ''organization''"
| "entity_kind_value EK_LOCATION = u ''location''"
| "entity_kind_value EK_DATE = u ''date''"
| "entity_kind_value EK_TOPIC = u ''topic''"
| "entity_kind_value EK_CLAIM = u ''claim''"
| "entity_kind_value EK_METRIC = u ''metric''"
| "entity_kind_value EK_CUSTOM = u ''custom''"

datatype aggregate_kind = MATERIAL_COUNTS | INSIGHT_COUNTS | ENTITY_FREQUENCY | PIPELINE_HEALTH

record material =
  mt_id :: uuid
  mt_type :: material_type
  mt_title :: "pystr option"
  mt_uri :: "pystr option"
  mt_mime :: "pystr option"
  mt_raw :: "pystr option"
  mt_normalized :: "pystr option"
  mt_audio_key :: "pystr option"
  mt_status :: material_status
  mt_error :: "pystr option"
  mt_meta :: "(pystr \<times> json) list"
  mt_created_at :: time

text \<open>What the patterns find; the payload is the name of the pattern. The row keeps its fingerprint.\<close>

record found_entity =
  fe_kind :: entity_kind
  fe_label :: pystr
  fe_value :: pystr
  fe_span :: "nat \<times> nat"
  fe_pattern :: pystr

record material_entity =
  me_id :: uuid
  me_material :: uuid
  me_found :: found_entity
  me_fingerprint :: pystr

text \<open>The confidence of an insight is always 0.5 and its embedding all zeros.\<close>

record lab_insight =
  in_id :: uuid
  in_headline :: pystr
  in_summary :: "pystr option"
  in_body :: "pystr option"
  in_key :: pystr
  in_created_at :: time

record insight_link =
  il_insight :: uuid
  il_material :: uuid
  il_span_end :: "nat option"
  il_quote :: "pystr option"

datatype aggregate_payload =
    Material_counts nat "(pystr \<times> nat) list"
  | Insight_total nat
  | Entity_total nat
  | Health nat rat

record dash_aggregate =
  da_kind :: aggregate_kind
  da_period :: pystr
  da_payload :: aggregate_payload
  da_computed_at :: time

datatype lab_task = Process_material uuid | Recompute_aggregates

record lab =
  materials :: "material list"
  m_entities :: "material_entity list"
  insights :: "lab_insight list"
  links :: "insight_link list"
  aggregates :: "dash_aggregate list"
  lab_files :: "pystr \<Rightarrow> bytes option"
  lab_next :: uuid
  lab_clock :: time
  lab_outbox :: "lab_task list"

text \<open>
  Parameters: SHA-256 in hex, the transcription service (which raises an exception printed as \<open>Inl m\<close>), the broker,
  the JSON parser and the date of a time in UTC.
\<close>

record lab_services =
  lv_sha :: "pystr \<Rightarrow> pystr"
  lv_asr :: "bytes \<Rightarrow> pystr option \<Rightarrow> pystr + pystr"
  lv_broker :: "lab_task \<Rightarrow> pystr option"
  lv_loads :: "pystr \<Rightarrow> json option"
  lv_date :: "time \<Rightarrow> pystr"

type_synonym 'a lab_result = "(failure + 'a) \<times> lab"

definition lab_send :: "lab_services \<Rightarrow> lab_task \<Rightarrow> lab \<Rightarrow> unit lab_result" where
  "lab_send lv t l =
     (case lv_broker lv t of Some e \<Rightarrow> (Inl (Raised (Other_error e)), l) | None \<Rightarrow> (Inr (), l\<lparr>lab_outbox := lab_outbox l @ [t]\<rparr>))"

definition get_material :: "lab \<Rightarrow> uuid \<Rightarrow> material option" where
  "get_material l i = get_row mt_id i (materials l)"

definition upd_material :: "uuid \<Rightarrow> (material \<Rightarrow> material) \<Rightarrow> lab \<Rightarrow> lab" where
  "upd_material i f l = l\<lparr>materials := upd_row mt_id i f (materials l)\<rparr>"

section \<open>Normal form of a text\<close>

text \<open>A run of blanks and tabs becomes one blank, more than two line feeds become two.\<close>

fun squeeze_blanks :: "bool \<Rightarrow> pystr \<Rightarrow> pystr" where
  "squeeze_blanks r [] = []"
| "squeeze_blanks r (c # s) =
     (if c = 32 \<or> c = 9 then (if r then squeeze_blanks True s else 32 # squeeze_blanks True s) else c # squeeze_blanks False s)"

fun squeeze_lines :: "nat \<Rightarrow> pystr \<Rightarrow> pystr" where
  "squeeze_lines n [] = []"
| "squeeze_lines n (c # s) =
     (if c = 10 then (if n < 2 then c # squeeze_lines (n + 1) s else squeeze_lines n s) else c # squeeze_lines 0 s)"

definition normalize_text :: "env \<Rightarrow> pystr \<Rightarrow> pystr" where
  "normalize_text env s = squeeze_lines 0 (squeeze_blanks False (nfc env (strip s)))"

section \<open>Entities\<close>

definition exact :: "string \<Rightarrow> re" where
  "exact s = Seqs (map (\<lambda>p. Chr (\<lambda>c. c = p)) (u s))"

definition host_char :: "nat \<Rightarrow> bool" where
  "host_char c \<longleftrightarrow> 97 \<le> c \<and> c \<le> 122 \<or> 65 \<le> c \<and> c \<le> 90 \<or> 48 \<le> c \<and> c \<le> 57 \<or> c = 45"

definition ENTITY_EMAIL :: re where
  "ENTITY_EMAIL = Seqs [Plus (Chr (\<lambda>c. host_char c \<or> c = 95 \<or> c = 46 \<or> c = 43)), exact ''@'', Plus (Chr host_char), exact ''.'',
     Plus (Chr (\<lambda>c. host_char c \<or> c = 46))]"

definition ENTITY_URL :: re where
  "ENTITY_URL = Seqs [exact ''http'', Opt (exact ''s''), exact ''://'', Plus (Chr (\<lambda>c. \<not> is_space c \<and> c \<noteq> 41))]"

text \<open>
  One to six hashes at the start of a line, white space, and the rest of the line: where it ends the
  end of the line matches, so that \<^verbatim>\<open>$\<close> is not needed.
\<close>

fun up_to_times :: "nat \<Rightarrow> re \<Rightarrow> re" where
  "up_to_times 0 r = Eps"
| "up_to_times (Suc n) r = Opt (Seq r (up_to_times n r))"

definition ENTITY_HEADING :: re where
  "ENTITY_HEADING = Seqs [Alt Start (Behind (\<lambda>c. c = 10)), exact ''#'', up_to_times 5 (exact ''#''), Spaces1, Plus (Chr (\<lambda>c. c \<noteq> 10))]"

definition spans_of :: "re \<Rightarrow> pystr \<Rightarrow> (nat \<times> nat) list" where
  "spans_of r s = finditer (\<lambda>c. False) r s"

definition extract_entities :: "env \<Rightarrow> pystr \<Rightarrow> found_entity list" where
  "extract_entities env s =
     map (\<lambda>(i, j). let x = Prelude.slice s i j in
            \<lparr>fe_kind = EK_CUSTOM, fe_label = x, fe_value = lower env x, fe_span = (i, j), fe_pattern = u ''email''\<rparr>) (spans_of ENTITY_EMAIL s)
     @ map (\<lambda>(i, j). let x = Prelude.slice s i j in
            \<lparr>fe_kind = EK_TOPIC, fe_label = x, fe_value = x, fe_span = (i, j), fe_pattern = u ''url''\<rparr>) (spans_of ENTITY_URL s)
     @ map (\<lambda>(i, j). let x = strip (Prelude.slice s i j) in
            \<lparr>fe_kind = EK_TOPIC, fe_label = take 512 x, fe_value = take 1024 (lower env x), fe_span = (i, j), fe_pattern = u ''heading''\<rparr>)
         (spans_of ENTITY_HEADING s)"

definition material_fingerprint :: "lab_services \<Rightarrow> found_entity \<Rightarrow> pystr" where
  "material_fingerprint lv e = take 64 (lv_sha lv (entity_kind_value (fe_kind e) @ u ''|'' @ fe_label e @ u ''|'' @ fe_value e
     @ u ''|'' @ digits (fst (fe_span e)) @ u ''|'' @ digits (snd (fe_span e))))"

text \<open>
  \<^verbatim>\<open>_upsert_entities_sync\<close>, with the lengths of the columns: a value that is too long makes the database
  refuse the statement, and every later statement of its transaction.
\<close>

definition entity_fits :: "found_entity \<Rightarrow> bool" where
  "entity_fits e \<longleftrightarrow> length (fe_label e) \<le> 512 \<and> length (fe_value e) \<le> 1024"

definition insert_entity :: "lab_services \<Rightarrow> uuid \<Rightarrow> found_entity \<Rightarrow> lab \<Rightarrow> lab" where
  "insert_entity lv mid e l =
     (if list_ex (\<lambda>r. me_material r = mid \<and> me_fingerprint r = material_fingerprint lv e) (m_entities l) then l
      else l\<lparr>lab_next := lab_next l + 1,
        m_entities := m_entities l @ [\<lparr>me_id = lab_next l, me_material = mid, me_found = e, me_fingerprint = material_fingerprint lv e\<rparr>]\<rparr>)"

fun upsert_entities :: "lab_services \<Rightarrow> uuid \<Rightarrow> found_entity list \<Rightarrow> lab \<Rightarrow> lab option" where
  "upsert_entities lv mid [] l = Some l"
| "upsert_entities lv mid (e # es) l = (if entity_fits e then upsert_entities lv mid es (insert_entity lv mid e l) else None)"

section \<open>The insight of a material\<close>

definition insight_dedup_key :: "lab_services \<Rightarrow> pystr \<Rightarrow> pystr option \<Rightarrow> uuid \<Rightarrow> pystr" where
  "insight_dedup_key lv headline summary mid = take 64 (lv_sha lv (headline @ u ''|'' @ str_or summary [] @ u ''|'' @ uuid_str mid
     @ u ''|[('' @ [39] @ u ''material_id'' @ [39] @ u '', '' @ [39] @ uuid_str mid @ [39] @ u '')]''))"

definition if_text :: "pystr \<Rightarrow> pystr \<Rightarrow> pystr option" where
  "if_text s x = (if s = [] then None else Some x)"

definition ensure_stub_insight :: "lab_services \<Rightarrow> material \<Rightarrow> pystr \<Rightarrow> lab \<Rightarrow> lab" where
  "ensure_stub_insight lv m nt l =
     (let headline = take 512 (str_or (mt_title m) (u ''Research note'')); summary = if_text nt (take 2000 nt);
          key = insight_dedup_key lv headline summary (mt_id m)
      in if list_ex (\<lambda>r. in_key r = key) (insights l) then l
         else l\<lparr>lab_next := lab_next l + 1,
           insights := insights l @ [\<lparr>in_id = lab_next l, in_headline = headline, in_summary = summary,
             in_body = if_text nt (take 8000 nt), in_key = key, in_created_at = lab_clock l\<rparr>],
           links := links l @ [\<lparr>il_insight = lab_next l, il_material = mt_id m,
             il_span_end = (if nt = [] then None else Some (min (length nt) 4096)), il_quote = if_text nt (take 512 nt)\<rparr>]\<rparr>)"

section \<open>The tasks\<close>

text \<open>The text of a material: an audio file is transcribed, one without a file from no bytes.\<close>

definition material_text :: "lab_services \<Rightarrow> lab \<Rightarrow> material \<Rightarrow> pystr + pystr option" where
  "material_text lv l m = (case mt_type m of
     Text_material \<Rightarrow> Inr (mt_raw m)
   | Audio_material \<Rightarrow>
       (case lv_asr lv (case lab_files l (str_or (mt_audio_key m) []) of None \<Rightarrow> [] | Some b \<Rightarrow> b) (mt_mime m) of
          Inl e \<Rightarrow> Inl e | Inr t \<Rightarrow> Inr (Some t)))"

definition material_failed :: "pystr \<Rightarrow> material \<Rightarrow> material" where
  "material_failed e m = m\<lparr>mt_status := MS_FAILED, mt_error := Some e\<rparr>"

definition material_completed :: "pystr option \<Rightarrow> pystr \<Rightarrow> material \<Rightarrow> material" where
  "material_completed raw nt m = m\<lparr>mt_raw := raw, mt_normalized := Some nt, mt_status := MS_COMPLETED, mt_error := None\<rparr>"

definition delete_material_entities :: "uuid \<Rightarrow> lab \<Rightarrow> lab" where
  "delete_material_entities mid l = l\<lparr>m_entities := filter (\<lambda>r. me_material r \<noteq> mid) (m_entities l)\<rparr>"

text \<open>
  The transaction of the task, \<open>None\<close> when the database refused a statement: then the error handler
  writes into an aborted transaction, its exception leaves the task, and all is rolled back. The
  statuses in between are flushed, never committed.
\<close>

definition run_material :: "env \<Rightarrow> lab_services \<Rightarrow> material \<Rightarrow> lab \<Rightarrow> (pystr \<times> lab) option" where
  "run_material env lv m l = (case material_text lv l m of
     Inl e \<Rightarrow> Some (u ''error'', upd_material (mt_id m) (material_failed e) l)
   | Inr raw \<Rightarrow>
      (let nt = normalize_text env (text_of raw) in
       case upsert_entities lv (mt_id m) (extract_entities env nt) (delete_material_entities (mt_id m) l) of
         None \<Rightarrow> None
       | Some l1 \<Rightarrow> Some (u ''ok'', upd_material (mt_id m) (material_completed raw nt) (ensure_stub_insight lv m nt l1))))"

definition process_material_pipeline :: "env \<Rightarrow> lab_services \<Rightarrow> uuid \<Rightarrow> lab \<Rightarrow> pystr lab_result" where
  "process_material_pipeline env lv mid l = (case get_material l mid of
     None \<Rightarrow> (Inr (u ''missing''), l)
   | Some m \<Rightarrow> (case run_material env lv m l of
       None \<Rightarrow> (Inl (Raised (Other_error (u ''InFailedSqlTransaction''))), l)
     | Some (outcome, l1) \<Rightarrow> (case lab_send lv Recompute_aggregates l1 of
         (Inl e, l2) \<Rightarrow> (Inl e, l2) | (Inr x, l2) \<Rightarrow> (Inr outcome, l2))))"

definition dashboard_upsert :: "aggregate_kind \<Rightarrow> pystr \<Rightarrow> aggregate_payload \<Rightarrow> lab \<Rightarrow> lab" where
  "dashboard_upsert k period p l =
     (if list_ex (\<lambda>r. da_kind r = k \<and> da_period r = period) (aggregates l)
      then l\<lparr>aggregates := map (\<lambda>r. if da_kind r = k \<and> da_period r = period
               then r\<lparr>da_payload := p, da_computed_at := lab_clock l\<rparr> else r) (aggregates l)\<rparr>
      else l\<lparr>aggregates := aggregates l @ [\<lparr>da_kind = k, da_period = period, da_payload = p, da_computed_at = lab_clock l\<rparr>]\<rparr>)"

definition materials_by_status :: "lab \<Rightarrow> (pystr \<times> nat) list" where
  "materials_by_status l = counter (map (material_status_value \<circ> mt_status) (materials l))"

definition health_of :: "lab \<Rightarrow> aggregate_payload" where
  "health_of l = (let failed = (case map_of (materials_by_status l) (u ''failed'') of None \<Rightarrow> 0 | Some n \<Rightarrow> n); n = length (materials l)
     in Health failed (if n = 0 then 0 else fl (of_nat failed / of_nat n)))"

definition recompute_dashboard_aggregates :: "lab_services \<Rightarrow> lab \<Rightarrow> pystr \<times> lab" where
  "recompute_dashboard_aggregates lv l =
     (let period = lv_date lv (lab_clock l)
      in (period, dashboard_upsert PIPELINE_HEALTH period (health_of l)
           (dashboard_upsert ENTITY_FREQUENCY period (Entity_total (length (m_entities l)))
             (dashboard_upsert INSIGHT_COUNTS period (Insight_total (length (insights l)))
               (dashboard_upsert MATERIAL_COUNTS period (Material_counts (length (materials l)) (materials_by_status l)) l)))))"

section \<open>The service\<close>

text \<open>A new row is refused when a value is too long for its column.\<close>

definition new_material :: "material_type \<Rightarrow> pystr option \<Rightarrow> pystr option \<Rightarrow> pystr option \<Rightarrow> pystr option \<Rightarrow> pystr option
    \<Rightarrow> (pystr \<times> json) list \<Rightarrow> lab \<Rightarrow> material" where
  "new_material ty raw key title uri mime meta l = \<lparr>mt_id = lab_next l, mt_type = ty, mt_title = title, mt_uri = uri, mt_mime = mime,
     mt_raw = raw, mt_normalized = None, mt_audio_key = key, mt_status = MS_PENDING, mt_error = None, mt_meta = meta,
     mt_created_at = lab_clock l\<rparr>"

definition material_fits :: "material \<Rightarrow> bool" where
  "material_fits m \<longleftrightarrow> length (text_of (mt_title m)) \<le> 512 \<and> length (text_of (mt_uri m)) \<le> 2048
     \<and> length (text_of (mt_mime m)) \<le> 128 \<and> length (text_of (mt_audio_key m)) \<le> 1024"

definition store_material :: "lab_services \<Rightarrow> material \<Rightarrow> lab \<Rightarrow> uuid lab_result" where
  "store_material lv m l =
     (if \<not> material_fits m then (Inl (Raised (Other_error (u ''DataError''))), l)
      else case lab_send lv (Process_material (mt_id m)) (l\<lparr>materials := materials l @ [m], lab_next := lab_next l + 1\<rparr>) of
        (Inl e, l1) \<Rightarrow> (Inl e, l1) | (Inr x, l1) \<Rightarrow> (Inr (mt_id m), l1))"

definition svc_ingest_text :: "lab_services \<Rightarrow> pystr \<Rightarrow> pystr option \<Rightarrow> pystr option \<Rightarrow> pystr option \<Rightarrow> (pystr \<times> json) list \<Rightarrow> lab
    \<Rightarrow> uuid lab_result" where
  "svc_ingest_text lv raw title uri mime meta l = store_material lv (new_material Text_material (Some raw) None title uri mime meta l) l"

text \<open>\<open>storage_dir\<close> is the upload directory; the file is written before the row and stays if the row is refused.\<close>

definition audio_upload_name :: "pystr option \<Rightarrow> pystr" where
  "audio_upload_name filename =
     (let c = strip (replace_dots (filter (\<lambda>x. x \<noteq> 0) (rsplit_last 47 (replace_char 92 47 (text_of filename)))))
      in if c = [] \<or> c = u ''.'' \<or> c = u ''_'' then u ''audio.bin'' else c)"

definition svc_ingest_audio :: "lab_services \<Rightarrow> pystr \<Rightarrow> bytes \<Rightarrow> pystr option \<Rightarrow> pystr option \<Rightarrow> pystr option \<Rightarrow> pystr option
    \<Rightarrow> (pystr \<times> json) list \<Rightarrow> lab \<Rightarrow> uuid lab_result" where
  "svc_ingest_audio lv dir content filename title uri mime meta l =
     (let path = dir @ [47] @ uuid_str (lab_next l) @ [95] @ audio_upload_name filename;
          l1 = l\<lparr>lab_next := lab_next l + 1, lab_files := (lab_files l)(path \<mapsto> content)\<rparr>
      in store_material lv (new_material Audio_material None (Some path) title uri mime meta l1) l1)"

definition list_recent_materials :: "nat \<Rightarrow> lab \<Rightarrow> material list" where
  "list_recent_materials n l = take n (sort_key (\<lambda>m. - mt_created_at m) (materials l))"

definition mark_material_failed :: "uuid \<Rightarrow> pystr \<Rightarrow> lab \<Rightarrow> lab" where
  "mark_material_failed mid msg l = upd_material mid (material_failed msg) l"

section \<open>The handlers\<close>

record text_body =
  tb_type :: material_type
  tb_raw :: "pystr option"
  tb_title :: "pystr option"
  tb_uri :: "pystr option"
  tb_mime :: "pystr option"
  tb_meta :: "(pystr \<times> json) list"

text \<open>The row that was just stored, read again.\<close>

definition stored_material :: "uuid lab_result \<Rightarrow> material lab_result" where
  "stored_material r = (case r of (Inl e, l) \<Rightarrow> (Inl e, l)
   | (Inr i, l) \<Rightarrow> (case get_material l i of None \<Rightarrow> (Inl (Http 500 (u ''material not found after create'')), l) | Some m \<Rightarrow> (Inr m, l)))"

definition post_text :: "lab_services \<Rightarrow> text_body \<Rightarrow> lab \<Rightarrow> material lab_result" where
  "post_text lv b l =
     (if tb_type b \<noteq> Text_material then (Inl (Http 400 (u ''material_type must be text'')), l)
      else if strip (text_of (tb_raw b)) = [] then (Inl (Http 400 (u ''raw_text is required'')), l)
      else stored_material (svc_ingest_text lv (text_of (tb_raw b)) (tb_title b) (tb_uri b) (tb_mime b) (tb_meta b) l))"

definition parse_extra_metadata :: "lab_services \<Rightarrow> pystr option \<Rightarrow> failure + (pystr \<times> json) list" where
  "parse_extra_metadata lv raw =
     (if text_of raw = [] then Inr []
      else case lv_loads lv (text_of raw) of
        None \<Rightarrow> Inl (Http 400 (u ''invalid extra_metadata json''))
      | Some (JObj d) \<Rightarrow> Inr d
      | Some v \<Rightarrow> Inl (Http 400 (u ''extra_metadata must be a JSON object'')))"

definition post_audio :: "lab_services \<Rightarrow> settings \<Rightarrow> pystr \<Rightarrow> upload_file \<Rightarrow> pystr option \<Rightarrow> pystr option \<Rightarrow> pystr option \<Rightarrow> lab
    \<Rightarrow> material lab_result" where
  "post_audio lv cf dir f title uri extra l = (case parse_extra_metadata lv extra of
     Inl e \<Rightarrow> (Inl e, l)
   | Inr meta \<Rightarrow> (case read_upload_file_with_limit f (upload_max_bytes cf) DEFAULT_UPLOAD_READ_CHUNK_BYTES of
       Inl e \<Rightarrow> (Inl e, l)
     | Inr data \<Rightarrow> stored_material (svc_ingest_audio lv dir data (up_filename f) title uri (up_type f) meta l)))"

text \<open>\<^verbatim>\<open>Path(s).stem\<close>.\<close>

definition path_stem :: "pystr \<Rightarrow> pystr" where
  "path_stem s = (let n = path_name s; i = rfind 46 n in if 0 < i \<and> i < int (length n) - 1 then take (nat i) n else n)"

definition title_for_audio_file :: "pystr option \<Rightarrow> pystr option \<Rightarrow> nat \<Rightarrow> pystr option" where
  "title_for_audio_file filename title n =
     (let clean = strip (text_of title); name = text_of filename
      in if clean \<noteq> [] \<and> n = 1 then Some clean
         else if name \<noteq> [] then Some (if path_stem name \<noteq> [] then path_stem name else name)
         else if clean \<noteq> [] then Some clean else None)"

definition default_item :: "pystr \<Rightarrow> json \<Rightarrow> (pystr \<times> json) list \<Rightarrow> (pystr \<times> json) list" where
  "default_item k v d = (if k \<in> set (map fst d) then d else d @ [(k, v)])"

type_synonym audio_item = "pystr \<times> (pystr + uuid)"

definition bulk_audio_file :: "lab_services \<Rightarrow> settings \<Rightarrow> pystr \<Rightarrow> nat \<Rightarrow> pystr option \<Rightarrow> pystr option \<Rightarrow> (pystr \<times> json) list
    \<Rightarrow> upload_file \<Rightarrow> lab \<Rightarrow> audio_item lab_result" where
  "bulk_audio_file lv cf dir n title uri meta f l =
     (let filename = str_or (up_filename f) (u ''audio.bin'') in
      case read_upload_file_with_limit f (upload_max_bytes cf) DEFAULT_UPLOAD_READ_CHUNK_BYTES of
        Inl (Http s code) \<Rightarrow> (Inr (filename, Inl code), l)
      | Inl (Raised e) \<Rightarrow> (Inl (Raised e), l)
      | Inr data \<Rightarrow>
          (case svc_ingest_audio lv dir data (Some filename) (title_for_audio_file (Some filename) title n) uri (up_type f)
             (default_item (u ''bulk_upload'') (JBool True) (default_item (u ''original_filename'') (JStr filename) meta)) l of
             (Inl e, l1) \<Rightarrow> (Inl e, l1) | (Inr i, l1) \<Rightarrow> (Inr (filename, Inr i), l1)))"

fun bulk_audio_files :: "(upload_file \<Rightarrow> lab \<Rightarrow> audio_item lab_result) \<Rightarrow> upload_file list \<Rightarrow> lab \<Rightarrow> audio_item list lab_result" where
  "bulk_audio_files h [] l = (Inr [], l)"
| "bulk_audio_files h (f # fs) l = (case h f l of
     (Inl e, l1) \<Rightarrow> (Inl e, l1)
   | (Inr x, l1) \<Rightarrow> (case bulk_audio_files h fs l1 of (Inl e, l2) \<Rightarrow> (Inl e, l2) | (Inr xs, l2) \<Rightarrow> (Inr (x # xs), l2)))"

record audio_bulk_response =
  ab_code :: nat
  ab_total :: nat
  ab_succeeded :: nat
  ab_failed :: nat
  ab_items :: "audio_item list"

definition audio_bulk_of :: "audio_item list \<Rightarrow> audio_bulk_response" where
  "audio_bulk_of xs =
     (let failed = length (filter (\<lambda>(f, r). case r of Inl c \<Rightarrow> True | Inr i \<Rightarrow> False) xs)
      in \<lparr>ab_code = (if failed \<noteq> 0 then 207 else 201), ab_total = length xs, ab_succeeded = length xs - failed, ab_failed = failed,
           ab_items = xs\<rparr>)"

definition post_audio_bulk :: "lab_services \<Rightarrow> settings \<Rightarrow> pystr \<Rightarrow> upload_file list \<Rightarrow> pystr option \<Rightarrow> pystr option \<Rightarrow> pystr option
    \<Rightarrow> lab \<Rightarrow> audio_bulk_response lab_result" where
  "post_audio_bulk lv cf dir fs title uri extra l =
     (if fs = [] then (Inl (Http 400 (u ''at least one file is required'')), l)
      else if upload_max_files cf < length fs then (Inl (Http 400 (u ''too_many_files'')), l)
      else case parse_extra_metadata lv extra of
        Inl e \<Rightarrow> (Inl e, l)
      | Inr meta \<Rightarrow> (case bulk_audio_files (bulk_audio_file lv cf dir (length fs) title uri meta) fs l of
          (Inl e, l1) \<Rightarrow> (Inl e, l1)
        | (Inr xs, l1) \<Rightarrow> (Inr (audio_bulk_of xs), l1)))"

definition read_material :: "uuid \<Rightarrow> lab \<Rightarrow> failure + material" where
  "read_material mid l = (case get_material l mid of None \<Rightarrow> Inl (Http 404 (u ''material not found'')) | Some m \<Rightarrow> Inr m)"

definition reprocess_material :: "lab_services \<Rightarrow> uuid \<Rightarrow> lab \<Rightarrow> unit lab_result" where
  "reprocess_material lv mid l = (case read_material mid l of Inl e \<Rightarrow> (Inl e, l) | Inr m \<Rightarrow> lab_send lv (Process_material mid) l)"

definition request_recompute :: "lab_services \<Rightarrow> lab \<Rightarrow> unit lab_result" where
  "request_recompute lv l = lab_send lv Recompute_aggregates l"

text \<open>The insights with their links, newest first.\<close>

definition list_insights :: "nat \<Rightarrow> lab \<Rightarrow> (lab_insight \<times> insight_link list) list" where
  "list_insights n l = map (\<lambda>r. (r, filter (\<lambda>k. il_insight k = in_id r) (links l)))
     (take n (sort_key (\<lambda>r. - in_created_at r) (insights l)))"

section \<open>The normal form\<close>

fun no_run :: "nat \<Rightarrow> nat \<Rightarrow> nat \<Rightarrow> pystr \<Rightarrow> bool" where
  "no_run c k n [] \<longleftrightarrow> True"
| "no_run c k n (x # s) \<longleftrightarrow> (if x = c then n < k \<and> no_run c k (n + 1) s else no_run c k 0 s)"

text \<open>No tab, no two blanks next to each other, no three line feeds.\<close>

definition normal_form :: "pystr \<Rightarrow> bool" where
  "normal_form s \<longleftrightarrow> 9 \<notin> set s \<and> no_run 32 1 0 s \<and> no_run 10 2 0 s"

lemma squeeze_blanks_normal: "9 \<notin> set (squeeze_blanks r s) \<and> no_run 32 1 (if r then 1 else 0) (squeeze_blanks r s)"
  by (induction r s rule: squeeze_blanks.induct) auto

lemma squeeze_lines_set: "set (squeeze_lines n s) \<subseteq> set s"
  by (induction n s rule: squeeze_lines.induct) auto

lemma squeeze_lines_runs: "n \<le> 2 \<Longrightarrow> no_run 10 2 n (squeeze_lines n s)"
  by (induction n s rule: squeeze_lines.induct) auto

lemma squeeze_lines_keeps: "no_run 32 k m s \<Longrightarrow> (n = 0 \<or> m = 0) \<Longrightarrow> no_run 32 k m (squeeze_lines n s)"
  by (induction n s arbitrary: m rule: squeeze_lines.induct) (auto split: if_splits)

lemma normalize_text_normal: "normal_form (normalize_text env s)"
  using squeeze_blanks_normal [of False "nfc env (strip s)"] squeeze_lines_set squeeze_lines_runs squeeze_lines_keeps
  by (fastforce simp: normal_form_def normalize_text_def)

section \<open>One run of the task\<close>

definition entities_of :: "uuid \<Rightarrow> lab \<Rightarrow> material_entity list" where
  "entities_of mid l = filter (\<lambda>r. me_material r = mid) (m_entities l)"

definition others_of :: "uuid \<Rightarrow> lab \<Rightarrow> material_entity list" where
  "others_of mid l = filter (\<lambda>r. me_material r \<noteq> mid) (m_entities l)"

named_theorems lab_simps \<open>what a write leaves unchanged\<close>

lemma upd_material_sel [lab_simps]:
  "materials (upd_material i f l) = upd_row mt_id i f (materials l)" "m_entities (upd_material i f l) = m_entities l"
  "insights (upd_material i f l) = insights l" "links (upd_material i f l) = links l"
  "aggregates (upd_material i f l) = aggregates l" "lab_outbox (upd_material i f l) = lab_outbox l"
  "lab_files (upd_material i f l) = lab_files l" "lab_next (upd_material i f l) = lab_next l"
  by (simp_all add: upd_material_def)

lemma insert_entity_sel [lab_simps]:
  "materials (insert_entity lv mid e l) = materials l" "insights (insert_entity lv mid e l) = insights l"
  "links (insert_entity lv mid e l) = links l" "aggregates (insert_entity lv mid e l) = aggregates l"
  "lab_outbox (insert_entity lv mid e l) = lab_outbox l" "lab_files (insert_entity lv mid e l) = lab_files l"
  by (simp_all add: insert_entity_def)

lemma upsert_entities_sel [lab_simps]:
  "upsert_entities lv mid es l = Some l1 \<Longrightarrow> materials l1 = materials l \<and> insights l1 = insights l \<and> links l1 = links l
     \<and> aggregates l1 = aggregates l \<and> lab_outbox l1 = lab_outbox l \<and> lab_files l1 = lab_files l"
  by (induction lv mid es l rule: upsert_entities.induct) (auto simp: lab_simps split: if_splits)

lemma delete_material_entities_sel [lab_simps]:
  "materials (delete_material_entities mid l) = materials l" "insights (delete_material_entities mid l) = insights l"
  "links (delete_material_entities mid l) = links l" "aggregates (delete_material_entities mid l) = aggregates l"
  "lab_outbox (delete_material_entities mid l) = lab_outbox l" "lab_files (delete_material_entities mid l) = lab_files l"
  "entities_of mid (delete_material_entities mid l) = []" "others_of mid (delete_material_entities mid l) = others_of mid l"
  "m_entities (delete_material_entities mid l) = others_of mid l"
  by (simp_all add: delete_material_entities_def entities_of_def others_of_def)

lemma ensure_stub_insight_sel [lab_simps]:
  "materials (ensure_stub_insight lv m s l) = materials l" "m_entities (ensure_stub_insight lv m s l) = m_entities l"
  "aggregates (ensure_stub_insight lv m s l) = aggregates l" "lab_outbox (ensure_stub_insight lv m s l) = lab_outbox l"
  "lab_files (ensure_stub_insight lv m s l) = lab_files l"
  by (simp_all add: ensure_stub_insight_def Let_def)

lemma insert_entity_of:
  "entities_of mid (insert_entity lv mid e l) =
     (if material_fingerprint lv e \<in> me_fingerprint ` set (entities_of mid l) then entities_of mid l
      else entities_of mid l @ [\<lparr>me_id = lab_next l, me_material = mid, me_found = e, me_fingerprint = material_fingerprint lv e\<rparr>])"
  "others_of mid (insert_entity lv mid e l) = others_of mid l"
  by (force simp: insert_entity_def entities_of_def others_of_def list_ex_iff)+

lemma keep_first_seen: "set ks = set ks' \<Longrightarrow> keep_first k ks xs = keep_first k ks' xs"
proof (induction xs arbitrary: ks ks')
  case (Cons x xs)
  have "keep_first k (k x # ks) xs = keep_first k (k x # ks') xs" using Cons.prems by (intro Cons.IH) simp
  then show ?case using Cons.IH [OF Cons.prems] Cons.prems by simp
qed simp

text \<open>Repeated finds are kept once.\<close>

lemma upsert_entities_of:
  "upsert_entities lv mid es l = Some l1 \<Longrightarrow> others_of mid l1 = others_of mid l \<and>
     map (\<lambda>r. (me_found r, me_fingerprint r)) (entities_of mid l1) = map (\<lambda>r. (me_found r, me_fingerprint r)) (entities_of mid l)
       @ map (\<lambda>e. (e, material_fingerprint lv e)) (keep_first (material_fingerprint lv) (map me_fingerprint (entities_of mid l)) es)"
proof (induction lv mid es l rule: upsert_entities.induct)
  case (2 lv mid e es l)
  then have ih: "others_of mid l1 = others_of mid (insert_entity lv mid e l) \<and>
     map (\<lambda>r. (me_found r, me_fingerprint r)) (entities_of mid l1) =
       map (\<lambda>r. (me_found r, me_fingerprint r)) (entities_of mid (insert_entity lv mid e l))
       @ map (\<lambda>e. (e, material_fingerprint lv e))
           (keep_first (material_fingerprint lv) (map me_fingerprint (entities_of mid (insert_entity lv mid e l))) es)"
    by (simp split: if_splits)
  have "keep_first k (ks @ [x]) es = keep_first k (x # ks) es" for k :: "found_entity \<Rightarrow> pystr" and ks x
    by (rule keep_first_seen) auto
  then show ?case using ih by (auto simp: insert_entity_of)
qed simp

definition has_insight :: "lab_services \<Rightarrow> material \<Rightarrow> pystr \<Rightarrow> lab \<Rightarrow> bool" where
  "has_insight lv m s l \<longleftrightarrow> insight_dedup_key lv (take 512 (str_or (mt_title m) (u ''Research note''))) (if_text s (take 2000 s)) (mt_id m)
     \<in> set (map in_key (insights l))"

lemma ensure_has_insight: "has_insight lv m s (ensure_stub_insight lv m s l)"
  by (force simp: has_insight_def ensure_stub_insight_def Let_def list_ex_iff)

lemma ensure_keeps_insights: "\<exists>xs. insights (ensure_stub_insight lv m s l) = insights l @ xs \<and> length xs \<le> 1"
  by (simp add: ensure_stub_insight_def Let_def)

lemma has_insight_fixed: "has_insight lv m s l \<Longrightarrow> ensure_stub_insight lv m s l = l"
  by (auto simp: has_insight_def ensure_stub_insight_def Let_def list_ex_iff)

text \<open>What a run that ends well has done.\<close>

definition processed :: "env \<Rightarrow> lab_services \<Rightarrow> material \<Rightarrow> lab \<Rightarrow> lab \<Rightarrow> bool" where
  "processed env lv m l l1 \<longleftrightarrow> (\<exists>raw s. normal_form s \<and> material_text lv l m = Inr raw \<and> s = normalize_text env (text_of raw)
     \<and> materials l1 = upd_row mt_id (mt_id m) (material_completed raw s) (materials l)
     \<and> map me_found (entities_of (mt_id m) l1) = keep_first (material_fingerprint lv) [] (extract_entities env s)
     \<and> others_of (mt_id m) l1 = others_of (mt_id m) l \<and> has_insight lv m s l1)"

definition refused :: "lab_services \<Rightarrow> material \<Rightarrow> lab \<Rightarrow> lab \<Rightarrow> bool" where
  "refused lv m l l1 \<longleftrightarrow> (\<exists>e. material_text lv l m = Inl e
     \<and> materials l1 = upd_row mt_id (mt_id m) (material_failed e) (materials l) \<and> m_entities l1 = m_entities l \<and> insights l1 = insights l)"

lemma run_material_ends:
  "run_material env lv m l = Some (x, l1) \<Longrightarrow> lab_outbox l1 = lab_outbox l \<and>
     (x = u ''ok'' \<and> processed env lv m l l1 \<or> x = u ''error'' \<and> refused lv m l l1)"
proof (cases "material_text lv l m")
  case (Inl e)
  assume "run_material env lv m l = Some (x, l1)"
  then show ?thesis using Inl by (auto simp: run_material_def refused_def lab_simps)
next
  case (Inr raw)
  assume a: "run_material env lv m l = Some (x, l1)"
  define s where "s = normalize_text env (text_of raw)"
  obtain l0 where l0: "upsert_entities lv (mt_id m) (extract_entities env s) (delete_material_entities (mt_id m) l) = Some l0"
    "x = u ''ok''" "l1 = upd_material (mt_id m) (material_completed raw s) (ensure_stub_insight lv m s l0)"
    using a Inr by (auto simp: run_material_def s_def Let_def split: option.splits)
  have e: "entities_of (mt_id m) l1 = entities_of (mt_id m) l0" "others_of (mt_id m) l1 = others_of (mt_id m) l0"
    by (simp_all add: l0 entities_of_def others_of_def lab_simps)
  have "map fst (map (\<lambda>r. (me_found r, me_fingerprint r)) (entities_of (mt_id m) l0))
      = map fst (map (\<lambda>e. (e, material_fingerprint lv e)) (keep_first (material_fingerprint lv) [] (extract_entities env s)))"
    using upsert_entities_of [OF l0(1)] by (simp add: lab_simps)
  then have "map me_found (entities_of (mt_id m) l0) = keep_first (material_fingerprint lv) [] (extract_entities env s)"
    by (simp add: o_def)
  moreover have "has_insight lv m s l1" using ensure_has_insight [of lv m s l0] by (simp add: l0 has_insight_def lab_simps)
  moreover have "materials l1 = upd_row mt_id (mt_id m) (material_completed raw s) (materials l)"
    "others_of (mt_id m) l0 = others_of (mt_id m) l" "lab_outbox l1 = lab_outbox l"
    using upsert_entities_of [OF l0(1)] upsert_entities_sel [OF l0(1)] by (simp_all add: l0(3) lab_simps)
  moreover have "normal_form s" by (simp add: s_def normalize_text_normal)
  ultimately have "processed env lv m l l1" unfolding processed_def e
    by (intro exI [of _ raw] exI [of _ s]) (simp add: Inr s_def)
  then show ?thesis using l0(2) \<open>lab_outbox l1 = lab_outbox l\<close> by simp
qed

text \<open>
  C36. A run of the task on a material. If it ends well the material is completed with its text in
  normal form, its entities are what the patterns find in it, each once, those of other materials are
  as before, and an insight of the text exists. If the transcription fails the material is failed and
  nothing else changes. Both ask for new totals. An exception comes from a value too long for its
  column, and then nothing is changed, or from the broker.
\<close>

theorem material_run_outcome:
  "case (get_material l mid, process_material_pipeline env lv mid l) of
     (None, r) \<Rightarrow> r = (Inr (u ''missing''), l)
   | (Some m, (Inr x, l1)) \<Rightarrow> lab_outbox l1 = lab_outbox l @ [Recompute_aggregates]
       \<and> (if x = u ''ok'' then processed env lv m l l1 else x = u ''error'' \<and> refused lv m l l1)
   | (Some m, (Inl e, l1)) \<Rightarrow> lab_outbox l1 = lab_outbox l \<and> (if lv_broker lv Recompute_aggregates = None then l1 = l else True)"
proof (cases "get_material l mid")
  case None
  then show ?thesis by (simp add: process_material_pipeline_def)
next
  case (Some m)
  show ?thesis
  proof (cases "run_material env lv m l")
    case None
    then show ?thesis by (simp add: process_material_pipeline_def Some)
  next
    case run: (Some r)
    obtain x l1 where r: "r = (x, l1)" by (cases r)
    note ends = run_material_ends [OF run [unfolded r]]
    show ?thesis
    proof (cases "lv_broker lv Recompute_aggregates")
      case None
      let ?l2 = "l1\<lparr>lab_outbox := lab_outbox l1 @ [Recompute_aggregates]\<rparr>"
      have "processed env lv m l ?l2 = processed env lv m l l1" "refused lv m l ?l2 = refused lv m l l1"
        by (simp_all add: processed_def refused_def entities_of_def others_of_def has_insight_def)
      moreover have "process_material_pipeline env lv mid l = (Inr x, ?l2)"
        by (simp add: process_material_pipeline_def Some run r lab_send_def None)
      ultimately show ?thesis using ends by (auto simp: Some)
    next
      case (Some e)
      then have "process_material_pipeline env lv mid l = (Inl (Raised (Other_error e)), l1)"
        by (simp add: process_material_pipeline_def \<open>get_material l mid = Some m\<close> run r lab_send_def)
      then show ?thesis using ends by (simp add: \<open>get_material l mid = Some m\<close> Some)
    qed
  qed
qed


section \<open>Running a text again\<close>

lemma upsert_entities_iff: "upsert_entities lv mid es l \<noteq> None \<longleftrightarrow> list_all entity_fits es"
  by (induction lv mid es l rule: upsert_entities.induct) auto

lemma upd_material_row_twice: "(\<And>r. key (f r) = key r) \<Longrightarrow> (\<And>r. f (f r) = f r) \<Longrightarrow> upd_row key i f (upd_row key i f rows) = upd_row key i f rows"
  by (simp add: upd_row_def)

lemma material_completed_id [simp]: "mt_id (material_completed raw s m) = mt_id m" "mt_id (material_failed e m) = mt_id m"
  by (simp_all add: material_completed_def material_failed_def)

lemma get_upd_material:
  "(\<And>m. mt_id (f m) = mt_id m) \<Longrightarrow> get_material (upd_material i f l) j = (if i = j then map_option f (get_material l j) else get_material l j)"
  by (simp add: get_material_def upd_material_def get_upd_row)

text \<open>
  A text that was processed can be processed again, and nothing changes but the ids of the entities: the material,
  the entities found in it, those of other materials, the insights and their links are the same.
\<close>

theorem text_processed_again:
  assumes "get_material l mid = Some m" "mt_type m = Text_material" "run_material env lv m l = Some (x, l1)"
  shows "\<exists>m1 y l2. get_material l1 mid = Some m1 \<and> run_material env lv m1 l1 = Some (y, l2) \<and> materials l2 = materials l1
     \<and> map me_found (entities_of mid l2) = map me_found (entities_of mid l1) \<and> others_of mid l2 = others_of mid l1
     \<and> insights l2 = insights l1 \<and> links l2 = links l1"
proof -
  have id: "mt_id m = mid" using assms(1) by (auto simp: get_material_def dest: get_row_SomeD)
  let ?raw = "mt_raw m"
  define s where "s = normalize_text env (text_of ?raw)"
  define es where "es = extract_entities env s"
  define m1 where "m1 = material_completed ?raw s m"
  have raw: "material_text lv k n = Inr (mt_raw n)" if "mt_type n = Text_material" for k n using that by (simp add: material_text_def)
  obtain l0 where l0: "upsert_entities lv mid es (delete_material_entities mid l) = Some l0"
    "l1 = upd_material mid (material_completed ?raw s) (ensure_stub_insight lv m s l0)"
    using assms(3) by (auto simp: run_material_def raw assms(2) s_def es_def id Let_def split: option.splits)
  have m1: "get_material l1 mid = Some m1" "mt_type m1 = Text_material" "mt_raw m1 = ?raw" "mt_id m1 = mid" "mt_title m1 = mt_title m"
    using assms(1) upsert_entities_sel [OF l0(1)]
    by (simp_all add: l0(2) get_upd_row m1_def get_material_def lab_simps id material_completed_def assms(2))
  obtain l3 where l3: "upsert_entities lv mid es (delete_material_entities mid l1) = Some l3"
    using l0(1) upsert_entities_iff [of lv mid es] by (metis not_None_eq)
  have "has_insight lv m1 s l1"
    using ensure_has_insight [of lv m s l0] by (simp add: has_insight_def m1 id l0(2) lab_simps)
  then have i3: "ensure_stub_insight lv m1 s l3 = l3"
    using upsert_entities_sel [OF l3] by (intro has_insight_fixed) (simp add: has_insight_def lab_simps)
  define l2 where "l2 = upd_material mid (material_completed ?raw s) l3"
  have "run_material env lv m1 l1 = Some (u ''ok'', l2)"
    using l3 i3 by (simp add: run_material_def raw m1 Let_def s_def es_def l2_def)
  moreover have "materials l2 = materials l1"
    using upsert_entities_sel [OF l3] upd_material_row_twice [of mt_id "material_completed ?raw s" mid "materials l0"]
    by (simp add: l2_def l0(2) lab_simps material_completed_def)
  moreover have "map me_found (entities_of mid k) = keep_first (material_fingerprint lv) [] es"
    if "upsert_entities lv mid es (delete_material_entities mid k0) = Some k" for k k0
  proof -
    have "map fst (map (\<lambda>r. (me_found r, me_fingerprint r)) (entities_of mid k))
        = map fst (map (\<lambda>e. (e, material_fingerprint lv e)) (keep_first (material_fingerprint lv) [] es))"
      using upsert_entities_of [OF that] by (simp add: lab_simps)
    then show ?thesis by (simp add: o_def)
  qed
  note this [OF l0(1)] this [OF l3]
  moreover have "entities_of mid l2 = entities_of mid l3" "others_of mid l2 = others_of mid l3"
    "entities_of mid l1 = entities_of mid l0" "others_of mid l1 = others_of mid l0"
    by (simp_all add: l2_def l0(2) entities_of_def others_of_def lab_simps)
  moreover have "insights l2 = insights l1" "links l2 = links l1"
    using upsert_entities_sel [OF l3] by (simp_all add: l2_def lab_simps)
  moreover have "others_of mid l3 = others_of mid l1" using upsert_entities_of [OF l3] by (simp add: lab_simps)
  ultimately show ?thesis using m1(1) by auto
qed

definition sample_services :: lab_services where
  "sample_services = \<lparr>lv_sha = id, lv_asr = (\<lambda>b m. Inl (u ''no key'')), lv_broker = (\<lambda>t. None), lv_loads = (\<lambda>s. None),
     lv_date = (\<lambda>t. u ''2026-01-01'')\<rparr>"

definition sample_material :: material where
  "sample_material = \<lparr>mt_id = 0, mt_type = Text_material, mt_title = None, mt_uri = None, mt_mime = None, mt_raw = Some (u ''#  A''),
     mt_normalized = None, mt_audio_key = None, mt_status = MS_PENDING, mt_error = None, mt_meta = [], mt_created_at = 0\<rparr>"

definition sample_lab :: lab where
  "sample_lab = \<lparr>materials = [sample_material], m_entities = [], insights = [], links = [], aggregates = [], lab_files = (\<lambda>p. None),
     lab_next = 1, lab_clock = 0, lab_outbox = []\<rparr>"

lemma sample_run: "(case run_material plain_env sample_services sample_material sample_lab of
    None \<Rightarrow> False | Some (x, l) \<Rightarrow> map fe_label (map me_found (m_entities l)) = [u ''# A''])"
  by code_simp

theorem text_processed_again_witness:
  "\<exists>x l1 m1 y l2. run_material plain_env sample_services sample_material sample_lab = Some (x, l1)
     \<and> run_material plain_env sample_services m1 l1 = Some (y, l2) \<and> materials l2 = materials l1 \<and> insights l2 = insights l1"
proof -
  obtain x l1 where "run_material plain_env sample_services sample_material sample_lab = Some (x, l1)"
    using sample_run by (auto split: option.splits)
  moreover have "get_material sample_lab 0 = Some sample_material" "mt_type sample_material = Text_material"
    by (simp_all add: sample_lab_def sample_material_def get_material_def get_row_def)
  ultimately show ?thesis using text_processed_again [of sample_lab 0 sample_material plain_env sample_services x l1] by blast
qed

text \<open>A link of more than 512 characters stops its material for good: every run fails and leaves it as it was.\<close>

lemma overlong_label_blocks:
  "mt_type m = Text_material \<Longrightarrow> \<not> list_all entity_fits (extract_entities env (normalize_text env (text_of (mt_raw m)))) \<Longrightarrow>
     get_material l mid = Some m \<Longrightarrow> snd (process_material_pipeline env lv mid l) = l"
  using upsert_entities_iff [of lv "mt_id m" "extract_entities env (normalize_text env (text_of (mt_raw m)))" "delete_material_entities (mt_id m) l"]
  by (auto simp: process_material_pipeline_def run_material_def material_text_def Let_def split: option.splits)

section \<open>All histories\<close>

text \<open>
  What clients and workers do; \<open>Pass\<close> lets time pass. \<open>dir\<close> and \<open>cf\<close> are the settings of the server.
\<close>

datatype lab_op =
    Post_text text_body
  | Post_audio upload_file "pystr option" "pystr option" "pystr option"
  | Post_bulk "upload_file list" "pystr option" "pystr option" "pystr option"
  | Reprocess uuid
  | Mark_failed uuid pystr
  | Run_pipeline uuid
  | Recompute
  | Request_recompute
  | Pass nat

fun lab_exec :: "env \<Rightarrow> lab_services \<Rightarrow> settings \<Rightarrow> pystr \<Rightarrow> lab_op \<Rightarrow> lab \<Rightarrow> lab" where
  "lab_exec env lv cf dir (Post_text b) l = snd (post_text lv b l)"
| "lab_exec env lv cf dir (Post_audio f t x e) l = snd (post_audio lv cf dir f t x e l)"
| "lab_exec env lv cf dir (Post_bulk fs t x e) l = snd (post_audio_bulk lv cf dir fs t x e l)"
| "lab_exec env lv cf dir (Reprocess i) l = snd (reprocess_material lv i l)"
| "lab_exec env lv cf dir (Mark_failed i e) l = mark_material_failed i e l"
| "lab_exec env lv cf dir (Run_pipeline i) l = snd (process_material_pipeline env lv i l)"
| "lab_exec env lv cf dir Recompute l = snd (recompute_dashboard_aggregates lv l)"
| "lab_exec env lv cf dir Request_recompute l = snd (request_recompute lv l)"
| "lab_exec env lv cf dir (Pass n) l = l\<lparr>lab_clock := lab_clock l + int n\<rparr>"

definition empty_lab :: lab where
  "empty_lab = \<lparr>materials = [], m_entities = [], insights = [], links = [], aggregates = [], lab_files = (\<lambda>p. None),
     lab_next = 0, lab_clock = 0, lab_outbox = []\<rparr>"

definition settled :: "material \<Rightarrow> bool" where
  "settled m \<longleftrightarrow> (case mt_status m of
     MS_PENDING \<Rightarrow> mt_error m = None \<and> mt_normalized m = None
   | MS_COMPLETED \<Rightarrow> mt_error m = None \<and> mt_normalized m \<noteq> None
   | MS_FAILED \<Rightarrow> mt_error m \<noteq> None
   | _ \<Rightarrow> False)"

text \<open>The constraints of the tables, and that only settled materials are ever seen.\<close>

definition lab_ok :: "lab \<Rightarrow> bool" where
  "lab_ok l \<longleftrightarrow> distinct (map mt_id (materials l)) \<and> list_all (\<lambda>m. mt_id m < lab_next l) (materials l) \<and> list_all settled (materials l)
     \<and> distinct (map (\<lambda>r. (me_material r, me_fingerprint r)) (m_entities l))
     \<and> list_all (\<lambda>r. me_material r \<in> mt_id ` set (materials l) \<and> entity_fits (me_found r)) (m_entities l)
     \<and> distinct (map in_key (insights l)) \<and> distinct (map in_id (insights l)) \<and> list_all (\<lambda>r. in_id r < lab_next l) (insights l)
     \<and> map il_insight (links l) = map in_id (insights l) \<and> list_all (\<lambda>k. il_material k \<in> mt_id ` set (materials l)) (links l)
     \<and> distinct (map (\<lambda>r. (da_kind r, da_period r)) (aggregates l))"

lemma lab_ok_send: "lab_ok (snd (lab_send lv t l)) \<longleftrightarrow> lab_ok l"
  by (simp add: lab_send_def lab_ok_def split: option.split)

lemma lab_ok_upd:
  assumes "lab_ok l" "\<And>m. mt_id (f m) = mt_id m" "\<And>m. settled (f m)"
  shows "lab_ok (upd_material i f l)"
proof -
  have ids: "map mt_id (upd_row mt_id i f (materials l)) = map mt_id (materials l)" by (rule keys_upd_row) (rule assms(2))
  then have "mt_id ` set (upd_row mt_id i f (materials l)) = mt_id ` set (materials l)" by (metis set_map)
  moreover have "list_all settled (upd_row mt_id i f (materials l))"
    "list_all (\<lambda>m. mt_id m < lab_next l) (upd_row mt_id i f (materials l))"
    using assms by (auto simp: lab_ok_def list_all_iff dest!: set_upd_row)
  ultimately show ?thesis using assms(1) by (simp add: lab_ok_def lab_simps ids)
qed

lemma lab_ok_store:
  assumes "lab_ok l" "mt_id m = lab_next l" "settled m"
  shows "lab_ok (snd (store_material lv m l))"
proof -
  have "lab_ok (l\<lparr>materials := materials l @ [m], lab_next := lab_next l + 1\<rparr>)"
    using assms by (fastforce simp: lab_ok_def list_all_iff)
  then show ?thesis using lab_ok_send [of lv "Process_material (mt_id m)" "l\<lparr>materials := materials l @ [m], lab_next := lab_next l + 1\<rparr>"] assms(1)
    by (auto simp: store_material_def split: prod.split sum.split)
qed

lemma lab_ok_text: "lab_ok l \<Longrightarrow> lab_ok (snd (svc_ingest_text lv raw title uri mime meta l))"
  unfolding svc_ingest_text_def by (rule lab_ok_store) (simp_all add: new_material_def settled_def)

lemma lab_ok_audio: "lab_ok l \<Longrightarrow> lab_ok (snd (svc_ingest_audio lv dir content f title uri mime meta l))"
  unfolding svc_ingest_audio_def Let_def
  by (rule lab_ok_store) (auto simp: new_material_def settled_def lab_ok_def list_all_iff less_Suc_eq)

lemma snd_pass [simp]: "snd (case r of (Inl e, l1) \<Rightarrow> (Inl e, l1) | (Inr i, l1) \<Rightarrow> (Inr (g i), l1)) = snd r"
  by (simp split: prod.split sum.split)

lemma snd_stored_material [simp]: "snd (stored_material r) = snd r"
  by (simp add: stored_material_def split: prod.split sum.split option.split)

lemma lab_ok_bulk_file: "lab_ok l \<Longrightarrow> lab_ok (snd (bulk_audio_file lv cf dir n title uri meta f l))"
  by (simp add: bulk_audio_file_def Let_def lab_ok_audio split: sum.split failure.split)

lemma lab_ok_bulk_files: "(\<And>f l. lab_ok l \<Longrightarrow> lab_ok (snd (h f l))) \<Longrightarrow> lab_ok l \<Longrightarrow> lab_ok (snd (bulk_audio_files h fs l))"
proof (induction fs arbitrary: l)
  case (Cons f fs)
  obtain r l1 where r: "h f l = (r, l1)" by (cases "h f l")
  then have "lab_ok l1" using Cons.prems by (metis snd_conv)
  then have "lab_ok (snd (bulk_audio_files h fs l1))" using Cons by blast
  then show ?case using \<open>lab_ok l1\<close> by (auto simp: r split: sum.split prod.split)
qed simp

lemma lab_ok_bulk: "lab_ok l \<Longrightarrow> lab_ok (snd (post_audio_bulk lv cf dir fs title uri extra l))"
  by (simp add: post_audio_bulk_def Let_def lab_ok_bulk_files lab_ok_bulk_file split: sum.split)

lemma lab_ok_insert:
  assumes "lab_ok l" "mid \<in> mt_id ` set (materials l)" "entity_fits e"
  shows "lab_ok (insert_entity lv mid e l)"
  using assms by (fastforce simp: lab_ok_def insert_entity_def list_all_iff list_ex_iff)

lemma lab_ok_upsert: "upsert_entities lv mid es l = Some l1 \<Longrightarrow> lab_ok l \<Longrightarrow> mid \<in> mt_id ` set (materials l) \<Longrightarrow> lab_ok l1"
proof (induction lv mid es l rule: upsert_entities.induct)
  case (2 lv mid e es l)
  then show ?case using lab_ok_insert [of l mid e lv] by (auto simp: lab_simps split: if_splits)
qed simp

lemma lab_ok_delete: "lab_ok l \<Longrightarrow> lab_ok (delete_material_entities mid l)"
  by (auto simp: lab_ok_def delete_material_entities_def list_all_iff distinct_map_filter)

lemma lab_ok_insight: "lab_ok l \<Longrightarrow> mt_id m \<in> mt_id ` set (materials l) \<Longrightarrow> lab_ok (ensure_stub_insight lv m s l)"
  by (fastforce simp: lab_ok_def ensure_stub_insight_def Let_def list_all_iff list_ex_iff)

lemma lab_ok_run:
  assumes "run_material env lv m l = Some (x, l1)" "m \<in> set (materials l)" "lab_ok l"
  shows "lab_ok l1"
proof (cases "material_text lv l m")
  case (Inl e)
  then show ?thesis using assms by (auto simp: run_material_def material_failed_def settled_def intro!: lab_ok_upd)
next
  case (Inr raw)
  let ?s = "normalize_text env (text_of raw)"
  obtain l0 where l0: "upsert_entities lv (mt_id m) (extract_entities env ?s) (delete_material_entities (mt_id m) l) = Some l0"
    "l1 = upd_material (mt_id m) (material_completed raw ?s) (ensure_stub_insight lv m ?s l0)"
    using assms(1) Inr by (auto simp: run_material_def Let_def split: option.splits)
  have "lab_ok l0" using assms(2,3) by (intro lab_ok_upsert [OF l0(1)] lab_ok_delete) (simp_all add: lab_simps)
  moreover have "mt_id m \<in> mt_id ` set (materials l0)" using assms(2) upsert_entities_sel [OF l0(1)] by (simp add: lab_simps)
  ultimately show ?thesis
    unfolding l0(2) by (intro lab_ok_upd lab_ok_insight) (simp_all add: material_completed_def settled_def)
qed

lemma lab_ok_pipeline:
  assumes "lab_ok l"
  shows "lab_ok (snd (process_material_pipeline env lv mid l))"
proof (cases "get_material l mid")
  case (Some m)
  then have "m \<in> set (materials l)" by (auto simp: get_material_def dest: get_row_SomeD)
  then show ?thesis
    using assms lab_ok_run [of env lv m l]
    by (auto simp: process_material_pipeline_def Some lab_ok_send split: option.split)
qed (simp add: process_material_pipeline_def assms)

lemma lab_ok_dashboard:
  assumes "lab_ok l"
  shows "lab_ok (dashboard_upsert k p x l)"
proof -
  have "map (\<lambda>r. (da_kind r, da_period r)) (map (\<lambda>r. if da_kind r = k \<and> da_period r = p
      then r\<lparr>da_payload := x, da_computed_at := lab_clock l\<rparr> else r) as) = map (\<lambda>r. (da_kind r, da_period r)) as" for as
    by (induction as) auto
  from this [of "aggregates l"] show ?thesis
    using assms by (auto simp: lab_ok_def dashboard_upsert_def list_ex_iff simp del: map_map)
qed

text \<open>
  C35. In every history of uploads, runs and requests the tables keep their constraints: entities are
  unique within their material, an insight is linked to one material that exists and has a key of its own, there is
  one total of a kind and day, and a material is only seen pending, completed with a text or failed
  with an error.
\<close>

theorem lab_always_ok: "lab_ok (fold (lab_exec env lv cf dir) ops empty_lab)"
proof -
  have step: "lab_ok (lab_exec env lv cf dir x l)" if "lab_ok l" for x l
  proof (cases x)
    case (Pass n)
    then show ?thesis using that by (simp add: lab_ok_def)
  qed (auto simp: that post_text_def post_audio_def lab_ok_bulk reprocess_material_def read_material_def request_recompute_def lab_ok_send
      mark_material_failed_def material_failed_def settled_def recompute_dashboard_aggregates_def Let_def lab_ok_text lab_ok_audio lab_ok_pipeline
      lab_ok_dashboard intro!: lab_ok_upd split: sum.split option.split)
  have "lab_ok l \<Longrightarrow> lab_ok (fold (lab_exec env lv cf dir) ops l)" for l
    by (induction ops arbitrary: l) (simp_all add: step)
  then show ?thesis by (simp add: empty_lab_def lab_ok_def)
qed

section \<open>A bulk upload\<close>

definition too_big :: "settings \<Rightarrow> upload_file \<Rightarrow> bool" where
  "too_big cf f \<longleftrightarrow> upload_max_bytes cf < int (length (up_content f))"

definition ids_ok :: "audio_item list \<Rightarrow> uuid list" where
  "ids_ok xs = concat (map (\<lambda>(f, r). case r of Inl c \<Rightarrow> [] | Inr i \<Rightarrow> [i]) xs)"

lemma read_file_cases:
  "read_upload_file_with_limit f (upload_max_bytes cf) DEFAULT_UPLOAD_READ_CHUNK_BYTES = r \<Longrightarrow>
     (case r of Inr b \<Rightarrow> \<not> too_big cf f \<and> b = up_content f | Inl (Http c x) \<Rightarrow> too_big cf f | Inl (Raised e) \<Rightarrow> True)"
  by (auto simp: read_upload_file_with_limit_def too_big_def DEFAULT_UPLOAD_READ_CHUNK_BYTES_def read_loop_eq)

lemma bulk_audio_file_result:
  assumes "bulk_audio_file lv cf dir n title uri meta f l = (Inr (name, r), l1)"
  shows "name = str_or (up_filename f) (u ''audio.bin'') \<and> (case r of
     Inl c \<Rightarrow> too_big cf f \<and> l1 = l
   | Inr i \<Rightarrow> \<not> too_big cf f \<and> lab_outbox l1 = lab_outbox l @ [Process_material i] \<and> (\<exists>m. mt_id m = i \<and> materials l1 = materials l @ [m]))"
  using assms read_file_cases [of f cf, OF refl]
  by (auto simp: bulk_audio_file_def Let_def svc_ingest_audio_def store_material_def lab_send_def new_material_def
      split: sum.splits failure.splits prod.splits option.splits if_splits)

lemma bulk_audio_files_result:
  "bulk_audio_files (bulk_audio_file lv cf dir n title uri meta) fs l = (Inr xs, l1) \<Longrightarrow>
     map fst xs = map (\<lambda>f. str_or (up_filename f) (u ''audio.bin'')) fs
     \<and> length (filter (\<lambda>(f, r). case r of Inl c \<Rightarrow> True | Inr i \<Rightarrow> False) xs) = length (filter (too_big cf) fs)
     \<and> lab_outbox l1 = lab_outbox l @ map Process_material (ids_ok xs) \<and> map mt_id (materials l1) = map mt_id (materials l) @ ids_ok xs"
proof (induction fs arbitrary: l xs)
  case (Cons f fs)
  then obtain name r l2 ys where h: "bulk_audio_file lv cf dir n title uri meta f l = (Inr (name, r), l2)"
    "bulk_audio_files (bulk_audio_file lv cf dir n title uri meta) fs l2 = (Inr ys, l1)" "xs = (name, r) # ys"
    by (auto split: prod.splits sum.splits)
  show ?case using bulk_audio_file_result [OF h(1)] Cons.IH [OF h(2)] h(3) by (cases r) (auto simp: ids_ok_def)
qed (simp add: ids_ok_def)

lemma bulk_audio_file_error: "bulk_audio_file lv cf dir n title uri meta f l = (Inl e, l1) \<Longrightarrow> \<exists>x. e = Raised x"
  by (auto simp: bulk_audio_file_def Let_def svc_ingest_audio_def store_material_def lab_send_def
      split: sum.splits failure.splits prod.splits option.splits if_splits)

lemma bulk_audio_files_error:
  "bulk_audio_files (bulk_audio_file lv cf dir n title uri meta) fs l = (Inl e, l1) \<Longrightarrow> \<exists>x. e = Raised x"
  by (induction fs arbitrary: l) (auto split: prod.splits sum.splits dest: bulk_audio_file_error)

text \<open>
  A bulk upload that is answered has one item for every file, in order, with an error exactly for the files
  above the limit; the new materials are those of the other items, in order, and each was sent to the
  pipeline once. A refused request leaves everything as it was.
\<close>

theorem audio_bulk_answers_every_file:
  "case post_audio_bulk lv cf dir fs title uri extra l of
     (Inr r, l1) \<Rightarrow> map fst (ab_items r) = map (\<lambda>f. str_or (up_filename f) (u ''audio.bin'')) fs
       \<and> ab_failed r = length (filter (too_big cf) fs) \<and> ab_succeeded r + ab_failed r = ab_total r \<and> ab_total r = length fs
       \<and> ab_code r = (if list_ex (too_big cf) fs then 207 else 201)
       \<and> map mt_id (materials l1) = map mt_id (materials l) @ ids_ok (ab_items r)
       \<and> lab_outbox l1 = lab_outbox l @ map Process_material (ids_ok (ab_items r))
   | (Inl (Http c x), l1) \<Rightarrow> l1 = l
   | (Inl (Raised e), l1) \<Rightarrow> True"
proof (cases "fs = [] \<or> upload_max_files cf < length fs \<or> (\<exists>e. parse_extra_metadata lv extra = Inl e)")
  case True
  then show ?thesis
    by (auto simp: post_audio_bulk_def parse_extra_metadata_def split: if_splits option.splits json.splits)
next
  case False
  then obtain meta where meta: "parse_extra_metadata lv extra = Inr meta" by (cases "parse_extra_metadata lv extra") auto
  obtain r l1 where r: "bulk_audio_files (bulk_audio_file lv cf dir (length fs) title uri meta) fs l = (r, l1)"
    by (cases "bulk_audio_files (bulk_audio_file lv cf dir (length fs) title uri meta) fs l")
  show ?thesis
  proof (cases r)
    case (Inl e)
    then show ?thesis using bulk_audio_files_error [OF r [unfolded Inl]] False by (auto simp: post_audio_bulk_def meta r)
  next
    case (Inr xs)
    note res = bulk_audio_files_result [OF r [unfolded Inr]]
    have "length xs = length fs" using res by (metis length_map)
    moreover have "filter (too_big cf) fs \<noteq> [] \<longleftrightarrow> list_ex (too_big cf) fs" by (auto simp: filter_empty_conv list_ex_iff)
    ultimately show ?thesis
      using res False length_filter_le [of "too_big cf" fs] by (simp add: post_audio_bulk_def meta r Inr audio_bulk_of_def Let_def)
  qed
qed

end
