(* ===== verification/Summary.thy ===== *)
theory Summary
  imports Readiness Dashboard_Blocks "HOL-Library.Sublist"
begin

text \<open>
  The summary of a project: \<^verbatim>\<open>research_summary_generation_service.py\<close> writes it from the entities alone,
  \<^verbatim>\<open>summary/gpt_summary_provider.py\<close> asks a language model and falls back to the former, and
  \<^verbatim>\<open>generate_project_summary\<close> prepares the project and stores the row.
\<close>

section \<open>Sections made of entities\<close>

datatype section_key = Key_findings | Facts | Hypotheses | Risks | Opportunities | Recommendations | Open_questions

record summary_section =
  sx_key :: section_key
  sx_items :: "json list"

record research_summary =
  rs_project :: uuid
  rs_text :: pystr
  rs_sections :: "summary_section list"

definition entity_item :: "extracted_entity \<Rightarrow> items" where
  "entity_item e = [(u ''entity_id'', JStr (uuid_str (en_id e))), (u ''entity_type'', JStr (entity_type_value (en_type e))),
     (u ''title'', JStr (en_title e)), (u ''content'', JStr (en_content e)),
     (u ''confidence_score'', JFloat (Finite (cd_score (en_candidate e)))), (u ''chunk_id'', JStr (uuid_str (en_chunk_id e))),
     (u ''evidence_quote'', JStr (cd_quote (en_candidate e)))]"

definition PROBLEM_LIKE :: "entity_type list" where
  "PROBLEM_LIKE = [PROBLEM, PAIN_POINT, USER_NEED, TRUST_ISSUE, ADOPTION_BARRIER]"

definition FACT_LIKE :: "entity_type list" where
  "FACT_LIKE = [SUPPORTING_FACT, SENTIMENT_SIGNAL, BEHAVIOR_PATTERN, CLAIM, METRIC, DATE, PERSON, ORGANIZATION, LOCATION, TOPIC,
     REFERENCE]"

text \<open>The branch an entity takes, with the item it adds. The content is never missing.\<close>

definition main_entry :: "env \<Rightarrow> extracted_entity \<Rightarrow> (section_key \<times> items) option" where
  "main_entry env e =
     (let it = entity_item e; et = en_type e in
      if et = RECOMMENDATION then Some (Recommendations, it)
      else if et = CLAIM \<and> sublist (u ''recommend'') (lower env (en_content e))
        then Some (Recommendations, it @ [([1080, 1089, 1090, 1086, 1095, 1085, 1080, 1082], JStr [1082,
       1083, 1102, 1095, 1077, 1074, 1086, 1077, 32, 1089, 1083, 1086, 1074, 1086, 32, 1074, 32, 1092,
       1086, 1088, 1084, 1091, 1083, 1080, 1088, 1086, 1074, 1082, 1077, 32, 1091, 1090, 1074, 1077, 1088,
       1078, 1076, 1077, 1085, 1080, 1103])])
      else if et = CUSTOM then Some (Recommendations, it)
      else if et \<in> set PROBLEM_LIKE then Some (Key_findings, it @ [([1080, 1089, 1090, 1086, 1095,
       1085, 1080, 1082], JStr [1090, 1077, 1084, 1072, 32, 1087, 1088, 1086, 1073, 1083, 1077, 1084, 1099,
       32, 1080, 1083, 1080, 32, 1087, 1086, 1090, 1088, 1077, 1073, 1085, 1086, 1089, 1090, 1080])])
      else if et \<in> set FACT_LIKE then Some (Facts, it)
      else if et = HYPOTHESIS then Some (Hypotheses, it)
      else if et = RISK then Some (Risks, it)
      else if et = OPPORTUNITY then Some (Opportunities, it)
      else if et = OPEN_QUESTION then Some (Open_questions, it)
      else None)"

definition doubtful :: "extracted_entity \<Rightarrow> bool" where
  "doubtful e \<longleftrightarrow> cd_score (en_candidate e) < fl (68 / 100) \<and> en_type e \<noteq> OPEN_QUESTION"

definition entries_of :: "env \<Rightarrow> extracted_entity \<Rightarrow> (section_key \<times> items) list" where
  "entries_of env e = (case main_entry env e of None \<Rightarrow> [] | Some x \<Rightarrow> [x])
     @ (if doubtful e then [(Open_questions, entity_item e @ [([1087, 1088, 1080, 1095, 1080, 1085, 1072],
       JStr [1085, 1080, 1079, 1082, 1072, 1103, 32, 1080, 1083, 1080, 32, 1086, 1090, 1089, 1091, 1090,
       1089, 1090, 1074, 1091, 1102, 1097, 1072, 1103, 32, 1091, 1074, 1077, 1088, 1077, 1085, 1085, 1086,
       1089, 1090, 1100, 32, 1084, 1086, 1076, 1077, 1083, 1080])])] else [])"

definition SECTION_KEYS :: "section_key list" where
  "SECTION_KEYS = [Key_findings, Facts, Hypotheses, Risks, Opportunities, Recommendations, Open_questions]"

definition sections_of :: "(section_key \<times> items) list \<Rightarrow> summary_section list" where
  "sections_of xs = map (\<lambda>k. \<lparr>sx_key = k, sx_items = map (\<lambda>x. JObj (snd x)) (filter (\<lambda>x. fst x = k) xs)\<rparr>) SECTION_KEYS"

text \<open>
  A dictionary of counts as it is printed, and in the order in which PostgreSQL returns the keys of a
  \<^verbatim>\<open>jsonb\<close> object: by their length, then bytewise.
\<close>

definition counts_repr :: "(pystr \<times> nat) list \<Rightarrow> pystr" where
  "counts_repr td = u ''{'' @ join (u '', '') (map (\<lambda>(k, n). [39] @ k @ [39] @ u '': '' @ digits n) td) @ u ''}''"

definition jsonb_order :: "(pystr \<times> nat) list \<Rightarrow> (pystr \<times> nat) list" where
  "jsonb_order td = sort_key (\<lambda>(k, n). (length k, k)) td"

text \<open>\<open>td0\<close> is the distribution of types in the latest snapshot, empty if there is none.\<close>

definition summary_text_of :: "(pystr \<times> nat) list \<Rightarrow> extracted_entity list \<Rightarrow> pystr" where
  "summary_text_of td0 cs =
     (let td = (if td0 = [] \<and> cs \<noteq> [] then counter (map (entity_type_value \<circ> en_type) cs) else td0)
      in join [10] [[1050, 1072, 1085, 1086, 1085, 1080, 1095, 1077, 1089, 1082, 1080, 1093, 32, 1077,
       1076, 1080, 1085, 1080, 1094, 32, 1080, 1089, 1089, 1083, 1077, 1076, 1086, 1074, 1072, 1085, 1080,
       1103, 58, 32] @ digits (length cs) @ u ''.'',
           if td \<noteq> [] then [1056, 1072, 1089, 1087, 1088, 1077, 1076, 1077, 1083, 1077, 1085, 1080,
       1077, 32, 1087, 1086, 32, 1090, 1080, 1087, 1072, 1084, 58, 32] @ counts_repr td @ u ''.''
           else [1053, 1077, 1090, 32, 1088, 1072, 1089, 1087, 1088, 1077, 1076, 1077, 1083, 1077, 1085,
       1080, 1103, 32, 1087, 1086, 32, 1090, 1080, 1087, 1072, 1084, 32, 40, 1089, 1085, 1072, 1095, 1072,
       1083, 1072, 32, 1079, 1072, 1087, 1091, 1089, 1090, 1080, 1090, 1077, 32, 1089, 1073, 1086, 1088,
       32, 1072, 1085, 1072, 1083, 1080, 1090, 1080, 1082, 1080, 41, 46],
           [1053, 1080, 1078, 1077, 32, 1087, 1077, 1088, 1077, 1095, 1080, 1089, 1083, 1077, 1085, 1099,
       32, 1090, 1086, 1083, 1100, 1082, 1086, 32, 1088, 1077, 1072, 1083, 1100, 1085, 1086, 32, 1089,
       1086, 1093, 1088, 1072, 1085, 1105, 1085, 1085, 1099, 1077, 32, 1077, 1076, 1080, 1085, 1080, 1094,
       1099, 32, 40, 1080, 1076, 1077, 1085, 1090, 1080, 1092, 1080, 1082, 1072, 1090, 1086, 1088, 1099,
       32, 1080, 32, 1087, 1088, 1080, 1074, 1103, 1079, 1082, 1072, 32, 1082, 32, 1092, 1088, 1072, 1075,
       1084, 1077, 1085, 1090, 1072, 1084, 32, 1090, 1077, 1082, 1089, 1090, 1072, 41, 46]])"

definition PROJECT_MISSING :: exc where "PROJECT_MISSING = Value_error (u ''project_not_found'')"

definition deterministic_summary :: "env \<Rightarrow> (pystr \<times> nat) list \<Rightarrow> uuid \<Rightarrow> world \<Rightarrow> exc + research_summary" where
  "deterministic_summary env td0 pid w =
     (if pid \<notin> set (projects w) then Inl PROJECT_MISSING
      else (let cs = canonical_entities w pid
            in Inr \<lparr>rs_project = pid, rs_text = summary_text_of td0 cs, rs_sections = sections_of (concat (map (entries_of env) cs))\<rparr>))"

section \<open>Sections made by a language model\<close>

text \<open>
  The client: what it answers to the rows of the prompt (\<open>None\<close> when the call raises or has no choice), the JSON
  parser, and \<^verbatim>\<open>UUID(s)\<close>, \<open>None\<close> when it raises.
\<close>

record summary_model =
  sm_answer :: "json list \<Rightarrow> pystr option"
  sm_loads :: "pystr \<Rightarrow> json option"
  sm_uuid :: "pystr \<Rightarrow> uuid option"

definition prompt_entities :: "extracted_entity list \<Rightarrow> extracted_entity list" where
  "prompt_entities cs = take 150 cs"

definition compact_entity :: "extracted_entity \<Rightarrow> json" where
  "compact_entity e =
     (let c = strip (en_content e); content = (if 400 < length c then take 400 c @ [8230] else c)
      in JObj [(u ''id'', JStr (uuid_str (en_id e))), (u ''entity_type'', JStr (entity_type_value (en_type e))),
           (u ''title'', JStr (strip (en_title e))), (u ''content'', JStr content),
           (u ''confidence_score'', JFloat (Finite (cd_score (en_candidate e))))])"

definition supporting_ids :: "dash \<Rightarrow> summary_model \<Rightarrow> uuid list \<Rightarrow> json \<Rightarrow> uuid list" where
  "supporting_ids da sm valid v = (case v of
     JArr xs \<Rightarrow> filter (\<lambda>i. i \<in> set valid) (List.map_filter (\<lambda>x. sm_uuid sm (strip (str_of da x))) xs)
   | _ \<Rightarrow> [])"

text \<open>A statement of the model: title, content and the entities it rests on.\<close>

type_synonym thesis_item = "pystr \<times> pystr \<times> uuid list"

definition normalize_section_item :: "dash \<Rightarrow> summary_model \<Rightarrow> uuid list \<Rightarrow> json \<Rightarrow> thesis_item list" where
  "normalize_section_item da sm valid v = (case v of
     JObj m \<Rightarrow>
       (let title = text_item da m ''title''; content = text_item da m ''content''
        in if title = [] \<and> content = [] then []
           else [(if title \<noteq> [] then take 512 title else [1058, 1077, 1079, 1080, 1089], content,
       supporting_ids da sm valid (item m (u ''supporting_entity_ids'')))])
   | _ \<Rightarrow> [])"

definition normalize_section_items :: "dash \<Rightarrow> summary_model \<Rightarrow> uuid list \<Rightarrow> json \<Rightarrow> thesis_item list" where
  "normalize_section_items da sm valid v = (case v of JArr xs \<Rightarrow> concat (map (normalize_section_item da sm valid) xs) | _ \<Rightarrow> [])"

definition thesis_json :: "thesis_item \<Rightarrow> json" where
  "thesis_json t = JObj [(u ''title'', JStr (fst t)), (u ''content'', JStr (fst (snd t))),
     (u ''supporting_entity_ids'', JArr (map (\<lambda>i. JStr (uuid_str i)) (snd (snd t))))]"

definition call_summary_llm :: "summary_model \<Rightarrow> json list \<Rightarrow> items option" where
  "call_summary_llm sm rows = (case sm_answer sm rows of
     None \<Rightarrow> None
   | Some raw \<Rightarrow> if raw = [] then None else (case sm_loads sm raw of Some (JObj m) \<Rightarrow> Some m | _ \<Rightarrow> None))"

fun section_name :: "section_key \<Rightarrow> pystr" where
  "section_name Key_findings = u ''key_findings''"
| "section_name Facts = u ''facts''"
| "section_name Hypotheses = u ''hypotheses''"
| "section_name Risks = u ''risks''"
| "section_name Opportunities = u ''opportunities''"
| "section_name Recommendations = u ''recommendations''"
| "section_name Open_questions = u ''open_questions''"

definition gpt_theses :: "dash \<Rightarrow> summary_model \<Rightarrow> extracted_entity list \<Rightarrow> items \<Rightarrow> section_key \<Rightarrow> thesis_item list" where
  "gpt_theses da sm cs m k = normalize_section_items da sm (map en_id (prompt_entities cs)) (item m (section_name k))"

definition gpt_summary :: "env \<Rightarrow> dash \<Rightarrow> summary_model \<Rightarrow> (pystr \<times> nat) list \<Rightarrow> uuid \<Rightarrow> world \<Rightarrow> exc + research_summary" where
  "gpt_summary env da sm td0 pid w =
     (if pid \<notin> set (projects w) then Inl PROJECT_MISSING
      else (let cs = canonical_entities w pid; rows = map compact_entity (prompt_entities cs) in
        if rows = [] then deterministic_summary env td0 pid w
        else case call_summary_llm sm rows of
          None \<Rightarrow> deterministic_summary env td0 pid w
        | Some m \<Rightarrow>
            (let t = text_item da m ''summary_text''
             in Inr \<lparr>rs_project = pid, rs_text = (if t \<noteq> [] then t else [1057, 1074, 1086,
       1076, 1082, 1072, 32, 1087, 1086, 1089, 1090, 1088, 1086, 1077, 1085, 1072, 32, 1087, 1086, 32,
       1080, 1079, 1074, 1083, 1077, 1095, 1105, 1085, 1085, 1099, 1084, 32, 1077, 1076, 1080, 1085, 1080,
       1094, 1072, 1084, 46]),
                  rs_sections = map (\<lambda>k. \<lparr>sx_key = k, sx_items = map thesis_json (gpt_theses da sm cs m k)\<rparr>) SECTION_KEYS\<rparr>)))"

section \<open>The task\<close>

datatype summary_provider = Deterministic | Gpt_summary

definition get_summary_provider :: "pystr \<Rightarrow> pystr option \<Rightarrow> summary_provider" where
  "get_summary_provider provider_mode key = (if provider_mode = u ''gpt'' \<and> strip (text_of key) \<noteq> [] then Gpt_summary else Deterministic)"

definition project_summary :: "env \<Rightarrow> dash \<Rightarrow> summary_model \<Rightarrow> summary_provider \<Rightarrow> (pystr \<times> nat) list \<Rightarrow> uuid \<Rightarrow> world \<Rightarrow> exc + research_summary" where
  "project_summary env da sm p = (case p of Deterministic \<Rightarrow> deterministic_summary env | Gpt_summary \<Rightarrow> gpt_summary env da sm)"

text \<open>The foreign key of a snapshot refers to its project: without one the database refuses it.\<close>

definition aggregate_checked :: "env \<Rightarrow> uuid \<Rightarrow> world \<Rightarrow> aggregation_payload outcome" where
  "aggregate_checked env pid w =
     (if pid \<in> set (projects w) then (case aggregate_project_sync env pid w of (p, w1) \<Rightarrow> (Inr p, w1))
      else (Inl (Other_error (u ''IntegrityError'')), w))"

text \<open>The summaries are a table of their own; \<open>None\<close> stands for the answer \<open>missing\<close>.\<close>

definition summary_body :: "env \<Rightarrow> services \<Rightarrow> dash \<Rightarrow> summary_model \<Rightarrow> pystr \<Rightarrow> uuid \<Rightarrow> world \<Rightarrow> research_summary option outcome" where
  "summary_body env sv da sm provider_mode pid w =
     (case and_then (ensure_project_sources_pipeline_sync env sv pid w) (\<lambda>x w1.
           and_then (aggregate_checked env pid w1) (\<lambda>p w2.
             (project_summary env da sm (get_summary_provider provider_mode (openai_api_key (conf env))) (jsonb_order (type_distribution p)) pid w2, w2))) of
        (Inl e, w3) \<Rightarrow> if e = PROJECT_MISSING then (Inr None, w3) else (Inl e, w3)
      | (Inr r, w3) \<Rightarrow> (Inr (Some r), w3))"

definition generate_project_summary :: "env \<Rightarrow> services \<Rightarrow> dash \<Rightarrow> summary_model \<Rightarrow> pystr \<Rightarrow> uuid \<Rightarrow> world \<Rightarrow> research_summary option outcome" where
  "generate_project_summary env sv da sm provider_mode pid = session_scope (summary_body env sv da sm provider_mode pid)"

section \<open>What a summary holds\<close>

lemma main_entry_Some: "main_entry env e \<noteq> None"
  by (cases "en_type e") (simp_all add: main_entry_def Let_def PROBLEM_LIKE_def FACT_LIKE_def)

lemma main_entry_item: "main_entry env e = Some (k, m) \<Longrightarrow> take 7 m = entity_item e"
proof -
  assume "main_entry env e = Some (k, m)"
  then have "\<exists>x. m = entity_item e @ x" by (auto simp: main_entry_def Let_def split: if_splits)
  moreover have "length (entity_item e) = 7" by (simp add: entity_item_def)
  ultimately show ?thesis by (metis append_eq_conv_conj)
qed

lemma entries_length: "length (entries_of env e) = (if doubtful e then 2 else 1)"
  using main_entry_Some [of env e] by (auto simp: entries_of_def split: option.split)

lemma sections_total: "sum_list (map (length \<circ> sx_items) (sections_of xs)) = length xs"
proof (induction xs)
  case (Cons x xs)
  then show ?case by (cases "fst x") (simp_all add: sections_of_def SECTION_KEYS_def)
qed (simp add: sections_of_def SECTION_KEYS_def)

text \<open>
  A summary made without a model lists every canonical entity of the project exactly once by its type,
  and once more among the open questions if its score is below 0.68.
\<close>

theorem deterministic_summary_is_complete:
  "case deterministic_summary env td0 pid w of
     Inl e \<Rightarrow> pid \<notin> set (projects w)
   | Inr r \<Rightarrow> sum_list (map (length \<circ> sx_items) (rs_sections r))
        = length (canonical_entities w pid) + length (filter doubtful (canonical_entities w pid))
      \<and> map sx_key (rs_sections r) = SECTION_KEYS
      \<and> list_all (\<lambda>e. list_ex (\<lambda>s. list_ex (\<lambda>v. case v of JObj m \<Rightarrow> take 7 m = entity_item e | _ \<Rightarrow> False) (sx_items s)) (rs_sections r))
          (canonical_entities w pid)"
proof (cases "pid \<in> set (projects w)")
  case True
  have n: "length (concat (map (entries_of env) cs)) = length cs + length (filter doubtful cs)" for cs
    by (induction cs) (simp_all add: entries_length)
  have i: "\<exists>k m. (k, m) \<in> set (entries_of env e) \<and> take 7 m = entity_item e" for e
    using main_entry_Some [of env e] main_entry_item [of env e] by (fastforce simp: entries_of_def)
  have s: "list_ex (\<lambda>s. list_ex (\<lambda>v. case v of JObj m \<Rightarrow> P m | _ \<Rightarrow> False) (sx_items s)) (sections_of xs)"
    if "(k, m) \<in> set xs" "P m" for k m xs and P :: "items \<Rightarrow> bool"
  proof -
    have "k \<in> set SECTION_KEYS" by (cases k) (simp_all add: SECTION_KEYS_def)
    then show ?thesis using that by (force simp: list_ex_iff sections_of_def)
  qed
  let ?xs = "concat (map (entries_of env) (canonical_entities w pid))"
  have "list_ex (\<lambda>s. list_ex (\<lambda>v. case v of JObj m \<Rightarrow> take 7 m = entity_item e | _ \<Rightarrow> False) (sx_items s)) (sections_of ?xs)"
    if "e \<in> set (canonical_entities w pid)" for e
  proof -
    obtain k m where "(k, m) \<in> set (entries_of env e)" "take 7 m = entity_item e" using i by blast
    then show ?thesis using that by (intro s [of k m ?xs]) auto
  qed
  moreover have "map sx_key (sections_of ?xs) = SECTION_KEYS" by (simp add: sections_of_def o_def)
  ultimately show ?thesis
    by (simp add: deterministic_summary_def Let_def True sections_total n list_all_iff)
qed (simp add: deterministic_summary_def)

definition supported :: "extracted_entity list \<Rightarrow> thesis_item \<Rightarrow> bool" where
  "supported es t \<longleftrightarrow> fst t \<noteq> [] \<and> length (fst t) \<le> 512 \<and> list_all (\<lambda>i. i \<in> en_id ` set es) (snd (snd t))"

lemma normalize_section_items_supported:
  "list_all (supported es) (normalize_section_items da sm (map en_id es) v)"
proof -
  have ids: "list_all (\<lambda>i. i \<in> en_id ` set es) (supporting_ids da sm (map en_id es) x)" for x
    by (cases x) (simp_all add: supporting_ids_def list_all_iff)
  have "list_all (supported es) (normalize_section_item da sm (map en_id es) x)" for x
    by (cases x) (simp_all add: normalize_section_item_def Let_def supported_def ids)
  then show ?thesis by (cases v) (simp_all add: normalize_section_items_def list_all_iff)
qed

text \<open>
  C37. A summary written by a model keeps only references to entities the model was shown, gives every
  statement a title, and a model that fails or answers no object is replaced by the summary made of
  the entities: the only error is a missing project.
\<close>

theorem gpt_summary_is_supported:
  "case gpt_summary env da sm td0 pid w of
     Inl e \<Rightarrow> pid \<notin> set (projects w)
   | Inr r \<Rightarrow> (case call_summary_llm sm (map compact_entity (prompt_entities (canonical_entities w pid))) of
       None \<Rightarrow> deterministic_summary env td0 pid w = Inr r
     | Some m \<Rightarrow> deterministic_summary env td0 pid w = Inr r \<and> canonical_entities w pid = []
         \<or> map sx_items (rs_sections r) = map (\<lambda>k. map thesis_json (gpt_theses da sm (canonical_entities w pid) m k)) SECTION_KEYS
           \<and> list_all (\<lambda>k. list_all (supported (prompt_entities (canonical_entities w pid))) (gpt_theses da sm (canonical_entities w pid) m k))
               SECTION_KEYS)"
proof (cases "pid \<in> set (projects w)")
  case True
  have d: "\<exists>r. deterministic_summary env td0 pid w = Inr r" by (simp add: deterministic_summary_def True Let_def)
  have p: "prompt_entities cs = [] \<longleftrightarrow> cs = []" for cs by (simp add: prompt_entities_def)
  show ?thesis using d
    by (auto simp: gpt_summary_def True Let_def p gpt_theses_def normalize_section_items_supported list_all_iff [of _ SECTION_KEYS] o_def
        split: option.split)
qed (simp add: gpt_summary_def)

text \<open>
  The answer \<open>missing\<close> is never given: the snapshot of a project that is gone is refused by the
  database before the summary is asked for it, and the task fails.
\<close>

lemma missing_project_summary_fails:
  assumes "pid \<notin> set (projects w)" "project_documents w pid = []" "project_audios w pid = []"
  shows "generate_project_summary env sv da sm provider_mode pid w = (Inl (Other_error (u ''IntegrityError'')), w)"
  using assms by (simp add: generate_project_summary_def session_scope_def summary_body_def ensure_project_sources_pipeline_sync_def
      and_then_def aggregate_checked_def PROJECT_MISSING_def rollback_def)

end
