(* ===== verification/Transcription.thy ===== *)
theory Transcription
  imports Dashboard_Blocks Regex "HOL-Library.Sublist"
begin

text \<open>
  The transcription providers (\<^verbatim>\<open>services/transcription\<close>) and their facade (\<^verbatim>\<open>transcription_service.py\<close>): what
  they check before a call, and what they make of an answer. The services behind them are parameters.
\<close>

section \<open>Results\<close>

text \<open>A time is a decimal number of seconds, or one of the values a float has beside the numbers.\<close>

record segment_data =
  sd_speaker :: "pystr option"
  sd_start :: pyfloat
  sd_end :: pyfloat
  sd_text :: pystr
  sd_confidence :: "json option"

record structured_result =
  sr_text :: pystr
  sr_language :: "pystr option"
  sr_segments :: "segment_data list"
  sr_provider :: pystr

text \<open>One call, with the bytes of the file, its path if there is such a file, and the name the user gave it.\<close>

record audio_request =
  rq_bytes :: bytes
  rq_mime :: "pystr option"
  rq_language :: "pystr option"
  rq_path :: "pystr option"
  rq_name :: "pystr option"

text \<open>
  How OpenAI answers: a timeout, an error of the API, another exception, or an object with the text attribute of
  the answer; Gemini with a status and a body, \<open>None\<close> if it is no JSON; Whisper's command line; an HTTP
  endpoint with an error or the text of its body and what it parses to.
\<close>

datatype openai_reply = Oai_timeout | Oai_failed pystr | Oai_raises exc | Oai_data items pystr

datatype whisper_reply = No_command | Whisper_raises exc | Exit_code int pystr | No_output | Bad_output exc | Output json

datatype http_reply = Http_raises exc | Http_body pystr "json option"

record transcription_conf =
  tc_provider :: pystr
  tc_fallback :: bool
  tc_openai_key :: "pystr option"
  tc_openai_model :: pystr
  tc_gemini_key :: "pystr option"
  tc_gemini_model :: "pystr option"
  tc_segment_bytes :: int
  tc_whisper_model :: pystr
  tc_url :: "pystr option"

text \<open>
  Further parameters: the decimal that \<^verbatim>\<open>repr\<close> prints for a float, the floats and decimals in a text, the exception of an
  OpenAI client without a key, JSON, and a short random text.
\<close>

record speech =
  sp_repr :: "rat \<Rightarrow> rat"
  sp_float :: "pystr \<Rightarrow> pyfloat option"
  sp_decimal :: "json \<Rightarrow> pyfloat option"
  sp_client :: "exc option"
  sp_openai :: "audio_request \<Rightarrow> openai_reply"
  sp_gemini :: "audio_request \<Rightarrow> exc + (nat \<times> pystr \<times> json option)"
  sp_whisper :: "pystr \<Rightarrow> whisper_reply"
  sp_http :: "audio_request \<Rightarrow> http_reply"
  sp_loads :: "pystr \<Rightarrow> json option"
  sp_uid :: pystr

text \<open>Messages of an exception are shortened to their beginning where they only explain.\<close>

definition int_text :: "int \<Rightarrow> pystr" where
  "int_text n = (if n < 0 then [45] @ digits (nat (- n)) else digits (nat n))"

section \<open>Times\<close>

datatype seconds = Sec pyfloat | Unreadable | Overflows

definition FLOAT_LIMIT :: int where "FLOAT_LIMIT = 2 ^ 1024 - 2 ^ 970"

fun decimal_of :: "speech \<Rightarrow> pyfloat \<Rightarrow> pyfloat" where
  "decimal_of sp (Finite r) = Finite (sp_repr sp r)"
| "decimal_of sp x = x"

text \<open>\<^verbatim>\<open>Decimal(str(float(v)))\<close>; an integer too large for a float raises an exception of its own.\<close>

fun float_seconds :: "speech \<Rightarrow> json \<Rightarrow> seconds" where
  "float_seconds sp JNull = Unreadable"
| "float_seconds sp (JBool b) = Sec (Finite (if b then 1 else 0))"
| "float_seconds sp (JInt n) = (if FLOAT_LIMIT \<le> \<bar>n\<bar> then Overflows else Sec (decimal_of sp (Finite (fl (of_int n)))))"
| "float_seconds sp (JFloat x) = Sec (decimal_of sp x)"
| "float_seconds sp (JStr s) = (case sp_float sp s of None \<Rightarrow> Unreadable | Some x \<Rightarrow> Sec (decimal_of sp x))"
| "float_seconds sp v = Unreadable"

fun plus_one :: "pyfloat \<Rightarrow> pyfloat" where
  "plus_one (Finite r) = Finite (r + 1)"
| "plus_one x = x"

text \<open>\<^verbatim>\<open>Decimal(str(float(d) + 1.0))\<close>.\<close>

fun float_plus_one :: "speech \<Rightarrow> pyfloat \<Rightarrow> pyfloat" where
  "float_plus_one sp (Finite r) = Finite (sp_repr sp (fl (fl r + 1)))"
| "float_plus_one sp x = x"

definition OVERFLOW_ERROR :: exc where "OVERFLOW_ERROR = Other_error (u ''OverflowError'')"

text \<open>The time of a row, \<open>d\<close> when it is missing and \<open>bad\<close> when it cannot be read.\<close>

definition time_or :: "speech \<Rightarrow> pyfloat \<Rightarrow> pyfloat \<Rightarrow> json \<Rightarrow> exc + pyfloat" where
  "time_or sp d bad v =
     (if v = JNull then Inr d
      else case float_seconds sp v of Sec x \<Rightarrow> Inr x | Unreadable \<Rightarrow> Inr bad | Overflows \<Rightarrow> Inl OVERFLOW_ERROR)"

definition plain_segment :: "pyfloat \<Rightarrow> pyfloat \<Rightarrow> pystr \<Rightarrow> segment_data" where
  "plain_segment a b t = \<lparr>sd_speaker = None, sd_start = a, sd_end = b, sd_text = t, sd_confidence = None\<rparr>"

fun collect_rows :: "('a \<Rightarrow> exc + segment_data list) \<Rightarrow> 'a list \<Rightarrow> exc + segment_data list" where
  "collect_rows f [] = Inr []"
| "collect_rows f (x # xs) = (case f x of Inl e \<Rightarrow> Inl e
     | Inr ss \<Rightarrow> (case collect_rows f xs of Inl e \<Rightarrow> Inl e | Inr r \<Rightarrow> Inr (ss @ r)))"

text \<open>A text without segments becomes one segment of a second, segments without a text are joined.\<close>

definition with_fallback :: "pystr \<Rightarrow> segment_data list \<Rightarrow> segment_data list" where
  "with_fallback t ss = (if ss = [] \<and> t \<noteq> [] then [plain_segment (Finite 0) (Finite 1) t] else ss)"

definition structured :: "pystr \<Rightarrow> pystr option \<Rightarrow> pystr \<Rightarrow> segment_data list \<Rightarrow> structured_result" where
  "structured provider lang t ss =
     (let ss' = with_fallback t ss
      in \<lparr>sr_text = (if t \<noteq> [] then t else join [32] (map sd_text ss')), sr_language = lang, sr_segments = ss', sr_provider = provider\<rparr>)"

fun rows_of :: "json \<Rightarrow> json list" where
  "rows_of (JArr xs) = xs"
| "rows_of v = []"

fun string_or :: "json \<Rightarrow> pystr option \<Rightarrow> pystr option" where
  "string_or (JStr s) d = Some s"
| "string_or v d = d"

section \<open>OpenAI\<close>

definition openai_row :: "speech \<Rightarrow> dash \<Rightarrow> json \<Rightarrow> exc + segment_data list" where
  "openai_row sp da v = (case v of
     JObj m \<Rightarrow> (case time_or sp (Finite 0) (Finite 0) (item m (u ''start'')) of
         Inl e \<Rightarrow> Inl e
       | Inr a \<Rightarrow> (case time_or sp (Finite 0) (plus_one a) (item m (u ''end'')) of
           Inl e \<Rightarrow> Inl e
         | Inr b \<Rightarrow> (let t = text_item da m ''text'' in Inr (if t = [] then [] else [plain_segment a b t]))))
   | _ \<Rightarrow> Inr [])"

definition parse_verbose_response :: "speech \<Rightarrow> dash \<Rightarrow> items \<Rightarrow> pystr option \<Rightarrow> exc + structured_result" where
  "parse_verbose_response sp da m hint =
     (case collect_rows (openai_row sp da) (rows_of (item m (u ''segments''))) of
        Inl e \<Rightarrow> Inl e
      | Inr ss \<Rightarrow> Inr (structured (u ''openai'') (string_or (item m (u ''language'')) hint) (text_item da m ''text'') ss))"

definition use_verbose :: "pystr \<Rightarrow> bool" where
  "use_verbose model \<longleftrightarrow> str_starts_with (u ''whisper'') model \<or> \<not> sublist (u ''transcribe'') (ascii_lower model)"

definition openai_transcribe :: "speech \<Rightarrow> dash \<Rightarrow> transcription_conf \<Rightarrow> audio_request \<Rightarrow> exc + structured_result" where
  "openai_transcribe sp da tc rq =
     (let label = u ''openai:'' @ tc_openai_model tc in
      if strip (text_of (tc_openai_key tc)) = [] then Inl (Value_error (u ''OPENAI_API_KEY is required''))
      else case sp_openai sp rq of
        Oai_timeout \<Rightarrow> Inl (Other_error (u ''OpenAI transcription timeout (model='' @ tc_openai_model tc @ u '')''))
      | Oai_failed e \<Rightarrow> Inl (Other_error (u ''OpenAI transcription failed: '' @ e))
      | Oai_raises e \<Rightarrow> Inl e
      | Oai_data m attr \<Rightarrow>
         (if use_verbose (tc_openai_model tc) \<and> (case item m (u ''segments'') of JArr xs \<Rightarrow> True | _ \<Rightarrow> False)
          then (case parse_verbose_response sp da m (rq_language rq) of Inl e \<Rightarrow> Inl e | Inr r \<Rightarrow> Inr (r\<lparr>sr_provider := label\<rparr>))
          else (let t = (if text_item da m ''text'' = [] then strip attr else text_item da m ''text'')
                in if t = [] then Inl (Other_error (u ''OpenAI transcription returned empty text''))
                   else Inr \<lparr>sr_text = t, sr_language = rq_language rq, sr_segments = [plain_segment (Finite 0) (Finite 1) t],
                     sr_provider = label\<rparr>)))"

section \<open>Gemini\<close>

text \<open>\<^verbatim>\<open>row.get(k1, row.get(k2))\<close>.\<close>

definition item_either :: "items \<Rightarrow> string \<Rightarrow> string \<Rightarrow> json" where
  "item_either m k1 k2 = (case map_of m (u k1) of Some v \<Rightarrow> v | None \<Rightarrow> item m (u k2))"

definition gemini_row :: "speech \<Rightarrow> dash \<Rightarrow> json \<Rightarrow> exc + segment_data list" where
  "gemini_row sp da v = (case v of
     JObj m \<Rightarrow> (case time_or sp (Finite 0) (Finite 0) (item_either m ''start_seconds'' ''start'') of
         Inl e \<Rightarrow> Inl e
       | Inr a \<Rightarrow> (case time_or sp (float_plus_one sp a) (plus_one a) (item_either m ''end_seconds'' ''end'') of
           Inl e \<Rightarrow> Inl e
         | Inr b \<Rightarrow> (let t = text_item da m ''text'' in Inr (if t = [] then [] else [plain_segment a b t]))))
   | _ \<Rightarrow> Inr [])"

definition FENCE_OPEN :: re where
  "FENCE_OPEN = Seqs [Start, Lit (u ''```''), Opt (Lit (u ''json'')), Spaces]"

definition FENCE_CLOSE :: re where
  "FENCE_CLOSE = Seqs [Spaces, Lit (u ''```''), Spaces, Finish]"

definition without_fences :: "pystr \<Rightarrow> pystr" where
  "without_fences s =
     (let raw = strip s; sub = (\<lambda>r t. re_sub (\<lambda>c. False) r [] t)
      in if str_starts_with (u ''```'') raw then sub FENCE_CLOSE (sub FENCE_OPEN raw) else raw)"

definition parse_gemini_json_payload :: "env \<Rightarrow> speech \<Rightarrow> dash \<Rightarrow> pystr \<Rightarrow> exc + structured_result" where
  "parse_gemini_json_payload env sp da s = (case sp_loads sp (without_fences s) of
     None \<Rightarrow> Inl (Value_error (u ''JSONDecodeError''))
   | Some (JObj m) \<Rightarrow>
       (case collect_rows (gemini_row sp da) (rows_of (item m (u ''segments''))) of
          Inl e \<Rightarrow> Inl e
        | Inr ss \<Rightarrow>
            (let d = item m (u ''detected_language'')
             in Inr (structured (u ''gemini'') (if d = JNull then None else Some (take 12 (lower env (strip (str_of da d)))))
                  (text_item da m ''full_text'') ss)))
   | Some v \<Rightarrow> Inl (Value_error (u ''gemini_transcription_invalid_json_root'')))"

text \<open>The text of the first part of the first candidate.\<close>

definition gemini_text :: "json option \<Rightarrow> exc + pystr" where
  "gemini_text body = (case body of
     None \<Rightarrow> Inl (Value_error (u ''JSONDecodeError''))
   | Some (JObj outer) \<Rightarrow> (case item outer (u ''candidates'') of
       JArr (c # cs) \<Rightarrow>
         (case (case c of JObj m \<Rightarrow> (case map_of m (u ''content'') of
                    None \<Rightarrow> Inr JNull | Some (JObj k) \<Rightarrow> Inr (item k (u ''parts'')) | Some v \<Rightarrow> Inl (Other_error (u ''AttributeError'')))
                | _ \<Rightarrow> Inr JNull) of
            Inl e \<Rightarrow> Inl e
          | Inr (JArr (p # ps)) \<Rightarrow>
              (case (case p of JObj m \<Rightarrow> item m (u ''text'') | _ \<Rightarrow> JNull) of
                 JStr t \<Rightarrow> if strip t = [] then Inl (Other_error (u ''gemini_transcription_empty_text'')) else Inr t
               | _ \<Rightarrow> Inl (Other_error (u ''gemini_transcription_empty_text'')))
          | Inr v \<Rightarrow> Inl (Other_error (u ''gemini_transcription_empty_parts'')))
     | _ \<Rightarrow> Inl (Other_error (u ''gemini_transcription_empty_candidates'')))
   | Some v \<Rightarrow> Inl (Other_error (u ''AttributeError'')))"

definition gemini_transcribe :: "env \<Rightarrow> speech \<Rightarrow> dash \<Rightarrow> transcription_conf \<Rightarrow> audio_request \<Rightarrow> exc + structured_result" where
  "gemini_transcribe env sp da tc rq =
     (if rq_bytes rq = [] then Inl (Other_error (u ''gemini_transcription_empty_audio_bytes''))
      else if strip (text_of (tc_gemini_key tc)) = [] then Inl (Other_error (u ''GEMINI_API_KEY is required''))
      else if min (tc_segment_bytes tc) (18 * 1024 * 1024) < int (length (rq_bytes rq))
        then Inl (Other_error (u ''gemini_transcription_payload_too_large''))
      else case sp_gemini sp rq of
        Inl e \<Rightarrow> Inl e
      | Inr (code, txt, body) \<Rightarrow>
         (if 400 \<le> code then Inl (Other_error (u ''gemini_transcription_http_error: HTTP '' @ digits code @ u '': '' @ take 500 txt))
          else case gemini_text body of
            Inl e \<Rightarrow> Inl e
          | Inr t \<Rightarrow> (case parse_gemini_json_payload env sp da t of
              Inl e \<Rightarrow> Inl e
            | Inr r \<Rightarrow> Inr (r\<lparr>sr_language := (if text_of (sr_language r) \<noteq> [] then sr_language r else rq_language rq),
                sr_provider := u ''gemini:'' @ strip (str_or (tc_gemini_model tc) (u ''gemini-2.5-flash''))\<rparr>))))"

section \<open>Whisper and HTTP\<close>

text \<open>Here a missing time is read as 0 and \<^verbatim>\<open>null\<close> cannot be read.\<close>

definition item_default :: "items \<Rightarrow> string \<Rightarrow> json \<Rightarrow> json" where
  "item_default m k d = (case map_of m (u k) of Some v \<Rightarrow> v | None \<Rightarrow> d)"

definition strict_time :: "speech \<Rightarrow> pyfloat \<Rightarrow> json \<Rightarrow> exc + pyfloat" where
  "strict_time sp bad v = (case float_seconds sp v of Sec x \<Rightarrow> Inr x | Unreadable \<Rightarrow> Inr bad | Overflows \<Rightarrow> Inl OVERFLOW_ERROR)"

definition whisper_row :: "speech \<Rightarrow> dash \<Rightarrow> json \<Rightarrow> exc + segment_data list" where
  "whisper_row sp da v = (case v of
     JObj m \<Rightarrow> (let t = text_item da m ''text'' in
       if t = [] then Inr []
       else case strict_time sp (Finite 0) (item_default m ''start'' (JInt 0)) of
         Inl e \<Rightarrow> Inl e
       | Inr a \<Rightarrow> (case strict_time sp (plus_one a) (item_default m ''end'' (JInt 0)) of
           Inl e \<Rightarrow> Inl e | Inr b \<Rightarrow> Inr [plain_segment a b t]))
   | _ \<Rightarrow> Inr [])"

text \<open>\<^verbatim>\<open>for row in v or []\<close>: the keys of an object and the characters of a string are no rows.\<close>

definition iterated :: "json \<Rightarrow> exc + json list" where
  "iterated v = (if \<not> json_true v then Inr []
     else case v of JArr xs \<Rightarrow> Inr xs | JObj m \<Rightarrow> Inr [] | JStr s \<Rightarrow> Inr [] | _ \<Rightarrow> Inl (Other_error (u ''TypeError'')))"

definition whisper_result :: "speech \<Rightarrow> dash \<Rightarrow> transcription_conf \<Rightarrow> json \<Rightarrow> exc + structured_result" where
  "whisper_result sp da tc v = (case v of
     JObj m \<Rightarrow> (case iterated (item m (u ''segments'')) of
         Inl e \<Rightarrow> Inl e
       | Inr rows \<Rightarrow> (case collect_rows (whisper_row sp da) rows of
           Inl e \<Rightarrow> Inl e
         | Inr ss \<Rightarrow> Inr (structured (u ''whisper_local:'' @ tc_whisper_model tc) (string_or (item m (u ''language'')) None)
             (text_item da m ''text'') ss)))
   | _ \<Rightarrow> Inl (Other_error (u ''whisper_local: invalid JSON from whisper'')))"

definition whisper_transcribe :: "speech \<Rightarrow> dash \<Rightarrow> transcription_conf \<Rightarrow> audio_request \<Rightarrow> exc + structured_result" where
  "whisper_transcribe sp da tc rq = (case rq_path rq of
     None \<Rightarrow> Inl (Value_error (u ''whisper_local requires audio_file_path pointing to an existing file''))
   | Some p \<Rightarrow> (case sp_whisper sp p of
       No_command \<Rightarrow> Inl (Other_error (u ''whisper_local: command not found on PATH''))
     | Whisper_raises e \<Rightarrow> Inl e
     | Exit_code n err \<Rightarrow> Inl (Other_error (u ''whisper_local: whisper exited with code '' @ int_text n @ u '': '' @ take 500 (strip err)))
     | No_output \<Rightarrow> Inl (Other_error (u ''whisper_local: expected JSON output not found''))
     | Bad_output e \<Rightarrow> Inl e
     | Output v \<Rightarrow> whisper_result sp da tc v))"

text \<open>The times of an HTTP endpoint are read as decimals, by default two seconds for each row.\<close>

definition http_row :: "speech \<Rightarrow> dash \<Rightarrow> nat \<times> json \<Rightarrow> exc + segment_data list" where
  "http_row sp da iv = (case iv of (i, v) \<Rightarrow> (case v of
     JObj m \<Rightarrow> (case (sp_decimal sp (item_default m ''start_seconds'' (JInt (2 * int i))),
                        sp_decimal sp (item_default m ''end_seconds'' (JInt (2 * int i + 2)))) of
         (Some a, Some b) \<Rightarrow> Inr [\<lparr>sd_speaker = string_or (item m (u ''speaker_label'')) None, sd_start = a, sd_end = b,
            sd_text = (let x = item m (u ''text'') in if json_true x then str_of da x else []),
            sd_confidence = (case item m (u ''confidence_score'') of JInt n \<Rightarrow> Some (JInt n) | JFloat x \<Rightarrow> Some (JFloat x)
              | JBool b \<Rightarrow> Some (JBool b) | _ \<Rightarrow> None)\<rparr>]
       | _ \<Rightarrow> Inl (Other_error (u ''InvalidOperation'')))
   | _ \<Rightarrow> Inr []))"

definition http_transcribe :: "speech \<Rightarrow> dash \<Rightarrow> transcription_conf \<Rightarrow> audio_request \<Rightarrow> exc + structured_result" where
  "http_transcribe sp da tc rq =
     (if text_of (tc_url tc) = [] then Inl (Value_error (u ''TRANSCRIPTION_API_URL is required for RESEARCH_TRANSCRIPTION_PROVIDER=http''))
      else case sp_http sp rq of
        Http_raises e \<Rightarrow> Inl e
      | Http_body body (Some (JObj m)) \<Rightarrow>
          (case collect_rows (http_row sp da) (enumerate 0 (rows_of (item m (u ''segments'')))) of
             Inl e \<Rightarrow> Inl e
           | Inr ss \<Rightarrow> Inr (structured (u ''http'') (string_or (item m (u ''language'')) (rq_language rq))
               (let x = item m (u ''text'') in if json_true x then str_of da x else []) ss))
      | Http_body body v \<Rightarrow> Inr \<lparr>sr_text = body, sr_language = rq_language rq, sr_segments = [plain_segment (Finite 0) (Finite 1) body],
          sr_provider = u ''http''\<rparr>)"

section \<open>The placeholder and the facade\<close>

definition mock_transcribe :: "speech \<Rightarrow> audio_request \<Rightarrow> structured_result" where
  "mock_transcribe sp rq =
     (let t1 = u ''[mock transcript '' @ sp_uid sp @ u ''] Opening segment. Audio size '' @ digits (length (rq_bytes rq)) @ u '' bytes, mime ''
            @ str_or (rq_mime rq) (u ''unknown'') @ u '', file '' @ str_or (rq_name rq) (u ''(no filename)'')
            @ (case rq_path rq of None \<Rightarrow> [] | Some p \<Rightarrow> u '', path '' @ p) @ u ''.'';
          t2 = u ''[mock transcript] Follow-up segment with structured ASR placeholder.''
      in \<lparr>sr_text = t1 @ [32] @ t2, sr_language = Some (str_or (rq_language rq) (u ''en'')),
          sr_segments = [\<lparr>sd_speaker = Some (u ''SPEAKER_1''), sd_start = Finite 0, sd_end = Finite (17 / 4), sd_text = t1,
              sd_confidence = Some (JFloat (Finite (fl (92 / 100))))\<rparr>,
            \<lparr>sd_speaker = Some (u ''SPEAKER_2''), sd_start = Finite (17 / 4), sd_end = Finite (49 / 5), sd_text = t2,
              sd_confidence = Some (JFloat (Finite (fl (88 / 100))))\<rparr>],
          sr_provider = u ''mock''\<rparr>)"

datatype speech_provider = P_mock | P_openai | P_whisper | P_http

text \<open>The OpenAI client is made with the provider.\<close>

definition get_transcription_provider :: "speech \<Rightarrow> transcription_conf \<Rightarrow> exc + speech_provider" where
  "get_transcription_provider sp tc =
     (if tc_provider tc = u ''mock'' then Inr P_mock
      else if tc_provider tc = u ''openai'' then
        (case sp_client sp of Some e \<Rightarrow> if strip (text_of (tc_openai_key tc)) = [] then Inl e else Inr P_openai | None \<Rightarrow> Inr P_openai)
      else if tc_provider tc = u ''whisper_local'' then Inr P_whisper
      else if tc_provider tc = u ''http'' then Inr P_http
      else Inl (Value_error (u ''Unknown RESEARCH_TRANSCRIPTION_PROVIDER: '' @ [39] @ tc_provider tc @ [39])))"

definition provider_transcribe :: "speech \<Rightarrow> dash \<Rightarrow> transcription_conf \<Rightarrow> speech_provider \<Rightarrow> audio_request \<Rightarrow> exc + structured_result" where
  "provider_transcribe sp da tc p rq = (case p of
     P_mock \<Rightarrow> Inr (mock_transcribe sp rq) | P_openai \<Rightarrow> openai_transcribe sp da tc rq
   | P_whisper \<Rightarrow> whisper_transcribe sp da tc rq | P_http \<Rightarrow> http_transcribe sp da tc rq)"

definition transcribe_structured :: "speech \<Rightarrow> dash \<Rightarrow> transcription_conf \<Rightarrow> audio_request \<Rightarrow> exc + structured_result" where
  "transcribe_structured sp da tc rq = (case get_transcription_provider sp tc of
     Inl e \<Rightarrow> Inl e
   | Inr p \<Rightarrow> (case provider_transcribe sp da tc p rq of
       Inr r \<Rightarrow> Inr r
     | Inl e \<Rightarrow> if tc_fallback tc \<and> tc_provider tc \<noteq> u ''mock'' then Inr (mock_transcribe sp rq) else Inl e))"

definition transcribe_text :: "speech \<Rightarrow> dash \<Rightarrow> transcription_conf \<Rightarrow> bytes \<Rightarrow> pystr option \<Rightarrow> exc + pystr" where
  "transcribe_text sp da tc content mime =
     (case transcribe_structured sp da tc \<lparr>rq_bytes = content, rq_mime = mime, rq_language = None, rq_path = None, rq_name = None\<rparr> of
        Inl e \<Rightarrow> Inl e | Inr r \<Rightarrow> Inr (sr_text r))"

section \<open>The interface of the providers\<close>

text \<open>What the pipeline relies on: a transcript without segments is empty, and so are the segments of an empty one.\<close>

definition consistent :: "structured_result \<Rightarrow> bool" where
  "consistent r \<longleftrightarrow> (sr_segments r = [] \<longrightarrow> sr_text r = []) \<and> (sr_text r = [] \<longrightarrow> list_all (\<lambda>s. sd_text s = []) (sr_segments r))"

locale transcription_provider =
  fixes transcribe :: "audio_request \<Rightarrow> exc + structured_result"
  assumes result: "transcribe rq = Inr r \<Longrightarrow> consistent r"
begin

lemma silent_is_empty: "transcribe rq = Inr r \<Longrightarrow> sr_segments r = [] \<Longrightarrow> sr_text r = []"
  using result unfolding consistent_def by blast

lemma replaced: "consistent m \<Longrightarrow> (case transcribe rq of Inr r \<Rightarrow> Inr r | Inl e \<Rightarrow> if b then Inr m else Inl e) = Inr r \<Longrightarrow> consistent r"
  using result by (auto split: sum.splits if_splits)

end

lemma join_Nil_iff: "join [c] xs = [] \<longleftrightarrow> xs = [] \<or> xs = [[]]"
  by (induction "[c]" xs rule: join.induct) auto

lemma structured_consistent: "consistent (structured p l t ss)"
  by (auto simp: consistent_def structured_def Let_def with_fallback_def join_Nil_iff plain_segment_def list_all_iff)

lemma consistent_update [simp]: "consistent (r\<lparr>sr_provider := p\<rparr>) = consistent r" "consistent (r\<lparr>sr_language := q\<rparr>) = consistent r"
  by (simp_all add: consistent_def)

lemma one_segment_consistent: "consistent \<lparr>sr_text = t, sr_language = l, sr_segments = [plain_segment a b t], sr_provider = p\<rparr>"
  by (simp add: consistent_def plain_segment_def)

lemma mock_consistent: "consistent (mock_transcribe sp rq)"
  by (simp add: consistent_def mock_transcribe_def Let_def)

interpretation openai: transcription_provider "openai_transcribe sp da tc" for sp da tc
  by unfold_locales
    (auto simp: openai_transcribe_def parse_verbose_response_def Let_def structured_consistent one_segment_consistent
      split: openai_reply.splits sum.splits if_splits)

interpretation gemini: transcription_provider "gemini_transcribe env sp da tc" for env sp da tc
  by unfold_locales
    (auto simp: gemini_transcribe_def parse_gemini_json_payload_def Let_def structured_consistent
      split: sum.splits if_splits option.splits json.splits prod.splits)

interpretation whisper: transcription_provider "whisper_transcribe sp da tc" for sp da tc
  by unfold_locales
    (auto simp: whisper_transcribe_def whisper_result_def structured_consistent
      split: option.splits whisper_reply.splits sum.splits json.splits)

interpretation http: transcription_provider "http_transcribe sp da tc" for sp da tc
  by unfold_locales
    (auto simp: http_transcribe_def Let_def structured_consistent one_segment_consistent
      split: http_reply.splits option.splits sum.splits json.splits if_splits)

interpretation placeholder: transcription_provider "\<lambda>rq. Inr (mock_transcribe sp rq)" for sp
  by unfold_locales (auto simp: mock_consistent)

interpretation chosen: transcription_provider "provider_transcribe sp da tc p" for sp da tc p
  by (cases p; unfold_locales)
    (auto simp: provider_transcribe_def mock_consistent dest: openai.result whisper.result http.result placeholder.result)

section \<open>The facade\<close>

text \<open>
  C38. Whatever provider is configured and whatever its service answers, a transcript that is returned is
  consistent. With the fallback on, a call fails only if there is no such provider or its client
  cannot be made.
\<close>

theorem transcript_is_consistent:
  "case (get_transcription_provider sp tc, transcribe_structured sp da tc rq) of
     (Inl e, r) \<Rightarrow> r = Inl e
   | (Inr p, Inr r) \<Rightarrow> consistent r
   | (Inr p, Inl e) \<Rightarrow> \<not> tc_fallback tc \<and> provider_transcribe sp da tc p rq = Inl e"
proof (cases "get_transcription_provider sp tc")
  case (Inr p)
  have "tc_provider tc = u ''mock'' \<Longrightarrow> p = P_mock" using Inr by (simp add: get_transcription_provider_def)
  then show ?thesis
    using chosen.result [of sp da tc p rq] mock_consistent [of sp rq]
    by (cases "provider_transcribe sp da tc p rq") (auto simp: transcribe_structured_def Inr provider_transcribe_def)
qed (simp add: transcribe_structured_def)

text \<open>The setting \<open>gemini\<close> is allowed and documented, but no provider is made for it: every call fails, even with the fallback.\<close>

theorem gemini_setting_always_fails:
  "transcribe_structured sp da (tc\<lparr>tc_provider := u ''gemini''\<rparr>) rq
     = Inl (Value_error (u ''Unknown RESEARCH_TRANSCRIPTION_PROVIDER: '' @ [39] @ u ''gemini'' @ [39]))"
  by (simp add: transcribe_structured_def get_transcription_provider_def)

text \<open>A segment of OpenAI that has a start and no end ends at zero, before it starts.\<close>

lemma openai_missing_end:
  "sp_repr sp 5 = 5 \<Longrightarrow> openai_row sp da (JObj [(u ''start'', JFloat (Finite 5)), (u ''text'', JStr (u ''a''))])
     = Inr [plain_segment (Finite 5) (Finite 0) (u ''a'')]"
  by (simp add: openai_row_def time_or_def item_def text_item_def str_of_def strip_fixed is_space_def u_def)

end
