(* ===== verification/Exports.thy ===== *)
theory Exports
  imports Dashboard Report_View Report_Content Interview_Units
begin

text \<open>
  The exports of a batch: its dashboard as comma separated values, as bar charts and as a pack of both
  (\<^verbatim>\<open>dashboard_export_service.py\<close>, \<^verbatim>\<open>dashboard_chart_png.py\<close>), its report as a workbook and as slides
  (\<^verbatim>\<open>research_report_export_service.py\<close>), and their handlers in \<^verbatim>\<open>research_batches.py\<close>. A workbook is the
  list of its sheets, a deck the list of its slides and a drawing the list of its strokes: fonts and colours
  are left out, and the libraries that write the files are parameters.
\<close>

section \<open>Comma separated values\<close>

text \<open>\<^verbatim>\<open>csv.writer\<close> quotes a field only where it must, and doubles the quotes in it.\<close>

definition csv_special :: "nat \<Rightarrow> bool" where
  "csv_special c \<longleftrightarrow> c = 44 \<or> c = 34 \<or> c = 13 \<or> c = 10"

definition doubled :: "pystr \<Rightarrow> pystr" where
  "doubled s = concat (map (\<lambda>c. if c = 34 then [34, 34] else [c]) s)"

definition csv_field :: "pystr \<Rightarrow> pystr" where
  "csv_field s = (if list_ex csv_special s then [34] @ doubled s @ [34] else s)"

definition writerow :: "pystr list \<Rightarrow> pystr" where
  "writerow xs = join [44] (map csv_field xs) @ [13, 10]"

text \<open>The rows that are written. A number is printed as Python prints it.\<close>

definition float_str :: "dash \<Rightarrow> rat \<Rightarrow> pystr" where
  "float_str da x = da_str da (JFloat (Finite x))"

definition bar_csv_rows :: "dash \<Rightarrow> string \<Rightarrow> string \<Rightarrow> (pystr \<times> nat \<times> rat) list \<Rightarrow> pystr list list" where
  "bar_csv_rows da sec metric rows = map (\<lambda>(k, v, p). [u sec, k, u metric, digits v, float_str da p]) rows"

definition count_csv_rows :: "string \<Rightarrow> (pystr \<times> nat) list \<Rightarrow> pystr list list" where
  "count_csv_rows sec rows = map (\<lambda>(k, v). [u sec, k, u ''count'', digits v, []]) rows"

definition dashboard_csv_rows :: "dash \<Rightarrow> dashboard \<Rightarrow> pystr list list" where
  "dashboard_csv_rows da d =
     [map u [''section'', ''label'', ''metric'', ''value'', ''pct''],
      [u ''kpi'', u ''interview_count'', u ''count'', digits (au_count (db_audience d)), []],
      [u ''kpi'', u ''entity_rows'', u ''count'', digits (db_entities d), []],
      [u ''kpi'', u ''evidence_quotes'', u ''count'', digits (db_quotes d), []],
      [u ''kpi'', u ''data_coverage_score'', u ''score'', float_str da (ql_score (db_quality d)), []]]
     @ map (\<lambda>g. [u ''gate'', gi_id g, u (if gi_passed g then ''passed'' else ''failed''), digits (gi_current g),
         digits (gi_threshold g)]) (ql_gates (db_quality d))
     @ bar_csv_rows da ''topics_pie'' ''mentions'' (db_topics d)
     @ bar_csv_rows da ''problems_bar'' ''mentions'' (db_problems d)
     @ bar_csv_rows da ''risks_bar'' ''mentions'' (db_risks d)
     @ map (\<lambda>r. [u ''pr_insight'', rr_label r, rr_taxonomy r, digits (rr_count r), rr_status r]) (db_rollups d)
     @ count_csv_rows ''word_freq'' (take 80 (take 60 (db_words d)))
     @ count_csv_rows ''bigram'' (take 60 (db_bigrams d))
     @ count_csv_rows ''trigram'' (take 40 (db_trigrams d))
     @ bar_csv_rows da ''pr_taxonomy'' ''count'' (db_taxonomy d)
     @ map (\<lambda>r. [u ''traceability'', tw_label r, tw_signal r, digits 1, join [59] (take 12 (tw_sources r))]) (db_trace d)"

definition batch_dashboard_to_csv :: "dash \<Rightarrow> dashboard \<Rightarrow> pystr" where
  "batch_dashboard_to_csv da d = concat (map writerow (dashboard_csv_rows da d))"

section \<open>Charts\<close>

datatype chart_kind = Topics_chart | Problems_chart | Risks_chart | Taxonomy_chart

fun chart_name :: "chart_kind \<Rightarrow> pystr" where
  "chart_name Topics_chart = u ''topics''"
| "chart_name Problems_chart = u ''problems''"
| "chart_name Risks_chart = u ''risks''"
| "chart_name Taxonomy_chart = u ''pr_taxonomy''"

fun chart_title :: "chart_kind \<Rightarrow> pystr" where
  "chart_title Topics_chart = u ''topics_pie''"
| "chart_title Problems_chart = u ''problems_bar''"
| "chart_title Risks_chart = u ''risks_bar''"
| "chart_title Taxonomy_chart = u ''pr_taxonomy_totals''"

fun chart_rows :: "chart_kind \<Rightarrow> dashboard \<Rightarrow> (pystr \<times> nat) list" where
  "chart_rows Topics_chart d = map (\<lambda>(k, v, p). (k, v)) (db_topics d)"
| "chart_rows Problems_chart d = map (\<lambda>(k, v, p). (k, v)) (db_problems d)"
| "chart_rows Risks_chart d = map (\<lambda>(k, v, p). (k, v)) (db_risks d)"
| "chart_rows Taxonomy_chart d = map (\<lambda>(k, v, p). (k, v)) (db_taxonomy d)"

text \<open>\<^verbatim>\<open>max(...) or 1\<close> and \<^verbatim>\<open>int(full * v / mx)\<close>.\<close>

definition largest :: "(pystr \<times> nat) list \<Rightarrow> nat" where
  "largest rows = or_one (foldr max (map snd rows) 0)"

definition bar_width :: "nat \<Rightarrow> nat \<Rightarrow> nat \<Rightarrow> int" where
  "bar_width full mx v = py_trunc (fl (of_nat (full * v) / of_nat mx))"

text \<open>\<^verbatim>\<open>xml.sax.saxutils.escape\<close>, and elements with their attributes.\<close>

definition escape_char :: "nat \<Rightarrow> pystr" where
  "escape_char c = (if c = 38 then u ''&amp;'' else if c = 62 then u ''&gt;'' else if c = 60 then u ''&lt;'' else [c])"

definition escape_xml :: "pystr \<Rightarrow> pystr" where
  "escape_xml s = concat (map escape_char s)"

definition attributes :: "(string \<times> pystr) list \<Rightarrow> pystr" where
  "attributes as = concat (map (\<lambda>(k, v). [32] @ u k @ [61, 34] @ v @ [34]) as)"

definition open_tag :: "string \<Rightarrow> (string \<times> pystr) list \<Rightarrow> pystr" where
  "open_tag n as = [60] @ u n @ attributes as @ [62]"

definition close_tag :: "string \<Rightarrow> pystr" where
  "close_tag n = [60, 47] @ u n @ [62]"

definition empty_tag :: "string \<Rightarrow> (string \<times> pystr) list \<Rightarrow> pystr" where
  "empty_tag n as = [60] @ u n @ attributes as @ [47, 62]"

definition svg_tag :: "string \<Rightarrow> string \<Rightarrow> pystr" where
  "svg_tag w h = open_tag ''svg'' [(''xmlns'', u ''http://www.w3.org/2000/svg''), (''width'', u w), (''height'', u h),
     (''viewBox'', u ''0 0 '' @ u w @ [32] @ u h)]"

definition svg_text :: "pystr \<Rightarrow> pystr \<Rightarrow> (string \<times> pystr) list \<Rightarrow> pystr \<Rightarrow> pystr" where
  "svg_text x y as s = open_tag ''text'' ([(''x'', x), (''y'', y)] @ as) @ s @ close_tag ''text''"

text \<open>The lines of one bar: its label, the bar at the height \<open>y\<close> and its value.\<close>

definition svg_bar :: "nat \<Rightarrow> nat \<Rightarrow> pystr \<times> nat \<Rightarrow> pystr list" where
  "svg_bar mx y kv = (let wv = nat (bar_width 400 mx (snd kv)) in
     [svg_text (u ''20'') (digits (y + 14)) [(''font-size'', u ''11''), (''fill'', u ''#222'')] (escape_xml (take 42 (fst kv))),
      empty_tag ''rect'' [(''x'', u ''220''), (''y'', digits y), (''width'', digits wv), (''height'', u ''18''), (''rx'', u ''3''),
        (''fill'', u ''#2563eb''), (''opacity'', u ''0.85'')],
      svg_text (digits (230 + wv)) (digits (y + 14)) [(''font-size'', u ''11''), (''fill'', u ''#444'')] (digits (snd kv))])"

fun svg_bars :: "nat \<Rightarrow> nat \<Rightarrow> (pystr \<times> nat) list \<Rightarrow> pystr list" where
  "svg_bars mx y [] = []"
| "svg_bars mx y (r # rs) = svg_bar mx y r @ svg_bars mx (y + 28) rs"

definition topics_bar_chart_svg :: "chart_kind \<Rightarrow> dashboard \<Rightarrow> pystr" where
  "topics_bar_chart_svg k d = (let rows = take 12 (chart_rows k d) in
     if rows = [] then svg_tag ''600'' ''120'' @ svg_text (u ''20'') (u ''60'') [(''font-size'', u ''14''), (''fill'', u ''#666'')]
         (u ''No data'') @ close_tag ''svg''
     else join [10] ([svg_tag ''640'' ''320'', svg_text (u ''20'') (u ''28'') [(''font-size'', u ''16''), (''font-weight'', u ''600'')]
         (escape_xml (chart_title k))] @ svg_bars (largest rows) 50 rows @ [close_tag ''svg'']))"

datatype stroke = Stroke_box int int int int | Stroke_text int int pystr

fun png_bars :: "nat \<Rightarrow> int \<Rightarrow> (pystr \<times> nat) list \<Rightarrow> stroke list" where
  "png_bars mx y [] = []"
| "png_bars mx y ((k, v) # rs) = (let wv = bar_width 460 mx v in
     [Stroke_text 28 (y + 2) (take 48 k), Stroke_box 240 y (240 + max 2 wv) (y + 20), Stroke_text (248 + wv) (y + 2) (digits v)]
     @ png_bars mx (y + 26) rs)"

definition bar_chart_png :: "pystr \<Rightarrow> (pystr \<times> nat) list \<Rightarrow> stroke list" where
  "bar_chart_png t rows0 = (let rows = take 14 rows0 in
     [Stroke_box 0 0 759 419, Stroke_text 28 16 (take 80 t)]
     @ (if rows = [] then [Stroke_text 28 200 (u ''No data'')] else png_bars (largest rows) 52 rows))"

section \<open>The pack\<close>

definition dashboard_pack_summary :: "dash \<Rightarrow> research_batch \<Rightarrow> dashboard \<Rightarrow> pystr" where
  "dashboard_pack_summary da b d = join [10] ([
      u ''Batch: '' @ bt_name b, u ''Sources: '' @ digits (db_sources d),
      u ''Entities (filtered scope): '' @ digits (db_entities d), u ''Evidence quotes: '' @ digits (db_quotes d),
      u ''Data coverage: '' @ float_str da (ql_score (db_quality d)), [], u ''PR taxonomy (counts):'']
     @ map (\<lambda>(k, v, p). u ''  - '' @ k @ u '': '' @ digits v) (take 12 (db_taxonomy d))) @ [10]"

datatype pack_entry = Pack_text pystr | Pack_image "stroke list"

definition build_dashboard_pack_zip :: "dash \<Rightarrow> research_batch \<Rightarrow> dashboard \<Rightarrow> (pystr \<times> pack_entry) list" where
  "build_dashboard_pack_zip da b d =
     [(u ''summary.txt'', Pack_text (dashboard_pack_summary da b d)),
      (u ''dashboard.csv'', Pack_text (batch_dashboard_to_csv da d))]
     @ concat (map (\<lambda>k. [(u ''charts/'' @ chart_name k @ u ''.svg'', Pack_text (topics_bar_chart_svg k d)),
         (u ''charts/'' @ chart_name k @ u ''.png'', Pack_image (bar_chart_png (u ''chart_'' @ chart_name k) (chart_rows k d)))])
       [Topics_chart, Problems_chart, Risks_chart, Taxonomy_chart])"


section \<open>The report of a batch\<close>

text \<open>The columns of a report and of its project that the exports read.\<close>

record report_row =
  xr_title :: pystr
  xr_status :: report_status
  xr_updated :: "time option"
  xr_summary :: pystr
  xr_findings :: json
  xr_problems :: json
  xr_patterns :: json
  xr_recommendations :: json
  xr_next_steps :: json
  xr_quotes :: json
  xr_extras :: json

record project_row =
  xp_id :: uuid
  xp_name :: pystr
  xp_description :: "pystr option"

fun report_status_text :: "report_status \<Rightarrow> pystr" where
  "report_status_text RS_DRAFT = u ''draft''"
| "report_status_text RS_GENERATING = u ''generating''"
| "report_status_text RS_READY = u ''ready''"
| "report_status_text RS_FAILED = u ''failed''"

text \<open>\<^verbatim>\<open>isinstance(v, str) and v.strip()\<close> of the keys in order.\<close>

definition text_values :: "items \<Rightarrow> string list \<Rightarrow> pystr list" where
  "text_values m ks = filter (\<lambda>s. s \<noteq> []) (map (\<lambda>k. stripped_string (item m (u k))) ks)"

definition first_value :: "pystr list \<Rightarrow> pystr" where
  "first_value xs = (case xs of [] \<Rightarrow> [] | x # _ \<Rightarrow> x)"

definition is_supporting_fact_row :: "items \<Rightarrow> bool" where
  "is_supporting_fact_row m = list_ex (\<lambda>s. ascii_lower s = u ''supporting_fact'')
     (text_values m [''entity_type'', ''type'', ''unit_type'', ''entity_kind''])"

fun supporting_row :: "json \<Rightarrow> bool" where
  "supporting_row (JObj m) = is_supporting_fact_row m"
| "supporting_row _ = False"

fun item_text :: "dash \<Rightarrow> json \<Rightarrow> pystr" where
  "item_text da (JStr s) = strip s"
| "item_text da (JObj m) = first_value (text_values m [''text'', ''finding'', ''statement'', ''content'', ''description''])"
| "item_text da v = (if json_true v then strip (da_str da v) else [])"

section \<open>The workbook\<close>

datatype cell = Text_cell pystr | Number_cell int

text \<open>A number of the report as \<^verbatim>\<open>int\<close> reads it; \<^verbatim>\<open>None\<close> when it is no number, and an exception for the values that are not finite.\<close>

fun number_of :: "json \<Rightarrow> (exc + int) option" where
  "number_of (JBool b) = Some (Inr (if b then 1 else 0))"
| "number_of (JInt n) = Some (Inr n)"
| "number_of (JFloat (Finite r)) = Some (Inr (py_trunc r))"
| "number_of (JFloat NaN) = Some (Inl (Value_error (u ''cannot convert float NaN to integer'')))"
| "number_of (JFloat v) = Some (Inl (Other_error (u ''OverflowError('' @ [39] @ u ''cannot convert float infinity to integer'' @ [39] @ u '')'')))"
| "number_of v = None"

definition printed :: "dash \<Rightarrow> exc + int \<Rightarrow> exc + pystr" where
  "printed da r = (case r of Inl e \<Rightarrow> Inl e | Inr n \<Rightarrow> Inr (da_str da (JInt n)))"

definition insight_type_label :: "items \<Rightarrow> pystr" where
  "insight_type_label m = (if is_supporting_fact_row m then []
     else case filter (\<lambda>s. ascii_lower s \<noteq> u ''supporting_fact'') (text_values m [''entity_type'', ''type'', ''unit_type'']) of
       s # _ \<Rightarrow> s
     | [] \<Rightarrow> (case item m (u ''finding'') of JStr (c # s) \<Rightarrow> u ''finding'' | _ \<Rightarrow> u ''key_finding''))"

definition insight_priority :: "dash \<Rightarrow> items \<Rightarrow> nat \<Rightarrow> exc + pystr" where
  "insight_priority da m rank = (let p = item m (u ''priority'') in
     case number_of p of
       Some r \<Rightarrow> printed da r
     | None \<Rightarrow> Inr (if stripped_string p \<noteq> [] then stripped_string p else u ''P'' @ digits rank))"

text \<open>\<^verbatim>\<open>f"{x:.2f}"\<close>, rounded from the exact value of the float.\<close>

definition fixed2 :: "rat \<Rightarrow> pystr" where
  "fixed2 r = (let n = nat (rne (\<bar>r\<bar> * 100)) in
     (if r < 0 then [45] else []) @ digits (n div 100) @ [46] @ pad2 (int (n mod 100)))"

definition FLOAT_RANGE :: int where "FLOAT_RANGE = 2 ^ 1024 - 2 ^ 970"

fun insight_confidence :: "json \<Rightarrow> exc + pystr" where
  "insight_confidence (JBool b) = Inr (fixed2 (if b then 1 else 0))"
| "insight_confidence (JInt n) = (if FLOAT_RANGE \<le> \<bar>n\<bar>
     then Inl (Other_error (u ''OverflowError('' @ [39] @ u ''int too large to convert to float'' @ [39] @ u '')''))
     else Inr (fixed2 (fl (of_int n))))"
| "insight_confidence (JFloat (Finite r)) = Inr (fixed2 r)"
| "insight_confidence (JFloat NaN) = Inr (u ''nan'')"
| "insight_confidence (JFloat Plus_inf) = Inr (u ''inf'')"
| "insight_confidence (JFloat Minus_inf) = Inr (u ''-inf'')"
| "insight_confidence v = Inr (stripped_string v)"

text \<open>
  The rows of the insights: \<open>r\<close> is the row of the sheet, \<open>rank\<close> counts the objects that are no
  supporting facts, with a text or without.
\<close>

fun insight_rows :: "dash \<Rightarrow> nat \<Rightarrow> nat \<Rightarrow> json list \<Rightarrow> exc + cell list list" where
  "insight_rows da r rank [] = Inr []"
| "insight_rows da r rank (v # vs) = (case v of
     JObj m \<Rightarrow>
       (if is_supporting_fact_row m then insight_rows da r rank vs
        else if item_text da v = [] then insight_rows da r (rank + 1) vs
        else case (insight_priority da m (rank + 1), insight_confidence (item m (u ''confidence''))) of
          (Inl e, _) \<Rightarrow> Inl e
        | (Inr p, Inl e) \<Rightarrow> Inl e
        | (Inr p, Inr c) \<Rightarrow> (case insight_rows da (r + 1) (rank + 1) vs of
             Inl e \<Rightarrow> Inl e
           | Inr rows \<Rightarrow> Inr (map Text_cell [item_text da v, or_else (insight_type_label m) (u ''insight''), p, c] # rows)))
   | _ \<Rightarrow>
       (if item_text da v = [] then insight_rows da r rank vs
        else case insight_rows da (r + 1) rank vs of
          Inl e \<Rightarrow> Inl e
        | Inr rows \<Rightarrow> Inr (map Text_cell [item_text da v, u ''key_finding'', u ''P'' @ digits r] # rows)))"

definition frequency_for_problem :: "dash \<Rightarrow> items \<Rightarrow> exc + pystr" where
  "frequency_for_problem da m = (case item m (u ''grounded_in'') of
     JArr (x # xs) \<Rightarrow> Inr (digits (length (x # xs)))
   | _ \<Rightarrow> (let f = json_or (item m (u ''frequency'')) (item m (u ''mentions'')) in
       case number_of f of Some r \<Rightarrow> printed da r | None \<Rightarrow> Inr (stripped_string f)))"

definition quotes_for_problem :: "dash \<Rightarrow> items \<Rightarrow> pystr" where
  "quotes_for_problem da m = join (u '' | '') (map (take 500) (text_values m [''comms_signal'', ''causal_chain'', ''reputation_gap''])
     @ (case item m (u ''grounded_in'') of
          JArr (x # xs) \<Rightarrow> [u ''Sources: '' @ join (u '', '') (map (str_of da) (take 8 (x # xs)))] | _ \<Rightarrow> []))"

definition rec_impact_effort :: "dash \<Rightarrow> items \<Rightarrow> pystr \<times> pystr" where
  "rec_impact_effort da m =
     ((case item m (u ''impact'') of JStr s \<Rightarrow> strip s | JNull \<Rightarrow> [] | v \<Rightarrow> da_str da v),
      or_else (stripped_string (item m (u ''effort''))) (take 240 (stripped_string (item m (u ''tone_format_how'')))))"

fun gathered :: "('a \<Rightarrow> exc + 'b) \<Rightarrow> 'a list \<Rightarrow> exc + 'b list" where
  "gathered f [] = Inr []"
| "gathered f (x # xs) = (case f x of Inl e \<Rightarrow> Inl e
     | Inr y \<Rightarrow> (case gathered f xs of Inl e \<Rightarrow> Inl e | Inr ys \<Rightarrow> Inr (y # ys)))"

text \<open>The values that are listed: no supporting facts, and a text.\<close>

definition listed_items :: "dash \<Rightarrow> json \<Rightarrow> json list" where
  "listed_items da v = filter (\<lambda>x. \<not> supporting_row x \<and> item_text da x \<noteq> []) (as_list v)"

definition problem_row :: "dash \<Rightarrow> json \<Rightarrow> exc + cell list" where
  "problem_row da v = (case v of
     JObj m \<Rightarrow> (case frequency_for_problem da m of Inl e \<Rightarrow> Inl e
       | Inr f \<Rightarrow> Inr (map Text_cell [item_text da v, f, quotes_for_problem da m]))
   | _ \<Rightarrow> Inr (map Text_cell [item_text da v, [], []]))"

definition recommendation_row :: "dash \<Rightarrow> json \<Rightarrow> cell list" where
  "recommendation_row da v = (case v of
     JObj m \<Rightarrow> map Text_cell [item_text da v, fst (rec_impact_effort da m), snd (rec_impact_effort da m)]
   | _ \<Rightarrow> map Text_cell [item_text da v, [], []])"

definition quote_row :: "dash \<Rightarrow> json \<Rightarrow> cell list list" where
  "quote_row da v = (case v of
     JObj m \<Rightarrow>
       (let q = stripped_string (item m (u ''quote'')); src = json_or (item m (u ''source'')) (item m (u ''grounded_in''));
            parts = text_values m [''note''] @ (case src of JArr xs \<Rightarrow> [join (u '', '') (map (str_of da) (take 12 xs))]
              | JStr s \<Rightarrow> (if strip s \<noteq> [] then [strip s] else []) | _ \<Rightarrow> [])
        in if q = [] then [] else [map Text_cell [q, join ([32] @ DASH @ [32]) parts]])
   | _ \<Rightarrow> [])"

text \<open>
  The word frequencies, by falling count. \<open>dg\<close> is what \<^verbatim>\<open>int\<close> makes of a text of digits in the sense
  of Unicode, and \<open>None\<close> for any other text.
\<close>

definition counted_word :: "(pystr \<Rightarrow> (exc + int) option) \<Rightarrow> json \<Rightarrow> (exc + int) option" where
  "counted_word dg v = (case v of JStr s \<Rightarrow> dg s | _ \<Rightarrow> number_of v)"

definition word_frequency_map :: "(pystr \<Rightarrow> (exc + int) option) \<Rightarrow> items \<Rightarrow> exc + (pystr \<times> int) list" where
  "word_frequency_map dg extras = (case item extras (u ''word_analysis'') of
     JObj wa \<Rightarrow> (case item wa (u ''word_frequency'') of
         JObj freq \<Rightarrow> (case gathered (\<lambda>(k, v). case the (counted_word dg v) of Inl e \<Rightarrow> Inl e | Inr n \<Rightarrow> Inr (k, n))
               (filter (\<lambda>(k, v). counted_word dg v \<noteq> None) freq) of
             Inl e \<Rightarrow> Inl e | Inr rows \<Rightarrow> Inr (sort_key (\<lambda>(k, n). - n) rows))
       | _ \<Rightarrow> Inr [])
   | _ \<Rightarrow> Inr [])"

definition utc_stamp :: "time \<Rightarrow> pystr" where
  "utc_stamp t = (let s = t mod 86400 in isoformat (utc_date t) @ [84] @ pad2 (s div 3600) @ [58] @ pad2 (s div 60 mod 60)
     @ [58] @ pad2 (s mod 60) @ u ''+00:00'')"

record sheet =
  sh_name :: pystr
  sh_header :: "pystr list"
  sh_rows :: "cell list list"
  sh_widths :: "nat list"

fun extras_of :: "json \<Rightarrow> items" where
  "extras_of (JObj m) = m"
| "extras_of _ = []"

text \<open>A column is as wide as its longest cell, the header included, between 12 and 60.\<close>

definition cell_text :: "dash \<Rightarrow> cell \<Rightarrow> pystr" where
  "cell_text da c = (case c of Text_cell s \<Rightarrow> s | Number_cell n \<Rightarrow> da_str da (JInt n))"

definition column_width :: "pystr list \<Rightarrow> nat" where
  "column_width cells = foldl (\<lambda>w s. max w (min 60 (length s + 2))) 12 cells"

definition column_cells :: "dash \<Rightarrow> pystr list \<Rightarrow> cell list list \<Rightarrow> nat \<Rightarrow> pystr list" where
  "column_cells da hs rows i = (hs ! i) # concat (map (\<lambda>r. if i < length r then [cell_text da (r ! i)] else []) rows)"

definition autosized :: "dash \<Rightarrow> string \<Rightarrow> string list \<Rightarrow> cell list list \<Rightarrow> sheet" where
  "autosized da n hs rows = \<lparr>sh_name = u n, sh_header = map u hs, sh_rows = rows,
     sh_widths = map (\<lambda>i. column_width (column_cells da (map u hs) rows i)) [0..<length hs]\<rparr>"

definition summary_sheet :: "project_row \<Rightarrow> report_row \<Rightarrow> sheet" where
  "summary_sheet p r = \<lparr>sh_name = u ''Summary'', sh_header = [u ''Field'', u ''Value''],
     sh_rows = map (map Text_cell) [
       [u ''Project ID'', uuid_str (xp_id p)], [u ''Project name'', xp_name p],
       [u ''Project description'', strip (text_of (xp_description p))], [u ''Report title'', xr_title r],
       [u ''Report status'', report_status_text (xr_status r)],
       [u ''Updated (UTC)'', (case xr_updated r of None \<Rightarrow> [] | Some t \<Rightarrow> utc_stamp t)],
       [u ''Executive summary'', xr_summary r]],
     sh_widths = [22, 90]\<rparr>"

definition build_research_report_excel :: "dash \<Rightarrow> (pystr \<Rightarrow> (exc + int) option) \<Rightarrow> project_row \<Rightarrow> report_row \<Rightarrow> exc + sheet list" where
  "build_research_report_excel da dg p r =
     (case insight_rows da 2 0 (as_list (xr_findings r)) of
        Inl e \<Rightarrow> Inl e
      | Inr ins \<Rightarrow> (case gathered (problem_row da) (listed_items da (xr_problems r)) of
        Inl e \<Rightarrow> Inl e
      | Inr prs \<Rightarrow> (case word_frequency_map dg (extras_of (xr_extras r)) of
        Inl e \<Rightarrow> Inl e
      | Inr freq \<Rightarrow> Inr [summary_sheet p r,
          autosized da ''Insights'' [''text'', ''type'', ''priority'', ''confidence''] ins,
          autosized da ''Problems'' [''text'', ''frequency'', ''quotes''] prs,
          autosized da ''Recommendations'' [''text'', ''impact'', ''effort'']
            (map (recommendation_row da) (listed_items da (xr_recommendations r))),
          autosized da ''Quotes'' [''text'', ''source''] (concat (map (quote_row da) (as_list (xr_quotes r)))),
          autosized da ''Word Frequency'' [''word'', ''count''] (map (\<lambda>(k, n). [Text_cell k, Number_cell n]) freq)])))"


section \<open>The slides\<close>

text \<open>\<^verbatim>\<open>split\<close> at double line feeds; a text has one if there is more than one part.\<close>

fun split_double :: "pystr \<Rightarrow> pystr \<Rightarrow> pystr list" where
  "split_double cur [] = [cur]"
| "split_double cur [c] = [cur @ [c]]"
| "split_double cur (c # d # s) = (if c = 10 \<and> d = 10 then cur # split_double [] s else split_double (cur @ [c]) (d # s))"

definition SENTENCE_GAP :: re where
  "SENTENCE_GAP = Seq (Behind (\<lambda>c. c = 46 \<or> c = 33 \<or> c = 63)) Spaces1"

fun sentence_chunks :: "nat \<Rightarrow> pystr \<Rightarrow> pystr list \<Rightarrow> pystr list" where
  "sentence_chunks mx cur [] = (if cur \<noteq> [] then [cur] else [])"
| "sentence_chunks mx cur (s0 # ss) = (let s = strip s0 in
     if s = [] then sentence_chunks mx cur ss
     else if length cur + length s + 1 \<le> mx then sentence_chunks mx (strip (cur @ [32] @ s)) ss
     else (if cur \<noteq> [] then [cur] else []) @ sentence_chunks mx s ss)"

definition split_line :: "(nat \<Rightarrow> bool) \<Rightarrow> nat \<Rightarrow> pystr \<Rightarrow> pystr list" where
  "split_line wd mx text0 = (let t = strip text0 in
     if t = [] then [] else if length t \<le> mx then [t]
     else let chunks = sentence_chunks mx [] (re_split wd SENTENCE_GAP t) in
       if chunks \<noteq> [] then chunks else [take mx t @ [8230]])"

text \<open>
  A part of a text with empty lines is split again with its line feeds as blanks, so it has no double
  line feed of its own.
\<close>

definition split_bullets :: "(nat \<Rightarrow> bool) \<Rightarrow> nat \<Rightarrow> pystr \<Rightarrow> pystr list" where
  "split_bullets wd mx text0 = (let t = strip text0; parts = split_double [] t in
     if t = [] then []
     else if 1 < length parts
     then take 24 (concat (map (\<lambda>p. split_line wd mx (map (\<lambda>c. if c = 10 then 32 else c) p)) (filter (\<lambda>p. p \<noteq> []) (map strip parts))))
     else split_line wd mx t)"

record slide =
  sl_title :: pystr
  sl_lines :: "pystr list"

definition title_content_slide :: "pystr \<Rightarrow> pystr list \<Rightarrow> nat \<Rightarrow> slide" where
  "title_content_slide t points n = \<lparr>sl_title = t,
     sl_lines = (let ls = take n points in if ls = [] then [DASH] else map (take 500) ls)\<rparr>"

definition section_slide :: "string \<Rightarrow> nat \<Rightarrow> nat \<Rightarrow> pystr list \<Rightarrow> slide" where
  "section_slide sec per part chunk =
     title_content_slide (u sec @ (if 1 < part then u '' ('' @ digits part @ u '')'' else [])) chunk per"

fun slides_from :: "string \<Rightarrow> nat \<Rightarrow> nat \<Rightarrow> pystr list \<Rightarrow> pystr list \<Rightarrow> slide list" where
  "slides_from sec per part chunk [] = (if chunk \<noteq> [] then [section_slide sec per (part + 1) chunk] else [])"
| "slides_from sec per part chunk (b # bs) = (let c = chunk @ [b] in
     if per \<le> length c then section_slide sec per (part + 1) c # slides_from sec per (part + 1) [] bs
     else slides_from sec per part c bs)"

definition bullet_slides :: "(nat \<Rightarrow> bool) \<Rightarrow> string \<Rightarrow> pystr list \<Rightarrow> nat \<Rightarrow> slide list" where
  "bullet_slides wd sec items per = slides_from sec per 0 [] (concat (map (split_bullets wd 280) items))"

definition item_lines :: "dash \<Rightarrow> json \<Rightarrow> pystr list" where
  "item_lines da v = map (item_text da) (listed_items da v)"

definition quote_line :: "json \<Rightarrow> pystr list" where
  "quote_line v = (case v of
     JObj m \<Rightarrow> (let q = stripped_string (item m (u ''quote'')); note = stripped_string (item m (u ''note'')) in
       if q = [] then [] else if note \<noteq> [] then [[171] @ q @ [187, 32] @ DASH @ [32] @ take 120 note] else [[171] @ q @ [187]])
   | _ \<Rightarrow> [])"

definition next_step_lines :: "dash \<Rightarrow> report_row \<Rightarrow> pystr list" where
  "next_step_lines da r = filter (\<lambda>s. s \<noteq> [])
     (map (\<lambda>v. case v of JObj m \<Rightarrow> text_item da m ''text'' | v \<Rightarrow> stripped_string v) (as_list (xr_next_steps r))
      @ map stripped_string (as_list (item (extras_of (xr_extras r)) (u ''next_steps_pr''))))"

definition minute_stamp :: "time \<Rightarrow> pystr" where
  "minute_stamp t = (let s = t mod 86400 in isoformat (utc_date t) @ [32] @ pad2 (s div 3600) @ [58] @ pad2 (s div 60 mod 60) @ u '' UTC'')"

text \<open>The first slide has the name of the project and, below, the title and the time of the report as one text.\<close>

definition build_research_report_pptx :: "(nat \<Rightarrow> bool) \<Rightarrow> dash \<Rightarrow> project_row \<Rightarrow> report_row \<Rightarrow> slide list" where
  "build_research_report_pptx wd da p r =
     [\<lparr>sl_title = or_else (xp_name p) (u ''Research report''),
       sl_lines = [join [10] (filter (\<lambda>s. s \<noteq> []) (xr_title r # (case xr_updated r of None \<Rightarrow> [] | Some t \<Rightarrow> [minute_stamp t])))]\<rparr>]
     @ (let es = strip (xr_summary r) in if es = [] then []
        else [title_content_slide (u ''Executive summary'') (take 8 (split_bullets wd 400 es)) 8])
     @ bullet_slides wd ''Key insights'' (item_lines da (xr_findings r)) 4
     @ bullet_slides wd ''Problems'' (item_lines da (xr_problems r)) 5
     @ bullet_slides wd ''Patterns'' (item_lines da (xr_patterns r)) 5
     @ bullet_slides wd ''Recommendations'' (item_lines da (xr_recommendations r)) 4
     @ bullet_slides wd ''Quotes'' (concat (map quote_line (as_list (xr_quotes r)))) 4
     @ bullet_slides wd ''Next steps'' (next_step_lines da r) 6"

section \<open>Handlers\<close>

text \<open>
  The stem of the name of a download. A call with more than its one argument raises, whatever they are.
\<close>

definition today_digits :: "time \<Rightarrow> pystr" where
  "today_digits t = (case utc_date t of (y, m, d) \<Rightarrow> digits (nat y) @ pad2 m @ pad2 d)"

fun export_filename_stem :: "time \<Rightarrow> pystr list \<Rightarrow> exc + pystr" where
  "export_filename_stem t [i] = Inr (u ''research_report_'' @ i @ u ''_'' @ today_digits t)"
| "export_filename_stem t args = Inl (Other_error (u ''TypeError('' @ [39] @ u ''export_filename_stem() takes 1 positional argument but ''
     @ digits (length args) @ u '' were given'' @ [39] @ u '')''))"

definition with_dashboard :: "env \<Rightarrow> dash \<Rightarrow> uuid \<Rightarrow> dash_query \<Rightarrow> (research_batch \<Rightarrow> dashboard \<Rightarrow> world \<Rightarrow> 'a response) \<Rightarrow> world \<Rightarrow> 'a response" where
  "with_dashboard env da bid q f w = (case get_batch w bid of
      None \<Rightarrow> (Inl batch_404, w)
    | Some b \<Rightarrow> (case dashboard_build_kwargs q of
        Inl e \<Rightarrow> (Inl e, w)
      | Inr q1 \<Rightarrow> f b (build_batch_dashboard env da b q1 w) w))"

definition named_download :: "exc + pystr \<Rightarrow> string \<Rightarrow> 'a \<Rightarrow> world \<Rightarrow> (pystr \<times> 'a) response" where
  "named_download stem ext x w = (case stem of Inl e \<Rightarrow> (Inl (Raised e), w) | Inr s \<Rightarrow> (Inr (s @ u ext, x), w))"

definition export_batch_dashboard_csv :: "env \<Rightarrow> dash \<Rightarrow> uuid \<Rightarrow> dash_query \<Rightarrow> world \<Rightarrow> (pystr \<times> pystr) response" where
  "export_batch_dashboard_csv env da bid q = with_dashboard env da bid q (\<lambda>b d w.
     named_download (export_filename_stem (clock w) [or_else (bt_name b) (u ''batch''), uuid_str bid]) ''_dashboard.csv''
       (batch_dashboard_to_csv da d) w)"

definition export_batch_chart_svg :: "env \<Rightarrow> dash \<Rightarrow> uuid \<Rightarrow> chart_kind \<Rightarrow> dash_query \<Rightarrow> world \<Rightarrow> (pystr \<times> pystr) response" where
  "export_batch_chart_svg env da bid k q = with_dashboard env da bid q (\<lambda>b d w.
     (Inr (u ''chart_'' @ chart_name k @ u ''.svg'', topics_bar_chart_svg k d), w))"

definition export_batch_chart_png :: "env \<Rightarrow> dash \<Rightarrow> uuid \<Rightarrow> chart_kind \<Rightarrow> dash_query \<Rightarrow> world \<Rightarrow> (pystr \<times> stroke list) response" where
  "export_batch_chart_png env da bid k q = with_dashboard env da bid q (\<lambda>b d w.
     (Inr (u ''chart_'' @ chart_name k @ u ''.png'', bar_chart_png (if k = Taxonomy_chart then chart_name k else chart_title k) (chart_rows k d)), w))"

definition export_batch_dashboard_pack :: "env \<Rightarrow> dash \<Rightarrow> uuid \<Rightarrow> dash_query \<Rightarrow> world \<Rightarrow> (pystr \<times> (pystr \<times> pack_entry) list) response" where
  "export_batch_dashboard_pack env da bid q = with_dashboard env da bid q (\<lambda>b d w.
     named_download (export_filename_stem (clock w) [or_else (bt_name b) (u ''batch''), uuid_str bid]) ''_dashboard_pack.zip''
       (build_dashboard_pack_zip da b d) w)"

definition assert_report_exportable :: "report_row option \<Rightarrow> exc + report_row" where
  "assert_report_exportable r = (case r of
     None \<Rightarrow> Inl (Value_error (u ''report_not_found''))
   | Some x \<Rightarrow> if xr_status x \<noteq> RS_READY then Inl (Value_error (u ''report_not_ready'')) else Inr x)"

definition not_exportable :: "exc \<Rightarrow> failure" where
  "not_exportable e = (case e of
     Value_error m \<Rightarrow> if m = u ''report_not_found'' then Http 404 m else if m = u ''report_not_ready'' then Http 409 m
       else Http 502 (u ''report_export_failed'')
   | Other_error m \<Rightarrow> Raised e)"

text \<open>\<open>called m\<close> is what the method \<open>m\<close> of the repository returns for a batch, if there is one.\<close>

definition export_batch_report :: "(string \<Rightarrow> uuid \<Rightarrow> world \<Rightarrow> report_row option) \<Rightarrow> (report_row \<Rightarrow> exc + 'a) \<Rightarrow> string
    \<Rightarrow> uuid \<Rightarrow> world \<Rightarrow> (pystr \<times> 'a) response" where
  "export_batch_report called build ext bid = with_batch bid (\<lambda>b w.
     (case latest_for_batch of
        Inl e \<Rightarrow> (Inl (Raised e), w)
      | Inr m \<Rightarrow> (case assert_report_exportable (called m bid w) of
          Inl e \<Rightarrow> (Inl (not_exportable e), w)
        | Inr r \<Rightarrow> (case build r of
            Inl e \<Rightarrow> (Inl (Raised e), w)
          | Inr x \<Rightarrow> named_download (export_filename_stem (clock w) [uuid_str bid]) ext x w))))"

definition export_batch_excel :: "dash \<Rightarrow> (pystr \<Rightarrow> (exc + int) option) \<Rightarrow> (uuid \<Rightarrow> project_row)
    \<Rightarrow> (string \<Rightarrow> uuid \<Rightarrow> world \<Rightarrow> report_row option) \<Rightarrow> uuid \<Rightarrow> world \<Rightarrow> (pystr \<times> sheet list) response" where
  "export_batch_excel da dg proj called bid w = export_batch_report called
     (\<lambda>r. build_research_report_excel da dg (proj (case get_batch w bid of Some b \<Rightarrow> bt_project_id b | None \<Rightarrow> 0)) r) ''.xlsx'' bid w"

definition export_batch_ppt :: "(nat \<Rightarrow> bool) \<Rightarrow> dash \<Rightarrow> (uuid \<Rightarrow> project_row)
    \<Rightarrow> (string \<Rightarrow> uuid \<Rightarrow> world \<Rightarrow> report_row option) \<Rightarrow> uuid \<Rightarrow> world \<Rightarrow> (pystr \<times> slide list) response" where
  "export_batch_ppt wd da proj called bid w = export_batch_report called
     (\<lambda>r. Inr (build_research_report_pptx wd da (proj (case get_batch w bid of Some b \<Rightarrow> bt_project_id b | None \<Rightarrow> 0)) r)) ''.pptx'' bid w"


section \<open>What a reader of the table finds\<close>

text \<open>
  A reader of comma separated values, as \<^verbatim>\<open>csv.reader\<close> is: \<open>inq\<close> inside quotes, \<open>f\<close> the field and \<open>r\<close> the
  row so far. A line ends with a carriage return, a line feed, or both.
\<close>

fun read_csv :: "bool \<Rightarrow> pystr \<Rightarrow> pystr list \<Rightarrow> pystr \<Rightarrow> pystr list list" where
  "read_csv inq f r [] = (if f = [] \<and> r = [] then [] else [r @ [f]])"
| "read_csv True f r (c # cs) =
     (if c \<noteq> 34 then read_csv True (f @ [c]) r cs
      else case cs of d # ds \<Rightarrow> if d = 34 then read_csv True (f @ [34]) r ds else read_csv False f r cs | [] \<Rightarrow> read_csv False f r cs)"
| "read_csv False f r (c # cs) =
     (if c = 44 then read_csv False [] (r @ [f]) cs
      else if c = 13 \<or> c = 10 then (r @ [f]) # read_csv False [] [] (if c = 13 \<and> take 1 cs = [10] then drop 1 cs else cs)
      else if c = 34 \<and> f = [] then read_csv True [] r cs
      else read_csv False (f @ [c]) r cs)"

lemma read_plain: "\<not> list_ex csv_special s \<Longrightarrow> read_csv False f r (s @ t) = read_csv False (f @ s) r t"
  by (induction s arbitrary: f) (simp_all add: csv_special_def)

lemma read_doubled: "t = [] \<or> hd t \<noteq> 34 \<Longrightarrow> read_csv True f r (doubled s @ 34 # t) = read_csv False (f @ s) r t"
  by (induction s arbitrary: f) (auto simp: doubled_def split: list.split)

lemma read_field: "t = [] \<or> hd t \<noteq> 34 \<Longrightarrow> read_csv False [] r (csv_field s @ t) = read_csv False s r t"
  using read_plain [of s "[]" r t] read_doubled [of t "[]" r s] by (simp add: csv_field_def)

lemma read_row: "xs \<noteq> [] \<Longrightarrow> read_csv False [] r (writerow xs @ t) = (r @ xs) # read_csv False [] [] t"
proof (induction xs arbitrary: r rule: induct_list012)
  case (2 x)
  then show ?case by (simp add: writerow_def read_field)
next
  case (3 x y zs)
  have "writerow (x # y # zs) @ t = csv_field x @ 44 # (writerow (y # zs) @ t)" by (simp add: writerow_def)
  then show ?case using 3(2) by (simp add: read_field)
qed simp

lemma read_rows: "list_all (\<lambda>xs. xs \<noteq> []) rows \<Longrightarrow> read_csv False [] [] (concat (map writerow rows)) = rows"
  by (induction rows) (simp_all add: read_row)

text \<open>
  A row by the names in the first row of the table, as \<^verbatim>\<open>csv.DictReader\<close> reads it, and what the rows of a section
  hold in some columns.
\<close>

definition cell_of :: "pystr list list \<Rightarrow> string \<Rightarrow> pystr list \<Rightarrow> pystr" where
  "cell_of t col r = (case map_of (zip (hd t) r) (u col) of Some x \<Rightarrow> x | None \<Rightarrow> [])"

definition section_cells :: "pystr list list \<Rightarrow> string \<Rightarrow> string list \<Rightarrow> pystr list list" where
  "section_cells t sec cols =
     map (\<lambda>r. map (\<lambda>c. cell_of t c r) cols) (filter (\<lambda>r. cell_of t ''section'' r = u sec) (tl t))"

lemma read_dashboard: "read_csv False [] [] (batch_dashboard_to_csv da d) = dashboard_csv_rows da d"
proof -
  have b: "list_all (\<lambda>r. r \<noteq> []) (bar_csv_rows da s m rows)" for s m rows by (auto simp: bar_csv_rows_def list_all_iff)
  have c: "list_all (\<lambda>r. r \<noteq> []) (count_csv_rows s rows)" for s rows by (auto simp: count_csv_rows_def list_all_iff)
  have "list_all (\<lambda>r. r \<noteq> []) (dashboard_csv_rows da d)"
    by (simp add: dashboard_csv_rows_def b c) (simp add: list_all_iff)
  then show ?thesis by (simp add: batch_dashboard_to_csv_def read_rows)
qed

text \<open>
  C39. Whatever the labels, quotes and names of a study are, a reader of the exported table that goes by
  the section and by the names of the columns finds the figures of its dashboard, in their order: the
  four key figures, the gates with what they ask for, label, count and share of the topics, problems,
  risks and of the taxonomy, the rolled up insights, the sixty most used words and pairs and forty
  triples with their counts, and the traced insights with up to twelve sources; there are no other rows.
\<close>

theorem dashboard_csv_roundtrip:
  "let t = read_csv False [] [] (batch_dashboard_to_csv da d); bars = map (\<lambda>(k, v, p). [k, digits v, float_str da p]) in
     section_cells t ''kpi'' [''label'', ''value''] =
       [[u ''interview_count'', digits (au_count (db_audience d))], [u ''entity_rows'', digits (db_entities d)],
        [u ''evidence_quotes'', digits (db_quotes d)], [u ''data_coverage_score'', float_str da (ql_score (db_quality d))]]
     \<and> section_cells t ''gate'' [''label'', ''metric'', ''value'', ''pct''] =
       map (\<lambda>g. [gi_id g, u (if gi_passed g then ''passed'' else ''failed''), digits (gi_current g), digits (gi_threshold g)])
         (ql_gates (db_quality d))
     \<and> section_cells t ''topics_pie'' [''label'', ''value'', ''pct''] = bars (db_topics d)
     \<and> section_cells t ''problems_bar'' [''label'', ''value'', ''pct''] = bars (db_problems d)
     \<and> section_cells t ''risks_bar'' [''label'', ''value'', ''pct''] = bars (db_risks d)
     \<and> section_cells t ''pr_taxonomy'' [''label'', ''value'', ''pct''] = bars (db_taxonomy d)
     \<and> section_cells t ''pr_insight'' [''label'', ''metric'', ''value'', ''pct''] =
       map (\<lambda>r. [rr_label r, rr_taxonomy r, digits (rr_count r), rr_status r]) (db_rollups d)
     \<and> section_cells t ''word_freq'' [''label'', ''value''] = map (\<lambda>(k, v). [k, digits v]) (take 60 (db_words d))
     \<and> section_cells t ''bigram'' [''label'', ''value''] = map (\<lambda>(k, v). [k, digits v]) (take 60 (db_bigrams d))
     \<and> section_cells t ''trigram'' [''label'', ''value''] = map (\<lambda>(k, v). [k, digits v]) (take 40 (db_trigrams d))
     \<and> section_cells t ''traceability'' [''label'', ''metric'', ''value'', ''pct''] =
       map (\<lambda>r. [tw_label r, tw_signal r, digits 1, join [59] (take 12 (tw_sources r))]) (db_trace d)
     \<and> list_all (\<lambda>r. length r = 5 \<and> cell_of t ''section'' r \<in> u ` {''kpi'', ''gate'', ''topics_pie'', ''problems_bar'', ''risks_bar'',
         ''pr_taxonomy'', ''pr_insight'', ''word_freq'', ''bigram'', ''trigram'', ''traceability''}) (tl t)"
proof -
  note table = dashboard_csv_rows_def bar_csv_rows_def count_csv_rows_def section_cells_def cell_of_def split_def filter_map o_def
  show ?thesis unfolding read_dashboard Let_def
    by (intro conjI) (simp_all add: table, simp add: list_all_iff ball_Un image_iff)
qed

section \<open>What a chart shows\<close>

lemma foldr_max_ge: "x \<in> set xs \<Longrightarrow> x \<le> foldr max xs (0::nat)"
  by (induction xs) auto

lemma largest_bounds: "0 < largest rows" "(k, v) \<in> set rows \<Longrightarrow> v \<le> largest rows"
  using foldr_max_ge [of v "map snd rows"] by (force simp: largest_def or_one_def)+

lemma bar_width_share:
  assumes "v \<le> mx" "0 < mx" "full < 2 ^ 52"
  shows "int (full * v div mx) \<le> bar_width full mx v \<and> bar_width full mx v \<le> int ((full * v + mx - 1) div mx)"
proof -
  let ?x = "of_nat (full * v) / of_nat mx :: rat" and ?a = "full * v div mx" and ?b = "(full * v + mx - 1) div mx"
  have "?x \<le> of_nat full" using assms(1,2) by (simp add: divide_le_eq mult_left_mono)
  also have "(of_nat full :: rat) < 2 ^ 52" using assms(3) by (metis of_nat_less_iff of_nat_numeral of_nat_power)
  finally have x: "0 \<le> ?x" "?x < 2 ^ 52" by simp_all
  have "?a * mx \<le> full * v" by simp
  then have "(of_nat ?a :: rat) * of_nat mx \<le> of_nat (full * v)" by (metis of_nat_le_iff of_nat_mult)
  then have a: "of_int (int ?a) \<le> ?x" using assms(2) by (simp add: le_divide_eq)
  have "full * v \<le> ?b * mx" using assms(2) div_mult_mod_eq [of "full * v + mx - 1" mx] mod_less_divisor [of mx "full * v + mx - 1"]
    by linarith
  then have "of_nat (full * v) \<le> (of_nat ?b :: rat) * of_nat mx" by (metis of_nat_le_iff of_nat_mult)
  then have b: "?x \<le> of_int (int ?b)" using assms(2) by (simp add: divide_le_eq)
  have "of_int (int ?a) \<le> fl ?x" "fl ?x \<le> of_int (int ?b)" "0 \<le> fl ?x"
    using fl_ge_int [OF x a] fl_le_int [OF x b] fl_nonneg [OF x(1)] by blast+
  then show ?thesis unfolding bar_width_def py_trunc_def by (simp add: le_floor_iff floor_le_iff)
qed

text \<open>The signs that open a tag.\<close>

abbreviation tags :: "pystr \<Rightarrow> nat" where
  "tags s \<equiv> count_list s 60"

lemma tags_digits: "tags (digits n) = 0"
proof (induction n rule: digits.induct)
  case (1 n)
  have "n mod 10 < 10" by simp
  then have "n mod 10 \<noteq> 12" by linarith
  then show ?case using 1 by (subst digits.simps) auto
qed

lemma tags_escape: "tags (escape_xml s) = 0"
  by (induction s) (simp_all add: escape_xml_def escape_char_def u_def)

lemma tags_attributes: "tags (attributes as) = sum_list (map (\<lambda>(k, v). tags (u k) + tags v) as)"
  by (induction as) (auto simp: attributes_def)

lemmas tag_counts = open_tag_def close_tag_def empty_tag_def svg_tag_def svg_text_def tags_attributes tags_digits tags_escape

lemma tags_join: "tags (join [10] xs) = sum_list (map tags xs)"
  by (induction "[10] :: pystr" xs rule: join.induct) auto

lemma tags_bars: "sum_list (map tags (svg_bars mx y rs)) = 5 * length rs"
  by (induction mx y rs rule: svg_bars.induct) (simp_all add: svg_bar_def Let_def tag_counts u_def)

lemma sublist_trans: "sublist x y \<Longrightarrow> sublist y z \<Longrightarrow> sublist x z"
  unfolding sublist_def by (metis append.assoc)

lemma sublist_parts: "sublist y (x @ y @ z)"
  by (auto simp: sublist_def)

lemma sublist_join: "x \<in> set xs \<Longrightarrow> sublist x (join [10] xs)"
proof (induction "[10] :: pystr" xs rule: join.induct)
  case (3 a b xs)
  have "sublist a (join [10] (a # b # xs))" "sublist (join [10] (b # xs)) (join [10] (a # b # xs))"
    using sublist_parts [of a "[]"] sublist_parts [of "join [10] (b # xs)" "a @ [10]" "[]"] by simp_all
  then show ?case using 3 by (auto intro: sublist_trans)
qed simp_all

lemma svg_text_shows: "sublist ([62] @ s @ [60, 47]) (svg_text x y as s)"
  using sublist_parts [of "[62] @ s @ [60, 47]" "[60] @ u ''text'' @ attributes ([(''x'', x), (''y'', y)] @ as)" "u ''text'' @ [62]"]
  by (simp add: svg_text_def open_tag_def close_tag_def)

lemma empty_tag_shows: "sublist (attributes as) (empty_tag n (as @ bs))"
  using sublist_parts [of "attributes as" "[60] @ u n" "attributes bs @ [47, 62]"] by (simp add: empty_tag_def attributes_def)

lemma bar_shows:
  assumes "list_all (\<lambda>l. sublist l s) (svg_bar mx y (x, v))"
  shows "sublist (attributes [(''x'', u ''220''), (''y'', digits y), (''width'', digits (nat (bar_width 400 mx v)))]) s"
    "sublist ([62] @ escape_xml (take 42 x) @ [60, 47]) s" "sublist ([62] @ digits v @ [60, 47]) s"
proof -
  have t: "sublist z s" if "sublist l s" "sublist z l" for z l using that(2,1) by (rule sublist_trans)
  let ?at = "[(''x'', u ''220''), (''y'', digits y), (''width'', digits (nat (bar_width 400 mx v)))]"
  let ?more = "[(''height'', u ''18''), (''rx'', u ''3''), (''fill'', u ''#2563eb''), (''opacity'', u ''0.85'')]"
  have "sublist (empty_tag ''rect'' (?at @ ?more)) s" using assms by (simp add: svg_bar_def Let_def)
  then show "sublist (attributes ?at) s" by (rule t) (rule empty_tag_shows)
  show "sublist ([62] @ escape_xml (take 42 x) @ [60, 47]) s" "sublist ([62] @ digits v @ [60, 47]) s"
    using assms t [OF _ svg_text_shows] by (auto simp: svg_bar_def Let_def)
qed

lemma svg_bars_nth: "i < length rs \<Longrightarrow> set (svg_bar mx (y + 28 * i) (rs ! i)) \<subseteq> set (svg_bars mx y rs)"
  by (induction mx y rs arbitrary: i rule: svg_bars.induct) (auto simp: nth_Cons add.assoc split: nat.split)

lemma largest_Max: "rows \<noteq> [] \<Longrightarrow> largest rows = max 1 (Max (snd ` set rows))"
proof -
  assume r: "rows \<noteq> []"
  have "foldr max xs (0::nat) = Max (set xs)" if "xs \<noteq> []" for xs
    using that by (induction xs rule: list_nonempty_induct) simp_all
  from this [of "map snd rows"] r show ?thesis by (auto simp: largest_def or_one_def)
qed

text \<open>
  C40. The chart of a study has one bar for each of its first twelve rows, from the top down: the \<open>i\<close>-th
  bar is drawn at the height \<open>50 + 28 i\<close> and is as long, of 400, as the value of its row is of the largest
  value, rounded down or up to a pixel, so that the largest value fills the column and none leaves it;
  the label, with its signs escaped, and the value are written. No label opens a tag: the tags are the two
  of the picture, two of the title and five for each bar, or four when there is no row.
\<close>

theorem chart_is_sound:
  "let rows = take 12 (chart_rows k d); m = max 1 (Max (snd ` set rows)); svg = topics_bar_chart_svg k d in
     list_all (\<lambda>(i, x, v).
         (\<exists>w. 400 * v div m \<le> w \<and> w \<le> (400 * v + m - 1) div m
            \<and> sublist (attributes [(''x'', u ''220''), (''y'', digits (50 + 28 * i)), (''width'', digits w)]) svg)
         \<and> sublist ([62] @ escape_xml (take 42 x) @ [60, 47]) svg \<and> sublist ([62] @ digits v @ [60, 47]) svg)
       (zip [0..<length rows] rows)
     \<and> tags svg = 4 + 5 * length rows"
proof -
  let ?rows = "take 12 (chart_rows k d)" and ?svg = "topics_bar_chart_svg k d"
  let ?m = "largest ?rows"
  have "tags ?svg = 4 + 5 * length ?rows"
    by (simp add: topics_bar_chart_svg_def Let_def tags_join tags_bars tag_counts u_def)
  moreover have "(\<exists>w. 400 * v div ?m \<le> w \<and> w \<le> (400 * v + ?m - 1) div ?m
            \<and> sublist (attributes [(''x'', u ''220''), (''y'', digits (50 + 28 * i)), (''width'', digits w)]) ?svg)
         \<and> sublist ([62] @ escape_xml (take 42 x) @ [60, 47]) ?svg \<and> sublist ([62] @ digits v @ [60, 47]) ?svg"
    if i: "i < length ?rows" "?rows ! i = (x, v)" for i x v
  proof -
    let ?w = "bar_width 400 ?m v"
    have v: "v \<le> ?m" "0 < ?m" using i largest_bounds nth_mem by metis+
    have w: "int (400 * v div ?m) \<le> ?w" "?w \<le> int ((400 * v + ?m - 1) div ?m)"
      using bar_width_share [OF v, of 400] by auto
    have svg: "?svg = join [10] ([svg_tag ''640'' ''320'', svg_text (u ''20'') (u ''28'') [(''font-size'', u ''16''), (''font-weight'', u ''600'')]
         (escape_xml (chart_title k))] @ svg_bars ?m 50 ?rows @ [close_tag ''svg''])"
      using i(1) by (auto simp: topics_bar_chart_svg_def Let_def)
    have "list_all (\<lambda>l. sublist l ?svg) (svg_bars ?m 50 ?rows)"
      unfolding svg list_all_iff by (intro ballI sublist_join) simp
    then have "list_all (\<lambda>l. sublist l ?svg) (svg_bar ?m (50 + 28 * i) (x, v))"
      using svg_bars_nth [OF i(1), of ?m 50] i(2) by (auto simp: list_all_iff)
    note b = bar_shows [OF this]
    show ?thesis using w b by (intro conjI exI [of _ "nat ?w"]) simp_all
  qed
  moreover have "max 1 (Max (snd ` set ?rows)) = ?m" if "?rows \<noteq> []" using largest_Max [OF that] by simp
  ultimately show ?thesis by (cases "?rows = []") (auto simp: Let_def list_all_iff in_set_zip simp del: take_eq_Nil)
qed

section \<open>What the slides hold\<close>

lemma visible_blanks: "visible (map (\<lambda>c. if c = 10 then 32 else c) p) = visible p"
  by (induction p) (simp_all add: visible_def is_space_def)

lemma visible_double: "visible (concat (split_double cur s)) = visible cur @ visible s"
  by (induction cur s rule: split_double.induct) (simp_all, simp_all add: visible_def is_space_def)

lemma visible_chunks: "visible (concat (sentence_chunks mx cur ss)) = visible cur @ visible (concat ss)"
proof (induction mx cur ss rule: sentence_chunks.induct)
  case (2 mx cur s0 ss)
  have s: "visible (strip s0) = visible s0" by simp
  have e: "visible s0 = []" if "strip s0 = []" using s that by simp
  have b: "visible (32 # x) = visible x" for x by (simp add: visible_newline is_space_def)
  show ?case using 2 e b by (auto simp: Let_def)
qed simp

lemma drop_slices: "p \<le> i \<Longrightarrow> i \<le> j \<Longrightarrow> j \<le> length s \<Longrightarrow> drop p s = Prelude.slice s p i @ Prelude.slice s i j @ drop j s"
  unfolding Prelude.slice_def by (metis append_take_drop_id drop_drop le_add_diff_inverse2)

lemma visible_pieces:
  assumes "\<And>i j. matches wd s r i j \<Longrightarrow> i < j" "\<And>i j k. matches wd s r i j \<Longrightarrow> j \<le> length s \<Longrightarrow> i \<le> k \<Longrightarrow> k < j \<Longrightarrow> is_space (s ! k)"
  shows "p \<le> length s \<Longrightarrow> visible (concat (pieces_from s p (finditer_from wd r s p))) = visible (drop p s)"
  using assms
proof (induction wd r s p rule: finditer_from.induct)
  case (1 wd r s p)
  show ?case
  proof (cases "search_from wd r s p")
    case None
    then show ?thesis by (subst finditer_from.simps) simp
  next
    case (Some m)
    obtain i j where m: "m = (i, j)" by (cases m)
    have k: "match_start wd r s p = Some i" "j = the (match_at wd r s i)"
      using Some m by (auto simp: search_from_def split: option.splits)
    have i: "p \<le> i" "i \<le> length s" "matches wd s r i j" using match_start_Some [OF k(1)] match_at_matches k(2) by auto
    then have j: "i < j" "j \<le> length s" using 1(3) matches_range [OF i(3)] by auto
    then have "max j (Suc i) = j" by simp
    then have "visible (concat (pieces_from s j (finditer_from wd r s j))) = visible (drop j s)"
      using 1(1) [OF Some m [symmetric]] j 1(3,4) by simp
    moreover have "visible (Prelude.slice s i j) = []"
      using 1(4) [OF i(3) j(2)] j by (auto simp: visible_def filter_empty_conv in_set_conv_nth)
    moreover have "finditer_from wd r s p = (i, j) # finditer_from wd r s j"
      by (subst finditer_from.simps) (simp add: Some m \<open>max j (Suc i) = j\<close>)
    ultimately show ?thesis using drop_slices [of p i j s] i j by simp
  qed
qed

lemma gap_matches:
  assumes "matches wd s SENTENCE_GAP i j"
  shows "i < j" "j \<le> length s \<Longrightarrow> i \<le> k \<Longrightarrow> k < j \<Longrightarrow> is_space (s ! k)"
proof -
  have m: "matches wd s Spaces1 i j" "i \<le> length s" using assms by (auto simp: SENTENCE_GAP_def matches_iffs)
  then obtain l where "i < length s" "matches wd s Spaces (Suc i) j" by (auto simp: Spaces1_def Plus_def Spaces_def matches_iffs)
  then show "i < j" using matches_range [of wd s Spaces "Suc i" j] by simp
  show "j \<le> length s \<Longrightarrow> i \<le> k \<Longrightarrow> k < j \<Longrightarrow> is_space (s ! k)"
    using matches_within [OF m(1), of is_space k] m(2) by (simp add: Spaces1_def Plus_def)
qed

lemma visible_sentences: "visible (concat (re_split wd SENTENCE_GAP t)) = visible t"
  using visible_pieces [of wd t SENTENCE_GAP 0] gap_matches [of wd t] by (simp add: re_split_def finditer_def)

lemma visible_line: "visible (concat (split_line wd mx t)) = visible t"
proof -
  let ?cs = "sentence_chunks mx [] (re_split wd SENTENCE_GAP (strip t))"
  have v: "visible (concat ?cs) = visible t" by (simp add: visible_chunks visible_sentences)
  have e: "visible t = []" if "strip t = []" using visible_strip [of t] that by simp
  have "visible t \<noteq> []" if "strip t \<noteq> []"
    using strip_hd [OF that] that visible_strip [of t] by (cases "strip t") (auto simp: visible_def)
  then have "?cs \<noteq> []" if "strip t \<noteq> []" using v that by force
  then show ?thesis using v e by (auto simp: split_line_def Let_def)
qed

lemma visible_lines: "visible (concat (concat (map (\<lambda>p. split_line wd mx (map (\<lambda>c. if c = 10 then 32 else c) p)) ps))) = visible (concat ps)"
  by (induction ps) (simp_all add: visible_line visible_blanks)

text \<open>The bullets of a text are its visible characters in order, up to twenty-four bullets of a text with empty lines.\<close>

lemma bullets_keep_text:
  "\<exists>rest. visible x = visible (concat (split_bullets wd mx x)) @ rest \<and> (length (split_bullets wd mx x) < 24 \<longrightarrow> rest = [])"
proof -
  let ?t = "strip x"
  let ?ls = "concat (map (\<lambda>p. split_line wd mx (map (\<lambda>c. if c = 10 then 32 else c) p)) (filter (\<lambda>p. p \<noteq> []) (map strip (split_double [] ?t))))"
  have nb: "filter (\<lambda>p. p \<noteq> []) (map strip ps) = non_blank ps" for ps by (simp add: non_blank_def)
  have "visible (concat ?ls) = visible x" by (simp only: visible_lines nb visible_non_blank visible_double) simp
  then have l: "visible x = visible (concat (take 24 ?ls)) @ visible (concat (drop 24 ?ls))"
    by (metis append_take_drop_id concat_append visible_append)
  have e: "visible x = []" if "?t = []" using visible_strip [of x] that by simp
  show ?thesis
  proof (cases "?t \<noteq> [] \<and> 1 < length (split_double [] ?t)")
    case True
    then have "split_bullets wd mx x = take 24 ?ls" by (auto simp: split_bullets_def Let_def)
    then show ?thesis using l by (intro exI [of _ "visible (concat (drop 24 ?ls))"]) (auto simp: min_def split: if_splits)
  next
    case False
    then have "split_bullets wd mx x = split_line wd mx ?t \<or> ?t = [] \<and> split_bullets wd mx x = []"
      by (auto simp: split_bullets_def Let_def)
    then show ?thesis using e by (auto simp: visible_line)
  qed
qed

lemma slide_lines:
  assumes "0 < per" "chunk \<noteq> []" "length chunk \<le> per"
  shows "sl_lines (section_slide sec per part chunk) = map (take 500) chunk"
  using assms by (simp add: section_slide_def title_content_slide_def)

lemma slides_from_lines:
  "0 < per \<Longrightarrow> length chunk < per \<Longrightarrow>
     concat (map sl_lines (slides_from sec per part chunk bs)) = map (take 500) (chunk @ bs)
     \<and> list_all (\<lambda>s. sl_lines s \<noteq> [] \<and> length (sl_lines s) \<le> per) (slides_from sec per part chunk bs)"
proof (induction sec per part chunk bs rule: slides_from.induct)
  case (2 sec per part chunk b bs)
  have l: "sl_lines (section_slide sec per (part + 1) (chunk @ [b])) = map (take 500) (chunk @ [b])"
    using 2(3,4) by (intro slide_lines) auto
  show ?case using 2 l by (auto simp: Let_def)
qed (auto simp: slide_lines)

text \<open>
  The slides of a section hold its bullets in order, none left out, each cut at 500 characters; every
  slide has a bullet and no slide has more than it may have. The bullets of a text are its visible
  characters, unless a text with empty lines has twenty-four bullets.
\<close>

theorem slides_hold_the_bullets:
  assumes "0 < per"
  shows "concat (map sl_lines (bullet_slides wd sec items per)) = map (take 500) (concat (map (split_bullets wd 280) items))
    \<and> list_all (\<lambda>s. sl_lines s \<noteq> [] \<and> length (sl_lines s) \<le> per) (bullet_slides wd sec items per)
    \<and> list_all (\<lambda>x. \<exists>rest. visible x = visible (concat (split_bullets wd 280 x)) @ rest
        \<and> (length (split_bullets wd 280 x) < 24 \<longrightarrow> rest = [])) items"
  using slides_from_lines [of per "[]"] assms bullets_keep_text by (simp add: bullet_slides_def list_all_iff)

section \<open>What the handlers answer\<close>

text \<open>
  The charts are the only exports of a batch that work: the table and the pack fail when they name their
  file, the workbook and the slides when they look for the report. Unknown batches and refused queries
  are answered as such.
\<close>

theorem only_charts_are_exported:
  "case (get_batch w bid, dashboard_build_kwargs q) of
     (None, _) \<Rightarrow> export_batch_dashboard_csv env da bid q w = (Inl batch_404, w)
       \<and> export_batch_dashboard_pack env da bid q w = (Inl batch_404, w) \<and> export_batch_chart_svg env da bid k q w = (Inl batch_404, w)
   | (Some b, Inl e) \<Rightarrow> export_batch_dashboard_csv env da bid q w = (Inl e, w)
       \<and> export_batch_dashboard_pack env da bid q w = (Inl e, w) \<and> export_batch_chart_svg env da bid k q w = (Inl e, w)
   | (Some b, Inr q1) \<Rightarrow> (\<exists>m. export_batch_dashboard_csv env da bid q w = (Inl (Raised (Other_error m)), w)
       \<and> export_batch_dashboard_pack env da bid q w = (Inl (Raised (Other_error m)), w))
       \<and> export_batch_chart_svg env da bid k q w
         = (Inr (u ''chart_'' @ chart_name k @ u ''.svg'', topics_bar_chart_svg k (build_batch_dashboard env da b q1 w)), w)"
  by (auto simp: export_batch_dashboard_csv_def export_batch_dashboard_pack_def export_batch_chart_svg_def with_dashboard_def
      named_download_def split: option.split sum.split)

lemma report_files_are_never_made:
  "case get_batch w bid of
     None \<Rightarrow> export_batch_excel da dg proj called bid w = (Inl batch_404, w) \<and> export_batch_ppt wd da proj called bid w = (Inl batch_404, w)
   | Some b \<Rightarrow> (\<exists>e. export_batch_excel da dg proj called bid w = (Inl e, w) \<and> export_batch_ppt wd da proj called bid w = (Inl e, w)
       \<and> (bt_project_id b \<in> set (projects w) \<longrightarrow> (\<exists>m. e = Raised (Other_error m))))"
  by (auto simp: export_batch_excel_def export_batch_ppt_def export_batch_report_def with_batch_def latest_for_batch_raises
      split: option.split)

end
