(* ===== verification/Spec2Isabelle.thy ===== *)
theory Spec2Isabelle
  imports Aggregation Document_Pipeline Audio_Pipeline Report_Task Progress Report_View Dashboard Segment_Compare Report_Input Lexicon Mock_Provider Materials Summary Transcription Exports
begin

text \<open>
  A verification development of the research platform's processing core.

  \<^bold>\<open>The program.\<close> Interviews come in as documents or audio files, over HTTP. Workers bring each
  source to its entities: a document is cut into chunks, an audio file is transcribed (whole or in
  overlapping slices) and its transcript is cut into chunks; entities are extracted from every
  chunk, deduplicated over the project, aggregated into a snapshot, and a report is generated. Two
  queues decide what is processed when: the project queue keeps a status on the source itself, the
  older batch queue on a membership row. Each task reports its end to both, and the report
  schedules the next task. All state is in one database, in Redis locks, in stored files and in the
  messages sent to the workers.

  \<^bold>\<open>State.\<close> \<open>Store.world\<close> is that state: a list of records per table (\<open>app/models\<close>), the locks, the
  files and the \<open>outbox\<close> of sent tasks. \<open>session_scope\<close> is \<open>sync_session_scope\<close>: an exception
  rolls the tables back and keeps locks, files and messages. A Python string is a list of code
  points (\<open>Prelude.pystr\<close>), a float a rational rounded to binary64 after every operation
  (\<open>Floats.fl\<close>), an exception a value of \<open>exc\<close>, an HTTP error a value of \<open>failure\<close>, and a task or
  handler a function from the world to its result and the new world.

  \<^bold>\<open>Theories\<close>, in the order of the imports:

  \<^item> \<open>Prelude\<close>, \<open>Floats\<close>: strings with \<open>strip\<close>, \<open>split\<close> and slices, tables, binary64 rounding,
    Python's \<open>round\<close> and \<open>int\<close>, with their bounds.
  \<^item> \<open>Domain\<close>: the enumerations of \<open>app/domain\<close>, the PR signal labels and the language codes.
  \<^item> \<open>Store\<close>: the tables, settings, tasks, the environment (broker, Unicode tables) and sessions.
  \<^item> \<open>Chunking\<close>: \<open>chunking_service.py\<close>; the locale \<open>text_chunker\<close> is what the callers rely on.
  \<^item> \<open>Queue_Contract\<close>: the interfaces the two queues share, as locales. \<open>queue_lock\<close> gives mutual
    exclusion over every history of takers and givers, \<open>status_table\<close> counts the rows of a queue.
  \<^item> \<open>Project_Queue\<close>, \<open>Project_Lifecycle\<close>: \<open>project_queue_service.py\<close> and
    \<open>project_processing_queue.py\<close>: locks, summary, picking, drain, finalisation. \<open>queue_step\<close> is the
    relation of all writes of the queue to a source, with the invariant of a source's life.
  \<^item> \<open>Batch_Queue\<close>: \<open>batch_queue_service.py\<close> and \<open>batch_processing_queue.py\<close>, over the same locales.
  \<^item> \<open>Processing\<close>: \<open>processing_orchestrator_service.py\<close>, the chunking and transcription tasks of
    \<open>research_processing.py\<close>, the pipeline state of a document and the recovery lists.
  \<^item> \<open>Sentences\<close>, \<open>Entity_Extraction\<close>, \<open>Gpt_Extraction\<close>: the sentence helpers of
    \<open>extraction/mock_provider.py\<close>, \<open>research_extraction_service.py\<close> with its tasks, and what
    \<open>extraction/gpt_provider.py\<close> makes of a model's answer.
  \<^item> \<open>Interview_Units\<close>: \<open>interview_unit_split_service.py\<close> and \<open>interview_units_sync.py\<close>.
  \<^item> \<open>Aggregation\<close>: \<open>entity_deduplication.py\<close>, refined from an abstract specification, and
    \<open>research_project_aggregation_service.py\<close>.
  \<^item> \<open>Document_Pipeline\<close>: \<open>research_source_full_pipeline.py\<close>, chunk to entities with its report.
  \<^item> \<open>Audio_Split\<close>, \<open>Audio_Pipeline\<close>: the plan of the slices (\<open>audio_segment_split_service.py\<close>) and
    the split, slice and merge tasks (\<open>audio_segment_pipeline.py\<close>).
  \<^item> \<open>Readiness\<close>, \<open>Report_Task\<close>: \<open>research_pipeline_orchestrator_service.py\<close>, the decision whether a
    project is ready and the bounded preparation, and the task that makes the report.
  \<^item> \<open>Utf8\<close>, \<open>Uploads\<close>: the strict codec, upload limits, stored names, ingestion, transcript export.
  \<^item> \<open>Source_Routes\<close>, \<open>Queue_Routes\<close>: the handlers of \<open>research_sources.py\<close>,
    \<open>project_analysis.py\<close>, \<open>research_batches.py\<close> and \<open>research_projects.py\<close> that take sources in,
    queue them, recover them and promote them.
  \<^item> \<open>Progress\<close>, \<open>Report_View\<close>: what the client is shown: \<open>audio_pipeline_progress_service.py\<close>,
    \<open>source_query_service.py\<close>, the entity list and the stored report with its normalised sections.
  \<^item> \<open>Llm_Cache\<close>: \<open>llm_response_cache.py\<close>, the keys and the lifetime of the cached answers.
  \<^item> \<open>Calendar\<close>, \<open>Dashboard_Blocks\<close>, \<open>Dashboard\<close>: dates, ISO weeks and \<open>fromisoformat\<close>; the blocks of
    \<open>research_batch_dashboard_service.py\<close> and \<open>batch_dashboard_pr.py\<close> one by one; their assembly
    under a filter of segment and dates, with the handlers of the dashboards.
  \<^item> \<open>Synthesis_Gates\<close>, \<open>Portrait\<close>: the gates of \<open>data_readiness_service.py\<close> and
    \<open>evidence_driven_bundle.py\<close> in front of the language model; \<open>audience_portrait_service.py\<close>.
  \<^item> \<open>Lexicon\<close>: \<open>pr_lexicon_signals.py\<close> and \<open>pr_entity_enrichment.py\<close>, the words and phrases of the
    interviews by category.
  \<^item> \<open>Regex\<close>: the part of Python's \<open>re\<close> that the code uses, as a datatype of patterns with the relation
    \<open>matches\<close>, the search that finds the first match, and \<open>sub\<close>, \<open>split\<close> and \<open>finditer\<close> over it.
  \<^item> \<open>Report_Language\<close>, \<open>Report_Content\<close>, \<open>Report_Input\<close>: what a report is made of:
    \<open>research_report_generation_service.py\<close> with its patterns of product advice and its sanitisers, the
    normalisation, check and clean-up of a model's answer, and the prompt with the input of
    \<open>smart_report_input_builder.py\<close>.
  \<^item> \<open>Mock_Provider\<close>: the rules of \<open>extraction/mock_provider.py\<close> and, as the locale
    \<open>extraction_provider\<close>, what the pipeline relies on in either provider.
  \<^item> \<open>Grounding\<close>, \<open>Strategy\<close>, \<open>Segment_Compare\<close>: \<open>pr_grounding_service.py\<close>, the quotes behind a
    statement; \<open>pr_strategy_service.py\<close> and \<open>decision_layer_service.py\<close>, the strategy of a study with
    its alerts; \<open>segment_compare_service.py\<close>, two segments of a batch side by side.
  \<^item> \<open>Transcription\<close>: the providers of \<open>services/transcription\<close>, what each makes of the answer of its
    service, and the facade that chooses one and falls back, over the locale \<open>transcription_provider\<close>.
  \<^item> \<open>Summary\<close>: the summary of a project (\<open>summary/provider.py\<close>, \<open>summary/gpt_summary_provider.py\<close> and the task of
    \<open>research_aggregate.py\<close>), made of the entities or of a model's answer.
  \<^item> \<open>Materials\<close>: the demonstration pipeline of \<open>api/v1\<close>, \<open>material_service.py\<close> and
    \<open>workers/tasks/pipeline.py\<close>, with a state of its own, \<open>lab\<close>: materials, their entities by patterns,
    insights with their links, and totals.
  \<^item> \<open>Exports\<close>: \<open>dashboard_export_service.py\<close>, \<open>dashboard_chart_png.py\<close> and
    \<open>research_report_export_service.py\<close>, the table, charts and pack of a dashboard and the sheets and slides of
    a report, with the handlers that serve them.

  \<^bold>\<open>What is proved.\<close> The queues: the workers that hold a token never
  hold the lock of one queue together (when Redis fails, workers go on without a token and without
  exclusion), a drain dispatches the first pending sources in the global order,
  a finished source is reported once and the next drain is
  scheduled, every write respects the life of a source. The pipelines: a document is chunked once,
  extraction replaces the entities of a chunk and yields one to eight of them, slices cover the
  audio and are merged into one transcript, failed tasks leave the states their callers rely on.
  The data: chunks cover the text, deduplication refines its specification, totals agree, uploads
  and exports round-trip. Reports: readiness equals its specification, a preparation
  has no more chunks extracted than its cap allows and no report is left in generation; its prompt keeps its limit, and neither its summary nor
  the lines of its lists advise changes of the product, whatever the model wrote. The handlers answer every file and keep what earlier
  requests committed. The dashboards: the counts of the blocks add up, a filter by segment counts
  exactly the entities of the segment, the lexicon counts every use of a word or phrase once. Language
  models: they are asked exactly if the gates are open, an answer from the cache is the answer for the
  corpus of the request, and whatever they answer, what a strategy cites are two to five quotes of the
  study or it says that evidence is missing, and alerts stay within their vocabularies; a summary cites
  only entities of its project. Transcripts are consistent whatever the service answers. The
  demonstration pipeline keeps the constraints of its tables in every history. An exported table reads
  back, by its sections and columns, as the figures of the dashboard; the bars of a chart are as long as
  their values are, and the labels in it stay text.

  \<^bold>\<open>Loops and bounds.\<close> The chunking, sentence and slicing loops are total functions with a measure
  on the text or time that is left. The loop that spreads quotes over the sources is a
  \<open>while_option\<close>, proved to return. A match of a repeated pattern consumes text in every round, so the
  search for a match is total; its result is the first match from the left, with Python's preference
  among the ends. The preparation of a report and the drains go over lists of rows. No definition has
  fuel.

  \<^bold>\<open>Parameters.\<close> What is not under \<open>src/\<close> is an argument: the transcription and language model
  services, ffmpeg and ffprobe, the docx and JSON libraries, SHA-256, Unicode case and normal
  forms, the message broker and the answers of Redis and of PostgreSQL's advisory lock. Ids and the
  clock come from \<open>next_id\<close> and \<open>clock\<close> of the world.

  \<^bold>\<open>Not modelled.\<close> The fixed texts of the prompts; fonts, colours and file formats of the exports
  and the layout of the narrative PDF and Word file; the clients of the transcription
  services; schema migrations and scripts; column lengths outside the demonstration pipeline; the
  interleaving of two open transactions, except for the row locks of the slice tasks.
\<close>

end
